(* ===== verification/Gh_Prelude.thy ===== *)
theory Gh_Prelude
  imports Complex_Main "HOL-Library.Word" "HOL-Library.List_Lexorder"
    "HOL-Library.Char_ord" "HOL-Library.Multiset" "HOL-Library.Product_Lexorder"
begin

text \<open>
  Shared material of the gh-report development: the machine-integer types of the Rust source and
  its saturating arithmetic, the reading of Rust strings as byte lists, the generic lemmas on
  counting over lists that the aggregation proofs rest on, and the collections of facts the
  component theories extend.

  \<^item> A Rust \<open>String\<close> or \<open>&str\<close> is a \<^typ>\<open>string\<close>: the list of its UTF-8 bytes. The
    lexicographic order of \<open>HOL-Library.List_Lexorder\<close> over \<open>HOL-Library.Char_ord\<close> is the
    byte-wise order of Rust's \<open>Ord for str\<close>, and \<^const>\<open>length\<close> is \<open>str::len\<close>.
  \<^item> \<open>u16\<close>, \<open>u32\<close> and \<open>u64\<close> are words of that width.
  \<^item> A \<open>Result<T, E>\<close> is a sum with \<open>Inl\<close> for the error.
\<close>

named_theorems sat_simps \<open>saturating word arithmetic read through \<open>unat\<close>\<close>
named_theorems status_simps \<open>status accessors of the check results\<close>
named_theorems bucket_simps \<open>per-bucket equations of the counting functions\<close>

type_synonym u8 = "8 word"
type_synonym u16 = "16 word"
type_synonym u32 = "32 word"
type_synonym u64 = "64 word"

subsection \<open>Saturating arithmetic\<close>

definition saturating_add :: "'a::len word \<Rightarrow> 'a word \<Rightarrow> 'a word" where
  "saturating_add a b = (if unat a + unat b < 2 ^ LENGTH('a) then a + b else - 1)"

definition saturating_sub :: "'a::len word \<Rightarrow> 'a word \<Rightarrow> 'a word" where
  "saturating_sub a b = (if a < b then 0 else a - b)"

lemma unat_max_word: "unat (- 1 :: 'a::len word) = 2 ^ LENGTH('a) - 1"
  by (simp add: unsigned_minus_1_eq_mask mask_eq_exp_minus_1)

lemma unat_saturating_add [sat_simps]:
  "unat (saturating_add a b) = min (2 ^ LENGTH('a) - 1) (unat a + unat (b :: 'a::len word))"
proof (cases "unat a + unat b < 2 ^ LENGTH('a)")
  case True
  then have "unat (a + b) = unat a + unat b"
    by (simp add: unat_word_ariths)
  with True show ?thesis
    by (simp add: saturating_add_def)
next
  case False
  then show ?thesis
    by (simp add: saturating_add_def unat_max_word)
qed

lemma unat_saturating_sub [sat_simps]:
  "unat (saturating_sub a b) = unat a - unat (b :: 'a::len word)"
  by (auto simp: saturating_sub_def unat_sub_if' word_less_nat_alt word_le_nat_alt)

lemma unat_u32_bound: "unat (a :: u32) \<le> 4294967295"
  using unsigned_less [of a, where ?'a = nat] by simp

lemma word_eq_by_unat: "unat a = unat b \<Longrightarrow> a = (b :: 'a::len word)"
  by (rule word_unat_eq_iff [THEN iffD2])

text \<open>A saturating counter that is stepped once per matching element.\<close>

definition sat_inc :: "u32 \<Rightarrow> u32" where
  "sat_inc c = saturating_add c 1"

lemma unat_sat_inc [sat_simps]: "unat (sat_inc c) = min 4294967295 (Suc (unat c))"
  by (simp add: sat_inc_def unat_saturating_add)

text \<open>\<open>u32::try_from(n).unwrap_or(u32::MAX)\<close> on a length.\<close>

definition u32_of_count :: "nat \<Rightarrow> u32" where
  "u32_of_count n = (if n < 2 ^ 32 then of_nat n else - 1)"

lemma unat_u32_of_count [sat_simps]: "unat (u32_of_count n) = min 4294967295 n"
  by (auto simp: u32_of_count_def unat_of_nat unat_max_word)

lemma u32_of_count_0 [simp]: "u32_of_count 0 = 0"
  by (simp add: u32_of_count_def)

lemma sat_inc_u32_of_count: "sat_inc (u32_of_count n) = u32_of_count (Suc n)"
  by (rule word_eq_by_unat) (simp add: sat_simps)

lemma saturating_add_u32_of_count:
  "saturating_add (u32_of_count m) (u32_of_count n) = u32_of_count (m + n)"
  by (rule word_eq_by_unat) (simp add: sat_simps)

lemma u32_of_count_eq_0: "u32_of_count n = 0 \<longleftrightarrow> n = 0"
proof
  assume "u32_of_count n = 0"
  then have "unat (u32_of_count n) = 0" by simp
  then show "n = 0" by (simp add: sat_simps)
qed simp

lemma u32_of_count_mono: "m \<le> n \<Longrightarrow> u32_of_count m \<le> u32_of_count n"
  by (simp add: word_le_nat_alt sat_simps)

lemma u32_pos_iff: "0 < (c :: u32) \<longleftrightarrow> 0 < unat c"
  by (simp add: word_less_nat_alt)

subsection \<open>Counting by a fold\<close>

text \<open>
  The interface between a fold that counts into a record of \<open>u32\<close> buckets and the readers of one
  bucket: a step adds one (saturating) to the bucket exactly when the element is a hit and leaves
  it alone otherwise. Whatever the record, the bucket then holds the saturated number of hits.
\<close>

locale bucket_count =
  fixes step :: "'r \<Rightarrow> 'c \<Rightarrow> 'c"
    and start :: 'c
    and bucket :: "'c \<Rightarrow> u32"
    and hit :: "'r \<Rightarrow> bool"
  assumes bucket_start: "bucket start = 0"
    and bucket_step: "bucket (step r c) = (if hit r then sat_inc (bucket c) else bucket c)"
begin

lemma bucket_fold_from:
  "bucket c = u32_of_count n \<Longrightarrow>
    bucket (fold step rs c) = u32_of_count (n + length (filter hit rs))"
proof (induction rs arbitrary: c n)
  case Nil
  then show ?case by simp
next
  case (Cons r rs)
  show ?case
  proof (cases "hit r")
    case True
    then have "bucket (step r c) = u32_of_count (Suc n)"
      by (simp add: bucket_step Cons.prems sat_inc_u32_of_count)
    from Cons.IH [OF this] True show ?thesis by simp
  next
    case False
    then have "bucket (step r c) = u32_of_count n"
      by (simp add: bucket_step Cons.prems)
    from Cons.IH [OF this] False show ?thesis by simp
  qed
qed

lemma bucket_fold: "bucket (fold step rs start) = u32_of_count (length (filter hit rs))"
  using bucket_fold_from [of start 0 rs] by (simp add: bucket_start)

end

subsection \<open>Lists\<close>

lemma length_filter_split:
  assumes "\<And>x. P x \<longleftrightarrow> Q x \<or> R x" and "\<And>x. \<not> (Q x \<and> R x)"
  shows "length (filter P xs) = length (filter Q xs) + length (filter R xs)"
  using assms by (induction xs) auto

lemma length_filter_le_imp:
  "(\<And>x. P x \<Longrightarrow> Q x) \<Longrightarrow> length (filter P xs) \<le> length (filter Q xs)"
  by (induction xs) (auto intro: le_SucI)

lemma length_filter_0: "length (filter P xs) = 0 \<longleftrightarrow> (\<forall>x \<in> set xs. \<not> P x)"
  by (induction xs) auto

end
