(* ===== verification/Checks.thy ===== *)
theory Checks
  imports Gh_Prelude
begin

text \<open>
  The per-repository check results of \<open>domain/checks.rs\<close> and \<open>domain/codeowners.rs\<close>: the closed
  sums the collectors produce, their accessors, and the funnel that turns each of them into a
  \<open>ScoreCategory\<close>. Enum variants keep their Rust names and are written with the type name in front
  (\<open>SecurityPolicyStatus.Pass\<close>); a method \<open>T::f\<close> is the constant \<open>T_f\<close>. The lemmas show that
  the accessors agree with each other, that a result that was not measured never becomes a verdict,
  and that merging history signals does not depend on the order of the sources.
\<close>

subsection \<open>CODEOWNERS data\<close>

datatype CodeownersTruncationReason =
  NotBase64Encoded | OversizedBase64 | ContentMissing | DecodeFailed | InvalidUtf8

record CodeownersEntry =
  pattern :: string
  owners :: "string list"

record ParsedCodeowners =
  entries :: "CodeownersEntry list"
  unique_owners :: "string list"
  skipped_lines :: u32

subsection \<open>Score categories\<close>

datatype ExclusionReason = PermissionDenied | Unknown | NotApplicable | Other

datatype ScoreCategory = Pass | Fail | Excluded ExclusionReason

definition ExclusionReason_display :: "ExclusionReason \<Rightarrow> string" where
  "ExclusionReason_display r = (case r of
     ExclusionReason.PermissionDenied \<Rightarrow> ''permission_denied''
   | ExclusionReason.Unknown \<Rightarrow> ''unknown''
   | ExclusionReason.NotApplicable \<Rightarrow> ''not_applicable''
   | ExclusionReason.Other \<Rightarrow> ''other'')"

datatype IndeterminateReason =
  PermissionDenied | PermissionSuspected | Transient | RateLimited | Invalid | Pending

text \<open>The inner \<open>match reason\<close> that the three \<open>Unobservable\<close> arms of the source share.\<close>

definition indeterminate_exclusion :: "IndeterminateReason \<Rightarrow> ExclusionReason" where
  "indeterminate_exclusion reason = (case reason of
     IndeterminateReason.PermissionDenied \<Rightarrow> ExclusionReason.PermissionDenied
   | IndeterminateReason.PermissionSuspected \<Rightarrow> ExclusionReason.PermissionDenied
   | IndeterminateReason.Transient \<Rightarrow> ExclusionReason.Other
   | IndeterminateReason.RateLimited \<Rightarrow> ExclusionReason.Other
   | IndeterminateReason.Invalid \<Rightarrow> ExclusionReason.Other
   | IndeterminateReason.Pending \<Rightarrow> ExclusionReason.Other)"

subsection \<open>Security policy\<close>

datatype SecurityPolicyPath = SecurityPolicyPath string

definition SecurityPolicyPath_new :: "string \<Rightarrow> SecurityPolicyPath option" where
  "SecurityPolicyPath_new raw = (if raw \<noteq> [] then Some (SecurityPolicyPath raw) else None)"

fun SecurityPolicyPath_as_str :: "SecurityPolicyPath \<Rightarrow> string" where
  "SecurityPolicyPath_as_str (SecurityPolicyPath s) = s"

definition SecurityPolicyPath_try_from :: "string \<Rightarrow> string + SecurityPolicyPath" where
  "SecurityPolicyPath_try_from value = (case SecurityPolicyPath_new value of
     Some p \<Rightarrow> Inr p
   | None \<Rightarrow> Inl ''security policy path must not be empty'')"

datatype SecurityPolicyStatus = Pass | Fail | Unknown | NotApplicable

datatype SecurityPolicyEvidence =
  Setting | File | Absent | PermissionDenied | TransientError | CollectionError | NotApplicable

datatype SecurityPolicyResult =
  EnabledBySetting string
| EnabledByFile SecurityPolicyPath string
| Absent string
| Unobservable IndeterminateReason string
| NotApplicable string

fun SecurityPolicyResult_status :: "SecurityPolicyResult \<Rightarrow> SecurityPolicyStatus" where
  "SecurityPolicyResult_status (SecurityPolicyResult.EnabledBySetting _) = SecurityPolicyStatus.Pass"
| "SecurityPolicyResult_status (SecurityPolicyResult.EnabledByFile _ _) = SecurityPolicyStatus.Pass"
| "SecurityPolicyResult_status (SecurityPolicyResult.Absent _) = SecurityPolicyStatus.Fail"
| "SecurityPolicyResult_status (SecurityPolicyResult.Unobservable _ _) = SecurityPolicyStatus.Unknown"
| "SecurityPolicyResult_status (SecurityPolicyResult.NotApplicable _) =
     SecurityPolicyStatus.NotApplicable"

fun SecurityPolicyResult_evidence :: "SecurityPolicyResult \<Rightarrow> SecurityPolicyEvidence" where
  "SecurityPolicyResult_evidence (SecurityPolicyResult.EnabledBySetting _) =
     SecurityPolicyEvidence.Setting"
| "SecurityPolicyResult_evidence (SecurityPolicyResult.EnabledByFile _ _) =
     SecurityPolicyEvidence.File"
| "SecurityPolicyResult_evidence (SecurityPolicyResult.Absent _) = SecurityPolicyEvidence.Absent"
| "SecurityPolicyResult_evidence (SecurityPolicyResult.NotApplicable _) =
     SecurityPolicyEvidence.NotApplicable"
| "SecurityPolicyResult_evidence (SecurityPolicyResult.Unobservable reason _) = (case reason of
     IndeterminateReason.PermissionDenied \<Rightarrow> SecurityPolicyEvidence.PermissionDenied
   | IndeterminateReason.PermissionSuspected \<Rightarrow> SecurityPolicyEvidence.PermissionDenied
   | IndeterminateReason.Transient \<Rightarrow> SecurityPolicyEvidence.TransientError
   | IndeterminateReason.RateLimited \<Rightarrow> SecurityPolicyEvidence.CollectionError
   | IndeterminateReason.Invalid \<Rightarrow> SecurityPolicyEvidence.CollectionError
   | IndeterminateReason.Pending \<Rightarrow> SecurityPolicyEvidence.CollectionError)"

fun SecurityPolicyResult_path :: "SecurityPolicyResult \<Rightarrow> string option" where
  "SecurityPolicyResult_path (SecurityPolicyResult.EnabledByFile path _) =
     Some (SecurityPolicyPath_as_str path)"
| "SecurityPolicyResult_path _ = None"

fun SecurityPolicyResult_timestamp :: "SecurityPolicyResult \<Rightarrow> string" where
  "SecurityPolicyResult_timestamp (SecurityPolicyResult.EnabledBySetting t) = t"
| "SecurityPolicyResult_timestamp (SecurityPolicyResult.EnabledByFile _ t) = t"
| "SecurityPolicyResult_timestamp (SecurityPolicyResult.Absent t) = t"
| "SecurityPolicyResult_timestamp (SecurityPolicyResult.Unobservable _ t) = t"
| "SecurityPolicyResult_timestamp (SecurityPolicyResult.NotApplicable t) = t"

definition ScoreCategory_of_policy_status :: "SecurityPolicyStatus \<Rightarrow> ScoreCategory" where
  "ScoreCategory_of_policy_status s = (case s of
     SecurityPolicyStatus.Pass \<Rightarrow> ScoreCategory.Pass
   | SecurityPolicyStatus.Fail \<Rightarrow> ScoreCategory.Fail
   | SecurityPolicyStatus.Unknown \<Rightarrow> ScoreCategory.Excluded ExclusionReason.Unknown
   | SecurityPolicyStatus.NotApplicable \<Rightarrow> ScoreCategory.Excluded ExclusionReason.NotApplicable)"

definition ScoreCategory_of_policy :: "SecurityPolicyResult \<Rightarrow> ScoreCategory" where
  "ScoreCategory_of_policy result = (case result of
     SecurityPolicyResult.Unobservable reason _ \<Rightarrow>
       ScoreCategory.Excluded (indeterminate_exclusion reason)
   | _ \<Rightarrow> ScoreCategory_of_policy_status (SecurityPolicyResult_status result))"

subsection \<open>Secret scanning\<close>

datatype SecretScanningFailureReason =
  PermissionDenied | PermissionSuspected | RateLimited | Transient | Unavailable
| InsufficientEvidence | Conflict | Invalid | Pending

datatype ProbeSource = OrgSummary | PerRepoEndpoint

datatype MetadataUnavailable =
  Missing "u16 option"
| Malformed "u16 option"
| Failure SecretScanningFailureReason "u16 option"

fun MetadataUnavailable_failure_reason :: "MetadataUnavailable \<Rightarrow> SecretScanningFailureReason" where
  "MetadataUnavailable_failure_reason (MetadataUnavailable.Missing _) =
     SecretScanningFailureReason.InsufficientEvidence"
| "MetadataUnavailable_failure_reason (MetadataUnavailable.Malformed _) =
     SecretScanningFailureReason.Invalid"
| "MetadataUnavailable_failure_reason (MetadataUnavailable.Failure reason _) = reason"

datatype SecretScanningAlerts =
  Observable ProbeSource bool "u16 option"
| Unobservable ProbeSource SecretScanningFailureReason "u16 option"

datatype EnabledProvenance =
  Metadata "u16 option" SecretScanningAlerts
| Fallback MetadataUnavailable bool "u16 option"

datatype DisabledObservation =
  NoMismatch ProbeSource "u16 option"
| StatusMismatch ProbeSource "u16 option"
| ProbeFailed ProbeSource SecretScanningFailureReason "u16 option"

datatype UnobservableProbe =
  Failed ProbeSource SecretScanningFailureReason "u16 option"
| OrgSummaryObserved bool "u16 option"

datatype SecretScanningStatus = Enabled | Disabled | PermissionDenied | Unknown

datatype SecretScanningResult =
  Enabled EnabledProvenance string
| Disabled "u16 option" DisabledObservation string
| Unobservable MetadataUnavailable UnobservableProbe string

text \<open>The or-pattern \<open>PermissionDenied | PermissionSuspected\<close>.\<close>

definition is_permission_reason :: "SecretScanningFailureReason \<Rightarrow> bool" where
  "is_permission_reason r \<longleftrightarrow>
     r = SecretScanningFailureReason.PermissionDenied \<or>
     r = SecretScanningFailureReason.PermissionSuspected"

fun SecretScanningResult_status :: "SecretScanningResult \<Rightarrow> SecretScanningStatus" where
  "SecretScanningResult_status (SecretScanningResult.Enabled _ _) = SecretScanningStatus.Enabled"
| "SecretScanningResult_status (SecretScanningResult.Disabled _ _ _) = SecretScanningStatus.Disabled"
| "SecretScanningResult_status (SecretScanningResult.Unobservable metadata probe _) =
     (if (case metadata of MetadataUnavailable.Failure reason _ \<Rightarrow> is_permission_reason reason
          | _ \<Rightarrow> False)
       \<or> (case probe of UnobservableProbe.Failed _ reason _ \<Rightarrow> is_permission_reason reason
          | _ \<Rightarrow> False)
      then SecretScanningStatus.PermissionDenied
      else SecretScanningStatus.Unknown)"

fun SecretScanningResult_timestamp :: "SecretScanningResult \<Rightarrow> string" where
  "SecretScanningResult_timestamp (SecretScanningResult.Enabled _ t) = t"
| "SecretScanningResult_timestamp (SecretScanningResult.Disabled _ _ t) = t"
| "SecretScanningResult_timestamp (SecretScanningResult.Unobservable _ _ t) = t"

fun SecretScanningResult_with_timestamp ::
  "SecretScanningResult \<Rightarrow> string \<Rightarrow> SecretScanningResult" where
  "SecretScanningResult_with_timestamp (SecretScanningResult.Enabled p _) t =
     SecretScanningResult.Enabled p t"
| "SecretScanningResult_with_timestamp (SecretScanningResult.Disabled m obs _) t =
     SecretScanningResult.Disabled m obs t"
| "SecretScanningResult_with_timestamp (SecretScanningResult.Unobservable m p _) t =
     SecretScanningResult.Unobservable m p t"

fun SecretScanningResult_has_open_alerts :: "SecretScanningResult \<Rightarrow> bool option" where
  "SecretScanningResult_has_open_alerts (SecretScanningResult.Enabled
     (EnabledProvenance.Metadata _ (SecretScanningAlerts.Observable _ has_open_alerts _)) _) =
     Some has_open_alerts"
| "SecretScanningResult_has_open_alerts (SecretScanningResult.Enabled
     (EnabledProvenance.Fallback _ has_open_alerts _) _) = Some has_open_alerts"
| "SecretScanningResult_has_open_alerts _ = None"

definition SecretScanningResult_alerts_observable :: "SecretScanningResult \<Rightarrow> bool" where
  "SecretScanningResult_alerts_observable r = (SecretScanningResult_has_open_alerts r \<noteq> None)"

fun SecretScanningResult_status_mismatch :: "SecretScanningResult \<Rightarrow> bool" where
  "SecretScanningResult_status_mismatch (SecretScanningResult.Disabled _
     (DisabledObservation.StatusMismatch _ _) _) = True"
| "SecretScanningResult_status_mismatch _ = False"

fun SecretScanningResult_failure_reason ::
  "SecretScanningResult \<Rightarrow> SecretScanningFailureReason option" where
  "SecretScanningResult_failure_reason (SecretScanningResult.Enabled
     (EnabledProvenance.Metadata _ (SecretScanningAlerts.Unobservable _ reason _)) _) = Some reason"
| "SecretScanningResult_failure_reason (SecretScanningResult.Disabled _
     (DisabledObservation.ProbeFailed _ reason _) _) = Some reason"
| "SecretScanningResult_failure_reason (SecretScanningResult.Unobservable _
     (UnobservableProbe.Failed _ reason _) _) = Some reason"
| "SecretScanningResult_failure_reason (SecretScanningResult.Unobservable metadata _ _) =
     Some (MetadataUnavailable_failure_reason metadata)"
| "SecretScanningResult_failure_reason (SecretScanningResult.Enabled _ _) = None"
| "SecretScanningResult_failure_reason (SecretScanningResult.Disabled _ _ _) = None"

definition SecretScanningResult_reason :: "SecretScanningResult \<Rightarrow> string option" where
  "SecretScanningResult_reason r =
     (if SecretScanningResult_status_mismatch r then Some ''status_mismatch''
      else (case SecretScanningResult_failure_reason r of
        Some SecretScanningFailureReason.PermissionDenied \<Rightarrow> Some ''permission_denied''
      | Some SecretScanningFailureReason.PermissionSuspected \<Rightarrow> Some ''permission_denied''
      | Some SecretScanningFailureReason.RateLimited \<Rightarrow> Some ''rate_limited''
      | Some SecretScanningFailureReason.Transient \<Rightarrow> Some ''transient_error''
      | Some SecretScanningFailureReason.Unavailable \<Rightarrow> Some ''alerts_unavailable''
      | Some SecretScanningFailureReason.InsufficientEvidence \<Rightarrow> Some ''insufficient_evidence''
      | Some SecretScanningFailureReason.Conflict \<Rightarrow> Some ''conflict''
      | Some SecretScanningFailureReason.Invalid \<Rightarrow> Some ''collection_error''
      | Some SecretScanningFailureReason.Pending \<Rightarrow> Some ''pending''
      | None \<Rightarrow> None))"

definition SecretScanningResult_unobservable ::
  "SecretScanningFailureReason \<Rightarrow> string \<Rightarrow> SecretScanningResult" where
  "SecretScanningResult_unobservable reason timestamp =
     SecretScanningResult.Unobservable
       (MetadataUnavailable.Failure reason None)
       (UnobservableProbe.Failed ProbeSource.PerRepoEndpoint reason None)
       timestamp"

definition SecretScanningStatus_display :: "SecretScanningStatus \<Rightarrow> string" where
  "SecretScanningStatus_display s = (case s of
     SecretScanningStatus.Enabled \<Rightarrow> ''enabled''
   | SecretScanningStatus.Disabled \<Rightarrow> ''disabled''
   | SecretScanningStatus.PermissionDenied \<Rightarrow> ''permission_denied''
   | SecretScanningStatus.Unknown \<Rightarrow> ''unknown'')"

definition ScoreCategory_of_secret_scanning :: "SecretScanningResult \<Rightarrow> ScoreCategory" where
  "ScoreCategory_of_secret_scanning value = (case SecretScanningResult_status value of
     SecretScanningStatus.Enabled \<Rightarrow> ScoreCategory.Pass
   | SecretScanningStatus.Disabled \<Rightarrow> ScoreCategory.Fail
   | SecretScanningStatus.PermissionDenied \<Rightarrow>
       ScoreCategory.Excluded ExclusionReason.PermissionDenied
   | SecretScanningStatus.Unknown \<Rightarrow>
       ScoreCategory.Excluded (case SecretScanningResult_failure_reason value of
         Some SecretScanningFailureReason.RateLimited \<Rightarrow> ExclusionReason.Other
       | Some SecretScanningFailureReason.Transient \<Rightarrow> ExclusionReason.Other
       | Some SecretScanningFailureReason.Invalid \<Rightarrow> ExclusionReason.Other
       | Some SecretScanningFailureReason.Pending \<Rightarrow> ExclusionReason.Other
       | _ \<Rightarrow> ExclusionReason.Unknown))"

definition ScoreCategory_of_secret_scanning_status :: "SecretScanningStatus \<Rightarrow> ScoreCategory" where
  "ScoreCategory_of_secret_scanning_status s = (case s of
     SecretScanningStatus.Enabled \<Rightarrow> ScoreCategory.Pass
   | SecretScanningStatus.Disabled \<Rightarrow> ScoreCategory.Fail
   | SecretScanningStatus.PermissionDenied \<Rightarrow>
       ScoreCategory.Excluded ExclusionReason.PermissionDenied
   | SecretScanningStatus.Unknown \<Rightarrow> ScoreCategory.Excluded ExclusionReason.Unknown)"

subsection \<open>Dependabot\<close>

datatype DependabotStatus = Enabled | Paused | Disabled | Unknown

record DependabotResult =
  dependabot_status :: DependabotStatus
  dependabot_reason :: "string option"
  dependabot_timestamp :: string

definition DependabotStatus_display :: "DependabotStatus \<Rightarrow> string" where
  "DependabotStatus_display s = (case s of
     DependabotStatus.Enabled \<Rightarrow> ''enabled''
   | DependabotStatus.Paused \<Rightarrow> ''paused''
   | DependabotStatus.Disabled \<Rightarrow> ''disabled''
   | DependabotStatus.Unknown \<Rightarrow> ''unknown'')"

definition ScoreCategory_of_dependabot_status :: "DependabotStatus \<Rightarrow> ScoreCategory" where
  "ScoreCategory_of_dependabot_status s = (case s of
     DependabotStatus.Enabled \<Rightarrow> ScoreCategory.Pass
   | DependabotStatus.Paused \<Rightarrow> ScoreCategory.Fail
   | DependabotStatus.Disabled \<Rightarrow> ScoreCategory.Fail
   | DependabotStatus.Unknown \<Rightarrow> ScoreCategory.Excluded ExclusionReason.Unknown)"

subsection \<open>Branch protection\<close>

datatype HistoryProtectionGap =
  Absent bool "u16 option"
| NeitherBlocked
| ForcePushAllowed
| DeletionAllowed

fun HistoryProtectionGap_is_absent :: "HistoryProtectionGap \<Rightarrow> bool" where
  "HistoryProtectionGap_is_absent (HistoryProtectionGap.Absent _ _) = True"
| "HistoryProtectionGap_is_absent _ = False"

fun HistoryProtectionGap_http_status :: "HistoryProtectionGap \<Rightarrow> u16 option" where
  "HistoryProtectionGap_http_status (HistoryProtectionGap.Absent _ http_status) = http_status"
| "HistoryProtectionGap_http_status _ = None"

datatype BranchProtectionResult =
  Protected string string
| Unprotected string HistoryProtectionGap string
| Unobservable string IndeterminateReason "u16 option" string

datatype CollectionFailureReason =
  PermissionDenied | PermissionSuspected | NotFoundAbsent | Transient | RateLimited | Invalid

definition CollectionFailureReason_display :: "CollectionFailureReason \<Rightarrow> string" where
  "CollectionFailureReason_display r = (case r of
     CollectionFailureReason.PermissionDenied \<Rightarrow> ''permission_denied''
   | CollectionFailureReason.PermissionSuspected \<Rightarrow> ''permission_suspected''
   | CollectionFailureReason.NotFoundAbsent \<Rightarrow> ''not_found_absent''
   | CollectionFailureReason.Transient \<Rightarrow> ''transient''
   | CollectionFailureReason.RateLimited \<Rightarrow> ''rate_limited''
   | CollectionFailureReason.Invalid \<Rightarrow> ''invalid'')"

record HistorySignals =
  force_push_blocked :: "bool option"
  deletion_blocked :: "bool option"

text \<open>The \<open>for signal in signals\<close> loop, with \<open>saw_unblocked\<close> as its state.\<close>

fun merge_optional_blocking_signal_loop ::
  "(HistorySignals \<Rightarrow> bool option) \<Rightarrow> HistorySignals list \<Rightarrow> bool \<Rightarrow> bool option" where
  "merge_optional_blocking_signal_loop select [] saw_unblocked =
     (if saw_unblocked then Some False else None)"
| "merge_optional_blocking_signal_loop select (signal # signals) saw_unblocked =
     (case select signal of
        Some True \<Rightarrow> Some True
      | Some False \<Rightarrow> merge_optional_blocking_signal_loop select signals True
      | None \<Rightarrow> merge_optional_blocking_signal_loop select signals saw_unblocked)"

definition merge_optional_blocking_signal ::
  "HistorySignals list \<Rightarrow> (HistorySignals \<Rightarrow> bool option) \<Rightarrow> bool option" where
  "merge_optional_blocking_signal signals select =
     merge_optional_blocking_signal_loop select signals False"

definition HistorySignals_merge :: "HistorySignals list \<Rightarrow> HistorySignals option" where
  "HistorySignals_merge signals =
     (if signals = [] then None
      else Some \<lparr>force_push_blocked = merge_optional_blocking_signal signals force_push_blocked,
                 deletion_blocked = merge_optional_blocking_signal signals deletion_blocked\<rparr>)"

fun BranchProtectionResult_timestamp :: "BranchProtectionResult \<Rightarrow> string" where
  "BranchProtectionResult_timestamp (BranchProtectionResult.Protected _ t) = t"
| "BranchProtectionResult_timestamp (BranchProtectionResult.Unprotected _ _ t) = t"
| "BranchProtectionResult_timestamp (BranchProtectionResult.Unobservable _ _ _ t) = t"

fun BranchProtectionResult_default_branch :: "BranchProtectionResult \<Rightarrow> string" where
  "BranchProtectionResult_default_branch (BranchProtectionResult.Protected b _) = b"
| "BranchProtectionResult_default_branch (BranchProtectionResult.Unprotected b _ _) = b"
| "BranchProtectionResult_default_branch (BranchProtectionResult.Unobservable b _ _ _) = b"

fun BranchProtectionResult_is_protected :: "BranchProtectionResult \<Rightarrow> bool" where
  "BranchProtectionResult_is_protected (BranchProtectionResult.Protected _ _) = True"
| "BranchProtectionResult_is_protected _ = False"

fun BranchProtectionResult_is_observed :: "BranchProtectionResult \<Rightarrow> bool" where
  "BranchProtectionResult_is_observed (BranchProtectionResult.Unobservable _ _ _ _) = False"
| "BranchProtectionResult_is_observed _ = True"

fun BranchProtectionResult_is_pending :: "BranchProtectionResult \<Rightarrow> bool" where
  "BranchProtectionResult_is_pending
     (BranchProtectionResult.Unobservable _ IndeterminateReason.Pending _ _) = True"
| "BranchProtectionResult_is_pending _ = False"

fun BranchProtectionResult_gap :: "BranchProtectionResult \<Rightarrow> HistoryProtectionGap option" where
  "BranchProtectionResult_gap (BranchProtectionResult.Unprotected _ gap _) = Some gap"
| "BranchProtectionResult_gap _ = None"

fun BranchProtectionResult_http_status :: "BranchProtectionResult \<Rightarrow> u16 option" where
  "BranchProtectionResult_http_status (BranchProtectionResult.Unobservable _ _ s _) = s"
| "BranchProtectionResult_http_status (BranchProtectionResult.Unprotected _ gap _) =
     HistoryProtectionGap_http_status gap"
| "BranchProtectionResult_http_status (BranchProtectionResult.Protected _ _) = None"

fun BranchProtectionResult_score_category :: "BranchProtectionResult \<Rightarrow> ScoreCategory" where
  "BranchProtectionResult_score_category (BranchProtectionResult.Protected _ _) = ScoreCategory.Pass"
| "BranchProtectionResult_score_category (BranchProtectionResult.Unprotected _ _ _) =
     ScoreCategory.Fail"
| "BranchProtectionResult_score_category (BranchProtectionResult.Unobservable _ reason _ _) =
     ScoreCategory.Excluded (indeterminate_exclusion reason)"

definition BranchProtectionResult_from_history_signals ::
  "string \<Rightarrow> bool option \<Rightarrow> bool option \<Rightarrow> string \<Rightarrow> BranchProtectionResult" where
  "BranchProtectionResult_from_history_signals branch force_push deletion timestamp =
     (case (case force_push of Some b \<Rightarrow> b | None \<Rightarrow> False,
            case deletion of Some b \<Rightarrow> b | None \<Rightarrow> False) of
        (True, True) \<Rightarrow> BranchProtectionResult.Protected branch timestamp
      | (False, True) \<Rightarrow>
          BranchProtectionResult.Unprotected branch HistoryProtectionGap.ForcePushAllowed timestamp
      | (True, False) \<Rightarrow>
          BranchProtectionResult.Unprotected branch HistoryProtectionGap.DeletionAllowed timestamp
      | (False, False) \<Rightarrow>
          BranchProtectionResult.Unprotected branch HistoryProtectionGap.NeitherBlocked timestamp)"

subsection \<open>CODEOWNERS results\<close>

datatype CodeownersContent =
  Parsed ParsedCodeowners | Truncated CodeownersTruncationReason | Unparsed

datatype CodeownersNonConformingLocation = Root | Docs

datatype CodeownersStatus = Conforming | NonConforming | Absent | Unknown

datatype CodeownersResult =
  Conforming CodeownersContent string
| NonConforming CodeownersNonConformingLocation CodeownersContent string
| Absent string
| Unobservable IndeterminateReason string

fun CodeownersResult_status :: "CodeownersResult \<Rightarrow> CodeownersStatus" where
  "CodeownersResult_status (CodeownersResult.Conforming _ _) = CodeownersStatus.Conforming"
| "CodeownersResult_status (CodeownersResult.NonConforming _ _ _) = CodeownersStatus.NonConforming"
| "CodeownersResult_status (CodeownersResult.Absent _) = CodeownersStatus.Absent"
| "CodeownersResult_status (CodeownersResult.Unobservable _ _) = CodeownersStatus.Unknown"

fun CodeownersResult_path :: "CodeownersResult \<Rightarrow> string option" where
  "CodeownersResult_path (CodeownersResult.Conforming _ _) = Some ''.github/CODEOWNERS''"
| "CodeownersResult_path (CodeownersResult.NonConforming
     CodeownersNonConformingLocation.Root _ _) = Some ''CODEOWNERS''"
| "CodeownersResult_path (CodeownersResult.NonConforming
     CodeownersNonConformingLocation.Docs _ _) = Some ''docs/CODEOWNERS''"
| "CodeownersResult_path _ = None"

fun CodeownersResult_timestamp :: "CodeownersResult \<Rightarrow> string" where
  "CodeownersResult_timestamp (CodeownersResult.Conforming _ t) = t"
| "CodeownersResult_timestamp (CodeownersResult.NonConforming _ _ t) = t"
| "CodeownersResult_timestamp (CodeownersResult.Absent t) = t"
| "CodeownersResult_timestamp (CodeownersResult.Unobservable _ t) = t"

fun CodeownersResult_with_timestamp :: "CodeownersResult \<Rightarrow> string \<Rightarrow> CodeownersResult" where
  "CodeownersResult_with_timestamp (CodeownersResult.Conforming c _) t =
     CodeownersResult.Conforming c t"
| "CodeownersResult_with_timestamp (CodeownersResult.NonConforming l c _) t =
     CodeownersResult.NonConforming l c t"
| "CodeownersResult_with_timestamp (CodeownersResult.Absent _) t = CodeownersResult.Absent t"
| "CodeownersResult_with_timestamp (CodeownersResult.Unobservable r _) t =
     CodeownersResult.Unobservable r t"

fun CodeownersResult_parsed :: "CodeownersResult \<Rightarrow> ParsedCodeowners option" where
  "CodeownersResult_parsed (CodeownersResult.Conforming (CodeownersContent.Parsed p) _) = Some p"
| "CodeownersResult_parsed (CodeownersResult.NonConforming _ (CodeownersContent.Parsed p) _) =
     Some p"
| "CodeownersResult_parsed _ = None"

fun CodeownersResult_truncation :: "CodeownersResult \<Rightarrow> CodeownersTruncationReason option" where
  "CodeownersResult_truncation (CodeownersResult.Conforming (CodeownersContent.Truncated r) _) =
     Some r"
| "CodeownersResult_truncation
     (CodeownersResult.NonConforming _ (CodeownersContent.Truncated r) _) = Some r"
| "CodeownersResult_truncation _ = None"

definition CodeownersStatus_display :: "CodeownersStatus \<Rightarrow> string" where
  "CodeownersStatus_display s = (case s of
     CodeownersStatus.Conforming \<Rightarrow> ''conforming''
   | CodeownersStatus.NonConforming \<Rightarrow> ''non_conforming''
   | CodeownersStatus.Absent \<Rightarrow> ''absent''
   | CodeownersStatus.Unknown \<Rightarrow> ''unknown'')"

definition ScoreCategory_of_codeowners_status :: "CodeownersStatus \<Rightarrow> ScoreCategory" where
  "ScoreCategory_of_codeowners_status s = (case s of
     CodeownersStatus.Conforming \<Rightarrow> ScoreCategory.Pass
   | CodeownersStatus.NonConforming \<Rightarrow> ScoreCategory.Fail
   | CodeownersStatus.Absent \<Rightarrow> ScoreCategory.Fail
   | CodeownersStatus.Unknown \<Rightarrow> ScoreCategory.Excluded ExclusionReason.Unknown)"

definition ScoreCategory_of_codeowners :: "CodeownersResult \<Rightarrow> ScoreCategory" where
  "ScoreCategory_of_codeowners result = (case result of
     CodeownersResult.Unobservable reason _ \<Rightarrow>
       ScoreCategory.Excluded (indeterminate_exclusion reason)
   | _ \<Rightarrow> ScoreCategory_of_codeowners_status (CodeownersResult_status result))"

subsection \<open>The five checks of one repository\<close>

record RepositoryChecks =
  security_policy :: SecurityPolicyResult
  secret_scanning :: SecretScanningResult
  dependabot_security_updates :: DependabotResult
  branch_protection :: BranchProtectionResult
  codeowners :: CodeownersResult

definition RepositoryChecks_observed_at :: "RepositoryChecks \<Rightarrow> string" where
  "RepositoryChecks_observed_at checks =
     BranchProtectionResult_timestamp (branch_protection checks)"

datatype CheckType = SecurityPolicy | SecretScanning | Dependabot | BranchProtection | Codeowners

definition CheckType_ALL :: "CheckType list" where
  "CheckType_ALL = [CheckType.SecurityPolicy, CheckType.SecretScanning, CheckType.Dependabot,
     CheckType.BranchProtection, CheckType.Codeowners]"

subsection \<open>Merging history signals\<close>

lemma merge_loop_eq:
  "merge_optional_blocking_signal_loop select signals saw =
     (if Some True \<in> select ` set signals then Some True
      else if saw \<or> Some False \<in> select ` set signals then Some False
      else None)"
proof (induction signals arbitrary: saw)
  case Nil
  then show ?case by simp
next
  case (Cons x xs)
  show ?case
  proof (cases "select x")
    case None
    then show ?thesis by (simp add: Cons.IH)
  next
    case (Some b)
    then show ?thesis by (cases b) (simp_all add: Cons.IH)
  qed
qed

lemma merge_optional_blocking_signal_eq:
  "merge_optional_blocking_signal signals select =
     (if Some True \<in> select ` set signals then Some True
      else if Some False \<in> select ` set signals then Some False
      else None)"
  by (simp add: merge_optional_blocking_signal_def merge_loop_eq)

lemma HistorySignals_merge_None: "HistorySignals_merge signals = None \<longleftrightarrow> signals = []"
  by (simp add: HistorySignals_merge_def)

lemma from_history_signals_protected:
  "BranchProtectionResult_is_protected
     (BranchProtectionResult_from_history_signals branch fp del t) \<longleftrightarrow>
   fp = Some True \<and> del = Some True"
  by (auto simp: BranchProtectionResult_from_history_signals_def
      split: option.splits bool.splits)

lemma from_history_signals_observed:
  "BranchProtectionResult_is_observed
     (BranchProtectionResult_from_history_signals branch fp del t)"
  by (auto simp: BranchProtectionResult_from_history_signals_def
      split: option.splits bool.splits)

lemma from_history_signals_fields:
  "BranchProtectionResult_default_branch
     (BranchProtectionResult_from_history_signals branch fp del t) = branch"
  "BranchProtectionResult_timestamp
     (BranchProtectionResult_from_history_signals branch fp del t) = t"
  by (auto simp: BranchProtectionResult_from_history_signals_def
      split: option.splits bool.splits)

text \<open>
  Merging the history signals of several sources and classifying the merge yields a protected
  branch exactly when some source blocks force pushes and some source blocks deletion; an unread
  signal never counts as a block, and there is a merge unless there are no sources at all.
\<close>

theorem merged_signals_protected_iff:
  "case HistorySignals_merge signals of
     None \<Rightarrow> signals = []
   | Some s \<Rightarrow>
       BranchProtectionResult_is_protected
         (BranchProtectionResult_from_history_signals branch
            (force_push_blocked s) (deletion_blocked s) t)
       = (Some True \<in> force_push_blocked ` set signals \<and>
          Some True \<in> deletion_blocked ` set signals)"
  by (simp add: HistorySignals_merge_def from_history_signals_protected
      merge_optional_blocking_signal_eq)

text \<open>
  The merge is insensitive to the order and multiplicity of its sources: two non-empty source
  lists with the same elements merge to the same signals.
\<close>

theorem HistorySignals_merge_order_independent:
  assumes "set xs = set ys"
  shows "HistorySignals_merge xs = HistorySignals_merge ys"
proof -
  from assms have "xs = [] \<longleftrightarrow> ys = []" by auto
  with assms show ?thesis
    by (simp add: HistorySignals_merge_def merge_optional_blocking_signal_eq)
qed

theorem HistorySignals_merge_order_independent_witness:
  "HistorySignals_merge
     [\<lparr>force_push_blocked = Some False, deletion_blocked = None\<rparr>,
      \<lparr>force_push_blocked = Some True, deletion_blocked = Some False\<rparr>] =
   HistorySignals_merge
     [\<lparr>force_push_blocked = Some True, deletion_blocked = Some False\<rparr>,
      \<lparr>force_push_blocked = Some False, deletion_blocked = None\<rparr>]"
  by (rule HistorySignals_merge_order_independent) auto

subsection \<open>Statuses and score categories\<close>

lemma indeterminate_exclusion_not_applicable:
  "indeterminate_exclusion reason \<noteq> ExclusionReason.NotApplicable"
  by (simp add: indeterminate_exclusion_def split: IndeterminateReason.split)

lemma policy_category_simps [status_simps]:
  "ScoreCategory_of_policy p = ScoreCategory.Pass \<longleftrightarrow>
     SecurityPolicyResult_status p = SecurityPolicyStatus.Pass"
  "ScoreCategory_of_policy p = ScoreCategory.Fail \<longleftrightarrow>
     SecurityPolicyResult_status p = SecurityPolicyStatus.Fail"
  by (cases p; simp add: ScoreCategory_of_policy_def ScoreCategory_of_policy_status_def)+

lemma secret_category_simps [status_simps]:
  "ScoreCategory_of_secret_scanning s = ScoreCategory.Pass \<longleftrightarrow>
     SecretScanningResult_status s = SecretScanningStatus.Enabled"
  "ScoreCategory_of_secret_scanning s = ScoreCategory.Fail \<longleftrightarrow>
     SecretScanningResult_status s = SecretScanningStatus.Disabled"
  by (auto simp: ScoreCategory_of_secret_scanning_def split: SecretScanningStatus.split)

lemma dependabot_category_simps [status_simps]:
  "ScoreCategory_of_dependabot_status d = ScoreCategory.Pass \<longleftrightarrow> d = DependabotStatus.Enabled"
  "ScoreCategory_of_dependabot_status d = ScoreCategory.Fail \<longleftrightarrow>
     d = DependabotStatus.Paused \<or> d = DependabotStatus.Disabled"
  by (cases d; simp add: ScoreCategory_of_dependabot_status_def)+

lemma branch_category_simps [status_simps]:
  "BranchProtectionResult_score_category b = ScoreCategory.Pass \<longleftrightarrow>
     BranchProtectionResult_is_protected b"
  "BranchProtectionResult_score_category b = ScoreCategory.Fail \<longleftrightarrow>
     BranchProtectionResult_is_observed b \<and> \<not> BranchProtectionResult_is_protected b"
  by (cases b; simp)+

lemma codeowners_category_simps [status_simps]:
  "ScoreCategory_of_codeowners c = ScoreCategory.Pass \<longleftrightarrow>
     CodeownersResult_status c = CodeownersStatus.Conforming"
  "ScoreCategory_of_codeowners c = ScoreCategory.Fail \<longleftrightarrow>
     CodeownersResult_status c = CodeownersStatus.NonConforming \<or>
     CodeownersResult_status c = CodeownersStatus.Absent"
  by (cases c; simp add: ScoreCategory_of_codeowners_def ScoreCategory_of_codeowners_status_def)+

text \<open>
  A check result enters the score (as \<open>Pass\<close> or \<open>Fail\<close>) exactly when it was measured; every
  unobservable, unknown or inapplicable result is \<open>Excluded\<close>, for all five controls.
\<close>

theorem excluded_iff_unmeasured:
  "((\<exists>r. ScoreCategory_of_policy p = ScoreCategory.Excluded r) \<longleftrightarrow>
      SecurityPolicyResult_status p = SecurityPolicyStatus.Unknown \<or>
      SecurityPolicyResult_status p = SecurityPolicyStatus.NotApplicable) \<and>
   ((\<exists>r. ScoreCategory_of_secret_scanning s = ScoreCategory.Excluded r) \<longleftrightarrow>
      SecretScanningResult_status s = SecretScanningStatus.PermissionDenied \<or>
      SecretScanningResult_status s = SecretScanningStatus.Unknown) \<and>
   ((\<exists>r. ScoreCategory_of_dependabot_status d = ScoreCategory.Excluded r) \<longleftrightarrow>
      d = DependabotStatus.Unknown) \<and>
   ((\<exists>r. BranchProtectionResult_score_category b = ScoreCategory.Excluded r) \<longleftrightarrow>
      \<not> BranchProtectionResult_is_observed b) \<and>
   ((\<exists>r. ScoreCategory_of_codeowners c = ScoreCategory.Excluded r) \<longleftrightarrow>
      CodeownersResult_status c = CodeownersStatus.Unknown)"
proof (intro conjI)
  show "(\<exists>r. ScoreCategory_of_policy p = ScoreCategory.Excluded r) \<longleftrightarrow>
      SecurityPolicyResult_status p = SecurityPolicyStatus.Unknown \<or>
      SecurityPolicyResult_status p = SecurityPolicyStatus.NotApplicable"
    by (cases p) (simp_all add: ScoreCategory_of_policy_def ScoreCategory_of_policy_status_def)
  show "(\<exists>r. ScoreCategory_of_secret_scanning s = ScoreCategory.Excluded r) \<longleftrightarrow>
      SecretScanningResult_status s = SecretScanningStatus.PermissionDenied \<or>
      SecretScanningResult_status s = SecretScanningStatus.Unknown"
    by (cases "SecretScanningResult_status s")
      (simp_all add: ScoreCategory_of_secret_scanning_def)
  show "(\<exists>r. ScoreCategory_of_dependabot_status d = ScoreCategory.Excluded r) \<longleftrightarrow>
      d = DependabotStatus.Unknown"
    by (cases d) (simp_all add: ScoreCategory_of_dependabot_status_def)
  show "(\<exists>r. BranchProtectionResult_score_category b = ScoreCategory.Excluded r) \<longleftrightarrow>
      \<not> BranchProtectionResult_is_observed b"
    by (cases b) simp_all
  show "(\<exists>r. ScoreCategory_of_codeowners c = ScoreCategory.Excluded r) \<longleftrightarrow>
      CodeownersResult_status c = CodeownersStatus.Unknown"
    by (cases c)
      (simp_all add: ScoreCategory_of_codeowners_def ScoreCategory_of_codeowners_status_def)
qed

subsection \<open>Secret scanning observations\<close>

lemma has_open_alerts_enabled:
  "SecretScanningResult_has_open_alerts r = Some b \<Longrightarrow>
    SecretScanningResult_status r = SecretScanningStatus.Enabled"
  by (cases r rule: SecretScanningResult_has_open_alerts.cases) auto

lemma alerts_observable_enabled:
  "SecretScanningResult_alerts_observable r \<Longrightarrow>
    SecretScanningResult_status r = SecretScanningStatus.Enabled"
  by (auto simp: SecretScanningResult_alerts_observable_def intro: has_open_alerts_enabled)

lemma failure_reason_None_iff:
  "SecretScanningResult_failure_reason r = None \<longleftrightarrow>
     SecretScanningResult_alerts_observable r \<or>
     (\<exists>m src h t. r = SecretScanningResult.Disabled m (DisabledObservation.NoMismatch src h) t) \<or>
     SecretScanningResult_status_mismatch r"
proof (cases r)
  case (Enabled p t)
  then show ?thesis
  proof (cases p)
    case (Metadata h a)
    with Enabled show ?thesis
      by (cases a) (simp_all add: SecretScanningResult_alerts_observable_def)
  qed (simp add: SecretScanningResult_alerts_observable_def)
next
  case (Disabled m obs t)
  then show ?thesis
    by (cases obs) (simp_all add: SecretScanningResult_alerts_observable_def)
next
  case (Unobservable m p t)
  then show ?thesis
    by (cases p) (simp_all add: SecretScanningResult_alerts_observable_def)
qed

lemma reason_None_iff:
  "SecretScanningResult_reason r = None \<longleftrightarrow>
     \<not> SecretScanningResult_status_mismatch r \<and> SecretScanningResult_failure_reason r = None"
  by (auto simp: SecretScanningResult_reason_def
      split: option.splits SecretScanningFailureReason.splits)

text \<open>
  Alert facts are only ever attached to an enabled control: a secret-scanning result with
  observable alerts has status \<open>Enabled\<close>, and a result has no diagnostic reason exactly when its
  alerts are observable or it is a disabled control whose probe agreed with the metadata.
\<close>

theorem secret_scanning_alerts_only_when_enabled:
  "(SecretScanningResult_alerts_observable r \<longrightarrow>
      SecretScanningResult_status r = SecretScanningStatus.Enabled) \<and>
   (SecretScanningResult_reason r = None \<longleftrightarrow>
      SecretScanningResult_alerts_observable r \<or>
      (\<exists>m src h t. r = SecretScanningResult.Disabled m (DisabledObservation.NoMismatch src h) t))"
proof
  show "SecretScanningResult_alerts_observable r \<longrightarrow>
      SecretScanningResult_status r = SecretScanningStatus.Enabled"
    by (simp add: alerts_observable_enabled)
  have "SecretScanningResult_status_mismatch r \<Longrightarrow>
      \<not> SecretScanningResult_alerts_observable r \<and>
      \<not> (\<exists>m src h t. r = SecretScanningResult.Disabled m (DisabledObservation.NoMismatch src h) t)"
    by (cases r rule: SecretScanningResult_status_mismatch.cases)
      (auto simp: SecretScanningResult_alerts_observable_def)
  then show "SecretScanningResult_reason r = None \<longleftrightarrow>
      SecretScanningResult_alerts_observable r \<or>
      (\<exists>m src h t. r = SecretScanningResult.Disabled m (DisabledObservation.NoMismatch src h) t)"
    unfolding reason_None_iff failure_reason_None_iff by blast
qed

theorem secret_scanning_alerts_only_when_enabled_witness:
  "SecretScanningResult_status (SecretScanningResult.Enabled
     (EnabledProvenance.Metadata (Some 200)
        (SecretScanningAlerts.Observable ProbeSource.OrgSummary True (Some 200))) ''t'') =
   SecretScanningStatus.Enabled \<and>
   SecretScanningResult_alerts_observable (SecretScanningResult.Enabled
     (EnabledProvenance.Metadata (Some 200)
        (SecretScanningAlerts.Observable ProbeSource.OrgSummary True (Some 200))) ''t'')"
  using secret_scanning_alerts_only_when_enabled [of "SecretScanningResult.Enabled
     (EnabledProvenance.Metadata (Some 200)
        (SecretScanningAlerts.Observable ProbeSource.OrgSummary True (Some 200))) ''t''"]
  by (simp add: SecretScanningResult_alerts_observable_def)

subsection \<open>Re-stamping a result\<close>

text \<open>
  \<open>with_timestamp\<close> is how cached evidence is re-stamped. The interface it has to satisfy is that of
  a lens on the timestamp: reading back what was written, writing back what was read, and the last
  write winning. A run that re-stamps several times is then determined by its last stamp.
\<close>

locale timestamped =
  fixes timestamp_of :: "'r \<Rightarrow> string"
    and stamp :: "'r \<Rightarrow> string \<Rightarrow> 'r"
  assumes get_put: "timestamp_of (stamp r t) = t"
    and put_get: "stamp r (timestamp_of r) = r"
    and put_put: "stamp (stamp r t) u = stamp r u"
begin

lemma stamp_all: "ts \<noteq> [] \<Longrightarrow> fold (\<lambda>t r. stamp r t) ts r = stamp r (last ts)"
  by (induction ts arbitrary: r) (auto simp: put_put)

lemma stamp_inj: "stamp r t = stamp r' t \<Longrightarrow> timestamp_of r = timestamp_of r' \<Longrightarrow> r = r'"
  by (metis put_get put_put)

end

interpretation secret_stamp: timestamped
  SecretScanningResult_timestamp SecretScanningResult_with_timestamp
proof
  fix r t u
  show "SecretScanningResult_timestamp (SecretScanningResult_with_timestamp r t) = t"
    by (cases r) simp_all
  show "SecretScanningResult_with_timestamp r (SecretScanningResult_timestamp r) = r"
    by (cases r) simp_all
  show "SecretScanningResult_with_timestamp (SecretScanningResult_with_timestamp r t) u =
      SecretScanningResult_with_timestamp r u"
    by (cases r) simp_all
qed

interpretation codeowners_stamp: timestamped
  CodeownersResult_timestamp CodeownersResult_with_timestamp
proof
  fix r t u
  show "CodeownersResult_timestamp (CodeownersResult_with_timestamp r t) = t"
    by (cases r) simp_all
  show "CodeownersResult_with_timestamp r (CodeownersResult_timestamp r) = r"
    by (cases r) simp_all
  show "CodeownersResult_with_timestamp (CodeownersResult_with_timestamp r t) u =
      CodeownersResult_with_timestamp r u"
    by (cases r) simp_all
qed

lemma secret_stamp_keeps:
  "SecretScanningResult_status (SecretScanningResult_with_timestamp r t) =
     SecretScanningResult_status r"
  "SecretScanningResult_has_open_alerts (SecretScanningResult_with_timestamp r t) =
     SecretScanningResult_has_open_alerts r"
  "SecretScanningResult_failure_reason (SecretScanningResult_with_timestamp r t) =
     SecretScanningResult_failure_reason r"
proof -
  show "SecretScanningResult_status (SecretScanningResult_with_timestamp r t) =
     SecretScanningResult_status r"
    by (cases r) simp_all
  show "SecretScanningResult_has_open_alerts (SecretScanningResult_with_timestamp r t) =
     SecretScanningResult_has_open_alerts r"
    by (cases r rule: SecretScanningResult_has_open_alerts.cases) simp_all
  show "SecretScanningResult_failure_reason (SecretScanningResult_with_timestamp r t) =
     SecretScanningResult_failure_reason r"
    by (cases r rule: SecretScanningResult_failure_reason.cases) simp_all
qed

lemma codeowners_stamp_keeps:
  "CodeownersResult_status (CodeownersResult_with_timestamp r t) = CodeownersResult_status r"
  "CodeownersResult_parsed (CodeownersResult_with_timestamp r t) = CodeownersResult_parsed r"
  "CodeownersResult_truncation (CodeownersResult_with_timestamp r t) =
     CodeownersResult_truncation r"
proof -
  show "CodeownersResult_status (CodeownersResult_with_timestamp r t) = CodeownersResult_status r"
    by (cases r) simp_all
  show "CodeownersResult_parsed (CodeownersResult_with_timestamp r t) = CodeownersResult_parsed r"
    by (cases r rule: CodeownersResult_parsed.cases) simp_all
  show "CodeownersResult_truncation (CodeownersResult_with_timestamp r t) =
     CodeownersResult_truncation r"
    by (cases r rule: CodeownersResult_truncation.cases) simp_all
qed

text \<open>
  Re-stamping secret-scanning and CODEOWNERS results any number of times leaves the last stamp
  and changes nothing but the timestamp: statuses, alert facts, failure reasons, parsed owners and
  truncation reasons are those of the original result.
\<close>

theorem restamping_changes_only_the_timestamp:
  assumes "ts \<noteq> []"
  shows "let r' = fold (\<lambda>t r. SecretScanningResult_with_timestamp r t) ts r;
             c' = fold (\<lambda>t c. CodeownersResult_with_timestamp c t) ts c
         in SecretScanningResult_timestamp r' = last ts \<and>
            SecretScanningResult_status r' = SecretScanningResult_status r \<and>
            SecretScanningResult_has_open_alerts r' = SecretScanningResult_has_open_alerts r \<and>
            SecretScanningResult_failure_reason r' = SecretScanningResult_failure_reason r \<and>
            CodeownersResult_timestamp c' = last ts \<and>
            CodeownersResult_status c' = CodeownersResult_status c \<and>
            CodeownersResult_parsed c' = CodeownersResult_parsed c \<and>
            CodeownersResult_truncation c' = CodeownersResult_truncation c"
  unfolding Let_def secret_stamp.stamp_all [OF assms] codeowners_stamp.stamp_all [OF assms]
  by (simp add: secret_stamp.get_put codeowners_stamp.get_put secret_stamp_keeps
      codeowners_stamp_keeps)

theorem restamping_changes_only_the_timestamp_witness:
  "SecretScanningResult_timestamp
     (fold (\<lambda>t r. SecretScanningResult_with_timestamp r t) [''a'', ''b'']
        (SecretScanningResult_unobservable SecretScanningFailureReason.Pending ''z'')) = ''b'' \<and>
   CodeownersResult_timestamp
     (fold (\<lambda>t c. CodeownersResult_with_timestamp c t) [''a'', ''b'']
        (CodeownersResult.Absent ''z'')) = ''b''"
  using restamping_changes_only_the_timestamp [of "[''a'', ''b'']"
      "SecretScanningResult_unobservable SecretScanningFailureReason.Pending ''z''"
      "CodeownersResult.Absent ''z''"]
  by (simp add: Let_def)

end
