(* ===== verification/Evidence_Model.thy ===== *)
theory Evidence_Model
  imports Checks "HOL-Library.Signed_Division"
begin

text \<open>
  Repositories and their evidence: \<open>domain/repository.rs\<close>, \<open>domain/status.rs\<close>, \<open>domain/auth.rs\<close>,
  \<open>domain/run.rs\<close>, \<open>domain/time.rs\<close> and \<open>domain/evidence.rs\<close>. The timestamp parser of the \<open>jiff\<close>
  package is the parameter \<open>parse\<close> (text to nanoseconds since the epoch), the clock and the random
  source of a run are arguments, and what \<open>serde\<close> generates for \<open>RawCoverageTagged\<close> is a parameter
  of the coverage decoder. The lemmas characterise staleness as a duration, the read state of a
  repository, the derived coverage fields and the run identifier.
\<close>

unbundle bit_operations_syntax

subsection \<open>Repositories\<close>

datatype Visibility = Public | Internal | Private

definition Visibility_display :: "Visibility \<Rightarrow> string" where
  "Visibility_display v = (case v of
     Visibility.Public \<Rightarrow> ''Public''
   | Visibility.Internal \<Rightarrow> ''Internal''
   | Visibility.Private \<Rightarrow> ''Private'')"

datatype UpdatedAt = UpdatedAt string

definition UpdatedAt_new :: "string \<Rightarrow> UpdatedAt option" where
  "UpdatedAt_new raw = (if raw = [] then None else Some (UpdatedAt raw))"

fun UpdatedAt_deref :: "UpdatedAt \<Rightarrow> string" where
  "UpdatedAt_deref (UpdatedAt s) = s"

definition deserialize_updated_at :: "string option \<Rightarrow> UpdatedAt option" where
  "deserialize_updated_at raw = Option.bind raw UpdatedAt_new"

record Repository =
  repo_id :: string
  repo_node_id :: "string option"
  repo_name :: string
  visibility :: Visibility
  repo_language :: "string option"
  default_branch :: string
  archived :: bool
  inventory_key :: string
  updated_at :: "UpdatedAt option"
  has_issues :: bool
  pushed_at :: "string option"
  created_at :: "string option"
  repo_description :: "string option"
  repo_fork :: bool
  repo_is_empty :: bool
  html_url :: "string option"
  repo_topics :: "string list"
  license_spdx :: "string option"

definition Repository_eq :: "Repository \<Rightarrow> Repository \<Rightarrow> bool" where
  "Repository_eq a b \<longleftrightarrow>
     repo_id a = repo_id b \<and> repo_name a = repo_name b \<and> visibility a = visibility b \<and>
     default_branch a = default_branch b \<and> archived a = archived b \<and>
     inventory_key a = inventory_key b \<and> updated_at a = updated_at b"

definition Repository_is_public :: "Repository \<Rightarrow> bool" where
  "Repository_is_public r \<longleftrightarrow> visibility r = Visibility.Public"

text \<open>The three-valued result of \<open>Ord::cmp\<close>, and \<open>Ordering::then\<close>.\<close>

datatype Ordering = Less | Equal | Greater

definition cmp :: "'a::linorder \<Rightarrow> 'a \<Rightarrow> Ordering" where
  "cmp a b = (if a < b then Ordering.Less else if a = b then Ordering.Equal else Ordering.Greater)"

fun Ordering_then :: "Ordering \<Rightarrow> Ordering \<Rightarrow> Ordering" where
  "Ordering_then Ordering.Equal other = other"
| "Ordering_then Ordering.Less _ = Ordering.Less"
| "Ordering_then Ordering.Greater _ = Ordering.Greater"

definition Repository_cmp :: "Repository \<Rightarrow> Repository \<Rightarrow> Ordering" where
  "Repository_cmp a b =
     Ordering_then (cmp (repo_id a) (repo_id b)) (cmp (repo_name a) (repo_name b))"

definition Repository_partial_cmp :: "Repository \<Rightarrow> Repository \<Rightarrow> Ordering option" where
  "Repository_partial_cmp a b = Some (Repository_cmp a b)"

subsection \<open>Collection status and authentication\<close>

datatype CollectionStatus =
  Success | NotCollected | PermissionDenied | TransientError | Unavailable

definition CollectionStatus_display :: "CollectionStatus \<Rightarrow> string" where
  "CollectionStatus_display s = (case s of
     CollectionStatus.Success \<Rightarrow> ''success''
   | CollectionStatus.NotCollected \<Rightarrow> ''not_collected''
   | CollectionStatus.PermissionDenied \<Rightarrow> ''permission_denied''
   | CollectionStatus.TransientError \<Rightarrow> ''transient_error''
   | CollectionStatus.Unavailable \<Rightarrow> ''unavailable'')"

datatype AuthMode = Pat | GitHubApp | GhCliFallback | Unknown

definition AuthMode_display :: "AuthMode \<Rightarrow> string" where
  "AuthMode_display m = (case m of
     AuthMode.Pat \<Rightarrow> ''pat''
   | AuthMode.GitHubApp \<Rightarrow> ''github_app''
   | AuthMode.GhCliFallback \<Rightarrow> ''gh_cli_fallback''
   | AuthMode.Unknown \<Rightarrow> ''unknown'')"

datatype TokenTier = Full | Limited | Unknown

definition TokenTier_display :: "TokenTier \<Rightarrow> string" where
  "TokenTier_display t = (case t of
     TokenTier.Full \<Rightarrow> ''Full''
   | TokenTier.Limited \<Rightarrow> ''Limited''
   | TokenTier.Unknown \<Rightarrow> ''Unknown'')"

datatype Capability = OrgSecretScanningAlerts | PrivateBranchProtectionRead

definition Capability_ALL :: "Capability list" where
  "Capability_ALL = [Capability.OrgSecretScanningAlerts, Capability.PrivateBranchProtectionRead]"

definition Capability_display :: "Capability \<Rightarrow> string" where
  "Capability_display c = (case c of
     Capability.OrgSecretScanningAlerts \<Rightarrow> ''org_secret_scanning_alerts''
   | Capability.PrivateBranchProtectionRead \<Rightarrow> ''private_branch_protection_read'')"

subsection \<open>Timestamps\<close>

text \<open>
  A \<open>jiff::Timestamp\<close> is a number of nanoseconds; \<open>duration_since(..).as_secs()\<close> truncates the
  difference to whole seconds, and the division by the seconds of a day truncates again.
\<close>

type_synonym Timestamp = int

definition STALE_THRESHOLD_DAYS :: int where
  "STALE_THRESHOLD_DAYS = 730"

definition DEPENDABOT_INACTIVITY_THRESHOLD_DAYS :: int where
  "DEPENDABOT_INACTIVITY_THRESHOLD_DAYS = 90"

definition parse_iso8601 :: "(string \<Rightarrow> Timestamp option) \<Rightarrow> string \<Rightarrow> Timestamp option" where
  "parse_iso8601 parse text =
     parse (if text \<noteq> [] \<and> last text = CHR ''Z'' then butlast text @ ''+00:00'' else text)"

definition duration_since_as_secs :: "Timestamp \<Rightarrow> Timestamp \<Rightarrow> int" where
  "duration_since_as_secs later earlier = (later - earlier) sdiv 1000000000"

definition is_repo_stale ::
  "(string \<Rightarrow> Timestamp option) \<Rightarrow> string option \<Rightarrow> string \<Rightarrow> bool" where
  "is_repo_stale parse updated run_timestamp =
     (case Option.bind updated (parse_iso8601 parse) of
        None \<Rightarrow> False
      | Some u \<Rightarrow>
          (case parse_iso8601 parse run_timestamp of
             None \<Rightarrow> False
           | Some g \<Rightarrow> max (duration_since_as_secs g u sdiv 86400) 0 > STALE_THRESHOLD_DAYS))"

definition is_dependabot_inactive ::
  "(string \<Rightarrow> Timestamp option) \<Rightarrow> string option \<Rightarrow> string \<Rightarrow> bool" where
  "is_dependabot_inactive parse pushed run_timestamp =
     (case Option.bind pushed (parse_iso8601 parse) of
        None \<Rightarrow> False
      | Some p \<Rightarrow>
          (case parse_iso8601 parse run_timestamp of
             None \<Rightarrow> False
           | Some g \<Rightarrow>
               max (duration_since_as_secs g p sdiv 86400) 0 > DEPENDABOT_INACTIVITY_THRESHOLD_DAYS))"

subsection \<open>Repository evidence\<close>

datatype RepositoryReadState = Pending | Failed | Observed

definition PENDING_REASON :: string where
  "PENDING_REASON = ''pending''"

definition then_some :: "bool \<Rightarrow> 'a \<Rightarrow> 'a option" where
  "then_some b x = (if b then Some x else None)"

definition observed_check_timestamps :: "RepositoryChecks \<Rightarrow> string option list" where
  "observed_check_timestamps checks =
     [then_some
        (SecurityPolicyResult_status (security_policy checks) = SecurityPolicyStatus.Pass \<or>
         SecurityPolicyResult_status (security_policy checks) = SecurityPolicyStatus.Fail)
        (SecurityPolicyResult_timestamp (security_policy checks)),
      then_some
        (SecretScanningResult_status (secret_scanning checks) = SecretScanningStatus.Enabled \<or>
         SecretScanningResult_status (secret_scanning checks) = SecretScanningStatus.Disabled)
        (SecretScanningResult_timestamp (secret_scanning checks)),
      then_some
        (dependabot_status (dependabot_security_updates checks) \<noteq> DependabotStatus.Unknown)
        (dependabot_timestamp (dependabot_security_updates checks)),
      then_some
        (BranchProtectionResult_is_observed (branch_protection checks))
        (BranchProtectionResult_timestamp (branch_protection checks)),
      then_some
        (CodeownersResult_status (codeowners checks) \<noteq> CodeownersStatus.Unknown)
        (CodeownersResult_timestamp (codeowners checks))]"

definition RepositoryReadState_from_checks :: "RepositoryChecks \<Rightarrow> RepositoryReadState" where
  "RepositoryReadState_from_checks checks =
     (let has_observation = list_ex (\<lambda>stamp. stamp \<noteq> None) (observed_check_timestamps checks);
          pending = list_all (\<lambda>reason. reason = Some PENDING_REASON)
            [SecretScanningResult_reason (secret_scanning checks),
             dependabot_reason (dependabot_security_updates checks),
             then_some (BranchProtectionResult_is_pending (branch_protection checks))
               PENDING_REASON]
      in case (has_observation, pending) of
           (True, _) \<Rightarrow> RepositoryReadState.Observed
         | (False, True) \<Rightarrow> RepositoryReadState.Pending
         | (False, False) \<Rightarrow> RepositoryReadState.Failed)"

record LastCommitInfo =
  committer_login :: "string option"
  committer_name :: "string option"
  commit_date :: "string option"

record RepositoryEvidence =
  repository :: Repository
  checks :: RepositoryChecks
  last_commit :: "LastCommitInfo option"
  repo_details_not_modified :: bool

definition RepositoryEvidence_eq :: "RepositoryEvidence \<Rightarrow> RepositoryEvidence \<Rightarrow> bool" where
  "RepositoryEvidence_eq a b \<longleftrightarrow>
     Repository_eq (repository a) (repository b) \<and> checks a = checks b \<and>
     last_commit a = last_commit b \<and>
     repo_details_not_modified a = repo_details_not_modified b"

definition RepositoryEvidence_is_complete :: "RepositoryEvidence \<Rightarrow> bool" where
  "RepositoryEvidence_is_complete e \<longleftrightarrow>
     SecurityPolicyResult_status (security_policy (checks e)) \<noteq> SecurityPolicyStatus.Unknown \<and>
     SecretScanningResult_status (secret_scanning (checks e)) \<noteq> SecretScanningStatus.Unknown \<and>
     dependabot_status (dependabot_security_updates (checks e)) \<noteq> DependabotStatus.Unknown \<and>
     BranchProtectionResult_is_observed (branch_protection (checks e)) \<and>
     CodeownersResult_status (codeowners (checks e)) \<noteq> CodeownersStatus.Unknown"

subsection \<open>Collection coverage\<close>

text \<open>
  \<open>usize\<close> has 64 bits on the supported targets, so \<open>usize::try_from(limit.get())\<close> succeeds; a
  \<open>NonZeroU64\<close> is the word together with the invariant \<open>coverage_ok\<close> below.
\<close>

type_synonym usize = u64

datatype CollectionCoverage = Unknown | Known usize u64

fun coverage_ok :: "CollectionCoverage \<Rightarrow> bool" where
  "coverage_ok CollectionCoverage.Unknown = True"
| "coverage_ok (CollectionCoverage.Known _ limit) = (limit \<noteq> 0)"

definition CollectionCoverage_known :: "usize \<Rightarrow> u64 \<Rightarrow> CollectionCoverage" where
  "CollectionCoverage_known total_repos limit = CollectionCoverage.Known total_repos limit"

fun CollectionCoverage_is_unknown :: "CollectionCoverage \<Rightarrow> bool" where
  "CollectionCoverage_is_unknown CollectionCoverage.Unknown = True"
| "CollectionCoverage_is_unknown (CollectionCoverage.Known _ _) = False"

fun CollectionCoverage_is_known :: "CollectionCoverage \<Rightarrow> bool" where
  "CollectionCoverage_is_known (CollectionCoverage.Known _ _) = True"
| "CollectionCoverage_is_known CollectionCoverage.Unknown = False"

fun CollectionCoverage_selected :: "CollectionCoverage \<Rightarrow> usize option" where
  "CollectionCoverage_selected CollectionCoverage.Unknown = None"
| "CollectionCoverage_selected (CollectionCoverage.Known total_repos limit) = Some (min total_repos limit)"

fun CollectionCoverage_is_capped :: "CollectionCoverage \<Rightarrow> bool" where
  "CollectionCoverage_is_capped CollectionCoverage.Unknown = False"
| "CollectionCoverage_is_capped (CollectionCoverage.Known total_repos limit) = (total_repos > limit)"

fun CollectionCoverage_total :: "CollectionCoverage \<Rightarrow> usize option" where
  "CollectionCoverage_total CollectionCoverage.Unknown = None"
| "CollectionCoverage_total (CollectionCoverage.Known total_repos _) = Some total_repos"

fun CollectionCoverage_limit :: "CollectionCoverage \<Rightarrow> u64 option" where
  "CollectionCoverage_limit CollectionCoverage.Unknown = None"
| "CollectionCoverage_limit (CollectionCoverage.Known _ limit) = Some limit"

text \<open>The serialised struct: its fields in the order they are written.\<close>

datatype SerValue = SerStr string | SerU64 u64 | SerBool bool

fun CollectionCoverage_serialize :: "CollectionCoverage \<Rightarrow> (string \<times> SerValue) list" where
  "CollectionCoverage_serialize CollectionCoverage.Unknown = [(''status'', SerStr ''unknown'')]"
| "CollectionCoverage_serialize (CollectionCoverage.Known total_repos limit) =
     [(''status'', SerStr ''known''), (''total'', SerU64 total_repos), (''limit'', SerU64 limit),
      (''selected'', SerU64 (min total_repos limit)), (''capped'', SerBool (total_repos > limit))]"

record RawKnownCoverage =
  raw_total :: usize
  raw_limit :: u64
  raw_selected :: "usize option"
  raw_capped :: "bool option"

datatype RawCoverageTagged = Known RawKnownCoverage | Unknown

datatype CoverageError =
  SerdeError
| ContradictorySelected usize usize
| ContradictoryCapped bool bool

definition CollectionCoverage_from_raw ::
  "RawCoverageTagged \<Rightarrow> CoverageError + CollectionCoverage" where
  "CollectionCoverage_from_raw raw = (case raw of
     RawCoverageTagged.Unknown \<Rightarrow> Inr CollectionCoverage.Unknown
   | RawCoverageTagged.Known known \<Rightarrow>
       (let total_repos = raw_total known;
            limit = raw_limit known;
            derived_selected = min total_repos limit;
            derived_capped = (total_repos > limit)
        in case raw_selected known of
             Some selected \<Rightarrow>
               (if selected \<noteq> derived_selected
                then Inl (ContradictorySelected selected derived_selected)
                else (case raw_capped known of
                        Some capped \<Rightarrow>
                          (if capped \<noteq> derived_capped
                           then Inl (ContradictoryCapped capped derived_capped)
                           else Inr (CollectionCoverage.Known total_repos limit))
                      | None \<Rightarrow> Inr (CollectionCoverage.Known total_repos limit)))
           | None \<Rightarrow>
               (case raw_capped known of
                  Some capped \<Rightarrow>
                    (if capped \<noteq> derived_capped
                     then Inl (ContradictoryCapped capped derived_capped)
                     else Inr (CollectionCoverage.Known total_repos limit))
                | None \<Rightarrow> Inr (CollectionCoverage.Known total_repos limit))))"

definition CollectionCoverage_deserialize ::
  "('d \<Rightarrow> RawCoverageTagged option) \<Rightarrow> 'd \<Rightarrow> CoverageError + CollectionCoverage" where
  "CollectionCoverage_deserialize raw_deserialize d = (case raw_deserialize d of
     None \<Rightarrow> Inl SerdeError
   | Some raw \<Rightarrow> CollectionCoverage_from_raw raw)"

record AssessmentMetadata =
  meta_date :: string
  meta_organization :: string
  meta_schema_version :: string
  run_timestamp :: string
  meta_run_id :: string
  token_tier :: TokenTier
  token_scopes :: string
  auth_mode :: AuthMode
  rate_limit_warnings :: u32
  unavailable_capabilities :: "Capability list"
  inventory_fetched_at :: "string option"
  warm_start :: bool
  meta_coverage :: CollectionCoverage

subsection \<open>Runs\<close>

datatype RunStatus = InProgress | Completed

record RunMetadata =
  run_id :: string
  started_at :: Timestamp
  completed_at :: "Timestamp option"
  run_organization :: string
  run_schema_version :: string
  run_status :: RunStatus
  run_coverage :: CollectionCoverage

text \<open>\<open>write!(s, "{b:02x}")\<close>: two lowercase hexadecimal digits per byte.\<close>

definition hex_digit :: "u8 \<Rightarrow> char" where
  "hex_digit n = (if n < 10 then char_of (unat n + 48) else char_of (unat n - 10 + 97))"

definition generate_run_id :: "u8 list \<Rightarrow> string" where
  "generate_run_id bytes = fold (\<lambda>b s. s @ [hex_digit (drop_bit 4 b), hex_digit (b AND 15)]) bytes []"

definition decode_hex_nibble :: "char \<Rightarrow> u8 option" where
  "decode_hex_nibble c =
     (let k = of_char c :: nat
      in if 48 \<le> k \<and> k \<le> 57 then Some (of_nat (k - 48))
         else if 97 \<le> k \<and> k \<le> 102 then Some (of_nat (k - 97 + 10))
         else None)"

fun decode_hex_pairs :: "string \<Rightarrow> u8 list option" where
  "decode_hex_pairs [] = Some []"
| "decode_hex_pairs [_] = None"
| "decode_hex_pairs (a # b # rest) =
     (case (decode_hex_nibble a, decode_hex_nibble b, decode_hex_pairs rest) of
        (Some hi, Some lo, Some bytes) \<Rightarrow> Some ((push_bit 4 hi OR lo) # bytes)
      | _ \<Rightarrow> None)"

text \<open>The 16 bytes of the correlation identifier; \<open>None\<close> is the panic of the source.\<close>

definition RunMetadata_correlation_context :: "RunMetadata \<Rightarrow> u8 list option" where
  "RunMetadata_correlation_context run =
     (if length (run_id run) = 32 then decode_hex_pairs (run_id run) else None)"

definition RunMetadata_new :: "u8 list \<Rightarrow> Timestamp \<Rightarrow> string \<Rightarrow> string \<Rightarrow> RunMetadata" where
  "RunMetadata_new random now organization schema_version =
     \<lparr>run_id = generate_run_id random, started_at = now, completed_at = None,
      run_organization = organization, run_schema_version = schema_version,
      run_status = RunStatus.InProgress, run_coverage = CollectionCoverage.Unknown\<rparr>"

definition RunMetadata_complete :: "Timestamp \<Rightarrow> RunMetadata \<Rightarrow> RunMetadata" where
  "RunMetadata_complete now run =
     run\<lparr>completed_at := Some now, run_status := RunStatus.Completed\<rparr>"

definition RunMetadata_date :: "(string \<Rightarrow> Timestamp \<Rightarrow> string) \<Rightarrow> RunMetadata \<Rightarrow> string" where
  "RunMetadata_date strftime run = strftime ''%Y-%m-%d'' (started_at run)"

definition RunMetadata_timestamp :: "(string \<Rightarrow> Timestamp \<Rightarrow> string) \<Rightarrow> RunMetadata \<Rightarrow> string" where
  "RunMetadata_timestamp strftime run = strftime ''%Y-%m-%dT%H:%M:%S+00:00'' (started_at run)"

subsection \<open>Ordering of repositories\<close>

lemma cmp_simps [simp]:
  "cmp a b = Ordering.Equal \<longleftrightarrow> a = b"
  "cmp a b = Ordering.Less \<longleftrightarrow> a < b"
  "cmp a b = Ordering.Greater \<longleftrightarrow> b < a"
  by (auto simp: cmp_def)

lemma Repository_cmp_lex:
  "Repository_cmp a b = cmp (repo_id a, repo_name a) (repo_id b, repo_name b)"
  by (auto simp: Repository_cmp_def cmp_def less_prod_def' split: if_splits)

lemma Repository_eq_imp_cmp_Equal: "Repository_eq a b \<Longrightarrow> Repository_cmp a b = Ordering.Equal"
  by (simp add: Repository_eq_def Repository_cmp_lex)

subsection \<open>Ages\<close>

lemma sdiv_pos_ge_iff:
  fixes x c k :: int
  assumes "0 < c" and "0 < k"
  shows "k \<le> x sdiv c \<longleftrightarrow> k * c \<le> x"
proof (cases "0 \<le> x")
  case True
  then have "x sdiv c = x div c"
    using assms by (simp add: signed_divide_int_def sgn_if)
  moreover have "k \<le> x div c \<longleftrightarrow> k * c \<le> x"
  proof
    assume "k \<le> x div c"
    then have "k * c \<le> x div c * c"
      using assms by (simp add: mult_right_mono)
    also have "\<dots> \<le> x"
      using div_mult_mod_eq [of x c] pos_mod_sign [of c x] assms by linarith
    finally show "k * c \<le> x" .
  next
    assume "k * c \<le> x"
    from zdiv_mono1 [OF this assms(1)] show "k \<le> x div c"
      using assms by simp
  qed
  ultimately show ?thesis
    by simp
next
  case False
  then have "x sdiv c \<le> 0"
    using assms by (simp add: signed_divide_int_def sgn_if pos_imp_zdiv_nonneg_iff)
  moreover have "\<not> k * c \<le> x"
    using False mult_pos_pos [OF assms(2,1)] by linarith
  ultimately show ?thesis
    using assms by linarith
qed

lemma age_exceeds_iff:
  assumes "0 \<le> d"
  shows "d < max (duration_since_as_secs g u sdiv 86400) 0 \<longleftrightarrow>
    u + (d + 1) * 86400000000000 \<le> g"
proof -
  have "d < max (duration_since_as_secs g u sdiv 86400) 0 \<longleftrightarrow>
      d + 1 \<le> duration_since_as_secs g u sdiv 86400"
    using assms by (simp add: less_max_iff_disj) linarith
  also have "\<dots> \<longleftrightarrow> (d + 1) * 86400 * 1000000000 \<le> g - u"
    unfolding duration_since_as_secs_def using assms by (simp add: sdiv_pos_ge_iff)
  finally show ?thesis
    by (simp add: algebra_simps)
qed

text \<open>
  A repository is stale exactly when both timestamps parse and the run is at least 731 whole
  days after the last update; the Dependabot inactivity test is the same statement for the push
  time with 91 days. An unknown or unparseable timestamp is never stale.
\<close>

theorem staleness_is_a_duration:
  "(is_repo_stale parse updated run \<longleftrightarrow>
      (\<exists>u g. Option.bind updated (parse_iso8601 parse) = Some u \<and>
         parse_iso8601 parse run = Some g \<and> u + 731 * 86400000000000 \<le> g)) \<and>
   (is_dependabot_inactive parse pushed run \<longleftrightarrow>
      (\<exists>u g. Option.bind pushed (parse_iso8601 parse) = Some u \<and>
         parse_iso8601 parse run = Some g \<and> u + 91 * 86400000000000 \<le> g))"
proof
  show "is_repo_stale parse updated run \<longleftrightarrow>
      (\<exists>u g. Option.bind updated (parse_iso8601 parse) = Some u \<and>
         parse_iso8601 parse run = Some g \<and> u + 731 * 86400000000000 \<le> g)"
    unfolding is_repo_stale_def STALE_THRESHOLD_DAYS_def
    using age_exceeds_iff [of 730] by (simp split: option.split)
  show "is_dependabot_inactive parse pushed run \<longleftrightarrow>
      (\<exists>u g. Option.bind pushed (parse_iso8601 parse) = Some u \<and>
         parse_iso8601 parse run = Some g \<and> u + 91 * 86400000000000 \<le> g)"
    unfolding is_dependabot_inactive_def DEPENDABOT_INACTIVITY_THRESHOLD_DAYS_def
    using age_exceeds_iff [of 90] by (simp split: option.split)
qed

subsection \<open>Completeness and read state\<close>

lemma observed_timestamps_exist:
  "list_ex (\<lambda>stamp. stamp \<noteq> None) (observed_check_timestamps c) \<longleftrightarrow>
     SecurityPolicyResult_status (security_policy c) \<in>
       {SecurityPolicyStatus.Pass, SecurityPolicyStatus.Fail} \<or>
     SecretScanningResult_status (secret_scanning c) \<in>
       {SecretScanningStatus.Enabled, SecretScanningStatus.Disabled} \<or>
     dependabot_status (dependabot_security_updates c) \<noteq> DependabotStatus.Unknown \<or>
     BranchProtectionResult_is_observed (branch_protection c) \<or>
     CodeownersResult_status (codeowners c) \<noteq> CodeownersStatus.Unknown"
  by (simp add: observed_check_timestamps_def then_some_def)

lemma read_state_Observed_iff:
  "RepositoryReadState_from_checks c = RepositoryReadState.Observed \<longleftrightarrow>
     list_ex (\<lambda>stamp. stamp \<noteq> None) (observed_check_timestamps c)"
  unfolding RepositoryReadState_from_checks_def Let_def
  by (simp split: bool.split)

text \<open>
  Complete evidence has been observed: evidence that the anti-downgrade rule treats as complete
  is in read state \<open>Observed\<close>, and each of its five checks is scored, except that a policy may be
  inapplicable and that secret scanning may have been refused for lack of permission.
\<close>

theorem complete_evidence_is_observed:
  assumes "RepositoryEvidence_is_complete e"
  shows "RepositoryReadState_from_checks (checks e) = RepositoryReadState.Observed \<and>
    (SecurityPolicyResult_status (security_policy (checks e)) = SecurityPolicyStatus.NotApplicable \<or>
     ScoreCategory_of_policy (security_policy (checks e)) \<in> {ScoreCategory.Pass, ScoreCategory.Fail}) \<and>
    (SecretScanningResult_status (secret_scanning (checks e)) = SecretScanningStatus.PermissionDenied \<or>
     ScoreCategory_of_secret_scanning (secret_scanning (checks e))
       \<in> {ScoreCategory.Pass, ScoreCategory.Fail}) \<and>
    ScoreCategory_of_dependabot_status (dependabot_status (dependabot_security_updates (checks e)))
      \<in> {ScoreCategory.Pass, ScoreCategory.Fail} \<and>
    BranchProtectionResult_score_category (branch_protection (checks e))
      \<in> {ScoreCategory.Pass, ScoreCategory.Fail} \<and>
    ScoreCategory_of_codeowners (codeowners (checks e)) \<in> {ScoreCategory.Pass, ScoreCategory.Fail}"
proof (intro conjI)
  note c = assms [unfolded RepositoryEvidence_is_complete_def]
  show "RepositoryReadState_from_checks (checks e) = RepositoryReadState.Observed"
    unfolding read_state_Observed_iff observed_timestamps_exist using c by simp
  show "SecurityPolicyResult_status (security_policy (checks e)) = SecurityPolicyStatus.NotApplicable \<or>
     ScoreCategory_of_policy (security_policy (checks e)) \<in> {ScoreCategory.Pass, ScoreCategory.Fail}"
    using c by (cases "SecurityPolicyResult_status (security_policy (checks e))")
      (simp_all add: status_simps)
  show "SecretScanningResult_status (secret_scanning (checks e)) = SecretScanningStatus.PermissionDenied \<or>
     ScoreCategory_of_secret_scanning (secret_scanning (checks e))
       \<in> {ScoreCategory.Pass, ScoreCategory.Fail}"
    using c by (cases "SecretScanningResult_status (secret_scanning (checks e))")
      (simp_all add: status_simps)
  show "ScoreCategory_of_dependabot_status (dependabot_status (dependabot_security_updates (checks e)))
      \<in> {ScoreCategory.Pass, ScoreCategory.Fail}"
    using c by (cases "dependabot_status (dependabot_security_updates (checks e))")
      (simp_all add: status_simps)
  show "BranchProtectionResult_score_category (branch_protection (checks e))
      \<in> {ScoreCategory.Pass, ScoreCategory.Fail}"
    using c by (simp add: status_simps)
  show "ScoreCategory_of_codeowners (codeowners (checks e)) \<in> {ScoreCategory.Pass, ScoreCategory.Fail}"
    using c by (cases "CodeownersResult_status (codeowners (checks e))")
      (simp_all add: status_simps)
qed

text \<open>Concrete evidence for evaluating the model, and its variant without permission.\<close>

definition sample_repository :: "string \<Rightarrow> Repository" where
  "sample_repository n =
     \<lparr>repo_id = n, repo_node_id = None, repo_name = n, visibility = Visibility.Public,
      repo_language = None, default_branch = ''main'', archived = False, inventory_key = n,
      updated_at = UpdatedAt_new ''2024-01-01T00:00:00Z'', has_issues = True, pushed_at = None,
      created_at = None, repo_description = None, repo_fork = False, repo_is_empty = False,
      html_url = None, repo_topics = [], license_spdx = None\<rparr>"

definition sample_checks :: "SecretScanningResult \<Rightarrow> RepositoryChecks" where
  "sample_checks s =
     \<lparr>security_policy = SecurityPolicyResult.EnabledBySetting ''t'', secret_scanning = s,
      dependabot_security_updates =
        \<lparr>dependabot_status = DependabotStatus.Paused, dependabot_reason = None,
         dependabot_timestamp = ''t''\<rparr>,
      branch_protection = BranchProtectionResult.Protected ''main'' ''t'',
      codeowners = CodeownersResult.Absent ''t''\<rparr>"

definition sample_evidence :: "string \<Rightarrow> SecretScanningResult \<Rightarrow> RepositoryEvidence" where
  "sample_evidence n s =
     \<lparr>repository = sample_repository n, checks = sample_checks s, last_commit = None,
      repo_details_not_modified = False\<rparr>"

theorem complete_evidence_is_observed_witness:
  "RepositoryReadState_from_checks (checks (sample_evidence ''r''
     (SecretScanningResult_unobservable SecretScanningFailureReason.PermissionDenied ''t''))) =
   RepositoryReadState.Observed"
proof -
  have "RepositoryEvidence_is_complete (sample_evidence ''r''
     (SecretScanningResult_unobservable SecretScanningFailureReason.PermissionDenied ''t''))"
    by (simp add: RepositoryEvidence_is_complete_def sample_evidence_def sample_checks_def
        SecretScanningResult_unobservable_def is_permission_reason_def)
  from complete_evidence_is_observed [OF this] show ?thesis by blast
qed

text \<open>
  Completeness does not mean that every check resolved to a definite status: evidence whose
  secret-scanning check was refused for lack of permission still counts as complete, although a
  refused branch-protection check does not.
\<close>

theorem complete_without_secret_scanning_permission:
  "RepositoryEvidence_is_complete (sample_evidence n
     (SecretScanningResult_unobservable SecretScanningFailureReason.PermissionDenied t)) \<and>
   SecretScanningResult_status
     (SecretScanningResult_unobservable SecretScanningFailureReason.PermissionDenied t) =
     SecretScanningStatus.PermissionDenied \<and>
   \<not> RepositoryEvidence_is_complete (sample_evidence n s
       \<lparr>checks := sample_checks s\<lparr>branch_protection :=
          BranchProtectionResult.Unobservable ''main'' IndeterminateReason.PermissionDenied h t\<rparr>\<rparr>)"
  by (simp add: RepositoryEvidence_is_complete_def sample_evidence_def sample_checks_def
      SecretScanningResult_unobservable_def is_permission_reason_def)

subsection \<open>Coverage\<close>

text \<open>
  What the generated decoder \<open>RawCoverageTagged::deserialize\<close> is relied on for: on the fields that
  the encoder writes it returns the tagged raw record with the same values.
\<close>

definition raw_decoder_ok ::
  "((string \<times> SerValue) list \<Rightarrow> RawCoverageTagged option) \<Rightarrow> bool" where
  "raw_decoder_ok raw_deserialize \<longleftrightarrow>
     raw_deserialize [(''status'', SerStr ''unknown'')] = Some RawCoverageTagged.Unknown \<and>
     (\<forall>t l s c. l \<noteq> 0 \<longrightarrow>
        raw_deserialize [(''status'', SerStr ''known''), (''total'', SerU64 t), (''limit'', SerU64 l),
          (''selected'', SerU64 s), (''capped'', SerBool c)] =
        Some (RawCoverageTagged.Known
          \<lparr>raw_total = t, raw_limit = l, raw_selected = Some s, raw_capped = Some c\<rparr>))"

lemma from_raw_Known_iff:
  "CollectionCoverage_from_raw (RawCoverageTagged.Known k) =
     Inr (CollectionCoverage.Known (raw_total k) (raw_limit k)) \<longleftrightarrow>
   raw_selected k \<in> {None, Some (min (raw_total k) (raw_limit k))} \<and>
   raw_capped k \<in> {None, Some (raw_limit k < raw_total k)}"
  by (auto simp: CollectionCoverage_from_raw_def Let_def split: option.split)

lemma from_raw_Known_cases:
  "CollectionCoverage_from_raw (RawCoverageTagged.Known k) =
     Inr (CollectionCoverage.Known (raw_total k) (raw_limit k)) \<or>
   (\<exists>err. CollectionCoverage_from_raw (RawCoverageTagged.Known k) = Inl err)"
  by (auto simp: CollectionCoverage_from_raw_def Let_def split: option.split)

text \<open>
  Coverage survives a write and a read: decoding the fields that the encoder writes gives the
  same coverage back, for every coverage with a non-zero limit.
\<close>

theorem coverage_round_trip:
  assumes "raw_decoder_ok raw_deserialize" and "coverage_ok c"
  shows "CollectionCoverage_deserialize raw_deserialize (CollectionCoverage_serialize c) = Inr c"
  using assms
  by (cases c) (auto simp: raw_decoder_ok_def CollectionCoverage_deserialize_def
      CollectionCoverage_from_raw_def Let_def)

text \<open>A decoder that reads exactly the fields by position satisfies the assumption.\<close>

fun sample_raw_decoder :: "(string \<times> SerValue) list \<Rightarrow> RawCoverageTagged option" where
  "sample_raw_decoder [(k1, SerStr v)] =
     (if k1 = ''status'' \<and> v = ''unknown'' then Some RawCoverageTagged.Unknown else None)"
| "sample_raw_decoder [(k1, SerStr v), (k2, SerU64 t), (k3, SerU64 l), (k4, SerU64 s), (k5, SerBool c)] =
     (if k1 = ''status'' \<and> v = ''known'' \<and> k2 = ''total'' \<and> k3 = ''limit'' \<and> l \<noteq> 0 \<and>
         k4 = ''selected'' \<and> k5 = ''capped''
      then Some (RawCoverageTagged.Known
        \<lparr>raw_total = t, raw_limit = l, raw_selected = Some s, raw_capped = Some c\<rparr>)
      else None)"
| "sample_raw_decoder _ = None"

theorem coverage_round_trip_witness:
  "CollectionCoverage_deserialize sample_raw_decoder
     (CollectionCoverage_serialize (CollectionCoverage.Known 7 5)) =
   Inr (CollectionCoverage.Known 7 5)"
  by (rule coverage_round_trip) (simp_all add: raw_decoder_ok_def)

text \<open>
  A raw record is accepted exactly when each derived field it carries agrees with the total and
  the limit; otherwise decoding fails, so a stored \<open>selected\<close> or \<open>capped\<close> can never contradict the
  bounds it is derived from.
\<close>

theorem contradictory_coverage_rejected:
  "(\<exists>c. CollectionCoverage_from_raw (RawCoverageTagged.Known k) = Inr c) \<longleftrightarrow>
     (case raw_selected k of None \<Rightarrow> True
      | Some s \<Rightarrow> Some s = CollectionCoverage_selected
          (CollectionCoverage.Known (raw_total k) (raw_limit k))) \<and>
     (case raw_capped k of None \<Rightarrow> True
      | Some b \<Rightarrow> b = CollectionCoverage_is_capped
          (CollectionCoverage.Known (raw_total k) (raw_limit k)))"
proof -
  have "(\<exists>c. CollectionCoverage_from_raw (RawCoverageTagged.Known k) = Inr c) \<longleftrightarrow>
      CollectionCoverage_from_raw (RawCoverageTagged.Known k) =
        Inr (CollectionCoverage.Known (raw_total k) (raw_limit k))"
    using from_raw_Known_cases [of k] by auto
  also have "\<dots> \<longleftrightarrow> raw_selected k \<in> {None, Some (min (raw_total k) (raw_limit k))} \<and>
      raw_capped k \<in> {None, Some (raw_limit k < raw_total k)}"
    by (rule from_raw_Known_iff)
  finally show ?thesis
    by (auto split: option.split)
qed

subsection \<open>Run identifiers\<close>

lemma hex_digit_round_trip: "unat n < 16 \<Longrightarrow> decode_hex_nibble (hex_digit n) = Some n"
  by (auto simp: decode_hex_nibble_def hex_digit_def Let_def word_less_nat_alt of_char_of
      intro: word_eq_by_unat)

lemma nibbles: "unat (drop_bit 4 b) < 16" "unat (b AND 15 :: u8) < 16"
proof -
  have "unat b < 256" using unsigned_less [of b, where ?'a = nat] by simp
  then show "unat (drop_bit 4 b) < 16"
    by (simp add: drop_bit_eq_div unat_div less_mult_imp_div_less)
  have "b AND 15 = take_bit 4 b"
    by (simp add: take_bit_eq_mask mask_eq_exp_minus_1)
  then show "unat (b AND 15) < 16"
    by (simp add: take_bit_eq_mod unat_mod)
qed

lemma join_nibbles: "push_bit 4 (drop_bit 4 b) OR (b AND 15) = (b :: u8)"
proof -
  have "b AND 15 = take_bit 4 b"
    by (simp add: take_bit_eq_mask mask_eq_exp_minus_1)
  then show ?thesis
    by (auto intro!: bit_eqI simp: bit_or_iff bit_push_bit_iff bit_drop_bit_eq bit_take_bit_iff
        not_less dest: bit_imp_le_length)
qed

lemma generate_run_id_eq:
  "generate_run_id bytes = concat (map (\<lambda>b. [hex_digit (drop_bit 4 b), hex_digit (b AND 15)]) bytes)"
proof -
  have "fold (\<lambda>b s. s @ [hex_digit (drop_bit 4 b), hex_digit (b AND 15)]) bytes acc =
      acc @ concat (map (\<lambda>b. [hex_digit (drop_bit 4 b), hex_digit (b AND 15)]) bytes)" for acc
    by (induction bytes arbitrary: acc) simp_all
  then show ?thesis by (simp add: generate_run_id_def)
qed

lemma decode_generate: "decode_hex_pairs (generate_run_id bytes) = Some bytes"
  unfolding generate_run_id_eq
  by (induction bytes) (simp_all add: hex_digit_round_trip nibbles join_nibbles)

lemma length_generate: "length (generate_run_id bytes) = 2 * length bytes"
  unfolding generate_run_id_eq by (induction bytes) simp_all

text \<open>
  The correlation identifier of a run is its random seed: projecting a freshly created run, even
  after it completed, never panics and returns the 16 bytes the identifier was made from, so distinct
  seeds give distinct correlation identifiers.
\<close>

theorem correlation_context_round_trip:
  assumes "length bytes = 16"
  shows "RunMetadata_correlation_context (RunMetadata_new bytes now org v) = Some bytes \<and>
    RunMetadata_correlation_context (RunMetadata_complete later (RunMetadata_new bytes now org v)) =
      Some bytes"
  using assms by (simp add: RunMetadata_correlation_context_def RunMetadata_new_def
      RunMetadata_complete_def decode_generate length_generate)

theorem correlation_context_round_trip_witness:
  "RunMetadata_correlation_context
     (RunMetadata_new [0, 1, 2, 3, 4, 5, 6, 7, 8, 9, 10, 11, 12, 253, 254, 255] 0 ''o'' ''1'') =
   Some [0, 1, 2, 3, 4, 5, 6, 7, 8, 9, 10, 11, 12, 253, 254, 255]"
  using correlation_context_round_trip
    [of "[0, 1, 2, 3, 4, 5, 6, 7, 8, 9, 10, 11, 12, 253, 254, 255]" 0 "''o''" "''1''" 0]
  by simp

end
