(* ===== verification/F64.thy ===== *)
theory F64
  imports Gh_Prelude "HOL-Library.Log_Nat"
begin

text \<open>
  The binary64 arithmetic behind \<open>RateMetric\<close>. A finite non-negative \<open>f64\<close> is the rational number it
  denotes; division and multiplication are the exact operation followed by rounding to 53 significant
  bits, ties to even. Every value that occurs lies between \<open>2 powi -32\<close> and \<open>2 powi 42\<close> or is zero, so
  the model leaves out subnormal numbers and overflow. The lemmas bound the relative error of one
  rounding step and show that small integers are exact.
\<close>

type_synonym f64 = rat

text \<open>The exponent of the leading bit of a positive number.\<close>

definition ilog2 :: "rat \<Rightarrow> int" where
  "ilog2 q = (let (n, d) = quotient_of q; k = bitlen n - bitlen d
     in if 2 powi k \<le> q then k else k - 1)"

definition round_ties_even :: "rat \<Rightarrow> int" where
  "round_ties_even q = (let f = \<lfloor>q\<rfloor>; r = q - of_int f
     in if r < 1 / 2 then f else if 1 / 2 < r then f + 1 else if even f then f else f + 1)"

definition f64_nearest :: "rat \<Rightarrow> f64" where
  "f64_nearest q = (if q = 0 then 0
     else let e = ilog2 q - 52 in of_int (round_ties_even (q / 2 powi e)) * 2 powi e)"

definition f64_div :: "f64 \<Rightarrow> f64 \<Rightarrow> f64" where
  "f64_div a b = f64_nearest (a / b)"

definition f64_mul :: "f64 \<Rightarrow> f64 \<Rightarrow> f64" where
  "f64_mul a b = f64_nearest (a * b)"

text \<open>\<open>f64::round\<close>: to the nearest integer, halves away from zero; on non-negative input.\<close>

definition f64_round :: "f64 \<Rightarrow> f64" where
  "f64_round q = of_int \<lfloor>q + 1 / 2\<rfloor>"

subsection \<open>Decimal output\<close>

fun show_nat :: "nat \<Rightarrow> string" where
  "show_nat n = (if n < 10 then [char_of (n + 48)]
     else show_nat (n div 10) @ [char_of (n mod 10 + 48)])"

declare show_nat.simps [simp del]

text \<open>\<open>{:.0}\<close> and \<open>{:.1}\<close> of the standard formatter: the exact value rounded, ties to even.\<close>

definition fmt_f64_0 :: "f64 \<Rightarrow> string" where
  "fmt_f64_0 q = show_nat (nat (round_ties_even q))"

definition fmt_f64_1 :: "f64 \<Rightarrow> string" where
  "fmt_f64_1 q = (let t = nat (round_ties_even (q * 10))
     in show_nat (t div 10) @ ''.'' @ show_nat (t mod 10))"

subsection \<open>Rounding to an integer\<close>

lemma round_ties_even_error: "\<bar>of_int (round_ties_even q) - q\<bar> \<le> 1 / 2"
proof -
  have "of_int \<lfloor>q\<rfloor> \<le> q" "q < of_int \<lfloor>q\<rfloor> + 1"
    using floor_correct [of q] by simp_all
  then show ?thesis
    by (auto simp: round_ties_even_def Let_def abs_le_iff)
qed

lemma round_ties_even_unique:
  assumes "\<bar>q - of_int t\<bar> < 1 / 2"
  shows "round_ties_even q = t"
proof -
  have "\<bar>of_int (round_ties_even q) - of_int t\<bar> < (1 :: rat)"
    using round_ties_even_error [of q] assms by linarith
  then have "of_int \<bar>round_ties_even q - t\<bar> < (1 :: rat)"
    by simp
  then have "\<bar>round_ties_even q - t\<bar> < 1"
    by (simp only: of_int_less_1_iff)
  then show ?thesis by simp
qed

lemma round_ties_even_of_int [simp]: "round_ties_even (of_int t) = t"
  by (rule round_ties_even_unique) simp

lemma f64_round_error: "\<bar>f64_round q - q\<bar> \<le> 1 / 2"
proof -
  have "of_int \<lfloor>q + 1 / 2\<rfloor> \<le> q + 1 / 2" "q + 1 / 2 < of_int \<lfloor>q + 1 / 2\<rfloor> + 1"
    using floor_correct [of "q + 1 / 2"] by simp_all
  then show ?thesis
    unfolding f64_round_def abs_le_iff by linarith
qed

subsection \<open>Rounding to 53 bits\<close>

lemma bitlen_bounds_rat:
  assumes "0 < n"
  shows "2 powi (bitlen n - 1) \<le> (of_int n :: rat) \<and> (of_int n :: rat) < 2 powi bitlen n"
proof -
  have b: "2 ^ nat (bitlen n - 1) \<le> n" "n < 2 ^ nat (bitlen n)"
    using bitlen_bounds [OF assms] by auto
  have "0 < bitlen n" using bitlen_bounds [OF assms] assms
    by (cases "bitlen n \<le> 0") auto
  then have "0 \<le> bitlen n - 1" "0 \<le> bitlen n" by simp_all
  moreover have "(of_int (2 ^ nat (bitlen n - 1)) :: rat) \<le> of_int n"
    using b(1) by (simp only: of_int_le_iff)
  moreover have "(of_int n :: rat) < of_int (2 ^ nat (bitlen n))"
    using b(2) by (simp only: of_int_less_iff)
  ultimately show ?thesis
    by (simp add: power_int_def)
qed

lemma ilog2_bounds:
  assumes "0 < q"
  shows "2 powi ilog2 q \<le> q" "q < 2 powi (ilog2 q + 1)"
proof -
  obtain n d where nd: "quotient_of q = (n, d)" by (cases "quotient_of q")
  then have q: "q = of_int n / of_int d" and d: "0 < d"
    by (simp_all add: quotient_of_div quotient_of_denom_pos)
  with assms have n: "0 < n"
    by (simp add: zero_less_divide_iff)
  define k where "k = bitlen n - bitlen d"
  note bn = bitlen_bounds_rat [OF n] and bd = bitlen_bounds_rat [OF d]
  have "2 powi (k - 1) \<le> q"
  proof -
    have "2 powi (k - 1) * of_int d \<le> (2 powi (k - 1) * 2 powi bitlen d :: rat)"
      using bd by (intro mult_left_mono) auto
    also have "\<dots> = 2 powi (bitlen n - 1)"
      by (simp add: k_def flip: power_int_add)
    also have "\<dots> \<le> of_int n" using bn by blast
    finally show ?thesis using d by (simp add: q pos_le_divide_eq)
  qed
  moreover have "q < 2 powi (k + 1)"
  proof -
    have "(of_int n :: rat) < 2 powi bitlen n" using bn by blast
    also have "\<dots> = 2 powi (k + 1) * 2 powi (bitlen d - 1)"
      by (simp add: k_def flip: power_int_add)
    also have "\<dots> \<le> 2 powi (k + 1) * of_int d"
      using bd by (intro mult_left_mono) auto
    finally show ?thesis using d by (simp add: q pos_divide_less_eq)
  qed
  ultimately show "2 powi ilog2 q \<le> q" "q < 2 powi (ilog2 q + 1)"
    by (auto simp: ilog2_def nd Let_def k_def)
qed

lemma f64_nearest_error:
  assumes "0 \<le> q"
  shows "\<bar>f64_nearest q - q\<bar> \<le> q / 2 ^ 53"
proof (cases "q = 0")
  case False
  with assms have q: "0 < q" by simp
  define e where "e = ilog2 q - 52"
  define m where "m = q / 2 powi e"
  have "q = m * 2 powi e" by (simp add: m_def)
  moreover have "f64_nearest q = of_int (round_ties_even m) * 2 powi e"
    using False by (simp add: f64_nearest_def Let_def e_def m_def)
  ultimately have "f64_nearest q - q = (of_int (round_ties_even m) - m) * 2 powi e"
    by (simp add: left_diff_distrib)
  then have "\<bar>f64_nearest q - q\<bar> = \<bar>of_int (round_ties_even m) - m\<bar> * 2 powi e"
    by (simp add: abs_mult)
  also have "\<dots> \<le> 1 / 2 * 2 powi e"
    by (intro mult_right_mono round_ties_even_error) simp
  also have "\<dots> = 2 powi ilog2 q / 2 ^ 53"
    by (simp add: e_def power_int_diff)
  also have "\<dots> \<le> q / 2 ^ 53"
    using ilog2_bounds(1) [OF q] by (simp add: divide_right_mono)
  finally show ?thesis .
qed (simp add: f64_nearest_def)

lemma f64_nearest_int:
  assumes "0 \<le> k" and "k < 2 ^ 53"
  shows "f64_nearest (of_int k) = of_int k"
proof (cases "k = 0")
  case False
  with assms have k: "0 < (of_int k :: rat)" by simp
  have "(2 :: rat) powi ilog2 (of_int k) < 2 powi 53"
    using ilog2_bounds(1) [OF k] assms by (simp add: order.strict_trans1)
  then have "ilog2 (of_int k) < 53"
    using power_int_increasing [of 53 "ilog2 (of_int k)" "2 :: rat"] by fastforce
  then have "ilog2 (of_int k) - 52 \<le> 0" by simp
  then obtain j where j: "ilog2 (of_int k) - 52 = - int j"
    by (metis minus_minus neg_0_le_iff_le nonneg_int_cases)
  have "of_int k / 2 powi (ilog2 (of_int k) - 52) = (of_int (k * 2 ^ j) :: rat)"
    unfolding j by (simp add: power_int_minus divide_inverse)
  then have "f64_nearest (of_int k) = of_int (k * 2 ^ j) * 2 powi (ilog2 (of_int k) - 52)"
    using False by (simp only: f64_nearest_def Let_def round_ties_even_of_int of_int_eq_0_iff if_False)
  then show ?thesis
    unfolding j by (simp add: power_int_minus)
qed (simp add: f64_nearest_def)

subsection \<open>A percentage with one decimal\<close>

text \<open>\<open>(n / d * 1000.0).round() / 10.0\<close>; \<open>rate_tenths\<close> is the integer before the last division.\<close>

definition rate_tenths :: "nat \<Rightarrow> nat \<Rightarrow> int" where
  "rate_tenths n d = \<lfloor>f64_mul (f64_div (of_nat n) (of_nat d)) 1000 + 1 / 2\<rfloor>"

definition rate_percent :: "nat \<Rightarrow> nat \<Rightarrow> f64" where
  "rate_percent n d =
     f64_div (f64_round (f64_mul (f64_div (of_nat n) (of_nat d)) 1000)) 10"

lemma rate_percent_tenths: "rate_percent n d = f64_nearest (of_int (rate_tenths n d) / 10)"
  by (simp add: rate_percent_def rate_tenths_def f64_round_def f64_div_def)

lemma scaled_error:
  fixes q :: rat
  assumes "0 \<le> q" and "q \<le> 1"
  shows "\<bar>f64_mul (f64_nearest q) 1000 - 1000 * q\<bar> \<le> 1 / 2 ^ 40"
proof -
  define a where "a = f64_nearest q"
  have a: "\<bar>a - q\<bar> \<le> 1 / 2 ^ 53"
    using f64_nearest_error [OF assms(1)] assms(2) by (simp add: a_def)
  have "\<bar>a - q\<bar> \<le> q"
    using f64_nearest_error [OF assms(1)] assms(1) unfolding a_def by (simp add: field_simps)
  then have nonneg: "0 \<le> a" by linarith
  have "\<bar>f64_mul a 1000 - a * 1000\<bar> \<le> a * 1000 / 2 ^ 53"
    unfolding f64_mul_def by (rule f64_nearest_error) (simp add: nonneg)
  moreover have "a * 1000 / 2 ^ 53 \<le> 2000 / 2 ^ 53"
  proof -
    have "1 / 2 ^ 53 \<le> (1 :: rat)" by simp
    with a assms(2) have "a \<le> 2" by linarith
    then show ?thesis by simp
  qed
  moreover have "\<bar>a * 1000 - 1000 * q\<bar> \<le> 1000 / 2 ^ 53"
  proof -
    have "a * 1000 - 1000 * q = 1000 * (a - q)" by simp
    then have "\<bar>a * 1000 - 1000 * q\<bar> = 1000 * \<bar>a - q\<bar>"
      by (simp only: abs_mult abs_numeral)
    then show ?thesis using a by simp
  qed
  ultimately have "\<bar>f64_mul a 1000 - 1000 * q\<bar> \<le> 3000 / 2 ^ 53" by linarith
  also have "\<dots> \<le> 1 / 2 ^ 40" by simp
  finally show ?thesis by (simp add: a_def)
qed

lemma rate_tenths_accurate:
  assumes "n \<le> d" and "0 < d"
  shows "\<bar>of_int (rate_tenths n d) - 1000 * (of_nat n / of_nat d)\<bar> \<le> 1 / 2 + (1 / 2 ^ 40 :: rat)"
proof -
  define q where "q = (of_nat n / of_nat d :: rat)"
  have "0 \<le> q" "q \<le> 1" using assms by (simp_all add: q_def)
  from scaled_error [OF this] have "\<bar>f64_mul (f64_div (of_nat n) (of_nat d)) 1000 - 1000 * q\<bar> \<le> 1 / 2 ^ 40"
    by (simp add: q_def f64_div_def)
  moreover have "\<bar>of_int (rate_tenths n d) - f64_mul (f64_div (of_nat n) (of_nat d)) 1000\<bar> \<le> 1 / 2"
    using f64_round_error [of "f64_mul (f64_div (of_nat n) (of_nat d)) 1000"]
    by (simp only: rate_tenths_def f64_round_def)
  ultimately show ?thesis
    unfolding q_def by linarith
qed

lemma rate_tenths_range:
  assumes "n \<le> d" and "0 < d"
  shows "0 \<le> rate_tenths n d" "rate_tenths n d \<le> 1000"
proof -
  have q: "0 \<le> (of_nat n / of_nat d :: rat)" "(of_nat n / of_nat d :: rat) \<le> 1"
    using assms by simp_all
  have small: "1 / 2 ^ 40 \<le> (1 / 4 :: rat)" by simp
  from rate_tenths_accurate [OF assms] q small have "(- 1 :: rat) < of_int (rate_tenths n d)"
    by linarith
  moreover from rate_tenths_accurate [OF assms] q small
  have "of_int (rate_tenths n d) < (1001 :: rat)"
    by linarith
  ultimately have "of_int (- 1) < (of_int (rate_tenths n d) :: rat)"
    "of_int (rate_tenths n d) < (of_int 1001 :: rat)"
    by simp_all
  then have "- 1 < rate_tenths n d" "rate_tenths n d < 1001"
    by (simp_all only: of_int_less_iff)
  then show "0 \<le> rate_tenths n d" "rate_tenths n d \<le> 1000" by simp_all
qed

lemma tenths_to_f64:
  assumes "0 \<le> t" and "t \<le> 1000"
  shows "\<bar>f64_nearest (of_int t / 10) - of_int t / 10\<bar> \<le> 1 / 2 ^ 46"
    and "0 \<le> f64_nearest (of_int t / 10)" and "f64_nearest (of_int t / 10) \<le> 100"
proof -
  have t: "0 \<le> (of_int t :: rat)" "(of_int t :: rat) \<le> 1000"
    using assms of_int_le_iff [of t 1000, where ?'a = rat] by simp_all
  have err: "\<bar>f64_nearest (of_int t / 10) - of_int t / 10\<bar> \<le> of_int t / 10 / 2 ^ 53"
    by (rule f64_nearest_error) (use t in simp)
  also have "\<dots> \<le> 1 / 2 ^ 46" using t by simp
  finally show bound: "\<bar>f64_nearest (of_int t / 10) - of_int t / 10\<bar> \<le> 1 / 2 ^ 46" .
  have "of_int t / 10 / 2 ^ 53 \<le> (of_int t / 10 :: rat)" using t by simp
  with err show "0 \<le> f64_nearest (of_int t / 10)" by linarith
  show "f64_nearest (of_int t / 10) \<le> 100"
  proof (cases "t = 1000")
    case True
    then show ?thesis using f64_nearest_int [of 100] by simp
  next
    case False
    with assms have "(of_int t :: rat) \<le> of_int 999" by (simp only: of_int_le_iff)
    then have "of_int t / 10 \<le> (999 / 10 :: rat)" by simp
    moreover have "1 / 2 ^ 46 \<le> (1 / 10 :: rat)" by simp
    ultimately show ?thesis using bound by linarith
  qed
qed

lemma fmt_tenths:
  assumes "0 \<le> t" and "t \<le> 1000"
  shows "fmt_f64_1 (f64_nearest (of_int t / 10)) =
    show_nat (nat t div 10) @ ''.'' @ show_nat (nat t mod 10)"
proof -
  have "\<bar>f64_nearest (of_int t / 10) * 10 - of_int t\<bar> < 1 / 2"
  proof -
    have "1 / 2 ^ 46 < (1 / 20 :: rat)" by simp
    with tenths_to_f64(1) [OF assms] show ?thesis by linarith
  qed
  from round_ties_even_unique [OF this] show ?thesis
    by (simp add: fmt_f64_1_def Let_def)
qed

end
