(* ===== verification/Metrics_Model.thy ===== *)
theory Metrics_Model
  imports Evidence_Model F64
begin

text \<open>
  The data of \<open>domain/metrics.rs\<close>: rate metrics, the per-control count records, owner metrics, team
  rosters and the owner-to-repository map built from parsed CODEOWNERS files. A \<open>HashMap\<close> that is
  only looked up is a map; the owner map, which is iterated, is an association list with distinct
  keys whose order stands for the unspecified iteration order. Unicode lower-casing is the
  parameter \<open>lower\<close>, and every result holds for whatever function it is. The extra fields of a rate
  metric are \<open>u32\<close> values, the only type the program stores there.
\<close>

subsection \<open>Rate metrics\<close>

record RateMetric =
  numerator :: u32
  denominator :: u32
  rate :: "f64 option"
  extra :: "string \<rightharpoonup> u32"

definition RateMetric_new :: "u32 \<Rightarrow> u32 \<Rightarrow> RateMetric" where
  "RateMetric_new n d =
     \<lparr>numerator = n, denominator = d,
      rate = (if 0 < d
        then Some (f64_div (f64_round (f64_mul (f64_div (of_nat (unat n)) (of_nat (unat d))) 1000)) 10)
        else None),
      extra = Map.empty\<rparr>"

definition RateMetric_with_extra :: "RateMetric \<Rightarrow> string \<Rightarrow> u32 \<Rightarrow> RateMetric" where
  "RateMetric_with_extra m key v =
     (if key = ''numerator'' \<or> key = ''denominator'' \<or> key = ''rate'' then m
      else m\<lparr>extra := (extra m)(key \<mapsto> v)\<rparr>)"

record RateMetricHelper =
  helper_numerator :: u32
  helper_denominator :: u32
  helper_extra :: "string \<rightharpoonup> u32"

definition RateMetric_deserialize :: "RateMetricHelper \<Rightarrow> RateMetric" where
  "RateMetric_deserialize helper =
     (RateMetric_new (helper_numerator helper) (helper_denominator helper))
       \<lparr>extra := helper_extra helper\<rparr>"

definition show_ratio :: "RateMetric \<Rightarrow> string" where
  "show_ratio m = ''('' @ show_nat (unat (numerator m)) @ ''/'' @ show_nat (unat (denominator m)) @ '')''"

definition RateMetric_to_table_string :: "RateMetric \<Rightarrow> string" where
  "RateMetric_to_table_string m = (case rate m of
     Some r \<Rightarrow> fmt_f64_0 r @ ''% '' @ show_ratio m
   | None \<Rightarrow> ''N/A '' @ show_ratio m)"

definition RateMetric_display :: "RateMetric \<Rightarrow> string" where
  "RateMetric_display m = (case rate m of
     Some r \<Rightarrow> fmt_f64_1 r @ ''% '' @ show_ratio m
   | None \<Rightarrow> ''N/A '' @ show_ratio m)"

subsection \<open>Count records\<close>

record PolicyCounts =
  via_setting :: u32
  via_file :: u32
  policy_unknown :: u32
  policy_missing :: u32

record SecretScanningCounts =
  secret_enabled :: u32
  secret_disabled :: u32
  secret_permission_denied :: u32
  secret_unknown :: u32

record DependabotCounts =
  dependabot_enabled :: u32
  dependabot_paused :: u32
  dependabot_disabled :: u32
  dependabot_unknown :: u32

record BranchProtectionCounts =
  branch_pass :: u32
  branch_fail :: u32
  branch_unknown :: u32

record CodeownersCounts =
  codeowners_conforming :: u32
  codeowners_non_conforming :: u32
  codeowners_absent :: u32
  codeowners_unknown :: u32
  codeowners_truncated :: u32

record SecretAlertCounts =
  repos_with_open_alerts :: u32
  repos_without_open_alerts :: u32
  alerts_unobservable :: u32

datatype CollectionHealthCheckKind =
  BranchProtection | SecretScanning | Dependabot | Codeowners | SecurityPolicy | Inventory | Rulesets

record CollectionHealthCount =
  health_check_kind :: CollectionHealthCheckKind
  health_reason :: CollectionFailureReason
  health_count :: u32

record ScoreExclusionCount =
  exclusion_check_kind :: CollectionHealthCheckKind
  exclusion_reason :: ExclusionReason
  exclusion_count :: u32

subsection \<open>Owners and teams\<close>

datatype OwnerType = Team | AmbiguousTeamShaped | User

definition OwnerType_display :: "OwnerType \<Rightarrow> string" where
  "OwnerType_display t = (case t of
     OwnerType.Team \<Rightarrow> ''Team''
   | OwnerType.AmbiguousTeamShaped \<Rightarrow> ''Ambiguous''
   | OwnerType.User \<Rightarrow> ''User'')"

record OwnerMetrics =
  owner :: string
  display_name :: string
  owner_type :: OwnerType
  owner_total_repos :: u32
  per_control_coverage :: "string \<rightharpoonup> RateMetric"
  owner_score_exclusion_counts :: "ScoreExclusionCount list"
  owner_in_org :: "bool option"

datatype TeamMemberRole = Maintainer | Member | Unknown

definition TeamMemberRole_display :: "TeamMemberRole \<Rightarrow> string" where
  "TeamMemberRole_display r = (case r of
     TeamMemberRole.Maintainer \<Rightarrow> ''Maintainer''
   | TeamMemberRole.Member \<Rightarrow> ''Member''
   | TeamMemberRole.Unknown \<Rightarrow> ''Unknown'')"

record TeamMember =
  login :: string
  member_role :: TeamMemberRole
  member_in_org :: "bool option"

datatype TeamRosterStatus = Complete | Deleted | PermissionDenied | TransientError

record TeamRoster =
  canonical_owner :: string
  team_slug :: string
  roster_status :: TeamRosterStatus
  members :: "TeamMember list"
  fetched_at :: "string option"

record AggregatedMetrics =
  security_policy_coverage :: RateMetric
  policy_counts :: PolicyCounts
  secret_scanning_coverage :: RateMetric
  secret_scanning_counts :: SecretScanningCounts
  dependabot_security_updates_coverage :: RateMetric
  dependabot_security_updates_counts :: DependabotCounts
  open_secret_alert_prevalence :: RateMetric
  secret_alert_counts :: SecretAlertCounts
  branch_protection_coverage :: RateMetric
  branch_protection_counts :: BranchProtectionCounts
  codeowners_coverage :: RateMetric
  codeowners_counts :: CodeownersCounts
  owner_metrics :: "OwnerMetrics list"
  collection_health_counts :: "CollectionHealthCount list"
  score_exclusion_counts :: "ScoreExclusionCount list"
  team_rosters :: "TeamRoster list"

text \<open>\<open>str::split_once('/')\<close>.\<close>

fun split_once :: "char \<Rightarrow> string \<Rightarrow> (string \<times> string) option" where
  "split_once c [] = None"
| "split_once c (x # xs) = (if x = c then Some ([], xs)
     else map_option (\<lambda>(a, b). (x # a, b)) (split_once c xs))"

definition GLOB_CHARS :: string where
  "GLOB_CHARS = ''*?[]!''"

definition team_slug_from_canonical_owner :: "string \<Rightarrow> string option" where
  "team_slug_from_canonical_owner owner_name = (case owner_name of
     [] \<Rightarrow> None
   | c # stripped \<Rightarrow>
       (if c \<noteq> CHR ''@'' then None
        else (case split_once CHR ''/'' stripped of
                None \<Rightarrow> None
              | Some (_, slug) \<Rightarrow>
                  then_some (slug \<noteq> [] \<and> list_all (\<lambda>x. x \<notin> set GLOB_CHARS) slug) slug)))"

definition is_wildcard_owner :: "string \<Rightarrow> bool" where
  "is_wildcard_owner owner_name \<longleftrightarrow>
     (owner_name \<noteq> [] \<and> hd owner_name = CHR ''@'') \<and> CHR ''/'' \<in> set owner_name \<and>
     team_slug_from_canonical_owner owner_name = None"

record CollectionStatistics =
  total_repos :: u32
  public_repos :: u32
  internal_repos :: u32
  private_repos :: u32
  archived_repos :: u32

record SecretScanningObservability =
  obs_collection_status :: CollectionStatus
  obs_collection_reason :: "string option"
  obs_total_open_secret_alerts :: u32
  obs_age_buckets :: "string \<rightharpoonup> u32"
  obs_oldest_open_secret_alert_created_at :: "string option"
  obs_newest_open_secret_alert_created_at :: "string option"
  status_mismatch_count :: u32
  observable_enabled_repositories :: u32
  unobservable_repositories :: u32

record RepoAlertSummary =
  open_alert_count :: u64
  oldest_open_alert_created_at :: "string option"
  newest_open_alert_created_at :: "string option"

record OrgAlertSummary =
  collection_status :: CollectionStatus
  collection_reason :: "string option"
  org_http_status :: "u16 option"
  per_repo :: "string \<rightharpoonup> RepoAlertSummary"
  open_secret_alert_age_buckets :: "(string \<times> u64) list"
  total_open_secret_alerts :: u64
  oldest_open_secret_alert_created_at :: "string option"
  newest_open_secret_alert_created_at :: "string option"

record OrgStateSnapshot =
  snapshot_archived_repos :: u32
  snapshot_assessment_metadata :: AssessmentMetadata
  snapshot_alert_summary :: OrgAlertSummary

subsection \<open>The owner-to-repository map\<close>

type_synonym OwnerRepoMap = "(string \<times> string \<times> RepositoryEvidence list) list"

text \<open>\<open>entry(key).or_insert_with(|| (owner.clone(), Vec::new())).1.push(repo)\<close>.\<close>

fun owner_entry_push ::
  "string \<Rightarrow> string \<Rightarrow> RepositoryEvidence \<Rightarrow> OwnerRepoMap \<Rightarrow> OwnerRepoMap" where
  "owner_entry_push key display repo [] = [(key, display, [repo])]"
| "owner_entry_push key display repo ((k, d, rs) # m) =
     (if k = key then (k, d, rs @ [repo]) # m else (k, d, rs) # owner_entry_push key display repo m)"

definition owner_map_step ::
  "(string \<Rightarrow> string) \<Rightarrow> RepositoryEvidence \<Rightarrow> OwnerRepoMap \<Rightarrow> OwnerRepoMap" where
  "owner_map_step lower repo m = (case CodeownersResult_parsed (codeowners (checks repo)) of
     None \<Rightarrow> m
   | Some parsed \<Rightarrow>
       fold (\<lambda>name. owner_entry_push (lower name) name repo) (unique_owners parsed) m)"

definition build_owner_repo_map ::
  "(string \<Rightarrow> string) \<Rightarrow> RepositoryEvidence list \<Rightarrow> OwnerRepoMap" where
  "build_owner_repo_map lower repositories =
     fold (owner_map_step lower) (filter (\<lambda>r. \<not> archived (repository r)) repositories) []"

definition team_owner_slugs ::
  "(string \<Rightarrow> string) \<Rightarrow> RepositoryEvidence list \<Rightarrow> (string \<times> string) list" where
  "team_owner_slugs lower repositories =
     sort (List.map_filter
       (\<lambda>canonical. map_option (\<lambda>slug. (canonical, slug)) (team_slug_from_canonical_owner canonical))
       (map fst (build_owner_repo_map lower repositories)))"

subsection \<open>Rates\<close>

lemma RateMetric_new_simps [simp]:
  "numerator (RateMetric_new n d) = n"
  "denominator (RateMetric_new n d) = d"
  "extra (RateMetric_new n d) = Map.empty"
  by (simp_all add: RateMetric_new_def)

lemma RateMetric_new_rate:
  "rate (RateMetric_new n d) = (if 0 < d then Some (rate_percent (unat n) (unat d)) else None)"
  by (simp add: RateMetric_new_def rate_percent_def)

lemma with_extra_simps [simp]:
  "numerator (RateMetric_with_extra m k v) = numerator m"
  "denominator (RateMetric_with_extra m k v) = denominator m"
  "rate (RateMetric_with_extra m k v) = rate m"
  by (simp_all add: RateMetric_with_extra_def)

lemma extra_with_extra:
  "extra (RateMetric_with_extra m k v) key =
     (if key = k \<and> k \<notin> {''numerator'', ''denominator'', ''rate''} then Some v else extra m key)"
  by (simp add: RateMetric_with_extra_def)

text \<open>
  C39. A rate is the percentage to one decimal: for a population of \<open>d\<close> with \<open>n\<close> hits there is a
  number \<open>t\<close> of tenths of a percent, at most 1000 and within half a tenth (plus floating-point noise
  below \<open>2 powi -40\<close>) of the exact value, such that the stored \<open>f64\<close> lies in the range 0 to 100
  and prints as exactly \<open>t\<close> tenths.
\<close>

theorem rate_is_one_decimal_percentage:
  assumes "n \<le> d" and "0 < d"
  shows "\<exists>r t. rate (RateMetric_new n d) = Some r \<and> 0 \<le> r \<and> r \<le> 100 \<and> t \<le> 1000 \<and>
    \<bar>of_nat t - 1000 * (of_nat (unat n) / of_nat (unat d))\<bar> \<le> 1 / 2 + (1 / 2 ^ 40 :: rat) \<and>
    RateMetric_display (RateMetric_new n d) =
      show_nat (t div 10) @ ''.'' @ show_nat (t mod 10) @ ''% '' @ show_ratio (RateMetric_new n d)"
proof -
  define t where "t = rate_tenths (unat n) (unat d)"
  have le: "unat n \<le> unat d" "0 < unat d"
    using assms by (simp_all add: word_le_nat_alt u32_pos_iff)
  have t: "0 \<le> t" "t \<le> 1000"
    using rate_tenths_range [OF le] by (simp_all add: t_def)
  have r: "rate (RateMetric_new n d) = Some (f64_nearest (of_int t / 10))"
    using assms(2) by (simp add: RateMetric_new_rate rate_percent_tenths t_def)
  have "\<bar>of_nat (nat t) - 1000 * (of_nat (unat n) / of_nat (unat d))\<bar> \<le> 1 / 2 + (1 / 2 ^ 40 :: rat)"
    using rate_tenths_accurate [OF le] t(1) by (simp add: t_def)
  moreover have "RateMetric_display (RateMetric_new n d) =
      show_nat (nat t div 10) @ ''.'' @ show_nat (nat t mod 10) @ ''% '' @ show_ratio (RateMetric_new n d)"
    by (simp add: RateMetric_display_def r fmt_tenths [OF t])
  ultimately show ?thesis
    using r tenths_to_f64(2,3) [OF t] t(2) by (intro exI [of _ "nat t"] exI) auto
qed

theorem rate_is_one_decimal_percentage_witness:
  "(2 :: u32) \<le> 3 \<and> (0 :: u32) < 3 \<and>
   (\<exists>r t. rate (RateMetric_new 2 3) = Some r \<and> 0 \<le> r \<and> r \<le> 100 \<and> t \<le> 1000 \<and>
    \<bar>of_nat t - 1000 * (of_nat (unat (2 :: u32)) / of_nat (unat (3 :: u32)))\<bar> \<le> 1 / 2 + (1 / 2 ^ 40 :: rat) \<and>
    RateMetric_display (RateMetric_new 2 3) =
      show_nat (t div 10) @ ''.'' @ show_nat (t mod 10) @ ''% '' @ show_ratio (RateMetric_new 2 3))"
  using rate_is_one_decimal_percentage [of 2 3] by simp

text \<open>
  The stored rate is never trusted on load: decoding a metric recomputes its rate from the two
  counts, there is no rate exactly for an empty population, and extra fields can never overwrite the
  numerator, the denominator or the rate.
\<close>

theorem rate_is_derived_from_counts:
  "rate (RateMetric_deserialize h) =
     rate (RateMetric_new (helper_numerator h) (helper_denominator h)) \<and>
   (rate (RateMetric_new n d) = None \<longleftrightarrow> d = 0) \<and>
   numerator (RateMetric_with_extra m k v) = numerator m \<and>
   denominator (RateMetric_with_extra m k v) = denominator m \<and>
   rate (RateMetric_with_extra m k v) = rate m \<and>
   extra (RateMetric_with_extra m k v) ''rate'' = extra m ''rate''"
  by (auto simp: RateMetric_deserialize_def RateMetric_new_rate extra_with_extra u32_pos_iff
      unat_eq_zero)

subsection \<open>Team slugs\<close>

lemma split_once_Some:
  "split_once c xs = Some (a, b) \<longleftrightarrow> xs = a @ c # b \<and> c \<notin> set a"
proof (induction xs arbitrary: a)
  case Nil
  then show ?case by simp
next
  case (Cons x xs)
  show ?case
    by (cases a) (auto simp: Cons.IH)
qed

lemma split_once_None: "split_once c xs = None \<longleftrightarrow> c \<notin> set xs"
  by (induction xs) auto

lemma team_slug_Some_iff:
  "team_slug_from_canonical_owner o' = Some slug \<longleftrightarrow>
     (\<exists>org. o' = CHR ''@'' # org @ CHR ''/'' # slug \<and> CHR ''/'' \<notin> set org) \<and>
     slug \<noteq> [] \<and> set slug \<inter> set GLOB_CHARS = {}"
proof (cases o')
  case Nil
  then show ?thesis by (simp add: team_slug_from_canonical_owner_def)
next
  case (Cons c rest)
  show ?thesis
  proof (cases "split_once CHR ''/'' rest")
    case None
    then have "team_slug_from_canonical_owner o' = None"
      by (simp add: team_slug_from_canonical_owner_def Cons)
    moreover have "CHR ''/'' \<notin> set rest"
      using None split_once_None by blast
    ultimately show ?thesis
      by (auto simp: Cons)
  next
    case (Some ab)
    then obtain a b where ab: "split_once CHR ''/'' rest = Some (a, b)" by (cases ab) auto
    have "rest = org @ CHR ''/'' # slug \<and> CHR ''/'' \<notin> set org \<longleftrightarrow> org = a \<and> slug = b" for org
      using ab by (auto simp: split_once_Some [symmetric])
    then show ?thesis
      using Cons ab
      by (auto simp: team_slug_from_canonical_owner_def then_some_def list_all_iff)
  qed
qed

text \<open>
  A CODEOWNERS owner names a team exactly when it has the shape \<open>@org/slug\<close> with a non-empty slug
  free of glob characters; an owner of team shape with no such slug, and nothing else, is a wildcard
  owner. The first slash separates the organisation from the slug.
\<close>

theorem team_slug_shape:
  "(team_slug_from_canonical_owner o' = Some slug \<longleftrightarrow>
      (\<exists>org. o' = CHR ''@'' # org @ CHR ''/'' # slug \<and> CHR ''/'' \<notin> set org) \<and>
      slug \<noteq> [] \<and> set slug \<inter> set GLOB_CHARS = {}) \<and>
   (is_wildcard_owner o' \<longleftrightarrow>
      (\<exists>org slug. o' = CHR ''@'' # org @ CHR ''/'' # slug \<and> CHR ''/'' \<notin> set org \<and>
         (slug = [] \<or> (\<exists>c \<in> set slug. c \<in> set GLOB_CHARS))))"
proof
  show "team_slug_from_canonical_owner o' = Some slug \<longleftrightarrow>
      (\<exists>org. o' = CHR ''@'' # org @ CHR ''/'' # slug \<and> CHR ''/'' \<notin> set org) \<and>
      slug \<noteq> [] \<and> set slug \<inter> set GLOB_CHARS = {}"
    by (rule team_slug_Some_iff)
  show "is_wildcard_owner o' \<longleftrightarrow>
      (\<exists>org slug. o' = CHR ''@'' # org @ CHR ''/'' # slug \<and> CHR ''/'' \<notin> set org \<and>
         (slug = [] \<or> (\<exists>c \<in> set slug. c \<in> set GLOB_CHARS)))" (is "_ \<longleftrightarrow> ?R")
  proof (cases "\<exists>rest. o' = CHR ''@'' # rest \<and> CHR ''/'' \<in> set rest")
    case True
    then obtain rest where o': "o' = CHR ''@'' # rest" and slash: "CHR ''/'' \<in> set rest" by blast
    then obtain a b where ab: "split_once CHR ''/'' rest = Some (a, b)"
      using split_once_None [of "CHR ''/''" rest] by (cases "split_once CHR ''/'' rest") auto
    have eq: "rest = org @ CHR ''/'' # slug \<and> CHR ''/'' \<notin> set org \<longleftrightarrow> org = a \<and> slug = b"
      for org slug using ab by (auto simp: split_once_Some [symmetric])
    have "is_wildcard_owner o' \<longleftrightarrow> b = [] \<or> (\<exists>c \<in> set b. c \<in> set GLOB_CHARS)"
      using slash by (simp add: is_wildcard_owner_def team_slug_from_canonical_owner_def o' ab
          then_some_def list_all_iff disjoint_iff)
    moreover have "?R \<longleftrightarrow> b = [] \<or> (\<exists>c \<in> set b. c \<in> set GLOB_CHARS)"
    proof -
      have "?R \<longleftrightarrow> (\<exists>org slug. (rest = org @ CHR ''/'' # slug \<and> CHR ''/'' \<notin> set org) \<and>
          (slug = [] \<or> (\<exists>c \<in> set slug. c \<in> set GLOB_CHARS)))"
        by (simp add: o')
      then show ?thesis unfolding eq by simp
    qed
    ultimately show ?thesis by simp
  next
    case False
    then have "\<not> is_wildcard_owner o'"
      by (cases o') (auto simp: is_wildcard_owner_def)
    moreover have "\<not> ?R" using False by auto
    ultimately show ?thesis by simp
  qed
qed

subsection \<open>Grouping\<close>

text \<open>
  The interface of a table that groups values under keys: a push appends to the group of its key,
  keeping the label of the first push, and leaves every other key alone. A fold of pushes then holds
  for each key the values pushed under it, in order, labelled by the first.
\<close>

locale grouping =
  fixes push :: "'k \<Rightarrow> 'l \<Rightarrow> 'v \<Rightarrow> 't \<Rightarrow> 't"
    and empty_table :: 't
    and lookup :: "'t \<Rightarrow> 'k \<Rightarrow> ('l \<times> 'v list) option"
  assumes lookup_empty: "lookup empty_table k = None"
    and lookup_push: "lookup (push k l v t) k' =
      (if k' = k then Some (case lookup t k of None \<Rightarrow> (l, [v]) | Some (l', vs) \<Rightarrow> (l', vs @ [v]))
       else lookup t k')"
begin

definition group_of :: "'k \<Rightarrow> ('k \<times> 'l \<times> 'v) list \<Rightarrow> ('l \<times> 'v list) option" where
  "group_of k refs = (case filter (\<lambda>x. fst x = k) refs of
     [] \<Rightarrow> None
   | x # xs \<Rightarrow> Some (fst (snd x), map (snd \<circ> snd) (x # xs)))"

lemma lookup_fold_push:
  "lookup (fold (\<lambda>(k, l, v). push k l v) refs empty_table) k = group_of k refs"
proof (induction refs rule: rev_induct)
  case Nil
  then show ?case by (simp add: lookup_empty group_of_def)
next
  case (snoc x xs)
  obtain k' l v where x: "x = (k', l, v)" by (cases x)
  show ?case
  proof (cases "k' = k")
    case True
    then show ?thesis
      by (simp add: x lookup_push snoc.IH group_of_def split: list.split)
  next
    case False
    then show ?thesis
      by (simp add: x lookup_push snoc.IH group_of_def)
  qed
qed

end

lemma lookup_owner_entry_push:
  "map_of (owner_entry_push k d r m) k' =
     (if k' = k then Some (case map_of m k of None \<Rightarrow> (d, [r]) | Some (d', rs) \<Rightarrow> (d', rs @ [r]))
      else map_of m k')"
  by (induction k d r m rule: owner_entry_push.induct) auto

interpretation owners: grouping owner_entry_push "[]" map_of
  by unfold_locales (simp_all only: lookup_owner_entry_push map_of.simps)

lemma keys_owner_entry_push:
  "set (map fst (owner_entry_push k d r m)) = insert k (set (map fst m))"
  by (induction k d r m rule: owner_entry_push.induct) auto

lemma distinct_owner_entry_push:
  "distinct (map fst m) \<Longrightarrow> distinct (map fst (owner_entry_push k d r m))"
  by (induction k d r m rule: owner_entry_push.induct) (use keys_owner_entry_push in auto)

text \<open>The owner references of a repository list, in the order the code meets them.\<close>

definition repo_owner_refs ::
  "(string \<Rightarrow> string) \<Rightarrow> RepositoryEvidence \<Rightarrow> (string \<times> string \<times> RepositoryEvidence) list" where
  "repo_owner_refs lower r = (case CodeownersResult_parsed (codeowners (checks r)) of
     None \<Rightarrow> []
   | Some parsed \<Rightarrow> map (\<lambda>name. (lower name, name, r)) (unique_owners parsed))"

definition owner_refs ::
  "(string \<Rightarrow> string) \<Rightarrow> RepositoryEvidence list \<Rightarrow> (string \<times> string \<times> RepositoryEvidence) list" where
  "owner_refs lower rs = concat (map (repo_owner_refs lower) (filter (\<lambda>r. \<not> archived (repository r)) rs))"

lemma owner_map_step_refs:
  "owner_map_step lower r m = fold (\<lambda>(k, l, v). owner_entry_push k l v) (repo_owner_refs lower r) m"
  by (simp add: owner_map_step_def repo_owner_refs_def fold_map comp_def split: option.split)

lemma build_owner_repo_map_refs:
  "build_owner_repo_map lower rs =
     fold (\<lambda>(k, l, v). owner_entry_push k l v) (owner_refs lower rs) []"
proof -
  have "fold (owner_map_step lower) xs m =
      fold (\<lambda>(k, l, v). owner_entry_push k l v) (concat (map (repo_owner_refs lower) xs)) m" for xs m
    by (induction xs arbitrary: m) (simp_all add: owner_map_step_refs)
  then show ?thesis by (simp add: build_owner_repo_map_def owner_refs_def)
qed

lemma distinct_fold_push:
  "distinct (map fst m) \<Longrightarrow>
    distinct (map fst (fold (\<lambda>(k, l, v). owner_entry_push k l v) refs m))"
  by (induction refs arbitrary: m) (auto intro: distinct_owner_entry_push)

lemma keys_fold_push:
  "set (map fst (fold (\<lambda>(k, l, v). owner_entry_push k l v) refs m)) =
     set (map fst m) \<union> fst ` set refs"
  by (induction refs arbitrary: m) (auto simp: keys_owner_entry_push simp del: set_map)

lemma distinct_build_owner_repo_map: "distinct (map fst (build_owner_repo_map lower rs))"
  unfolding build_owner_repo_map_refs by (rule distinct_fold_push) simp

lemma keys_build_owner_repo_map:
  "fst ` set (build_owner_repo_map lower rs) = fst ` set (owner_refs lower rs)"
  using keys_fold_push [of "owner_refs lower rs" "[]"] by (simp add: build_owner_repo_map_refs)

text \<open>
  The single-pass owner map is a group-by: each canonical owner occurs once, and its entry holds
  the active repositories whose parsed CODEOWNERS file names it, in input order, with the spelling
  that was seen first as display name; an owner nobody names has no entry.
\<close>

theorem owner_map_is_group_by:
  "distinct (map fst (build_owner_repo_map lower rs)) \<and>
   map_of (build_owner_repo_map lower rs) key =
     (case filter (\<lambda>x. fst x = key) (owner_refs lower rs) of
        [] \<Rightarrow> None
      | x # xs \<Rightarrow> Some (fst (snd x), map (snd \<circ> snd) (x # xs)))"
proof
  show "distinct (map fst (build_owner_repo_map lower rs))"
    by (rule distinct_build_owner_repo_map)
  show "map_of (build_owner_repo_map lower rs) key =
     (case filter (\<lambda>x. fst x = key) (owner_refs lower rs) of
        [] \<Rightarrow> None
      | x # xs \<Rightarrow> Some (fst (snd x), map (snd \<circ> snd) (x # xs)))"
    unfolding build_owner_repo_map_refs owners.lookup_fold_push owners.group_of_def ..
qed

text \<open>
  The teams to fetch are a sorted list without repetitions holding exactly the owners with a team
  slug among those that active CODEOWNERS files name.
\<close>

theorem team_owner_slugs_exact:
  "sorted (team_owner_slugs lower rs) \<and> distinct (team_owner_slugs lower rs) \<and>
   set (team_owner_slugs lower rs) =
     {(k, slug) | k slug. k \<in> fst ` set (owner_refs lower rs) \<and>
        team_slug_from_canonical_owner k = Some slug}"
proof (intro conjI)
  let ?f = "\<lambda>k. map_option (\<lambda>slug. (k, slug)) (team_slug_from_canonical_owner k)"
  have distinct: "distinct xs \<Longrightarrow> distinct (List.map_filter ?f xs)" for xs
    by (auto simp: List.map_filter_def distinct_map inj_on_def)
  show "sorted (team_owner_slugs lower rs)"
    by (simp add: team_owner_slugs_def)
  show "distinct (team_owner_slugs lower rs)"
    by (simp add: team_owner_slugs_def distinct distinct_build_owner_repo_map)
  show "set (team_owner_slugs lower rs) =
     {(k, slug) | k slug. k \<in> fst ` set (owner_refs lower rs) \<and>
        team_slug_from_canonical_owner k = Some slug}"
  proof -
    have "set (List.map_filter ?f xs) = {(k, slug) | k slug. k \<in> set xs \<and>
        team_slug_from_canonical_owner k = Some slug}" for xs
      by (induction xs) (auto simp: List.map_filter_simps split: option.split)
    from this [of "map fst (build_owner_repo_map lower rs)"] show ?thesis
      by (simp add: team_owner_slugs_def keys_build_owner_repo_map)
  qed
qed

end
