(* ===== verification/Aggregate_Counts.thy ===== *)
theory Aggregate_Counts
  imports Aggregate
begin

text \<open>
  What the counting folds of \<open>aggregate/metrics.rs\<close> compute. Every bucket of every count record is an
  instance of the \<open>bucket_count\<close> interface; on top of it the interface \<open>control_measure\<close> states what
  a control's pass count, fail count and exclusion tally promise, and derives once the shape of its
  coverage rate. The org-level and the owner-level coverage of all five controls are instances.
\<close>

subsection \<open>The buckets\<close>

abbreviation policy_of :: "RepositoryEvidence \<Rightarrow> SecurityPolicyResult" where
  "policy_of r \<equiv> security_policy (checks r)"

abbreviation secret_of :: "RepositoryEvidence \<Rightarrow> SecretScanningResult" where
  "secret_of r \<equiv> secret_scanning (checks r)"

abbreviation dependabot_of :: "RepositoryEvidence \<Rightarrow> DependabotStatus" where
  "dependabot_of r \<equiv> dependabot_status (dependabot_security_updates (checks r))"

abbreviation branch_of :: "RepositoryEvidence \<Rightarrow> BranchProtectionResult" where
  "branch_of r \<equiv> branch_protection (checks r)"

abbreviation codeowners_of :: "RepositoryEvidence \<Rightarrow> CodeownersResult" where
  "codeowners_of r \<equiv> codeowners (checks r)"

lemmas count_defs = count_policy_statuses_def count_secret_scanning_statuses_def
  count_dependabot_statuses_def count_branch_protection_statuses_def
  count_codeowners_statuses_def count_secret_alert_observability_def count_statuses_def
  count_collection_health_reasons_def count_branch_protection_exclusion_reasons_def

lemmas count_default_defs = PolicyCounts_default_def SecretScanningCounts_default_def
  DependabotCounts_default_def BranchProtectionCounts_default_def CodeownersCounts_default_def
  SecretAlertCounts_default_def ExclusionTally_default_def
  CollectionHealthTaxonomyCounts_default_def

interpretation via_setting_bucket: bucket_count policy_step PolicyCounts_default via_setting
  "\<lambda>r. SecurityPolicyResult_status (policy_of r) = SecurityPolicyStatus.Pass \<and>
     SecurityPolicyResult_evidence (policy_of r) = SecurityPolicyEvidence.Setting"
  by unfold_locales (simp_all add: count_default_defs policy_step_def Let_def
      split: SecurityPolicyStatus.split)

interpretation via_file_bucket: bucket_count policy_step PolicyCounts_default via_file
  "\<lambda>r. SecurityPolicyResult_status (policy_of r) = SecurityPolicyStatus.Pass \<and>
     SecurityPolicyResult_evidence (policy_of r) \<noteq> SecurityPolicyEvidence.Setting"
  by unfold_locales (simp_all add: count_default_defs policy_step_def Let_def
      split: SecurityPolicyStatus.split)

interpretation policy_missing_bucket: bucket_count policy_step PolicyCounts_default policy_missing
  "\<lambda>r. SecurityPolicyResult_status (policy_of r) = SecurityPolicyStatus.Fail"
  by unfold_locales (simp_all add: count_default_defs policy_step_def Let_def
      split: SecurityPolicyStatus.split)

interpretation policy_unknown_bucket: bucket_count policy_step PolicyCounts_default policy_unknown
  "\<lambda>r. SecurityPolicyResult_status (policy_of r) = SecurityPolicyStatus.Unknown \<or>
     SecurityPolicyResult_status (policy_of r) = SecurityPolicyStatus.NotApplicable"
  by unfold_locales (simp_all add: count_default_defs policy_step_def Let_def
      split: SecurityPolicyStatus.split)

interpretation secret_enabled_bucket: bucket_count secret_step SecretScanningCounts_default
  secret_enabled "\<lambda>r. SecretScanningResult_status (secret_of r) = SecretScanningStatus.Enabled"
  by unfold_locales (simp_all add: count_default_defs secret_step_def
      split: SecretScanningStatus.split)

interpretation secret_disabled_bucket: bucket_count secret_step SecretScanningCounts_default
  secret_disabled "\<lambda>r. SecretScanningResult_status (secret_of r) = SecretScanningStatus.Disabled"
  by unfold_locales (simp_all add: count_default_defs secret_step_def
      split: SecretScanningStatus.split)

interpretation secret_denied_bucket: bucket_count secret_step SecretScanningCounts_default
  secret_permission_denied
  "\<lambda>r. SecretScanningResult_status (secret_of r) = SecretScanningStatus.PermissionDenied"
  by unfold_locales (simp_all add: count_default_defs secret_step_def
      split: SecretScanningStatus.split)

interpretation secret_unknown_bucket: bucket_count secret_step SecretScanningCounts_default
  secret_unknown "\<lambda>r. SecretScanningResult_status (secret_of r) = SecretScanningStatus.Unknown"
  by unfold_locales (simp_all add: count_default_defs secret_step_def
      split: SecretScanningStatus.split)

interpretation dependabot_enabled_bucket: bucket_count dependabot_step DependabotCounts_default
  dependabot_enabled "\<lambda>r. dependabot_of r = DependabotStatus.Enabled"
  by unfold_locales (simp_all add: count_default_defs dependabot_step_def
      split: DependabotStatus.split)

interpretation dependabot_paused_bucket: bucket_count dependabot_step DependabotCounts_default
  dependabot_paused "\<lambda>r. dependabot_of r = DependabotStatus.Paused"
  by unfold_locales (simp_all add: count_default_defs dependabot_step_def
      split: DependabotStatus.split)

interpretation dependabot_disabled_bucket: bucket_count dependabot_step DependabotCounts_default
  dependabot_disabled "\<lambda>r. dependabot_of r = DependabotStatus.Disabled"
  by unfold_locales (simp_all add: count_default_defs dependabot_step_def
      split: DependabotStatus.split)

interpretation dependabot_unknown_bucket: bucket_count dependabot_step DependabotCounts_default
  dependabot_unknown "\<lambda>r. dependabot_of r = DependabotStatus.Unknown"
  by unfold_locales (simp_all add: count_default_defs dependabot_step_def
      split: DependabotStatus.split)

interpretation branch_pass_bucket: bucket_count branch_step BranchProtectionCounts_default
  branch_pass "\<lambda>r. BranchProtectionResult_is_protected (branch_of r)"
  by unfold_locales (simp_all add: count_default_defs branch_step_def
      split: BranchProtectionResult.split)

interpretation branch_fail_bucket: bucket_count branch_step BranchProtectionCounts_default
  branch_fail
  "\<lambda>r. BranchProtectionResult_is_observed (branch_of r) \<and>
     \<not> BranchProtectionResult_is_protected (branch_of r)"
  by unfold_locales (simp_all add: count_default_defs branch_step_def
      split: BranchProtectionResult.split)

interpretation branch_unknown_bucket: bucket_count branch_step BranchProtectionCounts_default
  branch_unknown "\<lambda>r. \<not> BranchProtectionResult_is_observed (branch_of r)"
  by unfold_locales (simp_all add: count_default_defs branch_step_def
      split: BranchProtectionResult.split)

interpretation codeowners_conforming_bucket: bucket_count codeowners_step CodeownersCounts_default
  codeowners_conforming
  "\<lambda>r. CodeownersResult_status (codeowners_of r) = CodeownersStatus.Conforming"
  by unfold_locales (simp_all add: count_default_defs codeowners_step_def Let_def
      split: CodeownersStatus.split)

interpretation codeowners_non_conforming_bucket: bucket_count codeowners_step CodeownersCounts_default
  codeowners_non_conforming
  "\<lambda>r. CodeownersResult_status (codeowners_of r) = CodeownersStatus.NonConforming"
  by unfold_locales (simp_all add: count_default_defs codeowners_step_def Let_def
      split: CodeownersStatus.split)

interpretation codeowners_absent_bucket: bucket_count codeowners_step CodeownersCounts_default
  codeowners_absent "\<lambda>r. CodeownersResult_status (codeowners_of r) = CodeownersStatus.Absent"
  by unfold_locales (simp_all add: count_default_defs codeowners_step_def Let_def
      split: CodeownersStatus.split)

interpretation codeowners_unknown_bucket: bucket_count codeowners_step CodeownersCounts_default
  codeowners_unknown "\<lambda>r. CodeownersResult_status (codeowners_of r) = CodeownersStatus.Unknown"
  by unfold_locales (simp_all add: count_default_defs codeowners_step_def Let_def
      split: CodeownersStatus.split)

interpretation codeowners_truncated_bucket: bucket_count codeowners_step CodeownersCounts_default
  codeowners_truncated "\<lambda>r. CodeownersResult_truncation (codeowners_of r) \<noteq> None"
  by unfold_locales (simp_all add: count_default_defs codeowners_step_def Let_def
      split: CodeownersStatus.split)

lemma secret_alert_step_eq:
  "secret_alert_step r c =
     (case SecretScanningResult_has_open_alerts (secret_of r) of
        Some True \<Rightarrow> c\<lparr>repos_with_open_alerts := sat_inc (repos_with_open_alerts c)\<rparr>
      | Some False \<Rightarrow> c\<lparr>repos_without_open_alerts := sat_inc (repos_without_open_alerts c)\<rparr>
      | None \<Rightarrow> c\<lparr>alerts_unobservable := sat_inc (alerts_unobservable c)\<rparr>)"
  using has_open_alerts_enabled [of "secret_of r"]
  by (auto simp: secret_alert_step_def Let_def SecretScanningResult_alerts_observable_def
      split: option.split bool.split)

interpretation open_alerts_bucket: bucket_count secret_alert_step SecretAlertCounts_default
  repos_with_open_alerts "\<lambda>r. SecretScanningResult_has_open_alerts (secret_of r) = Some True"
  by unfold_locales (simp_all add: count_default_defs secret_alert_step_eq
      split: option.split bool.split)

interpretation no_open_alerts_bucket: bucket_count secret_alert_step SecretAlertCounts_default
  repos_without_open_alerts "\<lambda>r. SecretScanningResult_has_open_alerts (secret_of r) = Some False"
  by unfold_locales (simp_all add: count_default_defs secret_alert_step_eq
      split: option.split bool.split)

interpretation unobservable_alerts_bucket: bucket_count secret_alert_step SecretAlertCounts_default
  alerts_unobservable "\<lambda>r. SecretScanningResult_has_open_alerts (secret_of r) = None"
  by unfold_locales (simp_all add: count_default_defs secret_alert_step_eq
      split: option.split bool.split)

lemmas bucket_folds = via_setting_bucket.bucket_fold via_file_bucket.bucket_fold
  policy_missing_bucket.bucket_fold policy_unknown_bucket.bucket_fold
  secret_enabled_bucket.bucket_fold secret_disabled_bucket.bucket_fold
  secret_denied_bucket.bucket_fold secret_unknown_bucket.bucket_fold
  dependabot_enabled_bucket.bucket_fold dependabot_paused_bucket.bucket_fold
  dependabot_disabled_bucket.bucket_fold dependabot_unknown_bucket.bucket_fold
  branch_pass_bucket.bucket_fold branch_fail_bucket.bucket_fold branch_unknown_bucket.bucket_fold
  codeowners_conforming_bucket.bucket_fold codeowners_non_conforming_bucket.bucket_fold
  codeowners_absent_bucket.bucket_fold codeowners_unknown_bucket.bucket_fold
  codeowners_truncated_bucket.bucket_fold open_alerts_bucket.bucket_fold
  no_open_alerts_bucket.bucket_fold unobservable_alerts_bucket.bucket_fold

subsection \<open>The buckets partition the population\<close>

lemma policy_partition:
  "length (filter (\<lambda>r. SecurityPolicyResult_status (policy_of r) = SecurityPolicyStatus.Pass \<and>
       SecurityPolicyResult_evidence (policy_of r) = SecurityPolicyEvidence.Setting) rs) +
   length (filter (\<lambda>r. SecurityPolicyResult_status (policy_of r) = SecurityPolicyStatus.Pass \<and>
       SecurityPolicyResult_evidence (policy_of r) \<noteq> SecurityPolicyEvidence.Setting) rs) =
   length (filter (\<lambda>r. SecurityPolicyResult_status (policy_of r) = SecurityPolicyStatus.Pass) rs)"
  "length (filter (\<lambda>r. SecurityPolicyResult_status (policy_of r) = SecurityPolicyStatus.Pass) rs) +
   length (filter (\<lambda>r. SecurityPolicyResult_status (policy_of r) = SecurityPolicyStatus.Fail) rs) +
   length (filter (\<lambda>r. SecurityPolicyResult_status (policy_of r) = SecurityPolicyStatus.Unknown \<or>
       SecurityPolicyResult_status (policy_of r) = SecurityPolicyStatus.NotApplicable) rs) = length rs"
proof (induction rs)
  case (Cons r rs)
  {
    case 1
    show ?case using Cons by simp
  next
    case 2
    show ?case using Cons by (cases "SecurityPolicyResult_status (policy_of r)") simp_all
  }
qed simp_all

lemma secret_partition:
  "length (filter (\<lambda>r. SecretScanningResult_status (secret_of r) = SecretScanningStatus.Enabled) rs) +
   length (filter (\<lambda>r. SecretScanningResult_status (secret_of r) = SecretScanningStatus.Disabled) rs) +
   length (filter (\<lambda>r. SecretScanningResult_status (secret_of r) = SecretScanningStatus.PermissionDenied) rs) +
   length (filter (\<lambda>r. SecretScanningResult_status (secret_of r) = SecretScanningStatus.Unknown) rs) =
   length rs"
proof (induction rs)
  case (Cons r rs)
  then show ?case by (cases "SecretScanningResult_status (secret_of r)") simp_all
qed simp

lemma dependabot_partition:
  "length (filter (\<lambda>r. dependabot_of r = DependabotStatus.Enabled) rs) +
   length (filter (\<lambda>r. dependabot_of r = DependabotStatus.Paused) rs) +
   length (filter (\<lambda>r. dependabot_of r = DependabotStatus.Disabled) rs) +
   length (filter (\<lambda>r. dependabot_of r = DependabotStatus.Unknown) rs) = length rs"
proof (induction rs)
  case (Cons r rs)
  then show ?case by (cases "dependabot_of r") simp_all
qed simp

lemma branch_partition:
  "length (filter (\<lambda>r. BranchProtectionResult_is_protected (branch_of r)) rs) +
   length (filter (\<lambda>r. BranchProtectionResult_is_observed (branch_of r) \<and>
     \<not> BranchProtectionResult_is_protected (branch_of r)) rs) +
   length (filter (\<lambda>r. \<not> BranchProtectionResult_is_observed (branch_of r)) rs) = length rs"
proof (induction rs)
  case (Cons r rs)
  then show ?case by (cases "branch_of r") simp_all
qed simp

lemma codeowners_partition:
  "length (filter (\<lambda>r. CodeownersResult_status (codeowners_of r) = CodeownersStatus.Conforming) rs) +
   length (filter (\<lambda>r. CodeownersResult_status (codeowners_of r) = CodeownersStatus.NonConforming) rs) +
   length (filter (\<lambda>r. CodeownersResult_status (codeowners_of r) = CodeownersStatus.Absent) rs) +
   length (filter (\<lambda>r. CodeownersResult_status (codeowners_of r) = CodeownersStatus.Unknown) rs) =
   length rs"
proof (induction rs)
  case (Cons r rs)
  then show ?case by (cases "CodeownersResult_status (codeowners_of r)") simp_all
qed simp

lemma alerts_partition:
  "length (filter (\<lambda>r. SecretScanningResult_has_open_alerts (secret_of r) = Some True) rs) +
   length (filter (\<lambda>r. SecretScanningResult_has_open_alerts (secret_of r) = Some False) rs) +
   length (filter (\<lambda>r. SecretScanningResult_has_open_alerts (secret_of r) = None) rs) = length rs"
proof (induction rs)
  case (Cons r rs)
  then show ?case
    by (cases "SecretScanningResult_has_open_alerts (secret_of r)")
      auto
qed simp

abbreviation sum_u32 :: "u32 list \<Rightarrow> u32" where
  "sum_u32 xs \<equiv> foldl saturating_add 0 xs"

text \<open>
  Nobody is lost and nobody is counted twice: for each control the buckets, added with the same
  saturating addition the program uses, give the size of the population they were counted over, and
  the three visibilities add up to the total of the collection statistics. This holds at every
  population size, also where the counters saturate.
\<close>

theorem buckets_partition_population:
  "(let c = count_policy_statuses rs
    in sum_u32 [via_setting c, via_file c, policy_missing c, policy_unknown c]) =
     count_as_u32 (length rs) \<and>
   (let c = count_secret_scanning_statuses rs
    in sum_u32 [secret_enabled c, secret_disabled c, secret_permission_denied c, secret_unknown c]) =
     count_as_u32 (length rs) \<and>
   (let c = count_dependabot_statuses rs
    in sum_u32 [dependabot_enabled c, dependabot_paused c, dependabot_disabled c,
         dependabot_unknown c]) = count_as_u32 (length rs) \<and>
   (let c = count_branch_protection_statuses rs
    in sum_u32 [branch_pass c, branch_fail c, branch_unknown c]) = count_as_u32 (length rs) \<and>
   (let c = count_codeowners_statuses rs
    in sum_u32 [codeowners_conforming c, codeowners_non_conforming c, codeowners_absent c,
         codeowners_unknown c]) = count_as_u32 (length rs) \<and>
   (let c = count_secret_alert_observability rs
    in sum_u32 [repos_with_open_alerts c, repos_without_open_alerts c, alerts_unobservable c]) =
     count_as_u32 (length rs) \<and>
   (let s = build_collection_statistics rs
    in sum_u32 [public_repos s, internal_repos s, private_repos s]) =
     total_repos (build_collection_statistics rs)"
proof (intro conjI)
  have zero: "saturating_add 0 (u32_of_count n) = u32_of_count n" for n
    using saturating_add_u32_of_count [of 0 n] by simp
  note sums = Let_def count_defs bucket_folds zero saturating_add_u32_of_count count_as_u32_def
  show "(let c = count_policy_statuses rs
    in sum_u32 [via_setting c, via_file c, policy_missing c, policy_unknown c]) =
     count_as_u32 (length rs)"
    using policy_partition [of rs] by (simp add: sums)
  show "(let c = count_secret_scanning_statuses rs
    in sum_u32 [secret_enabled c, secret_disabled c, secret_permission_denied c, secret_unknown c]) =
     count_as_u32 (length rs)"
    using secret_partition [of rs] by (simp add: sums)
  show "(let c = count_dependabot_statuses rs
    in sum_u32 [dependabot_enabled c, dependabot_paused c, dependabot_disabled c,
         dependabot_unknown c]) = count_as_u32 (length rs)"
    using dependabot_partition [of rs] by (simp add: sums)
  show "(let c = count_branch_protection_statuses rs
    in sum_u32 [branch_pass c, branch_fail c, branch_unknown c]) = count_as_u32 (length rs)"
    using branch_partition [of rs] by (simp add: sums)
  show "(let c = count_codeowners_statuses rs
    in sum_u32 [codeowners_conforming c, codeowners_non_conforming c, codeowners_absent c,
         codeowners_unknown c]) = count_as_u32 (length rs)"
    using codeowners_partition [of rs] by (simp add: sums)
  show "(let c = count_secret_alert_observability rs
    in sum_u32 [repos_with_open_alerts c, repos_without_open_alerts c, alerts_unobservable c]) =
     count_as_u32 (length rs)"
    using alerts_partition [of rs] by (simp add: sums)
  have "length (filter (\<lambda>r. visibility (repository r) = Visibility.Public) xs) +
      length (filter (\<lambda>r. visibility (repository r) = Visibility.Internal) xs) +
      length (filter (\<lambda>r. visibility (repository r) = Visibility.Private) xs) = length xs" for xs
  proof (induction xs)
    case (Cons r xs)
    then show ?case by (cases "visibility (repository r)") simp_all
  qed simp
  from this [of "active_repos rs"] show "(let s = build_collection_statistics rs
    in sum_u32 [public_repos s, internal_repos s, private_repos s]) =
     total_repos (build_collection_statistics rs)"
    by (simp add: sums build_collection_statistics_def count_by_visibility_def)
qed

subsection \<open>The interface of a measured control\<close>

text \<open>
  What the coverage rate of a control relies on: over a population the pass and fail counters hold
  the saturated numbers of met and unmet repositories, and the tally reports a measurement failure
  exactly when some repository of the population was not measured. The rate then has the met
  repositories over the eligible ones, except that an unmeasured population without a single
  eligible repository is floored to 0 of 1.
\<close>

locale control_measure =
  fixes classify :: "RepositoryEvidence \<Rightarrow> DenominatorMembership"
    and unmeasured :: "RepositoryEvidence \<Rightarrow> bool"
    and pass_count fail_count :: "RepositoryEvidence list \<Rightarrow> u32"
    and tally_of :: "RepositoryEvidence list \<Rightarrow> ExclusionTally"
  assumes pass_count: "pass_count rs = u32_of_count (length (filter
      (\<lambda>r. classify r = DenominatorMembership.Eligible ControlOutcome.Met) rs))"
    and fail_count: "fail_count rs = u32_of_count (length (filter
      (\<lambda>r. classify r = DenominatorMembership.Eligible ControlOutcome.Unmet) rs))"
    and tally_failure: "ExclusionTally_has_measurement_failure (tally_of rs) \<longleftrightarrow>
      (\<exists>r \<in> set rs. unmeasured r)"
begin

lemma eligible_split:
  "length (filter (\<lambda>r. is_eligible (classify r)) rs) =
     length (filter (\<lambda>r. classify r = DenominatorMembership.Eligible ControlOutcome.Met) rs) +
     length (filter (\<lambda>r. classify r = DenominatorMembership.Eligible ControlOutcome.Unmet) rs)"
proof (rule length_filter_split)
  fix r
  show "is_eligible (classify r) \<longleftrightarrow>
      classify r = DenominatorMembership.Eligible ControlOutcome.Met \<or>
      classify r = DenominatorMembership.Eligible ControlOutcome.Unmet"
    by (cases "classify r" rule: is_eligible.cases) (auto intro: ControlOutcome.exhaust)
qed auto

lemma observable_count:
  "saturating_add (pass_count rs) (fail_count rs) =
     u32_of_count (length (filter (\<lambda>r. is_eligible (classify r)) rs))"
  by (simp add: pass_count fail_count saturating_add_u32_of_count eligible_split)

lemma coverage:
  "coverage_metric (pass_count rs) (fail_count rs) (tally_of rs) =
     (if filter (\<lambda>r. is_eligible (classify r)) rs = [] \<and> (\<exists>r \<in> set rs. unmeasured r)
      then RateMetric_new 0 1
      else RateMetric_new
        (u32_of_count (length (filter
          (\<lambda>r. classify r = DenominatorMembership.Eligible ControlOutcome.Met) rs)))
        (u32_of_count (length (filter (\<lambda>r. is_eligible (classify r)) rs))))"
  unfolding coverage_metric_def Let_def observable_count tally_failure u32_of_count_eq_0
    length_0_conv
  by (simp only: pass_count)

lemma coverage_bound:
  "numerator (coverage_metric (pass_count rs) (fail_count rs) (tally_of rs)) \<le>
     denominator (coverage_metric (pass_count rs) (fail_count rs) (tally_of rs))"
proof -
  have "length (filter (\<lambda>r. classify r = DenominatorMembership.Eligible ControlOutcome.Met) rs) \<le>
      length (filter (\<lambda>r. is_eligible (classify r)) rs)"
    by (simp add: eligible_split)
  then show ?thesis
    by (simp add: coverage u32_of_count_mono)
qed

end

lemma classify_simps:
  "CoverageControl_classify CoverageControl.SecurityPolicy r =
     DenominatorMembership.Eligible ControlOutcome.Met \<longleftrightarrow>
     SecurityPolicyResult_status (policy_of r) = SecurityPolicyStatus.Pass"
  "CoverageControl_classify CoverageControl.SecurityPolicy r =
     DenominatorMembership.Eligible ControlOutcome.Unmet \<longleftrightarrow>
     SecurityPolicyResult_status (policy_of r) = SecurityPolicyStatus.Fail"
  "CoverageControl_classify CoverageControl.SecretScanning r =
     DenominatorMembership.Eligible ControlOutcome.Met \<longleftrightarrow>
     SecretScanningResult_status (secret_of r) = SecretScanningStatus.Enabled"
  "CoverageControl_classify CoverageControl.SecretScanning r =
     DenominatorMembership.Eligible ControlOutcome.Unmet \<longleftrightarrow>
     SecretScanningResult_status (secret_of r) = SecretScanningStatus.Disabled"
  "CoverageControl_classify CoverageControl.Dependabot r =
     DenominatorMembership.Eligible ControlOutcome.Met \<longleftrightarrow>
     dependabot_of r = DependabotStatus.Enabled"
  "CoverageControl_classify CoverageControl.Dependabot r =
     DenominatorMembership.Eligible ControlOutcome.Unmet \<longleftrightarrow>
     dependabot_of r = DependabotStatus.Paused \<or> dependabot_of r = DependabotStatus.Disabled"
  "CoverageControl_classify CoverageControl.Codeowners r =
     DenominatorMembership.Eligible ControlOutcome.Met \<longleftrightarrow>
     CodeownersResult_status (codeowners_of r) = CodeownersStatus.Conforming \<or>
     CodeownersResult_status (codeowners_of r) = CodeownersStatus.NonConforming"
  "CoverageControl_classify CoverageControl.Codeowners r =
     DenominatorMembership.Eligible ControlOutcome.Unmet \<longleftrightarrow>
     CodeownersResult_status (codeowners_of r) = CodeownersStatus.Absent"
  "CoverageControl_classify CoverageControl.BranchProtection r =
     DenominatorMembership.Eligible ControlOutcome.Met \<longleftrightarrow>
     BranchProtectionResult_is_protected (branch_of r)"
  "CoverageControl_classify CoverageControl.BranchProtection r =
     DenominatorMembership.Eligible ControlOutcome.Unmet \<longleftrightarrow>
     BranchProtectionResult_is_observed (branch_of r) \<and>
     \<not> BranchProtectionResult_is_protected (branch_of r)"
  by (simp_all add: CoverageControl_classify_def split: SecurityPolicyStatus.split
      SecretScanningStatus.split DependabotStatus.split CodeownersStatus.split
      BranchProtectionResult.split)

lemma eligible_simps:
  "is_eligible (CoverageControl_classify CoverageControl.SecurityPolicy r) \<longleftrightarrow>
     \<not> (SecurityPolicyResult_status (policy_of r) = SecurityPolicyStatus.Unknown \<or>
        SecurityPolicyResult_status (policy_of r) = SecurityPolicyStatus.NotApplicable)"
  "is_eligible (CoverageControl_classify CoverageControl.SecretScanning r) \<longleftrightarrow>
     \<not> (SecretScanningResult_status (secret_of r) = SecretScanningStatus.PermissionDenied \<or>
        SecretScanningResult_status (secret_of r) = SecretScanningStatus.Unknown)"
  "is_eligible (CoverageControl_classify CoverageControl.Dependabot r) \<longleftrightarrow>
     dependabot_of r \<noteq> DependabotStatus.Unknown"
  "is_eligible (CoverageControl_classify CoverageControl.Codeowners r) \<longleftrightarrow>
     CodeownersResult_status (codeowners_of r) \<noteq> CodeownersStatus.Unknown"
  "is_eligible (CoverageControl_classify CoverageControl.BranchProtection r) \<longleftrightarrow>
     BranchProtectionResult_is_observed (branch_of r)"
  by (simp_all add: CoverageControl_classify_def split: SecurityPolicyStatus.split
      SecretScanningStatus.split DependabotStatus.split CodeownersStatus.split
      BranchProtectionResult.split)

subsection \<open>Exclusion tallies\<close>

lemma u32_of_count_pos: "0 < u32_of_count (length (filter P xs)) \<longleftrightarrow> (\<exists>x \<in> set xs. P x)"
proof -
  have "0 < u32_of_count n \<longleftrightarrow> n \<noteq> 0" for n
    by (simp add: u32_pos_iff unat_u32_of_count)
  then show ?thesis by (simp add: filter_empty_conv)
qed

text \<open>
  A fold that records at most one exclusion reason per repository in a tally, and the extension to a
  fold that also counts passes and failures.
\<close>

locale exclusion_tally =
  fixes excl :: "RepositoryEvidence \<Rightarrow> ExclusionReason option"
    and step :: "RepositoryEvidence \<Rightarrow> 't \<Rightarrow> 't"
    and start :: 't
    and tally :: "'t \<Rightarrow> ExclusionTally"
  assumes tally_start: "tally start = ExclusionTally_default"
    and tally_step: "tally (step r t) =
      (case excl r of None \<Rightarrow> tally t | Some e \<Rightarrow> ExclusionTally_record e (tally t))"

sublocale exclusion_tally \<subseteq> denied: bucket_count step start
  "\<lambda>t. tally_permission_denied (tally t)" "\<lambda>r. excl r = Some ExclusionReason.PermissionDenied"
  by unfold_locales (simp_all add: tally_start tally_step count_default_defs
      ExclusionTally_record_def split: option.split ExclusionReason.split)

sublocale exclusion_tally \<subseteq> unknown: bucket_count step start
  "\<lambda>t. tally_unknown (tally t)" "\<lambda>r. excl r = Some ExclusionReason.Unknown"
  by unfold_locales (simp_all add: tally_start tally_step count_default_defs
      ExclusionTally_record_def split: option.split ExclusionReason.split)

sublocale exclusion_tally \<subseteq> not_applicable: bucket_count step start
  "\<lambda>t. tally_not_applicable (tally t)" "\<lambda>r. excl r = Some ExclusionReason.NotApplicable"
  by unfold_locales (simp_all add: tally_start tally_step count_default_defs
      ExclusionTally_record_def split: option.split ExclusionReason.split)

sublocale exclusion_tally \<subseteq> other: bucket_count step start
  "\<lambda>t. tally_other (tally t)" "\<lambda>r. excl r = Some ExclusionReason.Other"
  by unfold_locales (simp_all add: tally_start tally_step count_default_defs
      ExclusionTally_record_def split: option.split ExclusionReason.split)

context exclusion_tally
begin

lemma failure_iff:
  "ExclusionTally_has_measurement_failure (tally (fold step rs start)) \<longleftrightarrow>
     (\<exists>r \<in> set rs. excl r \<noteq> None \<and> excl r \<noteq> Some ExclusionReason.NotApplicable)"
proof -
  have "excl r \<noteq> None \<and> excl r \<noteq> Some ExclusionReason.NotApplicable \<longleftrightarrow>
      excl r = Some ExclusionReason.PermissionDenied \<or> excl r = Some ExclusionReason.Unknown \<or>
      excl r = Some ExclusionReason.Other" for r
    by (cases "excl r") (auto intro: ExclusionReason.exhaust)
  then show ?thesis
    unfolding ExclusionTally_has_measurement_failure_def denied.bucket_fold unknown.bucket_fold
      other.bucket_fold u32_of_count_pos
    by blast
qed

end

fun excluded_reason :: "ScoreCategory \<Rightarrow> ExclusionReason option" where
  "excluded_reason (ScoreCategory.Excluded e) = Some e"
| "excluded_reason ScoreCategory.Pass = None"
| "excluded_reason ScoreCategory.Fail = None"

locale category_tally =
  fixes category :: "RepositoryEvidence \<Rightarrow> ScoreCategory"
    and step :: "RepositoryEvidence \<Rightarrow> 't \<Rightarrow> 't"
    and start :: 't
    and control :: "'t \<Rightarrow> ControlTally"
  assumes control_start: "control start = ControlTally_default"
    and control_step: "control (step r t) = tally_category (category r) (control t)"

sublocale category_tally \<subseteq> exclusion_tally
  "\<lambda>r. excluded_reason (category r)" step start "\<lambda>t. ct_tally (control t)"
  by unfold_locales (simp_all add: control_start control_step ControlTally_default_def
      tally_category_def split: ScoreCategory.split)

sublocale category_tally \<subseteq> passes: bucket_count step start
  "\<lambda>t. ct_pass (control t)" "\<lambda>r. category r = ScoreCategory.Pass"
  by unfold_locales (simp_all add: control_start control_step ControlTally_default_def
      tally_category_def split: ScoreCategory.split)

sublocale category_tally \<subseteq> fails: bucket_count step start
  "\<lambda>t. ct_fail (control t)" "\<lambda>r. category r = ScoreCategory.Fail"
  by unfold_locales (simp_all add: control_start control_step ControlTally_default_def
      tally_category_def split: ScoreCategory.split)

interpretation branch_exclusions: exclusion_tally
  "\<lambda>r. excluded_reason (BranchProtectionResult_score_category (branch_of r))"
  branch_exclusion_step ExclusionTally_default "\<lambda>t. t"
  by unfold_locales (simp_all add: branch_exclusion_step_def split: ScoreCategory.split)

subsection \<open>The five org-level controls\<close>

interpretation policy_control: control_measure
  "CoverageControl_classify CoverageControl.SecurityPolicy"
  "\<lambda>r. \<not> is_eligible (CoverageControl_classify CoverageControl.SecurityPolicy r)"
  "\<lambda>rs. saturating_add (via_setting (count_policy_statuses rs)) (via_file (count_policy_statuses rs))"
  "\<lambda>rs. policy_missing (count_policy_statuses rs)"
  "\<lambda>rs. exclusion_tally_from_policy (count_policy_statuses rs)"
  by unfold_locales (simp_all add: count_defs bucket_folds classify_simps eligible_simps
      saturating_add_u32_of_count policy_partition(1) exclusion_tally_from_policy_def
      ExclusionTally_has_measurement_failure_def ExclusionTally_default_def u32_of_count_pos)

interpretation secret_control: control_measure
  "CoverageControl_classify CoverageControl.SecretScanning"
  "\<lambda>r. \<not> is_eligible (CoverageControl_classify CoverageControl.SecretScanning r)"
  "\<lambda>rs. secret_enabled (count_secret_scanning_statuses rs)"
  "\<lambda>rs. secret_disabled (count_secret_scanning_statuses rs)"
  "\<lambda>rs. exclusion_tally_from_secret_scanning (count_secret_scanning_statuses rs)"
  by unfold_locales (auto simp: count_defs bucket_folds classify_simps eligible_simps
      exclusion_tally_from_secret_scanning_def
      ExclusionTally_has_measurement_failure_def ExclusionTally_default_def u32_of_count_pos)

interpretation dependabot_control: control_measure
  "CoverageControl_classify CoverageControl.Dependabot"
  "\<lambda>r. \<not> is_eligible (CoverageControl_classify CoverageControl.Dependabot r)"
  "\<lambda>rs. dependabot_enabled (count_dependabot_statuses rs)"
  "\<lambda>rs. saturating_add (dependabot_paused (count_dependabot_statuses rs))
     (dependabot_disabled (count_dependabot_statuses rs))"
  "\<lambda>rs. exclusion_tally_from_dependabot (count_dependabot_statuses rs)"
proof
  fix rs
  have "length (filter (\<lambda>r. dependabot_of r = DependabotStatus.Paused \<or>
      dependabot_of r = DependabotStatus.Disabled) rs) =
    length (filter (\<lambda>r. dependabot_of r = DependabotStatus.Paused) rs) +
    length (filter (\<lambda>r. dependabot_of r = DependabotStatus.Disabled) rs)"
    by (rule length_filter_split) auto
  then show "saturating_add (dependabot_paused (count_dependabot_statuses rs))
     (dependabot_disabled (count_dependabot_statuses rs)) =
    u32_of_count (length (filter (\<lambda>r. CoverageControl_classify CoverageControl.Dependabot r =
      DenominatorMembership.Eligible ControlOutcome.Unmet) rs))"
    by (simp add: count_defs bucket_folds classify_simps saturating_add_u32_of_count)
qed (simp_all add: count_defs bucket_folds classify_simps eligible_simps
      exclusion_tally_from_dependabot_def
      ExclusionTally_has_measurement_failure_def ExclusionTally_default_def u32_of_count_pos)

interpretation codeowners_control: control_measure
  "CoverageControl_classify CoverageControl.Codeowners"
  "\<lambda>r. \<not> is_eligible (CoverageControl_classify CoverageControl.Codeowners r)"
  "\<lambda>rs. saturating_add (codeowners_conforming (count_codeowners_statuses rs))
     (codeowners_non_conforming (count_codeowners_statuses rs))"
  "\<lambda>rs. codeowners_absent (count_codeowners_statuses rs)"
  "\<lambda>rs. exclusion_tally_from_codeowners (count_codeowners_statuses rs)"
proof
  fix rs
  have "length (filter (\<lambda>r. CodeownersResult_status (codeowners_of r) = CodeownersStatus.Conforming \<or>
      CodeownersResult_status (codeowners_of r) = CodeownersStatus.NonConforming) rs) =
    length (filter (\<lambda>r. CodeownersResult_status (codeowners_of r) = CodeownersStatus.Conforming) rs) +
    length (filter (\<lambda>r. CodeownersResult_status (codeowners_of r) = CodeownersStatus.NonConforming) rs)"
    by (rule length_filter_split) auto
  then show "saturating_add (codeowners_conforming (count_codeowners_statuses rs))
     (codeowners_non_conforming (count_codeowners_statuses rs)) =
    u32_of_count (length (filter (\<lambda>r. CoverageControl_classify CoverageControl.Codeowners r =
      DenominatorMembership.Eligible ControlOutcome.Met) rs))"
    by (simp add: count_defs bucket_folds classify_simps saturating_add_u32_of_count)
qed (simp_all add: count_defs bucket_folds classify_simps eligible_simps
      exclusion_tally_from_codeowners_def
      ExclusionTally_has_measurement_failure_def ExclusionTally_default_def u32_of_count_pos)

lemma branch_excluded_reason:
  "excluded_reason (BranchProtectionResult_score_category b) \<noteq> Some ExclusionReason.NotApplicable"
  "excluded_reason (BranchProtectionResult_score_category b) = None \<longleftrightarrow>
     BranchProtectionResult_is_observed b"
  by (cases b; simp add: indeterminate_exclusion_not_applicable)+

interpretation branch_control: control_measure
  "CoverageControl_classify CoverageControl.BranchProtection"
  "\<lambda>r. \<not> is_eligible (CoverageControl_classify CoverageControl.BranchProtection r)"
  "\<lambda>rs. branch_pass (count_branch_protection_statuses rs)"
  "\<lambda>rs. branch_fail (count_branch_protection_statuses rs)"
  count_branch_protection_exclusion_reasons
  by unfold_locales (simp_all add: count_defs bucket_folds classify_simps eligible_simps
      branch_exclusions.failure_iff branch_excluded_reason)

subsection \<open>The published coverage\<close>

lemma with_extras_simps [simp]:
  "numerator (with_extras m kvs) = numerator m"
  "denominator (with_extras m kvs) = denominator m"
  "rate (with_extras m kvs) = rate m"
  by (induction kvs arbitrary: m) (auto simp: with_extras_def)

lemma extra_with_extras:
  "distinct (map fst kvs) \<Longrightarrow> (k, v) \<in> set kvs \<Longrightarrow>
     k \<notin> {''numerator'', ''denominator'', ''rate''} \<Longrightarrow>
     extra (with_extras m kvs) k = Some v"
proof (induction kvs arbitrary: m)
  case (Cons kv kvs)
  have keep: "k \<notin> fst ` set kvs \<Longrightarrow> extra (with_extras m kvs) k = extra m k" for m
    by (induction kvs arbitrary: m) (auto simp: with_extras_def extra_with_extra)
  have step: "with_extras m (kv # kvs) = with_extras (RateMetric_with_extra m (fst kv) (snd kv)) kvs"
    by (cases kv) (simp add: with_extras_def)
  show ?case
  proof (cases "kv = (k, v)")
    case True
    with Cons.prems keep show ?thesis unfolding step by (simp add: extra_with_extra)
  next
    case False
    with Cons show ?thesis unfolding step by auto
  qed
qed simp

text \<open>The coverage rate a control publishes, as a function of its drill-down population alone.\<close>

definition population_rate :: "Population \<Rightarrow> u32 \<times> u32" where
  "population_rate pop =
     (if denominator_repo_count pop = 0 \<and> pop \<noteq> [] then (0, 1)
      else (denominator_met_count pop, denominator_repo_count pop))"

lemma population_counts:
  "denominator_repo_count (control_denominator_population c rs) =
     u32_of_count (length (filter (\<lambda>r. is_eligible (CoverageControl_classify c r))
       (filter (CoverageControl_in_population c) rs)))"
  "denominator_met_count (control_denominator_population c rs) =
     u32_of_count (length (filter
       (\<lambda>r. CoverageControl_classify c r = DenominatorMembership.Eligible ControlOutcome.Met)
       (filter (CoverageControl_in_population c) rs)))"
  by (simp_all add: denominator_repo_count_def denominator_met_count_def count_as_u32_def
      control_denominator_population_def filter_map comp_def)

lemma in_population_simps:
  "CoverageControl_in_population CoverageControl.SecurityPolicy =
     (\<lambda>r. visibility (repository r) = Visibility.Public)"
  "c \<noteq> CoverageControl.SecurityPolicy \<Longrightarrow>
     CoverageControl_in_population c = (\<lambda>r. \<not> archived (repository r))"
  by (auto simp: CoverageControl_in_population_def fun_eq_iff split: CoverageControl.split)

lemma population_empty:
  "control_denominator_population c rs = [] \<longleftrightarrow> filter (CoverageControl_in_population c) rs = []"
  by (simp add: control_denominator_population_def)

text \<open>
  The common form of the five coverage rates: a metric whose counts come from \<open>coverage_metric\<close> on
  the population, with the observable count as an extra field.
\<close>

lemma floored_rate:
  assumes "\<And>r. r \<in> set pop \<Longrightarrow> \<not> is_eligible (cls r) \<Longrightarrow> fails r"
    and "\<And>r. fails r \<Longrightarrow> \<not> is_eligible (cls r)"
  shows "filter (\<lambda>r. is_eligible (cls r)) pop = [] \<and> (\<exists>r \<in> set pop. fails r) \<longleftrightarrow>
    filter (\<lambda>r. is_eligible (cls r)) pop = [] \<and> pop \<noteq> []"
  using assms by (cases pop) (auto simp: filter_empty_conv)

lemma coverage_eq_population_rate:
  assumes "m = (if filter (\<lambda>r. is_eligible (CoverageControl_classify c r)) pop = [] \<and>
        (\<exists>r \<in> set pop. \<not> is_eligible (CoverageControl_classify c r))
      then RateMetric_new 0 1
      else RateMetric_new
        (u32_of_count (length (filter (\<lambda>r. CoverageControl_classify c r =
           DenominatorMembership.Eligible ControlOutcome.Met) pop)))
        (u32_of_count (length (filter (\<lambda>r. is_eligible (CoverageControl_classify c r)) pop))))"
    and "pop = filter (CoverageControl_in_population c) rs"
  shows "(numerator m, denominator m) = population_rate (control_denominator_population c rs)"
proof -
  have "filter (\<lambda>r. is_eligible (CoverageControl_classify c r)) pop = [] \<and>
      (\<exists>r \<in> set pop. \<not> is_eligible (CoverageControl_classify c r)) \<longleftrightarrow>
      denominator_repo_count (control_denominator_population c rs) = 0 \<and>
      control_denominator_population c rs \<noteq> []"
    unfolding population_counts population_empty assms(2) u32_of_count_eq_0 length_0_conv
    by (intro floored_rate) auto
  then show ?thesis
    by (simp add: assms population_rate_def population_counts)
qed

text \<open>The inputs the aggregate hands to the coverage functions.\<close>

definition inputs_of :: "RepositoryEvidence list \<Rightarrow> CoverageInputs" where
  "inputs_of rs =
     (let active = active_repos rs;
          public_policy = filter (\<lambda>r. visibility (repository r) = Visibility.Public) rs
      in \<lparr>in_policy_counts = count_policy_statuses public_policy,
          in_secret_counts = count_secret_scanning_statuses active,
          in_dependabot_counts = count_dependabot_statuses active,
          in_branch_counts = count_branch_protection_statuses active,
          in_codeowners_counts = count_codeowners_statuses active,
          in_secret_alert_counts = count_secret_alert_observability active,
          in_taxonomy = count_collection_health_reasons active,
          in_alert_observable_enabled = count_alert_observable_enabled active,
          in_policy_tally = exclusion_tally_from_policy (count_policy_statuses public_policy),
          in_secret_tally = exclusion_tally_from_secret_scanning (count_secret_scanning_statuses active),
          in_dependabot_tally = exclusion_tally_from_dependabot (count_dependabot_statuses active),
          in_branch_tally = count_branch_protection_exclusion_reasons active,
          in_codeowners_tally = exclusion_tally_from_codeowners (count_codeowners_statuses active)\<rparr>)"

lemma aggregate_coverages:
  "security_policy_coverage (aggregate_metrics lower rs) =
     cov_security_policy (build_coverage_metrics (inputs_of rs))"
  "secret_scanning_coverage (aggregate_metrics lower rs) = secret_scanning_coverage_of (inputs_of rs)"
  "dependabot_security_updates_coverage (aggregate_metrics lower rs) =
     dependabot_coverage_of (inputs_of rs)"
  "codeowners_coverage (aggregate_metrics lower rs) = codeowners_coverage_of (inputs_of rs)"
  "branch_protection_coverage (aggregate_metrics lower rs) =
     branch_protection_coverage_of (inputs_of rs)"
  "open_secret_alert_prevalence (aggregate_metrics lower rs) =
     open_secret_alert_prevalence_of (inputs_of rs)"
  by (simp_all add: aggregate_metrics_def Let_def build_coverage_metrics_def inputs_of_def)

definition publishes :: "RateMetric \<Rightarrow> u32 \<Rightarrow> u32 \<Rightarrow> ExclusionTally \<Rightarrow> bool" where
  "publishes m pass fail t \<longleftrightarrow>
     numerator m = numerator (coverage_metric pass fail t) \<and>
     denominator m = denominator (coverage_metric pass fail t) \<and>
     rate m = rate (coverage_metric pass fail t) \<and>
     extra m ''observable_repositories'' = Some (saturating_add pass fail)"

lemma policy_publishes:
  "publishes (cov_security_policy (build_coverage_metrics i))
     (saturating_add (via_setting (in_policy_counts i)) (via_file (in_policy_counts i)))
     (policy_missing (in_policy_counts i)) (in_policy_tally i)"
  by (simp add: publishes_def build_coverage_metrics_def Let_def with_extras_def extra_with_extra)

lemma secret_publishes:
  "publishes (secret_scanning_coverage_of i) (secret_enabled (in_secret_counts i))
     (secret_disabled (in_secret_counts i)) (in_secret_tally i)"
  by (simp add: publishes_def secret_scanning_coverage_of_def Let_def with_extras_def extra_with_extra)

lemma dependabot_publishes:
  "publishes (dependabot_coverage_of i) (dependabot_enabled (in_dependabot_counts i))
     (saturating_add (dependabot_paused (in_dependabot_counts i))
        (dependabot_disabled (in_dependabot_counts i))) (in_dependabot_tally i)"
  by (simp add: publishes_def dependabot_coverage_of_def Let_def with_extras_def extra_with_extra)

lemma codeowners_publishes:
  "publishes (codeowners_coverage_of i)
     (saturating_add (codeowners_conforming (in_codeowners_counts i))
        (codeowners_non_conforming (in_codeowners_counts i)))
     (codeowners_absent (in_codeowners_counts i)) (in_codeowners_tally i)"
  by (simp add: publishes_def codeowners_coverage_of_def Let_def with_extras_def extra_with_extra)

lemma branch_publishes:
  "publishes (branch_protection_coverage_of i) (branch_pass (in_branch_counts i))
     (branch_fail (in_branch_counts i)) (in_branch_tally i)"
  by (simp add: publishes_def branch_protection_coverage_of_def Let_def with_extras_def
      extra_with_extra)

text \<open>
  From the counts of a control over its population to what the control publishes.
\<close>

lemma published_population:
  assumes "publishes m p f t"
    and "coverage_metric p f t =
      (if filter (\<lambda>r. is_eligible (CoverageControl_classify c r)) pop = [] \<and>
          (\<exists>r \<in> set pop. \<not> is_eligible (CoverageControl_classify c r))
       then RateMetric_new 0 1
       else RateMetric_new
        (u32_of_count (length (filter (\<lambda>r. CoverageControl_classify c r =
           DenominatorMembership.Eligible ControlOutcome.Met) pop)))
        (u32_of_count (length (filter (\<lambda>r. is_eligible (CoverageControl_classify c r)) pop))))"
    and "saturating_add p f =
      u32_of_count (length (filter (\<lambda>r. is_eligible (CoverageControl_classify c r)) pop))"
    and "pop = filter (CoverageControl_in_population c) rs"
  shows "(numerator m, denominator m) = population_rate (control_denominator_population c rs) \<and>
    extra m ''observable_repositories'' =
      Some (denominator_repo_count (control_denominator_population c rs))"
  using coverage_eq_population_rate [OF assms(2,4)] assms(1,3)
  by (simp add: publishes_def population_counts assms(4))

lemma inputs_of_simps:
  "in_policy_counts (inputs_of rs) =
     count_policy_statuses (filter (\<lambda>r. visibility (repository r) = Visibility.Public) rs)"
  "in_policy_tally (inputs_of rs) = exclusion_tally_from_policy
     (count_policy_statuses (filter (\<lambda>r. visibility (repository r) = Visibility.Public) rs))"
  "in_secret_counts (inputs_of rs) = count_secret_scanning_statuses (active_repos rs)"
  "in_secret_tally (inputs_of rs) =
     exclusion_tally_from_secret_scanning (count_secret_scanning_statuses (active_repos rs))"
  "in_dependabot_counts (inputs_of rs) = count_dependabot_statuses (active_repos rs)"
  "in_dependabot_tally (inputs_of rs) =
     exclusion_tally_from_dependabot (count_dependabot_statuses (active_repos rs))"
  "in_branch_counts (inputs_of rs) = count_branch_protection_statuses (active_repos rs)"
  "in_branch_tally (inputs_of rs) = count_branch_protection_exclusion_reasons (active_repos rs)"
  "in_codeowners_counts (inputs_of rs) = count_codeowners_statuses (active_repos rs)"
  "in_codeowners_tally (inputs_of rs) =
     exclusion_tally_from_codeowners (count_codeowners_statuses (active_repos rs))"
  "in_secret_alert_counts (inputs_of rs) = count_secret_alert_observability (active_repos rs)"
  "in_alert_observable_enabled (inputs_of rs) = count_alert_observable_enabled (active_repos rs)"
  by (simp_all add: inputs_of_def Let_def)

lemmas published_policy = published_population
  [OF policy_publishes [of "inputs_of rs", unfolded inputs_of_simps]
      policy_control.coverage policy_control.observable_count] for rs

lemmas published_secret = published_population
  [OF secret_publishes [of "inputs_of rs", unfolded inputs_of_simps]
      secret_control.coverage secret_control.observable_count] for rs

lemmas published_dependabot = published_population
  [OF dependabot_publishes [of "inputs_of rs", unfolded inputs_of_simps]
      dependabot_control.coverage dependabot_control.observable_count] for rs

lemmas published_codeowners = published_population
  [OF codeowners_publishes [of "inputs_of rs", unfolded inputs_of_simps]
      codeowners_control.coverage codeowners_control.observable_count] for rs

lemmas published_branch = published_population
  [OF branch_publishes [of "inputs_of rs", unfolded inputs_of_simps]
      branch_control.coverage branch_control.observable_count] for rs

lemma published_control:
  "(numerator (CoverageControl_coverage c (aggregate_metrics lower rs)),
    denominator (CoverageControl_coverage c (aggregate_metrics lower rs))) =
     population_rate (control_denominator_population c rs) \<and>
   extra (CoverageControl_coverage c (aggregate_metrics lower rs)) ''observable_repositories'' =
     Some (denominator_repo_count (control_denominator_population c rs))"
proof (cases c)
  case SecurityPolicy
  show ?thesis
    unfolding SecurityPolicy CoverageControl_coverage_def CoverageControl.case aggregate_coverages
    by (rule published_policy) (simp only: in_population_simps)
next
  case SecretScanning
  show ?thesis
    unfolding SecretScanning CoverageControl_coverage_def CoverageControl.case aggregate_coverages
    by (rule published_secret) (simp add: in_population_simps(2))
next
  case Dependabot
  show ?thesis
    unfolding Dependabot CoverageControl_coverage_def CoverageControl.case aggregate_coverages
    by (rule published_dependabot) (simp add: in_population_simps(2))
next
  case Codeowners
  show ?thesis
    unfolding Codeowners CoverageControl_coverage_def CoverageControl.case aggregate_coverages
    by (rule published_codeowners) (simp add: in_population_simps(2))
next
  case BranchProtection
  show ?thesis
    unfolding BranchProtection CoverageControl_coverage_def CoverageControl.case aggregate_coverages
    by (rule published_branch) (simp add: in_population_simps(2))
qed

text \<open>
  C24. The drill-down is the denominator: for each of the five controls the published numerator and
  denominator are the met and the eligible repositories of the control's drill-down population, and
  the extra field \<open>observable_repositories\<close> is that denominator. The one exception is the floor: a
  non-empty population of which nothing could be measured is published as 0 of 1, so that the
  control scores zero instead of disappearing.
\<close>

theorem drill_down_is_the_denominator:
  "let pop = control_denominator_population c rs;
       coverage = CoverageControl_coverage c (aggregate_metrics lower rs)
   in (numerator coverage, denominator coverage) =
        (if denominator_repo_count pop = 0 \<and> pop \<noteq> [] then (0, 1)
         else (denominator_met_count pop, denominator_repo_count pop)) \<and>
      extra coverage ''observable_repositories'' = Some (denominator_repo_count pop)"
  using published_control [of c lower rs] by (simp only: Let_def population_rate_def)

lemma population_rate_bound:
  "fst (population_rate (control_denominator_population c rs)) \<le>
     snd (population_rate (control_denominator_population c rs))"
  unfolding population_rate_def population_counts
  by (auto intro!: u32_of_count_mono length_filter_le_imp)

lemma alert_prevalence_bound:
  "repos_with_open_alerts (count_secret_alert_observability rs) \<le> count_alert_observable_enabled rs"
proof -
  have "SecretScanningResult_has_open_alerts (secret_of r) = Some True \<Longrightarrow> alerts_observed r" for r
    using has_open_alerts_enabled [of "secret_of r" True]
    by (simp add: alerts_observed_def SecretScanningResult_alerts_observable_def)
  then show ?thesis
    unfolding count_defs bucket_folds count_alert_observable_enabled_def count_as_u32_def
    by (intro u32_of_count_mono length_filter_le_imp)
qed

text \<open>
  No published rate exceeds one: the numerator of every control's coverage and of the open-alert
  prevalence is at most its denominator, so each rate that exists is a percentage between 0 and 100.
\<close>

theorem published_rates_are_percentages:
  "numerator (CoverageControl_coverage c (aggregate_metrics lower rs)) \<le>
     denominator (CoverageControl_coverage c (aggregate_metrics lower rs)) \<and>
   numerator (open_secret_alert_prevalence (aggregate_metrics lower rs)) \<le>
     denominator (open_secret_alert_prevalence (aggregate_metrics lower rs))"
proof
  show "numerator (CoverageControl_coverage c (aggregate_metrics lower rs)) \<le>
     denominator (CoverageControl_coverage c (aggregate_metrics lower rs))"
    using published_control [of c lower rs] population_rate_bound [of c rs]
    by (metis fst_conv snd_conv)
  show "numerator (open_secret_alert_prevalence (aggregate_metrics lower rs)) \<le>
     denominator (open_secret_alert_prevalence (aggregate_metrics lower rs))"
    unfolding aggregate_coverages open_secret_alert_prevalence_of_def Let_def
    by (simp add: inputs_of_simps alert_prevalence_bound)
qed

subsection \<open>The collection-health taxonomy\<close>

text \<open>The failure a repository contributes to the taxonomy, by check kind.\<close>

fun branch_failure :: "BranchProtectionResult \<Rightarrow> CollectionFailureReason option" where
  "branch_failure (BranchProtectionResult.Unobservable _ reason _ _) = (case reason of
     IndeterminateReason.PermissionDenied \<Rightarrow> Some CollectionFailureReason.PermissionDenied
   | IndeterminateReason.PermissionSuspected \<Rightarrow> Some CollectionFailureReason.PermissionSuspected
   | IndeterminateReason.Transient \<Rightarrow> Some CollectionFailureReason.Transient
   | IndeterminateReason.RateLimited \<Rightarrow> Some CollectionFailureReason.RateLimited
   | IndeterminateReason.Invalid \<Rightarrow> Some CollectionFailureReason.Invalid
   | IndeterminateReason.Pending \<Rightarrow> None)"
| "branch_failure (BranchProtectionResult.Unprotected _ (HistoryProtectionGap.Absent True _) _) =
     Some CollectionFailureReason.NotFoundAbsent"
| "branch_failure _ = None"

fun health_hit ::
  "CollectionHealthCheckKind \<Rightarrow> CollectionFailureReason \<Rightarrow> RepositoryEvidence \<Rightarrow> bool" where
  "health_hit CollectionHealthCheckKind.SecretScanning CollectionFailureReason.PermissionDenied r =
     (SecretScanningResult_status (secret_of r) = SecretScanningStatus.PermissionDenied)"
| "health_hit CollectionHealthCheckKind.BranchProtection f r = (branch_failure (branch_of r) = Some f)"
| "health_hit _ _ _ = False"

fun taxonomy_count ::
  "CollectionHealthTaxonomyCounts \<Rightarrow> CollectionHealthCheckKind \<Rightarrow> CollectionFailureReason \<Rightarrow> u32" where
  "taxonomy_count t CollectionHealthCheckKind.SecretScanning CollectionFailureReason.PermissionDenied =
     tax_secret_scanning_permission_denied t"
| "taxonomy_count t CollectionHealthCheckKind.BranchProtection f = (case f of
     CollectionFailureReason.PermissionDenied \<Rightarrow> tax_branch_protection_permission_denied t
   | CollectionFailureReason.PermissionSuspected \<Rightarrow> tax_branch_protection_permission_suspected t
   | CollectionFailureReason.NotFoundAbsent \<Rightarrow> tax_branch_protection_not_found_absent t
   | CollectionFailureReason.Transient \<Rightarrow> tax_branch_protection_transient t
   | CollectionFailureReason.RateLimited \<Rightarrow> tax_branch_protection_rate_limited t
   | CollectionFailureReason.Invalid \<Rightarrow> tax_branch_protection_invalid t)"
| "taxonomy_count _ _ _ = 0"

lemma taxonomy_branch_step_eq:
  "taxonomy_branch_step b c = (case branch_failure b of
     None \<Rightarrow> c
   | Some f \<Rightarrow> (case f of
       CollectionFailureReason.PermissionDenied \<Rightarrow> c\<lparr>tax_branch_protection_permission_denied :=
         sat_inc (tax_branch_protection_permission_denied c)\<rparr>
     | CollectionFailureReason.PermissionSuspected \<Rightarrow> c\<lparr>tax_branch_protection_permission_suspected :=
         sat_inc (tax_branch_protection_permission_suspected c)\<rparr>
     | CollectionFailureReason.NotFoundAbsent \<Rightarrow> c\<lparr>tax_branch_protection_not_found_absent :=
         sat_inc (tax_branch_protection_not_found_absent c)\<rparr>
     | CollectionFailureReason.Transient \<Rightarrow> c\<lparr>tax_branch_protection_transient :=
         sat_inc (tax_branch_protection_transient c)\<rparr>
     | CollectionFailureReason.RateLimited \<Rightarrow> c\<lparr>tax_branch_protection_rate_limited :=
         sat_inc (tax_branch_protection_rate_limited c)\<rparr>
     | CollectionFailureReason.Invalid \<Rightarrow> c\<lparr>tax_branch_protection_invalid :=
         sat_inc (tax_branch_protection_invalid c)\<rparr>))"
  by (cases b rule: branch_failure.cases)
    (simp_all add: taxonomy_branch_step_def split: IndeterminateReason.split)

lemma taxonomy_bucket:
  "bucket_count taxonomy_step CollectionHealthTaxonomyCounts_default
     (\<lambda>t. taxonomy_count t k f) (health_hit k f)"
proof
  show "taxonomy_count CollectionHealthTaxonomyCounts_default k f = 0"
    by (cases k; cases f) (simp_all add: count_default_defs)
  fix r c
  show "taxonomy_count (taxonomy_step r c) k f =
      (if health_hit k f r then sat_inc (taxonomy_count c k f) else taxonomy_count c k f)"
    by (cases k; cases f) (simp_all add: taxonomy_step_def Let_def taxonomy_branch_step_eq
        split: option.split CollectionFailureReason.split)
qed

interpretation taxonomy: bucket_count taxonomy_step CollectionHealthTaxonomyCounts_default
  "\<lambda>t. taxonomy_count t k f" "health_hit k f" for k f
  by (rule taxonomy_bucket)

lemma push_collection_health_count_eq:
  "push_collection_health_count k f n cs =
     cs @ filter (\<lambda>e. 0 < health_count e)
       [\<lparr>health_check_kind = k, health_reason = f, health_count = n\<rparr>]"
  by (simp add: push_collection_health_count_def)

definition taxonomy_keys :: "(CollectionHealthCheckKind \<times> CollectionFailureReason) list" where
  "taxonomy_keys =
     [(CollectionHealthCheckKind.SecretScanning, CollectionFailureReason.PermissionDenied),
      (CollectionHealthCheckKind.BranchProtection, CollectionFailureReason.PermissionSuspected),
      (CollectionHealthCheckKind.BranchProtection, CollectionFailureReason.NotFoundAbsent),
      (CollectionHealthCheckKind.BranchProtection, CollectionFailureReason.PermissionDenied),
      (CollectionHealthCheckKind.BranchProtection, CollectionFailureReason.Transient),
      (CollectionHealthCheckKind.BranchProtection, CollectionFailureReason.RateLimited),
      (CollectionHealthCheckKind.BranchProtection, CollectionFailureReason.Invalid)]"

abbreviation health_key ::
  "CollectionHealthCount \<Rightarrow> CollectionHealthCheckKind \<times> CollectionFailureReason" where
  "health_key e \<equiv> (health_check_kind e, health_reason e)"

abbreviation health_entry :: "CollectionHealthTaxonomyCounts \<Rightarrow>
  CollectionHealthCheckKind \<times> CollectionFailureReason \<Rightarrow> CollectionHealthCount" where
  "health_entry t kf \<equiv> \<lparr>health_check_kind = fst kf, health_reason = snd kf,
     health_count = taxonomy_count t (fst kf) (snd kf)\<rparr>"

lemma set_filter_map: "set (filter P (map g xs)) = {g x | x. x \<in> set xs \<and> P (g x)}"
  by auto

lemma mset_sort_map: "mset (map f (sort_key k xs)) = mset (map f xs)"
  by simp

lemma into_counts_eq:
  "CollectionHealthTaxonomyCounts_into_counts t =
     sort_key health_key (filter (\<lambda>e. 0 < health_count e) (map (health_entry t) taxonomy_keys))"
  by (simp only: CollectionHealthTaxonomyCounts_into_counts_def Let_def taxonomy_keys_def
      push_collection_health_count_eq list.map fst_conv snd_conv taxonomy_count.simps
      CollectionFailureReason.case append_Nil append_assoc filter_append [symmetric] append_Cons)

lemma taxonomy_count_outside: "(k, f) \<notin> set taxonomy_keys \<Longrightarrow> taxonomy_count t k f = 0"
  by (cases k; cases f) (simp_all add: taxonomy_keys_def)

lemma set_into_counts:
  "set (CollectionHealthTaxonomyCounts_into_counts t) =
     {health_entry t (k, f) | k f. taxonomy_count t k f \<noteq> 0}"
proof -
  have "set (CollectionHealthTaxonomyCounts_into_counts t) =
      {health_entry t kf | kf. kf \<in> set taxonomy_keys \<and> taxonomy_count t (fst kf) (snd kf) \<noteq> 0}"
    unfolding into_counts_eq set_sort set_filter_map by (simp only: word_gt_0 CollectionHealthCount.select_convs eq_commute [of 0])
  also have "\<dots> = {health_entry t (k, f) | k f. taxonomy_count t k f \<noteq> 0}"
    using taxonomy_count_outside by fastforce
  finally show ?thesis .
qed

text \<open>
  The collection-health table is exact: it is strictly sorted by check kind and reason, and it
  holds one entry for each kind and reason under which at least one active repository failed, with
  the saturated number of those repositories; nothing else is listed, in particular no zero entry.
\<close>

theorem collection_health_table_exact:
  "let table = collection_health_counts (aggregate_metrics lower rs)
   in sorted (map (\<lambda>e. (health_check_kind e, health_reason e)) table) \<and>
      distinct (map (\<lambda>e. (health_check_kind e, health_reason e)) table) \<and>
      set table =
        {\<lparr>health_check_kind = k, health_reason = f,
          health_count = count_as_u32 (length (filter (health_hit k f) (active_repos rs)))\<rparr> | k f.
         \<exists>r \<in> set rs. \<not> archived (repository r) \<and> health_hit k f r}"
proof -
  let ?t = "count_collection_health_reasons (active_repos rs)"
  have table: "collection_health_counts (aggregate_metrics lower rs) =
      CollectionHealthTaxonomyCounts_into_counts ?t"
    by (simp add: aggregate_metrics_def Let_def)
  have count: "taxonomy_count ?t k f = u32_of_count (length (filter (health_hit k f) (active_repos rs)))"
    for k f unfolding count_defs by (rule taxonomy.bucket_fold)
  have "distinct (map health_key (filter (\<lambda>e. 0 < health_count e) (map (health_entry ?t) taxonomy_keys)))"
    by (rule distinct_map_filter) (simp add: taxonomy_keys_def)
  then have "distinct (map health_key (CollectionHealthTaxonomyCounts_into_counts ?t))"
    unfolding into_counts_eq by (subst mset_eq_imp_distinct_iff) (rule mset_sort_map)
  moreover have "sorted (map health_key (CollectionHealthTaxonomyCounts_into_counts ?t))"
    by (simp add: into_counts_eq)
  moreover have "u32_of_count (length (filter P (active_repos rs))) \<noteq> 0 \<longleftrightarrow>
      (\<exists>r \<in> set rs. \<not> archived (repository r) \<and> P r)" for P
    by (auto simp: u32_of_count_eq_0 filter_empty_conv)
  ultimately show ?thesis
    unfolding Let_def table set_into_counts count fst_conv snd_conv count_as_u32_def by simp
qed

subsection \<open>Secret-scanning observability\<close>

interpretation mismatch_bucket: bucket_count "observability_step m" "(0, 0, 0)" fst
  "\<lambda>r. SecretScanningResult_status_mismatch (secret_of r) \<or>
     SecretScanningResult_status (secret_of r) = SecretScanningStatus.Disabled \<and>
     0 < (case m (inventory_key (repository r)) of None \<Rightarrow> 0 | Some s \<Rightarrow> open_alert_count s)" for m
  by unfold_locales (auto simp: observability_step_def Let_def split: prod.split)

interpretation observable_bucket: bucket_count "observability_step m" "(0, 0, 0)" "\<lambda>t. fst (snd t)"
  "\<lambda>r. SecretScanningResult_alerts_observable (secret_of r)" for m
  by unfold_locales (auto simp: observability_step_def Let_def alerts_observable_enabled
      split: prod.split)

interpretation unobservable_bucket: bucket_count "observability_step m" "(0, 0, 0)" "\<lambda>t. snd (snd t)"
  "\<lambda>r. \<not> SecretScanningResult_alerts_observable (secret_of r)" for m
  by unfold_locales (auto simp: observability_step_def Let_def split: prod.split)

lemma observability_counts:
  "observable_enabled_repositories (build_secret_scanning_observability_summary rs org) =
     u32_of_count (length (filter (\<lambda>r. SecretScanningResult_alerts_observable (secret_of r))
       (active_repos rs)))"
  "unobservable_repositories (build_secret_scanning_observability_summary rs org) =
     u32_of_count (length (filter (\<lambda>r. \<not> SecretScanningResult_alerts_observable (secret_of r))
       (active_repos rs)))"
  "status_mismatch_count (build_secret_scanning_observability_summary rs org) =
     u32_of_count (length (filter (\<lambda>r. SecretScanningResult_status_mismatch (secret_of r) \<or>
       SecretScanningResult_status (secret_of r) = SecretScanningStatus.Disabled \<and>
       0 < (case (case org of None \<Rightarrow> Map.empty | Some s \<Rightarrow> per_repo s) (inventory_key (repository r))
            of None \<Rightarrow> 0 | Some s \<Rightarrow> open_alert_count s)) (active_repos rs)))"
  by (simp_all add: build_secret_scanning_observability_summary_def Let_def case_prod_beta
      observable_bucket.bucket_fold unobservable_bucket.bucket_fold mismatch_bucket.bucket_fold)

lemma empty_age_buckets_eq:
  "empty_age_buckets = [''0_7_days'' \<mapsto> 0, ''8_30_days'' \<mapsto> 0, ''31_90_days'' \<mapsto> 0,
     ''91_plus_days'' \<mapsto> 0, ''unknown'' \<mapsto> 0]"
  by (simp add: empty_age_buckets_def SECRET_ALERT_AGE_BUCKETS_def
      SECRET_ALERT_UNKNOWN_AGE_BUCKET_def)

lemma merge_age_buckets_dom: "dom (merge_age_buckets source) = dom empty_age_buckets \<union> fst ` set source"
proof -
  have "dom (fold (\<lambda>(key, v) b. b(key \<mapsto> u32_try_from_u64 v)) source m) = dom m \<union> fst ` set source"
    for m by (induction source arbitrary: m) auto
  then show ?thesis by (simp add: merge_age_buckets_def)
qed

lemma merge_age_buckets_lookup:
  "distinct (map fst source) \<Longrightarrow> merge_age_buckets source k =
     (case map_of source k of Some v \<Rightarrow> Some (u32_try_from_u64 v) | None \<Rightarrow> empty_age_buckets k)"
proof -
  have "distinct (map fst source) \<Longrightarrow>
      fold (\<lambda>(key, v) b. b(key \<mapsto> u32_try_from_u64 v)) source m k =
      (case map_of source k of Some v \<Rightarrow> Some (u32_try_from_u64 v) | None \<Rightarrow> m k)" for m
  proof (induction source arbitrary: m)
    case (Cons kv source)
    obtain k' v where kv: "kv = (k', v)" by (cases kv)
    with Cons show ?case
      by (cases "k = k'") (auto simp: map_of_eq_None_iff [THEN iffD2] split: option.split)
  qed simp
  then show "distinct (map fst source) \<Longrightarrow> ?thesis" by (simp add: merge_age_buckets_def)
qed

text \<open>
  The observability summary accounts for every active repository: those with observable alerts
  and those without add up to the number of active repositories. The age histogram always carries
  the five standard labels, keeps every label the organisation reported, and clamps each reported
  count to \<open>u32\<close>.
\<close>

theorem observability_summary_accounts_for_all:
  assumes "distinct (map fst (open_secret_alert_age_buckets org))"
  shows "let s = build_secret_scanning_observability_summary rs (Some org);
       none = build_secret_scanning_observability_summary rs None
   in saturating_add (observable_enabled_repositories s) (unobservable_repositories s) =
        count_as_u32 (length (active_repos rs)) \<and>
      {''0_7_days'', ''8_30_days'', ''31_90_days'', ''91_plus_days'', ''unknown''} =
        dom (obs_age_buckets none) \<and>
      dom (obs_age_buckets s) =
        dom (obs_age_buckets none) \<union> fst ` set (open_secret_alert_age_buckets org) \<and>
      (\<forall>k v. map_of (open_secret_alert_age_buckets org) k = Some v \<longrightarrow>
         obs_age_buckets s k = Some (u32_of_count (unat v)))"
proof -
  have split: "length (active_repos rs) =
      length (filter (\<lambda>r. SecretScanningResult_alerts_observable (secret_of r)) (active_repos rs)) +
      length (filter (\<lambda>r. \<not> SecretScanningResult_alerts_observable (secret_of r)) (active_repos rs))"
    by (rule sum_length_filter_compl [symmetric])
  have buckets:
    "obs_age_buckets (build_secret_scanning_observability_summary rs (Some org)) =
       merge_age_buckets (open_secret_alert_age_buckets org)"
    "obs_age_buckets (build_secret_scanning_observability_summary rs None) = empty_age_buckets"
    by (simp_all add: build_secret_scanning_observability_summary_def Let_def case_prod_beta
        observability_with_org_def new_observability_summary_def)
  show ?thesis
    unfolding Let_def observability_counts saturating_add_u32_of_count buckets merge_age_buckets_dom
      count_as_u32_def split [symmetric]
    by (auto simp: merge_age_buckets_lookup [OF assms] u32_try_from_u64_def empty_age_buckets_eq)
qed

theorem observability_summary_accounts_for_all_witness:
  "let org = \<lparr>collection_status = CollectionStatus.Success, collection_reason = None,
        org_http_status = Some 200, per_repo = Map.empty,
        open_secret_alert_age_buckets = [(''0_7_days'', 3), (''new'', 4294967296)],
        total_open_secret_alerts = 4294967299, oldest_open_secret_alert_created_at = None,
        newest_open_secret_alert_created_at = None\<rparr>
   in obs_age_buckets (build_secret_scanning_observability_summary [] (Some org)) ''new'' =
      Some (u32_of_count (unat (4294967296 :: u64)))"
proof -
  define org where "org = \<lparr>collection_status = CollectionStatus.Success, collection_reason = None,
        org_http_status = Some 200, per_repo = Map.empty,
        open_secret_alert_age_buckets = [(''0_7_days'', 3), (''new'', 4294967296)],
        total_open_secret_alerts = 4294967299, oldest_open_secret_alert_created_at = None,
        newest_open_secret_alert_created_at = None\<rparr>"
  have "distinct (map fst (open_secret_alert_age_buckets org))" by (simp add: org_def)
  from observability_summary_accounts_for_all [OF this, of "[]", unfolded Let_def]
  have "map_of (open_secret_alert_age_buckets org) ''new'' = Some v \<longrightarrow>
      obs_age_buckets (build_secret_scanning_observability_summary [] (Some org)) ''new'' =
      Some (u32_of_count (unat v))" for v
    by blast
  then show ?thesis by (simp add: org_def Let_def)
qed

end
