(* ===== verification/Aggregate_Owners.thy ===== *)
theory Aggregate_Owners
  imports Aggregate_Counts
begin

text \<open>
  The per-owner half of \<open>aggregate/metrics.rs\<close>. The owner loop is an instance of the tally interface
  for each control, and its counts are an instance of the same \<open>control_measure\<close> interface as the
  org-level counts, so an owner page classifies repositories exactly as the org page does. The owner
  list does not depend on the iteration order of the hash map it is built from, and the two
  enrichment passes are idempotent, independent of each other and keep the list order.
\<close>

subsection \<open>The owner loop as tallies\<close>

fun present_category :: "CodeownersResult \<Rightarrow> ScoreCategory" where
  "present_category (CodeownersResult.Conforming _ _) = ScoreCategory.Pass"
| "present_category (CodeownersResult.NonConforming _ _ _) = ScoreCategory.Pass"
| "present_category (CodeownersResult.Absent _) = ScoreCategory.Fail"
| "present_category (CodeownersResult.Unobservable reason _) =
     ScoreCategory.Excluded (indeterminate_exclusion reason)"

lemma tally_codeowners_eq: "tally_codeowners c t = tally_category (present_category c) t"
  by (cases c) (simp_all add: tally_codeowners_def tally_category_def
      ScoreCategory_of_codeowners_def ScoreCategory_of_codeowners_status_def)

interpretation owner_policy: category_tally "\<lambda>r. ScoreCategory_of_policy (policy_of r)"
  owner_tally_step OwnerTallies_default ot_policy
  by unfold_locales (simp_all add: OwnerTallies_default_def owner_tally_step_def Let_def)

interpretation owner_secret: category_tally "\<lambda>r. ScoreCategory_of_secret_scanning (secret_of r)"
  owner_tally_step OwnerTallies_default ot_secret
  by unfold_locales (simp_all add: OwnerTallies_default_def owner_tally_step_def Let_def)

interpretation owner_dependabot: category_tally
  "\<lambda>r. ScoreCategory_of_dependabot_status (dependabot_of r)"
  owner_tally_step OwnerTallies_default ot_dependabot
  by unfold_locales (simp_all add: OwnerTallies_default_def owner_tally_step_def Let_def)

interpretation owner_branch: category_tally
  "\<lambda>r. BranchProtectionResult_score_category (branch_of r)"
  owner_tally_step OwnerTallies_default ot_branch
  by unfold_locales (simp_all add: OwnerTallies_default_def owner_tally_step_def Let_def)

interpretation owner_codeowners: category_tally "\<lambda>r. present_category (codeowners_of r)"
  owner_tally_step OwnerTallies_default ot_codeowners
  by unfold_locales (simp_all add: OwnerTallies_default_def owner_tally_step_def Let_def
      tally_codeowners_eq)

subsection \<open>The owner loop as measured controls\<close>

lemma excluded_reason_None: "excluded_reason c = None \<longleftrightarrow> c = ScoreCategory.Pass \<or> c = ScoreCategory.Fail"
  by (cases c) simp_all

lemma policy_failure:
  "excluded_reason (ScoreCategory_of_policy p) \<noteq> None \<and>
   excluded_reason (ScoreCategory_of_policy p) \<noteq> Some ExclusionReason.NotApplicable \<longleftrightarrow>
   SecurityPolicyResult_status p = SecurityPolicyStatus.Unknown"
  by (cases p) (simp_all add: ScoreCategory_of_policy_def ScoreCategory_of_policy_status_def
      indeterminate_exclusion_not_applicable)

lemma secret_failure:
  "excluded_reason (ScoreCategory_of_secret_scanning s) \<noteq> None \<and>
   excluded_reason (ScoreCategory_of_secret_scanning s) \<noteq> Some ExclusionReason.NotApplicable \<longleftrightarrow>
   SecretScanningResult_status s = SecretScanningStatus.PermissionDenied \<or>
   SecretScanningResult_status s = SecretScanningStatus.Unknown"
  by (cases "SecretScanningResult_status s")
    (auto simp: ScoreCategory_of_secret_scanning_def split: option.split SecretScanningFailureReason.split)

lemma dependabot_failure:
  "excluded_reason (ScoreCategory_of_dependabot_status d) \<noteq> None \<and>
   excluded_reason (ScoreCategory_of_dependabot_status d) \<noteq> Some ExclusionReason.NotApplicable \<longleftrightarrow>
   d = DependabotStatus.Unknown"
  by (cases d) (simp_all add: ScoreCategory_of_dependabot_status_def)

lemma codeowners_failure:
  "excluded_reason (present_category c) \<noteq> None \<and>
   excluded_reason (present_category c) \<noteq> Some ExclusionReason.NotApplicable \<longleftrightarrow>
   CodeownersResult_status c = CodeownersStatus.Unknown"
  by (cases c) (simp_all add: indeterminate_exclusion_not_applicable)

lemma present_category_simps:
  "present_category c = ScoreCategory.Pass \<longleftrightarrow>
     CodeownersResult_status c = CodeownersStatus.Conforming \<or>
     CodeownersResult_status c = CodeownersStatus.NonConforming"
  "present_category c = ScoreCategory.Fail \<longleftrightarrow> CodeownersResult_status c = CodeownersStatus.Absent"
  by (cases c; simp)+

text \<open>Which repositories floor an owner's rate: an inapplicable policy does not.\<close>

fun owner_unmeasured :: "CoverageControl \<Rightarrow> RepositoryEvidence \<Rightarrow> bool" where
  "owner_unmeasured CoverageControl.SecurityPolicy r =
     (SecurityPolicyResult_status (policy_of r) = SecurityPolicyStatus.Unknown)"
| "owner_unmeasured c r = (\<not> is_eligible (CoverageControl_classify c r))"

interpretation owner_policy_control: control_measure
  "CoverageControl_classify CoverageControl.SecurityPolicy"
  "owner_unmeasured CoverageControl.SecurityPolicy"
  "\<lambda>rs. ct_pass (ot_policy (fold owner_tally_step rs OwnerTallies_default))"
  "\<lambda>rs. ct_fail (ot_policy (fold owner_tally_step rs OwnerTallies_default))"
  "\<lambda>rs. ct_tally (ot_policy (fold owner_tally_step rs OwnerTallies_default))"
  by unfold_locales (simp_all only: owner_policy.passes.bucket_fold owner_policy.fails.bucket_fold
      owner_policy.failure_iff policy_failure classify_simps status_simps owner_unmeasured.simps)

interpretation owner_secret_control: control_measure
  "CoverageControl_classify CoverageControl.SecretScanning"
  "owner_unmeasured CoverageControl.SecretScanning"
  "\<lambda>rs. ct_pass (ot_secret (fold owner_tally_step rs OwnerTallies_default))"
  "\<lambda>rs. ct_fail (ot_secret (fold owner_tally_step rs OwnerTallies_default))"
  "\<lambda>rs. ct_tally (ot_secret (fold owner_tally_step rs OwnerTallies_default))"
  by unfold_locales (simp_all only: owner_secret.passes.bucket_fold owner_secret.fails.bucket_fold
      owner_secret.failure_iff secret_failure classify_simps status_simps owner_unmeasured.simps
      eligible_simps not_not)

interpretation owner_dependabot_control: control_measure
  "CoverageControl_classify CoverageControl.Dependabot"
  "owner_unmeasured CoverageControl.Dependabot"
  "\<lambda>rs. ct_pass (ot_dependabot (fold owner_tally_step rs OwnerTallies_default))"
  "\<lambda>rs. ct_fail (ot_dependabot (fold owner_tally_step rs OwnerTallies_default))"
  "\<lambda>rs. ct_tally (ot_dependabot (fold owner_tally_step rs OwnerTallies_default))"
  by unfold_locales (simp_all only: owner_dependabot.passes.bucket_fold
      owner_dependabot.fails.bucket_fold owner_dependabot.failure_iff dependabot_failure
      classify_simps status_simps owner_unmeasured.simps eligible_simps not_not)

interpretation owner_branch_control: control_measure
  "CoverageControl_classify CoverageControl.BranchProtection"
  "owner_unmeasured CoverageControl.BranchProtection"
  "\<lambda>rs. ct_pass (ot_branch (fold owner_tally_step rs OwnerTallies_default))"
  "\<lambda>rs. ct_fail (ot_branch (fold owner_tally_step rs OwnerTallies_default))"
  "\<lambda>rs. ct_tally (ot_branch (fold owner_tally_step rs OwnerTallies_default))"
  by unfold_locales (simp_all add: owner_branch.passes.bucket_fold owner_branch.fails.bucket_fold
      owner_branch.failure_iff branch_excluded_reason classify_simps status_simps eligible_simps)

interpretation owner_codeowners_control: control_measure
  "CoverageControl_classify CoverageControl.Codeowners"
  "owner_unmeasured CoverageControl.Codeowners"
  "\<lambda>rs. ct_pass (ot_codeowners (fold owner_tally_step rs OwnerTallies_default))"
  "\<lambda>rs. ct_fail (ot_codeowners (fold owner_tally_step rs OwnerTallies_default))"
  "\<lambda>rs. ct_tally (ot_codeowners (fold owner_tally_step rs OwnerTallies_default))"
  by unfold_locales (simp_all only: owner_codeowners.passes.bucket_fold
      owner_codeowners.fails.bucket_fold owner_codeowners.failure_iff codeowners_failure
      classify_simps present_category_simps owner_unmeasured.simps eligible_simps not_not)

text \<open>The key under which \<open>per_control_coverage\<close> holds a control.\<close>

fun control_key :: "CoverageControl \<Rightarrow> string" where
  "control_key CoverageControl.SecurityPolicy = ''security_policy''"
| "control_key CoverageControl.SecretScanning = ''secret_scanning''"
| "control_key CoverageControl.Dependabot = ''dependabot_security_updates''"
| "control_key CoverageControl.BranchProtection = ''branch_protection''"
| "control_key CoverageControl.Codeowners = ''codeowners''"

text \<open>
  An owner's rate for a control is the rate of the owner's own repositories under the org-level
  classification: met over eligible, or 0 of 1 when nothing was eligible but some repository could
  not be measured (an inapplicable security policy does not count as unmeasured).
\<close>

theorem owner_coverage_uses_org_classification:
  "occ_per_control_coverage (build_per_control_coverage rs) (control_key c) = Some
     (if filter (\<lambda>r. is_eligible (CoverageControl_classify c r)) rs = [] \<and>
         (\<exists>r. r \<in> set rs \<and> owner_unmeasured c r)
      then RateMetric_new 0 1
      else RateMetric_new
        (count_as_u32 (length (filter
          (\<lambda>r. CoverageControl_classify c r = DenominatorMembership.Eligible ControlOutcome.Met) rs)))
        (count_as_u32 (length (filter (\<lambda>r. is_eligible (CoverageControl_classify c r)) rs))))"
  unfolding Bex_def [symmetric] count_as_u32_def build_per_control_coverage_def Let_def
    control_coverage_def
  by (cases c)
    (simp_all only: OwnerControlCoverage.select_convs control_key.simps,
     simp_all add: owner_policy_control.coverage owner_secret_control.coverage
        owner_dependabot_control.coverage owner_codeowners_control.coverage
        owner_branch_control.coverage)

subsection \<open>The owner list\<close>

abbreviation owner_sort_key :: "OwnerMetrics \<Rightarrow> nat \<times> string" where
  "owner_sort_key m \<equiv> (type_rank (owner_type m), owner m)"

lemma owner_metrics_of_owner [simp]: "owner (owner_metrics_of e) = fst e"
  by (cases e) (simp add: Let_def)

lemma owner_metrics_of_type [simp]: "owner_type (owner_metrics_of e) = owner_type_of (fst e)"
  by (cases e) (simp add: Let_def)

lemma owners_of_entries: "map owner (map owner_metrics_of es) = map fst es"
  by simp

lemma inj_on_owner_sort_key:
  assumes "distinct (map fst es)"
  shows "inj_on owner_sort_key (set (map owner_metrics_of es))"
proof (rule inj_onI)
  fix a b
  assume ab: "a \<in> set (map owner_metrics_of es)" "b \<in> set (map owner_metrics_of es)"
    "owner_sort_key a = owner_sort_key b"
  then obtain x y where xy: "x \<in> set es" "y \<in> set es" "a = owner_metrics_of x" "b = owner_metrics_of y"
    by auto
  with ab have "fst x = fst y" by simp
  with xy assms have "x = y" by (metis distinct_map inj_onD)
  with xy show "a = b" by simp
qed

lemma owner_metrics_perm:
  assumes "mset es = mset es'" and "distinct (map fst es)"
  shows "owner_metrics_from_entries es = owner_metrics_from_entries es'"
proof -
  have "mset (map owner_metrics_of es) = mset (sort_key owner_sort_key (map owner_metrics_of es'))"
    using assms(1) by simp
  then show ?thesis
    unfolding owner_metrics_from_entries_def
    by (rule sort_key_inj_key_eq) (use inj_on_owner_sort_key [OF assms(2)] in simp_all)
qed

text \<open>
  The owner list is deterministic although it is built by iterating a hash map: any iteration
  order of the entries of the owner map gives the same list. The list is sorted by owner type (teams,
  ambiguous, users) and then by name, and each owner that an active CODEOWNERS file names occurs in it
  exactly once.
\<close>

theorem owner_list_deterministic:
  assumes "mset es = mset (build_owner_repo_map lower rs)"
  shows "owner_metrics_from_entries es = build_owner_metrics lower rs \<and>
    sorted (map (\<lambda>m. (type_rank (owner_type m), owner m)) (build_owner_metrics lower rs)) \<and>
    distinct (map owner (build_owner_metrics lower rs)) \<and>
    set (map owner (build_owner_metrics lower rs)) = fst ` set (owner_refs lower rs)"
proof (intro conjI)
  have distinct: "distinct (map fst es)"
    using distinct_build_owner_repo_map [of lower rs] assms
    by (metis mset_eq_imp_distinct_iff mset_map)
  show "owner_metrics_from_entries es = build_owner_metrics lower rs"
    unfolding build_owner_metrics_def by (rule owner_metrics_perm [OF assms distinct])
  show "sorted (map (\<lambda>m. (type_rank (owner_type m), owner m)) (build_owner_metrics lower rs))"
    by (simp add: build_owner_metrics_def owner_metrics_from_entries_def)
  have "mset (map owner (build_owner_metrics lower rs)) = mset (map fst (build_owner_repo_map lower rs))"
    unfolding build_owner_metrics_def owner_metrics_from_entries_def mset_sort_map owners_of_entries ..
  then show "distinct (map owner (build_owner_metrics lower rs))"
    and "set (map owner (build_owner_metrics lower rs)) = fst ` set (owner_refs lower rs)"
    using distinct_build_owner_repo_map [of lower rs] keys_build_owner_repo_map [of lower rs]
    by (metis mset_eq_imp_distinct_iff, metis mset_eq_setD set_map)
qed

definition sample_owned :: "string \<Rightarrow> string list \<Rightarrow> RepositoryEvidence" where
  "sample_owned n names = (sample_evidence n
      (SecretScanningResult_unobservable SecretScanningFailureReason.Pending ''t''))
     \<lparr>checks := (sample_checks
        (SecretScanningResult_unobservable SecretScanningFailureReason.Pending ''t''))
        \<lparr>codeowners := CodeownersResult.Conforming
          (CodeownersContent.Parsed \<lparr>entries = [], unique_owners = names, skipped_lines = 0\<rparr>) ''t''\<rparr>\<rparr>"

theorem owner_list_deterministic_witness:
  "owner_metrics_from_entries
     (rev (build_owner_repo_map id [sample_owned ''r1'' [''@b'', ''@o/t''], sample_owned ''r2'' [''@b'']])) =
   build_owner_metrics id [sample_owned ''r1'' [''@b'', ''@o/t''], sample_owned ''r2'' [''@b'']] \<and>
   length (build_owner_metrics id
     [sample_owned ''r1'' [''@b'', ''@o/t''], sample_owned ''r2'' [''@b'']]) = 2"
proof
  show "owner_metrics_from_entries
     (rev (build_owner_repo_map id [sample_owned ''r1'' [''@b'', ''@o/t''], sample_owned ''r2'' [''@b'']])) =
   build_owner_metrics id [sample_owned ''r1'' [''@b'', ''@o/t''], sample_owned ''r2'' [''@b'']]"
    using owner_list_deterministic [of
      "rev (build_owner_repo_map id [sample_owned ''r1'' [''@b'', ''@o/t''], sample_owned ''r2'' [''@b'']])"
      id "[sample_owned ''r1'' [''@b'', ''@o/t''], sample_owned ''r2'' [''@b'']]"]
    by simp
  show "length (build_owner_metrics id
     [sample_owned ''r1'' [''@b'', ''@o/t''], sample_owned ''r2'' [''@b'']]) = 2"
    by (simp add: build_owner_metrics_def owner_metrics_from_entries_def build_owner_repo_map_def
        owner_map_step_def sample_owned_def sample_evidence_def sample_repository_def)
qed

subsection \<open>Enrichment\<close>

lemma enrich_owner_lifecycle_keeps:
  "owner (enrich_owner_lifecycle parse m t o') = owner o'"
  "owner_type (enrich_owner_lifecycle parse m t o') = owner_type o'"
  "owner_in_org (enrich_owner_lifecycle parse m t o') = owner_in_org o'"
  by (simp_all add: enrich_owner_lifecycle_def split: option.split prod.split)

lemma enrich_owner_lifecycle_idem:
  "enrich_owner_lifecycle parse m t (enrich_owner_lifecycle parse m t o') =
     enrich_owner_lifecycle parse m t o'"
  unfolding enrich_owner_lifecycle_def
  by (auto simp: fun_upd_twist split: option.split prod.split)

lemma enrich_owner_org_keeps:
  "owner (enrich_owner_org lower org_set o') = owner o'"
  "owner_type (enrich_owner_org lower org_set o') = owner_type o'"
  "per_control_coverage (enrich_owner_org lower org_set o') = per_control_coverage o'"
  by (simp_all add: enrich_owner_org_def Let_def)

lemma enrich_owner_org_idem:
  "enrich_owner_org lower org_set (enrich_owner_org lower org_set o') =
     enrich_owner_org lower org_set o'"
  by (simp add: enrich_owner_org_def Let_def)

lemma enrich_owner_commute:
  "enrich_owner_org lower org_set (enrich_owner_lifecycle parse m t o') =
     enrich_owner_lifecycle parse m t (enrich_owner_org lower org_set o')"
  by (simp add: enrich_owner_org_def enrich_owner_lifecycle_def Let_def case_prod_beta
      split: option.split)

text \<open>
  The enrichment passes keep the contract their documentation states: each is idempotent, the two
  commute, neither changes which owners are listed or in what order, the lifecycle pass touches no
  control other than \<open>non_stale\<close> and \<open>alert_free\<close>, and the membership pass flags users only.
\<close>

theorem enrichment_contract:
  "let life = enrich_owner_metrics_with_lifecycle lower parse rs t;
       org = enrich_owner_metrics_with_org_membership lower org_set
   in life (life os) = life os \<and> org (org os) = org os \<and> org (life os) = life (org os) \<and>
      map owner (org (life os)) = map owner os \<and>
      map owner_type (org (life os)) = map owner_type os \<and>
      map (\<lambda>o'. (per_control_coverage o') |` (- {''non_stale'', ''alert_free''})) (org (life os)) =
        map (\<lambda>o'. (per_control_coverage o') |` (- {''non_stale'', ''alert_free''})) os \<and>
      list_all (\<lambda>o'. enrich_owner_org lower org_set o' = o' \<or> owner_type o' = OwnerType.User) os"
proof -
  have untouched: "per_control_coverage (enrich_owner_lifecycle parse m t o') |` (- {''non_stale'', ''alert_free''}) =
      per_control_coverage o' |` (- {''non_stale'', ''alert_free''})" for m o'
    by (auto simp: enrich_owner_lifecycle_def restrict_map_def fun_eq_iff
        split: option.split prod.split)
  show ?thesis
    unfolding enrich_owner_metrics_with_lifecycle_def enrich_owner_metrics_with_org_membership_def
      Let_def
    by (simp add: comp_def enrich_owner_lifecycle_idem enrich_owner_org_idem enrich_owner_commute
        enrich_owner_org_keeps enrich_owner_lifecycle_keeps untouched list_all_iff)
      (simp add: enrich_owner_org_def)
qed

end
