(* ===== verification/Pattern_Match.thy ===== *)
theory Pattern_Match
  imports Gh_Prelude
begin

text \<open>
  Wildcard matching (\<open>pattern_match.rs\<close>) and ref matching for rulesets (\<open>collector/ref_matching.rs\<close>).
  Strings are byte lists, as in the byte-level engine of the source. The specification is a
  declarative glob: a star stands for some sequence of bytes, a question mark for one byte, and a
  segment of two stars for some sequence of segments. The engine with its depth bounds is sound for
  it on every input and complete for every pattern within the bounds.
\<close>

subsection \<open>The matching engine\<close>

fun fnmatch_bytes :: "string \<Rightarrow> string \<Rightarrow> nat \<Rightarrow> nat \<Rightarrow> bool" where
  "fnmatch_bytes [] candidate depth max_depth =
     (if depth > max_depth then False else candidate = [])"
| "fnmatch_bytes (ch # pattern) candidate depth max_depth =
     (if depth > max_depth then False
      else if ch = CHR ''*''
      then list_ex (\<lambda>i. fnmatch_bytes pattern (drop i candidate) (depth + 1) max_depth)
             [0..<Suc (length candidate)]
      else if ch = CHR ''?''
      then (if candidate = [] then False
            else fnmatch_bytes pattern (tl candidate) (depth + 1) max_depth)
      else (if candidate = [] \<or> hd candidate \<noteq> ch then False
            else fnmatch_bytes pattern (tl candidate) (depth + 1) max_depth))"

definition push_collapsed :: "char \<Rightarrow> string \<Rightarrow> string" where
  "push_collapsed b out =
     (if b = CHR ''*'' \<and> out \<noteq> [] \<and> last out = CHR ''*'' then out else out @ [b])"

definition fnmatch_segment :: "string \<Rightarrow> string \<Rightarrow> nat \<Rightarrow> bool" where
  "fnmatch_segment pattern candidate max_depth =
     fnmatch_bytes (fold push_collapsed pattern []) candidate 0 max_depth"

definition MAX_SEGMENT_RECURSION_DEPTH :: nat where
  "MAX_SEGMENT_RECURSION_DEPTH = 64"

fun match_path_segments :: "string list \<Rightarrow> string list \<Rightarrow> nat \<Rightarrow> nat \<Rightarrow> bool" where
  "match_path_segments [] candidate_parts depth max_fnmatch_depth =
     (if depth > MAX_SEGMENT_RECURSION_DEPTH then False else candidate_parts = [])"
| "match_path_segments (head # tail) candidate_parts depth max_fnmatch_depth =
     (if depth > MAX_SEGMENT_RECURSION_DEPTH then False
      else if head = ''**''
      then (if tail = [] then True
            else list_ex (\<lambda>index. match_path_segments tail (drop index candidate_parts) (depth + 1)
                   max_fnmatch_depth) [0..<Suc (length candidate_parts)])
      else if candidate_parts = [] then False
      else if \<not> fnmatch_segment head (hd candidate_parts) max_fnmatch_depth then False
      else match_path_segments tail (tl candidate_parts) (depth + 1) max_fnmatch_depth)"

text \<open>\<open>str::split('/')\<close>: always at least one part.\<close>

fun split_slash :: "string \<Rightarrow> string list" where
  "split_slash [] = [[]]"
| "split_slash (c # cs) =
     (if c = CHR ''/'' then [] # split_slash cs
      else (case split_slash cs of [] \<Rightarrow> [[c]] | p # ps \<Rightarrow> (c # p) # ps))"

definition path_pattern_matches :: "string \<Rightarrow> string \<Rightarrow> nat \<Rightarrow> bool" where
  "path_pattern_matches pattern candidate max_fnmatch_depth =
     match_path_segments (split_slash pattern) (split_slash candidate) 0 max_fnmatch_depth"

subsection \<open>Refs and rulesets\<close>

datatype RulesetTarget = Branch | Tag | Push

definition RulesetTarget_parse :: "string \<Rightarrow> RulesetTarget option" where
  "RulesetTarget_parse v =
     (if v = ''branch'' then Some RulesetTarget.Branch
      else if v = ''tag'' then Some RulesetTarget.Tag
      else if v = ''push'' then Some RulesetTarget.Push
      else None)"

definition RulesetTarget_display :: "RulesetTarget \<Rightarrow> string" where
  "RulesetTarget_display t = (case t of
     RulesetTarget.Branch \<Rightarrow> ''branch''
   | RulesetTarget.Tag \<Rightarrow> ''tag''
   | RulesetTarget.Push \<Rightarrow> ''push'')"

datatype RulesetEnforcement = Disabled | Active | Evaluate

definition RulesetEnforcement_parse :: "string \<Rightarrow> RulesetEnforcement option" where
  "RulesetEnforcement_parse v =
     (if v = ''disabled'' then Some RulesetEnforcement.Disabled
      else if v = ''active'' then Some RulesetEnforcement.Active
      else if v = ''evaluate'' then Some RulesetEnforcement.Evaluate
      else None)"

definition RulesetEnforcement_display :: "RulesetEnforcement \<Rightarrow> string" where
  "RulesetEnforcement_display e = (case e of
     RulesetEnforcement.Disabled \<Rightarrow> ''disabled''
   | RulesetEnforcement.Active \<Rightarrow> ''active''
   | RulesetEnforcement.Evaluate \<Rightarrow> ''evaluate'')"

definition starts_with :: "string \<Rightarrow> string \<Rightarrow> bool" where
  "starts_with s prefix \<longleftrightarrow> take (length prefix) s = prefix"

definition normalize_branch_ref :: "string \<Rightarrow> string" where
  "normalize_branch_ref branch =
     (if starts_with branch ''refs/heads/'' then branch else ''refs/heads/'' @ branch)"

definition FNMATCH_MAX_RECURSION_DEPTH :: nat where
  "FNMATCH_MAX_RECURSION_DEPTH = 256"

definition ref_path_pattern_matches :: "string \<Rightarrow> string \<Rightarrow> bool" where
  "ref_path_pattern_matches pattern candidate =
     path_pattern_matches pattern candidate FNMATCH_MAX_RECURSION_DEPTH"

definition ref_name_matches :: "string \<Rightarrow> string \<Rightarrow> string \<Rightarrow> bool" where
  "ref_name_matches pattern branch default_br =
     (let branch_ref = normalize_branch_ref branch;
          branch_name = (if starts_with branch_ref ''refs/heads/''
            then drop (length ''refs/heads/'') branch_ref else branch_ref);
          default_branch_ref = normalize_branch_ref default_br
      in if pattern = ''~ALL'' then True
         else if pattern = ''~DEFAULT_BRANCH'' then branch_ref = default_branch_ref
         else if pattern = branch_ref \<or> pattern = branch_name then True
         else (let candidate = (if starts_with pattern ''refs/'' then branch_ref else branch_name)
               in ref_path_pattern_matches pattern candidate))"

definition ruleset_applies_to_branch ::
  "RulesetTarget option \<Rightarrow> RulesetEnforcement option \<Rightarrow> string list \<Rightarrow> string list \<Rightarrow> string \<Rightarrow>
     string \<Rightarrow> bool" where
  "ruleset_applies_to_branch target enforcement incl excl branch default_br =
     (if target \<noteq> Some RulesetTarget.Branch then False
      else if \<not> (enforcement = None \<or> enforcement = Some RulesetEnforcement.Active) then False
      else (let include_patterns = (if incl = [] then [''~ALL''] else incl);
                included = list_ex (\<lambda>p. ref_name_matches p branch default_br) include_patterns;
                excluded = list_ex (\<lambda>p. ref_name_matches p branch default_br) excl
            in included \<and> \<not> excluded))"

subsection \<open>The declarative glob\<close>

fun glob :: "string \<Rightarrow> string \<Rightarrow> bool" where
  "glob [] c = (c = [])"
| "glob (x # p) c =
     (if x = CHR ''*'' then (\<exists>a b. c = a @ b \<and> glob p b)
      else if x = CHR ''?'' then (\<exists>y b. c = y # b \<and> glob p b)
      else (\<exists>b. c = x # b \<and> glob p b))"

fun path_glob :: "string list \<Rightarrow> string list \<Rightarrow> bool" where
  "path_glob [] cs = (cs = [])"
| "path_glob (h # t) cs =
     (if h = ''**'' then (\<exists>a b. cs = a @ b \<and> path_glob t b)
      else (\<exists>c rest. cs = c # rest \<and> glob h c \<and> path_glob t rest))"

lemma list_ex_drop: "list_ex (\<lambda>i. P (drop i c)) [0..<Suc (length c)] \<longleftrightarrow> (\<exists>a b. c = a @ b \<and> P b)"
proof
  assume "list_ex (\<lambda>i. P (drop i c)) [0..<Suc (length c)]"
  then obtain i where "P (drop i c)" unfolding list_ex_iff by blast
  then show "\<exists>a b. c = a @ b \<and> P b" by (metis append_take_drop_id)
next
  assume "\<exists>a b. c = a @ b \<and> P b"
  then obtain a b where "c = a @ b" "P b" by blast
  then show "list_ex (\<lambda>i. P (drop i c)) [0..<Suc (length c)]"
    by (auto simp: list_ex_iff intro!: bexI [of _ "length a"])
qed


lemma fnmatch_bytes_Cons:
  "fnmatch_bytes (x # p) c d m \<longleftrightarrow> d \<le> m \<and>
     (if x = CHR ''*'' then (\<exists>a b. c = a @ b \<and> fnmatch_bytes p b (d + 1) m)
      else if x = CHR ''?'' then (\<exists>y b. c = y # b \<and> fnmatch_bytes p b (d + 1) m)
      else (\<exists>b. c = x # b \<and> fnmatch_bytes p b (d + 1) m))"
  unfolding fnmatch_bytes.simps list_ex_drop [of "\<lambda>b. fnmatch_bytes p b (d + 1) m" c]
  by (cases c) auto

lemma fnmatch_bytes_iff: "fnmatch_bytes p c d m \<longleftrightarrow> d + length p \<le> m \<and> glob p c"
proof (induction p arbitrary: c d)
  case (Cons x p)
  show ?case
    unfolding fnmatch_bytes_Cons Cons.IH by auto
qed auto

lemma glob_append: "glob (p @ q) c \<longleftrightarrow> (\<exists>a b. c = a @ b \<and> glob p a \<and> glob q b)"
proof (induction p arbitrary: c)
  case (Cons x p)
  consider "x = CHR ''*''" | "x = CHR ''?''" | "x \<noteq> CHR ''*''" "x \<noteq> CHR ''?''" by blast
  then show ?case
  proof cases
    case 1
    have "(\<exists>u v. c = u @ v \<and> (\<exists>a b. v = a @ b \<and> glob p a \<and> glob q b)) \<longleftrightarrow>
        (\<exists>a b. c = a @ b \<and> (\<exists>u v. a = u @ v \<and> glob p v) \<and> glob q b)"
      by (metis append.assoc)
    with 1 show ?thesis by (simp add: Cons.IH)
  next
    case 2
    have "(\<exists>y v. c = y # v \<and> (\<exists>a b. v = a @ b \<and> glob p a \<and> glob q b)) \<longleftrightarrow>
        (\<exists>a b. c = a @ b \<and> (\<exists>y v. a = y # v \<and> glob p v) \<and> glob q b)"
      by (metis append_Cons)
    with 2 show ?thesis by (simp add: Cons.IH)
  next
    case 3
    have "(\<exists>v. c = x # v \<and> (\<exists>a b. v = a @ b \<and> glob p a \<and> glob q b)) \<longleftrightarrow>
        (\<exists>a b. c = a @ b \<and> (\<exists>v. a = x # v \<and> glob p v) \<and> glob q b)"
      by (metis append_Cons)
    with 3 show ?thesis by (simp add: Cons.IH)
  qed
qed simp

lemma glob_star_star: "glob [CHR ''*'', CHR ''*''] c" "glob [CHR ''*''] c"
  by auto

lemma push_collapsed_glob: "glob (push_collapsed b out) c \<longleftrightarrow> glob (out @ [b]) c"
proof (cases "b = CHR ''*'' \<and> out \<noteq> [] \<and> last out = CHR ''*''")
  case True
  then obtain pre where out: "out = pre @ [CHR ''*'']" by (metis append_butlast_last_id)
  have "glob (pre @ [CHR ''*'']) c \<longleftrightarrow> glob (pre @ [CHR ''*'', CHR ''*'']) c"
    unfolding glob_append using glob_star_star by blast
  with True show ?thesis by (simp add: push_collapsed_def out)
next
  case False
  then have "push_collapsed b out = out @ [b]" unfolding push_collapsed_def by (rule if_not_P)
  then show ?thesis by simp
qed

lemma collapse_glob: "glob (fold push_collapsed p out) c \<longleftrightarrow> glob (out @ p) c"
proof (induction p arbitrary: out)
  case (Cons b p)
  have "glob (push_collapsed b out @ p) c \<longleftrightarrow> glob ((out @ [b]) @ p) c"
    unfolding glob_append [of "push_collapsed b out"] glob_append [of "out @ [b]"]
      push_collapsed_glob ..
  then show ?case by (simp add: Cons.IH)
qed simp

lemma collapse_length: "length (fold push_collapsed p out) \<le> length out + length p"
proof (induction p arbitrary: out)
  case (Cons b p)
  have "length (push_collapsed b out) \<le> Suc (length out)" by (simp add: push_collapsed_def)
  with Cons.IH [of "push_collapsed b out"] show ?case by simp
qed simp

lemma fnmatch_segment_sound: "fnmatch_segment p c m \<Longrightarrow> glob p c"
  by (simp add: fnmatch_segment_def fnmatch_bytes_iff collapse_glob)

lemma fnmatch_segment_complete: "length p \<le> m \<Longrightarrow> glob p c \<Longrightarrow> fnmatch_segment p c m"
  using collapse_length [of p "[]"] by (simp add: fnmatch_segment_def fnmatch_bytes_iff collapse_glob)

subsection \<open>Paths\<close>

lemma match_path_segments_Cons:
  "match_path_segments (h # t) cs d m \<longleftrightarrow> d \<le> MAX_SEGMENT_RECURSION_DEPTH \<and>
     (if h = ''**''
      then t = [] \<or> (\<exists>a b. cs = a @ b \<and> match_path_segments t b (d + 1) m)
      else (\<exists>c rest. cs = c # rest \<and> fnmatch_segment h c m \<and> match_path_segments t rest (d + 1) m))"
  unfolding match_path_segments.simps
    list_ex_drop [of "\<lambda>b. match_path_segments t b (d + 1) m" cs]
  by (cases cs) auto

lemma match_path_segments_sound: "match_path_segments ps cs d m \<Longrightarrow> path_glob ps cs"
proof (induction ps arbitrary: cs d)
  case (Cons h t)
  then show ?case
    unfolding match_path_segments_Cons
    by (auto dest: fnmatch_segment_sound split: if_splits)
qed (auto split: if_splits)

lemma match_path_segments_complete:
  "path_glob ps cs \<Longrightarrow> d + length ps \<le> MAX_SEGMENT_RECURSION_DEPTH \<Longrightarrow>
     list_all (\<lambda>p. length p \<le> m) ps \<Longrightarrow> match_path_segments ps cs d m"
proof (induction ps arbitrary: cs d)
  case (Cons h t)
  from Cons.prems have bounds: "d \<le> MAX_SEGMENT_RECURSION_DEPTH" "length h \<le> m"
    "d + 1 + length t \<le> MAX_SEGMENT_RECURSION_DEPTH" "list_all (\<lambda>p. length p \<le> m) t" by auto
  note IH = Cons.IH [OF _ bounds(3,4)]
  show ?case
  proof (cases "h = ''**''")
    case True
    with Cons.prems obtain a b where "cs = a @ b" "path_glob t b" by auto
    with True bounds IH show ?thesis unfolding match_path_segments_Cons by auto
  next
    case False
    with Cons.prems obtain c rest where "cs = c # rest" "glob h c" "path_glob t rest" by auto
    with False bounds IH fnmatch_segment_complete show ?thesis
      unfolding match_path_segments_Cons by auto
  qed
qed simp

lemma split_slash_parts:
  "list_all (\<lambda>p. length p \<le> length s) (split_slash s)"
  "length (split_slash s) = Suc (length (filter (\<lambda>c. c = CHR ''/'') s))"
  "split_slash s \<noteq> []"
  by (induction s) (auto simp: list_all_iff intro: le_SucI split: list.split)

text \<open>
  C35. The path matcher accepts only what the declarative glob accepts, on every input, and accepts all
  of it for patterns of at most 256 bytes with fewer than 64 slashes; beyond these bounds it may only
  refuse. The byte-level engine is exact: it matches within its depth budget iff the pattern fits the
  budget and globs the candidate.
\<close>

theorem path_matcher_implements_glob:
  "(path_pattern_matches pat cand m \<longrightarrow> path_glob (split_slash pat) (split_slash cand)) \<and>
   (length pat \<le> 256 \<and> length (filter (\<lambda>c. c = CHR ''/'') pat) < 64 \<longrightarrow>
      path_pattern_matches pat cand FNMATCH_MAX_RECURSION_DEPTH =
        path_glob (split_slash pat) (split_slash cand)) \<and>
   (fnmatch_bytes p c d max_d \<longleftrightarrow> d + length p \<le> max_d \<and> glob p c)"
proof (intro conjI impI)
  show "path_glob (split_slash pat) (split_slash cand)" if "path_pattern_matches pat cand m"
    using that match_path_segments_sound by (simp add: path_pattern_matches_def)
  show "path_pattern_matches pat cand FNMATCH_MAX_RECURSION_DEPTH =
      path_glob (split_slash pat) (split_slash cand)"
    if b: "length pat \<le> 256 \<and> length (filter (\<lambda>c. c = CHR ''/'') pat) < 64"
  proof
    assume "path_glob (split_slash pat) (split_slash cand)"
    then show "path_pattern_matches pat cand FNMATCH_MAX_RECURSION_DEPTH"
      unfolding path_pattern_matches_def
    proof (rule match_path_segments_complete)
      show "0 + length (split_slash pat) \<le> MAX_SEGMENT_RECURSION_DEPTH"
        using b by (simp add: split_slash_parts(2) MAX_SEGMENT_RECURSION_DEPTH_def)
      show "list_all (\<lambda>p. length p \<le> FNMATCH_MAX_RECURSION_DEPTH) (split_slash pat)"
        using b split_slash_parts(1) [of pat]
        by (auto simp: list_all_iff FNMATCH_MAX_RECURSION_DEPTH_def)
    qed
  qed (simp add: path_pattern_matches_def match_path_segments_sound)
qed (rule fnmatch_bytes_iff)

theorem path_matcher_implements_glob_witness:
  "path_pattern_matches ''release/**/v*'' ''release/2024/q1/v1'' FNMATCH_MAX_RECURSION_DEPTH =
   path_glob (split_slash ''release/**/v*'') (split_slash ''release/2024/q1/v1'')"
  using path_matcher_implements_glob [of "''release/**/v*''" "''release/2024/q1/v1''"
      FNMATCH_MAX_RECURSION_DEPTH "[]" "[]" 0 0]
  by simp

subsection \<open>Rulesets\<close>

lemma ref_name_matches_all: "ref_name_matches ''~ALL'' branch default_br"
  by (simp add: ref_name_matches_def Let_def)

lemma starts_with_normalize: "starts_with (normalize_branch_ref b) ''refs/heads/''"
  by (simp add: normalize_branch_ref_def starts_with_def)

text \<open>
  A ruleset applies to a branch exactly when it targets branches, its enforcement is active or was
  not recognised, some include pattern matches (an empty include list means every branch) and no
  exclude pattern does; an exclusion always wins. A branch name and its full ref are interchangeable.
\<close>

theorem ruleset_applies_iff:
  "(ruleset_applies_to_branch target enforcement incl excl branch default_br \<longleftrightarrow>
      target = Some RulesetTarget.Branch \<and>
      enforcement \<in> {None, Some RulesetEnforcement.Active} \<and>
      (incl = [] \<or> (\<exists>p. p \<in> set incl \<and> ref_name_matches p branch default_br)) \<and>
      \<not> (\<exists>p. p \<in> set excl \<and> ref_name_matches p branch default_br)) \<and>
   ref_name_matches pat (normalize_branch_ref branch) default_br = ref_name_matches pat branch default_br \<and>
   (ref_name_matches ''~DEFAULT_BRANCH'' branch default_br \<longleftrightarrow>
      normalize_branch_ref branch = normalize_branch_ref default_br)"
proof (intro conjI)
  show "ruleset_applies_to_branch target enforcement incl excl branch default_br \<longleftrightarrow>
      target = Some RulesetTarget.Branch \<and>
      enforcement \<in> {None, Some RulesetEnforcement.Active} \<and>
      (incl = [] \<or> (\<exists>p. p \<in> set incl \<and> ref_name_matches p branch default_br)) \<and>
      \<not> (\<exists>p. p \<in> set excl \<and> ref_name_matches p branch default_br)"
    by (auto simp: ruleset_applies_to_branch_def Let_def list_ex_iff ref_name_matches_all)
  have "normalize_branch_ref (normalize_branch_ref branch) = normalize_branch_ref branch"
    using starts_with_normalize [of branch] by (simp add: normalize_branch_ref_def)
  then show "ref_name_matches pat (normalize_branch_ref branch) default_br =
      ref_name_matches pat branch default_br"
    by (simp add: ref_name_matches_def)
  show "ref_name_matches ''~DEFAULT_BRANCH'' branch default_br \<longleftrightarrow>
      normalize_branch_ref branch = normalize_branch_ref default_br"
    by (simp add: ref_name_matches_def Let_def)
qed

text \<open>
  An enforcement value outside the known set is treated like an active ruleset, not like an
  inactive one: parsing it gives no enforcement, and a branch ruleset with no enforcement applies
  wherever the active one does.
\<close>

theorem unrecognised_enforcement_applies:
  assumes "v \<notin> {''disabled'', ''active'', ''evaluate''}"
  shows "ruleset_applies_to_branch target (RulesetEnforcement_parse v) incl excl branch default_br =
    ruleset_applies_to_branch target (RulesetEnforcement_parse ''active'') incl excl branch default_br"
  using assms by (simp add: ruleset_applies_to_branch_def RulesetEnforcement_parse_def)

theorem unrecognised_enforcement_applies_witness:
  "ruleset_applies_to_branch (Some RulesetTarget.Branch) (RulesetEnforcement_parse ''paused'') [] []
     ''main'' ''main''"
  using unrecognised_enforcement_applies [of "''paused''" "Some RulesetTarget.Branch" "[]" "[]" "''main''" "''main''"]
  by (simp add: ruleset_applies_to_branch_def RulesetEnforcement_parse_def ref_name_matches_all)

end
