(* ===== verification/Json.thy ===== *)
theory Json
  imports F64
begin

text \<open>
  The JSON values of the \<open>serde_json\<close> package as the collectors see them: the six kinds of value and
  the accessors the source calls. An object is its list of members, with distinct keys; a number is
  an unsigned or a negative 64-bit integer, or a float.
\<close>

datatype JsonNumber = PosInt u64 | NegInt int | Float f64

datatype Value =
  Null
| Bool bool
| Number JsonNumber
| String string
| Array "Value list"
| Object "(string \<times> Value) list"

fun Value_get :: "string \<Rightarrow> Value \<Rightarrow> Value option" where
  "Value_get key (Value.Object ms) = map_of ms key"
| "Value_get key _ = None"

fun Value_as_array :: "Value \<Rightarrow> Value list option" where
  "Value_as_array (Value.Array vs) = Some vs"
| "Value_as_array _ = None"

fun Value_as_str :: "Value \<Rightarrow> string option" where
  "Value_as_str (Value.String s) = Some s"
| "Value_as_str _ = None"

fun Value_as_bool :: "Value \<Rightarrow> bool option" where
  "Value_as_bool (Value.Bool b) = Some b"
| "Value_as_bool _ = None"

fun Value_is_object :: "Value \<Rightarrow> bool" where
  "Value_is_object (Value.Object _) = True"
| "Value_is_object _ = False"

end
