(* ===== verification/Branch_Protection.thy ===== *)
theory Branch_Protection
  imports Evidence_Model Pattern_Match Json
begin

text \<open>
  API outcomes (\<open>api_outcome.rs\<close>) and the branch-protection collector
  (\<open>collector/branch_protection.rs\<close>). The GitHub client, the sanitiser of path segments and percent
  encoding are parameters of \<open>evaluate\<close>; the three concurrent requests become three calls. The lemmas
  say when the collector reports a branch as protected, unprotected or not observable in terms of
  what the two endpoints returned.
\<close>

subsection \<open>API outcomes\<close>

datatype ApiOutcome =
  Success u16 "Value option" "(string \<rightharpoonup> string) option" bool
| Failure "u16 option" string bool

fun ApiOutcome_is_ok :: "ApiOutcome \<Rightarrow> bool" where
  "ApiOutcome_is_ok (ApiOutcome.Success _ _ _ _) = True"
| "ApiOutcome_is_ok (ApiOutcome.Failure _ _ _) = False"

definition ApiOutcome_is_err :: "ApiOutcome \<Rightarrow> bool" where
  "ApiOutcome_is_err a \<longleftrightarrow> \<not> ApiOutcome_is_ok a"

fun ApiOutcome_data :: "ApiOutcome \<Rightarrow> Value option" where
  "ApiOutcome_data (ApiOutcome.Success _ d _ _) = d"
| "ApiOutcome_data (ApiOutcome.Failure _ _ _) = None"

fun ApiOutcome_status_code :: "ApiOutcome \<Rightarrow> u16 option" where
  "ApiOutcome_status_code (ApiOutcome.Success c _ _ _) = Some c"
| "ApiOutcome_status_code (ApiOutcome.Failure c _ _) = c"

fun ApiOutcome_headers :: "ApiOutcome \<Rightarrow> (string \<rightharpoonup> string) option" where
  "ApiOutcome_headers (ApiOutcome.Success _ _ h _) = h"
| "ApiOutcome_headers (ApiOutcome.Failure _ _ _) = None"

fun ApiOutcome_is_retryable :: "ApiOutcome \<Rightarrow> bool" where
  "ApiOutcome_is_retryable (ApiOutcome.Failure _ _ retryable) = retryable"
| "ApiOutcome_is_retryable (ApiOutcome.Success _ _ _ _) = False"

fun ApiOutcome_error_message :: "ApiOutcome \<Rightarrow> string option" where
  "ApiOutcome_error_message (ApiOutcome.Failure _ e _) = Some e"
| "ApiOutcome_error_message (ApiOutcome.Success _ _ _ _) = None"

definition ApiOutcome_success :: "Value \<Rightarrow> ApiOutcome" where
  "ApiOutcome_success d = ApiOutcome.Success 200 (Some d) None False"

fun ApiOutcome_is_truncated :: "ApiOutcome \<Rightarrow> bool" where
  "ApiOutcome_is_truncated (ApiOutcome.Success _ _ _ t) = t"
| "ApiOutcome_is_truncated (ApiOutcome.Failure _ _ _) = False"

definition ApiOutcome_failure :: "u16 option \<Rightarrow> string \<Rightarrow> bool \<Rightarrow> ApiOutcome" where
  "ApiOutcome_failure c e r = ApiOutcome.Failure c e r"

subsection \<open>Summaries\<close>

definition summarize_rule :: "Value \<Rightarrow> bool option \<times> bool option \<Rightarrow> bool option \<times> bool option" where
  "summarize_rule rule = (\<lambda>(fp, del).
     let rule_type = (case Option.bind (Value_get ''type'' rule) Value_as_str of
           Some t \<Rightarrow> t | None \<Rightarrow> '''')
     in (if rule_type = ''non_fast_forward'' then Some True else fp,
         if rule_type = ''deletion'' then Some True else del))"

definition summarize_ruleset :: "Value \<Rightarrow> HistorySignals" where
  "summarize_ruleset ruleset =
     (let (fp, del) = (case Option.bind (Value_get ''rules'' ruleset) Value_as_array of
            Some rules \<Rightarrow> fold summarize_rule rules (Some False, Some False)
          | None \<Rightarrow> (Some False, Some False))
      in \<lparr>force_push_blocked = fp, deletion_blocked = del\<rparr>)"

definition summarize_legacy_protection :: "Value \<Rightarrow> HistorySignals" where
  "summarize_legacy_protection protection =
     \<lparr>force_push_blocked = map_option Not
        (Option.bind (Option.bind (Value_get ''allow_force_pushes'' protection) (Value_get ''enabled''))
          Value_as_bool),
      deletion_blocked = map_option Not
        (Option.bind (Option.bind (Value_get ''allow_deletions'' protection) (Value_get ''enabled''))
          Value_as_bool)\<rparr>"

definition extract_patterns :: "Value option \<Rightarrow> string \<Rightarrow> string list" where
  "extract_patterns ref_name key =
     (case Option.bind (Option.bind ref_name (Value_get key)) Value_as_array of
        Some arr \<Rightarrow> List.map_filter Value_as_str arr
      | None \<Rightarrow> [])"

definition ruleset_applies :: "Value \<Rightarrow> string \<Rightarrow> bool" where
  "ruleset_applies ruleset default_br =
     (let target = Option.bind (Option.bind (Value_get ''target'' ruleset) Value_as_str)
            RulesetTarget_parse;
          enforcement = Option.bind (Option.bind (Value_get ''enforcement'' ruleset) Value_as_str)
            RulesetEnforcement_parse;
          ref_name = Option.bind (Value_get ''conditions'' ruleset) (Value_get ''ref_name'');
          incl = extract_patterns ref_name ''include'';
          excl = extract_patterns ref_name ''exclude''
      in ruleset_applies_to_branch target enforcement incl excl default_br default_br)"

subsection \<open>Endpoint evidence\<close>

datatype ProtectionEndpoint = Rulesets | Legacy

definition ProtectionEndpoint_parse_payload ::
  "ProtectionEndpoint \<Rightarrow> Value option \<Rightarrow> string \<Rightarrow> HistorySignals list option" where
  "ProtectionEndpoint_parse_payload endpoint payload default_br = (case payload of
     None \<Rightarrow> None
   | Some d \<Rightarrow>
       (case endpoint of
          ProtectionEndpoint.Rulesets \<Rightarrow>
            (case Value_as_array d of
               None \<Rightarrow> None
             | Some rulesets \<Rightarrow>
                 Some (map summarize_ruleset (filter (\<lambda>r. ruleset_applies r default_br) rulesets)))
        | ProtectionEndpoint.Legacy \<Rightarrow>
            (if \<not> Value_is_object d then None else Some [summarize_legacy_protection d])))"

datatype AdminAccess = Admin | NotAdmin | Unknown

definition repo_admin_signal :: "ApiOutcome \<Rightarrow> AdminAccess" where
  "repo_admin_signal repo_details_result =
     (if \<not> ApiOutcome_is_ok repo_details_result then AdminAccess.Unknown
      else (case Option.bind (Option.bind (Option.bind (ApiOutcome_data repo_details_result)
                   (Value_get ''permissions'')) (Value_get ''admin'')) Value_as_bool of
              Some b \<Rightarrow> (if b then AdminAccess.Admin else AdminAccess.NotAdmin)
            | None \<Rightarrow> AdminAccess.Unknown))"

record EndpointFailure =
  ef_reason :: IndeterminateReason
  ef_http_status :: "u16 option"

definition EndpointFailure_precedence :: "EndpointFailure \<Rightarrow> u8" where
  "EndpointFailure_precedence f = (case ef_reason f of
     IndeterminateReason.PermissionDenied \<Rightarrow> 0
   | IndeterminateReason.RateLimited \<Rightarrow> 1
   | IndeterminateReason.PermissionSuspected \<Rightarrow> 2
   | IndeterminateReason.Transient \<Rightarrow> 3
   | IndeterminateReason.Invalid \<Rightarrow> 4
   | IndeterminateReason.Pending \<Rightarrow> 5)"

datatype ConfirmedAbsence = NoControls | AuthorityConfirmedNotFound

definition ConfirmedAbsence_confirmed_not_found :: "ConfirmedAbsence \<Rightarrow> bool" where
  "ConfirmedAbsence_confirmed_not_found a \<longleftrightarrow> a = ConfirmedAbsence.AuthorityConfirmedNotFound"

datatype ProtectionEvidence =
  Complete HistorySignals
| Incomplete EndpointFailure
| AbsentControls ConfirmedAbsence "u16 option"

datatype EndpointEvidence =
  Observed "HistorySignals list"
| ConfirmedAbsent "u16 option"
| Indeterminate EndpointFailure

definition classify_endpoint ::
  "ApiOutcome \<Rightarrow> ProtectionEndpoint \<Rightarrow> string \<Rightarrow> AdminAccess \<Rightarrow> EndpointEvidence" where
  "classify_endpoint outcome endpoint default_br admin = (case outcome of
     ApiOutcome.Success code payload _ _ \<Rightarrow>
       (case ProtectionEndpoint_parse_payload endpoint payload default_br of
          None \<Rightarrow> EndpointEvidence.Indeterminate
            \<lparr>ef_reason = IndeterminateReason.Invalid, ef_http_status = Some code\<rparr>
        | Some signals \<Rightarrow> EndpointEvidence.Observed signals)
   | ApiOutcome.Failure code _ retryable \<Rightarrow>
       (let fail = (\<lambda>reason. EndpointEvidence.Indeterminate
              \<lparr>ef_reason = reason, ef_http_status = code\<rparr>)
        in if code = Some 403 then fail IndeterminateReason.PermissionDenied
           else if code = Some 429 then fail IndeterminateReason.RateLimited
           else if code = Some 404 \<and> admin = AdminAccess.Admin then EndpointEvidence.ConfirmedAbsent code
           else if code = Some 404 then fail IndeterminateReason.PermissionSuspected
           else if retryable then fail IndeterminateReason.Transient
           else fail IndeterminateReason.Invalid))"

fun endpoint_failure :: "EndpointEvidence \<Rightarrow> EndpointFailure option" where
  "endpoint_failure (EndpointEvidence.Indeterminate f) = Some f"
| "endpoint_failure (EndpointEvidence.Observed _) = None"
| "endpoint_failure (EndpointEvidence.ConfirmedAbsent _) = None"

fun endpoint_signals :: "EndpointEvidence \<Rightarrow> HistorySignals list" where
  "endpoint_signals (EndpointEvidence.Observed signals) = signals"
| "endpoint_signals (EndpointEvidence.ConfirmedAbsent _) = []"
| "endpoint_signals (EndpointEvidence.Indeterminate _) = []"

text \<open>\<open>Iterator::min_by_key\<close>: the first of the least elements.\<close>

fun min_by_key :: "('a \<Rightarrow> 'b::linorder) \<Rightarrow> 'a list \<Rightarrow> 'a option" where
  "min_by_key f [] = None"
| "min_by_key f (x # xs) = (case min_by_key f xs of
     None \<Rightarrow> Some x
   | Some y \<Rightarrow> Some (if f y < f x then y else x))"

definition classify_evidence ::
  "ApiOutcome \<Rightarrow> ApiOutcome \<Rightarrow> string \<Rightarrow> AdminAccess \<Rightarrow> ProtectionEvidence" where
  "classify_evidence rulesets_result legacy_result default_br admin =
     (let rulesets = classify_endpoint rulesets_result ProtectionEndpoint.Rulesets default_br admin;
          legacy = classify_endpoint legacy_result ProtectionEndpoint.Legacy default_br admin;
          endpoints = [rulesets, legacy];
          indeterminate = min_by_key EndpointFailure_precedence
            (List.map_filter endpoint_failure endpoints)
      in case indeterminate of
           Some failure \<Rightarrow> ProtectionEvidence.Incomplete failure
         | None \<Rightarrow>
             (let observed = concat (map endpoint_signals endpoints)
              in case HistorySignals_merge observed of
                   None \<Rightarrow>
                     (case (rulesets, legacy) of
                        (EndpointEvidence.ConfirmedAbsent h, _) \<Rightarrow>
                          ProtectionEvidence.AbsentControls ConfirmedAbsence.AuthorityConfirmedNotFound h
                      | (_, EndpointEvidence.ConfirmedAbsent h) \<Rightarrow>
                          ProtectionEvidence.AbsentControls ConfirmedAbsence.AuthorityConfirmedNotFound h
                      | _ \<Rightarrow> ProtectionEvidence.AbsentControls ConfirmedAbsence.NoControls
                          (case ApiOutcome_status_code rulesets_result of
                             Some c \<Rightarrow> Some c
                           | None \<Rightarrow> ApiOutcome_status_code legacy_result))
                 | Some signals \<Rightarrow> ProtectionEvidence.Complete signals))"

definition build_protection_result ::
  "ProtectionEvidence \<Rightarrow> string \<Rightarrow> string \<Rightarrow> BranchProtectionResult" where
  "build_protection_result evidence default_br run_time = (case evidence of
     ProtectionEvidence.Incomplete failure \<Rightarrow>
       BranchProtectionResult.Unobservable default_br (ef_reason failure) (ef_http_status failure) run_time
   | ProtectionEvidence.AbsentControls absence http_status \<Rightarrow>
       BranchProtectionResult.Unprotected default_br
         (HistoryProtectionGap.Absent (ConfirmedAbsence_confirmed_not_found absence) http_status) run_time
   | ProtectionEvidence.Complete signals \<Rightarrow>
       BranchProtectionResult_from_history_signals default_br (force_push_blocked signals)
         (deletion_blocked signals) run_time)"

definition evaluate_outcomes ::
  "ApiOutcome \<Rightarrow> ApiOutcome \<Rightarrow> string \<Rightarrow> AdminAccess \<Rightarrow> string \<Rightarrow> BranchProtectionResult" where
  "evaluate_outcomes rulesets_result legacy_result default_br admin run_time =
     (let evidence = classify_evidence rulesets_result legacy_result default_br admin
      in build_protection_result evidence default_br run_time)"

text \<open>What the collector needs of the client, the sanitiser and the encoder.\<close>

record Client =
  org_name :: string
  client_request :: "string \<Rightarrow> ApiOutcome"
  client_repo_details :: "string \<Rightarrow> ApiOutcome"

definition evaluate ::
  "(string \<Rightarrow> string option) \<Rightarrow> (string \<Rightarrow> string) \<Rightarrow> Client \<Rightarrow> Repository \<Rightarrow> string \<Rightarrow>
     BranchProtectionResult" where
  "evaluate sanitize encode client repo run_time =
     (case sanitize (repo_name repo) of
        None \<Rightarrow> BranchProtectionResult.Unobservable (default_branch repo)
          IndeterminateReason.Invalid None run_time
      | Some safe_name \<Rightarrow>
          (let encoded_branch = encode (default_branch repo);
               rulesets_path = ''/repos/'' @ org_name client @ ''/'' @ safe_name @ ''/rulesets'';
               legacy_path = ''/repos/'' @ org_name client @ ''/'' @ safe_name @ ''/branches/'' @
                 encoded_branch @ ''/protection'';
               rulesets_result = client_request client rulesets_path;
               legacy_result = client_request client legacy_path;
               repo_details_result = client_repo_details client (repo_name repo);
               admin = repo_admin_signal repo_details_result
           in evaluate_outcomes rulesets_result legacy_result (default_branch repo) admin run_time))"

subsection \<open>Endpoints\<close>

lemma min_by_key_None: "min_by_key f xs = None \<longleftrightarrow> xs = []"
  by (cases xs) (auto split: option.split)

lemma min_by_key_Some: "min_by_key f xs = Some x \<Longrightarrow> x \<in> set xs \<and> (\<forall>y \<in> set xs. f x \<le> f y)"
proof (induction xs arbitrary: x)
  case (Cons z zs)
  then show ?case
    by (cases "min_by_key f zs") (auto simp: min_by_key_None split: if_splits)
qed simp

text \<open>The two endpoint readings that decide an evaluation.\<close>

abbreviation rulesets_evidence :: "ApiOutcome \<Rightarrow> string \<Rightarrow> AdminAccess \<Rightarrow> EndpointEvidence" where
  "rulesets_evidence r b a \<equiv> classify_endpoint r ProtectionEndpoint.Rulesets b a"

abbreviation legacy_evidence :: "ApiOutcome \<Rightarrow> string \<Rightarrow> AdminAccess \<Rightarrow> EndpointEvidence" where
  "legacy_evidence l b a \<equiv> classify_endpoint l ProtectionEndpoint.Legacy b a"

definition evidence_failures ::
  "ApiOutcome \<Rightarrow> ApiOutcome \<Rightarrow> string \<Rightarrow> AdminAccess \<Rightarrow> EndpointFailure list" where
  "evidence_failures r l b a =
     List.map_filter endpoint_failure [rulesets_evidence r b a, legacy_evidence l b a]"

definition evidence_signals ::
  "ApiOutcome \<Rightarrow> ApiOutcome \<Rightarrow> string \<Rightarrow> AdminAccess \<Rightarrow> HistorySignals list" where
  "evidence_signals r l b a =
     endpoint_signals (rulesets_evidence r b a) @ endpoint_signals (legacy_evidence l b a)"

lemma classify_evidence_eq:
  "classify_evidence r l b a =
     (case min_by_key EndpointFailure_precedence (evidence_failures r l b a) of
        Some f \<Rightarrow> ProtectionEvidence.Incomplete f
      | None \<Rightarrow>
          (case HistorySignals_merge (evidence_signals r l b a) of
             Some s \<Rightarrow> ProtectionEvidence.Complete s
           | None \<Rightarrow>
               (case (rulesets_evidence r b a, legacy_evidence l b a) of
                  (EndpointEvidence.ConfirmedAbsent h, _) \<Rightarrow>
                    ProtectionEvidence.AbsentControls ConfirmedAbsence.AuthorityConfirmedNotFound h
                | (_, EndpointEvidence.ConfirmedAbsent h) \<Rightarrow>
                    ProtectionEvidence.AbsentControls ConfirmedAbsence.AuthorityConfirmedNotFound h
                | _ \<Rightarrow> ProtectionEvidence.AbsentControls ConfirmedAbsence.NoControls
                    (case ApiOutcome_status_code r of Some c \<Rightarrow> Some c
                     | None \<Rightarrow> ApiOutcome_status_code l))))"
  unfolding classify_evidence_def Let_def evidence_failures_def evidence_signals_def
  by (simp only: list.map concat.simps append_Nil2)

lemma classify_evidence_Incomplete:
  "min_by_key EndpointFailure_precedence (evidence_failures r l b a) = Some f \<Longrightarrow>
     classify_evidence r l b a = ProtectionEvidence.Incomplete f"
  by (simp add: classify_evidence_eq)

lemma classify_evidence_Complete:
  "evidence_failures r l b a = [] \<Longrightarrow> HistorySignals_merge (evidence_signals r l b a) = Some s \<Longrightarrow>
     classify_evidence r l b a = ProtectionEvidence.Complete s"
  by (simp add: classify_evidence_eq)

lemma classify_evidence_Absent:
  "evidence_failures r l b a = [] \<Longrightarrow> evidence_signals r l b a = [] \<Longrightarrow>
     \<exists>c h. classify_evidence r l b a = ProtectionEvidence.AbsentControls c h"
  by (cases "rulesets_evidence r b a"; cases "legacy_evidence l b a")
    (auto simp: classify_evidence_eq HistorySignals_merge_def)

text \<open>The three ways an evaluation can end.\<close>

lemma evaluate_outcomes_cases:
  obtains (unobservable) f where
      "min_by_key EndpointFailure_precedence (evidence_failures r l b a) = Some f"
      "evaluate_outcomes r l b a t =
         BranchProtectionResult.Unobservable b (ef_reason f) (ef_http_status f) t"
  | (absent) c h where "evidence_failures r l b a = []" "evidence_signals r l b a = []"
      "evaluate_outcomes r l b a t = BranchProtectionResult.Unprotected b (HistoryProtectionGap.Absent c h) t"
  | (merged) s where "evidence_failures r l b a = []"
      "HistorySignals_merge (evidence_signals r l b a) = Some s"
      "evaluate_outcomes r l b a t =
         BranchProtectionResult_from_history_signals b (force_push_blocked s) (deletion_blocked s) t"
proof (cases "min_by_key EndpointFailure_precedence (evidence_failures r l b a)")
  case (Some f)
  from classify_evidence_Incomplete [OF this] Some show thesis
    by (intro unobservable) (simp_all add: evaluate_outcomes_def build_protection_result_def)
next
  case None
  then have none: "evidence_failures r l b a = []" by (simp add: min_by_key_None)
  show thesis
  proof (cases "HistorySignals_merge (evidence_signals r l b a)")
    case None
    then have "evidence_signals r l b a = []" by (simp add: HistorySignals_merge_None)
    with classify_evidence_Absent [OF none this] none show thesis
      by (auto simp: evaluate_outcomes_def build_protection_result_def intro: absent)
  next
    case (Some s)
    from classify_evidence_Complete [OF none this] none Some show thesis
      by (intro merged) (simp_all add: evaluate_outcomes_def build_protection_result_def)
  qed
qed

text \<open>
  C25. A branch is reported protected exactly when both endpoints were determined and, among the
  signals they returned, one blocks force pushes and one blocks deletion.
\<close>

theorem protected_iff_both_blocked:
  "BranchProtectionResult_is_protected (evaluate_outcomes r l b a t) \<longleftrightarrow>
     endpoint_failure (rulesets_evidence r b a) = None \<and>
     endpoint_failure (legacy_evidence l b a) = None \<and>
     (let signals = endpoint_signals (rulesets_evidence r b a) @ endpoint_signals (legacy_evidence l b a)
      in Some True \<in> force_push_blocked ` set signals \<and> Some True \<in> deletion_blocked ` set signals)"
proof -
  have no_failure: "evidence_failures r l b a = [] \<longleftrightarrow>
      endpoint_failure (rulesets_evidence r b a) = None \<and>
      endpoint_failure (legacy_evidence l b a) = None"
    by (simp add: evidence_failures_def List.map_filter_simps split: option.split)
  show ?thesis
    unfolding Let_def evidence_signals_def [symmetric] no_failure [symmetric] conj_assoc [symmetric]
  proof (cases rule: evaluate_outcomes_cases [of r l b a t])
    case (unobservable f)
    then show "BranchProtectionResult_is_protected (evaluate_outcomes r l b a t) \<longleftrightarrow>
      (evidence_failures r l b a = [] \<and>
       Some True \<in> force_push_blocked ` set (evidence_signals r l b a)) \<and>
       Some True \<in> deletion_blocked ` set (evidence_signals r l b a)"
      by auto
  next
    case (absent c h)
    then show "BranchProtectionResult_is_protected (evaluate_outcomes r l b a t) \<longleftrightarrow>
      (evidence_failures r l b a = [] \<and>
       Some True \<in> force_push_blocked ` set (evidence_signals r l b a)) \<and>
       Some True \<in> deletion_blocked ` set (evidence_signals r l b a)"
      by simp
  next
    case (merged s)
    from merged(2) have "s = \<lparr>force_push_blocked =
        merge_optional_blocking_signal (evidence_signals r l b a) force_push_blocked,
        deletion_blocked = merge_optional_blocking_signal (evidence_signals r l b a) deletion_blocked\<rparr>"
      by (simp add: HistorySignals_merge_def split: if_splits)
    with merged(1,3) show "BranchProtectionResult_is_protected (evaluate_outcomes r l b a t) \<longleftrightarrow>
      (evidence_failures r l b a = [] \<and>
       Some True \<in> force_push_blocked ` set (evidence_signals r l b a)) \<and>
       Some True \<in> deletion_blocked ` set (evidence_signals r l b a)"
      by (simp add: from_history_signals_protected merge_optional_blocking_signal_eq)
  qed
qed

text \<open>
  An evaluation is unobservable exactly when an endpoint could not be determined; the reason and
  status it reports are those of an endpoint that failed, and no failing endpoint has a reason of
  higher precedence. The branch and the timestamp are always those of the request.
\<close>

theorem unobservable_iff_indeterminate:
  "(BranchProtectionResult_is_observed (evaluate_outcomes r l b a t) \<longleftrightarrow>
      endpoint_failure (rulesets_evidence r b a) = None \<and>
      endpoint_failure (legacy_evidence l b a) = None) \<and>
   (case evaluate_outcomes r l b a t of
      BranchProtectionResult.Unobservable b' reason status t' \<Rightarrow>
        (\<exists>f \<in> set (evidence_failures r l b a). ef_reason f = reason \<and> ef_http_status f = status \<and>
           list_all (\<lambda>g. EndpointFailure_precedence f \<le> EndpointFailure_precedence g)
             (evidence_failures r l b a))
    | _ \<Rightarrow> True) \<and>
   BranchProtectionResult_default_branch (evaluate_outcomes r l b a t) = b \<and>
   BranchProtectionResult_timestamp (evaluate_outcomes r l b a t) = t"
proof -
  have none: "evidence_failures r l b a = [] \<longleftrightarrow>
      endpoint_failure (rulesets_evidence r b a) = None \<and>
      endpoint_failure (legacy_evidence l b a) = None"
    by (simp add: evidence_failures_def List.map_filter_simps split: option.split)
  show ?thesis
  proof (cases rule: evaluate_outcomes_cases [of r l b a t])
    case (unobservable f)
    from min_by_key_Some [OF unobservable(1)]
    have "\<exists>f' \<in> set (evidence_failures r l b a). ef_reason f' = ef_reason f \<and>
        ef_http_status f' = ef_http_status f \<and>
        list_all (\<lambda>g. EndpointFailure_precedence f' \<le> EndpointFailure_precedence g)
          (evidence_failures r l b a)" by (auto simp: list_all_iff)
    moreover have "evidence_failures r l b a \<noteq> []" using unobservable(1) by auto
    ultimately show ?thesis using none unobservable(2) by simp
  next
    case (absent c h)
    then show ?thesis using none by simp
  next
    case (merged s)
    then show ?thesis
      using none from_history_signals_observed [of b "force_push_blocked s" "deletion_blocked s" t]
        from_history_signals_fields [of b "force_push_blocked s" "deletion_blocked s" t]
      by (auto split: BranchProtectionResult.split)
  qed
qed

text \<open>
  A "not found" answer is not evidence of absence unless the token is known to have
  administrator access: when either endpoint answers 404 and administrator access is not confirmed,
  the branch is reported as unobservable, never as protected or unprotected.
\<close>

theorem not_found_without_admin_unobservable:
  assumes "ApiOutcome.Failure (Some 404) e q \<in> {r, l}" and "a \<noteq> AdminAccess.Admin"
  shows "\<exists>reason status. evaluate_outcomes r l b a t = BranchProtectionResult.Unobservable b reason status t"
proof -
  have "endpoint_failure (classify_endpoint (ApiOutcome.Failure (Some 404) e q) ep b a) =
      Some \<lparr>ef_reason = IndeterminateReason.PermissionSuspected, ef_http_status = Some 404\<rparr>" for ep
    using assms(2) by (simp add: classify_endpoint_def Let_def)
  then have "evidence_failures r l b a \<noteq> []"
    using assms(1) by (auto simp: evidence_failures_def List.map_filter_simps split: option.split)
  then show ?thesis
    by (cases rule: evaluate_outcomes_cases [of r l b a t]) auto
qed

theorem not_found_without_admin_unobservable_witness:
  "\<exists>reason status.
     evaluate_outcomes (ApiOutcome.Failure (Some 404) ''Not Found'' False) (ApiOutcome_success (Value.Object []))
       ''main'' AdminAccess.Unknown ''2026-01-01T00:00:00Z'' =
     BranchProtectionResult.Unobservable ''main'' reason status ''2026-01-01T00:00:00Z''"
  by (rule not_found_without_admin_unobservable
      [where e = "''Not Found''" and q = False]) simp_all

end
