(* ===== verification/Event_Types.thy ===== *)
theory Event_Types
  imports Gh_Prelude
begin

text \<open>
  The stored event types of \<open>event/mod.rs\<close>. A type that mirrors a domain type of the same name
  carries the suffix \<open>_ev\<close>, and the fields of the records the prefix \<open>ev_\<close>.

  \<open>EventString\<close>, \<open>NonEmptyEventString\<close> and \<open>EventVec\<close> of the pardosa package are read through
  \<open>as_str\<close> and \<open>iter\<close>, so a stored string is its text and a stored vector its list; which texts and
  lists their constructors accept is a parameter of the conversions. A pardosa \<open>Timestamp\<close> is its
  number of nanoseconds, a \<open>Uuid\<close> its 128 bits.
\<close>

type_synonym EventTimestamp = u64
type_synonym uuid = "128 word"

subsection \<open>Limits\<close>

definition MAX_DOMAIN_KEY :: nat where
  "MAX_DOMAIN_KEY = 128"

definition MAX_REPO_NAME :: nat where
  "MAX_REPO_NAME = 256"

definition MAX_GITHUB_ID :: nat where
  "MAX_GITHUB_ID = 128"

definition MAX_NODE_ID :: nat where
  "MAX_NODE_ID = 256"

definition MAX_BRANCH_NAME :: nat where
  "MAX_BRANCH_NAME = 256"

definition MAX_LANGUAGE :: nat where
  "MAX_LANGUAGE = 128"

definition MAX_DESCRIPTION :: nat where
  "MAX_DESCRIPTION = 4096"

definition MAX_URL :: nat where
  "MAX_URL = 2048"

definition MAX_TOPIC :: nat where
  "MAX_TOPIC = 128"

definition MAX_TOPICS :: nat where
  "MAX_TOPICS = 128"

definition MAX_LICENSE :: nat where
  "MAX_LICENSE = 128"

definition MAX_LOGIN :: nat where
  "MAX_LOGIN = 256"

definition MAX_PERSON_NAME :: nat where
  "MAX_PERSON_NAME = 256"

definition MAX_PATH :: nat where
  "MAX_PATH = 4096"

definition MAX_REASON :: nat where
  "MAX_REASON = 4096"

definition MAX_CODEOWNERS_PATTERN :: nat where
  "MAX_CODEOWNERS_PATTERN = 4096"

definition MAX_CODEOWNERS_OWNER :: nat where
  "MAX_CODEOWNERS_OWNER = 256"

definition MAX_CODEOWNERS_OWNERS :: nat where
  "MAX_CODEOWNERS_OWNERS = 256"

definition MAX_CODEOWNERS_ENTRIES :: nat where
  "MAX_CODEOWNERS_ENTRIES = 4096"

definition MAX_ASSESSMENT_DATE :: nat where
  "MAX_ASSESSMENT_DATE = 64"

definition MAX_SCHEMA_VERSION :: nat where
  "MAX_SCHEMA_VERSION = 64"

definition MAX_RUN_ID :: nat where
  "MAX_RUN_ID = 256"

definition MAX_TOKEN_SCOPES :: nat where
  "MAX_TOKEN_SCOPES = 8192"

definition MAX_TIMESTAMP_TEXT :: nat where
  "MAX_TIMESTAMP_TEXT = 128"

definition MAX_SWEEP_TIMEOUT_ERROR :: nat where
  "MAX_SWEEP_TIMEOUT_ERROR = 256"

definition MAX_UNAVAILABLE_CAPABILITIES :: nat where
  "MAX_UNAVAILABLE_CAPABILITIES = 32"

definition MAX_ORG_ALERT_REPOS :: nat where
  "MAX_ORG_ALERT_REPOS = 1000000"

definition MAX_ALERT_BUCKET :: nat where
  "MAX_ALERT_BUCKET = 128"

definition MAX_ALERT_BUCKETS :: nat where
  "MAX_ALERT_BUCKETS = 128"

definition MAX_TEAM_MEMBERS :: nat where
  "MAX_TEAM_MEMBERS = 16384"

subsection \<open>Enumerations\<close>

datatype Visibility_ev = Public | Internal | Private

datatype IndeterminateReason_ev =
  PermissionDenied | PermissionSuspected | Transient | RateLimited | Invalid | Pending

datatype SecretScanningFailureReason_ev =
  PermissionDenied | PermissionSuspected | RateLimited | Transient
| Unavailable | InsufficientEvidence | Conflict | Invalid | Pending

datatype ProbeSource_ev = OrgSummary | PerRepoEndpoint

datatype DependabotStatus_ev = Enabled | Paused | Disabled | Unknown

datatype CodeownersNonConformingLocation_ev = Root | Docs

datatype CodeownersTruncationReason_ev =
  NotBase64Encoded | OversizedBase64 | ContentMissing | DecodeFailed | InvalidUtf8

datatype TokenTier_ev = Full | Limited | Unknown

datatype Capability_ev = OrgSecretScanningAlerts | PrivateBranchProtectionRead

datatype AuthMode_ev = Pat | GitHubApp | GhCliFallback | Unknown

datatype CollectionStatus_ev =
  Success | NotCollected | PermissionDenied | TransientError | Unavailable

datatype TeamMemberRoleEvent = Maintainer | Member | Unknown

datatype TeamRosterStatusEvent = Complete | Deleted | PermissionDenied | TransientError

datatype OrgMembershipFetchStatus = Fetched | Degraded

subsection \<open>Structures and unions\<close>

datatype MetadataUnavailable_ev =
  Missing "u16 option"
| Malformed "u16 option"
| Failure SecretScanningFailureReason_ev "u16 option"

datatype SecretScanningAlerts_ev =
  Observable ProbeSource_ev bool "u16 option"
| Unobservable ProbeSource_ev SecretScanningFailureReason_ev "u16 option"

datatype EnabledProvenance_ev =
  Metadata "u16 option" SecretScanningAlerts_ev
| Fallback MetadataUnavailable_ev bool "u16 option"

datatype DisabledObservation_ev =
  NoMismatch ProbeSource_ev "u16 option"
| StatusMismatch ProbeSource_ev "u16 option"
| ProbeFailed ProbeSource_ev SecretScanningFailureReason_ev "u16 option"

datatype UnobservableProbe_ev =
  Failed ProbeSource_ev SecretScanningFailureReason_ev "u16 option"
| OrgSummaryObserved bool "u16 option"

datatype SecretScanningResult_ev =
  Enabled EnabledProvenance_ev EventTimestamp
| Disabled "u16 option" DisabledObservation_ev EventTimestamp
| Unobservable MetadataUnavailable_ev UnobservableProbe_ev EventTimestamp

datatype SecurityPolicyResult_ev =
  EnabledBySetting EventTimestamp
| EnabledByFile string EventTimestamp
| Absent EventTimestamp
| Unobservable IndeterminateReason_ev EventTimestamp
| NotApplicable EventTimestamp

record DependabotResult_ev =
  ev_dependabot_status :: DependabotStatus_ev
  ev_dependabot_reason :: "string option"
  ev_dependabot_timestamp :: EventTimestamp

datatype HistoryProtectionGap_ev =
  Absent bool "u16 option"
| NeitherBlocked
| ForcePushAllowed
| DeletionAllowed

datatype BranchProtectionResult_ev =
  Protected string EventTimestamp
| Unprotected string HistoryProtectionGap_ev EventTimestamp
| Unobservable string IndeterminateReason_ev "u16 option" EventTimestamp

record CodeownersEntry_ev =
  ev_pattern :: string
  ev_owners :: "string list"

record ParsedCodeowners_ev =
  ev_entries :: "CodeownersEntry_ev list"
  ev_unique_owners :: "string list"
  ev_skipped_lines :: u32

datatype CodeownersContent_ev =
  Parsed ParsedCodeowners_ev
| Truncated CodeownersTruncationReason_ev
| Unparsed

datatype CodeownersResult_ev =
  Conforming CodeownersContent_ev EventTimestamp
| NonConforming CodeownersNonConformingLocation_ev CodeownersContent_ev EventTimestamp
| Absent EventTimestamp
| Unobservable IndeterminateReason_ev EventTimestamp

record RepositoryChecks_ev =
  ev_security_policy :: SecurityPolicyResult_ev
  ev_secret_scanning :: SecretScanningResult_ev
  ev_dependabot_security_updates :: DependabotResult_ev
  ev_branch_protection :: BranchProtectionResult_ev
  ev_codeowners :: CodeownersResult_ev

record Repository_ev =
  ev_id :: string
  ev_node_id :: "string option"
  ev_name :: string
  ev_visibility :: Visibility_ev
  ev_language :: "string option"
  ev_default_branch :: string
  ev_archived :: bool
  ev_inventory_key :: string
  ev_updated_at :: "string option"
  ev_has_issues :: bool
  ev_pushed_at :: "EventTimestamp option"
  ev_created_at :: "EventTimestamp option"
  ev_description :: "string option"
  ev_fork :: bool
  ev_is_empty :: bool
  ev_html_url :: "string option"
  ev_topics :: "string list"
  ev_license_spdx :: "string option"

record LastCommitInfo_ev =
  ev_committer_login :: "string option"
  ev_committer_name :: "string option"
  ev_commit_date :: "EventTimestamp option"

record RepositoryEvidence_ev =
  ev_repository :: Repository_ev
  ev_checks :: RepositoryChecks_ev
  ev_last_commit :: "LastCommitInfo_ev option"

datatype CollectionCoverage_ev = Unknown | Known u32 u64

record AssessmentMetadata_ev =
  ev_date :: string
  ev_organization :: string
  ev_schema_version :: string
  ev_run_timestamp :: string
  ev_run_id :: string
  ev_token_tier :: TokenTier_ev
  ev_token_scopes :: string
  ev_auth_mode :: AuthMode_ev
  ev_rate_limit_warnings :: u32
  ev_unavailable_capabilities :: "Capability_ev list"
  ev_inventory_fetched_at :: "string option"
  ev_warm_start :: bool
  ev_coverage :: CollectionCoverage_ev

record RepoAlertSummary_ev =
  ev_open_alert_count :: u64
  ev_oldest_open_alert_created_at :: "string option"
  ev_newest_open_alert_created_at :: "string option"

record RepoAlertSummaryEntry =
  ev_repository_id :: string
  ev_summary :: RepoAlertSummary_ev

record StringU64Entry =
  ev_key :: string
  ev_value :: u64

record OrgAlertSummary_ev =
  ev_collection_status :: CollectionStatus_ev
  ev_collection_reason :: "string option"
  ev_http_status :: "u16 option"
  ev_per_repo :: "RepoAlertSummaryEntry list"
  ev_age_buckets :: "StringU64Entry list"
  ev_total_open_secret_alerts :: u64
  ev_oldest_open_secret_alert_created_at :: "string option"
  ev_newest_open_secret_alert_created_at :: "string option"

record OrgStateCaptured =
  ev_archived_repos :: u32
  ev_assessment_metadata :: AssessmentMetadata_ev
  ev_alert_summary :: OrgAlertSummary_ev

record TeamMemberEvent =
  ev_login :: string
  ev_role :: TeamMemberRoleEvent
  ev_in_org :: "bool option"

record OrphanAttributionInputs =
  ev_org_membership_fetch_status :: OrgMembershipFetchStatus

record TeamStateCaptured =
  ev_org :: string
  ev_team_slug :: string
  ev_members :: "TeamMemberEvent list"
  ev_orphan_attribution_inputs :: OrphanAttributionInputs
  ev_fetched_at :: string
  ev_status :: TeamRosterStatusEvent

datatype DomainEvent =
  RepositoryStateCaptured string string EventTimestamp "RepositoryEvidence_ev option"
| RepositoryDeleted string string EventTimestamp
| OrgStateCaptured OrgStateCaptured
| TeamStateCaptured TeamStateCaptured

datatype SweepTimeoutEvent =
  TargetOpened uuid
| TimeoutFired uuid string string u64

end
