(* ===== verification/Event_Codec.thy ===== *)
theory Event_Codec
  imports Event_Types
begin

text \<open>
  The byte codec of the stored events: the \<open>PardosaType\<close> and \<open>PardosaSchema\<close> implementations of
  \<open>event/mod.rs\<close>. A \<open>PardosaType\<close> is a pair of an encoder, which appends to a buffer, and a decoder,
  which reads a value from the front of a slice and returns how many bytes it used. The macros
  \<open>impl_pardosa_enum!\<close>, \<open>impl_pardosa_struct!\<close> and \<open>native_secret_enum!\<close> are expanded: encoders call
  the encoders of the fields in order, decoders advance a cursor.

  The implementations that the pardosa package gives for integers, booleans, strings, timestamps,
  options and vectors are the parameter \<open>P\<close>; the generic ones appear once for each element type they
  are used at. \<open>prims_ok\<close> states what is relied on: decoding what was encoded gives the value back and
  uses exactly its bytes. The schema descriptors (\<open>descriptor_node\<close>, \<open>TYPE_DEPTH\<close>) are not modelled.
\<close>

subsection \<open>Encoders and decoders\<close>

datatype EncodeError = EncodeError string

datatype DecodeError =
  TruncatedPayload nat nat
| UnknownVariantDiscriminant u32
| PardosaDecodeError string

record 'a PardosaType =
  encode_type :: "'a \<Rightarrow> u8 list \<Rightarrow> EncodeError + u8 list"
  decode_type :: "u8 list \<Rightarrow> DecodeError + ('a \<times> nat)"

type_synonym encoder = "u8 list \<Rightarrow> EncodeError + u8 list"
type_synonym 'a decoder = "u8 list \<Rightarrow> nat \<Rightarrow> DecodeError + ('a \<times> nat)"

text \<open>\<open>buf.push(tag)\<close>, \<open>field.encode_type(buf)?\<close> and the final \<open>Ok(())\<close>.\<close>

definition push :: "u8 \<Rightarrow> encoder \<Rightarrow> encoder" where
  "push tag w buf = w (buf @ [tag])"

definition put :: "'a PardosaType \<Rightarrow> 'a \<Rightarrow> encoder \<Rightarrow> encoder" where
  "put T v w buf = (case encode_type T v buf of Inl e \<Rightarrow> Inl e | Inr b \<Rightarrow> w b)"

definition stop :: encoder where
  "stop buf = Inr buf"

text \<open>
  \<open>let (x, n) = T::decode_type(&buf[cursor..])?; cursor += n;\<close>, the final \<open>Ok((value, cursor))\<close> and an
  early \<open>return Err(..)\<close>; a decoder starts with the cursor at 0.
\<close>

definition read ::
  "(u8 list \<Rightarrow> DecodeError + ('a \<times> nat)) \<Rightarrow> ('a \<Rightarrow> 'b decoder) \<Rightarrow> 'b decoder" where
  "read d k buf cursor = (case d (drop cursor buf) of
     Inl e \<Rightarrow> Inl e
   | Inr (v, n) \<Rightarrow> k v buf (cursor + n))"

abbreviation get :: "'a PardosaType \<Rightarrow> ('a \<Rightarrow> 'b decoder) \<Rightarrow> 'b decoder" where
  "get T \<equiv> read (decode_type T)"

definition ret :: "'a \<Rightarrow> 'a decoder" where
  "ret v buf cursor = Inr (v, cursor)"

definition from_start :: "'a decoder \<Rightarrow> u8 list \<Rightarrow> DecodeError + ('a \<times> nat)" where
  "from_start r buf = r buf 0"

definition unknown_tag :: "u8 \<Rightarrow> 'a decoder" where
  "unknown_tag tag buf cursor = Inl (UnknownVariantDiscriminant (ucast tag))"

text \<open>The check \<open>buf.is_empty()\<close> followed by \<open>buf[0]\<close>.\<close>

definition first_byte :: "u8 list \<Rightarrow> DecodeError + (u8 \<times> nat)" where
  "first_byte buf = (case buf of [] \<Rightarrow> Inl (TruncatedPayload 1 0) | b # _ \<Rightarrow> Inr (b, 1))"

definition impl_pardosa_enum :: "('a \<Rightarrow> u8) \<Rightarrow> (u8 \<Rightarrow> 'a option) \<Rightarrow> 'a PardosaType" where
  "impl_pardosa_enum tag of_tag =
     \<lparr>encode_type = (\<lambda>v. push (tag v) stop),
      decode_type = from_start (read first_byte (\<lambda>b. case of_tag b of
         Some v \<Rightarrow> ret v
       | None \<Rightarrow> unknown_tag b))\<rparr>"

text \<open>The implementations of the pardosa package that the sources use.\<close>

record PardosaPrims =
  u8_type :: "u8 PardosaType"
  u32_type :: "u32 PardosaType"
  u64_type :: "u64 PardosaType"
  bool_type :: "bool PardosaType"
  timestamp_type :: "EventTimestamp PardosaType"
  uuid_type :: "uuid PardosaType"
  event_string :: "nat \<Rightarrow> string PardosaType"
  non_empty_event_string :: "nat \<Rightarrow> string PardosaType"
  opt_u16 :: "u16 option PardosaType"
  opt_bool :: "bool option PardosaType"
  opt_timestamp :: "EventTimestamp option PardosaType"
  opt_event_string :: "nat \<Rightarrow> string option PardosaType"
  opt_non_empty_event_string :: "nat \<Rightarrow> string option PardosaType"
  opt_LastCommitInfo :: "LastCommitInfo_ev PardosaType \<Rightarrow> LastCommitInfo_ev option PardosaType"
  opt_RepositoryEvidence ::
    "RepositoryEvidence_ev PardosaType \<Rightarrow> RepositoryEvidence_ev option PardosaType"
  vec_event_string :: "nat \<Rightarrow> nat \<Rightarrow> string list PardosaType"
  vec_CodeownersEntry ::
    "nat \<Rightarrow> CodeownersEntry_ev PardosaType \<Rightarrow> CodeownersEntry_ev list PardosaType"
  vec_Capability :: "nat \<Rightarrow> Capability_ev PardosaType \<Rightarrow> Capability_ev list PardosaType"
  vec_RepoAlertSummaryEntry ::
    "nat \<Rightarrow> RepoAlertSummaryEntry PardosaType \<Rightarrow> RepoAlertSummaryEntry list PardosaType"
  vec_StringU64Entry :: "nat \<Rightarrow> StringU64Entry PardosaType \<Rightarrow> StringU64Entry list PardosaType"
  vec_TeamMemberEvent :: "nat \<Rightarrow> TeamMemberEvent PardosaType \<Rightarrow> TeamMemberEvent list PardosaType"

subsection \<open>Enumerations\<close>

definition Visibility_tag :: "Visibility_ev \<Rightarrow> u8" where
  "Visibility_tag v = (case v of
     Visibility_ev.Public \<Rightarrow> 0
   | Visibility_ev.Internal \<Rightarrow> 1
   | Visibility_ev.Private \<Rightarrow> 2)"

definition Visibility_of_tag :: "u8 \<Rightarrow> Visibility_ev option" where
  "Visibility_of_tag b =
     (if b = 0 then Some Visibility_ev.Public
      else if b = 1 then Some Visibility_ev.Internal
      else if b = 2 then Some Visibility_ev.Private
      else None)"

definition Visibility_type :: "Visibility_ev PardosaType" where
  "Visibility_type = impl_pardosa_enum Visibility_tag Visibility_of_tag"

definition IndeterminateReason_tag :: "IndeterminateReason_ev \<Rightarrow> u8" where
  "IndeterminateReason_tag v = (case v of
     IndeterminateReason_ev.PermissionDenied \<Rightarrow> 0
   | IndeterminateReason_ev.PermissionSuspected \<Rightarrow> 1
   | IndeterminateReason_ev.Transient \<Rightarrow> 2
   | IndeterminateReason_ev.RateLimited \<Rightarrow> 3
   | IndeterminateReason_ev.Invalid \<Rightarrow> 4
   | IndeterminateReason_ev.Pending \<Rightarrow> 5)"

definition IndeterminateReason_of_tag :: "u8 \<Rightarrow> IndeterminateReason_ev option" where
  "IndeterminateReason_of_tag b =
     (if b = 0 then Some IndeterminateReason_ev.PermissionDenied
      else if b = 1 then Some IndeterminateReason_ev.PermissionSuspected
      else if b = 2 then Some IndeterminateReason_ev.Transient
      else if b = 3 then Some IndeterminateReason_ev.RateLimited
      else if b = 4 then Some IndeterminateReason_ev.Invalid
      else if b = 5 then Some IndeterminateReason_ev.Pending
      else None)"

definition IndeterminateReason_type :: "IndeterminateReason_ev PardosaType" where
  "IndeterminateReason_type = impl_pardosa_enum IndeterminateReason_tag IndeterminateReason_of_tag"

definition SecretScanningFailureReason_tag :: "SecretScanningFailureReason_ev \<Rightarrow> u8" where
  "SecretScanningFailureReason_tag v = (case v of
     SecretScanningFailureReason_ev.PermissionDenied \<Rightarrow> 0
   | SecretScanningFailureReason_ev.PermissionSuspected \<Rightarrow> 1
   | SecretScanningFailureReason_ev.RateLimited \<Rightarrow> 2
   | SecretScanningFailureReason_ev.Transient \<Rightarrow> 3
   | SecretScanningFailureReason_ev.Unavailable \<Rightarrow> 4
   | SecretScanningFailureReason_ev.InsufficientEvidence \<Rightarrow> 5
   | SecretScanningFailureReason_ev.Conflict \<Rightarrow> 6
   | SecretScanningFailureReason_ev.Invalid \<Rightarrow> 7
   | SecretScanningFailureReason_ev.Pending \<Rightarrow> 8)"

definition SecretScanningFailureReason_of_tag :: "u8 \<Rightarrow> SecretScanningFailureReason_ev option" where
  "SecretScanningFailureReason_of_tag b =
     (if b = 0 then Some SecretScanningFailureReason_ev.PermissionDenied
      else if b = 1 then Some SecretScanningFailureReason_ev.PermissionSuspected
      else if b = 2 then Some SecretScanningFailureReason_ev.RateLimited
      else if b = 3 then Some SecretScanningFailureReason_ev.Transient
      else if b = 4 then Some SecretScanningFailureReason_ev.Unavailable
      else if b = 5 then Some SecretScanningFailureReason_ev.InsufficientEvidence
      else if b = 6 then Some SecretScanningFailureReason_ev.Conflict
      else if b = 7 then Some SecretScanningFailureReason_ev.Invalid
      else if b = 8 then Some SecretScanningFailureReason_ev.Pending
      else None)"

definition SecretScanningFailureReason_type :: "SecretScanningFailureReason_ev PardosaType" where
  "SecretScanningFailureReason_type = impl_pardosa_enum SecretScanningFailureReason_tag SecretScanningFailureReason_of_tag"

definition ProbeSource_tag :: "ProbeSource_ev \<Rightarrow> u8" where
  "ProbeSource_tag v = (case v of
     ProbeSource_ev.OrgSummary \<Rightarrow> 0
   | ProbeSource_ev.PerRepoEndpoint \<Rightarrow> 1)"

definition ProbeSource_of_tag :: "u8 \<Rightarrow> ProbeSource_ev option" where
  "ProbeSource_of_tag b =
     (if b = 0 then Some ProbeSource_ev.OrgSummary
      else if b = 1 then Some ProbeSource_ev.PerRepoEndpoint
      else None)"

definition ProbeSource_type :: "ProbeSource_ev PardosaType" where
  "ProbeSource_type = impl_pardosa_enum ProbeSource_tag ProbeSource_of_tag"

definition DependabotStatus_tag :: "DependabotStatus_ev \<Rightarrow> u8" where
  "DependabotStatus_tag v = (case v of
     DependabotStatus_ev.Enabled \<Rightarrow> 0
   | DependabotStatus_ev.Paused \<Rightarrow> 1
   | DependabotStatus_ev.Disabled \<Rightarrow> 2
   | DependabotStatus_ev.Unknown \<Rightarrow> 3)"

definition DependabotStatus_of_tag :: "u8 \<Rightarrow> DependabotStatus_ev option" where
  "DependabotStatus_of_tag b =
     (if b = 0 then Some DependabotStatus_ev.Enabled
      else if b = 1 then Some DependabotStatus_ev.Paused
      else if b = 2 then Some DependabotStatus_ev.Disabled
      else if b = 3 then Some DependabotStatus_ev.Unknown
      else None)"

definition DependabotStatus_type :: "DependabotStatus_ev PardosaType" where
  "DependabotStatus_type = impl_pardosa_enum DependabotStatus_tag DependabotStatus_of_tag"

definition CodeownersNonConformingLocation_tag :: "CodeownersNonConformingLocation_ev \<Rightarrow> u8" where
  "CodeownersNonConformingLocation_tag v = (case v of
     CodeownersNonConformingLocation_ev.Root \<Rightarrow> 0
   | CodeownersNonConformingLocation_ev.Docs \<Rightarrow> 1)"

definition CodeownersNonConformingLocation_of_tag :: "u8 \<Rightarrow> CodeownersNonConformingLocation_ev option" where
  "CodeownersNonConformingLocation_of_tag b =
     (if b = 0 then Some CodeownersNonConformingLocation_ev.Root
      else if b = 1 then Some CodeownersNonConformingLocation_ev.Docs
      else None)"

definition CodeownersNonConformingLocation_type :: "CodeownersNonConformingLocation_ev PardosaType" where
  "CodeownersNonConformingLocation_type = impl_pardosa_enum CodeownersNonConformingLocation_tag CodeownersNonConformingLocation_of_tag"

definition CodeownersTruncationReason_tag :: "CodeownersTruncationReason_ev \<Rightarrow> u8" where
  "CodeownersTruncationReason_tag v = (case v of
     CodeownersTruncationReason_ev.NotBase64Encoded \<Rightarrow> 0
   | CodeownersTruncationReason_ev.OversizedBase64 \<Rightarrow> 1
   | CodeownersTruncationReason_ev.ContentMissing \<Rightarrow> 2
   | CodeownersTruncationReason_ev.DecodeFailed \<Rightarrow> 3
   | CodeownersTruncationReason_ev.InvalidUtf8 \<Rightarrow> 4)"

definition CodeownersTruncationReason_of_tag :: "u8 \<Rightarrow> CodeownersTruncationReason_ev option" where
  "CodeownersTruncationReason_of_tag b =
     (if b = 0 then Some CodeownersTruncationReason_ev.NotBase64Encoded
      else if b = 1 then Some CodeownersTruncationReason_ev.OversizedBase64
      else if b = 2 then Some CodeownersTruncationReason_ev.ContentMissing
      else if b = 3 then Some CodeownersTruncationReason_ev.DecodeFailed
      else if b = 4 then Some CodeownersTruncationReason_ev.InvalidUtf8
      else None)"

definition CodeownersTruncationReason_type :: "CodeownersTruncationReason_ev PardosaType" where
  "CodeownersTruncationReason_type = impl_pardosa_enum CodeownersTruncationReason_tag CodeownersTruncationReason_of_tag"

definition TokenTier_tag :: "TokenTier_ev \<Rightarrow> u8" where
  "TokenTier_tag v = (case v of
     TokenTier_ev.Full \<Rightarrow> 0
   | TokenTier_ev.Limited \<Rightarrow> 1
   | TokenTier_ev.Unknown \<Rightarrow> 2)"

definition TokenTier_of_tag :: "u8 \<Rightarrow> TokenTier_ev option" where
  "TokenTier_of_tag b =
     (if b = 0 then Some TokenTier_ev.Full
      else if b = 1 then Some TokenTier_ev.Limited
      else if b = 2 then Some TokenTier_ev.Unknown
      else None)"

definition TokenTier_type :: "TokenTier_ev PardosaType" where
  "TokenTier_type = impl_pardosa_enum TokenTier_tag TokenTier_of_tag"

definition Capability_tag :: "Capability_ev \<Rightarrow> u8" where
  "Capability_tag v = (case v of
     Capability_ev.OrgSecretScanningAlerts \<Rightarrow> 0
   | Capability_ev.PrivateBranchProtectionRead \<Rightarrow> 1)"

definition Capability_of_tag :: "u8 \<Rightarrow> Capability_ev option" where
  "Capability_of_tag b =
     (if b = 0 then Some Capability_ev.OrgSecretScanningAlerts
      else if b = 1 then Some Capability_ev.PrivateBranchProtectionRead
      else None)"

definition Capability_type :: "Capability_ev PardosaType" where
  "Capability_type = impl_pardosa_enum Capability_tag Capability_of_tag"

definition AuthMode_tag :: "AuthMode_ev \<Rightarrow> u8" where
  "AuthMode_tag v = (case v of
     AuthMode_ev.Pat \<Rightarrow> 0
   | AuthMode_ev.GitHubApp \<Rightarrow> 1
   | AuthMode_ev.GhCliFallback \<Rightarrow> 2
   | AuthMode_ev.Unknown \<Rightarrow> 3)"

definition AuthMode_of_tag :: "u8 \<Rightarrow> AuthMode_ev option" where
  "AuthMode_of_tag b =
     (if b = 0 then Some AuthMode_ev.Pat
      else if b = 1 then Some AuthMode_ev.GitHubApp
      else if b = 2 then Some AuthMode_ev.GhCliFallback
      else if b = 3 then Some AuthMode_ev.Unknown
      else None)"

definition AuthMode_type :: "AuthMode_ev PardosaType" where
  "AuthMode_type = impl_pardosa_enum AuthMode_tag AuthMode_of_tag"

definition CollectionStatus_tag :: "CollectionStatus_ev \<Rightarrow> u8" where
  "CollectionStatus_tag v = (case v of
     CollectionStatus_ev.Success \<Rightarrow> 0
   | CollectionStatus_ev.NotCollected \<Rightarrow> 1
   | CollectionStatus_ev.PermissionDenied \<Rightarrow> 2
   | CollectionStatus_ev.TransientError \<Rightarrow> 3
   | CollectionStatus_ev.Unavailable \<Rightarrow> 4)"

definition CollectionStatus_of_tag :: "u8 \<Rightarrow> CollectionStatus_ev option" where
  "CollectionStatus_of_tag b =
     (if b = 0 then Some CollectionStatus_ev.Success
      else if b = 1 then Some CollectionStatus_ev.NotCollected
      else if b = 2 then Some CollectionStatus_ev.PermissionDenied
      else if b = 3 then Some CollectionStatus_ev.TransientError
      else if b = 4 then Some CollectionStatus_ev.Unavailable
      else None)"

definition CollectionStatus_type :: "CollectionStatus_ev PardosaType" where
  "CollectionStatus_type = impl_pardosa_enum CollectionStatus_tag CollectionStatus_of_tag"

definition TeamMemberRoleEvent_tag :: "TeamMemberRoleEvent \<Rightarrow> u8" where
  "TeamMemberRoleEvent_tag v = (case v of
     TeamMemberRoleEvent.Maintainer \<Rightarrow> 0
   | TeamMemberRoleEvent.Member \<Rightarrow> 1
   | TeamMemberRoleEvent.Unknown \<Rightarrow> 2)"

definition TeamMemberRoleEvent_of_tag :: "u8 \<Rightarrow> TeamMemberRoleEvent option" where
  "TeamMemberRoleEvent_of_tag b =
     (if b = 0 then Some TeamMemberRoleEvent.Maintainer
      else if b = 1 then Some TeamMemberRoleEvent.Member
      else if b = 2 then Some TeamMemberRoleEvent.Unknown
      else None)"

definition TeamMemberRoleEvent_type :: "TeamMemberRoleEvent PardosaType" where
  "TeamMemberRoleEvent_type = impl_pardosa_enum TeamMemberRoleEvent_tag TeamMemberRoleEvent_of_tag"

definition TeamRosterStatusEvent_tag :: "TeamRosterStatusEvent \<Rightarrow> u8" where
  "TeamRosterStatusEvent_tag v = (case v of
     TeamRosterStatusEvent.Complete \<Rightarrow> 0
   | TeamRosterStatusEvent.Deleted \<Rightarrow> 1
   | TeamRosterStatusEvent.PermissionDenied \<Rightarrow> 2
   | TeamRosterStatusEvent.TransientError \<Rightarrow> 3)"

definition TeamRosterStatusEvent_of_tag :: "u8 \<Rightarrow> TeamRosterStatusEvent option" where
  "TeamRosterStatusEvent_of_tag b =
     (if b = 0 then Some TeamRosterStatusEvent.Complete
      else if b = 1 then Some TeamRosterStatusEvent.Deleted
      else if b = 2 then Some TeamRosterStatusEvent.PermissionDenied
      else if b = 3 then Some TeamRosterStatusEvent.TransientError
      else None)"

definition TeamRosterStatusEvent_type :: "TeamRosterStatusEvent PardosaType" where
  "TeamRosterStatusEvent_type = impl_pardosa_enum TeamRosterStatusEvent_tag TeamRosterStatusEvent_of_tag"

definition OrgMembershipFetchStatus_tag :: "OrgMembershipFetchStatus \<Rightarrow> u8" where
  "OrgMembershipFetchStatus_tag v = (case v of
     OrgMembershipFetchStatus.Fetched \<Rightarrow> 0
   | OrgMembershipFetchStatus.Degraded \<Rightarrow> 1)"

definition OrgMembershipFetchStatus_of_tag :: "u8 \<Rightarrow> OrgMembershipFetchStatus option" where
  "OrgMembershipFetchStatus_of_tag b =
     (if b = 0 then Some OrgMembershipFetchStatus.Fetched
      else if b = 1 then Some OrgMembershipFetchStatus.Degraded
      else None)"

definition OrgMembershipFetchStatus_type :: "OrgMembershipFetchStatus PardosaType" where
  "OrgMembershipFetchStatus_type = impl_pardosa_enum OrgMembershipFetchStatus_tag OrgMembershipFetchStatus_of_tag"

subsection \<open>Structures and unions\<close>

definition MetadataUnavailable_type :: "PardosaPrims \<Rightarrow> MetadataUnavailable_ev PardosaType" where
  "MetadataUnavailable_type P =
     \<lparr>encode_type = (\<lambda>v. case v of
         MetadataUnavailable_ev.Missing http_status \<Rightarrow> push 0 (
           put (opt_u16 P) http_status (stop))
       | MetadataUnavailable_ev.Malformed http_status \<Rightarrow> push 1 (
           put (opt_u16 P) http_status (stop))
       | MetadataUnavailable_ev.Failure reason http_status \<Rightarrow> push 2 (
           put SecretScanningFailureReason_type reason (put (opt_u16 P) http_status (stop)))),
      decode_type = from_start (get (u8_type P) (\<lambda>tag.
         if tag = 0 then get (opt_u16 P) (\<lambda>http_status.
             ret (MetadataUnavailable_ev.Missing http_status))
         else if tag = 1 then get (opt_u16 P) (\<lambda>http_status.
             ret (MetadataUnavailable_ev.Malformed http_status))
         else if tag = 2 then get SecretScanningFailureReason_type (\<lambda>reason.
             get (opt_u16 P) (\<lambda>http_status.
             ret (MetadataUnavailable_ev.Failure reason http_status)))
         else unknown_tag tag))\<rparr>"

definition SecretScanningAlerts_type :: "PardosaPrims \<Rightarrow> SecretScanningAlerts_ev PardosaType" where
  "SecretScanningAlerts_type P =
     \<lparr>encode_type = (\<lambda>v. case v of
         SecretScanningAlerts_ev.Observable source has_open_alerts http_status \<Rightarrow> push 0 (
           put ProbeSource_type source (put (bool_type P) has_open_alerts (
           put (opt_u16 P) http_status (stop))))
       | SecretScanningAlerts_ev.Unobservable source reason http_status \<Rightarrow> push 1 (
           put ProbeSource_type source (put SecretScanningFailureReason_type reason (
           put (opt_u16 P) http_status (stop))))),
      decode_type = from_start (get (u8_type P) (\<lambda>tag.
         if tag = 0 then get ProbeSource_type (\<lambda>source.
             get (bool_type P) (\<lambda>has_open_alerts. get (opt_u16 P) (\<lambda>http_status.
             ret (SecretScanningAlerts_ev.Observable source has_open_alerts http_status))))
         else if tag = 1 then get ProbeSource_type (\<lambda>source.
             get SecretScanningFailureReason_type (\<lambda>reason.
             get (opt_u16 P) (\<lambda>http_status.
             ret (SecretScanningAlerts_ev.Unobservable source reason http_status))))
         else unknown_tag tag))\<rparr>"

definition EnabledProvenance_type :: "PardosaPrims \<Rightarrow> EnabledProvenance_ev PardosaType" where
  "EnabledProvenance_type P =
     \<lparr>encode_type = (\<lambda>v. case v of
         EnabledProvenance_ev.Metadata http_status alerts \<Rightarrow> push 0 (
           put (opt_u16 P) http_status (put (SecretScanningAlerts_type P) alerts (stop)))
       | EnabledProvenance_ev.Fallback metadata has_open_alerts http_status \<Rightarrow> push 1 (
           put (MetadataUnavailable_type P) metadata (put (bool_type P) has_open_alerts (
           put (opt_u16 P) http_status (stop))))),
      decode_type = from_start (get (u8_type P) (\<lambda>tag.
         if tag = 0 then get (opt_u16 P) (\<lambda>http_status.
             get (SecretScanningAlerts_type P) (\<lambda>alerts.
             ret (EnabledProvenance_ev.Metadata http_status alerts)))
         else if tag = 1 then get (MetadataUnavailable_type P) (\<lambda>metadata.
             get (bool_type P) (\<lambda>has_open_alerts. get (opt_u16 P) (\<lambda>http_status.
             ret (EnabledProvenance_ev.Fallback metadata has_open_alerts http_status))))
         else unknown_tag tag))\<rparr>"

definition DisabledObservation_type :: "PardosaPrims \<Rightarrow> DisabledObservation_ev PardosaType" where
  "DisabledObservation_type P =
     \<lparr>encode_type = (\<lambda>v. case v of
         DisabledObservation_ev.NoMismatch source http_status \<Rightarrow> push 0 (
           put ProbeSource_type source (put (opt_u16 P) http_status (stop)))
       | DisabledObservation_ev.StatusMismatch source http_status \<Rightarrow> push 1 (
           put ProbeSource_type source (put (opt_u16 P) http_status (stop)))
       | DisabledObservation_ev.ProbeFailed source reason http_status \<Rightarrow> push 2 (
           put ProbeSource_type source (put SecretScanningFailureReason_type reason (
           put (opt_u16 P) http_status (stop))))),
      decode_type = from_start (get (u8_type P) (\<lambda>tag.
         if tag = 0 then get ProbeSource_type (\<lambda>source.
             get (opt_u16 P) (\<lambda>http_status.
             ret (DisabledObservation_ev.NoMismatch source http_status)))
         else if tag = 1 then get ProbeSource_type (\<lambda>source.
             get (opt_u16 P) (\<lambda>http_status.
             ret (DisabledObservation_ev.StatusMismatch source http_status)))
         else if tag = 2 then get ProbeSource_type (\<lambda>source.
             get SecretScanningFailureReason_type (\<lambda>reason.
             get (opt_u16 P) (\<lambda>http_status.
             ret (DisabledObservation_ev.ProbeFailed source reason http_status))))
         else unknown_tag tag))\<rparr>"

definition UnobservableProbe_type :: "PardosaPrims \<Rightarrow> UnobservableProbe_ev PardosaType" where
  "UnobservableProbe_type P =
     \<lparr>encode_type = (\<lambda>v. case v of
         UnobservableProbe_ev.Failed source reason http_status \<Rightarrow> push 0 (
           put ProbeSource_type source (put SecretScanningFailureReason_type reason (
           put (opt_u16 P) http_status (stop))))
       | UnobservableProbe_ev.OrgSummaryObserved has_open_alerts http_status \<Rightarrow> push 1 (
           put (bool_type P) has_open_alerts (put (opt_u16 P) http_status (stop)))),
      decode_type = from_start (get (u8_type P) (\<lambda>tag.
         if tag = 0 then get ProbeSource_type (\<lambda>source.
             get SecretScanningFailureReason_type (\<lambda>reason.
             get (opt_u16 P) (\<lambda>http_status.
             ret (UnobservableProbe_ev.Failed source reason http_status))))
         else if tag = 1 then get (bool_type P) (\<lambda>has_open_alerts.
             get (opt_u16 P) (\<lambda>http_status.
             ret (UnobservableProbe_ev.OrgSummaryObserved has_open_alerts http_status)))
         else unknown_tag tag))\<rparr>"

definition SecretScanningResult_type :: "PardosaPrims \<Rightarrow> SecretScanningResult_ev PardosaType" where
  "SecretScanningResult_type P =
     \<lparr>encode_type = (\<lambda>v. case v of
         SecretScanningResult_ev.Enabled provenance timestamp \<Rightarrow> push 0 (
           put (EnabledProvenance_type P) provenance (put (timestamp_type P) timestamp (stop)))
       | SecretScanningResult_ev.Disabled metadata_http_status observation timestamp \<Rightarrow> push 1 (
           put (opt_u16 P) metadata_http_status (put (DisabledObservation_type P) observation (
           put (timestamp_type P) timestamp (stop))))
       | SecretScanningResult_ev.Unobservable metadata probe timestamp \<Rightarrow> push 2 (
           put (MetadataUnavailable_type P) metadata (put (UnobservableProbe_type P) probe (
           put (timestamp_type P) timestamp (stop))))),
      decode_type = from_start (get (u8_type P) (\<lambda>tag.
         if tag = 0 then get (EnabledProvenance_type P) (\<lambda>provenance.
             get (timestamp_type P) (\<lambda>timestamp.
             ret (SecretScanningResult_ev.Enabled provenance timestamp)))
         else if tag = 1 then get (opt_u16 P) (\<lambda>metadata_http_status.
             get (DisabledObservation_type P) (\<lambda>observation.
             get (timestamp_type P) (\<lambda>timestamp.
             ret (SecretScanningResult_ev.Disabled metadata_http_status observation timestamp))))
         else if tag = 2 then get (MetadataUnavailable_type P) (\<lambda>metadata.
             get (UnobservableProbe_type P) (\<lambda>probe.
             get (timestamp_type P) (\<lambda>timestamp.
             ret (SecretScanningResult_ev.Unobservable metadata probe timestamp))))
         else unknown_tag tag))\<rparr>"

definition SecurityPolicyResult_type :: "PardosaPrims \<Rightarrow> SecurityPolicyResult_ev PardosaType" where
  "SecurityPolicyResult_type P =
     \<lparr>encode_type = (\<lambda>v. case v of
         SecurityPolicyResult_ev.EnabledBySetting timestamp \<Rightarrow> push 0 (
           put (timestamp_type P) timestamp (stop))
       | SecurityPolicyResult_ev.EnabledByFile path timestamp \<Rightarrow> push 1 (
           put (non_empty_event_string P MAX_PATH) path (put (timestamp_type P) timestamp (stop)))
       | SecurityPolicyResult_ev.Absent timestamp \<Rightarrow> push 2 (
           put (timestamp_type P) timestamp (stop))
       | SecurityPolicyResult_ev.Unobservable reason timestamp \<Rightarrow> push 3 (
           put IndeterminateReason_type reason (put (timestamp_type P) timestamp (stop)))
       | SecurityPolicyResult_ev.NotApplicable timestamp \<Rightarrow> push 4 (
           put (timestamp_type P) timestamp (stop))),
      decode_type = from_start (get (u8_type P) (\<lambda>tag.
         if tag = 0 then get (timestamp_type P) (\<lambda>timestamp.
             ret (SecurityPolicyResult_ev.EnabledBySetting timestamp))
         else if tag = 1 then get (non_empty_event_string P MAX_PATH) (\<lambda>path.
             get (timestamp_type P) (\<lambda>timestamp.
             ret (SecurityPolicyResult_ev.EnabledByFile path timestamp)))
         else if tag = 2 then get (timestamp_type P) (\<lambda>timestamp.
             ret (SecurityPolicyResult_ev.Absent timestamp))
         else if tag = 3 then get IndeterminateReason_type (\<lambda>reason.
             get (timestamp_type P) (\<lambda>timestamp.
             ret (SecurityPolicyResult_ev.Unobservable reason timestamp)))
         else if tag = 4 then get (timestamp_type P) (\<lambda>timestamp.
             ret (SecurityPolicyResult_ev.NotApplicable timestamp))
         else unknown_tag tag))\<rparr>"

definition DependabotResult_type :: "PardosaPrims \<Rightarrow> DependabotResult_ev PardosaType" where
  "DependabotResult_type P =
     \<lparr>encode_type =
      (\<lambda>s. put DependabotStatus_type (ev_dependabot_status s) (
        put (opt_event_string P MAX_REASON) (ev_dependabot_reason s) (
        put (timestamp_type P) (ev_dependabot_timestamp s) (stop)))),
      decode_type = from_start
      (get DependabotStatus_type (\<lambda>dependabot_status.
        get (opt_event_string P MAX_REASON) (\<lambda>dependabot_reason.
        get (timestamp_type P) (\<lambda>dependabot_timestamp. ret
        \<lparr>ev_dependabot_status = dependabot_status,
        ev_dependabot_reason = dependabot_reason,
        ev_dependabot_timestamp = dependabot_timestamp\<rparr>))))\<rparr>"

definition HistoryProtectionGap_type :: "PardosaPrims \<Rightarrow> HistoryProtectionGap_ev PardosaType" where
  "HistoryProtectionGap_type P =
     \<lparr>encode_type = (\<lambda>v. case v of
         HistoryProtectionGap_ev.Absent confirmed_not_found http_status \<Rightarrow> push 0 (
           put (bool_type P) confirmed_not_found (put (opt_u16 P) http_status (stop)))
       | HistoryProtectionGap_ev.NeitherBlocked \<Rightarrow> push 1 (stop)
       | HistoryProtectionGap_ev.ForcePushAllowed \<Rightarrow> push 2 (stop)
       | HistoryProtectionGap_ev.DeletionAllowed \<Rightarrow> push 3 (stop)),
      decode_type = from_start (get (u8_type P) (\<lambda>tag.
         if tag = 0 then get (bool_type P) (\<lambda>confirmed_not_found.
             get (opt_u16 P) (\<lambda>http_status.
             ret (HistoryProtectionGap_ev.Absent confirmed_not_found http_status)))
         else if tag = 1 then ret (HistoryProtectionGap_ev.NeitherBlocked)
         else if tag = 2 then ret (HistoryProtectionGap_ev.ForcePushAllowed)
         else if tag = 3 then ret (HistoryProtectionGap_ev.DeletionAllowed)
         else unknown_tag tag))\<rparr>"

definition BranchProtectionResult_type :: "PardosaPrims \<Rightarrow> BranchProtectionResult_ev PardosaType" where
  "BranchProtectionResult_type P =
     \<lparr>encode_type = (\<lambda>v. case v of
         BranchProtectionResult_ev.Protected branch timestamp \<Rightarrow> push 0 (
           put (non_empty_event_string P MAX_BRANCH_NAME) branch (
           put (timestamp_type P) timestamp (stop)))
       | BranchProtectionResult_ev.Unprotected branch gap timestamp \<Rightarrow> push 1 (
           put (non_empty_event_string P MAX_BRANCH_NAME) branch (
           put (HistoryProtectionGap_type P) gap (put (timestamp_type P) timestamp (stop))))
       | BranchProtectionResult_ev.Unobservable branch reason http_status timestamp \<Rightarrow> push 2 (
           put (non_empty_event_string P MAX_BRANCH_NAME) branch (
           put IndeterminateReason_type reason (put (opt_u16 P) http_status (
           put (timestamp_type P) timestamp (stop)))))),
      decode_type = from_start (get (u8_type P) (\<lambda>tag.
         if tag = 0 then get (non_empty_event_string P MAX_BRANCH_NAME) (\<lambda>branch.
             get (timestamp_type P) (\<lambda>timestamp.
             ret (BranchProtectionResult_ev.Protected branch timestamp)))
         else if tag = 1 then get (non_empty_event_string P MAX_BRANCH_NAME) (\<lambda>branch.
             get (HistoryProtectionGap_type P) (\<lambda>gap.
             get (timestamp_type P) (\<lambda>timestamp.
             ret (BranchProtectionResult_ev.Unprotected branch gap timestamp))))
         else if tag = 2 then get (non_empty_event_string P MAX_BRANCH_NAME) (\<lambda>branch.
             get IndeterminateReason_type (\<lambda>reason. get (opt_u16 P) (\<lambda>http_status.
             get (timestamp_type P) (\<lambda>timestamp.
             ret (BranchProtectionResult_ev.Unobservable branch reason http_status timestamp)))))
         else unknown_tag tag))\<rparr>"

definition CodeownersEntry_type :: "PardosaPrims \<Rightarrow> CodeownersEntry_ev PardosaType" where
  "CodeownersEntry_type P =
     \<lparr>encode_type =
      (\<lambda>s. put (event_string P MAX_CODEOWNERS_PATTERN) (ev_pattern s) (
        put (vec_event_string P MAX_CODEOWNERS_OWNER MAX_CODEOWNERS_OWNERS) (ev_owners s) (
        stop))),
      decode_type = from_start
      (get (event_string P MAX_CODEOWNERS_PATTERN) (\<lambda>pattern.
        get (vec_event_string P MAX_CODEOWNERS_OWNER MAX_CODEOWNERS_OWNERS) (\<lambda>owners. ret
        \<lparr>ev_pattern = pattern, ev_owners = owners\<rparr>)))\<rparr>"

definition ParsedCodeowners_type :: "PardosaPrims \<Rightarrow> ParsedCodeowners_ev PardosaType" where
  "ParsedCodeowners_type P =
     \<lparr>encode_type =
      (\<lambda>s.
        put (vec_CodeownersEntry P MAX_CODEOWNERS_ENTRIES (CodeownersEntry_type P)) (ev_entries s) (
        put (vec_event_string P MAX_CODEOWNERS_OWNER MAX_CODEOWNERS_OWNERS) (ev_unique_owners s) (
        put (u32_type P) (ev_skipped_lines s) (stop)))),
      decode_type = from_start
      (
        get (vec_CodeownersEntry P MAX_CODEOWNERS_ENTRIES (CodeownersEntry_type P)) (\<lambda>entries.
        get (vec_event_string P MAX_CODEOWNERS_OWNER MAX_CODEOWNERS_OWNERS) (\<lambda>unique_owners.
        get (u32_type P) (\<lambda>skipped_lines. ret \<lparr>ev_entries = entries,
        ev_unique_owners = unique_owners, ev_skipped_lines = skipped_lines\<rparr>))))\<rparr>"

definition CodeownersContent_type :: "PardosaPrims \<Rightarrow> CodeownersContent_ev PardosaType" where
  "CodeownersContent_type P =
     \<lparr>encode_type = (\<lambda>v. case v of
         CodeownersContent_ev.Parsed parsed \<Rightarrow> push 0 (
           put (ParsedCodeowners_type P) parsed (stop))
       | CodeownersContent_ev.Truncated reason \<Rightarrow> push 1 (
           put CodeownersTruncationReason_type reason (stop))
       | CodeownersContent_ev.Unparsed \<Rightarrow> push 2 (stop)),
      decode_type = from_start (get (u8_type P) (\<lambda>tag.
         if tag = 0 then get (ParsedCodeowners_type P) (\<lambda>parsed.
             ret (CodeownersContent_ev.Parsed parsed))
         else if tag = 1 then get CodeownersTruncationReason_type (\<lambda>reason.
             ret (CodeownersContent_ev.Truncated reason))
         else if tag = 2 then ret (CodeownersContent_ev.Unparsed)
         else unknown_tag tag))\<rparr>"

definition CodeownersResult_type :: "PardosaPrims \<Rightarrow> CodeownersResult_ev PardosaType" where
  "CodeownersResult_type P =
     \<lparr>encode_type = (\<lambda>v. case v of
         CodeownersResult_ev.Conforming content timestamp \<Rightarrow> push 0 (
           put (CodeownersContent_type P) content (put (timestamp_type P) timestamp (stop)))
       | CodeownersResult_ev.NonConforming location content timestamp \<Rightarrow> push 1 (
           put CodeownersNonConformingLocation_type location (
           put (CodeownersContent_type P) content (put (timestamp_type P) timestamp (stop))))
       | CodeownersResult_ev.Absent timestamp \<Rightarrow> push 2 (
           put (timestamp_type P) timestamp (stop))
       | CodeownersResult_ev.Unobservable reason timestamp \<Rightarrow> push 3 (
           put IndeterminateReason_type reason (put (timestamp_type P) timestamp (stop)))),
      decode_type = from_start (get (u8_type P) (\<lambda>tag.
         if tag = 0 then get (CodeownersContent_type P) (\<lambda>content.
             get (timestamp_type P) (\<lambda>timestamp.
             ret (CodeownersResult_ev.Conforming content timestamp)))
         else if tag = 1 then get CodeownersNonConformingLocation_type (\<lambda>location.
             get (CodeownersContent_type P) (\<lambda>content.
             get (timestamp_type P) (\<lambda>timestamp.
             ret (CodeownersResult_ev.NonConforming location content timestamp))))
         else if tag = 2 then get (timestamp_type P) (\<lambda>timestamp.
             ret (CodeownersResult_ev.Absent timestamp))
         else if tag = 3 then get IndeterminateReason_type (\<lambda>reason.
             get (timestamp_type P) (\<lambda>timestamp.
             ret (CodeownersResult_ev.Unobservable reason timestamp)))
         else unknown_tag tag))\<rparr>"

definition RepositoryChecks_type :: "PardosaPrims \<Rightarrow> RepositoryChecks_ev PardosaType" where
  "RepositoryChecks_type P =
     \<lparr>encode_type =
      (\<lambda>s. put (SecurityPolicyResult_type P) (ev_security_policy s) (
        put (SecretScanningResult_type P) (ev_secret_scanning s) (
        put (DependabotResult_type P) (ev_dependabot_security_updates s) (
        put (BranchProtectionResult_type P) (ev_branch_protection s) (
        put (CodeownersResult_type P) (ev_codeowners s) (stop)))))),
      decode_type = from_start
      (get (SecurityPolicyResult_type P) (\<lambda>security_policy.
        get (SecretScanningResult_type P) (\<lambda>secret_scanning.
        get (DependabotResult_type P) (\<lambda>dependabot_security_updates.
        get (BranchProtectionResult_type P) (\<lambda>branch_protection.
        get (CodeownersResult_type P) (\<lambda>codeowners. ret
        \<lparr>ev_security_policy = security_policy, ev_secret_scanning = secret_scanning,
        ev_dependabot_security_updates = dependabot_security_updates,
        ev_branch_protection = branch_protection, ev_codeowners = codeowners\<rparr>))))))\<rparr>"

definition Repository_type :: "PardosaPrims \<Rightarrow> Repository_ev PardosaType" where
  "Repository_type P =
     \<lparr>encode_type =
      (\<lambda>s. put (non_empty_event_string P MAX_GITHUB_ID) (ev_id s) (
        put (opt_event_string P MAX_NODE_ID) (ev_node_id s) (
        put (non_empty_event_string P MAX_REPO_NAME) (ev_name s) (
        put Visibility_type (ev_visibility s) (
        put (opt_event_string P MAX_LANGUAGE) (ev_language s) (
        put (non_empty_event_string P MAX_BRANCH_NAME) (ev_default_branch s) (
        put (bool_type P) (ev_archived s) (
        put (non_empty_event_string P MAX_DOMAIN_KEY) (ev_inventory_key s) (
        put (opt_non_empty_event_string P MAX_TIMESTAMP_TEXT) (ev_updated_at s) (
        put (bool_type P) (ev_has_issues s) (put (opt_timestamp P) (ev_pushed_at s) (
        put (opt_timestamp P) (ev_created_at s) (
        put (opt_event_string P MAX_DESCRIPTION) (ev_description s) (
        put (bool_type P) (ev_fork s) (put (bool_type P) (ev_is_empty s) (
        put (opt_event_string P MAX_URL) (ev_html_url s) (
        put (vec_event_string P MAX_TOPIC MAX_TOPICS) (ev_topics s) (
        put (opt_event_string P MAX_LICENSE) (ev_license_spdx s) (stop))))))))))))))))))),
      decode_type = from_start
      (get (non_empty_event_string P MAX_GITHUB_ID) (\<lambda>id.
        get (opt_event_string P MAX_NODE_ID) (\<lambda>node_id.
        get (non_empty_event_string P MAX_REPO_NAME) (\<lambda>name.
        get Visibility_type (\<lambda>visibility.
        get (opt_event_string P MAX_LANGUAGE) (\<lambda>language.
        get (non_empty_event_string P MAX_BRANCH_NAME) (\<lambda>default_branch.
        get (bool_type P) (\<lambda>archived.
        get (non_empty_event_string P MAX_DOMAIN_KEY) (\<lambda>inventory_key.
        get (opt_non_empty_event_string P MAX_TIMESTAMP_TEXT) (\<lambda>updated_at.
        get (bool_type P) (\<lambda>has_issues. get (opt_timestamp P) (\<lambda>pushed_at.
        get (opt_timestamp P) (\<lambda>created_at.
        get (opt_event_string P MAX_DESCRIPTION) (\<lambda>description.
        get (bool_type P) (\<lambda>fork. get (bool_type P) (\<lambda>is_empty.
        get (opt_event_string P MAX_URL) (\<lambda>html_url.
        get (vec_event_string P MAX_TOPIC MAX_TOPICS) (\<lambda>topics.
        get (opt_event_string P MAX_LICENSE) (\<lambda>license_spdx. ret \<lparr>ev_id = id,
        ev_node_id = node_id, ev_name = name, ev_visibility = visibility, ev_language = language,
        ev_default_branch = default_branch, ev_archived = archived,
        ev_inventory_key = inventory_key, ev_updated_at = updated_at, ev_has_issues = has_issues,
        ev_pushed_at = pushed_at, ev_created_at = created_at, ev_description = description,
        ev_fork = fork, ev_is_empty = is_empty, ev_html_url = html_url, ev_topics = topics,
        ev_license_spdx = license_spdx\<rparr>)))))))))))))))))))\<rparr>"

definition LastCommitInfo_type :: "PardosaPrims \<Rightarrow> LastCommitInfo_ev PardosaType" where
  "LastCommitInfo_type P =
     \<lparr>encode_type =
      (\<lambda>s. put (opt_event_string P MAX_LOGIN) (ev_committer_login s) (
        put (opt_event_string P MAX_PERSON_NAME) (ev_committer_name s) (
        put (opt_timestamp P) (ev_commit_date s) (stop)))),
      decode_type = from_start
      (get (opt_event_string P MAX_LOGIN) (\<lambda>committer_login.
        get (opt_event_string P MAX_PERSON_NAME) (\<lambda>committer_name.
        get (opt_timestamp P) (\<lambda>commit_date. ret
        \<lparr>ev_committer_login = committer_login, ev_committer_name = committer_name,
        ev_commit_date = commit_date\<rparr>))))\<rparr>"

definition RepositoryEvidence_type :: "PardosaPrims \<Rightarrow> RepositoryEvidence_ev PardosaType" where
  "RepositoryEvidence_type P =
     \<lparr>encode_type =
      (\<lambda>s. put (Repository_type P) (ev_repository s) (
        put (RepositoryChecks_type P) (ev_checks s) (
        put (opt_LastCommitInfo P (LastCommitInfo_type P)) (ev_last_commit s) (stop)))),
      decode_type = from_start
      (get (Repository_type P) (\<lambda>repository.
        get (RepositoryChecks_type P) (\<lambda>checks.
        get (opt_LastCommitInfo P (LastCommitInfo_type P)) (\<lambda>last_commit. ret
        \<lparr>ev_repository = repository, ev_checks = checks,
        ev_last_commit = last_commit\<rparr>))))\<rparr>"

text \<open>\<open>limit.get().encode_type(buf)\<close>, and \<open>NonZeroU64::new(raw_limit).ok_or(..)\<close>.\<close>

definition CollectionCoverage_type :: "PardosaPrims \<Rightarrow> CollectionCoverage_ev PardosaType" where
  "CollectionCoverage_type P =
     \<lparr>encode_type = (\<lambda>v. case v of
         CollectionCoverage_ev.Unknown \<Rightarrow> push 0 stop
       | CollectionCoverage_ev.Known total_repos limit \<Rightarrow> push 1 (put (u32_type P) total_repos
           (put (u64_type P) limit stop))),
      decode_type = from_start (read first_byte (\<lambda>tag.
         if tag = 0 then ret CollectionCoverage_ev.Unknown
         else if tag = 1 then get (u32_type P) (\<lambda>total_repos. get (u64_type P) (\<lambda>raw_limit.
           if raw_limit = 0 then unknown_tag 0
           else ret (CollectionCoverage_ev.Known total_repos raw_limit)))
         else unknown_tag tag))\<rparr>"

definition AssessmentMetadata_type :: "PardosaPrims \<Rightarrow> AssessmentMetadata_ev PardosaType" where
  "AssessmentMetadata_type P =
     \<lparr>encode_type =
      (\<lambda>s. put (event_string P MAX_ASSESSMENT_DATE) (ev_date s) (
        put (event_string P MAX_LOGIN) (ev_organization s) (
        put (event_string P MAX_SCHEMA_VERSION) (ev_schema_version s) (
        put (event_string P MAX_TIMESTAMP_TEXT) (ev_run_timestamp s) (
        put (event_string P MAX_RUN_ID) (ev_run_id s) (put TokenTier_type (ev_token_tier s) (
        put (event_string P MAX_TOKEN_SCOPES) (ev_token_scopes s) (
        put AuthMode_type (ev_auth_mode s) (put (u32_type P) (ev_rate_limit_warnings s) (
        put (vec_Capability P MAX_UNAVAILABLE_CAPABILITIES Capability_type) (ev_unavailable_capabilities s) (
        put (opt_event_string P MAX_TIMESTAMP_TEXT) (ev_inventory_fetched_at s) (
        put (bool_type P) (ev_warm_start s) (put (CollectionCoverage_type P) (ev_coverage s) (
        stop)))))))))))))),
      decode_type = from_start
      (get (event_string P MAX_ASSESSMENT_DATE) (\<lambda>date.
        get (event_string P MAX_LOGIN) (\<lambda>organization.
        get (event_string P MAX_SCHEMA_VERSION) (\<lambda>schema_version.
        get (event_string P MAX_TIMESTAMP_TEXT) (\<lambda>run_timestamp.
        get (event_string P MAX_RUN_ID) (\<lambda>run_id. get TokenTier_type (\<lambda>token_tier.
        get (event_string P MAX_TOKEN_SCOPES) (\<lambda>token_scopes.
        get AuthMode_type (\<lambda>auth_mode. get (u32_type P) (\<lambda>rate_limit_warnings.
        get (vec_Capability P MAX_UNAVAILABLE_CAPABILITIES Capability_type) (\<lambda>unavailable_capabilities.
        get (opt_event_string P MAX_TIMESTAMP_TEXT) (\<lambda>inventory_fetched_at.
        get (bool_type P) (\<lambda>warm_start.
        get (CollectionCoverage_type P) (\<lambda>coverage. ret \<lparr>ev_date = date,
        ev_organization = organization, ev_schema_version = schema_version,
        ev_run_timestamp = run_timestamp, ev_run_id = run_id, ev_token_tier = token_tier,
        ev_token_scopes = token_scopes, ev_auth_mode = auth_mode,
        ev_rate_limit_warnings = rate_limit_warnings,
        ev_unavailable_capabilities = unavailable_capabilities,
        ev_inventory_fetched_at = inventory_fetched_at, ev_warm_start = warm_start,
        ev_coverage = coverage\<rparr>))))))))))))))\<rparr>"

definition RepoAlertSummary_type :: "PardosaPrims \<Rightarrow> RepoAlertSummary_ev PardosaType" where
  "RepoAlertSummary_type P =
     \<lparr>encode_type =
      (\<lambda>s. put (u64_type P) (ev_open_alert_count s) (
        put (opt_event_string P MAX_TIMESTAMP_TEXT) (ev_oldest_open_alert_created_at s) (
        put (opt_event_string P MAX_TIMESTAMP_TEXT) (ev_newest_open_alert_created_at s) (stop)))),
      decode_type = from_start
      (get (u64_type P) (\<lambda>open_alert_count.
        get (opt_event_string P MAX_TIMESTAMP_TEXT) (\<lambda>oldest_open_alert_created_at.
        get (opt_event_string P MAX_TIMESTAMP_TEXT) (\<lambda>newest_open_alert_created_at. ret
        \<lparr>ev_open_alert_count = open_alert_count,
        ev_oldest_open_alert_created_at = oldest_open_alert_created_at,
        ev_newest_open_alert_created_at = newest_open_alert_created_at\<rparr>))))\<rparr>"

definition RepoAlertSummaryEntry_type :: "PardosaPrims \<Rightarrow> RepoAlertSummaryEntry PardosaType" where
  "RepoAlertSummaryEntry_type P =
     \<lparr>encode_type =
      (\<lambda>s. put (event_string P MAX_GITHUB_ID) (ev_repository_id s) (
        put (RepoAlertSummary_type P) (ev_summary s) (stop))),
      decode_type = from_start
      (get (event_string P MAX_GITHUB_ID) (\<lambda>repository_id.
        get (RepoAlertSummary_type P) (\<lambda>summary. ret
        \<lparr>ev_repository_id = repository_id, ev_summary = summary\<rparr>)))\<rparr>"

definition StringU64Entry_type :: "PardosaPrims \<Rightarrow> StringU64Entry PardosaType" where
  "StringU64Entry_type P =
     \<lparr>encode_type =
      (\<lambda>s. put (event_string P MAX_ALERT_BUCKET) (ev_key s) (
        put (u64_type P) (ev_value s) (stop))),
      decode_type = from_start
      (get (event_string P MAX_ALERT_BUCKET) (\<lambda>key. get (u64_type P) (\<lambda>value. ret
        \<lparr>ev_key = key, ev_value = value\<rparr>)))\<rparr>"

definition OrgAlertSummary_type :: "PardosaPrims \<Rightarrow> OrgAlertSummary_ev PardosaType" where
  "OrgAlertSummary_type P =
     \<lparr>encode_type =
      (\<lambda>s. put CollectionStatus_type (ev_collection_status s) (
        put (opt_event_string P MAX_REASON) (ev_collection_reason s) (
        put (opt_u16 P) (ev_http_status s) (
        put (vec_RepoAlertSummaryEntry P MAX_ORG_ALERT_REPOS (RepoAlertSummaryEntry_type P)) (ev_per_repo s) (
        put (vec_StringU64Entry P MAX_ALERT_BUCKETS (StringU64Entry_type P)) (ev_age_buckets s) (
        put (u64_type P) (ev_total_open_secret_alerts s) (
        put (opt_event_string P MAX_TIMESTAMP_TEXT) (ev_oldest_open_secret_alert_created_at s) (
        put (opt_event_string P MAX_TIMESTAMP_TEXT) (ev_newest_open_secret_alert_created_at s) (
        stop))))))))),
      decode_type = from_start
      (get CollectionStatus_type (\<lambda>collection_status.
        get (opt_event_string P MAX_REASON) (\<lambda>collection_reason.
        get (opt_u16 P) (\<lambda>http_status.
        get (vec_RepoAlertSummaryEntry P MAX_ORG_ALERT_REPOS (RepoAlertSummaryEntry_type P)) (\<lambda>per_repo.
        get (vec_StringU64Entry P MAX_ALERT_BUCKETS (StringU64Entry_type P)) (\<lambda>age_buckets.
        get (u64_type P) (\<lambda>total_open_secret_alerts.
        get (opt_event_string P MAX_TIMESTAMP_TEXT) (\<lambda>oldest_open_secret_alert_created_at.
        get (opt_event_string P MAX_TIMESTAMP_TEXT) (\<lambda>newest_open_secret_alert_created_at.
        ret \<lparr>ev_collection_status = collection_status,
        ev_collection_reason = collection_reason, ev_http_status = http_status,
        ev_per_repo = per_repo, ev_age_buckets = age_buckets,
        ev_total_open_secret_alerts = total_open_secret_alerts,
        ev_oldest_open_secret_alert_created_at = oldest_open_secret_alert_created_at,
        ev_newest_open_secret_alert_created_at = newest_open_secret_alert_created_at\<rparr>)))))))))\<rparr>"

definition OrgStateCaptured_type :: "PardosaPrims \<Rightarrow> OrgStateCaptured PardosaType" where
  "OrgStateCaptured_type P =
     \<lparr>encode_type =
      (\<lambda>s. put (u32_type P) (ev_archived_repos s) (
        put (AssessmentMetadata_type P) (ev_assessment_metadata s) (
        put (OrgAlertSummary_type P) (ev_alert_summary s) (stop)))),
      decode_type = from_start
      (get (u32_type P) (\<lambda>archived_repos.
        get (AssessmentMetadata_type P) (\<lambda>assessment_metadata.
        get (OrgAlertSummary_type P) (\<lambda>alert_summary. ret
        \<lparr>ev_archived_repos = archived_repos, ev_assessment_metadata = assessment_metadata,
        ev_alert_summary = alert_summary\<rparr>))))\<rparr>"

definition TeamMemberEvent_type :: "PardosaPrims \<Rightarrow> TeamMemberEvent PardosaType" where
  "TeamMemberEvent_type P =
     \<lparr>encode_type =
      (\<lambda>s. put (non_empty_event_string P MAX_LOGIN) (ev_login s) (
        put TeamMemberRoleEvent_type (ev_role s) (put (opt_bool P) (ev_in_org s) (stop)))),
      decode_type = from_start
      (get (non_empty_event_string P MAX_LOGIN) (\<lambda>login.
        get TeamMemberRoleEvent_type (\<lambda>role. get (opt_bool P) (\<lambda>in_org. ret
        \<lparr>ev_login = login, ev_role = role, ev_in_org = in_org\<rparr>))))\<rparr>"

definition OrphanAttributionInputs_type :: "PardosaPrims \<Rightarrow> OrphanAttributionInputs PardosaType" where
  "OrphanAttributionInputs_type P =
     \<lparr>encode_type =
      (\<lambda>s. put OrgMembershipFetchStatus_type (ev_org_membership_fetch_status s) (stop)),
      decode_type = from_start
      (get OrgMembershipFetchStatus_type (\<lambda>org_membership_fetch_status. ret
        \<lparr>ev_org_membership_fetch_status = org_membership_fetch_status\<rparr>))\<rparr>"

definition TeamStateCaptured_type :: "PardosaPrims \<Rightarrow> TeamStateCaptured PardosaType" where
  "TeamStateCaptured_type P =
     \<lparr>encode_type =
      (\<lambda>s. put (non_empty_event_string P MAX_LOGIN) (ev_org s) (
        put (non_empty_event_string P MAX_LOGIN) (ev_team_slug s) (
        put (vec_TeamMemberEvent P MAX_TEAM_MEMBERS (TeamMemberEvent_type P)) (ev_members s) (
        put (OrphanAttributionInputs_type P) (ev_orphan_attribution_inputs s) (
        put (event_string P MAX_TIMESTAMP_TEXT) (ev_fetched_at s) (
        put TeamRosterStatusEvent_type (ev_status s) (stop))))))),
      decode_type = from_start
      (get (non_empty_event_string P MAX_LOGIN) (\<lambda>org.
        get (non_empty_event_string P MAX_LOGIN) (\<lambda>team_slug.
        get (vec_TeamMemberEvent P MAX_TEAM_MEMBERS (TeamMemberEvent_type P)) (\<lambda>members.
        get (OrphanAttributionInputs_type P) (\<lambda>orphan_attribution_inputs.
        get (event_string P MAX_TIMESTAMP_TEXT) (\<lambda>fetched_at.
        get TeamRosterStatusEvent_type (\<lambda>status. ret \<lparr>ev_org = org,
        ev_team_slug = team_slug, ev_members = members,
        ev_orphan_attribution_inputs = orphan_attribution_inputs, ev_fetched_at = fetched_at,
        ev_status = status\<rparr>)))))))\<rparr>"

definition DomainEvent_type :: "PardosaPrims \<Rightarrow> DomainEvent PardosaType" where
  "DomainEvent_type P =
     \<lparr>encode_type = (\<lambda>v. case v of
         DomainEvent.RepositoryStateCaptured domain_key repo_name timestamp evidence \<Rightarrow> push 0 (
           put (non_empty_event_string P MAX_DOMAIN_KEY) domain_key (
           put (non_empty_event_string P MAX_REPO_NAME) repo_name (
           put (timestamp_type P) timestamp (
           put (opt_RepositoryEvidence P (RepositoryEvidence_type P)) evidence (stop)))))
       | DomainEvent.RepositoryDeleted domain_key repo_name detected_at \<Rightarrow> push 1 (
           put (non_empty_event_string P MAX_DOMAIN_KEY) domain_key (
           put (non_empty_event_string P MAX_REPO_NAME) repo_name (
           put (timestamp_type P) detected_at (stop))))
       | DomainEvent.OrgStateCaptured org \<Rightarrow> push 2 (
           put (OrgStateCaptured_type P) org (stop))
       | DomainEvent.TeamStateCaptured team \<Rightarrow> push 3 (
           put (TeamStateCaptured_type P) team (stop))),
      decode_type = from_start (read first_byte (\<lambda>tag.
         if tag = 0 then get (non_empty_event_string P MAX_DOMAIN_KEY) (\<lambda>domain_key.
             get (non_empty_event_string P MAX_REPO_NAME) (\<lambda>repo_name.
             get (timestamp_type P) (\<lambda>timestamp.
             get (opt_RepositoryEvidence P (RepositoryEvidence_type P)) (\<lambda>evidence.
             ret (DomainEvent.RepositoryStateCaptured domain_key repo_name timestamp evidence)))))
         else if tag = 1 then get (non_empty_event_string P MAX_DOMAIN_KEY) (\<lambda>domain_key.
             get (non_empty_event_string P MAX_REPO_NAME) (\<lambda>repo_name.
             get (timestamp_type P) (\<lambda>detected_at.
             ret (DomainEvent.RepositoryDeleted domain_key repo_name detected_at))))
         else if tag = 2 then get (OrgStateCaptured_type P) (\<lambda>org.
             ret (DomainEvent.OrgStateCaptured org))
         else if tag = 3 then get (TeamStateCaptured_type P) (\<lambda>team.
             ret (DomainEvent.TeamStateCaptured team))
         else unknown_tag tag))\<rparr>"

definition SweepTimeoutEvent_type :: "PardosaPrims \<Rightarrow> SweepTimeoutEvent PardosaType" where
  "SweepTimeoutEvent_type P =
     \<lparr>encode_type = (\<lambda>v. case v of
         SweepTimeoutEvent.TargetOpened event_id \<Rightarrow> push 0 (
           put (uuid_type P) event_id (stop))
       | SweepTimeoutEvent.TimeoutFired event_id run_id error elapsed_ms \<Rightarrow> push 1 (
           put (uuid_type P) event_id (put (event_string P MAX_RUN_ID) run_id (
           put (event_string P MAX_SWEEP_TIMEOUT_ERROR) error (put (u64_type P) elapsed_ms (
           stop)))))),
      decode_type = from_start (read first_byte (\<lambda>tag.
         if tag = 0 then get (uuid_type P) (\<lambda>event_id.
             ret (SweepTimeoutEvent.TargetOpened event_id))
         else if tag = 1 then get (uuid_type P) (\<lambda>event_id.
             get (event_string P MAX_RUN_ID) (\<lambda>run_id.
             get (event_string P MAX_SWEEP_TIMEOUT_ERROR) (\<lambda>error.
             get (u64_type P) (\<lambda>elapsed_ms.
             ret (SweepTimeoutEvent.TimeoutFired event_id run_id error elapsed_ms)))))
         else unknown_tag tag))\<rparr>"

subsection \<open>Payloads\<close>

text \<open>\<open>encode_payload\<close> and \<open>decode_payload\<close> of \<open>PardosaSchema\<close>; the decoder ignores trailing bytes.\<close>

definition encode_payload :: "'a PardosaType \<Rightarrow> 'a \<Rightarrow> u8 list \<Rightarrow> EncodeError + u8 list" where
  "encode_payload T v buf = encode_type T v buf"

definition decode_payload :: "'a PardosaType \<Rightarrow> u8 list \<Rightarrow> DecodeError + 'a" where
  "decode_payload T buf = (case decode_type T buf of Inl e \<Rightarrow> Inl e | Inr (val, _) \<Rightarrow> Inr val)"

fun DomainEvent_event_type :: "DomainEvent \<Rightarrow> string" where
  "DomainEvent_event_type (DomainEvent.RepositoryStateCaptured _ _ _ _) = ''RepositoryStateCaptured''"
| "DomainEvent_event_type (DomainEvent.RepositoryDeleted _ _ _) = ''RepositoryDeleted''"
| "DomainEvent_event_type (DomainEvent.OrgStateCaptured _) = ''OrgStateCaptured''"
| "DomainEvent_event_type (DomainEvent.TeamStateCaptured _) = ''TeamStateCaptured''"

fun SweepTimeoutEvent_event_type :: "SweepTimeoutEvent \<Rightarrow> string" where
  "SweepTimeoutEvent_event_type (SweepTimeoutEvent.TargetOpened _) =
     ''gh-report.sweep_timeout_target_opened''"
| "SweepTimeoutEvent_event_type (SweepTimeoutEvent.TimeoutFired _ _ _ _) =
     ''gh-report.sweep_timeout_fired''"

fun SweepTimeoutEvent_scheduled_event_id :: "SweepTimeoutEvent \<Rightarrow> uuid" where
  "SweepTimeoutEvent_scheduled_event_id (SweepTimeoutEvent.TargetOpened event_id) = event_id"
| "SweepTimeoutEvent_scheduled_event_id (SweepTimeoutEvent.TimeoutFired event_id _ _ _) = event_id"

end
