(* ===== verification/Event_Wire.thy ===== *)
theory Event_Wire
  imports Event_Codec
begin

text \<open>
  Round trip of the event codec. \<open>codec_ok\<close> is the contract of a \<open>PardosaType\<close> on valid values;
  \<open>reads\<close> relates an encoder to the decoder that undoes it, and has one rule for each statement that
  encoders and decoders are made of. The contract of every event type follows from the contract of
  the primitive types by these rules.
\<close>

subsection \<open>Contracts\<close>

named_theorems codec_intros \<open>contracts of the event types\<close>

definition codec_ok :: "'a PardosaType \<Rightarrow> ('a \<Rightarrow> bool) \<Rightarrow> bool" where
  "codec_ok T valid \<longleftrightarrow> (\<forall>v buf b. valid v \<longrightarrow> encode_type T v buf = Inr b \<longrightarrow>
     (\<exists>bs. b = buf @ bs \<and> (\<forall>rest. decode_type T (bs @ rest) = Inr (v, length bs))))"

abbreviation lawful :: "'a PardosaType \<Rightarrow> bool" where
  "lawful T \<equiv> codec_ok T (\<lambda>_. True)"

definition reads :: "encoder \<Rightarrow> 'a decoder \<Rightarrow> 'a \<Rightarrow> bool" where
  "reads w r v \<longleftrightarrow> (\<forall>buf b. w buf = Inr b \<longrightarrow>
     (\<exists>bs. b = buf @ bs \<and>
        (\<forall>pre rest. r (pre @ bs @ rest) (length pre) = Inr (v, length pre + length bs))))"

definition reads_byte :: "(u8 list \<Rightarrow> DecodeError + (u8 \<times> nat)) \<Rightarrow> bool" where
  "reads_byte d \<longleftrightarrow> (\<forall>b rest. d (b # rest) = Inr (b, 1))"

text \<open>The documented behaviour of the primitive implementations.\<close>

definition prims_ok :: "PardosaPrims \<Rightarrow> bool" where
  "prims_ok P \<longleftrightarrow>
     reads_byte (decode_type (u8_type P)) \<and>
     lawful (u32_type P) \<and> lawful (u64_type P) \<and> lawful (bool_type P) \<and>
     lawful (timestamp_type P) \<and> lawful (uuid_type P) \<and>
     (\<forall>n. lawful (event_string P n)) \<and> (\<forall>n. lawful (non_empty_event_string P n)) \<and>
     lawful (opt_u16 P) \<and> lawful (opt_bool P) \<and> lawful (opt_timestamp P) \<and>
     (\<forall>n. lawful (opt_event_string P n)) \<and> (\<forall>n. lawful (opt_non_empty_event_string P n)) \<and>
     (\<forall>T. lawful T \<longrightarrow> lawful (opt_LastCommitInfo P T)) \<and>
     (\<forall>T. lawful T \<longrightarrow> lawful (opt_RepositoryEvidence P T)) \<and>
     (\<forall>n m. lawful (vec_event_string P n m)) \<and>
     (\<forall>n T. lawful T \<longrightarrow> lawful (vec_CodeownersEntry P n T)) \<and>
     (\<forall>n T. lawful T \<longrightarrow> lawful (vec_Capability P n T)) \<and>
     (\<forall>n T. lawful T \<longrightarrow> lawful (vec_RepoAlertSummaryEntry P n T)) \<and>
     (\<forall>n T. lawful T \<longrightarrow> lawful (vec_StringU64Entry P n T)) \<and>
     (\<forall>n T. lawful T \<longrightarrow> lawful (vec_TeamMemberEvent P n T))"

subsection \<open>Rules\<close>

lemma codec_okI:
  assumes "\<And>v. valid v \<Longrightarrow> reads (E v) r v"
  shows "codec_ok \<lparr>encode_type = E, decode_type = from_start r\<rparr> valid"
  unfolding codec_ok_def
proof (intro allI impI)
  fix v buf b assume "valid v" "encode_type \<lparr>encode_type = E, decode_type = from_start r\<rparr> v buf = Inr b"
  then have "reads (E v) r v" "E v buf = Inr b" by (simp_all add: assms)
  then obtain bs where "b = buf @ bs"
    "\<And>pre rest. r (pre @ bs @ rest) (length pre) = Inr (v, length pre + length bs)"
    unfolding reads_def by blast
  from this(1) this(2) [of "[]"]
  show "\<exists>bs. b = buf @ bs \<and> (\<forall>rest.
      decode_type \<lparr>encode_type = E, decode_type = from_start r\<rparr> (bs @ rest) = Inr (v, length bs))"
    by (auto simp: from_start_def)
qed

lemma codec_ok_weaken: "codec_ok T valid \<Longrightarrow> (\<And>v. valid' v \<Longrightarrow> valid v) \<Longrightarrow> codec_ok T valid'"
  unfolding codec_ok_def by blast

lemma reads_stop: "v' = v \<Longrightarrow> reads stop (ret v') v"
  by (simp add: reads_def stop_def ret_def)

lemma reads_put:
  assumes "codec_ok T valid" and "valid x" and "reads w (k x) v"
  shows "reads (put T x w) (get T k) v"
  unfolding reads_def
proof (intro allI impI)
  fix buf b assume "put T x w buf = Inr b"
  then obtain b1 where b1: "encode_type T x buf = Inr b1" and b: "w b1 = Inr b"
    by (auto simp: put_def split: sum.splits)
  from assms(1,2) b1 obtain xs where xs: "b1 = buf @ xs"
    "\<And>rest. decode_type T (xs @ rest) = Inr (x, length xs)" unfolding codec_ok_def by blast
  from assms(3) b obtain ys where ys: "b = b1 @ ys"
    "\<And>pre rest. k x (pre @ ys @ rest) (length pre) = Inr (v, length pre + length ys)"
    unfolding reads_def by blast
  have "get T k (pre @ (xs @ ys) @ rest) (length pre) = Inr (v, length pre + length (xs @ ys))" for pre rest
    using xs(2) [of "ys @ rest"] ys(2) [of "pre @ xs" rest] by (simp add: read_def add.assoc)
  with xs(1) ys(1) show "\<exists>bs. b = buf @ bs \<and>
      (\<forall>pre rest. get T k (pre @ bs @ rest) (length pre) = Inr (v, length pre + length bs))"
    by (intro exI [of _ "xs @ ys"]) simp
qed

lemma reads_push:
  assumes "reads_byte d" and "reads w (k tag) v"
  shows "reads (push tag w) (read d k) v"
  unfolding reads_def
proof (intro allI impI)
  fix buf b assume "push tag w buf = Inr b"
  with assms(2) obtain ys where ys: "b = (buf @ [tag]) @ ys"
    "\<And>pre rest. k tag (pre @ ys @ rest) (length pre) = Inr (v, length pre + length ys)"
    unfolding reads_def push_def by blast
  have "read d k (pre @ (tag # ys) @ rest) (length pre) = Inr (v, length pre + length (tag # ys))" for pre rest
    using assms(1) ys(2) [of "pre @ [tag]" rest] by (simp add: read_def reads_byte_def)
  with ys(1) show "\<exists>bs. b = buf @ bs \<and>
      (\<forall>pre rest. read d k (pre @ bs @ rest) (length pre) = Inr (v, length pre + length bs))"
    by (intro exI [of _ "tag # ys"]) simp
qed

lemma reads_byte_first: "reads_byte first_byte"
  by (simp add: reads_byte_def first_byte_def)

lemmas reads_intros = reads_stop reads_put reads_push

subsection \<open>Enumerations\<close>

locale byte_enum =
  fixes tag :: "'a \<Rightarrow> u8" and of_tag :: "u8 \<Rightarrow> 'a option"
  assumes of_tag_tag: "of_tag (tag v) = Some v"
begin

lemma tag_inject: "tag v = tag v' \<longleftrightarrow> v = v'"
  by (metis of_tag_tag option.inject)

lemma enum_lawful: "lawful (impl_pardosa_enum tag of_tag)"
  unfolding impl_pardosa_enum_def
  by (rule codec_okI, rule reads_push [OF reads_byte_first]) (simp add: of_tag_tag reads_stop)

end

interpretation enum_Visibility: byte_enum Visibility_tag Visibility_of_tag
  by unfold_locales (simp add: Visibility_tag_def Visibility_of_tag_def split: Visibility_ev.split)

interpretation enum_IndeterminateReason: byte_enum IndeterminateReason_tag IndeterminateReason_of_tag
  by unfold_locales (simp add: IndeterminateReason_tag_def IndeterminateReason_of_tag_def split: IndeterminateReason_ev.split)

interpretation enum_SecretScanningFailureReason: byte_enum SecretScanningFailureReason_tag SecretScanningFailureReason_of_tag
  by unfold_locales (simp add: SecretScanningFailureReason_tag_def SecretScanningFailureReason_of_tag_def split: SecretScanningFailureReason_ev.split)

interpretation enum_ProbeSource: byte_enum ProbeSource_tag ProbeSource_of_tag
  by unfold_locales (simp add: ProbeSource_tag_def ProbeSource_of_tag_def split: ProbeSource_ev.split)

interpretation enum_DependabotStatus: byte_enum DependabotStatus_tag DependabotStatus_of_tag
  by unfold_locales (simp add: DependabotStatus_tag_def DependabotStatus_of_tag_def split: DependabotStatus_ev.split)

interpretation enum_CodeownersNonConformingLocation: byte_enum CodeownersNonConformingLocation_tag CodeownersNonConformingLocation_of_tag
  by unfold_locales (simp add: CodeownersNonConformingLocation_tag_def CodeownersNonConformingLocation_of_tag_def split: CodeownersNonConformingLocation_ev.split)

interpretation enum_CodeownersTruncationReason: byte_enum CodeownersTruncationReason_tag CodeownersTruncationReason_of_tag
  by unfold_locales (simp add: CodeownersTruncationReason_tag_def CodeownersTruncationReason_of_tag_def split: CodeownersTruncationReason_ev.split)

interpretation enum_TokenTier: byte_enum TokenTier_tag TokenTier_of_tag
  by unfold_locales (simp add: TokenTier_tag_def TokenTier_of_tag_def split: TokenTier_ev.split)

interpretation enum_Capability: byte_enum Capability_tag Capability_of_tag
  by unfold_locales (simp add: Capability_tag_def Capability_of_tag_def split: Capability_ev.split)

interpretation enum_AuthMode: byte_enum AuthMode_tag AuthMode_of_tag
  by unfold_locales (simp add: AuthMode_tag_def AuthMode_of_tag_def split: AuthMode_ev.split)

interpretation enum_CollectionStatus: byte_enum CollectionStatus_tag CollectionStatus_of_tag
  by unfold_locales (simp add: CollectionStatus_tag_def CollectionStatus_of_tag_def split: CollectionStatus_ev.split)

interpretation enum_TeamMemberRoleEvent: byte_enum TeamMemberRoleEvent_tag TeamMemberRoleEvent_of_tag
  by unfold_locales (simp add: TeamMemberRoleEvent_tag_def TeamMemberRoleEvent_of_tag_def split: TeamMemberRoleEvent.split)

interpretation enum_TeamRosterStatusEvent: byte_enum TeamRosterStatusEvent_tag TeamRosterStatusEvent_of_tag
  by unfold_locales (simp add: TeamRosterStatusEvent_tag_def TeamRosterStatusEvent_of_tag_def split: TeamRosterStatusEvent.split)

interpretation enum_OrgMembershipFetchStatus: byte_enum OrgMembershipFetchStatus_tag OrgMembershipFetchStatus_of_tag
  by unfold_locales (simp add: OrgMembershipFetchStatus_tag_def OrgMembershipFetchStatus_of_tag_def split: OrgMembershipFetchStatus.split)

lemmas enum_lawful [codec_intros] =
  enum_Visibility.enum_lawful [folded Visibility_type_def]
  enum_IndeterminateReason.enum_lawful [folded IndeterminateReason_type_def]
  enum_SecretScanningFailureReason.enum_lawful [folded SecretScanningFailureReason_type_def]
  enum_ProbeSource.enum_lawful [folded ProbeSource_type_def]
  enum_DependabotStatus.enum_lawful [folded DependabotStatus_type_def]
  enum_CodeownersNonConformingLocation.enum_lawful [folded CodeownersNonConformingLocation_type_def]
  enum_CodeownersTruncationReason.enum_lawful [folded CodeownersTruncationReason_type_def]
  enum_TokenTier.enum_lawful [folded TokenTier_type_def]
  enum_Capability.enum_lawful [folded Capability_type_def]
  enum_AuthMode.enum_lawful [folded AuthMode_type_def]
  enum_CollectionStatus.enum_lawful [folded CollectionStatus_type_def]
  enum_TeamMemberRoleEvent.enum_lawful [folded TeamMemberRoleEvent_type_def]
  enum_TeamRosterStatusEvent.enum_lawful [folded TeamRosterStatusEvent_type_def]
  enum_OrgMembershipFetchStatus.enum_lawful [folded OrgMembershipFetchStatus_type_def]

subsection \<open>Structures and unions\<close>

lemma prims_lawful [codec_intros]:
  assumes "prims_ok P"
  shows "lawful (u32_type P)" "lawful (u64_type P)" "lawful (bool_type P)"
    "lawful (timestamp_type P)" "lawful (uuid_type P)" "lawful (event_string P n)"
    "lawful (non_empty_event_string P n)" "lawful (opt_u16 P)" "lawful (opt_bool P)"
    "lawful (opt_timestamp P)" "lawful (opt_event_string P n)"
    "lawful (opt_non_empty_event_string P n)" "lawful (vec_event_string P n m)"
    "lawful T1 \<Longrightarrow> lawful (opt_LastCommitInfo P T1)"
    "lawful T2 \<Longrightarrow> lawful (opt_RepositoryEvidence P T2)"
    "lawful T3 \<Longrightarrow> lawful (vec_CodeownersEntry P n T3)"
    "lawful T4 \<Longrightarrow> lawful (vec_Capability P n T4)"
    "lawful T5 \<Longrightarrow> lawful (vec_RepoAlertSummaryEntry P n T5)"
    "lawful T6 \<Longrightarrow> lawful (vec_StringU64Entry P n T6)"
    "lawful T7 \<Longrightarrow> lawful (vec_TeamMemberEvent P n T7)"
  using assms unfolding prims_ok_def by simp_all

lemma prims_tag: "prims_ok P \<Longrightarrow> reads_byte (decode_type (u8_type P))"
  unfolding prims_ok_def by simp

lemma reads_put_lawful: "lawful T \<Longrightarrow> reads w (k x) v \<Longrightarrow> reads (put T x w) (get T k) v"
  by (rule reads_put [where valid = "\<lambda>_. True"]) simp_all

lemmas struct_intros = reads_put_lawful reads_stop
lemmas tag_intros = reads_push [OF reads_byte_first] reads_push [OF prims_tag]

lemma MetadataUnavailable_lawful [codec_intros]: "prims_ok P \<Longrightarrow> lawful (MetadataUnavailable_type P)"
  unfolding MetadataUnavailable_type_def
  by (rule codec_okI, case_tac v; simp; intro tag_intros; simp; intro struct_intros codec_intros; simp)

lemma SecretScanningAlerts_lawful [codec_intros]: "prims_ok P \<Longrightarrow> lawful (SecretScanningAlerts_type P)"
  unfolding SecretScanningAlerts_type_def
  by (rule codec_okI, case_tac v; simp; intro tag_intros; simp; intro struct_intros codec_intros; simp)

lemma EnabledProvenance_lawful [codec_intros]: "prims_ok P \<Longrightarrow> lawful (EnabledProvenance_type P)"
  unfolding EnabledProvenance_type_def
  by (rule codec_okI, case_tac v; simp; intro tag_intros; simp; intro struct_intros codec_intros; simp)

lemma DisabledObservation_lawful [codec_intros]: "prims_ok P \<Longrightarrow> lawful (DisabledObservation_type P)"
  unfolding DisabledObservation_type_def
  by (rule codec_okI, case_tac v; simp; intro tag_intros; simp; intro struct_intros codec_intros; simp)

lemma UnobservableProbe_lawful [codec_intros]: "prims_ok P \<Longrightarrow> lawful (UnobservableProbe_type P)"
  unfolding UnobservableProbe_type_def
  by (rule codec_okI, case_tac v; simp; intro tag_intros; simp; intro struct_intros codec_intros; simp)

lemma SecretScanningResult_lawful [codec_intros]: "prims_ok P \<Longrightarrow> lawful (SecretScanningResult_type P)"
  unfolding SecretScanningResult_type_def
  by (rule codec_okI, case_tac v; simp; intro tag_intros; simp; intro struct_intros codec_intros; simp)

lemma SecurityPolicyResult_lawful [codec_intros]: "prims_ok P \<Longrightarrow> lawful (SecurityPolicyResult_type P)"
  unfolding SecurityPolicyResult_type_def
  by (rule codec_okI, case_tac v; simp; intro tag_intros; simp; intro struct_intros codec_intros; simp)

lemma DependabotResult_lawful [codec_intros]: "prims_ok P \<Longrightarrow> lawful (DependabotResult_type P)"
  unfolding DependabotResult_type_def by (rule codec_okI, intro struct_intros codec_intros) simp_all

lemma HistoryProtectionGap_lawful [codec_intros]: "prims_ok P \<Longrightarrow> lawful (HistoryProtectionGap_type P)"
  unfolding HistoryProtectionGap_type_def
  by (rule codec_okI, case_tac v; simp; intro tag_intros; simp; intro struct_intros codec_intros; simp)

lemma BranchProtectionResult_lawful [codec_intros]: "prims_ok P \<Longrightarrow> lawful (BranchProtectionResult_type P)"
  unfolding BranchProtectionResult_type_def
  by (rule codec_okI, case_tac v; simp; intro tag_intros; simp; intro struct_intros codec_intros; simp)

lemma CodeownersEntry_lawful [codec_intros]: "prims_ok P \<Longrightarrow> lawful (CodeownersEntry_type P)"
  unfolding CodeownersEntry_type_def by (rule codec_okI, intro struct_intros codec_intros) simp_all

lemma ParsedCodeowners_lawful [codec_intros]: "prims_ok P \<Longrightarrow> lawful (ParsedCodeowners_type P)"
  unfolding ParsedCodeowners_type_def by (rule codec_okI, intro struct_intros codec_intros) simp_all

lemma CodeownersContent_lawful [codec_intros]: "prims_ok P \<Longrightarrow> lawful (CodeownersContent_type P)"
  unfolding CodeownersContent_type_def
  by (rule codec_okI, case_tac v; simp; intro tag_intros; simp; intro struct_intros codec_intros; simp)

lemma CodeownersResult_lawful [codec_intros]: "prims_ok P \<Longrightarrow> lawful (CodeownersResult_type P)"
  unfolding CodeownersResult_type_def
  by (rule codec_okI, case_tac v; simp; intro tag_intros; simp; intro struct_intros codec_intros; simp)

lemma RepositoryChecks_lawful [codec_intros]: "prims_ok P \<Longrightarrow> lawful (RepositoryChecks_type P)"
  unfolding RepositoryChecks_type_def by (rule codec_okI, intro struct_intros codec_intros) simp_all

lemma Repository_lawful [codec_intros]: "prims_ok P \<Longrightarrow> lawful (Repository_type P)"
  unfolding Repository_type_def by (rule codec_okI, intro struct_intros codec_intros) simp_all

lemma LastCommitInfo_lawful [codec_intros]: "prims_ok P \<Longrightarrow> lawful (LastCommitInfo_type P)"
  unfolding LastCommitInfo_type_def by (rule codec_okI, intro struct_intros codec_intros) simp_all

lemma RepositoryEvidence_lawful [codec_intros]: "prims_ok P \<Longrightarrow> lawful (RepositoryEvidence_type P)"
  unfolding RepositoryEvidence_type_def by (rule codec_okI, intro struct_intros codec_intros) simp_all

lemma RepoAlertSummary_lawful [codec_intros]: "prims_ok P \<Longrightarrow> lawful (RepoAlertSummary_type P)"
  unfolding RepoAlertSummary_type_def by (rule codec_okI, intro struct_intros codec_intros) simp_all

lemma RepoAlertSummaryEntry_lawful [codec_intros]: "prims_ok P \<Longrightarrow> lawful (RepoAlertSummaryEntry_type P)"
  unfolding RepoAlertSummaryEntry_type_def by (rule codec_okI, intro struct_intros codec_intros) simp_all

lemma StringU64Entry_lawful [codec_intros]: "prims_ok P \<Longrightarrow> lawful (StringU64Entry_type P)"
  unfolding StringU64Entry_type_def by (rule codec_okI, intro struct_intros codec_intros) simp_all

lemma OrgAlertSummary_lawful [codec_intros]: "prims_ok P \<Longrightarrow> lawful (OrgAlertSummary_type P)"
  unfolding OrgAlertSummary_type_def by (rule codec_okI, intro struct_intros codec_intros) simp_all

lemma TeamMemberEvent_lawful [codec_intros]: "prims_ok P \<Longrightarrow> lawful (TeamMemberEvent_type P)"
  unfolding TeamMemberEvent_type_def by (rule codec_okI, intro struct_intros codec_intros) simp_all

lemma OrphanAttributionInputs_lawful [codec_intros]: "prims_ok P \<Longrightarrow> lawful (OrphanAttributionInputs_type P)"
  unfolding OrphanAttributionInputs_type_def by (rule codec_okI, intro struct_intros codec_intros) simp_all

lemma TeamStateCaptured_lawful [codec_intros]: "prims_ok P \<Longrightarrow> lawful (TeamStateCaptured_type P)"
  unfolding TeamStateCaptured_type_def by (rule codec_okI, intro struct_intros codec_intros) simp_all

lemma SweepTimeoutEvent_lawful [codec_intros]: "prims_ok P \<Longrightarrow> lawful (SweepTimeoutEvent_type P)"
  unfolding SweepTimeoutEvent_type_def
  by (rule codec_okI, case_tac v; simp; intro tag_intros; simp; intro struct_intros codec_intros; simp)

text \<open>
  A stored coverage has a non-zero limit (\<open>NonZeroU64\<close>); an event is valid when the coverage it
  carries is.
\<close>

fun CollectionCoverage_ev_ok :: "CollectionCoverage_ev \<Rightarrow> bool" where
  "CollectionCoverage_ev_ok CollectionCoverage_ev.Unknown = True"
| "CollectionCoverage_ev_ok (CollectionCoverage_ev.Known total_repos limit) = (limit \<noteq> 0)"

definition OrgStateCaptured_ok :: "OrgStateCaptured \<Rightarrow> bool" where
  "OrgStateCaptured_ok s \<longleftrightarrow> CollectionCoverage_ev_ok (ev_coverage (ev_assessment_metadata s))"

fun DomainEvent_ok :: "DomainEvent \<Rightarrow> bool" where
  "DomainEvent_ok (DomainEvent.OrgStateCaptured s) = OrgStateCaptured_ok s"
| "DomainEvent_ok _ = True"

lemma CollectionCoverage_codec:
  "prims_ok P \<Longrightarrow> codec_ok (CollectionCoverage_type P) CollectionCoverage_ev_ok"
  unfolding CollectionCoverage_type_def
  by (rule codec_okI, case_tac v; simp; intro tag_intros; simp; intro struct_intros codec_intros;
      simp add: reads_stop)

lemma AssessmentMetadata_codec:
  "prims_ok P \<Longrightarrow> codec_ok (AssessmentMetadata_type P) (\<lambda>s. CollectionCoverage_ev_ok (ev_coverage s))"
  unfolding AssessmentMetadata_type_def
  by (rule codec_okI, intro reads_put [OF CollectionCoverage_codec] struct_intros codec_intros) simp_all

lemma OrgStateCaptured_codec:
  "prims_ok P \<Longrightarrow> codec_ok (OrgStateCaptured_type P) OrgStateCaptured_ok"
  unfolding OrgStateCaptured_type_def
  by (rule codec_okI, intro reads_put [OF AssessmentMetadata_codec] struct_intros codec_intros)
    (simp_all add: OrgStateCaptured_ok_def)

lemma DomainEvent_codec: "prims_ok P \<Longrightarrow> codec_ok (DomainEvent_type P) DomainEvent_ok"
  unfolding DomainEvent_type_def
  by (rule codec_okI, case_tac v; simp; intro tag_intros; simp;
      intro reads_put [OF OrgStateCaptured_codec] struct_intros codec_intros; simp)

subsection \<open>Encoding succeeds\<close>

definition total_type :: "'a PardosaType \<Rightarrow> bool" where
  "total_type T \<longleftrightarrow> (\<forall>v buf. \<exists>b. encode_type T v buf = Inr b)"

definition total_encoder :: "encoder \<Rightarrow> bool" where
  "total_encoder w \<longleftrightarrow> (\<forall>buf. \<exists>b. w buf = Inr b)"

definition prims_total :: "PardosaPrims \<Rightarrow> bool" where
  "prims_total P \<longleftrightarrow>
     total_type (u32_type P) \<and> total_type (u64_type P) \<and> total_type (bool_type P) \<and>
     total_type (timestamp_type P) \<and> total_type (uuid_type P) \<and>
     (\<forall>n. total_type (event_string P n)) \<and> (\<forall>n. total_type (non_empty_event_string P n)) \<and>
     total_type (opt_u16 P) \<and> total_type (opt_bool P) \<and> total_type (opt_timestamp P) \<and>
     (\<forall>n. total_type (opt_event_string P n)) \<and>
     (\<forall>n. total_type (opt_non_empty_event_string P n)) \<and>
     (\<forall>T. total_type T \<longrightarrow> total_type (opt_LastCommitInfo P T)) \<and>
     (\<forall>T. total_type T \<longrightarrow> total_type (opt_RepositoryEvidence P T)) \<and>
     (\<forall>n m. total_type (vec_event_string P n m)) \<and>
     (\<forall>n T. total_type T \<longrightarrow> total_type (vec_CodeownersEntry P n T)) \<and>
     (\<forall>n T. total_type T \<longrightarrow> total_type (vec_Capability P n T)) \<and>
     (\<forall>n T. total_type T \<longrightarrow> total_type (vec_RepoAlertSummaryEntry P n T)) \<and>
     (\<forall>n T. total_type T \<longrightarrow> total_type (vec_StringU64Entry P n T)) \<and>
     (\<forall>n T. total_type T \<longrightarrow> total_type (vec_TeamMemberEvent P n T))"

named_theorems total_intros \<open>encoders that always succeed\<close>

lemma total_typeI: "(\<And>v. total_encoder (E v)) \<Longrightarrow> total_type \<lparr>encode_type = E, decode_type = D\<rparr>"
  by (simp add: total_type_def total_encoder_def)

lemma total_stop: "total_encoder stop"
  by (simp add: total_encoder_def stop_def)

lemma total_put: "total_type T \<Longrightarrow> total_encoder w \<Longrightarrow> total_encoder (put T x w)"
  unfolding total_type_def total_encoder_def put_def by (metis sum.simps(6))

lemma total_push: "total_encoder w \<Longrightarrow> total_encoder (push tag w)"
  by (simp add: total_encoder_def push_def)

lemmas total_rules = total_stop total_put total_push

lemma enum_total: "total_type (impl_pardosa_enum tag of_tag)"
  unfolding impl_pardosa_enum_def by (rule total_typeI, intro total_rules)

lemma prims_total_rules [total_intros]:
  assumes "prims_total P"
  shows "total_type (u32_type P)" "total_type (u64_type P)" "total_type (bool_type P)"
    "total_type (timestamp_type P)" "total_type (uuid_type P)" "total_type (event_string P n)"
    "total_type (non_empty_event_string P n)" "total_type (opt_u16 P)" "total_type (opt_bool P)"
    "total_type (opt_timestamp P)" "total_type (opt_event_string P n)"
    "total_type (opt_non_empty_event_string P n)" "total_type (vec_event_string P n m)"
    "total_type T1 \<Longrightarrow> total_type (opt_LastCommitInfo P T1)"
    "total_type T2 \<Longrightarrow> total_type (opt_RepositoryEvidence P T2)"
    "total_type T3 \<Longrightarrow> total_type (vec_CodeownersEntry P n T3)"
    "total_type T4 \<Longrightarrow> total_type (vec_Capability P n T4)"
    "total_type T5 \<Longrightarrow> total_type (vec_RepoAlertSummaryEntry P n T5)"
    "total_type T6 \<Longrightarrow> total_type (vec_StringU64Entry P n T6)"
    "total_type T7 \<Longrightarrow> total_type (vec_TeamMemberEvent P n T7)"
  using assms unfolding prims_total_def by simp_all

lemma enum_types_total [total_intros]:
  "total_type Visibility_type"
  "total_type IndeterminateReason_type"
  "total_type SecretScanningFailureReason_type"
  "total_type ProbeSource_type"
  "total_type DependabotStatus_type"
  "total_type CodeownersNonConformingLocation_type"
  "total_type CodeownersTruncationReason_type"
  "total_type TokenTier_type"
  "total_type Capability_type"
  "total_type AuthMode_type"
  "total_type CollectionStatus_type"
  "total_type TeamMemberRoleEvent_type"
  "total_type TeamRosterStatusEvent_type"
  "total_type OrgMembershipFetchStatus_type"
  unfolding Visibility_type_def
    IndeterminateReason_type_def
    SecretScanningFailureReason_type_def
    ProbeSource_type_def
    DependabotStatus_type_def
    CodeownersNonConformingLocation_type_def
    CodeownersTruncationReason_type_def
    TokenTier_type_def
    Capability_type_def
    AuthMode_type_def
    CollectionStatus_type_def
    TeamMemberRoleEvent_type_def
    TeamRosterStatusEvent_type_def
    OrgMembershipFetchStatus_type_def
  by (rule enum_total)+

lemma MetadataUnavailable_total [total_intros]: "prims_total P \<Longrightarrow> total_type (MetadataUnavailable_type P)"
  unfolding MetadataUnavailable_type_def
  by (rule total_typeI, case_tac v; simp; intro total_rules total_intros; simp)

lemma SecretScanningAlerts_total [total_intros]: "prims_total P \<Longrightarrow> total_type (SecretScanningAlerts_type P)"
  unfolding SecretScanningAlerts_type_def
  by (rule total_typeI, case_tac v; simp; intro total_rules total_intros; simp)

lemma EnabledProvenance_total [total_intros]: "prims_total P \<Longrightarrow> total_type (EnabledProvenance_type P)"
  unfolding EnabledProvenance_type_def
  by (rule total_typeI, case_tac v; simp; intro total_rules total_intros; simp)

lemma DisabledObservation_total [total_intros]: "prims_total P \<Longrightarrow> total_type (DisabledObservation_type P)"
  unfolding DisabledObservation_type_def
  by (rule total_typeI, case_tac v; simp; intro total_rules total_intros; simp)

lemma UnobservableProbe_total [total_intros]: "prims_total P \<Longrightarrow> total_type (UnobservableProbe_type P)"
  unfolding UnobservableProbe_type_def
  by (rule total_typeI, case_tac v; simp; intro total_rules total_intros; simp)

lemma SecretScanningResult_total [total_intros]: "prims_total P \<Longrightarrow> total_type (SecretScanningResult_type P)"
  unfolding SecretScanningResult_type_def
  by (rule total_typeI, case_tac v; simp; intro total_rules total_intros; simp)

lemma SecurityPolicyResult_total [total_intros]: "prims_total P \<Longrightarrow> total_type (SecurityPolicyResult_type P)"
  unfolding SecurityPolicyResult_type_def
  by (rule total_typeI, case_tac v; simp; intro total_rules total_intros; simp)

lemma DependabotResult_total [total_intros]: "prims_total P \<Longrightarrow> total_type (DependabotResult_type P)"
  unfolding DependabotResult_type_def
  by (rule total_typeI, intro total_rules total_intros)

lemma HistoryProtectionGap_total [total_intros]: "prims_total P \<Longrightarrow> total_type (HistoryProtectionGap_type P)"
  unfolding HistoryProtectionGap_type_def
  by (rule total_typeI, case_tac v; simp; intro total_rules total_intros; simp)

lemma BranchProtectionResult_total [total_intros]: "prims_total P \<Longrightarrow> total_type (BranchProtectionResult_type P)"
  unfolding BranchProtectionResult_type_def
  by (rule total_typeI, case_tac v; simp; intro total_rules total_intros; simp)

lemma CodeownersEntry_total [total_intros]: "prims_total P \<Longrightarrow> total_type (CodeownersEntry_type P)"
  unfolding CodeownersEntry_type_def
  by (rule total_typeI, intro total_rules total_intros)

lemma ParsedCodeowners_total [total_intros]: "prims_total P \<Longrightarrow> total_type (ParsedCodeowners_type P)"
  unfolding ParsedCodeowners_type_def
  by (rule total_typeI, intro total_rules total_intros)

lemma CodeownersContent_total [total_intros]: "prims_total P \<Longrightarrow> total_type (CodeownersContent_type P)"
  unfolding CodeownersContent_type_def
  by (rule total_typeI, case_tac v; simp; intro total_rules total_intros; simp)

lemma CodeownersResult_total [total_intros]: "prims_total P \<Longrightarrow> total_type (CodeownersResult_type P)"
  unfolding CodeownersResult_type_def
  by (rule total_typeI, case_tac v; simp; intro total_rules total_intros; simp)

lemma RepositoryChecks_total [total_intros]: "prims_total P \<Longrightarrow> total_type (RepositoryChecks_type P)"
  unfolding RepositoryChecks_type_def
  by (rule total_typeI, intro total_rules total_intros)

lemma Repository_total [total_intros]: "prims_total P \<Longrightarrow> total_type (Repository_type P)"
  unfolding Repository_type_def
  by (rule total_typeI, intro total_rules total_intros)

lemma LastCommitInfo_total [total_intros]: "prims_total P \<Longrightarrow> total_type (LastCommitInfo_type P)"
  unfolding LastCommitInfo_type_def
  by (rule total_typeI, intro total_rules total_intros)

lemma RepositoryEvidence_total [total_intros]: "prims_total P \<Longrightarrow> total_type (RepositoryEvidence_type P)"
  unfolding RepositoryEvidence_type_def
  by (rule total_typeI, intro total_rules total_intros)

lemma CollectionCoverage_total [total_intros]: "prims_total P \<Longrightarrow> total_type (CollectionCoverage_type P)"
  unfolding CollectionCoverage_type_def
  by (rule total_typeI, case_tac v; simp; intro total_rules total_intros; simp)

lemma AssessmentMetadata_total [total_intros]: "prims_total P \<Longrightarrow> total_type (AssessmentMetadata_type P)"
  unfolding AssessmentMetadata_type_def
  by (rule total_typeI, intro total_rules total_intros)

lemma RepoAlertSummary_total [total_intros]: "prims_total P \<Longrightarrow> total_type (RepoAlertSummary_type P)"
  unfolding RepoAlertSummary_type_def
  by (rule total_typeI, intro total_rules total_intros)

lemma RepoAlertSummaryEntry_total [total_intros]: "prims_total P \<Longrightarrow> total_type (RepoAlertSummaryEntry_type P)"
  unfolding RepoAlertSummaryEntry_type_def
  by (rule total_typeI, intro total_rules total_intros)

lemma StringU64Entry_total [total_intros]: "prims_total P \<Longrightarrow> total_type (StringU64Entry_type P)"
  unfolding StringU64Entry_type_def
  by (rule total_typeI, intro total_rules total_intros)

lemma OrgAlertSummary_total [total_intros]: "prims_total P \<Longrightarrow> total_type (OrgAlertSummary_type P)"
  unfolding OrgAlertSummary_type_def
  by (rule total_typeI, intro total_rules total_intros)

lemma OrgStateCaptured_total [total_intros]: "prims_total P \<Longrightarrow> total_type (OrgStateCaptured_type P)"
  unfolding OrgStateCaptured_type_def
  by (rule total_typeI, intro total_rules total_intros)

lemma TeamMemberEvent_total [total_intros]: "prims_total P \<Longrightarrow> total_type (TeamMemberEvent_type P)"
  unfolding TeamMemberEvent_type_def
  by (rule total_typeI, intro total_rules total_intros)

lemma OrphanAttributionInputs_total [total_intros]: "prims_total P \<Longrightarrow> total_type (OrphanAttributionInputs_type P)"
  unfolding OrphanAttributionInputs_type_def
  by (rule total_typeI, intro total_rules total_intros)

lemma TeamStateCaptured_total [total_intros]: "prims_total P \<Longrightarrow> total_type (TeamStateCaptured_type P)"
  unfolding TeamStateCaptured_type_def
  by (rule total_typeI, intro total_rules total_intros)

lemma DomainEvent_total [total_intros]: "prims_total P \<Longrightarrow> total_type (DomainEvent_type P)"
  unfolding DomainEvent_type_def
  by (rule total_typeI, case_tac v; simp; intro total_rules total_intros; simp)

lemma SweepTimeoutEvent_total [total_intros]: "prims_total P \<Longrightarrow> total_type (SweepTimeoutEvent_type P)"
  unfolding SweepTimeoutEvent_type_def
  by (rule total_typeI, case_tac v; simp; intro total_rules total_intros; simp)

subsection \<open>A model of the primitive types\<close>

text \<open>One way to satisfy the contract: numbers in unary, options with a tag, lists with their length.\<close>

fun unary_decode :: "u8 list \<Rightarrow> DecodeError + (nat \<times> nat)" where
  "unary_decode [] = Inl (TruncatedPayload 1 0)"
| "unary_decode (b # bs) = (if b = 0 then Inr (0, 1)
     else (case unary_decode bs of Inl e \<Rightarrow> Inl e | Inr (n, k) \<Rightarrow> Inr (Suc n, Suc k)))"

definition sample_nat :: "nat PardosaType" where
  "sample_nat = \<lparr>encode_type = (\<lambda>n buf. Inr (buf @ replicate n 1 @ [0])), decode_type = unary_decode\<rparr>"

definition sample_map :: "('a \<Rightarrow> 'b) \<Rightarrow> ('b \<Rightarrow> 'a) \<Rightarrow> 'b PardosaType \<Rightarrow> 'a PardosaType" where
  "sample_map f g T = \<lparr>encode_type = (\<lambda>v. encode_type T (f v)),
     decode_type = (\<lambda>buf. case decode_type T buf of Inl e \<Rightarrow> Inl e | Inr (v, n) \<Rightarrow> Inr (g v, n))\<rparr>"

definition sample_option :: "'a PardosaType \<Rightarrow> 'a option PardosaType" where
  "sample_option T =
     \<lparr>encode_type = (\<lambda>v. case v of None \<Rightarrow> push 0 stop | Some x \<Rightarrow> push 1 (put T x stop)),
      decode_type = from_start (read first_byte (\<lambda>tag.
        if tag = 0 then ret None else get T (\<lambda>x. ret (Some x))))\<rparr>"

primrec put_all :: "'a PardosaType \<Rightarrow> 'a list \<Rightarrow> encoder \<Rightarrow> encoder" where
  "put_all T [] w = w"
| "put_all T (x # xs) w = put T x (put_all T xs w)"

primrec get_all :: "'a PardosaType \<Rightarrow> nat \<Rightarrow> ('a list \<Rightarrow> 'b decoder) \<Rightarrow> 'b decoder" where
  "get_all T 0 k = k []"
| "get_all T (Suc n) k = get T (\<lambda>x. get_all T n (\<lambda>xs. k (x # xs)))"

definition sample_list :: "'a PardosaType \<Rightarrow> 'a list PardosaType" where
  "sample_list T =
     \<lparr>encode_type = (\<lambda>xs. put sample_nat (length xs) (put_all T xs stop)),
      decode_type = from_start (get sample_nat (\<lambda>n. get_all T n ret))\<rparr>"

definition sample_word :: "'a::len word PardosaType" where
  "sample_word = sample_map unat of_nat sample_nat"

definition sample_bool :: "bool PardosaType" where
  "sample_bool = sample_map of_bool (\<lambda>n. n = 1) sample_nat"

definition sample_string :: "string PardosaType" where
  "sample_string = sample_list (sample_map of_char char_of sample_nat)"

definition sample_prims :: PardosaPrims where
  "sample_prims =
     \<lparr>u8_type = \<lparr>encode_type = (\<lambda>b. push b stop), decode_type = first_byte\<rparr>,
      u32_type = sample_word, u64_type = sample_word, bool_type = sample_bool,
      timestamp_type = sample_word, uuid_type = sample_word, event_string = (\<lambda>n. sample_string),
      non_empty_event_string = (\<lambda>n. sample_string), opt_u16 = sample_option sample_word,
      opt_bool = sample_option sample_bool, opt_timestamp = sample_option sample_word,
      opt_event_string = (\<lambda>n. sample_option sample_string),
      opt_non_empty_event_string = (\<lambda>n. sample_option sample_string),
      opt_LastCommitInfo = sample_option, opt_RepositoryEvidence = sample_option,
      vec_event_string = (\<lambda>n m. sample_list sample_string),
      vec_CodeownersEntry = (\<lambda>n. sample_list), vec_Capability = (\<lambda>n. sample_list),
      vec_RepoAlertSummaryEntry = (\<lambda>n. sample_list), vec_StringU64Entry = (\<lambda>n. sample_list),
      vec_TeamMemberEvent = (\<lambda>n. sample_list)\<rparr>"

lemma unary_decode_replicate: "unary_decode (replicate n 1 @ 0 # rest) = Inr (n, Suc n)"
  by (induction n) simp_all

lemma sample_nat_lawful: "lawful sample_nat"
  by (simp add: codec_ok_def sample_nat_def unary_decode_replicate)

lemma sample_map_lawful: "lawful T \<Longrightarrow> (\<And>v. g (f v) = v) \<Longrightarrow> lawful (sample_map f g T)"
  by (fastforce simp: codec_ok_def sample_map_def)

lemma sample_option_lawful: "lawful T \<Longrightarrow> lawful (sample_option T)"
  unfolding sample_option_def
  by (rule codec_okI, case_tac v; simp; intro tag_intros; simp; intro struct_intros; simp)

lemma reads_all: "lawful T \<Longrightarrow> reads w (k xs) v \<Longrightarrow> reads (put_all T xs w) (get_all T (length xs) k) v"
proof (induction xs arbitrary: k)
  case (Cons x xs)
  then show ?case by (simp add: reads_put_lawful)
qed simp

lemma sample_list_lawful: "lawful T \<Longrightarrow> lawful (sample_list T)"
  unfolding sample_list_def
  by (rule codec_okI, rule reads_put_lawful [OF sample_nat_lawful], rule reads_all) (simp_all add: reads_stop)

lemma sample_word_lawful: "lawful sample_word"
  unfolding sample_word_def by (rule sample_map_lawful [OF sample_nat_lawful]) simp

lemma sample_bool_lawful: "lawful sample_bool"
  unfolding sample_bool_def by (rule sample_map_lawful [OF sample_nat_lawful]) simp

lemma sample_string_lawful: "lawful sample_string"
  unfolding sample_string_def
  by (rule sample_list_lawful, rule sample_map_lawful [OF sample_nat_lawful]) simp

lemmas sample_lawful = sample_word_lawful sample_bool_lawful sample_string_lawful
  sample_option_lawful sample_list_lawful

lemma sample_prims_ok: "prims_ok sample_prims"
  by (simp add: prims_ok_def sample_prims_def reads_byte_first sample_lawful)

lemma sample_map_total: "total_type T \<Longrightarrow> total_type (sample_map f g T)"
  by (simp add: total_type_def sample_map_def)

lemma sample_nat_total: "total_type sample_nat"
  by (simp add: total_type_def sample_nat_def)

lemma sample_option_total: "total_type T \<Longrightarrow> total_type (sample_option T)"
  unfolding sample_option_def
  by (rule total_typeI, case_tac v; simp; intro total_rules; simp)

lemma sample_list_total: "total_type T \<Longrightarrow> total_type (sample_list T)"
proof -
  assume T: "total_type T"
  then have "total_encoder (put_all T xs stop)" for xs
    by (induction xs) (simp_all add: total_rules)
  then show ?thesis
    unfolding sample_list_def by (intro total_typeI total_put sample_nat_total)
qed

lemma sample_prims_total: "prims_total sample_prims"
  by (simp add: prims_total_def sample_prims_def sample_word_def sample_bool_def sample_string_def
      sample_map_total sample_nat_total sample_option_total sample_list_total)

subsection \<open>Stored events\<close>

text \<open>
  C34. A stored event is read back as it was written: whenever encoding a valid event succeeds, it
  only appends to the buffer, and decoding the appended bytes, whatever follows them, gives the
  same event.
\<close>

theorem stored_event_round_trip:
  assumes "prims_ok P" and "DomainEvent_ok e"
    and "encode_payload (DomainEvent_type P) e buf = Inr b"
  shows "\<exists>bs. b = buf @ bs \<and> (\<forall>rest. decode_payload (DomainEvent_type P) (bs @ rest) = Inr e)"
proof -
  from DomainEvent_codec [OF assms(1)] assms(2,3) obtain bs where
    "b = buf @ bs" "\<And>rest. decode_type (DomainEvent_type P) (bs @ rest) = Inr (e, length bs)"
    unfolding codec_ok_def encode_payload_def by blast
  then show ?thesis by (auto simp: decode_payload_def)
qed

theorem stored_event_round_trip_witness:
  "\<exists>b bs. encode_payload (DomainEvent_type sample_prims)
       (DomainEvent.RepositoryDeleted ''k'' ''r'' 7) [9] = Inr b \<and> b = [9] @ bs \<and>
     (\<forall>rest. decode_payload (DomainEvent_type sample_prims) (bs @ rest) =
        Inr (DomainEvent.RepositoryDeleted ''k'' ''r'' 7))"
proof -
  obtain b where b: "encode_payload (DomainEvent_type sample_prims)
      (DomainEvent.RepositoryDeleted ''k'' ''r'' 7) [9] = Inr b"
    using DomainEvent_total [OF sample_prims_total] by (auto simp: total_type_def encode_payload_def)
  from stored_event_round_trip [OF sample_prims_ok _ b] b show ?thesis by simp
qed

text \<open>
  When the primitive encoders accept their values, so does the encoder of every stored event; a
  payload whose first byte is none of the four discriminants, and an empty payload, are rejected with
  the error that names the cause.
\<close>

theorem event_encoding_total:
  assumes "prims_total P"
  shows "(\<exists>b. encode_payload (DomainEvent_type P) e buf = Inr b) \<and>
     decode_payload (DomainEvent_type P) [] = Inl (TruncatedPayload 1 0) \<and>
     (tag \<notin> {0, 1, 2, 3} \<longrightarrow>
        decode_payload (DomainEvent_type P) (tag # rest) = Inl (UnknownVariantDiscriminant (ucast tag)))"
proof -
  have "\<exists>b. encode_payload (DomainEvent_type P) e buf = Inr b"
    using DomainEvent_total [OF assms] by (simp add: total_type_def encode_payload_def)
  then show ?thesis
    by (simp add: decode_payload_def DomainEvent_type_def from_start_def read_def first_byte_def
        unknown_tag_def)
qed

theorem event_encoding_total_witness:
  "(\<exists>b. encode_payload (DomainEvent_type sample_prims)
       (DomainEvent.RepositoryDeleted ''k'' ''r'' 7) [] = Inr b) \<and>
   decode_payload (DomainEvent_type sample_prims) [4, 1] = Inl (UnknownVariantDiscriminant 4)"
  using event_encoding_total [OF sample_prims_total, of
      "DomainEvent.RepositoryDeleted ''k'' ''r'' 7" "[]" 4 "[1]"] by simp

end
