(* ===== verification/Event_Convert.thy ===== *)
theory Event_Convert
  imports Event_Types Metrics_Model
begin

text \<open>
  Conversions between domain values and stored events (\<open>event/convert.rs\<close>) and the key of a team
  (\<open>team_domain_key\<close> of \<open>event/mod.rs\<close>). \<open>X_try_from\<close> models \<open>TryFrom<domain X> for event X\<close> and
  \<open>X_from\<close> the way back; the macros \<open>bijective_enum!\<close>, \<open>secret_conversion!\<close> and \<open>conversion_pair!\<close> are
  expanded. The only conversion from an event that can panic is the one of a security-policy path
  (\<open>expect\<close>), so that one and those that contain it return an option.

  The parameter \<open>rt\<close> holds what other packages provide: which texts, lengths and times the bounded
  pardosa types accept, parsing and printing of instants (jiff), and the order in which a hash map
  yields its entries.
\<close>

subsection \<open>Results\<close>

text \<open>The operator \<open>?\<close>, and \<open>collect\<close> into a result.\<close>

definition and_then :: "'e + 'a \<Rightarrow> ('a \<Rightarrow> 'e + 'b) \<Rightarrow> 'e + 'b" where
  "and_then x f = (case x of Inl e \<Rightarrow> Inl e | Inr a \<Rightarrow> f a)"

fun collect_results :: "('e + 'a) list \<Rightarrow> 'e + 'a list" where
  "collect_results [] = Inr []"
| "collect_results (x # xs) = and_then x (\<lambda>a. and_then (collect_results xs) (\<lambda>as. Inr (a # as)))"

fun transpose_result :: "('e + 'a) option \<Rightarrow> 'e + 'a option" where
  "transpose_result None = Inr None"
| "transpose_result (Some x) = and_then x (\<lambda>a. Inr (Some a))"

subsection \<open>Bounded values\<close>

record EventRuntime =
  es_accepts :: "nat \<Rightarrow> string \<Rightarrow> bool"
  nes_accepts :: "nat \<Rightarrow> string \<Rightarrow> bool"
  vec_accepts :: "nat \<Rightarrow> nat \<Rightarrow> bool"
  ts_accepts :: "u64 \<Rightarrow> bool"
  jiff_parse :: "string \<Rightarrow> int option"
  jiff_display :: "int \<Rightarrow> string option"
  per_repo_order :: "(string \<rightharpoonup> RepoAlertSummary) \<Rightarrow> (string \<times> RepoAlertSummary) list"

datatype EventConversionError =
  TooLong string
| Empty string
| BadTimestamp string string
| TooMany string

type_synonym 'a Conv = "EventConversionError + 'a"

definition to_es :: "EventRuntime \<Rightarrow> nat \<Rightarrow> string \<Rightarrow> string \<Rightarrow> string Conv" where
  "to_es rt max_len field value = (if es_accepts rt max_len value then Inr value else Inl (TooLong field))"

definition to_es_opt ::
  "EventRuntime \<Rightarrow> nat \<Rightarrow> string \<Rightarrow> string option \<Rightarrow> string option Conv" where
  "to_es_opt rt max_len field value = transpose_result (map_option (to_es rt max_len field) value)"

definition to_event_vec ::
  "EventRuntime \<Rightarrow> nat \<Rightarrow> string \<Rightarrow> 'a list \<Rightarrow> ('a \<Rightarrow> 'b Conv) \<Rightarrow> 'b list Conv" where
  "to_event_vec rt max_len field values convert =
     and_then (collect_results (map convert values)) (\<lambda>converted.
       if vec_accepts rt max_len (length converted) then Inr converted else Inl (TooMany field))"

definition to_nes :: "EventRuntime \<Rightarrow> nat \<Rightarrow> string \<Rightarrow> string \<Rightarrow> string Conv" where
  "to_nes rt max_len field value =
     (if nes_accepts rt max_len value then Inr value
      else if value = [] then Inl (Empty field) else Inl (TooLong field))"

definition ts_required :: "EventRuntime \<Rightarrow> string \<Rightarrow> string \<Rightarrow> EventTimestamp Conv" where
  "ts_required rt field value = (case parse_iso8601 (jiff_parse rt) value of
     None \<Rightarrow> Inl (BadTimestamp field value)
   | Some nanos \<Rightarrow>
       (if nanos < 0 \<or> nanos \<ge> 2 ^ 64 then Inl (BadTimestamp field value)
        else if ts_accepts rt (of_int nanos) then Inr (of_int nanos)
        else Inl (BadTimestamp field value)))"

definition ts_opt :: "EventRuntime \<Rightarrow> string \<Rightarrow> string option \<Rightarrow> EventTimestamp option Conv" where
  "ts_opt rt field value = (case value of
     None \<Rightarrow> Inr None
   | Some v \<Rightarrow> and_then (ts_required rt field v) (\<lambda>t. Inr (Some t)))"

definition ts_to_string :: "EventRuntime \<Rightarrow> EventTimestamp \<Rightarrow> string" where
  "ts_to_string rt ts = (case jiff_display rt (uint ts) of None \<Rightarrow> [] | Some t \<Rightarrow> t)"

definition ts_to_string_opt :: "EventRuntime \<Rightarrow> EventTimestamp option \<Rightarrow> string option" where
  "ts_to_string_opt rt ts = map_option (ts_to_string rt) ts"

subsection \<open>Enumerations and secret-scanning facts\<close>

definition Visibility_into :: "Visibility \<Rightarrow> Visibility_ev" where
  "Visibility_into v = (case v of
     Visibility.Public \<Rightarrow> Visibility_ev.Public
   | Visibility.Internal \<Rightarrow> Visibility_ev.Internal
   | Visibility.Private \<Rightarrow> Visibility_ev.Private)"

definition Visibility_from :: "Visibility_ev \<Rightarrow> Visibility" where
  "Visibility_from v = (case v of
     Visibility_ev.Public \<Rightarrow> Visibility.Public
   | Visibility_ev.Internal \<Rightarrow> Visibility.Internal
   | Visibility_ev.Private \<Rightarrow> Visibility.Private)"

definition DependabotStatus_into :: "DependabotStatus \<Rightarrow> DependabotStatus_ev" where
  "DependabotStatus_into v = (case v of
     DependabotStatus.Enabled \<Rightarrow> DependabotStatus_ev.Enabled
   | DependabotStatus.Paused \<Rightarrow> DependabotStatus_ev.Paused
   | DependabotStatus.Disabled \<Rightarrow> DependabotStatus_ev.Disabled
   | DependabotStatus.Unknown \<Rightarrow> DependabotStatus_ev.Unknown)"

definition DependabotStatus_from :: "DependabotStatus_ev \<Rightarrow> DependabotStatus" where
  "DependabotStatus_from v = (case v of
     DependabotStatus_ev.Enabled \<Rightarrow> DependabotStatus.Enabled
   | DependabotStatus_ev.Paused \<Rightarrow> DependabotStatus.Paused
   | DependabotStatus_ev.Disabled \<Rightarrow> DependabotStatus.Disabled
   | DependabotStatus_ev.Unknown \<Rightarrow> DependabotStatus.Unknown)"

definition CodeownersTruncationReason_into :: "CodeownersTruncationReason \<Rightarrow> CodeownersTruncationReason_ev" where
  "CodeownersTruncationReason_into v = (case v of
     CodeownersTruncationReason.NotBase64Encoded \<Rightarrow> CodeownersTruncationReason_ev.NotBase64Encoded
   | CodeownersTruncationReason.OversizedBase64 \<Rightarrow> CodeownersTruncationReason_ev.OversizedBase64
   | CodeownersTruncationReason.ContentMissing \<Rightarrow> CodeownersTruncationReason_ev.ContentMissing
   | CodeownersTruncationReason.DecodeFailed \<Rightarrow> CodeownersTruncationReason_ev.DecodeFailed
   | CodeownersTruncationReason.InvalidUtf8 \<Rightarrow> CodeownersTruncationReason_ev.InvalidUtf8)"

definition CodeownersTruncationReason_from :: "CodeownersTruncationReason_ev \<Rightarrow> CodeownersTruncationReason" where
  "CodeownersTruncationReason_from v = (case v of
     CodeownersTruncationReason_ev.NotBase64Encoded \<Rightarrow> CodeownersTruncationReason.NotBase64Encoded
   | CodeownersTruncationReason_ev.OversizedBase64 \<Rightarrow> CodeownersTruncationReason.OversizedBase64
   | CodeownersTruncationReason_ev.ContentMissing \<Rightarrow> CodeownersTruncationReason.ContentMissing
   | CodeownersTruncationReason_ev.DecodeFailed \<Rightarrow> CodeownersTruncationReason.DecodeFailed
   | CodeownersTruncationReason_ev.InvalidUtf8 \<Rightarrow> CodeownersTruncationReason.InvalidUtf8)"

definition TokenTier_into :: "TokenTier \<Rightarrow> TokenTier_ev" where
  "TokenTier_into v = (case v of
     TokenTier.Full \<Rightarrow> TokenTier_ev.Full
   | TokenTier.Limited \<Rightarrow> TokenTier_ev.Limited
   | TokenTier.Unknown \<Rightarrow> TokenTier_ev.Unknown)"

definition TokenTier_from :: "TokenTier_ev \<Rightarrow> TokenTier" where
  "TokenTier_from v = (case v of
     TokenTier_ev.Full \<Rightarrow> TokenTier.Full
   | TokenTier_ev.Limited \<Rightarrow> TokenTier.Limited
   | TokenTier_ev.Unknown \<Rightarrow> TokenTier.Unknown)"

definition Capability_into :: "Capability \<Rightarrow> Capability_ev" where
  "Capability_into v = (case v of
     Capability.OrgSecretScanningAlerts \<Rightarrow> Capability_ev.OrgSecretScanningAlerts
   | Capability.PrivateBranchProtectionRead \<Rightarrow> Capability_ev.PrivateBranchProtectionRead)"

definition Capability_from :: "Capability_ev \<Rightarrow> Capability" where
  "Capability_from v = (case v of
     Capability_ev.OrgSecretScanningAlerts \<Rightarrow> Capability.OrgSecretScanningAlerts
   | Capability_ev.PrivateBranchProtectionRead \<Rightarrow> Capability.PrivateBranchProtectionRead)"

definition AuthMode_into :: "AuthMode \<Rightarrow> AuthMode_ev" where
  "AuthMode_into v = (case v of
     AuthMode.Pat \<Rightarrow> AuthMode_ev.Pat
   | AuthMode.GitHubApp \<Rightarrow> AuthMode_ev.GitHubApp
   | AuthMode.GhCliFallback \<Rightarrow> AuthMode_ev.GhCliFallback
   | AuthMode.Unknown \<Rightarrow> AuthMode_ev.Unknown)"

definition AuthMode_from :: "AuthMode_ev \<Rightarrow> AuthMode" where
  "AuthMode_from v = (case v of
     AuthMode_ev.Pat \<Rightarrow> AuthMode.Pat
   | AuthMode_ev.GitHubApp \<Rightarrow> AuthMode.GitHubApp
   | AuthMode_ev.GhCliFallback \<Rightarrow> AuthMode.GhCliFallback
   | AuthMode_ev.Unknown \<Rightarrow> AuthMode.Unknown)"

definition CollectionStatus_into :: "CollectionStatus \<Rightarrow> CollectionStatus_ev" where
  "CollectionStatus_into v = (case v of
     CollectionStatus.Success \<Rightarrow> CollectionStatus_ev.Success
   | CollectionStatus.NotCollected \<Rightarrow> CollectionStatus_ev.NotCollected
   | CollectionStatus.PermissionDenied \<Rightarrow> CollectionStatus_ev.PermissionDenied
   | CollectionStatus.TransientError \<Rightarrow> CollectionStatus_ev.TransientError
   | CollectionStatus.Unavailable \<Rightarrow> CollectionStatus_ev.Unavailable)"

definition CollectionStatus_from :: "CollectionStatus_ev \<Rightarrow> CollectionStatus" where
  "CollectionStatus_from v = (case v of
     CollectionStatus_ev.Success \<Rightarrow> CollectionStatus.Success
   | CollectionStatus_ev.NotCollected \<Rightarrow> CollectionStatus.NotCollected
   | CollectionStatus_ev.PermissionDenied \<Rightarrow> CollectionStatus.PermissionDenied
   | CollectionStatus_ev.TransientError \<Rightarrow> CollectionStatus.TransientError
   | CollectionStatus_ev.Unavailable \<Rightarrow> CollectionStatus.Unavailable)"

definition IndeterminateReason_into :: "IndeterminateReason \<Rightarrow> IndeterminateReason_ev" where
  "IndeterminateReason_into v = (case v of
     IndeterminateReason.PermissionDenied \<Rightarrow> IndeterminateReason_ev.PermissionDenied
   | IndeterminateReason.PermissionSuspected \<Rightarrow> IndeterminateReason_ev.PermissionSuspected
   | IndeterminateReason.Transient \<Rightarrow> IndeterminateReason_ev.Transient
   | IndeterminateReason.RateLimited \<Rightarrow> IndeterminateReason_ev.RateLimited
   | IndeterminateReason.Invalid \<Rightarrow> IndeterminateReason_ev.Invalid
   | IndeterminateReason.Pending \<Rightarrow> IndeterminateReason_ev.Pending)"

definition IndeterminateReason_from :: "IndeterminateReason_ev \<Rightarrow> IndeterminateReason" where
  "IndeterminateReason_from v = (case v of
     IndeterminateReason_ev.PermissionDenied \<Rightarrow> IndeterminateReason.PermissionDenied
   | IndeterminateReason_ev.PermissionSuspected \<Rightarrow> IndeterminateReason.PermissionSuspected
   | IndeterminateReason_ev.Transient \<Rightarrow> IndeterminateReason.Transient
   | IndeterminateReason_ev.RateLimited \<Rightarrow> IndeterminateReason.RateLimited
   | IndeterminateReason_ev.Invalid \<Rightarrow> IndeterminateReason.Invalid
   | IndeterminateReason_ev.Pending \<Rightarrow> IndeterminateReason.Pending)"

definition SecretScanningFailureReason_into :: "SecretScanningFailureReason \<Rightarrow> SecretScanningFailureReason_ev" where
  "SecretScanningFailureReason_into v = (case v of
     SecretScanningFailureReason.PermissionDenied \<Rightarrow> SecretScanningFailureReason_ev.PermissionDenied
   | SecretScanningFailureReason.PermissionSuspected \<Rightarrow> SecretScanningFailureReason_ev.PermissionSuspected
   | SecretScanningFailureReason.RateLimited \<Rightarrow> SecretScanningFailureReason_ev.RateLimited
   | SecretScanningFailureReason.Transient \<Rightarrow> SecretScanningFailureReason_ev.Transient
   | SecretScanningFailureReason.Unavailable \<Rightarrow> SecretScanningFailureReason_ev.Unavailable
   | SecretScanningFailureReason.InsufficientEvidence \<Rightarrow> SecretScanningFailureReason_ev.InsufficientEvidence
   | SecretScanningFailureReason.Conflict \<Rightarrow> SecretScanningFailureReason_ev.Conflict
   | SecretScanningFailureReason.Invalid \<Rightarrow> SecretScanningFailureReason_ev.Invalid
   | SecretScanningFailureReason.Pending \<Rightarrow> SecretScanningFailureReason_ev.Pending)"

definition SecretScanningFailureReason_from :: "SecretScanningFailureReason_ev \<Rightarrow> SecretScanningFailureReason" where
  "SecretScanningFailureReason_from v = (case v of
     SecretScanningFailureReason_ev.PermissionDenied \<Rightarrow> SecretScanningFailureReason.PermissionDenied
   | SecretScanningFailureReason_ev.PermissionSuspected \<Rightarrow> SecretScanningFailureReason.PermissionSuspected
   | SecretScanningFailureReason_ev.RateLimited \<Rightarrow> SecretScanningFailureReason.RateLimited
   | SecretScanningFailureReason_ev.Transient \<Rightarrow> SecretScanningFailureReason.Transient
   | SecretScanningFailureReason_ev.Unavailable \<Rightarrow> SecretScanningFailureReason.Unavailable
   | SecretScanningFailureReason_ev.InsufficientEvidence \<Rightarrow> SecretScanningFailureReason.InsufficientEvidence
   | SecretScanningFailureReason_ev.Conflict \<Rightarrow> SecretScanningFailureReason.Conflict
   | SecretScanningFailureReason_ev.Invalid \<Rightarrow> SecretScanningFailureReason.Invalid
   | SecretScanningFailureReason_ev.Pending \<Rightarrow> SecretScanningFailureReason.Pending)"

definition ProbeSource_into :: "ProbeSource \<Rightarrow> ProbeSource_ev" where
  "ProbeSource_into v = (case v of
     ProbeSource.OrgSummary \<Rightarrow> ProbeSource_ev.OrgSummary
   | ProbeSource.PerRepoEndpoint \<Rightarrow> ProbeSource_ev.PerRepoEndpoint)"

definition ProbeSource_from :: "ProbeSource_ev \<Rightarrow> ProbeSource" where
  "ProbeSource_from v = (case v of
     ProbeSource_ev.OrgSummary \<Rightarrow> ProbeSource.OrgSummary
   | ProbeSource_ev.PerRepoEndpoint \<Rightarrow> ProbeSource.PerRepoEndpoint)"

definition CodeownersNonConformingLocation_into :: "CodeownersNonConformingLocation \<Rightarrow> CodeownersNonConformingLocation_ev" where
  "CodeownersNonConformingLocation_into v = (case v of
     CodeownersNonConformingLocation.Root \<Rightarrow> CodeownersNonConformingLocation_ev.Root
   | CodeownersNonConformingLocation.Docs \<Rightarrow> CodeownersNonConformingLocation_ev.Docs)"

definition CodeownersNonConformingLocation_from :: "CodeownersNonConformingLocation_ev \<Rightarrow> CodeownersNonConformingLocation" where
  "CodeownersNonConformingLocation_from v = (case v of
     CodeownersNonConformingLocation_ev.Root \<Rightarrow> CodeownersNonConformingLocation.Root
   | CodeownersNonConformingLocation_ev.Docs \<Rightarrow> CodeownersNonConformingLocation.Docs)"

definition MetadataUnavailable_into :: "MetadataUnavailable \<Rightarrow> MetadataUnavailable_ev" where
  "MetadataUnavailable_into v = (case v of
     MetadataUnavailable.Missing http_status \<Rightarrow>
        MetadataUnavailable_ev.Missing http_status
   | MetadataUnavailable.Malformed http_status \<Rightarrow>
        MetadataUnavailable_ev.Malformed http_status
   | MetadataUnavailable.Failure reason http_status \<Rightarrow>
        MetadataUnavailable_ev.Failure (SecretScanningFailureReason_into reason) http_status)"

definition MetadataUnavailable_from :: "MetadataUnavailable_ev \<Rightarrow> MetadataUnavailable" where
  "MetadataUnavailable_from v = (case v of
     MetadataUnavailable_ev.Missing http_status \<Rightarrow>
        MetadataUnavailable.Missing http_status
   | MetadataUnavailable_ev.Malformed http_status \<Rightarrow>
        MetadataUnavailable.Malformed http_status
   | MetadataUnavailable_ev.Failure reason http_status \<Rightarrow>
        MetadataUnavailable.Failure (SecretScanningFailureReason_from reason) http_status)"

definition SecretScanningAlerts_into :: "SecretScanningAlerts \<Rightarrow> SecretScanningAlerts_ev" where
  "SecretScanningAlerts_into v = (case v of
     SecretScanningAlerts.Observable source has_open_alerts http_status \<Rightarrow>
        SecretScanningAlerts_ev.Observable (ProbeSource_into source) has_open_alerts http_status
   | SecretScanningAlerts.Unobservable source reason http_status \<Rightarrow>
        SecretScanningAlerts_ev.Unobservable (ProbeSource_into source) (SecretScanningFailureReason_into reason) http_status)"

definition SecretScanningAlerts_from :: "SecretScanningAlerts_ev \<Rightarrow> SecretScanningAlerts" where
  "SecretScanningAlerts_from v = (case v of
     SecretScanningAlerts_ev.Observable source has_open_alerts http_status \<Rightarrow>
        SecretScanningAlerts.Observable (ProbeSource_from source) has_open_alerts http_status
   | SecretScanningAlerts_ev.Unobservable source reason http_status \<Rightarrow>
        SecretScanningAlerts.Unobservable (ProbeSource_from source) (SecretScanningFailureReason_from reason) http_status)"

definition EnabledProvenance_into :: "EnabledProvenance \<Rightarrow> EnabledProvenance_ev" where
  "EnabledProvenance_into v = (case v of
     EnabledProvenance.Metadata http_status alerts \<Rightarrow>
        EnabledProvenance_ev.Metadata http_status (SecretScanningAlerts_into alerts)
   | EnabledProvenance.Fallback metadata has_open_alerts http_status \<Rightarrow>
        EnabledProvenance_ev.Fallback (MetadataUnavailable_into metadata) has_open_alerts http_status)"

definition EnabledProvenance_from :: "EnabledProvenance_ev \<Rightarrow> EnabledProvenance" where
  "EnabledProvenance_from v = (case v of
     EnabledProvenance_ev.Metadata http_status alerts \<Rightarrow>
        EnabledProvenance.Metadata http_status (SecretScanningAlerts_from alerts)
   | EnabledProvenance_ev.Fallback metadata has_open_alerts http_status \<Rightarrow>
        EnabledProvenance.Fallback (MetadataUnavailable_from metadata) has_open_alerts http_status)"

definition DisabledObservation_into :: "DisabledObservation \<Rightarrow> DisabledObservation_ev" where
  "DisabledObservation_into v = (case v of
     DisabledObservation.NoMismatch source http_status \<Rightarrow>
        DisabledObservation_ev.NoMismatch (ProbeSource_into source) http_status
   | DisabledObservation.StatusMismatch source http_status \<Rightarrow>
        DisabledObservation_ev.StatusMismatch (ProbeSource_into source) http_status
   | DisabledObservation.ProbeFailed source reason http_status \<Rightarrow>
        DisabledObservation_ev.ProbeFailed (ProbeSource_into source) (SecretScanningFailureReason_into reason) http_status)"

definition DisabledObservation_from :: "DisabledObservation_ev \<Rightarrow> DisabledObservation" where
  "DisabledObservation_from v = (case v of
     DisabledObservation_ev.NoMismatch source http_status \<Rightarrow>
        DisabledObservation.NoMismatch (ProbeSource_from source) http_status
   | DisabledObservation_ev.StatusMismatch source http_status \<Rightarrow>
        DisabledObservation.StatusMismatch (ProbeSource_from source) http_status
   | DisabledObservation_ev.ProbeFailed source reason http_status \<Rightarrow>
        DisabledObservation.ProbeFailed (ProbeSource_from source) (SecretScanningFailureReason_from reason) http_status)"

definition UnobservableProbe_into :: "UnobservableProbe \<Rightarrow> UnobservableProbe_ev" where
  "UnobservableProbe_into v = (case v of
     UnobservableProbe.Failed source reason http_status \<Rightarrow>
        UnobservableProbe_ev.Failed (ProbeSource_into source) (SecretScanningFailureReason_into reason) http_status
   | UnobservableProbe.OrgSummaryObserved has_open_alerts http_status \<Rightarrow>
        UnobservableProbe_ev.OrgSummaryObserved has_open_alerts http_status)"

definition UnobservableProbe_from :: "UnobservableProbe_ev \<Rightarrow> UnobservableProbe" where
  "UnobservableProbe_from v = (case v of
     UnobservableProbe_ev.Failed source reason http_status \<Rightarrow>
        UnobservableProbe.Failed (ProbeSource_from source) (SecretScanningFailureReason_from reason) http_status
   | UnobservableProbe_ev.OrgSummaryObserved has_open_alerts http_status \<Rightarrow>
        UnobservableProbe.OrgSummaryObserved has_open_alerts http_status)"

definition HistoryProtectionGap_into :: "HistoryProtectionGap \<Rightarrow> HistoryProtectionGap_ev" where
  "HistoryProtectionGap_into v = (case v of
     HistoryProtectionGap.Absent confirmed_not_found http_status \<Rightarrow>
        HistoryProtectionGap_ev.Absent confirmed_not_found http_status
   | HistoryProtectionGap.NeitherBlocked \<Rightarrow> HistoryProtectionGap_ev.NeitherBlocked
   | HistoryProtectionGap.ForcePushAllowed \<Rightarrow> HistoryProtectionGap_ev.ForcePushAllowed
   | HistoryProtectionGap.DeletionAllowed \<Rightarrow> HistoryProtectionGap_ev.DeletionAllowed)"

definition HistoryProtectionGap_from :: "HistoryProtectionGap_ev \<Rightarrow> HistoryProtectionGap" where
  "HistoryProtectionGap_from v = (case v of
     HistoryProtectionGap_ev.Absent confirmed_not_found http_status \<Rightarrow>
        HistoryProtectionGap.Absent confirmed_not_found http_status
   | HistoryProtectionGap_ev.NeitherBlocked \<Rightarrow> HistoryProtectionGap.NeitherBlocked
   | HistoryProtectionGap_ev.ForcePushAllowed \<Rightarrow> HistoryProtectionGap.ForcePushAllowed
   | HistoryProtectionGap_ev.DeletionAllowed \<Rightarrow> HistoryProtectionGap.DeletionAllowed)"

subsection \<open>Repositories\<close>

definition Repository_try_from :: "EventRuntime \<Rightarrow> Repository \<Rightarrow> Repository_ev Conv" where
  "Repository_try_from rt r =
     and_then (to_nes rt MAX_GITHUB_ID ''repository.id'' (repo_id r)) (\<lambda>id.
     and_then (to_es_opt rt MAX_NODE_ID ''repository.node_id'' (repo_node_id r)) (\<lambda>node_id.
     and_then (to_nes rt MAX_REPO_NAME ''repository.name'' (repo_name r)) (\<lambda>name.
     and_then (to_es_opt rt MAX_LANGUAGE ''repository.language'' (repo_language r)) (\<lambda>language.
     and_then (to_nes rt MAX_BRANCH_NAME ''repository.default_branch'' (default_branch r)) (\<lambda>branch.
     and_then (to_nes rt MAX_DOMAIN_KEY ''repository.inventory_key'' (inventory_key r)) (\<lambda>key.
     and_then (transpose_result (map_option
         (\<lambda>s. to_nes rt MAX_TIMESTAMP_TEXT ''repository.updated_at'' (UpdatedAt_deref s))
         (updated_at r))) (\<lambda>updated.
     and_then (ts_opt rt ''repository.pushed_at'' (pushed_at r)) (\<lambda>pushed.
     and_then (ts_opt rt ''repository.created_at'' (created_at r)) (\<lambda>created.
     and_then (to_es_opt rt MAX_DESCRIPTION ''repository.description'' (repo_description r)) (\<lambda>description.
     and_then (to_es_opt rt MAX_URL ''repository.html_url'' (html_url r)) (\<lambda>url.
     and_then (to_event_vec rt MAX_TOPICS ''repository.topics'' (repo_topics r)
         (to_es rt MAX_TOPIC ''repository.topics'')) (\<lambda>topics.
     and_then (to_es_opt rt MAX_LICENSE ''repository.license_spdx'' (license_spdx r)) (\<lambda>license.
     Inr \<lparr>ev_id = id, ev_node_id = node_id, ev_name = name,
        ev_visibility = Visibility_into (visibility r), ev_language = language,
        ev_default_branch = branch, ev_archived = archived r, ev_inventory_key = key,
        ev_updated_at = updated, ev_has_issues = has_issues r, ev_pushed_at = pushed,
        ev_created_at = created, ev_description = description, ev_fork = repo_fork r,
        ev_is_empty = repo_is_empty r, ev_html_url = url, ev_topics = topics,
        ev_license_spdx = license\<rparr>)))))))))))))"

definition Repository_from :: "EventRuntime \<Rightarrow> Repository_ev \<Rightarrow> Repository" where
  "Repository_from rt r =
     \<lparr>repo_id = ev_id r, repo_node_id = ev_node_id r, repo_name = ev_name r,
      visibility = Visibility_from (ev_visibility r), repo_language = ev_language r,
      default_branch = ev_default_branch r, archived = ev_archived r,
      inventory_key = ev_inventory_key r, updated_at = Option.bind (ev_updated_at r) UpdatedAt_new,
      has_issues = ev_has_issues r, pushed_at = ts_to_string_opt rt (ev_pushed_at r),
      created_at = ts_to_string_opt rt (ev_created_at r), repo_description = ev_description r,
      repo_fork = ev_fork r, repo_is_empty = ev_is_empty r, html_url = ev_html_url r,
      repo_topics = ev_topics r, license_spdx = ev_license_spdx r\<rparr>"

subsection \<open>Check results\<close>

definition SecurityPolicyResult_try_from ::
  "EventRuntime \<Rightarrow> SecurityPolicyResult \<Rightarrow> SecurityPolicyResult_ev Conv" where
  "SecurityPolicyResult_try_from rt v =
     and_then (ts_required rt ''security_policy.timestamp'' (SecurityPolicyResult_timestamp v)) (\<lambda>timestamp.
     case v of
       SecurityPolicyResult.EnabledBySetting _ \<Rightarrow> Inr (SecurityPolicyResult_ev.EnabledBySetting timestamp)
     | SecurityPolicyResult.EnabledByFile path _ \<Rightarrow>
         and_then (to_nes rt MAX_PATH ''security_policy.path'' (SecurityPolicyPath_as_str path)) (\<lambda>p.
         Inr (SecurityPolicyResult_ev.EnabledByFile p timestamp))
     | SecurityPolicyResult.Absent _ \<Rightarrow> Inr (SecurityPolicyResult_ev.Absent timestamp)
     | SecurityPolicyResult.NotApplicable _ \<Rightarrow> Inr (SecurityPolicyResult_ev.NotApplicable timestamp)
     | SecurityPolicyResult.Unobservable reason _ \<Rightarrow>
         Inr (SecurityPolicyResult_ev.Unobservable (IndeterminateReason_into reason) timestamp))"

definition SecurityPolicyResult_from ::
  "EventRuntime \<Rightarrow> SecurityPolicyResult_ev \<Rightarrow> SecurityPolicyResult option" where
  "SecurityPolicyResult_from rt v = (case v of
     SecurityPolicyResult_ev.EnabledBySetting t \<Rightarrow>
       Some (SecurityPolicyResult.EnabledBySetting (ts_to_string rt t))
   | SecurityPolicyResult_ev.EnabledByFile path t \<Rightarrow>
       map_option (\<lambda>p. SecurityPolicyResult.EnabledByFile p (ts_to_string rt t))
         (SecurityPolicyPath_new path)
   | SecurityPolicyResult_ev.Absent t \<Rightarrow> Some (SecurityPolicyResult.Absent (ts_to_string rt t))
   | SecurityPolicyResult_ev.NotApplicable t \<Rightarrow>
       Some (SecurityPolicyResult.NotApplicable (ts_to_string rt t))
   | SecurityPolicyResult_ev.Unobservable reason t \<Rightarrow>
       Some (SecurityPolicyResult.Unobservable (IndeterminateReason_from reason) (ts_to_string rt t)))"

definition SecretScanningResult_try_from ::
  "EventRuntime \<Rightarrow> SecretScanningResult \<Rightarrow> SecretScanningResult_ev Conv" where
  "SecretScanningResult_try_from rt v =
     and_then (ts_required rt ''secret_scanning.timestamp'' (SecretScanningResult_timestamp v)) (\<lambda>timestamp.
     Inr (case v of
       SecretScanningResult.Enabled provenance _ \<Rightarrow>
         SecretScanningResult_ev.Enabled (EnabledProvenance_into provenance) timestamp
     | SecretScanningResult.Disabled metadata_http_status observation _ \<Rightarrow>
         SecretScanningResult_ev.Disabled metadata_http_status (DisabledObservation_into observation) timestamp
     | SecretScanningResult.Unobservable metadata probe _ \<Rightarrow>
         SecretScanningResult_ev.Unobservable (MetadataUnavailable_into metadata)
           (UnobservableProbe_into probe) timestamp))"

definition SecretScanningResult_from ::
  "EventRuntime \<Rightarrow> SecretScanningResult_ev \<Rightarrow> SecretScanningResult" where
  "SecretScanningResult_from rt v = (case v of
     SecretScanningResult_ev.Enabled provenance t \<Rightarrow>
       SecretScanningResult.Enabled (EnabledProvenance_from provenance) (ts_to_string rt t)
   | SecretScanningResult_ev.Disabled metadata_http_status observation t \<Rightarrow>
       SecretScanningResult.Disabled metadata_http_status (DisabledObservation_from observation)
         (ts_to_string rt t)
   | SecretScanningResult_ev.Unobservable metadata probe t \<Rightarrow>
       SecretScanningResult.Unobservable (MetadataUnavailable_from metadata)
         (UnobservableProbe_from probe) (ts_to_string rt t))"

definition DependabotResult_try_from ::
  "EventRuntime \<Rightarrow> DependabotResult \<Rightarrow> DependabotResult_ev Conv" where
  "DependabotResult_try_from rt v =
     and_then (to_es_opt rt MAX_REASON ''dependabot.reason'' (dependabot_reason v)) (\<lambda>reason.
     and_then (ts_required rt ''dependabot.timestamp'' (dependabot_timestamp v)) (\<lambda>timestamp.
     Inr \<lparr>ev_dependabot_status = DependabotStatus_into (dependabot_status v),
        ev_dependabot_reason = reason, ev_dependabot_timestamp = timestamp\<rparr>))"

definition DependabotResult_from :: "EventRuntime \<Rightarrow> DependabotResult_ev \<Rightarrow> DependabotResult" where
  "DependabotResult_from rt v =
     \<lparr>dependabot_status = DependabotStatus_from (ev_dependabot_status v),
      dependabot_reason = ev_dependabot_reason v,
      dependabot_timestamp = ts_to_string rt (ev_dependabot_timestamp v)\<rparr>"

definition BranchProtectionResult_try_from ::
  "EventRuntime \<Rightarrow> BranchProtectionResult \<Rightarrow> BranchProtectionResult_ev Conv" where
  "BranchProtectionResult_try_from rt v =
     (let branch_of = to_nes rt MAX_BRANCH_NAME ''branch_protection.default_branch'';
          time_of = ts_required rt ''branch_protection.timestamp''
      in case v of
           BranchProtectionResult.Protected branch t \<Rightarrow>
             and_then (branch_of branch) (\<lambda>b. and_then (time_of t) (\<lambda>timestamp.
             Inr (BranchProtectionResult_ev.Protected b timestamp)))
         | BranchProtectionResult.Unprotected branch gap t \<Rightarrow>
             and_then (branch_of branch) (\<lambda>b. and_then (time_of t) (\<lambda>timestamp.
             Inr (BranchProtectionResult_ev.Unprotected b (HistoryProtectionGap_into gap) timestamp)))
         | BranchProtectionResult.Unobservable branch reason http_status t \<Rightarrow>
             and_then (branch_of branch) (\<lambda>b. and_then (time_of t) (\<lambda>timestamp.
             Inr (BranchProtectionResult_ev.Unobservable b (IndeterminateReason_into reason)
               http_status timestamp))))"

definition BranchProtectionResult_from ::
  "EventRuntime \<Rightarrow> BranchProtectionResult_ev \<Rightarrow> BranchProtectionResult" where
  "BranchProtectionResult_from rt v = (case v of
     BranchProtectionResult_ev.Protected branch t \<Rightarrow>
       BranchProtectionResult.Protected branch (ts_to_string rt t)
   | BranchProtectionResult_ev.Unprotected branch gap t \<Rightarrow>
       BranchProtectionResult.Unprotected branch (HistoryProtectionGap_from gap) (ts_to_string rt t)
   | BranchProtectionResult_ev.Unobservable branch reason http_status t \<Rightarrow>
       BranchProtectionResult.Unobservable branch (IndeterminateReason_from reason) http_status
         (ts_to_string rt t))"

definition CodeownersEntry_try_from :: "EventRuntime \<Rightarrow> CodeownersEntry \<Rightarrow> CodeownersEntry_ev Conv" where
  "CodeownersEntry_try_from rt v =
     and_then (to_es rt MAX_CODEOWNERS_PATTERN ''codeowners.entry.pattern'' (pattern v)) (\<lambda>p.
     and_then (to_event_vec rt MAX_CODEOWNERS_OWNERS ''codeowners.entry.owners'' (owners v)
         (to_es rt MAX_CODEOWNERS_OWNER ''codeowners.entry.owners'')) (\<lambda>os.
     Inr \<lparr>ev_pattern = p, ev_owners = os\<rparr>))"

definition CodeownersEntry_from :: "CodeownersEntry_ev \<Rightarrow> CodeownersEntry" where
  "CodeownersEntry_from v = \<lparr>pattern = ev_pattern v, owners = ev_owners v\<rparr>"

definition ParsedCodeowners_try_from ::
  "EventRuntime \<Rightarrow> ParsedCodeowners \<Rightarrow> ParsedCodeowners_ev Conv" where
  "ParsedCodeowners_try_from rt v =
     and_then (to_event_vec rt MAX_CODEOWNERS_ENTRIES ''codeowners.entries'' (entries v)
         (CodeownersEntry_try_from rt)) (\<lambda>es.
     and_then (to_event_vec rt MAX_CODEOWNERS_OWNERS ''codeowners.unique_owners'' (unique_owners v)
         (to_es rt MAX_CODEOWNERS_OWNER ''codeowners.unique_owners'')) (\<lambda>us.
     Inr \<lparr>ev_entries = es, ev_unique_owners = us, ev_skipped_lines = skipped_lines v\<rparr>))"

definition ParsedCodeowners_from :: "ParsedCodeowners_ev \<Rightarrow> ParsedCodeowners" where
  "ParsedCodeowners_from v =
     \<lparr>entries = map CodeownersEntry_from (ev_entries v), unique_owners = ev_unique_owners v,
      skipped_lines = ev_skipped_lines v\<rparr>"

definition CodeownersContent_try_from ::
  "EventRuntime \<Rightarrow> CodeownersContent \<Rightarrow> CodeownersContent_ev Conv" where
  "CodeownersContent_try_from rt v = (case v of
     CodeownersContent.Parsed p \<Rightarrow>
       and_then (ParsedCodeowners_try_from rt p) (\<lambda>p'. Inr (CodeownersContent_ev.Parsed p'))
   | CodeownersContent.Truncated r \<Rightarrow>
       Inr (CodeownersContent_ev.Truncated (CodeownersTruncationReason_into r))
   | CodeownersContent.Unparsed \<Rightarrow> Inr CodeownersContent_ev.Unparsed)"

definition CodeownersContent_from :: "CodeownersContent_ev \<Rightarrow> CodeownersContent" where
  "CodeownersContent_from v = (case v of
     CodeownersContent_ev.Parsed p \<Rightarrow> CodeownersContent.Parsed (ParsedCodeowners_from p)
   | CodeownersContent_ev.Truncated r \<Rightarrow> CodeownersContent.Truncated (CodeownersTruncationReason_from r)
   | CodeownersContent_ev.Unparsed \<Rightarrow> CodeownersContent.Unparsed)"

definition CodeownersResult_try_from ::
  "EventRuntime \<Rightarrow> CodeownersResult \<Rightarrow> CodeownersResult_ev Conv" where
  "CodeownersResult_try_from rt v =
     and_then (ts_required rt ''codeowners.timestamp'' (CodeownersResult_timestamp v)) (\<lambda>timestamp.
     case v of
       CodeownersResult.Conforming content _ \<Rightarrow>
         and_then (CodeownersContent_try_from rt content) (\<lambda>c.
         Inr (CodeownersResult_ev.Conforming c timestamp))
     | CodeownersResult.NonConforming location content _ \<Rightarrow>
         and_then (CodeownersContent_try_from rt content) (\<lambda>c.
         Inr (CodeownersResult_ev.NonConforming (CodeownersNonConformingLocation_into location) c timestamp))
     | CodeownersResult.Absent _ \<Rightarrow> Inr (CodeownersResult_ev.Absent timestamp)
     | CodeownersResult.Unobservable reason _ \<Rightarrow>
         Inr (CodeownersResult_ev.Unobservable (IndeterminateReason_into reason) timestamp))"

definition CodeownersResult_from :: "EventRuntime \<Rightarrow> CodeownersResult_ev \<Rightarrow> CodeownersResult" where
  "CodeownersResult_from rt v = (case v of
     CodeownersResult_ev.Conforming content t \<Rightarrow>
       CodeownersResult.Conforming (CodeownersContent_from content) (ts_to_string rt t)
   | CodeownersResult_ev.NonConforming location content t \<Rightarrow>
       CodeownersResult.NonConforming (CodeownersNonConformingLocation_from location)
         (CodeownersContent_from content) (ts_to_string rt t)
   | CodeownersResult_ev.Absent t \<Rightarrow> CodeownersResult.Absent (ts_to_string rt t)
   | CodeownersResult_ev.Unobservable reason t \<Rightarrow>
       CodeownersResult.Unobservable (IndeterminateReason_from reason) (ts_to_string rt t))"

subsection \<open>Evidence\<close>

definition RepositoryChecks_try_from ::
  "EventRuntime \<Rightarrow> RepositoryChecks \<Rightarrow> RepositoryChecks_ev Conv" where
  "RepositoryChecks_try_from rt v =
     and_then (SecurityPolicyResult_try_from rt (security_policy v)) (\<lambda>policy.
     and_then (SecretScanningResult_try_from rt (secret_scanning v)) (\<lambda>secret.
     and_then (DependabotResult_try_from rt (dependabot_security_updates v)) (\<lambda>dependabot.
     and_then (BranchProtectionResult_try_from rt (branch_protection v)) (\<lambda>branch.
     and_then (CodeownersResult_try_from rt (codeowners v)) (\<lambda>cos.
     Inr \<lparr>ev_security_policy = policy, ev_secret_scanning = secret,
        ev_dependabot_security_updates = dependabot, ev_branch_protection = branch,
        ev_codeowners = cos\<rparr>)))))"

definition RepositoryChecks_from ::
  "EventRuntime \<Rightarrow> RepositoryChecks_ev \<Rightarrow> RepositoryChecks option" where
  "RepositoryChecks_from rt v = map_option (\<lambda>policy.
     \<lparr>security_policy = policy,
      secret_scanning = SecretScanningResult_from rt (ev_secret_scanning v),
      dependabot_security_updates = DependabotResult_from rt (ev_dependabot_security_updates v),
      branch_protection = BranchProtectionResult_from rt (ev_branch_protection v),
      codeowners = CodeownersResult_from rt (ev_codeowners v)\<rparr>)
     (SecurityPolicyResult_from rt (ev_security_policy v))"

definition LastCommitInfo_try_from :: "EventRuntime \<Rightarrow> LastCommitInfo \<Rightarrow> LastCommitInfo_ev Conv" where
  "LastCommitInfo_try_from rt v =
     and_then (to_es_opt rt MAX_LOGIN ''last_commit.committer_login'' (committer_login v)) (\<lambda>login.
     and_then (to_es_opt rt MAX_PERSON_NAME ''last_commit.committer_name'' (committer_name v)) (\<lambda>name.
     and_then (ts_opt rt ''last_commit.commit_date'' (commit_date v)) (\<lambda>date.
     Inr \<lparr>ev_committer_login = login, ev_committer_name = name, ev_commit_date = date\<rparr>)))"

definition LastCommitInfo_from :: "EventRuntime \<Rightarrow> LastCommitInfo_ev \<Rightarrow> LastCommitInfo" where
  "LastCommitInfo_from rt v =
     \<lparr>committer_login = ev_committer_login v, committer_name = ev_committer_name v,
      commit_date = ts_to_string_opt rt (ev_commit_date v)\<rparr>"

definition RepositoryEvidence_try_from ::
  "EventRuntime \<Rightarrow> RepositoryEvidence \<Rightarrow> RepositoryEvidence_ev Conv" where
  "RepositoryEvidence_try_from rt v =
     and_then (Repository_try_from rt (repository v)) (\<lambda>r.
     and_then (RepositoryChecks_try_from rt (checks v)) (\<lambda>c.
     and_then (transpose_result (map_option (LastCommitInfo_try_from rt) (last_commit v))) (\<lambda>l.
     Inr \<lparr>ev_repository = r, ev_checks = c, ev_last_commit = l\<rparr>)))"

definition RepositoryEvidence_from ::
  "EventRuntime \<Rightarrow> RepositoryEvidence_ev \<Rightarrow> RepositoryEvidence option" where
  "RepositoryEvidence_from rt v = map_option (\<lambda>c.
     \<lparr>repository = Repository_from rt (ev_repository v), checks = c,
      last_commit = map_option (LastCommitInfo_from rt) (ev_last_commit v),
      repo_details_not_modified = False\<rparr>)
     (RepositoryChecks_from rt (ev_checks v))"

subsection \<open>Organisation state\<close>

definition CollectionCoverage_try_from :: "CollectionCoverage \<Rightarrow> CollectionCoverage_ev Conv" where
  "CollectionCoverage_try_from c = (case c of
     CollectionCoverage.Unknown \<Rightarrow> Inr CollectionCoverage_ev.Unknown
   | CollectionCoverage.Known known limit \<Rightarrow>
       (if unat known < 2 ^ 32 then Inr (CollectionCoverage_ev.Known (ucast known) limit)
        else Inl (TooLong ''assessment_metadata.coverage.total'')))"

definition CollectionCoverage_from :: "CollectionCoverage_ev \<Rightarrow> CollectionCoverage" where
  "CollectionCoverage_from c = (case c of
     CollectionCoverage_ev.Unknown \<Rightarrow> CollectionCoverage.Unknown
   | CollectionCoverage_ev.Known known limit \<Rightarrow> CollectionCoverage.Known (ucast known) limit)"

definition AssessmentMetadata_try_from ::
  "EventRuntime \<Rightarrow> AssessmentMetadata \<Rightarrow> AssessmentMetadata_ev Conv" where
  "AssessmentMetadata_try_from rt v =
     and_then (to_es rt MAX_ASSESSMENT_DATE ''assessment_metadata.date'' (meta_date v)) (\<lambda>date.
     and_then (to_es rt MAX_LOGIN ''assessment_metadata.organization'' (meta_organization v)) (\<lambda>org.
     and_then (to_es rt MAX_SCHEMA_VERSION ''assessment_metadata.schema_version''
         (meta_schema_version v)) (\<lambda>schema.
     and_then (to_es rt MAX_TIMESTAMP_TEXT ''assessment_metadata.run_timestamp'' (run_timestamp v)) (\<lambda>run.
     and_then (to_es rt MAX_RUN_ID ''assessment_metadata.run_id'' (meta_run_id v)) (\<lambda>run_id.
     and_then (to_es rt MAX_TOKEN_SCOPES ''assessment_metadata.token_scopes'' (token_scopes v)) (\<lambda>scopes.
     and_then (to_event_vec rt MAX_UNAVAILABLE_CAPABILITIES
         ''assessment_metadata.unavailable_capabilities'' (unavailable_capabilities v)
         (\<lambda>capability. Inr (Capability_into capability))) (\<lambda>capabilities.
     and_then (to_es_opt rt MAX_TIMESTAMP_TEXT ''assessment_metadata.inventory_fetched_at''
         (inventory_fetched_at v)) (\<lambda>fetched.
     and_then (CollectionCoverage_try_from (meta_coverage v)) (\<lambda>coverage.
     Inr \<lparr>ev_date = date, ev_organization = org, ev_schema_version = schema,
        ev_run_timestamp = run, ev_run_id = run_id, ev_token_tier = TokenTier_into (token_tier v),
        ev_token_scopes = scopes, ev_auth_mode = AuthMode_into (auth_mode v),
        ev_rate_limit_warnings = rate_limit_warnings v, ev_unavailable_capabilities = capabilities,
        ev_inventory_fetched_at = fetched, ev_warm_start = warm_start v,
        ev_coverage = coverage\<rparr>)))))))))"

definition AssessmentMetadata_from :: "AssessmentMetadata_ev \<Rightarrow> AssessmentMetadata" where
  "AssessmentMetadata_from v =
     \<lparr>meta_date = ev_date v, meta_organization = ev_organization v,
      meta_schema_version = ev_schema_version v, run_timestamp = ev_run_timestamp v,
      meta_run_id = ev_run_id v, token_tier = TokenTier_from (ev_token_tier v),
      token_scopes = ev_token_scopes v, auth_mode = AuthMode_from (ev_auth_mode v),
      rate_limit_warnings = ev_rate_limit_warnings v,
      unavailable_capabilities = map Capability_from (ev_unavailable_capabilities v),
      inventory_fetched_at = ev_inventory_fetched_at v, warm_start = ev_warm_start v,
      meta_coverage = CollectionCoverage_from (ev_coverage v)\<rparr>"

definition RepoAlertSummary_try_from ::
  "EventRuntime \<Rightarrow> RepoAlertSummary \<Rightarrow> RepoAlertSummary_ev Conv" where
  "RepoAlertSummary_try_from rt v =
     and_then (to_es_opt rt MAX_TIMESTAMP_TEXT ''repo_alert_summary.oldest_open_alert_created_at''
         (oldest_open_alert_created_at v)) (\<lambda>oldest.
     and_then (to_es_opt rt MAX_TIMESTAMP_TEXT ''repo_alert_summary.newest_open_alert_created_at''
         (newest_open_alert_created_at v)) (\<lambda>newest.
     Inr \<lparr>ev_open_alert_count = open_alert_count v, ev_oldest_open_alert_created_at = oldest,
        ev_newest_open_alert_created_at = newest\<rparr>))"

definition RepoAlertSummary_from :: "RepoAlertSummary_ev \<Rightarrow> RepoAlertSummary" where
  "RepoAlertSummary_from v =
     \<lparr>open_alert_count = ev_open_alert_count v,
      oldest_open_alert_created_at = ev_oldest_open_alert_created_at v,
      newest_open_alert_created_at = ev_newest_open_alert_created_at v\<rparr>"

text \<open>The two loops of \<open>TryFrom<OrgAlertSummary>\<close>, which push an entry or return an error.\<close>

definition per_repo_entry ::
  "EventRuntime \<Rightarrow> string \<times> RepoAlertSummary \<Rightarrow> RepoAlertSummaryEntry Conv" where
  "per_repo_entry rt = (\<lambda>(repository_id, summary).
     and_then (to_es rt MAX_GITHUB_ID ''org_alert_summary.per_repo.key'' repository_id) (\<lambda>rid.
     and_then (RepoAlertSummary_try_from rt summary) (\<lambda>s.
     Inr \<lparr>ev_repository_id = rid, ev_summary = s\<rparr>)))"

definition age_bucket_entry :: "EventRuntime \<Rightarrow> string \<times> u64 \<Rightarrow> StringU64Entry Conv" where
  "age_bucket_entry rt = (\<lambda>(key, value).
     and_then (to_es rt MAX_ALERT_BUCKET ''org_alert_summary.open_secret_alert_age_buckets.key'' key) (\<lambda>k.
     Inr \<lparr>ev_key = k, ev_value = value\<rparr>))"

definition OrgAlertSummary_try_from ::
  "EventRuntime \<Rightarrow> OrgAlertSummary \<Rightarrow> OrgAlertSummary_ev Conv" where
  "OrgAlertSummary_try_from rt v =
     and_then (collect_results (map (per_repo_entry rt) (per_repo_order rt (per_repo v)))) (\<lambda>pushed.
     let sorted_repos = sort_key ev_repository_id pushed in
     and_then (if vec_accepts rt MAX_ORG_ALERT_REPOS (length sorted_repos) then Inr sorted_repos
       else Inl (TooMany ''org_alert_summary.per_repo'')) (\<lambda>repos.
     and_then (collect_results (map (age_bucket_entry rt) (open_secret_alert_age_buckets v))) (\<lambda>pushed_buckets.
     let sorted_buckets = sort_key ev_key pushed_buckets in
     and_then (if vec_accepts rt MAX_ALERT_BUCKETS (length sorted_buckets) then Inr sorted_buckets
       else Inl (TooMany ''org_alert_summary.open_secret_alert_age_buckets'')) (\<lambda>buckets.
     and_then (to_es_opt rt MAX_REASON ''org_alert_summary.collection_reason''
         (collection_reason v)) (\<lambda>reason.
     and_then (to_es_opt rt MAX_TIMESTAMP_TEXT
         ''org_alert_summary.oldest_open_secret_alert_created_at''
         (oldest_open_secret_alert_created_at v)) (\<lambda>oldest.
     and_then (to_es_opt rt MAX_TIMESTAMP_TEXT
         ''org_alert_summary.newest_open_secret_alert_created_at''
         (newest_open_secret_alert_created_at v)) (\<lambda>newest.
     Inr \<lparr>ev_collection_status = CollectionStatus_into (collection_status v),
        ev_collection_reason = reason, ev_http_status = org_http_status v, ev_per_repo = repos,
        ev_age_buckets = buckets, ev_total_open_secret_alerts = total_open_secret_alerts v,
        ev_oldest_open_secret_alert_created_at = oldest,
        ev_newest_open_secret_alert_created_at = newest\<rparr>)))))))"

text \<open>Collecting pairs into a hash map keeps the last value of a key.\<close>

definition OrgAlertSummary_from :: "OrgAlertSummary_ev \<Rightarrow> OrgAlertSummary" where
  "OrgAlertSummary_from v =
     \<lparr>collection_status = CollectionStatus_from (ev_collection_status v),
      collection_reason = ev_collection_reason v, org_http_status = ev_http_status v,
      per_repo = map_of (rev (map (\<lambda>e. (ev_repository_id e, RepoAlertSummary_from (ev_summary e)))
        (ev_per_repo v))),
      open_secret_alert_age_buckets = map (\<lambda>e. (ev_key e, ev_value e)) (ev_age_buckets v),
      total_open_secret_alerts = ev_total_open_secret_alerts v,
      oldest_open_secret_alert_created_at = ev_oldest_open_secret_alert_created_at v,
      newest_open_secret_alert_created_at = ev_newest_open_secret_alert_created_at v\<rparr>"

definition OrgStateCaptured_try_from :: "EventRuntime \<Rightarrow> OrgStateSnapshot \<Rightarrow> OrgStateCaptured Conv" where
  "OrgStateCaptured_try_from rt v =
     and_then (AssessmentMetadata_try_from rt (snapshot_assessment_metadata v)) (\<lambda>m.
     and_then (OrgAlertSummary_try_from rt (snapshot_alert_summary v)) (\<lambda>a.
     Inr \<lparr>ev_archived_repos = snapshot_archived_repos v, ev_assessment_metadata = m,
        ev_alert_summary = a\<rparr>))"

definition OrgStateSnapshot_from :: "OrgStateCaptured \<Rightarrow> OrgStateSnapshot" where
  "OrgStateSnapshot_from v =
     \<lparr>snapshot_archived_repos = ev_archived_repos v,
      snapshot_assessment_metadata = AssessmentMetadata_from (ev_assessment_metadata v),
      snapshot_alert_summary = OrgAlertSummary_from (ev_alert_summary v)\<rparr>"

subsection \<open>Teams\<close>

definition TeamMemberRole_from :: "TeamMemberRoleEvent \<Rightarrow> TeamMemberRole" where
  "TeamMemberRole_from v = (case v of
     TeamMemberRoleEvent.Maintainer \<Rightarrow> TeamMemberRole.Maintainer
   | TeamMemberRoleEvent.Member \<Rightarrow> TeamMemberRole.Member
   | TeamMemberRoleEvent.Unknown \<Rightarrow> TeamMemberRole.Unknown)"

definition TeamRosterStatus_from :: "TeamRosterStatusEvent \<Rightarrow> TeamRosterStatus" where
  "TeamRosterStatus_from v = (case v of
     TeamRosterStatusEvent.Complete \<Rightarrow> TeamRosterStatus.Complete
   | TeamRosterStatusEvent.Deleted \<Rightarrow> TeamRosterStatus.Deleted
   | TeamRosterStatusEvent.PermissionDenied \<Rightarrow> TeamRosterStatus.PermissionDenied
   | TeamRosterStatusEvent.TransientError \<Rightarrow> TeamRosterStatus.TransientError)"

definition TeamRoster_from :: "TeamStateCaptured \<Rightarrow> TeamRoster" where
  "TeamRoster_from v =
     (let org = ev_org v;
          slug = ev_team_slug v;
          owner = ''@'' @ org @ ''/'' @ slug;
          fetched = (if ev_fetched_at v = '''' then None else Some (ev_fetched_at v));
          team_members = map (\<lambda>member. \<lparr>login = ev_login member,
            member_role = TeamMemberRole_from (ev_role member),
            member_in_org = ev_in_org member\<rparr>) (ev_members v)
      in \<lparr>canonical_owner = owner, team_slug = slug,
          roster_status = TeamRosterStatus_from (ev_status v), members = team_members,
          fetched_at = fetched\<rparr>)"

datatype TeamDomainKeyError = EmptyOrg | EmptyTeamSlug

definition HEX :: string where
  "HEX = ''0123456789abcdef''"

definition push_hex_byte :: "char \<Rightarrow> string" where
  "push_hex_byte c = [HEX ! (of_char c div 16), HEX ! (of_char c mod 16)]"

definition hex_bytes :: "string \<Rightarrow> string" where
  "hex_bytes bytes = concat (map push_hex_byte bytes)"

definition team_domain_key :: "string \<Rightarrow> string \<Rightarrow> TeamDomainKeyError + string" where
  "team_domain_key org slug =
     (if org = [] then Inl EmptyOrg
      else if slug = [] then Inl EmptyTeamSlug
      else (let joined = org @ [CHR 0x1F] @ slug
            in Inr (''team_'' @ hex_bytes joined)))"

end
