(* ===== verification/Event_Store.thy ===== *)
theory Event_Store
  imports Event_Wire Event_Convert "HOL-Library.AList"
begin

text \<open>
  The event store of \<open>store/mod.rs\<close>: a cache of the decoded journal in front of a pardosa backend, and
  the write latch that refuses further work once a write may have landed without being cached. The
  file and the NATS branches of the source make the same calls in the same order; the backend is one
  parameter \<open>A\<close> of type \<open>Pardosa\<close> that holds the calls the source makes, over a backend state \<open>'b\<close>. A
  store operation is a function from the store to a result and the store after it. The lemmas show
  that the latch is permanent, that a store that is not latched mirrors the journal, and what the
  readers of the cache compute.
\<close>

subsection \<open>Failures\<close>

text \<open>The conditions the source matches on; the others are kept by name.\<close>

datatype FailureCondition =
  StoreAlreadyExists
| ConcurrencyConflict
| StaleEpoch
| TransportUnavailable
| OtherCondition string

record OperationFailure =
  condition :: FailureCondition
  detail :: string

datatype StoreError =
  AlreadyExists OperationFailure
| Infrastructure string
| Operation OperationFailure
| CreationUnknown OperationFailure
| Encode EncodeError
| Decode DecodeError
| Indeterminate u64
| AfterLanded StoreError
| LandedNeedsReconciliation
| ConcurrencyConflict "u64 option" "u64 option" OperationFailure
| TornWriteRecovery string
| DivergedFiber string
| Poisoned

definition is_already_exists :: "StoreError \<Rightarrow> bool" where
  "is_already_exists e = (case e of StoreError.AlreadyExists _ \<Rightarrow> True | _ \<Rightarrow> False)"

definition StoreError_from :: "OperationFailure \<Rightarrow> StoreError" where
  "StoreError_from err = (case condition err of
     FailureCondition.StoreAlreadyExists \<Rightarrow> StoreError.AlreadyExists err
   | FailureCondition.ConcurrencyConflict \<Rightarrow> StoreError.ConcurrencyConflict None None err
   | FailureCondition.StaleEpoch \<Rightarrow> StoreError.ConcurrencyConflict None None err
   | _ \<Rightarrow> StoreError.Operation err)"

definition after_landed :: "StoreError \<Rightarrow> StoreError" where
  "after_landed error = StoreError.AfterLanded error"

definition creation_failure :: "OperationFailure \<Rightarrow> StoreError" where
  "creation_failure error = StoreError.CreationUnknown error"

subsection \<open>The backend\<close>

type_synonym fiber_id = "128 word"

datatype ArtefactPresence = NoArtefact | OwnershipRecordOnly | EventDataOnly | Both

datatype 'a WriteLandingVerdict = Landed 'a | Undetermined u64

record FiberHandle =
  is_active :: bool
  is_detached :: bool

record Envelope =
  env_detached :: bool
  env_fiber_id :: fiber_id
  env_payload :: "u8 list"

record SchemaDescriptor =
  descriptor_version :: u32
  descriptor_node :: string

record OwnershipClaimRecord =
  claim_epoch :: u64
  machine_id :: "u8 list"
  boot_id :: "u8 list"
  process_id :: u64
  process_start_time_ns :: u64
  claim_time_ns :: u64
  operator_label :: string

type_synonym ('b, 'a) backend_call = "'b \<Rightarrow> (OperationFailure + 'a) \<times> 'b"

record 'b Pardosa =
  derive_fiber_id :: "string \<Rightarrow> fiber_id"
  descriptor_identity :: "SchemaDescriptor \<Rightarrow> string"
  admit_descriptor :: "SchemaDescriptor \<Rightarrow> StoreError + SchemaDescriptor"
  own_process_id :: u32
  try_presence :: "'b \<Rightarrow> OperationFailure + ArtefactPresence"
  create_session :: "OwnershipClaimRecord \<Rightarrow> SchemaDescriptor \<Rightarrow> ('b, unit) backend_call"
  open_read :: "'b \<Rightarrow> OperationFailure + SchemaDescriptor option"
  read_all_envelopes :: "'b \<Rightarrow> OperationFailure + Envelope list"
  current_epoch :: "'b \<Rightarrow> OperationFailure + u64"
  open_write :: "u64 \<Rightarrow> ('b, unit) backend_call"
  session_fiber :: "fiber_id \<Rightarrow> ('b, FiberHandle) backend_call"
  append_to_fiber :: "fiber_id \<Rightarrow> uuid \<Rightarrow> u8 list \<Rightarrow> ('b, unit WriteLandingVerdict) backend_call"
  rescue_fiber :: "fiber_id \<Rightarrow> uuid \<Rightarrow> u8 list \<Rightarrow> ('b, unit WriteLandingVerdict) backend_call"
  detach_fiber :: "fiber_id \<Rightarrow> uuid \<Rightarrow> u8 list \<Rightarrow> ('b, unit WriteLandingVerdict) backend_call"
  sync_session :: "('b, unit) backend_call"

text \<open>\<open>PardosaSchema\<close>: the descriptor tree of the event type is left to the parameter.\<close>

record 'e PardosaSchema =
  SCHEMA_VERSION :: u32
  schema_descriptor :: string
  payload_type :: "'e PardosaType"

definition DOMAIN_EVENT_SCHEMA_VERSION :: u32 where
  "DOMAIN_EVENT_SCHEMA_VERSION = 4"

definition ORG_STATE_SCHEMA_VERSION :: u32 where
  "ORG_STATE_SCHEMA_VERSION = 3"

definition TEAM_STATE_SCHEMA_VERSION :: u32 where
  "TEAM_STATE_SCHEMA_VERSION = 2"

definition DomainEvent_schema :: "PardosaPrims \<Rightarrow> string \<Rightarrow> DomainEvent PardosaSchema" where
  "DomainEvent_schema P node = \<lparr>SCHEMA_VERSION = DOMAIN_EVENT_SCHEMA_VERSION,
     schema_descriptor = node, payload_type = DomainEvent_type P\<rparr>"

definition OrgStateCaptured_schema :: "PardosaPrims \<Rightarrow> string \<Rightarrow> OrgStateCaptured PardosaSchema" where
  "OrgStateCaptured_schema P node = \<lparr>SCHEMA_VERSION = ORG_STATE_SCHEMA_VERSION,
     schema_descriptor = node, payload_type = OrgStateCaptured_type P\<rparr>"

definition TeamStateCaptured_schema :: "PardosaPrims \<Rightarrow> string \<Rightarrow> TeamStateCaptured PardosaSchema" where
  "TeamStateCaptured_schema P node = \<lparr>SCHEMA_VERSION = TEAM_STATE_SCHEMA_VERSION,
     schema_descriptor = node, payload_type = TeamStateCaptured_type P\<rparr>"

definition default_claim :: "'b Pardosa \<Rightarrow> u64 \<Rightarrow> string \<Rightarrow> OwnershipClaimRecord" where
  "default_claim A epoch label =
     \<lparr>claim_epoch = epoch, machine_id = replicate 16 0, boot_id = replicate 16 0,
      process_id = ucast (own_process_id A), process_start_time_ns = 0, claim_time_ns = 0,
      operator_label = label\<rparr>"

definition require_absent :: "ArtefactPresence \<Rightarrow> StoreError + unit" where
  "require_absent presence = (case presence of
     ArtefactPresence.NoArtefact \<Rightarrow> Inr ()
   | _ \<Rightarrow> Inl (StoreError.AlreadyExists
       \<lparr>condition = FailureCondition.StoreAlreadyExists, detail = ''store artefacts precede create''\<rparr>))"

definition expected_descriptor :: "'e PardosaSchema \<Rightarrow> SchemaDescriptor" where
  "expected_descriptor S =
     \<lparr>descriptor_version = SCHEMA_VERSION S, descriptor_node = schema_descriptor S\<rparr>"

definition verify_schema_descriptor ::
    "'b Pardosa \<Rightarrow> 'e PardosaSchema \<Rightarrow> SchemaDescriptor option \<Rightarrow> StoreError + unit" where
  "verify_schema_descriptor A S actual = (case actual of
     Some d \<Rightarrow>
       (if descriptor_identity A d = descriptor_identity A (expected_descriptor S) then Inr ()
        else Inl (StoreError.Infrastructure
          (''schema descriptor identity mismatch: expected '' @
           descriptor_identity A (expected_descriptor S) @ '', got '' @ descriptor_identity A d)))
   | None \<Rightarrow> Inl (StoreError.Infrastructure
       ''missing schema descriptor in store metadata: refusing to open unadmitted store''))"

subsection \<open>State\<close>

datatype WriteKnowledge = Ready | Unknown u64 | LandedKnown

type_synonym 'e CachedEvents = "(bool \<times> fiber_id \<times> 'e) list"

text \<open>A poisoned mutex is a flag beside the value it guards.\<close>

record ('b, 'e) StoreInner =
  backend :: 'b
  cached :: "'e CachedEvents"
  cached_poisoned :: bool
  knowledge :: WriteKnowledge
  knowledge_poisoned :: bool

definition WriteKnowledge_check :: "WriteKnowledge \<Rightarrow> StoreError + unit" where
  "WriteKnowledge_check k = (case k of
     WriteKnowledge.Ready \<Rightarrow> Inr ()
   | WriteKnowledge.Unknown carried_epoch \<Rightarrow> Inl (StoreError.Indeterminate carried_epoch)
   | WriteKnowledge.LandedKnown \<Rightarrow> Inl StoreError.LandedNeedsReconciliation)"

subsection \<open>Store operations\<close>

type_synonym ('s, 'a) store_op = "'s \<Rightarrow> (StoreError + 'a) \<times> 's"

definition and_then_op :: "('s, 'a) store_op \<Rightarrow> ('a \<Rightarrow> ('s, 'c) store_op) \<Rightarrow> ('s, 'c) store_op" where
  "and_then_op m k s = (case m s of (Inl e, s') \<Rightarrow> (Inl e, s') | (Inr x, s') \<Rightarrow> k x s')"

definition done_op :: "'a \<Rightarrow> ('s, 'a) store_op" where
  "done_op x s = (Inr x, s)"

definition try_op :: "StoreError + 'a \<Rightarrow> ('s, 'a) store_op" where
  "try_op r s = (r, s)"

definition try_backend ::
    "('b \<Rightarrow> OperationFailure + 'a) \<Rightarrow> (('b, 'e) StoreInner, 'a) store_op" where
  "try_backend f s = (case f (backend s) of Inl e \<Rightarrow> (Inl (StoreError_from e), s) | Inr x \<Rightarrow> (Inr x, s))"

definition call_backend ::
    "(OperationFailure \<Rightarrow> StoreError) \<Rightarrow> ('b, 'a) backend_call \<Rightarrow> (('b, 'e) StoreInner, 'a) store_op" where
  "call_backend failed f s = (case f (backend s) of
     (Inl e, b) \<Rightarrow> (Inl (failed e), s\<lparr>backend := b\<rparr>) | (Inr x, b) \<Rightarrow> (Inr x, s\<lparr>backend := b\<rparr>))"

definition lock_knowledge :: "(('b, 'e) StoreInner, unit) store_op" where
  "lock_knowledge s =
     (if knowledge_poisoned s then (Inl StoreError.Poisoned, s)
      else (WriteKnowledge_check (knowledge s), s))"

definition lock_cached :: "(('b, 'e) StoreInner, 'e CachedEvents) store_op" where
  "lock_cached s = and_then_op lock_knowledge (\<lambda>_ s.
     (if cached_poisoned s then Inl StoreError.Poisoned else Inr (cached s), s)) s"

definition WriteKnowledge_accept :: "'a WriteLandingVerdict \<Rightarrow> (('b, 'e) StoreInner, 'a) store_op" where
  "WriteKnowledge_accept verdict s = (case verdict of
     WriteLandingVerdict.Landed x \<Rightarrow> (Inr x, s\<lparr>knowledge := WriteKnowledge.LandedKnown\<rparr>)
   | WriteLandingVerdict.Undetermined carried_epoch \<Rightarrow>
       (Inl (StoreError.Indeterminate carried_epoch),
        s\<lparr>knowledge := WriteKnowledge.Unknown carried_epoch\<rparr>))"

text \<open>The cache push at the end of a write, and the knowledge that follows it.\<close>

definition push_cached :: "bool \<times> fiber_id \<times> 'e \<Rightarrow> (('b, 'e) StoreInner, unit) store_op" where
  "push_cached row s =
     (if cached_poisoned s then (Inl (after_landed StoreError.Poisoned), s)
      else (Inr (), s\<lparr>cached := cached s @ [row], knowledge := WriteKnowledge.Ready\<rparr>))"

definition encode_event :: "'e PardosaSchema \<Rightarrow> 'e \<Rightarrow> StoreError + u8 list" where
  "encode_event S event =
     (case encode_payload (payload_type S) event [] of Inl e \<Rightarrow> Inl (StoreError.Encode e) | Inr p \<Rightarrow> Inr p)"

fun decode_envelopes :: "'e PardosaSchema \<Rightarrow> Envelope list \<Rightarrow> StoreError + 'e CachedEvents" where
  "decode_envelopes S [] = Inr []"
| "decode_envelopes S (env # envs) =
     (case decode_payload (payload_type S) (env_payload env) of
        Inl e \<Rightarrow> Inl (StoreError.Decode e)
      | Inr event \<Rightarrow>
          (case decode_envelopes S envs of
             Inl e \<Rightarrow> Inl e
           | Inr rows \<Rightarrow> Inr ((env_detached env, env_fiber_id env, event) # rows)))"

text \<open>\<open>open_read\<close>, the schema check and \<open>read_all_envelopes\<close>, shared by opening and resynchronising.\<close>

definition read_authoritative ::
    "'b Pardosa \<Rightarrow> 'e PardosaSchema \<Rightarrow> (('b, 'e) StoreInner, 'e CachedEvents) store_op" where
  "read_authoritative A S =
     and_then_op (try_backend (open_read A)) (\<lambda>meta.
     and_then_op (try_op (verify_schema_descriptor A S meta)) (\<lambda>_.
     and_then_op (try_backend (read_all_envelopes A)) (\<lambda>envelopes.
     try_op (decode_envelopes S envelopes))))"

definition fresh_store :: "'b \<Rightarrow> 'e CachedEvents \<Rightarrow> ('b, 'e) StoreInner" where
  "fresh_store b rows = \<lparr>backend = b, cached = rows, cached_poisoned = False,
     knowledge = WriteKnowledge.Ready, knowledge_poisoned = False\<rparr>"

definition StoreInner_create ::
    "'b Pardosa \<Rightarrow> 'e PardosaSchema \<Rightarrow> string \<Rightarrow> 'b \<Rightarrow> (StoreError + unit) \<times> ('b, 'e) StoreInner" where
  "StoreInner_create A S label b =
     and_then_op (try_op (admit_descriptor A (expected_descriptor S))) (\<lambda>desc.
     and_then_op (try_backend (try_presence A)) (\<lambda>presence.
     and_then_op (try_op (require_absent presence)) (\<lambda>_.
     and_then_op (call_backend creation_failure (create_session A (default_claim A 1 label) desc)) (\<lambda>_.
     call_backend (\<lambda>e. after_landed (StoreError_from e)) (sync_session A))))) (fresh_store b [])"

definition StoreInner_open ::
    "'b Pardosa \<Rightarrow> 'e PardosaSchema \<Rightarrow> 'b \<Rightarrow> StoreError + ('b, 'e) StoreInner" where
  "StoreInner_open A S b = (case fst (read_authoritative A S (fresh_store b [])) of
     Inl e \<Rightarrow> Inl e | Inr rows \<Rightarrow> Inr (fresh_store b rows))"

definition resync_from_authoritative ::
    "'b Pardosa \<Rightarrow> 'e PardosaSchema \<Rightarrow> (('b, 'e) StoreInner, unit) store_op" where
  "resync_from_authoritative A S =
     and_then_op lock_knowledge (\<lambda>_.
     and_then_op (read_authoritative A S) (\<lambda>rows s.
       if cached_poisoned s then (Inl StoreError.Poisoned, s) else (Inr (), s\<lparr>cached := rows\<rparr>)))"

definition preflight_write_lease :: "'b Pardosa \<Rightarrow> (('b, 'e) StoreInner, unit) store_op" where
  "preflight_write_lease A =
     and_then_op lock_knowledge (\<lambda>_.
     and_then_op (try_backend (current_epoch A)) (\<lambda>epoch.
     call_backend StoreError_from (open_write A epoch)))"

text \<open>The calls that open a session on the fiber of a key.\<close>

definition open_session ::
    "'b Pardosa \<Rightarrow> fiber_id \<Rightarrow> (('b, 'e) StoreInner, FiberHandle) store_op" where
  "open_session A fiber =
     and_then_op (try_backend (current_epoch A)) (\<lambda>epoch.
     and_then_op (call_backend StoreError_from (open_write A epoch)) (\<lambda>_.
     call_backend StoreError_from (session_fiber A fiber)))"

definition StoreInner_record ::
    "'b Pardosa \<Rightarrow> 'e PardosaSchema \<Rightarrow> string \<Rightarrow> 'e \<Rightarrow> uuid \<Rightarrow> (('b, 'e) StoreInner, unit) store_op" where
  "StoreInner_record A S domain_key event event_id =
     (let fiber = derive_fiber_id A domain_key in
     and_then_op lock_knowledge (\<lambda>_.
     and_then_op (try_op (encode_event S event)) (\<lambda>payload.
     and_then_op (open_session A fiber) (\<lambda>handle.
     and_then_op
       (if is_detached handle
        then call_backend StoreError_from (rescue_fiber A fiber event_id payload)
        else call_backend StoreError_from (append_to_fiber A fiber event_id payload)) (\<lambda>verdict.
     and_then_op (WriteKnowledge_accept verdict) (\<lambda>_.
     and_then_op (call_backend (\<lambda>e. after_landed (StoreError_from e)) (sync_session A)) (\<lambda>_.
     push_cached (False, fiber, event))))))))"

definition StoreInner_detach ::
    "'b Pardosa \<Rightarrow> 'e PardosaSchema \<Rightarrow> string \<Rightarrow> 'e \<Rightarrow> uuid \<Rightarrow> (('b, 'e) StoreInner, bool) store_op" where
  "StoreInner_detach A S domain_key event event_id =
     (let fiber = derive_fiber_id A domain_key in
     and_then_op lock_knowledge (\<lambda>_.
     and_then_op (try_op (encode_event S event)) (\<lambda>payload.
     and_then_op (open_session A fiber) (\<lambda>handle.
     and_then_op
       (if is_active handle
        then and_then_op (call_backend StoreError_from (detach_fiber A fiber event_id payload)) (\<lambda>verdict.
             and_then_op (WriteKnowledge_accept verdict) (\<lambda>_.
             call_backend (\<lambda>e. after_landed (StoreError_from e)) (sync_session A)))
        else done_op ()) (\<lambda>_ s.
     let landed = (knowledge s = WriteKnowledge.LandedKnown) in
     if landed then and_then_op (push_cached (True, fiber, event)) (\<lambda>_. done_op landed) s
     else (Inr landed, s))))))"

subsection \<open>Readers\<close>

definition StoreInner_events :: "(('b, 'e) StoreInner, (bool \<times> 'e) list) store_op" where
  "StoreInner_events = and_then_op lock_cached (\<lambda>rows.
     done_op (map (\<lambda>(detached, _, event). (detached, event)) rows))"

definition events_with_fibers :: "(('b, 'e) StoreInner, 'e CachedEvents) store_op" where
  "events_with_fibers = lock_cached"

definition StoreInner_fold_events ::
    "'r \<Rightarrow> ('r \<Rightarrow> bool \<Rightarrow> 'e \<Rightarrow> 'r) \<Rightarrow> (('b, 'e) StoreInner, 'r) store_op" where
  "StoreInner_fold_events init f = and_then_op lock_cached (\<lambda>rows.
     done_op (fold (\<lambda>(detached, _, event) acc. f acc detached event) rows init))"

definition fold_defined_events ::
    "'r \<Rightarrow> ('r \<Rightarrow> 'e \<Rightarrow> 'r) \<Rightarrow> (('b, 'e) StoreInner, 'r) store_op" where
  "fold_defined_events init f = and_then_op lock_cached (\<lambda>rows.
     done_op (fold (\<lambda>(detached, _, event) acc. if \<not> detached then f acc event else acc) rows init))"

text \<open>
  The hash map of \<open>latest_defined\<close> is an association list; the order of its values is not specified
  by the source.
\<close>

fun latest_step ::
    "('e \<Rightarrow> string) \<Rightarrow> bool \<times> fiber_id \<times> 'e \<Rightarrow> (fiber_id \<times> (string \<times> 'e)) list
       \<Rightarrow> (fiber_id \<times> (string \<times> 'e)) list" where
  "latest_step key_fn (detached, fiber, event) latest =
     (if detached then AList.delete fiber latest
      else AList.update fiber (key_fn event, event) latest)"

definition latest_defined ::
    "('e \<Rightarrow> string) \<Rightarrow> (('b, 'e) StoreInner, (string \<times> 'e) list) store_op" where
  "latest_defined key_fn = and_then_op lock_cached (\<lambda>rows.
     done_op (map snd (fold (latest_step key_fn) rows [])))"

fun DomainEvent_key :: "DomainEvent \<Rightarrow> string" where
  "DomainEvent_key (DomainEvent.RepositoryStateCaptured domain_key _ _ _) = domain_key"
| "DomainEvent_key (DomainEvent.RepositoryDeleted domain_key _ _) = domain_key"
| "DomainEvent_key (DomainEvent.OrgStateCaptured org) =
     ev_organization (ev_assessment_metadata org)"
| "DomainEvent_key (DomainEvent.TeamStateCaptured team) =
     (case team_domain_key (ev_org team) (ev_team_slug team) of Inr k \<Rightarrow> k | Inl _ \<Rightarrow> [])"

definition latest_per_repo :: "(('b, DomainEvent) StoreInner, (string \<times> DomainEvent) list) store_op" where
  "latest_per_repo = latest_defined DomainEvent_key"

subsection \<open>Laws of the backend\<close>

text \<open>The status of a fiber: that of its last envelope.\<close>

definition fiber_state :: "Envelope list \<Rightarrow> fiber_id \<Rightarrow> bool option" where
  "fiber_state js = fold (\<lambda>env m. m(env_fiber_id env := Some (env_detached env))) js Map.empty"

text \<open>
  A reported failure has not landed, a landed write adds one envelope at the end, and an undetermined
  one may or may not have added it.
\<close>

definition lands ::
    "Envelope list \<Rightarrow> Envelope \<Rightarrow> OperationFailure + unit WriteLandingVerdict \<Rightarrow> Envelope list \<Rightarrow> bool" where
  "lands js env r js' = (case r of
     Inl _ \<Rightarrow> js' = js
   | Inr (WriteLandingVerdict.Landed _) \<Rightarrow> js' = js @ [env]
   | Inr (WriteLandingVerdict.Undetermined _) \<Rightarrow> js' = js \<or> js' = js @ [env])"

definition backend_ok :: "'b Pardosa \<Rightarrow> ('b \<Rightarrow> Envelope list) \<Rightarrow> bool" where
  "backend_ok A journal \<longleftrightarrow>
     (\<forall>b es. read_all_envelopes A b = Inr es \<longrightarrow> es = journal b) \<and>
     (\<forall>epoch b. journal (snd (open_write A epoch b)) = journal b) \<and>
     (\<forall>fiber b. journal (snd (session_fiber A fiber b)) = journal b) \<and>
     (\<forall>fiber b h. fst (session_fiber A fiber b) = Inr h \<longrightarrow>
        is_active h = (fiber_state (journal b) fiber = Some False) \<and>
        is_detached h = (fiber_state (journal b) fiber = Some True)) \<and>
     (\<forall>b. journal (snd (sync_session A b)) = journal b) \<and>
     (\<forall>fiber i p b. lands (journal b) \<lparr>env_detached = False, env_fiber_id = fiber, env_payload = p\<rparr>
        (fst (append_to_fiber A fiber i p b)) (journal (snd (append_to_fiber A fiber i p b)))) \<and>
     (\<forall>fiber i p b. lands (journal b) \<lparr>env_detached = False, env_fiber_id = fiber, env_payload = p\<rparr>
        (fst (rescue_fiber A fiber i p b)) (journal (snd (rescue_fiber A fiber i p b)))) \<and>
     (\<forall>fiber i p b. lands (journal b) \<lparr>env_detached = True, env_fiber_id = fiber, env_payload = p\<rparr>
        (fst (detach_fiber A fiber i p b)) (journal (snd (detach_fiber A fiber i p b))))"

subsection \<open>Triples\<close>

text \<open>
  \<open>triple P m Q E\<close>: from a store with \<open>P\<close>, a success of \<open>m\<close> ends in \<open>Q\<close> and a failure in \<open>E\<close>.
\<close>

definition triple ::
    "('s \<Rightarrow> bool) \<Rightarrow> ('s, 'a) store_op \<Rightarrow> ('a \<Rightarrow> 's \<Rightarrow> bool) \<Rightarrow> (StoreError \<Rightarrow> 's \<Rightarrow> bool) \<Rightarrow> bool" where
  "triple P m Q E \<longleftrightarrow> (\<forall>s. P s \<longrightarrow> (case m s of (Inl e, s') \<Rightarrow> E e s' | (Inr x, s') \<Rightarrow> Q x s'))"

named_theorems op_defs \<open>unfolding of the elementary store operations\<close>

declare and_then_op_def [op_defs] done_op_def [op_defs] try_op_def [op_defs] try_backend_def [op_defs]
  call_backend_def [op_defs] lock_knowledge_def [op_defs] lock_cached_def [op_defs]
  WriteKnowledge_accept_def [op_defs] WriteKnowledge_check_def [op_defs] push_cached_def [op_defs]

lemma triple_bind:
  assumes "triple P m Q E" and "\<And>x. triple (Q x) (k x) R E"
  shows "triple P (and_then_op m k) R E"
  using assms unfolding triple_def and_then_op_def by (fastforce split: prod.splits sum.splits)

lemma triple_try_op: "(\<And>s e. P s \<Longrightarrow> r = Inl e \<Longrightarrow> E e s) \<Longrightarrow> triple P (try_op r) (\<lambda>x s. P s \<and> r = Inr x) E"
  unfolding triple_def try_op_def by (auto split: sum.splits)

lemma triple_conseq:
  "triple P' m Q' E \<Longrightarrow> (\<And>s. P s \<Longrightarrow> P' s) \<Longrightarrow> (\<And>x s. Q' x s \<Longrightarrow> Q x s) \<Longrightarrow> triple P m Q E"
  unfolding triple_def by (fastforce split: prod.splits sum.splits)

lemma triple_done: "(\<And>s. P s \<Longrightarrow> Q x s) \<Longrightarrow> triple P (done_op x) Q E"
  unfolding triple_def done_op_def by simp

lemma triple_try_backend:
  assumes "\<And>s e. P s \<Longrightarrow> f (backend s) = Inl e \<Longrightarrow> E (StoreError_from e) s"
  shows "triple P (try_backend f) (\<lambda>x s. P s \<and> f (backend s) = Inr x) E"
  using assms unfolding triple_def try_backend_def by (auto split: sum.splits)

lemma triple_call_backend:
  assumes "\<And>s e b. P s \<Longrightarrow> f (backend s) = (Inl e, b) \<Longrightarrow> E (failed e) (s\<lparr>backend := b\<rparr>)"
    and "\<And>s x b. P s \<Longrightarrow> f (backend s) = (Inr x, b) \<Longrightarrow> Q x (s\<lparr>backend := b\<rparr>)"
  shows "triple P (call_backend failed f) Q E"
  using assms unfolding triple_def call_backend_def by (auto split: prod.splits sum.splits)

lemma tripleD:
  assumes "triple P m Q E" and "P s" and "m s = (r, s')"
  shows "case r of Inl e \<Rightarrow> E e s' | Inr x \<Rightarrow> Q x s'"
  using assms unfolding triple_def by fastforce

subsection \<open>The latch\<close>

text \<open>A run of calls: the result of each, and the state after the last.\<close>

fun run_all :: "('c \<Rightarrow> 's \<Rightarrow> 'r \<times> 's) \<Rightarrow> 'c list \<Rightarrow> 's \<Rightarrow> 'r list \<times> 's" where
  "run_all run [] s = ([], s)"
| "run_all run (c # cs) s =
     (let (r, s') = run c s; (rs, s'') = run_all run cs s' in (r # rs, s''))"

lemma run_all_invariant:
  assumes "\<And>c s. c \<in> set cs \<Longrightarrow> I s \<Longrightarrow> I (snd (run c s))" and "I s"
  shows "I (snd (run_all run cs s))"
  using assms by (induction cs arbitrary: s) (auto simp: Let_def case_prod_beta)

locale latching =
  fixes run :: "'c \<Rightarrow> 's \<Rightarrow> 'r \<times> 's" and latched :: "'s \<Rightarrow> bool" and refused :: "'r \<Rightarrow> bool"
  assumes refuses: "latched s \<Longrightarrow> \<exists>r. run c s = (r, s) \<and> refused r"
begin

lemma latch_is_permanent:
  assumes "latched s"
  shows "snd (run_all run cs s) = s \<and> list_all refused (fst (run_all run cs s))"
proof (induction cs)
  case (Cons c cs)
  from refuses [OF assms] obtain r where "run c s = (r, s)" "refused r" by blast
  with Cons show ?case by (simp add: Let_def case_prod_beta)
qed simp

lemma unlatched_before: "\<not> latched (snd (run_all run cs s)) \<Longrightarrow> \<not> latched s"
  using latch_is_permanent by metis

end

datatype 'e StoreCall =
  RecordCall string 'e uuid
| DetachCall string 'e uuid
| ResyncCall
| PreflightCall

fun run_call ::
    "'b Pardosa \<Rightarrow> 'e PardosaSchema \<Rightarrow> 'e StoreCall \<Rightarrow> (('b, 'e) StoreInner, unit) store_op" where
  "run_call A S (RecordCall domain_key event event_id) = StoreInner_record A S domain_key event event_id"
| "run_call A S (DetachCall domain_key event event_id) =
     and_then_op (StoreInner_detach A S domain_key event event_id) (\<lambda>_. done_op ())"
| "run_call A S ResyncCall = resync_from_authoritative A S"
| "run_call A S PreflightCall = preflight_write_lease A"

definition store_latched :: "('b, 'e) StoreInner \<Rightarrow> bool" where
  "store_latched s \<longleftrightarrow> knowledge_poisoned s \<or> knowledge s \<noteq> WriteKnowledge.Ready"

lemma lock_knowledge_cases:
  "lock_knowledge s = (if store_latched s then
     (Inl (if knowledge_poisoned s then StoreError.Poisoned
       else case knowledge s of WriteKnowledge.Unknown n \<Rightarrow> StoreError.Indeterminate n
         | _ \<Rightarrow> StoreError.LandedNeedsReconciliation), s) else (Inr (), s))"
  by (auto simp: lock_knowledge_def store_latched_def WriteKnowledge_check_def split: WriteKnowledge.splits)

lemma latched_store_refuses:
  assumes "store_latched s"
  shows "\<exists>e. run_call A S c s = (Inl e, s)"
  using assms by (cases c) (simp_all add: StoreInner_record_def StoreInner_detach_def Let_def
    resync_from_authoritative_def preflight_write_lease_def and_then_op_def lock_knowledge_cases)

interpretation store_latch: latching "run_call A S" store_latched isl for A S
  by unfold_locales (metis latched_store_refuses sum.disc(1))

subsection \<open>The cache and the journal\<close>

definition holds_journal ::
    "'e PardosaSchema \<Rightarrow> ('b \<Rightarrow> Envelope list) \<Rightarrow> ('b, 'e) StoreInner \<Rightarrow> 'e CachedEvents \<Rightarrow> bool" where
  "holds_journal S journal s rows \<longleftrightarrow> decode_envelopes S (journal (backend s)) = Inr rows"

definition mirrors :: "'e PardosaSchema \<Rightarrow> ('b \<Rightarrow> Envelope list) \<Rightarrow> ('b, 'e) StoreInner \<Rightarrow> bool" where
  "mirrors S journal s \<longleftrightarrow>
     holds_journal S journal s (cached s) \<or>
     knowledge s \<noteq> WriteKnowledge.Ready \<and> (\<exists>row. holds_journal S journal s (cached s @ [row]))"

lemma decode_envelopes_snoc:
  "decode_envelopes S js = Inr rows \<Longrightarrow> decode_payload (payload_type S) (env_payload env) = Inr event \<Longrightarrow>
   decode_envelopes S (js @ [env]) = Inr (rows @ [(env_detached env, env_fiber_id env, event)])"
  by (induction js arbitrary: rows) (auto split: sum.splits)

lemma encode_event_decodes:
  assumes "codec_ok (payload_type S) valid" and "valid event" and "encode_event S event = Inr p"
  shows "decode_payload (payload_type S) p = Inr event"
proof -
  from assms(3) have "encode_type (payload_type S) event [] = Inr p"
    by (auto simp: encode_event_def encode_payload_def split: sum.splits)
  with assms(1,2) obtain bs where p: "p = [] @ bs"
      "\<forall>rest. decode_type (payload_type S) (bs @ rest) = Inr (event, length bs)"
    unfolding codec_ok_def by blast
  from spec [OF p(2), of "[]"] p(1) show ?thesis by (simp add: decode_payload_def)
qed

definition clean :: "'e PardosaSchema \<Rightarrow> ('b \<Rightarrow> Envelope list) \<Rightarrow> ('b, 'e) StoreInner \<Rightarrow> bool" where
  "clean S journal s \<longleftrightarrow> knowledge s = WriteKnowledge.Ready \<and> holds_journal S journal s (cached s)"

definition pending ::
    "'e PardosaSchema \<Rightarrow> ('b \<Rightarrow> Envelope list) \<Rightarrow> bool \<times> fiber_id \<times> 'e \<Rightarrow> ('b, 'e) StoreInner \<Rightarrow> bool" where
  "pending S journal row s \<longleftrightarrow>
     knowledge s = WriteKnowledge.LandedKnown \<and> holds_journal S journal s (cached s @ [row])"

definition judged ::
    "'e PardosaSchema \<Rightarrow> ('b \<Rightarrow> Envelope list) \<Rightarrow> bool \<times> fiber_id \<times> 'e \<Rightarrow> unit WriteLandingVerdict
       \<Rightarrow> ('b, 'e) StoreInner \<Rightarrow> bool" where
  "judged S journal row verdict s = (case verdict of
     WriteLandingVerdict.Landed _ \<Rightarrow> holds_journal S journal s (cached s @ [row])
   | WriteLandingVerdict.Undetermined _ \<Rightarrow>
       holds_journal S journal s (cached s) \<or> holds_journal S journal s (cached s @ [row]))"

abbreviation kept ::
    "'e PardosaSchema \<Rightarrow> ('b \<Rightarrow> Envelope list) \<Rightarrow> StoreError \<Rightarrow> ('b, 'e) StoreInner \<Rightarrow> bool" where
  "kept S journal \<equiv> \<lambda>_. mirrors S journal"

lemma clean_mirrors: "clean S journal s \<Longrightarrow> mirrors S journal s"
  by (simp add: clean_def mirrors_def)

lemma pending_mirrors: "pending S journal row s \<Longrightarrow> mirrors S journal s"
  unfolding pending_def mirrors_def by (metis WriteKnowledge.distinct(3))

lemma clean_backend:
  "journal b = journal (backend s) \<Longrightarrow> clean S journal (s\<lparr>backend := b\<rparr>) = clean S journal s"
  by (simp add: clean_def holds_journal_def)

lemma pending_backend:
  "journal b = journal (backend s) \<Longrightarrow> pending S journal row (s\<lparr>backend := b\<rparr>) = pending S journal row s"
  by (simp add: pending_def holds_journal_def)

lemma triple_lock: "triple (mirrors S journal) lock_knowledge (\<lambda>_. clean S journal) (kept S journal)"
  by (auto simp: triple_def lock_knowledge_cases store_latched_def mirrors_def clean_def)

lemma backend_keeps:
  assumes "backend_ok A journal"
  shows "open_write A epoch b = (r, b') \<Longrightarrow> journal b' = journal b"
    and "session_fiber A fiber b = (h, b') \<Longrightarrow> journal b' = journal b"
    and "sync_session A b = (u, b') \<Longrightarrow> journal b' = journal b"
  using assms unfolding backend_ok_def by (metis snd_conv)+

lemma triple_clean_call:
  assumes "\<And>b r b'. f b = (r, b') \<Longrightarrow> journal b' = journal b"
  shows "triple (clean S journal) (call_backend failed f) (\<lambda>_. clean S journal) (kept S journal)"
  by (rule triple_call_backend) (use assms in \<open>auto simp: clean_backend intro: clean_mirrors\<close>)

lemma triple_open_session:
  assumes "backend_ok A journal"
  shows "triple (clean S journal) (open_session A fiber) (\<lambda>_. clean S journal) (kept S journal)"
  unfolding open_session_def
proof (rule triple_bind)
  show "triple (clean S journal) (try_backend (current_epoch A)) (\<lambda>_. clean S journal) (kept S journal)"
    by (rule triple_conseq [OF triple_try_backend [where P = "clean S journal"]]) (auto intro: clean_mirrors)
  show "triple (clean S journal) (and_then_op (call_backend StoreError_from (open_write A epoch))
      (\<lambda>_. call_backend StoreError_from (session_fiber A fiber))) (\<lambda>_. clean S journal) (kept S journal)" for epoch
    by (rule triple_bind; rule triple_clean_call) (use backend_keeps [OF assms] in blast)+
qed

lemma triple_accept:
  "triple (judged S journal row verdict) (WriteKnowledge_accept verdict) (\<lambda>_. pending S journal row)
     (kept S journal)"
  by (auto simp: triple_def judged_def WriteKnowledge_accept_def pending_def mirrors_def holds_journal_def
      simp del: split_paired_Ex split: WriteLandingVerdict.splits)

lemma triple_sync:
  assumes "backend_ok A journal"
  shows "triple (pending S journal row) (call_backend failed (sync_session A)) (\<lambda>_. pending S journal row)
     (kept S journal)"
  by (rule triple_call_backend)
    (use backend_keeps(3) [OF assms] in \<open>auto simp: pending_backend intro: pending_mirrors\<close>)

lemma triple_push:
  "triple (pending S journal row) (push_cached row) (\<lambda>_. clean S journal) (kept S journal)"
  by (auto simp: triple_def push_cached_def pending_def clean_def holds_journal_def mirrors_def
      simp del: split_paired_Ex)

text \<open>A write call on a clean store leaves it judged by its verdict.\<close>

lemma triple_write:
  assumes "codec_ok (payload_type S) valid" and "valid event"
    and "\<And>b. lands (journal b) \<lparr>env_detached = d, env_fiber_id = fiber, env_payload = payload\<rparr>
           (fst (f b)) (journal (snd (f b)))"
  shows "triple (\<lambda>s. clean S journal s \<and> encode_event S event = Inr payload)
     (call_backend StoreError_from f) (judged S journal (d, fiber, event)) (kept S journal)"
proof (rule triple_call_backend)
  fix s :: "('b, 'a) StoreInner" and r b
  assume s: "clean S journal s \<and> encode_event S event = Inr payload"
  { fix e assume "f (backend s) = (Inl e, b)"
    with assms(3) [of "backend s"] have "journal b = journal (backend s)" by (simp add: lands_def)
    with s show "mirrors S journal (s\<lparr>backend := b\<rparr>)" by (auto simp: clean_backend intro: clean_mirrors) }
  assume "f (backend s) = (Inr r, b)"
  moreover from s have "decode_envelopes S (journal (backend s) @
      [\<lparr>env_detached = d, env_fiber_id = fiber, env_payload = payload\<rparr>]) = Inr (cached s @ [(d, fiber, event)])"
    using encode_event_decodes [OF assms(1,2)]
    by (subst decode_envelopes_snoc) (auto simp: clean_def holds_journal_def)
  ultimately show "judged S journal (d, fiber, event) r (s\<lparr>backend := b\<rparr>)"
    using assms(3) [of "backend s"] s
    by (auto simp: lands_def judged_def clean_def holds_journal_def split: WriteLandingVerdict.splits)
qed

lemma triple_encode:
  "triple (clean S journal) (try_op (encode_event S event))
     (\<lambda>payload s. clean S journal s \<and> encode_event S event = Inr payload) (kept S journal)"
  by (rule triple_try_op) (rule clean_mirrors)

lemma triple_open_session_encoded:
  assumes "backend_ok A journal"
  shows "triple (\<lambda>s. clean S journal s \<and> encode_event S event = Inr payload) (open_session A fiber)
     (\<lambda>_ s. clean S journal s \<and> encode_event S event = Inr payload) (kept S journal)"
  using triple_open_session [OF assms, of S fiber] unfolding triple_def
  by (fastforce split: prod.splits sum.splits)

lemma backend_lands:
  assumes "backend_ok A journal"
  shows "lands (journal b) \<lparr>env_detached = False, env_fiber_id = fiber, env_payload = p\<rparr>
      (fst (append_to_fiber A fiber i p b)) (journal (snd (append_to_fiber A fiber i p b)))"
    and "lands (journal b) \<lparr>env_detached = False, env_fiber_id = fiber, env_payload = p\<rparr>
      (fst (rescue_fiber A fiber i p b)) (journal (snd (rescue_fiber A fiber i p b)))"
    and "lands (journal b) \<lparr>env_detached = True, env_fiber_id = fiber, env_payload = p\<rparr>
      (fst (detach_fiber A fiber i p b)) (journal (snd (detach_fiber A fiber i p b)))"
  using assms unfolding backend_ok_def by blast+

lemma record_keeps_mirror:
  assumes "backend_ok A journal" and "codec_ok (payload_type S) valid" and "valid event"
  shows "triple (mirrors S journal) (StoreInner_record A S domain_key event event_id)
     (\<lambda>_. clean S journal) (kept S journal)"
  unfolding StoreInner_record_def Let_def
proof (intro triple_bind [OF triple_lock] triple_bind [OF triple_encode]
    triple_bind [OF triple_open_session_encoded [OF assms(1)]])
  fix payload and handle :: FiberHandle and fiber
  let ?landing = "if is_detached handle
    then call_backend StoreError_from (rescue_fiber A fiber event_id payload)
    else call_backend StoreError_from (append_to_fiber A fiber event_id payload)"
  have wr: "triple (\<lambda>s. clean S journal s \<and> encode_event S event = Inr payload) ?landing
      (judged S journal (False, fiber, event)) (kept S journal)"
    by (cases "is_detached handle")
      (simp_all add: triple_write [OF assms(2,3)] backend_lands [OF assms(1)])
  show "triple (\<lambda>s. clean S journal s \<and> encode_event S event = Inr payload) (and_then_op ?landing (\<lambda>verdict.
      and_then_op (WriteKnowledge_accept verdict) (\<lambda>_.
      and_then_op (call_backend (\<lambda>e. after_landed (StoreError_from e)) (sync_session A)) (\<lambda>_.
      push_cached (False, fiber, event))))) (\<lambda>_. clean S journal) (kept S journal)"
    by (intro triple_bind [OF wr] triple_bind [OF triple_accept] triple_bind [OF triple_sync [OF assms(1)]]
        triple_push)
qed

lemma triple_detach_tail:
  "triple (\<lambda>s. clean S journal s \<or> pending S journal row s) (\<lambda>s.
     let landed = (knowledge s = WriteKnowledge.LandedKnown) in
     if landed then and_then_op (push_cached row) (\<lambda>_. done_op landed) s else (Inr landed, s))
     (\<lambda>_. clean S journal) (kept S journal)"
  by (auto simp: triple_def clean_def pending_def op_defs Let_def mirrors_def holds_journal_def
      simp del: split_paired_Ex)

lemma detach_keeps_mirror:
  assumes "backend_ok A journal" and "codec_ok (payload_type S) valid" and "valid event"
  shows "triple (mirrors S journal) (StoreInner_detach A S domain_key event event_id)
     (\<lambda>_. clean S journal) (kept S journal)"
  unfolding StoreInner_detach_def Let_def [of "derive_fiber_id A domain_key"]
proof (intro triple_bind [OF triple_lock] triple_bind [OF triple_encode]
    triple_bind [OF triple_open_session_encoded [OF assms(1)]])
  fix payload and handle :: FiberHandle and fiber
  let ?P = "\<lambda>s. clean S journal s \<and> encode_event S event = Inr payload"
  let ?land = "and_then_op (call_backend StoreError_from (detach_fiber A fiber event_id payload)) (\<lambda>verdict.
    and_then_op (WriteKnowledge_accept verdict) (\<lambda>_.
    call_backend (\<lambda>e. after_landed (StoreError_from e)) (sync_session A)))"
  have "triple ?P ?land (\<lambda>_. pending S journal (True, fiber, event)) (kept S journal)"
    by (intro triple_bind [OF triple_write [OF assms(2,3), where d = True and fiber = fiber]] triple_bind [OF triple_accept]
        triple_sync [OF assms(1)] backend_lands [OF assms(1)])
  then have "triple ?P (if is_active handle then ?land else done_op ())
      (\<lambda>_ s. clean S journal s \<or> pending S journal (True, fiber, event) s) (kept S journal)"
    by (cases "is_active handle") (auto intro: triple_done triple_conseq)
  from triple_bind [OF this triple_detach_tail]
  show "triple ?P (and_then_op (if is_active handle then ?land else done_op ()) (\<lambda>_ s.
      let landed = (knowledge s = WriteKnowledge.LandedKnown) in
      if landed then and_then_op (push_cached (True, fiber, event)) (\<lambda>_. done_op landed) s
      else (Inr landed, s))) (\<lambda>_. clean S journal) (kept S journal)" .
qed

lemma triple_read_authoritative:
  assumes "backend_ok A journal"
  shows "triple (clean S journal) (read_authoritative A S)
     (\<lambda>rows s. clean S journal s \<and> holds_journal S journal s rows) (kept S journal)"
  using assms unfolding read_authoritative_def triple_def backend_ok_def
  by (auto simp: op_defs holds_journal_def intro: clean_mirrors split: sum.splits)

lemma resync_keeps_mirror:
  assumes "backend_ok A journal"
  shows "triple (mirrors S journal) (resync_from_authoritative A S) (\<lambda>_. clean S journal) (kept S journal)"
  unfolding resync_from_authoritative_def
  by (intro triple_bind [OF triple_lock] triple_bind [OF triple_read_authoritative [OF assms]])
    (auto simp: triple_def clean_def holds_journal_def intro: clean_mirrors simp: mirrors_def)

lemma preflight_keeps_mirror:
  assumes "backend_ok A journal"
  shows "triple (mirrors S journal) (preflight_write_lease A) (\<lambda>_. clean S journal) (kept S journal)"
  unfolding preflight_write_lease_def
proof (intro triple_bind [OF triple_lock] triple_bind [where Q = "\<lambda>_. clean S journal"])
  show "triple (clean S journal) (try_backend (current_epoch A)) (\<lambda>_. clean S journal) (kept S journal)"
    by (rule triple_conseq [OF triple_try_backend [where P = "clean S journal"]]) (auto intro: clean_mirrors)
  show "triple (clean S journal) (call_backend StoreError_from (open_write A epoch))
      (\<lambda>_. clean S journal) (kept S journal)" for epoch
    by (rule triple_clean_call) (rule backend_keeps(1) [OF assms])
qed

fun call_event :: "'e StoreCall \<Rightarrow> 'e option" where
  "call_event (RecordCall _ event _) = Some event"
| "call_event (DetachCall _ event _) = Some event"
| "call_event _ = None"

definition calls_valid :: "('e \<Rightarrow> bool) \<Rightarrow> 'e StoreCall list \<Rightarrow> bool" where
  "calls_valid valid cs \<longleftrightarrow> (\<forall>c \<in> set cs. pred_option valid (call_event c))"

lemma run_call_keeps_mirror:
  assumes "backend_ok A journal" and "codec_ok (payload_type S) valid" and "pred_option valid (call_event c)"
    and "mirrors S journal s"
  shows "mirrors S journal (snd (run_call A S c s))"
proof -
  have "triple (mirrors S journal) (run_call A S c) (\<lambda>_. clean S journal) (kept S journal)"
    using assms(3)
  proof (cases c)
    case (DetachCall domain_key event event_id)
    with assms(3) show ?thesis
      by (auto intro!: triple_bind [OF detach_keeps_mirror [OF assms(1,2)]] triple_done)
  qed (simp_all add: record_keeps_mirror [OF assms(1,2)] resync_keeps_mirror [OF assms(1)]
      preflight_keeps_mirror [OF assms(1)])
  from tripleD [OF this assms(4) prod.collapse [symmetric]] show ?thesis
    by (auto intro: clean_mirrors split: sum.splits)
qed

lemma open_is_clean:
  assumes "backend_ok A journal" and "StoreInner_open A S b = Inr s"
  shows "clean S journal s" and "backend s = b" and "\<not> store_latched s"
proof -
  from assms(2) obtain rows where s: "s = fresh_store b rows"
      and rows: "fst (read_authoritative A S (fresh_store b [])) = Inr rows"
    by (auto simp: StoreInner_open_def split: sum.splits)
  from rows assms(1) have "decode_envelopes S (journal b) = Inr rows"
    by (auto simp: read_authoritative_def op_defs fresh_store_def backend_ok_def split: sum.splits prod.splits)
  with s show "clean S journal s" "backend s = b" "\<not> store_latched s"
    by (simp_all add: clean_def holds_journal_def fresh_store_def store_latched_def)
qed

lemma run_all_keeps_mirror:
  assumes "backend_ok A journal" and "codec_ok (payload_type S) valid" and "calls_valid valid cs"
    and "StoreInner_open A S b = Inr s"
  shows "mirrors S journal (snd (run_all (run_call A S) cs s))"
proof (rule run_all_invariant)
  show "mirrors S journal s" by (rule clean_mirrors) (rule open_is_clean(1) [OF assms(1,4)])
  show "mirrors S journal (snd (run_call A S c s'))" if "c \<in> set cs" "mirrors S journal s'" for c s'
    using that assms(3) by (intro run_call_keeps_mirror [OF assms(1,2)]) (simp_all add: calls_valid_def)
qed

text \<open>
  C11. A restart restores what was cached: after any run of writes, resynchronisations and lease checks
  from an opened store, opening the same backend again gives the cached events, in order; only when
  the store was latched may there be more, and then it is one event.
\<close>

theorem restart_restores_the_cache:
  assumes "backend_ok A journal" and "codec_ok (payload_type S) valid" and "calls_valid valid cs"
    and "StoreInner_open A S b = Inr s0" and "snd (run_all (run_call A S) cs s0) = s"
    and "StoreInner_open A S (backend s) = Inr s1"
  shows "cached s1 = cached s \<or> store_latched s \<and> (\<exists>row. cached s1 = cached s @ [row])"
proof -
  from run_all_keeps_mirror [OF assms(1-4)] assms(5) have "mirrors S journal s" by simp
  moreover from open_is_clean [OF assms(1,6)] have "holds_journal S journal s (cached s1)"
    by (simp add: clean_def holds_journal_def)
  ultimately show ?thesis by (auto simp: mirrors_def holds_journal_def store_latched_def)
qed

subsection \<open>Outcomes of a write\<close>

definition requires_reconciliation :: "StoreError \<Rightarrow> bool" where
  "requires_reconciliation e = (case e of
     StoreError.Indeterminate _ \<Rightarrow> True
   | StoreError.CreationUnknown _ \<Rightarrow> True
   | StoreError.LandedNeedsReconciliation \<Rightarrow> True
   | StoreError.AfterLanded _ \<Rightarrow> True
   | _ \<Rightarrow> False)"

lemma operation_failure_reconciled [simp]: "\<not> requires_reconciliation (StoreError_from e)"
  by (simp add: requires_reconciliation_def StoreError_from_def split: FailureCondition.split)

lemma reconciliation_simps [simp]:
  "\<not> requires_reconciliation (StoreError.Encode e)"
  "\<not> requires_reconciliation StoreError.Poisoned"
  "requires_reconciliation (StoreError.Indeterminate n)"
  "requires_reconciliation StoreError.LandedNeedsReconciliation"
  "requires_reconciliation (after_landed e')"
  by (simp_all add: requires_reconciliation_def after_landed_def)

text \<open>The state between the steps of a write, and the state a failed write leaves.\<close>

definition writing :: "'e CachedEvents \<Rightarrow> WriteKnowledge \<Rightarrow> ('b, 'e) StoreInner \<Rightarrow> bool" where
  "writing rows k s \<longleftrightarrow> cached s = rows \<and> knowledge s = k \<and> \<not> knowledge_poisoned s"

definition failed_write :: "'e CachedEvents \<Rightarrow> StoreError \<Rightarrow> ('b, 'e) StoreInner \<Rightarrow> bool" where
  "failed_write rows e s \<longleftrightarrow> cached s = rows \<and> (store_latched s \<longleftrightarrow> requires_reconciliation e)"

lemmas write_state_defs = writing_def failed_write_def store_latched_def

lemma step_lock:
  "triple (\<lambda>s. cached s = rows \<and> \<not> knowledge_poisoned s) lock_knowledge
     (\<lambda>_. writing rows WriteKnowledge.Ready) (failed_write rows)"
  by (auto simp: triple_def lock_knowledge_cases write_state_defs split: WriteKnowledge.splits)

lemma step_encode:
  "triple (writing rows WriteKnowledge.Ready) (try_op (encode_event S event))
     (\<lambda>_. writing rows WriteKnowledge.Ready) (failed_write rows)"
  by (auto simp: triple_def try_op_def encode_event_def write_state_defs split: sum.splits)

lemma step_call:
  "triple (writing rows WriteKnowledge.Ready) (call_backend StoreError_from f)
     (\<lambda>_. writing rows WriteKnowledge.Ready) (failed_write rows)"
  by (rule triple_call_backend) (auto simp: write_state_defs)

lemma step_session:
  "triple (writing rows WriteKnowledge.Ready) (open_session A fiber)
     (\<lambda>_. writing rows WriteKnowledge.Ready) (failed_write rows)"
  unfolding open_session_def
  by (intro triple_bind [OF _ triple_bind [OF step_call step_call]]
      triple_conseq [OF triple_try_backend [where P = "writing rows WriteKnowledge.Ready"]])
    (auto simp: write_state_defs)

lemma step_accept:
  "triple (writing rows WriteKnowledge.Ready) (WriteKnowledge_accept verdict)
     (\<lambda>_. writing rows WriteKnowledge.LandedKnown) (failed_write rows)"
  by (auto simp: triple_def WriteKnowledge_accept_def write_state_defs split: WriteLandingVerdict.splits)

lemma step_sync:
  "triple (writing rows WriteKnowledge.LandedKnown) (call_backend (\<lambda>e. after_landed (StoreError_from e)) f)
     (\<lambda>_. writing rows WriteKnowledge.LandedKnown) (failed_write rows)"
  by (rule triple_call_backend) (auto simp: write_state_defs)

lemma step_push:
  "triple (writing rows WriteKnowledge.LandedKnown) (push_cached row)
     (\<lambda>_. writing (rows @ [row]) WriteKnowledge.Ready) (failed_write rows)"
  by (auto simp: triple_def push_cached_def write_state_defs)

lemma record_steps:
  "triple (\<lambda>s. cached s = rows \<and> \<not> knowledge_poisoned s) (StoreInner_record A S domain_key event event_id)
     (\<lambda>_. writing (rows @ [(False, derive_fiber_id A domain_key, event)]) WriteKnowledge.Ready) (failed_write rows)"
  unfolding StoreInner_record_def Let_def
  by (intro triple_bind [OF step_lock] triple_bind [OF step_encode] triple_bind [OF step_session]
      triple_bind [where Q = "\<lambda>_. writing rows WriteKnowledge.Ready"] triple_bind [OF step_accept]
      triple_bind [OF step_sync] step_push) (simp add: step_call)

lemma detach_steps:
  "triple (\<lambda>s. cached s = rows \<and> \<not> knowledge_poisoned s) (StoreInner_detach A S domain_key event event_id)
     (\<lambda>landed. writing (if landed then rows @ [(True, derive_fiber_id A domain_key, event)] else rows)
        WriteKnowledge.Ready) (failed_write rows)"
  unfolding StoreInner_detach_def Let_def [of "derive_fiber_id A domain_key"]
proof (intro triple_bind [OF step_lock] triple_bind [OF step_encode] triple_bind [OF step_session])
  fix payload and handle :: FiberHandle and fiber
  let ?land = "and_then_op (call_backend StoreError_from (detach_fiber A fiber event_id payload)) (\<lambda>verdict.
    and_then_op (WriteKnowledge_accept verdict) (\<lambda>_.
    call_backend (\<lambda>e. after_landed (StoreError_from e)) (sync_session A)))"
  have "triple (writing rows WriteKnowledge.Ready) ?land (\<lambda>_. writing rows WriteKnowledge.LandedKnown) (failed_write rows)"
    by (intro triple_bind [OF step_call] triple_bind [OF step_accept] step_sync)
  then have branch: "triple (writing rows WriteKnowledge.Ready) (if is_active handle then ?land else done_op ())
      (\<lambda>_ s. writing rows WriteKnowledge.Ready s \<or> writing rows WriteKnowledge.LandedKnown s) (failed_write rows)"
    by (cases "is_active handle") (auto intro: triple_done triple_conseq)
  show "triple (writing rows WriteKnowledge.Ready) (and_then_op (if is_active handle then ?land else done_op ()) (\<lambda>_ s.
      let landed = (knowledge s = WriteKnowledge.LandedKnown) in
      if landed then and_then_op (push_cached (True, fiber, event)) (\<lambda>_. done_op landed) s
      else (Inr landed, s)))
      (\<lambda>landed. writing (if landed then rows @ [(True, fiber, event)] else rows) WriteKnowledge.Ready)
      (failed_write rows)"
    by (rule triple_bind [OF branch]) (auto simp: triple_def op_defs write_state_defs)
qed

lemma record_outcome:
  assumes "\<not> knowledge_poisoned s"
  shows "case StoreInner_record A S domain_key event event_id s of
      (Inr _, s') \<Rightarrow> cached s' = cached s @ [(False, derive_fiber_id A domain_key, event)] \<and> \<not> store_latched s'
    | (Inl e, s') \<Rightarrow> cached s' = cached s \<and> (store_latched s' \<longleftrightarrow> requires_reconciliation e)"
proof -
  have "cached s = cached s \<and> \<not> knowledge_poisoned s" using assms by simp
  from tripleD [OF record_steps this prod.collapse [symmetric], of A S domain_key event event_id]
  show ?thesis by (auto simp: write_state_defs split: prod.splits sum.splits)
qed

lemma detach_outcome:
  assumes "\<not> knowledge_poisoned s"
  shows "case StoreInner_detach A S domain_key event event_id s of
      (Inr landed, s') \<Rightarrow> cached s' = cached s @ (if landed then [(True, derive_fiber_id A domain_key, event)] else [])
        \<and> \<not> store_latched s'
    | (Inl e, s') \<Rightarrow> cached s' = cached s \<and> (store_latched s' \<longleftrightarrow> requires_reconciliation e)"
proof -
  have "cached s = cached s \<and> \<not> knowledge_poisoned s" using assms by simp
  from tripleD [OF detach_steps this prod.collapse [symmetric], of A S domain_key event event_id]
  show ?thesis by (auto simp: write_state_defs split: prod.splits sum.splits)
qed

text \<open>
  The outcome of a write: a successful record adds one live row to the cache, a successful detach one
  detached row or none, and either leaves the store open; a failed write leaves the cache as it was,
  and the store is latched exactly when the error says that reconciliation is required.
\<close>

theorem write_outcome:
  assumes "\<not> knowledge_poisoned s"
  shows "(case StoreInner_record A S domain_key event event_id s of
      (Inr _, s') \<Rightarrow> cached s' = cached s @ [(False, derive_fiber_id A domain_key, event)] \<and> \<not> store_latched s'
    | (Inl e, s') \<Rightarrow> cached s' = cached s \<and> (store_latched s' \<longleftrightarrow> requires_reconciliation e)) \<and>
   (case StoreInner_detach A S domain_key event event_id s of
      (Inr landed, s') \<Rightarrow> cached s' = cached s @ (if landed then [(True, derive_fiber_id A domain_key, event)] else [])
        \<and> \<not> store_latched s'
    | (Inl e, s') \<Rightarrow> cached s' = cached s \<and> (store_latched s' \<longleftrightarrow> requires_reconciliation e))"
  by (rule conjI [OF record_outcome [OF assms] detach_outcome [OF assms]])

subsection \<open>The live events\<close>

text \<open>The latest event of every fiber whose last row is not a detach, as a map.\<close>

definition live :: "'e CachedEvents \<Rightarrow> fiber_id \<Rightarrow> 'e option" where
  "live rows =
     fold (\<lambda>(detached, fiber, event) m. m(fiber := if detached then None else Some event)) rows Map.empty"

lemma live_Nil [simp]: "live [] = Map.empty"
  by (simp add: live_def)

lemma live_snoc [simp]:
  "live (rows @ [(detached, fiber, event)]) = (live rows)(fiber := if detached then None else Some event)"
  by (simp add: live_def)

lemma decode_envelopes_snocD:
  assumes "decode_envelopes S (js @ [env]) = Inr rows"
  shows "\<exists>rows' event. decode_envelopes S js = Inr rows' \<and>
     rows = rows' @ [(env_detached env, env_fiber_id env, event)]"
  using assms by (induction js arbitrary: rows) (fastforce split: sum.splits)+

lemma live_decoded:
  assumes "decode_envelopes S js = Inr rows"
  shows "fiber_state js fiber = Some False \<longleftrightarrow> live rows fiber \<noteq> None"
  using assms
proof (induction js arbitrary: rows rule: rev_induct)
  case (snoc env js)
  then obtain rows' event where rows: "decode_envelopes S js = Inr rows'"
      "rows = rows' @ [(env_detached env, env_fiber_id env, event)]"
    using decode_envelopes_snocD by blast
  with snoc.IH [OF rows(1)] show ?case by (auto simp: fiber_state_def)
qed (simp add: fiber_state_def)

text \<open>The abstract store: a map from fibers to their latest event.\<close>

fun abstract_call :: "'b Pardosa \<Rightarrow> 'e StoreCall \<Rightarrow> (fiber_id \<rightharpoonup> 'e) \<Rightarrow> (fiber_id \<rightharpoonup> 'e)" where
  "abstract_call A (RecordCall domain_key event _) m = m(derive_fiber_id A domain_key \<mapsto> event)"
| "abstract_call A (DetachCall domain_key _ _) m = m(derive_fiber_id A domain_key := None)"
| "abstract_call A _ m = m"

lemma detach_not_landed:
  assumes "backend_ok A journal" and "clean S journal s"
    and "StoreInner_detach A S domain_key event event_id s = (Inr False, s')"
  shows "live (cached s) (derive_fiber_id A domain_key) = None"
proof -
  let ?f = "derive_fiber_id A domain_key"
  have live: "fiber_state (journal (backend s)) ?f = Some False \<longleftrightarrow> live (cached s) ?f \<noteq> None"
    using assms(2) live_decoded by (fastforce simp: clean_def holds_journal_def)
  have "fiber_state (journal (backend s)) ?f \<noteq> Some False"
  proof
    assume "fiber_state (journal (backend s)) ?f = Some False"
    with assms(1) backend_keeps(1) [OF assms(1)]
    have act: "open_write A epoch (backend s) = (r, b) \<Longrightarrow> session_fiber A ?f b = (Inr h, b') \<Longrightarrow> is_active h" for epoch r b h b'
      unfolding backend_ok_def by (metis fst_conv)
    from assms(3) show False
      by (auto simp: StoreInner_detach_def open_session_def op_defs Let_def dest: act
          split: sum.splits prod.splits if_splits WriteLandingVerdict.splits)
  qed
  with live show ?thesis by simp
qed

lemma unlatched_clean: "mirrors S journal s \<Longrightarrow> \<not> store_latched s \<Longrightarrow> clean S journal s"
  by (auto simp: mirrors_def store_latched_def clean_def)

lemma other_calls_keep_cache:
  assumes "backend_ok A journal" and "clean S journal s"
  shows "cached (snd (resync_from_authoritative A S s)) = cached s"
    and "cached (snd (preflight_write_lease A s)) = cached s"
  using assms by (auto simp: resync_from_authoritative_def read_authoritative_def preflight_write_lease_def
      op_defs clean_def holds_journal_def backend_ok_def split: sum.splits prod.splits WriteKnowledge.splits)

text \<open>
  C12. The store refines a map from fibers to their latest event: on a store that mirrors its journal, a
  successful record binds the fiber of the key, a successful detach unbinds it whether or not a row
  was written, the other calls keep the map, and a failed call of any kind keeps it too.
\<close>

theorem store_refines_map:
  assumes "backend_ok A journal" and "mirrors S journal s" and "run_call A S c s = (r, s')"
  shows "live (cached s') =
    (case r of Inr _ \<Rightarrow> abstract_call A c (live (cached s)) | Inl _ \<Rightarrow> live (cached s))"
proof (cases "store_latched s")
  case True
  with latched_store_refuses [of s A S c] assms(3) show ?thesis by auto
next
  case False
  from False assms(2) have clean: "clean S journal s" by (rule unlatched_clean [rotated])
  from False have np: "\<not> knowledge_poisoned s" by (simp add: store_latched_def)
  show ?thesis
  proof (cases c)
    case (RecordCall domain_key event event_id)
    with record_outcome [OF np, where A = A and S = S and domain_key = domain_key and event = event
        and event_id = event_id] assms(3)
    show ?thesis by (auto split: prod.splits sum.splits)
  next
    case (DetachCall domain_key event event_id)
    have "live (cached s) = (live (cached s))(derive_fiber_id A domain_key := None)"
      if "StoreInner_detach A S domain_key event event_id s = (Inr False, s')"
      using detach_not_landed [OF assms(1) clean that] by (simp add: fun_upd_idem)
    with DetachCall detach_outcome [OF np, where A = A and S = S and domain_key = domain_key
        and event = event and event_id = event_id] assms(3)
    show ?thesis by (auto simp: and_then_op_def done_op_def split: prod.splits sum.splits if_splits)
  qed (use other_calls_keep_cache [OF assms(1) clean] assms(3) in \<open>auto split: sum.splits\<close>)
qed

subsection \<open>The latest event of every live fiber\<close>

lemma latest_rows:
  "map_of (fold (latest_step key_fn) rows []) = (\<lambda>fiber. map_option (\<lambda>e. (key_fn e, e)) (live rows fiber))"
proof (induction rows rule: rev_induct)
  case (snoc row rows)
  then show ?case
    by (cases row) (auto simp: AList.update_conv' AList.delete_conv' fun_eq_iff)
qed simp

lemma latest_rows_distinct: "distinct (map fst (fold (latest_step key_fn) rows []))"
proof (induction rows rule: rev_induct)
  case (snoc row rows)
  then show ?case by (cases row) (auto simp: AList.distinct_update AList.distinct_delete)
qed simp

text \<open>
  \<open>latest_per_repo\<close> returns, for an open store, one pair for each live fiber, of its latest event and
  that event's key, and nothing else; it does not change the store.
\<close>

theorem latest_per_repo_exact:
  assumes "\<not> store_latched s" and "\<not> cached_poisoned s"
  shows "\<exists>res. latest_per_repo s = (Inr res, s) \<and>
     set res = {(DomainEvent_key e, e) |e. \<exists>fiber. live (cached s) fiber = Some e} \<and>
     length res = card (dom (live (cached s)))"
proof -
  let ?rows = "fold (latest_step DomainEvent_key) (cached s) []"
  have "latest_per_repo s = (Inr (map snd ?rows), s)"
    using assms by (simp add: latest_per_repo_def latest_defined_def op_defs store_latched_def)
  moreover have "set ?rows = {(f, v). map_of ?rows f = Some v}"
    using latest_rows_distinct [of DomainEvent_key "cached s"] by auto
  then have "set (map snd ?rows) = {(DomainEvent_key e, e) |e. \<exists>fiber. live (cached s) fiber = Some e}"
    by (auto simp: latest_rows image_iff)
  moreover have "dom (live (cached s)) = fst ` set ?rows"
    using dom_map_of_conv_image_fst [of ?rows] by (simp add: latest_rows dom_def)
  then have "length (map snd ?rows) = card (dom (live (cached s)))"
    using latest_rows_distinct [of DomainEvent_key "cached s"] distinct_card [of "map fst ?rows"] by simp
  ultimately show ?thesis by blast
qed

text \<open>
  Creating a store never touches an existing one: when any artefact is present, creation fails with
  \<open>AlreadyExists\<close> and leaves the backend as it was; an opened store is always one whose metadata has
  the identity of the expected schema.
\<close>

theorem create_refuses_existing:
  assumes "admit_descriptor A (expected_descriptor S) = Inr desc" and "try_presence A b = Inr presence"
    and "presence \<noteq> ArtefactPresence.NoArtefact"
  shows "\<exists>e s. StoreInner_create A S label b = (Inl e, s) \<and> is_already_exists e \<and> backend s = b \<and>
     (StoreInner_open A S b = Inr s' \<longrightarrow> (\<exists>d. open_read A b = Inr (Some d) \<and>
        descriptor_identity A d = descriptor_identity A (expected_descriptor S)))"
proof -
  from assms(3) obtain f where f: "require_absent presence = Inl (StoreError.AlreadyExists f)"
    by (cases presence) (auto simp: require_absent_def)
  with assms(1,2) have "StoreInner_create A S label b = (Inl (StoreError.AlreadyExists f), fresh_store b [])"
    by (simp add: StoreInner_create_def op_defs fresh_store_def)
  then show ?thesis
    by (auto simp: is_already_exists_def fresh_store_def StoreInner_open_def read_authoritative_def op_defs
        verify_schema_descriptor_def split: sum.splits option.splits if_splits)
qed

subsection \<open>A healthy backend\<close>

definition healthy :: "'b Pardosa \<Rightarrow> 'e PardosaSchema \<Rightarrow> bool" where
  "healthy A S \<longleftrightarrow>
     (\<forall>b. \<not> isl (current_epoch A b)) \<and>
     (\<forall>epoch b. fst (open_write A epoch b) = Inr ()) \<and>
     (\<forall>fiber b. \<not> isl (fst (session_fiber A fiber b))) \<and>
     (\<forall>fiber i p b. fst (append_to_fiber A fiber i p b) = Inr (WriteLandingVerdict.Landed ())) \<and>
     (\<forall>fiber i p b. fst (rescue_fiber A fiber i p b) = Inr (WriteLandingVerdict.Landed ())) \<and>
     (\<forall>fiber i p b. fst (detach_fiber A fiber i p b) = Inr (WriteLandingVerdict.Landed ())) \<and>
     (\<forall>b. fst (sync_session A b) = Inr ()) \<and>
     (\<forall>b. \<exists>d. open_read A b = Inr (Some d) \<and>
        descriptor_identity A d = descriptor_identity A (expected_descriptor S)) \<and>
     (\<forall>b. \<not> isl (read_all_envelopes A b))"

lemma call_backend_succeeds:
  "\<not> isl (fst (f (backend s))) \<Longrightarrow>
   call_backend failed f s = (Inr (projr (fst (f (backend s)))), s\<lparr>backend := snd (f (backend s))\<rparr>)"
  by (cases "f (backend s)") (auto simp: call_backend_def split: sum.splits)

lemma try_backend_succeeds:
  "\<not> isl (f (backend s)) \<Longrightarrow> try_backend f s = (Inr (projr (f (backend s))), s)"
  by (auto simp: try_backend_def split: sum.splits)

lemmas healthy_simps = call_backend_succeeds try_backend_succeeds healthy_def and_then_op_def
  done_op_def try_op_def WriteKnowledge_accept_def push_cached_def lock_knowledge_cases

lemma run_call_succeeds:
  assumes "healthy A S" and "backend_ok A journal" and "total_type (payload_type S)"
    and "clean S journal s" and "\<not> store_latched s" and "\<not> cached_poisoned s"
  shows "\<exists>s'. run_call A S c s = (Inr (), s') \<and> \<not> store_latched s' \<and> \<not> cached_poisoned s'"
proof -
  have enc: "\<exists>p. encode_event S e = Inr p" for e
  proof -
    obtain p where "encode_type (payload_type S) e [] = Inr p"
      using assms(3) unfolding total_type_def by blast
    then show ?thesis by (simp add: encode_event_def encode_payload_def)
  qed
  show ?thesis
  proof (cases c)
    case (RecordCall domain_key event event_id)
    with assms enc [of event] show ?thesis
      by (auto simp: StoreInner_record_def open_session_def healthy_simps store_latched_def Let_def)
  next
    case (DetachCall domain_key event event_id)
    with assms enc [of event] show ?thesis
      by (auto simp: StoreInner_detach_def open_session_def healthy_simps store_latched_def Let_def)
  next
    case ResyncCall
    obtain d where "open_read A (backend s) = Inr (Some d)"
        "descriptor_identity A d = descriptor_identity A (expected_descriptor S)"
      using assms(1) unfolding healthy_def by metis
    moreover have "read_all_envelopes A (backend s) = Inr (journal (backend s))"
      using assms(1,2) unfolding healthy_def backend_ok_def by (metis sum.collapse(2))
    ultimately show ?thesis using ResyncCall assms
      by (simp add: resync_from_authoritative_def read_authoritative_def op_defs verify_schema_descriptor_def
          store_latched_def clean_def holds_journal_def)
  next
    case PreflightCall
    with assms show ?thesis by (simp add: preflight_write_lease_def healthy_simps store_latched_def)
  qed
qed

text \<open>
  C13. On a healthy backend the store does not get stuck: from an opened store, every call of any run of
  valid events, in any order, succeeds, and the store is still open at the end.
\<close>

theorem healthy_store_makes_progress:
  assumes "healthy A S" and "backend_ok A journal" and "total_type (payload_type S)"
    and "codec_ok (payload_type S) valid" and "calls_valid valid cs" and "StoreInner_open A S b = Inr s"
  shows "fst (run_all (run_call A S) cs s) = replicate (length cs) (Inr ()) \<and>
     \<not> store_latched (snd (run_all (run_call A S) cs s))"
proof -
  have "\<not> cached_poisoned s" using assms(6) by (auto simp: StoreInner_open_def fresh_store_def split: sum.splits)
  moreover note open_is_clean(1,3) [OF assms(2,6)]
  ultimately show ?thesis using assms(5)
  proof (induction cs arbitrary: s)
    case (Cons c cs)
    from run_call_succeeds [OF assms(1-3) Cons.prems(2,3,1)] obtain s' where
      s': "run_call A S c s = (Inr (), s')" "\<not> store_latched s'" "\<not> cached_poisoned s'" by blast
    have "mirrors S journal s'"
      using run_call_keeps_mirror [OF assms(2,4) _ clean_mirrors [OF Cons.prems(2)], of c] s'(1) Cons.prems(4)
      by (simp add: calls_valid_def)
    then have "clean S journal s'" using s'(2) by (rule unlatched_clean)
    with Cons.IH [of s'] s' Cons.prems(4) show ?case by (simp add: calls_valid_def case_prod_beta)
  qed simp
qed

subsection \<open>An in-memory backend\<close>

text \<open>
  A backend that is its own journal: its writes land, and are reported as undetermined when the flag
  is set. It satisfies the laws, so they can hold.
\<close>

definition sample_land ::
    "bool \<Rightarrow> bool \<Rightarrow> fiber_id \<Rightarrow> uuid \<Rightarrow> u8 list \<Rightarrow> (Envelope list, unit WriteLandingVerdict) backend_call" where
  "sample_land unsure d fiber i p js =
     (Inr (if unsure then WriteLandingVerdict.Undetermined 7 else WriteLandingVerdict.Landed ()),
      js @ [\<lparr>env_detached = d, env_fiber_id = fiber, env_payload = p\<rparr>])"

definition sample_pardosa :: "bool \<Rightarrow> Envelope list Pardosa" where
  "sample_pardosa unsure = \<lparr>
     derive_fiber_id = (\<lambda>k. word_of_nat (fold (\<lambda>c n. 256 * n + of_char c) k 0)),
     descriptor_identity = descriptor_node,
     admit_descriptor = Inr,
     own_process_id = 42,
     try_presence = (\<lambda>js. Inr (if js = [] then ArtefactPresence.NoArtefact else ArtefactPresence.Both)),
     create_session = (\<lambda>_ _ js. (Inr (), js)),
     open_read = (\<lambda>_. Inr (Some \<lparr>descriptor_version = 4, descriptor_node = ''node''\<rparr>)),
     read_all_envelopes = Inr,
     current_epoch = (\<lambda>_. Inr 1),
     open_write = (\<lambda>_ js. (Inr (), js)),
     session_fiber = (\<lambda>fiber js. (Inr \<lparr>is_active = (fiber_state js fiber = Some False),
       is_detached = (fiber_state js fiber = Some True)\<rparr>, js)),
     append_to_fiber = sample_land unsure False,
     rescue_fiber = sample_land unsure False,
     detach_fiber = sample_land unsure True,
     sync_session = (\<lambda>js. (Inr (), js))\<rparr>"

lemma sample_pardosa_ok: "backend_ok (sample_pardosa unsure) (\<lambda>js. js)"
  by (simp add: backend_ok_def sample_pardosa_def sample_land_def lands_def)

definition sample_schema :: "DomainEvent PardosaSchema" where
  "sample_schema = DomainEvent_schema sample_prims ''node''"

lemma sample_schema_codec: "codec_ok (payload_type sample_schema) DomainEvent_ok"
  using DomainEvent_codec [OF sample_prims_ok] by (simp add: sample_schema_def DomainEvent_schema_def)

abbreviation sample_deleted :: DomainEvent where
  "sample_deleted \<equiv> DomainEvent.RepositoryDeleted ''o/r'' ''r'' 7"

definition sample_calls :: "DomainEvent StoreCall list" where
  "sample_calls = [RecordCall ''o/r'' sample_deleted 1, DetachCall ''o/r'' sample_deleted 2, ResyncCall]"

lemma sample_healthy: "healthy (sample_pardosa False) sample_schema"
  by (simp add: healthy_def sample_pardosa_def sample_land_def sample_schema_def DomainEvent_schema_def
      expected_descriptor_def)

lemma sample_schema_total: "total_type (payload_type sample_schema)"
  using DomainEvent_total [OF sample_prims_total] by (simp add: sample_schema_def DomainEvent_schema_def)

lemma sample_open: "StoreInner_open (sample_pardosa unsure) sample_schema [] = Inr (fresh_store [] [])"
  by (simp add: StoreInner_open_def read_authoritative_def op_defs fresh_store_def sample_pardosa_def
      sample_schema_def DomainEvent_schema_def expected_descriptor_def verify_schema_descriptor_def)

lemma sample_encode:
  obtains p where "encode_event sample_schema e = Inr p"
  using sample_schema_total unfolding total_type_def encode_event_def encode_payload_def
  by (metis sum.case(2))

lemma sample_calls_valid: "calls_valid DomainEvent_ok sample_calls"
  by (simp add: calls_valid_def sample_calls_def)

theorem healthy_store_makes_progress_witness:
  "fst (run_all (run_call (sample_pardosa False) sample_schema) sample_calls (fresh_store [] [])) =
     [Inr (), Inr (), Inr ()]"
  using healthy_store_makes_progress [OF sample_healthy sample_pardosa_ok sample_schema_total
      sample_schema_codec sample_calls_valid sample_open]
  by (simp add: sample_calls_def numeral_3_eq_3)

text \<open>
  A latched store is inert: whatever is asked of it, every call fails and nothing changes, neither the
  store nor the backend, and every reader of the cache is refused too.
\<close>

theorem latched_store_is_inert:
  assumes "store_latched s"
  shows "snd (run_all (run_call A S) cs s) = s \<and>
     list_all isl (fst (run_all (run_call A S) cs s)) \<and>
     isl (fst (StoreInner_events s)) \<and> isl (fst (StoreInner_fold_events init f s)) \<and>
     isl (fst (fold_defined_events init g s)) \<and> isl (fst (latest_defined key_fn s))"
  using store_latch.latch_is_permanent [OF assms, of A S cs] assms
  by (auto simp: list_all_iff StoreInner_events_def StoreInner_fold_events_def fold_defined_events_def
      latest_defined_def lock_cached_def and_then_op_def lock_knowledge_cases)

definition sample_latched :: "(Envelope list, DomainEvent) StoreInner" where
  "sample_latched = snd (StoreInner_record (sample_pardosa True) sample_schema ''o/r'' sample_deleted 1
     (fresh_store [] []))"

lemma sample_latched_latched: "store_latched sample_latched \<and> cached sample_latched = [] \<and> length (backend sample_latched) = 1"
proof -
  obtain p where "encode_event sample_schema sample_deleted = Inr p" by (rule sample_encode)
  then show ?thesis
    by (simp add: sample_latched_def StoreInner_record_def open_session_def op_defs fresh_store_def Let_def
        sample_pardosa_def sample_land_def store_latched_def fiber_state_def)
qed

theorem latched_store_is_inert_witness:
  "snd (run_all (run_call (sample_pardosa False) sample_schema) sample_calls sample_latched) = sample_latched \<and>
   list_all isl (fst (run_all (run_call (sample_pardosa False) sample_schema) sample_calls sample_latched))"
proof -
  from sample_latched_latched have "store_latched sample_latched" by simp
  from latched_store_is_inert [OF this, where A = "sample_pardosa False" and S = sample_schema and cs = sample_calls
      and init = "0 :: nat" and f = "\<lambda>n _ _. n" and g = "\<lambda>n _. n" and key_fn = DomainEvent_key]
  show ?thesis by simp
qed

theorem write_outcome_witness:
  "case StoreInner_record (sample_pardosa True) sample_schema ''o/r'' sample_deleted 1 (fresh_store [] []) of
     (Inr _, s') \<Rightarrow> cached s' = [(False, derive_fiber_id (sample_pardosa True) ''o/r'', sample_deleted)]
       \<and> \<not> store_latched s'
   | (Inl e, s') \<Rightarrow> cached s' = [] \<and> (store_latched s' \<longleftrightarrow> requires_reconciliation e)"
  using write_outcome [of "fresh_store [] []", where A = "sample_pardosa True" and S = sample_schema
      and domain_key = "''o/r''" and event = sample_deleted and event_id = 1]
  by (auto simp: fresh_store_def split: prod.splits sum.splits)

lemma sample_latched_opens:
  "\<exists>s1. StoreInner_open (sample_pardosa True) sample_schema (backend sample_latched) = Inr s1"
proof -
  obtain p where p: "encode_event sample_schema sample_deleted = Inr p" by (rule sample_encode)
  from encode_event_decodes [OF sample_schema_codec _ p]
  have "decode_payload (payload_type sample_schema) p = Inr sample_deleted" by simp
  with p show ?thesis
    by (simp add: sample_latched_def StoreInner_record_def open_session_def op_defs fresh_store_def Let_def
        sample_pardosa_def sample_land_def fiber_state_def StoreInner_open_def read_authoritative_def
        verify_schema_descriptor_def sample_schema_def DomainEvent_schema_def expected_descriptor_def)
qed

theorem restart_restores_the_cache_witness:
  "\<exists>s1. StoreInner_open (sample_pardosa True) sample_schema (backend sample_latched) = Inr s1 \<and>
     (cached s1 = [] \<or> (\<exists>row. cached s1 = [row]))"
proof -
  obtain s1 where s1: "StoreInner_open (sample_pardosa True) sample_schema (backend sample_latched) = Inr s1"
    using sample_latched_opens by blast
  have "calls_valid DomainEvent_ok [RecordCall ''o/r'' sample_deleted 1]" by (simp add: calls_valid_def)
  from restart_restores_the_cache [OF sample_pardosa_ok sample_schema_codec this sample_open _ s1]
    sample_latched_latched s1 show ?thesis
    by (auto simp: sample_latched_def case_prod_beta)
qed

theorem store_refines_map_witness:
  "\<exists>r s'. run_call (sample_pardosa False) sample_schema (RecordCall ''o/r'' sample_deleted 1)
     (fresh_store [] []) = (r, s') \<and>
   live (cached s') = (case r of Inr _ \<Rightarrow> [derive_fiber_id (sample_pardosa False) ''o/r'' \<mapsto> sample_deleted]
     | Inl _ \<Rightarrow> Map.empty)"
proof -
  let ?res = "run_call (sample_pardosa False) sample_schema (RecordCall ''o/r'' sample_deleted 1)
    (fresh_store [] [])"
  have "mirrors sample_schema (\<lambda>js. js) (fresh_store [] [])"
    by (rule clean_mirrors) (rule open_is_clean(1) [OF sample_pardosa_ok sample_open])
  from store_refines_map [OF sample_pardosa_ok this prod.collapse [symmetric],
      of False "RecordCall ''o/r'' sample_deleted 1"]
  have "live (cached (snd ?res)) = (case fst ?res of
      Inr _ \<Rightarrow> [derive_fiber_id (sample_pardosa False) ''o/r'' \<mapsto> sample_deleted] | Inl _ \<Rightarrow> Map.empty)"
    by (auto simp: fresh_store_def split: sum.splits)
  then show ?thesis by (intro exI [of _ "fst ?res"] exI [of _ "snd ?res"]) simp
qed

theorem latest_per_repo_exact_witness:
  "\<exists>res. latest_per_repo (fresh_store [] [(False, 1, sample_deleted), (False, 2, sample_deleted), (True, 1, sample_deleted)])
     = (Inr res, fresh_store [] [(False, 1, sample_deleted), (False, 2, sample_deleted), (True, 1, sample_deleted)])
   \<and> set res = {(''o/r'', sample_deleted)}"
  using latest_per_repo_exact [of "fresh_store [] [(False, 1, sample_deleted), (False, 2, sample_deleted),
      (True, 1, sample_deleted)]"]
  by (auto simp: fresh_store_def store_latched_def live_def split: if_splits)

theorem create_refuses_existing_witness:
  "\<exists>e s. StoreInner_create (sample_pardosa False) sample_schema ''gh-report-repos''
     [\<lparr>env_detached = False, env_fiber_id = 1, env_payload = []\<rparr>] = (Inl e, s) \<and> is_already_exists e"
proof -
  have "admit_descriptor (sample_pardosa False) (expected_descriptor sample_schema) = Inr (expected_descriptor sample_schema)"
    and "try_presence (sample_pardosa False) [\<lparr>env_detached = False, env_fiber_id = 1, env_payload = []\<rparr>] =
      Inr ArtefactPresence.Both"
    by (simp_all add: sample_pardosa_def)
  from create_refuses_existing [OF this] show ?thesis by blast
qed

end
