(* ===== verification/Event_Laws.thy ===== *)
theory Event_Laws
  imports Event_Convert
begin

text \<open>
  Laws of the event conversions. The conversions of plain enumerations and facts are bijections
  (locale \<open>conversion\<close>). Storing a value and reading it back gives the value with its instants in
  canonical form and nothing else changed; storing the canonical form again gives the same event.
\<close>

named_theorems conversion_simps \<open>the two directions of a conversion cancel\<close>

locale conversion =
  fixes into :: "'a \<Rightarrow> 'b" and restore :: "'b \<Rightarrow> 'a"
  assumes from_into: "restore (into x) = x" and into_from: "into (restore y) = y"
begin

lemma into_inject: "into x = into x' \<longleftrightarrow> x = x'"
  by (metis from_into)

lemma map_from_into: "map restore (map into xs) = xs"
  by (simp add: from_into comp_def)

end

interpretation conv_Visibility: conversion Visibility_into Visibility_from
  by unfold_locales (simp_all add: Visibility_into_def Visibility_from_def conversion_simps split: Visibility.split Visibility_ev.split)

declare conv_Visibility.from_into [conversion_simps] conv_Visibility.into_from [conversion_simps]

interpretation conv_DependabotStatus: conversion DependabotStatus_into DependabotStatus_from
  by unfold_locales (simp_all add: DependabotStatus_into_def DependabotStatus_from_def conversion_simps split: DependabotStatus.split DependabotStatus_ev.split)

declare conv_DependabotStatus.from_into [conversion_simps] conv_DependabotStatus.into_from [conversion_simps]

interpretation conv_CodeownersTruncationReason: conversion CodeownersTruncationReason_into CodeownersTruncationReason_from
  by unfold_locales (simp_all add: CodeownersTruncationReason_into_def CodeownersTruncationReason_from_def conversion_simps split: CodeownersTruncationReason.split CodeownersTruncationReason_ev.split)

declare conv_CodeownersTruncationReason.from_into [conversion_simps] conv_CodeownersTruncationReason.into_from [conversion_simps]

interpretation conv_TokenTier: conversion TokenTier_into TokenTier_from
  by unfold_locales (simp_all add: TokenTier_into_def TokenTier_from_def conversion_simps split: TokenTier.split TokenTier_ev.split)

declare conv_TokenTier.from_into [conversion_simps] conv_TokenTier.into_from [conversion_simps]

interpretation conv_Capability: conversion Capability_into Capability_from
  by unfold_locales (simp_all add: Capability_into_def Capability_from_def conversion_simps split: Capability.split Capability_ev.split)

declare conv_Capability.from_into [conversion_simps] conv_Capability.into_from [conversion_simps]

interpretation conv_AuthMode: conversion AuthMode_into AuthMode_from
  by unfold_locales (simp_all add: AuthMode_into_def AuthMode_from_def conversion_simps split: AuthMode.split AuthMode_ev.split)

declare conv_AuthMode.from_into [conversion_simps] conv_AuthMode.into_from [conversion_simps]

interpretation conv_CollectionStatus: conversion CollectionStatus_into CollectionStatus_from
  by unfold_locales (simp_all add: CollectionStatus_into_def CollectionStatus_from_def conversion_simps split: CollectionStatus.split CollectionStatus_ev.split)

declare conv_CollectionStatus.from_into [conversion_simps] conv_CollectionStatus.into_from [conversion_simps]

interpretation conv_IndeterminateReason: conversion IndeterminateReason_into IndeterminateReason_from
  by unfold_locales (simp_all add: IndeterminateReason_into_def IndeterminateReason_from_def conversion_simps split: IndeterminateReason.split IndeterminateReason_ev.split)

declare conv_IndeterminateReason.from_into [conversion_simps] conv_IndeterminateReason.into_from [conversion_simps]

interpretation conv_SecretScanningFailureReason: conversion SecretScanningFailureReason_into SecretScanningFailureReason_from
  by unfold_locales (simp_all add: SecretScanningFailureReason_into_def SecretScanningFailureReason_from_def conversion_simps split: SecretScanningFailureReason.split SecretScanningFailureReason_ev.split)

declare conv_SecretScanningFailureReason.from_into [conversion_simps] conv_SecretScanningFailureReason.into_from [conversion_simps]

interpretation conv_ProbeSource: conversion ProbeSource_into ProbeSource_from
  by unfold_locales (simp_all add: ProbeSource_into_def ProbeSource_from_def conversion_simps split: ProbeSource.split ProbeSource_ev.split)

declare conv_ProbeSource.from_into [conversion_simps] conv_ProbeSource.into_from [conversion_simps]

interpretation conv_CodeownersNonConformingLocation: conversion CodeownersNonConformingLocation_into CodeownersNonConformingLocation_from
  by unfold_locales (simp_all add: CodeownersNonConformingLocation_into_def CodeownersNonConformingLocation_from_def conversion_simps split: CodeownersNonConformingLocation.split CodeownersNonConformingLocation_ev.split)

declare conv_CodeownersNonConformingLocation.from_into [conversion_simps] conv_CodeownersNonConformingLocation.into_from [conversion_simps]

interpretation conv_MetadataUnavailable: conversion MetadataUnavailable_into MetadataUnavailable_from
  by unfold_locales (simp_all add: MetadataUnavailable_into_def MetadataUnavailable_from_def conversion_simps split: MetadataUnavailable.split MetadataUnavailable_ev.split)

declare conv_MetadataUnavailable.from_into [conversion_simps] conv_MetadataUnavailable.into_from [conversion_simps]

interpretation conv_SecretScanningAlerts: conversion SecretScanningAlerts_into SecretScanningAlerts_from
  by unfold_locales (simp_all add: SecretScanningAlerts_into_def SecretScanningAlerts_from_def conversion_simps split: SecretScanningAlerts.split SecretScanningAlerts_ev.split)

declare conv_SecretScanningAlerts.from_into [conversion_simps] conv_SecretScanningAlerts.into_from [conversion_simps]

interpretation conv_EnabledProvenance: conversion EnabledProvenance_into EnabledProvenance_from
  by unfold_locales (simp_all add: EnabledProvenance_into_def EnabledProvenance_from_def conversion_simps split: EnabledProvenance.split EnabledProvenance_ev.split)

declare conv_EnabledProvenance.from_into [conversion_simps] conv_EnabledProvenance.into_from [conversion_simps]

interpretation conv_DisabledObservation: conversion DisabledObservation_into DisabledObservation_from
  by unfold_locales (simp_all add: DisabledObservation_into_def DisabledObservation_from_def conversion_simps split: DisabledObservation.split DisabledObservation_ev.split)

declare conv_DisabledObservation.from_into [conversion_simps] conv_DisabledObservation.into_from [conversion_simps]

interpretation conv_UnobservableProbe: conversion UnobservableProbe_into UnobservableProbe_from
  by unfold_locales (simp_all add: UnobservableProbe_into_def UnobservableProbe_from_def conversion_simps split: UnobservableProbe.split UnobservableProbe_ev.split)

declare conv_UnobservableProbe.from_into [conversion_simps] conv_UnobservableProbe.into_from [conversion_simps]

interpretation conv_HistoryProtectionGap: conversion HistoryProtectionGap_into HistoryProtectionGap_from
  by unfold_locales (simp_all add: HistoryProtectionGap_into_def HistoryProtectionGap_from_def conversion_simps split: HistoryProtectionGap.split HistoryProtectionGap_ev.split)

declare conv_HistoryProtectionGap.from_into [conversion_simps] conv_HistoryProtectionGap.into_from [conversion_simps]

subsection \<open>Results and bounded values\<close>

lemma and_then_simps [simp]: "and_then (Inl e) f = Inl e" "and_then (Inr a) f = f a"
  by (simp_all add: and_then_def)

lemma and_then_Inr [simp]: "and_then x f = Inr y \<longleftrightarrow> (\<exists>a. x = Inr a \<and> f a = Inr y)"
  by (cases x) simp_all

lemma transpose_Inr [simp]:
  "transpose_result (map_option f x) = Inr y \<longleftrightarrow>
     (case x of None \<Rightarrow> y = None | Some a \<Rightarrow> \<exists>b. f a = Inr b \<and> y = Some b)"
  by (cases x) auto

lemma collect_Inr: "collect_results (map f xs) = Inr ys \<longleftrightarrow> list_all2 (\<lambda>x y. f x = Inr y) xs ys"
proof (induction xs arbitrary: ys)
  case (Cons x xs)
  then show ?case by (cases ys) auto
qed auto

lemma collect_map_back:
  "collect_results (map f xs) = Inr ys \<Longrightarrow> (\<And>x y. f x = Inr y \<Longrightarrow> g y = h x) \<Longrightarrow> map g ys = map h xs"
  unfolding collect_Inr by (induction rule: list_all2_induct) auto

lemma to_es_Inr [simp]: "to_es rt n f v = Inr x \<longleftrightarrow> x = v \<and> es_accepts rt n v"
  by (auto simp: to_es_def)

lemma to_nes_Inr [simp]: "to_nes rt n f v = Inr x \<longleftrightarrow> x = v \<and> nes_accepts rt n v"
  by (auto simp: to_nes_def)

lemma to_es_opt_Inr [simp]:
  "to_es_opt rt n f v = Inr x \<longleftrightarrow> x = v \<and> (case v of None \<Rightarrow> True | Some t \<Rightarrow> es_accepts rt n t)"
  by (auto simp: to_es_opt_def split: option.split)

lemma to_event_vec_Inr:
  "to_event_vec rt n f vs c = Inr xs \<longleftrightarrow>
     collect_results (map c vs) = Inr xs \<and> vec_accepts rt n (length xs)"
  by (auto simp: to_event_vec_def)

lemma collect_es [simp]:
  "collect_results (map (to_es rt n f) vs) = Inr xs \<longleftrightarrow> xs = vs \<and> list_all (es_accepts rt n) vs"
  unfolding collect_Inr by (induction vs arbitrary: xs) (auto simp: list_all2_Cons1)

subsection \<open>Canonical instants\<close>

text \<open>The text a stored instant is read back as.\<close>

definition canonical_time :: "EventRuntime \<Rightarrow> string \<Rightarrow> string" where
  "canonical_time rt t = (case parse_iso8601 (jiff_parse rt) t of
     None \<Rightarrow> []
   | Some nanos \<Rightarrow> (case jiff_display rt nanos of None \<Rightarrow> [] | Some s \<Rightarrow> s))"

text \<open>Printing an instant gives a text that parses to it, for every instant in the stored range.\<close>

definition jiff_ok :: "EventRuntime \<Rightarrow> bool" where
  "jiff_ok rt \<longleftrightarrow> (\<forall>nanos. 0 \<le> nanos \<and> nanos < 2 ^ 64 \<longrightarrow>
     (\<exists>s. jiff_display rt nanos = Some s \<and> parse_iso8601 (jiff_parse rt) s = Some nanos))"

text \<open>A non-empty bounded string is not empty.\<close>

definition nes_ok :: "EventRuntime \<Rightarrow> bool" where
  "nes_ok rt \<longleftrightarrow> (\<forall>n. \<not> nes_accepts rt n [])"

lemma nes_okD: "nes_ok rt \<Longrightarrow> nes_accepts rt n s \<Longrightarrow> s \<noteq> []"
  by (auto simp: nes_ok_def)

lemma ts_required_Inr:
  "ts_required rt f t = Inr ts \<longleftrightarrow>
     (\<exists>nanos. parse_iso8601 (jiff_parse rt) t = Some nanos \<and> 0 \<le> nanos \<and> nanos < 2 ^ 64 \<and>
        ts = of_int nanos \<and> ts_accepts rt ts)"
  by (auto simp: ts_required_def not_less split: option.split if_splits)

lemma ts_to_string_required:
  assumes "ts_required rt f t = Inr ts"
  shows "ts_to_string rt ts = canonical_time rt t"
proof -
  from assms obtain nanos where n: "parse_iso8601 (jiff_parse rt) t = Some nanos" "0 \<le> nanos"
    "nanos < 2 ^ 64" "ts = of_int nanos" unfolding ts_required_Inr by blast
  then have "uint ts = nanos" by (simp add: uint_word_of_int_eq take_bit_int_eq_self)
  with n(1) show ?thesis by (simp add: ts_to_string_def canonical_time_def)
qed

lemma ts_required_canonical:
  assumes "jiff_ok rt" and "ts_required rt f t = Inr ts"
  shows "ts_required rt g (canonical_time rt t) = Inr ts"
proof -
  from assms(2) obtain nanos where n: "parse_iso8601 (jiff_parse rt) t = Some nanos" "0 \<le> nanos"
    "nanos < 2 ^ 64" "ts = of_int nanos" "ts_accepts rt ts" unfolding ts_required_Inr by blast
  with assms(1) obtain s where "jiff_display rt nanos = Some s"
    "parse_iso8601 (jiff_parse rt) s = Some nanos" unfolding jiff_ok_def by blast
  with n show ?thesis by (simp add: ts_required_Inr canonical_time_def)
qed

lemma ts_opt_Inr:
  "ts_opt rt f v = Inr x \<longleftrightarrow>
     (case v of None \<Rightarrow> x = None | Some t \<Rightarrow> \<exists>ts. ts_required rt f t = Inr ts \<and> x = Some ts)"
  by (auto simp: ts_opt_def split: option.split)

lemma ts_opt_to_string:
  "ts_opt rt f v = Inr x \<Longrightarrow> ts_to_string_opt rt x = map_option (canonical_time rt) v"
  by (cases v) (auto simp: ts_opt_Inr ts_to_string_opt_def ts_to_string_required)

lemma ts_opt_canonical:
  "jiff_ok rt \<Longrightarrow> ts_opt rt f v = Inr x \<Longrightarrow> ts_opt rt f (map_option (canonical_time rt) v) = Inr x"
  by (cases v) (auto simp: ts_opt_Inr ts_required_canonical)

subsection \<open>Canonical values\<close>

definition canonical_repository :: "EventRuntime \<Rightarrow> Repository \<Rightarrow> Repository" where
  "canonical_repository rt r =
     r\<lparr>pushed_at := map_option (canonical_time rt) (pushed_at r),
       created_at := map_option (canonical_time rt) (created_at r)\<rparr>"

fun canonical_policy :: "EventRuntime \<Rightarrow> SecurityPolicyResult \<Rightarrow> SecurityPolicyResult" where
  "canonical_policy rt (SecurityPolicyResult.EnabledBySetting t) =
     SecurityPolicyResult.EnabledBySetting (canonical_time rt t)"
| "canonical_policy rt (SecurityPolicyResult.EnabledByFile p t) =
     SecurityPolicyResult.EnabledByFile p (canonical_time rt t)"
| "canonical_policy rt (SecurityPolicyResult.Absent t) =
     SecurityPolicyResult.Absent (canonical_time rt t)"
| "canonical_policy rt (SecurityPolicyResult.Unobservable r t) =
     SecurityPolicyResult.Unobservable r (canonical_time rt t)"
| "canonical_policy rt (SecurityPolicyResult.NotApplicable t) =
     SecurityPolicyResult.NotApplicable (canonical_time rt t)"

fun canonical_branch :: "EventRuntime \<Rightarrow> BranchProtectionResult \<Rightarrow> BranchProtectionResult" where
  "canonical_branch rt (BranchProtectionResult.Protected b t) =
     BranchProtectionResult.Protected b (canonical_time rt t)"
| "canonical_branch rt (BranchProtectionResult.Unprotected b g t) =
     BranchProtectionResult.Unprotected b g (canonical_time rt t)"
| "canonical_branch rt (BranchProtectionResult.Unobservable b r h t) =
     BranchProtectionResult.Unobservable b r h (canonical_time rt t)"

definition canonical_checks :: "EventRuntime \<Rightarrow> RepositoryChecks \<Rightarrow> RepositoryChecks" where
  "canonical_checks rt c =
     \<lparr>security_policy = canonical_policy rt (security_policy c),
      secret_scanning = SecretScanningResult_with_timestamp (secret_scanning c)
        (canonical_time rt (SecretScanningResult_timestamp (secret_scanning c))),
      dependabot_security_updates = (dependabot_security_updates c)\<lparr>dependabot_timestamp :=
        canonical_time rt (dependabot_timestamp (dependabot_security_updates c))\<rparr>,
      branch_protection = canonical_branch rt (branch_protection c),
      codeowners = CodeownersResult_with_timestamp (codeowners c)
        (canonical_time rt (CodeownersResult_timestamp (codeowners c)))\<rparr>"

definition canonical_commit :: "EventRuntime \<Rightarrow> LastCommitInfo \<Rightarrow> LastCommitInfo" where
  "canonical_commit rt l = l\<lparr>commit_date := map_option (canonical_time rt) (commit_date l)\<rparr>"

definition canonical_evidence :: "EventRuntime \<Rightarrow> RepositoryEvidence \<Rightarrow> RepositoryEvidence" where
  "canonical_evidence rt e =
     \<lparr>repository = canonical_repository rt (repository e), checks = canonical_checks rt (checks e),
      last_commit = map_option (canonical_commit rt) (last_commit e),
      repo_details_not_modified = False\<rparr>"

subsection \<open>Reading back\<close>

lemma UpdatedAt_back:
  "nes_ok rt \<Longrightarrow> nes_accepts rt n (UpdatedAt_deref u) \<Longrightarrow> UpdatedAt_new (UpdatedAt_deref u) = Some u"
  by (cases u) (auto simp: UpdatedAt_new_def dest: nes_okD)

lemma Repository_read_back:
  assumes "nes_ok rt" and "Repository_try_from rt r = Inr e"
  shows "Repository_from rt e = canonical_repository rt r"
  using assms
  by (auto simp: Repository_try_from_def Repository_from_def canonical_repository_def
      to_event_vec_Inr ts_opt_to_string conversion_simps UpdatedAt_back split: option.splits)

lemma SecurityPolicyPath_back:
  "nes_ok rt \<Longrightarrow> nes_accepts rt n (SecurityPolicyPath_as_str p) \<Longrightarrow>
     SecurityPolicyPath_new (SecurityPolicyPath_as_str p) = Some p"
  by (cases p) (auto simp: SecurityPolicyPath_new_def dest: nes_okD)

lemma policy_read_back:
  "nes_ok rt \<Longrightarrow> SecurityPolicyResult_try_from rt v = Inr e \<Longrightarrow>
     SecurityPolicyResult_from rt e = Some (canonical_policy rt v)"
  by (cases v) (auto simp: SecurityPolicyResult_try_from_def SecurityPolicyResult_from_def
      ts_to_string_required conversion_simps SecurityPolicyPath_back)

lemma secret_read_back:
  "SecretScanningResult_try_from rt v = Inr e \<Longrightarrow> SecretScanningResult_from rt e =
     SecretScanningResult_with_timestamp v (canonical_time rt (SecretScanningResult_timestamp v))"
  by (cases v) (auto simp: SecretScanningResult_try_from_def SecretScanningResult_from_def
      ts_to_string_required conversion_simps)

lemma dependabot_read_back:
  "DependabotResult_try_from rt v = Inr e \<Longrightarrow>
     DependabotResult_from rt e = v\<lparr>dependabot_timestamp := canonical_time rt (dependabot_timestamp v)\<rparr>"
  by (auto simp: DependabotResult_try_from_def DependabotResult_from_def ts_to_string_required
      conversion_simps)

lemma branch_read_back:
  "BranchProtectionResult_try_from rt v = Inr e \<Longrightarrow>
     BranchProtectionResult_from rt e = canonical_branch rt v"
  by (cases v) (auto simp: BranchProtectionResult_try_from_def BranchProtectionResult_from_def
      ts_to_string_required conversion_simps)

lemma entry_read_back: "CodeownersEntry_try_from rt v = Inr e \<Longrightarrow> CodeownersEntry_from e = v"
  by (auto simp: CodeownersEntry_try_from_def CodeownersEntry_from_def to_event_vec_Inr)

lemma parsed_read_back:
  assumes "ParsedCodeowners_try_from rt v = Inr e"
  shows "ParsedCodeowners_from e = v"
proof -
  from assms have "collect_results (map (CodeownersEntry_try_from rt) (entries v)) = Inr (ev_entries e)"
    by (auto simp: ParsedCodeowners_try_from_def to_event_vec_Inr)
  from collect_map_back [OF this, of CodeownersEntry_from "\<lambda>x. x"] entry_read_back
  have "map CodeownersEntry_from (ev_entries e) = entries v" by simp
  with assms show ?thesis
    by (auto simp: ParsedCodeowners_try_from_def ParsedCodeowners_from_def to_event_vec_Inr)
qed

lemma content_read_back:
  "CodeownersContent_try_from rt v = Inr e \<Longrightarrow> CodeownersContent_from e = v"
  by (cases v) (auto simp: CodeownersContent_try_from_def CodeownersContent_from_def
      conversion_simps parsed_read_back)

lemma codeowners_read_back:
  "CodeownersResult_try_from rt v = Inr e \<Longrightarrow> CodeownersResult_from rt e =
     CodeownersResult_with_timestamp v (canonical_time rt (CodeownersResult_timestamp v))"
  by (cases v) (auto simp: CodeownersResult_try_from_def CodeownersResult_from_def
      ts_to_string_required conversion_simps content_read_back)

lemma checks_read_back:
  "nes_ok rt \<Longrightarrow> RepositoryChecks_try_from rt v = Inr e \<Longrightarrow>
     RepositoryChecks_from rt e = Some (canonical_checks rt v)"
  by (auto simp: RepositoryChecks_try_from_def RepositoryChecks_from_def canonical_checks_def
      policy_read_back secret_read_back dependabot_read_back branch_read_back codeowners_read_back)

lemma commit_read_back:
  "LastCommitInfo_try_from rt v = Inr e \<Longrightarrow> LastCommitInfo_from rt e = canonical_commit rt v"
  by (auto simp: LastCommitInfo_try_from_def LastCommitInfo_from_def canonical_commit_def
      ts_opt_to_string)

subsection \<open>Storing again\<close>

lemma Repository_store_again:
  "jiff_ok rt \<Longrightarrow> Repository_try_from rt r = Inr e \<Longrightarrow>
     Repository_try_from rt (canonical_repository rt r) = Inr e"
  by (auto simp: Repository_try_from_def canonical_repository_def ts_opt_canonical)

lemma policy_store_again:
  "jiff_ok rt \<Longrightarrow> SecurityPolicyResult_try_from rt v = Inr e \<Longrightarrow>
     SecurityPolicyResult_try_from rt (canonical_policy rt v) = Inr e"
  by (cases v) (auto simp: SecurityPolicyResult_try_from_def ts_required_canonical)

lemma secret_store_again:
  "jiff_ok rt \<Longrightarrow> SecretScanningResult_try_from rt v = Inr e \<Longrightarrow>
     SecretScanningResult_try_from rt (SecretScanningResult_with_timestamp v
       (canonical_time rt (SecretScanningResult_timestamp v))) = Inr e"
  by (cases v) (auto simp: SecretScanningResult_try_from_def ts_required_canonical)

lemma dependabot_store_again:
  "jiff_ok rt \<Longrightarrow> DependabotResult_try_from rt v = Inr e \<Longrightarrow>
     DependabotResult_try_from rt (v\<lparr>dependabot_timestamp :=
       canonical_time rt (dependabot_timestamp v)\<rparr>) = Inr e"
  by (auto simp: DependabotResult_try_from_def ts_required_canonical)

lemma branch_store_again:
  "jiff_ok rt \<Longrightarrow> BranchProtectionResult_try_from rt v = Inr e \<Longrightarrow>
     BranchProtectionResult_try_from rt (canonical_branch rt v) = Inr e"
  by (cases v) (auto simp: BranchProtectionResult_try_from_def Let_def ts_required_canonical)

lemma codeowners_store_again:
  "jiff_ok rt \<Longrightarrow> CodeownersResult_try_from rt v = Inr e \<Longrightarrow>
     CodeownersResult_try_from rt (CodeownersResult_with_timestamp v
       (canonical_time rt (CodeownersResult_timestamp v))) = Inr e"
  by (cases v) (auto simp: CodeownersResult_try_from_def ts_required_canonical)

lemma checks_store_again:
  "jiff_ok rt \<Longrightarrow> RepositoryChecks_try_from rt v = Inr e \<Longrightarrow>
     RepositoryChecks_try_from rt (canonical_checks rt v) = Inr e"
  by (auto simp: RepositoryChecks_try_from_def canonical_checks_def policy_store_again
      secret_store_again dependabot_store_again branch_store_again codeowners_store_again)

lemma commit_store_again:
  "jiff_ok rt \<Longrightarrow> LastCommitInfo_try_from rt v = Inr e \<Longrightarrow>
     LastCommitInfo_try_from rt (canonical_commit rt v) = Inr e"
  by (auto simp: LastCommitInfo_try_from_def canonical_commit_def ts_opt_canonical)

subsection \<open>Evidence\<close>

text \<open>A runtime for the examples: an instant is printed as that many letters.\<close>

definition sample_runtime :: EventRuntime where
  "sample_runtime =
     \<lparr>es_accepts = (\<lambda>n s. length s \<le> n), nes_accepts = (\<lambda>n s. s \<noteq> [] \<and> length s \<le> n),
      vec_accepts = (\<lambda>n k. k \<le> n), ts_accepts = (\<lambda>_. True),
      jiff_parse = (\<lambda>s. Some (int (length s))),
      jiff_display = (\<lambda>n. Some (replicate (nat n) CHR ''x'')), per_repo_order = (\<lambda>_. [])\<rparr>"

lemma sample_runtime_ok: "nes_ok sample_runtime" "jiff_ok sample_runtime"
proof -
  show "nes_ok sample_runtime" by (simp add: nes_ok_def sample_runtime_def)
  have "parse_iso8601 (jiff_parse sample_runtime) (replicate (nat n) CHR ''x'') = Some n" if "0 \<le> n" for n
    using that by (cases "nat n") (auto simp: parse_iso8601_def sample_runtime_def)
  then show "jiff_ok sample_runtime" by (auto simp: jiff_ok_def sample_runtime_def)
qed

text \<open>
  C33. Evidence survives storage. What is read back from a stored record is the record that was
  stored, with every instant in canonical form and the transient flag \<open>repo_details_not_modified\<close>
  cleared; reading never panics; and storing the record that was read back writes the same event.
\<close>

theorem evidence_survives_storage:
  assumes "nes_ok rt" and "jiff_ok rt" and "RepositoryEvidence_try_from rt v = Inr e"
  shows "RepositoryEvidence_from rt e = Some (canonical_evidence rt v) \<and>
     RepositoryEvidence_try_from rt (canonical_evidence rt v) = Inr e"
proof
  from assms(3) obtain r c l where rcl: "Repository_try_from rt (repository v) = Inr r"
    "RepositoryChecks_try_from rt (checks v) = Inr c"
    "transpose_result (map_option (LastCommitInfo_try_from rt) (last_commit v)) = Inr l"
    "e = \<lparr>ev_repository = r, ev_checks = c, ev_last_commit = l\<rparr>"
    by (auto simp: RepositoryEvidence_try_from_def simp del: transpose_Inr)
  from rcl(3) have "map_option (LastCommitInfo_from rt) l = map_option (canonical_commit rt) (last_commit v)"
    by (cases "last_commit v") (auto simp: commit_read_back)
  with rcl show "RepositoryEvidence_from rt e = Some (canonical_evidence rt v)"
    by (simp add: RepositoryEvidence_from_def canonical_evidence_def Repository_read_back [OF assms(1)]
        checks_read_back [OF assms(1)])
  from rcl(3) have "transpose_result (map_option (LastCommitInfo_try_from rt)
      (map_option (canonical_commit rt) (last_commit v))) = Inr l"
    by (cases "last_commit v") (auto simp: commit_store_again [OF assms(2)])
  with rcl show "RepositoryEvidence_try_from rt (canonical_evidence rt v) = Inr e"
    by (simp add: RepositoryEvidence_try_from_def canonical_evidence_def
        Repository_store_again [OF assms(2)] checks_store_again [OF assms(2)] del: transpose_Inr)
qed

lemma sample_evidence_converts:
  "\<exists>e. RepositoryEvidence_try_from sample_runtime (sample_evidence ''r''
     (SecretScanningResult_unobservable SecretScanningFailureReason.PermissionDenied ''t'')) = Inr e"
proof -
  let ?v = "sample_evidence ''r''
    (SecretScanningResult_unobservable SecretScanningFailureReason.PermissionDenied ''t'')"
  have ts: "ts_required sample_runtime f ''t'' = Inr 1" for f
    by (simp add: ts_required_def sample_runtime_def parse_iso8601_def)
  have "\<exists>r. Repository_try_from sample_runtime (repository ?v) = Inr r"
    by (simp add: Repository_try_from_def sample_evidence_def sample_repository_def UpdatedAt_new_def
        sample_runtime_def to_event_vec_def ts_opt_def MAX_GITHUB_ID_def MAX_REPO_NAME_def
        MAX_BRANCH_NAME_def MAX_DOMAIN_KEY_def MAX_TIMESTAMP_TEXT_def)
  moreover have "\<exists>c. RepositoryChecks_try_from sample_runtime (checks ?v) = Inr c"
    by (simp add: RepositoryChecks_try_from_def sample_evidence_def sample_checks_def ts
        SecurityPolicyResult_try_from_def SecretScanningResult_try_from_def Let_def
        SecretScanningResult_unobservable_def DependabotResult_try_from_def
        BranchProtectionResult_try_from_def CodeownersResult_try_from_def)
      (simp add: sample_runtime_def MAX_BRANCH_NAME_def)
  moreover have "last_commit ?v = None" by (simp add: sample_evidence_def)
  ultimately show ?thesis by (auto simp: RepositoryEvidence_try_from_def)
qed

theorem evidence_survives_storage_witness:
  "\<exists>e. RepositoryEvidence_try_from sample_runtime (sample_evidence ''r''
       (SecretScanningResult_unobservable SecretScanningFailureReason.PermissionDenied ''t'')) = Inr e \<and>
     RepositoryEvidence_from sample_runtime e = Some (canonical_evidence sample_runtime
       (sample_evidence ''r''
         (SecretScanningResult_unobservable SecretScanningFailureReason.PermissionDenied ''t'')))"
  using evidence_survives_storage [OF sample_runtime_ok] sample_evidence_converts by blast

subsection \<open>Organisation state\<close>

definition order_ok :: "EventRuntime \<Rightarrow> (string \<rightharpoonup> RepoAlertSummary) \<Rightarrow> bool" where
  "order_ok rt m \<longleftrightarrow> map_of (per_repo_order rt m) = m \<and> distinct (map fst (per_repo_order rt m))"

lemma map_insort_key: "map g (insort_key (\<lambda>x. f (g x)) x xs) = insort_key f (g x) (map g xs)"
  by (induction xs) simp_all

lemma map_sort_key: "map g (sort_key (\<lambda>x. f (g x)) xs) = sort_key f (map g xs)"
  by (induction xs) (simp_all add: map_insort_key)

lemma map_of_sorted:
  assumes "distinct (map fst xs)"
  shows "map_of (rev (sort_key fst xs)) = map_of xs"
proof -
  have "distinct (map fst (sort_key fst xs))"
    using assms by (simp add: distinct_map)
  then show ?thesis
    using assms by (subst map_of_inject_set) (simp_all add: rev_map [symmetric])
qed

lemma u32_round_trip: "unat (w :: u64) < 2 ^ 32 \<Longrightarrow> ucast (ucast w :: u32) = w"
  by (rule word_eq_by_unat) (simp add: unsigned_ucast_eq unsigned_take_bit_eq take_bit_nat_eq_self)

lemma coverage_read_back: "CollectionCoverage_try_from c = Inr e \<Longrightarrow> CollectionCoverage_from e = c"
  by (cases c) (auto simp: CollectionCoverage_try_from_def CollectionCoverage_from_def u32_round_trip
      split: if_splits)

lemma capability_read_back:
  "collect_results (map (\<lambda>c. Inr (Capability_into c)) cs) = Inr xs \<Longrightarrow> map Capability_from xs = cs"
  using collect_map_back [of "\<lambda>c. Inr (Capability_into c)" cs xs Capability_from "\<lambda>x. x"]
  by (auto simp: conversion_simps)

lemma metadata_read_back:
  "AssessmentMetadata_try_from rt v = Inr e \<Longrightarrow> AssessmentMetadata_from e = v"
  by (auto simp: AssessmentMetadata_try_from_def AssessmentMetadata_from_def to_event_vec_Inr
      conversion_simps coverage_read_back capability_read_back)

lemma alert_read_back: "RepoAlertSummary_try_from rt v = Inr e \<Longrightarrow> RepoAlertSummary_from e = v"
  by (auto simp: RepoAlertSummary_try_from_def RepoAlertSummary_from_def)

lemma per_repo_read_back:
  assumes "collect_results (map (per_repo_entry rt) xs) = Inr ys"
  shows "map (\<lambda>e. (ev_repository_id e, RepoAlertSummary_from (ev_summary e))) ys = xs"
proof -
  have "(ev_repository_id y, RepoAlertSummary_from (ev_summary y)) = x"
    if "per_repo_entry rt x = Inr y" for x y
    using that by (auto simp: per_repo_entry_def alert_read_back split: prod.splits)
  from collect_map_back [OF assms this, of "\<lambda>x. x"] show ?thesis by simp
qed

lemma buckets_read_back:
  assumes "collect_results (map (age_bucket_entry rt) xs) = Inr ys"
  shows "map (\<lambda>e. (ev_key e, ev_value e)) ys = xs"
proof -
  have "(ev_key y, ev_value y) = x" if "age_bucket_entry rt x = Inr y" for x y
    using that by (auto simp: age_bucket_entry_def split: prod.splits)
  from collect_map_back [OF assms this, of "\<lambda>x. x"] show ?thesis by simp
qed

lemma alerts_read_back:
  assumes "order_ok rt (per_repo v)" and "OrgAlertSummary_try_from rt v = Inr e"
  shows "OrgAlertSummary_from e =
    v\<lparr>open_secret_alert_age_buckets := sort_key fst (open_secret_alert_age_buckets v)\<rparr>"
proof -
  let ?repo = "\<lambda>e. (ev_repository_id e, RepoAlertSummary_from (ev_summary e))"
  let ?bucket = "\<lambda>e. (ev_key e, ev_value e)"
  from assms(2) obtain rs bs where
      rs: "collect_results (map (per_repo_entry rt) (per_repo_order rt (per_repo v))) = Inr rs"
    and bs: "collect_results (map (age_bucket_entry rt) (open_secret_alert_age_buckets v)) = Inr bs"
    and e: "ev_per_repo e = sort_key ev_repository_id rs" "ev_age_buckets e = sort_key ev_key bs"
    by (auto simp: OrgAlertSummary_try_from_def Let_def split: if_splits)
  have "map ?repo (ev_per_repo e) = sort_key fst (per_repo_order rt (per_repo v))"
    using map_sort_key [of ?repo fst rs] by (simp add: e per_repo_read_back [OF rs])
  then have "map_of (rev (map ?repo (ev_per_repo e))) = per_repo v"
    using assms(1) map_of_sorted [of "per_repo_order rt (per_repo v)"] by (simp add: order_ok_def)
  moreover have "map ?bucket (ev_age_buckets e) = sort_key fst (open_secret_alert_age_buckets v)"
    using map_sort_key [of ?bucket fst bs] by (simp add: e buckets_read_back [OF bs])
  ultimately show ?thesis
    using assms(2) by (auto simp: OrgAlertSummary_try_from_def OrgAlertSummary_from_def Let_def
        conversion_simps split: if_splits)
qed

text \<open>
  The organisation state survives storage exactly: totals, texts, coverage and the alert count of
  every repository are read back as they were stored; only the list of age buckets, which stands for
  a hash map, comes back sorted by its key. A coverage whose total does not fit 32 bits is rejected
  instead of being truncated.
\<close>

theorem org_state_survives_storage:
  assumes "order_ok rt (per_repo (snapshot_alert_summary s))"
    and "OrgStateCaptured_try_from rt s = Inr e"
  shows "OrgStateSnapshot_from e =
     s\<lparr>snapshot_alert_summary := (snapshot_alert_summary s)\<lparr>open_secret_alert_age_buckets :=
         sort_key fst (open_secret_alert_age_buckets (snapshot_alert_summary s))\<rparr>\<rparr> \<and>
     (case meta_coverage (snapshot_assessment_metadata s) of
        CollectionCoverage.Known n _ \<Rightarrow> unat n < 2 ^ 32
      | CollectionCoverage.Unknown \<Rightarrow> True)"
  using assms
  by (auto simp: OrgStateCaptured_try_from_def OrgStateSnapshot_from_def metadata_read_back
      alerts_read_back AssessmentMetadata_try_from_def CollectionCoverage_try_from_def
      split: CollectionCoverage.split if_splits)

definition sample_org_state :: OrgStateSnapshot where
  "sample_org_state =
     \<lparr>snapshot_archived_repos = 3,
      snapshot_assessment_metadata =
        \<lparr>meta_date = ''2026-01-01'', meta_organization = ''acme'', meta_schema_version = ''1'',
         run_timestamp = ''2026-01-01T00:00:00Z'', meta_run_id = ''run'',
         token_tier = TokenTier.Full, token_scopes = '''', auth_mode = AuthMode.Pat,
         rate_limit_warnings = 0, unavailable_capabilities = [Capability.OrgSecretScanningAlerts],
         inventory_fetched_at = None, warm_start = False,
         meta_coverage = CollectionCoverage.Known 10 5\<rparr>,
      snapshot_alert_summary =
        \<lparr>collection_status = CollectionStatus.Success, collection_reason = None,
         org_http_status = Some 200, per_repo = Map.empty,
         open_secret_alert_age_buckets = [(''b'', 2), (''a'', 1)], total_open_secret_alerts = 3,
         oldest_open_secret_alert_created_at = None, newest_open_secret_alert_created_at = None\<rparr>\<rparr>"

theorem org_state_survives_storage_witness:
  "\<exists>e. OrgStateCaptured_try_from sample_runtime sample_org_state = Inr e \<and>
     open_secret_alert_age_buckets (snapshot_alert_summary (OrgStateSnapshot_from e)) =
       [(''a'', 1), (''b'', 2)]"
proof -
  have order: "order_ok sample_runtime (per_repo (snapshot_alert_summary sample_org_state))"
    by (simp add: order_ok_def sample_runtime_def sample_org_state_def)
  have "\<exists>m. AssessmentMetadata_try_from sample_runtime (snapshot_assessment_metadata sample_org_state) = Inr m"
    by (simp add: AssessmentMetadata_try_from_def sample_org_state_def to_event_vec_def
        CollectionCoverage_try_from_def)
      (simp add: sample_runtime_def MAX_ASSESSMENT_DATE_def MAX_LOGIN_def MAX_SCHEMA_VERSION_def
        MAX_TIMESTAMP_TEXT_def MAX_RUN_ID_def MAX_TOKEN_SCOPES_def MAX_UNAVAILABLE_CAPABILITIES_def)
  moreover have "\<exists>a. OrgAlertSummary_try_from sample_runtime (snapshot_alert_summary sample_org_state) = Inr a"
    by (simp add: OrgAlertSummary_try_from_def sample_org_state_def sample_runtime_def Let_def
        age_bucket_entry_def MAX_ORG_ALERT_REPOS_def MAX_ALERT_BUCKETS_def MAX_ALERT_BUCKET_def)
  ultimately obtain e where e: "OrgStateCaptured_try_from sample_runtime sample_org_state = Inr e"
    by (auto simp: OrgStateCaptured_try_from_def)
  from org_state_survives_storage [OF order e] e show ?thesis
    by (simp add: sample_org_state_def)
qed

subsection \<open>Teams\<close>

lemma HEX_inject: "i < 16 \<Longrightarrow> j < 16 \<Longrightarrow> HEX ! i = HEX ! j \<longleftrightarrow> i = j"
proof -
  have "distinct HEX" "length HEX = 16" by (simp_all add: HEX_def)
  then show "i < 16 \<Longrightarrow> j < 16 \<Longrightarrow> HEX ! i = HEX ! j \<longleftrightarrow> i = j" by (simp add: nth_eq_iff_index_eq)
qed

lemma of_char_bound: "of_char c div 16 < (16::nat)" "of_char c mod 16 < (16::nat)"
  using nat_of_char_less_256 [of c] by (simp_all add: div_less_iff_less_mult)

lemma push_hex_byte_inject: "push_hex_byte c = push_hex_byte d \<longleftrightarrow> c = d"
proof
  assume "push_hex_byte c = push_hex_byte d"
  then have "of_char c div 16 = (of_char d div 16 :: nat)" "of_char c mod 16 = (of_char d mod 16 :: nat)"
    by (simp_all add: push_hex_byte_def HEX_inject of_char_bound)
  then have "of_char c = (of_char d :: nat)" by (metis div_mult_mod_eq)
  then show "c = d" by simp
qed simp

lemma hex_bytes_inject: "hex_bytes xs = hex_bytes ys \<longleftrightarrow> xs = ys"
  unfolding hex_bytes_def
proof (induction xs arbitrary: ys)
  case Nil
  then show ?case by (cases ys) (simp_all add: push_hex_byte_def)
next
  case (Cons x xs)
  have "push_hex_byte x @ a = push_hex_byte y @ b \<longleftrightarrow> x = y \<and> a = b" for y a b
    using push_hex_byte_inject [of x y] by (auto simp: push_hex_byte_def)
  with Cons show ?case by (cases ys) (simp_all add: push_hex_byte_def)
qed

lemma append_separator_inject:
  "c \<notin> set xs \<Longrightarrow> c \<notin> set xs' \<Longrightarrow> xs @ c # ys = xs' @ c # ys' \<longleftrightarrow> xs = xs' \<and> ys = ys'"
proof (induction xs arbitrary: xs')
  case Nil
  then show ?case by (cases xs') auto
next
  case (Cons x xs)
  then show ?case by (cases xs') auto
qed

lemma hex_bytes_set: "set (hex_bytes xs) \<subseteq> set HEX"
proof -
  have "length HEX = 16" by (simp add: HEX_def)
  then have "HEX ! i \<in> set HEX" if "i < 16" for i using that by simp
  then show ?thesis by (auto simp: hex_bytes_def push_hex_byte_def of_char_bound)
qed

lemma length_hex_bytes: "length (hex_bytes xs) = 2 * length xs"
  unfolding hex_bytes_def by (induction xs) (simp_all add: push_hex_byte_def)

lemma team_domain_key_Inr:
  "team_domain_key org slug = Inr k \<Longrightarrow> k = ''team_'' @ hex_bytes (org @ [CHR 0x1F] @ slug)"
  by (simp add: team_domain_key_def Let_def split: if_splits)

text \<open>
  The key of a team identifies it: two teams whose organisation names do not contain the
  separator byte \<open>0x1F\<close> have the same key only if they are the same team. A key consists of the
  prefix \<open>team_\<close> and hexadecimal digits, so it is a legal subject token, and its length is determined
  by the lengths of the names.
\<close>

theorem team_domain_key_identifies:
  assumes "team_domain_key org slug = Inr k"
  shows "(\<exists>hex. k = ''team_'' @ hex \<and> set hex \<subseteq> set ''0123456789abcdef'' \<and>
       length hex = 2 * (length org + 1 + length slug)) \<and>
     (CHR 0x1F \<notin> set org \<and> CHR 0x1F \<notin> set org' \<and> team_domain_key org' slug' = Inr k \<longrightarrow>
        org' = org \<and> slug' = slug)"
proof
  from team_domain_key_Inr [OF assms]
  have k: "k = ''team_'' @ hex_bytes (org @ [CHR 0x1F] @ slug)" .
  have "length (hex_bytes (org @ [CHR 0x1F] @ slug)) = 2 * (length org + 1 + length slug)"
    by (simp add: length_hex_bytes)
  with k hex_bytes_set [unfolded HEX_def]
  show "\<exists>hex. k = ''team_'' @ hex \<and> set hex \<subseteq> set ''0123456789abcdef'' \<and>
       length hex = 2 * (length org + 1 + length slug)" by blast
  show "CHR 0x1F \<notin> set org \<and> CHR 0x1F \<notin> set org' \<and> team_domain_key org' slug' = Inr k \<longrightarrow>
        org' = org \<and> slug' = slug"
  proof (intro impI, elim conjE)
    assume sep: "CHR 0x1F \<notin> set org" "CHR 0x1F \<notin> set org'" and k': "team_domain_key org' slug' = Inr k"
    from team_domain_key_Inr [OF k'] k have "org' @ [CHR 0x1F] @ slug' = org @ [CHR 0x1F] @ slug"
      by (simp only: same_append_eq hex_bytes_inject)
    with sep show "org' = org \<and> slug' = slug"
      using append_separator_inject [of "CHR 0x1F" org' org slug' slug] by simp
  qed
qed

theorem team_domain_key_identifies_witness:
  "team_domain_key ''ab'' ''c'' = Inr ''team_61621f63'' \<and>
   (\<exists>hex. ''team_61621f63'' = ''team_'' @ hex \<and> set hex \<subseteq> set ''0123456789abcdef'' \<and>
      length hex = 2 * (length ''ab'' + 1 + length ''c''))"
proof -
  have key: "team_domain_key ''ab'' ''c'' = Inr ''team_61621f63''"
    by (simp add: team_domain_key_def hex_bytes_def push_hex_byte_def HEX_def)
  from team_domain_key_identifies [OF key] key show ?thesis by blast
qed

text \<open>
  Without that restriction the key is not injective: when the separator byte occurs in a name,
  two different teams share a key.
\<close>

theorem team_domain_key_collides:
  "team_domain_key (org @ [CHR 0x1F]) slug = team_domain_key org ([CHR 0x1F] @ slug) \<longleftrightarrow>
     org \<noteq> [] \<and> slug \<noteq> []"
  by (auto simp: team_domain_key_def)

text \<open>
  A roster read back from a stored event names the owner it belongs to: the slug that the
  CODEOWNERS side extracts from the roster's canonical owner is the slug of the roster, for every
  organisation name without a slash and every slug without glob characters. No member is lost, and
  an empty fetch time is read as unknown.
\<close>

theorem roster_owner_round_trip:
  assumes "CHR ''/'' \<notin> set (ev_org v)" and "ev_team_slug v \<noteq> []"
    and "set (ev_team_slug v) \<inter> set ''*?[]!'' = {}"
  shows "team_slug_from_canonical_owner (canonical_owner (TeamRoster_from v)) =
       Some (team_slug (TeamRoster_from v)) \<and>
     map login (members (TeamRoster_from v)) = map ev_login (ev_members v) \<and>
     (fetched_at (TeamRoster_from v) = None \<longleftrightarrow> ev_fetched_at v = [])"
proof -
  have "team_slug_from_canonical_owner (canonical_owner (TeamRoster_from v)) = Some (ev_team_slug v)"
    unfolding team_slug_Some_iff using assms
    by (auto simp: TeamRoster_from_def Let_def GLOB_CHARS_def)
  then show ?thesis by (simp add: TeamRoster_from_def Let_def comp_def)
qed

definition sample_team :: TeamStateCaptured where
  "sample_team =
     \<lparr>ev_org = ''acme'', ev_team_slug = ''core'', ev_members =
        [\<lparr>ev_login = ''ada'', ev_role = TeamMemberRoleEvent.Member, ev_in_org = None\<rparr>],
      ev_orphan_attribution_inputs =
        \<lparr>ev_org_membership_fetch_status = OrgMembershipFetchStatus.Fetched\<rparr>,
      ev_fetched_at = [], ev_status = TeamRosterStatusEvent.Complete\<rparr>"

theorem roster_owner_round_trip_witness:
  "team_slug_from_canonical_owner (canonical_owner (TeamRoster_from sample_team)) =
     Some (team_slug (TeamRoster_from sample_team))"
  using roster_owner_round_trip [of sample_team] by (simp add: sample_team_def)

end
