(* ===== verification/Ordered_Map.thy ===== *)
theory Ordered_Map
  imports Gh_Prelude
begin

text \<open>
  Rust's \<open>BTreeMap\<close> as far as the program uses it: insertion, removal, lookup and iteration in key
  order. The model is a list of entries sorted by key; the interface its clients rely on is the
  locale \<open>ordered_map\<close>, whose main consequence is that iteration depends on the contents only, not on
  the history of insertions and removals.
\<close>

type_synonym ('k, 'v) btree_map = "('k \<times> 'v) list"

definition btree_empty :: "('k, 'v) btree_map" where
  "btree_empty = []"

fun btree_insert :: "'k::linorder \<Rightarrow> 'v \<Rightarrow> ('k, 'v) btree_map \<Rightarrow> ('k, 'v) btree_map" where
  "btree_insert k v [] = [(k, v)]"
| "btree_insert k v ((k', v') # m) =
     (if k < k' then (k, v) # (k', v') # m
      else if k = k' then (k, v) # m
      else (k', v') # btree_insert k v m)"

definition btree_remove :: "'k::linorder \<Rightarrow> ('k, 'v) btree_map \<Rightarrow> ('k, 'v) btree_map" where
  "btree_remove k m = filter (\<lambda>e. fst e \<noteq> k) m"

definition btree_get :: "('k::linorder, 'v) btree_map \<Rightarrow> 'k \<Rightarrow> 'v option" where
  "btree_get m k = map_of m k"

definition btree_extend ::
  "('k::linorder \<times> 'v) list \<Rightarrow> ('k, 'v) btree_map \<Rightarrow> ('k, 'v) btree_map" where
  "btree_extend kvs m = fold (\<lambda>(k, v). btree_insert k v) kvs m"

definition btree_ok :: "('k::linorder, 'v) btree_map \<Rightarrow> bool" where
  "btree_ok m \<longleftrightarrow> sorted_wrt (<) (map fst m)"

lemma alist_from_keys:
  assumes "distinct (map fst xs)"
  shows "xs = map (\<lambda>k. (k, the (map_of xs k))) (map fst xs)"
proof -
  have "(fst e, the (map_of xs (fst e))) = e" if "e \<in> set xs" for e
    by (metis assms map_of_is_SomeI option.sel prod.collapse that)
  then show ?thesis by (simp add: comp_def map_idI)
qed

locale ordered_map =
  fixes empty_map :: 'm
    and insert_entry :: "'k::linorder \<Rightarrow> 'v \<Rightarrow> 'm \<Rightarrow> 'm"
    and remove_entry :: "'k \<Rightarrow> 'm \<Rightarrow> 'm"
    and get :: "'m \<Rightarrow> 'k \<Rightarrow> 'v option"
    and iter :: "'m \<Rightarrow> ('k \<times> 'v) list"
    and ok :: "'m \<Rightarrow> bool"
  assumes get_empty: "get empty_map k = None"
    and get_insert: "get (insert_entry k v m) k' = (if k' = k then Some v else get m k')"
    and get_remove: "get (remove_entry k m) k' = (if k' = k then None else get m k')"
    and ok_empty: "ok empty_map"
    and ok_insert: "ok m \<Longrightarrow> ok (insert_entry k v m)"
    and ok_remove: "ok m \<Longrightarrow> ok (remove_entry k m)"
    and iter_sorted: "ok m \<Longrightarrow> sorted_wrt (<) (map fst (iter m))"
    and iter_get: "ok m \<Longrightarrow> map_of (iter m) = get m"
begin

lemma iter_distinct: "ok m \<Longrightarrow> distinct (map fst (iter m))"
  using iter_sorted strict_sorted_iff by blast

lemma iter_set: "ok m \<Longrightarrow> set (iter m) = {(k, v). get m k = Some v}"
  using iter_distinct iter_get [of m, symmetric] by (auto simp: map_of_eq_Some_iff)

lemma iter_by_contents:
  assumes "ok m" and "ok m'" and "get m = get m'"
  shows "iter m = iter m'"
proof -
  have sets: "set (iter m) = set (iter m')"
    by (simp add: assms iter_set)
  then have "set (map fst (iter m)) = set (map fst (iter m'))" by simp
  moreover have "sorted (map fst (iter m))" "sorted (map fst (iter m'))"
    using assms(1,2) iter_sorted strict_sorted_iff by blast+
  ultimately have "map fst (iter m) = map fst (iter m')"
    using assms(1,2) iter_distinct sorted_distinct_set_unique by blast
  moreover have "map_of (iter m) = map_of (iter m')"
    by (simp add: assms iter_get)
  ultimately show ?thesis
    using assms(1,2) iter_distinct alist_from_keys by metis
qed

end

lemma fst_btree_insert: "fst ` set (btree_insert k v m) = insert k (fst ` set m)"
  by (induction k v m rule: btree_insert.induct) auto

lemma btree_ok_insert: "btree_ok m \<Longrightarrow> btree_ok (btree_insert k v m)"
proof (induction k v m rule: btree_insert.induct)
  case (2 k v k' v' m)
  have keys: "fst ` set (btree_insert k v m) = insert k (fst ` set m)"
    by (rule fst_btree_insert)
  show ?case
  proof (cases "k < k'")
    case True
    with 2 show ?thesis by (auto simp: btree_ok_def dest: less_trans)
  next
    case False
    show ?thesis
    proof (cases "k = k'")
      case True
      with 2 show ?thesis by (simp add: btree_ok_def)
    next
      case neq: False
      with False 2 keys show ?thesis by (auto simp: btree_ok_def simp flip: image_image)
    qed
  qed
qed (simp add: btree_ok_def)

lemma btree_get_insert: "btree_get (btree_insert k v m) k' = (if k' = k then Some v else btree_get m k')"
  by (induction k v m rule: btree_insert.induct) (auto simp: btree_get_def)

lemma btree_get_remove: "btree_get (btree_remove k m) k' = (if k' = k then None else btree_get m k')"
  by (induction m) (auto simp: btree_get_def btree_remove_def)

lemma btree_ok_remove: "btree_ok m \<Longrightarrow> btree_ok (btree_remove k m)"
  by (induction m) (auto simp: btree_ok_def btree_remove_def)

interpretation btree: ordered_map btree_empty btree_insert btree_remove btree_get "\<lambda>m. m" btree_ok
  by unfold_locales (simp_all add: btree_get_insert btree_get_remove btree_ok_insert btree_ok_remove,
      simp_all add: btree_get_def btree_empty_def btree_ok_def fun_eq_iff)

lemma btree_ok_extend: "btree_ok m \<Longrightarrow> btree_ok (btree_extend kvs m)"
  by (induction kvs arbitrary: m) (auto simp: btree_extend_def btree_ok_insert)

lemma btree_get_extend:
  "btree_get (btree_extend kvs m) k =
     (case map_of (rev kvs) k of Some v \<Rightarrow> Some v | None \<Rightarrow> btree_get m k)"
  by (induction kvs arbitrary: m)
    (auto simp: btree_extend_def btree_get_insert map_add_def split: option.split)

end
