(* ===== verification/Projection_Model.thy ===== *)
theory Projection_Model
  imports Metrics_Model Ordered_Map
begin

text \<open>
  The read-side projection of \<open>projection.rs\<close>: the state folded from the event stream, the fold
  itself, the bulk loads of a warm start and the read port. The lemmas give the invariant of the
  reachable states, an abstract machine per key that the fold refines (so that events of different
  keys may be interleaved freely), the anti-downgrade rule as an interface met by repositories,
  teams and the organisation, and the order of the snapshots.
\<close>

record OrgReadModel =
  org_archived_repos :: u32
  org_assessment_metadata :: AssessmentMetadata
  org_alert_summary :: OrgAlertSummary

record DeletedRepoRecord =
  deleted_repo_name :: string
  detected_at :: string

definition OrgReadModel_from :: "OrgStateSnapshot \<Rightarrow> OrgReadModel" where
  "OrgReadModel_from s =
     \<lparr>org_archived_repos = snapshot_archived_repos s,
      org_assessment_metadata = snapshot_assessment_metadata s,
      org_alert_summary = snapshot_alert_summary s\<rparr>"

definition OrgReadModel_is_complete :: "OrgReadModel \<Rightarrow> bool" where
  "OrgReadModel_is_complete m \<longleftrightarrow> collection_status (org_alert_summary m) = CollectionStatus.Success"

record EvidenceProjection =
  repositories :: "(string, RepositoryEvidence) btree_map"
  deleted :: "(string, DeletedRepoRecord) btree_map"
  org_state :: "OrgReadModel option"
  proj_team_rosters :: "(string, TeamRoster) btree_map"
  team_ghost_rosters :: "(string, TeamRoster) btree_map"

definition EvidenceProjection_default :: EvidenceProjection where
  "EvidenceProjection_default =
     \<lparr>repositories = btree_empty, deleted = btree_empty, org_state = None,
      proj_team_rosters = btree_empty, team_ghost_rosters = btree_empty\<rparr>"

datatype EvidenceProjectionEvent =
  RepositoryStateCaptured bool string "RepositoryEvidence option"
| RepositoryDeleted string string string
| OrgStateCaptured OrgStateSnapshot
| TeamStateCaptured bool string "TeamRoster option"

definition EvidenceProjectionEvent_event_type :: "EvidenceProjectionEvent \<Rightarrow> string" where
  "EvidenceProjectionEvent_event_type e = (case e of
     RepositoryStateCaptured _ _ _ \<Rightarrow> ''gh-report.projection.repository_state_captured''
   | RepositoryDeleted _ _ _ \<Rightarrow> ''gh-report.projection.repository_deleted''
   | OrgStateCaptured _ \<Rightarrow> ''gh-report.projection.org_state_captured''
   | TeamStateCaptured _ _ _ \<Rightarrow> ''gh-report.projection.team_state_captured'')"

definition is_some_and :: "('a \<Rightarrow> bool) \<Rightarrow> 'a option \<Rightarrow> bool" where
  "is_some_and P x = (case x of None \<Rightarrow> False | Some y \<Rightarrow> P y)"

definition EvidenceProjection_apply_org_state ::
  "OrgStateSnapshot \<Rightarrow> EvidenceProjection \<Rightarrow> EvidenceProjection" where
  "EvidenceProjection_apply_org_state snapshot p =
     (let incoming = OrgReadModel_from snapshot;
          existing_is_complete = is_some_and OrgReadModel_is_complete (org_state p);
          incoming_is_complete = OrgReadModel_is_complete incoming
      in if \<not> existing_is_complete \<or> incoming_is_complete then p\<lparr>org_state := Some incoming\<rparr> else p)"

definition roster_is_complete :: "TeamRoster \<Rightarrow> bool" where
  "roster_is_complete r \<longleftrightarrow> roster_status r = TeamRosterStatus.Complete"

definition EvidenceProjection_apply ::
  "EvidenceProjectionEvent \<Rightarrow> EvidenceProjection \<Rightarrow> EvidenceProjection" where
  "EvidenceProjection_apply event p = (case event of
     RepositoryStateCaptured detached domain_key evidence \<Rightarrow>
       (if detached then p\<lparr>repositories := btree_remove domain_key (repositories p)\<rparr>
        else (case evidence of
                None \<Rightarrow> p
              | Some ev \<Rightarrow>
                  (let existing_is_complete =
                         is_some_and RepositoryEvidence_is_complete
                           (btree_get (repositories p) domain_key);
                       incoming_is_complete = RepositoryEvidence_is_complete ev
                   in if \<not> existing_is_complete \<or> incoming_is_complete
                      then p\<lparr>deleted := btree_remove domain_key (deleted p),
                             repositories := btree_insert domain_key ev (repositories p)\<rparr>
                      else p)))
   | RepositoryDeleted domain_key name at_time \<Rightarrow>
       p\<lparr>repositories := btree_remove domain_key (repositories p),
         deleted := btree_insert domain_key
           \<lparr>deleted_repo_name = name, detected_at = at_time\<rparr> (deleted p)\<rparr>
   | OrgStateCaptured snapshot \<Rightarrow> EvidenceProjection_apply_org_state snapshot p
   | TeamStateCaptured detached domain_key roster \<Rightarrow>
       (if detached
        then (let p = p\<lparr>proj_team_rosters := btree_remove domain_key (proj_team_rosters p)\<rparr>
              in case roster of
                   Some r \<Rightarrow>
                     (if roster_status r = TeamRosterStatus.Deleted
                      then p\<lparr>team_ghost_rosters := btree_insert domain_key r (team_ghost_rosters p)\<rparr>
                      else p\<lparr>team_ghost_rosters := btree_remove domain_key (team_ghost_rosters p)\<rparr>)
                 | None \<Rightarrow>
                     p\<lparr>team_ghost_rosters := btree_remove domain_key (team_ghost_rosters p)\<rparr>)
        else (case roster of
                None \<Rightarrow> p
              | Some r \<Rightarrow>
                  (let existing_is_complete =
                         is_some_and roster_is_complete (btree_get (proj_team_rosters p) domain_key);
                       incoming_is_complete = roster_is_complete r;
                       p = (if \<not> existing_is_complete \<or> incoming_is_complete
                            then p\<lparr>proj_team_rosters := btree_insert domain_key r (proj_team_rosters p)\<rparr>
                            else p)
                   in p\<lparr>team_ghost_rosters := btree_remove domain_key (team_ghost_rosters p)\<rparr>))))"

definition EvidenceProjection_get :: "EvidenceProjection \<Rightarrow> string \<Rightarrow> RepositoryEvidence option" where
  "EvidenceProjection_get p key = btree_get (repositories p) key"

definition EvidenceProjection_len :: "EvidenceProjection \<Rightarrow> nat" where
  "EvidenceProjection_len p = length (repositories p)"

definition EvidenceProjection_is_empty :: "EvidenceProjection \<Rightarrow> bool" where
  "EvidenceProjection_is_empty p \<longleftrightarrow>
     repositories p = [] \<and> deleted p = [] \<and> org_state p = None \<and> proj_team_rosters p = [] \<and>
     team_ghost_rosters p = []"

definition EvidenceProjection_team_roster :: "EvidenceProjection \<Rightarrow> string \<Rightarrow> TeamRoster option" where
  "EvidenceProjection_team_roster p key = btree_get (proj_team_rosters p) key"

definition EvidenceProjection_team_rosters_snapshot ::
  "EvidenceProjection \<Rightarrow> (string \<times> TeamRoster) list" where
  "EvidenceProjection_team_rosters_snapshot p = proj_team_rosters p"

definition EvidenceProjection_team_ghost_rosters_snapshot ::
  "EvidenceProjection \<Rightarrow> (string \<times> TeamRoster) list" where
  "EvidenceProjection_team_ghost_rosters_snapshot p = team_ghost_rosters p"

definition EvidenceProjection_sorted_snapshot :: "EvidenceProjection \<Rightarrow> RepositoryEvidence list" where
  "EvidenceProjection_sorted_snapshot p =
     sort_key (\<lambda>ev. (repo_id (repository ev), repo_name (repository ev))) (map snd (repositories p))"

definition EvidenceProjection_deleted_snapshot ::
  "EvidenceProjection \<Rightarrow> (string \<times> DeletedRepoRecord) list" where
  "EvidenceProjection_deleted_snapshot p = deleted p"

definition EvidenceProjection_key_name_snapshot :: "EvidenceProjection \<Rightarrow> (string \<times> string) list" where
  "EvidenceProjection_key_name_snapshot p =
     map (\<lambda>(_, ev). (inventory_key (repository ev), repo_name (repository ev))) (repositories p)"

definition EvidenceProjection_bulk_load ::
  "RepositoryEvidence list \<Rightarrow> EvidenceProjection \<Rightarrow> EvidenceProjection" where
  "EvidenceProjection_bulk_load es p =
     p\<lparr>repositories := btree_extend (map (\<lambda>ev. (inventory_key (repository ev), ev)) es)
        (repositories p)\<rparr>"

definition EvidenceProjection_load_baseline ::
  "RepositoryEvidence list \<Rightarrow> EvidenceProjection \<Rightarrow> EvidenceProjection" where
  "EvidenceProjection_load_baseline es p = EvidenceProjection_bulk_load es p"

definition EvidenceProjection_load_resumed_checkpoint ::
  "RepositoryEvidence list \<Rightarrow> EvidenceProjection \<Rightarrow> EvidenceProjection" where
  "EvidenceProjection_load_resumed_checkpoint es p = EvidenceProjection_bulk_load es p"

datatype EvidenceProjectionQuery =
  ByKey string | Len | Contains string | SortedSnapshot | DeletedSnapshot | KeyNameSnapshot
| OrgState | TeamRoster string | TeamRostersSnapshot | TeamGhostRostersSnapshot

datatype EvidenceProjectionResponse =
  One "RepositoryEvidence option"
| Len nat
| Contains bool
| Many "RepositoryEvidence list"
| Deleted "(string \<times> DeletedRepoRecord) list"
| KeyNamePairs "(string \<times> string) list"
| OrgState "OrgReadModel option"
| TeamRoster "TeamRoster option"
| TeamRostersSnapshot "(string \<times> TeamRoster) list"
| TeamGhostRostersSnapshot "(string \<times> TeamRoster) list"

definition EvidenceProjectionReadPort_resolve ::
  "EvidenceProjection \<Rightarrow> EvidenceProjectionQuery \<Rightarrow> EvidenceProjectionResponse" where
  "EvidenceProjectionReadPort_resolve p q = (case q of
     EvidenceProjectionQuery.ByKey key \<Rightarrow>
       EvidenceProjectionResponse.One (EvidenceProjection_get p key)
   | EvidenceProjectionQuery.Len \<Rightarrow> EvidenceProjectionResponse.Len (EvidenceProjection_len p)
   | EvidenceProjectionQuery.Contains key \<Rightarrow>
       EvidenceProjectionResponse.Contains (btree_get (repositories p) key \<noteq> None)
   | EvidenceProjectionQuery.SortedSnapshot \<Rightarrow>
       EvidenceProjectionResponse.Many (EvidenceProjection_sorted_snapshot p)
   | EvidenceProjectionQuery.DeletedSnapshot \<Rightarrow>
       EvidenceProjectionResponse.Deleted (EvidenceProjection_deleted_snapshot p)
   | EvidenceProjectionQuery.KeyNameSnapshot \<Rightarrow>
       EvidenceProjectionResponse.KeyNamePairs (EvidenceProjection_key_name_snapshot p)
   | EvidenceProjectionQuery.OrgState \<Rightarrow> EvidenceProjectionResponse.OrgState (org_state p)
   | EvidenceProjectionQuery.TeamRoster key \<Rightarrow>
       EvidenceProjectionResponse.TeamRoster (EvidenceProjection_team_roster p key)
   | EvidenceProjectionQuery.TeamRostersSnapshot \<Rightarrow>
       EvidenceProjectionResponse.TeamRostersSnapshot (EvidenceProjection_team_rosters_snapshot p)
   | EvidenceProjectionQuery.TeamGhostRostersSnapshot \<Rightarrow>
       EvidenceProjectionResponse.TeamGhostRostersSnapshot
         (EvidenceProjection_team_ghost_rosters_snapshot p))"

subsection \<open>The anti-downgrade interface\<close>

text \<open>
  A slot that observations are written to, under the rule that an incomplete observation never
  replaces a complete one. The contents after a run of observations are then determined: the last
  complete observation if there is one, else the old contents if they were complete, else the last
  observation.
\<close>

locale anti_downgrade =
  fixes complete :: "'v \<Rightarrow> bool"
    and observe :: "'v \<Rightarrow> 's \<Rightarrow> 's"
    and current :: "'s \<Rightarrow> 'v option"
  assumes current_observe: "current (observe v s) =
    (if \<not> is_some_and complete (current s) \<or> complete v then Some v else current s)"
begin

lemma observe_complete: "complete v \<Longrightarrow> current (observe v s) = Some v"
  by (simp add: current_observe)

lemma no_downgrade:
  "is_some_and complete (current s) \<Longrightarrow> is_some_and complete (current (fold observe vs s))"
  by (induction vs arbitrary: s) (auto simp: current_observe is_some_and_def)

lemma current_fold:
  "current (fold observe vs s) =
     (if filter complete vs \<noteq> [] then Some (last (filter complete vs))
      else if vs = [] \<or> is_some_and complete (current s) then current s
      else Some (last vs))"
proof (induction vs rule: rev_induct)
  case (snoc v vs)
  show ?case
  proof (cases "filter complete vs = []")
    case True
    then show ?thesis
      by (auto simp: snoc current_observe is_some_and_def filter_empty_conv split: option.splits)
  next
    case False
    then have "complete (last (filter complete vs))"
      using last_in_set [OF False] by simp
    with False show ?thesis by (simp add: snoc current_observe is_some_and_def)
  qed
qed simp

lemma observe_again: "current (observe v (observe v s)) = current (observe v s)"
  by (simp add: current_observe is_some_and_def split: option.split)

end

lemmas apply_defs = EvidenceProjection_apply_def EvidenceProjection_apply_org_state_def Let_def

interpretation repo_slot: anti_downgrade RepositoryEvidence_is_complete
  "\<lambda>ev. EvidenceProjection_apply (RepositoryStateCaptured False k (Some ev))"
  "\<lambda>p. btree_get (repositories p) k" for k
  by unfold_locales (simp add: apply_defs btree.get_insert)

interpretation team_slot: anti_downgrade roster_is_complete
  "\<lambda>r. EvidenceProjection_apply (TeamStateCaptured False k (Some r))"
  "\<lambda>p. btree_get (proj_team_rosters p) k" for k
  by unfold_locales (simp add: apply_defs btree.get_insert)

definition OrgReadModel_to :: "OrgReadModel \<Rightarrow> OrgStateSnapshot" where
  "OrgReadModel_to m =
     \<lparr>snapshot_archived_repos = org_archived_repos m,
      snapshot_assessment_metadata = org_assessment_metadata m,
      snapshot_alert_summary = org_alert_summary m\<rparr>"

lemma OrgReadModel_from_to [simp]: "OrgReadModel_from (OrgReadModel_to m) = m"
  by (simp add: OrgReadModel_from_def OrgReadModel_to_def)

interpretation org_slot: anti_downgrade OrgReadModel_is_complete
  "\<lambda>m. EvidenceProjection_apply (OrgStateCaptured (OrgReadModel_to m))" org_state
  by unfold_locales (simp add: apply_defs)

subsection \<open>Reachable states\<close>

inductive reachable :: "EvidenceProjection \<Rightarrow> bool" where
  initial: "reachable EvidenceProjection_default"
| event: "reachable p \<Longrightarrow> reachable (EvidenceProjection_apply e p)"

definition projection_ok :: "EvidenceProjection \<Rightarrow> bool" where
  "projection_ok p \<longleftrightarrow>
     btree_ok (repositories p) \<and> btree_ok (deleted p) \<and> btree_ok (proj_team_rosters p) \<and>
     btree_ok (team_ghost_rosters p)"

definition views_disjoint :: "EvidenceProjection \<Rightarrow> bool" where
  "views_disjoint p \<longleftrightarrow>
     (\<forall>k. btree_get (repositories p) k = None \<or> btree_get (deleted p) k = None) \<and>
     (\<forall>k. btree_get (proj_team_rosters p) k = None \<or> btree_get (team_ghost_rosters p) k = None) \<and>
     (\<forall>k r. btree_get (team_ghost_rosters p) k = Some r \<longrightarrow> roster_status r = TeamRosterStatus.Deleted)"

lemma projection_ok_default: "projection_ok EvidenceProjection_default"
  by (simp add: projection_ok_def EvidenceProjection_default_def btree.ok_empty)

lemma views_disjoint_default: "views_disjoint EvidenceProjection_default"
  by (simp add: views_disjoint_def EvidenceProjection_default_def btree.get_empty)

lemma projection_ok_apply: "projection_ok p \<Longrightarrow> projection_ok (EvidenceProjection_apply e p)"
  by (cases e) (simp_all add: projection_ok_def apply_defs btree.ok_insert btree.ok_remove
      split: option.split)

lemma views_disjoint_apply: "views_disjoint p \<Longrightarrow> views_disjoint (EvidenceProjection_apply e p)"
proof (cases e)
  case (RepositoryStateCaptured d k ev)
  then show "views_disjoint p \<Longrightarrow> ?thesis"
    by (auto simp: views_disjoint_def apply_defs btree.get_insert btree.get_remove split: option.split)
next
  case (RepositoryDeleted k n t)
  then show "views_disjoint p \<Longrightarrow> ?thesis"
    by (auto simp: views_disjoint_def apply_defs btree.get_insert btree.get_remove)
next
  case (OrgStateCaptured s)
  then show "views_disjoint p \<Longrightarrow> ?thesis"
    by (auto simp: views_disjoint_def apply_defs)
next
  case (TeamStateCaptured d k r)
  then show "views_disjoint p \<Longrightarrow> ?thesis"
    by (auto simp: views_disjoint_def apply_defs btree.get_insert btree.get_remove is_some_and_def
        split: option.split)
qed

lemma reachable_ok: "reachable p \<Longrightarrow> projection_ok p"
  by (induction rule: reachable.induct) (simp_all add: projection_ok_default projection_ok_apply)

lemma reachable_disjoint: "reachable p \<Longrightarrow> views_disjoint p"
  by (induction rule: reachable.induct) (simp_all add: views_disjoint_default views_disjoint_apply)

text \<open>
  In every state the event fold can reach, a repository is never both live and deleted, a team is
  never both live and a ghost, every ghost is a team that GitHub reported deleted, and the four maps
  iterate in strictly increasing key order.
\<close>

theorem reachable_views_disjoint:
  assumes "reachable p"
  shows "(btree_get (repositories p) k = None \<or> btree_get (deleted p) k = None) \<and>
    (btree_get (proj_team_rosters p) k = None \<or> btree_get (team_ghost_rosters p) k = None) \<and>
    (case btree_get (team_ghost_rosters p) k of
       None \<Rightarrow> True | Some r \<Rightarrow> roster_status r = TeamRosterStatus.Deleted) \<and>
    sorted_wrt (<) (map fst (repositories p)) \<and> sorted_wrt (<) (map fst (deleted p)) \<and>
    sorted_wrt (<) (map fst (proj_team_rosters p)) \<and>
    sorted_wrt (<) (map fst (team_ghost_rosters p))"
  using reachable_ok [OF assms] reachable_disjoint [OF assms]
  by (auto simp: projection_ok_def views_disjoint_def btree_ok_def split: option.split)

theorem reachable_views_disjoint_witness:
  "let p = EvidenceProjection_apply (RepositoryDeleted ''k'' ''r'' ''t'') EvidenceProjection_default
   in reachable p \<and> btree_get (deleted p) ''k'' \<noteq> None \<and> btree_get (repositories p) ''k'' = None"
proof -
  let ?p = "EvidenceProjection_apply (RepositoryDeleted ''k'' ''r'' ''t'') EvidenceProjection_default"
  have "reachable ?p" by (intro reachable.intros)
  moreover have deleted: "btree_get (deleted ?p) ''k'' \<noteq> None"
    by (simp add: apply_defs btree.get_insert)
  ultimately show ?thesis
    using reachable_views_disjoint [of ?p "''k''"] by (auto simp: Let_def)
qed

subsection \<open>One abstract machine per key\<close>

text \<open>
  The specification of the fold: what one key sees. A repository key holds its live evidence and its
  deletion record, a team key its live and its ghost roster; events of other keys do not touch it.
\<close>

fun repo_machine :: "string \<Rightarrow> EvidenceProjectionEvent \<Rightarrow>
  RepositoryEvidence option \<times> DeletedRepoRecord option \<Rightarrow>
  RepositoryEvidence option \<times> DeletedRepoRecord option" where
  "repo_machine k (RepositoryStateCaptured detached k' evidence) (live, gone) =
     (if k' \<noteq> k then (live, gone)
      else if detached then (None, gone)
      else case evidence of
             None \<Rightarrow> (live, gone)
           | Some ev \<Rightarrow>
               (if is_some_and RepositoryEvidence_is_complete live \<and> \<not> RepositoryEvidence_is_complete ev
                then (live, gone) else (Some ev, None)))"
| "repo_machine k (RepositoryDeleted k' name t) (live, gone) =
     (if k' \<noteq> k then (live, gone)
      else (None, Some \<lparr>deleted_repo_name = name, detected_at = t\<rparr>))"
| "repo_machine k _ s = s"

fun team_machine :: "string \<Rightarrow> EvidenceProjectionEvent \<Rightarrow>
  TeamRoster option \<times> TeamRoster option \<Rightarrow> TeamRoster option \<times> TeamRoster option" where
  "team_machine k (TeamStateCaptured detached k' roster) (live, ghost) =
     (if k' \<noteq> k then (live, ghost)
      else if detached
      then (None, if is_some_and (\<lambda>r. roster_status r = TeamRosterStatus.Deleted) roster
                  then roster else None)
      else case roster of
             None \<Rightarrow> (live, ghost)
           | Some r \<Rightarrow>
               (if is_some_and roster_is_complete live \<and> \<not> roster_is_complete r
                then live else Some r, None))"
| "team_machine k _ s = s"

fun org_machine :: "EvidenceProjectionEvent \<Rightarrow> OrgReadModel option \<Rightarrow> OrgReadModel option" where
  "org_machine (OrgStateCaptured s) o' =
     (if is_some_and OrgReadModel_is_complete o' \<and> \<not> OrgReadModel_is_complete (OrgReadModel_from s)
      then o' else Some (OrgReadModel_from s))"
| "org_machine _ o' = o'"

fun event_repo_key :: "EvidenceProjectionEvent \<Rightarrow> string option" where
  "event_repo_key (RepositoryStateCaptured _ k _) = Some k"
| "event_repo_key (RepositoryDeleted k _ _) = Some k"
| "event_repo_key _ = None"

fun event_team_key :: "EvidenceProjectionEvent \<Rightarrow> string option" where
  "event_team_key (TeamStateCaptured _ k _) = Some k"
| "event_team_key _ = None"

fun is_org_event :: "EvidenceProjectionEvent \<Rightarrow> bool" where
  "is_org_event (OrgStateCaptured _) = True"
| "is_org_event _ = False"

abbreviation repo_view :: "EvidenceProjection \<Rightarrow> string \<Rightarrow>
  RepositoryEvidence option \<times> DeletedRepoRecord option" where
  "repo_view p k \<equiv> (btree_get (repositories p) k, btree_get (deleted p) k)"

abbreviation team_view :: "EvidenceProjection \<Rightarrow> string \<Rightarrow> TeamRoster option \<times> TeamRoster option" where
  "team_view p k \<equiv> (btree_get (proj_team_rosters p) k, btree_get (team_ghost_rosters p) k)"

lemma apply_refines_repo:
  "repo_view (EvidenceProjection_apply e p) k = repo_machine k e (repo_view p k)"
  by (cases e) (simp_all add: apply_defs btree.get_insert btree.get_remove split: option.split)

lemma apply_refines_team:
  "team_view (EvidenceProjection_apply e p) k = team_machine k e (team_view p k)"
  by (cases e) (simp_all add: apply_defs btree.get_insert btree.get_remove is_some_and_def
      split: option.split)

lemma apply_refines_org: "org_state (EvidenceProjection_apply e p) = org_machine e (org_state p)"
  by (cases e) (simp_all add: apply_defs split: option.split)

lemma fold_refines_repo:
  "repo_view (fold EvidenceProjection_apply es p) k = fold (repo_machine k) es (repo_view p k)"
  by (induction es arbitrary: p) (simp_all add: apply_refines_repo del: prod.inject)

lemma fold_refines_team:
  "team_view (fold EvidenceProjection_apply es p) k = fold (team_machine k) es (team_view p k)"
  by (induction es arbitrary: p) (simp_all add: apply_refines_team del: prod.inject)

lemma fold_refines_org:
  "org_state (fold EvidenceProjection_apply es p) = fold org_machine es (org_state p)"
  by (induction es arbitrary: p) (simp_all add: apply_refines_org)

lemma fold_ok: "projection_ok p \<Longrightarrow> projection_ok (fold EvidenceProjection_apply es p)"
  by (induction es arbitrary: p) (simp_all add: projection_ok_apply)

lemma fold_filter_id: "(\<And>e s. \<not> P e \<Longrightarrow> f e s = s) \<Longrightarrow> fold f es s = fold f (filter P es) s"
  by (induction es arbitrary: s) simp_all

lemma repo_machine_other: "event_repo_key e \<noteq> Some k \<Longrightarrow> repo_machine k e s = s"
  by (cases e; cases s) simp_all

lemma team_machine_other: "event_team_key e \<noteq> Some k \<Longrightarrow> team_machine k e s = s"
  by (cases e; cases s) simp_all

lemma org_machine_other: "\<not> is_org_event e \<Longrightarrow> org_machine e s = s"
  by (cases e) simp_all

text \<open>
  C7. The fold implements the per-key machines: after any event stream, what a repository key, a team
  key and the organisation see is the run of their own machine over their own events, in stream
  order; all other events are irrelevant to them.
\<close>

theorem projection_refines_key_machines:
  "repo_view (fold EvidenceProjection_apply es p) k =
     fold (repo_machine k) (filter (\<lambda>e. event_repo_key e = Some k) es) (repo_view p k) \<and>
   team_view (fold EvidenceProjection_apply es p) k =
     fold (team_machine k) (filter (\<lambda>e. event_team_key e = Some k) es) (team_view p k) \<and>
   org_state (fold EvidenceProjection_apply es p) =
     fold org_machine (filter is_org_event es) (org_state p)"
  unfolding fold_refines_repo fold_refines_team fold_refines_org
  by (intro conjI fold_filter_id repo_machine_other team_machine_other org_machine_other)

lemma projection_ext:
  assumes "projection_ok p" and "projection_ok q"
    and "\<And>k. repo_view p k = repo_view q k" and "\<And>k. team_view p k = team_view q k"
    and "org_state p = org_state q"
  shows "p = q"
proof -
  have "repositories p = repositories q" "deleted p = deleted q"
    "proj_team_rosters p = proj_team_rosters q" "team_ghost_rosters p = team_ghost_rosters q"
    using assms(1-4) by (auto intro!: btree.iter_by_contents simp: projection_ok_def fun_eq_iff)
  with assms(5) show ?thesis by (cases p; cases q) simp
qed

text \<open>
  Only the order of events of the same key matters: two streams that agree on the events of each
  repository, of each team and of the organisation fold to the same projection, however they are
  interleaved, down to the iteration order of every map.
\<close>

theorem interleaving_independent:
  assumes "projection_ok p"
    and "\<And>k. filter (\<lambda>e. event_repo_key e = Some k) es = filter (\<lambda>e. event_repo_key e = Some k) es'"
    and "\<And>k. filter (\<lambda>e. event_team_key e = Some k) es = filter (\<lambda>e. event_team_key e = Some k) es'"
    and "filter is_org_event es = filter is_org_event es'"
  shows "fold EvidenceProjection_apply es p = fold EvidenceProjection_apply es' p"
proof (rule projection_ext)
  fix k
  show "repo_view (fold EvidenceProjection_apply es p) k = repo_view (fold EvidenceProjection_apply es' p) k"
    unfolding fold_refines_repo
    by (subst (1 2) fold_filter_id [where P = "\<lambda>e. event_repo_key e = Some k"])
      (simp_all add: repo_machine_other assms(2))
  show "team_view (fold EvidenceProjection_apply es p) k = team_view (fold EvidenceProjection_apply es' p) k"
    unfolding fold_refines_team
    by (subst (1 2) fold_filter_id [where P = "\<lambda>e. event_team_key e = Some k"])
      (simp_all add: team_machine_other assms(3))
  show "org_state (fold EvidenceProjection_apply es p) = org_state (fold EvidenceProjection_apply es' p)"
    unfolding fold_refines_org
    by (subst (1 2) fold_filter_id [where P = is_org_event])
      (simp_all add: org_machine_other assms(4))
qed (simp_all add: fold_ok assms(1))

theorem interleaving_independent_witness:
  "fold EvidenceProjection_apply
     [RepositoryDeleted ''a'' ''x'' ''1'', TeamStateCaptured True ''a'' None, RepositoryDeleted ''b'' ''y'' ''2'']
     EvidenceProjection_default =
   fold EvidenceProjection_apply
     [TeamStateCaptured True ''a'' None, RepositoryDeleted ''b'' ''y'' ''2'', RepositoryDeleted ''a'' ''x'' ''1'']
     EvidenceProjection_default"
  by (rule interleaving_independent) (auto simp: projection_ok_default)

subsection \<open>No downgrade, no effect of a repeated event\<close>

fun removes_repo :: "string \<Rightarrow> EvidenceProjectionEvent \<Rightarrow> bool" where
  "removes_repo k (RepositoryStateCaptured detached k' _) = (detached \<and> k' = k)"
| "removes_repo k (RepositoryDeleted k' _ _) = (k' = k)"
| "removes_repo k _ = False"

fun removes_team :: "string \<Rightarrow> EvidenceProjectionEvent \<Rightarrow> bool" where
  "removes_team k (TeamStateCaptured detached k' _) = (detached \<and> k' = k)"
| "removes_team k _ = False"

lemma repo_machine_keeps_complete:
  "is_some_and RepositoryEvidence_is_complete (fst s) \<Longrightarrow> \<not> removes_repo k e \<Longrightarrow>
    is_some_and RepositoryEvidence_is_complete (fst (repo_machine k e s))"
  by (cases e; cases s) (auto simp: is_some_and_def split: option.splits)

lemma team_machine_keeps_complete:
  "is_some_and roster_is_complete (fst s) \<Longrightarrow> \<not> removes_team k e \<Longrightarrow>
    is_some_and roster_is_complete (fst (team_machine k e s))"
  by (cases e; cases s) (auto simp: is_some_and_def split: option.splits)

lemma org_machine_keeps_complete:
  "is_some_and OrgReadModel_is_complete s \<Longrightarrow> is_some_and OrgReadModel_is_complete (org_machine e s)"
  by (cases e) (auto simp: is_some_and_def split: option.splits)

lemma fold_keeps: "(\<And>e s. P s \<Longrightarrow> Q e \<Longrightarrow> P (f e s)) \<Longrightarrow> list_all Q es \<Longrightarrow> P s \<Longrightarrow> P (fold f es s)"
  by (induction es arbitrary: s) simp_all

text \<open>
  Complete state is never downgraded: once the projection holds complete evidence for a repository
  or a complete roster for a team, every later state holds complete evidence or a complete roster for
  it, unless an event in between detaches or deletes that very key; a complete organisation state
  stays complete for good. A fresh complete observation always takes effect.
\<close>

theorem complete_state_never_downgraded:
  "(is_some_and RepositoryEvidence_is_complete (btree_get (repositories p) k) \<and>
      list_all (\<lambda>e. \<not> removes_repo k e) es \<longrightarrow>
      is_some_and RepositoryEvidence_is_complete
        (btree_get (repositories (fold EvidenceProjection_apply es p)) k)) \<and>
   (is_some_and roster_is_complete (btree_get (proj_team_rosters p) k) \<and>
      list_all (\<lambda>e. \<not> removes_team k e) es \<longrightarrow>
      is_some_and roster_is_complete
        (btree_get (proj_team_rosters (fold EvidenceProjection_apply es p)) k)) \<and>
   (is_some_and OrgReadModel_is_complete (org_state p) \<longrightarrow>
      is_some_and OrgReadModel_is_complete (org_state (fold EvidenceProjection_apply es p))) \<and>
   (RepositoryEvidence_is_complete ev \<longrightarrow>
      btree_get (repositories (EvidenceProjection_apply (RepositoryStateCaptured False k (Some ev)) p)) k =
        Some ev)"
proof (intro conjI impI)
  assume "is_some_and RepositoryEvidence_is_complete (btree_get (repositories p) k) \<and>
      list_all (\<lambda>e. \<not> removes_repo k e) es"
  then show "is_some_and RepositoryEvidence_is_complete
        (btree_get (repositories (fold EvidenceProjection_apply es p)) k)"
    using fold_keeps [of "\<lambda>s. is_some_and RepositoryEvidence_is_complete (fst s)"
        "\<lambda>e. \<not> removes_repo k e" "repo_machine k" es "repo_view p k"]
    by (simp add: repo_machine_keeps_complete fold_refines_repo [symmetric])
next
  assume "is_some_and roster_is_complete (btree_get (proj_team_rosters p) k) \<and>
      list_all (\<lambda>e. \<not> removes_team k e) es"
  then show "is_some_and roster_is_complete
        (btree_get (proj_team_rosters (fold EvidenceProjection_apply es p)) k)"
    using fold_keeps [of "\<lambda>s. is_some_and roster_is_complete (fst s)"
        "\<lambda>e. \<not> removes_team k e" "team_machine k" es "team_view p k"]
    by (simp add: team_machine_keeps_complete fold_refines_team [symmetric])
next
  assume "is_some_and OrgReadModel_is_complete (org_state p)"
  then show "is_some_and OrgReadModel_is_complete (org_state (fold EvidenceProjection_apply es p))"
    using fold_keeps [of "is_some_and OrgReadModel_is_complete" "\<lambda>_. True" org_machine es "org_state p"]
    by (simp add: org_machine_keeps_complete fold_refines_org list_all_iff)
next
  assume "RepositoryEvidence_is_complete ev"
  then show "btree_get (repositories
      (EvidenceProjection_apply (RepositoryStateCaptured False k (Some ev)) p)) k = Some ev"
    by (rule repo_slot.observe_complete)
qed

abbreviation sample_complete :: RepositoryEvidence where
  "sample_complete \<equiv> sample_evidence ''r''
     (SecretScanningResult_unobservable SecretScanningFailureReason.PermissionDenied ''t'')"

abbreviation sample_incomplete :: RepositoryEvidence where
  "sample_incomplete \<equiv> sample_evidence ''r''
     (SecretScanningResult_unobservable SecretScanningFailureReason.Transient ''t'')"

lemma sample_completeness:
  "RepositoryEvidence_is_complete sample_complete" "\<not> RepositoryEvidence_is_complete sample_incomplete"
  by (simp_all add: RepositoryEvidence_is_complete_def sample_evidence_def sample_checks_def
      SecretScanningResult_unobservable_def is_permission_reason_def)

theorem complete_state_never_downgraded_witness:
  "is_some_and RepositoryEvidence_is_complete (btree_get (repositories
     (fold EvidenceProjection_apply
        [RepositoryStateCaptured False ''k'' (Some sample_incomplete), RepositoryDeleted ''j'' ''x'' ''t'']
        (EvidenceProjection_default\<lparr>repositories := [(''k'', sample_complete)]\<rparr>))) ''k'')"
  using complete_state_never_downgraded
    [of "EvidenceProjection_default\<lparr>repositories := [(''k'', sample_complete)]\<rparr>" "''k''"
        "[RepositoryStateCaptured False ''k'' (Some sample_incomplete), RepositoryDeleted ''j'' ''x'' ''t'']"]
  by (simp add: btree_get_def is_some_and_def sample_completeness)

text \<open>
  Delivering an event twice in a row is the same as delivering it once, so at-least-once delivery
  of the last event does not change the projection.
\<close>

theorem repeated_event_has_no_effect:
  assumes "projection_ok p"
  shows "EvidenceProjection_apply e (EvidenceProjection_apply e p) = EvidenceProjection_apply e p"
proof (rule projection_ext)
  fix k
  show "repo_view (EvidenceProjection_apply e (EvidenceProjection_apply e p)) k =
      repo_view (EvidenceProjection_apply e p) k"
    unfolding apply_refines_repo
    by (cases e) (auto simp: is_some_and_def split: option.split)
  show "team_view (EvidenceProjection_apply e (EvidenceProjection_apply e p)) k =
      team_view (EvidenceProjection_apply e p) k"
    unfolding apply_refines_team
    by (cases e) (auto simp: is_some_and_def split: option.split)
  show "org_state (EvidenceProjection_apply e (EvidenceProjection_apply e p)) =
      org_state (EvidenceProjection_apply e p)"
    unfolding apply_refines_org
    by (cases e) (auto simp: is_some_and_def split: option.split)
qed (simp_all add: projection_ok_apply assms)

theorem repeated_event_has_no_effect_witness:
  "EvidenceProjection_apply (RepositoryStateCaptured False ''k'' (Some sample_complete))
     (EvidenceProjection_apply (RepositoryStateCaptured False ''k'' (Some sample_complete))
        EvidenceProjection_default) =
   EvidenceProjection_apply (RepositoryStateCaptured False ''k'' (Some sample_complete))
     EvidenceProjection_default"
  by (rule repeated_event_has_no_effect) (rule projection_ok_default)

subsection \<open>Reading the projection\<close>

lemma len_counts_keys: "projection_ok p \<Longrightarrow> EvidenceProjection_len p = card {k. btree_get (repositories p) k \<noteq> None}"
proof -
  assume "projection_ok p"
  then have ok: "btree_ok (repositories p)" by (simp add: projection_ok_def)
  have "{k. btree_get (repositories p) k \<noteq> None} = fst ` set (repositories p)"
    using btree.iter_set [OF ok] by force
  moreover have "card (fst ` set (repositories p)) = length (repositories p)"
    using distinct_card [OF btree.iter_distinct [OF ok]] by simp
  ultimately show ?thesis by (simp add: EvidenceProjection_len_def)
qed

text \<open>
  The render snapshot is a rearrangement of the live evidence, sorted by repository id and then
  name; it holds an evidence record exactly if some key is bound to it, and the reported length is
  the number of keys that \<open>Contains\<close> confirms.
\<close>

theorem sorted_snapshot_correct:
  assumes "reachable p"
  shows "mset (EvidenceProjection_sorted_snapshot p) = mset (map snd (repositories p)) \<and>
    sorted (map (\<lambda>ev. (repo_id (repository ev), repo_name (repository ev)))
      (EvidenceProjection_sorted_snapshot p)) \<and>
    set (EvidenceProjection_sorted_snapshot p) = {ev. \<exists>k. EvidenceProjection_get p k = Some ev} \<and>
    EvidenceProjection_len p =
      card {k. EvidenceProjectionReadPort_resolve p (EvidenceProjectionQuery.Contains k) =
        EvidenceProjectionResponse.Contains True}"
proof (intro conjI)
  have ok: "btree_ok (repositories p)"
    using reachable_ok [OF assms] by (simp add: projection_ok_def)
  show "mset (EvidenceProjection_sorted_snapshot p) = mset (map snd (repositories p))"
    and "sorted (map (\<lambda>ev. (repo_id (repository ev), repo_name (repository ev)))
      (EvidenceProjection_sorted_snapshot p))"
    by (simp_all add: EvidenceProjection_sorted_snapshot_def)
  show "set (EvidenceProjection_sorted_snapshot p) = {ev. \<exists>k. EvidenceProjection_get p k = Some ev}"
    using btree.iter_set [OF ok]
    by (force simp: EvidenceProjection_sorted_snapshot_def EvidenceProjection_get_def)
  show "EvidenceProjection_len p =
      card {k. EvidenceProjectionReadPort_resolve p (EvidenceProjectionQuery.Contains k) =
        EvidenceProjectionResponse.Contains True}"
    by (simp add: EvidenceProjectionReadPort_resolve_def len_counts_keys reachable_ok [OF assms])
qed

theorem sorted_snapshot_correct_witness:
  "EvidenceProjection_len (EvidenceProjection_apply
     (RepositoryStateCaptured False ''k'' (Some sample_complete)) EvidenceProjection_default) =
   card {k. EvidenceProjectionReadPort_resolve (EvidenceProjection_apply
       (RepositoryStateCaptured False ''k'' (Some sample_complete)) EvidenceProjection_default)
     (EvidenceProjectionQuery.Contains k) = EvidenceProjectionResponse.Contains True}"
  using sorted_snapshot_correct [of "EvidenceProjection_apply
     (RepositoryStateCaptured False ''k'' (Some sample_complete)) EvidenceProjection_default"]
  by (simp add: reachable.intros)

text \<open>
  Two projections reached by any histories that agree on every lookup give the same answer to
  every query of the read port, ordered snapshots included.
\<close>

theorem read_port_depends_on_contents_only:
  assumes "reachable p" and "reachable q"
    and "\<And>k. repo_view p k = repo_view q k" and "\<And>k. team_view p k = team_view q k"
    and "org_state p = org_state q"
  shows "EvidenceProjectionReadPort_resolve p query = EvidenceProjectionReadPort_resolve q query"
  using projection_ext [OF reachable_ok [OF assms(1)] reachable_ok [OF assms(2)] assms(3-5)] by simp

theorem read_port_depends_on_contents_only_witness:
  "EvidenceProjectionReadPort_resolve EvidenceProjection_default EvidenceProjectionQuery.SortedSnapshot =
   EvidenceProjectionReadPort_resolve
     (EvidenceProjection_apply (TeamStateCaptured True ''k'' None) EvidenceProjection_default)
     EvidenceProjectionQuery.SortedSnapshot"
proof (rule read_port_depends_on_contents_only)
  show "reachable EvidenceProjection_default"
    "reachable (EvidenceProjection_apply (TeamStateCaptured True ''k'' None) EvidenceProjection_default)"
    by (intro reachable.intros)+
qed (simp_all add: apply_defs EvidenceProjection_default_def btree_empty_def btree_remove_def)

subsection \<open>Bulk loads\<close>

text \<open>
  A bulk load is last-writer-wins by inventory key and leaves every other key, the deletion
  records, the teams and the organisation alone. Loading a resumed checkpoint and then the baseline
  is one load of the concatenation.
\<close>

theorem bulk_load_last_writer_wins:
  "btree_get (repositories (EvidenceProjection_bulk_load es p)) k =
     (let hits = filter (\<lambda>ev. inventory_key (repository ev) = k) es
      in if hits = [] then btree_get (repositories p) k else Some (last hits)) \<and>
   deleted (EvidenceProjection_bulk_load es p) = deleted p \<and>
   EvidenceProjection_load_baseline es' (EvidenceProjection_load_resumed_checkpoint es p) =
     EvidenceProjection_bulk_load (es @ es') p"
proof (intro conjI)
  have "map_of (rev (map (\<lambda>ev. (inventory_key (repository ev), ev)) es)) k =
      (let hits = filter (\<lambda>ev. inventory_key (repository ev) = k) es
       in if hits = [] then None else Some (last hits))"
    by (induction es rule: rev_induct) (simp_all add: Let_def)
  then show "btree_get (repositories (EvidenceProjection_bulk_load es p)) k =
     (let hits = filter (\<lambda>ev. inventory_key (repository ev) = k) es
      in if hits = [] then btree_get (repositories p) k else Some (last hits))"
    by (simp add: EvidenceProjection_bulk_load_def btree_get_extend Let_def)
qed (simp_all add: EvidenceProjection_bulk_load_def EvidenceProjection_load_baseline_def
    EvidenceProjection_load_resumed_checkpoint_def btree_extend_def)

text \<open>
  Unlike the event fold, a bulk load does not clear deletion records: loading evidence for a key
  that a reachable state records as deleted leaves the repository both live and deleted.
\<close>

theorem bulk_load_keeps_deletion_record:
  assumes "btree_get (deleted p) (inventory_key (repository ev)) \<noteq> None"
  shows "btree_get (repositories (EvidenceProjection_bulk_load [ev] p)) (inventory_key (repository ev)) = Some ev \<and>
    btree_get (deleted (EvidenceProjection_bulk_load [ev] p)) (inventory_key (repository ev)) \<noteq> None \<and>
    \<not> views_disjoint (EvidenceProjection_bulk_load [ev] p)"
proof -
  have "btree_get (repositories (EvidenceProjection_bulk_load [ev] p)) (inventory_key (repository ev)) = Some ev"
    "btree_get (deleted (EvidenceProjection_bulk_load [ev] p)) (inventory_key (repository ev)) \<noteq> None"
    using assms by (simp_all add: EvidenceProjection_bulk_load_def btree_get_extend)
  moreover from this have "\<not> views_disjoint (EvidenceProjection_bulk_load [ev] p)"
    unfolding views_disjoint_def by (metis option.distinct(1))
  ultimately show ?thesis by blast
qed

theorem bulk_load_keeps_deletion_record_witness:
  "let p = EvidenceProjection_apply (RepositoryDeleted ''r'' ''r'' ''t'') EvidenceProjection_default
   in reachable p \<and> \<not> views_disjoint (EvidenceProjection_bulk_load [sample_complete] p)"
proof -
  let ?p = "EvidenceProjection_apply (RepositoryDeleted ''r'' ''r'' ''t'') EvidenceProjection_default"
  have "inventory_key (repository sample_complete) = ''r''"
    by (simp add: sample_evidence_def sample_repository_def)
  then have "btree_get (deleted ?p) (inventory_key (repository sample_complete)) \<noteq> None"
    by (simp add: apply_defs btree.get_insert)
  from bulk_load_keeps_deletion_record [OF this]
  have "\<not> views_disjoint (EvidenceProjection_bulk_load [sample_complete] ?p)" by blast
  moreover have "reachable ?p" by (intro reachable.intros)
  ultimately show ?thesis by (simp add: Let_def)
qed

end
