(* ===== verification/Write_Policy.thy ===== *)
theory Write_Policy
  imports Gh_Prelude
begin

text \<open>
  The durable-write-failure policy of \<open>app/write_policy.rs\<close>: classification of storage errors, the
  response each category gets, bounded retry, and the log record of a failure. The storage error type
  belongs to another package; its variants are those of the exhaustive matches of the source, with
  the two sequence numbers the source reads. A write is a state-passing operation, so that a retry
  sees the effects of the attempts before it; the delay between attempts is left out. The lemmas
  determine the outcome of a policy-guarded write from the outcomes of its attempts, and bound what
  reaches the log.
\<close>

datatype PersistenceError =
  Indeterminate
| FencedConflict "u64 option" "u64 option"
| BackendUnavailable
| InvariantViolation
| PoisonedState
| TornWriteRecovery
| LockFailed
| AtomicWriteFailed
| LoadFailed
| Io

definition BOUNDED_RETRY_ATTEMPTS :: u8 where
  "BOUNDED_RETRY_ATTEMPTS = 3"

datatype WritePolicyCategory =
  ReconciliationRequired | Conflict | Transient | Structural | Unrecoverable

datatype WriteResponse = Fatal | BoundedRetry | HttpNon2xx

definition WritePolicyCategory_classify :: "PersistenceError \<Rightarrow> WritePolicyCategory" where
  "WritePolicyCategory_classify err = (case err of
     Indeterminate \<Rightarrow> WritePolicyCategory.ReconciliationRequired
   | FencedConflict _ _ \<Rightarrow> WritePolicyCategory.Conflict
   | BackendUnavailable \<Rightarrow> WritePolicyCategory.Transient
   | InvariantViolation \<Rightarrow> WritePolicyCategory.Structural
   | PoisonedState \<Rightarrow> WritePolicyCategory.Unrecoverable
   | TornWriteRecovery \<Rightarrow> WritePolicyCategory.Unrecoverable
   | LockFailed \<Rightarrow> WritePolicyCategory.Unrecoverable
   | AtomicWriteFailed \<Rightarrow> WritePolicyCategory.Unrecoverable
   | LoadFailed \<Rightarrow> WritePolicyCategory.Unrecoverable
   | Io \<Rightarrow> WritePolicyCategory.Unrecoverable)"

definition WritePolicyCategory_response :: "WritePolicyCategory \<Rightarrow> WriteResponse" where
  "WritePolicyCategory_response category = (case category of
     WritePolicyCategory.Conflict \<Rightarrow> WriteResponse.Fatal
   | WritePolicyCategory.Structural \<Rightarrow> WriteResponse.Fatal
   | WritePolicyCategory.Unrecoverable \<Rightarrow> WriteResponse.Fatal
   | WritePolicyCategory.ReconciliationRequired \<Rightarrow> WriteResponse.Fatal
   | WritePolicyCategory.Transient \<Rightarrow> WriteResponse.BoundedRetry)"

datatype Level = WARN | ERROR

definition severity_for :: "WritePolicyCategory \<Rightarrow> Level" where
  "severity_for category = (case category of
     WritePolicyCategory.Conflict \<Rightarrow> WARN
   | WritePolicyCategory.Transient \<Rightarrow> ERROR
   | WritePolicyCategory.ReconciliationRequired \<Rightarrow> ERROR
   | WritePolicyCategory.Structural \<Rightarrow> ERROR
   | WritePolicyCategory.Unrecoverable \<Rightarrow> ERROR)"

record WriteFailure =
  failure_category :: WritePolicyCategory
  failure_response :: WriteResponse
  failure_error :: PersistenceError
  failure_attempt :: u8

definition WriteFailure_classify :: "PersistenceError \<Rightarrow> WriteFailure" where
  "WriteFailure_classify err =
     (let category = WritePolicyCategory_classify err
      in \<lparr>failure_category = category, failure_response = WritePolicyCategory_response category,
          failure_error = err, failure_attempt = 1\<rparr>)"

subsection \<open>Logging\<close>

record WriteFailureContext =
  ctx_org :: "string option"
  ctx_team_slug :: "string option"
  ctx_domain_key :: "string option"
  ctx_writer_id :: "string option"

definition MAX_ERROR_BODY_LEN :: nat where
  "MAX_ERROR_BODY_LEN = 1024"

text \<open>\<open>str::floor_char_boundary\<close> on UTF-8 bytes: step back over continuation bytes.\<close>

definition is_continuation_byte :: "char \<Rightarrow> bool" where
  "is_continuation_byte c \<longleftrightarrow> 128 \<le> (of_char c :: nat) \<and> (of_char c :: nat) < 192"

fun step_back :: "string \<Rightarrow> nat \<Rightarrow> nat" where
  "step_back s 0 = 0"
| "step_back s (Suc i) =
     (if Suc i < length s \<and> is_continuation_byte (s ! Suc i) then step_back s i else Suc i)"

definition floor_char_boundary :: "string \<Rightarrow> nat \<Rightarrow> nat" where
  "floor_char_boundary s i = (if length s \<le> i then length s else step_back s i)"

definition TRUNCATION_MARK :: string where
  "TRUNCATION_MARK = [CHR 0xE2, CHR 0x80, CHR 0xA6] @ ''[truncated]''"

definition truncate_error_body :: "string \<Rightarrow> string" where
  "truncate_error_body body =
     (if length body \<le> MAX_ERROR_BODY_LEN then body
      else take (floor_char_boundary body MAX_ERROR_BODY_LEN) body @ TRUNCATION_MARK)"

text \<open>The display texts of an error and of its \<open>source()\<close> chain, outermost first.\<close>

definition source_chain :: "string \<Rightarrow> string list \<Rightarrow> string" where
  "source_chain head_text sources =
     foldl (\<lambda>chain src. chain @ '' <- '' @ truncate_error_body src) (truncate_error_body head_text) sources"

definition persist_error_variant :: "PersistenceError \<Rightarrow> string" where
  "persist_error_variant err = (case err of
     Indeterminate \<Rightarrow> ''Indeterminate''
   | LockFailed \<Rightarrow> ''LockFailed''
   | AtomicWriteFailed \<Rightarrow> ''AtomicWriteFailed''
   | LoadFailed \<Rightarrow> ''LoadFailed''
   | TornWriteRecovery \<Rightarrow> ''TornWriteRecovery''
   | FencedConflict _ _ \<Rightarrow> ''FencedConflict''
   | BackendUnavailable \<Rightarrow> ''BackendUnavailable''
   | InvariantViolation \<Rightarrow> ''InvariantViolation''
   | PoisonedState \<Rightarrow> ''PoisonedState''
   | Io \<Rightarrow> ''Io'')"

fun conflict_seq_fields :: "PersistenceError \<Rightarrow> u64 option \<times> u64 option" where
  "conflict_seq_fields (FencedConflict expected_seq actual_seq) = (expected_seq, actual_seq)"
| "conflict_seq_fields _ = (None, None)"

record LogRecord =
  log_level :: Level
  log_variant :: string
  log_category :: WritePolicyCategory
  log_response :: WriteResponse
  log_context :: WriteFailureContext
  log_seqs :: "u64 option \<times> u64 option"
  log_attempt :: u8
  log_source_chain :: string

definition log_write_failure ::
  "WriteFailure \<Rightarrow> WriteFailureContext \<Rightarrow> string \<Rightarrow> string list \<Rightarrow> LogRecord" where
  "log_write_failure failure context head_text sources =
     \<lparr>log_level = (case failure_response failure of
        WriteResponse.Fatal \<Rightarrow> ERROR
      | WriteResponse.BoundedRetry \<Rightarrow> WARN
      | WriteResponse.HttpNon2xx \<Rightarrow> WARN),
      log_variant = persist_error_variant (failure_error failure),
      log_category = failure_category failure, log_response = failure_response failure,
      log_context = context, log_seqs = conflict_seq_fields (failure_error failure),
      log_attempt = failure_attempt failure, log_source_chain = source_chain head_text sources\<rparr>"

subsection \<open>Bounded retry\<close>

datatype RetryStep = Succeeded | Retryable WriteFailure | Terminal WriteFailure

definition classify_attempt :: "PersistenceError + unit \<Rightarrow> u8 \<Rightarrow> RetryStep" where
  "classify_attempt result attempt = (case result of
     Inr _ \<Rightarrow> RetryStep.Succeeded
   | Inl err \<Rightarrow>
       (let failure = (WriteFailure_classify err)\<lparr>failure_attempt := attempt\<rparr>
        in case failure_response failure of
             WriteResponse.BoundedRetry \<Rightarrow> RetryStep.Retryable failure
           | WriteResponse.Fatal \<Rightarrow> RetryStep.Terminal failure
           | WriteResponse.HttpNon2xx \<Rightarrow> RetryStep.Terminal failure))"

type_synonym 's write_op = "'s \<Rightarrow> (PersistenceError + unit) \<times> 's"

fun retry_loop ::
  "'s write_op \<Rightarrow> u8 list \<Rightarrow> WriteFailure \<Rightarrow> 's \<Rightarrow> (WriteFailure + unit) \<times> 's" where
  "retry_loop op [] failure s = (Inl failure, s)"
| "retry_loop op (retry # retries) failure s = (case op s of (result, s') \<Rightarrow>
     (case classify_attempt result (retry + 2) of
        RetryStep.Succeeded \<Rightarrow> (Inr (), s')
      | RetryStep.Terminal failure' \<Rightarrow> (Inl failure', s')
      | RetryStep.Retryable failure' \<Rightarrow> retry_loop op retries failure' s'))"

definition write_with_policy :: "'s write_op \<Rightarrow> 's \<Rightarrow> (WriteFailure + unit) \<times> 's" where
  "write_with_policy op s = (case op s of (result, s') \<Rightarrow>
     (case classify_attempt result 1 of
        RetryStep.Succeeded \<Rightarrow> (Inr (), s')
      | RetryStep.Terminal failure \<Rightarrow> (Inl failure, s')
      | RetryStep.Retryable failure \<Rightarrow>
          retry_loop op (map of_nat [0..<unat BOUNDED_RETRY_ATTEMPTS]) failure s'))"

definition write_with_policy_sync :: "'s write_op \<Rightarrow> 's \<Rightarrow> (WriteFailure + unit) \<times> 's" where
  "write_with_policy_sync op s = (case op s of (result, s') \<Rightarrow>
     (case classify_attempt result 1 of
        RetryStep.Succeeded \<Rightarrow> (Inr (), s')
      | RetryStep.Terminal failure \<Rightarrow> (Inl failure, s')
      | RetryStep.Retryable failure \<Rightarrow>
          retry_loop op (map of_nat [0..<unat BOUNDED_RETRY_ATTEMPTS]) failure s'))"

subsection \<open>Classification\<close>

lemma response_retry_iff:
  "WritePolicyCategory_response c = WriteResponse.BoundedRetry \<longleftrightarrow> c = WritePolicyCategory.Transient"
  "WritePolicyCategory_response c = WriteResponse.Fatal \<longleftrightarrow> c \<noteq> WritePolicyCategory.Transient"
  "WritePolicyCategory_response c \<noteq> WriteResponse.HttpNon2xx"
  by (cases c; simp add: WritePolicyCategory_response_def)+

lemma classify_transient_iff:
  "WritePolicyCategory_classify e = WritePolicyCategory.Transient \<longleftrightarrow> e = BackendUnavailable"
  by (cases e) (simp_all add: WritePolicyCategory_classify_def)

abbreviation transient :: "PersistenceError + unit" where
  "transient \<equiv> Inl BackendUnavailable"

lemma classify_attempt_cases:
  "classify_attempt (Inr ()) n = RetryStep.Succeeded"
  "classify_attempt transient n = RetryStep.Retryable
     ((WriteFailure_classify BackendUnavailable)\<lparr>failure_attempt := n\<rparr>)"
  "e \<noteq> BackendUnavailable \<Longrightarrow> classify_attempt (Inl e) n = RetryStep.Terminal
     ((WriteFailure_classify e)\<lparr>failure_attempt := n\<rparr>)"
  using response_retry_iff [of "WritePolicyCategory_classify e"] classify_transient_iff [of e]
  by (auto simp: classify_attempt_def WriteFailure_classify_def Let_def
      WritePolicyCategory_classify_def WritePolicyCategory_response_def
      split: WriteResponse.split PersistenceError.splits)

subsection \<open>The outcome of a guarded write\<close>

text \<open>
  The specification looks at the attempts as a sequence: the state before the attempt number \<open>n\<close>
  (from 0) and its result. The write makes attempts until one is not a transient failure, at most
  four in all.
\<close>

definition state_before :: "'s write_op \<Rightarrow> 's \<Rightarrow> nat \<Rightarrow> 's" where
  "state_before op s n = ((\<lambda>s. snd (op s)) ^^ n) s"

definition attempt_result :: "'s write_op \<Rightarrow> 's \<Rightarrow> nat \<Rightarrow> PersistenceError + unit" where
  "attempt_result op s n = fst (op (state_before op s n))"

definition last_attempt :: "'s write_op \<Rightarrow> 's \<Rightarrow> nat" where
  "last_attempt op s = min 3 (length (takeWhile (\<lambda>n. attempt_result op s n = transient) [0..<4]))"

lemma state_before_0: "state_before op s 0 = s"
  by (simp add: state_before_def)

lemma state_before_Suc: "state_before op s (Suc n) = state_before op (snd (op s)) n"
  by (simp add: state_before_def funpow_swap1 [of "\<lambda>s. snd (op s)"])

lemma attempt_result_0: "attempt_result op s 0 = fst (op s)"
  by (simp add: attempt_result_def state_before_0)

lemma attempt_result_Suc: "attempt_result op s (Suc n) = attempt_result op (snd (op s)) n"
  by (simp add: attempt_result_def state_before_Suc)

definition policy_result :: "PersistenceError + unit \<Rightarrow> nat \<Rightarrow> WriteFailure + unit" where
  "policy_result result n = (case result of
     Inr u \<Rightarrow> Inr u
   | Inl e \<Rightarrow> Inl ((WriteFailure_classify e)\<lparr>failure_attempt := of_nat (Suc n)\<rparr>))"


lemma guarded_write_outcome':
  "write_with_policy op s =
     (policy_result (attempt_result op s (last_attempt op s)) (last_attempt op s),
      state_before op s (Suc (last_attempt op s)))"
proof -
  have four: "[0..<4] = [0, Suc 0, Suc (Suc 0), Suc (Suc (Suc 0))]"
    by (simp add: upt_rec numeral_eq_Suc)
  have three: "map of_nat [0..<unat BOUNDED_RETRY_ATTEMPTS] = [0, 1, 2 :: u8]"
    by (simp add: BOUNDED_RETRY_ATTEMPTS_def upt_rec)
  obtain r1 s1 where 1: "op s = (r1, s1)" by (cases "op s")
  obtain r2 s2 where 2: "op s1 = (r2, s2)" by (cases "op s1")
  obtain r3 s3 where 3: "op s2 = (r3, s3)" by (cases "op s2")
  obtain r4 s4 where 4: "op s3 = (r4, s4)" by (cases "op s3")
  have split: "r = transient \<or> r = Inr () \<or> (\<exists>e. r = Inl e \<and> e \<noteq> BackendUnavailable)"
    for r :: "PersistenceError + unit" by (cases r) auto
  show ?thesis
    using split [of r1] split [of r2] split [of r3] split [of r4]
    unfolding write_with_policy_def three last_attempt_def four
    by (elim disjE exE conjE)
      (simp_all add: 1 2 3 4 classify_attempt_cases attempt_result_0 attempt_result_Suc
        state_before_0 state_before_Suc policy_result_def)
qed

text \<open>
  C26. A guarded write is decided by its first attempt that is not a transient failure, or by the
  fourth attempt if there is none: it makes no further attempt after that one, its result is the
  classified outcome of that attempt, the attempt number is recorded from 1, and the state is the
  one that attempt left. The asynchronous and the synchronous variant agree.
\<close>

theorem guarded_write_outcome:
  "write_with_policy op s =
     (policy_result (attempt_result op s (last_attempt op s)) (last_attempt op s),
      state_before op s (Suc (last_attempt op s))) \<and>
   write_with_policy_sync op s = write_with_policy op s"
  using guarded_write_outcome' [of op s]
  by (simp add: write_with_policy_def write_with_policy_sync_def)

lemma last_attempt_prefix: "j < last_attempt op s \<Longrightarrow> attempt_result op s j = transient"
proof -
  assume j: "j < last_attempt op s"
  let ?tw = "takeWhile (\<lambda>n. attempt_result op s n = transient) [0..<4]"
  have len: "j < length ?tw" using j by (simp add: last_attempt_def)
  then have "?tw ! j \<in> set ?tw" by (rule nth_mem)
  moreover have "?tw ! j = j"
    using len length_takeWhile_le [of "\<lambda>n. attempt_result op s n = transient" "[0..<4]"]
    by (simp add: takeWhile_nth)
  ultimately show ?thesis using set_takeWhileD by fastforce
qed

lemma last_attempt_stops:
  assumes "attempt_result op s n \<noteq> transient" and "n < 4"
  shows "last_attempt op s \<le> n"
proof (rule ccontr)
  assume "\<not> last_attempt op s \<le> n"
  with last_attempt_prefix [of n op s] assms(1) show False by simp
qed

lemma last_attempt_transient:
  "attempt_result op s (last_attempt op s) = transient \<Longrightarrow> last_attempt op s = 3"
proof -
  assume t: "attempt_result op s (last_attempt op s) = transient"
  let ?P = "\<lambda>n. attempt_result op s n = transient"
  show ?thesis
  proof (rule ccontr)
    assume "last_attempt op s \<noteq> 3"
    then have len: "length (takeWhile ?P [0..<4]) < length [0..<4]"
      and eq: "last_attempt op s = length (takeWhile ?P [0..<4])"
      by (auto simp: last_attempt_def)
    from nth_length_takeWhile [OF len] have "\<not> ?P (last_attempt op s)"
      using len by (simp add: eq)
    with t show False by simp
  qed
qed

lemma last_attempt_reaches:
  assumes "n < 4" and "\<And>j. j < n \<Longrightarrow> attempt_result op s j = transient"
  shows "n \<le> last_attempt op s"
proof (rule ccontr)
  assume less: "\<not> n \<le> last_attempt op s"
  with assms(2) have "attempt_result op s (last_attempt op s) = transient" by simp
  with last_attempt_transient [of op s] less assms(1) show False by simp
qed

lemma last_attempt_bound: "last_attempt op s < 4"
  by (simp add: last_attempt_def)

text \<open>
  A reported success is never hiding a lost write: a guarded write succeeds exactly when one of
  its first four attempts succeeds and every attempt before that one failed transiently; and a
  failure it reports is a fatal category, or a transient one after exactly four attempts.
\<close>

theorem success_masks_no_fatal_failure:
  "(fst (write_with_policy op s) = Inr () \<longleftrightarrow>
      (\<exists>n<4. attempt_result op s n = Inr () \<and> list_all (\<lambda>j. attempt_result op s j = transient) [0..<n])) \<and>
   (case fst (write_with_policy op s) of
      Inr _ \<Rightarrow> True
    | Inl f \<Rightarrow> failure_response f = WriteResponse.Fatal \<or>
        failure_category f = WritePolicyCategory.Transient \<and> failure_attempt f = 4)"
proof
  let ?n = "last_attempt op s"
  have outcome: "fst (write_with_policy op s) = policy_result (attempt_result op s ?n) ?n"
    using guarded_write_outcome' [of op s] by simp
  show "fst (write_with_policy op s) = Inr () \<longleftrightarrow>
      (\<exists>n<4. attempt_result op s n = Inr () \<and> list_all (\<lambda>j. attempt_result op s j = transient) [0..<n])"
  proof
    assume "fst (write_with_policy op s) = Inr ()"
    then have "attempt_result op s ?n = Inr ()"
      by (simp add: outcome policy_result_def split: sum.splits)
    then show "\<exists>n<4. attempt_result op s n = Inr () \<and>
        list_all (\<lambda>j. attempt_result op s j = transient) [0..<n]"
      using last_attempt_bound [of op s] last_attempt_prefix [of _ op s]
      by (auto simp: list_all_iff intro!: exI [of _ ?n])
  next
    assume "\<exists>n<4. attempt_result op s n = Inr () \<and>
        list_all (\<lambda>j. attempt_result op s j = transient) [0..<n]"
    then obtain n where n: "n < 4" "attempt_result op s n = Inr ()"
      "\<And>j. j < n \<Longrightarrow> attempt_result op s j = transient"
      by (auto simp: list_all_iff)
    have "?n = n"
    proof (rule antisym)
      show "?n \<le> n" using last_attempt_stops [of op s n] n by simp
      show "n \<le> ?n"
        using n(1,3) by (intro last_attempt_reaches) auto
    qed
    then show "fst (write_with_policy op s) = Inr ()"
      by (simp add: outcome n policy_result_def)
  qed
  show "case fst (write_with_policy op s) of
      Inr _ \<Rightarrow> True
    | Inl f \<Rightarrow> failure_response f = WriteResponse.Fatal \<or>
        failure_category f = WritePolicyCategory.Transient \<and> failure_attempt f = 4"
  proof (cases "attempt_result op s ?n")
    case (Inl e)
    show ?thesis
    proof (cases "e = BackendUnavailable")
      case True
      with Inl have "?n = 3"
        using last_attempt_transient [of op s] by simp
      then have "fst (write_with_policy op s) = policy_result transient 3"
        using outcome Inl True by simp
      then show ?thesis
        by (simp add: policy_result_def WriteFailure_classify_def Let_def
            WritePolicyCategory_classify_def)
    next
      case False
      then show ?thesis
        by (simp add: outcome Inl policy_result_def WriteFailure_classify_def Let_def
            response_retry_iff classify_transient_iff)
    qed
  qed (simp add: outcome policy_result_def)
qed

subsection \<open>What reaches the log\<close>

lemma step_back_le: "step_back s i \<le> i"
  by (induction s i rule: step_back.induct) (auto intro: le_SucI)

lemma truncate_error_body_length: "length (truncate_error_body body) \<le> MAX_ERROR_BODY_LEN + 14"
  using step_back_le [of body MAX_ERROR_BODY_LEN]
  by (auto simp: truncate_error_body_def floor_char_boundary_def TRUNCATION_MARK_def)

lemma source_chain_length:
  "length (source_chain head_text sources) \<le> (MAX_ERROR_BODY_LEN + 18) * Suc (length sources)"
proof -
  have "length (foldl (\<lambda>chain src. chain @ '' <- '' @ truncate_error_body src) acc sources) \<le>
      length acc + (MAX_ERROR_BODY_LEN + 18) * length sources" for acc
  proof (induction sources arbitrary: acc)
    case (Cons src sources)
    from Cons.IH [of "acc @ '' <- '' @ truncate_error_body src"] truncate_error_body_length [of src]
    show ?case by simp
  qed simp
  from this [of "truncate_error_body head_text"] truncate_error_body_length [of head_text]
  show ?thesis by (simp add: source_chain_def)
qed

text \<open>
  Error text in a log record is bounded however long the errors are: each level of the source
  chain contributes at most 1024 bytes of error text plus a constant, a short text is logged
  unchanged, and a truncated one never ends inside a multi-byte character.
\<close>

theorem logged_error_text_bounded:
  "length (log_source_chain (log_write_failure f ctx head_text sources)) \<le>
     1042 * Suc (length sources) \<and>
   (length body \<le> 1024 \<longrightarrow> truncate_error_body body = body) \<and>
   (1024 < length body \<longrightarrow>
      (\<exists>n\<le>1024. truncate_error_body body = take n body @ TRUNCATION_MARK \<and>
         (n = 0 \<or> \<not> is_continuation_byte (body ! n))))"
proof (intro conjI impI)
  show "length (log_source_chain (log_write_failure f ctx head_text sources)) \<le>
     1042 * Suc (length sources)"
    using source_chain_length [of head_text sources]
    by (simp add: log_write_failure_def MAX_ERROR_BODY_LEN_def)
  show "truncate_error_body body = body" if "length body \<le> 1024"
    using that by (simp add: truncate_error_body_def MAX_ERROR_BODY_LEN_def)
  show "\<exists>n\<le>1024. truncate_error_body body = take n body @ TRUNCATION_MARK \<and>
         (n = 0 \<or> \<not> is_continuation_byte (body ! n))" if "1024 < length body"
  proof -
    have "step_back body i = 0 \<or> \<not> is_continuation_byte (body ! step_back body i)"
      if "i < length body" for i
      using that by (induction body i rule: step_back.induct) auto
    then show ?thesis
      using that step_back_le [of body 1024]
      by (auto simp: truncate_error_body_def floor_char_boundary_def MAX_ERROR_BODY_LEN_def)
  qed
qed

theorem logged_error_text_bounded_witness:
  "truncate_error_body ''backend unavailable'' = ''backend unavailable''"
  using logged_error_text_bounded [where body = "''backend unavailable''"] by simp

text \<open>
  The two severities of a write failure disagree: the shared log function writes a fence conflict
  as an error and a transient failure as a warning, while \<open>severity_for\<close> declares the opposite for
  both; on every other category they agree.
\<close>

theorem log_severity_differs_from_severity_for:
  "log_level (log_write_failure (WriteFailure_classify e) ctx head_text sources) =
     severity_for (WritePolicyCategory_classify e) \<longleftrightarrow>
   WritePolicyCategory_classify e \<noteq> WritePolicyCategory.Conflict \<and>
   WritePolicyCategory_classify e \<noteq> WritePolicyCategory.Transient"
  by (cases "WritePolicyCategory_classify e")
    (simp_all add: log_write_failure_def WriteFailure_classify_def Let_def severity_for_def
      WritePolicyCategory_response_def)

end
