(* ===== verification/App_State.thy ===== *)
theory App_State
  imports Event_Store Event_Laws Projection_Model Write_Policy
begin

text \<open>
  The durable writes of \<open>app/state/mod.rs\<close>: the three event stores, the resident projection, the
  write-admission slot that stops all writing once a write needs reconciliation, the events each
  handler builds, and the rebuilding of the projection from the stores. A handler is a function from
  the state to an outcome, which is a result or a panic, and the state after it; the body that
  \<open>admitted_write\<close> runs also carries the \<open>primary_landed\<close> flag. The identifiers that
  \<open>Uuid::now_v7\<close> returns are arguments. Log records are left out.
\<close>

subsection \<open>State\<close>

record 'b AppEnv =
  runtime :: EventRuntime
  adapter :: "'b Pardosa"
  repo_schema :: "DomainEvent PardosaSchema"
  org_schema :: "OrgStateCaptured PardosaSchema"
  team_schema :: "TeamStateCaptured PardosaSchema"

text \<open>
  \<open>reconciliation\<close> records a notification; \<open>scheduled_run\<close> and \<open>batch_tracker\<close> hold, when there is a
  tracker, whether it has been told to drain. A poisoned mutex is a flag beside its value.
\<close>

record 'b AppState =
  event_store :: "('b, DomainEvent) StoreInner"
  org_event_store :: "('b, OrgStateCaptured) StoreInner"
  team_event_store :: "('b, TeamStateCaptured) StoreInner"
  projection_state :: EvidenceProjection
  projection_poisoned :: bool
  write_admission :: "PersistenceError option"
  admission_poisoned :: bool
  reconciliation :: bool
  scheduled_run :: "bool option"
  batch_tracker :: "bool option"

datatype 'a Outcome = Completed "PersistenceError + 'a" | Panicked

subsection \<open>Write admission\<close>

definition notify_and_drain :: "'b AppState \<Rightarrow> 'b AppState" where
  "notify_and_drain s =
     s\<lparr>reconciliation := True, scheduled_run := map_option (\<lambda>_. True) (scheduled_run s)\<rparr>"

definition lock_write_admission :: "'b AppState \<Rightarrow> 'b AppState" where
  "lock_write_admission s =
     (if \<not> admission_poisoned s then s
      else notify_and_drain
        (s\<lparr>write_admission := Some (case write_admission s of
           None \<Rightarrow> PersistenceError.Indeterminate | Some e \<Rightarrow> e)\<rparr>))"

definition ensure_write_admission :: "'b AppState \<Rightarrow> (PersistenceError + unit) \<times> 'b AppState" where
  "ensure_write_admission s =
     (let s = lock_write_admission s
      in (case write_admission s of None \<Rightarrow> Inr () | Some _ \<Rightarrow> Inl PersistenceError.Indeterminate, s))"

definition stop_for_reconciliation :: "PersistenceError \<Rightarrow> 'b AppState \<Rightarrow> 'b AppState" where
  "stop_for_reconciliation error s =
     (let s = lock_write_admission s;
          s = (case write_admission s of None \<Rightarrow> s\<lparr>write_admission := Some error\<rparr> | Some _ \<Rightarrow> s);
          s = notify_and_drain s
      in s\<lparr>batch_tracker := map_option (\<lambda>_. True) (batch_tracker s)\<rparr>)"

type_synonym ('b, 'a) write_body = "bool \<times> 'b AppState \<Rightarrow> 'a Outcome \<times> bool \<times> 'b AppState"

definition admitted_write :: "('b, 'a) write_body \<Rightarrow> 'b AppState \<Rightarrow> 'a Outcome \<times> 'b AppState" where
  "admitted_write operation s =
     (let s = lock_write_admission s
      in case write_admission s of
           Some _ \<Rightarrow> (Completed (Inl PersistenceError.Indeterminate), s)
         | None \<Rightarrow> (case operation (False, s) of
             (Panicked, _, s) \<Rightarrow>
               (Panicked, stop_for_reconciliation PersistenceError.Indeterminate
                  (s\<lparr>write_admission := Some PersistenceError.Indeterminate\<rparr>))
           | (Completed (Inl error), primary_landed, s) \<Rightarrow>
               (if primary_landed \<or> error = PersistenceError.Indeterminate
                then (Completed (Inl PersistenceError.Indeterminate),
                      notify_and_drain (s\<lparr>write_admission := Some PersistenceError.Indeterminate\<rparr>))
                else (Completed (Inl error), s))
           | (Completed (Inr x), _, s) \<Rightarrow> (Completed (Inr x), s)))"

subsection \<open>Errors\<close>

definition native_store_persistence :: "StoreError \<Rightarrow> PersistenceError" where
  "native_store_persistence error = (case error of
     StoreError.Operation failure \<Rightarrow>
       (if condition failure = FailureCondition.TransportUnavailable
        then PersistenceError.BackendUnavailable else PersistenceError.Io)
   | StoreError.Indeterminate _ \<Rightarrow> PersistenceError.Indeterminate
   | StoreError.CreationUnknown _ \<Rightarrow> PersistenceError.Indeterminate
   | StoreError.LandedNeedsReconciliation \<Rightarrow> PersistenceError.Indeterminate
   | StoreError.AfterLanded _ \<Rightarrow> PersistenceError.Indeterminate
   | StoreError.Encode _ \<Rightarrow> PersistenceError.Io
   | StoreError.Decode _ \<Rightarrow> PersistenceError.Io
   | StoreError.ConcurrencyConflict expected_seq actual_seq _ \<Rightarrow>
       PersistenceError.FencedConflict expected_seq actual_seq
   | StoreError.TornWriteRecovery _ \<Rightarrow> PersistenceError.TornWriteRecovery
   | StoreError.Infrastructure _ \<Rightarrow> PersistenceError.BackendUnavailable
   | StoreError.AlreadyExists _ \<Rightarrow> PersistenceError.BackendUnavailable
   | StoreError.DivergedFiber _ \<Rightarrow> PersistenceError.InvariantViolation
   | StoreError.Poisoned \<Rightarrow> PersistenceError.PoisonedState)"

definition conversion_persistence :: "EventConversionError \<Rightarrow> PersistenceError" where
  "conversion_persistence error = PersistenceError.LoadFailed"

definition map_err :: "('e \<Rightarrow> 'f) \<Rightarrow> 'e + 'a \<Rightarrow> 'f + 'a" where
  "map_err f r = (case r of Inl e \<Rightarrow> Inl (f e) | Inr x \<Rightarrow> Inr x)"

subsection \<open>Events\<close>

definition non_empty :: "EventRuntime \<Rightarrow> nat \<Rightarrow> string \<Rightarrow> string \<Rightarrow> PersistenceError + string" where
  "non_empty rt max_len field value = map_err conversion_persistence (to_nes rt max_len field value)"

definition event_timestamp :: "EventRuntime \<Rightarrow> string \<Rightarrow> string \<Rightarrow> PersistenceError + EventTimestamp" where
  "event_timestamp rt field value = map_err conversion_persistence (ts_required rt field value)"

definition event_timestamp_string :: "EventRuntime \<Rightarrow> EventTimestamp \<Rightarrow> string" where
  "event_timestamp_string rt timestamp = ts_to_string rt timestamp"

definition bounded_string :: "EventRuntime \<Rightarrow> nat \<Rightarrow> string \<Rightarrow> string \<Rightarrow> PersistenceError + string" where
  "bounded_string rt max_len field value = map_err conversion_persistence (to_es rt max_len field value)"

definition repo_event ::
    "EventRuntime \<Rightarrow> string \<Rightarrow> string \<Rightarrow> string \<Rightarrow> RepositoryEvidence_ev option \<Rightarrow> PersistenceError + DomainEvent" where
  "repo_event rt domain_key repo timestamp evidence =
     and_then (non_empty rt MAX_DOMAIN_KEY ''domain_key'' domain_key) (\<lambda>key.
     and_then (non_empty rt MAX_REPO_NAME ''repo_name'' repo) (\<lambda>name.
     and_then (event_timestamp rt ''timestamp'' timestamp) (\<lambda>ts.
     Inr (DomainEvent.RepositoryStateCaptured key name ts evidence))))"

definition deleted_repo_event ::
    "EventRuntime \<Rightarrow> string \<Rightarrow> string \<Rightarrow> string \<Rightarrow> PersistenceError + DomainEvent" where
  "deleted_repo_event rt domain_key repo detected =
     and_then (non_empty rt MAX_DOMAIN_KEY ''domain_key'' domain_key) (\<lambda>key.
     and_then (non_empty rt MAX_REPO_NAME ''repo_name'' repo) (\<lambda>name.
     and_then (event_timestamp rt ''detected_at'' detected) (\<lambda>ts.
     Inr (DomainEvent.RepositoryDeleted key name ts))))"

definition team_member_role_event :: "TeamMemberRole \<Rightarrow> TeamMemberRoleEvent" where
  "team_member_role_event role = (case role of
     TeamMemberRole.Maintainer \<Rightarrow> TeamMemberRoleEvent.Maintainer
   | TeamMemberRole.Member \<Rightarrow> TeamMemberRoleEvent.Member
   | TeamMemberRole.Unknown \<Rightarrow> TeamMemberRoleEvent.Unknown)"

definition team_roster_status_event :: "TeamRosterStatus \<Rightarrow> TeamRosterStatusEvent" where
  "team_roster_status_event status = (case status of
     TeamRosterStatus.Complete \<Rightarrow> TeamRosterStatusEvent.Complete
   | TeamRosterStatus.Deleted \<Rightarrow> TeamRosterStatusEvent.Deleted
   | TeamRosterStatus.PermissionDenied \<Rightarrow> TeamRosterStatusEvent.PermissionDenied
   | TeamRosterStatus.TransientError \<Rightarrow> TeamRosterStatusEvent.TransientError)"

definition detach_tombstone_roster :: "TeamRoster \<Rightarrow> TeamRoster" where
  "detach_tombstone_roster roster =
     \<lparr>canonical_owner = canonical_owner roster, team_slug = team_slug roster,
      roster_status = roster_status roster, members = [], fetched_at = None\<rparr>"

definition team_state_event ::
    "EventRuntime \<Rightarrow> string \<Rightarrow> TeamRoster \<Rightarrow> string \<Rightarrow> OrgMembershipFetchStatus \<Rightarrow>
     PersistenceError + TeamStateCaptured" where
  "team_state_event rt org roster fetched fetch_status =
     and_then (collect_results (map (\<lambda>member.
        and_then (non_empty rt MAX_LOGIN ''member.login'' (login member)) (\<lambda>l.
        Inr \<lparr>ev_login = l, ev_role = team_member_role_event (member_role member),
             ev_in_org = member_in_org member\<rparr>)) (members roster))) (\<lambda>team_members.
     and_then (if vec_accepts rt MAX_TEAM_MEMBERS (length team_members) then Inr team_members
               else Inl (conversion_persistence (TooMany ''members''))) (\<lambda>team_members.
     and_then (non_empty rt MAX_LOGIN ''org'' org) (\<lambda>org.
     and_then (non_empty rt MAX_LOGIN ''team_slug'' (team_slug roster)) (\<lambda>slug.
     and_then (bounded_string rt MAX_TIMESTAMP_TEXT ''fetched_at'' fetched) (\<lambda>fetched.
     Inr \<lparr>ev_org = org, ev_team_slug = slug, ev_members = team_members,
          ev_orphan_attribution_inputs = \<lparr>ev_org_membership_fetch_status = fetch_status\<rparr>,
          ev_fetched_at = fetched, ev_status = team_roster_status_event (roster_status roster)\<rparr>)))))"

subsection \<open>Folding events into a projection\<close>

text \<open>\<open>None\<close> is a panic: a stored path or a team name that the code assumes to be well-formed is not.\<close>

definition org_projection_event :: "OrgStateCaptured \<Rightarrow> EvidenceProjectionEvent" where
  "org_projection_event event = EvidenceProjectionEvent.OrgStateCaptured (OrgStateSnapshot_from event)"

definition team_projection_event :: "bool \<Rightarrow> TeamStateCaptured \<Rightarrow> EvidenceProjectionEvent option" where
  "team_projection_event detached event =
     (case team_domain_key (ev_org event) (ev_team_slug event) of
        Inl _ \<Rightarrow> None
      | Inr domain_key \<Rightarrow> Some (EvidenceProjectionEvent.TeamStateCaptured detached domain_key
          (Some (TeamRoster_from event))))"

definition apply_projection_event ::
    "EvidenceProjectionEvent option \<Rightarrow> EvidenceProjection \<Rightarrow> EvidenceProjection option" where
  "apply_projection_event event projection =
     map_option (\<lambda>e. EvidenceProjection_apply e projection) event"

definition fold_org_event :: "OrgStateCaptured \<Rightarrow> EvidenceProjection \<Rightarrow> EvidenceProjection option" where
  "fold_org_event event projection = apply_projection_event (Some (org_projection_event event)) projection"

definition fold_team_event :: "TeamStateCaptured \<Rightarrow> EvidenceProjection \<Rightarrow> EvidenceProjection option" where
  "fold_team_event event projection = apply_projection_event (team_projection_event False event) projection"

definition fold_native_event ::
    "EventRuntime \<Rightarrow> bool \<Rightarrow> DomainEvent \<Rightarrow> EvidenceProjection \<Rightarrow> EvidenceProjection option" where
  "fold_native_event rt detached event projection = (case event of
     DomainEvent.RepositoryStateCaptured domain_key _ _ evidence \<Rightarrow>
       apply_projection_event (case evidence of
          None \<Rightarrow> Some (EvidenceProjectionEvent.RepositoryStateCaptured detached domain_key None)
        | Some ev \<Rightarrow> map_option (\<lambda>v. EvidenceProjectionEvent.RepositoryStateCaptured detached domain_key (Some v))
            (RepositoryEvidence_from rt ev)) projection
   | DomainEvent.RepositoryDeleted domain_key repo detected \<Rightarrow>
       apply_projection_event (Some (EvidenceProjectionEvent.RepositoryDeleted domain_key repo
         (event_timestamp_string rt detected))) projection
   | DomainEvent.OrgStateCaptured org \<Rightarrow>
       (if detached then Some projection else fold_org_event org projection)
   | DomainEvent.TeamStateCaptured team \<Rightarrow>
       apply_projection_event (team_projection_event detached team) projection)"

text \<open>A fold over a store whose step may panic; the result is \<open>Inr None\<close> then.\<close>

definition projection_from_stores ::
    "'b AppEnv \<Rightarrow> 'b AppState \<Rightarrow> StoreError + EvidenceProjection option" where
  "projection_from_stores env s =
     and_then (fst (StoreInner_fold_events (Some EvidenceProjection_default)
       (\<lambda>acc detached event. Option.bind acc (fold_native_event (runtime env) detached event))
       (event_store s))) (\<lambda>projection.
     and_then (fst (fold_defined_events projection
       (\<lambda>acc event. Option.bind acc (fold_org_event event)) (org_event_store s))) (\<lambda>projection.
     fst (fold_defined_events projection
       (\<lambda>acc event. Option.bind acc (fold_team_event event)) (team_event_store s))))"

definition refresh_projection :: "'b AppEnv \<Rightarrow> 'b AppState \<Rightarrow> (StoreError + unit) option \<times> 'b AppState" where
  "refresh_projection env s = (case projection_from_stores env s of
     Inl e \<Rightarrow> (Some (Inl e), s)
   | Inr None \<Rightarrow> (None, s)
   | Inr (Some projection) \<Rightarrow> (Some (Inr ()), s\<lparr>projection_state := projection\<rparr>))"

subsection \<open>Handlers\<close>

definition body_then :: "('b, 'a) write_body \<Rightarrow> ('a \<Rightarrow> ('b, 'c) write_body) \<Rightarrow> ('b, 'c) write_body" where
  "body_then m k t = (case m t of
     (Completed (Inr x), t') \<Rightarrow> k x t'
   | (Completed (Inl e), t') \<Rightarrow> (Completed (Inl e), t')
   | (Panicked, t') \<Rightarrow> (Panicked, t'))"

definition body_try :: "PersistenceError + 'a \<Rightarrow> ('b, 'a) write_body" where
  "body_try r t = (Completed r, t)"

definition body_expect :: "'e + 'a \<Rightarrow> ('b, 'a) write_body" where
  "body_expect r t = (case r of Inl _ \<Rightarrow> (Panicked, t) | Inr x \<Rightarrow> (Completed (Inr x), t))"

definition set_landed :: "bool \<Rightarrow> ('b, unit) write_body" where
  "set_landed landed t = (Completed (Inr ()), landed, snd t)"

definition on_event_store ::
    "(('b, DomainEvent) StoreInner, 'a) store_op \<Rightarrow> ('b, 'a) write_body" where
  "on_event_store m t = (case m (event_store (snd t)) of (r, st) \<Rightarrow>
     (Completed (map_err native_store_persistence r), fst t, (snd t)\<lparr>event_store := st\<rparr>))"

definition on_org_store ::
    "(('b, OrgStateCaptured) StoreInner, 'a) store_op \<Rightarrow> ('b, 'a) write_body" where
  "on_org_store m t = (case m (org_event_store (snd t)) of (r, st) \<Rightarrow>
     (Completed (map_err native_store_persistence r), fst t, (snd t)\<lparr>org_event_store := st\<rparr>))"

definition on_team_store ::
    "(('b, TeamStateCaptured) StoreInner, 'a) store_op \<Rightarrow> ('b, 'a) write_body" where
  "on_team_store m t = (case m (team_event_store (snd t)) of (r, st) \<Rightarrow>
     (Completed (map_err native_store_persistence r), fst t, (snd t)\<lparr>team_event_store := st\<rparr>))"

text \<open>
  Folding into the resident projection panics when its mutex is poisoned, and poisons it when the
  fold itself panics.
\<close>

definition into_projection ::
    "(EvidenceProjection \<Rightarrow> EvidenceProjection option) \<Rightarrow> ('b, unit) write_body" where
  "into_projection f t =
     (if projection_poisoned (snd t) then (Panicked, t)
      else case f (projection_state (snd t)) of
             None \<Rightarrow> (Panicked, fst t, (snd t)\<lparr>projection_poisoned := True\<rparr>)
           | Some projection \<Rightarrow> (Completed (Inr ()), fst t, (snd t)\<lparr>projection_state := projection\<rparr>))"

definition fold_repository_event_into_projection ::
    "'b AppEnv \<Rightarrow> bool \<Rightarrow> DomainEvent \<Rightarrow> ('b, unit) write_body" where
  "fold_repository_event_into_projection env detached event =
     into_projection (fold_native_event (runtime env) detached event)"

definition fold_org_event_into_projection :: "OrgStateCaptured \<Rightarrow> ('b, unit) write_body" where
  "fold_org_event_into_projection event = into_projection (fold_org_event event)"

definition fold_team_event_into_projection :: "bool \<Rightarrow> TeamStateCaptured \<Rightarrow> ('b, unit) write_body" where
  "fold_team_event_into_projection detached event =
     into_projection (apply_projection_event (team_projection_event detached event))"

definition record_team ::
    "'b AppEnv \<Rightarrow> string \<Rightarrow> TeamRoster \<Rightarrow> string \<Rightarrow> OrgMembershipFetchStatus \<Rightarrow> uuid \<Rightarrow> uuid \<Rightarrow>
     'b AppState \<Rightarrow> unit Outcome \<times> 'b AppState" where
  "record_team env org roster fetched fetch_status id1 id2 = admitted_write (
     body_then (body_try (team_state_event (runtime env) org roster fetched fetch_status)) (\<lambda>event.
     body_then (body_expect (team_domain_key (ev_org event) (ev_team_slug event))) (\<lambda>team_key.
     body_then (on_event_store (StoreInner_record (adapter env) (repo_schema env) team_key
       (DomainEvent.TeamStateCaptured event) id1)) (\<lambda>_.
     body_then (set_landed True) (\<lambda>_.
     body_then (on_team_store (StoreInner_record (adapter env) (team_schema env) team_key event id2)) (\<lambda>_.
     fold_team_event_into_projection False event))))))"

definition detach_team ::
    "'b AppEnv \<Rightarrow> string \<Rightarrow> TeamRoster \<Rightarrow> string \<Rightarrow> OrgMembershipFetchStatus \<Rightarrow> uuid \<Rightarrow> uuid \<Rightarrow>
     'b AppState \<Rightarrow> unit Outcome \<times> 'b AppState" where
  "detach_team env org roster fetched fetch_status id1 id2 = admitted_write (
     body_then (body_try (team_state_event (runtime env) org (detach_tombstone_roster roster)
       fetched fetch_status)) (\<lambda>event.
     body_then (body_expect (team_domain_key (ev_org event) (ev_team_slug event))) (\<lambda>team_key.
     body_then (on_event_store (StoreInner_detach (adapter env) (repo_schema env) team_key
       (DomainEvent.TeamStateCaptured event) id1)) (\<lambda>landed.
     body_then (set_landed landed) (\<lambda>_.
     body_then (on_team_store (StoreInner_detach (adapter env) (team_schema env) team_key event id2)) (\<lambda>_.
     fold_team_event_into_projection True event))))))"

definition record_repo ::
    "'b AppEnv \<Rightarrow> string \<Rightarrow> RepositoryEvidence \<Rightarrow> string \<Rightarrow> string \<Rightarrow> uuid \<Rightarrow>
     'b AppState \<Rightarrow> unit Outcome \<times> 'b AppState" where
  "record_repo env domain_key evidence repo timestamp id1 = admitted_write (
     body_then (body_try (map_err conversion_persistence
       (RepositoryEvidence_try_from (runtime env) evidence))) (\<lambda>native_evidence.
     body_then (body_try (repo_event (runtime env) domain_key repo timestamp
       (Some native_evidence))) (\<lambda>event.
     body_then (on_event_store (StoreInner_record (adapter env) (repo_schema env) domain_key event id1)) (\<lambda>_.
     fold_repository_event_into_projection env False event))))"

definition remove_repo ::
    "'b AppEnv \<Rightarrow> string \<Rightarrow> string \<Rightarrow> string \<Rightarrow> uuid \<Rightarrow> 'b AppState \<Rightarrow> unit Outcome \<times> 'b AppState" where
  "remove_repo env domain_key repo timestamp id1 = admitted_write (
     body_then (body_try (repo_event (runtime env) domain_key repo timestamp None)) (\<lambda>event.
     body_then (on_event_store (StoreInner_detach (adapter env) (repo_schema env) domain_key event id1)) (\<lambda>_.
     fold_repository_event_into_projection env True event)))"

definition mark_repo_deleted ::
    "'b AppEnv \<Rightarrow> string \<Rightarrow> string \<Rightarrow> string \<Rightarrow> uuid \<Rightarrow> 'b AppState \<Rightarrow> unit Outcome \<times> 'b AppState" where
  "mark_repo_deleted env domain_key repo detected id1 = admitted_write (
     body_then (body_try (deleted_repo_event (runtime env) domain_key repo detected)) (\<lambda>event.
     body_then (on_event_store (StoreInner_record (adapter env) (repo_schema env) domain_key event id1)) (\<lambda>_.
     fold_repository_event_into_projection env False event)))"

definition record_org ::
    "'b AppEnv \<Rightarrow> OrgStateSnapshot \<Rightarrow> uuid \<Rightarrow> uuid \<Rightarrow> 'b AppState \<Rightarrow> unit Outcome \<times> 'b AppState" where
  "record_org env snapshot id1 id2 = admitted_write (
     body_then (body_try (map_err conversion_persistence
       (OrgStateCaptured_try_from (runtime env) snapshot))) (\<lambda>event.
     body_then (on_event_store (StoreInner_record (adapter env) (repo_schema env)
       (ev_organization (ev_assessment_metadata event)) (DomainEvent.OrgStateCaptured event) id1)) (\<lambda>_.
     body_then (set_landed True) (\<lambda>_.
     body_then (on_org_store (StoreInner_record (adapter env) (org_schema env)
       (ev_organization (ev_assessment_metadata event)) event id2)) (\<lambda>_.
     fold_org_event_into_projection event)))))"

end
