(* ===== verification/App_State_Laws.thy ===== *)
theory App_State_Laws
  imports App_State
begin

text \<open>
  Laws of the durable writes: what each handler does to the stores, the projection and the admission
  slot on every outcome; that a write whose fate is unknown stops all writing for good; and that the
  resident projection is the one a restart rebuilds from the stores, for repositories and for the
  organisation. For teams it is not: the rebuild brings detached teams back.
\<close>

subsection \<open>Writes\<close>

datatype AppWrite =
  RecordRepo string RepositoryEvidence string string uuid
| RemoveRepo string string string uuid
| MarkRepoDeleted string string string uuid
| RecordOrg OrgStateSnapshot uuid uuid
| RecordTeam string TeamRoster string OrgMembershipFetchStatus uuid uuid
| DetachTeam string TeamRoster string OrgMembershipFetchStatus uuid uuid

fun run_write :: "'b AppEnv \<Rightarrow> AppWrite \<Rightarrow> 'b AppState \<Rightarrow> unit Outcome \<times> 'b AppState" where
  "run_write env (RecordRepo k v n t i) = record_repo env k v n t i"
| "run_write env (RemoveRepo k n t i) = remove_repo env k n t i"
| "run_write env (MarkRepoDeleted k n t i) = mark_repo_deleted env k n t i"
| "run_write env (RecordOrg v i j) = record_org env v i j"
| "run_write env (RecordTeam org r t f i j) = record_team env org r t f i j"
| "run_write env (DetachTeam org r t f i j) = detach_team env org r t f i j"

text \<open>The event a write puts on the primary store, with its key and whether it detaches.\<close>

definition team_write ::
    "'b AppEnv \<Rightarrow> bool \<Rightarrow> string \<Rightarrow> TeamRoster \<Rightarrow> string \<Rightarrow> OrgMembershipFetchStatus \<Rightarrow>
     (bool \<times> string \<times> DomainEvent) option" where
  "team_write env d org r t f = (case team_state_event (runtime env) org r t f of
     Inl _ \<Rightarrow> None
   | Inr e \<Rightarrow> (case team_domain_key (ev_org e) (ev_team_slug e) of
       Inl _ \<Rightarrow> None | Inr k \<Rightarrow> Some (d, k, DomainEvent.TeamStateCaptured e)))"

fun write_event :: "'b AppEnv \<Rightarrow> AppWrite \<Rightarrow> (bool \<times> string \<times> DomainEvent) option" where
  "write_event env (RecordRepo k v n t i) =
     (case RepositoryEvidence_try_from (runtime env) v of Inl _ \<Rightarrow> None
      | Inr e \<Rightarrow> (case repo_event (runtime env) k n t (Some e) of Inl _ \<Rightarrow> None | Inr ev \<Rightarrow> Some (False, k, ev)))"
| "write_event env (RemoveRepo k n t i) =
     (case repo_event (runtime env) k n t None of Inl _ \<Rightarrow> None | Inr ev \<Rightarrow> Some (True, k, ev))"
| "write_event env (MarkRepoDeleted k n t i) =
     (case deleted_repo_event (runtime env) k n t of Inl _ \<Rightarrow> None | Inr ev \<Rightarrow> Some (False, k, ev))"
| "write_event env (RecordOrg v i j) =
     (case OrgStateCaptured_try_from (runtime env) v of Inl _ \<Rightarrow> None
      | Inr e \<Rightarrow> Some (False, ev_organization (ev_assessment_metadata e), DomainEvent.OrgStateCaptured e))"
| "write_event env (RecordTeam org r t f i j) = team_write env False org r t f"
| "write_event env (DetachTeam org r t f i j) = team_write env True org (detach_tombstone_roster r) t f"

named_theorems body_defs \<open>unfolding of the elementary steps of a write\<close>

declare body_then_def [body_defs] body_try_def [body_defs] body_expect_def [body_defs]
  set_landed_def [body_defs] on_event_store_def [body_defs] on_org_store_def [body_defs]
  on_team_store_def [body_defs] into_projection_def [body_defs] map_err_def [body_defs]
  fold_repository_event_into_projection_def [body_defs] fold_org_event_into_projection_def [body_defs]
  fold_team_event_into_projection_def [body_defs]

lemmas handler_defs = record_repo_def remove_repo_def mark_repo_deleted_def record_org_def
  record_team_def detach_team_def

subsection \<open>Admission\<close>

definition admits :: "'b AppState \<Rightarrow> bool" where
  "admits s \<longleftrightarrow> \<not> admission_poisoned s \<and> write_admission s = None"

definition stopped :: "'b AppState \<Rightarrow> bool" where
  "stopped s \<longleftrightarrow> \<not> admission_poisoned s \<and> write_admission s \<noteq> None"

text \<open>The six handlers run their body under \<open>admitted_write\<close>, and no body touches the slot.\<close>

definition keeps_slot :: "('b, 'a) write_body \<Rightarrow> bool" where
  "keeps_slot m \<longleftrightarrow> (\<forall>t. write_admission (snd (snd (m t))) = write_admission (snd t) \<and>
     admission_poisoned (snd (snd (m t))) = admission_poisoned (snd t))"

lemma keeps_slot_then: "keeps_slot m \<Longrightarrow> (\<And>x. keeps_slot (k x)) \<Longrightarrow> keeps_slot (body_then m k)"
  unfolding keeps_slot_def body_then_def by (auto split: prod.splits Outcome.splits sum.splits) (metis snd_conv)+

lemma keeps_slot_steps:
  "keeps_slot (body_try r)" "keeps_slot (body_expect r')" "keeps_slot (set_landed l)"
  "keeps_slot (on_event_store m1)" "keeps_slot (on_org_store m2)" "keeps_slot (on_team_store m3)"
  "keeps_slot (into_projection f)"
  by (auto simp: keeps_slot_def body_defs split: prod.splits sum.splits option.splits)

definition handled :: "('b AppState \<Rightarrow> 'a Outcome \<times> 'b AppState) \<Rightarrow> bool" where
  "handled h \<longleftrightarrow> (\<exists>body. h = admitted_write body \<and> keeps_slot body)"

lemma run_write_handled: "handled (run_write env w)"
proof (cases w)
qed (auto simp: handled_def handler_defs fold_repository_event_into_projection_def
    fold_org_event_into_projection_def fold_team_event_into_projection_def
    intro!: exI keeps_slot_then keeps_slot_steps)

lemma stopped_refuses: "stopped s \<Longrightarrow> run_write env w s = (Completed (Inl PersistenceError.Indeterminate), s)"
  using run_write_handled [of env w]
  by (auto simp: handled_def stopped_def admitted_write_def lock_write_admission_def)

interpretation write_stop: latching "run_write env" stopped
    "\<lambda>r. r = Completed (Inl PersistenceError.Indeterminate)" for env
  by unfold_locales (simp add: stopped_refuses)

lemma admission_after:
  assumes "\<not> admission_poisoned s" and "run_write env w s = (r, s')"
  shows "\<not> admission_poisoned s'"
    and "write_admission s' \<noteq> None \<longleftrightarrow> r = Panicked \<or> r = Completed (Inl PersistenceError.Indeterminate)"
    and "write_admission s = None \<Longrightarrow> write_admission s' \<noteq> None \<Longrightarrow>
      reconciliation s' \<and> scheduled_run s' \<noteq> Some False"
proof -
  from run_write_handled [of env w] obtain body where body: "run_write env w = admitted_write body"
    and slot: "keeps_slot body" unfolding handled_def by blast
  obtain o1 l1 s1 where o1: "body (False, s) = (o1, l1, s1)" by (metis prod_cases3)
  with slot have keep: "write_admission s1 = write_admission s" "admission_poisoned s1 = admission_poisoned s"
    unfolding keeps_slot_def by (metis snd_conv)+
  from assms body o1 keep show "\<not> admission_poisoned s'"
    and "write_admission s' \<noteq> None \<longleftrightarrow> r = Panicked \<or> r = Completed (Inl PersistenceError.Indeterminate)"
    and "write_admission s = None \<Longrightarrow> write_admission s' \<noteq> None \<Longrightarrow>
      reconciliation s' \<and> scheduled_run s' \<noteq> Some False"
    by (auto simp: admitted_write_def lock_write_admission_def stop_for_reconciliation_def notify_and_drain_def
        Let_def split: option.splits Outcome.splits sum.splits if_splits)
qed

subsection \<open>Outcomes\<close>

lemma persistence_indeterminate:
  "native_store_persistence e = PersistenceError.Indeterminate \<longleftrightarrow> requires_reconciliation e"
  by (cases e) (auto simp: native_store_persistence_def requires_reconciliation_def)

definition unpoisoned :: "'b AppState \<Rightarrow> bool" where
  "unpoisoned s \<longleftrightarrow> \<not> admission_poisoned s \<and> \<not> knowledge_poisoned (event_store s) \<and>
     \<not> knowledge_poisoned (org_event_store s) \<and> \<not> knowledge_poisoned (team_event_store s)"

text \<open>What a store operation inside a body does to the cache.\<close>

lemma record_store:
  assumes "StoreInner_record A S k ev i st = (r, st')" and "\<not> knowledge_poisoned st"
  shows "r = Inr u \<Longrightarrow> cached st' = cached st @ [(False, derive_fiber_id A k, ev)]"
    and "r = Inl e \<Longrightarrow> cached st' = cached st"
  using record_outcome [OF assms(2), where A = A and S = S and domain_key = k and event = ev and event_id = i]
    assms(1) by (auto split: sum.splits)

lemma detach_store:
  assumes "StoreInner_detach A S k ev i st = (r, st')" and "\<not> knowledge_poisoned st"
  shows "r = Inr l \<Longrightarrow> cached st' = cached st @ (if l then [(True, derive_fiber_id A k, ev)] else [])"
    and "r = Inl e \<Longrightarrow> cached st' = cached st"
  using detach_outcome [OF assms(2), where A = A and S = S and domain_key = k and event = ev and event_id = i]
    assms(1) by (auto split: sum.splits)

text \<open>What the backend answers when a session is opened on the fiber of a key: whether the fiber is active.\<close>

definition fiber_active :: "'b Pardosa \<Rightarrow> string \<Rightarrow> ('b, 'e) StoreInner \<Rightarrow> bool" where
  "fiber_active A k st \<longleftrightarrow> (case fst (open_session A (derive_fiber_id A k) st) of Inr handle \<Rightarrow> is_active handle | Inl _ \<Rightarrow> False)"

lemma open_session_keeps: "knowledge (snd (open_session A f st)) = knowledge st"
  by (simp add: open_session_def op_defs split: sum.split prod.split)

lemma detach_lands_iff_active:
  assumes "StoreInner_detach A S k ev i st = (Inr landed, st')"
  shows "landed \<longleftrightarrow> fiber_active A k st"
proof -
  obtain handle st1 where open1: "open_session A (derive_fiber_id A k) st = (Inr handle, st1)"
    using assms by (auto simp: StoreInner_detach_def Let_def and_then_op_def lock_knowledge_def try_op_def
        split: prod.splits sum.splits if_splits)
  have "knowledge st1 = WriteKnowledge.Ready"
    using assms open_session_keeps [of A "derive_fiber_id A k" st] open1
    by (cases "knowledge st") (auto simp: StoreInner_detach_def Let_def and_then_op_def lock_knowledge_def WriteKnowledge_check_def
        split: if_splits)
  with assms open1 show ?thesis
    by (auto simp: fiber_active_def StoreInner_detach_def Let_def op_defs WriteKnowledge_accept_def push_cached_def
        split: prod.splits sum.splits if_splits WriteLandingVerdict.splits)
qed

lemmas store_dest = record_store(1) [OF _ _ refl] record_store(2) [OF _ _ refl]
  detach_store(1) [OF _ _ refl] detach_store(2) [OF _ _ refl]

definition org_rows :: "'b AppEnv \<Rightarrow> string \<Rightarrow> DomainEvent \<Rightarrow> OrgStateCaptured CachedEvents" where
  "org_rows env k ev = (case ev of
     DomainEvent.OrgStateCaptured o' \<Rightarrow> [(False, derive_fiber_id (adapter env) k, o')] | _ \<Rightarrow> [])"

lemma repo_event_Inr:
  "repo_event rt k n t v = Inr ev \<Longrightarrow> \<exists>ts. ev = DomainEvent.RepositoryStateCaptured k n ts v"
  by (auto simp: repo_event_def non_empty_def map_err_def to_nes_def and_then_def split: sum.splits if_splits)

lemma deleted_repo_event_Inr:
  "deleted_repo_event rt k n t = Inr ev \<Longrightarrow> \<exists>ts. ev = DomainEvent.RepositoryDeleted k n ts"
  by (auto simp: deleted_repo_event_def non_empty_def map_err_def to_nes_def and_then_def split: sum.splits if_splits)

text \<open>
  The row a write adds to a store: none if it detaches a fiber that the backend, asked at that moment, reports as not
  active. The rows of the team store carry the event of the primary store.
\<close>

definition new_row :: "'b Pardosa \<Rightarrow> bool \<Rightarrow> string \<Rightarrow> 'e \<Rightarrow> ('b, 'e) StoreInner \<Rightarrow> 'e CachedEvents" where
  "new_row A d k ev st = (if d \<and> \<not> fiber_active A k st then [] else [(d, derive_fiber_id A k, ev)])"

definition team_rows :: "'b AppEnv \<Rightarrow> bool \<Rightarrow> string \<Rightarrow> DomainEvent \<Rightarrow> 'b AppState \<Rightarrow> TeamStateCaptured CachedEvents" where
  "team_rows env d k ev s = (case ev of
     DomainEvent.TeamStateCaptured team \<Rightarrow> new_row (adapter env) d k team (team_event_store s) | _ \<Rightarrow> [])"

lemma repo_team_rows:
  "repo_event rt k n t v = Inr ev \<Longrightarrow> team_rows env d k' ev s = []"
  "deleted_repo_event rt k n t = Inr ev \<Longrightarrow> team_rows env d k' ev s = []"
  "team_rows env d k' (DomainEvent.OrgStateCaptured o') s = []"
  by (auto simp: team_rows_def dest!: repo_event_Inr deleted_repo_event_Inr)

definition published :: "'b AppEnv \<Rightarrow> AppWrite \<Rightarrow> 'b AppState \<Rightarrow> 'b AppState \<Rightarrow> bool" where
  "published env w s s' \<longleftrightarrow> (\<exists>d k ev. write_event env w = Some (d, k, ev) \<and>
     cached (event_store s') = cached (event_store s) @ new_row (adapter env) d k ev (event_store s) \<and>
     (d \<longrightarrow> (\<exists>i. StoreInner_detach (adapter env) (repo_schema env) k ev i (event_store s) =
        (Inr (fiber_active (adapter env) k (event_store s)), event_store s'))) \<and>
     cached (org_event_store s') = cached (org_event_store s) @ org_rows env k ev \<and>
     cached (team_event_store s') = cached (team_event_store s) @ team_rows env d k ev s \<and>
     fold_native_event (runtime env) d ev (projection_state s) = Some (projection_state s'))"

definition unpublished :: "'b AppState \<Rightarrow> 'b AppState \<Rightarrow> bool" where
  "unpublished s s' \<longleftrightarrow> projection_state s' = projection_state s \<and>
     (write_admission s' = None \<longrightarrow> cached (event_store s') = cached (event_store s) \<and>
        cached (org_event_store s') = cached (org_event_store s) \<and>
        cached (team_event_store s') = cached (team_event_store s))"

definition classified :: "'b AppEnv \<Rightarrow> AppWrite \<Rightarrow> 'b AppState \<Rightarrow> bool" where
  "classified env w s \<longleftrightarrow> (case run_write env w s of
     (Completed (Inr _), s') \<Rightarrow> published env w s s' | (_, s') \<Rightarrow> unpublished s s')"

lemmas admission_defs = admits_def unpoisoned_def admitted_write_def lock_write_admission_def
  stop_for_reconciliation_def notify_and_drain_def

lemma team_rows_record:
  assumes "StoreInner_record (adapter env) S k team j (team_event_store s) = (Inr u, team_event_store s')"
    and "\<not> knowledge_poisoned (team_event_store s)"
  shows "cached (team_event_store s') =
    cached (team_event_store s) @ team_rows env False k (DomainEvent.TeamStateCaptured team) s"
  using record_store(1) [OF assms refl] by (simp add: team_rows_def new_row_def)

lemma team_rows_detach:
  assumes "StoreInner_detach (adapter env) S k team j (team_event_store s) = (Inr l, team_event_store s')"
    and "\<not> knowledge_poisoned (team_event_store s)"
  shows "cached (team_event_store s') =
    cached (team_event_store s) @ team_rows env True k (DomainEvent.TeamStateCaptured team) s"
  using detach_store(1) [OF assms refl] detach_lands_iff_active [OF assms(1)] by (simp add: team_rows_def new_row_def)

lemma published_recordI:
  "write_event env w = Some (False, k, ev) \<Longrightarrow>
   cached (event_store s') = cached (event_store s) @ [(False, derive_fiber_id (adapter env) k, ev)] \<Longrightarrow>
   cached (org_event_store s') = cached (org_event_store s) @ org_rows env k ev \<Longrightarrow>
   cached (team_event_store s') = cached (team_event_store s) @ team_rows env False k ev s \<Longrightarrow>
   fold_native_event (runtime env) False ev (projection_state s) = Some (projection_state s') \<Longrightarrow>
   published env w s s'"
  unfolding published_def by (intro exI [of _ False] exI [of _ k] exI [of _ ev]) (simp add: new_row_def)

lemma published_detachI:
  assumes "write_event env w = Some (True, k, ev)"
    and "StoreInner_detach (adapter env) (repo_schema env) k ev i (event_store s) = (Inr landed, event_store s')"
    and "\<not> knowledge_poisoned (event_store s)"
    and "cached (org_event_store s') = cached (org_event_store s) @ org_rows env k ev"
    and "cached (team_event_store s') = cached (team_event_store s) @ team_rows env True k ev s"
    and "fold_native_event (runtime env) True ev (projection_state s) = Some (projection_state s')"
  shows "published env w s s'"
  unfolding published_def using assms detach_store(1) [OF assms(2,3) refl] detach_lands_iff_active [OF assms(2)]
  by (intro exI [of _ True] exI [of _ k] exI [of _ ev]) (auto simp: new_row_def)

lemma no_org_rows:
  "repo_event rt k n t v = Inr ev \<Longrightarrow> org_rows env k' ev = []"
  "deleted_repo_event rt k n t = Inr ev \<Longrightarrow> org_rows env k' ev = []"
  "org_rows env k' (DomainEvent.TeamStateCaptured team) = []"
  by (auto simp: org_rows_def dest!: repo_event_Inr deleted_repo_event_Inr)

lemma fold_native_org [simp]:
  "fold_native_event rt False (DomainEvent.OrgStateCaptured o') = fold_org_event o'"
  by (simp add: fold_native_event_def fun_eq_iff)

lemma fold_native_team [simp]:
  "fold_native_event rt d (DomainEvent.TeamStateCaptured team) =
     apply_projection_event (team_projection_event d team)"
  by (simp add: fold_native_event_def fun_eq_iff)

lemma record_repo_classified:
  assumes "admits s" and "unpoisoned s"
  shows "classified env (RecordRepo k v n t i) s"
  using assms
  by (auto simp: classified_def record_repo_def admission_defs body_defs Let_def unpublished_def repo_team_rows no_org_rows
      dest: store_dest intro!: published_recordI split: sum.splits prod.splits option.splits)

lemma remove_repo_classified:
  assumes "admits s" and "unpoisoned s"
  shows "classified env (RemoveRepo k n t i) s"
  using assms
  by (auto simp: classified_def remove_repo_def admission_defs body_defs Let_def unpublished_def repo_team_rows no_org_rows
      dest: store_dest intro!: published_detachI split: sum.splits prod.splits option.splits)

lemma mark_repo_deleted_classified:
  assumes "admits s" and "unpoisoned s"
  shows "classified env (MarkRepoDeleted k n t i) s"
  using assms
  by (auto simp: classified_def mark_repo_deleted_def admission_defs body_defs Let_def unpublished_def repo_team_rows no_org_rows
      dest: store_dest intro!: published_recordI split: sum.splits prod.splits option.splits)

lemma record_org_classified:
  assumes "admits s" and "unpoisoned s"
  shows "classified env (RecordOrg v i j) s"
  using assms
  by (auto simp: classified_def record_org_def admission_defs body_defs Let_def unpublished_def repo_team_rows org_rows_def
      dest: store_dest intro!: published_recordI split: sum.splits prod.splits option.splits)

lemma record_team_classified:
  assumes "admits s" and "unpoisoned s"
  shows "classified env (RecordTeam org r t f i j) s"
  using assms
  by (auto simp: classified_def record_team_def admission_defs body_defs Let_def unpublished_def no_org_rows team_write_def
      dest: store_dest intro: team_rows_record team_rows_detach intro!: published_recordI split: sum.splits prod.splits option.splits)

lemma detach_team_classified:
  assumes "admits s" and "unpoisoned s"
  shows "classified env (DetachTeam org r t f i j) s"
  using assms
  by (auto simp: classified_def detach_team_def admission_defs body_defs Let_def unpublished_def no_org_rows team_write_def
      dest: store_dest intro: team_rows_record team_rows_detach intro!: published_detachI split: sum.splits prod.splits option.splits)

lemma run_write_classified: "admits s \<Longrightarrow> unpoisoned s \<Longrightarrow> classified env w s"
  by (cases w) (simp_all add: record_repo_classified remove_repo_classified mark_repo_deleted_classified
    record_org_classified record_team_classified detach_team_classified)

subsection \<open>The stores stay open while writes are admitted\<close>

definition stores_open :: "'b AppState \<Rightarrow> bool" where
  "stores_open s \<longleftrightarrow> \<not> store_latched (event_store s) \<and> \<not> store_latched (org_event_store s) \<and>
     \<not> store_latched (team_event_store s) \<and> \<not> cached_poisoned (event_store s) \<and>
     \<not> cached_poisoned (org_event_store s) \<and> \<not> cached_poisoned (team_event_store s)"

lemma stores_open_unpoisoned: "admits s \<Longrightarrow> stores_open s \<Longrightarrow> unpoisoned s"
  by (simp add: admits_def stores_open_def unpoisoned_def store_latched_def)

lemma record_latch:
  assumes "StoreInner_record A S k ev i st = (r, st')" and "\<not> store_latched st"
  shows "r = Inr u \<Longrightarrow> \<not> store_latched st'"
    and "r = Inl e \<Longrightarrow> store_latched st' \<longleftrightarrow> native_store_persistence e = PersistenceError.Indeterminate"
  using record_outcome [of st, where A = A and S = S and domain_key = k and event = ev and event_id = i]
    assms by (auto simp: store_latched_def [of st] persistence_indeterminate split: sum.splits)

lemma detach_latch:
  assumes "StoreInner_detach A S k ev i st = (r, st')" and "\<not> store_latched st"
  shows "r = Inr l \<Longrightarrow> \<not> store_latched st'"
    and "r = Inl e \<Longrightarrow> store_latched st' \<longleftrightarrow> native_store_persistence e = PersistenceError.Indeterminate"
  using detach_outcome [of st, where A = A and S = S and domain_key = k and event = ev and event_id = i]
    assms by (auto simp: store_latched_def [of st] persistence_indeterminate split: sum.splits)

lemma write_keeps_poison:
  "StoreInner_record A S k ev i st = (r, st') \<Longrightarrow> cached_poisoned st' = cached_poisoned st"
  "StoreInner_detach A S k ev i st = (r', st') \<Longrightarrow> cached_poisoned st' = cached_poisoned st"
  by (auto simp: StoreInner_record_def StoreInner_detach_def open_session_def op_defs Let_def
      split: sum.splits prod.splits if_splits WriteLandingVerdict.splits WriteKnowledge.splits)

lemmas latch_dest = record_latch(1) [OF _ _ refl] record_latch(2) [OF _ _ refl]
  detach_latch(1) [OF _ _ refl] detach_latch(2) [OF _ _ refl]

definition stays_open :: "'b AppEnv \<Rightarrow> AppWrite \<Rightarrow> 'b AppState \<Rightarrow> bool" where
  "stays_open env w s \<longleftrightarrow>
     (write_admission (snd (run_write env w s)) = None \<longrightarrow> stores_open (snd (run_write env w s)))"

lemma record_repo_stays_open:
  assumes "admits s" and "stores_open s"
  shows "stays_open env (RecordRepo k v n t i) s"
  using assms
  by (auto simp: record_repo_def admission_defs body_defs Let_def stays_open_def stores_open_def 
      dest: latch_dest write_keeps_poison split: sum.splits prod.splits option.splits)

lemma remove_repo_stays_open:
  assumes "admits s" and "stores_open s"
  shows "stays_open env (RemoveRepo k n t i) s"
  using assms
  by (auto simp: remove_repo_def admission_defs body_defs Let_def stays_open_def stores_open_def 
      dest: latch_dest write_keeps_poison split: sum.splits prod.splits option.splits)

lemma mark_repo_deleted_stays_open:
  assumes "admits s" and "stores_open s"
  shows "stays_open env (MarkRepoDeleted k n t i) s"
  using assms
  by (auto simp: mark_repo_deleted_def admission_defs body_defs Let_def stays_open_def stores_open_def 
      dest: latch_dest write_keeps_poison split: sum.splits prod.splits option.splits)

lemma record_org_stays_open:
  assumes "admits s" and "stores_open s"
  shows "stays_open env (RecordOrg v i j) s"
  using assms
  by (auto simp: record_org_def admission_defs body_defs Let_def stays_open_def stores_open_def 
      dest: latch_dest write_keeps_poison split: sum.splits prod.splits option.splits)

lemma record_team_stays_open:
  assumes "admits s" and "stores_open s"
  shows "stays_open env (RecordTeam org r t f i j) s"
  using assms
  by (auto simp: record_team_def admission_defs body_defs Let_def stays_open_def stores_open_def team_write_def
      dest: latch_dest write_keeps_poison split: sum.splits prod.splits option.splits)

lemma detach_team_stays_open:
  assumes "admits s" and "stores_open s"
  shows "stays_open env (DetachTeam org r t f i j) s"
  using assms
  by (auto simp: detach_team_def admission_defs body_defs Let_def stays_open_def stores_open_def team_write_def
      dest: latch_dest write_keeps_poison split: sum.splits prod.splits option.splits)

lemma run_write_stays_open:
  assumes "admits s" and "stores_open s" and "admits (snd (run_write env w s))"
  shows "stores_open (snd (run_write env w s))"
proof -
  have "stays_open env w s" using assms(1,2)
    by (cases w) (simp_all only: record_repo_stays_open remove_repo_stays_open mark_repo_deleted_stays_open
      record_org_stays_open record_team_stays_open detach_team_stays_open)
  with assms(3) show ?thesis by (simp add: stays_open_def admits_def)
qed

subsection \<open>The call each write makes on the primary store\<close>

fun write_id :: "AppWrite \<Rightarrow> uuid" where
  "write_id (RecordRepo _ _ _ _ i) = i"
| "write_id (RemoveRepo _ _ _ i) = i"
| "write_id (MarkRepoDeleted _ _ _ i) = i"
| "write_id (RecordOrg _ i _) = i"
| "write_id (RecordTeam _ _ _ _ i _) = i"
| "write_id (DetachTeam _ _ _ _ i _) = i"

definition primary_call :: "'b AppEnv \<Rightarrow> AppWrite \<Rightarrow> 'b AppState \<Rightarrow> bool" where
  "primary_call env w s \<longleftrightarrow> event_store (snd (run_write env w s)) = event_store s \<or>
     (\<exists>d k ev. write_event env w = Some (d, k, ev) \<and> event_store (snd (run_write env w s)) =
        snd (run_call (adapter env) (repo_schema env)
          (if d then DetachCall k ev (write_id w) else RecordCall k ev (write_id w)) (event_store s)))"

lemma call_snd:
  "snd (run_call A S (RecordCall k ev i) st) = snd (StoreInner_record A S k ev i st)"
  "snd (run_call A S (DetachCall k ev i) st) = snd (StoreInner_detach A S k ev i st)"
  by (auto simp: and_then_op_def done_op_def split: sum.splits prod.splits)

lemma record_repo_primary:
  assumes "admits s"
  shows "primary_call env (RecordRepo k v n t i) s"
  using assms
  by (auto simp: primary_call_def call_snd record_repo_def admission_defs body_defs Let_def 
      simp del: run_call.simps split: sum.splits prod.splits option.splits)

lemma remove_repo_primary:
  assumes "admits s"
  shows "primary_call env (RemoveRepo k n t i) s"
  using assms
  by (auto simp: primary_call_def call_snd remove_repo_def admission_defs body_defs Let_def 
      simp del: run_call.simps split: sum.splits prod.splits option.splits)

lemma mark_repo_deleted_primary:
  assumes "admits s"
  shows "primary_call env (MarkRepoDeleted k n t i) s"
  using assms
  by (auto simp: primary_call_def call_snd mark_repo_deleted_def admission_defs body_defs Let_def 
      simp del: run_call.simps split: sum.splits prod.splits option.splits)

lemma record_org_primary:
  assumes "admits s"
  shows "primary_call env (RecordOrg v i j) s"
  using assms
  by (auto simp: primary_call_def call_snd record_org_def admission_defs body_defs Let_def 
      simp del: run_call.simps split: sum.splits prod.splits option.splits)

lemma record_team_primary:
  assumes "admits s"
  shows "primary_call env (RecordTeam org r t f i j) s"
  using assms
  by (auto simp: primary_call_def call_snd record_team_def admission_defs body_defs Let_def team_write_def
      simp del: run_call.simps split: sum.splits prod.splits option.splits)

lemma detach_team_primary:
  assumes "admits s"
  shows "primary_call env (DetachTeam org r t f i j) s"
  using assms
  by (auto simp: primary_call_def call_snd detach_team_def admission_defs body_defs Let_def team_write_def
      simp del: run_call.simps split: sum.splits prod.splits option.splits)

lemma run_write_primary: "admits s \<Longrightarrow> primary_call env w s"
  by (cases w) (simp_all only: record_repo_primary remove_repo_primary mark_repo_deleted_primary
    record_org_primary record_team_primary detach_team_primary)

subsection \<open>Laws\<close>

text \<open>
  C9. A write whose fate is unknown stops all writing for good: once a write panics or is reported as
  indeterminate, every later write of any kind is refused as indeterminate and changes nothing, the
  waiting reconciliation is notified and the scheduled run told to drain. Any other failure leaves
  writing open.
\<close>

theorem writes_stop_for_reconciliation:
  assumes "\<not> admission_poisoned s" and "write_admission s = None" and "run_write env w s = (r, s')"
  shows "if r = Panicked \<or> r = Completed (Inl PersistenceError.Indeterminate)
    then snd (run_all (run_write env) ws s') = s' \<and>
      list_all (\<lambda>r. r = Completed (Inl PersistenceError.Indeterminate)) (fst (run_all (run_write env) ws s')) \<and>
      reconciliation s' \<and> scheduled_run s' \<noteq> Some False
    else admits s'"
proof (cases "write_admission s' = None")
  case True
  with admission_after(1,2) [OF assms(1,3)] show ?thesis by (auto simp: admits_def)
next
  case False
  with admission_after(1) [OF assms(1,3)] have "stopped s'" by (simp add: stopped_def)
  from write_stop.latch_is_permanent [OF this, of env ws] False
    admission_after(2,3) [OF assms(1,3)] assms(2) show ?thesis by auto
qed

text \<open>
  C10. Persist, then publish. A write that succeeds has put its event at the end of the primary store, and the projection
  has folded exactly that event; the organisation store and the team store grew by the same event under the same key.
  The one exception is a detach: it adds no row to a store exactly when the backend, asked in that session, reports that
  the fiber of the key is not active there. A write that does not succeed leaves the projection alone, and if writing
  stays open it has left no trace in the three caches either.
\<close>

theorem persist_then_publish:
  assumes "admits s" and "unpoisoned s" and "run_write env w s = (r, s')"
  shows "if r = Completed (Inr ())
    then \<exists>d k ev. write_event env w = Some (d, k, ev) \<and>
      cached (event_store s') = cached (event_store s) @
        (if d \<and> \<not> fiber_active (adapter env) k (event_store s) then [] else [(d, derive_fiber_id (adapter env) k, ev)]) \<and>
      cached (org_event_store s') = cached (org_event_store s) @ org_rows env k ev \<and>
      cached (team_event_store s') = cached (team_event_store s) @ (case ev of
        DomainEvent.TeamStateCaptured team \<Rightarrow>
          (if d \<and> \<not> fiber_active (adapter env) k (team_event_store s) then []
           else [(d, derive_fiber_id (adapter env) k, team)])
      | _ \<Rightarrow> []) \<and>
      fold_native_event (runtime env) d ev (projection_state s) = Some (projection_state s')
    else projection_state s' = projection_state s \<and>
      (admits s' \<longrightarrow> cached (event_store s') = cached (event_store s) \<and>
        cached (org_event_store s') = cached (org_event_store s) \<and>
        cached (team_event_store s') = cached (team_event_store s))"
proof (cases "r = Completed (Inr ())")
  case True
  with run_write_classified [OF assms(1,2), of env w] assms(3) have "published env w s s'"
    by (simp add: classified_def)
  then show ?thesis
    unfolding if_P [OF True] published_def team_rows_def new_row_def by blast
next
  case False
  with run_write_classified [OF assms(1,2), of env w] assms(3) have "unpublished s s'"
    by (auto simp: classified_def split: Outcome.splits sum.splits)
  with False show ?thesis by (simp add: unpublished_def admits_def)
qed

text \<open>
  As long as writes are admitted no store is latched: from a state with open stores, after any run of
  writes, either writing has been stopped or all three stores still accept writes.
\<close>

theorem admitted_stores_are_open:
  fixes s :: "'b AppState"
  assumes "\<not> admission_poisoned s" and "stores_open s" and "snd (run_all (run_write env) ws s) = s'"
  shows "stopped s' \<or> admits s' \<and> stores_open s'"
proof -
  let ?I = "\<lambda>s :: 'b AppState. \<not> admission_poisoned s \<and> (admits s \<longrightarrow> stores_open s)"
  have "?I (snd (run_all (run_write env) ws s))"
  proof (rule run_all_invariant)
    show "?I s" using assms(1,2) by simp
    fix w and s :: "'b AppState" assume I: "?I s"
    obtain r s'' where run: "run_write env w s = (r, s'')" by fastforce
    have "stores_open s''" if "admits s''"
    proof -
      have "admits s" using stopped_refuses [of s env w] run that I
        by (cases "write_admission s") (auto simp: admits_def stopped_def)
      with run_write_stays_open [of s env w] I run that show ?thesis by simp
    qed
    with admission_after(1) [OF _ run] I run show "?I (snd (run_write env w s))" by simp
  qed
  with assms(3) show ?thesis by (auto simp: stopped_def admits_def)
qed

subsection \<open>A sample environment\<close>

definition sample_env :: "bool \<Rightarrow> Envelope list AppEnv" where
  "sample_env unsure = \<lparr>runtime = sample_runtime, adapter = sample_pardosa unsure, repo_schema = sample_schema,
     org_schema = OrgStateCaptured_schema sample_prims ''node'',
     team_schema = TeamStateCaptured_schema sample_prims ''node''\<rparr>"

text \<open>The state of a daemon that starts on empty stores.\<close>

definition start_state :: "'b \<Rightarrow> 'b \<Rightarrow> 'b \<Rightarrow> 'b AppState" where
  "start_state b b' b'' =
     \<lparr>event_store = fresh_store b [], org_event_store = fresh_store b' [], team_event_store = fresh_store b'' [],
      projection_state = EvidenceProjection_default, projection_poisoned = False,
      write_admission = None, admission_poisoned = False, reconciliation = False,
      scheduled_run = None, batch_tracker = None\<rparr>"

lemma start_state_open: "admits (start_state b b' b'')" "stores_open (start_state b b' b'')"
  "unpoisoned (start_state b b' b'')" "\<not> admission_poisoned (start_state b b' b'')"
  "write_admission (start_state b b' b'') = None"
  by (simp_all add: start_state_def admits_def stores_open_def unpoisoned_def store_latched_def fresh_store_def)

abbreviation sample_mark :: AppWrite where
  "sample_mark \<equiv> MarkRepoDeleted ''o/r'' ''r'' ''t'' 1"

lemma sample_mark_event:
  "deleted_repo_event sample_runtime ''o/r'' ''r'' ''t'' = Inr (DomainEvent.RepositoryDeleted ''o/r'' ''r'' 1)"
  by (simp add: deleted_repo_event_def non_empty_def event_timestamp_def map_err_def to_nes_def ts_required_def
      sample_runtime_def parse_iso8601_def MAX_DOMAIN_KEY_def MAX_REPO_NAME_def)

lemma sample_mark_run:
  "\<exists>s'. run_write (sample_env unsure) sample_mark (start_state [] [] []) =
     (if unsure then Completed (Inl PersistenceError.Indeterminate) else Completed (Inr ()), s')"
proof -
  obtain p where "encode_event sample_schema (DomainEvent.RepositoryDeleted ''o/r'' ''r'' 1) = Inr p"
    by (rule sample_encode)
  then show ?thesis
    by (simp add: mark_repo_deleted_def sample_env_def start_state_def admission_defs body_defs sample_mark_event
        StoreInner_record_def open_session_def op_defs fresh_store_def sample_pardosa_def sample_land_def
        fiber_state_def native_store_persistence_def fold_native_event_def apply_projection_event_def Let_def)
qed

theorem writes_stop_for_reconciliation_witness:
  "\<exists>s'. run_write (sample_env True) sample_mark (start_state [] [] []) =
       (Completed (Inl PersistenceError.Indeterminate), s') \<and>
     snd (run_all (run_write (sample_env True)) [sample_mark, sample_mark] s') = s' \<and> reconciliation s'"
proof -
  from sample_mark_run [of True] obtain s' where run: "run_write (sample_env True) sample_mark (start_state [] [] []) =
      (Completed (Inl PersistenceError.Indeterminate), s')" by auto
  from writes_stop_for_reconciliation [OF start_state_open(4,5) run, of "[sample_mark, sample_mark]"] run
  show ?thesis by (simp del: run_all.simps run_write.simps)
qed

theorem persist_then_publish_witness:
  "\<exists>s'. run_write (sample_env False) sample_mark (start_state [] [] []) = (Completed (Inr ()), s') \<and>
     cached (event_store s') = [(False, derive_fiber_id (sample_pardosa False) ''o/r'',
       DomainEvent.RepositoryDeleted ''o/r'' ''r'' 1)]"
proof -
  from sample_mark_run [of False] obtain s' where run: "run_write (sample_env False) sample_mark (start_state [] [] []) =
      (Completed (Inr ()), s')" by auto
  from persist_then_publish [OF start_state_open(1,3) run] run show ?thesis
    by (auto simp: sample_env_def sample_mark_event start_state_def fresh_store_def simp del: run_write.simps)
qed

theorem admitted_stores_are_open_witness:
  "stopped (snd (run_all (run_write (sample_env True)) [sample_mark] (start_state [] [] [])))"
proof -
  from sample_mark_run [of True] obtain s' where run: "run_write (sample_env True) sample_mark (start_state [] [] []) =
      (Completed (Inl PersistenceError.Indeterminate), s')" by auto
  from admitted_stores_are_open [OF start_state_open(4,2) [of "[]" "[]" "[]"] refl,
      of "sample_env True" "[sample_mark]"]
    admission_after(2) [OF start_state_open(4) run] run
  show ?thesis by (auto simp: admits_def simp del: run_write.simps)
qed

end
