(* ===== verification/App_Replay.thy ===== *)
theory App_Replay
  imports App_State_Laws
begin

text \<open>
  Rebuilding the projection from the stores (\<open>projection_from_stores\<close> of \<open>app/state/mod.rs\<close>) against
  the projection that the handlers keep up to date. The rebuild replays the primary store and then
  the organisation and the team store, so it is described as one run over the events of all three.
\<close>

subsection \<open>Replay\<close>

text \<open>The projection events of a stored event; \<open>None\<close> is a panic.\<close>

definition native_events ::
    "EventRuntime \<Rightarrow> bool \<Rightarrow> DomainEvent \<Rightarrow> EvidenceProjectionEvent list option" where
  "native_events rt d event = (case event of
     DomainEvent.RepositoryStateCaptured k _ _ None \<Rightarrow>
       Some [EvidenceProjectionEvent.RepositoryStateCaptured d k None]
   | DomainEvent.RepositoryStateCaptured k _ _ (Some ev) \<Rightarrow>
       map_option (\<lambda>v. [EvidenceProjectionEvent.RepositoryStateCaptured d k (Some v)])
         (RepositoryEvidence_from rt ev)
   | DomainEvent.RepositoryDeleted k n t \<Rightarrow>
       Some [EvidenceProjectionEvent.RepositoryDeleted k n (event_timestamp_string rt t)]
   | DomainEvent.OrgStateCaptured o' \<Rightarrow> Some (if d then [] else [org_projection_event o'])
   | DomainEvent.TeamStateCaptured team \<Rightarrow> map_option (\<lambda>e. [e]) (team_projection_event d team))"

lemma fold_native_events:
  "fold_native_event rt d ev p = map_option (\<lambda>es. fold EvidenceProjection_apply es p) (native_events rt d ev)"
  by (auto simp: fold_native_event_def native_events_def apply_projection_event_def fold_org_event_def
      option.map_comp comp_def split: DomainEvent.split option.split)

definition journal_events :: "EventRuntime \<Rightarrow> DomainEvent CachedEvents \<Rightarrow> EvidenceProjectionEvent list" where
  "journal_events rt rows = concat (map (\<lambda>(d, _, ev). the (native_events rt d ev)) rows)"

definition replayable :: "EventRuntime \<Rightarrow> DomainEvent CachedEvents \<Rightarrow> bool" where
  "replayable rt rows = list_all (\<lambda>(d, _, ev). native_events rt d ev \<noteq> None) rows"

lemma journal_events_snoc [simp]:
  "journal_events rt (rows @ [(d, f, ev)]) = journal_events rt rows @ the (native_events rt d ev)"
  by (simp add: journal_events_def)

lemma replayable_snoc [simp]:
  "replayable rt (rows @ [(d, f, ev)]) \<longleftrightarrow> replayable rt rows \<and> native_events rt d ev \<noteq> None"
  by (simp add: replayable_def)

lemma replay_primary:
  "replayable rt rows \<Longrightarrow>
   fold (\<lambda>(d, _, ev) acc. Option.bind acc (fold_native_event rt d ev)) rows (Some p) =
     Some (fold EvidenceProjection_apply (journal_events rt rows) p)"
proof (induction rows rule: rev_induct)
  case (snoc row rows)
  then show ?case by (cases row) (auto simp: fold_native_events)
qed (simp add: journal_events_def)

lemma replay_org:
  "fold (\<lambda>(d, _, ev) acc. if \<not> d then Option.bind acc (fold_org_event ev) else acc) rows (Some p) =
     Some (fold EvidenceProjection_apply
       (map (\<lambda>(_, _, ev). org_projection_event ev) (filter (\<lambda>(d, _, _). \<not> d) rows)) p)"
  by (induction rows arbitrary: p) (auto simp: fold_org_event_def apply_projection_event_def)

text \<open>The replay of the team store, whose detached rows are skipped.\<close>

definition team_store_events :: "TeamStateCaptured CachedEvents \<Rightarrow> EvidenceProjectionEvent list" where
  "team_store_events rows =
     map (\<lambda>(_, _, ev). the (team_projection_event False ev)) (filter (\<lambda>(d, _, _). \<not> d) rows)"

definition team_replayable :: "TeamStateCaptured CachedEvents \<Rightarrow> bool" where
  "team_replayable rows = list_all (\<lambda>(d, _, ev). d \<or> team_projection_event False ev \<noteq> None) rows"

lemma replay_team:
  "team_replayable rows \<Longrightarrow>
   fold (\<lambda>(d, _, ev) acc. if \<not> d then Option.bind acc (fold_team_event ev) else acc) rows (Some p) =
     Some (fold EvidenceProjection_apply (team_store_events rows) p)"
  by (induction rows arbitrary: p)
    (auto simp: fold_team_event_def apply_projection_event_def team_store_events_def team_replayable_def)

lemma projection_from_stores_replay:
  assumes "stores_open s"
    and "replayable (runtime env) (cached (event_store s))" and "team_replayable (cached (team_event_store s))"
  shows "projection_from_stores env s = Inr (Some (fold EvidenceProjection_apply
    (journal_events (runtime env) (cached (event_store s)) @
     map (\<lambda>(_, _, ev). org_projection_event ev) (filter (\<lambda>(d, _, _). \<not> d) (cached (org_event_store s))) @
     team_store_events (cached (team_event_store s))) EvidenceProjection_default))"
  using assms
  by (simp add: projection_from_stores_def StoreInner_fold_events_def fold_defined_events_def
      lock_cached_def and_then_op_def lock_knowledge_cases done_op_def stores_open_def replay_primary
      replay_org replay_team)

subsection \<open>Replaying the organisation twice\<close>

lemma OrgReadModel_to_from [simp]: "OrgReadModel_to (OrgReadModel_from s) = s"
  by (simp add: OrgReadModel_from_def OrgReadModel_to_def)

lemma org_machine_twice:
  "fold org_machine (map (\<lambda>m. EvidenceProjectionEvent.OrgStateCaptured (OrgReadModel_to m)) (ms @ ms)) None =
   fold org_machine (map (\<lambda>m. EvidenceProjectionEvent.OrgStateCaptured (OrgReadModel_to m)) ms) None"
proof -
  have run: "fold org_machine (map (\<lambda>m. EvidenceProjectionEvent.OrgStateCaptured (OrgReadModel_to m)) xs) None =
     org_state (fold (\<lambda>m. EvidenceProjection_apply (EvidenceProjectionEvent.OrgStateCaptured (OrgReadModel_to m)))
       xs EvidenceProjection_default)" for xs
    using fold_refines_org [of "map (\<lambda>m. EvidenceProjectionEvent.OrgStateCaptured (OrgReadModel_to m)) xs"
        EvidenceProjection_default]
    by (simp add: fold_map comp_def EvidenceProjection_default_def)
  show ?thesis unfolding run org_slot.current_fold
    by (auto simp: EvidenceProjection_default_def is_some_and_def)
qed

lemma org_replayed_twice:
  assumes "filter is_org_event es = map org_projection_event os"
  shows "fold org_machine (es @ map org_projection_event os) None = fold org_machine es None"
proof -
  let ?es = "map org_projection_event os"
  let ?ms = "map (\<lambda>o'. OrgReadModel_from (OrgStateSnapshot_from o')) os"
  have es: "?es = map (\<lambda>m. EvidenceProjectionEvent.OrgStateCaptured (OrgReadModel_to m)) ?ms"
    by (simp add: org_projection_event_def comp_def)
  have "fold org_machine es x = fold org_machine ?es x" for x
    using fold_filter_id [of is_org_event org_machine es x] org_machine_other assms by metis
  then have "fold org_machine (es @ ?es) None = fold org_machine (?es @ ?es) None" by simp
  also have "\<dots> = fold org_machine ?es None"
    using org_machine_twice [of ?ms] by (simp add: es)
  also have "\<dots> = fold org_machine es None" by (simp add: \<open>\<And>x. fold org_machine es x = fold org_machine ?es x\<close>)
  finally show ?thesis .
qed

subsection \<open>The resident projection\<close>

definition resident :: "'b AppEnv \<Rightarrow> 'b AppState \<Rightarrow> bool" where
  "resident env s \<longleftrightarrow>
     replayable (runtime env) (cached (event_store s)) \<and>
     team_replayable (cached (team_event_store s)) \<and>
     (\<forall>k. repo_view (projection_state s) k =
        fold (repo_machine k) (journal_events (runtime env) (cached (event_store s))) (None, None)) \<and>
     org_state (projection_state s) =
       fold org_machine (journal_events (runtime env) (cached (event_store s))) None \<and>
     filter is_org_event (journal_events (runtime env) (cached (event_store s))) =
       map (\<lambda>(_, _, ev). org_projection_event ev) (cached (org_event_store s)) \<and>
     list_all (\<lambda>(d, _, _). \<not> d) (cached (org_event_store s))"

text \<open>A repository key whose fiber is not live has no live evidence.\<close>

definition tracked :: "'b AppEnv \<Rightarrow> string set \<Rightarrow> 'b AppState \<Rightarrow> bool" where
  "tracked env K s \<longleftrightarrow> (\<forall>k \<in> K. live (cached (event_store s)) (derive_fiber_id (adapter env) k) = None \<longrightarrow>
     btree_get (repositories (projection_state s)) k = None)"

fun repo_key :: "AppWrite \<Rightarrow> string option" where
  "repo_key (RecordRepo k _ _ _ _) = Some k"
| "repo_key (RemoveRepo k _ _ _) = Some k"
| "repo_key (MarkRepoDeleted k _ _ _) = Some k"
| "repo_key _ = None"

text \<open>
  The keys of the writes of a run do not collide on a fiber, and no organisation or team has the key
  of a repository.
\<close>

definition repo_keys :: "AppWrite list \<Rightarrow> string set" where
  "repo_keys ws = {k. \<exists>w \<in> set ws. repo_key w = Some k}"

definition keys_apart :: "'b AppEnv \<Rightarrow> AppWrite list \<Rightarrow> bool" where
  "keys_apart env ws \<longleftrightarrow> (\<forall>w \<in> set ws. case write_event env w of
     None \<Rightarrow> True
   | Some (_, k, _) \<Rightarrow> (\<forall>k' \<in> repo_keys ws.
       derive_fiber_id (adapter env) k' = derive_fiber_id (adapter env) k \<longrightarrow> repo_key w = Some k'))"

text \<open>What the event of a write does to the views.\<close>

lemma write_event_views:
  assumes "write_event env w = Some (d, k, ev)" and "native_events (runtime env) d ev = Some es"
  shows "repo_key w \<noteq> Some k' \<Longrightarrow> fold (repo_machine k') es v = v"
    and "repo_key w = Some k' \<Longrightarrow> k' = k \<and> (d \<longrightarrow> fold (repo_machine k') es v = (None, snd v))"
    and "filter is_org_event es = map (\<lambda>(_, _, o'). org_projection_event o') (org_rows env k ev)"
    and "d \<Longrightarrow> fold org_machine es x = x"
  using assms
  by (cases w; cases v; auto simp: native_events_def org_rows_def team_write_def team_projection_event_def
      org_projection_event_def dest!: repo_event_Inr deleted_repo_event_Inr
      split: sum.splits option.splits if_splits)+

lemma fold_views:
  assumes "fold_native_event rt d ev p = Some p'"
  obtains es where "native_events rt d ev = Some es" and "\<And>k. repo_view p' k = fold (repo_machine k) es (repo_view p k)"
    and "org_state p' = fold org_machine es (org_state p)"
  using assms by (auto simp: fold_native_events fold_refines_repo fold_refines_org simp del: prod.inject)

lemma detaching_write_rows: "write_event env w = Some (True, k, ev) \<Longrightarrow> org_rows env k ev = []"
  by (cases w) (auto simp: team_write_def no_org_rows split: sum.splits)

lemma team_event_detached_or_not:
  "team_projection_event d team \<noteq> None \<Longrightarrow> team_projection_event d' team \<noteq> None"
  by (auto simp: team_projection_event_def split: sum.splits)

text \<open>What the replay needs of a published write: which rows the stores may have grown by.\<close>

definition team_grown :: "bool \<Rightarrow> DomainEvent \<Rightarrow> 'b AppState \<Rightarrow> 'b AppState \<Rightarrow> bool" where
  "team_grown d ev s s' = (case ev of
     DomainEvent.TeamStateCaptured team \<Rightarrow>
       (\<exists>f. cached (team_event_store s') = cached (team_event_store s) @ [(d, f, team)]) \<or>
       d \<and> cached (team_event_store s') = cached (team_event_store s)
   | _ \<Rightarrow> cached (team_event_store s') = cached (team_event_store s))"

lemma published_grown:
  assumes "published env w s s'"
  obtains d k ev landed where "write_event env w = Some (d, k, ev)"
    and "cached (event_store s') = cached (event_store s) @ (if landed then [(d, derive_fiber_id (adapter env) k, ev)] else [])"
    and "\<not> landed \<longrightarrow> d \<and> (\<exists>i. StoreInner_detach (adapter env) (repo_schema env) k ev i (event_store s) = (Inr False, event_store s'))"
    and "cached (org_event_store s') = cached (org_event_store s) @ org_rows env k ev"
    and "team_grown d ev s s'"
    and "fold_native_event (runtime env) d ev (projection_state s) = Some (projection_state s')"
proof -
  from assms obtain d k ev where *: "write_event env w = Some (d, k, ev)"
    "cached (event_store s') = cached (event_store s) @ new_row (adapter env) d k ev (event_store s)"
    "d \<longrightarrow> (\<exists>i. StoreInner_detach (adapter env) (repo_schema env) k ev i (event_store s) =
        (Inr (fiber_active (adapter env) k (event_store s)), event_store s'))"
    "cached (org_event_store s') = cached (org_event_store s) @ org_rows env k ev"
    "cached (team_event_store s') = cached (team_event_store s) @ team_rows env d k ev s"
    "fold_native_event (runtime env) d ev (projection_state s) = Some (projection_state s')"
    unfolding published_def by blast
  show ?thesis
    by (rule that [of d k ev "\<not> d \<or> fiber_active (adapter env) k (event_store s)"])
      (use * in \<open>auto simp: new_row_def team_rows_def team_grown_def split: DomainEvent.split\<close>)
qed

lemma team_replayable_grown:
  assumes "team_replayable (cached (team_event_store s))" and "team_grown d ev s s'"
    and "native_events rt d ev = Some es"
  shows "team_replayable (cached (team_event_store s'))"
  using assms team_event_detached_or_not [of d _ False]
  by (fastforce simp: team_grown_def team_replayable_def native_events_def split: DomainEvent.splits)

lemma org_rows_live: "list_all (\<lambda>(d, _, _). \<not> d) (org_rows env k ev)"
  by (simp add: org_rows_def split: DomainEvent.split)

lemma published_keeps_resident:
  assumes "published env w s s'" and "w \<in> set ws" and "keys_apart env ws"
    and "backend_ok (adapter env) journal" and "clean (repo_schema env) journal (event_store s)"
    and "resident env s" and "tracked env (repo_keys ws) s"
  shows "resident env s' \<and> tracked env (repo_keys ws) s'"
proof -
  let ?rows = "cached (event_store s)" and ?fiber = "derive_fiber_id (adapter env)"
  obtain d k ev landed where w: "write_event env w = Some (d, k, ev)"
    and rows': "cached (event_store s') = ?rows @ (if landed then [(d, ?fiber k, ev)] else [])"
    and nl: "\<not> landed \<Longrightarrow> d \<and> live ?rows (?fiber k) = None"
    and org': "cached (org_event_store s') = cached (org_event_store s) @ org_rows env k ev"
    and team': "team_grown d ev s s'"
    and fold: "fold_native_event (runtime env) d ev (projection_state s) = Some (projection_state s')"
    by (rule published_grown [OF assms(1)]) (use detach_not_landed [OF assms(4,5)] in blast)
  from fold obtain es where es: "native_events (runtime env) d ev = Some es"
    and repo': "\<And>k'. repo_view (projection_state s') k' = fold (repo_machine k') es (repo_view (projection_state s) k')"
    and state': "org_state (projection_state s') = fold org_machine es (org_state (projection_state s))"
    using fold_views by metis
  note views = write_event_views [OF w es]
  have own: "k' \<in> repo_keys ws" if "repo_key w = Some k'" for k'
    using that assms(2) unfolding repo_keys_def by blast
  have unlanded: "repo_view (projection_state s') k' = repo_view (projection_state s) k'" if "\<not> landed" for k'
  proof (cases "repo_key w = Some k'")
    case True
    with views(2) [of k' "(None, btree_get (deleted (projection_state s)) k')"] nl [OF that] own [OF True] assms(7)
    show ?thesis unfolding repo' tracked_def by auto
  next
    case False
    from views(1) [OF False] show ?thesis unfolding repo' .
  qed
  have org_kept: "org_rows env k ev = []" "fold org_machine es x = x" if "\<not> landed" for x
    using nl [OF that] w views(4) detaching_write_rows by auto
  have "resident env s'"
    using assms(6) es repo' state' unlanded org_kept views(3) rows' org' org_rows_live [of env k ev]
      team_replayable_grown [OF _ team' es]
    unfolding resident_def by (cases landed) (simp_all del: prod.inject)
  moreover have "btree_get (repositories (projection_state s')) k' = None"
    if k': "k' \<in> repo_keys ws" "live (cached (event_store s')) (?fiber k') = None" for k'
  proof (cases "repo_key w = Some k'")
    case True
    with views(2) [of k' "repo_view (projection_state s) k'"] repo' [of k'] k'(2) rows' nl
    show ?thesis by (cases d; cases landed) auto
  next
    case False
    with assms(2,3) w k'(1) have "?fiber k' \<noteq> ?fiber k" unfolding keys_apart_def by fastforce
    with k'(2) rows' have "live ?rows (?fiber k') = None" by (auto split: if_splits)
    with assms(7) k'(1) have "btree_get (repositories (projection_state s)) k' = None"
      unfolding tracked_def by blast
    with repo' [of k'] views(1) [OF False] show ?thesis by simp
  qed
  ultimately show ?thesis unfolding tracked_def by blast
qed

subsection \<open>Runs\<close>

definition write_valid :: "'b AppEnv \<Rightarrow> AppWrite \<Rightarrow> bool" where
  "write_valid env w \<longleftrightarrow> (case write_event env w of None \<Rightarrow> True | Some (_, _, ev) \<Rightarrow> DomainEvent_ok ev)"

text \<open>The invariant of a run, while writes are admitted.\<close>

definition steady ::
    "'b AppEnv \<Rightarrow> ('b \<Rightarrow> Envelope list) \<Rightarrow> AppWrite list \<Rightarrow> 'b AppState \<Rightarrow> bool" where
  "steady env journal ws s \<longleftrightarrow> \<not> admission_poisoned s \<and> (admits s \<longrightarrow>
     stores_open s \<and> mirrors (repo_schema env) journal (event_store s) \<and>
     resident env s \<and> tracked env (repo_keys ws) s)"

lemma run_write_mirrors:
  assumes "backend_ok (adapter env) journal" and "codec_ok (payload_type (repo_schema env)) DomainEvent_ok"
    and "write_valid env w" and "admits s" and "mirrors (repo_schema env) journal (event_store s)"
  shows "mirrors (repo_schema env) journal (event_store (snd (run_write env w s)))"
  using run_write_primary [OF assms(4), of env w] assms(3,5)
  by (auto simp: primary_call_def write_valid_def simp del: run_call.simps
      intro!: run_call_keeps_mirror [OF assms(1,2)])

lemma unpublished_keeps_resident:
  "unpublished s s' \<Longrightarrow> admits s' \<Longrightarrow> resident env s \<and> tracked env K s \<Longrightarrow> resident env s' \<and> tracked env K s'"
  by (simp add: unpublished_def admits_def resident_def tracked_def)

lemma run_write_steady:
  assumes "backend_ok (adapter env) journal" and "codec_ok (payload_type (repo_schema env)) DomainEvent_ok"
    and "keys_apart env ws" and "w \<in> set ws" and "write_valid env w" and "steady env journal ws s"
  shows "steady env journal ws (snd (run_write env w s))"
proof -
  obtain r s' where run: "run_write env w s = (r, s')" by fastforce
  from assms(6) have np: "\<not> admission_poisoned s" by (simp add: steady_def)
  note after = admission_after [OF np run]
  have "stores_open s' \<and> mirrors (repo_schema env) journal (event_store s') \<and>
      resident env s' \<and> tracked env (repo_keys ws) s'" if adm': "admits s'"
  proof -
    have adm: "admits s" using stopped_refuses [of s env w] run adm' np
      by (cases "write_admission s") (auto simp: admits_def stopped_def)
    with assms(6) have s: "stores_open s" "mirrors (repo_schema env) journal (event_store s)"
      "resident env s" "tracked env (repo_keys ws) s" by (simp_all add: steady_def)
    have clean: "clean (repo_schema env) journal (event_store s)"
      using s(1,2) by (simp add: stores_open_def unlatched_clean)
    from run_write_classified [OF adm stores_open_unpoisoned [OF adm s(1)], of env w] run
    have "published env w s s' \<or> unpublished s s'"
      by (auto simp: classified_def split: Outcome.splits sum.splits)
    then have "resident env s' \<and> tracked env (repo_keys ws) s'"
      using published_keeps_resident [OF _ assms(4,3,1) clean s(3,4)] unpublished_keeps_resident adm' s(3,4)
      by blast
    then show ?thesis
      using run_write_stays_open [OF adm s(1), of env w] run_write_mirrors [OF assms(1,2,5) adm s(2)] adm' run
      by simp
  qed
  with after(1) run show ?thesis by (simp add: steady_def)
qed

lemma run_steady:
  assumes "backend_ok (adapter env) journal" and "codec_ok (payload_type (repo_schema env)) DomainEvent_ok"
    and "keys_apart env ws" and "list_all (write_valid env) ws" and "steady env journal ws s"
  shows "steady env journal ws (snd (run_all (run_write env) ws s))"
  by (rule run_all_invariant) (use assms in \<open>auto simp: list_all_iff intro: run_write_steady\<close>)

lemma start_steady:
  assumes "journal b = []"
  shows "steady env journal ws (start_state b b' b'')"
  using assms by (simp add: steady_def start_state_def fresh_store_def stores_open_def store_latched_def mirrors_def
      holds_journal_def resident_def tracked_def replayable_def team_replayable_def journal_events_def
      EvidenceProjection_default_def btree.get_empty)

lemma fold_idle: "(\<And>e. e \<in> set es \<Longrightarrow> f e v = v) \<Longrightarrow> fold f es v = v"
  by (induction es) simp_all

lemma team_events_foreign:
  assumes "team_replayable rows" and "e \<in> set (team_store_events rows)"
  shows "event_repo_key e = None" and "\<not> is_org_event e"
  using assms
  by (auto simp: team_replayable_def team_store_events_def list_all_iff team_projection_event_def split: sum.splits)

lemma org_events_foreign: "event_repo_key (org_projection_event o') = None"
  by (simp add: org_projection_event_def)

text \<open>
  C8. A restart rebuilds the repositories and the organisation. After any run of writes from empty
  stores, successful or not, as long as writes are still admitted the projection rebuilt from the
  rows the three stores hold exists and shows for every repository, live or deleted, and for the organisation
  exactly what the resident projection shows. The keys of the repositories that are written must not share a
  fiber: the fiber identifier that the backend derives from a key keeps them apart. That the stores hold the
  same rows after they were reopened is a property of the event store.
\<close>

theorem restart_rebuilds_repositories:
  assumes "backend_ok (adapter env) journal" and "codec_ok (payload_type (repo_schema env)) DomainEvent_ok"
    and "keys_apart env ws" and "list_all (write_valid env) ws" and "journal b = []"
    and "snd (run_all (run_write env) ws (start_state b b' b'')) = s" and "admits s"
  shows "\<exists>p. projection_from_stores env s = Inr (Some p) \<and>
     (\<forall>k. repo_view p k = repo_view (projection_state s) k) \<and>
     org_state p = org_state (projection_state s)"
proof -
  from run_steady [OF assms(1-4) start_steady [of journal, OF assms(5)]] assms(6,7)
  have s: "stores_open s" "resident env s" by (auto simp: steady_def)
  let ?js = "journal_events (runtime env) (cached (event_store s))"
  let ?os = "map (\<lambda>(_, _, ev). org_projection_event ev) (cached (org_event_store s))"
  let ?ts = "team_store_events (cached (team_event_store s))"
  let ?p = "fold EvidenceProjection_apply (?js @ ?os @ ?ts) EvidenceProjection_default"
  from s(2) have "filter (\<lambda>(d, _, _). \<not> d) (cached (org_event_store s)) = cached (org_event_store s)"
    by (auto simp: resident_def list_all_iff filter_id_conv)
  with s projection_from_stores_replay [OF s(1), of env] have "projection_from_stores env s = Inr (Some ?p)"
    by (simp add: resident_def)
  moreover have "repo_view ?p k = repo_view (projection_state s) k" for k
  proof -
    have "fold (repo_machine k) (?os @ ?ts) v = v" for v
      using s(2) team_events_foreign(1) [of "cached (team_event_store s)"]
      by (intro fold_idle repo_machine_other) (auto simp: resident_def org_events_foreign)
    moreover have "repo_view EvidenceProjection_default k = (None, None)"
      by (simp add: EvidenceProjection_default_def btree.get_empty)
    ultimately show ?thesis using s(2) unfolding fold_refines_repo resident_def by simp
  qed
  moreover have "org_state ?p = org_state (projection_state s)"
  proof -
    have "fold org_machine ?ts v = v" for v
      using s(2) team_events_foreign(2) [of "cached (team_event_store s)"]
      by (intro fold_idle org_machine_other) (auto simp: resident_def)
    moreover have "fold org_machine (?js @ ?os) None = fold org_machine ?js None"
    proof -
      have os: "?os = map org_projection_event (map (\<lambda>(_, _, ev). ev) (cached (org_event_store s)))"
        by (simp add: comp_def case_prod_beta)
      have "filter is_org_event ?js = ?os" using s(2) by (simp add: resident_def)
      then show ?thesis unfolding os by (rule org_replayed_twice)
    qed
    ultimately show ?thesis using s(2)
      unfolding fold_refines_org resident_def by (simp add: EvidenceProjection_default_def)
  qed
  ultimately show ?thesis by blast
qed

subsection \<open>Teams come back\<close>

lemma team_machine_last:
  "fst (team_machine k (EvidenceProjectionEvent.TeamStateCaptured False k (Some r)) v) \<noteq> None"
  by (cases v) (auto simp: is_some_and_def split: option.splits)

lemma team_state_event_Inr:
  "team_state_event rt org r t f = Inr e \<Longrightarrow> ev_org e = org \<and> ev_team_slug e = team_slug r"
  by (auto simp: team_state_event_def non_empty_def bounded_string_def map_err_def to_nes_def and_then_def
      split: sum.splits if_splits)

lemma team_write_Some:
  assumes "team_write env d org r t f = Some (d', k, ev)" and "team_domain_key org (team_slug r) = Inr key"
  obtains e where "d' = d" and "k = key" and "ev = DomainEvent.TeamStateCaptured e"
    and "\<And>d. team_projection_event d e =
      Some (EvidenceProjectionEvent.TeamStateCaptured d key (Some (TeamRoster_from e)))"
  using assms that by (auto simp: team_write_def team_projection_event_def dest: team_state_event_Inr split: sum.splits)

lemma success_published:
  assumes "admits s" and "stores_open s" and "run_write env w s = (Completed (Inr ()), s')"
  shows "published env w s s'" and "admits s'" and "stores_open s'"
proof -
  note unp = stores_open_unpoisoned [OF assms(1,2)]
  from run_write_classified [OF assms(1) unp, of env w] assms(3) show "published env w s s'"
    by (simp add: classified_def)
  from admission_after(1,2) [OF _ assms(3)] assms(1) show adm: "admits s'" by (auto simp: admits_def)
  from run_write_stays_open [OF assms(1,2), of env w] assms(3) adm show "stores_open s'" by simp
qed

lemma team_published:
  assumes "published env w s s'" and "write_event env w = team_write env d org r t f"
    and "team_domain_key org (team_slug r) = Inr key"
  obtains e where "\<And>d. team_projection_event d e =
      Some (EvidenceProjectionEvent.TeamStateCaptured d key (Some (TeamRoster_from e)))"
    and "(\<exists>x. cached (event_store s') = cached (event_store s) @ [(d, x, DomainEvent.TeamStateCaptured e)]) \<or>
      d \<and> cached (event_store s') = cached (event_store s)"
    and "team_grown d (DomainEvent.TeamStateCaptured e) s s'"
    and "cached (org_event_store s') = cached (org_event_store s)"
    and "projection_state s' = EvidenceProjection_apply
      (EvidenceProjectionEvent.TeamStateCaptured d key (Some (TeamRoster_from e))) (projection_state s)"
proof -
  obtain d' k ev landed where *: "write_event env w = Some (d', k, ev)"
      "cached (event_store s') = cached (event_store s) @ (if landed then [(d', derive_fiber_id (adapter env) k, ev)] else [])"
      "\<not> landed \<longrightarrow> d'" "cached (org_event_store s') = cached (org_event_store s) @ org_rows env k ev"
      "team_grown d' ev s s'"
      "fold_native_event (runtime env) d' ev (projection_state s) = Some (projection_state s')"
    by (rule published_grown [OF assms(1)]) blast
  from *(1) assms(2) have "team_write env d org r t f = Some (d', k, ev)" by simp
  from this assms(3) obtain e where e: "d' = d" "k = key" "ev = DomainEvent.TeamStateCaptured e"
      "\<And>d. team_projection_event d e =
        Some (EvidenceProjectionEvent.TeamStateCaptured d key (Some (TeamRoster_from e)))"
    by (rule team_write_Some) blast
  from * e show ?thesis
    by (intro that [OF e(4)]) (auto simp: no_org_rows apply_projection_event_def split: if_splits)
qed

text \<open>
  C36. The rebuild does not do the same for teams. After a team has been recorded and then detached, both
  successfully, the resident projection has no roster for it, as it should; but the replay of the
  team store skips the detached row and folds the earlier roster again, so a restart shows the
  detached team as live.
\<close>

theorem restart_revives_detached_team:
  assumes "run_write env (RecordTeam org r t f i j) (start_state b b' b'') = (Completed (Inr ()), s1)"
    and "run_write env (DetachTeam org r t' f' i' j') s1 = (Completed (Inr ()), s2)"
    and "team_domain_key org (team_slug r) = Inr key"
  shows "btree_get (proj_team_rosters (projection_state s2)) key = None \<and>
    (\<exists>p roster. projection_from_stores env s2 = Inr (Some p) \<and>
      btree_get (proj_team_rosters p) key = Some roster)"
proof -
  note one = success_published [OF start_state_open(1,2) assms(1)]
  note two = success_published [OF one(2,3) assms(2)]
  obtain e1 where team1: "\<And>d. team_projection_event d e1 =
        Some (EvidenceProjectionEvent.TeamStateCaptured d key (Some (TeamRoster_from e1)))"
      and one': "\<exists>x. cached (event_store s1) = [(False, x, DomainEvent.TeamStateCaptured e1)]"
        "\<exists>x. cached (team_event_store s1) = [(False, x, e1)]" "cached (org_event_store s1) = []"
    by (rule team_published [OF one(1) _ assms(3)]) (auto simp: start_state_def fresh_store_def team_grown_def)
  obtain e2 where team2: "\<And>d. team_projection_event d e2 =
        Some (EvidenceProjectionEvent.TeamStateCaptured d key (Some (TeamRoster_from e2)))"
      and rows2: "(\<exists>x. cached (event_store s2) = cached (event_store s1) @ [(True, x, DomainEvent.TeamStateCaptured e2)]) \<or>
        cached (event_store s2) = cached (event_store s1)"
      and grown2: "team_grown True (DomainEvent.TeamStateCaptured e2) s1 s2"
      and org2: "cached (org_event_store s2) = cached (org_event_store s1)"
      and p2: "projection_state s2 = EvidenceProjection_apply
        (EvidenceProjectionEvent.TeamStateCaptured True key (Some (TeamRoster_from e2))) (projection_state s1)"
    by (rule team_published [OF two(1), of True org "detach_tombstone_roster r" t' f' key])
      (use assms(3) in \<open>auto simp: detach_tombstone_roster_def\<close>)
  have gone: "btree_get (proj_team_rosters (projection_state s2)) key = None"
    using apply_refines_team [of "EvidenceProjectionEvent.TeamStateCaptured True key (Some (TeamRoster_from e2))"
        "projection_state s1" key] p2 by simp
  have "replayable (runtime env) (cached (event_store s2))"
    using one' rows2 team1 team2 by (auto simp: replayable_def native_events_def)
  moreover have events: "team_store_events (cached (team_event_store s2)) =
      [EvidenceProjectionEvent.TeamStateCaptured False key (Some (TeamRoster_from e1))]"
    using one' grown2 team1 by (auto simp: team_store_events_def team_grown_def)
  moreover have "team_replayable (cached (team_event_store s2))"
    using one' grown2 team1 by (auto simp: team_replayable_def team_grown_def)
  ultimately obtain es where "projection_from_stores env s2 = Inr (Some (fold EvidenceProjection_apply
      (es @ [EvidenceProjectionEvent.TeamStateCaptured False key (Some (TeamRoster_from e1))]) EvidenceProjection_default))"
    using projection_from_stores_replay [OF two(3), of env] org2 one' by auto
  moreover have "fst (team_view (fold EvidenceProjection_apply
      (es @ [EvidenceProjectionEvent.TeamStateCaptured False key (Some (TeamRoster_from e1))])
      EvidenceProjection_default) key) \<noteq> None"
    using team_machine_last by (simp add: apply_refines_team del: team_machine.simps fst_conv)
  ultimately show ?thesis using gone by auto
qed

subsection \<open>Examples\<close>

theorem restart_rebuilds_repositories_witness:
  "\<exists>s p. snd (run_all (run_write (sample_env False)) [sample_mark] (start_state [] [] [])) = s \<and>
     projection_from_stores (sample_env False) s = Inr (Some p) \<and>
     repo_view p ''o/r'' = repo_view (projection_state s) ''o/r''"
proof -
  from sample_mark_run [of False] obtain s where
    run: "run_write (sample_env False) sample_mark (start_state [] [] []) = (Completed (Inr ()), s)" by auto
  have ev: "write_event (sample_env False) sample_mark =
      Some (False, ''o/r'', DomainEvent.RepositoryDeleted ''o/r'' ''r'' 1)"
    by (simp add: sample_env_def sample_mark_event)
  have "backend_ok (adapter (sample_env False)) (\<lambda>js. js)"
    and "codec_ok (payload_type (repo_schema (sample_env False))) DomainEvent_ok"
    using sample_pardosa_ok sample_schema_codec by (simp_all add: sample_env_def)
  moreover have "keys_apart (sample_env False) [sample_mark]"
    using ev by (auto simp: keys_apart_def repo_keys_def simp del: write_event.simps)
  moreover have "list_all (write_valid (sample_env False)) [sample_mark]"
    using ev by (simp add: write_valid_def del: write_event.simps)
  moreover have "admits s" using success_published(2) [OF start_state_open(1,2) run] .
  ultimately show ?thesis
    using restart_rebuilds_repositories [of "sample_env False" "\<lambda>js. js" "[sample_mark]" "[]" "[]" "[]" s] run
    by (auto simp del: run_write.simps)
qed

definition sample_core :: TeamRoster where
  "sample_core = \<lparr>canonical_owner = ''@acme/core'', team_slug = ''core'',
     roster_status = TeamRosterStatus.Complete, members = [], fetched_at = None\<rparr>"

definition sample_core_event :: TeamStateCaptured where
  "sample_core_event = \<lparr>ev_org = ''acme'', ev_team_slug = ''core'', ev_members = [],
     ev_orphan_attribution_inputs = \<lparr>ev_org_membership_fetch_status = OrgMembershipFetchStatus.Fetched\<rparr>,
     ev_fetched_at = ''t'', ev_status = TeamRosterStatusEvent.Complete\<rparr>"

lemma sample_core_event:
  "team_state_event sample_runtime ''acme'' sample_core ''t'' OrgMembershipFetchStatus.Fetched = Inr sample_core_event"
  "team_state_event sample_runtime ''acme'' (detach_tombstone_roster sample_core) ''t''
     OrgMembershipFetchStatus.Fetched = Inr sample_core_event"
  by (simp_all add: team_state_event_def sample_core_def detach_tombstone_roster_def sample_core_event_def
      sample_runtime_def non_empty_def bounded_string_def map_err_def to_nes_def to_es_def
      MAX_LOGIN_def MAX_TIMESTAMP_TEXT_def team_roster_status_event_def)

lemma sample_core_key: "\<exists>k. team_domain_key (ev_org sample_core_event) (ev_team_slug sample_core_event) = Inr k"
  by (simp add: team_domain_key_def sample_core_event_def)

lemma sample_team_encode:
  obtains p where "encode_event (TeamStateCaptured_schema sample_prims ''node'') e = Inr p"
  using TeamStateCaptured_total [OF sample_prims_total]
  unfolding total_type_def encode_event_def encode_payload_def TeamStateCaptured_schema_def
  by (metis PardosaSchema.select_convs(3) sum.case(2))

abbreviation sample_team_writes :: "AppWrite \<times> AppWrite" where
  "sample_team_writes \<equiv> (RecordTeam ''acme'' sample_core ''t'' OrgMembershipFetchStatus.Fetched 1 2,
     DetachTeam ''acme'' sample_core ''t'' OrgMembershipFetchStatus.Fetched 3 4)"

lemma sample_team_runs:
  "\<exists>s1 s2. run_write (sample_env False) (fst sample_team_writes) (start_state [] [] []) = (Completed (Inr ()), s1) \<and>
     run_write (sample_env False) (snd sample_team_writes) s1 = (Completed (Inr ()), s2)"
proof -
  obtain p where p: "encode_event sample_schema (DomainEvent.TeamStateCaptured sample_core_event) = Inr p"
    by (rule sample_encode)
  obtain q where q: "encode_event (TeamStateCaptured_schema sample_prims ''node'') sample_core_event = Inr q"
    by (rule sample_team_encode)
  obtain k where k: "team_domain_key (ev_org sample_core_event) (ev_team_slug sample_core_event) = Inr k"
    using sample_core_key by blast
  show ?thesis
    by (simp add: record_team_def detach_team_def sample_env_def start_state_def admission_defs body_defs p q k
        sample_core_event StoreInner_record_def StoreInner_detach_def open_session_def op_defs fresh_store_def
        sample_pardosa_def sample_land_def fiber_state_def apply_projection_event_def team_projection_event_def
        Let_def)
qed

theorem restart_revives_detached_team_witness:
  "\<exists>s2 key p roster. team_domain_key ''acme'' ''core'' = Inr key \<and>
     btree_get (proj_team_rosters (projection_state s2)) key = None \<and>
     projection_from_stores (sample_env False) s2 = Inr (Some p) \<and>
     btree_get (proj_team_rosters p) key = Some roster"
proof -
  obtain key where key: "team_domain_key ''acme'' (team_slug sample_core) = Inr key"
    by (simp add: team_domain_key_def sample_core_def)
  from sample_team_runs obtain s1 s2 where
    runs: "run_write (sample_env False) (fst sample_team_writes) (start_state [] [] []) = (Completed (Inr ()), s1)"
      "run_write (sample_env False) (snd sample_team_writes) s1 = (Completed (Inr ()), s2)" by blast
  from restart_revives_detached_team [OF runs [unfolded fst_conv snd_conv] key] key
  show ?thesis by (auto simp: sample_core_def)
qed

end
