(* ===== verification/Rust_Text.thy ===== *)
theory Rust_Text
  imports Gh_Prelude
begin

text \<open>
  What the sources use of \<open>str\<close>, on UTF-8 bytes: white space, \<open>trim\<close>, \<open>split_whitespace\<close>, \<open>lines\<close>, \<open>find\<close>
  and the validity check of \<open>String::from_utf8\<close>. A white-space character is recognised by its encoded
  bytes, which in valid UTF-8 occur only where that character is.
\<close>

subsection \<open>White space\<close>

definition WHITE_SPACE :: "string list" where
  "WHITE_SPACE = [[CHR 0x09], [CHR 0x0A], [CHR 0x0B], [CHR 0x0C], [CHR 0x0D], [CHR 0x20],
     [CHR 0xC2, CHR 0x85], [CHR 0xC2, CHR 0xA0], [CHR 0xE1, CHR 0x9A, CHR 0x80],
     [CHR 0xE2, CHR 0x80, CHR 0x80], [CHR 0xE2, CHR 0x80, CHR 0x81], [CHR 0xE2, CHR 0x80, CHR 0x82],
     [CHR 0xE2, CHR 0x80, CHR 0x83], [CHR 0xE2, CHR 0x80, CHR 0x84], [CHR 0xE2, CHR 0x80, CHR 0x85],
     [CHR 0xE2, CHR 0x80, CHR 0x86], [CHR 0xE2, CHR 0x80, CHR 0x87], [CHR 0xE2, CHR 0x80, CHR 0x88],
     [CHR 0xE2, CHR 0x80, CHR 0x89], [CHR 0xE2, CHR 0x80, CHR 0x8A], [CHR 0xE2, CHR 0x80, CHR 0xA8],
     [CHR 0xE2, CHR 0x80, CHR 0xA9], [CHR 0xE2, CHR 0x80, CHR 0xAF], [CHR 0xE2, CHR 0x81, CHR 0x9F],
     [CHR 0xE3, CHR 0x80, CHR 0x80]]"

fun is_prefix :: "string \<Rightarrow> string \<Rightarrow> bool" where
  "is_prefix [] s = True"
| "is_prefix (p # ps) [] = False"
| "is_prefix (p # ps) (c # s) = (p = c \<and> is_prefix ps s)"

lemma is_prefix_iff: "is_prefix p s \<longleftrightarrow> (\<exists>t. s = p @ t)"
  by (induction p s rule: is_prefix.induct) auto

text \<open>The length of the white-space character at the start of a text, or 0.\<close>

definition ws_len :: "string \<Rightarrow> nat" where
  "ws_len s = (case find (\<lambda>w. is_prefix w s) WHITE_SPACE of None \<Rightarrow> 0 | Some w \<Rightarrow> length w)"

lemma ws_len_Nil [simp]: "ws_len [] = 0"
  by (simp add: ws_len_def WHITE_SPACE_def)

lemma ws_len_le: "ws_len s \<le> length s"
  by (auto simp: ws_len_def find_Some_iff is_prefix_iff split: option.splits)

function trim_start :: "string \<Rightarrow> string" where
  "trim_start s = (if ws_len s = 0 then s else trim_start (drop (ws_len s) s))"
  by auto
termination
proof (relation "measure length")
  fix s :: string assume "ws_len s \<noteq> 0"
  then have "0 < ws_len s" and "0 < length s" using ws_len_le [of s] by linarith+
  then show "(drop (ws_len s) s, s) \<in> measure length" by simp
qed simp

declare trim_start.simps [simp del]

lemma trim_start_Nil [simp]: "trim_start [] = []"
  by (simp add: trim_start.simps)

function trim_end :: "string \<Rightarrow> string" where
  "trim_end s =
     (if trim_start s = [] then []
      else if ws_len s = 0 then hd s # trim_end (tl s)
      else take (ws_len s) s @ trim_end (drop (ws_len s) s))"
  by auto
termination
proof (relation "measure length")
  fix s :: string
  show "wf (measure length :: (string \<times> string) set)" by simp
  assume "trim_start s \<noteq> []"
  then have "s \<noteq> []" by auto
  then show "(tl s, s) \<in> measure length" by simp
  assume "ws_len s \<noteq> 0"
  with \<open>s \<noteq> []\<close> show "(drop (ws_len s) s, s) \<in> measure length" by simp
qed

declare trim_end.simps [simp del]

definition str_trim :: "string \<Rightarrow> string" where
  "str_trim s = trim_end (trim_start s)"

text \<open>\<open>split_whitespace\<close>, with the token read so far.\<close>

function split_ws :: "string \<Rightarrow> string \<Rightarrow> string list" where
  "split_ws token s =
     (if s = [] then (if token = [] then [] else [token])
      else if ws_len s = 0 then split_ws (token @ [hd s]) (tl s)
      else (if token = [] then [] else [token]) @ split_ws [] (drop (ws_len s) s))"
  by auto
termination
  by (relation "measure (\<lambda>(_, s). length s)") auto

declare split_ws.simps [simp del]

definition split_whitespace :: "string \<Rightarrow> string list" where
  "split_whitespace s = split_ws [] s"

subsection \<open>Lines\<close>

definition strip_cr :: "string \<Rightarrow> string" where
  "strip_cr l = (if l \<noteq> [] \<and> last l = CHR 0x0D then butlast l else l)"

fun lines_from :: "string \<Rightarrow> string \<Rightarrow> string list" where
  "lines_from l [] = (if l = [] then [] else [l])"
| "lines_from l (c # s) = (if c = CHR 0x0A then strip_cr l # lines_from [] s else lines_from (l @ [c]) s)"

definition str_lines :: "string \<Rightarrow> string list" where
  "str_lines s = lines_from [] s"

subsection \<open>Searching\<close>

fun str_find :: "string \<Rightarrow> string \<Rightarrow> nat option" where
  "str_find p [] = (if p = [] then Some 0 else None)"
| "str_find p (c # s) = (if is_prefix p (c # s) then Some 0 else map_option Suc (str_find p s))"

subsection \<open>UTF-8\<close>

definition byte_in :: "nat \<Rightarrow> nat \<Rightarrow> char \<Rightarrow> bool" where
  "byte_in lo hi c \<longleftrightarrow> lo \<le> (of_char c :: nat) \<and> (of_char c :: nat) \<le> hi"

abbreviation utf8_tail :: "char \<Rightarrow> bool" where
  "utf8_tail \<equiv> byte_in 0x80 0xBF"

function from_utf8_ok :: "string \<Rightarrow> bool" where
  "from_utf8_ok s = (case s of
     [] \<Rightarrow> True
   | a # s1 \<Rightarrow>
       if byte_in 0 0x7F a then from_utf8_ok s1
       else if byte_in 0xC2 0xDF a
       then (case s1 of b # s2 \<Rightarrow> utf8_tail b \<and> from_utf8_ok s2 | _ \<Rightarrow> False)
       else if byte_in 0xE0 0xEF a
       then (case s1 of
          b # c # s3 \<Rightarrow>
            (if a = CHR 0xE0 then byte_in 0xA0 0xBF b else if a = CHR 0xED then byte_in 0x80 0x9F b
             else utf8_tail b) \<and> utf8_tail c \<and> from_utf8_ok s3
        | _ \<Rightarrow> False)
       else if byte_in 0xF0 0xF4 a
       then (case s1 of
          b # c # d # s4 \<Rightarrow>
            (if a = CHR 0xF0 then byte_in 0x90 0xBF b else if a = CHR 0xF4 then byte_in 0x80 0x8F b
             else utf8_tail b) \<and> utf8_tail c \<and> utf8_tail d \<and> from_utf8_ok s4
        | _ \<Rightarrow> False)
       else False)"
  by auto
termination
  by (relation "measure length") auto

declare from_utf8_ok.simps [simp del]

lemma from_utf8_ascii: "(\<And>c. c \<in> set s \<Longrightarrow> byte_in 0 0x7F c) \<Longrightarrow> from_utf8_ok s"
  by (induction s) (auto simp: from_utf8_ok.simps)

subsection \<open>Tokens\<close>

text \<open>A text in which no white-space character starts at any position.\<close>

fun no_ws :: "string \<Rightarrow> bool" where
  "no_ws [] = True"
| "no_ws (c # s) = (ws_len (c # s) = 0 \<and> no_ws s)"

lemma ws_len_0_iff: "ws_len s = 0 \<longleftrightarrow> (\<forall>w \<in> set WHITE_SPACE. \<not> is_prefix w s)"
  by (auto simp: ws_len_def find_None_iff find_Some_iff WHITE_SPACE_def split: option.splits)

lemma white_space_tail: "w \<in> set WHITE_SPACE \<Longrightarrow> w \<noteq> [] \<and> (\<forall>c \<in> set (tl w). \<not> byte_in 0 0x7F c)"
  by (auto simp: WHITE_SPACE_def byte_in_def)

lemma ws_len_append:
  assumes "s \<noteq> []" and "ws_len s = 0" and t: "t = [] \<or> byte_in 0 0x7F (hd t)"
  shows "ws_len (s @ t) = 0"
proof -
  have "\<not> is_prefix w (s @ t)" if "w \<in> set WHITE_SPACE" for w
  proof
    assume "is_prefix w (s @ t)"
    then obtain u where u: "s @ t = w @ u" by (auto simp: is_prefix_iff)
    from white_space_tail [OF that] obtain c w' where w: "w = c # w'" "\<forall>c \<in> set w'. \<not> byte_in 0 0x7F c"
      by (cases w) auto
    from u have "(\<exists>v. s = w @ v) \<or> (\<exists>v. v \<noteq> [] \<and> w = s @ v \<and> t = v @ u)"
      by (metis append_eq_append_conv2 append.right_neutral)
    moreover have "\<not> (\<exists>v. s = w @ v)" using assms(2) that by (auto simp: ws_len_0_iff is_prefix_iff)
    ultimately obtain v where v: "v \<noteq> []" "w = s @ v" "t = v @ u" by blast
    then have "hd t \<in> set w'" using w(1) assms(1) by (cases s; cases v) auto
    with w(2) t v(1,3) show False by auto
  qed
  then show ?thesis by (simp add: ws_len_0_iff)
qed

lemma ws_len_space [simp]: "ws_len (CHR '' '' # s) = 1"
  by (simp add: ws_len_def WHITE_SPACE_def)

lemma no_ws_not_mem: "no_ws s \<Longrightarrow> [c] \<in> set WHITE_SPACE \<Longrightarrow> c \<notin> set s"
  by (induction s) (auto simp: ws_len_0_iff)

lemma trim_start_id: "ws_len s = 0 \<Longrightarrow> trim_start s = s"
  by (subst trim_start.simps) simp

lemma split_ws_token:
  assumes "no_ws tok" and t: "t = [] \<or> byte_in 0 0x7F (hd t)"
  shows "split_ws acc (tok @ t) = split_ws (acc @ tok) t"
  using assms(1)
proof (induction tok arbitrary: acc)
  case (Cons c tok)
  from Cons.prems have "ws_len ((c # tok) @ t) = 0" by (intro ws_len_append t) auto
  with Cons show ?case by (subst split_ws.simps) simp
qed simp

lemma trim_end_token:
  assumes "no_ws tok" and t: "t = [] \<or> byte_in 0 0x7F (hd t)" and "trim_end t = t"
  shows "trim_end (tok @ t) = tok @ t"
  using assms(1)
proof (induction tok)
  case (Cons c tok)
  from Cons.prems have "ws_len ((c # tok) @ t) = 0" by (intro ws_len_append t) auto
  with Cons show ?case by (subst trim_end.simps) (simp add: trim_start_id)
qed (simp add: assms(3))

lemma trim_end_Nil [simp]: "trim_end [] = []"
  by (simp add: trim_end.simps)

lemma trim_end_space: "trim_start s \<noteq> [] \<Longrightarrow> trim_end s = s \<Longrightarrow> trim_end (CHR '' '' # s) = CHR '' '' # s"
  by (subst trim_end.simps, subst trim_start.simps) simp

lemma str_find_skip: "w \<notin> set s \<Longrightarrow> str_find (w # p) t = None \<Longrightarrow> str_find (w # p) (s @ t) = None"
  by (induction s) auto

lemma lines_from_line: "CHR 0x0A \<notin> set l \<Longrightarrow> lines_from acc (l @ CHR 0x0A # s) = strip_cr (acc @ l) # lines_from [] s"
  by (induction l arbitrary: acc) auto

lemma str_lines_unlines:
  assumes "\<And>l. l \<in> set ls \<Longrightarrow> CHR 0x0A \<notin> set l \<and> CHR 0x0D \<notin> set l"
  shows "str_lines (concat (map (\<lambda>l. l @ [CHR 0x0A]) ls)) = ls"
  using assms
proof (induction ls)
  case (Cons l ls)
  then have "strip_cr l = l" by (auto simp: strip_cr_def dest: last_in_set)
  with Cons show ?case by (simp add: str_lines_def lines_from_line)
qed (simp add: str_lines_def)

end
