(* ===== verification/Codeowners_Collector.thy ===== *)
theory Codeowners_Collector
  imports Branch_Protection Rust_Text
begin

text \<open>
  The CODEOWNERS collector: the parser of \<open>collector/codeowners_parser.rs\<close> and the evaluation of
  \<open>collector/codeowners.rs\<close>. Texts are UTF-8 bytes; lower-casing, base64 decoding, the sanitiser of path
  segments and the client are parameters. Log records are left out.
\<close>

subsection \<open>Parser\<close>

definition MAX_LINE_LENGTH :: nat where
  "MAX_LINE_LENGTH = 10 * 1024"

definition strip_inline_comment :: "string \<Rightarrow> string" where
  "strip_inline_comment line =
     (case List.map_filter (\<lambda>x. x) [str_find '' #'' line, str_find [CHR 0x09, CHR ''#''] line] of
        [] \<Rightarrow> line
      | p # ps \<Rightarrow> trim_end (take (fold min ps p) line))"

record ParseState =
  ps_entries :: "CodeownersEntry list"
  seen_owners :: "string list"
  ps_unique_owners :: "string list"
  ps_skipped_lines :: u32

definition note_owner :: "(string \<Rightarrow> string) \<Rightarrow> string \<Rightarrow> ParseState \<Rightarrow> ParseState" where
  "note_owner lower owner st =
     (if lower owner \<in> set (seen_owners st) then st
      else st\<lparr>seen_owners := lower owner # seen_owners st, ps_unique_owners := ps_unique_owners st @ [owner]\<rparr>)"

definition parse_line :: "(string \<Rightarrow> string) \<Rightarrow> string \<Rightarrow> ParseState \<Rightarrow> ParseState" where
  "parse_line lower line st =
     (if length line > MAX_LINE_LENGTH
      then st\<lparr>ps_skipped_lines := saturating_add (ps_skipped_lines st) 1\<rparr>
      else
        let trimmed = str_trim line
        in if trimmed = [] \<or> hd trimmed = CHR ''#'' then st
           else (case split_whitespace (strip_inline_comment trimmed) of
                   [] \<Rightarrow> st
                 | pat # tokens \<Rightarrow>
                     let line_owners = remdups_adj (sort (filter (\<lambda>t. is_prefix ''@'' t) tokens));
                         st = fold (note_owner lower) line_owners st
                     in st\<lparr>ps_entries := ps_entries st @ [\<lparr>pattern = pat, owners = line_owners\<rparr>]\<rparr>))"

definition parse_codeowners :: "(string \<Rightarrow> string) \<Rightarrow> string \<Rightarrow> ParsedCodeowners" where
  "parse_codeowners lower content =
     (let st = fold (parse_line lower) (str_lines content)
            \<lparr>ps_entries = [], seen_owners = [], ps_unique_owners = [], ps_skipped_lines = 0\<rparr>
      in \<lparr>entries = ps_entries st, unique_owners = ps_unique_owners st, skipped_lines = ps_skipped_lines st\<rparr>)"

subsection \<open>Evaluation\<close>

definition CONFORMING_CODEOWNERS_PATH :: string where
  "CONFORMING_CODEOWNERS_PATH = ''.github/CODEOWNERS''"

definition NON_CONFORMING_CODEOWNERS_PATH :: string where
  "NON_CONFORMING_CODEOWNERS_PATH = ''CODEOWNERS''"

definition DOCS_CODEOWNERS_PATH :: string where
  "DOCS_CODEOWNERS_PATH = ''docs/CODEOWNERS''"

definition MAX_BASE64_LENGTH :: nat where
  "MAX_BASE64_LENGTH = 133 * 1024"

definition is_file_response :: "ApiOutcome \<Rightarrow> bool" where
  "is_file_response result \<longleftrightarrow> ApiOutcome_is_ok result \<and>
     Option.bind (Option.bind (ApiOutcome_data result) (Value_get ''type'')) Value_as_str = Some ''file''"

definition codeowners_build_result :: "CodeownersStatus \<Rightarrow> string option \<Rightarrow> string \<Rightarrow> CodeownersResult" where
  "codeowners_build_result status path timestamp = (case status of
     CodeownersStatus.Conforming \<Rightarrow> CodeownersResult.Conforming CodeownersContent.Unparsed timestamp
   | CodeownersStatus.NonConforming \<Rightarrow>
       CodeownersResult.NonConforming
         (if path = Some ''docs/CODEOWNERS'' then CodeownersNonConformingLocation.Docs
          else CodeownersNonConformingLocation.Root) CodeownersContent.Unparsed timestamp
   | CodeownersStatus.Absent \<Rightarrow> CodeownersResult.Absent timestamp
   | CodeownersStatus.Unknown \<Rightarrow> CodeownersResult.Unobservable IndeterminateReason.Invalid timestamp)"

definition build_result_with_parsed ::
    "CodeownersStatus \<Rightarrow> string \<Rightarrow> string \<Rightarrow> CodeownersTruncationReason + ParsedCodeowners \<Rightarrow> CodeownersResult" where
  "build_result_with_parsed status path timestamp parsed_or_truncation =
     (let content = (case parsed_or_truncation of
            Inr p \<Rightarrow> CodeownersContent.Parsed p | Inl reason \<Rightarrow> CodeownersContent.Truncated reason)
      in case codeowners_build_result status (Some path) timestamp of
           CodeownersResult.Conforming _ t \<Rightarrow> CodeownersResult.Conforming content t
         | CodeownersResult.NonConforming location _ t \<Rightarrow> CodeownersResult.NonConforming location content t
         | other \<Rightarrow> other)"

definition try_parse_content ::
    "(string \<Rightarrow> string) \<Rightarrow> (string \<Rightarrow> string option) \<Rightarrow> Value \<Rightarrow> CodeownersTruncationReason + ParsedCodeowners" where
  "try_parse_content lower base64_decode d =
     (case Option.bind (Value_get ''encoding'' d) Value_as_str of
        None \<Rightarrow> Inl CodeownersTruncationReason.NotBase64Encoded
      | Some encoding \<Rightarrow>
          if encoding \<noteq> ''base64'' then Inl CodeownersTruncationReason.NotBase64Encoded
          else case Option.bind (Value_get ''content'' d) Value_as_str of
             None \<Rightarrow> Inl CodeownersTruncationReason.ContentMissing
           | Some raw_content \<Rightarrow>
               if length raw_content > MAX_BASE64_LENGTH then Inl CodeownersTruncationReason.OversizedBase64
               else case base64_decode (filter (\<lambda>c. c \<noteq> CHR 0x0A \<and> c \<noteq> CHR 0x0D) raw_content) of
                  None \<Rightarrow> Inl CodeownersTruncationReason.DecodeFailed
                | Some decoded \<Rightarrow>
                    if from_utf8_ok decoded then Inr (parse_codeowners lower decoded)
                    else Inl CodeownersTruncationReason.InvalidUtf8)"

datatype PathProbe =
  Found CodeownersStatus string Value
| Indeterminate IndeterminateReason
| NotFound

definition probe_path :: "Client \<Rightarrow> string \<Rightarrow> string \<Rightarrow> CodeownersStatus \<Rightarrow> PathProbe" where
  "probe_path client safe_name path status =
     (let outcome = client_request client
            (''/repos/'' @ org_name client @ ''/'' @ safe_name @ ''/contents/'' @ path);
          ok = ApiOutcome_is_ok outcome; code = ApiOutcome_status_code outcome
      in if is_file_response outcome
         then PathProbe.Found status path (case ApiOutcome_data outcome of Some d \<Rightarrow> d | None \<Rightarrow> Value.Null)
         else if \<not> ok \<and> (code = Some 401 \<or> code = Some 403)
         then PathProbe.Indeterminate IndeterminateReason.PermissionDenied
         else if \<not> ok \<and> code = Some 404 then PathProbe.NotFound
         else if \<not> ok \<and> code = Some 429 then PathProbe.Indeterminate IndeterminateReason.RateLimited
         else if \<not> ok \<and> ApiOutcome_is_retryable outcome
         then PathProbe.Indeterminate IndeterminateReason.Transient
         else if ok \<and> (case ApiOutcome_data outcome of
                None \<Rightarrow> False
              | Some d \<Rightarrow> Value_as_array d \<noteq> None \<or>
                  Option.bind (Value_get ''type'' d) Value_as_str
                    \<in> {Some ''dir'', Some ''symlink'', Some ''submodule''})
         then PathProbe.NotFound
         else PathProbe.Indeterminate IndeterminateReason.Invalid)"

definition codeowners_candidates :: "(string \<times> CodeownersStatus) list" where
  "codeowners_candidates =
     [(CONFORMING_CODEOWNERS_PATH, CodeownersStatus.Conforming),
      (NON_CONFORMING_CODEOWNERS_PATH, CodeownersStatus.NonConforming),
      (DOCS_CODEOWNERS_PATH, CodeownersStatus.NonConforming)]"

fun probe_candidates ::
    "(string \<Rightarrow> string) \<Rightarrow> (string \<Rightarrow> string option) \<Rightarrow> Client \<Rightarrow> string \<Rightarrow> string \<Rightarrow>
     (string \<times> CodeownersStatus) list \<Rightarrow> CodeownersResult" where
  "probe_candidates lower base64_decode client safe_name run_time [] =
     codeowners_build_result CodeownersStatus.Absent None run_time"
| "probe_candidates lower base64_decode client safe_name run_time ((path, status) # cs) =
     (case probe_path client safe_name path status of
        PathProbe.Found status path d \<Rightarrow>
          build_result_with_parsed status path run_time (try_parse_content lower base64_decode d)
      | PathProbe.Indeterminate reason \<Rightarrow> CodeownersResult.Unobservable reason run_time
      | PathProbe.NotFound \<Rightarrow> probe_candidates lower base64_decode client safe_name run_time cs)"

definition codeowners_evaluate ::
    "(string \<Rightarrow> string) \<Rightarrow> (string \<Rightarrow> string option) \<Rightarrow> (string \<Rightarrow> string option) \<Rightarrow> Client \<Rightarrow> Repository \<Rightarrow>
     string \<Rightarrow> CodeownersResult" where
  "codeowners_evaluate lower base64_decode sanitize client repo run_time =
     (case sanitize (repo_name repo) of
        None \<Rightarrow> codeowners_build_result CodeownersStatus.Unknown None run_time
      | Some safe_name \<Rightarrow>
          probe_candidates lower base64_decode client safe_name run_time codeowners_candidates)"

subsection \<open>What the parser keeps\<close>

definition parse_ok :: "(string \<Rightarrow> string) \<Rightarrow> ParseState \<Rightarrow> bool" where
  "parse_ok lower st \<longleftrightarrow>
     distinct (map lower (ps_unique_owners st)) \<and>
     set (seen_owners st) = lower ` set (ps_unique_owners st) \<and>
     lower ` set (ps_unique_owners st) = lower ` (\<Union>e \<in> set (ps_entries st). set (owners e)) \<and>
     set (ps_unique_owners st) \<subseteq> (\<Union>e \<in> set (ps_entries st). set (owners e)) \<and>
     (\<forall>e \<in> set (ps_entries st). sorted_wrt (<) (owners e) \<and> (\<forall>o' \<in> set (owners e). is_prefix ''@'' o'))"

lemma fold_note_owner:
  assumes "distinct (map lower (ps_unique_owners st))" and "set (seen_owners st) = lower ` set (ps_unique_owners st)"
    and "st' = fold (note_owner lower) os st"
  shows "distinct (map lower (ps_unique_owners st')) \<and>
     set (seen_owners st') = lower ` set (ps_unique_owners st') \<and>
     lower ` set (ps_unique_owners st') = lower ` (set (ps_unique_owners st) \<union> set os) \<and>
     set (ps_unique_owners st') \<subseteq> set (ps_unique_owners st) \<union> set os \<and>
     ps_entries st' = ps_entries st \<and> ps_skipped_lines st' = ps_skipped_lines st"
  using assms
proof (induction os arbitrary: st)
  case (Cons o' os)
  let ?st = "note_owner lower o' st"
  have st: "distinct (map lower (ps_unique_owners ?st))" "set (seen_owners ?st) = lower ` set (ps_unique_owners ?st)"
    "lower ` set (ps_unique_owners ?st) = lower ` (insert o' (set (ps_unique_owners st)))"
    "set (ps_unique_owners ?st) \<subseteq> insert o' (set (ps_unique_owners st))" "ps_entries ?st = ps_entries st"
    "ps_skipped_lines ?st = ps_skipped_lines st"
    using Cons.prems(1,2) by (auto simp: note_owner_def)
  from Cons.prems(3) have "st' = fold (note_owner lower) os ?st" by simp
  from Cons.IH [OF st(1,2) this] st(3-6) show ?case by (auto simp: image_Un)
qed auto

lemma remdups_adj_strict:
  fixes xs :: "'a :: linorder list"
  shows "sorted xs \<Longrightarrow> sorted_wrt (<) (remdups_adj xs)"
  by (induction xs rule: remdups_adj.induct) (auto simp: order.strict_iff_order)

lemma sorted_owners:
  fixes ts :: "string list"
  shows "sorted_wrt (<) (remdups_adj (sort ts))"
  by (rule remdups_adj_strict) simp

lemma parse_line_ok: "parse_ok lower st \<Longrightarrow> parse_ok lower (parse_line lower line st)"
proof -
  assume ok: "parse_ok lower st"
  have add: "parse_ok lower (let st = fold (note_owner lower) os st in
      st\<lparr>ps_entries := ps_entries st @ [\<lparr>pattern = pat, owners = os\<rparr>]\<rparr>)"
    if "sorted_wrt (<) os" "\<forall>o' \<in> set os. is_prefix ''@'' o'" for os pat
    using fold_note_owner [OF _ _ refl, of lower st os] ok that
    by (auto simp: parse_ok_def Let_def image_Un image_UN)
  have "parse_ok lower (st\<lparr>ps_skipped_lines := n\<rparr>)" for n using ok by (simp add: parse_ok_def)
  then show ?thesis using ok add [OF sorted_owners]
    by (auto simp: parse_line_def Let_def split: list.split)
qed

lemma fold_parse_line_ok: "parse_ok lower st \<Longrightarrow> parse_ok lower (fold (parse_line lower) ls st)"
  by (induction ls arbitrary: st) (auto simp: parse_line_ok)

lemma parse_line_skipped:
  "unat (ps_skipped_lines (parse_line lower line st)) =
     min (2 ^ 32 - 1) (unat (ps_skipped_lines st) + (if length line > MAX_LINE_LENGTH then 1 else 0))"
proof -
  have "ps_skipped_lines (fold (note_owner lower) os st) = ps_skipped_lines st" for os
    by (induction os arbitrary: st) (auto simp: note_owner_def)
  moreover have "unat (ps_skipped_lines st) \<le> 2 ^ 32 - 1" using unat_u32_bound [of "ps_skipped_lines st"] by simp
  ultimately show ?thesis
    by (auto simp: parse_line_def Let_def unat_saturating_add split: list.split)
qed

lemma fold_parse_line_skipped:
  "unat (ps_skipped_lines (fold (parse_line lower) ls st)) =
     min (2 ^ 32 - 1) (unat (ps_skipped_lines st) + length (filter (\<lambda>l. length l > MAX_LINE_LENGTH) ls))"
proof (induction ls arbitrary: st)
  case Nil
  show ?case using unat_u32_bound [of "ps_skipped_lines st"] by simp
next
  case (Cons l ls)
  have "min M (min M (a + b) + c) = min M (a + (b + c))" for M a b c :: nat by linarith
  from this [of "2 ^ 32 - 1" "unat (ps_skipped_lines st)" 1] this [of "2 ^ 32 - 1" "unat (ps_skipped_lines st)" 0]
  show ?case by (simp only: fold_Cons o_apply Cons.IH parse_line_skipped filter.simps) simp
qed

text \<open>
  C28. The shape of every parsed CODEOWNERS file, whatever the bytes: the owners of an entry start with \<open>@\<close> and
  are strictly sorted; \<open>unique_owners\<close> holds no two owners that differ only in case, each of them is an owner
  of some entry and every owner of an entry is there up to case; \<open>skipped_lines\<close> is the number of lines over
  the length limit, saturated at \<open>u32::MAX\<close>.
\<close>
theorem parsed_codeowners_well_formed:
  "distinct (map lower (unique_owners (parse_codeowners lower content))) \<and>
   set (unique_owners (parse_codeowners lower content))
     \<subseteq> (\<Union>e \<in> set (entries (parse_codeowners lower content)). set (owners e)) \<and>
   lower ` set (unique_owners (parse_codeowners lower content))
     = lower ` (\<Union>e \<in> set (entries (parse_codeowners lower content)). set (owners e)) \<and>
   list_all (\<lambda>e. sorted_wrt (<) (owners e) \<and> list_all (is_prefix ''@'') (owners e))
     (entries (parse_codeowners lower content)) \<and>
   unat (skipped_lines (parse_codeowners lower content)) =
     min (2 ^ 32 - 1) (length (filter (\<lambda>l. length l > MAX_LINE_LENGTH) (str_lines content)))"
proof -
  let ?st0 = "\<lparr>ps_entries = [], seen_owners = [], ps_unique_owners = [], ps_skipped_lines = 0\<rparr>"
  have "parse_ok lower (fold (parse_line lower) (str_lines content) ?st0)"
    by (rule fold_parse_line_ok) (simp add: parse_ok_def)
  then show ?thesis
    by (simp add: parse_ok_def parse_codeowners_def Let_def list_all_iff fold_parse_line_skipped)
qed

subsection \<open>Parsing what is printed\<close>

definition owner_suffix :: "string list \<Rightarrow> string" where
  "owner_suffix os = concat (map (\<lambda>o'. CHR '' '' # o') os)"

definition render_entry :: "CodeownersEntry \<Rightarrow> string" where
  "render_entry e = pattern e @ owner_suffix (owners e)"

definition render_codeowners :: "CodeownersEntry list \<Rightarrow> string" where
  "render_codeowners es = concat (map (\<lambda>l. l @ [CHR 0x0A]) (map render_entry es))"

definition printable_owner :: "string \<Rightarrow> bool" where
  "printable_owner o' \<longleftrightarrow> is_prefix ''@'' o' \<and> no_ws o'"

definition printable_entry :: "CodeownersEntry \<Rightarrow> bool" where
  "printable_entry e \<longleftrightarrow>
     pattern e \<noteq> [] \<and> hd (pattern e) \<noteq> CHR ''#'' \<and> no_ws (pattern e) \<and> list_all printable_owner (owners e)"

text \<open>The lines that are not too long to be read, and how the parser orders the owners of an entry.\<close>

definition fits_line :: "CodeownersEntry \<Rightarrow> bool" where
  "fits_line e \<longleftrightarrow> length (render_entry e) \<le> MAX_LINE_LENGTH"

definition sort_owners :: "CodeownersEntry \<Rightarrow> CodeownersEntry" where
  "sort_owners e = \<lparr>pattern = pattern e, owners = remdups_adj (sort (owners e))\<rparr>"

lemma printable_owner_cases:
  assumes "printable_owner o'"
  obtains s where "o' = CHR ''@'' # s" "no_ws o'"
  using assms by (auto simp: printable_owner_def is_prefix_iff)

lemma byte_in_space [simp]: "byte_in 0 0x7F CHR '' ''"
  by (simp add: byte_in_def)

lemma owner_suffix_simps [simp]:
  "owner_suffix [] = []" "owner_suffix (o' # os) = CHR '' '' # o' @ owner_suffix os"
  by (simp_all add: owner_suffix_def)

lemma owner_suffix_hd: "owner_suffix os = [] \<or> byte_in 0 0x7F (hd (owner_suffix os))"
  by (cases os) auto

lemma split_owner_suffix:
  assumes "list_all printable_owner os" and "no_ws tok" and "tok \<noteq> []"
  shows "split_ws [] (tok @ owner_suffix os) = tok # os"
  using assms
proof (induction os arbitrary: tok)
  case Nil
  then show ?case using split_ws_token [of tok "[]" "[]"] by (simp add: split_ws.simps)
next
  case (Cons o' os)
  then have o': "no_ws o'" "o' \<noteq> []" by (auto elim: printable_owner_cases)
  have "split_ws [] (tok @ owner_suffix (o' # os)) = split_ws tok (CHR '' '' # o' @ owner_suffix os)"
    using split_ws_token [OF Cons.prems(2), of "owner_suffix (o' # os)" "[]"] by simp
  also have "\<dots> = tok # split_ws [] (o' @ owner_suffix os)"
    using Cons.prems(3) by (subst split_ws.simps) simp
  finally show ?case using Cons.IH [OF _ o'] Cons.prems(1) by simp
qed

lemma trim_end_owner_suffix: "list_all printable_owner os \<Longrightarrow> trim_end (owner_suffix os) = owner_suffix os"
proof (induction os)
  case (Cons o' os)
  then obtain s where o': "o' = CHR ''@'' # s" "no_ws o'" by (auto elim: printable_owner_cases)
  then have "ws_len (o' @ owner_suffix os) = 0"
    by (intro ws_len_append owner_suffix_hd) (auto simp: o'(1))
  then have "trim_start (o' @ owner_suffix os) \<noteq> []" using o'(1) by (simp add: trim_start_id)
  then show ?case
    using trim_end_token [OF o'(2) owner_suffix_hd] Cons by (simp add: trim_end_space)
qed simp

lemma str_find_owner_suffix:
  assumes "list_all printable_owner os" and "[w] \<in> set WHITE_SPACE"
  shows "str_find [w, CHR ''#''] (owner_suffix os) = None"
  using assms(1)
proof (induction os)
  case (Cons o' os)
  then obtain s where o': "o' = CHR ''@'' # s" "no_ws o'" by (auto elim: printable_owner_cases)
  then have "w \<notin> set o'" using assms(2) by (metis no_ws_not_mem)
  then have "str_find [w, CHR ''#''] (o' @ owner_suffix os) = None" using Cons by (intro str_find_skip) auto
  then show ?case using o'(1) by simp
qed simp

lemma no_ws_hd: "no_ws s \<Longrightarrow> s \<noteq> [] \<Longrightarrow> ws_len s = 0"
  by (cases s) auto

lemma parse_rendered_line:
  assumes "printable_entry e"
  shows "ps_entries (parse_line lower (render_entry e) st) =
     ps_entries st @ (if fits_line e then [sort_owners e] else [])"
proof -
  let ?l = "render_entry e" let ?os = "owners e"
  from assms have p: "pattern e \<noteq> []" "hd (pattern e) \<noteq> CHR ''#''" "no_ws (pattern e)"
    and os: "list_all printable_owner ?os"
    by (auto simp: printable_entry_def)
  have ne: "?l \<noteq> []" "hd ?l \<noteq> CHR ''#''" using p(1,2) by (auto simp: render_entry_def)
  have "ws_len ?l = 0"
    unfolding render_entry_def by (intro ws_len_append owner_suffix_hd no_ws_hd p)
  then have trim: "str_trim ?l = ?l"
    using trim_end_token [OF p(3) owner_suffix_hd trim_end_owner_suffix [OF os]]
    by (simp add: str_trim_def trim_start_id render_entry_def)
  have "str_find [w, CHR ''#''] ?l = None" if "[w] \<in> set WHITE_SPACE" for w
    unfolding render_entry_def
    by (intro str_find_skip str_find_owner_suffix os no_ws_not_mem [OF p(3) that] that)
  from this [of "CHR '' ''"] this [of "CHR 0x09"] have "strip_inline_comment ?l = ?l"
    by (simp add: strip_inline_comment_def WHITE_SPACE_def List.map_filter_def)
  moreover have "split_whitespace ?l = pattern e # ?os"
    using split_owner_suffix [OF os p(3,1)] by (simp add: split_whitespace_def render_entry_def)
  moreover have "filter (is_prefix ''@'') ?os = ?os"
    using os by (auto simp: filter_id_conv list_all_iff printable_owner_def)
  moreover have "ps_entries (fold (note_owner lower) os st) = ps_entries st" for os
    by (induction os arbitrary: st) (auto simp: note_owner_def)
  ultimately show ?thesis using ne trim by (simp add: parse_line_def Let_def fits_line_def sort_owners_def)
qed

lemma fold_parse_rendered:
  assumes "list_all printable_entry es"
  shows "ps_entries (fold (parse_line lower) (map render_entry es) st) =
    ps_entries st @ map sort_owners (filter fits_line es)"
  using assms by (induction es arbitrary: st) (simp_all add: parse_rendered_line)

lemma printable_no_newline:
  assumes "printable_entry e" "c \<in> {CHR 0x0A, CHR 0x0D}"
  shows "c \<notin> set (render_entry e)"
proof -
  from assms(2) have c: "[c] \<in> set WHITE_SPACE" "c \<noteq> CHR '' ''" by (auto simp: WHITE_SPACE_def)
  have "c \<notin> set (owner_suffix os)" if "list_all printable_owner os" for os
    using that c by (induction os) (auto simp: printable_owner_def dest: no_ws_not_mem)
  with assms(1) no_ws_not_mem [OF _ c(1)] show ?thesis
    by (auto simp: printable_entry_def render_entry_def)
qed

text \<open>
  C27. Reading back a printed CODEOWNERS file. Entries whose pattern and owners are tokens without white space (the
  pattern not starting with a comment sign, the owners starting with \<open>@\<close>) are printed one per line. The
  parser reads back exactly the entries whose line has at most the ten KiB it allows, in their order, each with its owners
  sorted and without duplicates; the lines that are longer are skipped and counted, up to \<open>u32::MAX\<close>.
\<close>
theorem codeowners_round_trip:
  assumes "list_all printable_entry es"
  shows "entries (parse_codeowners lower (render_codeowners es)) = map sort_owners (filter fits_line es) \<and>
    unat (skipped_lines (parse_codeowners lower (render_codeowners es))) =
      min (2 ^ 32 - 1) (length (filter (\<lambda>e. \<not> fits_line e) es))"
proof -
  have lines: "str_lines (render_codeowners es) = map render_entry es"
    unfolding render_codeowners_def
    by (rule str_lines_unlines) (use assms printable_no_newline in \<open>auto simp: list_all_iff\<close>)
  have "length (filter (\<lambda>l. length l > MAX_LINE_LENGTH) (map render_entry es)) =
      length (filter (\<lambda>e. \<not> fits_line e) es)"
    by (simp add: filter_map comp_def fits_line_def not_le)
  then show ?thesis
    using fold_parse_rendered [OF assms] by (simp add: parse_codeowners_def Let_def lines fold_parse_line_skipped)
qed

text \<open>The second pattern does not fit on a line, the owners of the first are not sorted.\<close>

definition sample_codeowners :: "CodeownersEntry list" where
  "sample_codeowners =
     [\<lparr>pattern = ''*'', owners = [''@org/b'', ''@org/a'', ''@org/b'']\<rparr>,
      \<lparr>pattern = replicate 10241 CHR ''x'', owners = []\<rparr>, \<lparr>pattern = ''docs/'', owners = []\<rparr>]"

lemma no_ws_x: "no_ws (replicate n CHR ''x'')"
  by (induction n) (simp_all add: ws_len_def WHITE_SPACE_def)

theorem codeowners_round_trip_witness:
  "entries (parse_codeowners (\<lambda>s. s) (render_codeowners sample_codeowners)) =
     [\<lparr>pattern = ''*'', owners = [''@org/a'', ''@org/b'']\<rparr>, \<lparr>pattern = ''docs/'', owners = []\<rparr>] \<and>
   skipped_lines (parse_codeowners (\<lambda>s. s) (render_codeowners sample_codeowners)) = 1"
proof -
  let ?x = "\<lparr>pattern = replicate 10241 CHR ''x'', owners = []\<rparr> :: CodeownersEntry"
  have x: "printable_entry ?x" "\<not> fits_line ?x"
    by (simp_all add: printable_entry_def fits_line_def render_entry_def owner_suffix_def MAX_LINE_LENGTH_def no_ws_x
        del: replicate.simps)
  then have "list_all printable_entry sample_codeowners"
    by (simp add: sample_codeowners_def printable_entry_def printable_owner_def ws_len_def WHITE_SPACE_def
        del: replicate.simps)
  from codeowners_round_trip [OF this, of "\<lambda>s. s"] x(2) show ?thesis
    by (auto simp: sample_codeowners_def fits_line_def render_entry_def owner_suffix_def sort_owners_def MAX_LINE_LENGTH_def
        word_unat_eq_iff simp del: replicate.simps)
qed

subsection \<open>What the evaluation reports\<close>

lemma probe_path_found:
  "probe_path client n path status = PathProbe.Found st p d \<Longrightarrow> st = status \<and> p = path"
  by (auto simp: probe_path_def Let_def split: if_splits)

definition probe_conclusion ::
    "(string \<Rightarrow> string) \<Rightarrow> (string \<Rightarrow> string option) \<Rightarrow> string \<Rightarrow> PathProbe \<Rightarrow> CodeownersResult" where
  "probe_conclusion lower base64_decode run_time probe = (case probe of
     PathProbe.Found status path d \<Rightarrow>
       (let content = (case try_parse_content lower base64_decode d of
              Inr p \<Rightarrow> CodeownersContent.Parsed p | Inl r \<Rightarrow> CodeownersContent.Truncated r)
        in if path = CONFORMING_CODEOWNERS_PATH then CodeownersResult.Conforming content run_time
           else CodeownersResult.NonConforming
             (if path = DOCS_CODEOWNERS_PATH then CodeownersNonConformingLocation.Docs
              else CodeownersNonConformingLocation.Root) content run_time)
   | PathProbe.Indeterminate reason \<Rightarrow> CodeownersResult.Unobservable reason run_time
   | PathProbe.NotFound \<Rightarrow> CodeownersResult.Absent run_time)"

lemma found_conclusion:
  assumes "(path, status) \<in> set codeowners_candidates"
  shows "build_result_with_parsed status path run_time (try_parse_content lower base64_decode d) =
     probe_conclusion lower base64_decode run_time (PathProbe.Found status path d)"
proof -
  note defs = build_result_with_parsed_def codeowners_build_result_def probe_conclusion_def Let_def
    CONFORMING_CODEOWNERS_PATH_def NON_CONFORMING_CODEOWNERS_PATH_def DOCS_CODEOWNERS_PATH_def
  from assms consider "path = CONFORMING_CODEOWNERS_PATH" "status = CodeownersStatus.Conforming"
    | "path = NON_CONFORMING_CODEOWNERS_PATH" "status = CodeownersStatus.NonConforming"
    | "path = DOCS_CODEOWNERS_PATH" "status = CodeownersStatus.NonConforming"
    unfolding codeowners_candidates_def by (simp only: list.set insert_iff prod.inject empty_iff) blast
  then show ?thesis by cases (simp_all add: defs)
qed

lemma probe_candidates_first:
  assumes "set cs \<subseteq> set codeowners_candidates"
  shows "probe_candidates lower base64_decode client n run_time cs =
    probe_conclusion lower base64_decode run_time
      (case find (\<lambda>p. p \<noteq> PathProbe.NotFound) (map (\<lambda>(path, status). probe_path client n path status) cs) of
         Some p \<Rightarrow> p | None \<Rightarrow> PathProbe.NotFound)"
  using assms
proof (induction cs)
  case Nil
  show ?case by (simp add: probe_conclusion_def codeowners_build_result_def)
next
  case (Cons c cs)
  obtain path status where c: "c = (path, status)" by (cases c)
  show ?case
  proof (cases "probe_path client n path status")
    case (Found st p d)
    with probe_path_found [OF this] Cons.prems show ?thesis
      by (simp add: c found_conclusion)
  next
    case NotFound
    with Cons show ?thesis by (simp add: c)
  qed (simp add: c probe_conclusion_def)
qed

text \<open>
  What a repository's CODEOWNERS check reports: the conforming path, the root path and the docs path are tried in
  this order and the first one that is not a plain \<open>not found\<close> decides alone -- a file there is conforming only
  at the conforming path, an unreadable answer there is unobservable with its reason, and later paths are never
  consulted; absence is reported only when all three are not found.
\<close>
theorem codeowners_first_answer_decides:
  assumes "sanitize (repo_name repo) = Some n"
  shows "codeowners_evaluate lower base64_decode sanitize client repo run_time =
    (let root = probe_path client n ''CODEOWNERS'' CodeownersStatus.NonConforming;
         docs = probe_path client n ''docs/CODEOWNERS'' CodeownersStatus.NonConforming;
         conforming = probe_path client n ''.github/CODEOWNERS'' CodeownersStatus.Conforming
     in probe_conclusion lower base64_decode run_time
          (if conforming \<noteq> PathProbe.NotFound then conforming
           else if root \<noteq> PathProbe.NotFound then root else docs))"
  using probe_candidates_first [of codeowners_candidates lower base64_decode client n run_time] assms
  by (auto simp: codeowners_evaluate_def codeowners_candidates_def Let_def
      CONFORMING_CODEOWNERS_PATH_def NON_CONFORMING_CODEOWNERS_PATH_def DOCS_CODEOWNERS_PATH_def)

theorem codeowners_first_answer_decides_witness:
  "codeowners_evaluate (\<lambda>s. s) Some Some
     \<lparr>org_name = ''org'', client_request = (\<lambda>path.
        if path = ''/repos/org/repo/contents/.github/CODEOWNERS'' then ApiOutcome.Failure (Some 404) ''Not Found'' False
        else if path = ''/repos/org/repo/contents/CODEOWNERS'' then ApiOutcome.Failure (Some 403) ''Forbidden'' False
        else ApiOutcome_success (Value.Object [(''type'', Value.String ''file'')])),
      client_repo_details = (\<lambda>_. ApiOutcome_success Value.Null)\<rparr>
     (sample_repository ''repo'') ''t'' =
   CodeownersResult.Unobservable IndeterminateReason.PermissionDenied ''t''"
  by (subst codeowners_first_answer_decides [where n = "''repo''"])
    (simp_all add: sample_repository_def probe_path_def is_file_response_def Let_def probe_conclusion_def)

end
