(* ===== verification/Policy_Collectors.thy ===== *)
theory Policy_Collectors
  imports Codeowners_Collector
begin

text \<open>
  Three small collectors: the security policy (\<open>collector/security_policy.rs\<close>), Dependabot security updates
  (\<open>collector/dependabot.rs\<close>) and the last commit (\<open>collector/last_commit.rs\<close>). The security-policy check
  is shown to be a priority rule over what the endpoints answered.
\<close>

subsection \<open>Security policy\<close>

definition SECURITY_POLICY_PATHS :: "string list" where
  "SECURITY_POLICY_PATHS = [''SECURITY.md'', ''.github/SECURITY.md'', ''docs/SECURITY.md'']"

definition policy_build_result ::
    "SecurityPolicyStatus \<Rightarrow> SecurityPolicyEvidence \<Rightarrow> string option \<Rightarrow> string \<Rightarrow> SecurityPolicyResult" where
  "policy_build_result status evidence path timestamp = (case (status, evidence, path) of
     (SecurityPolicyStatus.Pass, SecurityPolicyEvidence.Setting, _) \<Rightarrow>
       SecurityPolicyResult.EnabledBySetting timestamp
   | (SecurityPolicyStatus.Pass, SecurityPolicyEvidence.File, Some path) \<Rightarrow>
       (case SecurityPolicyPath_new path of
          Some path \<Rightarrow> SecurityPolicyResult.EnabledByFile path timestamp
        | None \<Rightarrow> SecurityPolicyResult.Unobservable IndeterminateReason.Invalid timestamp)
   | (SecurityPolicyStatus.Fail, SecurityPolicyEvidence.Absent, _) \<Rightarrow> SecurityPolicyResult.Absent timestamp
   | (SecurityPolicyStatus.NotApplicable, _, _) \<Rightarrow> SecurityPolicyResult.NotApplicable timestamp
   | (_, SecurityPolicyEvidence.PermissionDenied, _) \<Rightarrow>
       SecurityPolicyResult.Unobservable IndeterminateReason.PermissionDenied timestamp
   | (_, SecurityPolicyEvidence.TransientError, _) \<Rightarrow>
       SecurityPolicyResult.Unobservable IndeterminateReason.Transient timestamp
   | _ \<Rightarrow> SecurityPolicyResult.Unobservable IndeterminateReason.Invalid timestamp)"

definition Value_is_boolean :: "Value \<Rightarrow> bool" where
  "Value_is_boolean v \<longleftrightarrow> Value_as_bool v \<noteq> None"

definition valid_policy_payload :: "bool \<Rightarrow> Value option \<Rightarrow> bool" where
  "valid_policy_payload contents payload = (case payload of
     None \<Rightarrow> False
   | Some d \<Rightarrow>
       if contents
       then Value_as_array d \<noteq> None \<or>
         Option.bind (Value_get ''type'' d) Value_as_str
           \<in> {Some ''file'', Some ''dir'', Some ''submodule'', Some ''symlink''}
       else Value_is_object d \<and>
         (case Value_get ''is_security_policy_enabled'' d of
            None \<Rightarrow> True | Some v \<Rightarrow> Value_is_boolean v \<or> v = Value.Null))"

definition policy_failure :: "ApiOutcome \<Rightarrow> bool \<Rightarrow> IndeterminateReason option" where
  "policy_failure outcome contents =
     (let code = ApiOutcome_status_code outcome
      in if ApiOutcome_is_ok outcome
         then (if valid_policy_payload contents (ApiOutcome_data outcome) then None
               else Some IndeterminateReason.Invalid)
         else if code = Some 401 \<or> code = Some 403 then Some IndeterminateReason.PermissionDenied
         else if code = Some 404 \<and> contents then None
         else if code = Some 429 then Some IndeterminateReason.RateLimited
         else if ApiOutcome_is_retryable outcome then Some IndeterminateReason.Transient
         else Some IndeterminateReason.Invalid)"

fun policy_priority :: "IndeterminateReason \<Rightarrow> nat" where
  "policy_priority IndeterminateReason.PermissionDenied = 0"
| "policy_priority IndeterminateReason.PermissionSuspected = 1"
| "policy_priority IndeterminateReason.RateLimited = 2"
| "policy_priority IndeterminateReason.Transient = 3"
| "policy_priority IndeterminateReason.Invalid = 4"
| "policy_priority IndeterminateReason.Pending = 5"

definition record_policy_failure ::
    "IndeterminateReason option \<Rightarrow> IndeterminateReason \<Rightarrow> IndeterminateReason option" where
  "record_policy_failure current next' = (case current of
     None \<Rightarrow> Some next'
   | Some previous \<Rightarrow> if policy_priority next' < policy_priority previous then Some next' else current)"

text \<open>The three mutable references that the path checks update.\<close>

record PolicyFlags =
  saw_permission_denied :: bool
  saw_retryable_error :: bool
  other_failure :: "IndeterminateReason option"

fun check_policy_files ::
    "Client \<Rightarrow> string \<Rightarrow> string \<Rightarrow> string list \<Rightarrow> PolicyFlags \<Rightarrow> SecurityPolicyResult option \<times> PolicyFlags" where
  "check_policy_files client safe_name run_time [] flags = (None, flags)"
| "check_policy_files client safe_name run_time (file_path # paths) flags =
     (let content = client_request client
            (''/repos/'' @ org_name client @ ''/'' @ safe_name @ ''/contents/'' @ file_path);
          code = ApiOutcome_status_code content
      in if is_file_response content
         then (Some (policy_build_result SecurityPolicyStatus.Pass SecurityPolicyEvidence.File
                 (Some file_path) run_time), flags)
         else
           let flags = (if code = Some 401 \<or> code = Some 403
                        then flags\<lparr>saw_permission_denied := True\<rparr> else flags);
               flags = (if ApiOutcome_is_retryable content \<and> code \<noteq> Some 429
                        then flags\<lparr>saw_retryable_error := True\<rparr> else flags);
               flags = (case policy_failure content True of
                          Some reason \<Rightarrow>
                            flags\<lparr>other_failure := record_policy_failure (other_failure flags) reason\<rparr>
                        | None \<Rightarrow> flags)
           in check_policy_files client safe_name run_time paths flags)"

definition setting_enabled :: "ApiOutcome \<Rightarrow> bool" where
  "setting_enabled repo_details \<longleftrightarrow> ApiOutcome_is_ok repo_details \<and>
     Option.bind (Option.bind (ApiOutcome_data repo_details) (Value_get ''is_security_policy_enabled''))
       Value_as_bool = Some True"

definition security_policy_evaluate ::
    "(string \<Rightarrow> string option) \<Rightarrow> Client \<Rightarrow> Repository \<Rightarrow> string \<Rightarrow> SecurityPolicyResult" where
  "security_policy_evaluate sanitize client repo run_time = (case sanitize (repo_name repo) of
     None \<Rightarrow> policy_build_result SecurityPolicyStatus.Unknown SecurityPolicyEvidence.CollectionError None run_time
   | Some safe_name \<Rightarrow>
       if \<not> Repository_is_public repo
       then policy_build_result SecurityPolicyStatus.NotApplicable SecurityPolicyEvidence.NotApplicable None run_time
       else
         let repo_details = client_repo_details client safe_name; code = ApiOutcome_status_code repo_details
         in if setting_enabled repo_details
            then policy_build_result SecurityPolicyStatus.Pass SecurityPolicyEvidence.Setting None run_time
            else
              let flags = \<lparr>saw_permission_denied = (code = Some 401 \<or> code = Some 403),
                    saw_retryable_error = (ApiOutcome_is_retryable repo_details \<and> code \<noteq> Some 429),
                    other_failure = policy_failure repo_details False\<rparr>
              in case check_policy_files client safe_name run_time SECURITY_POLICY_PATHS flags of
                   (Some result, _) \<Rightarrow> result
                 | (None, flags) \<Rightarrow>
                     if saw_permission_denied flags
                     then policy_build_result SecurityPolicyStatus.Unknown
                       SecurityPolicyEvidence.PermissionDenied None run_time
                     else if saw_retryable_error flags \<and>
                       other_failure flags \<noteq> Some IndeterminateReason.RateLimited
                     then policy_build_result SecurityPolicyStatus.Unknown
                       SecurityPolicyEvidence.TransientError None run_time
                     else case other_failure flags of
                        Some reason \<Rightarrow> SecurityPolicyResult.Unobservable reason run_time
                      | None \<Rightarrow> policy_build_result SecurityPolicyStatus.Fail
                          SecurityPolicyEvidence.Absent None run_time)"

subsection \<open>Dependabot\<close>

definition extract_status :: "Value \<Rightarrow> DependabotStatus option" where
  "extract_status d =
     Option.bind (Option.bind (Option.bind (Option.bind (Value_get ''security_and_analysis'' d)
         (Value_get ''dependabot_security_updates'')) (Value_get ''status'')) Value_as_str)
       (\<lambda>s. if s = ''enabled'' then Some DependabotStatus.Enabled
            else if s = ''paused'' then Some DependabotStatus.Paused
            else if s = ''disabled'' then Some DependabotStatus.Disabled
            else None)"

definition dependabot_build_result :: "DependabotStatus \<Rightarrow> string \<Rightarrow> string option \<Rightarrow> DependabotResult" where
  "dependabot_build_result status timestamp reason =
     \<lparr>dependabot_status = status, dependabot_reason = reason, dependabot_timestamp = timestamp\<rparr>"

definition dependabot_evaluate ::
    "(string \<Rightarrow> string option) \<Rightarrow> Client \<Rightarrow> Repository \<Rightarrow> string \<Rightarrow> DependabotResult" where
  "dependabot_evaluate sanitize client repo run_time = (case sanitize (repo_name repo) of
     None \<Rightarrow> dependabot_build_result DependabotStatus.Unknown run_time (Some ''invalid_repo_name'')
   | Some safe_name \<Rightarrow>
       let repo_details = client_repo_details client safe_name
       in case (if ApiOutcome_is_ok repo_details
                then Option.bind (ApiOutcome_data repo_details) extract_status else None) of
            Some status \<Rightarrow> dependabot_build_result status run_time None
          | None \<Rightarrow>
              if ApiOutcome_status_code repo_details = Some 403
              then dependabot_build_result DependabotStatus.Unknown run_time (Some ''permission_denied'')
              else if ApiOutcome_is_retryable repo_details
              then dependabot_build_result DependabotStatus.Unknown run_time (Some ''transient_error'')
              else dependabot_build_result DependabotStatus.Unknown run_time (Some ''insufficient_evidence''))"

subsection \<open>Last commit\<close>

definition fetch_last_commit ::
    "(string \<Rightarrow> string option) \<Rightarrow> (string \<Rightarrow> string) \<Rightarrow> Client \<Rightarrow> Repository \<Rightarrow> LastCommitInfo option" where
  "fetch_last_commit sanitize encode client repo = (case sanitize (repo_name repo) of
     None \<Rightarrow> None
   | Some safe_name \<Rightarrow>
       let result = client_request client
             (''/repos/'' @ org_name client @ ''/'' @ safe_name @ ''/commits?sha='' @
              encode (default_branch repo) @ ''&per_page=1'');
           field = (\<lambda>path v. Option.bind (fold (\<lambda>k v. Option.bind v (Value_get k)) path (Some v)) Value_as_str)
       in if \<not> ApiOutcome_is_ok result then None
          else case Option.bind (ApiOutcome_data result) Value_as_array of
             None \<Rightarrow> None
           | Some [] \<Rightarrow> None
           | Some (first # _) \<Rightarrow>
               Some \<lparr>committer_login = field [''committer'', ''login''] first,
                     committer_name = field [''commit'', ''committer'', ''name''] first,
                     commit_date = field [''commit'', ''committer'', ''date''] first\<rparr>)"

subsection \<open>The priority rule of the security-policy check\<close>

text \<open>The reason of least priority number in a list of failures.\<close>

definition leading_reason :: "IndeterminateReason list \<Rightarrow> IndeterminateReason option" where
  "leading_reason rs = min_by_key policy_priority rs"

lemma policy_priority_inj: "policy_priority a = policy_priority b \<Longrightarrow> a = b"
  by (cases a; cases b) auto

definition is_leading :: "IndeterminateReason set \<Rightarrow> IndeterminateReason option \<Rightarrow> bool" where
  "is_leading S r \<longleftrightarrow> (case r of
     None \<Rightarrow> S = {} | Some x \<Rightarrow> x \<in> S \<and> (\<forall>y \<in> S. policy_priority x \<le> policy_priority y))"

lemma is_leading_unique: "is_leading S r \<Longrightarrow> is_leading S r' \<Longrightarrow> r = r'"
  by (auto simp: is_leading_def intro!: policy_priority_inj order.antisym split: option.splits)

lemma leading_reason_leads: "is_leading (set rs) (leading_reason rs)"
  using min_by_key_None [of policy_priority rs] min_by_key_Some [of policy_priority rs]
  by (cases "leading_reason rs") (auto simp: is_leading_def leading_reason_def)

lemma record_policy_failure_leads:
  "is_leading S r \<Longrightarrow> is_leading (insert x S) (record_policy_failure r x)"
  by (cases r) (auto simp: is_leading_def record_policy_failure_def)

text \<open>
  What the client promises of the outcomes it returns: a success is never an authorisation failure, and a
  missing resource is not retried.
\<close>

definition client_outcome_ok :: "ApiOutcome \<Rightarrow> bool" where
  "client_outcome_ok outcome = (case outcome of
     ApiOutcome.Success code _ _ _ \<Rightarrow> code \<notin> {401, 403}
   | ApiOutcome.Failure code _ retryable \<Rightarrow> code \<in> {Some 401, Some 403, Some 404} \<longrightarrow> \<not> retryable)"

text \<open>What the mutable flags mean after the endpoints with the failures \<open>S\<close> were read.\<close>

definition flags_ok :: "IndeterminateReason set \<Rightarrow> PolicyFlags \<Rightarrow> bool" where
  "flags_ok S flags \<longleftrightarrow> is_leading S (other_failure flags) \<and>
     saw_permission_denied flags = (IndeterminateReason.PermissionDenied \<in> S) \<and>
     saw_retryable_error flags = (IndeterminateReason.Transient \<in> S)"

lemma policy_failure_flags:
  assumes "client_outcome_ok outcome"
  shows "(ApiOutcome_status_code outcome = Some 401 \<or> ApiOutcome_status_code outcome = Some 403) =
      (policy_failure outcome contents = Some IndeterminateReason.PermissionDenied)"
    and "(ApiOutcome_is_retryable outcome \<and> ApiOutcome_status_code outcome \<noteq> Some 429) =
      (policy_failure outcome contents = Some IndeterminateReason.Transient)"
  using assms by (cases outcome; auto simp: client_outcome_ok_def policy_failure_def Let_def)+

definition policy_content :: "Client \<Rightarrow> string \<Rightarrow> string \<Rightarrow> ApiOutcome" where
  "policy_content client safe_name path =
     client_request client (''/repos/'' @ org_name client @ ''/'' @ safe_name @ ''/contents/'' @ path)"

lemma flags_step:
  assumes "flags_ok S flags" and "client_outcome_ok c"
  shows "flags_ok (set_option (policy_failure c True) \<union> S)
    (let code = ApiOutcome_status_code c;
         flags = (if code = Some 401 \<or> code = Some 403 then flags\<lparr>saw_permission_denied := True\<rparr> else flags);
         flags = (if ApiOutcome_is_retryable c \<and> code \<noteq> Some 429
                  then flags\<lparr>saw_retryable_error := True\<rparr> else flags)
     in (case policy_failure c True of
           Some reason \<Rightarrow> flags\<lparr>other_failure := record_policy_failure (other_failure flags) reason\<rparr>
         | None \<Rightarrow> flags))"
  using assms(1) record_policy_failure_leads
  by (cases "policy_failure c True")
    (auto simp: Let_def policy_failure_flags [OF assms(2), where contents = True] flags_ok_def)

lemma check_policy_files_spec:
  assumes "flags_ok S flags" and "\<forall>p \<in> set paths. client_outcome_ok (policy_content client n p) \<and> p \<noteq> []"
  shows "case find (\<lambda>p. is_file_response (policy_content client n p)) paths of
     Some p \<Rightarrow> fst (check_policy_files client n run_time paths flags) =
       Some (SecurityPolicyResult.EnabledByFile (SecurityPolicyPath p) run_time)
   | None \<Rightarrow> fst (check_policy_files client n run_time paths flags) = None \<and>
       flags_ok (S \<union> set (List.map_filter (\<lambda>p. policy_failure (policy_content client n p) True) paths))
         (snd (check_policy_files client n run_time paths flags))"
  using assms
proof (induction paths arbitrary: S flags)
  case (Cons p paths)
  let ?c = "policy_content client n p"
  show ?case
  proof (cases "is_file_response ?c")
    case True
    with Cons.prems(2) show ?thesis
      by (simp add: policy_content_def policy_build_result_def SecurityPolicyPath_new_def)
  next
    case False
    define flags' where "flags' =
      (let code = ApiOutcome_status_code ?c;
         flags = (if code = Some 401 \<or> code = Some 403 then flags\<lparr>saw_permission_denied := True\<rparr> else flags);
         flags = (if ApiOutcome_is_retryable ?c \<and> code \<noteq> Some 429
                  then flags\<lparr>saw_retryable_error := True\<rparr> else flags)
       in (case policy_failure ?c True of
           Some reason \<Rightarrow> flags\<lparr>other_failure := record_policy_failure (other_failure flags) reason\<rparr>
         | None \<Rightarrow> flags))"
    have "flags_ok (set_option (policy_failure ?c True) \<union> S) flags'"
      unfolding flags'_def by (rule flags_step) (use Cons.prems in auto)
    from Cons.IH [OF this] Cons.prems(2)
    have IH: "case find (\<lambda>p. is_file_response (policy_content client n p)) paths of
       Some p \<Rightarrow> fst (check_policy_files client n run_time paths flags') =
         Some (SecurityPolicyResult.EnabledByFile (SecurityPolicyPath p) run_time)
     | None \<Rightarrow> fst (check_policy_files client n run_time paths flags') = None \<and>
         flags_ok ((set_option (policy_failure ?c True) \<union> S) \<union>
             set (List.map_filter (\<lambda>p. policy_failure (policy_content client n p) True) paths))
           (snd (check_policy_files client n run_time paths flags'))" by simp
    have step: "check_policy_files client n run_time (p # paths) flags =
        check_policy_files client n run_time paths flags'"
      using False by (simp only: check_policy_files.simps policy_content_def flags'_def Let_def if_False)
    have "set_option (policy_failure ?c True) \<union> S \<union>
        set (List.map_filter (\<lambda>p. policy_failure (policy_content client n p) True) paths) =
      S \<union> set (List.map_filter (\<lambda>p. policy_failure (policy_content client n p) True) (p # paths))"
      by (auto simp: List.map_filter_simps split: option.splits)
    with IH step False show ?thesis by (simp split: option.splits)
  qed
qed (simp add: List.map_filter_simps)

lemma policy_failure_not_suspected: "policy_failure c b \<noteq> Some IndeterminateReason.PermissionSuspected"
  by (simp add: policy_failure_def Let_def)

lemma leading_decides:
  assumes "is_leading S r" and "IndeterminateReason.PermissionSuspected \<notin> S"
  shows "IndeterminateReason.PermissionDenied \<in> S \<Longrightarrow> r = Some IndeterminateReason.PermissionDenied"
    and "IndeterminateReason.PermissionDenied \<notin> S \<Longrightarrow> IndeterminateReason.Transient \<in> S \<Longrightarrow>
      r \<noteq> Some IndeterminateReason.RateLimited \<Longrightarrow> r = Some IndeterminateReason.Transient"
proof -
  have 0: "policy_priority x = 0 \<Longrightarrow> x = IndeterminateReason.PermissionDenied" for x by (cases x) auto
  have 3: "policy_priority x \<le> 3 \<Longrightarrow> x \<in> {IndeterminateReason.PermissionDenied,
      IndeterminateReason.PermissionSuspected, IndeterminateReason.RateLimited, IndeterminateReason.Transient}" for x
    by (cases x) auto
  show "IndeterminateReason.PermissionDenied \<in> S \<Longrightarrow> r = Some IndeterminateReason.PermissionDenied"
    using assms(1) 0 by (cases r) (fastforce simp: is_leading_def)+
  show "IndeterminateReason.PermissionDenied \<notin> S \<Longrightarrow> IndeterminateReason.Transient \<in> S \<Longrightarrow>
      r \<noteq> Some IndeterminateReason.RateLimited \<Longrightarrow> r = Some IndeterminateReason.Transient"
    using assms 3 by (cases r) (fastforce simp: is_leading_def)+
qed

text \<open>The end of the evaluation, when neither the setting nor a file answered.\<close>

definition policy_verdict :: "PolicyFlags \<Rightarrow> string \<Rightarrow> SecurityPolicyResult" where
  "policy_verdict flags run_time =
     (if saw_permission_denied flags
      then SecurityPolicyResult.Unobservable IndeterminateReason.PermissionDenied run_time
      else if saw_retryable_error flags \<and> other_failure flags \<noteq> Some IndeterminateReason.RateLimited
      then SecurityPolicyResult.Unobservable IndeterminateReason.Transient run_time
      else case other_failure flags of
         Some reason \<Rightarrow> SecurityPolicyResult.Unobservable reason run_time
       | None \<Rightarrow> SecurityPolicyResult.Absent run_time)"

lemma policy_verdict_leading:
  assumes "flags_ok S flags" and "IndeterminateReason.PermissionSuspected \<notin> S"
  shows "policy_verdict flags run_time = (case other_failure flags of
     Some reason \<Rightarrow> SecurityPolicyResult.Unobservable reason run_time
   | None \<Rightarrow> SecurityPolicyResult.Absent run_time)"
  using assms leading_decides [of S "other_failure flags"]
  by (auto simp: policy_verdict_def flags_ok_def)

lemma security_policy_evaluate_unfold:
  assumes "sanitize (repo_name repo) = Some n" and "Repository_is_public repo"
    and "\<not> setting_enabled (client_repo_details client n)"
  shows "security_policy_evaluate sanitize client repo run_time =
    (let rd = client_repo_details client n; code = ApiOutcome_status_code rd
     in case check_policy_files client n run_time SECURITY_POLICY_PATHS
          \<lparr>saw_permission_denied = (code = Some 401 \<or> code = Some 403),
           saw_retryable_error = (ApiOutcome_is_retryable rd \<and> code \<noteq> Some 429),
           other_failure = policy_failure rd False\<rparr> of
          (Some result, _) \<Rightarrow> result | (None, flags) \<Rightarrow> policy_verdict flags run_time)"
  using assms
  by (simp add: security_policy_evaluate_def Let_def policy_verdict_def policy_build_result_def
      cong: if_cong option.case_cong)

lemma initial_flags:
  assumes "client_outcome_ok rd" and "code = ApiOutcome_status_code rd"
  shows "flags_ok (set_option (policy_failure rd False))
    \<lparr>saw_permission_denied = (code = Some 401 \<or> code = Some 403),
     saw_retryable_error = (ApiOutcome_is_retryable rd \<and> code \<noteq> Some 429),
     other_failure = policy_failure rd False\<rparr>"
  using policy_failure_flags [OF assms(1), of False] assms(2)
  by (auto simp: flags_ok_def is_leading_def split: option.split)

text \<open>
  What a public repository's security-policy check reports, as one rule over the answers of the repository
  endpoint and of the three paths: the setting wins, then the first path that holds a file; otherwise the
  check is unobservable with the most important reason among all the answers that failed (permission denied
  before rate limited before transient before invalid), and the policy is absent only when nothing failed.
\<close>
theorem security_policy_priority_rule:
  assumes "sanitize (repo_name repo) = Some n" and "Repository_is_public repo"
    and "client_outcome_ok (client_repo_details client n)"
    and "\<And>p. p \<in> set SECURITY_POLICY_PATHS \<Longrightarrow> client_outcome_ok (policy_content client n p)"
  shows "security_policy_evaluate sanitize client repo run_time =
    (if setting_enabled (client_repo_details client n) then SecurityPolicyResult.EnabledBySetting run_time
     else case find (\<lambda>p. is_file_response (policy_content client n p)) SECURITY_POLICY_PATHS of
        Some p \<Rightarrow> SecurityPolicyResult.EnabledByFile (SecurityPolicyPath p) run_time
      | None \<Rightarrow>
          (case leading_reason (List.map_filter (\<lambda>f. f)
                  (policy_failure (client_repo_details client n) False #
                   map (\<lambda>p. policy_failure (policy_content client n p) True) SECURITY_POLICY_PATHS)) of
             Some reason \<Rightarrow> SecurityPolicyResult.Unobservable reason run_time
           | None \<Rightarrow> SecurityPolicyResult.Absent run_time))"
proof (cases "setting_enabled (client_repo_details client n)")
  case True
  then show ?thesis using assms(1,2)
    by (simp add: security_policy_evaluate_def policy_build_result_def)
next
  case False
  let ?rd = "client_repo_details client n" let ?code = "ApiOutcome_status_code ?rd"
  let ?pf = "\<lambda>p. policy_failure (policy_content client n p) True"
  let ?rs = "List.map_filter (\<lambda>f. f) (policy_failure ?rd False # map ?pf SECURITY_POLICY_PATHS)"
  obtain res flags where run: "check_policy_files client n run_time SECURITY_POLICY_PATHS
      \<lparr>saw_permission_denied = (?code = Some 401 \<or> ?code = Some 403),
       saw_retryable_error = (ApiOutcome_is_retryable ?rd \<and> ?code \<noteq> Some 429),
       other_failure = policy_failure ?rd False\<rparr> = (res, flags)" by force
  have ne: "p \<noteq> []" if "p \<in> set SECURITY_POLICY_PATHS" for p using that by (auto simp: SECURITY_POLICY_PATHS_def)
  have rs: "set ?rs = set_option (policy_failure ?rd False) \<union> set (List.map_filter ?pf SECURITY_POLICY_PATHS)"
    by (cases "policy_failure ?rd False") (auto simp: List.map_filter_def)
  have ns: "IndeterminateReason.PermissionSuspected \<notin> set ?rs"
    using policy_failure_not_suspected by (auto simp: List.map_filter_def split: if_splits)
  have outs: "\<forall>p \<in> set SECURITY_POLICY_PATHS. client_outcome_ok (policy_content client n p) \<and> p \<noteq> []"
    using assms(4) ne by blast
  note spec = check_policy_files_spec [where run_time = run_time, OF initial_flags [OF assms(3) refl] outs,
      unfolded run fst_conv snd_conv, folded rs]
  show ?thesis
  proof (cases "find (\<lambda>p. is_file_response (policy_content client n p)) SECURITY_POLICY_PATHS")
    case (Some p)
    then show ?thesis using spec False run
      by (simp add: security_policy_evaluate_unfold [where sanitize = sanitize and repo = repo] assms(1,2) Let_def)
  next
    case None
    with spec have "res = None \<and> flags_ok (set ?rs) flags" by (simp only: option.case)
    then have res: "res = None" and ok: "flags_ok (set ?rs) flags" by simp_all
    from ok leading_reason_leads have "other_failure flags = leading_reason ?rs"
      by (auto simp: flags_ok_def intro: is_leading_unique)
    then show ?thesis using policy_verdict_leading [OF ok ns] False run res None
      by (simp add: security_policy_evaluate_unfold [where sanitize = sanitize and repo = repo] assms(1,2) Let_def)
  qed
qed

definition sample_client :: Client where
  "sample_client = \<lparr>org_name = ''org'',
     client_request = (\<lambda>path.
       if path = ''/repos/org/repo/contents/SECURITY.md'' then ApiOutcome.Failure (Some 404) ''Not Found'' False
       else if path = ''/repos/org/repo/contents/.github/SECURITY.md''
       then ApiOutcome.Failure (Some 503) ''Unavailable'' True
       else ApiOutcome.Failure (Some 403) ''Forbidden'' False),
     client_repo_details = (\<lambda>_. ApiOutcome_success (Value.Object []))\<rparr>"

theorem security_policy_priority_rule_witness:
  "security_policy_evaluate Some sample_client (sample_repository ''repo'') ''2026-01-01T00:00:00Z'' =
     SecurityPolicyResult.Unobservable IndeterminateReason.PermissionDenied ''2026-01-01T00:00:00Z''"
proof -
  have outs: "client_outcome_ok (policy_content sample_client ''repo'' p)" for p
    by (simp add: client_outcome_ok_def policy_content_def sample_client_def)
  have "\<not> setting_enabled (client_repo_details sample_client ''repo'')"
    "find (\<lambda>p. is_file_response (policy_content sample_client ''repo'' p)) SECURITY_POLICY_PATHS = None"
    by (simp_all add: setting_enabled_def is_file_response_def policy_content_def sample_client_def
        ApiOutcome_success_def SECURITY_POLICY_PATHS_def)
  moreover have "policy_failure (client_repo_details sample_client ''repo'') False = None"
    "map (\<lambda>p. policy_failure (policy_content sample_client ''repo'' p) True) SECURITY_POLICY_PATHS =
       [None, Some IndeterminateReason.Transient, Some IndeterminateReason.PermissionDenied]"
    by (simp_all add: policy_failure_def policy_content_def sample_client_def valid_policy_payload_def
        ApiOutcome_success_def SECURITY_POLICY_PATHS_def)
  ultimately show ?thesis
    using security_policy_priority_rule [where sanitize = Some and repo = "sample_repository ''repo''" and
        n = "''repo''" and client = sample_client] outs
    by (simp add: sample_repository_def Repository_is_public_def client_outcome_ok_def sample_client_def
        ApiOutcome_success_def leading_reason_def List.map_filter_simps)
qed

end
