(* ===== verification/Github_Link.thy ===== *)
theory Github_Link
  imports Rust_Text
begin

text \<open>
  Interpretation of \<open>Link\<close> headers (\<open>github/pagination.rs\<close>). The byte scanners of the source work on an
  input and an index into it; here the index is represented by the rest of the input from it on, so a scanner
  takes that rest and returns what it consumed and what is left. A header field is its text, or \<open>None\<close> when
  \<open>to_str\<close> fails on it. The variant \<open>None\<close> of \<open>NextLink\<close> is called \<open>NoNext\<close>.
\<close>

datatype NextLink = NoNext | One string | Uninterpretable

definition is_blank :: "char \<Rightarrow> bool" where
  "is_blank c \<longleftrightarrow> c = CHR '' '' \<or> c = CHR 0x09"

definition skip_whitespace :: "string \<Rightarrow> string" where
  "skip_whitespace s = dropWhile is_blank s"

definition trim_end_blank :: "string \<Rightarrow> string" where
  "trim_end_blank s = rev (dropWhile is_blank (rev s))"

fun scan_quoted :: "string \<Rightarrow> (string \<times> string) option" where
  "scan_quoted [] = None"
| "scan_quoted (c # s) =
     (if c = CHR 0x5C
      then (case s of
              [] \<Rightarrow> None
            | d # s \<Rightarrow> map_option (\<lambda>(q, r). (c # d # q, r)) (scan_quoted s))
      else if c = CHR 0x22 then Some ([c], s)
      else map_option (\<lambda>(q, r). (c # q, r)) (scan_quoted s))"

lemma scan_quoted_split: "scan_quoted s = Some (q, r) \<Longrightarrow> s = q @ r \<and> q \<noteq> []"
  by (induction s arbitrary: q r rule: scan_quoted.induct) (auto split: if_splits list.splits)

function parameter_text :: "string \<Rightarrow> (string \<times> string) option" where
  "parameter_text [] = Some ([], [])"
| "parameter_text (c # s) =
     (if c = CHR '';'' \<or> c = CHR '','' then Some ([], c # s)
      else if c = CHR 0x22
      then (case scan_quoted s of
              None \<Rightarrow> None
            | Some (q, r) \<Rightarrow> map_option (\<lambda>(p, r'). (c # q @ p, r')) (parameter_text r))
      else map_option (\<lambda>(p, r). (c # p, r)) (parameter_text s))"
  by pat_completeness auto
termination
  by (relation "measure length") (auto dest!: scan_quoted_split)

lemma parameter_text_split: "parameter_text s = Some (p, r) \<Longrightarrow> s = p @ r"
  by (induction s arbitrary: p r rule: parameter_text.induct)
    (auto split: if_splits option.splits dest!: scan_quoted_split)

definition scan_one_parameter :: "string \<Rightarrow> (string \<times> string) option" where
  "scan_one_parameter s = map_option (\<lambda>(p, r). (trim_end_blank p, r)) (parameter_text (skip_whitespace s))"

lemma skip_whitespace_length: "length (skip_whitespace s) \<le> length s"
  by (simp add: skip_whitespace_def length_dropWhile_le)

lemma scan_one_parameter_length: "scan_one_parameter s = Some (p, r) \<Longrightarrow> length r \<le> length s"
  using skip_whitespace_length [of s] by (auto simp: scan_one_parameter_def dest!: parameter_text_split)

function scan_params_from :: "string \<Rightarrow> (string list \<times> string) option" where
  "scan_params_from [] = Some ([], [])"
| "scan_params_from (c # s) =
     (if c = CHR '','' then Some ([], c # s)
      else if c = CHR '';''
      then (case scan_one_parameter s of
              None \<Rightarrow> None
            | Some (p, r) \<Rightarrow> map_option (\<lambda>(ps, r'). (p # ps, r')) (scan_params_from r))
      else None)"
  by pat_completeness auto
termination
  by (relation "measure length") (auto dest!: scan_one_parameter_length)

definition scan_parameters :: "string \<Rightarrow> (string list \<times> string) option" where
  "scan_parameters s = scan_params_from (skip_whitespace s)"

lemma scan_params_from_length: "scan_params_from s = Some (ps, r) \<Longrightarrow> length r \<le> length s"
  by (induction s arbitrary: ps r rule: scan_params_from.induct)
    (force split: if_splits option.splits dest!: scan_one_parameter_length)+

lemma scan_parameters_length: "scan_parameters s = Some (ps, r) \<Longrightarrow> length r \<le> length s"
  using skip_whitespace_length [of s] by (auto simp: scan_parameters_def dest!: scan_params_from_length)

definition TOKEN_CHARS :: string where
  "TOKEN_CHARS = [CHR ''!'', CHR ''#'', CHR ''$'', CHR ''%'', CHR ''&'', CHR 0x27, CHR ''*'', CHR ''+'',
     CHR ''-'', CHR ''.'', CHR ''^'', CHR ''_'', CHR 0x60, CHR ''|'', CHR ''~'']"

definition token_char :: "char \<Rightarrow> bool" where
  "token_char c \<longleftrightarrow> byte_in 0x30 0x39 c \<or> byte_in 0x41 0x5A c \<or> byte_in 0x61 0x7A c \<or> c \<in> set TOKEN_CHARS"

definition is_token :: "string \<Rightarrow> bool" where
  "is_token s \<longleftrightarrow> s \<noteq> [] \<and> list_all token_char s"

definition parameter_value :: "string \<Rightarrow> string option" where
  "parameter_value v = (case v of
     c # s \<Rightarrow>
       if c = CHR 0x22
       then (case scan_quoted s of
               Some (q, []) \<Rightarrow> Some (butlast q)
             | _ \<Rightarrow> None)
       else if is_token v then Some v else None
   | [] \<Rightarrow> None)"

definition relation_types :: "string \<Rightarrow> string list option" where
  "relation_types v =
     (let types = split_whitespace v
      in if types = [] \<or> \<not> list_all is_token types then None else Some types)"

definition to_ascii_lower :: "char \<Rightarrow> char" where
  "to_ascii_lower c = (if byte_in 0x41 0x5A c then char_of (of_char c + (32::nat)) else c)"

definition eq_ignore_ascii_case :: "string \<Rightarrow> string \<Rightarrow> bool" where
  "eq_ignore_ascii_case a b \<longleftrightarrow> map to_ascii_lower a = map to_ascii_lower b"

definition split_once_eq :: "string \<Rightarrow> (string \<times> string) option" where
  "split_once_eq p =
     (if CHR ''='' \<in> set p
      then Some (takeWhile (\<lambda>c. c \<noteq> CHR ''='') p, tl (dropWhile (\<lambda>c. c \<noteq> CHR ''='') p))
      else None)"

fun params_relations :: "string list option \<Rightarrow> string list \<Rightarrow> string list option option" where
  "params_relations relations [] = Some relations"
| "params_relations relations (param # params) = (case split_once_eq param of
     None \<Rightarrow> None
   | Some (name, v) \<Rightarrow>
       let name = trim_end_blank name
       in if \<not> is_token name then None
          else (case parameter_value (dropWhile is_blank v) of
             None \<Rightarrow> None
           | Some v \<Rightarrow>
               if eq_ignore_ascii_case name ''rel''
               then (if relations \<noteq> None then None
                     else (case relation_types v of
                             None \<Rightarrow> None
                           | Some types \<Rightarrow> params_relations (Some types) params))
               else params_relations relations params))"

definition parameters_name_next :: "string list \<Rightarrow> bool option" where
  "parameters_name_next params = map_option
     (\<lambda>relations. case relations of
        None \<Rightarrow> False | Some rels \<Rightarrow> list_ex (\<lambda>r. eq_ignore_ascii_case r ''next'') rels)
     (params_relations None params)"

definition is_separator :: "char \<Rightarrow> bool" where
  "is_separator c \<longleftrightarrow> is_blank c \<or> c = CHR '',''"

function collect_next_targets :: "string \<Rightarrow> string list \<Rightarrow> string list option" where
  "collect_next_targets remaining targets =
     (case dropWhile is_separator remaining of
        [] \<Rightarrow> Some targets
      | c # s \<Rightarrow>
          if c \<noteq> CHR ''<'' \<or> CHR ''>'' \<notin> set s then None
          else
            let url = takeWhile (\<lambda>c. c \<noteq> CHR ''>'') s;
                after = tl (dropWhile (\<lambda>c. c \<noteq> CHR ''>'') s)
            in case scan_parameters after of
                 None \<Rightarrow> None
               | Some (params, rest) \<Rightarrow>
                   (case parameters_name_next params of
                      None \<Rightarrow> None
                    | Some next' \<Rightarrow> collect_next_targets rest (if next' then targets @ [url] else targets)))"
  by pat_completeness auto
termination
proof (relation "measure (\<lambda>(r, _). length r)")
  fix remaining targets c s url after v params rest n and nxt :: bool
  assume "dropWhile is_separator remaining = c # s" and "after = tl (dropWhile (\<lambda>c. c \<noteq> CHR ''>'') s)"
    and "scan_parameters after = Some v" and "(params, rest) = v"
  moreover from this have "length rest \<le> length after" by (auto dest: scan_parameters_length)
  moreover have "length after \<le> length s"
    using calculation(2) length_dropWhile_le [of "\<lambda>c. c \<noteq> CHR ''>''" s] by simp
  moreover have "length (c # s) \<le> length remaining"
    using calculation(1) length_dropWhile_le [of is_separator remaining] by simp
  ultimately show "((rest, if nxt then targets @ [url] else targets), remaining, targets)
      \<in> measure (\<lambda>(r, _). length r)" by simp
qed simp

declare collect_next_targets.simps [simp del]

fun next_link_targets :: "string option list \<Rightarrow> string list \<Rightarrow> string list option" where
  "next_link_targets [] targets = Some targets"
| "next_link_targets (field # fields) targets = (case field of
     None \<Rightarrow> None
   | Some s \<Rightarrow>
       (case collect_next_targets s targets of
          None \<Rightarrow> None
        | Some targets \<Rightarrow> next_link_targets fields targets))"

definition next_link :: "string option list \<Rightarrow> NextLink" where
  "next_link fields = (case next_link_targets fields [] of
     None \<Rightarrow> NextLink.Uninterpretable
   | Some targets \<Rightarrow>
       (case remdups_adj targets of
          [] \<Rightarrow> NextLink.NoNext
        | [url] \<Rightarrow> NextLink.One url
        | _ \<Rightarrow> NextLink.Uninterpretable))"

definition next_url :: "string option list \<Rightarrow> string option" where
  "next_url fields = (case next_link fields of NextLink.One url \<Rightarrow> Some url | _ \<Rightarrow> None)"

definition link_origin :: "string \<Rightarrow> string option" where
  "link_origin url = (case str_find ''://'' url of
     None \<Rightarrow> None
   | Some sep \<Rightarrow>
       let after_scheme = drop (sep + 3) url;
           end' = (case str_find ''/'' after_scheme of Some e \<Rightarrow> e | None \<Rightarrow> length after_scheme)
       in Some (take (sep + 3 + end') url))"

definition same_origin :: "string \<Rightarrow> string \<Rightarrow> bool" where
  "same_origin a b = (case (link_origin a, link_origin b) of
     (Some oa, Some ob) \<Rightarrow> eq_ignore_ascii_case oa ob
   | _ \<Rightarrow> False)"

definition next_url_same_origin :: "string option list \<Rightarrow> string \<Rightarrow> string option" where
  "next_url_same_origin fields original_url = (case next_url fields of
     None \<Rightarrow> None
   | Some candidate \<Rightarrow> if same_origin candidate original_url then Some candidate else None)"

subsection \<open>Well-formed fields\<close>

text \<open>A \<open>Link\<close> field as servers send it: targets in angle brackets, each with one quoted relation.\<close>

definition render_link :: "string \<times> string \<Rightarrow> string" where
  "render_link l = CHR ''<'' # fst l @ ''>; rel='' @ CHR 0x22 # snd l @ [CHR 0x22]"

fun render_links :: "(string \<times> string) list \<Rightarrow> string" where
  "render_links [] = []"
| "render_links [l] = render_link l"
| "render_links (l # ls) = render_link l @ '', '' @ render_links ls"

definition wf_link :: "string \<times> string \<Rightarrow> bool" where
  "wf_link l \<longleftrightarrow> CHR ''>'' \<notin> set (fst l) \<and> is_token (snd l)"

definition next_targets :: "(string \<times> string) list \<Rightarrow> string list" where
  "next_targets ls = map fst (filter (\<lambda>l. eq_ignore_ascii_case (snd l) ''next'') ls)"

lemma token_char_plain:
  assumes "token_char c"
  shows "c \<notin> {CHR 0x22, CHR 0x5C, CHR '' '', CHR 0x09, CHR '';'', CHR '','', CHR ''=''}"
    and "byte_in 0x21 0x7E c"
  using assms by (auto simp: token_char_def byte_in_def TOKEN_CHARS_def)

lemma white_space_hd: "w \<in> set WHITE_SPACE \<Longrightarrow> \<not> byte_in 0x21 0x7E (hd w)"
  by (auto simp: WHITE_SPACE_def byte_in_def)

lemma token_no_ws: "list_all token_char s \<Longrightarrow> no_ws s"
proof (induction s)
  case (Cons c s)
  then have c: "byte_in 0x21 0x7E c" by (auto dest: token_char_plain)
  have "\<not> is_prefix w (c # s)" if "w \<in> set WHITE_SPACE" for w
    using white_space_hd [OF that] white_space_tail [OF that] c by (cases w) auto
  with Cons show ?case by (simp add: ws_len_0_iff)
qed simp

lemma relation_types_token: "is_token r \<Longrightarrow> relation_types r = Some [r]"
  using split_ws_token [of r "[]" "[]"] token_no_ws [of r]
  by (simp add: relation_types_def split_whitespace_def is_token_def split_ws.simps)

lemma scan_quoted_token:
  "list_all token_char s \<Longrightarrow> scan_quoted (s @ CHR 0x22 # r) = Some (s @ [CHR 0x22], r)"
  by (induction s) (auto dest: token_char_plain)

lemma scan_link_parameters:
  assumes "is_token rel" and "rest = [] \<or> hd rest = CHR '',''"
  shows "scan_parameters (''; rel='' @ CHR 0x22 # rel @ CHR 0x22 # rest) =
    Some ([''rel='' @ CHR 0x22 # rel @ [CHR 0x22]], rest)"
proof -
  have "parameter_text rest = Some ([], rest)" using assms(2) by (cases rest) auto
  then have "parameter_text (''rel='' @ CHR 0x22 # rel @ CHR 0x22 # rest) =
      Some (''rel='' @ CHR 0x22 # rel @ [CHR 0x22], rest)"
    using assms(1) scan_quoted_token [of rel rest] by (simp add: is_token_def)
  moreover have "scan_params_from rest = Some ([], rest)" using assms(2) by (cases rest) auto
  ultimately show ?thesis
    by (simp add: scan_parameters_def scan_one_parameter_def skip_whitespace_def is_blank_def trim_end_blank_def)
qed

lemma link_parameters_next:
  assumes "is_token rel"
  shows "parameters_name_next [''rel='' @ CHR 0x22 # rel @ [CHR 0x22]] = Some (eq_ignore_ascii_case rel ''next'')"
proof -
  have "is_token ''rel''" by (simp add: is_token_def token_char_def byte_in_def)
  then show ?thesis
    using assms scan_quoted_token [of rel "[]"] relation_types_token [OF assms]
    by (simp add: parameters_name_next_def split_once_eq_def trim_end_blank_def is_blank_def
        parameter_value_def eq_ignore_ascii_case_def is_token_def)
qed

lemma collect_render_link:
  assumes "wf_link l" and "rest = [] \<or> hd rest = CHR '',''"
  shows "collect_next_targets (render_link l @ rest) targets = collect_next_targets rest (targets @ next_targets [l])"
proof -
  let ?par = "''; rel='' @ CHR 0x22 # snd l @ CHR 0x22 # rest"
  have "takeWhile (\<lambda>c. c \<noteq> CHR ''>'') (fst l @ CHR ''>'' # ?par) = fst l"
    "dropWhile (\<lambda>c. c \<noteq> CHR ''>'') (fst l @ CHR ''>'' # ?par) = CHR ''>'' # ?par"
    using assms(1) by (auto simp: wf_link_def takeWhile_append dropWhile_append)
  moreover have "render_link l @ rest = CHR ''<'' # (fst l @ CHR ''>'' # ?par)" by (simp add: render_link_def)
  ultimately show ?thesis
    using scan_link_parameters [OF _ assms(2), of "snd l"] link_parameters_next [of "snd l"] assms(1)
    by (subst collect_next_targets.simps)
      (simp add: is_separator_def is_blank_def Let_def next_targets_def wf_link_def)
qed

lemma collect_skip_separator: "collect_next_targets ('', '' @ s) targets = collect_next_targets s targets"
  by (subst (1 2) collect_next_targets.simps) (simp add: is_separator_def is_blank_def)

lemma collect_render_links:
  "list_all wf_link ls \<Longrightarrow> collect_next_targets (render_links ls) targets = Some (targets @ next_targets ls)"
proof (induction ls arbitrary: targets rule: render_links.induct)
  case 1
  show ?case by (simp add: collect_next_targets.simps next_targets_def)
next
  case (2 l)
  then show ?case using collect_render_link [of l "[]"] by (simp add: collect_next_targets.simps)
next
  case (3 l k ls)
  then show ?case
    using collect_render_link [of l "'', '' @ render_links (k # ls)" targets]
      collect_skip_separator [of "render_links (k # ls)"]
    by (simp add: next_targets_def)
qed

lemma next_link_targets_render:
  "list_all (list_all wf_link) fields \<Longrightarrow>
   next_link_targets (map (\<lambda>ls. Some (render_links ls)) fields) targets =
     Some (targets @ next_targets (concat fields))"
  by (induction fields arbitrary: targets) (auto simp: collect_render_links next_targets_def)

lemma remdups_adj_one: "remdups_adj xs = [u] \<longleftrightarrow> set xs = {u}"
proof
  assume "set xs = {u}"
  then have "xs = replicate (length xs) u" "xs \<noteq> []" by (auto intro: replicate_eqI)
  then show "remdups_adj xs = [u]" by (metis remdups_adj_replicate length_0_conv)
next
  assume "remdups_adj xs = [u]"
  then show "set xs = {u}" by (metis remdups_adj_set list.set(1,2))
qed

text \<open>
  Interpretation of well-formed \<open>Link\<close> headers: over any number of fields of links with one relation each, a
  page has a next page exactly when the links whose relation is \<open>next\<close> (in any case) name one single target,
  has none exactly when there is no such link, and cannot be interpreted exactly when they name several
  targets -- wherever in the header the repeated targets stand.
\<close>
theorem link_header_interpretation:
  assumes "list_all (list_all wf_link) fields"
  shows "next_link (map (\<lambda>ls. Some (render_links ls)) fields) =
    (if set (next_targets (concat fields)) = {} then NextLink.NoNext
     else if card (set (next_targets (concat fields))) = 1
     then NextLink.One (hd (next_targets (concat fields)))
     else NextLink.Uninterpretable)"
proof -
  let ?T = "next_targets (concat fields)"
  have "remdups_adj ?T = [] \<longleftrightarrow> set ?T = {}" by simp
  moreover have "card (set ?T) = 1 \<longleftrightarrow> (\<exists>u. remdups_adj ?T = [u])" by (simp add: remdups_adj_one card_1_singleton_iff)
  moreover have "remdups_adj ?T = [u] \<Longrightarrow> hd ?T = u" for u by (metis remdups_adj_one list.set_sel(1) set_empty empty_not_insert singletonD)
  ultimately show ?thesis
    using next_link_targets_render [OF assms, of "[]"]
    by (auto simp: next_link_def split: list.split)
qed

theorem link_header_interpretation_witness:
  "next_link [Some (render_links [(''https://api/p2'', ''next''), (''https://api/p5'', ''last'')]),
     Some (render_links [(''https://api/p2'', ''Next'')])] = NextLink.One ''https://api/p2''"
proof -
  have "list_all (list_all wf_link)
      [[(''https://api/p2'', ''next''), (''https://api/p5'', ''last'')], [(''https://api/p2'', ''Next'')]]"
    by (simp add: wf_link_def is_token_def token_char_def byte_in_def)
  from link_header_interpretation [OF this] show ?thesis
    by (simp add: next_targets_def eq_ignore_ascii_case_def to_ascii_lower_def byte_in_def)
qed

end
