(* ===== verification/Github_Limits.thy ===== *)
theory Github_Limits
  imports Github_Link
begin

text \<open>
  Limits on the use of the GitHub API: the reading of rate-limit headers and of \<open>Retry-After\<close>
  (\<open>github/rate_limit.rs\<close>), the wait and the ceiling of a new budget epoch (\<open>github/replenish.rs\<close>), the
  routes that requests are attributed to (\<open>github/route_template.rs\<close>) and the budget checkpoints
  (\<open>github/budget_checkpoint.rs\<close>), whose lock-free cursor is also given as a step relation over any number of
  threads.

  The rate-limit observer is a type of the \<open>cherry-pit-wq\<close> package: its operations are the parameter
  \<open>RateLimits\<close>. An instant is a number of nanoseconds of the monotonic clock, a duration a number of
  nanoseconds. The headers of a response are given by name as the list of their values, each its text or
  \<open>None\<close> when \<open>to_str\<close> fails.
\<close>

type_synonym HeaderMap = "string \<Rightarrow> string option list"

definition header_str :: "HeaderMap \<Rightarrow> string \<Rightarrow> string option" where
  "header_str headers name = (case headers name of [] \<Rightarrow> None | v # _ \<Rightarrow> v)"

subsection \<open>Numbers in headers\<close>

definition digit_value :: "char \<Rightarrow> nat" where
  "digit_value c = of_char c - 48"

definition decimal_value :: "string \<Rightarrow> nat" where
  "decimal_value s = fold (\<lambda>c n. 10 * n + digit_value c) s 0"

definition parse_unsigned :: "nat \<Rightarrow> string \<Rightarrow> nat option" where
  "parse_unsigned bound s =
     (let digits = (if s \<noteq> [] \<and> hd s = CHR ''+'' then tl s else s)
      in if digits \<noteq> [] \<and> list_all (byte_in 0x30 0x39) digits \<and> decimal_value digits < bound
         then Some (decimal_value digits) else None)"

definition parse_u32 :: "string \<Rightarrow> u32 option" where
  "parse_u32 s = map_option of_nat (parse_unsigned (2 ^ 32) s)"

definition parse_u64 :: "string \<Rightarrow> u64 option" where
  "parse_u64 s = map_option of_nat (parse_unsigned (2 ^ 64) s)"

subsection \<open>Rate limits\<close>

record 'r RateLimits =
  rl_observe :: "u32 option \<Rightarrow> u32 option \<Rightarrow> u64 option \<Rightarrow> 'r \<Rightarrow> 'r"
  rl_load_limit :: "'r \<Rightarrow> u32 option"
  rl_load_reset :: "'r \<Rightarrow> u64 option"
  rl_should_halt :: "'r \<Rightarrow> bool"
  rl_note_window_rolled :: "'r \<Rightarrow> 'r"

definition HALT_THRESHOLD :: u32 where
  "HALT_THRESHOLD = 50"

definition WARN_THRESHOLD :: u32 where
  "WARN_THRESHOLD = 100"

definition update_from_headers :: "'r RateLimits \<Rightarrow> HeaderMap \<Rightarrow> 'r \<Rightarrow> 'r" where
  "update_from_headers R headers state =
     rl_observe R (Option.bind (header_str headers ''x-ratelimit-limit'') parse_u32)
       (Option.bind (header_str headers ''x-ratelimit-remaining'') parse_u32)
       (Option.bind (header_str headers ''x-ratelimit-reset'') parse_u64) state"

definition SECONDARY_LIMIT_BODY_MARKER :: string where
  "SECONDARY_LIMIT_BODY_MARKER = ''secondary rate limit''"

definition nanos_per_sec :: nat where
  "nanos_per_sec = 1000000000"

definition ceil_to_whole_secs :: "nat \<Rightarrow> nat" where
  "ceil_to_whole_secs d = d div nanos_per_sec + (if d mod nanos_per_sec > 0 then 1 else 0)"

text \<open>
  \<open>Instant + Duration\<close> panics when the sum is not representable: the clock holds a signed 64-bit number of
  seconds. A panic is \<open>None\<close>.
\<close>

definition instant_add :: "nat \<Rightarrow> nat \<Rightarrow> nat option" where
  "instant_add now d = (if now + d < 2 ^ 63 * nanos_per_sec then Some (now + d) else None)"

text \<open>The clocks and the \<open>httpdate\<close> parser at the time of a call.\<close>

record Clocks =
  instant_now :: nat
  system_now :: nat
  parse_http_date :: "string \<Rightarrow> nat option"

definition parse_retry_after :: "Clocks \<Rightarrow> HeaderMap \<Rightarrow> nat option option" where
  "parse_retry_after clocks headers = (case header_str headers ''retry-after'' of
     None \<Rightarrow> Some None
   | Some raw \<Rightarrow>
       let raw = str_trim raw
       in case parse_u64 raw of
            Some secs \<Rightarrow> map_option Some (instant_add (instant_now clocks) (unat secs * nanos_per_sec))
          | None \<Rightarrow>
              (case parse_http_date clocks raw of
                 Some target \<Rightarrow>
                   let wait = target - system_now clocks
                   in map_option Some
                     (instant_add (instant_now clocks) (ceil_to_whole_secs wait * nanos_per_sec))
               | None \<Rightarrow> Some None))"

definition secondary_limit_resume_at :: "Clocks \<Rightarrow> u16 \<Rightarrow> HeaderMap \<Rightarrow> string \<Rightarrow> nat option option" where
  "secondary_limit_resume_at clocks status headers body =
     (if status = 429 \<or>
         (status = 403 \<and> str_find SECONDARY_LIMIT_BODY_MARKER (map to_ascii_lower body) \<noteq> None)
      then parse_retry_after clocks headers else Some None)"

subsection \<open>Budget epochs\<close>

definition CEILING_BUFFER :: u64 where "CEILING_BUFFER = 100"

definition CEILING_FLOOR :: u64 where "CEILING_FLOOR = 10"

definition RESET_SLACK_SECS :: u64 where "RESET_SLACK_SECS = 5"

definition MAX_PLAUSIBLE_RESET_SECS :: u64 where "MAX_PLAUSIBLE_RESET_SECS = 24 * 3600"

definition API_BUDGET_LIMIT :: u64 where "API_BUDGET_LIMIT = 4000"

definition API_BUDGET_WAIT_SECS :: u64 where "API_BUDGET_WAIT_SECS = 3600"

datatype RejectedReset = Absent | Elapsed | ImplausiblyDistant

datatype ResetWait = Stated u64 | Fallback RejectedReset

fun ResetWait_wait :: "ResetWait \<Rightarrow> u64" where
  "ResetWait_wait (ResetWait.Stated w) = w"
| "ResetWait_wait (ResetWait.Fallback _) = API_BUDGET_WAIT_SECS"

fun ResetWait_source :: "ResetWait \<Rightarrow> string" where
  "ResetWait_source (ResetWait.Stated _) = ''stated-reset''"
| "ResetWait_source (ResetWait.Fallback RejectedReset.Absent) = ''fallback-no-reset-reported''"
| "ResetWait_source (ResetWait.Fallback RejectedReset.Elapsed) = ''fallback-reset-elapsed''"
| "ResetWait_source (ResetWait.Fallback RejectedReset.ImplausiblyDistant) = ''fallback-reset-implausibly-distant''"

definition wait_for_reset :: "u64 option \<Rightarrow> u64 \<Rightarrow> ResetWait" where
  "wait_for_reset reset now = (case reset of
     None \<Rightarrow> ResetWait.Fallback RejectedReset.Absent
   | Some reset \<Rightarrow>
       if reset \<le> now then ResetWait.Fallback RejectedReset.Elapsed
       else if reset - now > MAX_PLAUSIBLE_RESET_SECS then ResetWait.Fallback RejectedReset.ImplausiblyDistant
       else ResetWait.Stated (reset - now + RESET_SLACK_SECS))"

definition window_entitlement :: "u32 option \<Rightarrow> u64" where
  "window_entitlement limit = (case limit of None \<Rightarrow> API_BUDGET_LIMIT | Some l \<Rightarrow> ucast l)"

definition ceiling_from_entitlement :: "u64 \<Rightarrow> u64" where
  "ceiling_from_entitlement entitlement =
     (let c = saturating_sub entitlement CEILING_BUFFER in if c \<noteq> 0 then c else CEILING_FLOOR)"

datatype Replenished = Ceiling u64 | Cancelled

text \<open>
  One replenishment: \<open>sleep\<close> is the wait on the clock or on the cancellation token, which says whether the
  sleep ended, and lets other tasks change the observer meanwhile.
\<close>

definition replenish ::
    "'r RateLimits \<Rightarrow> u64 \<Rightarrow> (u64 \<Rightarrow> 'r \<Rightarrow> bool \<times> 'r) \<Rightarrow> 'r \<Rightarrow> Replenished \<times> 'r" where
  "replenish R now sleep state =
     (let decision = wait_for_reset (rl_load_reset R state) now;
          (slept, state) = sleep (ResetWait_wait decision) state
      in if \<not> slept then (Replenished.Cancelled, state)
         else
           let ceil = ceiling_from_entitlement (window_entitlement (rl_load_limit R state))
           in (Replenished.Ceiling ceil, rl_note_window_rolled R state))"

subsection \<open>Routes\<close>

datatype Route =
  User | RateLimit | InstallationAccessTokens | OrgRepos | OrgMembers | OrgTeams | TeamMembers
| OrgSecretScanningAlerts | Repo | RepoRulesets | RepoCommits | RepoSecretScanningAlerts
| BranchProtection | RepoContents | Unmatched

definition Route_ALL :: "Route list" where
  "Route_ALL = [Route.User, Route.RateLimit, Route.InstallationAccessTokens, Route.OrgRepos, Route.OrgMembers,
     Route.OrgTeams, Route.TeamMembers, Route.OrgSecretScanningAlerts, Route.Repo, Route.RepoRulesets,
     Route.RepoCommits, Route.RepoSecretScanningAlerts, Route.BranchProtection, Route.RepoContents,
     Route.Unmatched]"

fun Route_template :: "Route \<Rightarrow> string" where
  "Route_template Route.User = ''/user''"
| "Route_template Route.RateLimit = ''/rate_limit''"
| "Route_template Route.InstallationAccessTokens = ''/app/installations/{installation_id}/access_tokens''"
| "Route_template Route.OrgRepos = ''/orgs/{org}/repos''"
| "Route_template Route.OrgMembers = ''/orgs/{org}/members''"
| "Route_template Route.OrgTeams = ''/orgs/{org}/teams''"
| "Route_template Route.TeamMembers = ''/orgs/{org}/teams/{team_slug}/members''"
| "Route_template Route.OrgSecretScanningAlerts = ''/orgs/{org}/secret-scanning/alerts''"
| "Route_template Route.Repo = ''/repos/{owner}/{repo}''"
| "Route_template Route.RepoRulesets = ''/repos/{owner}/{repo}/rulesets''"
| "Route_template Route.RepoCommits = ''/repos/{owner}/{repo}/commits''"
| "Route_template Route.RepoSecretScanningAlerts = ''/repos/{owner}/{repo}/secret-scanning/alerts''"
| "Route_template Route.BranchProtection = ''/repos/{owner}/{repo}/branches/{branch}/protection''"
| "Route_template Route.RepoContents = ''/repos/{owner}/{repo}/contents/{path}''"
| "Route_template Route.Unmatched = ''/{unmatched}''"

fun Route_index :: "Route \<Rightarrow> nat" where
  "Route_index Route.User = 0"
| "Route_index Route.RateLimit = 1"
| "Route_index Route.InstallationAccessTokens = 2"
| "Route_index Route.OrgRepos = 3"
| "Route_index Route.OrgMembers = 4"
| "Route_index Route.OrgTeams = 5"
| "Route_index Route.TeamMembers = 6"
| "Route_index Route.OrgSecretScanningAlerts = 7"
| "Route_index Route.Repo = 8"
| "Route_index Route.RepoRulesets = 9"
| "Route_index Route.RepoCommits = 10"
| "Route_index Route.RepoSecretScanningAlerts = 11"
| "Route_index Route.BranchProtection = 12"
| "Route_index Route.RepoContents = 13"
| "Route_index Route.Unmatched = 14"

definition MAX_TRACKED_SEGMENTS :: nat where "MAX_TRACKED_SEGMENTS = 8"

fun split_on :: "char \<Rightarrow> string \<Rightarrow> string \<Rightarrow> string list" where
  "split_on sep acc [] = [acc]"
| "split_on sep acc (c # s) = (if c = sep then acc # split_on sep [] s else split_on sep (acc @ [c]) s)"

definition is_contents_path :: "string list \<Rightarrow> bool" where
  "is_contents_path segs \<longleftrightarrow> length segs \<ge> 4 \<and> segs ! 0 = ''repos'' \<and> segs ! 3 = ''contents''"

definition route_of :: "string \<Rightarrow> Route" where
  "route_of path =
     (let segs = filter (\<lambda>s. s \<noteq> []) (split_on CHR ''/'' [] path); n = length segs; seg = (\<lambda>i s. segs ! i = s)
      in if n > MAX_TRACKED_SEGMENTS
         then (if is_contents_path segs then Route.RepoContents else Route.Unmatched)
         else if n = 1 \<and> seg 0 ''user'' then Route.User
         else if n = 1 \<and> seg 0 ''rate_limit'' then Route.RateLimit
         else if n = 4 \<and> seg 0 ''app'' \<and> seg 1 ''installations'' \<and> seg 3 ''access_tokens''
         then Route.InstallationAccessTokens
         else if n = 3 \<and> seg 0 ''orgs'' \<and> seg 2 ''repos'' then Route.OrgRepos
         else if n = 3 \<and> seg 0 ''orgs'' \<and> seg 2 ''members'' then Route.OrgMembers
         else if n = 3 \<and> seg 0 ''orgs'' \<and> seg 2 ''teams'' then Route.OrgTeams
         else if n = 5 \<and> seg 0 ''orgs'' \<and> seg 2 ''teams'' \<and> seg 4 ''members'' then Route.TeamMembers
         else if n = 4 \<and> seg 0 ''orgs'' \<and> seg 2 ''secret-scanning'' \<and> seg 3 ''alerts''
         then Route.OrgSecretScanningAlerts
         else if n = 3 \<and> seg 0 ''repos'' then Route.Repo
         else if n = 4 \<and> seg 0 ''repos'' \<and> seg 3 ''rulesets'' then Route.RepoRulesets
         else if n = 4 \<and> seg 0 ''repos'' \<and> seg 3 ''commits'' then Route.RepoCommits
         else if n = 5 \<and> seg 0 ''repos'' \<and> seg 3 ''secret-scanning'' \<and> seg 4 ''alerts''
         then Route.RepoSecretScanningAlerts
         else if n = 6 \<and> seg 0 ''repos'' \<and> seg 3 ''branches'' \<and> seg 5 ''protection'' then Route.BranchProtection
         else if is_contents_path segs then Route.RepoContents
         else Route.Unmatched)"

definition authority_tail :: "string \<Rightarrow> string" where
  "authority_tail s = (case str_find ''/'' s of None \<Rightarrow> [] | Some i \<Rightarrow> drop i s)"

definition path_for_matching :: "string \<Rightarrow> string" where
  "path_for_matching target =
     (let rest = takeWhile (\<lambda>c. c \<noteq> CHR ''#'') target;
          rest = takeWhile (\<lambda>c. c \<noteq> CHR ''?'') rest;
          rest = (case str_find ''://'' rest of Some i \<Rightarrow> authority_tail (drop (i + 3) rest) | None \<Rightarrow> rest)
      in if is_prefix ''//'' rest then authority_tail (drop 2 rest) else rest)"

definition route_of_target :: "string \<Rightarrow> Route" where
  "route_of_target target = route_of (path_for_matching target)"

definition route_template :: "string \<Rightarrow> string" where
  "route_template target = Route_template (route_of_target target)"

subsection \<open>Budget checkpoints\<close>

definition ASCENDING_THRESHOLD_PERMILLE_OF_CEILING :: "u64 list" where
  "ASCENDING_THRESHOLD_PERMILLE_OF_CEILING = [250, 500, 750, 1000, 2000, 4000, 8000, 16000]"

definition MAX_CHECKPOINTS_PER_RUN :: nat where "MAX_CHECKPOINTS_PER_RUN = 8"

definition ROUTES_NAMED_PER_CHECKPOINT :: nat where "ROUTES_NAMED_PER_CHECKPOINT = 3"

definition saturating_mul :: "'a::len word \<Rightarrow> 'a word \<Rightarrow> 'a word" where
  "saturating_mul a b = (if unat a * unat b < 2 ^ LENGTH('a) then a * b else - 1)"

definition threshold_calls :: "u64 \<Rightarrow> u64 \<Rightarrow> u64" where
  "threshold_calls ceil permille = max (saturating_mul ceil permille div 1000) 1"

record BudgetCheckpoint =
  cp_calls :: u64
  cp_ceiling :: u64
  approx_top_routes :: "(Route \<times> u64) list"

record BudgetCheckpoints =
  cp_counts :: "Route \<Rightarrow> u64"
  next_threshold :: nat
  baseline_calls :: u64

definition BudgetCheckpoints_for_run :: "u64 \<Rightarrow> BudgetCheckpoints" where
  "BudgetCheckpoints_for_run baseline = \<lparr>cp_counts = (\<lambda>_. 0), next_threshold = 0, baseline_calls = baseline\<rparr>"

definition rank_key :: "Route \<times> u64 \<Rightarrow> int \<times> nat" where
  "rank_key e = (- uint (snd e), Route_index (fst e))"

definition BudgetCheckpoints_top_routes :: "BudgetCheckpoints \<Rightarrow> (Route \<times> u64) list" where
  "BudgetCheckpoints_top_routes b =
     take ROUTES_NAMED_PER_CHECKPOINT
       (sort_key rank_key (filter (\<lambda>e. snd e > 0) (map (\<lambda>r. (r, cp_counts b r)) Route_ALL)))"

definition BudgetCheckpoints_record ::
    "Route \<Rightarrow> u64 \<Rightarrow> u64 \<Rightarrow> BudgetCheckpoints \<Rightarrow> BudgetCheckpoint option \<times> BudgetCheckpoints" where
  "BudgetCheckpoints_record route total_calls_made ceil b =
     (let b = b\<lparr>cp_counts := (cp_counts b)(route := cp_counts b route + 1)\<rparr>;
          calls = saturating_sub total_calls_made (baseline_calls b);
          index = next_threshold b
      in if index \<ge> length ASCENDING_THRESHOLD_PERMILLE_OF_CEILING then (None, b)
         else if calls < threshold_calls ceil (ASCENDING_THRESHOLD_PERMILLE_OF_CEILING ! index) then (None, b)
         else
           let b = b\<lparr>next_threshold := index + 1\<rparr>
           in (Some \<lparr>cp_calls = calls, cp_ceiling = ceil, approx_top_routes = BudgetCheckpoints_top_routes b\<rparr>, b))"

text \<open>\<open>Display\<close> of the ranked routes, with the decimal \<open>Display\<close> of a number.\<close>

fun nat_display :: "nat \<Rightarrow> string" where
  "nat_display n = (if n < 10 then [char_of (48 + n)] else nat_display (n div 10) @ [char_of (48 + n mod 10)])"

declare nat_display.simps [simp del]

definition ApproxTopRoutes_display :: "(Route \<times> u64) list \<Rightarrow> string" where
  "ApproxTopRoutes_display entries =
     (if entries = [] then ''none''
      else concat (map (\<lambda>(i, r, calls). (if i = 0 then [] else '' '') @ Route_template r @ ''='' @
             nat_display (unat calls)) (enumerate 0 entries)))"

subsection \<open>Waits\<close>

text \<open>
  A new budget epoch never starts before the reset that GitHub stated: a stated future reset within a day is
  waited out with the slack added, every other reading waits the fixed hour, no wait is longer than a day and
  the slack, and the new ceiling is never zero and leaves the buffer of a window larger than the buffer.
\<close>
theorem replenish_wait_and_ceiling:
  "(case wait_for_reset reset now of
      ResetWait.Stated w \<Rightarrow> (\<exists>r. reset = Some r \<and> uint now < uint r \<and> uint r - uint now \<le> 86400 \<and>
        uint w = uint r - uint now + 5)
    | ResetWait.Fallback _ \<Rightarrow> ResetWait_wait (wait_for_reset reset now) = 3600) \<and>
   uint (ResetWait_wait (wait_for_reset reset now)) \<le> 86405 \<and>
   ceiling_from_entitlement e \<noteq> 0 \<and>
   uint (ceiling_from_entitlement e) = (if uint e > 100 then uint e - 100 else 10)"
proof -
  have dist: "uint (r - now) = uint r - uint now" if "now < r" for r
    using that by (simp add: uint_sub_lem [symmetric] word_less_def)
  have slack: "uint (x + 5) = uint x + 5" if "uint x \<le> 86400" for x :: u64
    using that by (simp add: uint_word_ariths)
  have ceil: "unat (saturating_sub e 100) = unat e - 100" by (simp add: unat_saturating_sub)
  have "uint (saturating_sub e 100) = (if uint e > 100 then uint e - 100 else 0)"
  proof -
    have "uint (saturating_sub e 100) = int (unat e - 100)" using arg_cong [OF ceil, of int] by (simp only: of_nat_unat)
    moreover have "int (unat e) = uint e" by (simp only: of_nat_unat)
    ultimately show ?thesis by (cases "uint e > 100"; simp only: if_True if_False; linarith)
  qed
  moreover from this have "saturating_sub e 100 = 0 \<longleftrightarrow> \<not> uint e > 100" by (auto simp flip: uint_0_iff)
  ultimately have "ceiling_from_entitlement e \<noteq> 0"
    "uint (ceiling_from_entitlement e) = (if uint e > 100 then uint e - 100 else 10)"
    by (auto simp: ceiling_from_entitlement_def CEILING_BUFFER_def CEILING_FLOOR_def Let_def)
  moreover have "\<not> MAX_PLAUSIBLE_RESET_SECS < r - now \<Longrightarrow> now < r \<Longrightarrow> uint r - uint now \<le> 86400" for r
    using dist [of r] by (simp add: MAX_PLAUSIBLE_RESET_SECS_def word_less_def not_less)
  ultimately show ?thesis
    using dist slack
    by (auto simp: wait_for_reset_def API_BUDGET_WAIT_SECS_def RESET_SLACK_SECS_def not_le word_less_def
        split: option.split)
qed

text \<open>
  A \<open>Retry-After\<close> is never under-honoured: whatever form it has, the instant it resumes at is at least the
  wait the server asked for after now.
\<close>

lemma ceil_to_whole_secs_ge: "d \<le> ceil_to_whole_secs d * nanos_per_sec"
proof -
  have "d = d div nanos_per_sec * nanos_per_sec + d mod nanos_per_sec" by simp
  moreover have "d mod nanos_per_sec < nanos_per_sec" by (simp add: nanos_per_sec_def)
  ultimately have "0 < d mod nanos_per_sec \<Longrightarrow> d \<le> d div nanos_per_sec * nanos_per_sec + nanos_per_sec"
    "d mod nanos_per_sec = 0 \<Longrightarrow> d \<le> d div nanos_per_sec * nanos_per_sec" by linarith+
  then show ?thesis by (auto simp: ceil_to_whole_secs_def algebra_simps)
qed

lemma retry_after_honoured:
  assumes "secondary_limit_resume_at clocks status headers body = Some (Some t)"
    and "header_str headers ''retry-after'' = Some raw"
  shows "case parse_u64 (str_trim raw) of
     Some secs \<Rightarrow> t = instant_now clocks + unat secs * nanos_per_sec
   | None \<Rightarrow> (\<exists>target. parse_http_date clocks (str_trim raw) = Some target \<and>
       t \<ge> instant_now clocks + (target - system_now clocks))"
  using assms ceil_to_whole_secs_ge
  by (auto simp: secondary_limit_resume_at_def parse_retry_after_def Let_def instant_add_def
      split: if_splits option.splits)

text \<open>A large number of seconds is a valid header value, and the sum with the current instant panics.\<close>

lemma huge_retry_after_panics:
  "secondary_limit_resume_at \<lparr>instant_now = 0, system_now = 0, parse_http_date = (\<lambda>_. None)\<rparr> 429
     (\<lambda>n. if n = ''retry-after'' then [Some ''9223372036854775808''] else []) [] = None"
proof -
  have "str_trim ''9223372036854775808'' = ''9223372036854775808''"
    using trim_end_token [of "''9223372036854775808''" "[]"]
    by (simp add: str_trim_def trim_start_id ws_len_def WHITE_SPACE_def)
  then show ?thesis
    by (simp add: secondary_limit_resume_at_def parse_retry_after_def header_str_def parse_u64_def
        parse_unsigned_def decimal_value_def digit_value_def byte_in_def instant_add_def Let_def nanos_per_sec_def)
qed

subsection \<open>Checkpoints under concurrency\<close>

text \<open>
  The calls of \<open>record\<close> by any number of threads: where a thread is between the atomic operations of one call,
  and the checkpoints returned so far with the index of the threshold they crossed.
\<close>

datatype Pc = Idle | Checking u64 u64 | Swapping u64 u64 nat

record 't CpSystem =
  cp_shared :: BudgetCheckpoints
  cp_pc :: "'t \<Rightarrow> Pc"
  cp_emitted :: "(nat \<times> u64 \<times> u64) list"

definition due :: "u64 \<Rightarrow> u64 \<Rightarrow> nat \<Rightarrow> bool" where
  "due calls ceil index \<longleftrightarrow> index < length ASCENDING_THRESHOLD_PERMILLE_OF_CEILING \<and>
     \<not> calls < threshold_calls ceil (ASCENDING_THRESHOLD_PERMILLE_OF_CEILING ! index)"

inductive cp_step :: "'t CpSystem \<Rightarrow> 't CpSystem \<Rightarrow> bool" where
  cp_enter: "cp_pc s t = Idle \<Longrightarrow> b = cp_shared s \<Longrightarrow>
    cp_step s (s\<lparr>cp_shared := b\<lparr>cp_counts := (cp_counts b)(route := cp_counts b route + 1)\<rparr>,
      cp_pc := (cp_pc s)(t := Checking (saturating_sub total_calls (baseline_calls b)) ceil)\<rparr>)"
| cp_none: "cp_pc s t = Checking calls ceil \<Longrightarrow> \<not> due calls ceil (next_threshold (cp_shared s)) \<Longrightarrow>
    cp_step s (s\<lparr>cp_pc := (cp_pc s)(t := Idle)\<rparr>)"
| cp_load: "cp_pc s t = Checking calls ceil \<Longrightarrow> due calls ceil (next_threshold (cp_shared s)) \<Longrightarrow>
    cp_step s (s\<lparr>cp_pc := (cp_pc s)(t := Swapping calls ceil (next_threshold (cp_shared s)))\<rparr>)"
| cp_swapped: "cp_pc s t = Swapping calls ceil index \<Longrightarrow> next_threshold (cp_shared s) = index \<Longrightarrow>
    cp_step s (s\<lparr>cp_shared := (cp_shared s)\<lparr>next_threshold := index + 1\<rparr>,
      cp_pc := (cp_pc s)(t := Idle), cp_emitted := cp_emitted s @ [(index, calls, ceil)]\<rparr>)"
| cp_lost: "cp_pc s t = Swapping calls ceil index \<Longrightarrow> next_threshold (cp_shared s) \<noteq> index \<Longrightarrow>
    cp_step s (s\<lparr>cp_pc := (cp_pc s)(t := Checking calls ceil)\<rparr>)"

definition cp_start :: "u64 \<Rightarrow> 't CpSystem" where
  "cp_start baseline = \<lparr>cp_shared = BudgetCheckpoints_for_run baseline, cp_pc = (\<lambda>_. Idle), cp_emitted = []\<rparr>"

definition cp_inv :: "'t CpSystem \<Rightarrow> bool" where
  "cp_inv s \<longleftrightarrow>
     map fst (cp_emitted s) = [0..<next_threshold (cp_shared s)] \<and>
     next_threshold (cp_shared s) \<le> length ASCENDING_THRESHOLD_PERMILLE_OF_CEILING \<and>
     list_all (\<lambda>(index, calls, ceil). due calls ceil index) (cp_emitted s) \<and>
     (\<forall>t calls ceil index. cp_pc s t = Swapping calls ceil index \<longrightarrow> due calls ceil index)"

lemma cp_step_inv: "cp_step s s' \<Longrightarrow> cp_inv s \<Longrightarrow> cp_inv s'"
proof (induction rule: cp_step.induct)
  case (cp_swapped s t calls ceil index)
  then have "due calls ceil index" by (auto simp: cp_inv_def)
  moreover from this have "Suc index \<le> length ASCENDING_THRESHOLD_PERMILLE_OF_CEILING" by (simp add: due_def)
  ultimately show ?case using cp_swapped by (auto simp: cp_inv_def)
qed (auto simp: cp_inv_def)

lemma cp_reachable_inv: "cp_step\<^sup>*\<^sup>* (cp_start baseline) s \<Longrightarrow> cp_inv s"
proof (induction rule: rtranclp_induct)
  case base
  show ?case by (simp add: cp_inv_def cp_start_def BudgetCheckpoints_for_run_def)
qed (rule cp_step_inv)

text \<open>
  C29. Budget checkpoints under any interleaving of any number of threads: the thresholds are crossed one after the
  other, each at most once, so that a run emits at most eight checkpoints, and every emitted checkpoint has
  made the calls of its threshold.
\<close>
theorem checkpoints_emitted_once:
  assumes "cp_step\<^sup>*\<^sup>* (cp_start baseline) s"
  shows "map fst (cp_emitted s) = [0..<length (cp_emitted s)] \<and>
    length (cp_emitted s) \<le> MAX_CHECKPOINTS_PER_RUN \<and>
    list_all (\<lambda>(index, calls, ceil).
      threshold_calls ceil (ASCENDING_THRESHOLD_PERMILLE_OF_CEILING ! index) \<le> calls) (cp_emitted s)"
proof -
  have inv: "cp_inv s" by (rule cp_reachable_inv [OF assms])
  then have "map fst (cp_emitted s) = [0..<next_threshold (cp_shared s)]" by (simp only: cp_inv_def)
  from arg_cong [OF this, of length] have len: "next_threshold (cp_shared s) = length (cp_emitted s)" by simp
  have "length ASCENDING_THRESHOLD_PERMILLE_OF_CEILING = MAX_CHECKPOINTS_PER_RUN"
    by (simp add: ASCENDING_THRESHOLD_PERMILLE_OF_CEILING_def MAX_CHECKPOINTS_PER_RUN_def)
  moreover have "list_all (\<lambda>(index, calls, ceil).
      threshold_calls ceil (ASCENDING_THRESHOLD_PERMILLE_OF_CEILING ! index) \<le> calls) (cp_emitted s)"
    by (rule list.pred_mono_strong [of "\<lambda>(index, calls, ceil). due calls ceil index"])
      (use inv in \<open>auto simp only: cp_inv_def due_def not_less split: prod.splits\<close>)
  ultimately show ?thesis using inv by (simp add: cp_inv_def len)
qed

text \<open>A call of \<open>record\<close> that meets no other thread is a sequence of these steps with the same result.\<close>

lemma record_is_steps:
  assumes "cp_pc s t = Idle"
    and "BudgetCheckpoints_record route total_calls ceil (cp_shared s) = (result, b)"
  shows "cp_step\<^sup>*\<^sup>* s (s\<lparr>cp_shared := b, cp_emitted := cp_emitted s @ (case result of None \<Rightarrow> []
      | Some c \<Rightarrow> [(next_threshold (cp_shared s), cp_calls c, cp_ceiling c)])\<rparr>)"
proof -
  let ?b = "(cp_shared s)\<lparr>cp_counts := (cp_counts (cp_shared s))(route := cp_counts (cp_shared s) route + 1)\<rparr>"
  let ?calls = "saturating_sub total_calls (baseline_calls (cp_shared s))" let ?n = "next_threshold (cp_shared s)"
  let ?s = "s\<lparr>cp_shared := ?b, cp_pc := (cp_pc s)(t := Checking ?calls ceil)\<rparr>"
  have entered: "cp_step s ?s" using assms(1) by (intro cp_enter) auto
  have idle: "(cp_pc s)(t := Idle) = cp_pc s" using assms(1) by auto
  show ?thesis
  proof (cases "due ?calls ceil ?n")
    case False
    then have "result = None" "b = ?b"
      using assms(2) by (auto simp: BudgetCheckpoints_record_def Let_def due_def split: if_splits)
    moreover have "cp_step ?s (?s\<lparr>cp_pc := (cp_pc ?s)(t := Idle)\<rparr>)"
      using False by (intro cp_none [where calls = ?calls and ceil = ceil]) auto
    ultimately show ?thesis using entered idle by (auto intro: rtranclp.intros)
  next
    case True
    then have r: "result = Some \<lparr>cp_calls = ?calls, cp_ceiling = ceil,
        approx_top_routes = BudgetCheckpoints_top_routes b\<rparr>" "b = ?b\<lparr>next_threshold := ?n + 1\<rparr>"
      using assms(2) by (auto simp: BudgetCheckpoints_record_def Let_def due_def split: if_splits)
    let ?s2 = "?s\<lparr>cp_pc := (cp_pc ?s)(t := Swapping ?calls ceil ?n)\<rparr>"
    have "cp_step ?s ?s2" using True cp_load [of ?s t ?calls ceil] by simp
    moreover have "cp_step ?s2 (?s2\<lparr>cp_shared := b, cp_pc := (cp_pc ?s2)(t := Idle),
        cp_emitted := cp_emitted ?s2 @ [(?n, ?calls, ceil)]\<rparr>)"
      using cp_swapped [of ?s2 t ?calls ceil ?n] r(2) by simp
    ultimately show ?thesis using entered idle r(1) by (auto intro: rtranclp.intros)
  qed
qed

theorem checkpoints_emitted_once_witness:
  "\<exists>s :: nat CpSystem. cp_step\<^sup>*\<^sup>* (cp_start 0) s \<and> length (cp_emitted s) = 1 \<and>
     map fst (cp_emitted s) = [0..<length (cp_emitted s)]"
proof -
  let ?r = "BudgetCheckpoints_record Route.User 1 4 (cp_shared (cp_start 0 :: nat CpSystem))"
  have due1: "\<not> (1 :: u64) < threshold_calls 4 250"
    by (simp add: threshold_calls_def saturating_mul_def)
  obtain c b where r: "?r = (Some c, b)"
    using due1 by (auto simp: BudgetCheckpoints_record_def cp_start_def BudgetCheckpoints_for_run_def Let_def
        ASCENDING_THRESHOLD_PERMILLE_OF_CEILING_def saturating_sub_def)
  let ?s = "cp_start 0 \<lparr>cp_shared := b, cp_emitted := [(0, cp_calls c, cp_ceiling c)]\<rparr> :: nat CpSystem"
  have steps: "cp_step\<^sup>*\<^sup>* (cp_start 0) ?s"
    using record_is_steps [OF _ r, of 0] by (simp add: cp_start_def BudgetCheckpoints_for_run_def)
  from checkpoints_emitted_once [OF this] steps show ?thesis by (intro exI [of _ ?s]) simp
qed

end
