(* ===== verification/Github_Client.thy ===== *)
theory Github_Client
  imports Branch_Protection Write_Policy Github_Limits
begin

text \<open>
  The GitHub client (\<open>github/client.rs\<close>): one attempt, paginated or not, the retry loop, the rate-limit halt,
  credential refresh and the classification of a finished request.

  Everything outside the repository is the parameter \<open>Env\<close>: the HTTP exchange, the clocks, the budget gate,
  the back-off regulator, the rate-limit observer, the JSON and URL parsers, the signing of the app token and
  the parser of the token response. Its operations act on a world of any type. The client's own fields are the
  record \<open>Client_State\<close>; a request is modelled from the point of view of one task, and other tasks act through
  the world. Log records, and latencies that only go into them, are left out.
\<close>

subsection \<open>Failures\<close>

datatype PreDispatchFailure =
  HaltedBeforeDispatch | CredentialRefreshFailed string | BudgetAcquireCancelled

datatype MalformedPayloadKind = InvalidJson | EmptyBody | NotAnArray | InvalidUtf8

datatype RequestFailureKind =
  CredentialRefreshFailed string
| Transport string bool
| Http u16 string bool
| BodyRead "u16 option" string
| MalformedPayload u16 MalformedPayloadKind string

fun RequestFailureKind_status_code :: "RequestFailureKind \<Rightarrow> u16 option" where
  "RequestFailureKind_status_code (RequestFailureKind.CredentialRefreshFailed _) = None"
| "RequestFailureKind_status_code (RequestFailureKind.Transport _ _) = None"
| "RequestFailureKind_status_code (RequestFailureKind.Http c _ _) = Some c"
| "RequestFailureKind_status_code (RequestFailureKind.BodyRead c _) = c"
| "RequestFailureKind_status_code (RequestFailureKind.MalformedPayload c _ _) = Some c"

fun RequestFailureKind_is_retryable :: "RequestFailureKind \<Rightarrow> bool" where
  "RequestFailureKind_is_retryable (RequestFailureKind.Transport _ _) = True"
| "RequestFailureKind_is_retryable (RequestFailureKind.Http _ _ retryable) = retryable"
| "RequestFailureKind_is_retryable _ = False"

fun RequestFailureKind_into_api_outcome :: "RequestFailureKind \<Rightarrow> ApiOutcome" where
  "RequestFailureKind_into_api_outcome (RequestFailureKind.CredentialRefreshFailed cause) =
     ApiOutcome_failure None (''credential refresh failed: '' @ cause) False"
| "RequestFailureKind_into_api_outcome (RequestFailureKind.Transport e timeout) =
     ApiOutcome_failure None (if timeout then ''timeout'' else e) True"
| "RequestFailureKind_into_api_outcome (RequestFailureKind.Http c e retryable) =
     ApiOutcome_failure (Some c) e retryable"
| "RequestFailureKind_into_api_outcome (RequestFailureKind.BodyRead c e) =
     ApiOutcome_failure c (''body read error: '' @ e) False"
| "RequestFailureKind_into_api_outcome (RequestFailureKind.MalformedPayload c _ e) =
     ApiOutcome_failure (Some c) e False"

datatype RequestClassification =
  Success u16 bool
| MalformedPayload u16 MalformedPayloadKind
| BodyRead "u16 option"
| HttpError "u16 option"
| TransportError
| CredentialRefreshFailed
| BudgetAcquireCancelled
| HaltedBeforeDispatch

datatype AttemptResult =
  Success u16 "Value option" "(string \<rightharpoonup> string) option" bool
| Failure RequestFailureKind

fun AttemptResult_is_retryable :: "AttemptResult \<Rightarrow> bool" where
  "AttemptResult_is_retryable (AttemptResult.Success _ _ _ _) = False"
| "AttemptResult_is_retryable (AttemptResult.Failure f) = RequestFailureKind_is_retryable f"

fun AttemptResult_status_code :: "AttemptResult \<Rightarrow> u16 option" where
  "AttemptResult_status_code (AttemptResult.Success c _ _ _) = Some c"
| "AttemptResult_status_code (AttemptResult.Failure f) = RequestFailureKind_status_code f"

fun AttemptResult_into_api_outcome :: "AttemptResult \<Rightarrow> ApiOutcome" where
  "AttemptResult_into_api_outcome (AttemptResult.Success c d h t) = ApiOutcome.Success c d h t"
| "AttemptResult_into_api_outcome (AttemptResult.Failure f) = RequestFailureKind_into_api_outcome f"

text \<open>The number of attempts is a \<open>NonZeroU32\<close>.\<close>

datatype RunResult =
  NeverDispatched PreDispatchFailure
| Success u16 "Value option" "(string \<rightharpoonup> string) option" bool u32
| Failed RequestFailureKind u32

record RequestRun =
  run_result :: RunResult
  halt_triggered :: bool

definition RequestRun_never_dispatched :: "PreDispatchFailure \<Rightarrow> RequestRun" where
  "RequestRun_never_dispatched cause = \<lparr>run_result = RunResult.NeverDispatched cause, halt_triggered = False\<rparr>"

definition attempts_after :: "u32 \<Rightarrow> u32" where
  "attempts_after attempt = (let n = saturating_add attempt 1 in if n = 0 then 1 else n)"

definition RequestRun_from_attempt :: "AttemptResult \<Rightarrow> u32 \<Rightarrow> bool \<Rightarrow> RequestRun" where
  "RequestRun_from_attempt result attempt halted =
     \<lparr>run_result = (case result of
        AttemptResult.Success c d h t \<Rightarrow> RunResult.Success c d h t (attempts_after attempt)
      | AttemptResult.Failure f \<Rightarrow> RunResult.Failed f (attempts_after attempt)),
      halt_triggered = halted\<rparr>"

definition RequestRun_is_success :: "RequestRun \<Rightarrow> bool" where
  "RequestRun_is_success run = (case run_result run of RunResult.Success _ _ _ _ _ \<Rightarrow> True | _ \<Rightarrow> False)"

definition RequestRun_is_truncated :: "RequestRun \<Rightarrow> bool" where
  "RequestRun_is_truncated run = (case run_result run of RunResult.Success _ _ _ t _ \<Rightarrow> t | _ \<Rightarrow> False)"

definition RequestRun_is_retries_exhausted :: "RequestRun \<Rightarrow> bool" where
  "RequestRun_is_retries_exhausted run \<longleftrightarrow> \<not> halt_triggered run \<and>
     (case run_result run of RunResult.Failed f _ \<Rightarrow> RequestFailureKind_is_retryable f | _ \<Rightarrow> False)"

definition RequestRun_attempts :: "RequestRun \<Rightarrow> u32" where
  "RequestRun_attempts run = (case run_result run of
     RunResult.NeverDispatched _ \<Rightarrow> 0 | RunResult.Success _ _ _ _ n \<Rightarrow> n | RunResult.Failed _ n \<Rightarrow> n)"

definition RequestRun_status_code :: "RequestRun \<Rightarrow> u16 option" where
  "RequestRun_status_code run = (case run_result run of
     RunResult.NeverDispatched _ \<Rightarrow> None
   | RunResult.Success c _ _ _ _ \<Rightarrow> Some c
   | RunResult.Failed f _ \<Rightarrow> RequestFailureKind_status_code f)"

definition RequestRun_failure_kind :: "RequestRun \<Rightarrow> RequestFailureKind option" where
  "RequestRun_failure_kind run = (case run_result run of RunResult.Failed f _ \<Rightarrow> Some f | _ \<Rightarrow> None)"

definition RequestRun_classification :: "RequestRun \<Rightarrow> RequestClassification" where
  "RequestRun_classification run = (case run_result run of
     RunResult.NeverDispatched cause \<Rightarrow> (case cause of
        PreDispatchFailure.HaltedBeforeDispatch \<Rightarrow> RequestClassification.HaltedBeforeDispatch
      | PreDispatchFailure.CredentialRefreshFailed _ \<Rightarrow> RequestClassification.CredentialRefreshFailed
      | PreDispatchFailure.BudgetAcquireCancelled \<Rightarrow> RequestClassification.BudgetAcquireCancelled)
   | RunResult.Success c _ _ t _ \<Rightarrow> RequestClassification.Success c t
   | RunResult.Failed f _ \<Rightarrow> (case f of
        RequestFailureKind.CredentialRefreshFailed _ \<Rightarrow> RequestClassification.CredentialRefreshFailed
      | RequestFailureKind.Transport _ _ \<Rightarrow> RequestClassification.TransportError
      | RequestFailureKind.Http c _ _ \<Rightarrow> RequestClassification.HttpError (Some c)
      | RequestFailureKind.BodyRead c _ \<Rightarrow> RequestClassification.BodyRead c
      | RequestFailureKind.MalformedPayload c kind _ \<Rightarrow> RequestClassification.MalformedPayload c kind))"

definition RequestRun_terminal_category :: "RequestRun \<Rightarrow> string" where
  "RequestRun_terminal_category run = (case run_result run of
     RunResult.NeverDispatched cause \<Rightarrow> (case cause of
        PreDispatchFailure.HaltedBeforeDispatch \<Rightarrow> ''halted_before_dispatch''
      | PreDispatchFailure.CredentialRefreshFailed _ \<Rightarrow> ''credential_refresh_failed''
      | PreDispatchFailure.BudgetAcquireCancelled \<Rightarrow> ''budget_acquire_cancelled'')
   | RunResult.Success _ _ _ _ _ \<Rightarrow> ''success''
   | RunResult.Failed f _ \<Rightarrow>
       if halt_triggered run then ''rate_limit_halt''
       else if RequestFailureKind_is_retryable f then ''retry_exhausted''
       else (case f of
          RequestFailureKind.CredentialRefreshFailed _ \<Rightarrow> ''credential_refresh_failed''
        | RequestFailureKind.Transport _ _ \<Rightarrow> ''transport_error''
        | RequestFailureKind.Http _ _ _ \<Rightarrow> ''http_error''
        | RequestFailureKind.BodyRead _ _ \<Rightarrow> ''body_read_error''
        | RequestFailureKind.MalformedPayload _ _ _ \<Rightarrow> ''malformed_payload''))"

definition RequestRun_outcome :: "RequestRun \<Rightarrow> ApiOutcome" where
  "RequestRun_outcome run = (case run_result run of
     RunResult.NeverDispatched cause \<Rightarrow> (case cause of
        PreDispatchFailure.HaltedBeforeDispatch \<Rightarrow>
          ApiOutcome_failure None (''rate limit halt: remaining < '' @ nat_display (unat HALT_THRESHOLD)) False
      | PreDispatchFailure.CredentialRefreshFailed cause \<Rightarrow>
          ApiOutcome_failure None (''credential refresh failed: '' @ cause) False
      | PreDispatchFailure.BudgetAcquireCancelled \<Rightarrow>
          ApiOutcome_failure None ''budget acquire cancelled'' False)
   | RunResult.Success c d h t _ \<Rightarrow> ApiOutcome.Success c d h t
   | RunResult.Failed f _ \<Rightarrow> RequestFailureKind_into_api_outcome f)"

subsection \<open>The outside world and the client's fields\<close>

record Response =
  resp_status :: u16
  resp_headers :: HeaderMap
  content_length :: "u64 option"
  resp_chunks :: "string list"
  chunk_error :: "string option"

datatype GitHubApiError =
  Http string
| AuthenticationFailed string
| AuthorizationDenied string
| InvalidResponse string
| ClientConfigError string

fun GitHubApiError_display :: "GitHubApiError \<Rightarrow> string" where
  "GitHubApiError_display (GitHubApiError.Http e) = ''http error: '' @ e"
| "GitHubApiError_display (GitHubApiError.AuthenticationFailed r) = ''authentication failed: '' @ r"
| "GitHubApiError_display (GitHubApiError.AuthorizationDenied r) = ''authorization denied: '' @ r"
| "GitHubApiError_display (GitHubApiError.InvalidResponse r) = ''invalid response: '' @ r"
| "GitHubApiError_display (GitHubApiError.ClientConfigError r) = ''configuration error: '' @ r"

record GitHubAppConfig =
  app_id :: u64
  private_key_pem :: string
  installation_id :: u64

record GitHubCredential =
  cred_mode :: AuthMode
  cred_token :: string
  cred_expires_at :: "int option"

definition GitHubCredential_from_installation_token :: "string \<Rightarrow> int \<Rightarrow> GitHubCredential" where
  "GitHubCredential_from_installation_token token expires =
     \<lparr>cred_mode = AuthMode.GitHubApp, cred_token = token, cred_expires_at = Some expires\<rparr>"

definition GitHubCredential_expires_at_unix :: "GitHubCredential \<Rightarrow> u64" where
  "GitHubCredential_expires_at_unix cred = (case cred_expires_at cred of None \<Rightarrow> 0 | Some ts \<Rightarrow> word_of_int ts)"

text \<open>What \<open>url::Url::parse\<close> tells of an address: its scheme, its host if it has one, and its port unless that is the default.\<close>

record ParsedUrl =
  url_scheme :: string
  url_host :: "string option"
  url_port :: "u16 option"

text \<open>
  The operations of \<open>Env\<close>: an authenticated \<open>GET\<close> of a URL with an optional \<open>If-None-Match\<close> and a timeout in
  seconds gives a transport error (its text, and whether it is a timeout) or a response; the token exchange is a
  \<open>POST\<close> with its own header.
\<close>

record 'w Env =
  env_get :: "string \<Rightarrow> string \<Rightarrow> string option \<Rightarrow> u64 \<Rightarrow> 'w \<Rightarrow> ((string \<times> bool) + Response) \<times> 'w"
  env_post :: "string \<Rightarrow> string \<Rightarrow> 'w \<Rightarrow> (string + Response) \<times> 'w"
  env_unix_secs :: "'w \<Rightarrow> u64 \<times> 'w"
  env_clocks :: "'w \<Rightarrow> Clocks \<times> 'w"
  env_acquire :: "'w \<Rightarrow> bool \<times> 'w"
  env_refund :: "'w \<Rightarrow> 'w"
  env_total_calls :: "'w \<Rightarrow> u64"
  env_epoch_limit :: "'w \<Rightarrow> u64"
  env_set_backoff :: "nat \<Rightarrow> 'w \<Rightarrow> 'w"
  env_resume_at :: "'w \<Rightarrow> nat option"
  env_jitter :: "nat \<Rightarrow> 'w \<Rightarrow> nat \<times> 'w"
  env_sleep :: "nat \<Rightarrow> 'w \<Rightarrow> 'w"
  env_limits :: "'w RateLimits"
  env_json :: "string \<Rightarrow> string + Value"
  env_utf8_error :: "string \<Rightarrow> string"
  env_url :: "string \<Rightarrow> ParsedUrl option"
  env_header_value_ok :: "string \<Rightarrow> bool"
  env_app_jwt :: "GitHubAppConfig \<Rightarrow> 'w \<Rightarrow> (GitHubApiError + string) \<times> 'w"
  env_token_response :: "string \<Rightarrow> string + (string \<times> string)"
  env_parse_time :: "string \<Rightarrow> string + int"

record CachedResult =
  cr_status_code :: u16
  cr_data :: "Value option"
  cr_etag :: "string option"
  cr_stale :: bool

record Client_State =
  auth_header :: string
  base_url :: string
  trusted_origin :: string
  gc_org_name :: string
  rate_limit_warnings :: u32
  repo_detail_cache :: "string \<rightharpoonup> CachedResult"
  halted_until :: u64
  gc_credential :: GitHubCredential
  app_config :: "GitHubAppConfig option"
  credential_expires_at :: u64
  budget_checkpoints :: BudgetCheckpoints
  last_response_etags :: "string \<rightharpoonup> string"
  not_modified_repos :: "string set"
  deleted_team_slugs :: "string set"

subsection \<open>Response bodies\<close>

definition MAX_RESPONSE_BODY_BYTES :: nat where "MAX_RESPONSE_BODY_BYTES = 50 * 1024 * 1024"

datatype BodyReadError = ContentLengthExceeded u64 nat | BodyLengthExceeded nat | Chunk string

fun BodyReadError_display :: "BodyReadError \<Rightarrow> string" where
  "BodyReadError_display (BodyReadError.ContentLengthExceeded len max_bytes) =
     ''response Content-Length ('' @ nat_display (unat len) @ '') exceeds '' @ nat_display max_bytes @ '' byte limit''"
| "BodyReadError_display (BodyReadError.BodyLengthExceeded max_bytes) =
     ''response body exceeds '' @ nat_display max_bytes @ '' byte limit''"
| "BodyReadError_display (BodyReadError.Chunk e) = ''body read error: '' @ e"

fun read_chunks :: "nat \<Rightarrow> string \<Rightarrow> string list \<Rightarrow> string option \<Rightarrow> BodyReadError + string" where
  "read_chunks max_bytes body [] err = (case err of None \<Rightarrow> Inr body | Some e \<Rightarrow> Inl (BodyReadError.Chunk e))"
| "read_chunks max_bytes body (chunk # chunks) err =
     (if length body + length chunk > max_bytes then Inl (BodyReadError.BodyLengthExceeded max_bytes)
      else read_chunks max_bytes (body @ chunk) chunks err)"

definition read_body_bytes_limited :: "Response \<Rightarrow> nat \<Rightarrow> BodyReadError + string" where
  "read_body_bytes_limited response max_bytes = (case content_length response of
     Some len \<Rightarrow>
       if unat len > max_bytes then Inl (BodyReadError.ContentLengthExceeded len max_bytes)
       else read_chunks max_bytes [] (resp_chunks response) (chunk_error response)
   | None \<Rightarrow> read_chunks max_bytes [] (resp_chunks response) (chunk_error response))"

definition read_body_limited :: "'w Env \<Rightarrow> Response \<Rightarrow> nat \<Rightarrow> GitHubApiError + string" where
  "read_body_limited E response max_bytes = (case read_body_bytes_limited response max_bytes of
     Inl e \<Rightarrow> Inl (GitHubApiError.InvalidResponse (BodyReadError_display e))
   | Inr bytes \<Rightarrow>
       if from_utf8_ok bytes then Inr bytes
       else Inl (GitHubApiError.InvalidResponse (''response body is not valid UTF-8: '' @ env_utf8_error E bytes)))"

definition is_success :: "u16 \<Rightarrow> bool" where
  "is_success status \<longleftrightarrow> 200 \<le> status \<and> status < 300"

subsection \<open>Origins and continuations\<close>

definition extract_origin :: "'w Env \<Rightarrow> string \<Rightarrow> string option" where
  "extract_origin E url = (case env_url E url of
     None \<Rightarrow> None
   | Some parsed \<Rightarrow> (case url_host parsed of
       None \<Rightarrow> None
     | Some host \<Rightarrow> (case url_port parsed of
         Some port \<Rightarrow> Some (url_scheme parsed @ ''://'' @ host @ '':'' @ nat_display (unat port))
       | None \<Rightarrow> Some (url_scheme parsed @ ''://'' @ host))))"

definition is_same_origin :: "'w Env \<Rightarrow> string \<Rightarrow> string \<Rightarrow> bool" where
  "is_same_origin E url trusted = (case extract_origin E url of Some origin \<Rightarrow> origin = trusted | None \<Rightarrow> False)"

datatype Continuation = Exhausted | Follow string | Refused | Uninterpretable

definition trusted_continuation :: "'w Env \<Rightarrow> HeaderMap \<Rightarrow> string \<Rightarrow> Continuation" where
  "trusted_continuation E headers trusted = (case next_link (headers ''link'') of
     NextLink.NoNext \<Rightarrow> Continuation.Exhausted
   | NextLink.Uninterpretable \<Rightarrow> Continuation.Uninterpretable
   | NextLink.One url \<Rightarrow>
       if is_same_origin E url trusted then Continuation.Follow url else Continuation.Refused)"

subsection \<open>Credentials\<close>

definition TOKEN_REFRESH_BUFFER :: nat where "TOKEN_REFRESH_BUFFER = 300"

definition credential_needs_refresh :: "'w Env \<Rightarrow> Client_State \<Rightarrow> 'w \<Rightarrow> bool \<times> 'w" where
  "credential_needs_refresh E c w =
     (if credential_expires_at c = 0 then (False, w)
      else let (now, w) = env_unix_secs E w
           in (unat now + TOKEN_REFRESH_BUFFER \<ge> unat (credential_expires_at c), w))"

definition exchange_installation_token ::
    "'w Env \<Rightarrow> GitHubAppConfig \<Rightarrow> Client_State \<Rightarrow> 'w \<Rightarrow> (GitHubApiError + GitHubCredential) \<times> 'w" where
  "exchange_installation_token E config c w = (case env_app_jwt E config w of
     (Inl e, w) \<Rightarrow> (Inl e, w)
   | (Inr jwt, w) \<Rightarrow>
       if \<not> env_header_value_ok E (''Bearer '' @ jwt)
       then (Inl (GitHubApiError.AuthenticationFailed ''invalid JWT characters''), w)
       else (case env_post E (base_url c @ ''/app/installations/'' @ nat_display (unat (installation_id config)) @
                 ''/access_tokens'') (''Bearer '' @ jwt) w of
          (Inl e, w) \<Rightarrow>
            (Inl (GitHubApiError.AuthenticationFailed (''installation token exchange failed: '' @ e)), w)
        | (Inr response, w) \<Rightarrow>
            if \<not> is_success (resp_status response)
            then (Inl (GitHubApiError.AuthenticationFailed
                   (''installation token exchange returned '' @ nat_display (unat (resp_status response)) @ '': '' @
                    truncate_error_body (case read_body_limited E response MAX_RESPONSE_BODY_BYTES of
                       Inr body \<Rightarrow> body | Inl _ \<Rightarrow> []))), w)
            else (case read_body_limited E response MAX_RESPONSE_BODY_BYTES of
               Inl e \<Rightarrow> (Inl (GitHubApiError.AuthenticationFailed
                   (''failed to read installation token response: '' @ GitHubApiError_display e)), w)
             | Inr body \<Rightarrow> (case env_token_response E body of
                  Inl e \<Rightarrow> (Inl (GitHubApiError.AuthenticationFailed
                      (''invalid installation token response: '' @ e)), w)
                | Inr (token, expires_at) \<Rightarrow> (case env_parse_time E expires_at of
                     Inl e \<Rightarrow> (Inl (GitHubApiError.AuthenticationFailed
                         (''invalid expires_at in token response: '' @ e)), w)
                   | Inr expires \<Rightarrow> (Inr (GitHubCredential_from_installation_token token expires), w))))))"

definition ensure_credential ::
    "'w Env \<Rightarrow> Client_State \<Rightarrow> 'w \<Rightarrow> (GitHubApiError + unit) \<times> Client_State \<times> 'w" where
  "ensure_credential E c w = (case credential_needs_refresh E c w of
     (False, w) \<Rightarrow> (Inr (), c, w)
   | (True, w) \<Rightarrow> (case credential_needs_refresh E c w of
        (False, w) \<Rightarrow> (Inr (), c, w)
      | (True, w) \<Rightarrow> (case app_config c of
           None \<Rightarrow> (Inl (GitHubApiError.AuthenticationFailed
               ''token expired but no GitHub App config available for refresh''), c, w)
         | Some config \<Rightarrow> (case exchange_installation_token E config c w of
              (Inl e, w) \<Rightarrow> (Inl e, c, w)
            | (Inr cred, w) \<Rightarrow>
                let value' = ''Bearer '' @ cred_token cred
                in if \<not> env_header_value_ok E value'
                   then (Inl (GitHubApiError.AuthenticationFailed ''invalid token characters''), c, w)
                   else (Inr (), c\<lparr>gc_credential := cred, auth_header := value',
                           credential_expires_at := GitHubCredential_expires_at_unix cred\<rparr>, w)))))"

subsection \<open>Halt and back-off\<close>

definition is_halted :: "'w Env \<Rightarrow> Client_State \<Rightarrow> 'w \<Rightarrow> bool \<times> 'w" where
  "is_halted E c w =
     (if halted_until c = 0 then (False, w)
      else let (now, w) = env_unix_secs E w in (now < halted_until c, w))"

definition reset_halt :: "Client_State \<Rightarrow> Client_State" where
  "reset_halt c = c\<lparr>halted_until := 0\<rparr>"

definition note_rate_limit_halt :: "'w Env \<Rightarrow> Client_State \<Rightarrow> 'w \<Rightarrow> Client_State \<times> 'w" where
  "note_rate_limit_halt E c w = (case rl_load_reset (env_limits E) w of
     Some reset \<Rightarrow> (c\<lparr>halted_until := max (halted_until c) reset\<rparr>, w)
   | None \<Rightarrow>
       let (now, w) = env_unix_secs E w
       in (c\<lparr>halted_until := max (halted_until c) (saturating_add now 3600)\<rparr>, w))"

text \<open>The wait before a retry, in nanoseconds; \<open>None\<close> where the computation of the exponential panics.\<close>

definition backoff_delay :: "'w Env \<Rightarrow> nat \<Rightarrow> 'w \<Rightarrow> nat option \<times> 'w" where
  "backoff_delay E attempt w = (case env_resume_at E w of
     Some resume_at \<Rightarrow> let (clocks, w) = env_clocks E w in (Some (resume_at - instant_now clocks), w)
   | None \<Rightarrow>
       let base_ms = 1000 * 2 ^ attempt; (jitter_ms, w) = env_jitter E base_ms w
       in (if base_ms + jitter_ms < 2 ^ 64 then Some ((base_ms + jitter_ms) * 1000000) else None, w))"

text \<open>
  \<open>record_secondary_limit_backoff\<close> and \<open>http_failure_kind\<close>; the result \<open>None\<close> stands for the panic in the
  sum of an instant and a server-given wait.
\<close>

definition record_secondary_limit_backoff ::
    "'w Env \<Rightarrow> u16 \<Rightarrow> HeaderMap \<Rightarrow> string \<Rightarrow> 'w \<Rightarrow> unit option \<times> 'w" where
  "record_secondary_limit_backoff E status headers body w =
     (let (clocks, w) = env_clocks E w
      in case secondary_limit_resume_at clocks status headers body of
           None \<Rightarrow> (None, w)
         | Some None \<Rightarrow> (Some (), w)
         | Some (Some resume_at) \<Rightarrow> (Some (), env_set_backoff E resume_at w))"

definition http_failure_kind :: "'w Env \<Rightarrow> u16 \<Rightarrow> Response \<Rightarrow> 'w \<Rightarrow> RequestFailureKind option \<times> 'w" where
  "http_failure_kind E status response w =
     (let body = (case read_body_limited E response MAX_RESPONSE_BODY_BYTES of Inr b \<Rightarrow> b | Inl _ \<Rightarrow> [])
      in case record_secondary_limit_backoff E status (resp_headers response) body w of
           (None, w) \<Rightarrow> (None, w)
         | (Some _, w) \<Rightarrow>
             (Some (RequestFailureKind.Http status (truncate_error_body body)
                (status = 429 \<or> status = 500 \<or> status = 502 \<or> status = 503 \<or> status = 504)), w))"

subsection \<open>One attempt\<close>

definition record_request_attempt :: "'w Env \<Rightarrow> string \<Rightarrow> Client_State \<Rightarrow> 'w \<Rightarrow> Client_State" where
  "record_request_attempt E target c w =
     c\<lparr>budget_checkpoints := snd (BudgetCheckpoints_record (route_of_target target) (env_total_calls E w)
         (env_epoch_limit E w) (budget_checkpoints c))\<rparr>"

definition extract_oauth_headers :: "HeaderMap \<Rightarrow> (string \<rightharpoonup> string)" where
  "extract_oauth_headers headers =
     (\<lambda>key. if key \<in> {''x-oauth-scopes'', ''x-accepted-oauth-scopes'', ''x-oauth-client-id''}
            then header_str headers key else None)"

definition parse_single_body ::
    "'w Env \<Rightarrow> string \<Rightarrow> u16 \<Rightarrow> string \<Rightarrow> string option \<Rightarrow> (string \<rightharpoonup> string) option \<Rightarrow> Client_State \<Rightarrow>
     AttemptResult \<times> Client_State" where
  "parse_single_body E path status body response_etag extracted_headers c =
     (let remember = (\<lambda>c. case response_etag of
            Some etag \<Rightarrow> c\<lparr>last_response_etags := (last_response_etags c)(path \<mapsto> etag)\<rparr> | None \<Rightarrow> c)
      in if \<not> from_utf8_ok body
         then (AttemptResult.Failure (RequestFailureKind.MalformedPayload status MalformedPayloadKind.InvalidUtf8
                 (''response body is not valid UTF-8: '' @ env_utf8_error E body)), c)
         else if str_trim body = []
         then (AttemptResult.Success status None extracted_headers False, remember c)
         else (case env_json E body of
                 Inr d \<Rightarrow> (AttemptResult.Success status (Some d) extracted_headers False, remember c)
               | Inl e \<Rightarrow> (AttemptResult.Failure (RequestFailureKind.MalformedPayload status
                     MalformedPayloadKind.InvalidJson (''invalid json: '' @ e)), c)))"

definition request_single_inner ::
    "'w Env \<Rightarrow> string \<Rightarrow> u64 \<Rightarrow> bool \<Rightarrow> Client_State \<Rightarrow> 'w \<Rightarrow> AttemptResult option \<times> Client_State \<times> 'w" where
  "request_single_inner E path timeout_secs capture_headers c w =
     (case env_get E (base_url c @ path) (auth_header c) None timeout_secs w of
        (Inl (e, timeout), w) \<Rightarrow>
          (Some (AttemptResult.Failure (RequestFailureKind.Transport e timeout)), record_request_attempt E path c w, w)
      | (Inr response, w) \<Rightarrow>
          let c = record_request_attempt E path c w;
              w = update_from_headers (env_limits E) (resp_headers response) w;
              status = resp_status response;
              response_etag = header_str (resp_headers response) ''etag'';
              extracted_headers =
                (if capture_headers then Some (extract_oauth_headers (resp_headers response)) else None)
          in if \<not> is_success status
             then (case http_failure_kind E status response w of
                     (f, w) \<Rightarrow> (map_option AttemptResult.Failure f, c, w))
             else (case read_body_bytes_limited response MAX_RESPONSE_BODY_BYTES of
                     Inl e \<Rightarrow> (Some (AttemptResult.Failure
                         (RequestFailureKind.BodyRead (Some status) (BodyReadError_display e))), c, w)
                   | Inr bytes \<Rightarrow>
                       (case parse_single_body E path status bytes response_etag extracted_headers c of
                          (r, c) \<Rightarrow> (Some r, c, w))))"

abbreviation request_single ::
    "'w Env \<Rightarrow> string \<Rightarrow> u64 \<Rightarrow> Client_State \<Rightarrow> 'w \<Rightarrow> AttemptResult option \<times> Client_State \<times> 'w" where
  "request_single E path timeout_secs \<equiv> request_single_inner E path timeout_secs False"

definition request_single_with_headers ::
    "'w Env \<Rightarrow> string \<Rightarrow> u64 \<Rightarrow> Client_State \<Rightarrow> 'w \<Rightarrow> ApiOutcome option \<times> Client_State \<times> 'w" where
  "request_single_with_headers E path timeout_secs c w =
     (case request_single_inner E path timeout_secs True c w of
        (r, c, w) \<Rightarrow> (map_option AttemptResult_into_api_outcome r, c, w))"

subsection \<open>Pagination\<close>

definition MAX_PAGINATION_PAGES :: nat where "MAX_PAGINATION_PAGES = 500"

definition MAX_PAGINATED_ITEMS :: nat where "MAX_PAGINATED_ITEMS = 500000"

definition parse_paginated_page_body ::
    "'w Env \<Rightarrow> u16 \<Rightarrow> string \<Rightarrow> Value list \<Rightarrow> RequestFailureKind + (bool \<times> Value list)" where
  "parse_paginated_page_body E status body all_items =
     (if \<not> from_utf8_ok body
      then Inl (RequestFailureKind.MalformedPayload status MalformedPayloadKind.InvalidUtf8
             (''malformed paginated response: invalid UTF-8: '' @ env_utf8_error E body))
      else if str_trim body = []
      then Inl (RequestFailureKind.MalformedPayload status MalformedPayloadKind.EmptyBody
             ''malformed paginated response: empty body'')
      else (case env_json E body of
              Inr (Value.Array items) \<Rightarrow>
                let remaining = MAX_PAGINATED_ITEMS - length all_items
                in if length items > remaining then Inr (True, all_items @ take remaining items)
                   else Inr (False, all_items @ items)
            | Inr _ \<Rightarrow> Inl (RequestFailureKind.MalformedPayload status MalformedPayloadKind.NotAnArray
                ''malformed paginated response: expected array'')
            | Inl e \<Rightarrow> Inl (RequestFailureKind.MalformedPayload status MalformedPayloadKind.InvalidJson
                (''invalid json: '' @ e))))"

definition send_paginated_request ::
    "'w Env \<Rightarrow> string \<Rightarrow> u64 \<Rightarrow> Client_State \<Rightarrow> 'w \<Rightarrow> (RequestFailureKind + Response) \<times> Client_State \<times> 'w" where
  "send_paginated_request E url timeout_secs c w =
     (case env_get E url (auth_header c) None timeout_secs w of
        (Inr response, w) \<Rightarrow> (Inr response, record_request_attempt E url c w, w)
      | (Inl (e, timeout), w) \<Rightarrow> (Inl (RequestFailureKind.Transport e timeout), record_request_attempt E url c w, w))"

definition paginated_success :: "Value list \<Rightarrow> bool \<Rightarrow> AttemptResult" where
  "paginated_success all_items truncated = AttemptResult.Success 200 (Some (Value.Array all_items)) None truncated"

text \<open>
  One page of the loop: the end of the loop with its result, or the next URL with the items so far.
\<close>

datatype PageStep = Done "AttemptResult option" | Next string "Value list"

definition page_response ::
    "'w Env \<Rightarrow> Response \<Rightarrow> Value list \<Rightarrow> string \<Rightarrow> 'w \<Rightarrow> PageStep \<times> 'w" where
  "page_response E response all_items trusted w =
     (let w = update_from_headers (env_limits E) (resp_headers response) w;
          status = resp_status response
      in if \<not> is_success status
         then (case http_failure_kind E status response w of
                 (f, w) \<Rightarrow> (PageStep.Done (map_option AttemptResult.Failure f), w))
         else
           let continuation = trusted_continuation E (resp_headers response) trusted
           in case read_body_bytes_limited response MAX_RESPONSE_BODY_BYTES of
                Inl e \<Rightarrow> (PageStep.Done (Some (AttemptResult.Failure
                    (RequestFailureKind.BodyRead (Some status) (BodyReadError_display e)))), w)
              | Inr bytes \<Rightarrow> (case parse_paginated_page_body E status bytes all_items of
                   Inl failure \<Rightarrow> (PageStep.Done (Some (AttemptResult.Failure failure)), w)
                 | Inr (page_truncated, all_items) \<Rightarrow>
                     if page_truncated then (PageStep.Done (Some (paginated_success all_items True)), w)
                     else (case continuation of
                        Continuation.Follow url \<Rightarrow> (PageStep.Next url all_items, w)
                      | Continuation.Exhausted \<Rightarrow> (PageStep.Done (Some (paginated_success all_items False)), w)
                      | _ \<Rightarrow> (PageStep.Done (Some (paginated_success all_items True)), w))))"

definition page_step ::
    "'w Env \<Rightarrow> u64 \<Rightarrow> string \<Rightarrow> nat \<Rightarrow> Value list \<Rightarrow> Client_State \<Rightarrow> 'w \<Rightarrow> PageStep \<times> Client_State \<times> 'w" where
  "page_step E timeout_secs url page_count all_items c w =
     (if page_count > MAX_PAGINATION_PAGES then (PageStep.Done (Some (paginated_success all_items True)), c, w)
      else case is_halted E c w of (halted, w) \<Rightarrow>
        if halted then (PageStep.Done (Some (paginated_success all_items True)), c, w)
        else case (if page_count > 1 then env_acquire E w else (True, w)) of (acquired, w) \<Rightarrow>
          if \<not> acquired then (PageStep.Done (Some (paginated_success all_items True)), c, w)
          else case send_paginated_request E url timeout_secs c w of
             (Inl failure, c, w) \<Rightarrow> (PageStep.Done (Some (AttemptResult.Failure failure)), c, w)
           | (Inr response, c, w) \<Rightarrow>
               (case page_response E response all_items (trusted_origin c) w of (s, w) \<Rightarrow> (s, c, w)))"

lemma page_step_limit: "page_step E t url n items c w = (PageStep.Next url' items', c', w') \<Longrightarrow> n \<le> MAX_PAGINATION_PAGES"
  by (auto simp: page_step_def split: if_splits)

function paginate_from ::
    "'w Env \<Rightarrow> u64 \<Rightarrow> string \<Rightarrow> nat \<Rightarrow> Value list \<Rightarrow> Client_State \<Rightarrow> 'w \<Rightarrow>
     AttemptResult option \<times> Client_State \<times> 'w" where
  "paginate_from E timeout_secs url page_count all_items c w =
     (case page_step E timeout_secs url (page_count + 1) all_items c w of
        (PageStep.Done r, c, w) \<Rightarrow> (r, c, w)
      | (PageStep.Next url all_items, c, w) \<Rightarrow> paginate_from E timeout_secs url (page_count + 1) all_items c w)"
  by pat_completeness auto
termination
  by (relation "measure (\<lambda>(_, _, _, n, _). MAX_PAGINATION_PAGES - n)") (auto dest!: page_step_limit [OF sym])

declare paginate_from.simps [simp del]

definition request_paginated ::
    "'w Env \<Rightarrow> string \<Rightarrow> u64 \<Rightarrow> Client_State \<Rightarrow> 'w \<Rightarrow> AttemptResult option \<times> Client_State \<times> 'w" where
  "request_paginated E path timeout_secs c w = paginate_from E timeout_secs (base_url c @ path) 0 [] c w"

subsection \<open>Retries\<close>

definition one_attempt ::
    "'w Env \<Rightarrow> string \<Rightarrow> bool \<Rightarrow> u64 \<Rightarrow> Client_State \<Rightarrow> 'w \<Rightarrow> AttemptResult option \<times> Client_State \<times> 'w" where
  "one_attempt E path paginate timeout_secs =
     (if paginate then request_paginated E path timeout_secs else request_single E path timeout_secs)"

text \<open>
  The body of the retry loop: the run it returns (\<open>None\<close> for a panic), or the loop goes on with the new value
  of \<open>stale_token_retried\<close>.
\<close>

datatype LoopStep = Return "RequestRun option" | Continue bool

definition attempt_step ::
    "'w Env \<Rightarrow> string \<Rightarrow> bool \<Rightarrow> u64 \<Rightarrow> nat \<Rightarrow> nat \<Rightarrow> bool \<Rightarrow> Client_State \<Rightarrow> 'w \<Rightarrow>
     LoopStep \<times> Client_State \<times> 'w" where
  "attempt_step E path paginate timeout_secs attempts attempt stale_token_retried c w =
     (case one_attempt E path paginate timeout_secs c w of
        (None, c, w) \<Rightarrow> (LoopStep.Return None, c, w)
      | (Some result, c, w) \<Rightarrow>
          let code = AttemptResult_status_code result
          in if rl_should_halt (env_limits E) w
             then (case note_rate_limit_halt E c w of
                     (c, w) \<Rightarrow> (LoopStep.Return (Some (RequestRun_from_attempt result (of_nat attempt) True)), c, w))
             else if code = Some 401 \<and> \<not> stale_token_retried \<and> attempt < attempts - 1
             then (case ensure_credential E c w of
                     (Inl e, c, w) \<Rightarrow>
                       (LoopStep.Return (Some (RequestRun_from_attempt
                          (AttemptResult.Failure (RequestFailureKind.CredentialRefreshFailed
                             (GitHubApiError_display e))) (of_nat attempt) False)), c, w)
                   | (Inr _, c, w) \<Rightarrow> (LoopStep.Continue True, c, w))
             else if AttemptResult_is_retryable result \<and> attempt < attempts - 1
             then
               let c = (if code = Some 429 then c\<lparr>rate_limit_warnings := rate_limit_warnings c + 1\<rparr> else c)
               in (case backoff_delay E attempt w of
                     (None, w) \<Rightarrow> (LoopStep.Return None, c, w)
                   | (Some backoff, w) \<Rightarrow> (LoopStep.Continue stale_token_retried, c, env_sleep E backoff w))
             else (LoopStep.Return (Some (RequestRun_from_attempt result (of_nat attempt) False)), c, w))"

function attempt_loop ::
    "'w Env \<Rightarrow> string \<Rightarrow> bool \<Rightarrow> u64 \<Rightarrow> nat \<Rightarrow> nat \<Rightarrow> bool \<Rightarrow> Client_State \<Rightarrow> 'w \<Rightarrow>
     RequestRun option \<times> Client_State \<times> 'w" where
  "attempt_loop E path paginate timeout_secs attempts attempt stale_token_retried c w =
     (if attempt \<ge> attempts
      then (Some (RequestRun_from_attempt
              (AttemptResult.Failure (RequestFailureKind.Http 401 ''unauthorized'' False)) (of_nat (attempts - 1)) False),
            c, w)
      else case attempt_step E path paginate timeout_secs attempts attempt stale_token_retried c w of
         (LoopStep.Return run, c, w) \<Rightarrow> (run, c, w)
       | (LoopStep.Continue stale_token_retried, c, w) \<Rightarrow>
           attempt_loop E path paginate timeout_secs attempts (attempt + 1) stale_token_retried c w)"
  by pat_completeness auto
termination
  by (relation "measure (\<lambda>(_, _, _, _, attempts, attempt, _). attempts - attempt)") auto

declare attempt_loop.simps [simp del]

text \<open>\<open>retries + 1\<close> would overflow at \<open>u32::MAX\<close>; the callers pass 1 or \<open>DEFAULT_MAX_RETRIES\<close>.\<close>

definition request_inner ::
    "'w Env \<Rightarrow> string \<Rightarrow> bool \<Rightarrow> u32 \<Rightarrow> u64 \<Rightarrow> Client_State \<Rightarrow> 'w \<Rightarrow> RequestRun option \<times> Client_State \<times> 'w" where
  "request_inner E path paginate retries timeout_secs c w =
     (case is_halted E c w of (halted, w) \<Rightarrow>
        if halted then (Some (RequestRun_never_dispatched PreDispatchFailure.HaltedBeforeDispatch), c, w)
        else case ensure_credential E c w of
           (Inl e, c, w) \<Rightarrow>
             (Some (RequestRun_never_dispatched
                (PreDispatchFailure.CredentialRefreshFailed (GitHubApiError_display e))), c, w)
         | (Inr _, c, w) \<Rightarrow> (case env_acquire E w of (acquired, w) \<Rightarrow>
             if \<not> acquired
             then (Some (RequestRun_never_dispatched PreDispatchFailure.BudgetAcquireCancelled), c, w)
             else attempt_loop E path paginate timeout_secs (unat retries + 1) 0 False c w))"

abbreviation request_run ::
    "'w Env \<Rightarrow> string \<Rightarrow> bool \<Rightarrow> u32 \<Rightarrow> u64 \<Rightarrow> Client_State \<Rightarrow> 'w \<Rightarrow> RequestRun option \<times> Client_State \<times> 'w" where
  "request_run \<equiv> request_inner"

definition request ::
    "'w Env \<Rightarrow> string \<Rightarrow> bool \<Rightarrow> u32 \<Rightarrow> u64 \<Rightarrow> Client_State \<Rightarrow> 'w \<Rightarrow> ApiOutcome option \<times> Client_State \<times> 'w" where
  "request E path paginate retries timeout_secs c w =
     (case request_run E path paginate retries timeout_secs c w of
        (run, c, w) \<Rightarrow> (map_option RequestRun_outcome run, c, w))"

end
