(* ===== verification/Ghas_Scanning.thy ===== *)
theory Ghas_Scanning
  imports Aggregate Github_Client
begin

text \<open>
  The secret-scanning collector (\<open>collector/ghas_scanning.rs\<close>): the organisation-wide alert summary, the
  correlation of alerts with the inventory, and the evaluation of one repository from its metadata and its
  alert probe. The parser and the formatter of timestamps and the client are parameters; log records are left
  out.
\<close>

subsection \<open>Ages and timestamps\<close>

definition scope_key :: "Repository \<Rightarrow> string" where
  "scope_key repo = repo_id repo"

definition empty_alert_buckets :: "(string \<times> u64) list" where
  "empty_alert_buckets =
     map (\<lambda>(label, _, _). (label, 0)) SECRET_ALERT_AGE_BUCKETS @ [(SECRET_ALERT_UNKNOWN_AGE_BUCKET, 0)]"

definition bucket_for_days :: "u64 \<Rightarrow> string option" where
  "bucket_for_days days = map_option fst (find (\<lambda>(label, min_days, max_days).
     \<not> days < min_days \<and> (case max_days of None \<Rightarrow> True | Some m \<Rightarrow> days \<le> m)) SECRET_ALERT_AGE_BUCKETS)"

definition age_bucket :: "(string \<Rightarrow> Timestamp option) \<Rightarrow> string \<Rightarrow> Timestamp \<Rightarrow> string option" where
  "age_bucket parse created now = (case parse_iso8601 parse created of
     None \<Rightarrow> None
   | Some t \<Rightarrow>
       let age_days = max (duration_since_as_secs now t sdiv 86400) 0
       in if age_days < 2 ^ 64 then bucket_for_days (word_of_int age_days) else None)"

definition normalize_iso8601 :: "(string \<Rightarrow> Timestamp option) \<Rightarrow> (Timestamp \<Rightarrow> string) \<Rightarrow> string \<Rightarrow> string option" where
  "normalize_iso8601 parse format s = map_option format (parse_iso8601 parse s)"

definition track_timestamp :: "string option \<Rightarrow> string \<Rightarrow> bool \<Rightarrow> string option" where
  "track_timestamp current candidate keep_oldest = (case current of
     None \<Rightarrow> Some candidate
   | Some existing \<Rightarrow>
       if (keep_oldest \<and> candidate < existing) \<or> (\<not> keep_oldest \<and> candidate > existing)
       then Some candidate else current)"

subsection \<open>Organisation alerts\<close>

definition build_failure_summary :: "ApiOutcome \<Rightarrow> OrgAlertSummary" where
  "build_failure_summary result =
     (let code = ApiOutcome_status_code result;
          (status, reason) =
            (if code = Some 401 \<or> code = Some 403 then (CollectionStatus.PermissionDenied, ''permission_denied'')
             else if code = Some 429 then (CollectionStatus.Unavailable, ''rate_limited'')
             else if code = Some 404 then (CollectionStatus.Unavailable, ''alerts_unavailable'')
             else if ApiOutcome_is_retryable result then (CollectionStatus.TransientError, ''transient_error'')
             else (CollectionStatus.Unavailable, ''alerts_unavailable''))
      in \<lparr>collection_status = status, collection_reason = Some reason, org_http_status = code,
          per_repo = Map.empty, open_secret_alert_age_buckets = empty_alert_buckets, total_open_secret_alerts = 0,
          oldest_open_secret_alert_created_at = None, newest_open_secret_alert_created_at = None\<rparr>)"

datatype AlertCorrelation = Matched Repository | OutOfScope | Conflicting | Unidentifiable

definition evaluate_org_alert_outcome :: "ApiOutcome \<Rightarrow> OrgAlertSummary + Value list" where
  "evaluate_org_alert_outcome result = (case result of
     ApiOutcome.Success _ d _ truncated \<Rightarrow>
       if truncated then Inl (build_failure_summary result)
       else (case d of
          Some (Value.Array items) \<Rightarrow> Inr items
        | _ \<Rightarrow> Inl ((build_failure_summary result)\<lparr>collection_reason := Some ''malformed_response''\<rparr>))
   | ApiOutcome.Failure _ _ _ \<Rightarrow> Inl (build_failure_summary result))"

definition classified_org_outcome :: "RequestRun \<Rightarrow> OrgAlertSummary + ApiOutcome" where
  "classified_org_outcome run =
     (let result = RequestRun_outcome run
      in case RequestRun_classification run of
           RequestClassification.MalformedPayload _ _ \<Rightarrow>
             Inl ((build_failure_summary result)\<lparr>collection_reason := Some ''malformed_response''\<rparr>)
         | _ \<Rightarrow> Inr result)"

fun Value_as_u64 :: "Value \<Rightarrow> u64 option" where
  "Value_as_u64 (Value.Number (PosInt n)) = Some n"
| "Value_as_u64 _ = None"

definition alert_num_id :: "Value \<Rightarrow> string option" where
  "alert_num_id repo =
     Option.bind (Option.bind (Value_get ''id'' repo)
       (\<lambda>v. case Value_as_u64 v of Some n \<Rightarrow> Some (nat_display (unat n)) | None \<Rightarrow> Value_as_str v))
       (\<lambda>i. if i \<noteq> [] then Some i else None)"

definition alert_node_id :: "Value \<Rightarrow> string option" where
  "alert_node_id repo =
     Option.bind (Option.bind (Value_get ''node_id'' repo) Value_as_str)
       (\<lambda>i. if i \<noteq> [] then Some i else None)"

definition alert_repository :: "Value \<Rightarrow> Value option" where
  "alert_repository alert =
     Option.bind (Value_get ''repository'' alert) (\<lambda>r. if Value_is_object r then Some r else None)"

definition correlate_alert :: "Value \<Rightarrow> (string \<rightharpoonup> Repository) \<Rightarrow> AlertCorrelation" where
  "correlate_alert alert known_scope = (case alert_repository alert of
     None \<Rightarrow> AlertCorrelation.Unidentifiable
   | Some repo \<Rightarrow>
       let num_id = alert_num_id repo; node_id = alert_node_id repo
       in case (Option.bind num_id known_scope, Option.bind node_id known_scope) of
            (Some repo_num, Some repo_node) \<Rightarrow>
              if repo_id repo_num \<noteq> repo_id repo_node then AlertCorrelation.Conflicting
              else AlertCorrelation.Matched repo_num
          | (Some repo, None) \<Rightarrow> AlertCorrelation.Matched repo
          | (None, Some repo) \<Rightarrow> AlertCorrelation.Matched repo
          | (None, None) \<Rightarrow>
              if num_id = None \<and> node_id = None then AlertCorrelation.Unidentifiable
              else AlertCorrelation.OutOfScope)"

fun bump_bucket :: "string \<Rightarrow> (string \<times> u64) list \<Rightarrow> (string \<times> u64) list" where
  "bump_bucket key [] = [(key, 1)]"
| "bump_bucket key ((k, n) # bs) = (if k = key then (k, n + 1) # bs else (k, n) # bump_bucket key bs)"

definition RepoAlertSummary_default :: RepoAlertSummary where
  "RepoAlertSummary_default =
     \<lparr>open_alert_count = 0, oldest_open_alert_created_at = None, newest_open_alert_created_at = None\<rparr>"

definition count_alert ::
    "(string \<Rightarrow> Timestamp option) \<Rightarrow> (Timestamp \<Rightarrow> string) \<Rightarrow> Timestamp \<Rightarrow> Value \<Rightarrow> Repository \<Rightarrow> OrgAlertSummary \<Rightarrow>
     OrgAlertSummary" where
  "count_alert parse format now alert repo summary =
     (let key = scope_key repo;
          entry = (case per_repo summary key of Some r \<Rightarrow> r | None \<Rightarrow> RepoAlertSummary_default);
          entry = entry\<lparr>open_alert_count := open_alert_count entry + 1\<rparr>;
          summary = summary\<lparr>total_open_secret_alerts := total_open_secret_alerts summary + 1\<rparr>;
          created = Option.bind (Value_get ''created_at'' alert) Value_as_str;
          stamp = Option.bind created (normalize_iso8601 parse format);
          entry = (case stamp of
             None \<Rightarrow> entry
           | Some t \<Rightarrow> entry\<lparr>
               oldest_open_alert_created_at := track_timestamp (oldest_open_alert_created_at entry) t True,
               newest_open_alert_created_at := track_timestamp (newest_open_alert_created_at entry) t False\<rparr>);
          summary = (case stamp of
             None \<Rightarrow> summary
           | Some t \<Rightarrow> summary\<lparr>
               oldest_open_secret_alert_created_at :=
                 track_timestamp (oldest_open_secret_alert_created_at summary) t True,
               newest_open_secret_alert_created_at :=
                 track_timestamp (newest_open_secret_alert_created_at summary) t False\<rparr>);
          bucket = (case Option.bind created (\<lambda>c. age_bucket parse c now) of
             Some b \<Rightarrow> b | None \<Rightarrow> SECRET_ALERT_UNKNOWN_AGE_BUCKET)
      in summary\<lparr>per_repo := (per_repo summary)(key \<mapsto> entry),
           open_secret_alert_age_buckets := bump_bucket bucket (open_secret_alert_age_buckets summary)\<rparr>)"

definition process_alert ::
    "(string \<Rightarrow> Timestamp option) \<Rightarrow> (Timestamp \<Rightarrow> string) \<Rightarrow> Timestamp \<Rightarrow> (string \<rightharpoonup> Repository) \<Rightarrow> Value \<Rightarrow>
     OrgAlertSummary \<Rightarrow> OrgAlertSummary" where
  "process_alert parse format now known_scope alert summary = (case correlate_alert alert known_scope of
     AlertCorrelation.Matched repo \<Rightarrow> count_alert parse format now alert repo summary
   | AlertCorrelation.OutOfScope \<Rightarrow> summary
   | AlertCorrelation.Conflicting \<Rightarrow>
       summary\<lparr>collection_status := CollectionStatus.Unavailable,
         collection_reason := Some ''alert_coordinate_conflict''\<rparr>
   | AlertCorrelation.Unidentifiable \<Rightarrow>
       summary\<lparr>collection_status := CollectionStatus.Unavailable,
         collection_reason := Some ''alert_correlation_unidentifiable''\<rparr>)"

text \<open>One repository of the inventory enters the scope, under its id and then under its node id.\<close>

definition scope_conflict :: "(string \<rightharpoonup> Repository) \<Rightarrow> string \<Rightarrow> Repository \<Rightarrow> bool" where
  "scope_conflict scope key repo = (case scope key of Some e \<Rightarrow> repo_id e \<noteq> repo_id repo | None \<Rightarrow> False)"

definition scope_add ::
    "Repository \<Rightarrow> (string \<rightharpoonup> Repository) \<times> bool \<Rightarrow> (string \<rightharpoonup> Repository) \<times> bool" where
  "scope_add repo st =
     (let (scope, collision) = st; key = scope_key repo;
          collision = (collision \<or> scope_conflict scope key repo);
          scope = scope(key \<mapsto> repo)
      in case repo_node_id repo of
           None \<Rightarrow> (scope, collision)
         | Some nid \<Rightarrow> (scope(nid \<mapsto> repo), collision \<or> scope_conflict scope nid repo))"

definition known_scope_of :: "Repository list \<Rightarrow> (string \<rightharpoonup> Repository) \<times> bool" where
  "known_scope_of repositories = fold scope_add repositories (Map.empty, False)"

definition collect_org_alerts ::
    "(string \<Rightarrow> Timestamp option) \<Rightarrow> (Timestamp \<Rightarrow> string) \<Rightarrow> Timestamp \<Rightarrow> string \<Rightarrow> (string \<Rightarrow> RequestRun) \<Rightarrow>
     Repository list \<Rightarrow> string \<Rightarrow> OrgAlertSummary" where
  "collect_org_alerts parse format clock org send repositories run_time =
     (let now = (case parse_iso8601 parse run_time of Some t \<Rightarrow> t | None \<Rightarrow> clock);
          (known_scope, scope_collision) = known_scope_of repositories;
          run = send
            (''/orgs/'' @ org @ ''/secret-scanning/alerts?state=open&per_page=100&hide_secret=true'')
      in case classified_org_outcome run of
           Inl summary \<Rightarrow> summary
         | Inr result \<Rightarrow>
             (case evaluate_org_alert_outcome result of
                Inl summary \<Rightarrow> summary
              | Inr alert_items \<Rightarrow>
                  fold (process_alert parse format now known_scope) alert_items
                    \<lparr>collection_status = (if scope_collision then CollectionStatus.Unavailable else CollectionStatus.Success),
                     collection_reason = (if scope_collision then Some ''repository_alias_collision'' else None),
                     org_http_status = ApiOutcome_status_code result, per_repo = Map.empty,
                     open_secret_alert_age_buckets = empty_alert_buckets, total_open_secret_alerts = 0,
                     oldest_open_secret_alert_created_at = None, newest_open_secret_alert_created_at = None\<rparr>))"

subsection \<open>One repository\<close>

datatype RepoMetadata =
  Enabled "u16 option" | Disabled "u16 option" | Unavailable MetadataUnavailable

definition failure_reason :: "ApiOutcome \<Rightarrow> SecretScanningFailureReason" where
  "failure_reason outcome =
     (let code = ApiOutcome_status_code outcome
      in if code = Some 401 \<or> code = Some 403 then SecretScanningFailureReason.PermissionDenied
         else if code = Some 404 then SecretScanningFailureReason.Unavailable
         else if code = Some 429 then SecretScanningFailureReason.RateLimited
         else if ApiOutcome_is_retryable outcome then SecretScanningFailureReason.Transient
         else SecretScanningFailureReason.Invalid)"

fun metadata_field :: "u16 option \<Rightarrow> string list \<Rightarrow> Value \<Rightarrow> RepoMetadata + Value" where
  "metadata_field http [] node = Inr node"
| "metadata_field http (field # path) node = (case Value_get field node of
     None \<Rightarrow> Inl (RepoMetadata.Unavailable (MetadataUnavailable.Missing http))
   | Some v \<Rightarrow>
       if v = Value.Null then Inl (RepoMetadata.Unavailable (MetadataUnavailable.Missing http))
       else if field \<noteq> ''status'' \<and> \<not> Value_is_object v
       then Inl (RepoMetadata.Unavailable (MetadataUnavailable.Malformed http))
       else metadata_field http path v)"

definition extract_repo_metadata :: "ApiOutcome \<Rightarrow> RepoMetadata" where
  "extract_repo_metadata outcome =
     (let http = ApiOutcome_status_code outcome
      in if \<not> ApiOutcome_is_ok outcome
         then RepoMetadata.Unavailable (MetadataUnavailable.Failure (failure_reason outcome) http)
         else (case ApiOutcome_data outcome of
            None \<Rightarrow> RepoMetadata.Unavailable (MetadataUnavailable.Malformed http)
          | Some d \<Rightarrow>
              if \<not> Value_is_object d then RepoMetadata.Unavailable (MetadataUnavailable.Malformed http)
              else (case metadata_field http [''security_and_analysis'', ''secret_scanning'', ''status''] d of
                 Inl m \<Rightarrow> m
               | Inr node \<Rightarrow>
                   if Value_as_str node = Some ''enabled'' then RepoMetadata.Enabled http
                   else if Value_as_str node = Some ''disabled'' then RepoMetadata.Disabled http
                   else RepoMetadata.Unavailable (MetadataUnavailable.Malformed http))))"

definition endpoint_probe :: "ApiOutcome \<Rightarrow> SecretScanningAlerts" where
  "endpoint_probe outcome =
     (let http = ApiOutcome_status_code outcome
      in if ApiOutcome_is_ok outcome
         then (case Option.bind (ApiOutcome_data outcome) Value_as_array of
            Some items \<Rightarrow>
              if ApiOutcome_is_truncated outcome
              then SecretScanningAlerts.Unobservable ProbeSource.PerRepoEndpoint SecretScanningFailureReason.Invalid http
              else SecretScanningAlerts.Observable ProbeSource.PerRepoEndpoint (items \<noteq> []) http
          | None \<Rightarrow>
              SecretScanningAlerts.Unobservable ProbeSource.PerRepoEndpoint SecretScanningFailureReason.Invalid http)
         else SecretScanningAlerts.Unobservable ProbeSource.PerRepoEndpoint (failure_reason outcome) http)"

definition org_probe :: "Repository \<Rightarrow> OrgAlertSummary \<Rightarrow> SecretScanningAlerts" where
  "org_probe repo summary =
     (let http = org_http_status summary; reason = collection_reason summary;
          failed = (\<lambda>r. SecretScanningAlerts.Unobservable ProbeSource.OrgSummary r http)
      in case collection_status summary of
           CollectionStatus.Success \<Rightarrow>
             SecretScanningAlerts.Observable ProbeSource.OrgSummary
               (case per_repo summary (scope_key repo) of Some s \<Rightarrow> open_alert_count s > 0 | None \<Rightarrow> False) http
         | CollectionStatus.PermissionDenied \<Rightarrow> failed SecretScanningFailureReason.PermissionDenied
         | CollectionStatus.TransientError \<Rightarrow> failed SecretScanningFailureReason.Transient
         | _ \<Rightarrow>
             if reason \<in> {Some ''malformed_response'', Some ''malformed_alert_item'',
                  Some ''alert_correlation_unidentifiable''}
             then failed SecretScanningFailureReason.Invalid
             else if reason \<in> {Some ''alert_coordinate_conflict'', Some ''repository_alias_collision''}
             then failed SecretScanningFailureReason.Conflict
             else if reason = Some ''rate_limited'' then failed SecretScanningFailureReason.RateLimited
             else failed SecretScanningFailureReason.Unavailable)"

definition from_observations :: "RepoMetadata \<Rightarrow> SecretScanningAlerts \<Rightarrow> string \<Rightarrow> SecretScanningResult" where
  "from_observations metadata probe timestamp = (case metadata of
     RepoMetadata.Enabled http \<Rightarrow> SecretScanningResult.Enabled (EnabledProvenance.Metadata http probe) timestamp
   | RepoMetadata.Disabled metadata_http \<Rightarrow>
       SecretScanningResult.Disabled metadata_http
         (case probe of
            SecretScanningAlerts.Observable source open' http \<Rightarrow>
              if open' then DisabledObservation.StatusMismatch source http
              else DisabledObservation.NoMismatch source http
          | SecretScanningAlerts.Unobservable source reason http \<Rightarrow>
              DisabledObservation.ProbeFailed source reason http) timestamp
   | RepoMetadata.Unavailable m \<Rightarrow>
       (case probe of
          SecretScanningAlerts.Observable ProbeSource.PerRepoEndpoint open' http \<Rightarrow>
            SecretScanningResult.Enabled (EnabledProvenance.Fallback m open' http) timestamp
        | SecretScanningAlerts.Observable ProbeSource.OrgSummary open' http \<Rightarrow>
            SecretScanningResult.Unobservable m (UnobservableProbe.OrgSummaryObserved open' http) timestamp
        | SecretScanningAlerts.Unobservable source reason http \<Rightarrow>
            SecretScanningResult.Unobservable m (UnobservableProbe.Failed source reason http) timestamp))"

definition evaluate_fallback :: "Client \<Rightarrow> string \<Rightarrow> string \<Rightarrow> RepoMetadata \<Rightarrow> SecretScanningResult" where
  "evaluate_fallback client safe_name run_time metadata =
     (let alerts = client_request client
            (''/repos/'' @ org_name client @ ''/'' @ safe_name @ ''/secret-scanning/alerts?state=open&per_page=1'')
      in from_observations metadata (endpoint_probe alerts) run_time)"

definition secret_scanning_evaluate ::
    "(string \<Rightarrow> string option) \<Rightarrow> Client \<Rightarrow> Repository \<Rightarrow> string \<Rightarrow> OrgAlertSummary option \<Rightarrow> SecretScanningResult" where
  "secret_scanning_evaluate sanitize client repo run_time org_summary = (case sanitize (repo_name repo) of
     None \<Rightarrow> SecretScanningResult_unobservable SecretScanningFailureReason.Invalid run_time
   | Some safe_name \<Rightarrow>
       let metadata = extract_repo_metadata (client_repo_details client safe_name)
       in case org_summary of
            Some summary \<Rightarrow> from_observations metadata (org_probe repo summary) run_time
          | None \<Rightarrow> evaluate_fallback client safe_name run_time metadata)"

subsection \<open>The scope\<close>

definition scope_keys :: "Repository \<Rightarrow> string set" where
  "scope_keys repo = insert (repo_id repo) (set_option (repo_node_id repo))"

text \<open>Every key of the scope is a key of the repository it names, and no key of a repository names another.\<close>

definition scope_ok :: "Repository set \<Rightarrow> (string \<rightharpoonup> Repository) \<Rightarrow> bool" where
  "scope_ok R scope \<longleftrightarrow>
     (\<forall>k r. scope k = Some r \<longrightarrow> r \<in> R \<and> k \<in> scope_keys r) \<and>
     (\<forall>r \<in> R. \<forall>k \<in> scope_keys r. \<exists>r'. scope k = Some r' \<and> repo_id r' = repo_id r)"

definition names_repo :: "(string \<rightharpoonup> Repository) \<Rightarrow> string \<Rightarrow> string \<Rightarrow> bool" where
  "names_repo scope k i \<longleftrightarrow> (\<exists>r. scope k = Some r \<and> repo_id r = i)"

lemma names_repo_put: "names_repo scope k i \<Longrightarrow> \<not> scope_conflict scope k0 r \<Longrightarrow> names_repo (scope(k0 \<mapsto> r)) k i"
  by (auto simp: names_repo_def scope_conflict_def)

lemma names_repo_new: "names_repo (scope(k \<mapsto> r)) k (repo_id r)"
  by (simp add: names_repo_def)

lemma scope_add_ok:
  assumes ok: "scope_ok R scope" and add: "scope_add repo (scope, c) = (scope', False)"
  shows "scope_ok (insert repo R) scope'"
proof -
  let ?s = "scope(repo_id repo \<mapsto> repo)"
  have nc: "\<not> scope_conflict scope (repo_id repo) repo"
    "repo_node_id repo = Some nid \<Longrightarrow> \<not> scope_conflict ?s nid repo" for nid
    using add by (auto simp: scope_add_def scope_key_def Let_def split: option.splits)
  have s': "scope' = (case repo_node_id repo of None \<Rightarrow> ?s | Some nid \<Rightarrow> ?s(nid \<mapsto> repo))"
    using add by (auto simp: scope_add_def scope_key_def Let_def split: option.splits)
  have keep: "names_repo scope' k i" if "names_repo ?s k i" for k i
    using that nc(2) by (auto simp: s' intro: names_repo_put split: option.split)
  have old: "names_repo scope' k (repo_id r)" if "r \<in> R" "k \<in> scope_keys r" for r k
    using ok that by (intro keep names_repo_put nc(1)) (auto simp: scope_ok_def names_repo_def)
  have "names_repo scope' (repo_id repo) (repo_id repo)" by (intro keep names_repo_new)
  moreover have "names_repo scope' nid (repo_id repo)" if "repo_node_id repo = Some nid" for nid
    using that by (simp add: s' names_repo_new)
  ultimately have new: "names_repo scope' k (repo_id repo)" if "k \<in> scope_keys repo" for k
    using that by (auto simp: scope_keys_def)
  have "r \<in> insert repo R \<and> k \<in> scope_keys r" if "scope' k = Some r" for k r
  proof (cases "scope k = Some r")
    case False
    with that have "r = repo" by (auto simp: s' split: option.splits if_splits)
    with that False show ?thesis by (auto simp: s' scope_keys_def split: option.splits if_splits)
  qed (use ok in \<open>auto simp: scope_ok_def\<close>)
  with old new show ?thesis by (auto simp: scope_ok_def names_repo_def)
qed

lemma fold_scope_add_ok:
  "fold scope_add rs (scope, c) = (scope', False) \<Longrightarrow> scope_ok R scope \<Longrightarrow> scope_ok (R \<union> set rs) scope'"
proof (induction rs arbitrary: scope c R)
  case (Cons r rs)
  obtain s1 c1 where s1: "scope_add r (scope, c) = (s1, c1)" by force
  have mono: "snd (fold scope_add xs (s, True))" for xs s
    by (induction xs arbitrary: s) (auto simp: scope_add_def Let_def split: option.split)
  have "\<not> c1" using Cons.prems(1) s1 mono [of rs s1] by (cases c1) auto
  with s1 have "scope_ok (insert r R) s1" using scope_add_ok [OF Cons.prems(2)] by simp
  from Cons.IH [OF _ this] Cons.prems(1) s1 show ?case by simp
qed simp

lemma known_scope_ok: "known_scope_of rs = (scope, False) \<Longrightarrow> scope_ok (set rs) scope"
  using fold_scope_add_ok [of rs Map.empty False scope "{}"]
  by (simp add: known_scope_of_def scope_ok_def)

subsection \<open>Counting\<close>

definition alert_count :: "OrgAlertSummary \<Rightarrow> string \<Rightarrow> u64" where
  "alert_count summary key = (case per_repo summary key of Some r \<Rightarrow> open_alert_count r | None \<Rightarrow> 0)"

definition matched_key :: "(string \<rightharpoonup> Repository) \<Rightarrow> Value \<Rightarrow> string option" where
  "matched_key scope alert = (case correlate_alert alert scope of AlertCorrelation.Matched r \<Rightarrow> Some (repo_id r) | _ \<Rightarrow> None)"

definition usable_alert :: "(string \<rightharpoonup> Repository) \<Rightarrow> Value \<Rightarrow> bool" where
  "usable_alert scope alert \<longleftrightarrow>
     correlate_alert alert scope \<noteq> AlertCorrelation.Conflicting \<and> correlate_alert alert scope \<noteq> AlertCorrelation.Unidentifiable"

lemma sum_bump_bucket: "sum_list (map snd (bump_bucket k bs)) = sum_list (map snd bs) + 1"
  by (induction k bs rule: bump_bucket.induct) (auto simp: algebra_simps)

lemma process_alert_counts:
  fixes parse format now scope alert
  defines "p \<equiv> process_alert parse format now scope alert"
  shows "alert_count (p s) k = alert_count s k + (if matched_key scope alert = Some k then 1 else 0)"
    and "total_open_secret_alerts (p s) = total_open_secret_alerts s + (if matched_key scope alert = None then 0 else 1)"
    and "sum_list (map snd (open_secret_alert_age_buckets (p s))) =
      sum_list (map snd (open_secret_alert_age_buckets s)) + (if matched_key scope alert = None then 0 else 1)"
    and "collection_status (p s) = (if usable_alert scope alert then collection_status s else CollectionStatus.Unavailable)"
    and "org_http_status (p s) = org_http_status s"
  by (auto simp: p_def process_alert_def count_alert_def alert_count_def matched_key_def usable_alert_def scope_key_def
      RepoAlertSummary_default_def sum_bump_bucket Let_def split: AlertCorrelation.split option.split)

lemma fold_process_alert_counts:
  fixes parse format now scope
  defines "f \<equiv> fold (process_alert parse format now scope)"
  shows "alert_count (f alerts s) k = alert_count s k + of_nat (length (filter (\<lambda>a. matched_key scope a = Some k) alerts))"
    and "total_open_secret_alerts (f alerts s) =
      total_open_secret_alerts s + of_nat (length (filter (\<lambda>a. matched_key scope a \<noteq> None) alerts))"
    and "sum_list (map snd (open_secret_alert_age_buckets (f alerts s))) =
      sum_list (map snd (open_secret_alert_age_buckets s)) +
        of_nat (length (filter (\<lambda>a. matched_key scope a \<noteq> None) alerts))"
    and "collection_status (f alerts s) =
      (if list_all (usable_alert scope) alerts then collection_status s else CollectionStatus.Unavailable)"
    and "org_http_status (f alerts s) = org_http_status s"
  unfolding f_def
  by (induction alerts arbitrary: s) (auto simp: process_alert_counts)

lemma build_failure_summary_not_success: "collection_status (build_failure_summary r) \<noteq> CollectionStatus.Success"
  by (auto simp: build_failure_summary_def Let_def)

lemma collect_success:
  assumes "collection_status (collect_org_alerts parse format clock org send repos t) = CollectionStatus.Success"
  obtains scope code alerts h n now where
    "run_result (send (''/orgs/'' @ org @ ''/secret-scanning/alerts?state=open&per_page=100&hide_secret=true'')) =
       RunResult.Success code (Some (Value.Array alerts)) h False n"
    "known_scope_of repos = (scope, False)" "list_all (usable_alert scope) alerts"
    "collect_org_alerts parse format clock org send repos t = fold (process_alert parse format now scope) alerts
       \<lparr>collection_status = CollectionStatus.Success, collection_reason = None, org_http_status = Some code,
        per_repo = Map.empty, open_secret_alert_age_buckets = empty_alert_buckets, total_open_secret_alerts = 0,
        oldest_open_secret_alert_created_at = None, newest_open_secret_alert_created_at = None\<rparr>"
proof -
  let ?run = "send (''/orgs/'' @ org @ ''/secret-scanning/alerts?state=open&per_page=100&hide_secret=true'')"
  obtain scope collision where scope: "known_scope_of repos = (scope, collision)" by force
  note unfolded = assms [unfolded collect_org_alerts_def Let_def scope prod.case]
  obtain result where r: "classified_org_outcome ?run = Inr result"
    using unfolded build_failure_summary_not_success
    by (cases "classified_org_outcome ?run")
      (auto simp: classified_org_outcome_def Let_def split: RequestClassification.splits)
  then have result: "result = RequestRun_outcome ?run"
    by (auto simp: classified_org_outcome_def Let_def split: RequestClassification.splits)
  obtain alerts where a: "evaluate_org_alert_outcome result = Inr alerts"
    using unfolded r build_failure_summary_not_success
    by (cases "evaluate_org_alert_outcome result")
      (auto simp: evaluate_org_alert_outcome_def split: ApiOutcome.splits if_splits option.splits Value.splits)
  then obtain code h where ok: "result = ApiOutcome.Success code (Some (Value.Array alerts)) h False"
    by (auto simp: evaluate_org_alert_outcome_def split: ApiOutcome.splits if_splits option.splits Value.splits)
  with result obtain n where run: "run_result ?run = RunResult.Success code (Some (Value.Array alerts)) h False n"
    by (auto simp: RequestRun_outcome_def ApiOutcome_failure_def
        split: RunResult.splits PreDispatchFailure.splits)
      (metis ApiOutcome.distinct(1) RequestFailureKind.exhaust RequestFailureKind_into_api_outcome.simps ApiOutcome_failure_def)+
  from unfolded r a have "\<not> collision" "list_all (usable_alert scope) alerts"
    by (auto simp: fold_process_alert_counts split: if_splits)
  with scope run r a ok show thesis
    by (intro that [OF run]) (auto simp: collect_org_alerts_def Let_def)
qed

definition alert_concerns :: "Repository \<Rightarrow> Value \<Rightarrow> bool" where
  "alert_concerns r alert \<longleftrightarrow> (\<exists>repo. alert_repository alert = Some repo \<and>
     (alert_num_id repo \<in> Some ` scope_keys r \<or> alert_node_id repo \<in> Some ` scope_keys r))"

lemma scope_okD:
  assumes "scope_ok R scope" "inj_on repo_id R" "r \<in> R"
  shows "scope k = Some r \<longleftrightarrow> k \<in> scope_keys r"
  using assms by (auto simp: scope_ok_def inj_on_def) fastforce

lemma scope_ok_range: "scope_ok R scope \<Longrightarrow> scope k = Some r \<Longrightarrow> r \<in> R"
  by (auto simp: scope_ok_def)


lemma matched_key_concerns:
  assumes ok: "scope_ok R scope" and inj: "inj_on repo_id R" and r: "r \<in> R" and use: "usable_alert scope alert"
  shows "matched_key scope alert = Some (repo_id r) \<longleftrightarrow> alert_concerns r alert"
proof (cases "alert_repository alert")
  case (Some repo)
  let ?n = "Option.bind (alert_num_id repo) scope" and ?d = "Option.bind (alert_node_id repo) scope"
  have at: "Option.bind i scope = Some r \<longleftrightarrow> i \<in> Some ` scope_keys r" for i
    by (auto simp: bind_eq_Some_conv scope_okD [OF ok inj r])
  have same: "repo_id r' = repo_id r \<longleftrightarrow> r' = r" if "Option.bind i scope = Some r'" for r' i
    using that inj r scope_ok_range [OF ok] by (auto simp: inj_on_def bind_eq_Some_conv)
  have concerns: "alert_concerns r alert \<longleftrightarrow> ?n = Some r \<or> ?d = Some r"
    by (simp add: alert_concerns_def Some at)
  show ?thesis
  proof (cases ?n)
    case None
    then show ?thesis
      by (cases ?d) (simp_all add: concerns matched_key_def correlate_alert_def Some Let_def same)
  next
    case n: (Some rn)
    show ?thesis
    proof (cases ?d)
      case None
      then show ?thesis by (simp add: concerns matched_key_def correlate_alert_def Some Let_def n same [OF n])
    next
      case d: (Some rd)
      have "repo_id rn = repo_id rd"
        using use by (auto simp: usable_alert_def correlate_alert_def Some Let_def n d split: if_splits)
      then show ?thesis
        using same [OF n] same [OF d] by (auto simp: concerns matched_key_def correlate_alert_def Some Let_def n d)
    qed
  qed
qed (simp add: matched_key_def correlate_alert_def alert_concerns_def)

lemma matched_key_range:
  "scope_ok R scope \<Longrightarrow> matched_key scope alert = Some k \<Longrightarrow> \<exists>r \<in> R. k = repo_id r"
  by (auto simp: matched_key_def correlate_alert_def Let_def bind_eq_Some_conv scope_ok_range
      split: option.splits if_splits AlertCorrelation.splits)

lemma matched_some_concerns:
  assumes "scope_ok R scope" "inj_on repo_id R" "usable_alert scope alert"
  shows "matched_key scope alert \<noteq> None \<longleftrightarrow> (\<exists>r \<in> R. alert_concerns r alert)"
  using matched_key_range [OF assms(1), of alert] matched_key_concerns [OF assms(1,2) _ assms(3)] by blast

subsection \<open>The organisation summary is exact\<close>

definition org_alerts_path :: "string \<Rightarrow> string" where
  "org_alerts_path org = ''/orgs/'' @ org @ ''/secret-scanning/alerts?state=open&per_page=100&hide_secret=true''"

lemma filter_length_cong: "(\<And>x. x \<in> set xs \<Longrightarrow> P x \<longleftrightarrow> Q x) \<Longrightarrow> length (filter P xs) = length (filter Q xs)"
  by (metis filter_cong)

lemma unat_count: "length xs < 2 ^ 64 \<Longrightarrow> unat (of_nat (length (filter P xs)) :: u64) = length (filter P xs)"
  using order_le_less_trans [OF length_filter_le, of xs _ P] by (simp add: unat_of_nat)

lemma org_probe_success:
  assumes "collection_status s = CollectionStatus.Success"
  shows "org_probe r s =
    SecretScanningAlerts.Observable ProbeSource.OrgSummary (0 < unat (alert_count s (repo_id r))) (org_http_status s)"
  using assms by (auto simp: org_probe_def alert_count_def scope_key_def Let_def word_less_nat_alt split: option.split)

text \<open>
  C18. A successful organisation summary is exact: the count of every repository of the inventory is the number of the
  returned alerts that carry one of its identifiers, the total and the sum of the age buckets are the number of
  alerts that belong to some repository of the inventory, and the probe of a repository reports open alerts
  exactly when one of the alerts is its own.
\<close>

theorem org_summary_counts_exact:
  assumes s_def: "s = collect_org_alerts parse format clock org send repos t"
    and success: "collection_status s = CollectionStatus.Success"
    and run: "run_result (send (org_alerts_path org)) = RunResult.Success code (Some (Value.Array alerts)) h tr n"
    and ids: "distinct (map repo_id repos)" and size: "length alerts < 2 ^ 64" and r: "r \<in> set repos"
  shows "unat (alert_count s (repo_id r)) = length (filter (alert_concerns r) alerts) \<and>
    unat (total_open_secret_alerts s) = length (filter (\<lambda>a. \<exists>r \<in> set repos. alert_concerns r a) alerts) \<and>
    unat (sum_list (map snd (open_secret_alert_age_buckets s))) =
      length (filter (\<lambda>a. \<exists>r \<in> set repos. alert_concerns r a) alerts) \<and>
    org_probe r s =
      SecretScanningAlerts.Observable ProbeSource.OrgSummary (\<exists>a \<in> set alerts. alert_concerns r a) (Some code)"
proof -
  have ok: "collection_status (collect_org_alerts parse format clock org send repos t) = CollectionStatus.Success"
    using success by (simp add: s_def)
  obtain scope now where scope: "known_scope_of repos = (scope, False)" and use: "list_all (usable_alert scope) alerts"
    and s: "s = fold (process_alert parse format now scope) alerts
       \<lparr>collection_status = CollectionStatus.Success, collection_reason = None, org_http_status = Some code,
        per_repo = Map.empty, open_secret_alert_age_buckets = empty_alert_buckets, total_open_secret_alerts = 0,
        oldest_open_secret_alert_created_at = None, newest_open_secret_alert_created_at = None\<rparr>"
    by (rule collect_success [OF ok]) (use run in \<open>auto simp: s_def org_alerts_path_def\<close>)
  note sk = known_scope_ok [OF scope]
  have inj: "inj_on repo_id (set repos)" using ids by (simp add: distinct_map)
  have one: "length (filter (\<lambda>a. matched_key scope a = Some (repo_id r)) alerts) = length (filter (alert_concerns r) alerts)"
    using use matched_key_concerns [OF sk inj r] by (intro filter_length_cong) (simp add: list_all_iff)
  have all: "length (filter (\<lambda>a. matched_key scope a \<noteq> None) alerts) =
      length (filter (\<lambda>a. \<exists>r \<in> set repos. alert_concerns r a) alerts)"
    using use matched_some_concerns [OF sk inj] by (intro filter_length_cong) (simp add: list_all_iff)
  have count: "unat (alert_count s (repo_id r)) = length (filter (alert_concerns r) alerts)"
    unfolding s fold_process_alert_counts one by (simp add: alert_count_def unat_count [OF size])
  moreover have "unat (total_open_secret_alerts s) = length (filter (\<lambda>a. \<exists>r \<in> set repos. alert_concerns r a) alerts)"
    unfolding s fold_process_alert_counts all by (simp add: unat_count [OF size])
  moreover have "unat (sum_list (map snd (open_secret_alert_age_buckets s))) =
      length (filter (\<lambda>a. \<exists>r \<in> set repos. alert_concerns r a) alerts)"
    unfolding s fold_process_alert_counts all
    by (simp add: unat_count [OF size] empty_alert_buckets_def SECRET_ALERT_AGE_BUCKETS_def)
  moreover have "org_probe r s =
      SecretScanningAlerts.Observable ProbeSource.OrgSummary (\<exists>a \<in> set alerts. alert_concerns r a) (Some code)"
    using org_probe_success [OF success, of r] unfolding count
    by (auto simp: s fold_process_alert_counts filter_empty_conv)
  ultimately show ?thesis by blast
qed

definition sample_alert :: "u64 \<Rightarrow> string \<Rightarrow> Value" where
  "sample_alert i node = Value.Object [(''repository'',
     Value.Object [(''id'', Value.Number (PosInt i)), (''node_id'', Value.String node)])]"

definition sample_alert_run :: RequestRun where
  "sample_alert_run = \<lparr>run_result = RunResult.Success 200
       (Some (Value.Array [sample_alert 1 ''R_1'', sample_alert 7 ''R_7'', sample_alert 1 ''R_1''])) None False 1,
     halt_triggered = False\<rparr>"

definition sample_alert_repo :: Repository where
  "sample_alert_repo = (sample_repository ''repo'')\<lparr>repo_id := ''1'', repo_node_id := Some ''R_1''\<rparr>"

definition sample_alert_summary :: OrgAlertSummary where
  "sample_alert_summary =
     collect_org_alerts (\<lambda>_. None) (\<lambda>_. []) 0 ''org'' (\<lambda>_. sample_alert_run) [sample_alert_repo] ''now''"

theorem org_summary_counts_exact_witness:
  "unat (alert_count sample_alert_summary ''1'') = 2 \<and>
   org_probe sample_alert_repo sample_alert_summary =
     SecretScanningAlerts.Observable ProbeSource.OrgSummary True (Some 200)"
proof -
  let ?alerts = "[sample_alert 1 ''R_1'', sample_alert 7 ''R_7'', sample_alert 1 ''R_1'']"
  let ?scope = "[''1'' \<mapsto> sample_alert_repo, ''R_1'' \<mapsto> sample_alert_repo]"
  have d: "nat_display (Suc 0) = ''1''" "nat_display 7 = ''7''" by code_simp+
  have repo: "repo_id sample_alert_repo = ''1''" "repo_node_id sample_alert_repo = Some ''R_1''"
    by (simp_all add: sample_alert_repo_def)
  have scope: "known_scope_of [sample_alert_repo] = (?scope, False)"
    by (simp add: known_scope_of_def scope_add_def scope_key_def scope_conflict_def repo Let_def)
  have run: "run_result sample_alert_run = RunResult.Success 200 (Some (Value.Array ?alerts)) None False 1"
    by (simp add: sample_alert_run_def)
  have use: "usable_alert ?scope a" if "a \<in> set ?alerts" for a
    using that by (auto simp: usable_alert_def sample_alert_def correlate_alert_def alert_repository_def alert_num_id_def
        alert_node_id_def d repo Let_def)
  have one: "alert_concerns sample_alert_repo (sample_alert 1 ''R_1'')"
    by (simp add: alert_concerns_def sample_alert_def alert_repository_def alert_node_id_def scope_keys_def repo)
  have concerns: "filter (alert_concerns sample_alert_repo) ?alerts = [sample_alert 1 ''R_1'', sample_alert 1 ''R_1'']"
    by (simp add: alert_concerns_def sample_alert_def alert_repository_def alert_num_id_def alert_node_id_def scope_keys_def
        repo d)
  have ok: "collection_status sample_alert_summary = CollectionStatus.Success"
    using use by (simp add: sample_alert_summary_def collect_org_alerts_def scope classified_org_outcome_def
        evaluate_org_alert_outcome_def RequestRun_outcome_def RequestRun_classification_def run process_alert_counts list_all_iff
        Let_def del: fold_simps)
  from org_summary_counts_exact [OF sample_alert_summary_def ok run, of sample_alert_repo, unfolded concerns repo] one
  show ?thesis by simp
qed

subsection \<open>What proves a repository enabled\<close>

definition details_say_enabled :: "ApiOutcome \<Rightarrow> bool" where
  "details_say_enabled outcome \<longleftrightarrow> ApiOutcome_is_ok outcome \<and>
     (\<exists>d sa ss. ApiOutcome_data outcome = Some d \<and> Value_get ''security_and_analysis'' d = Some sa \<and>
        Value_get ''secret_scanning'' sa = Some ss \<and> Value_get ''status'' ss = Some (Value.String ''enabled''))"

lemma Value_get_object: "Value_get k v = Some w \<Longrightarrow> Value_is_object v"
  by (cases v) auto

lemma metadata_field_Inr:
  "metadata_field http (f # fs) d = Inr v \<longleftrightarrow>
     (\<exists>w. Value_get f d = Some w \<and> w \<noteq> Value.Null \<and> (f = ''status'' \<or> Value_is_object w) \<and> metadata_field http fs w = Inr v)"
  by (auto split: option.split)

lemma metadata_field_Inl_unavailable: "metadata_field http fs d = Inl m \<Longrightarrow> \<exists>u. m = RepoMetadata.Unavailable u"
  by (induction http fs d rule: metadata_field.induct) (auto split: option.splits if_splits)

lemma Value_as_str_Some [simp]: "Value_as_str v = Some s \<longleftrightarrow> v = Value.String s"
  by (cases v) auto

lemma extract_repo_metadata_enabled:
  "(\<exists>http. extract_repo_metadata outcome = RepoMetadata.Enabled http) \<longleftrightarrow> details_say_enabled outcome"
proof (cases "ApiOutcome_is_ok outcome \<and> (\<exists>d. ApiOutcome_data outcome = Some d \<and> Value_is_object d)")
  case True
  then obtain d where d: "ApiOutcome_is_ok outcome" "ApiOutcome_data outcome = Some d" "Value_is_object d" by blast
  let ?f = "metadata_field (ApiOutcome_status_code outcome) [''security_and_analysis'', ''secret_scanning'', ''status''] d"
  have "(\<exists>http. extract_repo_metadata outcome = RepoMetadata.Enabled http) \<longleftrightarrow> ?f = Inr (Value.String ''enabled'')"
    using d by (auto simp: extract_repo_metadata_def Let_def simp del: metadata_field.simps
        dest: metadata_field_Inl_unavailable split: sum.split)
  also have "\<dots> \<longleftrightarrow> details_say_enabled outcome"
    using d(1,2) by (auto simp: details_say_enabled_def metadata_field_Inr simp del: metadata_field.simps(2)
        dest: Value_get_object)
  finally show ?thesis .
next
  case False
  then show ?thesis
    by (auto simp: extract_repo_metadata_def details_say_enabled_def Let_def dest: Value_get_object split: option.split)
qed

lemma endpoint_probe_source:
  "endpoint_probe o' = SecretScanningAlerts.Observable src b http \<Longrightarrow> src = ProbeSource.PerRepoEndpoint"
  by (auto simp: endpoint_probe_def Let_def split: if_splits option.splits)

lemma org_probe_source:
  "org_probe r s = SecretScanningAlerts.Observable src b http \<Longrightarrow> src = ProbeSource.OrgSummary"
  by (auto simp: org_probe_def Let_def split: if_splits CollectionStatus.splits)

lemma from_observations_enabled:
  "(\<exists>p. from_observations m probe t = SecretScanningResult.Enabled p t) \<longleftrightarrow>
     (\<exists>http. m = RepoMetadata.Enabled http) \<or>
     (\<exists>u b http. m = RepoMetadata.Unavailable u \<and>
        probe = SecretScanningAlerts.Observable ProbeSource.PerRepoEndpoint b http)"
  by (auto simp: from_observations_def split: RepoMetadata.split SecretScanningAlerts.split ProbeSource.split)

text \<open>
  A repository is reported as enabled exactly when the body of its details says so or, where the details could
  not be used, when its own alert endpoint answered: a summary of the organisation never stands in for the
  evidence of the repository.
\<close>

theorem enabled_needs_repository_evidence:
  "(\<exists>p. secret_scanning_evaluate sanitize client repo t org = SecretScanningResult.Enabled p t) \<longleftrightarrow>
     (\<exists>safe. sanitize (repo_name repo) = Some safe \<and>
        (details_say_enabled (client_repo_details client safe) \<or>
         (\<exists>u open' http. extract_repo_metadata (client_repo_details client safe) = RepoMetadata.Unavailable u \<and> org = None \<and>
           endpoint_probe (client_request client (''/repos/'' @ org_name client @ ''/'' @ safe @
              ''/secret-scanning/alerts?state=open&per_page=1'')) =
             SecretScanningAlerts.Observable ProbeSource.PerRepoEndpoint open' http)))"
proof (cases "sanitize (repo_name repo)")
  case None
  then show ?thesis by (simp add: secret_scanning_evaluate_def SecretScanningResult_unobservable_def)
next
  case (Some safe)
  show ?thesis
    by (cases org) (auto simp: secret_scanning_evaluate_def evaluate_fallback_def Some Let_def from_observations_enabled
        extract_repo_metadata_enabled [symmetric] dest: org_probe_source)
qed

end
