(* ===== verification/Github_Cache.thy ===== *)
theory Github_Cache
  imports Github_Client Policy_Collectors
begin

text \<open>
  The repository-detail cache of the GitHub client (\<open>github/client.rs\<close>, \<open>domain/cache.rs\<close>): cached and
  revalidated repository details, the export and seeding of the cache between runs, the marking of stale
  entries, the memory of deleted teams, and the probes of capabilities and token scopes (with the scope
  rules of \<open>github/auth.rs\<close>). The sanitiser of path segments is a parameter, as in the collectors.
\<close>

subsection \<open>Repository details\<close>

definition DEFAULT_MAX_RETRIES :: u32 where "DEFAULT_MAX_RETRIES = 2"

definition DEFAULT_REQUEST_TIMEOUT_SECS :: u64 where "DEFAULT_REQUEST_TIMEOUT_SECS = 30"

definition cache_put :: "string \<Rightarrow> u16 \<Rightarrow> Value option \<Rightarrow> string option \<Rightarrow> Client_State \<Rightarrow> Client_State" where
  "cache_put repo status d etag c =
     c\<lparr>repo_detail_cache := (repo_detail_cache c)(repo \<mapsto>
         \<lparr>cr_status_code = status, cr_data = d, cr_etag = etag, cr_stale = False\<rparr>)\<rparr>"

definition cache_revalidated_response ::
    "'w Env \<Rightarrow> string \<Rightarrow> u16 \<Rightarrow> string option \<Rightarrow> string \<Rightarrow> Client_State \<Rightarrow> ApiOutcome option \<times> Client_State" where
  "cache_revalidated_response E repo status new_etag body c =
     (if str_trim body = []
      then (Some (ApiOutcome.Success status None None False), cache_put repo status None new_etag c)
      else (case env_json E body of
              Inr d \<Rightarrow> (Some (ApiOutcome.Success status (Some d) None False), cache_put repo status (Some d) new_etag c)
            | Inl _ \<Rightarrow> (None, c)))"

definition try_etag_revalidation ::
    "'w Env \<Rightarrow> string \<Rightarrow> string \<Rightarrow> string option \<Rightarrow> Value option \<Rightarrow> u16 \<Rightarrow> Client_State \<Rightarrow> 'w \<Rightarrow>
     ApiOutcome option \<times> Client_State \<times> 'w" where
  "try_etag_revalidation E repo path etag cached_data cached_status c w = (case etag of
     None \<Rightarrow> (None, c, w)
   | Some etag_value \<Rightarrow> (case ensure_credential E c w of
        (Inl _, c, w) \<Rightarrow> (None, c, w)
      | (Inr _, c, w) \<Rightarrow> (case is_halted E c w of (halted, w) \<Rightarrow>
          if halted then (None, c, w)
          else case env_acquire E w of (acquired, w) \<Rightarrow>
            if \<not> acquired then (None, c, w)
            else case env_get E (base_url c @ path) (auth_header c) (Some etag_value)
                     DEFAULT_REQUEST_TIMEOUT_SECS w of
               (Inl _, w) \<Rightarrow> (None, c, w)
             | (Inr response, w) \<Rightarrow>
                 let w = update_from_headers (env_limits E) (resp_headers response) w;
                     status = resp_status response;
                     new_etag = header_str (resp_headers response) ''etag''
                 in if status = 304
                    then
                      (Some (ApiOutcome.Success cached_status cached_data None False),
                       cache_put repo cached_status cached_data (case new_etag of Some e \<Rightarrow> Some e | None \<Rightarrow> etag)
                         (c\<lparr>not_modified_repos := insert repo (not_modified_repos c)\<rparr>),
                       env_refund E w)
                    else if \<not> is_success status then (None, c, w)
                    else (case read_body_limited E response MAX_RESPONSE_BODY_BYTES of
                            Inl _ \<Rightarrow> (None, c, w)
                          | Inr body \<Rightarrow>
                              (case cache_revalidated_response E repo status new_etag body c of
                                 (r, c) \<Rightarrow> (r, c, w))))))"

text \<open>
  \<open>repo_details\<close>: the outer \<open>None\<close> is a panic of the request.
\<close>

definition fetch_repo_details ::
    "'w Env \<Rightarrow> string \<Rightarrow> string \<Rightarrow> Client_State \<Rightarrow> 'w \<Rightarrow> ApiOutcome option \<times> Client_State \<times> 'w" where
  "fetch_repo_details E repo path c w =
     (case request E path False DEFAULT_MAX_RETRIES DEFAULT_REQUEST_TIMEOUT_SECS c w of
        (None, c, w) \<Rightarrow> (None, c, w)
      | (Some result, c, w) \<Rightarrow>
          let response_etag = last_response_etags c path;
              c = c\<lparr>last_response_etags := (last_response_etags c)(path := None)\<rparr>
          in (Some result,
              (case result of
                 ApiOutcome.Success status d _ _ \<Rightarrow> cache_put repo status d response_etag c
               | ApiOutcome.Failure _ _ _ \<Rightarrow> c), w))"

definition repo_details ::
    "(string \<Rightarrow> string + string) \<Rightarrow> 'w Env \<Rightarrow> string \<Rightarrow> Client_State \<Rightarrow> 'w \<Rightarrow>
     ApiOutcome option \<times> Client_State \<times> 'w" where
  "repo_details sanitize E repo c w = (case sanitize repo of
     Inl e \<Rightarrow> (Some (ApiOutcome_failure None (''invalid repo name: '' @ e) False), c, w)
   | Inr safe_name \<Rightarrow>
       let path = ''/repos/'' @ gc_org_name c @ ''/'' @ safe_name
       in case repo_detail_cache c repo of
            None \<Rightarrow> fetch_repo_details E repo path c w
          | Some cached \<Rightarrow>
              if \<not> cr_stale cached
              then (Some (ApiOutcome.Success (cr_status_code cached) (cr_data cached) None False), c, w)
              else (case try_etag_revalidation E repo path (cr_etag cached) (cr_data cached)
                        (cr_status_code cached) c w of
                 (Some outcome, c, w) \<Rightarrow> (Some outcome, c, w)
               | (None, c, w) \<Rightarrow> fetch_repo_details E repo path c w))"

definition take_not_modified :: "string \<Rightarrow> Client_State \<Rightarrow> bool \<times> Client_State" where
  "take_not_modified repo c =
     (repo \<in> not_modified_repos c, c\<lparr>not_modified_repos := not_modified_repos c - {repo}\<rparr>)"

definition is_known_deleted_team :: "string \<Rightarrow> Client_State \<Rightarrow> bool" where
  "is_known_deleted_team slug c \<longleftrightarrow> slug \<in> deleted_team_slugs c"

definition record_deleted_team :: "string \<Rightarrow> Client_State \<Rightarrow> bool \<times> Client_State" where
  "record_deleted_team slug c =
     (slug \<notin> deleted_team_slugs c, c\<lparr>deleted_team_slugs := insert slug (deleted_team_slugs c)\<rparr>)"

definition clear_run_cache :: "'w Env \<Rightarrow> 'w \<Rightarrow> Client_State \<Rightarrow> Client_State" where
  "clear_run_cache E w c =
     c\<lparr>repo_detail_cache := Map.empty, last_response_etags := Map.empty,
       budget_checkpoints := BudgetCheckpoints_for_run (env_total_calls E w), rate_limit_warnings := 0\<rparr>"

subsection \<open>Cross-run cache\<close>

text \<open>Instants of the wall clock are seconds since the epoch.\<close>

record CachedRepoDetail =
  crd_default_branch :: string
  crd_updated_at :: "string option"
  security_and_analysis :: "Value option"
  is_security_policy_enabled :: "bool option"
  fetched_at :: int
  crd_etag :: "string option"

definition REPO_CACHE_TTL_HOURS :: int where "REPO_CACHE_TTL_HOURS = 24"

definition export_entry :: "int \<Rightarrow> CachedResult \<Rightarrow> CachedRepoDetail option" where
  "export_entry now cached = map_option (\<lambda>d.
     \<lparr>crd_default_branch = (case Option.bind (Value_get ''default_branch'' d) Value_as_str of
          Some b \<Rightarrow> b | None \<Rightarrow> ''main''),
      crd_updated_at = Option.bind (Value_get ''updated_at'' d) Value_as_str,
      security_and_analysis = Value_get ''security_and_analysis'' d,
      is_security_policy_enabled = Option.bind (Value_get ''is_security_policy_enabled'' d) Value_as_bool,
      fetched_at = now,
      crd_etag = cr_etag cached\<rparr>) (cr_data cached)"

text \<open>\<open>keys\<close> is the order in which the concurrent map is iterated.\<close>

definition export_cache :: "int \<Rightarrow> string list \<Rightarrow> Client_State \<Rightarrow> (string \<times> CachedRepoDetail) list" where
  "export_cache now keys c =
     List.map_filter (\<lambda>key. Option.bind (repo_detail_cache c key)
       (\<lambda>cached. map_option (\<lambda>e. (key, e)) (export_entry now cached))) keys"

definition seed_object :: "CachedRepoDetail \<Rightarrow> Value" where
  "seed_object detail = Value.Object
     ([(''default_branch'', Value.String (crd_default_branch detail))] @
      (case crd_updated_at detail of Some ua \<Rightarrow> [(''updated_at'', Value.String ua)] | None \<Rightarrow> []) @
      (case security_and_analysis detail of Some sa \<Rightarrow> [(''security_and_analysis'', sa)] | None \<Rightarrow> []) @
      (case is_security_policy_enabled detail of
         Some enabled \<Rightarrow> [(''is_security_policy_enabled'', Value.Bool enabled)] | None \<Rightarrow> []))"

definition seed_entry :: "int \<Rightarrow> string \<times> CachedRepoDetail \<Rightarrow> Client_State \<Rightarrow> Client_State" where
  "seed_entry cutoff entry c =
     (if fetched_at (snd entry) < cutoff then c
      else cache_put (fst entry) 200 (Some (seed_object (snd entry))) (crd_etag (snd entry)) c)"

definition seed_cache :: "int \<Rightarrow> (string \<times> CachedRepoDetail) list \<Rightarrow> Client_State \<Rightarrow> Client_State" where
  "seed_cache now details c = fold (seed_entry (now - REPO_CACHE_TTL_HOURS * 3600)) details c"

definition mark_stale :: "string \<times> string option \<Rightarrow> Client_State \<Rightarrow> Client_State" where
  "mark_stale entry c = (case repo_detail_cache c (fst entry) of
     None \<Rightarrow> c
   | Some cached \<Rightarrow>
       (case (Option.bind (Option.bind (cr_data cached) (Value_get ''updated_at'')) Value_as_str, snd entry) of
          (Some cached_at, Some current) \<Rightarrow>
            if cached_at \<noteq> current
            then c\<lparr>repo_detail_cache := (repo_detail_cache c)(fst entry \<mapsto> cached\<lparr>cr_stale := True\<rparr>)\<rparr>
            else c
        | _ \<Rightarrow> c))"

definition evict_stale_entries :: "(string \<times> string option) list \<Rightarrow> Client_State \<Rightarrow> Client_State" where
  "evict_stale_entries repos c = fold mark_stale repos c"

subsection \<open>Token scopes and capabilities\<close>

definition FULL_TIER_SCOPES :: "string list" where
  "FULL_TIER_SCOPES = [''repo'', ''read:org'', ''security_events'']"

definition classify_token_tier :: "string list \<Rightarrow> TokenTier" where
  "classify_token_tier scopes =
     (if scopes = [] then TokenTier.Unknown
      else if list_all (\<lambda>s. s \<in> set scopes \<or> (s = ''security_events'' \<and> ''repo'' \<in> set scopes)) FULL_TIER_SCOPES
      then TokenTier.Full else TokenTier.Limited)"

definition parse_oauth_scopes :: "string \<Rightarrow> string list" where
  "parse_oauth_scopes header = filter (\<lambda>s. s \<noteq> []) (map str_trim (split_on CHR '','' [] header))"

record AuthMetadata =
  am_token_tier :: TokenTier
  am_token_scopes :: string
  am_auth_mode :: AuthMode

definition AuthMetadata_default :: AuthMetadata where
  "AuthMetadata_default =
     \<lparr>am_token_tier = TokenTier.Unknown, am_token_scopes = ''unknown'', am_auth_mode = AuthMode.Unknown\<rparr>"

fun join_scopes :: "string list \<Rightarrow> string" where
  "join_scopes [] = []"
| "join_scopes [s] = s"
| "join_scopes (s # ss) = s @ '', '' @ join_scopes ss"

definition AuthMetadata_from_scopes :: "string list \<Rightarrow> AuthMode \<Rightarrow> AuthMetadata" where
  "AuthMetadata_from_scopes scopes mode =
     \<lparr>am_token_tier = classify_token_tier scopes,
      am_token_scopes = (if scopes = [] then ''unknown'' else join_scopes scopes), am_auth_mode = mode\<rparr>"

definition AuthMetadata_for_github_app :: AuthMetadata where
  "AuthMetadata_for_github_app =
     \<lparr>am_token_tier = TokenTier.Unknown, am_token_scopes = ''github-app-installation'',
      am_auth_mode = AuthMode.GitHubApp\<rparr>"

definition collect_auth_metadata ::
    "'w Env \<Rightarrow> Client_State \<Rightarrow> 'w \<Rightarrow> AuthMetadata option \<times> Client_State \<times> 'w" where
  "collect_auth_metadata E c w =
     (let mode = cred_mode (gc_credential c)
      in if mode = AuthMode.GitHubApp then (Some AuthMetadata_for_github_app, c, w)
         else (case request_single_with_headers E ''/user'' 15 c w of
            (None, c, w) \<Rightarrow> (None, c, w)
          | (Some result, c, w) \<Rightarrow>
              (Some (case ApiOutcome_headers result of
                 None \<Rightarrow> AuthMetadata_default
               | Some headers \<Rightarrow>
                   (case headers ''x-oauth-scopes'' of
                      Some scopes \<Rightarrow> AuthMetadata_from_scopes (parse_oauth_scopes scopes) mode
                    | None \<Rightarrow> \<lparr>am_token_tier = TokenTier.Unknown, am_token_scopes = ''not-available'',
                        am_auth_mode = mode\<rparr>)), c, w)))"

datatype CapabilityStatus = Available | PermissionDenied | Unavailable | NotProbed

record CapabilitySet =
  repos_list :: CapabilityStatus
  org_secret_scanning_alerts :: CapabilityStatus
  private_branch_protection_read :: CapabilityStatus

definition CapabilitySet_can_run :: "CapabilitySet \<Rightarrow> bool" where
  "CapabilitySet_can_run caps \<longleftrightarrow> repos_list caps = CapabilityStatus.Available"

definition CapabilitySet_is_available :: "CapabilitySet \<Rightarrow> Capability \<Rightarrow> bool" where
  "CapabilitySet_is_available caps capability = (case capability of
     Capability.OrgSecretScanningAlerts \<Rightarrow> org_secret_scanning_alerts caps = CapabilityStatus.Available
   | Capability.PrivateBranchProtectionRead \<Rightarrow> private_branch_protection_read caps = CapabilityStatus.Available)"

definition CapabilitySet_unavailable_capabilities :: "CapabilitySet \<Rightarrow> Capability list" where
  "CapabilitySet_unavailable_capabilities caps =
     (if org_secret_scanning_alerts caps \<noteq> CapabilityStatus.Available
      then [Capability.OrgSecretScanningAlerts] else []) @
     (if private_branch_protection_read caps \<noteq> CapabilityStatus.Available
      then [Capability.PrivateBranchProtectionRead] else [])"

definition CapabilitySet_unavailable_capabilities_for_auth_mode :: "CapabilitySet \<Rightarrow> AuthMode \<Rightarrow> Capability list" where
  "CapabilitySet_unavailable_capabilities_for_auth_mode caps _ = CapabilitySet_unavailable_capabilities caps"

definition CapabilitySet_default :: CapabilitySet where
  "CapabilitySet_default = \<lparr>repos_list = CapabilityStatus.NotProbed,
     org_secret_scanning_alerts = CapabilityStatus.NotProbed,
     private_branch_protection_read = CapabilityStatus.NotProbed\<rparr>"

definition classify_capability_probe :: "ApiOutcome \<Rightarrow> CapabilityStatus" where
  "classify_capability_probe result = (case ApiOutcome_status_code result of
     None \<Rightarrow> CapabilityStatus.Unavailable
   | Some status \<Rightarrow>
       if 200 \<le> status \<and> status < 300 then CapabilityStatus.Available
       else if status = 403 \<or> status = 404 then CapabilityStatus.PermissionDenied
       else CapabilityStatus.Unavailable)"

definition first_repo_field :: "string \<Rightarrow> Value option \<Rightarrow> string option" where
  "first_repo_field key payload = (case Option.bind payload Value_as_array of
     Some (v # _) \<Rightarrow> Option.bind (Value_get key v) Value_as_str
   | _ \<Rightarrow> None)"

definition probe_endpoint ::
    "'w Env \<Rightarrow> string \<Rightarrow> Client_State \<Rightarrow> 'w \<Rightarrow> CapabilityStatus option \<times> Client_State \<times> 'w" where
  "probe_endpoint E path c w = (case request_single E path DEFAULT_REQUEST_TIMEOUT_SECS c w of
     (r, c, w) \<Rightarrow> (map_option (classify_capability_probe \<circ> AttemptResult_into_api_outcome) r, c, w))"

definition probe_capabilities ::
    "(string \<Rightarrow> string + string) \<Rightarrow> 'w Env \<Rightarrow> Client_State \<Rightarrow> 'w \<Rightarrow> CapabilitySet option \<times> Client_State \<times> 'w" where
  "probe_capabilities sanitize E c w =
     (let ok = (\<lambda>s. case sanitize s of Inr n \<Rightarrow> Some n | Inl _ \<Rightarrow> None)
      in case request_single E (''/orgs/'' @ gc_org_name c @ ''/repos?per_page=1'') DEFAULT_REQUEST_TIMEOUT_SECS c w of
           (None, c, w) \<Rightarrow> (None, c, w)
         | (Some r, c, w) \<Rightarrow>
             let probe = AttemptResult_into_api_outcome r;
                 sample_repo = Option.bind (first_repo_field ''name'' (ApiOutcome_data probe)) ok;
                 sample_branch = Option.bind (first_repo_field ''default_branch'' (ApiOutcome_data probe)) ok
             in case probe_endpoint E (''/orgs/'' @ gc_org_name c @ ''/secret-scanning/alerts?per_page=1&state=open'') c w of
                  (None, c, w) \<Rightarrow> (None, c, w)
                | (Some alerts, c, w) \<Rightarrow>
                    (case (case (sample_repo, sample_branch) of
                        (Some repo, Some branch) \<Rightarrow>
                          probe_endpoint E (''/repos/'' @ gc_org_name c @ ''/'' @ repo @ ''/branches/'' @ branch @
                            ''/protection'') c w
                      | _ \<Rightarrow> (Some CapabilityStatus.NotProbed, c, w)) of
                       (None, c, w) \<Rightarrow> (None, c, w)
                     | (Some protection, c, w) \<Rightarrow>
                         (Some \<lparr>repos_list = classify_capability_probe probe, org_secret_scanning_alerts = alerts,
                            private_branch_protection_read = protection\<rparr>, c, w)))"

end
