(* ===== verification/Github_Client_Laws.thy ===== *)
theory Github_Client_Laws
  imports Github_Cache
begin

text \<open>
  What the GitHub client guarantees: the classification of outcomes, where requests are sent and how many,
  completeness of paginated results, and the halt.

  The requests a run makes are observed through the locale \<open>logged\<close>: an environment whose \<open>GET\<close> operation
  appends each exchange to a log that no other operation touches. It is interpreted on \<open>traced E\<close>, which adds
  such a log to the world of any environment \<open>E\<close>.
\<close>

subsection \<open>Classification\<close>

definition retryable_status :: "u16 \<Rightarrow> bool" where
  "retryable_status c \<longleftrightarrow> c = 429 \<or> c = 500 \<or> c = 502 \<or> c = 503 \<or> c = 504"

definition failure_classified :: "RequestFailureKind \<Rightarrow> bool" where
  "failure_classified f = (case f of
     RequestFailureKind.Http c _ r \<Rightarrow> \<not> is_success c \<and> r = retryable_status c
   | RequestFailureKind.MalformedPayload c _ _ \<Rightarrow> is_success c
   | RequestFailureKind.BodyRead c _ \<Rightarrow> (case c of Some c \<Rightarrow> is_success c | None \<Rightarrow> False)
   | _ \<Rightarrow> True)"

definition attempt_classified :: "AttemptResult \<Rightarrow> bool" where
  "attempt_classified r = (case r of
     AttemptResult.Success c _ _ _ \<Rightarrow> is_success c | AttemptResult.Failure f \<Rightarrow> failure_classified f)"

definition run_classified :: "RequestRun \<Rightarrow> bool" where
  "run_classified run = (case run_result run of
     RunResult.NeverDispatched _ \<Rightarrow> True
   | RunResult.Success c _ _ _ _ \<Rightarrow> is_success c
   | RunResult.Failed f _ \<Rightarrow> failure_classified f)"

lemma is_success_retryable: "is_success c \<Longrightarrow> \<not> retryable_status c"
  by (auto simp: is_success_def retryable_status_def)

lemma http_failure_classified:
  "http_failure_kind E c response w = (Some f, w') \<Longrightarrow> \<not> is_success c \<Longrightarrow> failure_classified f"
  by (auto simp: http_failure_kind_def failure_classified_def retryable_status_def Let_def
      split: prod.splits option.splits)

lemma parse_single_classified:
  "parse_single_body E path c body etag hs cl = (r, cl') \<Longrightarrow> is_success c \<Longrightarrow> attempt_classified r"
  by (auto simp: parse_single_body_def attempt_classified_def failure_classified_def Let_def
      split: if_splits sum.splits)

lemma single_classified:
  assumes "request_single_inner E path t cap c w = (Some r, c', w')"
  shows "attempt_classified r"
proof (cases "env_get E (base_url c @ path) (auth_header c) None t w")
  case (Pair x w1)
  show ?thesis
  proof (cases x)
    case (Inl e)
    then show ?thesis using assms Pair
      by (auto simp: request_single_inner_def attempt_classified_def failure_classified_def split: prod.splits)
  next
    case (Inr response)
    show ?thesis
    proof (cases "is_success (resp_status response)")
      case False
      with assms Pair Inr show ?thesis
        by (auto simp: request_single_inner_def attempt_classified_def Let_def split: prod.splits
            dest!: http_failure_classified)
    next
      case True
      with assms Pair Inr show ?thesis
        by (cases "read_body_bytes_limited response MAX_RESPONSE_BODY_BYTES")
          (auto simp: request_single_inner_def attempt_classified_def failure_classified_def Let_def
            split: prod.splits dest!: parse_single_classified)
    qed
  qed
qed

lemma paginated_success_classified: "attempt_classified (paginated_success items tr)"
  by (simp add: paginated_success_def attempt_classified_def is_success_def)

lemma parse_page_classified:
  "parse_paginated_page_body E c body items = Inl f \<Longrightarrow> is_success c \<Longrightarrow> failure_classified f"
  by (auto simp: parse_paginated_page_body_def failure_classified_def Let_def split: if_splits sum.splits Value.splits)

definition step_classified :: "PageStep \<Rightarrow> bool" where
  "step_classified s = (case s of
     PageStep.Done (Some r) \<Rightarrow> attempt_classified r | _ \<Rightarrow> True)"

lemma page_response_classified:
  assumes "page_response E response items tr w = (s, w')"
  shows "step_classified s"
proof (cases "is_success (resp_status response)")
  case False
  with assms show ?thesis
    by (auto simp: page_response_def step_classified_def attempt_classified_def Let_def
        split: prod.splits option.splits dest!: http_failure_classified)
next
  case True
  then show ?thesis
  proof (cases "read_body_bytes_limited response MAX_RESPONSE_BODY_BYTES")
    case (Inl e)
    with True assms show ?thesis
      by (auto simp: page_response_def step_classified_def attempt_classified_def failure_classified_def Let_def)
  next
    case (Inr bytes)
    with True assms show ?thesis
      by (cases "parse_paginated_page_body E (resp_status response) bytes items")
        (auto simp: page_response_def step_classified_def paginated_success_classified Let_def
          attempt_classified_def [of "AttemptResult.Failure _"] parse_page_classified
          split: prod.splits if_splits Continuation.splits)
  qed
qed

lemma page_step_classified: "page_step E t url n items c w = (s, c', w') \<Longrightarrow> step_classified s"
  by (auto simp: page_step_def send_paginated_request_def step_classified_def paginated_success_classified
      attempt_classified_def [of "AttemptResult.Failure _"] failure_classified_def [of "RequestFailureKind.Transport _ _"]
      split: if_splits prod.splits sum.splits option.splits PageStep.splits
      dest!: page_response_classified)

lemma paginate_induct [case_names page]:
  fixes E :: "'w Env"
  assumes step: "\<And>url n items c w.
    (\<And>url' items' c1 w1. page_step E t url (n + 1) items c w = (PageStep.Next url' items', c1, w1) \<Longrightarrow>
       P url' (n + 1) items' c1 w1) \<Longrightarrow> P url n items c w"
  shows "P url n items c w"
proof (induction "MAX_PAGINATION_PAGES - n" arbitrary: url n items c w rule: less_induct)
  case less
  show ?case by (rule step, rule less) (auto dest: page_step_limit)
qed

lemma paginate_classified: "paginate_from E t url n items c w = (Some r, c', w') \<Longrightarrow> attempt_classified r"
proof (induction url n items c w rule: paginate_induct [of E t])
  case (page url n items c w)
  obtain s c1 w1 where s: "page_step E t url (n + 1) items c w = (s, c1, w1)" by (metis prod_cases3)
  show ?case
  proof (cases s)
    case (Done d)
    with page(2) s have "d = Some r" by (subst (asm) paginate_from.simps) simp
    then show ?thesis using page_step_classified [OF s] Done by (simp add: step_classified_def)
  next
    case (Next url' items')
    with page(2) s have "paginate_from E t url' (n + 1) items' c1 w1 = (Some r, c', w')"
      by (subst (asm) paginate_from.simps) simp
    with page(1) s Next show ?thesis by blast
  qed
qed

lemma one_attempt_classified: "one_attempt E path pg t c w = (Some r, c', w') \<Longrightarrow> attempt_classified r"
  by (auto simp: one_attempt_def request_paginated_def paginate_classified single_classified split: if_splits)

lemma from_attempt_classified: "run_classified (RequestRun_from_attempt r n h) = attempt_classified r"
  by (simp add: run_classified_def RequestRun_from_attempt_def attempt_classified_def split: AttemptResult.split)

lemma attempt_step_classified:
  assumes "attempt_step E path pg t attempts n stale c w = (LoopStep.Return (Some run), c', w')"
  shows "run_classified run"
proof -
  obtain r c1 w1 where r: "one_attempt E path pg t c w = (Some r, c1, w1)"
    using assms by (cases "one_attempt E path pg t c w") (auto simp: attempt_step_def split: option.splits)
  have refresh: "attempt_classified (AttemptResult.Failure (RequestFailureKind.CredentialRefreshFailed e))" for e
    by (simp add: attempt_classified_def failure_classified_def)
  show ?thesis
    using assms r one_attempt_classified [OF r] refresh
    by (auto simp: attempt_step_def Let_def from_attempt_classified
        split: if_splits prod.splits sum.splits option.splits)
qed

lemma attempt_induct [case_names attempt]:
  fixes E :: "'w Env"
  assumes step: "\<And>n stale c w.
    (\<And>stale' c1 w1. n < attempts \<Longrightarrow>
       attempt_step E path pg t attempts n stale c w = (LoopStep.Continue stale', c1, w1) \<Longrightarrow>
       P (n + 1) stale' c1 w1) \<Longrightarrow> P n stale c w"
  shows "P n stale c w"
proof (induction "attempts - n" arbitrary: n stale c w rule: less_induct)
  case less
  show ?case by (rule step, rule less) auto
qed

lemma attempt_loop_classified:
  "attempt_loop E path pg t attempts n stale c w = (Some run, c', w') \<Longrightarrow> run_classified run"
proof (induction n stale c w rule: attempt_induct [of attempts E path pg t])
  case (attempt n stale c w)
  obtain s c1 w1 where s: "attempt_step E path pg t attempts n stale c w = (s, c1, w1)" by (metis prod_cases3)
  show ?case
  proof (cases "attempts \<le> n")
    case True
    with attempt(2) show ?thesis
      by (auto simp: attempt_loop.simps from_attempt_classified attempt_classified_def failure_classified_def
          is_success_def retryable_status_def)
  next
    case False
    show ?thesis
    proof (cases s)
      case (Return run')
      with attempt(2) s False have "run' = Some run" by (subst (asm) attempt_loop.simps) simp
      with s Return show ?thesis by (auto intro: attempt_step_classified)
    next
      case (Continue stale')
      with attempt(2) s False have "attempt_loop E path pg t attempts (n + 1) stale' c1 w1 = (Some run, c', w')"
        by (subst (asm) attempt_loop.simps) simp
      with attempt(1) s Continue False show ?thesis by (meson not_le)
    qed
  qed
qed

lemma never_dispatched_classified: "run_classified (RequestRun_never_dispatched cause)"
  by (simp add: run_classified_def RequestRun_never_dispatched_def)

lemma request_inner_classified:
  "request_inner E path pg retries t c w = (Some run, c', w') \<Longrightarrow> run_classified run"
  by (auto simp: request_inner_def never_dispatched_classified
      split: prod.splits if_splits sum.splits dest!: attempt_loop_classified)

definition outcome_classified :: "ApiOutcome \<Rightarrow> bool" where
  "outcome_classified outcome = (case outcome of
     ApiOutcome.Success c _ _ _ \<Rightarrow> is_success c
   | ApiOutcome.Failure (Some c) _ retryable \<Rightarrow> retryable = retryable_status c
   | ApiOutcome.Failure None _ _ \<Rightarrow> True)"

lemma run_outcome_classified: "run_classified run \<Longrightarrow> outcome_classified (RequestRun_outcome run)"
  using is_success_retryable
  by (auto simp: run_classified_def outcome_classified_def RequestRun_outcome_def ApiOutcome_failure_def
      failure_classified_def split: RunResult.splits PreDispatchFailure.splits RequestFailureKind.splits option.splits)

lemma request_classified:
  "request E path pg retries t c w = (Some outcome, c', w') \<Longrightarrow> outcome_classified outcome"
  by (auto simp: request_def split: prod.splits dest: request_inner_classified run_outcome_classified)

lemma outcome_classified_ok: "outcome_classified outcome \<Longrightarrow> client_outcome_ok outcome"
  by (cases outcome)
    (auto simp: outcome_classified_def client_outcome_ok_def retryable_status_def is_success_def split: option.splits)

subsection \<open>Observed environments\<close>

type_synonym Exchange = "string \<times> ((string \<times> bool) + Response)"

locale logged =
  fixes E :: "'w Env" and sent :: "'w \<Rightarrow> Exchange list"
  assumes get_log: "env_get E url auth tag t w = (r, w') \<Longrightarrow> sent w' = sent w @ [(url, r)]"
    and post_log: "env_post E url auth w = (p, w') \<Longrightarrow> sent w' = sent w"
    and unix_log: "env_unix_secs E w = (now, w') \<Longrightarrow> sent w' = sent w"
    and clocks_log: "env_clocks E w = (cl, w') \<Longrightarrow> sent w' = sent w"
    and acquire_log: "env_acquire E w = (ok, w') \<Longrightarrow> sent w' = sent w"
    and jitter_log: "env_jitter E m w = (j, w') \<Longrightarrow> sent w' = sent w"
    and jwt_log: "env_app_jwt E config w = (jwt, w') \<Longrightarrow> sent w' = sent w"
    and refund_log: "sent (env_refund E w) = sent w"
    and backoff_log: "sent (env_set_backoff E i w) = sent w"
    and sleep_log: "sent (env_sleep E d w) = sent w"
    and observe_log: "sent (rl_observe (env_limits E) l rem res w) = sent w"
begin

lemma update_log: "sent (update_from_headers (env_limits E) hs w) = sent w"
  by (simp add: update_from_headers_def observe_log)

lemma halted_log: "is_halted E c w = (h, w') \<Longrightarrow> sent w' = sent w"
  by (auto simp: is_halted_def split: if_splits prod.splits dest: unix_log)

lemma refresh_needed_log: "credential_needs_refresh E c w = (b, w') \<Longrightarrow> sent w' = sent w"
  by (auto simp: credential_needs_refresh_def split: if_splits prod.splits dest: unix_log)

lemma exchange_log: "exchange_installation_token E config c w = (r, w') \<Longrightarrow> sent w' = sent w"
  by (auto simp: exchange_installation_token_def split: if_splits prod.splits sum.splits dest!: jwt_log post_log)

lemma ensure_log: "ensure_credential E c w = (r, c', w') \<Longrightarrow> sent w' = sent w"
  by (auto simp: ensure_credential_def Let_def
      split: if_splits prod.splits sum.splits bool.splits option.splits dest!: refresh_needed_log exchange_log)

lemma note_halt_log: "note_rate_limit_halt E c w = (c', w') \<Longrightarrow> sent w' = sent w"
  by (auto simp: note_rate_limit_halt_def split: option.splits prod.splits dest: unix_log)

lemma delay_log: "backoff_delay E n w = (d, w') \<Longrightarrow> sent w' = sent w"
  by (auto simp: backoff_delay_def Let_def split: option.splits prod.splits dest: clocks_log jitter_log)

lemma failure_kind_log: "http_failure_kind E s response w = (f, w') \<Longrightarrow> sent w' = sent w"
  by (auto simp: http_failure_kind_def record_secondary_limit_backoff_def Let_def
      split: option.splits prod.splits dest!: clocks_log simp: backoff_log)

lemma single_log:
  assumes "request_single_inner E path t cap c w = (r, c', w')"
  shows "\<exists>x. sent w' = sent w @ [(base_url c @ path, x)]"
proof -
  obtain x w1 where x: "env_get E (base_url c @ path) (auth_header c) None t w = (x, w1)" by force
  have "sent w' = sent w1"
    using assms x
    by (auto simp: request_single_inner_def Let_def update_log split: if_splits prod.splits sum.splits
        dest!: failure_kind_log)
  with get_log [OF x] show ?thesis by auto
qed

lemma page_response_log: "page_response E response items tr w = (s, w') \<Longrightarrow> sent w' = sent w"
  by (auto simp: page_response_def Let_def update_log
      split: if_splits prod.splits sum.splits Continuation.splits dest!: failure_kind_log)

lemma page_step_log:
  assumes "page_step E t url n items c w = (s, c', w')"
  shows "(s = PageStep.Done (Some (paginated_success items True)) \<and> sent w' = sent w) \<or>
    (\<exists>e b. s = PageStep.Done (Some (AttemptResult.Failure (RequestFailureKind.Transport e b))) \<and>
       sent w' = sent w @ [(url, Inl (e, b))]) \<or>
    (\<exists>response w1 w2. sent w' = sent w @ [(url, Inr response)] \<and>
       page_response E response items (trusted_origin c) w1 = (s, w2))"
proof -
  have "trusted_origin (record_request_attempt E u c w) = trusted_origin c" for u w
    by (simp add: record_request_attempt_def)
  then show ?thesis
    using assms
    by (auto simp: page_step_def send_paginated_request_def split: if_splits prod.splits sum.splits
        dest!: halted_log acquire_log get_log dest: page_response_log) (metis page_response_log)+
qed

end

subsection \<open>Where requests go\<close>

text \<open>The fields of the client that a request leaves alone.\<close>

definition same_target :: "Client_State \<Rightarrow> Client_State \<Rightarrow> bool" where
  "same_target c c' \<longleftrightarrow> base_url c' = base_url c \<and> trusted_origin c' = trusted_origin c \<and>
     gc_org_name c' = gc_org_name c \<and> repo_detail_cache c' = repo_detail_cache c \<and>
     not_modified_repos c' = not_modified_repos c \<and> deleted_team_slugs c' = deleted_team_slugs c"

lemma same_target_refl [simp]: "same_target c c"
  by (simp add: same_target_def)

lemma same_target_trans: "same_target a b \<Longrightarrow> same_target b c \<Longrightarrow> same_target a c"
  by (simp add: same_target_def)

lemma record_attempt_target [simp]: "same_target c (record_request_attempt E u c w)"
  by (simp add: same_target_def record_request_attempt_def)

lemma ensure_target: "ensure_credential E c w = (r, c', w') \<Longrightarrow> same_target c c'"
  by (auto simp: ensure_credential_def same_target_def Let_def
      split: if_splits prod.splits sum.splits bool.splits option.splits)

lemma note_halt_target: "note_rate_limit_halt E c w = (c', w') \<Longrightarrow> same_target c c'"
  by (auto simp: note_rate_limit_halt_def same_target_def split: option.splits prod.splits)

lemma parse_single_target: "parse_single_body E path s body etag hs c = (r, c') \<Longrightarrow> same_target c c'"
  by (auto simp: parse_single_body_def same_target_def Let_def split: if_splits sum.splits option.splits)

lemma single_target: "request_single_inner E path t cap c w = (r, c', w') \<Longrightarrow> same_target c c'"
  by (auto simp: request_single_inner_def Let_def split: if_splits prod.splits sum.splits
      intro: same_target_trans [OF record_attempt_target] dest!: parse_single_target)

lemma page_step_target: "page_step E t url n items c w = (s, c', w') \<Longrightarrow> same_target c c'"
  by (auto simp: page_step_def send_paginated_request_def split: if_splits prod.splits sum.splits)

definition on_target :: "'w Env \<Rightarrow> Client_State \<Rightarrow> string \<Rightarrow> string \<Rightarrow> bool" where
  "on_target E c path url \<longleftrightarrow> url = base_url c @ path \<or> is_same_origin E url (trusted_origin c)"

lemma on_target_cong: "same_target c c' \<Longrightarrow> on_target E c' path url = on_target E c path url"
  by (simp add: on_target_def same_target_def)

lemma page_response_next:
  "page_response E response items tr w = (PageStep.Next url items', w') \<Longrightarrow> is_same_origin E url tr"
  by (auto simp: page_response_def trusted_continuation_def Let_def
      split: if_splits prod.splits sum.splits Continuation.splits NextLink.splits)

text \<open>The exchanges of a part of a run: at most \<open>n\<close> of them, all on target.\<close>

definition exchanges_ok :: "'w Env \<Rightarrow> Client_State \<Rightarrow> string \<Rightarrow> nat \<Rightarrow> Exchange list \<Rightarrow> bool" where
  "exchanges_ok E c path n us \<longleftrightarrow> length us \<le> n \<and> list_all (\<lambda>(url, _). on_target E c path url) us"

lemma exchanges_ok_append:
  "exchanges_ok E c path m us \<Longrightarrow> exchanges_ok E c' path n vs \<Longrightarrow> same_target c c' \<Longrightarrow>
   exchanges_ok E c path (m + n) (us @ vs)"
  by (auto simp: exchanges_ok_def list_all_iff on_target_cong)

lemma exchanges_ok_Nil [simp]: "exchanges_ok E c path n []"
  by (simp add: exchanges_ok_def)

lemma exchanges_ok_mono: "exchanges_ok E c path m us \<Longrightarrow> m \<le> n \<Longrightarrow> exchanges_ok E c path n us"
  by (simp add: exchanges_ok_def)

context logged
begin

lemma page_step_exchanges:
  assumes "page_step E t url n items c w = (s, c', w')" and "on_target E c path url"
  shows "\<exists>us. sent w' = sent w @ us \<and> exchanges_ok E c path 1 us \<and>
    (case s of PageStep.Next url' _ \<Rightarrow> on_target E c path url' | _ \<Rightarrow> True)"
proof -
  have "case s of PageStep.Next url' _ \<Rightarrow> on_target E c path url' | _ \<Rightarrow> True"
    if "page_response E response items (trusted_origin c) w1 = (s, w2)" for response w1 w2
    using that by (cases s) (auto simp: on_target_def dest: page_response_next)
  then show ?thesis
    using page_step_log [OF assms(1)] assms(2) by (auto simp: exchanges_ok_def)
qed

lemma paginate_exchanges:
  assumes "paginate_from E t url n items c w = (r, c', w')" and "on_target E c path url"
  shows "\<exists>us. sent w' = sent w @ us \<and> exchanges_ok E c path (MAX_PAGINATION_PAGES - n) us \<and> same_target c c'"
  using assms
proof (induction url n items c w rule: paginate_induct [of E t])
  case (page url n items c w)
  obtain s c1 w1 where s: "page_step E t url (n + 1) items c w = (s, c1, w1)" by (metis prod_cases3)
  from page_step_exchanges [OF s page(3)] obtain us where us: "sent w1 = sent w @ us" "exchanges_ok E c path 1 us"
    "case s of PageStep.Next url' _ \<Rightarrow> on_target E c path url' | _ \<Rightarrow> True" by blast
  show ?case
  proof (cases s)
    case (Done d)
    with page(2) s have "c' = c1" "w' = w1" by (subst (asm) paginate_from.simps, simp)+
    moreover have "us = []" if "MAX_PAGINATION_PAGES - n = 0"
      using that s us(1) by (auto simp: page_step_def)
    ultimately show ?thesis using us page_step_target [OF s]
      by (cases "MAX_PAGINATION_PAGES - n = 0") (auto intro: exchanges_ok_mono)
  next
    case (Next url' items')
    with page(2) s have rest: "paginate_from E t url' (n + 1) items' c1 w1 = (r, c', w')"
      by (subst (asm) paginate_from.simps) simp
    have tgt: "same_target c c1" by (rule page_step_target [OF s])
    with us(3) Next have "on_target E c1 path url'" by (simp add: on_target_cong)
    from page(1) [OF s [unfolded Next] rest this] obtain vs where
      vs: "sent w' = sent w1 @ vs" "exchanges_ok E c1 path (MAX_PAGINATION_PAGES - (n + 1)) vs" "same_target c1 c'"
      by blast
    have "1 + (MAX_PAGINATION_PAGES - (n + 1)) = MAX_PAGINATION_PAGES - n"
      using page_step_limit [OF s [unfolded Next]] by simp
    then have "exchanges_ok E c path (MAX_PAGINATION_PAGES - n) (us @ vs)"
      using exchanges_ok_append [OF us(2) vs(2) tgt] by simp
    then show ?thesis using us(1) vs(1) same_target_trans [OF tgt vs(3)] by auto
  qed
qed

lemma attempt_exchanges:
  assumes "one_attempt E path pg t c w = (r, c', w')"
  shows "\<exists>us. sent w' = sent w @ us \<and> exchanges_ok E c path (if pg then MAX_PAGINATION_PAGES else 1) us \<and>
    same_target c c'"
proof (cases pg)
  case True
  with assms have "paginate_from E t (base_url c @ path) 0 [] c w = (r, c', w')"
    by (simp add: one_attempt_def request_paginated_def)
  from paginate_exchanges [OF this, of path] True show ?thesis by (simp add: on_target_def)
next
  case False
  with assms have "request_single E path t c w = (r, c', w')" by (simp add: one_attempt_def)
  from single_log [OF this] single_target [OF this] False show ?thesis
    by (auto simp: exchanges_ok_def on_target_def)
qed

lemma attempt_step_exchanges:
  assumes "attempt_step E path pg t attempts n stale c w = (s, c', w')"
  shows "\<exists>us. sent w' = sent w @ us \<and> exchanges_ok E c path (if pg then MAX_PAGINATION_PAGES else 1) us \<and>
    same_target c c'"
proof -
  obtain r c1 w1 where r: "one_attempt E path pg t c w = (r, c1, w1)" by (metis prod_cases3)
  have warn: "same_target a (b\<lparr>rate_limit_warnings := k\<rparr>) = same_target a b" for a b k
    by (simp add: same_target_def)
  have "sent w' = sent w1"
    using assms r
    by (auto simp: attempt_step_def Let_def sleep_log split: if_splits prod.splits sum.splits option.splits
        dest!: note_halt_log ensure_log delay_log)
  moreover have "same_target c1 c'"
    using assms r
    by (auto simp: attempt_step_def Let_def warn split: if_splits prod.splits sum.splits option.splits
        dest!: note_halt_target ensure_target)
  ultimately have "sent w' = sent w1 \<and> same_target c1 c'" by simp
  with attempt_exchanges [OF r] show ?thesis using same_target_trans by fastforce
qed

lemma loop_exchanges:
  assumes "attempt_loop E path pg t attempts n stale c w = (run, c', w')"
  shows "\<exists>us. sent w' = sent w @ us \<and>
    exchanges_ok E c path ((attempts - n) * (if pg then MAX_PAGINATION_PAGES else 1)) us \<and> same_target c c'"
  using assms
proof (induction n stale c w rule: attempt_induct [of attempts E path pg t])
  case (attempt n stale c w)
  let ?m = "if pg then MAX_PAGINATION_PAGES else 1"
  show ?case
  proof (cases "attempts \<le> n")
    case True
    with attempt(2) show ?thesis by (auto simp: attempt_loop.simps intro: exI [of _ "[]"])
  next
    case False
    obtain s c1 w1 where s: "attempt_step E path pg t attempts n stale c w = (s, c1, w1)" by (metis prod_cases3)
    from attempt_step_exchanges [OF s] obtain us where
      us: "sent w1 = sent w @ us" "exchanges_ok E c path ?m us" "same_target c c1" by blast
    have m: "?m + (attempts - (n + 1)) * ?m = (attempts - n) * ?m"
      using False by (metis Suc_diff_Suc mult_Suc not_le Suc_eq_plus1)
    show ?thesis
    proof (cases s)
      case (Return run')
      with attempt(2) s False have "c' = c1" "w' = w1" by (subst (asm) attempt_loop.simps, simp)+
      moreover have "exchanges_ok E c path ((attempts - n) * ?m) us"
        using us(2) m by (elim exchanges_ok_mono) linarith
      ultimately show ?thesis using us by auto
    next
      case (Continue stale')
      with attempt(2) s False have rest: "attempt_loop E path pg t attempts (n + 1) stale' c1 w1 = (run, c', w')"
        by (subst (asm) attempt_loop.simps) simp
      from attempt(1) [OF _ s [unfolded Continue] rest] False obtain vs where
        vs: "sent w' = sent w1 @ vs" "exchanges_ok E c1 path ((attempts - (n + 1)) * ?m) vs" "same_target c1 c'"
        by (auto simp: not_le)
      from exchanges_ok_append [OF us(2) vs(2) us(3)] m
      have "exchanges_ok E c path ((attempts - n) * ?m) (us @ vs)" by simp
      then show ?thesis using us(1,3) vs(1,3) same_target_trans by auto
    qed
  qed
qed

lemma request_exchanges:
  assumes "request_inner E path pg retries t c w = (run, c', w')"
  shows "\<exists>us. sent w' = sent w @ us \<and>
    exchanges_ok E c path ((unat retries + 1) * (if pg then MAX_PAGINATION_PAGES else 1)) us \<and> same_target c c'"
proof -
  obtain h w1 where h: "is_halted E c w = (h, w1)" by force
  obtain r c2 w2 where r: "ensure_credential E c w1 = (r, c2, w2)" by (metis prod_cases3)
  obtain a w3 where a: "env_acquire E w2 = (a, w3)" by force
  note quiet = halted_log [OF h] ensure_log [OF r] acquire_log [OF a]
  note tgt = ensure_target [OF r]
  show ?thesis
  proof (cases "h \<or> isl r \<or> \<not> a")
    case True
    then have "sent w' = sent w \<and> same_target c c'"
      using assms h r a quiet tgt
      by (cases h; cases r; cases a) (auto simp: request_inner_def)
    then show ?thesis by (auto intro: exI [of _ "[]"])
  next
    case False
    then have "attempt_loop E path pg t (unat retries + 1) 0 False c2 w3 = (run, c', w')"
      using assms h r a by (cases r) (auto simp: request_inner_def)
    from loop_exchanges [OF this] obtain us where
      "sent w' = sent w3 @ us" "same_target c2 c'"
      "exchanges_ok E c2 path ((unat retries + 1) * (if pg then MAX_PAGINATION_PAGES else 1)) us" by auto
    then show ?thesis using quiet tgt exchanges_ok_append [of E c path 0 "[]" c2] same_target_trans by fastforce
  qed
qed

end

subsection \<open>The traced environment\<close>

definition lift_world :: "('w \<Rightarrow> 'a \<times> 'w) \<Rightarrow> 'w \<times> Exchange list \<Rightarrow> 'a \<times> 'w \<times> Exchange list" where
  "lift_world f = (\<lambda>(w, l). case f w of (x, w) \<Rightarrow> (x, w, l))"

definition traced :: "'w Env \<Rightarrow> ('w \<times> Exchange list) Env" where
  "traced E = \<lparr>
     env_get = (\<lambda>url auth tag t (w, l). case env_get E url auth tag t w of (r, w) \<Rightarrow> (r, w, l @ [(url, r)])),
     env_post = (\<lambda>url auth. lift_world (env_post E url auth)),
     env_unix_secs = lift_world (env_unix_secs E),
     env_clocks = lift_world (env_clocks E),
     env_acquire = lift_world (env_acquire E),
     env_refund = (\<lambda>(w, l). (env_refund E w, l)),
     env_total_calls = (\<lambda>(w, l). env_total_calls E w),
     env_epoch_limit = (\<lambda>(w, l). env_epoch_limit E w),
     env_set_backoff = (\<lambda>i (w, l). (env_set_backoff E i w, l)),
     env_resume_at = (\<lambda>(w, l). env_resume_at E w),
     env_jitter = (\<lambda>m. lift_world (env_jitter E m)),
     env_sleep = (\<lambda>d (w, l). (env_sleep E d w, l)),
     env_limits = \<lparr>
       rl_observe = (\<lambda>a b d (w, l). (rl_observe (env_limits E) a b d w, l)),
       rl_load_limit = (\<lambda>(w, l). rl_load_limit (env_limits E) w),
       rl_load_reset = (\<lambda>(w, l). rl_load_reset (env_limits E) w),
       rl_should_halt = (\<lambda>(w, l). rl_should_halt (env_limits E) w),
       rl_note_window_rolled = (\<lambda>(w, l). (rl_note_window_rolled (env_limits E) w, l))\<rparr>,
     env_json = env_json E,
     env_utf8_error = env_utf8_error E,
     env_url = env_url E,
     env_header_value_ok = env_header_value_ok E,
     env_app_jwt = (\<lambda>config. lift_world (env_app_jwt E config)),
     env_token_response = env_token_response E,
     env_parse_time = env_parse_time E\<rparr>"

lemma traced_parsers [simp]:
  "env_json (traced E) = env_json E" "env_url (traced E) = env_url E"
  "env_utf8_error (traced E) = env_utf8_error E"
  by (simp_all add: traced_def)

interpretation trace: logged "traced E" snd for E :: "'w Env"
  by unfold_locales (auto simp: traced_def lift_world_def split: prod.splits)

lemma on_target_traced: "on_target (traced E) c path url = on_target E c path url"
  by (simp add: on_target_def is_same_origin_def extract_origin_def traced_def)

text \<open>
  C15. Where the client sends its token and how often: whatever the servers answer, a request sends at most
  \<open>retries + 1\<close> authenticated requests (500 times as many when it paginates), each of them either to the
  address asked for or to a page of the trusted origin -- a pagination link to another origin is never
  followed.
\<close>
theorem requests_stay_on_origin:
  assumes "request_inner (traced E) path pg retries t c (w, []) = (run, c', w', us)"
  shows "length us \<le> (unat retries + 1) * (if pg then 500 else 1) \<and>
    list_all (\<lambda>(url, _). url = base_url c @ path \<or> is_same_origin E url (trusted_origin c)) us"
  using trace.request_exchanges [OF assms]
  by (auto simp: exchanges_ok_def on_target_traced MAX_PAGINATION_PAGES_def on_target_def [of E] list_all_iff)

subsection \<open>Complete enumerations\<close>

definition page_items :: "'w Env \<Rightarrow> Response \<Rightarrow> Value list option" where
  "page_items E response = (case read_body_bytes_limited response MAX_RESPONSE_BODY_BYTES of
     Inl _ \<Rightarrow> None
   | Inr body \<Rightarrow>
       if from_utf8_ok body \<and> str_trim body \<noteq> []
       then (case env_json E body of Inr (Value.Array items) \<Rightarrow> Some items | _ \<Rightarrow> None) else None)"

text \<open>
  The items of a log of exchanges that is a complete enumeration from \<open>url\<close> on: the first exchange is with
  \<open>url\<close>, every answer is a success with an array, each but the last names the next page on the trusted origin,
  and the last names none.
\<close>

fun chain_items :: "'w Env \<Rightarrow> string \<Rightarrow> string \<Rightarrow> Exchange list \<Rightarrow> Value list option" where
  "chain_items E trusted url [] = None"
| "chain_items E trusted url ((u, Inl _) # rest) = None"
| "chain_items E trusted url ((u, Inr response) # rest) =
     (if u \<noteq> url \<or> \<not> is_success (resp_status response) then None
      else case page_items E response of
         None \<Rightarrow> None
       | Some items \<Rightarrow>
           (case trusted_continuation E (resp_headers response) trusted of
              Continuation.Follow url' \<Rightarrow> map_option (\<lambda>further. items @ further) (chain_items E trusted url' rest)
            | Continuation.Exhausted \<Rightarrow> if rest = [] then Some items else None
            | _ \<Rightarrow> None))"

lemma page_response_chain:
  assumes "page_response E response items tr w = (s, w')"
  shows "case s of
     PageStep.Next url' items' \<Rightarrow> (\<exists>its. page_items E response = Some its \<and> is_success (resp_status response) \<and>
       trusted_continuation E (resp_headers response) tr = Continuation.Follow url' \<and> items' = items @ its \<and>
       length items' \<le> max (length items) MAX_PAGINATED_ITEMS)
   | PageStep.Done (Some (AttemptResult.Success code d h truncated)) \<Rightarrow> code = 200 \<and> h = None \<and>
       (if truncated
        then chain_items E tr url [(url, Inr response)] = None \<or>
          (\<exists>its. chain_items E tr url [(url, Inr response)] = Some its \<and> MAX_PAGINATED_ITEMS < length items + length its)
        else (\<exists>its. chain_items E tr url [(url, Inr response)] = Some its \<and> d = Some (Value.Array (items @ its)) \<and>
          length its \<le> MAX_PAGINATED_ITEMS - length items))
   | _ \<Rightarrow> True"
proof (cases "is_success (resp_status response)")
  case False
  with assms show ?thesis by (auto simp: page_response_def Let_def split: prod.splits option.splits)
next
  case ok: True
  show ?thesis
  proof (cases "read_body_bytes_limited response MAX_RESPONSE_BODY_BYTES")
    case (Inl e)
    with ok assms show ?thesis by (auto simp: page_response_def Let_def)
  next
    case (Inr body)
    show ?thesis
    proof (cases "parse_paginated_page_body E (resp_status response) body items")
      case (Inl f)
      with ok assms Inr show ?thesis by (auto simp: page_response_def Let_def)
    next
      case parsed: (Inr p)
      then obtain its where its: "page_items E response = Some its" "p = (length its > MAX_PAGINATED_ITEMS - length items,
          items @ (if length its > MAX_PAGINATED_ITEMS - length items then take (MAX_PAGINATED_ITEMS - length items) its
            else its))"
        using Inr by (auto simp: parse_paginated_page_body_def page_items_def Let_def
            split: if_splits sum.splits Value.splits)
      show ?thesis
        using assms ok Inr parsed its
        by (auto simp: page_response_def Let_def paginated_success_def split: if_splits Continuation.splits)
    qed
  qed
qed

context logged
begin

lemma paginate_chain:
  assumes "paginate_from E t url n items c w = (Some (AttemptResult.Success code d h truncated), c', w')"
    and "length items \<le> MAX_PAGINATED_ITEMS"
  shows "\<exists>us. sent w' = sent w @ us \<and> code = 200 \<and> h = None \<and>
    (case chain_items E (trusted_origin c) url us of
       None \<Rightarrow> truncated
     | Some its \<Rightarrow> if length items + length its \<le> MAX_PAGINATED_ITEMS
         then \<not> truncated \<and> d = Some (Value.Array (items @ its)) else truncated)"
  using assms
proof (induction url n items c w rule: paginate_induct [of E t])
  case (page url n items c w)
  obtain s c1 w1 where s: "page_step E t url (n + 1) items c w = (s, c1, w1)" by (metis prod_cases3)
  show ?case
  proof (cases s)
    case (Done r)
    with page(2) s have r: "r = Some (AttemptResult.Success code d h truncated)" "w' = w1"
      by (subst (asm) paginate_from.simps, simp)+
    from page_step_log [OF s] consider (quiet) "r = Some (paginated_success items True)" "sent w1 = sent w"
      | (answered) response v v' where "sent w1 = sent w @ [(url, Inr response)]"
        "page_response E response items (trusted_origin c) v = (s, v')"
      using Done r(1) by auto
    then show ?thesis
    proof cases
      case quiet
      with r show ?thesis by (auto simp: paginated_success_def intro!: exI [of _ "[]"])
    next
      case (answered response v v')
      from page_response_chain [OF answered(2), of url] answered(1) r Done page(3) show ?thesis
        by (auto intro!: exI [of _ "[(url, Inr response)]"] split: if_splits option.splits simp del: chain_items.simps)
    qed
  next
    case (Next url' items')
    with page(2) s have rest: "paginate_from E t url' (n + 1) items' c1 w1 =
        (Some (AttemptResult.Success code d h truncated), c', w')"
      by (subst (asm) paginate_from.simps) simp
    from page_step_log [OF s] Next obtain response v v' where resp: "sent w1 = sent w @ [(url, Inr response)]"
      "page_response E response items (trusted_origin c) v = (PageStep.Next url' items', v')" by auto
    from page_response_chain [OF resp(2)] obtain its where its: "page_items E response = Some its"
      "is_success (resp_status response)" "items' = items @ its" "length items' \<le> MAX_PAGINATED_ITEMS"
      "trusted_continuation E (resp_headers response) (trusted_origin c) = Continuation.Follow url'"
      using page(3) by auto
    have tr: "trusted_origin c1 = trusted_origin c" using page_step_target [OF s] by (simp add: same_target_def)
    from page(1) [OF s [unfolded Next] rest its(4)] obtain us where us: "sent w' = sent w1 @ us" "code = 200" "h = None"
      "case chain_items E (trusted_origin c) url' us of None \<Rightarrow> truncated
       | Some further \<Rightarrow> if length items' + length further \<le> MAX_PAGINATED_ITEMS
           then \<not> truncated \<and> d = Some (Value.Array (items' @ further)) else truncated" unfolding tr by blast
    have "chain_items E (trusted_origin c) url ((url, Inr response) # us) =
        map_option (\<lambda>further. its @ further) (chain_items E (trusted_origin c) url' us)"
      using its by simp
    with us resp(1) its(3) show ?thesis
      by (auto intro!: exI [of _ "(url, Inr response) # us"] split: option.splits simp: add.assoc)
  qed
qed

end

lemma page_items_traced [simp]: "page_items (traced E) response = page_items E response"
  by (simp add: page_items_def split: sum.split)

lemma continuation_traced [simp]: "trusted_continuation (traced E) hs tr = trusted_continuation E hs tr"
  by (simp add: trusted_continuation_def is_same_origin_def extract_origin_def split: NextLink.split)

lemma chain_items_traced: "chain_items (traced E) tr url us = chain_items E tr url us"
  by (induction E tr url us rule: chain_items.induct) (auto split: option.split Continuation.split)

text \<open>
  C14. A paginated result is complete exactly when it says so: it is not marked truncated if and only if the
  exchanges of the request are a complete enumeration of at most 500000 items -- every page answered with an
  array, each naming the next one on the trusted origin, the last naming none -- and then its items are exactly
  those of the pages, in order. A refused or unreadable link, a halt, an exhausted budget and the page and item
  limits are all reported as truncated.
\<close>
theorem pagination_complete_iff_not_truncated:
  assumes "request_paginated (traced E) path t c (w, []) = (Some (AttemptResult.Success code d h truncated), c', w', us)"
  shows "code = 200 \<and> h = None \<and>
    (case chain_items E (trusted_origin c) (base_url c @ path) us of
       None \<Rightarrow> truncated
     | Some items \<Rightarrow> if length items \<le> 500000 then \<not> truncated \<and> d = Some (Value.Array items) else truncated)"
  using trace.paginate_chain [OF assms [unfolded request_paginated_def]]
  by (auto simp: chain_items_traced MAX_PAGINATED_ITEMS_def split: option.splits)

text \<open>
  The outcome a collector sees of any request is classified soundly: a success carries a 2xx status, and a
  failure with a status is retryable exactly for 429, 500, 502, 503 and 504.
\<close>
theorem request_outcome_classified:
  assumes "request E path pg retries t c w = (Some outcome, c', w')"
  shows "outcome_classified outcome \<and> client_outcome_ok outcome"
  using request_classified [OF assms] outcome_classified_ok by blast

text \<open>While the client is halted, a request returns at once and sends nothing.\<close>

lemma halted_request_sends_nothing:
  assumes "halted_until c \<noteq> 0" and "fst (env_unix_secs E w) < halted_until c"
  shows "\<exists>w'. request_inner (traced E) path pg retries t c (w, []) =
    (Some (RequestRun_never_dispatched PreDispatchFailure.HaltedBeforeDispatch), c, w', [])"
  using assms by (auto simp: request_inner_def is_halted_def traced_def lift_world_def split: prod.splits)

subsection \<open>A scripted environment\<close>

text \<open>A world that answers with a list of prepared responses, for evaluating the model.\<close>

definition sample_json :: "string \<Rightarrow> string + Value" where
  "sample_json s = (if s = ''[true]'' then Inr (Value.Array [Value.Bool True]) else Inl ''expected value'')"

definition script_env :: "Response list Env" where
  "script_env = \<lparr>
     env_get = (\<lambda>_ _ _ _ w. case w of [] \<Rightarrow> (Inl (''connection closed'', False), []) | r # w \<Rightarrow> (Inr r, w)),
     env_post = (\<lambda>_ _ w. (Inl ''connection closed'', w)),
     env_unix_secs = (\<lambda>w. (1000, w)),
     env_clocks = (\<lambda>w. (\<lparr>instant_now = 0, system_now = 0, parse_http_date = (\<lambda>_. None)\<rparr>, w)),
     env_acquire = (\<lambda>w. (True, w)), env_refund = (\<lambda>w. w),
     env_total_calls = (\<lambda>_. 0), env_epoch_limit = (\<lambda>_. 4000),
     env_set_backoff = (\<lambda>_ w. w), env_resume_at = (\<lambda>_. None), env_jitter = (\<lambda>_ w. (0, w)), env_sleep = (\<lambda>_ w. w),
     env_limits = \<lparr>rl_observe = (\<lambda>_ _ _ w. w), rl_load_limit = (\<lambda>_. None), rl_load_reset = (\<lambda>_. None),
       rl_should_halt = (\<lambda>_. False), rl_note_window_rolled = (\<lambda>w. w)\<rparr>,
     env_json = sample_json, env_utf8_error = (\<lambda>_. ''invalid utf-8''), env_url = (\<lambda>_. Some \<lparr>url_scheme = ''https'', url_host = Some ''api'', url_port = None\<rparr>),
     env_header_value_ok = (\<lambda>_. True), env_app_jwt = (\<lambda>_ w. (Inr ''jwt'', w)),
     env_token_response = (\<lambda>_. Inl ''missing field''), env_parse_time = (\<lambda>_. Inl ''invalid'')\<rparr>"

definition sample_state :: Client_State where
  "sample_state = \<lparr>auth_header = ''Bearer t'', base_url = ''https://api'', trusted_origin = ''https://api'',
     gc_org_name = ''org'', rate_limit_warnings = 0, repo_detail_cache = Map.empty, halted_until = 0,
     gc_credential = \<lparr>cred_mode = AuthMode.Pat, cred_token = ''t'', cred_expires_at = None\<rparr>, app_config = None,
     credential_expires_at = 0, budget_checkpoints = BudgetCheckpoints_for_run 0, last_response_etags = Map.empty,
     not_modified_repos = {}, deleted_team_slugs = {}\<rparr>"

definition sample_page :: Response where
  "sample_page = \<lparr>resp_status = 200, resp_headers = (\<lambda>_. []), content_length = None,
     resp_chunks = [''[true]''], chunk_error = None\<rparr>"

lemma sample_trim: "str_trim ''[true]'' = ''[true]''"
  using trim_end_token [of "''[true]''" "[]"]
  by (simp add: str_trim_def trim_start_id ws_len_def WHITE_SPACE_def)

lemma sample_utf8: "from_utf8_ok ''[true]''"
  by (rule from_utf8_ascii) (auto simp: byte_in_def)

lemmas script_simps = script_env_def traced_def lift_world_def sample_page_def sample_json_def
  is_halted_def send_paginated_request_def page_response_def update_from_headers_def is_success_def
  trusted_continuation_def next_link_def read_body_bytes_limited_def MAX_RESPONSE_BODY_BYTES_def
  parse_paginated_page_body_def MAX_PAGINATED_ITEMS_def paginated_success_def sample_trim sample_utf8

lemma sample_paginated:
  "\<exists>c'. request_paginated (traced script_env) ''/p'' 30 sample_state ([sample_page], []) =
     (Some (AttemptResult.Success 200 (Some (Value.Array [Value.Bool True])) None False), c', [],
      [(''https://api/p'', Inr sample_page)])"
  by (simp add: request_paginated_def paginate_from.simps page_step_def MAX_PAGINATION_PAGES_def sample_state_def
      script_simps Let_def)

theorem pagination_complete_iff_not_truncated_witness:
  "chain_items script_env ''https://api'' ''https://api/p'' [(''https://api/p'', Inr sample_page)] =
     Some [Value.Bool True]"
proof -
  obtain c' where run: "request_paginated (traced script_env) ''/p'' 30 sample_state ([sample_page], []) =
     (Some (AttemptResult.Success 200 (Some (Value.Array [Value.Bool True])) None False), c', [],
      [(''https://api/p'', Inr sample_page)])" using sample_paginated by blast
  from pagination_complete_iff_not_truncated [OF run] show ?thesis
    by (auto simp: sample_state_def split: option.splits if_splits)
qed

theorem requests_stay_on_origin_witness:
  "\<exists>run c' us. request_inner (traced script_env) ''/p'' True 2 30 sample_state ([sample_page], []) = (run, c', [], us) \<and>
     length us \<le> 1500"
proof -
  obtain c' where "request_paginated (traced script_env) ''/p'' 30 sample_state ([sample_page], []) =
     (Some (AttemptResult.Success 200 (Some (Value.Array [Value.Bool True])) None False), c', [],
      [(''https://api/p'', Inr sample_page)])" using sample_paginated by blast
  moreover have "is_halted (traced script_env) sample_state w = (False, w)"
    "ensure_credential (traced script_env) sample_state w = (Inr (), sample_state, w)"
    "env_acquire (traced script_env) w = (True, w)" "\<not> rl_should_halt (env_limits (traced script_env)) w" for w
    by (cases w, simp add: is_halted_def ensure_credential_def credential_needs_refresh_def sample_state_def
        script_env_def traced_def lift_world_def)+
  ultimately have "\<exists>run c' us. request_inner (traced script_env) ''/p'' True 2 30 sample_state ([sample_page], []) =
      (run, c', [], us)"
    by (simp add: request_inner_def attempt_loop.simps attempt_step_def one_attempt_def Let_def)
  then obtain run c' us where r: "request_inner (traced script_env) ''/p'' True 2 30 sample_state ([sample_page], []) =
      (run, c', [], us)" by blast
  from requests_stay_on_origin [OF r] r show ?thesis by auto
qed

theorem request_outcome_classified_witness:
  "\<exists>outcome c' w'. request script_env ''/p'' True 2 30 (sample_state\<lparr>halted_until := 2000\<rparr>) [] = (Some outcome, c', w') \<and>
     client_outcome_ok outcome"
proof -
  have "request script_env ''/p'' True 2 30 (sample_state\<lparr>halted_until := 2000\<rparr>) [] =
     (Some (RequestRun_outcome (RequestRun_never_dispatched PreDispatchFailure.HaltedBeforeDispatch)),
      sample_state\<lparr>halted_until := 2000\<rparr>, [])"
    by (simp add: request_def request_inner_def is_halted_def script_env_def)
  from request_outcome_classified [OF this] this show ?thesis by blast
qed

end
