(* ===== verification/Github_Cache_Laws.thy ===== *)
theory Github_Cache_Laws
  imports Github_Client_Laws
begin

text \<open>
  What the repository-detail cache keeps: cached answers within a run, and what survives the export and the
  seeding of the cache between runs -- the fields of the documented contract do, the admin permission that the
  branch-protection collector reads does not.
\<close>

subsection \<open>Requests leave the cache alone\<close>

lemma paginate_target: "paginate_from E t url n items c w = (r, c', w') \<Longrightarrow> same_target c c'"
proof (induction url n items c w rule: paginate_induct [of E t])
  case (page url n items c w)
  obtain s c1 w1 where s: "page_step E t url (n + 1) items c w = (s, c1, w1)" by (metis prod_cases3)
  show ?case
  proof (cases s)
    case (Done d)
    with page(2) s page_step_target [OF s] show ?thesis by (simp add: paginate_from.simps [of E t url])
  next
    case (Next url' items')
    with page(2) s have "paginate_from E t url' (n + 1) items' c1 w1 = (r, c', w')"
      by (simp add: paginate_from.simps [of E t url])
    from page(1) [OF s [unfolded Next] this] page_step_target [OF s] show ?thesis by (rule same_target_trans [rotated])
  qed
qed

lemma attempt_step_target:
  assumes "attempt_step E path pg t attempts n stale c w = (s, c', w')"
  shows "same_target c c'"
proof -
  obtain r c1 w1 where r: "one_attempt E path pg t c w = (r, c1, w1)" by (metis prod_cases3)
  then have first: "same_target c c1"
    by (auto simp: one_attempt_def request_paginated_def split: if_splits dest: paginate_target single_target)
  have warn: "same_target a (b\<lparr>rate_limit_warnings := k\<rparr>) = same_target a b" for a b k
    by (simp add: same_target_def)
  have "same_target c1 c'"
    using assms r
    by (auto simp: attempt_step_def Let_def warn split: if_splits prod.splits sum.splits option.splits
        dest!: note_halt_target ensure_target)
  with first show ?thesis by (rule same_target_trans)
qed

lemma attempt_loop_target: "attempt_loop E path pg t attempts n stale c w = (run, c', w') \<Longrightarrow> same_target c c'"
proof (induction n stale c w rule: attempt_induct [of attempts E path pg t])
  case (attempt n stale c w)
  obtain s c1 w1 where s: "attempt_step E path pg t attempts n stale c w = (s, c1, w1)" by (metis prod_cases3)
  note tgt = attempt_step_target [OF s]
  show ?case
  proof (cases "attempts \<le> n")
    case True
    with attempt(2) show ?thesis by (simp add: attempt_loop.simps)
  next
    case False
    show ?thesis
    proof (cases s)
      case (Return run')
      with attempt(2) s False tgt show ?thesis by (simp add: attempt_loop.simps [of E path pg t attempts n])
    next
      case (Continue stale')
      with attempt(2) s False have "attempt_loop E path pg t attempts (n + 1) stale' c1 w1 = (run, c', w')"
        by (simp add: attempt_loop.simps [of E path pg t attempts n])
      from attempt(1) [OF _ s [unfolded Continue] this] False tgt show ?thesis
        by (meson not_le same_target_trans)
    qed
  qed
qed

lemma request_target: "request E path pg retries t c w = (r, c', w') \<Longrightarrow> same_target c c'"
  by (auto simp: request_def request_inner_def split: prod.splits if_splits sum.splits
      dest!: ensure_target attempt_loop_target intro: same_target_trans)

subsection \<open>Within a run\<close>

definition fresh_hit :: "string \<Rightarrow> u16 \<Rightarrow> Value option \<Rightarrow> Client_State \<Rightarrow> bool" where
  "fresh_hit repo status d c = (case repo_detail_cache c repo of
     None \<Rightarrow> False
   | Some cached \<Rightarrow> \<not> cr_stale cached \<and> cr_status_code cached = status \<and> cr_data cached = d)"

lemma fresh_hit_cache_put [simp]: "fresh_hit repo status d (cache_put repo status d etag c)"
  by (simp add: fresh_hit_def cache_put_def)

lemma fetch_success_cached:
  "fetch_repo_details E repo path c w = (Some (ApiOutcome.Success s d h tr), c', w') \<Longrightarrow> fresh_hit repo s d c'"
  by (auto simp: fetch_repo_details_def Let_def split: prod.splits option.splits)

lemma revalidated_cached:
  assumes "try_etag_revalidation E repo path etag cd cs c w = (Some outcome, c', w')"
  shows "\<exists>s d. outcome = ApiOutcome.Success s d None False \<and> fresh_hit repo s d c'"
  using assms
  by (auto simp: try_etag_revalidation_def cache_revalidated_response_def Let_def
      split: option.splits prod.splits sum.splits if_splits)

text \<open>
  Repository details are stable within a run: once they were answered with a success -- from the cache, by a
  revalidation or by a full request -- the same question is answered with the same status and data from then
  on, whatever the environment, without sending anything, until the entry is marked stale.
\<close>
theorem repo_details_memoised:
  assumes "repo_details sanitize E repo c w = (Some (ApiOutcome.Success s d h tr), c', w')"
  shows "repo_details sanitize E' repo c' v = (Some (ApiOutcome.Success s d None False), c', v)"
proof -
  obtain n where n: "sanitize repo = Inr n"
    using assms by (auto simp: repo_details_def ApiOutcome_failure_def split: sum.splits)
  have "fresh_hit repo s d c'"
    using assms n
    by (auto simp: repo_details_def Let_def fresh_hit_def [of _ _ _ c]
        split: option.splits if_splits prod.splits dest!: revalidated_cached fetch_success_cached)
      (auto simp: fresh_hit_def)
  with n show ?thesis by (auto simp: repo_details_def fresh_hit_def Let_def split: option.splits)
qed

text \<open>A failed answer is never cached.\<close>

lemma repo_details_failure_uncached:
  assumes "repo_details sanitize E repo c w = (Some (ApiOutcome.Failure code e r), c', w')"
  shows "repo_detail_cache c' = repo_detail_cache c"
proof -
  have fetch: "repo_detail_cache c' = repo_detail_cache b"
    if "fetch_repo_details E repo path b v = (Some (ApiOutcome.Failure code e r), c', w')" for path b v
    using that by (auto simp: fetch_repo_details_def Let_def same_target_def split: prod.splits option.splits
        dest!: request_target)
  have reval: "repo_detail_cache b = repo_detail_cache c"
    if "try_etag_revalidation E repo path etag cd cs c v = (None, b, v')" for path etag cd cs b v v'
    using that
    by (auto simp: try_etag_revalidation_def cache_revalidated_response_def Let_def same_target_def
        split: option.splits prod.splits sum.splits if_splits dest!: ensure_target)
  show ?thesis
  proof (cases "sanitize repo")
    case (Inr n)
    let ?path = "''/repos/'' @ gc_org_name c @ ''/'' @ n"
    show ?thesis
    proof (cases "repo_detail_cache c repo")
      case None
      with assms Inr have "fetch_repo_details E repo ?path c w = (Some (ApiOutcome.Failure code e r), c', w')"
        by (simp add: repo_details_def Let_def)
      then show ?thesis by (rule fetch)
    next
      case (Some cached)
      obtain r1 b v where t: "try_etag_revalidation E repo ?path (cr_etag cached) (cr_data cached)
          (cr_status_code cached) c w = (r1, b, v)" by (metis prod_cases3)
      show ?thesis
      proof (cases r1)
        case None
        with assms Inr Some t have "fetch_repo_details E repo ?path b v = (Some (ApiOutcome.Failure code e r), c', w')"
          by (simp add: repo_details_def Let_def split: if_splits)
        from fetch [OF this] reval [OF t [unfolded None]] show ?thesis by simp
      next
        case (Some outcome)
        with revalidated_cached [OF t [unfolded Some]] assms Inr \<open>repo_detail_cache c repo = Some cached\<close> t
        show ?thesis by (auto simp: repo_details_def Let_def split: if_splits)
      qed
    qed
  qed (use assms in \<open>auto simp: repo_details_def\<close>)
qed

subsection \<open>Between runs\<close>

text \<open>The seeded object gives back exactly the exported fields.\<close>

lemma seed_object_get:
  "Value_get ''default_branch'' (seed_object e) = Some (Value.String (crd_default_branch e))"
  "Value_get ''updated_at'' (seed_object e) = map_option Value.String (crd_updated_at e)"
  "Value_get ''security_and_analysis'' (seed_object e) = security_and_analysis e"
  "Value_get ''is_security_policy_enabled'' (seed_object e) = map_option Value.Bool (is_security_policy_enabled e)"
  "Value_get ''permissions'' (seed_object e) = None"
  by (simp_all add: seed_object_def map_of_append map_add_def split: option.split)

lemma export_entry_data:
  assumes "export_entry now cached = Some e"
  obtains d where "cr_data cached = Some d" "security_and_analysis e = Value_get ''security_and_analysis'' d"
    "is_security_policy_enabled e = Option.bind (Value_get ''is_security_policy_enabled'' d) Value_as_bool"
    "crd_updated_at e = Option.bind (Value_get ''updated_at'' d) Value_as_str" "fetched_at e = now"
    "crd_etag e = cr_etag cached"
  using assms by (auto simp: export_entry_def)

text \<open>
  What a run keeps of the last one: a repository whose details were exported and are seeded again within the
  day answers the Dependabot, the security-policy-setting and the staleness questions exactly as the original
  details did.
\<close>
theorem cache_round_trip_keeps_collector_fields:
  assumes "cr_data cached = Some d" and "export_entry exported cached = Some e" and "now - exported \<le> 24 * 3600"
  shows "\<exists>d'. repo_detail_cache (seed_cache now [(repo, e)] c) repo =
      Some \<lparr>cr_status_code = 200, cr_data = Some d', cr_etag = cr_etag cached, cr_stale = False\<rparr> \<and>
    extract_status d' = extract_status d \<and>
    setting_enabled (ApiOutcome.Success 200 (Some d') None False) = setting_enabled (ApiOutcome.Success 200 (Some d) None False) \<and>
    Option.bind (Value_get ''updated_at'' d') Value_as_str = Option.bind (Value_get ''updated_at'' d) Value_as_str"
proof -
  from export_entry_data [OF assms(2)] assms(1) have e:
    "security_and_analysis e = Value_get ''security_and_analysis'' d" "fetched_at e = exported"
    "is_security_policy_enabled e = Option.bind (Value_get ''is_security_policy_enabled'' d) Value_as_bool"
    "crd_updated_at e = Option.bind (Value_get ''updated_at'' d) Value_as_str" "crd_etag e = cr_etag cached"
    by (metis option.inject)+
  have "repo_detail_cache (seed_cache now [(repo, e)] c) repo =
      Some \<lparr>cr_status_code = 200, cr_data = Some (seed_object e), cr_etag = cr_etag cached, cr_stale = False\<rparr>"
    using assms(3) e by (simp add: seed_cache_def seed_entry_def REPO_CACHE_TTL_HOURS_def cache_put_def)
  moreover have "extract_status (seed_object e) = extract_status d"
    by (simp add: extract_status_def seed_object_get e)
  moreover have "setting_enabled (ApiOutcome.Success 200 (Some (seed_object e)) None False) =
      setting_enabled (ApiOutcome.Success 200 (Some d) None False)"
    by (cases "Option.bind (Value_get ''is_security_policy_enabled'' d) Value_as_bool")
      (simp_all add: setting_enabled_def seed_object_get e)
  moreover have "Option.bind (Value_get ''updated_at'' (seed_object e)) Value_as_str =
      Option.bind (Value_get ''updated_at'' d) Value_as_str"
    by (cases "Option.bind (Value_get ''updated_at'' d) Value_as_str") (simp_all add: seed_object_get e)
  ultimately show ?thesis by blast
qed

text \<open>
  C32. The admin permission is lost between runs: details that confirm admin access make a branch with no ruleset
  and a \<open>not found\<close> answer of the protection endpoint unprotected, but after the same details went through the
  export and the seeding the branch is reported unobservable -- a missing protection is hidden by the cache.
\<close>
theorem seeded_cache_hides_missing_protection:
  assumes "repo_admin_signal (ApiOutcome.Success code (Some d) h tr) = AdminAccess.Admin"
    and "export_entry exported \<lparr>cr_status_code = code, cr_data = Some d, cr_etag = etag, cr_stale = False\<rparr> = Some e"
  shows "evaluate_outcomes (ApiOutcome.Success 200 (Some (Value.Array [])) None False)
      (ApiOutcome.Failure (Some 404) m False) branch
      (repo_admin_signal (ApiOutcome.Success code (Some d) h tr)) run_time =
      BranchProtectionResult.Unprotected branch (HistoryProtectionGap.Absent True (Some 404)) run_time \<and>
    evaluate_outcomes (ApiOutcome.Success 200 (Some (Value.Array [])) None False)
      (ApiOutcome.Failure (Some 404) m False) branch
      (repo_admin_signal (ApiOutcome.Success 200 (Some (seed_object e)) None False)) run_time =
      BranchProtectionResult.Unobservable branch IndeterminateReason.PermissionSuspected (Some 404) run_time"
proof -
  have "repo_admin_signal (ApiOutcome.Success 200 (Some (seed_object e)) None False) = AdminAccess.Unknown"
    by (simp add: repo_admin_signal_def seed_object_get)
  then show ?thesis using assms(1)
    by (simp add: evaluate_outcomes_def classify_evidence_def classify_endpoint_def Let_def
        ProtectionEndpoint_parse_payload_def build_protection_result_def HistorySignals_merge_def
        List.map_filter_simps ConfirmedAbsence_confirmed_not_found_def)
qed

text \<open>Successive runs, each of which exports the cache at its end and starts by seeding it.\<close>

fun warm_runs :: "(int \<times> int) list \<Rightarrow> string \<Rightarrow> Client_State \<Rightarrow> Client_State" where
  "warm_runs [] repo c = c"
| "warm_runs ((exported, seeded) # runs) repo c =
     warm_runs runs repo (seed_cache seeded (export_cache exported [repo] c)
       (c\<lparr>repo_detail_cache := Map.empty, last_response_etags := Map.empty\<rparr>))"

text \<open>
  The time to live does not bound the age of cached details: \<open>export\<close> stamps every entry with the current time,
  also one that was only seeded. However long ago the details were fetched, they are still served as fresh if
  every run started within a day of the end of the last.
\<close>
theorem cached_details_never_expire:
  assumes "list_all (\<lambda>(exported, seeded). seeded - exported \<le> 24 * 3600) runs"
    and "repo_detail_cache c repo = Some \<lparr>cr_status_code = 200, cr_data = Some d, cr_etag = etag, cr_stale = False\<rparr>"
  shows "\<exists>d'. repo_detail_cache (warm_runs runs repo c) repo =
      Some \<lparr>cr_status_code = 200, cr_data = Some d', cr_etag = etag, cr_stale = False\<rparr> \<and>
    Value_get ''security_and_analysis'' d' = Value_get ''security_and_analysis'' d"
  using assms
proof (induction runs repo c arbitrary: d rule: warm_runs.induct)
  case (2 exported seeded runs repo c)
  obtain e where e: "export_entry exported \<lparr>cr_status_code = 200, cr_data = Some d, cr_etag = etag, cr_stale = False\<rparr>
      = Some e" by (simp add: export_entry_def)
  then have f: "fetched_at e = exported" "security_and_analysis e = Value_get ''security_and_analysis'' d"
    "crd_etag e = etag" by (auto simp: export_entry_def)
  have "export_cache exported [repo] c = [(repo, e)]"
    using 2(3) e by (simp add: export_cache_def List.map_filter_simps)
  then have "repo_detail_cache (seed_cache seeded (export_cache exported [repo] c)
      (c\<lparr>repo_detail_cache := Map.empty, last_response_etags := Map.empty\<rparr>)) repo =
    Some \<lparr>cr_status_code = 200, cr_data = Some (seed_object e), cr_etag = etag, cr_stale = False\<rparr>"
    using 2(2) f by (simp add: seed_cache_def seed_entry_def REPO_CACHE_TTL_HOURS_def cache_put_def)
  from 2(1) [OF _ this] 2(2) show ?case by (simp add: seed_object_get f)
qed auto

subsection \<open>Instances\<close>

definition sample_details :: Value where
  "sample_details = Value.Object
     [(''default_branch'', Value.String ''main''), (''updated_at'', Value.String ''2026-01-01T00:00:00Z''),
      (''permissions'', Value.Object [(''admin'', Value.Bool True)]),
      (''is_security_policy_enabled'', Value.Bool True)]"

definition sample_cached :: CachedResult where
  "sample_cached = \<lparr>cr_status_code = 200, cr_data = Some sample_details, cr_etag = None, cr_stale = False\<rparr>"

lemma sample_exported: "\<exists>e. export_entry 0 sample_cached = Some e"
  by (simp add: export_entry_def sample_cached_def)

theorem repo_details_memoised_witness:
  "repo_details Inr script_env ''repo'' (sample_state\<lparr>repo_detail_cache := [''repo'' \<mapsto> sample_cached]\<rparr>) [] =
     (Some (ApiOutcome.Success 200 (Some sample_details) None False),
      sample_state\<lparr>repo_detail_cache := [''repo'' \<mapsto> sample_cached]\<rparr>, [])"
  by (rule repo_details_memoised [where E = script_env and w = "[]" and c = "sample_state\<lparr>repo_detail_cache :=
        [''repo'' \<mapsto> sample_cached]\<rparr>" and h = None and tr = False and w' = "[]"])
    (simp add: repo_details_def sample_cached_def)

theorem cache_round_trip_keeps_collector_fields_witness:
  "\<exists>e d'. export_entry 0 sample_cached = Some e \<and>
     repo_detail_cache (seed_cache 60 [(''repo'', e)] sample_state) ''repo'' =
       Some \<lparr>cr_status_code = 200, cr_data = Some d', cr_etag = None, cr_stale = False\<rparr> \<and>
     setting_enabled (ApiOutcome.Success 200 (Some d') None False)"
proof -
  obtain e where e: "export_entry 0 sample_cached = Some e" using sample_exported by blast
  have d: "cr_data sample_cached = Some sample_details" by (simp add: sample_cached_def)
  have "setting_enabled (ApiOutcome.Success 200 (Some sample_details) None False)"
    by (simp add: setting_enabled_def sample_details_def)
  with cache_round_trip_keeps_collector_fields [OF d e, of 60 "''repo''" sample_state] e
  show ?thesis by (auto simp: sample_cached_def)
qed

theorem seeded_cache_hides_missing_protection_witness:
  "\<exists>e. export_entry 0 sample_cached = Some e \<and>
     evaluate_outcomes (ApiOutcome.Success 200 (Some (Value.Array [])) None False)
       (ApiOutcome.Failure (Some 404) ''Not Found'' False) ''main''
       (repo_admin_signal (ApiOutcome.Success 200 (Some (seed_object e)) None False)) ''t'' =
     BranchProtectionResult.Unobservable ''main'' IndeterminateReason.PermissionSuspected (Some 404) ''t''"
proof -
  obtain e where e: "export_entry 0 sample_cached = Some e" using sample_exported by blast
  have "repo_admin_signal (ApiOutcome.Success 200 (Some sample_details) None False) = AdminAccess.Admin"
    by (simp add: repo_admin_signal_def sample_details_def)
  from seeded_cache_hides_missing_protection [OF this e [unfolded sample_cached_def]] e show ?thesis by blast
qed

theorem cached_details_never_expire_witness:
  "\<exists>d'. repo_detail_cache (warm_runs [(0, 60), (86400, 86460), (172800, 172860)] ''repo''
       (sample_state\<lparr>repo_detail_cache := [''repo'' \<mapsto> sample_cached]\<rparr>)) ''repo'' =
     Some \<lparr>cr_status_code = 200, cr_data = Some d', cr_etag = None, cr_stale = False\<rparr>"
  using cached_details_never_expire [of "[(0, 60), (86400, 86460), (172800, 172860)]"
      "sample_state\<lparr>repo_detail_cache := [''repo'' \<mapsto> sample_cached]\<rparr>" "''repo''" sample_details None]
  by (auto simp: sample_cached_def)

end
