(* ===== verification/App_Reads.thy ===== *)
theory App_Reads
  imports App_State
begin

text \<open>
  The readers of the resident projection in \<open>app/state/mod.rs\<close>: every one locks the projection, asks the read
  port one question and unwraps its answer. A reader panics when the mutex is poisoned, which is \<open>None\<close>. Also
  the snapshot that rendering takes and the tokens that order the captures.
\<close>

subsection \<open>Readers\<close>

definition lock_projection :: "'b AppState \<Rightarrow> EvidenceProjection option" where
  "lock_projection s = (if projection_poisoned s then None else Some (projection_state s))"

definition resolve_projection :: "'b AppState \<Rightarrow> (EvidenceProjection \<Rightarrow> 'r) \<Rightarrow> 'r option" where
  "resolve_projection s resolve = map_option resolve (lock_projection s)"

definition projection_len :: "'b AppState \<Rightarrow> nat option" where
  "projection_len s = resolve_projection s (\<lambda>p.
     case EvidenceProjectionReadPort_resolve p EvidenceProjectionQuery.Len of
       EvidenceProjectionResponse.Len n \<Rightarrow> n | _ \<Rightarrow> 0)"

definition projection_org_coverage :: "'b AppState \<Rightarrow> CollectionCoverage option option" where
  "projection_org_coverage s = resolve_projection s (\<lambda>p.
     map_option (\<lambda>org. meta_coverage (org_assessment_metadata org)) (org_state p))"

definition projection_get :: "'b AppState \<Rightarrow> string \<Rightarrow> RepositoryEvidence option option" where
  "projection_get s key = resolve_projection s (\<lambda>p.
     case EvidenceProjectionReadPort_resolve p (EvidenceProjectionQuery.ByKey key) of
       EvidenceProjectionResponse.One evidence \<Rightarrow> evidence | _ \<Rightarrow> None)"

definition projection_contains :: "'b AppState \<Rightarrow> string \<Rightarrow> bool option" where
  "projection_contains s key = resolve_projection s (\<lambda>p.
     case EvidenceProjectionReadPort_resolve p (EvidenceProjectionQuery.Contains key) of
       EvidenceProjectionResponse.Contains c \<Rightarrow> c | _ \<Rightarrow> False)"

definition projection_snapshot :: "'b AppState \<Rightarrow> RepositoryEvidence list option" where
  "projection_snapshot s = resolve_projection s (\<lambda>p.
     case EvidenceProjectionReadPort_resolve p EvidenceProjectionQuery.SortedSnapshot of
       EvidenceProjectionResponse.Many evidence \<Rightarrow> evidence | _ \<Rightarrow> [])"

definition projection_key_name_snapshot :: "'b AppState \<Rightarrow> (string \<times> string) list option" where
  "projection_key_name_snapshot s = resolve_projection s (\<lambda>p.
     case EvidenceProjectionReadPort_resolve p EvidenceProjectionQuery.KeyNameSnapshot of
       EvidenceProjectionResponse.KeyNamePairs pairs \<Rightarrow> pairs | _ \<Rightarrow> [])"

definition projection_team_rosters_snapshot :: "'b AppState \<Rightarrow> (string \<times> TeamRoster) list option" where
  "projection_team_rosters_snapshot s = resolve_projection s (\<lambda>p.
     case EvidenceProjectionReadPort_resolve p EvidenceProjectionQuery.TeamRostersSnapshot of
       EvidenceProjectionResponse.TeamRostersSnapshot rosters \<Rightarrow> rosters | _ \<Rightarrow> [])"

definition projection_team_ghost_rosters_snapshot :: "'b AppState \<Rightarrow> (string \<times> TeamRoster) list option" where
  "projection_team_ghost_rosters_snapshot s = resolve_projection s (\<lambda>p.
     case EvidenceProjectionReadPort_resolve p EvidenceProjectionQuery.TeamGhostRostersSnapshot of
       EvidenceProjectionResponse.TeamGhostRostersSnapshot rosters \<Rightarrow> rosters | _ \<Rightarrow> [])"

subsection \<open>Captures for rendering\<close>

text \<open>The weak pointer to the projection a token was taken from is the identity \<open>'p\<close> of that projection.\<close>

record 'p ProjectionCaptureToken =
  capture_source :: 'p
  capture_sequence :: u64
  deleted_keys :: "string list"

definition witnesses_deletion :: "'p ProjectionCaptureToken \<Rightarrow> string \<Rightarrow> bool" where
  "witnesses_deletion token key \<longleftrightarrow> key \<in> set (deleted_keys token)"

definition ProjectionCaptureToken_succeeds :: "'p ProjectionCaptureToken \<Rightarrow> 'p ProjectionCaptureToken \<Rightarrow> bool" where
  "ProjectionCaptureToken_succeeds token previous \<longleftrightarrow>
     capture_source token = capture_source previous \<and> capture_sequence token \<ge> capture_sequence previous"

record 'p LiveObservationToken =
  live_source :: 'p
  live_sequence :: u64

definition LiveObservationToken_succeeds :: "'p LiveObservationToken \<Rightarrow> 'p LiveObservationToken \<Rightarrow> bool" where
  "LiveObservationToken_succeeds token previous \<longleftrightarrow>
     live_source token = live_source previous \<and> live_sequence token \<ge> live_sequence previous"

definition belongs_to :: "'p LiveObservationToken \<Rightarrow> 'p ProjectionCaptureToken \<Rightarrow> bool" where
  "belongs_to token capture \<longleftrightarrow> live_source token = capture_source capture"

record 'p ProjectionRenderSnapshot =
  snapshot_token :: "'p ProjectionCaptureToken"
  captured :: EvidenceProjection

definition ProjectionRenderSnapshot_repositories :: "'p ProjectionRenderSnapshot \<Rightarrow> RepositoryEvidence list" where
  "ProjectionRenderSnapshot_repositories snapshot = EvidenceProjection_sorted_snapshot (captured snapshot)"

definition ProjectionRenderSnapshot_deleted :: "'p ProjectionRenderSnapshot \<Rightarrow> DeletedRepoRecord list" where
  "ProjectionRenderSnapshot_deleted snapshot = map snd (deleted (captured snapshot))"

definition ProjectionRenderSnapshot_org_state :: "'p ProjectionRenderSnapshot \<Rightarrow> OrgReadModel option" where
  "ProjectionRenderSnapshot_org_state snapshot = org_state (captured snapshot)"

definition ProjectionRenderSnapshot_team_rosters :: "'p ProjectionRenderSnapshot \<Rightarrow> TeamRoster list" where
  "ProjectionRenderSnapshot_team_rosters snapshot =
     (let p = captured snapshot
      in map snd (proj_team_rosters p) @
         map snd (filter (\<lambda>(key, _). btree_get (proj_team_rosters p) key = None) (team_ghost_rosters p)))"

text \<open>The counter of captures stops at its maximum instead of wrapping.\<close>

definition next_render_capture :: "u64 \<Rightarrow> u64 option \<times> u64" where
  "next_render_capture counter = (if counter = -1 then (None, counter) else (Some (counter + 1), counter + 1))"

definition projection_render_snapshot ::
    "'p \<Rightarrow> 'b AppState \<Rightarrow> u64 \<Rightarrow> (string + 'p ProjectionRenderSnapshot) option \<times> u64" where
  "projection_render_snapshot identity s counter = (case lock_projection s of
     None \<Rightarrow> (None, counter)
   | Some p \<Rightarrow> (case next_render_capture counter of
       (None, counter) \<Rightarrow> (Some (Inl ''projection render capture sequence exhausted''), counter)
     | (Some n, counter) \<Rightarrow>
         (Some (Inr \<lparr>snapshot_token = \<lparr>capture_source = identity, capture_sequence = n, deleted_keys = map fst (deleted p)\<rparr>,
            captured = p\<rparr>), counter)))"

definition observe_live_token :: "'p \<Rightarrow> u64 \<Rightarrow> (string + 'p LiveObservationToken) \<times> u64" where
  "observe_live_token identity counter =
     (if counter = -1 then (Inl ''live observation sequence exhausted'', counter)
      else (Inr \<lparr>live_source = identity, live_sequence = counter + 1\<rparr>, counter + 1))"

subsection \<open>Writes under the policy\<close>

text \<open>
  A durable write of the state as an operation of the retry loop, on the state, the flag that an attempt panicked and
  the number of attempts, which selects the identifiers an attempt draws. A panic ends the loop like the terminal
  error it is recorded as, and is the result \<open>None\<close>.
\<close>

definition attempt_write ::
    "(nat \<Rightarrow> 'b AppState \<Rightarrow> unit Outcome \<times> 'b AppState) \<Rightarrow> ('b AppState \<times> bool \<times> nat) write_op" where
  "attempt_write operation st = (case st of (s, _, n) \<Rightarrow> (case operation n s of
     (Outcome.Completed result, s) \<Rightarrow> (result, s, False, Suc n)
   | (Outcome.Panicked, s) \<Rightarrow> (Inl PersistenceError.Indeterminate, s, True, Suc n)))"

definition policy_write ::
    "(nat \<Rightarrow> 'b AppState \<Rightarrow> unit Outcome \<times> 'b AppState) \<Rightarrow> nat \<Rightarrow> 'b AppState \<Rightarrow>
     (WriteFailure + unit) option \<times> 'b AppState \<times> nat" where
  "policy_write operation n s = (case write_with_policy (attempt_write operation) (s, False, n) of
     (result, s, panicked, n) \<Rightarrow> (if panicked then None else Some result, s, n))"

subsection \<open>Laws\<close>

lemmas reader_defs = resolve_projection_def lock_projection_def EvidenceProjectionReadPort_resolve_def

text \<open>The readers answer about the same projection: they all panic exactly when it is poisoned.\<close>

lemma readers_agree:
  "projection_poisoned s \<longleftrightarrow> projection_get s key = None"
  "projection_contains s key = map_option (\<lambda>e. e \<noteq> None) (projection_get s key)"
  "projection_len s = map_option length (projection_snapshot s)"
  "projection_len s = map_option length (projection_key_name_snapshot s)"
  by (simp_all add: projection_get_def projection_contains_def projection_len_def projection_snapshot_def
      projection_key_name_snapshot_def reader_defs EvidenceProjection_get_def EvidenceProjection_len_def
      EvidenceProjection_sorted_snapshot_def EvidenceProjection_key_name_snapshot_def)

text \<open>Of two captures taken one after the other of one projection, only the later one succeeds the other.\<close>

lemma later_capture_succeeds:
  assumes "projection_render_snapshot i s n = (Some (Inr a), n1)"
    and "projection_render_snapshot i t n1 = (Some (Inr b), n2)"
  shows "ProjectionCaptureToken_succeeds (snapshot_token b) (snapshot_token a) \<and> \<not> ProjectionCaptureToken_succeeds (snapshot_token a) (snapshot_token b)"
proof -
  have "capture_sequence (snapshot_token a) = n1" "capture_sequence (snapshot_token b) = n1 + 1" "n1 \<noteq> -1" "capture_source (snapshot_token a) = i" "capture_source (snapshot_token b) = i"
    using assms by (auto simp: projection_render_snapshot_def next_render_capture_def split: option.splits if_splits)
  moreover from \<open>n1 \<noteq> -1\<close> have "n1 < n1 + 1" using inc_less_eq_self_iff_eq [of n1] by (simp add: not_le [symmetric])
  ultimately show ?thesis by (auto simp: ProjectionCaptureToken_succeeds_def)
qed

text \<open>What every attempt of a write keeps, the write under the policy keeps.\<close>

lemma retry_loop_invariant:
  assumes "\<And>s. I s \<Longrightarrow> I (snd (op s))" and "I s"
  shows "I (snd (retry_loop op retries failure s))"
  using assms(2)
  by (induction retries arbitrary: failure s) (auto split: prod.split RetryStep.split dest: assms(1))

lemma write_with_policy_invariant:
  assumes "\<And>s. I s \<Longrightarrow> I (snd (op s))" and "I s"
  shows "I (snd (write_with_policy op s))"
  using assms(1) [OF assms(2)] retry_loop_invariant [of I op, OF assms(1)]
  by (auto simp: write_with_policy_def split: prod.split RetryStep.split)

lemma policy_write_invariant:
  assumes "\<And>n s. I s \<Longrightarrow> I (snd (operation n s))" and "I s"
  shows "I (fst (snd (policy_write operation n s)))"
proof -
  have "I (fst (snd (attempt_write operation st)))" if "I (fst st)" for st
    using assms(1) [OF that, of "snd (snd st)"]
    by (auto simp: attempt_write_def split: prod.split Outcome.split)
  then have "I (fst (snd (write_with_policy (attempt_write operation) (s, False, n))))"
    using write_with_policy_invariant [of "\<lambda>st. I (fst st)" "attempt_write operation" "(s, False, n)"] assms(2) by simp
  then show ?thesis by (auto simp: policy_write_def split: prod.split)
qed

text \<open>A write under the policy that succeeds ends with an attempt that succeeded.\<close>

lemma retry_loop_last:
  assumes "retry_loop op retries failure s = (Inr (), s')" and "\<And>s e t. I s \<Longrightarrow> op s = (Inl e, t) \<Longrightarrow> I t" and "I s"
  shows "\<exists>t. I t \<and> op t = (Inr (), s')"
  using assms(1,3)
proof (induction retries arbitrary: failure s)
  case (Cons retry retries)
  obtain r t where t: "op s = (r, t)" by force
  show ?case
  proof (cases r)
    case (Inl e)
    with assms(2) [OF Cons.prems(2)] t have "I t" by blast
    with Cons t Inl show ?thesis
      by (cases "classify_attempt r (retry + 2)") (auto simp: classify_attempt_def Let_def split: WriteResponse.splits)
  qed (use t Cons.prems in \<open>auto simp: classify_attempt_def\<close>)
qed simp

lemma write_with_policy_last:
  assumes "write_with_policy op s = (Inr (), s')" and "\<And>s e t. I s \<Longrightarrow> op s = (Inl e, t) \<Longrightarrow> I t" and "I s"
  shows "\<exists>t. I t \<and> op t = (Inr (), s')"
proof -
  obtain r t where t: "op s = (r, t)" by force
  show ?thesis
  proof (cases r)
    case (Inl e)
    with assms(2,3) t have "I t" by blast
    have "classify_attempt r 1 \<noteq> Succeeded"
      by (simp add: Inl classify_attempt_def Let_def split: WriteResponse.split)
    with t assms(1) obtain failure where
      "retry_loop op (map of_nat [0..<unat BOUNDED_RETRY_ATTEMPTS]) failure t = (Inr (), s')"
      by (auto simp: write_with_policy_def split: RetryStep.splits)
    then show ?thesis by (rule retry_loop_last [where I = I, OF _ _ \<open>I t\<close>]) (rule assms(2))
  qed (use t assms(1,3) in \<open>auto simp: write_with_policy_def classify_attempt_def\<close>)
qed

lemma policy_write_last:
  assumes "policy_write operation n s = (Some (Inr ()), s', n')" and "\<And>n s. I s \<Longrightarrow> I (snd (operation n s))" and "I s"
  shows "\<exists>t m. I t \<and> operation m t = (Outcome.Completed (Inr ()), s')"
proof -
  have keep: "I (fst (snd (attempt_write operation st)))" if "I (fst st)" for st
    using assms(2) [OF that, of "snd (snd st)"]
    by (auto simp: attempt_write_def split: prod.split Outcome.split)
  have "write_with_policy (attempt_write operation) (s, False, n) = (Inr (), s', False, n')"
    using assms(1) by (auto simp: policy_write_def split: prod.splits if_splits)
  from write_with_policy_last [where I = "\<lambda>st. I (fst st)", OF this] keep assms(3)
  obtain t p m where "I t" "attempt_write operation (t, p, m) = (Inr (), s', False, n')" by fastforce
  then show ?thesis by (auto simp: attempt_write_def split: prod.splits Outcome.splits)
qed

end
