(* ===== verification/Webhook.thy ===== *)
theory Webhook
  imports App_Reads App_State_Laws Github_Limits Codeowners_Collector Policy_Collectors
begin

text \<open>
  The webhook receiver: \<open>webhook/signature.rs\<close>, \<open>webhook/events.rs\<close>, \<open>webhook/mod.rs\<close> and the webhook operations
  of \<open>app/state/mod.rs\<close>. The MAC, the decoders that serde derives for the two payload types, the caches of
  the moka package and the work queue are parameters, collected in a record. A handler that panics answers
  \<open>None\<close>. Log records are left out.
\<close>

subsection \<open>Signatures\<close>

text \<open>\<open>char::to_digit(16)\<close>, and \<open>u8::from_str_radix(_, 16)\<close> on two characters, which allows a leading plus sign.\<close>

definition hex_value :: "char \<Rightarrow> nat option" where
  "hex_value c =
     (let n = of_char c :: nat
      in if 48 \<le> n \<and> n \<le> 57 then Some (n - 48)
         else if 97 \<le> n \<and> n \<le> 102 then Some (n - 87)
         else if 65 \<le> n \<and> n \<le> 70 then Some (n - 55) else None)"

definition hex_pair :: "char \<Rightarrow> char \<Rightarrow> char option" where
  "hex_pair a b =
     (if a = CHR ''+'' then map_option char_of (hex_value b)
      else Option.bind (hex_value a) (\<lambda>h. map_option (\<lambda>l. char_of (16 * h + l)) (hex_value b)))"

fun hex_pairs :: "string \<Rightarrow> string option" where
  "hex_pairs [] = Some []"
| "hex_pairs [_] = None"
| "hex_pairs (a # b # s) = Option.bind (hex_pair a b) (\<lambda>c. map_option (Cons c) (hex_pairs s))"

definition hex_decode :: "string \<Rightarrow> string option" where
  "hex_decode s =
     (if \<not> list_all (\<lambda>c. of_char c < (128 :: nat)) s \<or> length s mod 2 \<noteq> 0 then None else hex_pairs s)"

definition strip_prefix :: "string \<Rightarrow> string \<Rightarrow> string option" where
  "strip_prefix p s = (if is_prefix p s then Some (drop (length p) s) else None)"

definition verify_signature :: "(string \<Rightarrow> string \<Rightarrow> string) \<Rightarrow> string \<Rightarrow> string \<Rightarrow> string \<Rightarrow> bool" where
  "verify_signature hmac secret body signature_header = (case strip_prefix ''sha256='' signature_header of
     None \<Rightarrow> False
   | Some hex_str \<Rightarrow> (case hex_decode hex_str of
       None \<Rightarrow> False
     | Some expected \<Rightarrow> hmac secret body = expected))"

subsection \<open>Payloads\<close>

datatype WebhookError = InvalidJson | MissingRepository

record WebhookRepository =
  wr_id :: u64
  wr_node_id :: "string option"
  wr_name :: string
  wr_full_name :: "string option"
  wr_visibility :: "string option"
  wr_default_branch :: "string option"
  wr_archived :: bool
  wr_html_url :: "string option"

record WebhookPayload =
  wp_repository :: "WebhookRepository option"
  wp_action :: "string option"

record PushCommit =
  pc_added :: "string list"
  pc_modified :: "string list"
  pc_removed :: "string list"

record PushRepository =
  pr_id :: u64
  pr_name :: string
  pr_default_branch :: string

record PushEvent =
  ref_field :: string
  pe_repository :: PushRepository
  pe_commits :: "PushCommit list"

datatype WebhookAction = Enqueue string Repository | Remove string | Ignore

subsection \<open>Mapping events\<close>

definition SECURITY_PATHS :: "string list" where
  "SECURITY_PATHS = [''SECURITY.md'', ''.github/SECURITY.md'', ''docs/SECURITY.md'']"

definition CODEOWNERS_PATHS :: "string list" where
  "CODEOWNERS_PATHS = [''.github/CODEOWNERS'', ''CODEOWNERS'']"

definition is_security_relevant_push :: "PushEvent \<Rightarrow> bool" where
  "is_security_relevant_push payload = (case strip_prefix ''refs/heads/'' (ref_field payload) of
     None \<Rightarrow> False
   | Some ref_name \<Rightarrow>
       if ref_name \<noteq> pr_default_branch (pe_repository payload) then False
       else list_ex (\<lambda>commit.
         list_ex (\<lambda>file. file \<in> set SECURITY_PATHS \<or> file \<in> set CODEOWNERS_PATHS)
           (pc_added commit @ pc_modified commit @ pc_removed commit)) (pe_commits payload))"

text \<open>A repository known only by its identity; both builders fill the rest with the same defaults.\<close>

definition minimal_repository ::
    "string \<Rightarrow> string option \<Rightarrow> string \<Rightarrow> Visibility \<Rightarrow> string \<Rightarrow> bool \<Rightarrow> string option \<Rightarrow> Repository" where
  "minimal_repository i node name vis branch arch url =
     \<lparr>repo_id = i, repo_node_id = node, repo_name = name, visibility = vis, repo_language = None,
      default_branch = branch, archived = arch, inventory_key = i, updated_at = None, has_issues = False,
      pushed_at = None, created_at = None, repo_description = None, repo_fork = False, repo_is_empty = False,
      html_url = url, repo_topics = [], license_spdx = None\<rparr>"

definition build_repository_from_payload :: "WebhookRepository \<Rightarrow> Repository" where
  "build_repository_from_payload payload =
     minimal_repository (nat_display (unat (wr_id payload))) (wr_node_id payload) (wr_name payload)
       (if wr_visibility payload = Some ''public'' then Visibility.Public
        else if wr_visibility payload = Some ''internal'' then Visibility.Internal else Visibility.Private)
       (case wr_default_branch payload of Some b \<Rightarrow> b | None \<Rightarrow> ''main'')
       (wr_archived payload) (wr_html_url payload)"

definition resolve_or_build_repo :: "string \<Rightarrow> WebhookRepository \<Rightarrow> 'b AppState \<Rightarrow> Repository option" where
  "resolve_or_build_repo key payload s = map_option (\<lambda>found. case found of
     Some evidence \<Rightarrow> repository evidence | None \<Rightarrow> build_repository_from_payload payload) (projection_get s key)"

definition resolve_repo_from_store :: "string \<Rightarrow> string \<Rightarrow> 'b AppState \<Rightarrow> Repository option" where
  "resolve_repo_from_store key name s = map_option (\<lambda>found. case found of
     Some evidence \<Rightarrow> repository evidence
   | None \<Rightarrow> minimal_repository key None name Visibility.Private ''main'' False None) (projection_get s key)"

text \<open>The answer of a mapping is an error or an action; \<open>None\<close> is the panic of a poisoned projection.\<close>

definition enqueue_repo :: "string \<Rightarrow> Repository option \<Rightarrow> (WebhookError + WebhookAction) option" where
  "enqueue_repo key repo = map_option (\<lambda>r. Inr (WebhookAction.Enqueue key r)) repo"

definition map_repository_event ::
    "WebhookPayload option \<Rightarrow> 'b AppState \<Rightarrow> (WebhookError + WebhookAction) option" where
  "map_repository_event decoded s = (case decoded of
     None \<Rightarrow> Some (Inl WebhookError.InvalidJson)
   | Some payload \<Rightarrow>
       let action = (case wp_action payload of Some a \<Rightarrow> a | None \<Rightarrow> '''')
       in case wp_repository payload of
            None \<Rightarrow> Some (Inl WebhookError.MissingRepository)
          | Some repo_payload \<Rightarrow>
              let key = nat_display (unat (wr_id repo_payload))
              in if action \<in> {''deleted'', ''archived''} then Some (Inr (WebhookAction.Remove key))
                 else if action \<in> {''created'', ''unarchived'', ''publicized'', ''privatized''}
                 then enqueue_repo key (resolve_or_build_repo key repo_payload s)
                 else Some (Inr WebhookAction.Ignore))"

definition map_push_event :: "PushEvent option \<Rightarrow> 'b AppState \<Rightarrow> (WebhookError + WebhookAction) option" where
  "map_push_event decoded s = (case decoded of
     None \<Rightarrow> Some (Inl WebhookError.InvalidJson)
   | Some payload \<Rightarrow>
       if \<not> is_security_relevant_push payload then Some (Inr WebhookAction.Ignore)
       else let key = nat_display (unat (pr_id (pe_repository payload)))
            in enqueue_repo key (resolve_repo_from_store key (pr_name (pe_repository payload)) s))"

definition map_generic_enqueue_event ::
    "WebhookPayload option \<Rightarrow> 'b AppState \<Rightarrow> (WebhookError + WebhookAction) option" where
  "map_generic_enqueue_event decoded s = (case decoded of
     None \<Rightarrow> Some (Inl WebhookError.InvalidJson)
   | Some payload \<Rightarrow> (case wp_repository payload of
       None \<Rightarrow> Some (Inl WebhookError.MissingRepository)
     | Some repo_payload \<Rightarrow>
         let key = nat_display (unat (wr_id repo_payload))
         in enqueue_repo key (resolve_or_build_repo key repo_payload s)))"

subsection \<open>The receiver\<close>

text \<open>
  The parameters: the MAC; the derived decoders; \<open>entry(key).or_insert(()).is_fresh()\<close> of the replay cache; the
  debounce cache; and the work queue. The caches drop entries as time passes, so they take the reading of the clock.
\<close>

datatype EnqueueResult = Accepted | Deduplicated | QueueFull

record JobSpec =
  job_key :: string
  job_repo :: Repository
  job_run_timestamp :: string
  job_delivery :: string
  job_event_kind :: string

record ('c, 'd, 'q) WebhookPorts =
  hmac_sha256 :: "string \<Rightarrow> string \<Rightarrow> string"
  decode_webhook :: "string \<Rightarrow> WebhookPayload option"
  decode_push :: "string \<Rightarrow> PushEvent option"
  replay_or_insert :: "nat \<Rightarrow> string \<Rightarrow> 'c \<Rightarrow> bool \<times> 'c"
  debounce_get :: "nat \<Rightarrow> string \<Rightarrow> 'd \<Rightarrow> nat option \<times> 'd"
  debounce_insert :: "string \<Rightarrow> nat \<Rightarrow> 'd \<Rightarrow> 'd"
  queue_enqueue :: "JobSpec \<Rightarrow> 'q \<Rightarrow> EnqueueResult \<times> 'q"

record ('b, 'c, 'd, 'q) Receiver =
  rc_app :: "'b AppState"
  rc_secret :: "string option"
  rc_replay :: 'c
  rc_debounce :: 'd
  rc_queue :: 'q

text \<open>A request with the readings of the clocks, in nanoseconds and as text, and the identifiers drawn for it.\<close>

record Delivery =
  d_headers :: HeaderMap
  d_body :: string
  d_instant :: nat
  d_timestamp :: string
  d_ids :: "nat \<Rightarrow> uuid"

definition map_event_to_action ::
    "('c, 'd, 'q) WebhookPorts \<Rightarrow> string \<Rightarrow> string \<Rightarrow> 'b AppState \<Rightarrow> (WebhookError + WebhookAction) option" where
  "map_event_to_action P event_type body s =
     (if event_type = ''repository'' then map_repository_event (decode_webhook P body) s
      else if event_type \<in> {''branch_protection_configuration'', ''branch_protection_rule'', ''dependabot_alert'',
          ''code_scanning_alert'', ''secret_scanning_alert'', ''member''}
      then map_generic_enqueue_event (decode_webhook P body) s
      else if event_type = ''push'' then map_push_event (decode_push P body) s
      else Some (Inr WebhookAction.Ignore))"

definition validate_request ::
    "('c, 'd, 'q) WebhookPorts \<Rightarrow> ('b, 'c, 'd, 'q) Receiver \<Rightarrow> Delivery \<Rightarrow> u16 + string \<times> string" where
  "validate_request P r d = (case rc_secret r of
     None \<Rightarrow> Inl 404
   | Some secret \<Rightarrow> (case header_str (d_headers d) ''x-hub-signature-256'' of
       None \<Rightarrow> Inl 401
     | Some signature \<Rightarrow>
         if \<not> verify_signature (hmac_sha256 P) secret (d_body d) signature then Inl 401
         else (case header_str (d_headers d) ''x-github-event'' of
            None \<Rightarrow> Inl 400
          | Some event_type \<Rightarrow> (case header_str (d_headers d) ''x-github-delivery'' of
              None \<Rightarrow> Inl 400
            | Some delivery_id \<Rightarrow> Inr (event_type, delivery_id)))))"

definition write_response_status :: "WriteResponse \<Rightarrow> u16" where
  "write_response_status response = (case response of
     WriteResponse.HttpNon2xx \<Rightarrow> 502 | WriteResponse.Fatal \<Rightarrow> 500 | WriteResponse.BoundedRetry \<Rightarrow> 500)"

definition execute_remove ::
    "'b AppEnv \<Rightarrow> string \<Rightarrow> Delivery \<Rightarrow> ('b, 'c, 'd, 'q) Receiver \<Rightarrow> u16 option \<times> ('b, 'c, 'd, 'q) Receiver" where
  "execute_remove env key d r = (case projection_contains (rc_app r) key of
     None \<Rightarrow> (None, r)
   | Some False \<Rightarrow> (Some 200, r)
   | Some True \<Rightarrow> (case policy_write (\<lambda>n. remove_repo env key key (d_timestamp d) (d_ids d n)) 0 (rc_app r) of
       (result, s, _) \<Rightarrow>
         (case result of
            None \<Rightarrow> None
          | Some (Inl _) \<Rightarrow> Some (write_response_status WriteResponse.HttpNon2xx)
          | Some (Inr _) \<Rightarrow> Some 200, r\<lparr>rc_app := s\<rparr>)))"

definition DEFAULT_WEBHOOK_DEBOUNCE_SECS :: nat where
  "DEFAULT_WEBHOOK_DEBOUNCE_SECS = 5"

definition record_push_and_check_debounce ::
    "('c, 'd, 'q) WebhookPorts \<Rightarrow> string \<Rightarrow> nat \<Rightarrow> 'd \<Rightarrow> bool \<times> 'd" where
  "record_push_and_check_debounce P key now cache = (case debounce_get P now key cache of
     (Some previous, cache) \<Rightarrow>
       if (now - previous) div nanos_per_sec < DEFAULT_WEBHOOK_DEBOUNCE_SECS then (True, cache)
       else (False, debounce_insert P key now cache)
   | (None, cache) \<Rightarrow> (False, debounce_insert P key now cache))"

definition submit_job ::
    "('c, 'd, 'q) WebhookPorts \<Rightarrow> JobSpec \<Rightarrow> ('b, 'c, 'd, 'q) Receiver \<Rightarrow> u16 option \<times> ('b, 'c, 'd, 'q) Receiver" where
  "submit_job P job r = (case queue_enqueue P job (rc_queue r) of (result, q) \<Rightarrow>
     (Some (case result of
        EnqueueResult.Accepted \<Rightarrow> 202 | EnqueueResult.Deduplicated \<Rightarrow> 200 | EnqueueResult.QueueFull \<Rightarrow> 503),
      r\<lparr>rc_queue := q\<rparr>))"

definition execute_enqueue ::
    "('c, 'd, 'q) WebhookPorts \<Rightarrow> string \<Rightarrow> string \<Rightarrow> string \<Rightarrow> Repository \<Rightarrow> Delivery \<Rightarrow>
     ('b, 'c, 'd, 'q) Receiver \<Rightarrow> u16 option \<times> ('b, 'c, 'd, 'q) Receiver" where
  "execute_enqueue P event_type delivery_id key repo d r =
     (let job = \<lparr>job_key = key, job_repo = repo, job_run_timestamp = d_timestamp d, job_delivery = delivery_id,
            job_event_kind = event_type\<rparr>
      in if event_type = ''push''
         then (case record_push_and_check_debounce P key (d_instant d) (rc_debounce r) of (debounced, cache) \<Rightarrow>
           let r = r\<lparr>rc_debounce := cache\<rparr>
           in if debounced then (Some 200, r) else submit_job P job r)
         else submit_job P job r)"

definition execute_action ::
    "'b AppEnv \<Rightarrow> ('c, 'd, 'q) WebhookPorts \<Rightarrow> string \<Rightarrow> string \<Rightarrow> WebhookAction \<Rightarrow> Delivery \<Rightarrow>
     ('b, 'c, 'd, 'q) Receiver \<Rightarrow> u16 option \<times> ('b, 'c, 'd, 'q) Receiver" where
  "execute_action env P event_type delivery_id action d r = (case action of
     WebhookAction.Remove key \<Rightarrow> execute_remove env key d r
   | WebhookAction.Enqueue key repo \<Rightarrow> execute_enqueue P event_type delivery_id key repo d r
   | WebhookAction.Ignore \<Rightarrow> (Some 200, r))"

definition webhook_handler ::
    "'b AppEnv \<Rightarrow> ('c, 'd, 'q) WebhookPorts \<Rightarrow> Delivery \<Rightarrow> ('b, 'c, 'd, 'q) Receiver \<Rightarrow>
     u16 option \<times> ('b, 'c, 'd, 'q) Receiver" where
  "webhook_handler env P d r = (case validate_request P r d of
     Inl status \<Rightarrow> (Some status, r)
   | Inr (event_type, delivery_id) \<Rightarrow> (case map_event_to_action P event_type (d_body d) (rc_app r) of
       None \<Rightarrow> (None, r)
     | Some (Inl _) \<Rightarrow> (Some 400, r)
     | Some (Inr action) \<Rightarrow> (case replay_or_insert P (d_instant d) delivery_id (rc_replay r) of (fresh, cache) \<Rightarrow>
         let r = r\<lparr>rc_replay := cache\<rparr>
         in if \<not> fresh then (Some 200, r) else execute_action env P event_type delivery_id action d r)))"

subsection \<open>Authentication\<close>

definition hex_char :: "nat \<Rightarrow> char" where
  "hex_char n = char_of (if n < 10 then 48 + n else 87 + n)"

definition hex_encode :: "string \<Rightarrow> string" where
  "hex_encode s = concat (map (\<lambda>c. [hex_char (of_char c div 16), hex_char (of_char c mod 16)]) s)"

lemma hex_char_value: "n < 16 \<Longrightarrow> hex_value (hex_char n) = Some n"
  by (auto simp: hex_value_def hex_char_def of_char_of Let_def)

lemma hex_char_ascii: "n < 16 \<Longrightarrow> of_char (hex_char n) < (128 :: nat) \<and> hex_char n \<noteq> CHR ''+''"
proof -
  assume n: "n < 16"
  then have "of_char (hex_char n) \<in> {48..102 :: nat}" by (auto simp: hex_char_def of_char_of)
  then show ?thesis by (cases "hex_char n = CHR ''+''") auto
qed

lemma hex_pair_encode: "hex_pair (hex_char (of_char c div 16)) (hex_char (of_char c mod 16)) = Some c"
proof -
  have lt: "of_char c div 16 < (16 :: nat)" using nat_of_char_less_256 [of c] by (simp add: less_mult_imp_div_less)
  then have "hex_pair (hex_char (of_char c div 16)) (hex_char (of_char c mod 16)) =
      Some (char_of (16 * (of_char c div 16) + of_char c mod 16 :: nat))"
    by (simp add: hex_pair_def hex_char_ascii hex_char_value)
  then show ?thesis by simp
qed

lemma hex_decode_encode: "hex_decode (hex_encode s) = Some s"
proof -
  have lt: "of_char c div 16 < (16 :: nat)" for c
    using nat_of_char_less_256 [of c] by (simp add: less_mult_imp_div_less)
  have "list_all (\<lambda>c. of_char c < (128 :: nat)) (hex_encode s)" "length (hex_encode s) mod 2 = 0"
    by (induction s) (simp_all add: hex_encode_def hex_char_ascii lt)
  moreover have "hex_pairs (hex_encode s) = Some s"
    by (induction s) (simp_all add: hex_encode_def hex_pair_encode)
  ultimately show ?thesis by (simp add: hex_decode_def)
qed

lemma strip_prefix_append: "strip_prefix p (p @ s) = Some s"
  by (simp add: strip_prefix_def is_prefix_iff)

text \<open>
  The signature check accepts the hexadecimal form of a MAC exactly when it is the MAC of the body under the
  configured secret, whatever the MAC function.
\<close>
theorem signature_accepted_iff_mac:
  "verify_signature hmac secret body (''sha256='' @ hex_encode mac) \<longleftrightarrow> mac = hmac secret body"
  unfolding verify_signature_def strip_prefix_append by (auto simp: hex_decode_encode)

text \<open>A plus sign in front of a digit is accepted as a digit pair, so one signature has several spellings.\<close>

lemma hex_decode_accepts_plus: "hex_decode ''+f'' = hex_decode ''0f''"
  by (simp add: hex_decode_def hex_pair_def hex_value_def)

definition authentic :: "('c, 'd, 'q) WebhookPorts \<Rightarrow> ('b, 'c, 'd, 'q) Receiver \<Rightarrow> Delivery \<Rightarrow> bool" where
  "authentic P r d \<longleftrightarrow> (\<exists>secret hex. rc_secret r = Some secret \<and>
     header_str (d_headers d) ''x-hub-signature-256'' = Some (''sha256='' @ hex) \<and>
     hex_decode hex = Some (hmac_sha256 P secret (d_body d)))"

lemma strip_prefix_Some: "strip_prefix p s = Some t \<longleftrightarrow> s = p @ t"
  by (auto simp: strip_prefix_def is_prefix_iff)

lemma validate_authentic: "validate_request P r d = Inr x \<Longrightarrow> authentic P r d"
  by (auto simp: validate_request_def verify_signature_def authentic_def strip_prefix_Some
      split: option.splits if_splits)

text \<open>
  C23. A request without a valid signature changes nothing: it is answered with 401, or with 404 where no secret is
  configured, before its event is looked at.
\<close>
theorem unauthenticated_request_is_inert:
  assumes "\<not> authentic P r d"
  shows "webhook_handler env P d r = (Some (if rc_secret r = None then 404 else 401), r)"
  using assms
  by (auto simp: webhook_handler_def validate_request_def verify_signature_def authentic_def strip_prefix_Some
      split: option.splits if_splits)

subsection \<open>Redelivery\<close>

text \<open>The bounds that the receiver builds its replay cache with, the time to live in nanoseconds.\<close>

definition REPLAY_CACHE_CAPACITY :: nat where
  "REPLAY_CACHE_CAPACITY = 100000"

definition REPLAY_CACHE_TTL_SECS :: nat where
  "REPLAY_CACHE_TTL_SECS = 3600"

abbreviation replay_ttl :: nat where
  "replay_ttl \<equiv> REPLAY_CACHE_TTL_SECS * nanos_per_sec"

text \<open>
  What the documentation of the cache says: \<open>held\<close> are its keys with the time each expires at. An entry counts until
  it expires. An insertion is fresh exactly for a key without such an entry, and it gives no other key a new entry. While
  the cache holds fewer entries than its capacity, the insertion lets the new entry live for the whole time to live and
  evicts no other; a full cache may evict any entry, or drop the new one.
\<close>

definition replay_live :: "('c \<Rightarrow> string \<rightharpoonup> nat) \<Rightarrow> nat \<Rightarrow> 'c \<Rightarrow> string set" where
  "replay_live held now c = {k. \<exists>e. held c k = Some e \<and> now < e}"

definition replay_contract :: "('c, 'd, 'q) WebhookPorts \<Rightarrow> ('c \<Rightarrow> string \<rightharpoonup> nat) \<Rightarrow> bool" where
  "replay_contract P held \<longleftrightarrow> (\<forall>c. finite (dom (held c))) \<and>
     (\<forall>now k c fresh c'. replay_or_insert P now k c = (fresh, c') \<longrightarrow>
        fresh = (k \<notin> replay_live held now c) \<and>
        (\<forall>j e. j \<noteq> k \<and> held c' j = Some e \<longrightarrow> held c j = Some e) \<and>
        (card (replay_live held now c) < REPLAY_CACHE_CAPACITY \<longrightarrow>
           (fresh \<longrightarrow> held c' k = Some (now + replay_ttl)) \<and>
           (\<forall>j \<in> replay_live held now c. held c' j = held c j)))"

lemma replay_live_finite: "replay_contract P held \<Longrightarrow> finite (replay_live held now c)"
  by (rule finite_subset [of _ "dom (held c)"]) (auto simp: replay_contract_def replay_live_def)

lemma replay_live_later: "now \<le> t \<Longrightarrow> replay_live held t c \<subseteq> replay_live held now c"
  by (force simp: replay_live_def)

lemma execute_keeps_replay: "rc_replay (snd (execute_action env P et i action d r)) = rc_replay r"
  by (auto simp: execute_action_def execute_remove_def execute_enqueue_def submit_job_def Let_def
      split: WebhookAction.split option.split bool.split prod.split)

lemma validate_same:
  assumes "d_headers d' = d_headers d" "d_body d' = d_body d" "rc_secret r' = rc_secret r"
  shows "validate_request P r' d' = validate_request P r d"
  unfolding validate_request_def assms by (rule refl)

text \<open>A request leaves the cache alone or makes one insertion at its own time.\<close>

lemma handler_replay:
  obtains "rc_replay (snd (webhook_handler env P d r)) = rc_replay r"
  | k where "rc_replay (snd (webhook_handler env P d r)) = snd (replay_or_insert P (d_instant d) k (rc_replay r))"
proof -
  have "rc_replay (snd (webhook_handler env P d r)) = rc_replay r \<or>
      (\<exists>k. rc_replay (snd (webhook_handler env P d r)) = snd (replay_or_insert P (d_instant d) k (rc_replay r)))"
  proof (cases "validate_request P r d")
    case (Inr p)
    obtain et i where p: "p = (et, i)" by force
    obtain fresh c where "replay_or_insert P (d_instant d) i (rc_replay r) = (fresh, c)" by force
    then have "rc_replay (snd (webhook_handler env P d r)) \<in>
        {rc_replay r, snd (replay_or_insert P (d_instant d) i (rc_replay r))}"
      using Inr p by (cases "map_event_to_action P et (d_body d) (rc_app r)")
        (auto simp: webhook_handler_def execute_keeps_replay Let_def split: sum.split)
    then show ?thesis by blast
  qed (simp add: webhook_handler_def)
  with that show thesis by blast
qed

lemma handler_keeps_entry:
  assumes contract: "replay_contract P held" and "held (rc_replay r) i = Some e" "d_instant d < e"
    and room: "card (replay_live held (d_instant d) (rc_replay r)) < REPLAY_CACHE_CAPACITY"
  shows "held (rc_replay (snd (webhook_handler env P d r))) i = Some e"
proof (cases rule: handler_replay [of env P d r])
  case (2 k)
  obtain fresh c' where ins: "replay_or_insert P (d_instant d) k (rc_replay r) = (fresh, c')" by force
  have "i \<in> replay_live held (d_instant d) (rc_replay r)" using assms(2,3) by (simp add: replay_live_def)
  with contract ins room have "held c' i = held (rc_replay r) i" unfolding replay_contract_def by blast
  with 2 ins assms(2) show ?thesis by simp
qed (use assms(2) in simp)

lemma handler_grows:
  assumes contract: "replay_contract P held"
  shows "card (replay_live held t (rc_replay (snd (webhook_handler env P d r)))) \<le>
    Suc (card (replay_live held t (rc_replay r)))"
proof (cases rule: handler_replay [of env P d r])
  case (2 k)
  obtain fresh c' where ins: "replay_or_insert P (d_instant d) k (rc_replay r) = (fresh, c')" by force
  with contract have "\<forall>j e. j \<noteq> k \<and> held c' j = Some e \<longrightarrow> held (rc_replay r) j = Some e"
    unfolding replay_contract_def by blast
  then have "replay_live held t c' \<subseteq> insert k (replay_live held t (rc_replay r))" by (auto simp: replay_live_def)
  from card_mono [OF _ this] replay_live_finite [OF contract, of t "rc_replay r"] 2 ins show ?thesis
    by (simp add: card_insert_if split: if_splits)
qed simp

lemma handlers_keep_entry:
  assumes contract: "replay_contract P held" and "held (rc_replay r) i = Some e"
    and "sorted (t # map d_instant ds @ [t'])" "t' < e"
    and "card (replay_live held t (rc_replay r)) + length ds \<le> REPLAY_CACHE_CAPACITY"
  shows "held (rc_replay (fold (\<lambda>d r. snd (webhook_handler env P d r)) ds r)) i = Some e"
  using assms(2,3,5)
proof (induction ds arbitrary: r t)
  case (Cons d ds)
  let ?r = "snd (webhook_handler env P d r)"
  have times: "t \<le> d_instant d" "d_instant d < e" "sorted (d_instant d # map d_instant ds @ [t'])"
    using Cons.prems(2) assms(4) by auto
  have live: "card (replay_live held (d_instant d) (rc_replay r)) \<le> card (replay_live held t (rc_replay r))"
    by (rule card_mono [OF replay_live_finite [OF contract] replay_live_later [OF times(1)]])
  with Cons.prems(3) have room: "card (replay_live held (d_instant d) (rc_replay r)) < REPLAY_CACHE_CAPACITY" by simp
  from handler_grows [OF contract, of "d_instant d" env d r] live Cons.prems(3)
  have "card (replay_live held (d_instant d) (rc_replay ?r)) + length ds \<le> REPLAY_CACHE_CAPACITY" by simp
  from Cons.IH [OF handler_keeps_entry [OF contract Cons.prems(1) times(2) room] times(3) this] show ?case by simp
qed simp

lemma taken_has_entry:
  assumes contract: "replay_contract P held" and "validate_request P r d = Inr (event_type, i)"
    and "map_event_to_action P event_type (d_body d) (rc_app r) = Some (Inr action)"
    and "i \<notin> replay_live held (d_instant d) (rc_replay r)"
    and "card (replay_live held (d_instant d) (rc_replay r)) < REPLAY_CACHE_CAPACITY"
  shows "held (rc_replay (snd (webhook_handler env P d r))) i = Some (d_instant d + replay_ttl)"
proof -
  obtain fresh c' where ins: "replay_or_insert P (d_instant d) i (rc_replay r) = (fresh, c')" by force
  with contract assms(4,5) have "fresh" "held c' i = Some (d_instant d + replay_ttl)"
    unfolding replay_contract_def by blast+
  with ins assms(2,3) show ?thesis by (simp add: webhook_handler_def execute_keeps_replay Let_def)
qed

lemma held_delivery_is_inert:
  assumes contract: "replay_contract P held" and "i \<in> replay_live held (d_instant d) (rc_replay r)"
    and "validate_request P r d = Inr (event_type, i)"
  shows "\<exists>status c. webhook_handler env P d r = (status, r\<lparr>rc_replay := c\<rparr>)"
proof -
  obtain fresh c where ins: "replay_or_insert P (d_instant d) i (rc_replay r) = (fresh, c)" by force
  with contract assms(2) have "\<not> fresh" unfolding replay_contract_def by blast
  show ?thesis
  proof (cases "\<exists>action. map_event_to_action P event_type (d_body d) (rc_app r) = Some (Inr action)")
    case True
    with ins \<open>\<not> fresh\<close> assms(3) show ?thesis by (auto simp: webhook_handler_def)
  next
    case False
    with assms(3) have "\<exists>status. webhook_handler env P d r = (status, r\<lparr>rc_replay := rc_replay r\<rparr>)"
      by (auto simp: webhook_handler_def split: option.split sum.split)
    then show ?thesis by blast
  qed
qed

text \<open>
  C17. Within an hour a delivery is executed at most once: after a request was taken as fresh, a request with the same
  delivery identifier that arrives less than the time to live of the replay cache later changes neither the stores, nor
  the projection, nor the queue, nor the debounce times. Any other requests may come in between, as long as the cache has
  room for them: the entries it held when the first request came and the requests since are at most its capacity of a
  hundred thousand. Nothing is claimed for later redeliveries or for a cache that has to evict entries.
\<close>
theorem delivery_executed_at_most_once:
  assumes "replay_contract P held" and "validate_request P r d = Inr (event_type, i)"
    and "map_event_to_action P event_type (d_body d) (rc_app r) = Some (Inr action)"
    and "i \<notin> replay_live held (d_instant d) (rc_replay r)"
    and "r' = fold (\<lambda>d r. snd (webhook_handler env P d r)) ds (snd (webhook_handler env P d r))"
    and "validate_request P r' d' = Inr (event_type', i)"
    and "sorted (map d_instant (d # ds @ [d']))"
    and "d_instant d' < d_instant d + REPLAY_CACHE_TTL_SECS * nanos_per_sec"
    and "card (replay_live held (d_instant d) (rc_replay r)) + Suc (length ds) \<le> REPLAY_CACHE_CAPACITY"
  shows "\<exists>status c. webhook_handler env P d' r' = (status, r'\<lparr>rc_replay := c\<rparr>)"
proof -
  have "card (replay_live held (d_instant d) (rc_replay r)) < REPLAY_CACHE_CAPACITY" using assms(9) by simp
  note entry = taken_has_entry [OF assms(1-4) this, of env]
  have "sorted (d_instant d # map d_instant ds @ [d_instant d'])" using assms(7) by simp
  moreover have "card (replay_live held (d_instant d) (rc_replay (snd (webhook_handler env P d r)))) + length ds \<le>
      REPLAY_CACHE_CAPACITY" using handler_grows [OF assms(1), of "d_instant d" env d r] assms(9) by simp
  ultimately have "held (rc_replay r') i = Some (d_instant d + replay_ttl)"
    using handlers_keep_entry [OF assms(1) entry _ assms(8)] assms(5) by simp
  with assms(8) have "i \<in> replay_live held (d_instant d') (rc_replay r')" by (simp add: replay_live_def)
  from held_delivery_is_inert [OF assms(1) this assms(6)] show ?thesis .
qed



lemma execute_keeps_secret: "rc_secret (snd (execute_action env P et i action d r)) = rc_secret r"
  by (auto simp: execute_action_def execute_remove_def execute_enqueue_def submit_job_def Let_def
      split: WebhookAction.split option.split bool.split prod.split)

lemma handler_keeps_secret: "rc_secret (snd (webhook_handler env P d r)) = rc_secret r"
  by (auto simp: webhook_handler_def execute_keeps_secret Let_def split: sum.split option.split prod.split)






subsection \<open>Pushes and collectors\<close>

definition single_file_push :: "u64 \<Rightarrow> string \<Rightarrow> string \<Rightarrow> string \<Rightarrow> PushEvent" where
  "single_file_push i name branch file =
     \<lparr>ref_field = ''refs/heads/'' @ branch,
      pe_repository = \<lparr>pr_id = i, pr_name = name, pr_default_branch = branch\<rparr>,
      pe_commits = [\<lparr>pc_added = [], pc_modified = [file], pc_removed = []\<rparr>]\<rparr>"

lemma single_file_push_relevant:
  "is_security_relevant_push (single_file_push i name branch file) \<longleftrightarrow>
     file \<in> set SECURITY_PATHS \<or> file \<in> set CODEOWNERS_PATHS"
  unfolding is_security_relevant_push_def single_file_push_def PushEvent.simps strip_prefix_append by simp

text \<open>
  A push to the default branch that changes a file some collector evaluates -- the candidate paths of the
  security-policy and of the CODEOWNERS collector -- triggers a new evaluation, with the one exception of
  \<open>docs/CODEOWNERS\<close>, whose changes are ignored.
\<close>
theorem push_relevance_of_collected_files:
  assumes "file \<in> set SECURITY_POLICY_PATHS \<union> fst ` set codeowners_candidates"
  shows "is_security_relevant_push (single_file_push i name branch file) \<longleftrightarrow> file \<noteq> ''docs/CODEOWNERS''"
proof -
  have "\<forall>f \<in> set SECURITY_POLICY_PATHS \<union> fst ` set codeowners_candidates.
      (f \<in> set SECURITY_PATHS \<or> f \<in> set CODEOWNERS_PATHS) = (f \<noteq> ''docs/CODEOWNERS'')" by code_simp
  with assms show ?thesis unfolding single_file_push_relevant by blast
qed

subsection \<open>Samples\<close>

text \<open>A receiver whose writes have stopped, with one repository in the projection, and a request that removes it.\<close>

text \<open>The sample cache keeps every entry.\<close>

definition sample_or_insert :: "nat \<Rightarrow> string \<Rightarrow> (string \<times> nat) list \<Rightarrow> bool \<times> (string \<times> nat) list" where
  "sample_or_insert now k c =
     (if is_some_and (\<lambda>e. now < e) (map_of c k) then (False, c) else (True, (k, now + replay_ttl) # c))"

definition sample_ports :: "((string \<times> nat) list, unit, unit) WebhookPorts" where
  "sample_ports = \<lparr>hmac_sha256 = (\<lambda>_ _. []),
     decode_webhook = (\<lambda>_. Some \<lparr>wp_repository = Some \<lparr>wr_id = 1, wr_node_id = None, wr_name = ''r'', wr_full_name = None,
       wr_visibility = None, wr_default_branch = None, wr_archived = False, wr_html_url = None\<rparr>,
       wp_action = Some ''deleted''\<rparr>),
     decode_push = (\<lambda>_. None), replay_or_insert = sample_or_insert,
     debounce_get = (\<lambda>_ _ c. (None, c)), debounce_insert = (\<lambda>_ _ c. c),
     queue_enqueue = (\<lambda>_ q. (EnqueueResult.Accepted, q))\<rparr>"

definition sample_receiver :: "(Envelope list, (string \<times> nat) list, unit, unit) Receiver" where
  "sample_receiver = \<lparr>rc_app = (start_state [] [] [])\<lparr>write_admission := Some PersistenceError.Indeterminate,
       projection_state := EvidenceProjection_default\<lparr>repositories :=
         [(''1'', sample_evidence ''1'' (SecretScanningResult_unobservable SecretScanningFailureReason.Invalid ''t''))]\<rparr>\<rparr>,
     rc_secret = Some ''key'', rc_replay = [], rc_debounce = (), rc_queue = ()\<rparr>"

definition sample_delivery :: "string \<Rightarrow> Delivery" where
  "sample_delivery signature = \<lparr>d_headers = (\<lambda>h.
       if h = ''x-hub-signature-256'' then [Some signature] else if h = ''x-github-event'' then [Some ''repository'']
       else if h = ''x-github-delivery'' then [Some ''d1''] else []),
     d_body = ''{}'', d_instant = 0, d_timestamp = ''t'', d_ids = (\<lambda>n. of_nat n)\<rparr>"

lemma sample_replay: "replay_contract sample_ports map_of"
  by (auto simp: replay_contract_def sample_ports_def sample_or_insert_def replay_live_def is_some_and_def finite_dom_map_of
      split: if_splits option.splits)

text \<open>The same request a minute later.\<close>

definition sample_redelivery :: Delivery where
  "sample_redelivery = (sample_delivery ''sha256='')\<lparr>d_instant := 60 * nanos_per_sec\<rparr>"

lemma sample_times:
  "d_headers sample_redelivery = d_headers (sample_delivery ''sha256='')"
  "d_body sample_redelivery = d_body (sample_delivery ''sha256='')"
  "d_instant (sample_delivery ''sha256='') = 0" "d_instant sample_redelivery < 0 + replay_ttl"
  "replay_live map_of t (rc_replay sample_receiver) = {}"
  by (simp_all add: sample_redelivery_def sample_delivery_def REPLAY_CACHE_TTL_SECS_def nanos_per_sec_def replay_live_def
      sample_receiver_def)

lemma sample_valid:
  "validate_request sample_ports (r\<lparr>rc_secret := Some ''key''\<rparr>) (sample_delivery ''sha256='') = Inr (''repository'', ''d1'')"
  by (simp add: validate_request_def sample_ports_def sample_delivery_def header_str_def verify_signature_def
      strip_prefix_def hex_decode_def hex_pair_def hex_value_def)

lemma sample_action:
  "map_event_to_action sample_ports ''repository'' b s = Some (Inr (WebhookAction.Remove ''1''))"
proof -
  have "nat_display (Suc 0) = ''1''" by code_simp
  then show ?thesis by (simp add: map_event_to_action_def map_repository_event_def sample_ports_def)
qed

lemma stopped_removal_fails:
  assumes "projection_contains (rc_app r) key = Some True" and "write_admission (rc_app r) \<noteq> None"
  shows "\<exists>r'. execute_remove env key d r = (Some 502, r')"
proof -
  let ?s = "rc_app r"
  have "remove_repo env key key t i ?s = (Completed (Inl PersistenceError.Indeterminate), lock_write_admission ?s)" for t i
    using assms(2) by (auto simp: remove_repo_def admitted_write_def lock_write_admission_def notify_and_drain_def Let_def)
  then have "policy_write (\<lambda>n. remove_repo env key key (d_timestamp d) (d_ids d n)) 0 ?s =
      (Some (Inl ((WriteFailure_classify PersistenceError.Indeterminate)\<lparr>failure_attempt := 1\<rparr>)), lock_write_admission ?s, 1)"
    by (simp add: policy_write_def write_with_policy_def attempt_write_def classify_attempt_def WriteFailure_classify_def
        WritePolicyCategory_classify_def WritePolicyCategory_response_def Let_def)
  with assms(1) show ?thesis by (simp add: execute_remove_def write_response_status_def)
qed

lemma sample_secret: "sample_receiver\<lparr>rc_secret := Some ''key''\<rparr> = sample_receiver"
  by (simp add: sample_receiver_def)

lemma sample_failure:
  "\<exists>r. webhook_handler (sample_env False) sample_ports (sample_delivery ''sha256='') sample_receiver = (Some 502, r)"
proof -
  have "replay_or_insert sample_ports now ''d1'' (rc_replay sample_receiver) = (True, [(''d1'', now + replay_ttl)])" for now
    by (simp add: sample_ports_def sample_receiver_def sample_or_insert_def is_some_and_def)
  moreover have "\<exists>r'. execute_remove (sample_env False) ''1'' d (sample_receiver\<lparr>rc_replay := c\<rparr>) = (Some 502, r')" for c d
    by (rule stopped_removal_fails) (simp_all add: sample_receiver_def start_state_def projection_contains_def
        reader_defs btree_get_def)
  ultimately show ?thesis
    using sample_valid [of sample_receiver]
    by (simp add: webhook_handler_def sample_secret sample_action execute_action_def)
qed


theorem delivery_executed_at_most_once_witness:
  "\<exists>r c status. webhook_handler (sample_env False) sample_ports (sample_delivery ''sha256='') sample_receiver = (Some 502, r) \<and>
     webhook_handler (sample_env False) sample_ports sample_redelivery r = (status, r\<lparr>rc_replay := c\<rparr>)"
proof -
  let ?d = "sample_delivery ''sha256=''"
  obtain r where r: "webhook_handler (sample_env False) sample_ports ?d sample_receiver = (Some 502, r)"
    using sample_failure by blast
  have v: "validate_request sample_ports sample_receiver ?d = Inr (''repository'', ''d1'')"
    using sample_valid [of sample_receiver] by (simp add: sample_secret)
  have "rc_secret r = Some ''key''"
    using handler_keeps_secret [of "sample_env False" sample_ports ?d sample_receiver] r
    by (simp add: sample_receiver_def)
  then have "r\<lparr>rc_secret := Some ''key''\<rparr> = r" by (cases r) simp
  then have v': "validate_request sample_ports r sample_redelivery = Inr (''repository'', ''d1'')"
    using sample_valid [of r] by (simp add: validate_same [OF sample_times(1,2)])
  have run: "r = fold (\<lambda>d r. snd (webhook_handler (sample_env False) sample_ports d r)) []
      (snd (webhook_handler (sample_env False) sample_ports ?d sample_receiver))" using r by simp
  from delivery_executed_at_most_once [OF sample_replay v sample_action _ run v'] sample_times(3-5) r show ?thesis
    by (auto simp: REPLAY_CACHE_CAPACITY_def)
qed

theorem unauthenticated_request_is_inert_witness:
  "webhook_handler (sample_env False) sample_ports (sample_delivery ''sha1='') sample_receiver = (Some 401, sample_receiver)"
proof -
  have "\<not> authentic sample_ports sample_receiver (sample_delivery ''sha1='')"
    by (simp add: authentic_def sample_delivery_def header_str_def)
  from unauthenticated_request_is_inert [OF this, of "sample_env False"] show ?thesis by (simp add: sample_receiver_def)
qed

theorem push_relevance_of_collected_files_witness:
  "\<not> is_security_relevant_push (single_file_push 1 ''r'' ''main'' ''docs/CODEOWNERS'')"
proof -
  have "''docs/CODEOWNERS'' \<in> set SECURITY_POLICY_PATHS \<union> fst ` set codeowners_candidates" by code_simp
  from push_relevance_of_collected_files [OF this, of 1 "''r''" "''main''"] show ?thesis by simp
qed

end
