(* ===== verification/Team_Collectors.thy ===== *)
theory Team_Collectors
  imports Metrics_Model Github_Cache
begin

text \<open>
  The inventory collector (\<open>collector/inventory.rs\<close>) and the team collectors (\<open>collector/team_membership.rs\<close>), over
  the model of the GitHub client: an operation takes the client and the world and returns \<open>None\<close> when it panics.
  The decoders that serde derives for the wire records, the case mapping, the sanitiser of path segments, the name of the organisation and the
  formatting of timestamps are parameters. Log records are left out.
\<close>

type_synonym ('w, 'a) client_op = "Client_State \<times> 'w \<Rightarrow> 'a option \<times> Client_State \<times> 'w"

definition op_return :: "'a \<Rightarrow> ('w, 'a) client_op" where
  "op_return x st = (Some x, st)"

definition op_then :: "('w, 'a) client_op \<Rightarrow> ('a \<Rightarrow> ('w, 'b) client_op) \<Rightarrow> ('w, 'b) client_op" where
  "op_then m f st = (case m st of (None, st) \<Rightarrow> (None, st) | (Some x, st) \<Rightarrow> f x st)"

definition ask :: "'w Env \<Rightarrow> string \<Rightarrow> u64 \<Rightarrow> ('w, ApiOutcome) client_op" where
  "ask E path timeout st = request E path True 1 timeout (fst st) (snd st)"

definition on_client :: "(Client_State \<Rightarrow> 'a \<times> Client_State) \<Rightarrow> ('w, 'a) client_op" where
  "on_client f st = (case f (fst st) of (x, c) \<Rightarrow> (Some x, c, snd st))"

definition on_world :: "('w \<Rightarrow> 'a \<times> 'w) \<Rightarrow> ('w, 'a) client_op" where
  "on_world f st = (case f (snd st) of (x, w) \<Rightarrow> (Some x, fst st, w))"

subsection \<open>Inventory\<close>

record LicenseInfo =
  spdx_id :: "string option"
  license_name :: "string option"

record GhRepository =
  gh_id :: "u64 option"
  gh_node_id :: "string option"
  gh_name :: string
  gh_visibility :: "string option"
  gh_private :: "bool option"
  gh_language :: "string option"
  gh_default_branch :: "string option"
  gh_archived :: "bool option"
  gh_has_issues :: "bool option"
  gh_updated_at :: "string option"
  gh_pushed_at :: "string option"
  gh_created_at :: "string option"
  gh_description :: "string option"
  gh_fork :: "bool option"
  gh_size :: "u64 option"
  gh_html_url :: "string option"
  gh_topics :: "string list option"
  gh_license :: "LicenseInfo option"

record InventoryPayload =
  inv_schema_version :: string
  inv_organization :: string
  inv_generated_at :: string
  inv_repositories :: "Repository list"
  inv_complete :: bool
  inv_fetched_at :: "string option"

definition INVENTORY_SCHEMA_VERSION :: string where "INVENTORY_SCHEMA_VERSION = ''1.0''"

definition DEFAULT_PAGE_SIZE :: string where "DEFAULT_PAGE_SIZE = ''100''"

definition sanitize_default_branch :: "string \<Rightarrow> string" where
  "sanitize_default_branch raw =
     (let trimmed = str_trim raw
      in if trimmed = [] \<or> is_prefix ''refs/'' trimmed then ''main'' else trimmed)"

definition resolve_visibility :: "string option \<Rightarrow> bool option \<Rightarrow> Visibility" where
  "resolve_visibility vis private =
     (if vis = Some ''public'' then Visibility.Public
      else if vis = Some ''internal'' then Visibility.Internal
      else if vis = Some ''private'' then Visibility.Private
      else if private = Some True then Visibility.Private else Visibility.Public)"

definition derive_is_empty :: "u64 option \<Rightarrow> bool" where
  "derive_is_empty kb \<longleftrightarrow> kb = Some 0"

fun insert_repository :: "Repository \<Rightarrow> Repository list \<Rightarrow> Repository list" where
  "insert_repository r [] = [r]"
| "insert_repository r (s # rs) =
     (if Repository_cmp r s = Ordering.Greater then s # insert_repository r rs else r # s # rs)"

text \<open>The stable sort of the standard library, by the order of repositories.\<close>

definition sort_repositories :: "Repository list \<Rightarrow> Repository list" where
  "sort_repositories repos = foldr insert_repository repos []"

definition unwrap_or :: "'a option \<Rightarrow> 'a \<Rightarrow> 'a" where
  "unwrap_or x d = (case x of None \<Rightarrow> d | Some y \<Rightarrow> y)"

definition inventory_repository :: "GhRepository \<Rightarrow> Repository" where
  "inventory_repository repo =
     \<lparr>repo_id = (case gh_id repo of None \<Rightarrow> ''legacy:'' @ gh_name repo | Some i \<Rightarrow> nat_display (unat i)),
      repo_node_id = gh_node_id repo, repo_name = gh_name repo,
      visibility = resolve_visibility (gh_visibility repo) (gh_private repo),
      repo_language = gh_language repo,
      default_branch = sanitize_default_branch (unwrap_or (gh_default_branch repo) ''main''),
      archived = unwrap_or (gh_archived repo) False,
      inventory_key = (case gh_id repo of
         None \<Rightarrow> unwrap_or (gh_node_id repo) (gh_name repo) | Some i \<Rightarrow> nat_display (unat i)),
      updated_at = Option.bind (gh_updated_at repo) UpdatedAt_new,
      has_issues = unwrap_or (gh_has_issues repo) False,
      pushed_at = gh_pushed_at repo, created_at = gh_created_at repo, repo_description = gh_description repo,
      repo_fork = unwrap_or (gh_fork repo) False, repo_is_empty = derive_is_empty (gh_size repo),
      html_url = gh_html_url repo, repo_topics = unwrap_or (gh_topics repo) [],
      license_spdx = Option.bind (gh_license repo) spdx_id\<rparr>"

text \<open>The error of the collector is the reason it carries.\<close>

definition inventory_of ::
    "(Value \<Rightarrow> string + GhRepository list) \<Rightarrow> ApiOutcome \<Rightarrow> string + Repository list \<times> bool" where
  "inventory_of decode response =
     (if \<not> ApiOutcome_is_ok response
      then Inl (case ApiOutcome_error_message response of
         Some e \<Rightarrow> e
       | None \<Rightarrow> (case ApiOutcome_status_code response of
           None \<Rightarrow> ''unknown'' | Some code \<Rightarrow> nat_display (unat code)))
      else (case response of
         ApiOutcome.Success _ (Some d) _ _ \<Rightarrow> (case decode d of
             Inl e \<Rightarrow> Inl (''failed to parse repository list: '' @ e)
           | Inr raw \<Rightarrow> Inr (sort_repositories (map inventory_repository raw), \<not> ApiOutcome_is_truncated response))
       | _ \<Rightarrow> Inl ''empty response''))"

definition build_inventory_from_api ::
    "'w Env \<Rightarrow> ('w \<Rightarrow> string \<times> 'w) \<Rightarrow> (Value \<Rightarrow> string + GhRepository list) \<Rightarrow> string \<Rightarrow> string option \<Rightarrow>
     ('w, string + InventoryPayload) client_op" where
  "build_inventory_from_api E now_utc decode org now =
     op_then (case now of Some t \<Rightarrow> op_return t | None \<Rightarrow> on_world now_utc) (\<lambda>generated.
     op_then (ask E (''/orgs/'' @ org @ ''/repos?type=all&per_page='' @ DEFAULT_PAGE_SIZE) 60) (\<lambda>response.
     case inventory_of decode response of
       Inl reason \<Rightarrow> op_return (Inl reason)
     | Inr (repos, full) \<Rightarrow>
         op_then (on_world now_utc) (\<lambda>fetched.
         op_return (Inr \<lparr>inv_schema_version = INVENTORY_SCHEMA_VERSION, inv_organization = org,
           inv_generated_at = generated, inv_repositories = repos, inv_complete = full,
           inv_fetched_at = Some fetched\<rparr>))))"

subsection \<open>Team discovery\<close>

datatype DiscoveryGap = Failed | Truncated | Invalid

text \<open>A team slug is the text its validating parse returns.\<close>

definition TeamSlug_parse :: "(string \<Rightarrow> string option) \<Rightarrow> string \<Rightarrow> string option" where
  "TeamSlug_parse sanitize raw = sanitize raw"

record TeamDiscovery =
  discovered :: "string list"
  gap :: "DiscoveryGap option"

definition TeamDiscovery_complete :: "string list \<Rightarrow> TeamDiscovery" where
  "TeamDiscovery_complete slugs = \<lparr>discovered = slugs, gap = None\<rparr>"

definition TeamDiscovery_incomplete :: "string list \<Rightarrow> DiscoveryGap \<Rightarrow> TeamDiscovery" where
  "TeamDiscovery_incomplete slugs g = \<lparr>discovered = slugs, gap = Some g\<rparr>"

definition authorizes_omission_detach :: "TeamDiscovery \<Rightarrow> bool" where
  "authorizes_omission_detach d \<longleftrightarrow> gap d = None"

definition entry_slug :: "(string \<Rightarrow> string option) \<Rightarrow> Value \<Rightarrow> string option" where
  "entry_slug sanitize item =
     Option.bind (Option.bind (Value_get ''slug'' item) Value_as_str) (TeamSlug_parse sanitize)"

definition discovery_of :: "(string \<Rightarrow> string option) \<Rightarrow> ApiOutcome \<Rightarrow> TeamDiscovery" where
  "discovery_of sanitize outcome = (case Option.bind (ApiOutcome_data outcome) Value_as_array of
     None \<Rightarrow> TeamDiscovery_incomplete [] DiscoveryGap.Failed
   | Some items \<Rightarrow>
       let slugs = List.map_filter (entry_slug sanitize) items;
           unusable = length (filter (\<lambda>item. entry_slug sanitize item = None) items)
       in if ApiOutcome_is_truncated outcome then TeamDiscovery_incomplete slugs DiscoveryGap.Truncated
          else if unusable = 0 then TeamDiscovery_complete slugs
          else TeamDiscovery_incomplete slugs DiscoveryGap.Invalid)"

definition discover_org_teams ::
    "'w Env \<Rightarrow> (string \<Rightarrow> string option) \<Rightarrow> string \<Rightarrow> ('w, TeamDiscovery) client_op" where
  "discover_org_teams E sanitize org =
     op_then (ask E (''/orgs/'' @ org @ ''/teams?per_page=100'') DEFAULT_REQUEST_TIMEOUT_SECS) (\<lambda>outcome.
     op_return (discovery_of sanitize outcome))"

subsection \<open>Rosters\<close>

text \<open>The wire records hold the login and the raw role; the inherited flag is not read.\<close>

record MemberDecoders =
  decode_team_member :: "Value \<Rightarrow> (string \<times> string option) option"
  decode_org_member :: "Value \<Rightarrow> string option"

definition degraded_roster :: "string \<Rightarrow> string \<Rightarrow> TeamRosterStatus \<Rightarrow> TeamRoster" where
  "degraded_roster canonical slug status =
     \<lparr>canonical_owner = canonical, team_slug = slug, roster_status = status, members = [], fetched_at = None\<rparr>"

definition failure_status :: "ApiOutcome \<Rightarrow> TeamRosterStatus" where
  "failure_status outcome =
     (if ApiOutcome_status_code outcome = Some 404 then TeamRosterStatus.Deleted
      else if ApiOutcome_status_code outcome = Some 403 then TeamRosterStatus.PermissionDenied
      else TeamRosterStatus.TransientError)"

datatype 'a WireEntry = WireMember 'a | NotAnObject | WireMalformed

definition member_entry :: "(Value \<Rightarrow> 'a option) \<Rightarrow> Value \<Rightarrow> 'a WireEntry" where
  "member_entry decode item =
     (if Value_is_object item
      then (case decode item of Some m \<Rightarrow> WireMember m | None \<Rightarrow> WireMalformed)
      else NotAnObject)"

definition usable_login :: "string \<Rightarrow> string option" where
  "usable_login l = (if str_trim l \<noteq> [] then Some l else None)"

definition role_from_wire :: "string option \<Rightarrow> TeamMemberRole" where
  "role_from_wire role =
     (if role = Some ''maintainer'' then TeamMemberRole.Maintainer
      else if role = Some ''member'' then TeamMemberRole.Member else TeamMemberRole.Unknown)"

fun read_members :: "(Value \<Rightarrow> (string \<times> string option) option) \<Rightarrow> Value list \<Rightarrow> (string \<times> TeamMemberRole) list option" where
  "read_members decode [] = Some []"
| "read_members decode (item # items) = (case member_entry decode item of
     WireMember (l, role) \<Rightarrow> (case usable_login l of
         None \<Rightarrow> None
       | Some l \<Rightarrow> map_option (Cons (l, role_from_wire role)) (read_members decode items))
   | NotAnObject \<Rightarrow> None
   | WireMalformed \<Rightarrow> None)"

definition members_from_outcome :: "MemberDecoders \<Rightarrow> ApiOutcome \<Rightarrow> (string \<times> TeamMemberRole) list option" where
  "members_from_outcome D outcome =
     Option.bind (Option.bind (ApiOutcome_data outcome) Value_as_array) (read_members (decode_team_member D))"

definition fetch_role :: "'w Env \<Rightarrow> string \<Rightarrow> string \<Rightarrow> string \<Rightarrow> ('w, ApiOutcome) client_op" where
  "fetch_role E org slug role =
     ask E (''/orgs/'' @ org @ ''/teams/'' @ slug @ ''/members?role='' @ role @ ''&per_page='' @ DEFAULT_PAGE_SIZE)
       DEFAULT_REQUEST_TIMEOUT_SECS"

record 'w TeamPorts =
  tp_sanitize :: "string \<Rightarrow> string option"
  tp_lower :: "string \<Rightarrow> string"
  tp_now :: "'w \<Rightarrow> string \<times> 'w"
  tp_decoders :: MemberDecoders

definition roster_members :: "(string \<Rightarrow> string) \<Rightarrow> (string \<times> TeamMemberRole) list \<Rightarrow> TeamMember list" where
  "roster_members lower parsed =
     sort_key (\<lambda>m. lower (login m))
       (map (\<lambda>(l, role). \<lparr>login = l, member_role = role, member_in_org = None\<rparr>) parsed)"

definition roster_from_outcome :: "'w TeamPorts \<Rightarrow> string \<Rightarrow> string \<Rightarrow> ApiOutcome \<Rightarrow> ('w, TeamRoster) client_op" where
  "roster_from_outcome T canonical slug outcome = (case members_from_outcome (tp_decoders T) outcome of
     None \<Rightarrow> op_return (degraded_roster canonical slug TeamRosterStatus.TransientError)
   | Some parsed \<Rightarrow> op_then (on_world (tp_now T)) (\<lambda>fetched.
       op_return \<lparr>canonical_owner = canonical, team_slug = slug, roster_status = TeamRosterStatus.Complete,
         members = roster_members (tp_lower T) parsed, fetched_at = Some fetched\<rparr>))"

definition collect_one_team_roster ::
    "'w Env \<Rightarrow> 'w TeamPorts \<Rightarrow> string \<Rightarrow> string \<times> string \<Rightarrow> ('w, TeamRoster) client_op" where
  "collect_one_team_roster E T org team = (case team of (canonical, slug) \<Rightarrow> (case tp_sanitize T slug of
     None \<Rightarrow> op_return (degraded_roster canonical slug TeamRosterStatus.TransientError)
   | Some safe_slug \<Rightarrow>
       op_then (on_client (\<lambda>c. (is_known_deleted_team safe_slug c, c))) (\<lambda>known.
       if known then op_return (degraded_roster canonical slug TeamRosterStatus.Deleted)
       else op_then (fetch_role E org safe_slug ''all'') (\<lambda>outcome.
         if \<not> ApiOutcome_is_ok outcome \<or> ApiOutcome_is_truncated outcome
         then op_then (if failure_status outcome = TeamRosterStatus.Deleted
                then on_client (record_deleted_team safe_slug) else op_return False) (\<lambda>_.
              op_return (degraded_roster canonical slug (failure_status outcome)))
         else roster_from_outcome T canonical slug outcome))))"

fun collect_team_rosters ::
    "'w Env \<Rightarrow> 'w TeamPorts \<Rightarrow> string \<Rightarrow> (string \<times> string) list \<Rightarrow> ('w, TeamRoster list) client_op" where
  "collect_team_rosters E T org [] = op_return []"
| "collect_team_rosters E T org (team # teams) =
     op_then (collect_one_team_roster E T org team) (\<lambda>roster.
     op_then (collect_team_rosters E T org teams) (\<lambda>rosters. op_return (roster # rosters)))"

subsection \<open>Organisation members\<close>

fun read_logins :: "(Value \<Rightarrow> string option) \<Rightarrow> Value list \<Rightarrow> string list option" where
  "read_logins decode [] = Some []"
| "read_logins decode (item # items) = (case member_entry decode item of
     WireMember l \<Rightarrow> (case usable_login l of
         None \<Rightarrow> None
       | Some l \<Rightarrow> map_option (Cons l) (read_logins decode items))
   | NotAnObject \<Rightarrow> None
   | WireMalformed \<Rightarrow> None)"

definition org_member_logins_from_outcome :: "MemberDecoders \<Rightarrow> ApiOutcome \<Rightarrow> string list option" where
  "org_member_logins_from_outcome D outcome =
     Option.bind (Option.bind (ApiOutcome_data outcome) Value_as_array) (read_logins (decode_org_member D))"

definition org_members_from_outcome :: "'w TeamPorts \<Rightarrow> ApiOutcome \<Rightarrow> string set option" where
  "org_members_from_outcome T outcome =
     (if \<not> ApiOutcome_is_ok outcome \<or> ApiOutcome_is_truncated outcome then None
      else map_option (\<lambda>logins. set (map (tp_lower T) logins)) (org_member_logins_from_outcome (tp_decoders T) outcome))"

definition collect_org_members :: "'w Env \<Rightarrow> 'w TeamPorts \<Rightarrow> string \<Rightarrow> ('w, string set option) client_op" where
  "collect_org_members E T org =
     op_then (ask E (''/orgs/'' @ org @ ''/members?per_page='' @ DEFAULT_PAGE_SIZE) DEFAULT_REQUEST_TIMEOUT_SECS)
       (\<lambda>outcome. op_return (org_members_from_outcome T outcome))"

definition enrich_member :: "(string \<Rightarrow> string) \<Rightarrow> string set option \<Rightarrow> TeamMember \<Rightarrow> TeamMember" where
  "enrich_member lower org_members m = m\<lparr>member_in_org := map_option (\<lambda>s. lower (login m) \<in> s) org_members\<rparr>"

definition enrich_team_rosters_with_org_membership ::
    "(string \<Rightarrow> string) \<Rightarrow> string set option \<Rightarrow> TeamRoster list \<Rightarrow> TeamRoster list" where
  "enrich_team_rosters_with_org_membership lower org_members rosters =
     map (\<lambda>roster. roster\<lparr>members := map (enrich_member lower org_members) (members roster)\<rparr>) rosters"

end
