(* ===== verification/Team_Laws.thy ===== *)
theory Team_Laws
  imports Team_Collectors Github_Client_Laws
begin

text \<open>
  What the inventory and the team collectors conclude from a response that is not marked truncated: the last
  attempt of the request enumerated every page, and the collected data are those of all pages.
\<close>

subsection \<open>Complete requests\<close>

context logged
begin

lemma attempt_step_complete:
  assumes "attempt_step E path True t attempts n stale c w = (LoopStep.Return (Some run), c', w')"
    and "run_result run = RunResult.Success code d h False k"
  shows "\<exists>us items. sent w' = sent w @ us \<and> d = Some (Value.Array items) \<and>
    chain_items E (trusted_origin c) (base_url c @ path) us = Some items"
proof -
  obtain r c1 w1 where r: "one_attempt E path True t c w = (r, c1, w1)" by (metis prod_cases3)
  have quiet: "sent w' = sent w1"
    using assms(1) r
    by (auto simp: attempt_step_def Let_def sleep_log split: if_splits prod.splits sum.splits option.splits
        dest!: note_halt_log ensure_log delay_log)
  have "r = Some (AttemptResult.Success code d h False)"
    using assms r
    by (auto simp: attempt_step_def RequestRun_from_attempt_def Let_def
        split: option.splits prod.splits if_splits sum.splits AttemptResult.splits)
  with r have "paginate_from E t (base_url c @ path) 0 [] c w = (Some (AttemptResult.Success code d h False), c1, w1)"
    by (simp add: one_attempt_def request_paginated_def)
  from paginate_chain [OF this] obtain us where "sent w1 = sent w @ us"
    "case chain_items E (trusted_origin c) (base_url c @ path) us of None \<Rightarrow> False
     | Some its \<Rightarrow> d = Some (Value.Array its)"
    by (auto split: option.splits if_splits)
  with quiet show ?thesis by (auto split: option.splits)
qed

lemma loop_complete:
  assumes "attempt_loop E path True t attempts n stale c w = (Some run, c', w')"
    and "run_result run = RunResult.Success code d h False k"
  shows "\<exists>us vs items. sent w' = sent w @ us @ vs \<and> d = Some (Value.Array items) \<and>
    chain_items E (trusted_origin c) (base_url c @ path) vs = Some items"
  using assms(1)
proof (induction n stale c w rule: attempt_induct [of attempts E path True t])
  case (attempt n stale c w)
  show ?case
  proof (cases "attempts \<le> n")
    case True
    with attempt(2) assms(2) show ?thesis by (auto simp: attempt_loop.simps RequestRun_from_attempt_def)
  next
    case False
    obtain s c1 w1 where s: "attempt_step E path True t attempts n stale c w = (s, c1, w1)" by (metis prod_cases3)
    show ?thesis
    proof (cases s)
      case (Return run')
      with attempt(2) s False have "run' = Some run" "w' = w1" by (subst (asm) attempt_loop.simps, simp)+
      with attempt_step_complete [OF s [unfolded Return \<open>run' = Some run\<close>] assms(2)] obtain us items where
        "sent w' = sent w @ [] @ us" "d = Some (Value.Array items)"
        "chain_items E (trusted_origin c) (base_url c @ path) us = Some items" by auto
      then show ?thesis by blast
    next
      case (Continue stale')
      with attempt(2) s False have rest: "attempt_loop E path True t attempts (n + 1) stale' c1 w1 = (Some run, c', w')"
        by (subst (asm) attempt_loop.simps) simp
      from attempt_step_exchanges [OF s] obtain us where us: "sent w1 = sent w @ us" "same_target c c1" by blast
      from attempt(1) [OF _ s [unfolded Continue] rest] False obtain vs ws items where
        "sent w' = sent w1 @ vs @ ws" "d = Some (Value.Array items)"
        "chain_items E (trusted_origin c1) (base_url c1 @ path) ws = Some items" by (auto simp: not_le)
      with us show ?thesis by (intro exI [of _ "us @ vs"] exI [of _ ws]) (auto simp: same_target_def)
    qed
  qed
qed

lemma request_complete:
  assumes "request E path True retries t c w = (Some (ApiOutcome.Success code d h False), c', w')"
  shows "\<exists>us vs items. sent w' = sent w @ us @ vs \<and> d = Some (Value.Array items) \<and>
    chain_items E (trusted_origin c) (base_url c @ path) vs = Some items"
proof -
  obtain run where run: "request_inner E path True retries t c w = (Some run, c', w')"
    "RequestRun_outcome run = ApiOutcome.Success code d h False"
    using assms by (auto simp: request_def split: prod.splits)
  obtain k where k: "run_result run = RunResult.Success code d h False k"
    using run(2) by (auto simp: RequestRun_outcome_def ApiOutcome_failure_def
        split: RunResult.splits PreDispatchFailure.splits)
      (metis ApiOutcome.distinct(1) RequestFailureKind.exhaust RequestFailureKind_into_api_outcome.simps ApiOutcome_failure_def)+
  obtain b w1 where b: "is_halted E c w = (b, w1)" by force
  obtain r c2 w2 where r: "ensure_credential E c w1 = (r, c2, w2)" by (metis prod_cases3)
  obtain a w3 where a: "env_acquire E w2 = (a, w3)" by force
  have loop: "attempt_loop E path True t (unat retries + 1) 0 False c2 w3 = (Some run, c', w')"
    using run(1) b r a k by (cases b; cases r; cases a) (auto simp: request_inner_def RequestRun_never_dispatched_def)
  have "sent w3 = sent w" using halted_log [OF b] ensure_log [OF r] acquire_log [OF a] by simp
  moreover have "trusted_origin c2 = trusted_origin c" "base_url c2 = base_url c"
    using ensure_target [OF r] by (simp_all add: same_target_def)
  ultimately show ?thesis using loop_complete [OF loop k] by simp
qed

end

text \<open>The items of every page of the enumeration at a path, as the last exchanges of a log show them.\<close>

definition enumerated :: "'w Env \<Rightarrow> Client_State \<Rightarrow> string \<Rightarrow> Exchange list \<Rightarrow> Value list \<Rightarrow> bool" where
  "enumerated E c path l items \<longleftrightarrow>
     (\<exists>us vs. l = us @ vs \<and> chain_items E (trusted_origin c) (base_url c @ path) vs = Some items)"

lemma ask_complete:
  assumes "ask (traced E) path t (c, w, []) = (Some (ApiOutcome.Success code d h False), c', w', l)"
  shows "\<exists>items. d = Some (Value.Array items) \<and> enumerated E c path l items"
  using trace.request_complete [OF assms [unfolded ask_def fst_conv snd_conv]]
  by (auto simp: enumerated_def chain_items_traced)

lemma op_then_Some:
  assumes "op_then m f st = (Some y, st')"
  obtains x st1 where "m st = (Some x, st1)" "f x st1 = (Some y, st')"
  using assms by (auto simp: op_then_def split: prod.splits option.splits)

lemma ok_untruncated:
  "ApiOutcome_is_ok r \<Longrightarrow> \<not> ApiOutcome_is_truncated r \<Longrightarrow> \<exists>code d h. r = ApiOutcome.Success code d h False"
  by (cases r) auto

subsection \<open>Teams\<close>

lemma discovery_complete_iff:
  "authorizes_omission_detach (discovery_of sanitize outcome) \<longleftrightarrow>
     \<not> ApiOutcome_is_truncated outcome \<and>
     (\<exists>items. Option.bind (ApiOutcome_data outcome) Value_as_array = Some items \<and>
        map (entry_slug sanitize) items = map Some (discovered (discovery_of sanitize outcome)))"
proof -
  have "filter (\<lambda>i. f i = None) xs = [] \<longleftrightarrow> map f xs = map Some (List.map_filter f xs)" for f :: "Value \<Rightarrow> string option" and xs
    by (induction xs) (auto simp: List.map_filter_simps split: option.split)
  then show ?thesis
    by (auto simp: discovery_of_def authorizes_omission_detach_def TeamDiscovery_complete_def
        TeamDiscovery_incomplete_def Let_def split: option.split)
qed

lemma discovery_ok: "authorizes_omission_detach (discovery_of sanitize outcome) \<Longrightarrow>
    \<exists>code d h. outcome = ApiOutcome.Success code d h False"
  unfolding discovery_complete_iff by (cases outcome) auto

text \<open>
  The authority to read a team's omission as its absence rests on a complete enumeration: whatever GitHub answers,
  discovery grants it only when the last exchanges enumerated every page of the teams of the organisation, and then
  the discovered slugs are those of all entries of all pages, each of them usable.
\<close>
theorem omission_authority_needs_all_pages:
  assumes "discover_org_teams (traced E) sanitize org (c, w, []) = (Some d, c', w', l)"
    and "authorizes_omission_detach d"
  shows "\<exists>items. enumerated E c (''/orgs/'' @ org @ ''/teams?per_page=100'') l items \<and>
    map (entry_slug sanitize) items = map Some (discovered d)"
proof -
  obtain outcome st where ask: "ask (traced E) (''/orgs/'' @ org @ ''/teams?per_page=100'') DEFAULT_REQUEST_TIMEOUT_SECS
      (c, w, []) = (Some outcome, st)" and d: "d = discovery_of sanitize outcome" "st = (c', w', l)"
    using assms(1) unfolding discover_org_teams_def by (elim op_then_Some) (auto simp: op_return_def)
  obtain code data h where o: "outcome = ApiOutcome.Success code data h False"
    using discovery_ok assms(2) d(1) by blast
  from ask_complete [OF ask [unfolded o d(2)]] obtain items where
    items: "data = Some (Value.Array items)" "enumerated E c (''/orgs/'' @ org @ ''/teams?per_page=100'') l items" by blast
  with assms(2) d(1) o show ?thesis unfolding d(1) discovery_complete_iff by auto
qed

text \<open>
  Nobody is taken to have left the organisation on partial data: a set of members is produced only from a complete
  enumeration, and holds exactly the logins of all entries of all pages, in lower case.
\<close>
theorem org_members_need_all_pages:
  assumes "collect_org_members (traced E) T org (c, w, []) = (Some (Some S), c', w', l)"
  shows "\<exists>items logins. enumerated E c (''/orgs/'' @ org @ ''/members?per_page=100'') l items \<and>
    map (decode_org_member (tp_decoders T)) items = map Some logins \<and> S = tp_lower T ` set logins"
proof -
  obtain outcome st where ask: "ask (traced E) (''/orgs/'' @ org @ ''/members?per_page='' @ DEFAULT_PAGE_SIZE)
      DEFAULT_REQUEST_TIMEOUT_SECS (c, w, []) = (Some outcome, st)"
    and S: "org_members_from_outcome T outcome = Some S" "st = (c', w', l)"
    using assms unfolding collect_org_members_def by (elim op_then_Some) (auto simp: op_return_def)
  obtain code data h where o: "outcome = ApiOutcome.Success code data h False"
    using S(1) ok_untruncated by (force simp: org_members_from_outcome_def split: if_splits)
  from ask_complete [OF ask [unfolded o S(2)]] obtain items where items: "data = Some (Value.Array items)"
    "enumerated E c (''/orgs/'' @ org @ ''/members?per_page='' @ DEFAULT_PAGE_SIZE) l items" by blast
  have "read_logins f xs = Some ls \<Longrightarrow> map f xs = map Some ls" for f xs ls
    by (induction xs arbitrary: ls) (auto simp: member_entry_def usable_login_def split: if_splits option.splits)
  with S(1) items o show ?thesis
    by (auto simp: org_members_from_outcome_def org_member_logins_from_outcome_def DEFAULT_PAGE_SIZE_def)
qed

subsection \<open>Inventory\<close>

abbreviation repo_order :: "Repository \<Rightarrow> string \<times> string" where
  "repo_order r \<equiv> (repo_id r, repo_name r)"

lemma insert_repository_key: "insert_repository r rs = insort_key repo_order r rs"
  by (induction rs) (auto simp: Repository_cmp_lex cmp_def)

lemma sort_repositories_key: "sort_repositories rs = sort_key repo_order rs"
  by (simp add: sort_repositories_def sort_key_def insert_repository_key [abs_def] fun_eq_iff)

text \<open>
  An inventory that says it is complete is: it holds one repository for every entry of every page of the
  organisation's repositories, no more, and in the order of identifiers and names.
\<close>
lemma complete_inventory:
  assumes "build_inventory_from_api (traced E) (lift_world now_utc) decode org now (c, w, []) = (Some (Inr payload), c', w', l)"
    and "inv_complete payload"
  shows "\<exists>items raw. enumerated E c (''/orgs/'' @ org @ ''/repos?type=all&per_page=100'') l items \<and>
    decode (Value.Array items) = Inr raw \<and>
    mset (inv_repositories payload) = mset (map inventory_repository raw) \<and>
    sorted (map (\<lambda>r. (repo_id r, repo_name r)) (inv_repositories payload))"
proof -
  let ?path = "''/orgs/'' @ org @ ''/repos?type=all&per_page='' @ DEFAULT_PAGE_SIZE"
  note run = assms(1) [unfolded build_inventory_from_api_def]
  obtain g st0 where g: "(case now of Some t \<Rightarrow> op_return t | None \<Rightarrow> on_world (lift_world now_utc)) (c, w, []) = (Some g, st0)"
    and run1: "op_then (ask (traced E) ?path 60) (\<lambda>response. case inventory_of decode response of
       Inl reason \<Rightarrow> op_return (Inl reason)
     | Inr (repos, full) \<Rightarrow> op_then (on_world (lift_world now_utc)) (\<lambda>fetched.
         op_return (Inr \<lparr>inv_schema_version = INVENTORY_SCHEMA_VERSION, inv_organization = org,
           inv_generated_at = g, inv_repositories = repos, inv_complete = full, inv_fetched_at = Some fetched\<rparr>))) st0 =
       (Some (Inr payload), c', w', l)"
    by (rule op_then_Some [OF run]) blast
  from g obtain w0 where st0: "st0 = (c, w0, [])"
    by (cases now) (auto simp: op_return_def on_world_def lift_world_def split: prod.splits)
  obtain response c1 w1 l1 where ask: "ask (traced E) ?path 60 (c, w0, []) = (Some response, c1, w1, l1)"
    and run2: "(case inventory_of decode response of
       Inl reason \<Rightarrow> op_return (Inl reason)
     | Inr (repos, full) \<Rightarrow> op_then (on_world (lift_world now_utc)) (\<lambda>fetched.
         op_return (Inr \<lparr>inv_schema_version = INVENTORY_SCHEMA_VERSION, inv_organization = org,
           inv_generated_at = g, inv_repositories = repos, inv_complete = full, inv_fetched_at = Some fetched\<rparr>)))
       (c1, w1, l1) = (Some (Inr payload), c', w', l)"
    by (rule op_then_Some [OF run1 [unfolded st0]]) (metis prod_cases3)
  obtain repos where inv: "inventory_of decode response = Inr (repos, True)" and l: "l = l1" and p: "inv_repositories payload = repos"
    using run2 assms(2)
    by (auto simp: op_return_def op_then_def on_world_def lift_world_def split: sum.splits prod.splits)
  obtain code d raw h where resp: "response = ApiOutcome.Success code (Some d) h False" "decode d = Inr raw"
    and repos: "repos = sort_repositories (map inventory_repository raw)"
    using inv by (auto simp: inventory_of_def split: if_splits ApiOutcome.splits option.splits sum.splits)
  from ask_complete [OF ask [unfolded resp(1)]] obtain items where
    "d = Value.Array items" "enumerated E c ?path l items" unfolding l by auto
  with resp(2) repos p show ?thesis
    by (auto simp: sort_repositories_key DEFAULT_PAGE_SIZE_def intro!: exI [of _ items])
qed

subsection \<open>Samples\<close>

definition array_env :: "Value list \<Rightarrow> Response list Env" where
  "array_env items = script_env\<lparr>env_json := \<lambda>_. Inr (Value.Array items)\<rparr>"

lemma sample_array_page:
  assumes "length items \<le> 100"
  shows "\<exists>c'. ask (traced (array_env items)) path t (sample_state, [sample_page], []) =
     (Some (ApiOutcome.Success 200 (Some (Value.Array items)) None False), c', [],
      [(''https://api'' @ path, Inr sample_page)])"
proof -
  let ?E = "traced (array_env items)"
  have "\<exists>c'. request_paginated ?E path t sample_state ([sample_page], []) =
     (Some (AttemptResult.Success 200 (Some (Value.Array items)) None False), c', [],
      [(''https://api'' @ path, Inr sample_page)])"
    using assms
    by (simp add: request_paginated_def paginate_from.simps page_step_def MAX_PAGINATION_PAGES_def sample_state_def
        array_env_def script_simps Let_def)
  moreover have "is_halted ?E sample_state w = (False, w)"
    "ensure_credential ?E sample_state w = (Inr (), sample_state, w)"
    "env_acquire ?E w = (True, w)" "\<not> rl_should_halt (env_limits ?E) w" for w
    by (cases w, simp add: is_halted_def ensure_credential_def credential_needs_refresh_def sample_state_def
        array_env_def script_env_def traced_def lift_world_def)+
  ultimately show ?thesis
    by (auto simp: ask_def request_def request_inner_def attempt_loop.simps attempt_step_def one_attempt_def Let_def
        RequestRun_from_attempt_def RequestRun_outcome_def)
qed

abbreviation sample_team_entry :: Value where
  "sample_team_entry \<equiv> Value.Object [(''slug'', Value.String ''core'')]"

theorem omission_authority_needs_all_pages_witness:
  "\<exists>d c' l items. discover_org_teams (traced (array_env [sample_team_entry])) Some ''org'' (sample_state, [sample_page], []) =
       (Some d, c', [], l) \<and>
     enumerated (array_env [sample_team_entry]) sample_state ''/orgs/org/teams?per_page=100'' l items"
proof -
  let ?E = "array_env [sample_team_entry]" and ?path = "''/orgs/org/teams?per_page=100''"
  obtain c' where ask: "ask (traced ?E) ?path DEFAULT_REQUEST_TIMEOUT_SECS (sample_state, [sample_page], []) =
     (Some (ApiOutcome.Success 200 (Some (Value.Array [sample_team_entry])) None False), c', [],
      [(''https://api'' @ ?path, Inr sample_page)])"
    using sample_array_page [of "[sample_team_entry]" ?path] by auto
  let ?d = "TeamDiscovery_complete [''core'']"
  have run: "discover_org_teams (traced ?E) Some ''org'' (sample_state, [sample_page], []) =
      (Some ?d, c', [], [(''https://api'' @ ?path, Inr sample_page)])"
    using ask by (simp add: discover_org_teams_def op_then_def op_return_def discovery_of_def entry_slug_def
        TeamSlug_parse_def List.map_filter_simps)
  from omission_authority_needs_all_pages [OF run]
  obtain items where en: "enumerated ?E sample_state ?path [(''https://api'' @ ?path, Inr sample_page)] items"
    by (auto simp: authorizes_omission_detach_def TeamDiscovery_complete_def)
  with run en show ?thesis by blast
qed

definition sample_team_ports :: "(Response list \<times> Exchange list) TeamPorts" where
  "sample_team_ports = \<lparr>tp_sanitize = Some, tp_lower = (\<lambda>s. s), tp_now = (\<lambda>w. ([], w)),
     tp_decoders = \<lparr>decode_team_member = (\<lambda>_. None), decode_org_member = (\<lambda>_. Some ''alice'')\<rparr>\<rparr>"

theorem org_members_need_all_pages_witness:
  "\<exists>c' l items. collect_org_members (traced (array_env [Value.Object []])) sample_team_ports ''org''
       (sample_state, [sample_page], []) = (Some (Some {''alice''}), c', [], l) \<and>
     enumerated (array_env [Value.Object []]) sample_state ''/orgs/org/members?per_page=100'' l items"
proof -
  let ?E = "array_env [Value.Object []]" and ?path = "''/orgs/org/members?per_page=100''"
  obtain c' where ask: "ask (traced ?E) ?path DEFAULT_REQUEST_TIMEOUT_SECS (sample_state, [sample_page], []) =
     (Some (ApiOutcome.Success 200 (Some (Value.Array [Value.Object []])) None False), c', [],
      [(''https://api'' @ ?path, Inr sample_page)])"
    using sample_array_page [of "[Value.Object []]" ?path] by auto
  have "str_trim ''alice'' = ''alice''"
    using trim_end_token [of "''alice''" "[]"] by (simp add: str_trim_def trim_start_id ws_len_def WHITE_SPACE_def)
  with ask have run: "collect_org_members (traced ?E) sample_team_ports ''org'' (sample_state, [sample_page], []) =
      (Some (Some {''alice''}), c', [], [(''https://api'' @ ?path, Inr sample_page)])"
    by (simp add: collect_org_members_def op_then_def op_return_def org_members_from_outcome_def
        org_member_logins_from_outcome_def member_entry_def usable_login_def sample_team_ports_def DEFAULT_PAGE_SIZE_def)
  from org_members_need_all_pages [OF run] run show ?thesis by auto
qed

end
