(* ===== verification/Team_Refresh.thy ===== *)
theory Team_Refresh
  imports App_Reads App_Replay Team_Laws
begin

text \<open>
  The team-refresh tick (\<open>app/team_refresh.rs\<close>): it reads the projection, discovers the teams of the organisation,
  fetches their rosters through the client, and writes the rosters and the detachments through the durable-write
  policy. A tick is modelled without other writers in between. A panic is the result \<open>None\<close>; log records are
  left out.
\<close>

subsection \<open>Reading\<close>

definition add_discovered :: "string \<Rightarrow> string list \<Rightarrow> (string \<times> string) list \<Rightarrow> (string \<times> string) list" where
  "add_discovered org slugs team_pairs = fold (\<lambda>slug pairs.
     if list_ex (\<lambda>(_, s). eq_ignore_ascii_case s slug) pairs then pairs
     else pairs @ [(''@'' @ org @ ''/'' @ slug, slug)]) slugs team_pairs"

definition current_keys_of :: "string \<Rightarrow> (string \<times> string) list \<Rightarrow> string set" where
  "current_keys_of org team_pairs = {k. \<exists>(_, slug) \<in> set team_pairs. team_domain_key org slug = Inr k}"

record TickRead =
  tr_discovery :: TeamDiscovery
  tr_pairs :: "(string \<times> string) list"
  tr_rosters :: "TeamRoster list"
  tr_fetch_status :: OrgMembershipFetchStatus

definition tick_read ::
    "'w Env \<Rightarrow> 'w TeamPorts \<Rightarrow> string \<Rightarrow> RepositoryEvidence list \<Rightarrow> ('w, TickRead) client_op" where
  "tick_read E T org evidence_repos =
     op_then (discover_org_teams E (tp_sanitize T) org) (\<lambda>discovery.
     let team_pairs = add_discovered org (discovered discovery) (team_owner_slugs (tp_lower T) evidence_repos)
     in op_then (collect_team_rosters E T org team_pairs) (\<lambda>rosters.
        op_then (collect_org_members E T org) (\<lambda>org_members.
        op_return \<lparr>tr_discovery = discovery, tr_pairs = team_pairs,
          tr_rosters = enrich_team_rosters_with_org_membership (tp_lower T) org_members rosters,
          tr_fetch_status = (if org_members \<noteq> None then OrgMembershipFetchStatus.Fetched
            else OrgMembershipFetchStatus.Degraded)\<rparr>)))"

subsection \<open>Writing\<close>

record TickFailure =
  tf_error :: PersistenceError
  tf_org :: "string option"
  tf_team_slug :: "string option"

type_synonym 'b tick_write = "nat \<times> 'b AppState \<Rightarrow> (TickFailure + unit) option \<times> nat \<times> 'b AppState"

text \<open>The identifiers of the events come in pairs, one pair for each attempt.\<close>

definition team_write ::
    "'b AppEnv \<Rightarrow> (nat \<Rightarrow> uuid \<times> uuid) \<Rightarrow> string \<Rightarrow> string \<Rightarrow> OrgMembershipFetchStatus \<Rightarrow> TeamRoster \<Rightarrow> bool \<Rightarrow>
     nat \<Rightarrow> 'b AppState \<Rightarrow> unit Outcome \<times> 'b AppState" where
  "team_write env ids org fetched fetch_status roster detach n =
     (if detach then detach_team env org roster fetched fetch_status (fst (ids n)) (snd (ids n))
      else record_team env org roster fetched fetch_status (fst (ids n)) (snd (ids n)))"

definition write_team_event ::
    "'b AppEnv \<Rightarrow> (nat \<Rightarrow> uuid \<times> uuid) \<Rightarrow> string \<Rightarrow> string \<Rightarrow> OrgMembershipFetchStatus \<Rightarrow> TeamRoster \<Rightarrow> bool \<Rightarrow>
     'b tick_write" where
  "write_team_event env ids org fetched fetch_status roster detach st =
     (case policy_write (team_write env ids org fetched fetch_status roster detach) (fst st) (snd st) of
      (result, s, n) \<Rightarrow>
        (map_option (map_err (\<lambda>failure. \<lparr>tf_error = failure_error failure, tf_org = Some org,
           tf_team_slug = Some (team_slug roster)\<rparr>)) result, n, s))"

fun write_teams ::
    "'b AppEnv \<Rightarrow> (nat \<Rightarrow> uuid \<times> uuid) \<Rightarrow> string \<Rightarrow> string \<Rightarrow> OrgMembershipFetchStatus \<Rightarrow>
     (TeamRoster \<times> bool) list \<Rightarrow> 'b tick_write" where
  "write_teams env ids org fetched fetch_status [] st = (Some (Inr ()), st)"
| "write_teams env ids org fetched fetch_status ((roster, detach) # rest) st =
     (case write_team_event env ids org fetched fetch_status roster detach st of
        (Some (Inr _), st) \<Rightarrow> write_teams env ids org fetched fetch_status rest st
      | (failed, st) \<Rightarrow> (failed, st))"

definition fetched_writes :: "TeamRoster list \<Rightarrow> (TeamRoster \<times> bool) list" where
  "fetched_writes rosters = map (\<lambda>roster. (roster, roster_status roster = TeamRosterStatus.Deleted)) rosters"

definition stale_writes :: "string set \<Rightarrow> (string \<times> TeamRoster) list \<Rightarrow> (TeamRoster \<times> bool) list" where
  "stale_writes current_keys teams = map (\<lambda>(_, roster). (roster, True)) (filter (\<lambda>(key, _). key \<notin> current_keys) teams)"

definition tick_write_phase ::
    "'b AppEnv \<Rightarrow> (nat \<Rightarrow> uuid \<times> uuid) \<Rightarrow> string \<Rightarrow> string \<Rightarrow> TickRead \<Rightarrow> 'b tick_write" where
  "tick_write_phase env ids org fetched r st =
     (case write_teams env ids org fetched (tr_fetch_status r) (fetched_writes (tr_rosters r)) st of
        (Some (Inr _), st) \<Rightarrow>
          if \<not> authorizes_omission_detach (tr_discovery r) then (Some (Inr ()), st)
          else (case projection_team_rosters_snapshot (snd st) of
             None \<Rightarrow> (None, st)
           | Some teams \<Rightarrow>
               write_teams env ids org fetched (tr_fetch_status r)
                 (stale_writes (current_keys_of org (tr_pairs r)) teams) st)
      | (failed, st) \<Rightarrow> (failed, st))"

record ('b, 'w) Tick =
  tk_app :: "'b AppState"
  tk_net :: "Client_State \<times> 'w"
  tk_next :: nat

definition run_team_refresh_tick ::
    "'b AppEnv \<Rightarrow> 'w Env \<Rightarrow> 'w TeamPorts \<Rightarrow> (nat \<Rightarrow> uuid \<times> uuid) \<Rightarrow> string \<Rightarrow> ('b, 'w) Tick \<Rightarrow>
     (TickFailure + unit) option \<times> ('b, 'w) Tick" where
  "run_team_refresh_tick env E T ids fetched t =
     (let org = gc_org_name (fst (tk_net t))
      in case ensure_write_admission (tk_app t) of
           (Inl error, s) \<Rightarrow>
             (Some (Inl \<lparr>tf_error = error, tf_org = None, tf_team_slug = None\<rparr>), t\<lparr>tk_app := s\<rparr>)
         | (Inr _, s) \<Rightarrow> (case projection_snapshot s of
             None \<Rightarrow> (None, t\<lparr>tk_app := s\<rparr>)
           | Some evidence_repos \<Rightarrow> (case tick_read E T org evidence_repos (tk_net t) of
               (None, net) \<Rightarrow> (None, t\<lparr>tk_app := s, tk_net := net\<rparr>)
             | (Some r, net) \<Rightarrow> (case tick_write_phase env ids org fetched r (tk_next t, s) of
                 (result, n, s) \<Rightarrow> (result, \<lparr>tk_app = s, tk_net = net, tk_next = n\<rparr>)))))"

subsection \<open>What a write does to the projection\<close>

definition keeps_projection :: "('b, 'a) write_body \<Rightarrow> bool" where
  "keeps_projection m \<longleftrightarrow> (\<forall>t. projection_state (snd (snd (m t))) = projection_state (snd t))"

lemma keeps_projection_steps:
  "keeps_projection (body_try r)" "keeps_projection (body_expect r')" "keeps_projection (set_landed b)"
  "keeps_projection (on_event_store f)" "keeps_projection (on_team_store g)"
  by (auto simp: keeps_projection_def body_try_def body_expect_def set_landed_def on_event_store_def on_team_store_def
      split: sum.split prod.split)

text \<open>The body leaves the projection alone, or ends by applying an event of the set; if it succeeds, the latter.\<close>

definition may_apply :: "EvidenceProjectionEvent set \<Rightarrow> ('b, unit) write_body \<Rightarrow> bool" where
  "may_apply A m \<longleftrightarrow> (\<forall>t o' l s. m t = (o', l, s) \<longrightarrow>
     (projection_state s = projection_state (snd t) \<and> o' \<noteq> Completed (Inr ())) \<or>
     (\<exists>e \<in> A. projection_state s = EvidenceProjection_apply e (projection_state (snd t))))"

lemma may_apply_then:
  assumes "keeps_projection m" and "\<And>t x t'. m t = (Completed (Inr x), t') \<Longrightarrow> may_apply A (k x)"
  shows "may_apply A (body_then m k)"
  unfolding may_apply_def
proof (intro allI impI)
  fix t o' l s assume run: "body_then m k t = (o', l, s)"
  obtain r t1 where r: "m t = (r, t1)" by (cases "m t") blast
  have p: "projection_state (snd t1) = projection_state (snd t)"
    using assms(1) r unfolding keeps_projection_def by (metis snd_conv)
  show "(projection_state s = projection_state (snd t) \<and> o' \<noteq> Completed (Inr ())) \<or>
     (\<exists>e \<in> A. projection_state s = EvidenceProjection_apply e (projection_state (snd t)))"
  proof (cases "\<exists>x. r = Completed (Inr x)")
    case True
    then obtain x where x: "r = Completed (Inr x)" by blast
    with run r have "k x t1 = (o', l, s)" by (simp add: body_then_def)
    from assms(2) [OF r [unfolded x], unfolded may_apply_def, rule_format, OF this] show ?thesis by (simp only: p)
  next
    case False
    with run r p show ?thesis by (auto simp: body_then_def split: Outcome.splits sum.splits)
  qed
qed

lemma may_apply_fold: "may_apply A (fold_team_event_into_projection d event)"
  if "\<And>e. team_projection_event d event = Some e \<Longrightarrow> e \<in> A"
  using that
  by (auto simp: may_apply_def fold_team_event_into_projection_def into_projection_def apply_projection_event_def
      split: if_splits option.splits)

lemma admitted_may_apply:
  assumes "may_apply A m" and "admitted_write m s = (o', s')"
  shows "(projection_state s' = projection_state s \<and> o' \<noteq> Completed (Inr ())) \<or>
    (\<exists>e \<in> A. projection_state s' = EvidenceProjection_apply e (projection_state s))"
proof -
  let ?s = "lock_write_admission s"
  have lock: "projection_state ?s = projection_state s" by (simp add: lock_write_admission_def notify_and_drain_def)
  show ?thesis
  proof (cases "write_admission ?s")
    case (Some e)
    with assms(2) lock show ?thesis by (auto simp: admitted_write_def Let_def)
  next
    case None
    obtain r l s1 where r: "m (False, ?s) = (r, l, s1)" by (metis prod_cases3)
    have "projection_state s' = projection_state s1" "o' = Completed (Inr ()) \<Longrightarrow> r = Completed (Inr ())"
      using assms(2) r None
      by (auto simp: admitted_write_def Let_def stop_for_reconciliation_def lock_write_admission_def notify_and_drain_def
          split: Outcome.splits sum.splits if_splits option.splits)
    with assms(1) r lock show ?thesis by (fastforce simp: may_apply_def)
  qed
qed

definition team_writes :: "bool \<Rightarrow> string \<Rightarrow> string \<Rightarrow> EvidenceProjectionEvent set" where
  "team_writes d org slug = {EvidenceProjectionEvent.TeamStateCaptured d k (Some r) |k r.
     team_domain_key org slug = Inr k \<and> team_slug r = slug}"

lemma team_event_writes:
  assumes "team_state_event rt org roster fetched st = Inr event" and "team_projection_event d event = Some e"
  shows "e \<in> team_writes d org (team_slug roster)"
proof -
  have "ev_org event = org \<and> ev_team_slug event = team_slug roster"
    using assms(1)
    by (auto simp: team_state_event_def non_empty_def bounded_string_def map_err_def and_then_Inr
        split: sum.splits if_splits)
  with assms(2) show ?thesis
    by (auto simp: team_projection_event_def team_writes_def TeamRoster_from_def Let_def split: sum.splits)
qed

lemma record_team_may_apply:
  assumes "record_team env org roster fetched st i j s = (o', s')"
  shows "(projection_state s' = projection_state s \<and> o' \<noteq> Completed (Inr ())) \<or>
    (\<exists>e \<in> team_writes False org (team_slug roster). projection_state s' = EvidenceProjection_apply e (projection_state s))"
  by (rule admitted_may_apply [OF _ assms [unfolded record_team_def]])
    (intro may_apply_then may_apply_fold keeps_projection_steps,
     auto simp: body_try_def intro: team_event_writes)

lemma detach_team_may_apply:
  assumes "detach_team env org roster fetched st i j s = (o', s')"
  shows "(projection_state s' = projection_state s \<and> o' \<noteq> Completed (Inr ())) \<or>
    (\<exists>e \<in> team_writes True org (team_slug roster). projection_state s' = EvidenceProjection_apply e (projection_state s))"
proof -
  have slug: "team_slug (detach_tombstone_roster roster) = team_slug roster" by (simp add: detach_tombstone_roster_def)
  show ?thesis
    by (rule admitted_may_apply [OF _ assms [unfolded detach_team_def]])
      (intro may_apply_then may_apply_fold keeps_projection_steps,
       auto simp: body_try_def slug dest!: team_event_writes)
qed

subsection \<open>Live teams\<close>

abbreviation live_team :: "'b AppState \<Rightarrow> string \<Rightarrow> TeamRoster option" where
  "live_team s \<equiv> btree_get (proj_team_rosters (projection_state s))"

text \<open>Every live team is kept under the key of its slug in the organisation.\<close>

definition teams_keyed :: "string \<Rightarrow> 'b AppState \<Rightarrow> bool" where
  "teams_keyed org s \<longleftrightarrow> (\<forall>k r. live_team s k = Some r \<longrightarrow> team_domain_key org (team_slug r) = Inr k)"

text \<open>What a write under the policy may do to the live teams, and what it does when it succeeds.\<close>

definition team_written :: "bool \<Rightarrow> string \<Rightarrow> string \<Rightarrow> 'b AppState \<Rightarrow> 'b AppState \<Rightarrow> bool" where
  "team_written d org slug s s' \<longleftrightarrow>
     (\<forall>k. team_domain_key org slug \<noteq> Inr k \<longrightarrow> live_team s' k = live_team s k) \<and>
     (teams_keyed org s \<and> projection_ok (projection_state s) \<longrightarrow>
        teams_keyed org s' \<and> projection_ok (projection_state s')) \<and>
     (\<forall>k. \<not> d \<and> live_team s k \<noteq> None \<longrightarrow> live_team s' k \<noteq> None) \<and>
     (\<forall>k. d \<and> live_team s k = None \<longrightarrow> live_team s' k = None)"

lemma live_apply:
  "btree_get (proj_team_rosters (EvidenceProjection_apply (EvidenceProjectionEvent.TeamStateCaptured d k (Some r)) p)) j =
     (if j \<noteq> k then btree_get (proj_team_rosters p) j
      else if d then None
      else if is_some_and roster_is_complete (btree_get (proj_team_rosters p) k) \<and> \<not> roster_is_complete r
      then btree_get (proj_team_rosters p) k else Some r)"
  using apply_refines_team [of "EvidenceProjectionEvent.TeamStateCaptured d k (Some r)" p j]
  by (auto split: if_splits)

lemma team_written_refl: "projection_state s' = projection_state s \<Longrightarrow> team_written d org slug s s'"
  by (simp add: team_written_def teams_keyed_def)

lemma team_written_trans:
  "team_written d org slug s s' \<Longrightarrow> team_written d org slug s' s'' \<Longrightarrow> team_written d org slug s s''"
  by (simp add: team_written_def)

lemma team_written_apply:
  assumes "e \<in> team_writes d org slug" and "projection_state s' = EvidenceProjection_apply e (projection_state s)"
  shows "team_written d org slug s s'"
  using assms
  by (auto simp: team_writes_def team_written_def teams_keyed_def live_apply projection_ok_apply split: if_splits)

lemma team_write_may_apply:
  assumes "team_write env ids org fetched st roster d n s = (o', s')"
  shows "(projection_state s' = projection_state s \<and> o' \<noteq> Completed (Inr ())) \<or>
    (\<exists>e \<in> team_writes d org (team_slug roster). projection_state s' = EvidenceProjection_apply e (projection_state s))"
proof (cases d)
  case True
  from detach_team_may_apply [OF assms [unfolded team_write_def, simplified True if_True]] True show ?thesis by simp
next
  case False
  from record_team_may_apply [OF assms [unfolded team_write_def, simplified False if_False]] False show ?thesis by simp
qed

lemma team_write_written: "team_written d org (team_slug roster) s (snd (team_write env ids org fetched st roster d n s))"
proof -
  obtain o' s' where run: "team_write env ids org fetched st roster d n s = (o', s')" by force
  from team_write_may_apply [OF run] have "team_written d org (team_slug roster) s s'"
    by (auto intro: team_written_refl team_written_apply)
  with run show ?thesis by simp
qed

lemma write_team_event_written:
  assumes "write_team_event env ids org fetched st roster d (n, s) = (result, n', s')"
  shows "team_written d org (team_slug roster) s s'"
proof -
  have "team_written d org (team_slug roster) s (fst (snd (policy_write (team_write env ids org fetched st roster d) n s)))"
    by (rule policy_write_invariant [where I = "team_written d org (team_slug roster) s"])
      (blast intro: team_written_trans team_write_written team_written_refl)+
  with assms show ?thesis by (auto simp: write_team_event_def split: prod.splits)
qed

lemma map_err_Inr: "map_err f r = Inr x \<longleftrightarrow> r = Inr x"
  by (cases r) (auto simp: map_err_def)

lemma write_team_event_success:
  assumes "write_team_event env ids org fetched st roster True (n, s) = (Some (Inr ()), n', s')"
    and "team_domain_key org (team_slug roster) = Inr k"
  shows "live_team s' k = None"
proof -
  have "policy_write (team_write env ids org fetched st roster True) n s = (Some (Inr ()), s', n')"
    using assms(1) by (auto simp: write_team_event_def map_err_Inr split: prod.splits)
  from policy_write_last [where I = "\<lambda>_. True", OF this] obtain t m where
    "team_write env ids org fetched st roster True m t = (Completed (Inr ()), s')" by auto
  from team_write_may_apply [OF this] assms(2) show ?thesis by (auto simp: team_writes_def live_apply)
qed

subsection \<open>Sequences of writes\<close>

lemma write_teams_Cons:
  assumes "write_teams env ids org fetched st ((roster, d) # rest) (n, s) = (result, n', s')"
  obtains (stop) "write_team_event env ids org fetched st roster d (n, s) = (result, n', s')" "result \<noteq> Some (Inr ())"
  | (go) m t where "write_team_event env ids org fetched st roster d (n, s) = (Some (Inr ()), m, t)"
      "write_teams env ids org fetched st rest (m, t) = (result, n', s')"
proof -
  obtain r m t where r: "write_team_event env ids org fetched st roster d (n, s) = (r, m, t)" by (metis prod_cases3)
  show thesis
  proof (cases "r = Some (Inr ())")
    case True
    with assms r show thesis by (intro go) auto
  next
    case False
    with assms r have "r = result" "m = n'" "t = s'" by (auto split: option.splits sum.splits)
    with r False show thesis by (intro stop) auto
  qed
qed

text \<open>A team that leaves the projection is the subject of one of the detachments.\<close>

lemma write_teams_leaves:
  assumes "write_teams env ids org fetched st ws (n, s) = (result, n', s')"
    and "live_team s k \<noteq> None" and "live_team s' k = None"
  shows "\<exists>roster. (roster, True) \<in> set ws \<and> team_domain_key org (team_slug roster) = Inr k"
  using assms(1,2)
proof (induction ws arbitrary: n s)
  case Nil
  with assms(3) show ?case by simp
next
  case (Cons w ws)
  obtain roster d where w: "w = (roster, d)" by force
  from Cons.prems(1) [unfolded w] show ?case
  proof (cases rule: write_teams_Cons)
    case stop
    from write_team_event_written [OF stop(1)] Cons.prems(2) assms(3) show ?thesis
      by (cases d) (auto simp: w team_written_def)
  next
    case (go m t)
    show ?thesis
    proof (cases "live_team t k")
      case None
      with write_team_event_written [OF go(1)] Cons.prems(2) show ?thesis
        by (cases d) (auto simp: w team_written_def)
    next
      case (Some r)
      then show ?thesis using Cons.IH [OF go(2)] by auto
    qed
  qed
qed

lemma write_teams_keyed:
  assumes "write_teams env ids org fetched st ws (n, s) = (result, n', s')"
    and "teams_keyed org s" "projection_ok (projection_state s)"
  shows "teams_keyed org s' \<and> projection_ok (projection_state s')"
  using assms
proof (induction ws arbitrary: n s)
  case (Cons w ws)
  obtain roster d where w: "w = (roster, d)" by force
  from Cons.prems(1) [unfolded w] show ?case
    by (cases rule: write_teams_Cons)
      (use Cons.IH Cons.prems(2,3) in \<open>auto simp: team_written_def dest!: write_team_event_written\<close>)
qed simp

lemma detachments_remove:
  assumes "write_teams env ids org fetched st ws (n, s) = (Some (Inr ()), n', s')" and "list_all snd ws"
  shows "(live_team s k = None \<longrightarrow> live_team s' k = None) \<and>
    ((\<exists>roster. (roster, True) \<in> set ws \<and> team_domain_key org (team_slug roster) = Inr k) \<longrightarrow> live_team s' k = None)"
  using assms
proof (induction ws arbitrary: n s)
  case (Cons w ws)
  obtain roster where w: "w = (roster, True)" using Cons.prems(2) by (cases w) simp
  from Cons.prems(1) [unfolded w] show ?case
  proof (cases rule: write_teams_Cons)
    case (go m t)
    have "live_team s k = None \<Longrightarrow> live_team t k = None"
      using write_team_event_written [OF go(1)] by (simp add: team_written_def)
    moreover have "team_domain_key org (team_slug roster) = Inr k \<Longrightarrow> live_team t k = None"
      by (rule write_team_event_success [OF go(1)])
    ultimately show ?thesis using Cons.IH [OF go(2)] Cons.prems(2) w by auto
  qed simp
qed simp

subsection \<open>The tick\<close>

text \<open>The teams that a tick may detach, given what it read: deleted ones, and omitted ones if discovery was complete.\<close>

definition may_detach :: "string \<Rightarrow> TickRead \<Rightarrow> string \<Rightarrow> bool" where
  "may_detach org r k \<longleftrightarrow>
     (\<exists>roster \<in> set (tr_rosters r). roster_status roster = TeamRosterStatus.Deleted \<and>
        team_domain_key org (team_slug roster) = Inr k) \<or>
     authorizes_omission_detach (tr_discovery r) \<and> k \<notin> current_keys_of org (tr_pairs r)"

lemma write_phase_cases:
  assumes "tick_write_phase env ids org fetched r (n, s) = (result, n', s')"
  obtains (first) "write_teams env ids org fetched (tr_fetch_status r) (fetched_writes (tr_rosters r)) (n, s) = (result, n', s')"
      "result = Some (Inr ()) \<Longrightarrow> \<not> authorizes_omission_detach (tr_discovery r)"
  | (panic) m where "write_teams env ids org fetched (tr_fetch_status r) (fetched_writes (tr_rosters r)) (n, s) =
       (Some (Inr ()), m, s')" "result = None"
  | (both) m t where "write_teams env ids org fetched (tr_fetch_status r) (fetched_writes (tr_rosters r)) (n, s) =
       (Some (Inr ()), m, t)" "authorizes_omission_detach (tr_discovery r)"
      "write_teams env ids org fetched (tr_fetch_status r)
         (stale_writes (current_keys_of org (tr_pairs r)) (proj_team_rosters (projection_state t))) (m, t) = (result, n', s')"
proof -
  obtain r1 m t where r1: "write_teams env ids org fetched (tr_fetch_status r) (fetched_writes (tr_rosters r)) (n, s) =
      (r1, m, t)" by (metis prod_cases3)
  show thesis
  proof (cases "r1 = Some (Inr ()) \<and> authorizes_omission_detach (tr_discovery r)")
    case True
    show thesis
    proof (cases "projection_team_rosters_snapshot t")
      case None
      with True assms r1 show thesis by (intro panic) (auto simp: tick_write_phase_def)
    next
      case (Some teams)
      then have "teams = proj_team_rosters (projection_state t)"
        by (auto simp: projection_team_rosters_snapshot_def reader_defs EvidenceProjection_team_rosters_snapshot_def
            split: if_splits)
      with True Some assms r1 show thesis by (intro both) (auto simp: tick_write_phase_def)
    qed
  next
    case False
    with assms r1 have "(r1, m, t) = (result, n', s')"
      by (auto simp: tick_write_phase_def split: option.splits sum.splits if_splits)
    with r1 False show thesis by (intro first) auto
  qed
qed

lemma stale_key:
  assumes "(roster, True) \<in> set (stale_writes keys (proj_team_rosters (projection_state t)))" and "teams_keyed org t"
    and "team_domain_key org (team_slug roster) = Inr k" and "projection_ok (projection_state t)"
  shows "k \<notin> keys"
proof -
  obtain k' where k': "(k', roster) \<in> set (proj_team_rosters (projection_state t))" "k' \<notin> keys"
    using assms(1) by (auto simp: stale_writes_def)
  then have "live_team t k' = Some roster" using assms(4) by (auto simp: projection_ok_def btree_ok_def btree_get_def strict_sorted_iff)
  with assms(2,3) k'(2) show ?thesis by (auto simp: teams_keyed_def)
qed

lemma write_phase_leaves:
  assumes "tick_write_phase env ids org fetched r (n, s) = (result, n', s')"
    and "teams_keyed org s" "projection_ok (projection_state s)"
    and "live_team s k \<noteq> None" "live_team s' k = None"
  shows "may_detach org r k"
proof -
  have fetched: "may_detach org r k" if "write_teams env ids org fetched (tr_fetch_status r) (fetched_writes (tr_rosters r)) (n, s) =
      (r1, m, t)" "live_team t k = None" for r1 m t
    using write_teams_leaves [OF that(1) assms(4) that(2)] by (auto simp: fetched_writes_def may_detach_def)
  from assms(1) show ?thesis
  proof (cases rule: write_phase_cases)
    case (both m t)
    show ?thesis
    proof (cases "live_team t k")
      case (Some r')
      from write_teams_leaves [OF both(3) _ assms(5)] Some obtain roster where
        stale: "(roster, True) \<in> set (stale_writes (current_keys_of org (tr_pairs r)) (proj_team_rosters (projection_state t)))"
        "team_domain_key org (team_slug roster) = Inr k" by auto
      have "k \<notin> current_keys_of org (tr_pairs r)"
        using stale_key [OF stale(1) _ stale(2)] write_teams_keyed [OF both(1) assms(2,3)] by blast
      with both(2) show ?thesis by (simp add: may_detach_def)
    qed (use fetched both in blast)
  qed (use fetched assms(5) in blast)+
qed

lemma write_phase_converges:
  assumes "tick_write_phase env ids org fetched r (n, s) = (Some (Inr ()), n', s')"
    and "teams_keyed org s" "projection_ok (projection_state s)"
    and "authorizes_omission_detach (tr_discovery r)" "live_team s' k \<noteq> None"
  shows "k \<in> current_keys_of org (tr_pairs r)"
  using assms(1)
proof (cases rule: write_phase_cases)
  case (both m t)
  let ?stale = "stale_writes (current_keys_of org (tr_pairs r)) (proj_team_rosters (projection_state t))"
  have all: "list_all snd ?stale" by (auto simp: stale_writes_def list_all_iff)
  obtain roster where live: "live_team t k = Some roster"
    using detachments_remove [OF both(3) all, of k] assms(5) by auto
  have keyed: "team_domain_key org (team_slug roster) = Inr k"
    using live write_teams_keyed [OF both(1) assms(2,3)] by (auto simp: teams_keyed_def)
  show ?thesis
  proof (rule ccontr)
    assume "k \<notin> current_keys_of org (tr_pairs r)"
    with live have "(roster, True) \<in> set ?stale"
      by (force simp: stale_writes_def btree_get_def dest: map_of_SomeD)
    with detachments_remove [OF both(3) all, of k] keyed assms(5) show False by blast
  qed
qed (use assms(4) in auto)

text \<open>The repositories that the tick reads the CODEOWNERS owners from: all that the projection holds at its start.\<close>

abbreviation tick_evidence :: "('b, 'w) Tick \<Rightarrow> RepositoryEvidence list" where
  "tick_evidence t \<equiv> EvidenceProjection_sorted_snapshot (projection_state (tk_app t))"

lemma current_keys_named: "k \<in> current_keys_of org pairs \<longleftrightarrow> (\<exists>slug \<in> snd ` set pairs. team_domain_key org slug = Inr k)"
  by (force simp: current_keys_of_def)

lemma add_discovered_Cons:
  "add_discovered org (x # slugs) pairs = add_discovered org slugs
     (if list_ex (\<lambda>(_, s). eq_ignore_ascii_case s x) pairs then pairs else pairs @ [(''@'' @ org @ ''/'' @ x, x)])"
  by (simp add: add_discovered_def)

lemma add_discovered_only: "snd ` set (add_discovered org slugs pairs) \<subseteq> set slugs \<union> snd ` set pairs"
proof (induction slugs arbitrary: pairs)
  case (Cons x slugs)
  show ?case unfolding add_discovered_Cons by (rule subset_trans [OF Cons.IH]) auto
qed (simp add: add_discovered_def)

lemma add_discovered_keeps: "set pairs \<subseteq> set (add_discovered org slugs pairs)"
proof (induction slugs arbitrary: pairs)
  case (Cons x slugs)
  show ?case unfolding add_discovered_Cons by (rule subset_trans [OF _ Cons.IH]) auto
qed (simp add: add_discovered_def)

lemma add_discovered_adds:
  "slug \<in> set slugs \<Longrightarrow>
     \<exists>s \<in> snd ` set (add_discovered org slugs pairs). s = slug \<or> eq_ignore_ascii_case s slug"
proof (induction slugs arbitrary: pairs)
  case (Cons x slugs)
  let ?p = "if list_ex (\<lambda>(_, s). eq_ignore_ascii_case s x) pairs then pairs else pairs @ [(''@'' @ org @ ''/'' @ x, x)]"
  show ?case
  proof (cases "slug = x")
    case True
    then have "\<exists>p \<in> set ?p. snd p = slug \<or> eq_ignore_ascii_case (snd p) slug" by (force simp: list_ex_iff)
    with add_discovered_keeps [of ?p org slugs] show ?thesis unfolding add_discovered_Cons by blast
  next
    case False
    with Cons.prems have "slug \<in> set slugs" by simp
    then show ?thesis unfolding add_discovered_Cons by (rule Cons.IH)
  qed
qed simp

lemma tick_read_pairs:
  assumes "tick_read E T org evidence w = (Some r, w')"
  shows "tr_pairs r = add_discovered org (discovered (tr_discovery r)) (team_owner_slugs (tp_lower T) evidence)"
  using assms by (auto simp: tick_read_def op_then_def op_return_def Let_def split: prod.splits option.splits)

lemma tick_phases:
  assumes "run_team_refresh_tick env E T ids fetched t = (result, t')"
  obtains (stopped) "projection_state (tk_app t') = projection_state (tk_app t)" "result \<noteq> Some (Inr ())"
  | (wrote) r net s n' where "tick_read E T (gc_org_name (fst (tk_net t))) (tick_evidence t) (tk_net t) = (Some r, net)"
      "projection_state s = projection_state (tk_app t)"
      "tick_write_phase env ids (gc_org_name (fst (tk_net t))) fetched r (tk_next t, s) = (result, n', tk_app t')"
proof -
  let ?org = "gc_org_name (fst (tk_net t))"
  obtain a s where a: "ensure_write_admission (tk_app t) = (a, s)" by force
  then have s: "projection_state s = projection_state (tk_app t)"
    by (auto simp: ensure_write_admission_def lock_write_admission_def notify_and_drain_def Let_def)
  show thesis
  proof (cases a)
    case (Inl e)
    with assms a s show thesis by (intro stopped) (auto simp: run_team_refresh_tick_def)
  next
    case (Inr u)
    show thesis
    proof (cases "projection_snapshot s")
      case None
      with assms a s Inr show thesis by (intro stopped) (auto simp: run_team_refresh_tick_def)
    next
      case (Some evidence)
      then have evidence: "evidence = tick_evidence t"
        using s by (auto simp: projection_snapshot_def reader_defs split: if_splits)
      obtain r net where r: "tick_read E T ?org evidence (tk_net t) = (r, net)"
        by (cases "tick_read E T ?org evidence (tk_net t)") blast
      show thesis
      proof (cases r)
        case None
        with assms a s Inr Some r show thesis by (intro stopped) (auto simp: run_team_refresh_tick_def)
      next
        case read: (Some rd)
        obtain x n' s' where w: "tick_write_phase env ids ?org fetched rd (tk_next t, s) = (x, n', s')" by (metis prod_cases3)
        with assms a Inr Some r read have "x = result" "s' = tk_app t'" by (auto simp: run_team_refresh_tick_def)
        with w r read s evidence show thesis by (intro wrote) auto
      qed
    qed
  qed
qed

text \<open>
  C16. A tick never forgets a team without evidence: whatever GitHub answers and however the writes fail, a live team that
  is gone after the tick was reported as deleted by its own roster request; or the discovery of the teams was complete,
  no CODEOWNERS owner of a repository in the projection at the start of the tick has the slug of the team, and the
  discovery did not list that slug either, unless a tracked team has the slug in another letter case.
\<close>
theorem team_leaves_only_on_authority:
  assumes "run_team_refresh_tick env E T ids fetched t = (result, t')"
    and "teams_keyed (gc_org_name (fst (tk_net t))) (tk_app t)" "projection_ok (projection_state (tk_app t))"
    and "live_team (tk_app t) k \<noteq> None" "live_team (tk_app t') k = None"
    and org: "org = gc_org_name (fst (tk_net t))"
    and evidence: "evidence = EvidenceProjection_sorted_snapshot (projection_state (tk_app t))"
  shows "\<exists>r net. tick_read E T org evidence (tk_net t) = (Some r, net) \<and>
    ((\<exists>roster \<in> set (tr_rosters r). roster_status roster = TeamRosterStatus.Deleted \<and>
        team_domain_key org (team_slug roster) = Inr k) \<or>
     authorizes_omission_detach (tr_discovery r) \<and>
     (\<forall>slug \<in> snd ` set (team_owner_slugs (tp_lower T) evidence). team_domain_key org slug \<noteq> Inr k) \<and>
     (\<forall>slug \<in> set (discovered (tr_discovery r)). team_domain_key org slug = Inr k \<longrightarrow>
        (\<exists>s \<in> snd ` set (tr_pairs r). s \<noteq> slug \<and> eq_ignore_ascii_case s slug)))"
  using assms(1)
proof (cases rule: tick_phases)
  case stopped
  with assms(4,5) show ?thesis by simp
next
  case (wrote r net s n')
  have "teams_keyed (gc_org_name (fst (tk_net t))) s" using assms(2) wrote(2) by (simp add: teams_keyed_def)
  with write_phase_leaves [OF wrote(3) this] assms(3-5) wrote(2) have leave: "may_detach org r k" by (simp add: org)
  note pairs = tick_read_pairs [OF wrote(1), folded org evidence]
  have "(\<forall>slug \<in> snd ` set (team_owner_slugs (tp_lower T) evidence). team_domain_key org slug \<noteq> Inr k) \<and>
     (\<forall>slug \<in> set (discovered (tr_discovery r)). team_domain_key org slug = Inr k \<longrightarrow>
        (\<exists>s \<in> snd ` set (tr_pairs r). s \<noteq> slug \<and> eq_ignore_ascii_case s slug))"
    if "k \<notin> current_keys_of org (tr_pairs r)"
  proof (intro conjI ballI impI)
    fix slug assume "slug \<in> snd ` set (team_owner_slugs (tp_lower T) evidence)"
    with add_discovered_keeps have "slug \<in> snd ` set (tr_pairs r)" unfolding pairs by blast
    with that show "team_domain_key org slug \<noteq> Inr k" by (auto simp: current_keys_of_def)
  next
    fix slug assume "slug \<in> set (discovered (tr_discovery r))" and key: "team_domain_key org slug = Inr k"
    from add_discovered_adds [OF this(1)] obtain s where
      s: "s \<in> snd ` set (tr_pairs r)" "s = slug \<or> eq_ignore_ascii_case s slug" unfolding pairs by blast
    moreover have "s \<noteq> slug" using s(1) key that by (auto simp: current_keys_of_def)
    ultimately show "\<exists>s \<in> snd ` set (tr_pairs r). s \<noteq> slug \<and> eq_ignore_ascii_case s slug" by blast
  qed
  with leave have "(\<exists>roster \<in> set (tr_rosters r). roster_status roster = TeamRosterStatus.Deleted \<and>
        team_domain_key org (team_slug roster) = Inr k) \<or>
     authorizes_omission_detach (tr_discovery r) \<and>
     (\<forall>slug \<in> snd ` set (team_owner_slugs (tp_lower T) evidence). team_domain_key org slug \<noteq> Inr k) \<and>
     (\<forall>slug \<in> set (discovered (tr_discovery r)). team_domain_key org slug = Inr k \<longrightarrow>
        (\<exists>s \<in> snd ` set (tr_pairs r). s \<noteq> slug \<and> eq_ignore_ascii_case s slug))"
    unfolding may_detach_def by (elim disjE conjE) simp_all
  with wrote(1) [folded org evidence] show ?thesis by (intro exI [of _ r] exI [of _ net] conjI)
qed

text \<open>
  C19. A successful tick converges: when it returns without an error after a complete discovery, every team that is still
  live has a slug that GitHub listed in this tick, or that is the slug of a CODEOWNERS owner of some repository in the
  projection at the start of the tick. All other teams have been detached.
\<close>
theorem successful_tick_converges:
  assumes "run_team_refresh_tick env E T ids fetched t = (Some (Inr ()), t')"
    and "teams_keyed (gc_org_name (fst (tk_net t))) (tk_app t)" "projection_ok (projection_state (tk_app t))"
    and org: "org = gc_org_name (fst (tk_net t))"
    and evidence: "evidence = EvidenceProjection_sorted_snapshot (projection_state (tk_app t))"
  shows "\<exists>r net. tick_read E T org evidence (tk_net t) = (Some r, net) \<and>
    (authorizes_omission_detach (tr_discovery r) \<longrightarrow>
      (\<forall>k. live_team (tk_app t') k \<noteq> None \<longrightarrow>
         (\<exists>slug. team_domain_key org slug = Inr k \<and>
            (slug \<in> set (discovered (tr_discovery r)) \<or> slug \<in> snd ` set (team_owner_slugs (tp_lower T) evidence)))))"
  using assms(1)
proof (cases rule: tick_phases)
  case (wrote r net s n')
  have "teams_keyed (gc_org_name (fst (tk_net t))) s" using assms(2) wrote(2) by (simp add: teams_keyed_def)
  note live = write_phase_converges [OF wrote(3) this]
  note pairs = tick_read_pairs [OF wrote(1), folded org evidence]
  have named: "\<exists>slug. team_domain_key org slug = Inr k \<and>
      (slug \<in> set (discovered (tr_discovery r)) \<or> slug \<in> snd ` set (team_owner_slugs (tp_lower T) evidence))"
    if key: "k \<in> current_keys_of org (tr_pairs r)" for k
  proof -
    obtain slug where slug: "slug \<in> snd ` set (tr_pairs r)" "team_domain_key org slug = Inr k"
      using key unfolding current_keys_named by blast
    from subsetD [OF add_discovered_only slug(1) [unfolded pairs]] slug(2) show ?thesis by (intro exI [of _ slug]) simp
  qed
  have "projection_ok (projection_state s)" using assms(3) wrote(2) by simp
  from live [OF this] named have "authorizes_omission_detach (tr_discovery r) \<longrightarrow>
      (\<forall>k. live_team (tk_app t') k \<noteq> None \<longrightarrow>
         (\<exists>slug. team_domain_key org slug = Inr k \<and>
            (slug \<in> set (discovered (tr_discovery r)) \<or> slug \<in> snd ` set (team_owner_slugs (tp_lower T) evidence))))"
    unfolding org by blast
  with wrote(1) show ?thesis unfolding org evidence by blast
qed simp

subsection \<open>A sample tick\<close>

definition calm :: "Client_State \<Rightarrow> bool" where
  "calm c \<longleftrightarrow> halted_until c = 0 \<and> credential_expires_at c = 0 \<and> gc_org_name c = ''acme''"

lemma calm_ask:
  assumes "calm c"
  shows "\<exists>c'. ask (array_env []) path t (c, sample_page # ws) =
     (Some (ApiOutcome.Success 200 (Some (Value.Array [])) None False), c', ws) \<and> calm c'"
proof -
  let ?E = "array_env []"
  have "\<exists>c'. request_paginated ?E path t c (sample_page # ws) =
     (Some (AttemptResult.Success 200 (Some (Value.Array [])) None False), c', ws) \<and> calm c'"
    using assms
    by (simp add: request_paginated_def paginate_from.simps page_step_def MAX_PAGINATION_PAGES_def
        array_env_def script_simps record_request_attempt_def calm_def Let_def)
  then obtain c' where page: "request_paginated ?E path t c (sample_page # ws) =
     (Some (AttemptResult.Success 200 (Some (Value.Array [])) None False), c', ws)" "calm c'" by blast
  have "is_halted ?E c w = (False, w)" "ensure_credential ?E c w = (Inr (), c, w)"
    "env_acquire ?E w = (True, w)" "\<not> rl_should_halt (env_limits ?E) w" for w
    using assms by (simp_all add: is_halted_def ensure_credential_def credential_needs_refresh_def calm_def
        array_env_def script_env_def)
  with page show ?thesis
    by (auto simp: ask_def request_def request_inner_def attempt_loop.simps attempt_step_def one_attempt_def Let_def
        RequestRun_from_attempt_def RequestRun_outcome_def)
qed

definition quiet_ports :: "Response list TeamPorts" where
  "quiet_ports = \<lparr>tp_sanitize = Some, tp_lower = (\<lambda>s. s), tp_now = (\<lambda>w. ([], w)),
     tp_decoders = \<lparr>decode_team_member = (\<lambda>_. None), decode_org_member = (\<lambda>_. None)\<rparr>\<rparr>"

definition sample_core_key_text :: string where
  "sample_core_key_text = (case team_domain_key ''acme'' ''core'' of Inr k \<Rightarrow> k | Inl _ \<Rightarrow> [])"

definition sample_tick :: "(Envelope list, Response list) Tick" where
  "sample_tick = \<lparr>tk_app = (start_state [] [] [])\<lparr>projection_state :=
       EvidenceProjection_default\<lparr>proj_team_rosters := [(sample_core_key_text, sample_core)]\<rparr>\<rparr>,
     tk_net = (sample_state\<lparr>gc_org_name := ''acme''\<rparr>, [sample_page, sample_page]), tk_next = 0\<rparr>"

lemma sample_tick_start:
  "team_domain_key ''acme'' ''core'' = Inr sample_core_key_text"
  "teams_keyed ''acme'' (tk_app sample_tick)" "projection_ok (projection_state (tk_app sample_tick))"
  "live_team (tk_app sample_tick) sample_core_key_text = Some sample_core" "calm (fst (tk_net sample_tick))"
  "gc_org_name (fst (tk_net sample_tick)) = ''acme''"
  by (simp_all add: sample_core_key_text_def team_domain_key_def teams_keyed_def sample_tick_def btree_get_def sample_core_def
      projection_ok_def btree_ok_def EvidenceProjection_default_def btree_empty_def calm_def sample_state_def split: if_splits)

lemma sample_read:
  "\<exists>net. tick_read (array_env []) quiet_ports ''acme'' [] (tk_net sample_tick) =
     (Some \<lparr>tr_discovery = TeamDiscovery_complete [], tr_pairs = [], tr_rosters = [],
        tr_fetch_status = OrgMembershipFetchStatus.Fetched\<rparr>, net)"
proof -
  have net: "tk_net sample_tick = (fst (tk_net sample_tick), [sample_page, sample_page])" by (simp add: sample_tick_def)
  obtain c1 where c1: "ask (array_env []) ''/orgs/acme/teams?per_page=100'' DEFAULT_REQUEST_TIMEOUT_SECS (tk_net sample_tick) =
     (Some (ApiOutcome.Success 200 (Some (Value.Array [])) None False), c1, [sample_page])" "calm c1"
    using calm_ask [OF sample_tick_start(5)] net by metis
  obtain c2 where c2: "ask (array_env []) ''/orgs/acme/members?per_page=100'' DEFAULT_REQUEST_TIMEOUT_SECS (c1, [sample_page]) =
     (Some (ApiOutcome.Success 200 (Some (Value.Array [])) None False), c2, [])"
    using calm_ask [OF c1(2)] by blast
  have "team_owner_slugs lower [] = []" for lower
    by (simp add: team_owner_slugs_def build_owner_repo_map_def List.map_filter_simps)
  with c1 c2 show ?thesis
    by (simp add: tick_read_def discover_org_teams_def collect_org_members_def op_then_def op_return_def discovery_of_def
        List.map_filter_simps TeamDiscovery_complete_def add_discovered_def org_members_from_outcome_def
        org_member_logins_from_outcome_def quiet_ports_def enrich_team_rosters_with_org_membership_def DEFAULT_PAGE_SIZE_def
        Let_def)
qed

lemma sample_detach:
  "\<exists>s'. detach_team (sample_env False) ''acme'' sample_core ''t'' OrgMembershipFetchStatus.Fetched i j (tk_app sample_tick) =
     (Completed (Inr ()), s')"
proof -
  obtain p where p: "encode_event sample_schema (DomainEvent.TeamStateCaptured sample_core_event) = Inr p"
    by (rule sample_encode)
  obtain q where q: "encode_event (TeamStateCaptured_schema sample_prims ''node'') sample_core_event = Inr q"
    by (rule sample_team_encode)
  obtain k where k: "team_domain_key (ev_org sample_core_event) (ev_team_slug sample_core_event) = Inr k"
    using sample_core_key by blast
  show ?thesis
    by (simp add: detach_team_def sample_env_def start_state_def sample_tick_def admission_defs body_defs p q k
        sample_core_event StoreInner_detach_def open_session_def op_defs fresh_store_def
        sample_pardosa_def sample_land_def fiber_state_def apply_projection_event_def team_projection_event_def
        Let_def)
qed

lemma sample_run:
  "\<exists>t'. run_team_refresh_tick (sample_env False) (array_env []) quiet_ports (\<lambda>n. (of_nat n, of_nat n)) ''t'' sample_tick =
     (Some (Inr ()), t') \<and> live_team (tk_app t') sample_core_key_text = None"
proof -
  let ?s = "tk_app sample_tick" and ?ids = "\<lambda>n. (of_nat n, of_nat n)"
  obtain s' where det: "detach_team (sample_env False) ''acme'' sample_core ''t'' OrgMembershipFetchStatus.Fetched 0 0 ?s =
      (Completed (Inr ()), s')" using sample_detach by blast
  have "write_team_event (sample_env False) ?ids ''acme'' ''t'' OrgMembershipFetchStatus.Fetched sample_core True (0, ?s) =
      (Some (Inr ()), Suc 0, s')"
    by (simp add: write_team_event_def policy_write_def write_with_policy_def attempt_write_def team_write_def det
        classify_attempt_def map_err_def)
  note w = this write_team_event_success [OF this, of sample_core_key_text] sample_tick_start(1)
  have open_state: "ensure_write_admission ?s = (Inr (), ?s)" "projection_snapshot ?s = Some []"
    "projection_team_rosters_snapshot ?s = Some [(sample_core_key_text, sample_core)]"
    by (simp_all add: ensure_write_admission_def lock_write_admission_def sample_tick_def start_state_def
        projection_snapshot_def projection_team_rosters_snapshot_def reader_defs EvidenceProjection_sorted_snapshot_def
        EvidenceProjection_team_rosters_snapshot_def EvidenceProjection_default_def btree_empty_def)
  obtain net where "tick_read (array_env []) quiet_ports ''acme'' [] (tk_net sample_tick) =
     (Some \<lparr>tr_discovery = TeamDiscovery_complete [], tr_pairs = [], tr_rosters = [],
        tr_fetch_status = OrgMembershipFetchStatus.Fetched\<rparr>, net)" using sample_read by blast
  moreover have "tk_next sample_tick = 0" "team_slug sample_core = ''core''"
    by (simp_all add: sample_tick_def sample_core_def)
  ultimately show ?thesis using open_state w
    by (simp add: run_team_refresh_tick_def sample_tick_start(6) Let_def tick_write_phase_def fetched_writes_def stale_writes_def
        current_keys_of_def authorizes_omission_detach_def TeamDiscovery_complete_def)
qed

theorem team_leaves_only_on_authority_witness:
  "\<exists>t' r net. run_team_refresh_tick (sample_env False) (array_env []) quiet_ports (\<lambda>n. (of_nat n, of_nat n)) ''t''
       sample_tick = (Some (Inr ()), t') \<and> live_team (tk_app t') sample_core_key_text = None \<and>
     tick_read (array_env []) quiet_ports ''acme'' (tick_evidence sample_tick) (tk_net sample_tick) = (Some r, net) \<and>
     ((\<exists>roster \<in> set (tr_rosters r). roster_status roster = TeamRosterStatus.Deleted \<and>
        team_domain_key ''acme'' (team_slug roster) = Inr sample_core_key_text) \<or> authorizes_omission_detach (tr_discovery r))"
proof -
  obtain t' where run: "run_team_refresh_tick (sample_env False) (array_env []) quiet_ports (\<lambda>n. (of_nat n, of_nat n)) ''t'' sample_tick =
     (Some (Inr ()), t')" and gone: "live_team (tk_app t') sample_core_key_text = None" using sample_run by blast
  have "live_team (tk_app sample_tick) sample_core_key_text \<noteq> None" by (simp add: sample_tick_start(4))
  from team_leaves_only_on_authority [OF run, unfolded sample_tick_start(6), OF sample_tick_start(2,3) this gone refl refl]
  show ?thesis using run gone by blast
qed

theorem successful_tick_converges_witness:
  "\<exists>t' r net. run_team_refresh_tick (sample_env False) (array_env []) quiet_ports (\<lambda>n. (of_nat n, of_nat n)) ''t''
       sample_tick = (Some (Inr ()), t') \<and>
     tick_read (array_env []) quiet_ports ''acme'' (tick_evidence sample_tick) (tk_net sample_tick) = (Some r, net) \<and>
     (\<forall>k. live_team (tk_app t') k = None)"
proof -
  obtain t' where run: "run_team_refresh_tick (sample_env False) (array_env []) quiet_ports (\<lambda>n. (of_nat n, of_nat n)) ''t'' sample_tick =
     (Some (Inr ()), t')" using sample_run by blast
  have none: "tick_evidence sample_tick = []" "team_owner_slugs lower [] = []" for lower
    by (simp_all add: sample_tick_def EvidenceProjection_sorted_snapshot_def EvidenceProjection_default_def btree_empty_def
        team_owner_slugs_def build_owner_repo_map_def List.map_filter_simps)
  from successful_tick_converges [OF run, unfolded sample_tick_start(6), OF sample_tick_start(2,3) refl refl]
  obtain r net where read: "tick_read (array_env []) quiet_ports ''acme'' (tick_evidence sample_tick) (tk_net sample_tick) = (Some r, net)"
    and live: "authorizes_omission_detach (tr_discovery r) \<longrightarrow>
       (\<forall>k. live_team (tk_app t') k \<noteq> None \<longrightarrow> (\<exists>slug. team_domain_key ''acme'' slug = Inr k \<and>
         (slug \<in> set (discovered (tr_discovery r)) \<or>
          slug \<in> snd ` set (team_owner_slugs (tp_lower quiet_ports) (tick_evidence sample_tick)))))" by blast
  have "tr_discovery r = TeamDiscovery_complete []" using read sample_read unfolding none by fastforce
  with live have "live_team (tk_app t') k = None" for k
    by (auto simp: none TeamDiscovery_complete_def authorizes_omission_detach_def)
  with run read show ?thesis by blast
qed

end
