(* ===== verification/Publisher_Loop.thy ===== *)
theory Publisher_Loop
  imports Gh_Prelude
begin

text \<open>
  The partial publisher of \<open>app/collect.rs\<close>: the task that renders an intermediate report while a sweep runs. Its
  decisions (\<open>transition\<close>, \<open>FinalRender::at_barrier\<close>) are functions. Its loop is a step relation in which the task
  interleaves with the signals, the timers and the shutdown of the collection: a select takes any branch that is
  ready, and the flag \<open>stopping\<close> is read after the branch was taken and before the render that it allows begins.
\<close>

subsection \<open>Decisions\<close>

datatype PublisherState = Idle | HoldingDown (dirty: bool)

fun is_holding_down :: "PublisherState \<Rightarrow> bool" where
  "is_holding_down (HoldingDown _) = True"
| "is_holding_down Idle = False"

datatype LoopEvent = Signal | HoldDownExpired | ShutdownObserved

datatype BufferedSignal = Present | Absent

datatype FinalRender = Required | NotRequired

fun FinalRender_at_barrier :: "PublisherState \<Rightarrow> BufferedSignal \<Rightarrow> FinalRender" where
  "FinalRender_at_barrier (HoldingDown True) _ = Required"
| "FinalRender_at_barrier Idle Present = Required"
| "FinalRender_at_barrier (HoldingDown False) Present = Required"
| "FinalRender_at_barrier Idle Absent = NotRequired"
| "FinalRender_at_barrier (HoldingDown False) Absent = NotRequired"

datatype Transition = Exit BufferedSignal | RenderLeadingEdge | MarkDirty | RenderCoalesced | ParkIdle

fun transition :: "bool \<Rightarrow> PublisherState \<Rightarrow> LoopEvent \<Rightarrow> Transition" where
  "transition True _ Signal = Exit Present"
| "transition True _ HoldDownExpired = Exit Absent"
| "transition _ _ ShutdownObserved = Exit Absent"
| "transition False Idle Signal = RenderLeadingEdge"
| "transition False (HoldingDown _) Signal = MarkDirty"
| "transition False (HoldingDown True) HoldDownExpired = RenderCoalesced"
| "transition False Idle HoldDownExpired = ParkIdle"
| "transition False (HoldingDown False) HoldDownExpired = ParkIdle"

subsection \<open>The loop\<close>

text \<open>
  Where the task stands: in the select, after the select took a branch, after it read \<open>stopping\<close>, inside a render of
  the loop, in \<open>finalise_at_barrier\<close> before and during its render, and returned.
\<close>

datatype Position =
    Selecting | Selected LoopEvent | Deciding bool LoopEvent | Rendering | Finalising FinalRender | Flushing | Returned

text \<open>What happens, in order: the notifications, the timers, the shutdown, and the renders of the task.\<close>

datatype Occurrence = Notified | Ticked | Elapsed | ShutdownSent | SenderDropped | Started | Finished | Exited

text \<open>
  The permit is the one the \<open>Notify\<close> stores while nobody waits for it; \<open>changed\<close> is the version of the watch channel
  the receiver has not seen yet; \<open>expired\<close> says that the hold-down timer passed its deadline. The timer parked for 24
  hours in \<open>Idle\<close> is never polled there.
\<close>

record Publisher =
  publisher_state :: PublisherState
  position :: Position
  permit :: bool
  tick_due :: bool
  expired :: bool
  shutdown :: bool
  changed :: bool
  history :: "Occurrence list"

definition Publisher_start :: Publisher where
  "Publisher_start = \<lparr>publisher_state = Idle, position = Selecting, permit = False, tick_due = False,
     expired = False, shutdown = False, changed = False, history = []\<rparr>"

definition occurs :: "Occurrence \<Rightarrow> Publisher \<Rightarrow> Publisher" where
  "occurs what p = p\<lparr>history := history p @ [what]\<rparr>"

text \<open>\<open>BufferedSignal::drain\<close>: poll the notification once, which takes the permit.\<close>

definition drain :: "Publisher \<Rightarrow> BufferedSignal \<times> Publisher" where
  "drain p = (if permit p then (Present, p\<lparr>permit := False\<rparr>) else (Absent, p))"

definition begin_render :: "Publisher \<Rightarrow> Publisher" where
  "begin_render p = occurs Started (p\<lparr>position := Rendering\<rparr>)"

text \<open>After a render of the loop: hold down, with the timer armed anew.\<close>

definition end_render :: "Publisher \<Rightarrow> Publisher" where
  "end_render p = occurs Finished (p\<lparr>publisher_state := HoldingDown False, expired := False, position := Selecting\<rparr>)"

definition leave_loop :: "BufferedSignal \<Rightarrow> Publisher \<Rightarrow> Publisher" where
  "leave_loop buffered p = occurs Exited (p\<lparr>position := Finalising (FinalRender_at_barrier (publisher_state p) buffered)\<rparr>)"

definition dispatch :: "bool \<Rightarrow> LoopEvent \<Rightarrow> Publisher \<Rightarrow> Publisher" where
  "dispatch stopping event p = (case transition stopping (publisher_state p) event of
     Exit Present \<Rightarrow> leave_loop Present p
   | Exit Absent \<Rightarrow> (case drain p of (buffered, p) \<Rightarrow> leave_loop buffered p)
   | RenderLeadingEdge \<Rightarrow> begin_render p
   | RenderCoalesced \<Rightarrow> begin_render p
   | MarkDirty \<Rightarrow> p\<lparr>publisher_state := HoldingDown True, position := Selecting\<rparr>
   | ParkIdle \<Rightarrow> p\<lparr>publisher_state := Idle, expired := False, position := Selecting\<rparr>)"

definition finalise_at_barrier :: "FinalRender \<Rightarrow> Publisher \<Rightarrow> Publisher" where
  "finalise_at_barrier decision p = (case decision of
     Required \<Rightarrow> occurs Started (p\<lparr>position := Flushing\<rparr>)
   | NotRequired \<Rightarrow> p\<lparr>position := Returned\<rparr>)"

text \<open>The steps of the task. The select has four branches; which of the ready ones it takes is open.\<close>

inductive publisher_step :: "Publisher \<Rightarrow> Publisher \<Rightarrow> bool" where
  take_notification: "\<lbrakk>position p = Selecting; permit p\<rbrakk> \<Longrightarrow>
     publisher_step p (p\<lparr>permit := False, position := Selected Signal\<rparr>)"
| take_tick: "\<lbrakk>position p = Selecting; tick_due p\<rbrakk> \<Longrightarrow>
     publisher_step p (p\<lparr>tick_due := False, position := Selected Signal\<rparr>)"
| take_expiry: "\<lbrakk>position p = Selecting; is_holding_down (publisher_state p); expired p\<rbrakk> \<Longrightarrow>
     publisher_step p (p\<lparr>position := Selected HoldDownExpired\<rparr>)"
| take_shutdown: "\<lbrakk>position p = Selecting; changed p\<rbrakk> \<Longrightarrow>
     publisher_step p (p\<lparr>changed := False, position := Selected ShutdownObserved\<rparr>)"
| read_stopping: "position p = Selected event \<Longrightarrow>
     publisher_step p (p\<lparr>position := Deciding (shutdown p) event\<rparr>)"
| decide: "position p = Deciding stopping event \<Longrightarrow> publisher_step p (dispatch stopping event p)"
| rendered: "position p = Rendering \<Longrightarrow> publisher_step p (end_render p)"
| finalise: "position p = Finalising decision \<Longrightarrow> publisher_step p (finalise_at_barrier decision p)"
| flushed: "position p = Flushing \<Longrightarrow> publisher_step p (occurs Finished (p\<lparr>position := Returned\<rparr>))"

text \<open>The steps of everybody else. The hold-down can only pass while it runs, shutdown is sent once, and a
  sender that is dropped without it resolves the receiver's wait as well.\<close>

inductive surroundings_step :: "Publisher \<Rightarrow> Publisher \<Rightarrow> bool" where
  notify: "surroundings_step p (occurs Notified (p\<lparr>permit := True\<rparr>))"
| tick: "surroundings_step p (occurs Ticked (p\<lparr>tick_due := True\<rparr>))"
| elapse: "is_holding_down (publisher_state p) \<Longrightarrow> surroundings_step p (occurs Elapsed (p\<lparr>expired := True\<rparr>))"
| send_shutdown: "\<not> shutdown p \<Longrightarrow>
     surroundings_step p (occurs ShutdownSent (p\<lparr>shutdown := True, changed := True\<rparr>))"
| drop_sender: "surroundings_step p (occurs SenderDropped (p\<lparr>changed := True\<rparr>))"

text \<open>A run, with the number of steps the task itself took.\<close>

inductive publisher_run :: "nat \<Rightarrow> Publisher \<Rightarrow> Publisher \<Rightarrow> bool" where
  start: "publisher_run 0 p p"
| task: "\<lbrakk>publisher_run n p q; publisher_step q r\<rbrakk> \<Longrightarrow> publisher_run (Suc n) p r"
| others: "\<lbrakk>publisher_run n p q; surroundings_step q r\<rbrakk> \<Longrightarrow> publisher_run n p r"

subsection \<open>What the history of a run says\<close>

text \<open>The history has the occurrence at a point where \<open>P\<close> held, and nothing but \<open>Q\<close> happened since.\<close>

definition happened :: "(Occurrence list \<Rightarrow> bool) \<Rightarrow> Occurrence \<Rightarrow> (Occurrence \<Rightarrow> bool) \<Rightarrow> Occurrence list \<Rightarrow> bool" where
  "happened P what Q h \<longleftrightarrow> (\<exists>before since. h = before @ what # since \<and> P before \<and> (\<forall>x\<in>set since. Q x))"

text \<open>A notification that no render has started after; one that the task left its loop with and never rendered.\<close>

definition unserved :: "Occurrence list \<Rightarrow> bool" where
  "unserved = happened (\<lambda>_. True) Notified (\<lambda>x. x \<noteq> Started)"

definition lost :: "Occurrence list \<Rightarrow> bool" where
  "lost = happened unserved Exited (\<lambda>x. x \<noteq> Started)"

text \<open>A render that finished and whose hold-down has not passed; a render of the loop that started then.\<close>

definition cooling :: "Occurrence list \<Rightarrow> bool" where
  "cooling = happened (\<lambda>_. True) Finished (\<lambda>x. x \<noteq> Elapsed \<and> x \<noteq> Exited)"

definition early :: "Occurrence list \<Rightarrow> bool" where
  "early = happened cooling Started (\<lambda>_. True)"

definition late_renders :: "Occurrence list \<Rightarrow> nat" where
  "late_renders h = count_list (dropWhile (\<lambda>what. what \<noteq> ShutdownSent) h) Finished"

named_theorems history_simps \<open>how one more occurrence changes what the history says\<close>

lemma happened_snoc [history_simps]:
  "happened P what Q (h @ [y]) \<longleftrightarrow> (y = what \<and> P h) \<or> (Q y \<and> happened P what Q h)"
proof
  assume "happened P what Q (h @ [y])"
  then obtain b a where "h @ [y] = b @ what # a" "P b" "\<forall>x\<in>set a. Q x" unfolding happened_def by blast
  then show "(y = what \<and> P h) \<or> (Q y \<and> happened P what Q h)"
    by (cases a rule: rev_cases) (auto simp: happened_def)
next
  assume "(y = what \<and> P h) \<or> (Q y \<and> happened P what Q h)"
  then show "happened P what Q (h @ [y])"
  proof (elim disjE conjE)
    assume "y = what" "P h"
    then show ?thesis unfolding happened_def by (intro exI [of _ h] exI [of _ "[]"]) simp
  next
    assume "Q y" "happened P what Q h"
    then obtain b a where "h = b @ what # a" "P b" "\<forall>x\<in>set a. Q x" unfolding happened_def by blast
    with \<open>Q y\<close> show ?thesis unfolding happened_def by (intro exI [of _ b] exI [of _ "a @ [y]"]) simp
  qed
qed

lemma happened_empty [history_simps]: "\<not> happened P what Q []"
  by (simp add: happened_def)

lemma late_renders_snoc [history_simps]:
  "late_renders (h @ [y]) = late_renders h + (if ShutdownSent \<in> set h \<and> y = Finished then 1 else 0)"
  by (induction h) (auto simp: late_renders_def)

lemma late_renders_empty [history_simps]: "late_renders [] = 0"
  by (simp add: late_renders_def)

lemmas history_defs = unserved_def lost_def cooling_def early_def

text \<open>What a report would find in a history, written out.\<close>

lemma happenedI: "h = before @ what # since \<Longrightarrow> P before \<Longrightarrow> (\<And>x. x \<in> set since \<Longrightarrow> Q x) \<Longrightarrow> happened P what Q h"
  by (auto simp: happened_def)

lemma lostI:
  assumes "h = before @ Notified # between @ Exited # after" "Started \<notin> set between" "Started \<notin> set after"
  shows "lost h"
proof -
  have "unserved (before @ Notified # between)"
    unfolding unserved_def by (rule happenedI [of _ before _ between]) (use assms in auto)
  then show ?thesis
    unfolding lost_def by (intro happenedI [of _ "before @ Notified # between" _ after]) (use assms in auto)
qed

lemma earlyI:
  assumes "h = before @ Finished # between @ Started # after" "Elapsed \<notin> set between" "Exited \<notin> set between"
  shows "early h"
proof -
  have "cooling (before @ Finished # between)"
    unfolding cooling_def by (rule happenedI [of _ before _ between]) (use assms in auto)
  then show ?thesis
    unfolding early_def by (intro happenedI [of _ "before @ Finished # between" _ after]) (use assms in auto)
qed

subsection \<open>Invariants of a run\<close>

fun in_loop :: "Position \<Rightarrow> bool" where
  "in_loop Selecting = True"
| "in_loop (Selected _) = True"
| "in_loop (Deciding _ _) = True"
| "in_loop Rendering = True"
| "in_loop _ = False"

fun event_of :: "Position \<Rightarrow> LoopEvent option" where
  "event_of (Selected event) = Some event"
| "event_of (Deciding _ event) = Some event"
| "event_of _ = None"

definition signals_kept :: "Publisher \<Rightarrow> bool" where
  "signals_kept p \<longleftrightarrow>
     (in_loop (position p) \<and> unserved (history p) \<longrightarrow>
        permit p \<or> event_of (position p) = Some Signal \<or> (publisher_state p = HoldingDown True \<and> position p \<noteq> Rendering)) \<and>
     (in_loop (position p) \<longrightarrow> \<not> lost (history p)) \<and>
     (lost (history p) \<longrightarrow> position p = Finalising Required)"

definition holds_down :: "Publisher \<Rightarrow> bool" where
  "holds_down p \<longleftrightarrow> \<not> early (history p) \<and>
     (in_loop (position p) \<and> cooling (history p) \<longrightarrow> is_holding_down (publisher_state p) \<and> \<not> expired p \<and>
        event_of (position p) \<noteq> Some HoldDownExpired \<and> position p \<noteq> Rendering) \<and>
     (\<not> in_loop (position p) \<and> position p \<noteq> Returned \<longrightarrow> \<not> cooling (history p))"

text \<open>The steps the task has left once shutdown was sent, and the renders it may still finish.\<close>

fun steps_left :: "Position \<Rightarrow> nat" where
  "steps_left (Deciding stopping _) = (if stopping then 3 else 7)"
| "steps_left Rendering = 6"
| "steps_left Selecting = 5"
| "steps_left (Selected _) = 4"
| "steps_left (Finalising _) = 2"
| "steps_left Flushing = 1"
| "steps_left Returned = 0"

fun renders_left :: "Position \<Rightarrow> nat" where
  "renders_left (Deciding stopping _) = (if stopping then 1 else 2)"
| "renders_left Rendering = 2"
| "renders_left Returned = 0"
| "renders_left _ = 1"

lemma renders_left_bound: "renders_left where_at \<le> 2"
  by (cases where_at) simp_all

definition stops :: "Publisher \<Rightarrow> bool" where
  "stops p \<longleftrightarrow> (shutdown p \<longleftrightarrow> ShutdownSent \<in> set (history p)) \<and>
     late_renders (history p) + (if shutdown p then renders_left (position p) else 0) \<le> 2 \<and>
     (\<not> shutdown p \<longrightarrow> late_renders (history p) = 0) \<and>
     (shutdown p \<and> in_loop (position p) \<and> event_of (position p) \<noteq> Some ShutdownObserved \<longrightarrow> changed p)"

lemmas step_defs = dispatch_def drain_def begin_render_def end_render_def leave_loop_def finalise_at_barrier_def occurs_def

text \<open>When the loop takes each of its transitions.\<close>

lemma transition_iff:
  "transition stopping state event = Exit Present \<longleftrightarrow> stopping \<and> event = Signal"
  "transition stopping state event = Exit Absent \<longleftrightarrow> event = ShutdownObserved \<or> (stopping \<and> event = HoldDownExpired)"
  "transition stopping state event = RenderLeadingEdge \<longleftrightarrow> \<not> stopping \<and> state = Idle \<and> event = Signal"
  "transition stopping state event = MarkDirty \<longleftrightarrow> \<not> stopping \<and> state \<noteq> Idle \<and> event = Signal"
  "transition stopping state event = RenderCoalesced \<longleftrightarrow> \<not> stopping \<and> state = HoldingDown True \<and> event = HoldDownExpired"
  "transition stopping state event = ParkIdle \<longleftrightarrow> \<not> stopping \<and> state \<noteq> HoldingDown True \<and> event = HoldDownExpired"
  by (cases stopping; cases state; cases event; cases "dirty state"; simp)+

lemma barrier_iff:
  "FinalRender_at_barrier state buffered = Required \<longleftrightarrow> state = HoldingDown True \<or> buffered = Present"
  by (cases state; cases buffered; cases "dirty state"; simp)

lemma is_holding_down_iff: "is_holding_down state \<longleftrightarrow> state \<noteq> Idle"
  by (cases state) simp_all

lemmas loop_simps = step_defs history_defs history_simps transition_iff barrier_iff is_holding_down_iff
lemmas loop_splits = Transition.split BufferedSignal.split FinalRender.split

lemma signals_kept_task: "publisher_step p q \<Longrightarrow> signals_kept p \<Longrightarrow> signals_kept q"
  by (induction rule: publisher_step.induct) (auto simp: signals_kept_def loop_simps split: loop_splits)

lemma signals_kept_others: "surroundings_step p q \<Longrightarrow> signals_kept p \<Longrightarrow> signals_kept q"
  by (induction rule: surroundings_step.induct) (auto simp: signals_kept_def loop_simps)

lemma holds_down_task: "publisher_step p q \<Longrightarrow> holds_down p \<Longrightarrow> holds_down q"
  by (induction rule: publisher_step.induct) (auto simp: holds_down_def loop_simps split: loop_splits)

lemma holds_down_others: "surroundings_step p q \<Longrightarrow> holds_down p \<Longrightarrow> holds_down q"
  by (induction rule: surroundings_step.induct) (auto simp: holds_down_def loop_simps)

lemma stops_task: "publisher_step p q \<Longrightarrow> stops p \<Longrightarrow> stops q"
  by (induction rule: publisher_step.induct) (auto simp: stops_def loop_simps split: loop_splits if_splits)

lemma stops_others: "surroundings_step p q \<Longrightarrow> stops p \<Longrightarrow> stops q"
  by (induction rule: surroundings_step.induct) (auto simp: stops_def loop_simps renders_left_bound)

text \<open>What the steps of the task and of its surroundings keep, a run keeps.\<close>

locale publisher_invariant =
  fixes I :: "Publisher \<Rightarrow> bool"
  assumes task_keeps: "publisher_step p q \<Longrightarrow> I p \<Longrightarrow> I q"
    and others_keep: "surroundings_step p q \<Longrightarrow> I p \<Longrightarrow> I q"
    and starts: "I Publisher_start"
begin

lemma run_keeps: "publisher_run n p q \<Longrightarrow> I p \<Longrightarrow> I q"
  by (induction rule: publisher_run.induct) (auto dest: task_keeps others_keep)

lemma reachable: "publisher_run n Publisher_start p \<Longrightarrow> I p"
  using run_keeps starts by blast

end

interpretation signals: publisher_invariant signals_kept
  by unfold_locales
    (auto simp: signals_kept_def Publisher_start_def history_defs history_simps dest: signals_kept_task signals_kept_others)

interpretation hold: publisher_invariant holds_down
  by unfold_locales
    (auto simp: holds_down_def Publisher_start_def history_defs history_simps dest: holds_down_task holds_down_others)

interpretation stopping: publisher_invariant stops
  by unfold_locales
    (auto simp: stops_def Publisher_start_def history_simps dest: stops_task stops_others)

subsection \<open>Shutdown\<close>

lemma shutdown_kept: "publisher_step p q \<Longrightarrow> shutdown q = shutdown p"
  by (induction rule: publisher_step.induct) (auto simp: step_defs split: loop_splits)

lemma shutdown_kept_others: "surroundings_step p q \<Longrightarrow> shutdown p \<Longrightarrow> shutdown q \<and> position q = position p"
  by (induction rule: surroundings_step.induct) (auto simp: occurs_def)

lemma task_progress: "publisher_step p q \<Longrightarrow> shutdown p \<Longrightarrow> steps_left (position q) < steps_left (position p)"
  by (induction rule: publisher_step.induct) (auto simp: loop_simps split: loop_splits)

lemma run_progress:
  "publisher_run n p q \<Longrightarrow> shutdown p \<Longrightarrow> shutdown q \<and> steps_left (position q) + n \<le> steps_left (position p)"
  by (induction rule: publisher_run.induct)
    (auto simp: shutdown_kept dest: task_progress shutdown_kept_others)

lemma steps_left_bound: "steps_left where_at \<le> 7"
  by (cases where_at) simp_all

lemma not_stuck:
  assumes "stops p" "shutdown p" "position p \<noteq> Returned"
  shows "\<exists>q. publisher_step p q"
proof (cases "position p")
  case Selecting
  with assms have "changed p" by (simp add: stops_def)
  with Selecting show ?thesis using take_shutdown by blast
qed (use assms in \<open>blast intro: publisher_step.intros\<close>)+

subsection \<open>Schedules\<close>

text \<open>A schedule names the branch of every select and the steps of the surroundings, so that a run can be evaluated.\<close>

datatype Move = Notify | Tick | Elapse | SendShutdown | Take LoopEvent | Proceed

fun perform :: "Move \<Rightarrow> Publisher \<Rightarrow> Publisher option" where
  "perform Notify p = Some (occurs Notified (p\<lparr>permit := True\<rparr>))"
| "perform Tick p = Some (occurs Ticked (p\<lparr>tick_due := True\<rparr>))"
| "perform Elapse p =
    (if is_holding_down (publisher_state p) then Some (occurs Elapsed (p\<lparr>expired := True\<rparr>)) else None)"
| "perform SendShutdown p =
    (if shutdown p then None else Some (occurs ShutdownSent (p\<lparr>shutdown := True, changed := True\<rparr>)))"
| "perform (Take event) p = (if position p \<noteq> Selecting then None else case event of
     Signal \<Rightarrow> if permit p then Some (p\<lparr>permit := False, position := Selected Signal\<rparr>)
       else if tick_due p then Some (p\<lparr>tick_due := False, position := Selected Signal\<rparr>) else None
   | HoldDownExpired \<Rightarrow> if is_holding_down (publisher_state p) \<and> expired p
       then Some (p\<lparr>position := Selected HoldDownExpired\<rparr>) else None
   | ShutdownObserved \<Rightarrow> if changed p then Some (p\<lparr>changed := False, position := Selected ShutdownObserved\<rparr>) else None)"
| "perform Proceed p = (case position p of
     Selecting \<Rightarrow> None
   | Selected event \<Rightarrow> Some (p\<lparr>position := Deciding (shutdown p) event\<rparr>)
   | Deciding stopping event \<Rightarrow> Some (dispatch stopping event p)
   | Rendering \<Rightarrow> Some (end_render p)
   | Finalising decision \<Rightarrow> Some (finalise_at_barrier decision p)
   | Flushing \<Rightarrow> Some (occurs Finished (p\<lparr>position := Returned\<rparr>))
   | Returned \<Rightarrow> None)"

fun schedule :: "Move list \<Rightarrow> Publisher \<Rightarrow> Publisher option" where
  "schedule [] p = Some p"
| "schedule (m # ms) p = (case perform m p of None \<Rightarrow> None | Some q \<Rightarrow> schedule ms q)"

lemma perform_step: "perform m p = Some q \<Longrightarrow> publisher_step p q \<or> surroundings_step p q"
  by (cases "(m, p)" rule: perform.cases)
    (auto intro: publisher_step.intros surroundings_step.intros split: if_splits LoopEvent.splits Position.splits)

lemma schedule_runs: "publisher_run n p q \<Longrightarrow> schedule ms q = Some r \<Longrightarrow> \<exists>m. publisher_run m p r"
proof (induction ms arbitrary: n q)
  case (Cons m ms)
  then obtain q' where q': "perform m q = Some q'" "schedule ms q' = Some r" by (auto split: option.splits)
  then obtain k where "publisher_run k p q'" using perform_step Cons.prems(1) task others by blast
  then show ?case using Cons.IH q'(2) by blast
qed auto

lemma schedule_reaches: "schedule ms Publisher_start = Some p \<Longrightarrow> \<exists>n. publisher_run n Publisher_start p"
  using schedule_runs start by blast

definition sample_moves :: "Move list" where
  "sample_moves = [Notify, Take Signal, Proceed, Proceed, Notify, Proceed, Take Signal, Proceed, Proceed, Elapse,
     Take HoldDownExpired, Proceed, Proceed, Proceed, Notify, SendShutdown, Take ShutdownObserved, Proceed, Proceed,
     Proceed, Proceed]"

definition sample_publisher :: Publisher where
  "sample_publisher = \<lparr>publisher_state = HoldingDown False, position = Returned, permit = False, tick_due = False,
     expired = False, shutdown = True, changed = False,
     history = [Notified, Started, Notified, Finished, Elapsed, Started, Finished, Notified, ShutdownSent, Exited, Started, Finished]\<rparr>"

lemma sample_schedule: "schedule sample_moves Publisher_start = Some sample_publisher"
  by (simp add: sample_moves_def sample_publisher_def Publisher_start_def loop_simps)

subsection \<open>Properties\<close>

text \<open>
  C2. The partial publisher coalesces signals and never drops one. In every run, however the notifications,
  ticks, timers and the shutdown interleave with it, a notification that came before the task left its loop has a
  render that started after it, by the time the task has returned.
\<close>

theorem publisher_loses_no_signal:
  assumes "publisher_run n Publisher_start p" and "position p = Returned"
    and "history p = before @ Notified # between @ Exited # after"
  shows "Started \<in> set between \<or> Started \<in> set after"
proof (rule ccontr)
  assume "\<not> ?thesis"
  then have "lost (history p)" using lostI [OF assms(3)] by blast
  then show False using signals.reachable [OF assms(1)] assms(2) by (simp add: signals_kept_def)
qed

theorem publisher_loses_no_signal_witness:
  "Started \<in> set [ShutdownSent] \<or> Started \<in> set [Started, Finished]"
proof -
  obtain n where "publisher_run n Publisher_start sample_publisher" using schedule_reaches [OF sample_schedule] by blast
  from publisher_loses_no_signal [OF this, of "[Notified, Started, Notified, Finished, Elapsed, Started, Finished]"]
  show ?thesis by (simp add: sample_publisher_def)
qed

text \<open>
  C3. Once shutdown was sent, the partial publisher returns. Whatever its surroundings go on doing, it
  takes at most seven more steps of its own, and it is never stuck before it has returned.
\<close>

theorem publisher_shutdown_terminates:
  assumes "publisher_run n Publisher_start p" and "shutdown p"
  shows "(\<forall>m q. publisher_run m p q \<longrightarrow> m \<le> 7) \<and>
     (\<forall>m q. publisher_run m p q \<and> position q \<noteq> Returned \<longrightarrow> (\<exists>r. publisher_step q r))"
proof (intro conjI allI impI)
  fix m q assume run: "publisher_run m p q"
  have "m \<le> steps_left (position p)" using run_progress [OF run assms(2)] by simp
  then show "m \<le> 7" using steps_left_bound le_trans by blast
next
  fix m q assume q: "publisher_run m p q \<and> position q \<noteq> Returned"
  then have "shutdown q" using run_progress assms(2) by blast
  moreover have "stops q" using stopping.run_keeps stopping.reachable [OF assms(1)] q by blast
  ultimately show "\<exists>r. publisher_step q r" using not_stuck q by blast
qed

theorem publisher_shutdown_terminates_witness:
  "\<exists>p. position p = Selecting \<and> shutdown p \<and> (\<forall>m q. publisher_run m p q \<longrightarrow> m \<le> 7)"
proof -
  let ?p = "Publisher_start\<lparr>shutdown := True, changed := True, history := [ShutdownSent]\<rparr>"
  have "schedule [SendShutdown] Publisher_start = Some ?p" by (simp add: Publisher_start_def occurs_def)
  then obtain n where "publisher_run n Publisher_start ?p" using schedule_reaches by blast
  from publisher_shutdown_terminates [OF this] show ?thesis
    by (intro exI [of _ ?p]) (simp add: Publisher_start_def)
qed

text \<open>
  At most two renders finish after shutdown was sent: the one that was in flight or already allowed, and
  the final one at the barrier.
\<close>

theorem publisher_two_renders_after_shutdown:
  assumes "publisher_run n Publisher_start p" and "history p = before @ ShutdownSent # after"
  shows "count_list after Finished \<le> 2"
proof -
  have "count_list after Finished \<le> late_renders (history p)"
    unfolding assms(2) late_renders_def by (induction before) auto
  then show ?thesis using stopping.reachable [OF assms(1)] by (simp add: stops_def)
qed

theorem publisher_two_renders_after_shutdown_witness: "count_list [Exited, Started, Finished] Finished \<le> 2"
proof -
  obtain n where "publisher_run n Publisher_start sample_publisher" using schedule_reaches [OF sample_schedule] by blast
  from publisher_two_renders_after_shutdown [OF this,
      of "[Notified, Started, Notified, Finished, Elapsed, Started, Finished, Notified]"]
  show ?thesis by (simp add: sample_publisher_def)
qed

text \<open>
  Renders of the loop keep their distance: one that starts after another finished has had the
  hold-down window pass in between. Only the final render at the barrier, after the loop was left, does not wait.
\<close>

theorem publisher_holds_down:
  assumes "publisher_run n Publisher_start p"
    and "history p = before @ Finished # between @ Started # after" and "Exited \<notin> set between"
  shows "Elapsed \<in> set between"
  using earlyI [OF assms(2) _ assms(3)] hold.reachable [OF assms(1)] by (auto simp: holds_down_def)

theorem publisher_holds_down_witness: "Elapsed \<in> set [Elapsed]"
proof -
  obtain n where "publisher_run n Publisher_start sample_publisher" using schedule_reaches [OF sample_schedule] by blast
  from publisher_holds_down [OF this, of "[Notified, Started, Notified]"] show ?thesis
    by (simp add: sample_publisher_def)
qed

end
