(* ===== verification/Inventory_Authority.thy ===== *)
theory Inventory_Authority
  imports Team_Refresh
begin

text \<open>
  The inventory of a collection run (\<open>app/collect.rs\<close>, module \<open>inventory_authority\<close>): how the repositories that
  the API listed are validated and deduplicated, how many of them a run admits, when the result has the authority to
  declare other repositories deleted, and the reconciliation that writes those deletions.
\<close>

subsection \<open>Validation\<close>

datatype InventoryValidationError =
    IdentityConflict (identity_key: string) (first_id: string) (second_id: string)
  | PayloadMismatch (mismatch_repo_id: string) (mismatch_field: string)

definition InventoryValidationError_reason :: "InventoryValidationError \<Rightarrow> string" where
  "InventoryValidationError_reason err = (case err of
     IdentityConflict key a b \<Rightarrow>
       ''inventory identity conflict on '' @ [CHR 0x27] @ key @ [CHR 0x27] @ '': repo '' @ [CHR 0x27] @ a @ [CHR 0x27] @
       '' vs '' @ [CHR 0x27] @ b @ [CHR 0x27]
   | PayloadMismatch i field \<Rightarrow>
       ''inventory payload conflict for repo '' @ [CHR 0x27] @ i @ [CHR 0x27] @ '' on field '' @ [CHR 0x27] @ field @ [CHR 0x27])"

definition find_payload_difference :: "Repository \<Rightarrow> Repository \<Rightarrow> string option" where
  "find_payload_difference a b =
     (if repo_id a \<noteq> repo_id b then Some ''id''
      else if repo_node_id a \<noteq> repo_node_id b then Some ''node_id''
      else if repo_name a \<noteq> repo_name b then Some ''name''
      else if visibility a \<noteq> visibility b then Some ''visibility''
      else if repo_language a \<noteq> repo_language b then Some ''language''
      else if default_branch a \<noteq> default_branch b then Some ''default_branch''
      else if archived a \<noteq> archived b then Some ''archived''
      else if inventory_key a \<noteq> inventory_key b then Some ''inventory_key''
      else if updated_at a \<noteq> updated_at b then Some ''updated_at''
      else if has_issues a \<noteq> has_issues b then Some ''has_issues''
      else if pushed_at a \<noteq> pushed_at b then Some ''pushed_at''
      else if created_at a \<noteq> created_at b then Some ''created_at''
      else if repo_description a \<noteq> repo_description b then Some ''description''
      else if repo_fork a \<noteq> repo_fork b then Some ''fork''
      else if repo_is_empty a \<noteq> repo_is_empty b then Some ''is_empty''
      else if html_url a \<noteq> html_url b then Some ''html_url''
      else if repo_topics a \<noteq> repo_topics b then Some ''topics''
      else if license_spdx a \<noteq> license_spdx b then Some ''license_spdx''
      else None)"

record Deduplication =
  unique_repos :: "Repository list"
  id_map :: "string \<rightharpoonup> nat"
  key_map :: "string \<rightharpoonup> nat"

text \<open>The two matches in order: the first sets the index, the second has to agree with it.\<close>

definition match_existing :: "Deduplication \<Rightarrow> Repository \<Rightarrow> InventoryValidationError + nat option" where
  "match_existing d repo = (case (id_map d (repo_id repo), key_map d (inventory_key repo)) of
     (Some i, Some k) \<Rightarrow>
       if i \<noteq> k then Inl (IdentityConflict ''inventory_key'' (repo_id (unique_repos d ! i)) (repo_id (unique_repos d ! k)))
       else Inr (Some i)
   | (Some i, None) \<Rightarrow> Inr (Some i)
   | (None, match_key) \<Rightarrow> Inr match_key)"

definition deduplicate_step :: "Deduplication \<Rightarrow> Repository \<Rightarrow> InventoryValidationError + Deduplication" where
  "deduplicate_step d repo = and_then (match_existing d repo) (\<lambda>matched. case matched of
     Some i \<Rightarrow> (case find_payload_difference repo (unique_repos d ! i) of
       Some field \<Rightarrow> Inl (PayloadMismatch (repo_id repo) field)
     | None \<Rightarrow> Inr d)
   | None \<Rightarrow> (let i = length (unique_repos d)
       in Inr \<lparr>unique_repos = unique_repos d @ [repo], id_map = (id_map d)(repo_id repo \<mapsto> i),
            key_map = (key_map d)(inventory_key repo \<mapsto> i)\<rparr>))"

fun deduplicate_loop :: "Repository list \<Rightarrow> Deduplication \<Rightarrow> InventoryValidationError + Deduplication" where
  "deduplicate_loop [] d = Inr d"
| "deduplicate_loop (repo # rest) d = and_then (deduplicate_step d repo) (deduplicate_loop rest)"

definition validate_and_deduplicate_repositories ::
    "Repository list \<Rightarrow> InventoryValidationError + Repository list" where
  "validate_and_deduplicate_repositories repos =
     and_then (deduplicate_loop repos \<lparr>unique_repos = [], id_map = Map.empty, key_map = Map.empty\<rparr>)
       (\<lambda>d. Inr (unique_repos d))"

subsection \<open>Admission\<close>

record ValidatedInventory =
  vi_active_repos :: "Repository list"
  vi_complete :: bool
  vi_inventory_fetched_at :: "string option"
  vi_total_discovered :: nat
  vi_archived_discovered :: u32

record AdmittedInventory =
  ai_active_repos :: "Repository list"
  ai_complete :: bool
  ai_inventory_fetched_at :: "string option"
  ai_is_capped :: bool
  ai_total_discovered :: nat
  ai_archived_discovered :: u32

definition ValidatedInventory_from_payload :: "InventoryPayload \<Rightarrow> string + ValidatedInventory" where
  "ValidatedInventory_from_payload payload =
     and_then (map_err InventoryValidationError_reason
       (validate_and_deduplicate_repositories (inv_repositories payload))) (\<lambda>repos.
     Inr \<lparr>vi_active_repos = repos, vi_complete = inv_complete payload, vi_inventory_fetched_at = inv_fetched_at payload,
       vi_total_discovered = length repos, vi_archived_discovered = u32_of_count (length (filter archived repos))\<rparr>)"

definition DEFAULT_MAX_REPOS :: nat where "DEFAULT_MAX_REPOS = 1000"

datatype MaxRepos = MaxRepos nat

definition MaxRepos_new :: "nat \<Rightarrow> MaxRepos option" where
  "MaxRepos_new val = (if val = 0 then None else Some (MaxRepos val))"

fun MaxRepos_get :: "MaxRepos \<Rightarrow> nat" where
  "MaxRepos_get (MaxRepos n) = n"

definition admit :: "ValidatedInventory \<Rightarrow> MaxRepos \<Rightarrow> AdmittedInventory" where
  "admit inventory max_repos =
     (let limit = MaxRepos_get max_repos;
          is_capped = vi_total_discovered inventory > limit;
          repos = sort_key repo_id (vi_active_repos inventory);
          repos = (if is_capped then take limit repos else repos)
      in \<lparr>ai_active_repos = repos, ai_complete = vi_complete inventory,
          ai_inventory_fetched_at = vi_inventory_fetched_at inventory, ai_is_capped = is_capped,
          ai_total_discovered = vi_total_discovered inventory,
          ai_archived_discovered = vi_archived_discovered inventory\<rparr>)"

text \<open>A deletion authority is the set of the keys that are still active.\<close>

definition deletion_authority :: "AdmittedInventory \<Rightarrow> string set option" where
  "deletion_authority inventory =
     (if \<not> ai_complete inventory \<or> ai_is_capped inventory \<or> ai_active_repos inventory = [] then None
      else Some (set (map inventory_key (ai_active_repos inventory))))"

definition load_active_repositories ::
    "'w Env \<Rightarrow> ('w \<Rightarrow> string \<times> 'w) \<Rightarrow> (Value \<Rightarrow> string + GhRepository list) \<Rightarrow> string \<Rightarrow>
     ('w, string + ValidatedInventory) client_op" where
  "load_active_repositories E now_utc decode org =
     op_then (build_inventory_from_api E now_utc decode org None) (\<lambda>inv.
     op_return (and_then inv ValidatedInventory_from_payload))"

subsection \<open>Reconciliation\<close>

text \<open>The deletions stop at the first that fails under the policy; a panic is \<open>None\<close>.\<close>

fun mark_disappeared ::
    "'b AppEnv \<Rightarrow> (nat \<Rightarrow> uuid) \<Rightarrow> string \<Rightarrow> (string \<times> string) list \<Rightarrow> nat \<times> 'b AppState \<Rightarrow>
     (PersistenceError + unit) option \<times> nat \<times> 'b AppState" where
  "mark_disappeared env ids detected [] st = (Some (Inr ()), st)"
| "mark_disappeared env ids detected ((domain_key, name) # rest) (n, s) =
     (case policy_write (\<lambda>n. mark_repo_deleted env domain_key name detected (ids n)) n s of
        (Some (Inr _), s, n) \<Rightarrow> mark_disappeared env ids detected rest (n, s)
      | (Some (Inl failure), s, n) \<Rightarrow> (Some (Inl (failure_error failure)), n, s)
      | (None, s, n) \<Rightarrow> (None, n, s))"

definition reconcile_deleted_repositories ::
    "'b AppEnv \<Rightarrow> (nat \<Rightarrow> uuid) \<Rightarrow> AdmittedInventory \<Rightarrow> string \<Rightarrow> nat \<times> 'b AppState \<Rightarrow>
     (PersistenceError + unit) option \<times> nat \<times> 'b AppState" where
  "reconcile_deleted_repositories env ids inventory detected st = (case deletion_authority inventory of
     None \<Rightarrow> (Some (Inr ()), st)
   | Some active_keys \<Rightarrow> (case projection_key_name_snapshot (snd st) of
       None \<Rightarrow> (None, st)
     | Some pairs \<Rightarrow> mark_disappeared env ids detected (filter (\<lambda>(key, _). key \<notin> active_keys) pairs) st))"

subsection \<open>What validation decides\<close>

lemma find_payload_difference_None: "find_payload_difference a b = None \<longleftrightarrow> a = b"
  by (cases a; cases b) (simp add: find_payload_difference_def)

text \<open>An identifier or a key that occurs twice belongs to one and the same repository.\<close>

definition consistent :: "Repository list \<Rightarrow> bool" where
  "consistent rs \<longleftrightarrow> (\<forall>a\<in>set rs. \<forall>b\<in>set rs. repo_id a = repo_id b \<or> inventory_key a = inventory_key b \<longrightarrow> a = b)"

text \<open>The first occurrence of every repository, in order.\<close>

definition firsts :: "Repository list \<Rightarrow> Repository list" where
  "firsts rs = rev (remdups (rev rs))"

lemma firsts_simps [simp]:
  "firsts [] = []" "firsts (rs @ [r]) = (if r \<in> set rs then firsts rs else firsts rs @ [r])"
  "set (firsts rs) = set rs" "distinct (firsts rs)"
  by (simp_all add: firsts_def)

text \<open>The maps of the loop index the unique repositories found so far.\<close>

definition indexes :: "(Repository \<Rightarrow> string) \<Rightarrow> (string \<rightharpoonup> nat) \<Rightarrow> Repository list \<Rightarrow> bool" where
  "indexes f m rs \<longleftrightarrow> (\<forall>x i. m x = Some i \<longleftrightarrow> i < length rs \<and> f (rs ! i) = x)"

lemma indexes_snoc:
  "indexes f m rs \<Longrightarrow> m (f r) = None \<Longrightarrow> indexes f (m(f r \<mapsto> length rs)) (rs @ [r])"
  unfolding indexes_def by (auto simp: nth_append less_Suc_eq) (metis option.distinct(1))

lemma indexes_None: "indexes f m rs \<Longrightarrow> m x = None \<longleftrightarrow> (\<forall>r\<in>set rs. f r \<noteq> x)"
  unfolding indexes_def by (metis in_set_conv_nth not_None_eq)

definition deduplicated :: "Repository list \<Rightarrow> Deduplication \<Rightarrow> bool" where
  "deduplicated seen d \<longleftrightarrow> consistent seen \<and> unique_repos d = firsts seen \<and>
     indexes repo_id (id_map d) (unique_repos d) \<and> indexes inventory_key (key_map d) (unique_repos d)"

text \<open>What a match says, before the payload is compared.\<close>

lemma match_existing_cases:
  assumes "deduplicated seen d"
  obtains (conflict) e where "match_existing d repo = Inl e" "\<not> consistent (seen @ [repo])"
  | (known) i where "match_existing d repo = Inr (Some i)" "i < length (unique_repos d)"
      "repo_id (unique_repos d ! i) = repo_id repo \<or> inventory_key (unique_repos d ! i) = inventory_key repo"
  | (new) "match_existing d repo = Inr None" "id_map d (repo_id repo) = None" "key_map d (inventory_key repo) = None"
proof -
  have ids: "indexes repo_id (id_map d) (unique_repos d)" and keys: "indexes inventory_key (key_map d) (unique_repos d)"
    and u: "unique_repos d = firsts seen" using assms unfolding deduplicated_def by blast+
  consider (both) i k where "id_map d (repo_id repo) = Some i" "key_map d (inventory_key repo) = Some k" "i \<noteq> k"
    | (one) i where "match_existing d repo = Inr (Some i)"
        "id_map d (repo_id repo) = Some i \<or> key_map d (inventory_key repo) = Some i"
    | (none) "id_map d (repo_id repo) = None" "key_map d (inventory_key repo) = None"
    by (cases "id_map d (repo_id repo)"; cases "key_map d (inventory_key repo)";
        cases "id_map d (repo_id repo) = key_map d (inventory_key repo)") (auto simp: match_existing_def)
  then show thesis
  proof cases
    case both
    then have i: "i < length (unique_repos d)" "repo_id (unique_repos d ! i) = repo_id repo"
      and k: "k < length (unique_repos d)" "inventory_key (unique_repos d ! k) = inventory_key repo"
      using ids keys by (auto simp: indexes_def)
    have "unique_repos d ! i \<noteq> unique_repos d ! k"
      using i(1) k(1) both(3) u by (simp add: nth_eq_iff_index_eq)
    moreover have "unique_repos d ! i \<in> set seen" "unique_repos d ! k \<in> set seen"
      using i(1) k(1) nth_mem [of _ "unique_repos d"] u by auto
    ultimately have "\<not> consistent (seen @ [repo])" using i(2) k(2) by (auto simp: consistent_def)
    with both show thesis by (intro conflict) (auto simp: match_existing_def)
  next
    case (one i)
    with ids keys show thesis by (intro known [of i]) (auto simp: indexes_def)
  next
    case none
    then show thesis by (intro new) (auto simp: match_existing_def)
  qed
qed

lemma deduplicate_step_exact:
  assumes "deduplicated seen d"
  shows "case deduplicate_step d repo of
    Inr d' \<Rightarrow> deduplicated (seen @ [repo]) d' | Inl _ \<Rightarrow> \<not> consistent (seen @ [repo])"
  using assms
proof (cases rule: match_existing_cases [where repo = repo])
  case (conflict e)
  then show ?thesis by (simp add: deduplicate_step_def and_then_def)
next
  case (known i)
  have member: "unique_repos d ! i \<in> set seen"
    using known(2) nth_mem [of i "unique_repos d"] assms unfolding deduplicated_def by (metis firsts_simps(3))
  show ?thesis
  proof (cases "repo = unique_repos d ! i")
    case True
    with member have "repo \<in> set seen" by simp
    then have "consistent (seen @ [repo]) = consistent seen" by (simp add: consistent_def insert_absorb)
    with True assms \<open>repo \<in> set seen\<close> known(1) show ?thesis
      by (auto simp: deduplicate_step_def and_then_def find_payload_difference_None [THEN iffD2] deduplicated_def)
  next
    case False
    then obtain f where "find_payload_difference repo (unique_repos d ! i) = Some f"
      using find_payload_difference_None by (metis not_Some_eq)
    moreover from False member known(3) have "\<not> consistent (seen @ [repo])"
      unfolding consistent_def by (metis in_set_conv_decomp set_append UnCI)
    ultimately show ?thesis using known(1) by (simp add: deduplicate_step_def and_then_def)
  qed
next
  case new
  have ids: "indexes repo_id (id_map d) (unique_repos d)" and keys: "indexes inventory_key (key_map d) (unique_repos d)"
    and u: "unique_repos d = firsts seen" "consistent seen" using assms unfolding deduplicated_def by blast+
  have fresh: "\<forall>r\<in>set seen. repo_id r \<noteq> repo_id repo \<and> inventory_key r \<noteq> inventory_key repo"
    using indexes_None [OF ids] indexes_None [OF keys] new(2,3) u(1) by auto
  then have "repo \<notin> set seen" by auto
  moreover from fresh u(2) have "consistent (seen @ [repo])" by (fastforce simp: consistent_def)
  ultimately show ?thesis
    using indexes_snoc [OF ids new(2)] indexes_snoc [OF keys new(3)] new(1) u(1)
    by (simp add: deduplicate_step_def and_then_def deduplicated_def Let_def)
qed

lemma consistent_append: "consistent (a @ b) \<Longrightarrow> consistent a"
  by (auto simp: consistent_def)

lemma deduplicate_loop_exact:
  "deduplicated seen d \<Longrightarrow>
     case deduplicate_loop rest d of Inr d' \<Rightarrow> deduplicated (seen @ rest) d' | Inl _ \<Rightarrow> \<not> consistent (seen @ rest)"
proof (induction rest arbitrary: seen d)
  case (Cons repo rest)
  show ?case
  proof (cases "deduplicate_step d repo")
    case (Inl e)
    with deduplicate_step_exact [OF Cons.prems, of repo] have "\<not> consistent (seen @ [repo])" by simp
    then have "\<not> consistent (seen @ repo # rest)" using consistent_append [of "seen @ [repo]" rest] by auto
    with Inl show ?thesis by (simp add: and_then_def)
  next
    case (Inr d')
    with deduplicate_step_exact [OF Cons.prems, of repo] have "deduplicated (seen @ [repo]) d'" by simp
    from Cons.IH [OF this] Inr show ?thesis by (simp add: and_then_def split: sum.splits)
  qed
qed simp

lemma validate_exact:
  "case validate_and_deduplicate_repositories rs of Inr u \<Rightarrow> consistent rs \<and> u = firsts rs | Inl _ \<Rightarrow> \<not> consistent rs"
proof -
  have "deduplicated [] \<lparr>unique_repos = [], id_map = Map.empty, key_map = Map.empty\<rparr>"
    by (simp add: deduplicated_def consistent_def indexes_def)
  from deduplicate_loop_exact [OF this, of rs] show ?thesis
    by (auto simp: validate_and_deduplicate_repositories_def and_then_def deduplicated_def split: sum.splits)
qed

lemma validate_Inr: "validate_and_deduplicate_repositories rs = Inr u \<longleftrightarrow> consistent rs \<and> u = firsts rs"
  using validate_exact [of rs] by (auto split: sum.splits)

subsection \<open>What a deletion does to the projection\<close>

abbreviation live_repo :: "'b AppState \<Rightarrow> string \<Rightarrow> RepositoryEvidence option" where
  "live_repo s \<equiv> btree_get (repositories (projection_state s))"

abbreviation deletion_record :: "'b AppState \<Rightarrow> string \<Rightarrow> DeletedRepoRecord option" where
  "deletion_record s \<equiv> btree_get (deleted (projection_state s))"

definition deletions :: "string \<Rightarrow> string \<Rightarrow> EvidenceProjectionEvent set" where
  "deletions key name = range (EvidenceProjectionEvent.RepositoryDeleted key name)"

lemma deleted_event_is_deletion:
  assumes "deleted_repo_event rt key name detected = Inr event"
    and "fold_native_event rt False event p = Some p'"
  shows "\<exists>e \<in> deletions key name. p' = EvidenceProjection_apply e p"
  using assms
  by (auto simp: deleted_repo_event_def non_empty_def to_nes_def map_err_def and_then_Inr fold_native_event_def
      apply_projection_event_def deletions_def split: sum.splits if_splits)

lemma mark_repo_deleted_may_apply:
  assumes "mark_repo_deleted env key name detected i s = (o', s')"
  shows "(projection_state s' = projection_state s \<and> o' \<noteq> Completed (Inr ())) \<or>
    (\<exists>e \<in> deletions key name. projection_state s' = EvidenceProjection_apply e (projection_state s))"
proof (rule admitted_may_apply [OF _ assms [unfolded mark_repo_deleted_def]], intro may_apply_then keeps_projection_steps)
  fix t t1 :: "bool \<times> 'a AppState" and event t' t1' x
  assume "body_try (deleted_repo_event (runtime env) key name detected) t = (Completed (Inr event), t')"
  then have "deleted_repo_event (runtime env) key name detected = Inr event" by (simp add: body_try_def)
  then show "may_apply (deletions key name) (fold_repository_event_into_projection env False event)"
    by (auto simp: may_apply_def fold_repository_event_into_projection_def into_projection_def
        dest: deleted_event_is_deletion split: if_splits option.splits)
qed

text \<open>Nothing but the repository of the key leaves, and a deletion that succeeds leaves a record of it.\<close>

definition may_lose :: "string \<Rightarrow> 'b AppState \<Rightarrow> 'b AppState \<Rightarrow> bool" where
  "may_lose key s s' \<longleftrightarrow>
     (\<forall>k. k \<noteq> key \<longrightarrow> live_repo s' k = live_repo s k \<and> deletion_record s' k = deletion_record s k) \<and>
     (live_repo s' key = live_repo s key \<and> deletion_record s' key = deletion_record s key \<or>
      live_repo s' key = None \<and> deletion_record s' key \<noteq> None)"

lemma may_lose_refl: "projection_state s' = projection_state s \<Longrightarrow> may_lose key s s'"
  by (simp add: may_lose_def)

lemma may_lose_trans: "may_lose key s s' \<Longrightarrow> may_lose key s' s'' \<Longrightarrow> may_lose key s s''"
  by (auto simp: may_lose_def)

lemma deletion_view:
  assumes "e \<in> deletions key name"
  shows "btree_get (repositories (EvidenceProjection_apply e p)) k = (if k = key then None else btree_get (repositories p) k)"
    and "btree_get (deleted (EvidenceProjection_apply e p)) k = None \<longleftrightarrow> k \<noteq> key \<and> btree_get (deleted p) k = None"
    and "k \<noteq> key \<Longrightarrow> btree_get (deleted (EvidenceProjection_apply e p)) k = btree_get (deleted p) k"
  using assms apply_refines_repo [of e p k] by (auto simp: deletions_def split: if_splits)

lemma may_lose_apply:
  assumes "e \<in> deletions key name" and "projection_state s' = EvidenceProjection_apply e (projection_state s)"
  shows "may_lose key s s'"
  using deletion_view [OF assms(1)] assms(2) by (simp add: may_lose_def)

lemma mark_repo_deleted_may_lose: "may_lose key s (snd (mark_repo_deleted env key name detected i s))"
proof -
  obtain o' s' where "mark_repo_deleted env key name detected i s = (o', s')" by force
  with mark_repo_deleted_may_apply [OF this] show ?thesis by (auto intro: may_lose_refl may_lose_apply)
qed

lemma policy_delete_may_lose:
  "policy_write (\<lambda>n. mark_repo_deleted env key name detected (ids n)) n s = (r, s', n') \<Longrightarrow> may_lose key s s'"
  using policy_write_invariant [where I = "may_lose key s" and n = n and s = s
      and operation = "\<lambda>n. mark_repo_deleted env key name detected (ids n)"]
  by (auto intro: may_lose_trans mark_repo_deleted_may_lose may_lose_refl)

lemma policy_delete_success:
  assumes "policy_write (\<lambda>n. mark_repo_deleted env key name detected (ids n)) n s = (Some (Inr ()), s', n')"
  shows "live_repo s' key = None \<and> deletion_record s' key \<noteq> None"
proof -
  from policy_write_last [where I = "\<lambda>_. True", OF assms] obtain t m where
    "mark_repo_deleted env key name detected (ids m) t = (Completed (Inr ()), s')" by auto
  from mark_repo_deleted_may_apply [OF this] show ?thesis using deletion_view by fastforce
qed

subsection \<open>Sequences of deletions\<close>

lemma mark_disappeared_Cons:
  assumes "mark_disappeared env ids detected ((key, name) # rest) (n, s) = (result, n', s')"
  obtains (stop) r where "policy_write (\<lambda>n. mark_repo_deleted env key name detected (ids n)) n s = (r, s', n')"
      "result \<noteq> Some (Inr ())"
  | (go) m t where "policy_write (\<lambda>n. mark_repo_deleted env key name detected (ids n)) n s = (Some (Inr ()), t, m)"
      "mark_disappeared env ids detected rest (m, t) = (result, n', s')"
proof -
  obtain r t m where r: "policy_write (\<lambda>n. mark_repo_deleted env key name detected (ids n)) n s = (r, t, m)"
    by (metis prod_cases3)
  show thesis
  proof (cases "r = Some (Inr ())")
    case True
    with assms r show thesis by (intro go) auto
  next
    case False
    with assms r have "t = s'" "m = n'" "result \<noteq> Some (Inr ())" by (auto split: option.splits sum.splits)
    with r show thesis by (intro stop) auto
  qed
qed

text \<open>A deletion record never disappears, and what leaves is named.\<close>

lemma mark_disappeared_effect:
  assumes "mark_disappeared env ids detected pairs (n, s) = (result, n', s')"
  shows "(live_repo s' k = live_repo s k \<and> deletion_record s' k = deletion_record s k \<or>
      k \<in> fst ` set pairs \<and> live_repo s' k = None \<and> deletion_record s' k \<noteq> None) \<and>
    (result = Some (Inr ()) \<and> k \<in> fst ` set pairs \<longrightarrow> live_repo s' k = None \<and> deletion_record s' k \<noteq> None)"
  using assms
proof (induction pairs arbitrary: n s)
  case (Cons pair rest)
  obtain key name where pair: "pair = (key, name)" by force
  from Cons.prems [unfolded pair] show ?case
  proof (cases rule: mark_disappeared_Cons)
    case (stop r)
    from policy_delete_may_lose [OF stop(1)] stop(2) show ?thesis
      by (cases "k = key") (auto simp: pair may_lose_def)
  next
    case (go m t)
    from policy_delete_may_lose [OF go(1)] policy_delete_success [OF go(1)] Cons.IH [OF go(2)] show ?thesis
      by (cases "k = key") (auto simp: pair may_lose_def)
  qed
qed simp

subsection \<open>The whole reconciliation\<close>

text \<open>Every repository is kept under its inventory key.\<close>

definition repos_keyed :: "'b AppState \<Rightarrow> bool" where
  "repos_keyed s \<longleftrightarrow> (\<forall>k ev. live_repo s k = Some ev \<longrightarrow> inventory_key (repository ev) = k)"

lemma key_name_snapshot_keys:
  assumes "projection_ok (projection_state s)" and "projection_key_name_snapshot s = Some pairs"
    and "live_repo s k = Some ev"
  shows "(inventory_key (repository ev), repo_name (repository ev)) \<in> set pairs"
  using assms
  by (auto simp: projection_key_name_snapshot_def reader_defs EvidenceProjection_key_name_snapshot_def btree_get_def
      dest!: map_of_SomeD split: if_splits intro!: image_eqI [where x = "(k, ev)"])

lemma admit_authority:
  assumes "deletion_authority (admit inventory max_repos) = Some keys"
    and "vi_total_discovered inventory = length (vi_active_repos inventory)"
  shows "vi_complete inventory \<and> vi_active_repos inventory \<noteq> [] \<and>
    length (vi_active_repos inventory) \<le> MaxRepos_get max_repos \<and> keys = inventory_key ` set (vi_active_repos inventory)"
  using assms by (auto simp: deletion_authority_def admit_def Let_def split: if_splits)

lemma from_payload_Inr:
  assumes "ValidatedInventory_from_payload payload = Inr inventory"
  shows "consistent (inv_repositories payload) \<and> vi_active_repos inventory = firsts (inv_repositories payload) \<and>
    vi_complete inventory = inv_complete payload \<and> vi_total_discovered inventory = length (vi_active_repos inventory)"
  using assms
  by (auto simp: ValidatedInventory_from_payload_def and_then_Inr map_err_Inr validate_Inr)

subsection \<open>Properties\<close>

text \<open>
  Validation accepts an inventory exactly when no identifier and no key is shared by two different repositories,
  and then it returns every repository once, in the order of first occurrence: the index maps, the conflict check and
  the comparison of eighteen fields amount to that.
\<close>
theorem inventory_validation_exact:
  "(if consistent rs then validate_and_deduplicate_repositories rs = Inr (rev (remdups (rev rs)))
    else \<exists>e. validate_and_deduplicate_repositories rs = Inl e)"
  using validate_exact [of rs] by (auto simp: firsts_def split: sum.splits)

text \<open>
  C6. A repository is declared deleted only on the authority of a full inventory. If a run that loads the inventory
  over the network, admits it and reconciles makes a repository leave the projection, then every page of the
  organisation's repositories was read to the last, at least one repository was listed, none of the listed ones has its
  key, and the run was not capped.
\<close>
theorem deletion_needs_full_inventory:
  assumes "load_active_repositories (traced E) (lift_world now_utc) decode org (c, w, []) = (Some (Inr inventory), c', w', l)"
    and "reconcile_deleted_repositories env ids (admit inventory max_repos) detected (n, s) = (result, n', s')"
    and "live_repo s k = Some evidence" and "live_repo s' k = None"
  shows "\<exists>items raw. enumerated E c (''/orgs/'' @ org @ ''/repos?type=all&per_page=100'') l items \<and>
    decode (Value.Array items) = Inr raw \<and> raw \<noteq> [] \<and>
    k \<notin> (inventory_key \<circ> inventory_repository) ` set raw \<and>
    card (inventory_repository ` set raw) \<le> MaxRepos_get max_repos"
proof -
  obtain payload where load: "build_inventory_from_api (traced E) (lift_world now_utc) decode org None (c, w, []) =
      (Some (Inr payload), c', w', l)" and valid: "ValidatedInventory_from_payload payload = Inr inventory"
    using assms(1)
    by (auto simp: load_active_repositories_def op_then_def op_return_def and_then_Inr split: prod.splits option.splits)
  obtain keys pairs where keys: "deletion_authority (admit inventory max_repos) = Some keys"
    and run: "mark_disappeared env ids detected (filter (\<lambda>(key, _). key \<notin> keys) pairs) (n, s) = (result, n', s')"
    using assms(2-4) by (auto simp: reconcile_deleted_repositories_def split: option.splits)
  from mark_disappeared_effect [OF run, of k] assms(3,4) have "k \<notin> keys" by auto
  note inv = from_payload_Inr [OF valid]
  note auth = admit_authority [OF keys] inv
  from auth have "inv_complete payload" by simp
  from complete_inventory [OF load this] obtain items raw where
    raw: "enumerated E c (''/orgs/'' @ org @ ''/repos?type=all&per_page=100'') l items" "decode (Value.Array items) = Inr raw"
    "mset (inv_repositories payload) = mset (map inventory_repository raw)" by blast
  have repos: "set (vi_active_repos inventory) = inventory_repository ` set raw"
    using inv raw(3) [THEN mset_eq_setD] by simp
  moreover have "distinct (vi_active_repos inventory)" using inv by simp
  ultimately have "card (inventory_repository ` set raw) = length (vi_active_repos inventory)"
    using distinct_card by metis
  moreover have "raw \<noteq> []" using auth repos by auto
  moreover have "k \<notin> (inventory_key \<circ> inventory_repository) ` set raw"
    using \<open>k \<notin> keys\<close> auth repos by (auto simp: image_image)
  ultimately show ?thesis using raw(1,2) auth by metis
qed

text \<open>
  A reconciliation that succeeds on such an authority converges: afterwards every repository of the projection is
  one of the inventory, and each one that left has a deletion record.
\<close>
theorem reconciliation_converges:
  assumes "reconcile_deleted_repositories env ids inventory detected (n, s) = (Some (Inr ()), n', s')"
    and "deletion_authority inventory = Some keys"
    and "projection_ok (projection_state s)" and "repos_keyed s"
  shows "(\<forall>k. live_repo s' k \<noteq> None \<longleftrightarrow> live_repo s k \<noteq> None \<and> k \<in> inventory_key ` set (ai_active_repos inventory)) \<and>
    (\<forall>k. live_repo s k \<noteq> None \<and> live_repo s' k = None \<longrightarrow> deletion_record s' k \<noteq> None)"
proof -
  from assms(1,2) obtain pairs where pairs: "projection_key_name_snapshot s = Some pairs"
    and run: "mark_disappeared env ids detected (filter (\<lambda>(key, _). key \<notin> keys) pairs) (n, s) = (Some (Inr ()), n', s')"
    by (auto simp: reconcile_deleted_repositories_def split: option.splits)
  have keys: "keys = inventory_key ` set (ai_active_repos inventory)"
    using assms(2) by (auto simp: deletion_authority_def split: if_splits)
  have named: "k \<in> fst ` set (filter (\<lambda>(key, _). key \<notin> keys) pairs)" if "live_repo s k = Some ev" "k \<notin> keys" for k ev
    using key_name_snapshot_keys [OF assms(3) pairs that(1)] assms(4) that by (force simp: repos_keyed_def)
  note effect = mark_disappeared_effect [OF run]
  have "live_repo s' k \<noteq> None \<longleftrightarrow> live_repo s k \<noteq> None \<and> k \<in> keys" for k
    using effect [of k] named [of k] by (cases "live_repo s k") auto
  moreover have "deletion_record s' k \<noteq> None" if "live_repo s k \<noteq> None" "live_repo s' k = None" for k
    using effect [of k] that by auto
  ultimately show ?thesis unfolding keys by blast
qed

subsection \<open>A sample reconciliation\<close>

definition sample_listed :: GhRepository where
  "sample_listed = \<lparr>gh_id = None, gh_node_id = None, gh_name = ''two'', gh_visibility = None, gh_private = None,
     gh_language = None, gh_default_branch = None, gh_archived = None, gh_has_issues = None, gh_updated_at = None,
     gh_pushed_at = None, gh_created_at = None, gh_description = None, gh_fork = None, gh_size = None,
     gh_html_url = None, gh_topics = None, gh_license = None\<rparr>"

definition sample_inventory :: ValidatedInventory where
  "sample_inventory = \<lparr>vi_active_repos = [inventory_repository sample_listed], vi_complete = True,
     vi_inventory_fetched_at = Some ''now'', vi_total_discovered = 1, vi_archived_discovered = 0\<rparr>"

abbreviation sample_gone :: RepositoryEvidence where
  "sample_gone \<equiv> (sample_evidence ''o/r'' (SecretScanningResult_unobservable SecretScanningFailureReason.Invalid ''t''))
     \<lparr>repository := (sample_repository ''o/r'')\<lparr>repo_name := ''r''\<rparr>\<rparr>"

definition sample_before :: "Envelope list AppState" where
  "sample_before = (start_state [] [] [])\<lparr>projection_state :=
     EvidenceProjection_default\<lparr>repositories := [(''o/r'', sample_gone)]\<rparr>\<rparr>"

lemma sample_load:
  "\<exists>c' l. load_active_repositories (traced (array_env [])) (lift_world (\<lambda>w. (''now'', w))) (\<lambda>_. Inr [sample_listed]) ''org''
     (sample_state, [sample_page], []) = (Some (Inr sample_inventory), c', [], l)"
proof -
  let ?E = "array_env []" and ?path = "''/orgs/org/repos?type=all&per_page=100''"
  obtain c' where ask: "ask (traced ?E) ?path 60 (sample_state, [sample_page], []) =
     (Some (ApiOutcome.Success 200 (Some (Value.Array [])) None False), c', [],
      [(''https://api'' @ ?path, Inr sample_page)])"
    using sample_array_page [of "[]" ?path] by auto
  have "validate_and_deduplicate_repositories [inventory_repository sample_listed] = Inr [inventory_repository sample_listed]"
    by (simp add: validate_Inr consistent_def firsts_def)
  moreover have "\<not> archived (inventory_repository sample_listed)"
    by (simp add: inventory_repository_def sample_listed_def unwrap_or_def)
  ultimately show ?thesis using ask
    by (simp add: load_active_repositories_def build_inventory_from_api_def op_then_def op_return_def on_world_def
        lift_world_def inventory_of_def DEFAULT_PAGE_SIZE_def sort_repositories_def ValidatedInventory_from_payload_def
        map_err_def and_then_def sample_inventory_def u32_of_count_0)
qed

lemma sample_authority: "deletion_authority (admit sample_inventory (MaxRepos 10)) = Some {''two''}"
  by (simp add: sample_inventory_def admit_def deletion_authority_def Let_def inventory_repository_def sample_listed_def
      unwrap_or_def)

lemma sample_before_start:
  "projection_ok (projection_state sample_before)" "live_repo sample_before ''o/r'' = Some sample_gone"
  "repos_keyed sample_before" "projection_key_name_snapshot sample_before = Some [(''o/r'', ''r'')]"
  by (auto simp: sample_before_def start_state_def projection_ok_def btree_ok_def EvidenceProjection_default_def
      btree_empty_def btree_get_def repos_keyed_def sample_evidence_def sample_repository_def
      projection_key_name_snapshot_def reader_defs EvidenceProjection_key_name_snapshot_def split: if_splits)

lemma sample_reconcile:
  "\<exists>s'. reconcile_deleted_repositories (sample_env False) of_nat (admit sample_inventory (MaxRepos 10)) ''t'' (0, sample_before) =
     (Some (Inr ()), 1, s')"
proof -
  obtain p where "encode_event sample_schema (DomainEvent.RepositoryDeleted ''o/r'' ''r'' 1) = Inr p"
    by (rule sample_encode)
  then obtain s' where "mark_repo_deleted (sample_env False) ''o/r'' ''r'' ''t'' (of_nat 0) sample_before = (Completed (Inr ()), s')"
    by (simp add: mark_repo_deleted_def sample_env_def sample_before_def start_state_def admission_defs body_defs
        sample_mark_event StoreInner_record_def open_session_def op_defs fresh_store_def sample_pardosa_def sample_land_def
        fiber_state_def native_store_persistence_def fold_native_event_def apply_projection_event_def Let_def)
  then show ?thesis
    by (simp add: reconcile_deleted_repositories_def sample_authority sample_before_start(4) policy_write_def
        write_with_policy_def attempt_write_def classify_attempt_def)
qed

theorem deletion_needs_full_inventory_witness:
  "\<exists>l items. enumerated (array_env []) sample_state ''/orgs/org/repos?type=all&per_page=100'' l items \<and>
     ''o/r'' \<notin> (inventory_key \<circ> inventory_repository) ` set [sample_listed]"
proof -
  obtain c' l where load: "load_active_repositories (traced (array_env [])) (lift_world (\<lambda>w. (''now'', w)))
      (\<lambda>_. Inr [sample_listed]) ''org'' (sample_state, [sample_page], []) = (Some (Inr sample_inventory), c', [], l)"
    using sample_load by blast
  obtain s' where run: "reconcile_deleted_repositories (sample_env False) of_nat (admit sample_inventory (MaxRepos 10)) ''t''
      (0, sample_before) = (Some (Inr ()), 1, s')" using sample_reconcile by blast
  have "live_repo s' ''o/r'' = None"
    using run sample_before_start(4) mark_disappeared_effect [of "sample_env False" of_nat "''t''" "[(''o/r'', ''r'')]" 0 sample_before]
    by (auto simp: reconcile_deleted_repositories_def sample_authority)
  from deletion_needs_full_inventory [OF load run sample_before_start(2) this] show ?thesis by auto
qed

theorem reconciliation_converges_witness:
  "\<exists>s'. reconcile_deleted_repositories (sample_env False) of_nat (admit sample_inventory (MaxRepos 10)) ''t'' (0, sample_before) =
     (Some (Inr ()), 1, s') \<and> live_repo s' ''o/r'' = None"
proof -
  obtain s' where run: "reconcile_deleted_repositories (sample_env False) of_nat (admit sample_inventory (MaxRepos 10)) ''t''
      (0, sample_before) = (Some (Inr ()), 1, s')" using sample_reconcile by blast
  have keys: "inventory_key ` set (ai_active_repos (admit sample_inventory (MaxRepos 10))) = {''two''}"
    using sample_authority by (simp add: deletion_authority_def split: if_splits)
  from reconciliation_converges [OF run sample_authority sample_before_start(1,3), unfolded keys, THEN conjunct1, rule_format, of "''o/r''"]
  have "live_repo s' ''o/r'' = None" by simp
  with run show ?thesis by blast
qed

end
