(* ===== verification/Collect_Evidence.thy ===== *)
theory Collect_Evidence
  imports Inventory_Authority Ghas_Scanning Github_Cache Aggregate_Owners
begin

text \<open>
  What a collection run makes of the projection: which repositories it does not read again because the baseline still
  holds (\<open>infra/baseline.rs\<close> and \<open>reuse_from_baseline\<close> of \<open>app/collect.rs\<close>), the evidence that stands for a failed or
  pending read, and the evidence artifact that is rendered. The parser and formatter of timestamps and the lower-casing
  of names are parameters, as in the components below. Log records are left out.
\<close>

record CollectPorts =
  cp_parse :: "string \<Rightarrow> Timestamp option"
  cp_strftime :: "string \<Rightarrow> Timestamp \<Rightarrow> string"
  cp_lower :: "string \<Rightarrow> string"

definition EVIDENCE_SCHEMA_VERSION :: string where "EVIDENCE_SCHEMA_VERSION = ''25.0''"

definition BASELINE_MAX_AGE_SECS :: int where "BASELINE_MAX_AGE_SECS = 86400"

subsection \<open>Baseline\<close>

datatype BaselineAge = Fresh | Stale

text \<open>An age is not negative, and a whole number of seconds that fits the 64 bits of the source.\<close>

definition assess_baseline_age :: "(string \<Rightarrow> Timestamp option) \<Rightarrow> string \<Rightarrow> string \<Rightarrow> BaselineAge" where
  "assess_baseline_age parse observed run_time = (case parse_iso8601 parse observed of
     None \<Rightarrow> BaselineAge.Stale
   | Some observed_ts \<Rightarrow> (case parse_iso8601 parse run_time of
       None \<Rightarrow> BaselineAge.Stale
     | Some run_ts \<Rightarrow>
         if max (duration_since_as_secs run_ts observed_ts) 0 \<le> BASELINE_MAX_AGE_SECS then BaselineAge.Fresh
         else BaselineAge.Stale))"

text \<open>The \<open>UpdatedAt\<close> of the module: a text that is not empty.\<close>

definition baseline_UpdatedAt_new :: "string \<Rightarrow> string option" where
  "baseline_UpdatedAt_new raw = (if raw = [] then None else Some raw)"

fun should_reuse :: "string option \<Rightarrow> string option \<Rightarrow> BaselineAge \<Rightarrow> bool" where
  "should_reuse (Some baseline) (Some current) BaselineAge.Fresh \<longleftrightarrow> baseline = current"
| "should_reuse _ _ _ \<longleftrightarrow> False"

definition is_total_failure :: "RepositoryEvidence \<Rightarrow> bool" where
  "is_total_failure ev \<longleftrightarrow>
     SecurityPolicyResult_status (security_policy (checks ev)) = SecurityPolicyStatus.Unknown \<and>
     SecretScanningResult_status (secret_scanning (checks ev)) = SecretScanningStatus.Unknown \<and>
     dependabot_status (dependabot_security_updates (checks ev)) = DependabotStatus.Unknown \<and>
     \<not> BranchProtectionResult_is_observed (branch_protection (checks ev)) \<and>
     CodeownersResult_status (codeowners (checks ev)) = CodeownersStatus.Unknown"

record BaselineEntry =
  entry_updated_at :: string
  entry_evidence :: RepositoryEvidence

record Baseline =
  baseline_schema_version :: string
  baseline_entries :: "string \<rightharpoonup> BaselineEntry"

definition baseline_step :: "RepositoryEvidence \<Rightarrow> (string \<rightharpoonup> BaselineEntry) \<Rightarrow> (string \<rightharpoonup> BaselineEntry)" where
  "baseline_step ev m =
     (if is_total_failure ev then m
      else (case updated_at (repository ev) of
         None \<Rightarrow> m
       | Some u \<Rightarrow> m(inventory_key (repository ev) \<mapsto> \<lparr>entry_updated_at = UpdatedAt_deref u, entry_evidence = ev\<rparr>)))"

definition build_baseline :: "RepositoryEvidence list \<Rightarrow> Baseline" where
  "build_baseline repos =
     \<lparr>baseline_schema_version = EVIDENCE_SCHEMA_VERSION, baseline_entries = fold baseline_step repos Map.empty\<rparr>"

definition org_alerts_contradict_baseline :: "RepositoryEvidence \<Rightarrow> Repository \<Rightarrow> OrgAlertSummary \<Rightarrow> bool" where
  "org_alerts_contradict_baseline ev repo org_summary =
     (if collection_status org_summary \<noteq> CollectionStatus.Success then False
      else (case SecretScanningResult_has_open_alerts (secret_scanning (checks ev)) of
         None \<Rightarrow> False
       | Some baseline_open \<Rightarrow>
           baseline_open \<noteq> is_some_and (\<lambda>summary. open_alert_count summary > 0) (per_repo org_summary (scope_key repo))))"

text \<open>The body of the loop: whether the evidence of the projection is reused for the repository.\<close>

definition reuses :: "CollectPorts \<Rightarrow> string \<Rightarrow> OrgAlertSummary \<Rightarrow> Repository \<Rightarrow> RepositoryEvidence \<Rightarrow> bool" where
  "reuses P run_time org_summary repo ev =
     (if \<not> should_reuse
            (baseline_UpdatedAt_new (unwrap_or (map_option UpdatedAt_deref (updated_at (repository ev))) []))
            (Option.bind (map_option UpdatedAt_deref (updated_at repo)) baseline_UpdatedAt_new)
            (assess_baseline_age (cp_parse P) (RepositoryChecks_observed_at (checks ev)) run_time) then False
      else if dependabot_status (dependabot_security_updates (checks ev)) = DependabotStatus.Enabled \<and>
              is_dependabot_inactive (cp_parse P) (pushed_at repo) run_time then False
      else if org_alerts_contradict_baseline ev repo org_summary then False
      else if Repository_is_public repo \<and>
              SecurityPolicyResult_status (security_policy (checks ev)) = SecurityPolicyStatus.Unknown then False
      else True)"

fun reuse_loop ::
    "CollectPorts \<Rightarrow> string \<Rightarrow> OrgAlertSummary \<Rightarrow> 'b AppState \<Rightarrow> Repository list \<Rightarrow>
     (string \<rightharpoonup> RepositoryEvidence) \<Rightarrow> (string \<rightharpoonup> RepositoryEvidence) option" where
  "reuse_loop P run_time org_summary s [] cache = Some cache"
| "reuse_loop P run_time org_summary s (repo # rest) cache = (case projection_get s (inventory_key repo) of
     None \<Rightarrow> None
   | Some None \<Rightarrow> reuse_loop P run_time org_summary s rest cache
   | Some (Some ev) \<Rightarrow> reuse_loop P run_time org_summary s rest
       (if reuses P run_time org_summary repo ev then cache(inventory_key repo \<mapsto> ev) else cache))"

definition reuse_from_baseline ::
    "CollectPorts \<Rightarrow> Repository list \<Rightarrow> (string \<rightharpoonup> RepositoryEvidence) \<Rightarrow> string \<Rightarrow> 'b AppState \<Rightarrow> bool \<Rightarrow>
     OrgAlertSummary \<Rightarrow> (string \<rightharpoonup> RepositoryEvidence) option" where
  "reuse_from_baseline P repos done_repos run_time s force_refresh org_summary =
     (if force_refresh then Some Map.empty
      else reuse_loop P run_time org_summary s (filter (\<lambda>r. done_repos (inventory_key r) = None) repos) Map.empty)"

text \<open>The repositories that the sweep enqueues after the baseline step, the filter of \<open>step_enqueue_and_await\<close>.\<close>

definition pending_repos ::
    "Repository list \<Rightarrow> (string \<rightharpoonup> RepositoryEvidence) \<Rightarrow> (string \<rightharpoonup> RepositoryEvidence) \<Rightarrow> Repository list" where
  "pending_repos repos done_repos baseline_cache =
     filter (\<lambda>r. done_repos (inventory_key r) = None \<and> baseline_cache (inventory_key r) = None) repos"

subsection \<open>Evidence of failed and pending reads\<close>

definition indeterminate_for :: "string \<Rightarrow> IndeterminateReason" where
  "indeterminate_for reason =
     (if reason = ''pending'' then IndeterminateReason.Pending else IndeterminateReason.Invalid)"

definition failure_evidence_with_reason :: "Repository \<Rightarrow> string \<Rightarrow> string \<Rightarrow> RepositoryEvidence" where
  "failure_evidence_with_reason repo run_time reason =
     \<lparr>repository = repo,
      checks =
        \<lparr>security_policy =
           (if Repository_is_public repo then SecurityPolicyResult.Unobservable (indeterminate_for reason) run_time
            else SecurityPolicyResult.NotApplicable run_time),
         secret_scanning = SecretScanningResult_unobservable
           (if reason = ''pending'' then SecretScanningFailureReason.Pending else SecretScanningFailureReason.Invalid) run_time,
         dependabot_security_updates = \<lparr>dependabot_status = DependabotStatus.Unknown, dependabot_reason = Some reason,
           dependabot_timestamp = run_time\<rparr>,
         branch_protection = BranchProtectionResult.Unobservable (default_branch repo) (indeterminate_for reason) None run_time,
         codeowners = CodeownersResult.Unobservable (indeterminate_for reason) run_time\<rparr>,
      last_commit = None, repo_details_not_modified = False\<rparr>"

definition failure_evidence :: "Repository \<Rightarrow> string \<Rightarrow> RepositoryEvidence" where
  "failure_evidence repo run_time = failure_evidence_with_reason repo run_time ''collection_error''"

definition include_unread_repositories ::
    "RepositoryEvidence list \<Rightarrow> AdmittedInventory \<Rightarrow> string \<Rightarrow> RepositoryEvidence list" where
  "include_unread_repositories repos inventory run_time =
     (let known = set (map (inventory_key \<circ> repository) repos);
          unread = map (\<lambda>repo. failure_evidence_with_reason repo run_time PENDING_REASON)
            (filter (\<lambda>repo. inventory_key repo \<notin> known) (ai_active_repos inventory))
      in repos @ unread)"

subsection \<open>The evidence artifact\<close>

record Evidence =
  evidence_assessment_metadata :: AssessmentMetadata
  evidence_collection_statistics :: CollectionStatistics
  evidence_metrics :: AggregatedMetrics
  evidence_secret_scanning_observability :: SecretScanningObservability
  evidence_repositories :: "RepositoryEvidence list"
  evidence_deleted :: "DeletedRepoRecord list"

definition build_assessment_metadata ::
    "CollectPorts \<Rightarrow> string \<Rightarrow> RunMetadata \<Rightarrow> string option \<Rightarrow> AuthMetadata \<Rightarrow> CapabilitySet \<Rightarrow> u32 \<Rightarrow> AssessmentMetadata" where
  "build_assessment_metadata P org run inventory_at auth capabilities warnings =
     \<lparr>meta_date = RunMetadata_date (cp_strftime P) run, meta_organization = org,
      meta_schema_version = EVIDENCE_SCHEMA_VERSION, run_timestamp = RunMetadata_timestamp (cp_strftime P) run,
      meta_run_id = run_id run, token_tier = am_token_tier auth, token_scopes = am_token_scopes auth,
      auth_mode = am_auth_mode auth, rate_limit_warnings = warnings,
      unavailable_capabilities = CapabilitySet_unavailable_capabilities_for_auth_mode capabilities (am_auth_mode auth),
      inventory_fetched_at = inventory_at, warm_start = False, meta_coverage = run_coverage run\<rparr>"

definition build_org_state_snapshot ::
    "CollectPorts \<Rightarrow> string \<Rightarrow> RunMetadata \<Rightarrow> AdmittedInventory \<Rightarrow> OrgAlertSummary \<Rightarrow> AuthMetadata \<Rightarrow> CapabilitySet \<Rightarrow> u32 \<Rightarrow>
     OrgStateSnapshot" where
  "build_org_state_snapshot P org run inventory org_summary auth capabilities warnings =
     \<lparr>snapshot_archived_repos = ai_archived_discovered inventory,
      snapshot_assessment_metadata = build_assessment_metadata P org run (ai_inventory_fetched_at inventory) auth
        capabilities warnings,
      snapshot_alert_summary = org_summary\<rparr>"

record BuildEvidenceParams =
  be_repositories :: "RepositoryEvidence list"
  be_deleted :: "DeletedRepoRecord list"
  be_org_state :: "OrgReadModel option"
  be_org_name :: string
  be_run :: RunMetadata
  be_inventory_fetched_at :: "string option"
  be_org_alert_summary :: "OrgAlertSummary option"
  be_auth_metadata :: AuthMetadata
  be_capabilities :: CapabilitySet
  be_rate_limit_warnings :: u32
  be_team_rosters :: "TeamRoster list"
  be_team_rosters_already_enriched :: bool
  be_org_members :: "string set option"

definition build_evidence :: "CollectPorts \<Rightarrow> BuildEvidenceParams \<Rightarrow> Evidence" where
  "build_evidence P b =
     (let repos = be_repositories b;
          stats = build_collection_statistics repos;
          stats = (case be_org_state b of None \<Rightarrow> stats | Some org \<Rightarrow> stats\<lparr>archived_repos := org_archived_repos org\<rparr>);
          metrics = aggregate_metrics (cp_lower P) repos;
          owners = enrich_owner_metrics_with_lifecycle (cp_lower P) (cp_parse P) repos
            (RunMetadata_timestamp (cp_strftime P) (be_run b)) (owner_metrics metrics);
          owners = enrich_owner_metrics_with_org_membership (cp_lower P) (be_org_members b) owners;
          rosters = (if be_team_rosters_already_enriched b then be_team_rosters b
            else enrich_team_rosters_with_org_membership (cp_lower P) (be_org_members b) (be_team_rosters b));
          alert_summary = (case be_org_state b of
            None \<Rightarrow> be_org_alert_summary b | Some org \<Rightarrow> Some (org_alert_summary org));
          meta = (case be_org_state b of
            None \<Rightarrow> build_assessment_metadata P (be_org_name b) (be_run b) (be_inventory_fetched_at b)
              (be_auth_metadata b) (be_capabilities b) (be_rate_limit_warnings b)
          | Some org \<Rightarrow> org_assessment_metadata org);
          meta = (if be_inventory_fetched_at b \<noteq> None
            then meta\<lparr>warm_start := False, meta_coverage := run_coverage (be_run b)\<rparr> else meta)
      in \<lparr>evidence_assessment_metadata = meta, evidence_collection_statistics = stats,
          evidence_metrics = metrics\<lparr>owner_metrics := owners, team_rosters := rosters\<rparr>,
          evidence_secret_scanning_observability = build_secret_scanning_observability_summary repos alert_summary,
          evidence_repositories = repos, evidence_deleted = be_deleted b\<rparr>)"

subsection \<open>What is reused\<close>

text \<open>The answer of the baseline module, written out.\<close>

definition unchanged_and_fresh :: "CollectPorts \<Rightarrow> string \<Rightarrow> Repository \<Rightarrow> RepositoryEvidence \<Rightarrow> bool" where
  "unchanged_and_fresh P run_time repo ev \<longleftrightarrow>
     (\<exists>u observed_ts run_ts. u \<noteq> [] \<and> updated_at repo = Some (UpdatedAt u) \<and> updated_at (repository ev) = Some (UpdatedAt u) \<and>
        parse_iso8601 (cp_parse P) (RepositoryChecks_observed_at (checks ev)) = Some observed_ts \<and>
        parse_iso8601 (cp_parse P) run_time = Some run_ts \<and> duration_since_as_secs run_ts observed_ts \<le> 86400)"

lemma deref_eq: "UpdatedAt_deref u = t \<longleftrightarrow> u = UpdatedAt t"
  by (cases u) auto

lemma not_empty_UpdatedAt: "(\<exists>u. u \<noteq> [] \<and> x = UpdatedAt u) \<longleftrightarrow> x \<noteq> UpdatedAt []"
  by (cases x) auto

lemma should_reuse_iff:
  "should_reuse
     (baseline_UpdatedAt_new (unwrap_or (map_option UpdatedAt_deref (updated_at (repository ev))) []))
     (Option.bind (map_option UpdatedAt_deref (updated_at repo)) baseline_UpdatedAt_new)
     (assess_baseline_age (cp_parse P) (RepositoryChecks_observed_at (checks ev)) run_time) \<longleftrightarrow>
   unchanged_and_fresh P run_time repo ev"
proof -
  have "assess_baseline_age (cp_parse P) (RepositoryChecks_observed_at (checks ev)) run_time = BaselineAge.Fresh \<longleftrightarrow>
     (\<exists>observed_ts run_ts. parse_iso8601 (cp_parse P) (RepositoryChecks_observed_at (checks ev)) = Some observed_ts \<and>
        parse_iso8601 (cp_parse P) run_time = Some run_ts \<and> duration_since_as_secs run_ts observed_ts \<le> 86400)"
    by (auto simp: assess_baseline_age_def BASELINE_MAX_AGE_SECS_def split: option.splits)
  moreover have "should_reuse a b age \<longleftrightarrow> (\<exists>u. a = Some u \<and> b = Some u) \<and> age = BaselineAge.Fresh" for a b age
    by (cases "(a, b, age)" rule: should_reuse.cases) auto
  ultimately show ?thesis
    unfolding unchanged_and_fresh_def
    by (auto simp: baseline_UpdatedAt_new_def unwrap_or_def bind_eq_Some_conv deref_eq not_empty_UpdatedAt split: option.splits)
qed

lemma reuses_iff:
  "reuses P run_time org_summary repo ev \<longleftrightarrow> unchanged_and_fresh P run_time repo ev \<and>
     \<not> (dependabot_status (dependabot_security_updates (checks ev)) = DependabotStatus.Enabled \<and>
        is_dependabot_inactive (cp_parse P) (pushed_at repo) run_time) \<and>
     \<not> org_alerts_contradict_baseline ev repo org_summary \<and>
     \<not> (Repository_is_public repo \<and>
        SecurityPolicyResult_status (security_policy (checks ev)) = SecurityPolicyStatus.Unknown)"
  unfolding reuses_def should_reuse_iff by auto

lemma projection_get_open: "\<not> projection_poisoned s \<Longrightarrow> projection_get s k = Some (live_repo s k)"
  by (simp add: projection_get_def reader_defs EvidenceProjection_get_def)

definition hit :: "CollectPorts \<Rightarrow> string \<Rightarrow> OrgAlertSummary \<Rightarrow> 'b AppState \<Rightarrow> Repository list \<Rightarrow> string \<Rightarrow> bool" where
  "hit P run_time org_summary s repos k \<longleftrightarrow>
     (\<exists>repo\<in>set repos. inventory_key repo = k \<and> is_some_and (reuses P run_time org_summary repo) (live_repo s k))"

lemma reuse_loop_cache:
  assumes "\<not> projection_poisoned s"
  shows "reuse_loop P run_time org_summary s repos cache =
    Some (\<lambda>k. if hit P run_time org_summary s repos k then live_repo s k else cache k)"
proof (induction repos arbitrary: cache)
  case (Cons repo repos)
  let ?k = "inventory_key repo"
  have "hit P run_time org_summary s (repo # repos) k \<longleftrightarrow> hit P run_time org_summary s repos k \<or>
      k = ?k \<and> is_some_and (reuses P run_time org_summary repo) (live_repo s k)" for k by (auto simp: hit_def)
  then show ?case
    by (cases "live_repo s ?k") (auto simp: projection_get_open [OF assms] Cons.IH is_some_and_def fun_eq_iff)
qed (simp add: hit_def)

subsection \<open>Placeholders\<close>

text \<open>No check of a failed or pending read counts as measured.\<close>

lemma failure_evidence_excluded:
  "\<not> is_eligible (CoverageControl_classify c (failure_evidence_with_reason repo t reason))"
  by (cases c) (simp_all add: CoverageControl_classify_def failure_evidence_with_reason_def
      SecretScanningResult_unobservable_def is_permission_reason_def)

lemma population_append:
  "control_denominator_population c (as @ bs) = control_denominator_population c as @ control_denominator_population c bs"
  by (simp add: control_denominator_population_def)

lemma placeholders_population:
  "filter (\<lambda>(_, m). is_eligible m) (control_denominator_population c
     (map (\<lambda>repo. failure_evidence_with_reason repo t reason) repos)) = []"
  by (auto simp: control_denominator_population_def filter_empty_conv failure_evidence_excluded)

lemma placeholders_met:
  "filter (\<lambda>(_, m). m = DenominatorMembership.Eligible ControlOutcome.Met) (control_denominator_population c
     (map (\<lambda>repo. failure_evidence_with_reason repo t reason) repos)) = []"
proof -
  have "CoverageControl_classify c (failure_evidence_with_reason repo t reason) \<noteq>
      DenominatorMembership.Eligible ControlOutcome.Met" for repo
    using failure_evidence_excluded [of c repo t reason] by auto
  then show ?thesis by (auto simp: control_denominator_population_def filter_empty_conv)
qed

subsection \<open>Properties\<close>

text \<open>What the evidence of a repository must satisfy to be reused for it.\<close>

definition baseline_holds :: "CollectPorts \<Rightarrow> string \<Rightarrow> OrgAlertSummary \<Rightarrow> Repository \<Rightarrow> RepositoryEvidence \<Rightarrow> bool" where
  "baseline_holds P run_time org_summary repo ev \<longleftrightarrow> unchanged_and_fresh P run_time repo ev \<and>
     \<not> (dependabot_status (dependabot_security_updates (checks ev)) = DependabotStatus.Enabled \<and>
        is_dependabot_inactive (cp_parse P) (pushed_at repo) run_time) \<and>
     \<not> org_alerts_contradict_baseline ev repo org_summary \<and>
     \<not> (Repository_is_public repo \<and>
        SecurityPolicyResult_status (security_policy (checks ev)) = SecurityPolicyStatus.Unknown)"

text \<open>
  C30. Evidence of the projection is reused exactly when no forced refresh is set, the repository has not been read in this
  run already, GitHub reports the same update time as the evidence carries, the evidence was observed at most a day
  before the run, Dependabot cannot have been paused for inactivity, the fresh alerts of the organisation do not
  contradict it, and a public repository has a known security policy (nothing of the kind is asked of a repository that
  is not public, so evidence of its failed read is reused as well). The sweep enqueues every active repository that was
  not read in this run and whose evidence is not reused, and no other; with a forced refresh it enqueues all that were
  not read.
\<close>
theorem reuse_from_baseline_exact:
  assumes "reuse_from_baseline P repos done_repos run_time s force_refresh org_summary = Some cache"
    and "\<not> projection_poisoned s"
  shows "(\<forall>k ev. cache k = Some ev \<longleftrightarrow> \<not> force_refresh \<and> live_repo s k = Some ev \<and> done_repos k = None \<and>
      (\<exists>repo\<in>set repos. inventory_key repo = k \<and> baseline_holds P run_time org_summary repo ev)) \<and>
    (\<forall>repo. repo \<in> set (pending_repos repos done_repos cache) \<longleftrightarrow>
      repo \<in> set repos \<and> done_repos (inventory_key repo) = None \<and>
      (force_refresh \<or> \<not> (\<exists>ev. live_repo s (inventory_key repo) = Some ev \<and>
         (\<exists>r\<in>set repos. inventory_key r = inventory_key repo \<and> baseline_holds P run_time org_summary r ev))))"
proof -
  let ?pending = "filter (\<lambda>r. done_repos (inventory_key r) = None) repos"
  have reuses: "reuses P run_time org_summary = baseline_holds P run_time org_summary"
    by (simp add: fun_eq_iff reuses_iff baseline_holds_def)
  from reuse_loop_cache [OF assms(2), of P run_time org_summary ?pending Map.empty] assms(1)
  have cache: "cache k = (if \<not> force_refresh \<and> hit P run_time org_summary s ?pending k then live_repo s k else None)" for k
    by (auto simp: reuse_from_baseline_def split: if_splits)
  have some: "cache k = Some ev \<longleftrightarrow> \<not> force_refresh \<and> live_repo s k = Some ev \<and> done_repos k = None \<and>
      (\<exists>repo\<in>set repos. inventory_key repo = k \<and> baseline_holds P run_time org_summary repo ev)" for k ev
    by (auto simp: cache hit_def reuses is_some_and_def split: if_splits option.splits)
  have "cache k = None \<longleftrightarrow> (\<nexists>ev. cache k = Some ev)" for k by simp
  then have "repo \<in> set (pending_repos repos done_repos cache) \<longleftrightarrow>
      repo \<in> set repos \<and> done_repos (inventory_key repo) = None \<and>
      (force_refresh \<or> \<not> (\<exists>ev. live_repo s (inventory_key repo) = Some ev \<and>
         (\<exists>r\<in>set repos. inventory_key r = inventory_key repo \<and> baseline_holds P run_time org_summary r ev)))" for repo
    unfolding pending_repos_def some by auto
  with some show ?thesis by blast
qed

text \<open>
  A failed read of a repository that is not public is not retried for a day. The evidence that records the failure
  has no observed check at all, and yet, as long as GitHub reports the same update time, later runs within a day reuse
  it as a baseline instead of reading the repository: the test for an unknown security policy, which stops this for
  public repositories, does not see the policy that is not applicable.
\<close>
theorem failed_private_read_is_reused:
  assumes "\<not> projection_poisoned s" and "\<not> Repository_is_public repo" and "updated_at repo = Some (UpdatedAt u)" "u \<noteq> []"
    and "live_repo s (inventory_key repo) = Some (failure_evidence repo failed_at)"
    and "parse_iso8601 (cp_parse P) failed_at = Some t0" and "parse_iso8601 (cp_parse P) run_time = Some t1"
    and "duration_since_as_secs t1 t0 \<le> 86400"
  shows "\<exists>cache. reuse_from_baseline P [repo] Map.empty run_time s False org_summary = Some cache \<and>
    cache (inventory_key repo) = Some (failure_evidence repo failed_at) \<and>
    RepositoryReadState_from_checks (checks (failure_evidence repo failed_at)) = RepositoryReadState.Failed"
proof -
  let ?ev = "failure_evidence repo failed_at"
  have "unchanged_and_fresh P run_time repo ?ev"
    using assms(3-8) by (simp add: unchanged_and_fresh_def failure_evidence_def failure_evidence_with_reason_def
        RepositoryChecks_observed_at_def)
  then have "reuses P run_time org_summary repo ?ev"
    using assms(2) by (simp add: reuses_iff failure_evidence_def failure_evidence_with_reason_def
        org_alerts_contradict_baseline_def SecretScanningResult_unobservable_def)
  with reuse_loop_cache [OF assms(1), of P run_time org_summary "[repo]" Map.empty] assms(5)
  have "\<exists>cache. reuse_from_baseline P [repo] Map.empty run_time s False org_summary = Some cache \<and>
    cache (inventory_key repo) = Some ?ev"
    by (simp add: reuse_from_baseline_def hit_def is_some_and_def)
  moreover have "RepositoryReadState_from_checks (checks ?ev) = RepositoryReadState.Failed"
    using assms(2)
    by (simp add: RepositoryReadState_from_checks_def observed_check_timestamps_def then_some_def failure_evidence_def
        failure_evidence_with_reason_def SecretScanningResult_unobservable_def indeterminate_for_def Let_def
        is_permission_reason_def PENDING_REASON_def)
  ultimately show ?thesis by blast
qed

text \<open>
  The repositories a run has not read yet do not dilute its metrics: adding their placeholders to the evidence
  changes neither the number of repositories that a control's rate is taken over nor the number that meet it.
\<close>
theorem unread_repositories_do_not_dilute:
  "let before = control_denominator_population c rs;
       after = control_denominator_population c (include_unread_repositories rs inventory t)
   in denominator_repo_count after = denominator_repo_count before \<and>
      denominator_met_count after = denominator_met_count before"
  by (simp add: include_unread_repositories_def population_append denominator_repo_count_def denominator_met_count_def
      placeholders_population placeholders_met Let_def)

subsection \<open>A sample baseline\<close>

definition sample_collect_ports :: CollectPorts where
  "sample_collect_ports = \<lparr>cp_parse = (\<lambda>_. Some 0), cp_strftime = (\<lambda>_ _. ''t''), cp_lower = (\<lambda>s. s)\<rparr>"

definition sample_private :: Repository where
  "sample_private = (sample_repository ''p'')\<lparr>visibility := Visibility.Private, updated_at := Some (UpdatedAt ''u'')\<rparr>"

definition sample_failed_state :: "Envelope list AppState" where
  "sample_failed_state = (start_state [] [] [])\<lparr>projection_state :=
     EvidenceProjection_default\<lparr>repositories := [(''p'', failure_evidence sample_private ''t'')]\<rparr>\<rparr>"

lemma sample_failed_start:
  "\<not> projection_poisoned sample_failed_state" "\<not> Repository_is_public sample_private"
  "updated_at sample_private = Some (UpdatedAt ''u'')"
  "live_repo sample_failed_state (inventory_key sample_private) = Some (failure_evidence sample_private ''t'')"
  "parse_iso8601 (cp_parse sample_collect_ports) x = Some 0" "duration_since_as_secs 0 0 \<le> 86400"
  by (simp_all add: sample_failed_state_def start_state_def Repository_is_public_def sample_private_def
      sample_repository_def btree_get_def sample_collect_ports_def parse_iso8601_def duration_since_as_secs_def)

theorem failed_private_read_is_reused_witness:
  "\<exists>cache. reuse_from_baseline sample_collect_ports [sample_private] Map.empty ''t'' sample_failed_state False sample_alert_summary =
     Some cache \<and> cache ''p'' = Some (failure_evidence sample_private ''t'')"
proof -
  have "inventory_key sample_private = ''p''" by (simp add: sample_private_def sample_repository_def)
  with failed_private_read_is_reused [OF sample_failed_start(1-3) _ sample_failed_start(4-5,5,6),
      where run_time = "''t''" and org_summary = sample_alert_summary]
  show ?thesis by auto
qed

theorem reuse_from_baseline_exact_witness:
  "(\<exists>cache. reuse_from_baseline sample_collect_ports [sample_private] Map.empty ''t'' sample_failed_state False
       sample_alert_summary = Some cache \<and> cache ''p'' = Some (failure_evidence sample_private ''t'') \<and>
     pending_repos [sample_private] Map.empty cache = []) \<and>
   (\<exists>cache. reuse_from_baseline sample_collect_ports [sample_private] Map.empty ''t'' sample_failed_state True
       sample_alert_summary = Some cache \<and> cache ''p'' = None \<and>
     sample_private \<in> set (pending_repos [sample_private] Map.empty cache))"
proof
  have key: "inventory_key sample_private = ''p''" by (simp add: sample_private_def sample_repository_def)
  obtain cache where cache: "reuse_from_baseline sample_collect_ports [sample_private] Map.empty ''t'' sample_failed_state
      False sample_alert_summary = Some cache" "cache ''p'' = Some (failure_evidence sample_private ''t'')"
    using failed_private_read_is_reused_witness by blast
  note exact = reuse_from_baseline_exact [OF cache(1) sample_failed_start(1)]
  have "baseline_holds sample_collect_ports ''t'' sample_alert_summary sample_private (failure_evidence sample_private ''t'')"
    using exact cache(2) by fastforce
  then have "sample_private \<notin> set (pending_repos [sample_private] Map.empty cache)"
    using exact sample_failed_start(4) by auto
  then have "pending_repos [sample_private] Map.empty cache = []" by (simp add: pending_repos_def split: if_splits)
  with cache show "\<exists>cache. reuse_from_baseline sample_collect_ports [sample_private] Map.empty ''t'' sample_failed_state False
       sample_alert_summary = Some cache \<and> cache ''p'' = Some (failure_evidence sample_private ''t'') \<and>
     pending_repos [sample_private] Map.empty cache = []" by blast
  obtain c where c: "reuse_from_baseline sample_collect_ports [sample_private] Map.empty ''t'' sample_failed_state
      True sample_alert_summary = Some c" by (simp add: reuse_from_baseline_def)
  from reuse_from_baseline_exact [OF c sample_failed_start(1)] have "c ''p'' = None"
    "sample_private \<in> set (pending_repos [sample_private] Map.empty c)" by auto
  with c show "\<exists>cache. reuse_from_baseline sample_collect_ports [sample_private] Map.empty ''t'' sample_failed_state True
       sample_alert_summary = Some cache \<and> cache ''p'' = None \<and>
     sample_private \<in> set (pending_repos [sample_private] Map.empty cache)" by blast
qed

end
