(* ===== verification/Publication.thy ===== *)
theory Publication
  imports Collect_Evidence
begin

text \<open>
  Publication of reports (\<open>app/collect.rs\<close>): the quality that is recorded of a rendered report, the order in which one
  may replace another, and the commit that swaps the served pages or keeps the earlier report. The templates
  (\<open>report/html.rs\<close> together with the route aliases of the web package) are a parameter that renders evidence to pages;
  pages are told apart by their entity tags. Log records are left out.
\<close>

subsection \<open>Capture times\<close>

datatype CaptureTime = Missing | Malformed | Captured Timestamp

definition CaptureTime_parse :: "(string \<Rightarrow> Timestamp option) \<Rightarrow> string option \<Rightarrow> CaptureTime" where
  "CaptureTime_parse parse text = (case text of
     None \<Rightarrow> Missing
   | Some value \<Rightarrow> if value = [] then Missing else (case parse value of Some t \<Rightarrow> Captured t | None \<Rightarrow> Malformed))"

fun CaptureTime_older :: "CaptureTime \<Rightarrow> CaptureTime \<Rightarrow> CaptureTime" where
  "CaptureTime_older Malformed _ = Malformed"
| "CaptureTime_older _ Malformed = Malformed"
| "CaptureTime_older Missing _ = Missing"
| "CaptureTime_older _ Missing = Missing"
| "CaptureTime_older (Captured a) (Captured b) = Captured (min a b)"

definition CaptureTime_from_checks :: "(string \<Rightarrow> Timestamp option) \<Rightarrow> RepositoryChecks \<Rightarrow> CaptureTime" where
  "CaptureTime_from_checks parse c =
     (case map (\<lambda>t. CaptureTime_parse parse (Some t)) (List.map_filter (\<lambda>t. t) (observed_check_timestamps c)) of
        [] \<Rightarrow> Missing
      | t # ts \<Rightarrow> foldl CaptureTime_older t ts)"

fun CaptureTime_preserves :: "CaptureTime \<Rightarrow> CaptureTime \<Rightarrow> bool" where
  "CaptureTime_preserves (Captured new) (Captured old) \<longleftrightarrow> new \<ge> old"
| "CaptureTime_preserves (Captured _) _ \<longleftrightarrow> True"
| "CaptureTime_preserves _ _ \<longleftrightarrow> False"

subsection \<open>Quality\<close>

datatype 'p PublicationProvenance =
    Projection "'p ProjectionCaptureToken"
  | LiveOverlay "'p ProjectionCaptureToken" "'p LiveObservationToken"
  | Unordered

record 'a ProtectedEntry =
  entry_complete :: bool
  entry_captured :: CaptureTime
  entry_content :: 'a

record 'p PublicationQuality =
  quality_provenance :: "'p PublicationProvenance"
  inventory_known :: bool
  quality_repositories :: "(string, RepositoryEvidence ProtectedEntry) btree_map"
  quality_rosters :: "(string, TeamRoster ProtectedEntry) btree_map"

definition observed_repository :: "RepositoryEvidence \<Rightarrow> bool" where
  "observed_repository ev \<longleftrightarrow> RepositoryReadState_from_checks (checks ev) = RepositoryReadState.Observed"

definition protected_repository :: "(string \<Rightarrow> Timestamp option) \<Rightarrow> RepositoryEvidence \<Rightarrow> string \<times> RepositoryEvidence ProtectedEntry" where
  "protected_repository parse ev = (inventory_key (repository ev),
     \<lparr>entry_complete = RepositoryEvidence_is_complete ev, entry_captured = CaptureTime_from_checks parse (checks ev),
      entry_content = ev\<rparr>)"

definition protected_roster :: "(string \<Rightarrow> Timestamp option) \<Rightarrow> TeamRoster \<Rightarrow> string \<times> TeamRoster ProtectedEntry" where
  "protected_roster parse roster = (canonical_owner roster,
     \<lparr>entry_complete = True, entry_captured = CaptureTime_parse parse (TeamRoster.fetched_at roster), entry_content = roster\<rparr>)"

definition PublicationQuality_from_evidence ::
    "(string \<Rightarrow> Timestamp option) \<Rightarrow> Evidence \<Rightarrow> AdmittedInventory option \<Rightarrow> 'p PublicationQuality" where
  "PublicationQuality_from_evidence parse e inventory =
     \<lparr>quality_provenance = Unordered, inventory_known = is_some_and ai_complete inventory,
      quality_repositories =
        btree_extend (map (protected_repository parse) (filter observed_repository (evidence_repositories e))) btree_empty,
      quality_rosters = btree_extend (map (protected_roster parse)
        (filter (\<lambda>r. roster_status r = TeamRosterStatus.Complete) (team_rosters (evidence_metrics e)))) btree_empty\<rparr>"

definition preserves_entry :: "('a \<Rightarrow> 'a \<Rightarrow> bool) \<Rightarrow> 'a ProtectedEntry \<Rightarrow> 'a ProtectedEntry \<Rightarrow> bool \<Rightarrow> bool" where
  "preserves_entry eq incoming previous ordered \<longleftrightarrow>
     (\<not> entry_complete previous \<or> entry_complete incoming) \<and>
     (ordered \<or> CaptureTime_preserves (entry_captured incoming) (entry_captured previous) \<or>
      eq (entry_content incoming) (entry_content previous))"

definition preserves_entries ::
    "('a \<Rightarrow> 'a \<Rightarrow> bool) \<Rightarrow> (string, 'a ProtectedEntry) btree_map \<Rightarrow> (string, 'a ProtectedEntry) btree_map \<Rightarrow> bool \<Rightarrow> bool" where
  "preserves_entries eq incoming previous ordered \<longleftrightarrow>
     list_all (\<lambda>(key, old). is_some_and (\<lambda>new. preserves_entry eq new old ordered) (btree_get incoming key)) previous"

text \<open>Whether the new publication comes after the old one for repositories and for rosters; \<open>None\<close> if they cannot be compared.\<close>

definition provenance_order :: "'p PublicationQuality \<Rightarrow> 'p PublicationQuality \<Rightarrow> (bool \<times> bool) option" where
  "provenance_order q previous = (case (quality_provenance q, quality_provenance previous) of
     (Projection new, Projection old) \<Rightarrow>
       if ProjectionCaptureToken_succeeds new old then Some (True, True) else None
   | (LiveOverlay new observed, Projection old) \<Rightarrow>
       if ProjectionCaptureToken_succeeds new old \<and> belongs_to observed new then Some (True, True) else None
   | (LiveOverlay new observed, LiveOverlay old previous_observed) \<Rightarrow>
       if ProjectionCaptureToken_succeeds new old \<and> belongs_to observed new \<and> belongs_to previous_observed old \<and>
          LiveObservationToken_succeeds observed previous_observed then Some (True, True) else None
   | (Projection new, LiveOverlay old _) \<Rightarrow>
       if ProjectionCaptureToken_succeeds new old \<and> quality_rosters previous = [] then Some (True, False) else None
   | (Unordered, Unordered) \<Rightarrow> Some (False, False)
   | _ \<Rightarrow> None)"

fun provenance_witnesses :: "'p PublicationProvenance \<Rightarrow> string \<Rightarrow> bool" where
  "provenance_witnesses (Projection token) key \<longleftrightarrow> witnesses_deletion token key"
| "provenance_witnesses (LiveOverlay token _) key \<longleftrightarrow> witnesses_deletion token key"
| "provenance_witnesses Unordered _ \<longleftrightarrow> False"

definition PublicationQuality_preserves :: "'p PublicationQuality \<Rightarrow> 'p PublicationQuality \<Rightarrow> bool" where
  "PublicationQuality_preserves q previous = (case provenance_order q previous of
     None \<Rightarrow> False
   | Some (repositories_ordered, rosters_ordered) \<Rightarrow>
       (\<not> inventory_known previous \<or> inventory_known q) \<and>
       list_all (\<lambda>(key, old). case btree_get (quality_repositories q) key of
           Some incoming \<Rightarrow> preserves_entry RepositoryEvidence_eq incoming old repositories_ordered
         | None \<Rightarrow> repositories_ordered \<and> provenance_witnesses (quality_provenance q) key) (quality_repositories previous) \<and>
       preserves_entries (=) (quality_rosters q) (quality_rosters previous) rosters_ordered)"

subsection \<open>Candidates\<close>

datatype PublicationStage = WarmStart | Intermediate | Terminal

definition PublicationStage_label :: "PublicationStage \<Rightarrow> string" where
  "PublicationStage_label stage = (case stage of
     WarmStart \<Rightarrow> ''Cached warm start''
   | Intermediate \<Rightarrow> ''Partial refresh''
   | Terminal \<Rightarrow> ''Collection cycle finished; evidence may still be partial'')"

record PublicationDisclosure =
  disclosure_summary :: string
  disclosure_repositories :: "(string \<times> string) list"

type_synonym 'g pages = "string \<rightharpoonup> 'g"

record 'd RetainedRenderInput =
  retained_config :: 'd
  retained_evidence :: Evidence
  retained_stage :: PublicationStage
  retained_disclosure :: PublicationDisclosure

record ('p, 'g, 'd) PublicationCandidate =
  candidate_pages :: "'g pages"
  candidate_retained_pages :: "'g pages"
  candidate_quality :: "'p PublicationQuality"
  candidate_render_input :: "'d RetainedRenderInput option"
  candidate_attempt :: string
  candidate_stage :: PublicationStage

text \<open>The renderer, the tag of a page, and the display of a timestamp.\<close>

record ('g, 'd) RenderPorts =
  rp_render :: "'d \<Rightarrow> Evidence \<Rightarrow> PublicationStage \<Rightarrow> PublicationDisclosure \<Rightarrow> string + 'g pages"
  rp_etag :: "'g \<Rightarrow> string"
  rp_parse :: "string \<Rightarrow> Timestamp option"
  rp_show :: "Timestamp \<Rightarrow> string"

datatype InventoryCoverage = Unknown | Known nat nat

definition observed_repository_keys :: "RepositoryEvidence list \<Rightarrow> string set" where
  "observed_repository_keys repos = set (map (inventory_key \<circ> repository) (filter observed_repository repos))"

definition InventoryCoverage_from_evidence :: "AdmittedInventory option \<Rightarrow> Evidence \<Rightarrow> InventoryCoverage" where
  "InventoryCoverage_from_evidence inventory e =
     (let observed = observed_repository_keys (evidence_repositories e)
      in case inventory of
           None \<Rightarrow> InventoryCoverage.Unknown
         | Some i \<Rightarrow> if ai_complete i
             then InventoryCoverage.Known (length (ai_active_repos i))
               (length (filter (\<lambda>repo. inventory_key repo \<notin> observed) (ai_active_repos i)))
             else InventoryCoverage.Unknown)"

definition coverage_text :: "InventoryCoverage \<Rightarrow> string" where
  "coverage_text coverage = (case coverage of
     InventoryCoverage.Unknown \<Rightarrow> ''Inventory denominator unknown; unread count unknown''
   | InventoryCoverage.Known expected unread \<Rightarrow>
       ''Inventory: '' @ nat_display expected @ '' repositories; '' @ nat_display unread @ '' not yet read'')"

definition as_second :: "Timestamp \<Rightarrow> int" where
  "as_second t = t sdiv 1000000000"

text \<open>The age of a capture in seconds before the assessment, when both are known and in order.\<close>

definition capture_age :: "Timestamp option \<Rightarrow> CaptureTime \<Rightarrow> int option" where
  "capture_age reference capture = (case (capture, reference) of
     (Captured t, Some r) \<Rightarrow> if t \<le> r then Some (as_second r - as_second t) else None
   | _ \<Rightarrow> None)"

definition int_display :: "int \<Rightarrow> string" where
  "int_display i = (if i < 0 then CHR ''-'' # nat_display (nat (- i)) else nat_display (nat i))"

definition age_step :: "(string \<Rightarrow> Timestamp option) \<Rightarrow> Timestamp option \<Rightarrow> RepositoryEvidence \<Rightarrow> nat \<times> int option \<Rightarrow> nat \<times> int option" where
  "age_step parse reference ev = (\<lambda>(unknown, oldest).
     case capture_age reference (CaptureTime_from_checks parse (checks ev)) of
       Some seconds \<Rightarrow> (unknown, Some (case oldest of None \<Rightarrow> seconds | Some previous \<Rightarrow> max previous seconds))
     | None \<Rightarrow> (Suc unknown, oldest))"

definition assessment_reference :: "('g, 'd) RenderPorts \<Rightarrow> Evidence \<Rightarrow> Timestamp option" where
  "assessment_reference R e = rp_parse R (run_timestamp (evidence_assessment_metadata e))"

definition reference_text :: "('g, 'd) RenderPorts \<Rightarrow> Timestamp option \<Rightarrow> string" where
  "reference_text R reference = (case reference of None \<Rightarrow> ''unknown assessment time'' | Some t \<Rightarrow> rp_show R t)"

definition repository_capture_age_disclosure :: "('g, 'd) RenderPorts \<Rightarrow> Evidence \<Rightarrow> string" where
  "repository_capture_age_disclosure R e =
     (let reference = assessment_reference R e;
          (unknown, oldest) = fold (age_step (rp_parse R) reference) (evidence_repositories e) (0, None);
          age = (case oldest of None \<Rightarrow> ''no known capture age''
                 | Some seconds \<Rightarrow> ''oldest known '' @ int_display seconds @ '' seconds'')
      in ''Repository capture age as of '' @ reference_text R reference @ '': '' @ age @ ''; unknown for '' @
         nat_display unknown @ '' of '' @ nat_display (length (evidence_repositories e)) @ '' repositories'')"

definition repository_age_text :: "('g, 'd) RenderPorts \<Rightarrow> Timestamp option \<Rightarrow> RepositoryEvidence \<Rightarrow> string" where
  "repository_age_text R reference ev =
     (let capture = CaptureTime_from_checks (rp_parse R) (checks ev)
      in case capture_age reference capture of
           Some seconds \<Rightarrow> int_display seconds @ '' seconds (captured '' @
             (case capture of Captured t \<Rightarrow> rp_show R t | _ \<Rightarrow> []) @ '')''
         | None \<Rightarrow> ''Capture age unknown'')"

definition build_sourced_publication_pages ::
    "('g, 'd) RenderPorts \<Rightarrow> 'd \<Rightarrow> Evidence \<Rightarrow> PublicationStage \<Rightarrow> AdmittedInventory option \<Rightarrow> 'p PublicationProvenance \<Rightarrow>
     Timestamp \<Rightarrow> string + ('p, 'g, 'd) PublicationCandidate" where
  "build_sourced_publication_pages R config e stage inventory provenance now =
     (let coverage = coverage_text (InventoryCoverage_from_evidence inventory e);
          banner = PublicationStage_label stage @ ''. '' @ coverage @ ''. '' @ repository_capture_age_disclosure R e @
            ''. Evidence may be stale; publication time is not capture time.'';
          reference = assessment_reference R e;
          disclosure = \<lparr>disclosure_summary = banner,
            disclosure_repositories =
              map (\<lambda>ev. (repo_name (repository ev), repository_age_text R reference ev)) (evidence_repositories e)\<rparr>;
          attempt = ''Refresh attempted at '' @ rp_show R now @ ''. Attempt assessed at '' @ reference_text R reference @
            ''. '' @ PublicationStage_label stage @ ''. '' @ coverage
      in and_then (rp_render R config e stage disclosure) (\<lambda>pages.
         Inr \<lparr>candidate_pages = pages, candidate_retained_pages = pages,
              candidate_quality = (PublicationQuality_from_evidence (rp_parse R) e inventory)\<lparr>quality_provenance := provenance\<rparr>,
              candidate_render_input = Some \<lparr>retained_config = config, retained_evidence = e, retained_stage = stage,
                retained_disclosure = disclosure\<rparr>,
              candidate_attempt = attempt, candidate_stage = stage\<rparr>))"

subsection \<open>Commit\<close>

datatype ('p, 'g, 'd) AdmittedPublication =
    Current "('p, 'g, 'd) PublicationCandidate"
  | Retained "('p, 'g, 'd) PublicationCandidate"

fun AdmittedPublication_candidate :: "('p, 'g, 'd) AdmittedPublication \<Rightarrow> ('p, 'g, 'd) PublicationCandidate" where
  "AdmittedPublication_candidate (Current c) = c"
| "AdmittedPublication_candidate (Retained c) = c"

fun AdmittedPublication_pages :: "('p, 'g, 'd) AdmittedPublication \<Rightarrow> 'g pages" where
  "AdmittedPublication_pages (Current c) = candidate_pages c"
| "AdmittedPublication_pages (Retained c) = candidate_retained_pages c"

text \<open>The part of the shared state that publication changes, with the keys of every update that was broadcast.\<close>

record ('p, 'g, 'd) Published =
  publication :: "('p, 'g, 'd) AdmittedPublication option"
  html_cache :: "'g pages option"
  broadcasts :: "string set list"

definition RETAINED_NOTE :: string where
  "RETAINED_NOTE = ''Retained earlier report. Latest attempted refresh: not admitted because it would lose evidence or capture recency. ''"

definition retain ::
    "('g, 'd) RenderPorts \<Rightarrow> ('p, 'g, 'd) PublicationCandidate \<Rightarrow> ('p, 'g, 'd) PublicationCandidate \<Rightarrow>
     ('p, 'g, 'd) PublicationCandidate" where
  "retain R previous candidate = (case candidate_render_input previous of
     None \<Rightarrow> previous
   | Some input \<Rightarrow>
       (let disclosure = (retained_disclosure input)\<lparr>disclosure_summary := RETAINED_NOTE @ candidate_attempt candidate @
              ''. Retained content and original capture age: '' @ disclosure_summary (retained_disclosure input)\<rparr>
        in case rp_render R (retained_config input) (retained_evidence input) (retained_stage input) disclosure of
             Inr pages \<Rightarrow> previous\<lparr>candidate_retained_pages := pages\<rparr>
           | Inl _ \<Rightarrow> previous))"

definition admit_publication ::
    "('g, 'd) RenderPorts \<Rightarrow> ('p, 'g, 'd) PublicationCandidate \<Rightarrow> ('p, 'g, 'd) AdmittedPublication option \<Rightarrow>
     ('p, 'g, 'd) AdmittedPublication" where
  "admit_publication R candidate slot = (case slot of
     None \<Rightarrow> Current candidate
   | Some previous \<Rightarrow>
       if candidate_stage (AdmittedPublication_candidate previous) \<noteq> WarmStart \<and>
          \<not> PublicationQuality_preserves (candidate_quality candidate)
              (candidate_quality (AdmittedPublication_candidate previous))
       then Retained (retain R (AdmittedPublication_candidate previous) candidate)
       else Current candidate)"

definition pages_unchanged :: "('g, 'd) RenderPorts \<Rightarrow> 'g pages option \<Rightarrow> 'g pages \<Rightarrow> bool" where
  "pages_unchanged R old cache = is_some_and (\<lambda>previous.
     card (dom previous) = card (dom cache) \<and>
     (\<forall>path\<in>dom cache. map_option (rp_etag R) (previous path) = map_option (rp_etag R) (cache path))) old"

definition commit_cached_pages ::
    "('g, 'd) RenderPorts \<Rightarrow> ('p, 'g, 'd) PublicationCandidate \<Rightarrow> ('p, 'g, 'd) Published \<Rightarrow> nat \<times> ('p, 'g, 'd) Published" where
  "commit_cached_pages R candidate s =
     (let admitted = admit_publication R candidate (publication s);
          cache = AdmittedPublication_pages admitted;
          unchanged = pages_unchanged R (html_cache s) cache
      in (card (dom cache),
          \<lparr>publication = Some admitted, html_cache = Some cache,
           broadcasts = (if unchanged then broadcasts s else broadcasts s @ [dom cache])\<rparr>))"

subsection \<open>Callers\<close>




definition warm_start_from_baseline ::
    "('g, 'd) RenderPorts \<Rightarrow> CollectPorts \<Rightarrow> 'p \<Rightarrow> Timestamp \<Rightarrow> 'd \<Rightarrow> string \<Rightarrow> RunMetadata \<Rightarrow> 'b AppState \<Rightarrow>
     u64 \<times> ('p, 'g, 'd) Published \<Rightarrow> (bool \<times> u64 \<times> ('p, 'g, 'd) Published) option" where
  "warm_start_from_baseline R P identity now config org run s st = (case projection_render_snapshot identity s (fst st) of
     (None, _) \<Rightarrow> None
   | (Some (Inl _), counter) \<Rightarrow> Some (False, counter, snd st)
   | (Some (Inr snapshot), counter) \<Rightarrow>
       if ProjectionRenderSnapshot_repositories snapshot = [] \<and> ProjectionRenderSnapshot_org_state snapshot = None
       then Some (False, counter, snd st)
       else
         (let e = build_evidence P
            \<lparr>be_repositories = ProjectionRenderSnapshot_repositories snapshot,
             be_deleted = ProjectionRenderSnapshot_deleted snapshot,
             be_org_state = ProjectionRenderSnapshot_org_state snapshot, be_org_name = org, be_run = run,
             be_inventory_fetched_at = None, be_org_alert_summary = None,
             be_auth_metadata = \<lparr>am_token_tier = TokenTier.Unknown, am_token_scopes = ''cached'', am_auth_mode = AuthMode.Unknown\<rparr>,
             be_capabilities = CapabilitySet_default, be_rate_limit_warnings = 0,
             be_team_rosters = ProjectionRenderSnapshot_team_rosters snapshot,
             be_team_rosters_already_enriched = True, be_org_members = None\<rparr>
          in case build_sourced_publication_pages R config e WarmStart None (Projection (snapshot_token snapshot)) now of
               Inl _ \<Rightarrow> Some (False, counter, snd st)
             | Inr candidate \<Rightarrow> Some (True, counter, snd (commit_cached_pages R candidate (snd st)))))"

subsection \<open>What a sequence of publications keeps\<close>

definition commits ::
    "('g, 'd) RenderPorts \<Rightarrow> ('p, 'g, 'd) PublicationCandidate list \<Rightarrow> ('p, 'g, 'd) Published \<Rightarrow> ('p, 'g, 'd) Published" where
  "commits R candidates s = fold (\<lambda>c s. snd (commit_cached_pages R c s)) candidates s"

definition quality_of :: "('p, 'g, 'd) AdmittedPublication \<Rightarrow> 'p PublicationQuality" where
  "quality_of a = candidate_quality (AdmittedPublication_candidate a)"

definition stage_of :: "('p, 'g, 'd) AdmittedPublication \<Rightarrow> PublicationStage" where
  "stage_of a = candidate_stage (AdmittedPublication_candidate a)"

definition deletion_witnessed :: "('p, 'g, 'd) PublicationCandidate list \<Rightarrow> string \<Rightarrow> bool" where
  "deletion_witnessed candidates key \<longleftrightarrow>
     list_ex (\<lambda>c. provenance_witnesses (quality_provenance (candidate_quality c)) key) candidates"

text \<open>
  A repository that was read is still there and, if it was read completely, still completely read, unless one of the
  captures saw it deleted; complete rosters stay, and a known inventory stays known.
\<close>

definition keeps_evidence :: "('p, 'g, 'd) PublicationCandidate list \<Rightarrow> 'p PublicationQuality \<Rightarrow> 'p PublicationQuality \<Rightarrow> bool" where
  "keeps_evidence candidates old new \<longleftrightarrow>
     (inventory_known old \<longrightarrow> inventory_known new) \<and>
     (\<forall>key e. btree_get (quality_repositories old) key = Some e \<longrightarrow> deletion_witnessed candidates key \<or>
        (\<exists>e'. btree_get (quality_repositories new) key = Some e' \<and> (entry_complete e \<longrightarrow> entry_complete e'))) \<and>
     (\<forall>owner e. btree_get (quality_rosters old) owner = Some e \<longrightarrow>
        (\<exists>e'. btree_get (quality_rosters new) owner = Some e' \<and> (entry_complete e \<longrightarrow> entry_complete e')))"

lemma retain_keeps: "candidate_quality (retain R previous c) = candidate_quality previous"
  "candidate_stage (retain R previous c) = candidate_stage previous"
  "candidate_render_input (retain R previous c) = candidate_render_input previous"
  by (auto simp: retain_def Let_def split: option.splits sum.splits)

lemma preserves_entries_get:
  assumes "preserves_entries eq incoming old ordered" "btree_get old key = Some e"
  shows "\<exists>e'. btree_get incoming key = Some e' \<and> (entry_complete e \<longrightarrow> entry_complete e')"
proof -
  from assms(2) have "(key, e) \<in> set old" by (simp add: btree_get_def map_of_SomeD)
  with assms(1) have "is_some_and (\<lambda>new. preserves_entry eq new e ordered) (btree_get incoming key)"
    by (auto simp: preserves_entries_def list_all_iff)
  then show ?thesis by (cases "btree_get incoming key") (auto simp: is_some_and_def preserves_entry_def)
qed

lemma preserves_repository:
  assumes "PublicationQuality_preserves q old" "btree_get (quality_repositories old) key = Some e"
  shows "provenance_witnesses (quality_provenance q) key \<or>
    (\<exists>e'. btree_get (quality_repositories q) key = Some e' \<and> (entry_complete e \<longrightarrow> entry_complete e'))"
proof -
  obtain a b where "provenance_order q old = Some (a, b)"
    using assms(1) by (auto simp: PublicationQuality_preserves_def split: option.splits)
  moreover from assms(2) have "(key, e) \<in> set (quality_repositories old)" by (simp add: btree_get_def map_of_SomeD)
  ultimately have "case btree_get (quality_repositories q) key of
      Some incoming \<Rightarrow> preserves_entry RepositoryEvidence_eq incoming e a
    | None \<Rightarrow> a \<and> provenance_witnesses (quality_provenance q) key"
    using assms(1) by (auto simp: PublicationQuality_preserves_def list_all_iff)
  then show ?thesis by (cases "btree_get (quality_repositories q) key") (auto simp: preserves_entry_def)
qed

lemma preserves_keeps:
  assumes "PublicationQuality_preserves (candidate_quality c) old"
  shows "keeps_evidence [c] old (candidate_quality c)"
proof -
  obtain ordered where "preserves_entries (=) (quality_rosters (candidate_quality c)) (quality_rosters old) ordered"
    "inventory_known old \<longrightarrow> inventory_known (candidate_quality c)"
    using assms by (auto simp: PublicationQuality_preserves_def split: option.splits)
  with preserves_entries_get preserves_repository [OF assms] show ?thesis
    unfolding keeps_evidence_def deletion_witnessed_def by simp blast
qed

lemma keeps_refl: "keeps_evidence cs q q"
  by (auto simp: keeps_evidence_def)

lemma keeps_repository:
  assumes "keeps_evidence cs q q'" "btree_get (quality_repositories q) key = Some e"
  obtains "deletion_witnessed cs key" | e' where "btree_get (quality_repositories q') key = Some e'" "entry_complete e \<longrightarrow> entry_complete e'"
  using assms unfolding keeps_evidence_def by blast

lemma keeps_roster:
  assumes "keeps_evidence cs q q'" "btree_get (quality_rosters q) team = Some e"
  obtains e' where "btree_get (quality_rosters q') team = Some e'" "entry_complete e \<longrightarrow> entry_complete e'"
  using assms unfolding keeps_evidence_def by blast

lemma deletion_witnessed_append: "deletion_witnessed (cs @ ds) key \<longleftrightarrow> deletion_witnessed cs key \<or> deletion_witnessed ds key"
  by (simp add: deletion_witnessed_def)

lemma keeps_trans:
  assumes first: "keeps_evidence cs q q'" and second: "keeps_evidence ds q' q''"
  shows "keeps_evidence (cs @ ds) q q''"
  unfolding keeps_evidence_def deletion_witnessed_append
proof (intro conjI allI impI)
  show "inventory_known q''" if "inventory_known q" using that first second by (simp add: keeps_evidence_def)
next
  fix key e assume "btree_get (quality_repositories q) key = Some e"
  with first show "(deletion_witnessed cs key \<or> deletion_witnessed ds key) \<or>
      (\<exists>e'. btree_get (quality_repositories q'') key = Some e' \<and> (entry_complete e \<longrightarrow> entry_complete e'))"
  proof (cases rule: keeps_repository)
    case (2 e')
    with second show ?thesis by (cases rule: keeps_repository [OF second 2(1)]) auto
  qed simp
next
  fix team e assume "btree_get (quality_rosters q) team = Some e"
  with first obtain e' where e': "btree_get (quality_rosters q') team = Some e'" "entry_complete e \<longrightarrow> entry_complete e'"
    by (rule keeps_roster)
  from keeps_roster [OF second e'(1)] e'(2) show
    "\<exists>e'. btree_get (quality_rosters q'') team = Some e' \<and> (entry_complete e \<longrightarrow> entry_complete e')" by metis
qed

lemma commit_keeps:
  assumes "publication s = Some a" "stage_of a \<noteq> WarmStart" "candidate_stage c \<noteq> WarmStart"
  shows "\<exists>a'. publication (snd (commit_cached_pages R c s)) = Some a' \<and> stage_of a' \<noteq> WarmStart \<and>
    keeps_evidence [c] (quality_of a) (quality_of a')"
  using assms
  by (auto simp: commit_cached_pages_def admit_publication_def Let_def quality_of_def stage_of_def retain_keeps
      intro: preserves_keeps keeps_refl)

text \<open>
  C1. What a report has shown is not lost by publishing again. However many reports are committed after it, in whatever
  order their captures were taken, every repository whose evidence the first one held is in the last one and no less
  completely read, unless a capture saw the repository deleted; complete team rosters stay; and a report that knew the
  whole inventory is not replaced by one that does not. Reports of the warm start are exempt: whatever is committed
  replaces a warm-start report without the check. So neither the first report nor any that is committed later may be of
  that stage; they are intermediate and terminal ones.
\<close>
theorem published_evidence_is_kept:
  assumes "publication s = Some a" and "stage_of a \<noteq> WarmStart"
    and "list_all (\<lambda>c. candidate_stage c \<noteq> WarmStart) candidates"
  shows "\<exists>a'. publication (commits R candidates s) = Some a' \<and> keeps_evidence candidates (quality_of a) (quality_of a')"
  using assms
proof (induction candidates arbitrary: s a)
  case Nil
  then show ?case by (auto simp: commits_def keeps_refl)
next
  case (Cons c cs)
  then obtain a1 where a1: "publication (snd (commit_cached_pages R c s)) = Some a1" "stage_of a1 \<noteq> WarmStart"
    "keeps_evidence [c] (quality_of a) (quality_of a1)"
    using commit_keeps [OF Cons.prems(1,2), of c R] by auto
  with Cons.IH [OF a1(1,2)] Cons.prems(3) obtain a' where
    "publication (commits R cs (snd (commit_cached_pages R c s))) = Some a'"
    "keeps_evidence cs (quality_of a1) (quality_of a')" by auto
  with keeps_trans [OF a1(3) this(2)] show ?case by (auto simp: commits_def)
qed

subsection \<open>Removal\<close>




subsection \<open>Reports without a repository\<close>












subsection \<open>A sample report\<close>

definition sample_ports_render :: "(unit, unit) RenderPorts" where
  "sample_ports_render = \<lparr>rp_render = (\<lambda>_ _ _ _. Inr [''index.html'' \<mapsto> ()]), rp_etag = (\<lambda>_. []), rp_parse = (\<lambda>_. Some 0),
     rp_show = (\<lambda>_. [])\<rparr>"

definition sample_candidate :: "RepositoryEvidence list \<Rightarrow> (unit, unit, unit) PublicationCandidate" where
  "sample_candidate repos = \<lparr>candidate_pages = Map.empty, candidate_retained_pages = Map.empty,
     candidate_quality = \<lparr>quality_provenance = Projection \<lparr>capture_source = (), capture_sequence = 1, deleted_keys = []\<rparr>,
       inventory_known = True, quality_repositories = map (protected_repository (\<lambda>_. Some 0)) repos, quality_rosters = []\<rparr>,
     candidate_render_input = None, candidate_attempt = [], candidate_stage = Terminal\<rparr>"

definition sample_published :: "(unit, unit, unit) Published" where
  "sample_published = \<lparr>publication = Some (Current (sample_candidate [sample_gone])), html_cache = None, broadcasts = []\<rparr>"

lemma sample_quality:
  "stage_of (Current (sample_candidate repos)) \<noteq> WarmStart"
  "btree_get (quality_repositories (quality_of (Current (sample_candidate [sample_gone])))) ''o/r'' \<noteq> None"
  by (simp_all add: stage_of_def quality_of_def sample_candidate_def btree_get_def protected_repository_def sample_repository_def)

theorem published_evidence_is_kept_witness:
  "\<exists>a'. publication (commits sample_ports_render [sample_candidate []] sample_published) = Some a' \<and>
     btree_get (quality_repositories (quality_of a')) ''o/r'' \<noteq> None"
proof -
  obtain e where e: "btree_get (quality_repositories (quality_of (Current (sample_candidate [sample_gone])))) ''o/r'' = Some e"
    using sample_quality(2) by auto
  have unseen: "\<not> deletion_witnessed [sample_candidate []] ''o/r''"
    by (simp add: deletion_witnessed_def sample_candidate_def witnesses_deletion_def)
  from published_evidence_is_kept [of sample_published "Current (sample_candidate [sample_gone])" "[sample_candidate []]"
      sample_ports_render]
  obtain a' where a': "publication (commits sample_ports_render [sample_candidate []] sample_published) = Some a'"
    "keeps_evidence [sample_candidate []] (quality_of (Current (sample_candidate [sample_gone]))) (quality_of a')"
    by (auto simp: sample_published_def sample_quality(1)) (auto simp: sample_candidate_def)
  from keeps_repository [OF a'(2) e] a'(1) unseen show ?thesis by (metis option.distinct(1))
qed







end
