(* ===== verification/Delivery.thy ===== *)
theory Delivery
  imports App_Reads App_State_Laws Collect_Evidence "HOL-Library.Multiset"
begin

text \<open>
  How the results of jobs reach the store. A sweep publishes a batch of jobs to the work queue and waits until every
  job is accounted for (\<open>publish_batch\<close>, \<open>enqueue_and_await_batch\<close> and \<open>retire_batch\<close> of \<open>app/collect.rs\<close>); the detached
  delivery task of \<open>app/daemon.rs\<close> records each outcome under the write policy, counts the batch down, and aborts the
  run when a write is rejected by the single-writer fence. The run slots belong to \<open>app/state/mod.rs\<close> and
  \<open>app/evidence_service.rs\<close>. The tasks meet in the delivery gate, a mutex, so each critical section is one step of
  a step relation in which sweeps, deliveries, other writers, timeouts and cancellations interleave in any order. The
  work queue, its workers and the batch tracker are the package \<open>cherry_pit_wq\<close>: an accepted job yields one outcome that
  carries the identifier of its run, and the tracker is a parameter with its documented laws. Log records are left out.
\<close>

subsection \<open>The run slots of the state\<close>

record 't TrackerPort =
  tracker_new :: "nat \<Rightarrow> 't"
  tracker_retire :: "nat \<Rightarrow> 't \<Rightarrow> 't"
  tracker_drain :: "'t \<Rightarrow> 't"
  tracker_done :: "'t \<Rightarrow> bool"

text \<open>The contract of the tracker: it holds the number of jobs that are left, and a wait for it returns at zero.\<close>

definition tracker_ok :: "'t TrackerPort \<Rightarrow> ('t \<Rightarrow> nat) \<Rightarrow> bool" where
  "tracker_ok T left \<longleftrightarrow> (\<forall>n. left (tracker_new T n) = n) \<and> (\<forall>n t. left (tracker_retire T n t) = left t - n) \<and>
     (\<forall>t. left (tracker_drain T t) = 0) \<and> (\<forall>t. tracker_done T t \<longleftrightarrow> left t = 0)"

datatype FenceSignal = FenceSignal (into_error: PersistenceError)

record 't ScheduledRun =
  run_uuid :: uuid
  run_tracker :: 't
  run_failure :: "PersistenceError option"

text \<open>
  A scheduled run is shared by reference, so \<open>runs\<close> holds every one that was made and a reference is its position.
  The two slots of the evidence service hold such references; the tracker slot refers to the tracker of a run.
\<close>

record ('b, 't) RunState =
  app :: "'b AppState"
  run_fence :: "FenceSignal option"
  runs :: "'t ScheduledRun list"
  owner_slot :: "nat option"
  tracker_slot :: "nat option"

definition on_tracker :: "('t \<Rightarrow> 't) \<Rightarrow> nat \<Rightarrow> ('b, 't) RunState \<Rightarrow> ('b, 't) RunState" where
  "on_tracker f i d = d\<lparr>runs := (runs d)[i := (runs d ! i)\<lparr>run_tracker := f (run_tracker (runs d ! i))\<rparr>]\<rparr>"

definition drain_slot :: "'t TrackerPort \<Rightarrow> bool option \<Rightarrow> nat option \<Rightarrow> ('b, 't) RunState \<Rightarrow> ('b, 't) RunState" where
  "drain_slot T drained slot d = (case slot of
     Some i \<Rightarrow> if drained = Some True then on_tracker (tracker_drain T) i d else d
   | None \<Rightarrow> d)"

text \<open>
  An operation of the application state among the slots. That state knows of a slot only whether it is filled and whether
  its tracker is to be drained, so the order to drain is carried out on the run the slot refers to.
\<close>

definition with_app ::
    "'t TrackerPort \<Rightarrow> ('b AppState \<Rightarrow> 'a \<times> 'b AppState) \<Rightarrow> ('b, 't) RunState \<Rightarrow> 'a \<times> ('b, 't) RunState" where
  "with_app T f d =
     (case f ((app d)\<lparr>scheduled_run := map_option (\<lambda>_. False) (owner_slot d),
                     batch_tracker := map_option (\<lambda>_. False) (tracker_slot d)\<rparr>) of
        (x, s) \<Rightarrow> (x, drain_slot T (batch_tracker s) (tracker_slot d)
          (drain_slot T (scheduled_run s) (owner_slot d) (d\<lparr>app := s\<rparr>))))"

definition run_is_fenced :: "('b, 't) RunState \<Rightarrow> bool" where
  "run_is_fenced d \<longleftrightarrow> run_fence d \<noteq> None"

definition take_run_fence :: "('b, 't) RunState \<Rightarrow> FenceSignal option \<times> ('b, 't) RunState" where
  "take_run_fence d = (run_fence d, d\<lparr>run_fence := None\<rparr>)"

definition begin_run :: "('b, 't) RunState \<Rightarrow> FenceSignal option \<times> ('b, 't) RunState" where
  "begin_run d = take_run_fence d"

definition set_active_batch_tracker :: "nat option \<Rightarrow> ('b, 't) RunState \<Rightarrow> ('b, 't) RunState" where
  "set_active_batch_tracker tracker d = d\<lparr>tracker_slot := tracker\<rparr>"

definition fence_active_run :: "'t TrackerPort \<Rightarrow> FenceSignal \<Rightarrow> ('b, 't) RunState \<Rightarrow> ('b, 't) RunState" where
  "fence_active_run T signal d =
     drain_slot T (Some True) (tracker_slot d) (d\<lparr>run_fence := Some (case run_fence d of None \<Rightarrow> signal | Some s \<Rightarrow> s)\<rparr>)"

subsection \<open>Delivery\<close>

datatype DeliveryStep =
  Delivered
| ReconciliationRequired PersistenceError
| Unpersisted PersistenceError
| Fenced FenceSignal

text \<open>The sources and the outcomes of jobs the loop distinguishes; the package may add further variants.\<close>

datatype JobSource = ScheduledBatch | InitialLoad | External

datatype JobOutcome =
  Success string RepositoryEvidence JobSource "uuid option"
| Failure string string JobSource "uuid option"
| Unhandled

definition FenceSignal_from_failure :: "WriteFailure \<Rightarrow> WriteFailure + FenceSignal" where
  "FenceSignal_from_failure failure =
     (if failure_category failure = WritePolicyCategory.Conflict then Inr (FenceSignal (failure_error failure)) else Inl failure)"

definition classify_persist_failure :: "WriteFailure \<Rightarrow> DeliveryStep" where
  "classify_persist_failure failure =
     (if failure_category failure = WritePolicyCategory.ReconciliationRequired
      then ReconciliationRequired (failure_error failure)
      else case FenceSignal_from_failure failure of
             Inr signal \<Rightarrow> Fenced signal | Inl failure \<Rightarrow> Unpersisted (failure_error failure))"

definition classify_failure_state_persist_failure :: "WriteFailure \<Rightarrow> DeliveryStep" where
  "classify_failure_state_persist_failure write_failure =
     (if failure_category write_failure = WritePolicyCategory.ReconciliationRequired
      then ReconciliationRequired (failure_error write_failure)
      else case FenceSignal_from_failure write_failure of
             Inr signal \<Rightarrow> Fenced signal | Inl failure \<Rightarrow> Unpersisted (failure_error failure))"

text \<open>
  What a delivery draws from its surroundings: the texts of the current time and the identifiers of the attempts to
  write. A write that panics has no result.
\<close>

record Draws =
  draw_now :: string
  draw_later :: string
  draw_ids :: "nat \<Rightarrow> uuid"

definition RepoRecorder_record_repo ::
    "'b AppEnv \<Rightarrow> (nat \<Rightarrow> uuid) \<Rightarrow> string \<Rightarrow> RepositoryEvidence \<Rightarrow> string \<Rightarrow> string \<Rightarrow> 'b AppState \<Rightarrow>
     (WriteFailure + unit) option \<times> 'b AppState" where
  "RepoRecorder_record_repo env ids domain_key evidence repo timestamp s =
     (case write_with_policy_sync (attempt_write (\<lambda>n. record_repo env domain_key evidence repo timestamp (ids n)))
        (s, False, 0) of
        (result, s, panicked, _) \<Rightarrow> (if panicked then None else Some result, s))"

definition handle_success_outcome ::
    "'b AppEnv \<Rightarrow> Draws \<Rightarrow> string \<Rightarrow> RepositoryEvidence \<Rightarrow> 'b AppState \<Rightarrow> DeliveryStep option \<times> 'b AppState" where
  "handle_success_outcome env draws domain_key result s =
     (case RepoRecorder_record_repo env (draw_ids draws) domain_key result (repo_name (repository result)) (draw_now draws) s of
        (written, s) \<Rightarrow> (map_option (\<lambda>r. case r of Inr _ \<Rightarrow> Delivered | Inl failure \<Rightarrow> classify_persist_failure failure) written, s))"

definition handle_failure_outcome ::
    "'b AppEnv \<Rightarrow> Draws \<Rightarrow> string \<Rightarrow> 'b AppState \<Rightarrow> DeliveryStep option \<times> 'b AppState" where
  "handle_failure_outcome env draws domain_key s = (case projection_get s domain_key of
     None \<Rightarrow> (None, s)
   | Some None \<Rightarrow> (Some Delivered, s)
   | Some (Some existing) \<Rightarrow>
       (case RepoRecorder_record_repo env (draw_ids draws) domain_key (failure_evidence (repository existing) (draw_now draws))
          (repo_name (repository existing)) (draw_later draws) s of
          (written, s) \<Rightarrow> (map_option (\<lambda>r. case r of
             Inr _ \<Rightarrow> Delivered | Inl failure \<Rightarrow> classify_failure_state_persist_failure failure) written, s)))"

definition note_failure :: "PersistenceError \<Rightarrow> nat \<Rightarrow> ('b, 't) RunState \<Rightarrow> ('b, 't) RunState" where
  "note_failure err i d = d\<lparr>runs := (runs d)[i := (runs d ! i)\<lparr>run_failure :=
     Some (case run_failure (runs d ! i) of None \<Rightarrow> err | Some e \<Rightarrow> e)\<rparr>]\<rparr>"

definition apply_owned_delivery_step ::
    "'t TrackerPort \<Rightarrow> DeliveryStep \<Rightarrow> nat option \<Rightarrow> ('b, 't) RunState \<Rightarrow> ('b, 't) RunState" where
  "apply_owned_delivery_step T step run_owner d = (case step of
     ReconciliationRequired err \<Rightarrow> snd (with_app T (\<lambda>s. ((), stop_for_reconciliation err s)) d)
   | Fenced signal \<Rightarrow> fence_active_run T signal d
   | Delivered \<Rightarrow> (case run_owner of Some i \<Rightarrow> on_tracker (tracker_retire T 1) i d | None \<Rightarrow> d)
   | Unpersisted err \<Rightarrow> (case run_owner of
       Some i \<Rightarrow> on_tracker (tracker_retire T 1) i (note_failure err i d) | None \<Rightarrow> d))"

text \<open>The run a delivery belongs to; \<open>None\<close> when it is stale, \<open>Some None\<close> when it belongs to no run.\<close>

definition delivery_owner :: "JobSource \<Rightarrow> uuid option \<Rightarrow> ('b, 't) RunState \<Rightarrow> nat option option" where
  "delivery_owner source correlation d = (case source of
     ScheduledBatch \<Rightarrow> (case owner_slot d of
         Some i \<Rightarrow> if Some (run_uuid (runs d ! i)) = correlation then Some (Some i) else None
       | None \<Rightarrow> None)
   | InitialLoad \<Rightarrow> Some None
   | External \<Rightarrow> Some None)"

datatype Iteration = Break | Skipped | Applied "nat option" DeliveryStep | Died

definition deliver_classified ::
    "'t TrackerPort \<Rightarrow> ('b AppState \<Rightarrow> DeliveryStep option \<times> 'b AppState) \<Rightarrow> JobSource \<Rightarrow> uuid option \<Rightarrow>
     ('b, 't) RunState \<Rightarrow> Iteration \<times> ('b, 't) RunState" where
  "deliver_classified T handle source correlation d = (case with_app T ensure_write_admission d of
     (Inl _, d) \<Rightarrow> (Break, d)
   | (Inr _, d) \<Rightarrow> (case delivery_owner source correlation d of
       None \<Rightarrow> (Skipped, d)
     | Some run_owner \<Rightarrow>
         if run_is_fenced d then (Skipped, d)
         else (case with_app T handle d of
             (None, d) \<Rightarrow> (Died, d)
           | (Some step, d) \<Rightarrow> (Applied run_owner step, apply_owned_delivery_step T step run_owner d))))"

text \<open>One iteration of \<open>delivery_loop_with_recorder\<close> on the outcome it received.\<close>

definition deliver ::
    "'b AppEnv \<Rightarrow> 't TrackerPort \<Rightarrow> Draws \<Rightarrow> JobOutcome \<Rightarrow> ('b, 't) RunState \<Rightarrow> Iteration \<times> ('b, 't) RunState" where
  "deliver env T draws outcome d = (case with_app T ensure_write_admission d of
     (Inl _, d) \<Rightarrow> (Break, d)
   | (Inr _, d) \<Rightarrow> (case outcome of
       Unhandled \<Rightarrow> (Skipped, d)
     | Success domain_key result source correlation \<Rightarrow>
         deliver_classified T (handle_success_outcome env draws domain_key result) source correlation d
     | Failure domain_key err source correlation \<Rightarrow>
         deliver_classified T (handle_failure_outcome env draws domain_key) source correlation d))"

subsection \<open>Batches\<close>

datatype BatchError = Persistence PersistenceError | RunOwnershipLost

datatype RunStart = RunFenced FenceSignal | Published nat

datatype RetireOutcome = Retired "FenceSignal option" | NotOwner

definition publish_batch ::
    "'t TrackerPort \<Rightarrow> uuid \<Rightarrow> nat \<Rightarrow> nat \<Rightarrow> ('b, 't) RunState \<Rightarrow> RunStart \<times> ('b, 't) RunState" where
  "publish_batch T batch_id expected accepted d = (case begin_run d of
     (Some signal, d) \<Rightarrow> (RunFenced signal, d)
   | (None, d) \<Rightarrow>
       (let i = length (runs d);
            d = d\<lparr>runs := runs d @ [\<lparr>run_uuid = batch_id, run_tracker = tracker_new T expected, run_failure = None\<rparr>]\<rparr>;
            d = set_active_batch_tracker (Some i) d;
            d = d\<lparr>owner_slot := Some i\<rparr>;
            d = on_tracker (tracker_retire T (expected - accepted)) i d
        in (case with_app T ensure_write_admission d of
              (Inl _, d) \<Rightarrow> (Published i, on_tracker (tracker_drain T) i d)
            | (Inr _, d) \<Rightarrow> (Published i, d))))"

definition retire_batch :: "nat \<Rightarrow> ('b, 't) RunState \<Rightarrow> RetireOutcome \<times> ('b, 't) RunState" where
  "retire_batch run_owner d =
     (if owner_slot d = Some run_owner
      then (case take_run_fence (set_active_batch_tracker None (d\<lparr>owner_slot := None\<rparr>)) of
              (fence, d) \<Rightarrow> (Retired fence, d))
      else (NotOwner, d))"

definition batch_outcome :: "RetireOutcome \<Rightarrow> BatchError + bool" where
  "batch_outcome outcome = (case outcome of
     Retired (Some signal) \<Rightarrow> Inl (Persistence (into_error signal))
   | Retired None \<Rightarrow> Inr True
   | NotOwner \<Rightarrow> Inl RunOwnershipLost)"

text \<open>
  The places where \<open>enqueue_and_await_batch\<close> gives way to other tasks: before the batch is retired because every job was
  rejected, while it waits for the tracker, and after it retired the batch until the partial publisher has ended.
\<close>

datatype Sweep = Outside | Rejected nat | Awaiting nat | Closing nat RetireOutcome

definition begin_batch ::
    "'t TrackerPort \<Rightarrow> uuid \<Rightarrow> string list \<Rightarrow> string list \<Rightarrow> ('b, 't) RunState \<Rightarrow>
     ((BatchError + bool) + Sweep) \<times> ('b, 't) RunState" where
  "begin_batch T batch_id jobs accepted d = (case with_app T ensure_write_admission d of
     (Inl err, d) \<Rightarrow> (Inl (Inl (Persistence err)), d)
   | (Inr _, d) \<Rightarrow> (case publish_batch T batch_id (length jobs) (length accepted) d of
       (RunFenced signal, d) \<Rightarrow> (Inl (batch_outcome (Retired (Some signal))), d)
     | (Published i, d) \<Rightarrow> (Inr (if accepted = [] \<and> jobs \<noteq> [] then Rejected i else Awaiting i), d)))"

definition abort_rejected :: "nat \<Rightarrow> ('b, 't) RunState \<Rightarrow> (BatchError + bool) \<times> ('b, 't) RunState" where
  "abort_rejected i d = (case retire_batch i d of
     (outcome, d) \<Rightarrow> (case batch_outcome outcome of Inl e \<Rightarrow> Inl e | Inr _ \<Rightarrow> Inr False, d))"

definition take_failure :: "nat \<Rightarrow> ('b, 't) RunState \<Rightarrow> PersistenceError option \<times> ('b, 't) RunState" where
  "take_failure i d = (run_failure (runs d ! i), d\<lparr>runs := (runs d)[i := (runs d ! i)\<lparr>run_failure := None\<rparr>]\<rparr>)"

definition close_batch ::
    "'t TrackerPort \<Rightarrow> nat \<Rightarrow> RetireOutcome \<Rightarrow> ('b, 't) RunState \<Rightarrow> (BatchError + bool) \<times> ('b, 't) RunState" where
  "close_batch T i fence d = (case with_app T ensure_write_admission d of
     (Inl err, d) \<Rightarrow> (Inl (Persistence err), d)
   | (Inr _, d) \<Rightarrow> (case batch_outcome fence of
       Inl e \<Rightarrow> (Inl e, d)
     | Inr _ \<Rightarrow> (case take_failure i d of
         (Some err, d) \<Rightarrow> (Inl (Persistence err), d)
       | (None, d) \<Rightarrow> (Inr True, d))))"

subsection \<open>Resynchronisation\<close>

text \<open>\<open>resync_event_store\<close> reads the three stores again in order; the first failure is returned.\<close>

definition resync_event_store :: "'b AppEnv \<Rightarrow> 'b AppState \<Rightarrow> bool \<times> 'b AppState" where
  "resync_event_store env s = (case ensure_write_admission s of
     (Inl _, s) \<Rightarrow> (False, s)
   | (Inr _, s) \<Rightarrow> (case resync_from_authoritative (adapter env) (repo_schema env) (event_store s) of
       (Inl _, st) \<Rightarrow> (False, s\<lparr>event_store := st\<rparr>)
     | (Inr _, st) \<Rightarrow>
         (let s = s\<lparr>event_store := st\<rparr>
          in case resync_from_authoritative (adapter env) (org_schema env) (org_event_store s) of
               (Inl _, st) \<Rightarrow> (False, s\<lparr>org_event_store := st\<rparr>)
             | (Inr _, st) \<Rightarrow>
                 (let s = s\<lparr>org_event_store := st\<rparr>
                  in case resync_from_authoritative (adapter env) (team_schema env) (team_event_store s) of
                       (r, st) \<Rightarrow> (\<not> isl r, s\<lparr>team_event_store := st\<rparr>)))))"

subsection \<open>Interleavings\<close>

text \<open>
  The tasks together: the state they share, where the sweep stands (there is one at a time, under the sweep lock),
  whether the delivery task still runs, the accepted jobs whose outcome has not reached it, and what has happened; a
  job is settled with the outcome that was delivered and the step that was taken on it. The delivery task ends when it
  finds writing stopped, when it panics, and when its channel is closed, which happens when the workers are gone,
  whatever jobs they still held.
\<close>

datatype Event =
  Accepted nat "string list"
| Settled nat string JobOutcome DeliveryStep
| Ended "nat option" "BatchError + bool"
| Abandoned nat

record ('b, 't) System =
  shared :: "('b, 't) RunState"
  sweep :: Sweep
  delivering :: bool
  in_flight :: "(uuid \<times> string) multiset"
  history :: "Event list"

definition System_start :: "'b AppState \<Rightarrow> ('b, 't) System" where
  "System_start s = \<lparr>shared = \<lparr>app = s, run_fence = None, runs = [], owner_slot = None, tracker_slot = None\<rparr>,
     sweep = Outside, delivering = True, in_flight = {#}, history = []\<rparr>"

definition begin_step ::
    "'t TrackerPort \<Rightarrow> uuid \<Rightarrow> string list \<Rightarrow> string list \<Rightarrow> ('b, 't) System \<Rightarrow> ('b, 't) System" where
  "begin_step T batch_id jobs accepted S = (case begin_batch T batch_id jobs accepted (shared S) of
     (Inl result, d) \<Rightarrow> S\<lparr>shared := d, history := history S @ [Ended None result]\<rparr>
   | (Inr phase, d) \<Rightarrow> S\<lparr>shared := d, sweep := phase, in_flight := in_flight S + image_mset (Pair batch_id) (mset accepted),
       history := history S @ [Accepted (length (runs (shared S))) accepted]\<rparr>)"

text \<open>The delivery task takes an outcome; a job of a batch is in flight no longer.\<close>

definition deliver_step ::
    "'b AppEnv \<Rightarrow> 't TrackerPort \<Rightarrow> Draws \<Rightarrow> JobOutcome \<Rightarrow> string \<Rightarrow> ('b, 't) System \<Rightarrow> ('b, 't) System" where
  "deliver_step env T draws outcome domain_key S = (case deliver env T draws outcome (shared S) of
     (Break, d) \<Rightarrow> S\<lparr>shared := d, delivering := False\<rparr>
   | (Died, d) \<Rightarrow> S\<lparr>shared := d, delivering := False\<rparr>
   | (Skipped, d) \<Rightarrow> S\<lparr>shared := d\<rparr>
   | (Applied (Some i) step, d) \<Rightarrow> S\<lparr>shared := d, history := history S @ [Settled i domain_key outcome step]\<rparr>
   | (Applied None step, d) \<Rightarrow> S\<lparr>shared := d\<rparr>)"

definition outcome_of :: "uuid \<Rightarrow> string \<Rightarrow> JobOutcome \<Rightarrow> bool" where
  "outcome_of batch_id domain_key outcome = (case outcome of
     Success key _ source correlation \<Rightarrow> key = domain_key \<and> source = ScheduledBatch \<and> correlation = Some batch_id
   | Failure key _ source correlation \<Rightarrow> key = domain_key \<and> source = ScheduledBatch \<and> correlation = Some batch_id
   | Unhandled \<Rightarrow> False)"

definition of_no_batch :: "JobOutcome \<Rightarrow> bool" where
  "of_no_batch outcome = (case outcome of
     Success _ _ source _ \<Rightarrow> source \<noteq> ScheduledBatch | Failure _ _ source _ \<Rightarrow> source \<noteq> ScheduledBatch | Unhandled \<Rightarrow> True)"

inductive system_step :: "'b AppEnv \<Rightarrow> 't TrackerPort \<Rightarrow> ('b, 't) System \<Rightarrow> ('b, 't) System \<Rightarrow> bool"
  for env :: "'b AppEnv" and T :: "'t TrackerPort" where
  sweep_begins: "\<lbrakk>sweep S = Outside; jobs \<noteq> []; mset accepted \<subseteq># mset jobs;
     batch_id \<notin> run_uuid ` set (runs (shared S))\<rbrakk> \<Longrightarrow>
     system_step env T S (begin_step T batch_id jobs accepted S)"
| sweep_aborts: "\<lbrakk>sweep S = Rejected i; abort_rejected i (shared S) = (result, d)\<rbrakk> \<Longrightarrow>
     system_step env T S (S\<lparr>shared := d, sweep := Outside, history := history S @ [Ended (Some i) result]\<rparr>)"
| wait_returns: "\<lbrakk>sweep S = Awaiting i; tracker_done T (run_tracker (runs (shared S) ! i));
     retire_batch i (shared S) = (outcome, d)\<rbrakk> \<Longrightarrow>
     system_step env T S (S\<lparr>shared := d, sweep := Closing i outcome\<rparr>)"
| sweep_ends: "\<lbrakk>sweep S = Closing i outcome; close_batch T i outcome (shared S) = (result, d)\<rbrakk> \<Longrightarrow>
     system_step env T S (S\<lparr>shared := d, sweep := Outside, history := history S @ [Ended (Some i) result]\<rparr>)"
| sweep_dropped: "sweep S = Rejected i \<or> sweep S = Awaiting i \<or> sweep S = Closing i outcome \<Longrightarrow>
     system_step env T S (S\<lparr>sweep := Outside, history := history S @ [Abandoned i]\<rparr>)"
| job_delivered: "\<lbrakk>delivering S; (batch_id, domain_key) \<in># in_flight S; outcome_of batch_id domain_key outcome\<rbrakk> \<Longrightarrow>
     system_step env T S (deliver_step env T draws outcome domain_key
       (S\<lparr>in_flight := in_flight S - {#(batch_id, domain_key)#}\<rparr>))"
| channel_closes: "delivering S \<Longrightarrow> system_step env T S (S\<lparr>delivering := False\<rparr>)"
| other_delivered: "\<lbrakk>delivering S; of_no_batch outcome\<rbrakk> \<Longrightarrow>
     system_step env T S (deliver_step env T draws outcome domain_key S)"
| other_write: "system_step env T S (S\<lparr>shared := snd (with_app T (run_write env w) (shared S))\<rparr>)"
| other_stop: "system_step env T S
     (S\<lparr>shared := snd (with_app T (\<lambda>s. ((), stop_for_reconciliation err s)) (shared S))\<rparr>)"
| other_resync: "system_step env T S (S\<lparr>shared := snd (with_app T (resync_event_store env) (shared S))\<rparr>)"

definition system_run :: "'b AppEnv \<Rightarrow> 't TrackerPort \<Rightarrow> 'b AppState \<Rightarrow> ('b, 't) System \<Rightarrow> bool" where
  "system_run env T s S \<longleftrightarrow> (system_step env T)\<^sup>*\<^sup>* (System_start s) S"

text \<open>The keys a batch was accepted with, and those that were settled with a result of the given kind.\<close>

definition accepted_keys :: "nat \<Rightarrow> Event list \<Rightarrow> string list" where
  "accepted_keys i h = concat (map (\<lambda>e. case e of Accepted j keys \<Rightarrow> if j = i then keys else [] | _ \<Rightarrow> []) h)"

definition settled_keys :: "(DeliveryStep \<Rightarrow> bool) \<Rightarrow> nat \<Rightarrow> Event list \<Rightarrow> string list" where
  "settled_keys P i h = concat (map (\<lambda>e. case e of
     Settled j key outcome step \<Rightarrow> if j = i \<and> P step then [key] else [] | _ \<Rightarrow> []) h)"

definition flying :: "nat \<Rightarrow> ('b, 't) System \<Rightarrow> string multiset" where
  "flying i S = image_mset snd (filter_mset (\<lambda>j. fst j = run_uuid (runs (shared S) ! i)) (in_flight S))"

subsection \<open>Operations of the application state\<close>

text \<open>
  What every operation of the application state does to the admission slot and to the orders to drain: it never opens
  the slot again, it orders nothing while the slot stays open, and it orders the run to drain when it closes the slot.
\<close>

definition shut :: "'b AppState \<Rightarrow> bool" where
  "shut s \<longleftrightarrow> write_admission s \<noteq> None"

definition app_ok :: "'b AppState \<Rightarrow> bool" where
  "app_ok s \<longleftrightarrow> \<not> admission_poisoned s \<and> (projection_poisoned s \<longrightarrow> shut s)"

definition progress :: "'b AppState \<Rightarrow> 'b AppState \<Rightarrow> bool" where
  "progress s s' \<longleftrightarrow> app_ok s' \<and> (shut s \<longrightarrow> shut s') \<and>
     (\<not> shut s' \<longrightarrow> scheduled_run s' = scheduled_run s \<and> batch_tracker s' = batch_tracker s) \<and>
     (\<not> shut s \<longrightarrow> shut s' \<longrightarrow> scheduled_run s' \<noteq> Some False) \<and>
     (scheduled_run s \<noteq> Some False \<longrightarrow> scheduled_run s' \<noteq> Some False) \<and>
     (scheduled_run s' = None \<longleftrightarrow> scheduled_run s = None)"

definition tame :: "('b AppState \<Rightarrow> 'a \<times> 'b AppState) \<Rightarrow> bool" where
  "tame f \<longleftrightarrow> (\<forall>s. app_ok s \<longrightarrow> progress s (snd (f s)))"

lemma progress_refl: "app_ok s \<Longrightarrow> progress s s"
  by (simp add: progress_def)

lemma progress_trans: "progress s t \<Longrightarrow> progress t u \<Longrightarrow> progress s u"
  unfolding progress_def by metis

lemma ensure_open: "app_ok s \<Longrightarrow> ensure_write_admission s = (if shut s then Inl PersistenceError.Indeterminate else Inr (), s)"
  by (auto simp: ensure_write_admission_def lock_write_admission_def app_ok_def shut_def split: option.split)

lemma tame_ensure: "tame ensure_write_admission"
  by (simp add: tame_def ensure_open progress_refl)

lemma tame_stop: "tame (\<lambda>s. ((), stop_for_reconciliation err s))"
  by (auto simp: tame_def progress_def app_ok_def shut_def stop_for_reconciliation_def lock_write_admission_def
      notify_and_drain_def Let_def split: option.splits)

lemma tame_resync: "tame (resync_event_store env)"
  unfolding tame_def progress_def app_ok_def shut_def
  by (auto simp: resync_event_store_def ensure_write_admission_def lock_write_admission_def Let_def
      split: prod.splits sum.splits option.splits)

text \<open>The body of a write touches neither the run slots nor, unless it panics, the poison of the projection.\<close>

definition keeps_runs :: "('b, 'a) write_body \<Rightarrow> bool" where
  "keeps_runs m \<longleftrightarrow> (\<forall>t. scheduled_run (snd (snd (m t))) = scheduled_run (snd t) \<and>
     batch_tracker (snd (snd (m t))) = batch_tracker (snd t) \<and>
     (fst (m t) \<noteq> Panicked \<longrightarrow> projection_poisoned (snd (snd (m t))) = projection_poisoned (snd t)))"

lemma keeps_runs_then: "keeps_runs m \<Longrightarrow> (\<And>x. keeps_runs (k x)) \<Longrightarrow> keeps_runs (body_then m k)"
  unfolding keeps_runs_def body_then_def
  by (auto split: prod.splits Outcome.splits sum.splits) (metis Outcome.distinct(1) fst_conv snd_conv)+

lemma keeps_runs_steps:
  "keeps_runs (body_try r)" "keeps_runs (body_expect r')" "keeps_runs (set_landed l)"
  "keeps_runs (on_event_store m1)" "keeps_runs (on_org_store m2)" "keeps_runs (on_team_store m3)"
  "keeps_runs (into_projection f)"
  by (auto simp: keeps_runs_def body_defs split: prod.splits sum.splits option.splits)

lemma run_write_body:
  obtains body where "run_write env w = admitted_write body" and "keeps_runs body" and "keeps_slot body"
proof (cases w)
qed (auto simp: handler_defs fold_repository_event_into_projection_def
    fold_org_event_into_projection_def fold_team_event_into_projection_def
    intro!: that keeps_runs_then keeps_runs_steps keeps_slot_then keeps_slot_steps)

lemma run_write_tame: "tame (run_write env w)"
proof -
  obtain body where body: "run_write env w = admitted_write body" "keeps_runs body" "keeps_slot body"
    by (rule run_write_body)
  show ?thesis unfolding tame_def
  proof (intro allI impI)
    fix s :: "'a AppState" assume "app_ok s"
    obtain r l t where t: "body (False, s) = (r, l, t)" by (metis prod_cases3)
    have "scheduled_run t = scheduled_run s" "batch_tracker t = batch_tracker s"
      "r \<noteq> Panicked \<Longrightarrow> projection_poisoned t = projection_poisoned s"
      "write_admission t = write_admission s" "admission_poisoned t = admission_poisoned s"
      using body(2,3) t unfolding keeps_runs_def keeps_slot_def by (metis fst_conv snd_conv)+
    with \<open>app_ok s\<close> t show "progress s (snd (run_write env w s))"
      by (auto simp: body(1) progress_def app_ok_def shut_def admitted_write_def lock_write_admission_def
          stop_for_reconciliation_def notify_and_drain_def Let_def split: option.splits Outcome.splits sum.splits)
  qed
qed

lemma record_repo_progress: "app_ok s \<Longrightarrow> progress s (snd (record_repo env k v n t i s))"
  using run_write_tame [of env "RecordRepo k v n t i"] by (simp add: tame_def)

lemma record_repo_panic: "app_ok s \<Longrightarrow> record_repo env k v n t i s = (Panicked, s') \<Longrightarrow> shut s'"
  using admission_after(2) [of s env "RecordRepo k v n t i" Panicked s'] by (simp add: app_ok_def shut_def)

lemma write_with_policy_sync_eq: "write_with_policy_sync = write_with_policy"
  by (simp add: fun_eq_iff write_with_policy_def write_with_policy_sync_def)

lemma recorder_progress:
  assumes "app_ok s" and "RepoRecorder_record_repo env ids k v n t s = (r, s')"
  shows "progress s s' \<and> (r = None \<longrightarrow> shut s')"
proof -
  define I where "I st \<longleftrightarrow> progress s (fst st) \<and> (fst (snd st) \<longrightarrow> shut (fst st))"
    for st :: "'a AppState \<times> bool \<times> nat"
  define op where "op = attempt_write (\<lambda>m. record_repo env k v n t (ids m))"
  have step: "I (snd (op st))" if "I st" for st :: "'a AppState \<times> bool \<times> nat"
  proof -
    obtain u p m where st: "st = (u, p, m)" by (metis prod_cases3)
    obtain o' u' where o': "record_repo env k v n t (ids m) u = (o', u')" by force
    have "app_ok u" using that st by (simp add: I_def progress_def)
    then have "progress s u'" using that st o' record_repo_progress [of u env k v n t "ids m"]
      by (auto simp: I_def intro: progress_trans)
    with o' st record_repo_panic [OF \<open>app_ok u\<close>] show ?thesis
      by (auto simp: I_def op_def attempt_write_def split: Outcome.splits)
  qed
  have "I (snd (write_with_policy op (s, False, 0)))"
    by (rule write_with_policy_invariant [where I = I, OF step]) (simp_all add: I_def progress_refl assms(1))
  then show ?thesis using assms(2)
    by (auto simp: RepoRecorder_record_repo_def write_with_policy_sync_eq op_def I_def split: prod.splits if_splits)
qed

lemma handlers_progress:
  assumes "app_ok s"
  shows "handle_success_outcome env draws k v s = (r, s') \<Longrightarrow> progress s s' \<and> (r = None \<longrightarrow> shut s')"
    and "handle_failure_outcome env draws k s = (r, s') \<Longrightarrow> progress s s' \<and> (r = None \<longrightarrow> shut s')"
proof -
  assume "handle_success_outcome env draws k v s = (r, s')"
  then show "progress s s' \<and> (r = None \<longrightarrow> shut s')"
    using recorder_progress [OF assms] by (auto simp: handle_success_outcome_def split: prod.splits)
next
  have "projection_get s k = None \<Longrightarrow> shut s"
    using assms by (auto simp: app_ok_def readers_agree(1) [of s k])
  moreover assume "handle_failure_outcome env draws k s = (r, s')"
  ultimately show "progress s s' \<and> (r = None \<longrightarrow> shut s')"
    using recorder_progress [OF assms] progress_refl [OF assms]
    by (auto simp: handle_failure_outcome_def split: prod.splits option.splits)
qed

definition handles :: "('b AppState \<Rightarrow> DeliveryStep option \<times> 'b AppState) \<Rightarrow> bool" where
  "handles h \<longleftrightarrow> tame h \<and> (\<forall>s s'. app_ok s \<longrightarrow> h s = (None, s') \<longrightarrow> shut s')"

lemma handlers_handle: "handles (handle_success_outcome env draws k v)" "handles (handle_failure_outcome env draws k)"
  using handlers_progress unfolding handles_def tame_def by (metis prod.collapse)+

subsection \<open>The slots\<close>

text \<open>
  The invariant of the shared state: both slots refer to the same run, which exists, identifiers are not used twice,
  and once the run is fenced or writing has stopped nobody waits for its tracker any more.
\<close>

definition slots_ok :: "('t \<Rightarrow> nat) \<Rightarrow> ('b, 't) RunState \<Rightarrow> bool" where
  "slots_ok left d \<longleftrightarrow> app_ok (app d) \<and> tracker_slot d = owner_slot d \<and> distinct (map run_uuid (runs d)) \<and>
     (\<forall>i. owner_slot d = Some i \<longrightarrow> i < length (runs d) \<and>
        (run_is_fenced d \<or> shut (app d) \<longrightarrow> left (run_tracker (runs d ! i)) = 0))"

text \<open>What an operation of the application state leaves as it is, and when it leaves all runs as they are.\<close>

definition keeps_bookkeeping :: "('b, 't) RunState \<Rightarrow> ('b, 't) RunState \<Rightarrow> bool" where
  "keeps_bookkeeping d d' \<longleftrightarrow> run_fence d' = run_fence d \<and> owner_slot d' = owner_slot d \<and> tracker_slot d' = tracker_slot d \<and>
     map run_uuid (runs d') = map run_uuid (runs d) \<and> map run_failure (runs d') = map run_failure (runs d) \<and>
     (shut (app d) \<longrightarrow> shut (app d')) \<and> (\<not> shut (app d') \<longrightarrow> runs d' = runs d)"

lemma map_update_same:
  assumes "f y = f (xs ! i)"
  shows "map f (xs[i := y]) = map f xs"
proof (cases "i < length xs")
  case True
  then show ?thesis using assms by (simp add: map_update) (metis list_update_id nth_map)
qed (simp add: list_update_beyond)

lemma on_tracker_keeps:
  "map run_uuid (runs (on_tracker f i d)) = map run_uuid (runs d)"
  "map run_failure (runs (on_tracker f i d)) = map run_failure (runs d)"
  "length (runs (on_tracker f i d)) = length (runs d)"
  "app (on_tracker f i d) = app d" "run_fence (on_tracker f i d) = run_fence d"
  "owner_slot (on_tracker f i d) = owner_slot d" "tracker_slot (on_tracker f i d) = tracker_slot d"
  by (simp_all add: on_tracker_def map_update_same)

lemma on_tracker_nth:
  "i < length (runs d) \<Longrightarrow> run_tracker (runs (on_tracker f i d) ! i) = f (run_tracker (runs d ! i))"
  "j \<noteq> i \<Longrightarrow> runs (on_tracker f i d) ! j = runs d ! j"
  by (auto simp: on_tracker_def nth_list_update)

lemma drain_slot_keeps:
  "map run_uuid (runs (drain_slot T b slot d)) = map run_uuid (runs d)"
  "map run_failure (runs (drain_slot T b slot d)) = map run_failure (runs d)"
  "length (runs (drain_slot T b slot d)) = length (runs d)"
  "app (drain_slot T b slot d) = app d" "run_fence (drain_slot T b slot d) = run_fence d"
  "owner_slot (drain_slot T b slot d) = owner_slot d" "tracker_slot (drain_slot T b slot d) = tracker_slot d"
  by (auto simp: drain_slot_def on_tracker_keeps split: option.split)

lemma drain_slot_left:
  assumes "tracker_ok T left" and "i < length (runs d)"
  shows "left (run_tracker (runs (drain_slot T b slot d) ! i)) =
     (if slot = Some i \<and> b = Some True then 0 else left (run_tracker (runs d ! i)))"
  using assms by (auto simp: drain_slot_def tracker_ok_def on_tracker_nth split: option.split)

lemma with_app_keeps:
  assumes "tame f" and "slots_ok left d" and "tracker_ok T left" and "with_app T f d = (x, d')"
  shows "slots_ok left d' \<and> keeps_bookkeeping d d' \<and> (\<exists>s. f s = (x, app d') \<and> app_ok s \<and> (shut s \<longleftrightarrow> shut (app d)))"
proof -
  define s where "s = (app d)\<lparr>scheduled_run := map_option (\<lambda>_. False) (owner_slot d),
     batch_tracker := map_option (\<lambda>_. False) (tracker_slot d)\<rparr>"
  obtain s' where s': "f s = (x, s')" and d': "d' = drain_slot T (batch_tracker s') (tracker_slot d)
      (drain_slot T (scheduled_run s') (owner_slot d) (d\<lparr>app := s'\<rparr>))"
    using assms(4) by (auto simp: with_app_def s_def split: prod.splits)
  have s: "app_ok s" "shut s \<longleftrightarrow> shut (app d)"
    using assms(2) by (auto simp: slots_ok_def s_def app_ok_def shut_def)
  then have pr: "progress s s'" using assms(1) s' unfolding tame_def by (metis snd_conv)
  have kept: "app d' = s'" "run_fence d' = run_fence d" "owner_slot d' = owner_slot d" "tracker_slot d' = tracker_slot d"
    "map run_uuid (runs d') = map run_uuid (runs d)" "map run_failure (runs d') = map run_failure (runs d)"
    "length (runs d') = length (runs d)"
    by (simp_all add: d' drain_slot_keeps)
  have same: "runs d' = runs d" if "\<not> shut s'"
    using pr that by (auto simp: progress_def d' drain_slot_def s_def split: option.split)
  have zero: "left (run_tracker (runs d' ! i)) = 0"
    if i: "owner_slot d = Some i" and "run_is_fenced d \<or> shut s'" for i
  proof -
    have "i < length (runs d)" and old: "run_is_fenced d \<or> shut (app d) \<longrightarrow> left (run_tracker (runs d ! i)) = 0"
      using assms(2) i by (auto simp: slots_ok_def)
    moreover have "scheduled_run s' = Some True" if "shut s'" "\<not> shut s"
      using pr that i unfolding progress_def s_def by (cases "scheduled_run s'") auto
    ultimately show ?thesis using that(2) s(2) i pr
      by (auto simp: d' drain_slot_left [OF assms(3)] drain_slot_keeps)
  qed
  from assms(2) kept same zero pr s s' show ?thesis
    unfolding slots_ok_def keeps_bookkeeping_def progress_def run_is_fenced_def by auto
qed

subsection \<open>Iterations of the delivery task\<close>

lemma keeps_bookkeeping_refl [simp]: "keeps_bookkeeping d d"
  by (simp add: keeps_bookkeeping_def)

lemma keeps_bookkeeping_trans: "keeps_bookkeeping d e \<Longrightarrow> keeps_bookkeeping e f \<Longrightarrow> keeps_bookkeeping d f"
  unfolding keeps_bookkeeping_def by metis

lemma keeps_bookkeeping_length: "keeps_bookkeeping d d' \<Longrightarrow> length (runs d') = length (runs d)"
  unfolding keeps_bookkeeping_def by (metis length_map)

lemma keeps_bookkeeping_nth:
  assumes "keeps_bookkeeping d d'" and "i < length (runs d)"
  shows "run_uuid (runs d' ! i) = run_uuid (runs d ! i)" "run_failure (runs d' ! i) = run_failure (runs d ! i)"
  using assms keeps_bookkeeping_length [OF assms(1)] unfolding keeps_bookkeeping_def by (metis nth_map)+

lemma with_ensure:
  assumes "slots_ok left d" and "tracker_ok T left" and "with_app T ensure_write_admission d = (x, d')"
  shows "slots_ok left d'" "keeps_bookkeeping d d'" "shut (app d') \<longleftrightarrow> shut (app d)" "x = Inl err \<Longrightarrow> shut (app d')"
    "x = Inr u \<Longrightarrow> \<not> shut (app d')"
proof -
  from with_app_keeps [OF tame_ensure assms] obtain s where "slots_ok left d'" "keeps_bookkeeping d d'"
    "ensure_write_admission s = (x, app d')" "app_ok s" "shut s \<longleftrightarrow> shut (app d)" by blast
  then show "slots_ok left d'" "keeps_bookkeeping d d'" "shut (app d') \<longleftrightarrow> shut (app d)" "x = Inl err \<Longrightarrow> shut (app d')"
    "x = Inr u \<Longrightarrow> \<not> shut (app d')"
    by (auto simp: ensure_open split: if_splits)
qed

lemma delivery_owner_keeps:
  assumes "slots_ok left d" and "keeps_bookkeeping d d'"
  shows "delivery_owner source corr d' = delivery_owner source corr d"
  using assms keeps_bookkeeping_nth(1) [OF assms(2)]
  by (auto simp: delivery_owner_def keeps_bookkeeping_def slots_ok_def split: JobSource.split option.split)

fun outcome_source :: "JobOutcome \<Rightarrow> (JobSource \<times> uuid option) option" where
  "outcome_source (Success _ _ source correlation) = Some (source, correlation)"
| "outcome_source (Failure _ _ source correlation) = Some (source, correlation)"
| "outcome_source Unhandled = None"

definition ready :: "JobOutcome \<Rightarrow> ('b, 't) RunState \<Rightarrow> nat option \<Rightarrow> bool" where
  "ready outcome d run \<longleftrightarrow> \<not> run_is_fenced d \<and>
     (\<exists>source corr. outcome_source outcome = Some (source, corr) \<and> delivery_owner source corr d = Some run)"

lemma deliver_classified_cases:
  assumes "slots_ok left d" and "tracker_ok T left" and "handles h" and "deliver_classified T h source corr d = (it, d')"
  obtains (stop) "it = Break \<or> it = Died" "slots_ok left d'" "keeps_bookkeeping d d'" "shut (app d')"
  | (skip) "it = Skipped" "slots_ok left d'" "keeps_bookkeeping d d'" "run_is_fenced d \<or> delivery_owner source corr d = None"
  | (applied) run step e where "it = Applied run step" "slots_ok left e" "keeps_bookkeeping d e"
      "\<not> run_is_fenced d" "delivery_owner source corr d = Some run" "d' = apply_owned_delivery_step T step run e"
proof -
  obtain x e where e: "with_app T ensure_write_admission d = (x, e)" by force
  note ens = with_ensure [OF assms(1,2) e]
  note own = delivery_owner_keeps [OF assms(1) ens(2), of source corr]
  have fen: "run_is_fenced e = run_is_fenced d" using ens(2) by (simp add: run_is_fenced_def keeps_bookkeeping_def)
  obtain y f where f: "with_app T h e = (y, f)" by force
  have "tame h" using assms(3) by (simp add: handles_def)
  from with_app_keeps [OF this ens(1) assms(2) f] obtain s where hf: "slots_ok left f" "keeps_bookkeeping e f"
    "h s = (y, app f)" "app_ok s" by blast
  note trans = keeps_bookkeeping_trans [OF ens(2) hf(2)]
  have "y = None \<Longrightarrow> shut (app f)" using hf(3,4) assms(3) by (auto simp: handles_def)
  with assms(4) e f ens hf trans own fen stop skip applied show ?thesis
    by (auto simp: deliver_classified_def split: sum.splits option.splits if_splits)
qed

lemma deliver_cases:
  assumes "slots_ok left d" and "tracker_ok T left" and "deliver env T draws outcome d = (it, d')"
  obtains (stop) "it = Break \<or> it = Died" "slots_ok left d'" "keeps_bookkeeping d d'" "shut (app d')"
  | (skip) "it = Skipped" "slots_ok left d'" "keeps_bookkeeping d d'"
      "run_is_fenced d \<or> (\<forall>run. \<not> ready outcome d run)"
  | (applied) run step e where "it = Applied run step" "slots_ok left e" "keeps_bookkeeping d e"
      "ready outcome d run" "d' = apply_owned_delivery_step T step run e"
proof -
  obtain x e where e: "with_app T ensure_write_admission d = (x, e)" by force
  note ens = with_ensure [OF assms(1,2) e]
  have fen: "run_is_fenced e = run_is_fenced d" using ens(2) by (simp add: run_is_fenced_def keeps_bookkeeping_def)
  show ?thesis
  proof (cases "shut (app e) \<or> outcome = Unhandled")
    case True
    with assms(3) e ens stop skip show ?thesis
      by (auto simp: deliver_def ready_def split: sum.splits JobOutcome.splits)
  next
    case False
    then obtain u where u: "x = Inr u" using ens(4) by (cases x) auto
    from False obtain h source corr where h: "handles h" "outcome_source outcome = Some (source, corr)"
      "deliver_classified T h source corr e = (it, d')"
      using assms(3) e u by (auto simp: deliver_def intro: handlers_handle split: JobOutcome.splits)
    from deliver_classified_cases [OF ens(1) assms(2) h(1,3)] show ?thesis
    proof cases
      case 1 with stop keeps_bookkeeping_trans [OF ens(2)] show ?thesis by blast
    next
      case 2 with skip keeps_bookkeeping_trans [OF ens(2)] h(2) fen delivery_owner_keeps [OF assms(1) ens(2)] show ?thesis
        by (auto simp: ready_def)
    next
      case 3 with applied keeps_bookkeeping_trans [OF ens(2)] h(2) fen delivery_owner_keeps [OF assms(1) ens(2)] show ?thesis
        unfolding ready_def by metis
    qed
  qed
qed

lemma apply_step_ok:
  assumes "slots_ok left d" and "tracker_ok T left" and "run = None \<or> run = owner_slot d"
    and d': "d' = apply_owned_delivery_step T step run d"
  shows "slots_ok left d' \<and> owner_slot d' = owner_slot d \<and> map run_uuid (runs d') = map run_uuid (runs d) \<and>
    (shut (app d) \<longrightarrow> shut (app d'))"
proof (cases step)
  case (ReconciliationRequired err)
  with with_app_keeps [OF tame_stop assms(1,2) prod.collapse [symmetric]] show ?thesis
    by (auto simp: d' apply_owned_delivery_step_def keeps_bookkeeping_def)
next
  case (Fenced signal)
  with assms show ?thesis
    by (auto simp: d' apply_owned_delivery_step_def fence_active_run_def slots_ok_def drain_slot_keeps
        drain_slot_left [OF assms(2)])
next
  case Delivered
  with assms show ?thesis
    by (auto simp: d' apply_owned_delivery_step_def slots_ok_def on_tracker_keeps on_tracker_nth tracker_ok_def
        run_is_fenced_def split: option.splits)
next
  case (Unpersisted err)
  have "map run_uuid (runs (note_failure err i d)) = map run_uuid (runs d)" for i
    by (simp add: note_failure_def map_update_same)
  moreover have "run_tracker (runs (note_failure err i d) ! j) = run_tracker (runs d ! j)" for i j
    by (cases "i < length (runs d)") (auto simp: note_failure_def nth_list_update list_update_beyond)
  moreover have "length (runs (note_failure err i d)) = length (runs d)" "app (note_failure err i d) = app d"
    "run_fence (note_failure err i d) = run_fence d" "owner_slot (note_failure err i d) = owner_slot d"
    "tracker_slot (note_failure err i d) = tracker_slot d" for i
    by (simp_all add: note_failure_def)
  ultimately show ?thesis using assms Unpersisted
    by (auto simp: d' apply_owned_delivery_step_def slots_ok_def on_tracker_keeps on_tracker_nth tracker_ok_def
        run_is_fenced_def split: option.splits)
qed

subsection \<open>The invariant of the system\<close>

fun retires :: "DeliveryStep \<Rightarrow> bool" where
  "retires Delivered = True"
| "retires (Unpersisted _) = True"
| "retires _ = False"

fun unrecorded :: "DeliveryStep \<Rightarrow> bool" where
  "unrecorded (Unpersisted _) = True"
| "unrecorded _ = False"

fun event_run :: "Event \<Rightarrow> nat option" where
  "event_run (Accepted i _) = Some i"
| "event_run (Settled i _ _ _) = Some i"
| "event_run (Ended i _) = i"
| "event_run (Abandoned i) = Some i"

text \<open>While its run is neither fenced nor stopped, the tracker of a batch counts the jobs that are in flight, and every
  accepted job is either in flight or settled.\<close>

definition accounted :: "('t \<Rightarrow> nat) \<Rightarrow> ('b, 't) System \<Rightarrow> nat \<Rightarrow> bool" where
  "accounted left S i \<longleftrightarrow> (\<not> run_is_fenced (shared S) \<and> \<not> shut (app (shared S)) \<longrightarrow>
     left (run_tracker (runs (shared S) ! i)) = size (flying i S) \<and>
     mset (accepted_keys i (history S)) = flying i S + mset (settled_keys retires i (history S)))"

definition failure_noted :: "('b, 't) System \<Rightarrow> nat \<Rightarrow> bool" where
  "failure_noted S i \<longleftrightarrow> (run_failure (runs (shared S) ! i) = None \<longleftrightarrow> settled_keys unrecorded i (history S) = [])"

definition all_recorded :: "('b, 't) System \<Rightarrow> nat \<Rightarrow> bool" where
  "all_recorded S i \<longleftrightarrow> mset (accepted_keys i (history S)) = mset (settled_keys (\<lambda>step. step = Delivered) i (history S))"

definition closing_ok :: "('b, 't) System \<Rightarrow> nat \<Rightarrow> RetireOutcome \<Rightarrow> bool" where
  "closing_ok S i outcome \<longleftrightarrow> i < length (runs (shared S)) \<and> owner_slot (shared S) \<noteq> Some i \<and> outcome \<noteq> NotOwner \<and>
     failure_noted S i \<and> (outcome = Retired None \<longrightarrow> \<not> shut (app (shared S)) \<longrightarrow>
       mset (accepted_keys i (history S)) = mset (settled_keys retires i (history S)))"

definition awaited :: "('b, 't) System \<Rightarrow> nat \<Rightarrow> bool" where
  "awaited S i \<longleftrightarrow> sweep S = Rejected i \<or> sweep S = Awaiting i"

definition system_ok :: "('t \<Rightarrow> nat) \<Rightarrow> ('b, 't) System \<Rightarrow> bool" where
  "system_ok left S \<longleftrightarrow> slots_ok left (shared S) \<and>
     (\<forall>job. job \<in># in_flight S \<longrightarrow> fst job \<in> run_uuid ` set (runs (shared S))) \<and>
     (\<forall>i. awaited S i \<longrightarrow> owner_slot (shared S) = Some i \<and> accounted left S i) \<and>
     (\<forall>i. owner_slot (shared S) = Some i \<longrightarrow> failure_noted S i) \<and>
     (\<forall>i outcome. sweep S = Closing i outcome \<longrightarrow> closing_ok S i outcome) \<and>
     (\<forall>e i. e \<in> set (history S) \<longrightarrow> event_run e = Some i \<longrightarrow> i < length (runs (shared S))) \<and>
     (\<forall>i. Ended (Some i) (Inr True) \<in> set (history S) \<longrightarrow> owner_slot (shared S) \<noteq> Some i \<and> all_recorded S i)"

lemmas system_defs = system_ok_def accounted_def failure_noted_def all_recorded_def closing_ok_def awaited_def

lemma system_okD:
  assumes "system_ok left S"
  shows "slots_ok left (shared S)"
    and "job \<in># in_flight S \<Longrightarrow> fst job \<in> run_uuid ` set (runs (shared S))"
    and "awaited S i \<Longrightarrow> owner_slot (shared S) = Some i" and "awaited S i \<Longrightarrow> accounted left S i"
    and "owner_slot (shared S) = Some i \<Longrightarrow> failure_noted S i"
    and "sweep S = Closing i outcome \<Longrightarrow> closing_ok S i outcome"
    and "e \<in> set (history S) \<Longrightarrow> event_run e = Some i \<Longrightarrow> i < length (runs (shared S))"
    and "Ended (Some i) (Inr True) \<in> set (history S) \<Longrightarrow> owner_slot (shared S) \<noteq> Some i"
    and "Ended (Some i) (Inr True) \<in> set (history S) \<Longrightarrow> all_recorded S i"
    and "owner_slot (shared S) = Some i \<Longrightarrow> i < length (runs (shared S))"
  using assms unfolding system_ok_def slots_ok_def by blast+

lemma system_okI:
  assumes "slots_ok left (shared S)"
    and "\<And>job. job \<in># in_flight S \<Longrightarrow> fst job \<in> run_uuid ` set (runs (shared S))"
    and "\<And>i. awaited S i \<Longrightarrow> owner_slot (shared S) = Some i \<and> accounted left S i"
    and "\<And>i. owner_slot (shared S) = Some i \<Longrightarrow> failure_noted S i"
    and "\<And>i outcome. sweep S = Closing i outcome \<Longrightarrow> closing_ok S i outcome"
    and "\<And>e i. e \<in> set (history S) \<Longrightarrow> event_run e = Some i \<Longrightarrow> i < length (runs (shared S))"
    and "\<And>i. Ended (Some i) (Inr True) \<in> set (history S) \<Longrightarrow> owner_slot (shared S) \<noteq> Some i \<and> all_recorded S i"
  shows "system_ok left S"
  using assms unfolding system_ok_def by blast

lemma keys_append [simp]:
  "accepted_keys i (g @ h) = accepted_keys i g @ accepted_keys i h"
  "settled_keys P i (g @ h) = settled_keys P i g @ settled_keys P i h"
  by (simp_all add: accepted_keys_def settled_keys_def)

lemma keys_single [simp]:
  "accepted_keys i [Accepted j ks] = (if j = i then ks else [])" "settled_keys P i [Accepted j ks] = []"
  "accepted_keys i [Settled j k out st] = []" "settled_keys P i [Settled j k out st] = (if j = i \<and> P st then [k] else [])"
  "accepted_keys i [Ended k' r] = []" "settled_keys P i [Ended k' r] = []"
  "accepted_keys i [Abandoned j] = []" "settled_keys P i [Abandoned j] = []"
  by (simp_all add: accepted_keys_def settled_keys_def)

lemma no_keys:
  "\<forall>e\<in>set h. \<forall>j. event_run e = Some j \<longrightarrow> j \<noteq> i \<Longrightarrow> accepted_keys i h = []"
  "\<forall>e\<in>set h. \<forall>j. event_run e = Some j \<longrightarrow> j \<noteq> i \<Longrightarrow> settled_keys P i h = []"
  by (fastforce simp: accepted_keys_def settled_keys_def split: Event.split)+

lemma retires_iff: "retires step \<longleftrightarrow> step = Delivered \<or> unrecorded step"
  by (cases step) simp_all

lemma retires_split:
  "settled_keys unrecorded i h = [] \<Longrightarrow> settled_keys retires i h = settled_keys (\<lambda>step. step = Delivered) i h"
  by (induction h) (auto simp: settled_keys_def retires_iff split: Event.splits if_splits)

lemma flying_keeps:
  assumes "map run_uuid (runs (shared S')) = map run_uuid (runs (shared S))" and "i < length (runs (shared S))"
    and "in_flight S' = in_flight S"
  shows "flying i S' = flying i S"
proof -
  have "run_uuid (runs (shared S') ! i) = run_uuid (runs (shared S) ! i)"
    using assms(1,2) map_eq_imp_length_eq [OF assms(1)] by (metis nth_map)
  with assms(3) show ?thesis by (simp add: flying_def)
qed

lemma system_start_ok: "app_ok s \<Longrightarrow> system_ok left (System_start s)"
  by (simp add: system_defs System_start_def slots_ok_def)

text \<open>Steps that change the shared state only by operations of the application state.\<close>

lemma system_ok_keeps:
  assumes ok: "system_ok left S" and keep: "keeps_bookkeeping (shared S) d" and "slots_ok left d"
  shows "system_ok left (S\<lparr>shared := d\<rparr>)" (is "system_ok left ?S")
proof -
  have u: "map run_uuid (runs d) = map run_uuid (runs (shared S))" "length (runs d) = length (runs (shared S))"
    "owner_slot d = owner_slot (shared S)" "run_is_fenced d = run_is_fenced (shared S)"
    "shut (app (shared S)) \<Longrightarrow> shut (app d)" "\<not> shut (app d) \<Longrightarrow> runs d = runs (shared S)"
    using keep keeps_bookkeeping_length [OF keep] by (auto simp: keeps_bookkeeping_def run_is_fenced_def)
  have ids: "run_uuid ` set (runs d) = run_uuid ` set (runs (shared S))" using u(1) by (metis set_map)
  have fl: "flying i ?S = flying i S" if "i < length (runs (shared S))" for i
    using flying_keeps [of ?S S i] that u(1) by simp
  have fail: "failure_noted ?S i \<longleftrightarrow> failure_noted S i" if "i < length (runs (shared S))" for i
    using keeps_bookkeeping_nth(2) [OF keep that] by (simp add: failure_noted_def)
  have aw: "awaited ?S = awaited S" by (simp add: awaited_def fun_eq_iff)
  have acc: "accounted left ?S i" if "accounted left S i" "i < length (runs (shared S))" for i
    using that fl u(4-6) by (auto simp: accounted_def)
  note D = system_okD [OF ok]
  show ?thesis
  proof (rule system_okI)
    show "owner_slot (shared ?S) = Some i \<and> accounted left ?S i" if "awaited ?S i" for i
      using that acc [of i] D(3,4,10) by (simp add: aw u(3))
    show "closing_ok ?S i outcome" if "sweep ?S = Closing i outcome" for i outcome
      using D(6) [of i outcome] that fail [of i] u by (auto simp: closing_ok_def)
    show "owner_slot (shared ?S) \<noteq> Some i \<and> all_recorded ?S i" if "Ended (Some i) (Inr True) \<in> set (history ?S)" for i
      using D(8,9) that by (simp add: all_recorded_def u(3))
  qed (use D(2,5,7,10) fail u ids assms(3) in auto)
qed

text \<open>A job may leave the air unsettled when nobody counts it: its run is not awaited, or is fenced or stopped.\<close>

lemma system_ok_lose:
  assumes ok: "system_ok left S"
    and "\<And>i. awaited S i \<Longrightarrow> run_uuid (runs (shared S) ! i) = batch_id \<Longrightarrow> run_is_fenced (shared S) \<or> shut (app (shared S))"
  shows "system_ok left (S\<lparr>in_flight := in_flight S - {#(batch_id, key)#}\<rparr>)" (is "system_ok left ?S")
proof -
  have "flying i ?S = flying i S" if "run_uuid (runs (shared S) ! i) \<noteq> batch_id" for i
    using that by (simp add: flying_def)
  then have acc: "accounted left ?S i" if "awaited S i" "accounted left S i" for i
    using assms(2) [OF that(1)] that(2) by (cases "run_uuid (runs (shared S) ! i) = batch_id") (auto simp: accounted_def)
  note D = system_okD [OF ok]
  show ?thesis
  proof (rule system_okI)
    show "owner_slot (shared ?S) = Some i \<and> accounted left ?S i" if "awaited ?S i" for i
      using that acc [of i] D(3,4) by (simp add: awaited_def)
    show "fst job \<in> run_uuid ` set (runs (shared ?S))" if "job \<in># in_flight ?S" for job
      using that D(2) [of job] by (auto dest: in_diffD)
  qed (use D in \<open>auto simp: failure_noted_def all_recorded_def closing_ok_def\<close>)
qed

lemma system_ok_stop: "system_ok left S \<Longrightarrow> system_ok left (S\<lparr>delivering := False\<rparr>)"
  by (auto simp: system_defs flying_def)

lemma map_eq_nth: "map f xs = map f ys \<Longrightarrow> i < length ys \<Longrightarrow> f (xs ! i) = f (ys ! i)"
  using map_eq_imp_length_eq [of f xs f ys] by (metis nth_map)

lemma note_failure_nth:
  "i < length (runs d) \<Longrightarrow> run_failure (runs (note_failure err j d) ! i) = None \<longleftrightarrow> run_failure (runs d ! i) = None \<and> j \<noteq> i"
  "length (runs (note_failure err j d)) = length (runs d)"
  by (cases "i = j"; simp add: note_failure_def)+

lemma apply_step_failure:
  assumes "i < length (runs d)"
  shows "run_failure (runs (apply_owned_delivery_step T step run d) ! i) = None \<longleftrightarrow>
    run_failure (runs d ! i) = None \<and> \<not> (unrecorded step \<and> run = Some i)"
proof -
  have app: "map run_failure (runs (snd (with_app T f d))) = map run_failure (runs d)"
    for f :: "'b AppState \<Rightarrow> unit \<times> 'b AppState"
    by (simp add: with_app_def drain_slot_keeps split: prod.split)
  have slot: "map run_failure (runs (drain_slot T b slot (d\<lparr>run_fence := r\<rparr>))) = map run_failure (runs d)" for b slot r
    by (simp add: drain_slot_keeps)
  have track: "map run_failure (runs (on_tracker f j e)) = map run_failure (runs e)" for f j and e :: "('b, 'a) RunState"
    by (simp add: on_tracker_keeps)
  show ?thesis using assms
    by (cases step; cases run) (simp_all add: apply_owned_delivery_step_def fence_active_run_def map_eq_nth [OF app]
        map_eq_nth [OF slot] map_eq_nth [OF track] note_failure_nth)
qed

lemma apply_step_other:
  "j \<noteq> i \<Longrightarrow> retires step \<Longrightarrow> runs (apply_owned_delivery_step T step (Some i) d) ! j = runs d ! j"
  by (cases step) (simp_all add: apply_owned_delivery_step_def on_tracker_nth note_failure_def)

lemma apply_step_retires:
  assumes "tracker_ok T left" and "i < length (runs d)" and "retires step"
  shows "left (run_tracker (runs (apply_owned_delivery_step T step (Some i) d) ! i)) = left (run_tracker (runs d ! i)) - 1"
    and "run_is_fenced (apply_owned_delivery_step T step (Some i) d) = run_is_fenced d"
  using assms by (cases step; simp add: apply_owned_delivery_step_def on_tracker_nth on_tracker_keeps note_failure_nth
      tracker_ok_def run_is_fenced_def; simp add: note_failure_def)+

lemma apply_step_marks:
  assumes "slots_ok left d" and "tracker_ok T left" and "\<not> retires step"
  shows "run_is_fenced (apply_owned_delivery_step T step run d) \<or> shut (app (apply_owned_delivery_step T step run d))"
proof (cases step)
  case (ReconciliationRequired err)
  then show ?thesis
    by (auto simp: apply_owned_delivery_step_def with_app_def drain_slot_keeps stop_for_reconciliation_def shut_def
        notify_and_drain_def Let_def split: option.split)
qed (use assms in \<open>auto simp: apply_owned_delivery_step_def fence_active_run_def run_is_fenced_def drain_slot_keeps\<close>)

lemma apply_step_free:
  "retires step \<Longrightarrow> apply_owned_delivery_step T step None d = d"
  by (cases step) (simp_all add: apply_owned_delivery_step_def)

subsection \<open>Every step keeps the invariant\<close>

text \<open>A settled job of the run \<open>i\<close>, which owns the slot.\<close>

lemma system_ok_settled:
  assumes ok: "system_ok left S" and "tracker_ok T left" and e: "slots_ok left e" "keeps_bookkeeping (shared S) e"
    and owner: "owner_slot (shared S) = Some i" "run_uuid (runs (shared S) ! i) = batch_id"
    and fly: "(batch_id, key) \<in># in_flight S" and "\<not> run_is_fenced (shared S)"
  shows "system_ok left (S\<lparr>in_flight := in_flight S - {#(batch_id, key)#},
     shared := apply_owned_delivery_step T step (Some i) e, history := history S @ [Settled i key outcome step]\<rparr>)"
    (is "system_ok left ?S")
proof -
  let ?e = "apply_owned_delivery_step T step (Some i) e"
  have own_e: "owner_slot e = Some i" and len: "length (runs e) = length (runs (shared S))"
    using e(2) owner keeps_bookkeeping_length [OF e(2)] by (simp_all add: keeps_bookkeeping_def)
  have i: "i < length (runs (shared S))" using ok owner by (simp add: system_ok_def slots_ok_def)
  have ap: "slots_ok left ?e" "owner_slot ?e = owner_slot e" "map run_uuid (runs ?e) = map run_uuid (runs e)"
    "shut (app e) \<Longrightarrow> shut (app ?e)"
    using apply_step_ok [OF e(1) assms(2) _ refl, of "Some i" step] own_e by auto
  have uuids: "map run_uuid (runs ?e) = map run_uuid (runs (shared S))" using ap(3) e(2) by (simp add: keeps_bookkeeping_def)
  then have len': "length (runs ?e) = length (runs (shared S))" by (metis length_map)
  have ids: "run_uuid ` set (runs ?e) = run_uuid ` set (runs (shared S))" using uuids by (metis set_map)
  have ui: "run_uuid (runs ?e ! i) = batch_id" using map_eq_nth [OF uuids i] owner(2) by simp
  have shut_mono: "shut (app (shared S)) \<Longrightarrow> shut (app ?e)" using ap(4) e(2) by (simp add: keeps_bookkeeping_def)
  have fl: "flying i ?S + {#key#} = flying i S"
  proof -
    obtain F where "in_flight S = add_mset (batch_id, key) F" using fly by (metis multi_member_split)
    with owner(2) ui show ?thesis by (simp add: flying_def)
  qed
  have acc: "accounted left ?S i" if "accounted left S i"
  proof (cases "retires step")
    case False
    from apply_step_marks [OF e(1) assms(2) this, of "Some i"] show ?thesis unfolding accounted_def by auto
  next
    case True
    have "runs e = runs (shared S)" "\<not> shut (app (shared S))" if "\<not> shut (app ?e)"
      using that ap(4) shut_mono e(2) by (auto simp: keeps_bookkeeping_def)
    moreover have "size (flying i S) = Suc (size (flying i ?S))" by (simp flip: fl)
    ultimately show ?thesis using that True apply_step_retires [OF assms(2) _ True, of i e] assms(8) i fl
      by (auto simp: accounted_def)
  qed
  have "failure_noted ?S i" using apply_step_failure [of i e T step "Some i"] keeps_bookkeeping_nth(2) [OF e(2) i] ok owner i len
    by (auto simp: failure_noted_def system_ok_def)
  moreover have "failure_noted ?S j = failure_noted S j" if "j \<noteq> i" "j < length (runs (shared S))" for j
    using apply_step_failure [of j e T step "Some i"] keeps_bookkeeping_nth(2) [OF e(2) that(2)] that len
    by (auto simp: failure_noted_def)
  moreover have "all_recorded ?S j = all_recorded S j" if "j \<noteq> i" for j using that by (simp add: all_recorded_def)
  ultimately have fail: "failure_noted ?S i" "j \<noteq> i \<Longrightarrow> j < length (runs (shared S)) \<Longrightarrow> failure_noted ?S j = failure_noted S j"
    "j \<noteq> i \<Longrightarrow> all_recorded ?S j = all_recorded S j" for j by blast+
  note D = system_okD [OF ok]
  show ?thesis
  proof (rule system_okI)
    show "fst job \<in> run_uuid ` set (runs (shared ?S))" if "job \<in># in_flight ?S" for job
      using that D(2) [of job] ids by (auto dest: in_diffD)
    show "owner_slot (shared ?S) = Some j \<and> accounted left ?S j" if "awaited ?S j" for j
      using that acc D(3,4) [of j] owner own_e ap(2) by (auto simp: awaited_def)
    show "closing_ok ?S j outcome" if "sweep ?S = Closing j outcome" for j outcome
      using D(6) [of j outcome] that fail(2) [of j] owner own_e ap(2) len' shut_mono by (auto simp: closing_ok_def)
    show "j < length (runs (shared ?S))" if "event \<in> set (history ?S)" "event_run event = Some j" for event j
      using that D(7) [of event j] i len' by auto
    show "owner_slot (shared ?S) \<noteq> Some j \<and> all_recorded ?S j" if "Ended (Some j) (Inr True) \<in> set (history ?S)" for j
      using that D(8,9) [of j] fail(3) [of j] owner own_e ap(2) by auto
  qed (use fail(1) ap(1,2) own_e shut_mono in auto)
qed

lemma ready_job:
  assumes "outcome_of batch_id key outcome"
  shows "ready outcome d run \<longleftrightarrow> \<not> run_is_fenced d \<and>
    (\<exists>i. run = Some i \<and> owner_slot d = Some i \<and> run_uuid (runs d ! i) = batch_id)"
  using assms by (cases outcome) (auto simp: outcome_of_def ready_def delivery_owner_def split: option.splits if_splits)

lemma ready_other: "of_no_batch outcome \<Longrightarrow> ready outcome d run \<Longrightarrow> run = None"
  by (cases outcome) (auto simp: of_no_batch_def ready_def delivery_owner_def split: JobSource.splits)

lemma job_delivered_ok:
  assumes ok: "system_ok left S" and T: "tracker_ok T left" and fly: "(batch_id, key) \<in># in_flight S"
    and oc: "outcome_of batch_id key outcome"
  shows "system_ok left (deliver_step env T draws outcome key (S\<lparr>in_flight := in_flight S - {#(batch_id, key)#}\<rparr>))"
proof -
  note D = system_okD [OF ok]
  obtain it d where d: "deliver env T draws outcome (shared S) = (it, d)" by force
  from D(1) T d show ?thesis
  proof (cases rule: deliver_cases)
    case stop
    have "system_ok left ((S\<lparr>shared := d\<rparr>)\<lparr>in_flight := in_flight (S\<lparr>shared := d\<rparr>) - {#(batch_id, key)#}, delivering := False\<rparr>)"
      by (intro system_ok_stop system_ok_lose system_ok_keeps ok) (use stop in auto)
    moreover have "S\<lparr>shared := d, in_flight := F, delivering := False\<rparr> = S\<lparr>in_flight := F, shared := d, delivering := False\<rparr>" for F
      by (cases S) simp
    ultimately show ?thesis using stop(1) d by (auto simp: deliver_step_def)
  next
    case skip
    have "system_ok left ((S\<lparr>in_flight := in_flight S - {#(batch_id, key)#}\<rparr>)\<lparr>shared := d\<rparr>)"
    proof (intro system_ok_keeps system_ok_lose ok)
      fix i assume "awaited S i" "run_uuid (runs (shared S) ! i) = batch_id"
      with skip(4) D(3) [of i] ready_job [OF oc, of "shared S" "Some i"]
      show "run_is_fenced (shared S) \<or> shut (app (shared S))" by blast
    qed (use skip in auto)
    with skip(1) d show ?thesis by (simp add: deliver_step_def)
  next
    case (applied run step e)
    then obtain i where i: "run = Some i" "owner_slot (shared S) = Some i" "run_uuid (runs (shared S) ! i) = batch_id"
      "\<not> run_is_fenced (shared S)" using ready_job [OF oc] by blast
    from system_ok_settled [OF ok T applied(2,3) i(2,3) fly i(4), where step = step and outcome = outcome] applied(1,5) i(1) d show ?thesis
      by (simp add: deliver_step_def)
  qed
qed

lemma other_delivered_ok:
  assumes ok: "system_ok left S" and T: "tracker_ok T left" and oc: "of_no_batch outcome"
  shows "system_ok left (deliver_step env T draws outcome key S)"
proof -
  note D = system_okD [OF ok]
  obtain it d where d: "deliver env T draws outcome (shared S) = (it, d)" by force
  from D(1) T d show ?thesis
  proof (cases rule: deliver_cases)
    case stop
    have "system_ok left ((S\<lparr>shared := d\<rparr>)\<lparr>delivering := False\<rparr>)"
      by (intro system_ok_stop system_ok_keeps ok) (use stop in auto)
    with stop(1) d show ?thesis by (auto simp: deliver_step_def)
  next
    case skip
    with system_ok_keeps [OF ok skip(3,2)] d show ?thesis by (simp add: deliver_step_def)
  next
    case (applied run step e)
    then have run: "run = None" using ready_other [OF oc] by blast
    have keep: "system_ok left (S\<lparr>shared := e\<rparr>)" by (rule system_ok_keeps [OF ok applied(3,2)])
    show ?thesis
    proof (cases "retires step")
      case True
      with keep applied(1,5) run d show ?thesis by (simp add: deliver_step_def apply_step_free)
    next
      case False
      let ?S = "S\<lparr>shared := d\<rparr>"
      have ap: "slots_ok left d" "owner_slot d = owner_slot e" "map run_uuid (runs d) = map run_uuid (runs e)"
        "shut (app e) \<Longrightarrow> shut (app d)" "run_is_fenced d \<or> shut (app d)"
        using apply_step_ok [OF applied(2) T _ refl, of run step] apply_step_marks [OF applied(2) T False, of run]
          applied(5) run by auto
      have len: "length (runs d) = length (runs e)" using ap(3) by (metis length_map)
      have ids: "run_uuid ` set (runs d) = run_uuid ` set (runs e)" using ap(3) by (metis set_map)
      have fail: "failure_noted ?S i = failure_noted (S\<lparr>shared := e\<rparr>) i" if "i < length (runs e)" for i
        using apply_step_failure [OF that, of T step None] applied(5) run by (simp add: failure_noted_def)
      note E = system_okD [OF keep]
      have "system_ok left ?S"
      proof (rule system_okI)
        show "owner_slot (shared ?S) = Some i \<and> accounted left ?S i" if "awaited ?S i" for i
          using that E(3) [of i] ap(2,5) by (auto simp: awaited_def accounted_def)
        show "closing_ok ?S i outcome" if "sweep ?S = Closing i outcome" for i outcome
          using that E(6) [of i outcome] fail [of i] ap(2,4) len by (auto simp: closing_ok_def)
        show "owner_slot (shared ?S) \<noteq> Some i \<and> all_recorded ?S i" if "Ended (Some i) (Inr True) \<in> set (history ?S)" for i
          using that E(8,9) [of i] ap(2) by (simp add: all_recorded_def)
      qed (use E(2,5,7,10) ap fail ids len in auto)
      with applied(1) run d show ?thesis by (simp add: deliver_step_def)
    qed
  qed
qed

lemma begin_batch_cases:
  assumes "slots_ok left d" and T: "tracker_ok T left" and "length accepted \<le> length jobs"
    and "begin_batch T batch_id jobs accepted d = (r, d')"
  obtains (refused) err where "r = Inl (Inl (Persistence err))" "slots_ok left d'" "keeps_bookkeeping d d'"
  | (fenced) signal e where "r = Inl (Inl (Persistence (into_error signal)))" "run_fence d = Some signal" "slots_ok left e"
      "keeps_bookkeeping d e" "d' = e\<lparr>run_fence := None\<rparr>"
  | (published) run where "r = Inr (Rejected (length (runs d))) \<and> accepted = [] \<or> r = Inr (Awaiting (length (runs d)))"
      "\<not> shut (app d')" "\<not> run_is_fenced d'" "runs d' = runs d @ [run]" "run_uuid run = batch_id" "run_failure run = None"
      "left (run_tracker run) = length accepted" "owner_slot d' = Some (length (runs d))"
      "tracker_slot d' = Some (length (runs d))" "app_ok (app d')" "run_fence d = None" "\<not> shut (app d)"
proof -
  obtain x e where e: "with_app T ensure_write_admission d = (x, e)" by force
  note ens = with_ensure [OF assms(1) T e]
  have fence: "run_fence e = run_fence d" using ens(2) by (simp add: keeps_bookkeeping_def)
  show ?thesis
  proof (cases x)
    case (Inl err)
    with assms(4) e ens refused show ?thesis by (auto simp: begin_batch_def)
  next
    case (Inr u)
    then have opened: "\<not> shut (app e)" "runs e = runs d" using ens by (auto simp: keeps_bookkeeping_def)
    show ?thesis
    proof (cases "run_fence e")
      case (Some signal)
      then have "r = Inl (Inl (Persistence (into_error signal)))" "d' = e\<lparr>run_fence := None\<rparr>"
        using assms(4) e Inr
        by (simp_all add: begin_batch_def publish_batch_def begin_run_def take_run_fence_def batch_outcome_def)
      with fenced ens(1,2) Some fence show ?thesis by simp
    next
      case None
      define run where "run = \<lparr>run_uuid = batch_id,
        run_tracker = tracker_retire T (length jobs - length accepted) (tracker_new T (length jobs)), run_failure = None\<rparr>"
      define g where "g = e\<lparr>run_fence := None, tracker_slot := Some (length (runs e)),
        owner_slot := Some (length (runs e)), runs := runs e @ [run]\<rparr>"
      have "app_ok (app e)" using ens(1) by (simp add: slots_ok_def)
      then have same: "with_app T ensure_write_admission g = (Inr (), g\<lparr>app := (app g)\<lparr>scheduled_run := Some False, batch_tracker := Some False\<rparr>\<rparr>)"
        using opened(1) by (simp add: with_app_def ensure_write_admission_def lock_write_admission_def app_ok_def shut_def g_def drain_slot_def)
      have "left (run_tracker run) = length accepted" using T assms(3) by (simp add: tracker_ok_def run_def)
      with assms(4) e Inr None same published [of run] opened \<open>app_ok (app e)\<close> ens(3) fence show ?thesis
        by (auto simp: begin_batch_def publish_batch_def begin_run_def take_run_fence_def set_active_batch_tracker_def
            on_tracker_def Let_def g_def run_def shut_def app_ok_def run_is_fenced_def)
    qed
  qed
qed

lemma sweep_begins_ok:
  assumes ok: "system_ok left S" and T: "tracker_ok T left" and outside: "sweep S = Outside"
    and sub: "mset accepted \<subseteq># mset jobs" and fresh: "batch_id \<notin> run_uuid ` set (runs (shared S))"
  shows "system_ok left (begin_step T batch_id jobs accepted S)"
proof -
  note D = system_okD [OF ok]
  have len: "length accepted \<le> length jobs" using size_mset_mono [OF sub] by simp
  obtain r d where d: "begin_batch T batch_id jobs accepted (shared S) = (r, d)" by force
  have ended: "system_ok left (R\<lparr>history := history R @ [Ended None (Inl err)]\<rparr>)" if "system_ok left R" for R :: "('b, 'a) System" and err
    using that by (auto simp: system_defs flying_def)
  from D(1) T len d show ?thesis
  proof (cases rule: begin_batch_cases)
    case (refused err)
    with ended [OF system_ok_keeps [OF ok refused(3,2)]] d show ?thesis by (simp add: begin_step_def)
  next
    case (fenced signal e)
    have "system_ok left (S\<lparr>shared := e\<rparr>)" by (rule system_ok_keeps [OF ok fenced(4,3)])
    then have "system_ok left (S\<lparr>shared := d\<rparr>)" using outside fenced(5)
      by (auto simp: system_defs slots_ok_def run_is_fenced_def)
    from ended [OF this] fenced(1) d show ?thesis by (simp add: begin_step_def)
  next
    case (published run)
    let ?i = "length (runs (shared S))"
    obtain phase where phase: "r = Inr phase" "phase = Rejected ?i \<or> phase = Awaiting ?i" using published(1) by auto
    define S' where "S' = begin_step T batch_id jobs accepted S"
    have S': "shared S' = d" "sweep S' = phase" "history S' = history S @ [Accepted ?i accepted]" "delivering S' = delivering S"
      "in_flight S' = in_flight S + image_mset (Pair batch_id) (mset accepted)"
      using d phase by (simp_all add: S'_def begin_step_def)
    have none: "accepted_keys ?i (history S) = []" "settled_keys P ?i (history S) = []" for P
      using D(7) by (fastforce intro: no_keys)+
    have old: "filter_mset (\<lambda>j. fst j = batch_id) (in_flight S) = {#}"
    proof -
      have "set_mset (filter_mset (\<lambda>j. fst j = batch_id) (in_flight S)) = {}" using D(2) fresh by fastforce
      then show ?thesis by (simp only: set_mset_eq_empty_iff)
    qed
    have fly: "flying ?i S' = mset accepted"
      using old published(4,5) by (simp add: flying_def S' image_mset.compositionality comp_def filter_mset_image_mset)
    have "system_ok left S'"
    proof (rule system_okI)
      show "slots_ok left (shared S')" using published D(1) fresh by (auto simp: S' slots_ok_def run_is_fenced_def nth_append)
      show "fst job \<in> run_uuid ` set (runs (shared S'))" if "job \<in># in_flight S'" for job
        using that D(2) [of job] published(4,5) by (auto simp: S')
      show "owner_slot (shared S') = Some i \<and> accounted left S' i" if "awaited S' i" for i
        using that phase(2) published fly none by (auto simp: awaited_def S' accounted_def)
      show "failure_noted S' i" if "owner_slot (shared S') = Some i" for i
        using that published none by (auto simp: S' failure_noted_def)
      show "closing_ok S' i outcome" if "sweep S' = Closing i outcome" for i outcome using that phase(2) by (auto simp: S')
      show "i < length (runs (shared S'))" if "e \<in> set (history S')" "event_run e = Some i" for e i
        using that D(7) [of e i] published(4) by (auto simp: S')
      show "owner_slot (shared S') \<noteq> Some i \<and> all_recorded S' i" if "Ended (Some i) (Inr True) \<in> set (history S')" for i
        using that D(7) [of "Ended (Some i) (Inr True)" i] D(9) [of i] published(8) by (auto simp: S' all_recorded_def)
    qed
    then show ?thesis by (simp add: S'_def)
  qed
qed

lemma retire_batch_owner:
  "owner_slot d = Some i \<Longrightarrow> retire_batch i d = (Retired (run_fence d), d\<lparr>owner_slot := None, tracker_slot := None, run_fence := None\<rparr>)"
  by (simp add: retire_batch_def take_run_fence_def set_active_batch_tracker_def)

lemma sweep_aborts_ok:
  assumes ok: "system_ok left S" and "sweep S = Rejected i" and "abort_rejected i (shared S) = (result, d)"
  shows "system_ok left (S\<lparr>shared := d, sweep := Outside, history := history S @ [Ended (Some i) result]\<rparr>)" (is "system_ok left ?S")
proof -
  note D = system_okD [OF ok]
  have owner: "owner_slot (shared S) = Some i" using D(3) assms(2) by (simp add: awaited_def)
  have d: "d = (shared S)\<lparr>owner_slot := None, tracker_slot := None, run_fence := None\<rparr>" and r: "result \<noteq> Inr True"
    using assms(3) by (auto simp: abort_rejected_def retire_batch_owner [OF owner] batch_outcome_def split: sum.splits option.splits)
  show ?thesis
  proof (rule system_okI)
    show "owner_slot (shared ?S) \<noteq> Some j \<and> all_recorded ?S j" if "Ended (Some j) (Inr True) \<in> set (history ?S)" for j
      using that r D(9) [of j] by (auto simp: d all_recorded_def)
    show "j < length (runs (shared ?S))" if "e \<in> set (history ?S)" "event_run e = Some j" for e j
      using that D(7) [of e j] D(10) [OF owner] by (auto simp: d)
  qed (use D(1,2) in \<open>auto simp: d slots_ok_def awaited_def\<close>)
qed

lemma wait_returns_ok:
  assumes ok: "system_ok left S" and T: "tracker_ok T left" and "sweep S = Awaiting i"
    and "tracker_done T (run_tracker (runs (shared S) ! i))" and "retire_batch i (shared S) = (outcome, d)"
  shows "system_ok left (S\<lparr>shared := d, sweep := Closing i outcome\<rparr>)" (is "system_ok left ?S")
proof -
  note D = system_okD [OF ok]
  have aw: "awaited S i" using assms(3) by (simp add: awaited_def)
  note owner = D(3) [OF aw]
  have d: "d = (shared S)\<lparr>owner_slot := None, tracker_slot := None, run_fence := None\<rparr>" and oc: "outcome = Retired (run_fence (shared S))"
    using assms(5) by (simp_all add: retire_batch_owner [OF owner])
  have "left (run_tracker (runs (shared S) ! i)) = 0" using T assms(4) by (simp add: tracker_ok_def)
  then have "closing_ok ?S i outcome"
    using D(4) [OF aw] D(5,10) [OF owner] by (auto simp: closing_ok_def d oc accounted_def failure_noted_def run_is_fenced_def)
  then show ?thesis
    by (intro system_okI) (use D(1,2,7,8,9) in \<open>auto simp: d slots_ok_def awaited_def all_recorded_def\<close>)
qed

lemma sweep_ends_ok:
  assumes ok: "system_ok left S" and T: "tracker_ok T left" and "sweep S = Closing i outcome"
    and close: "close_batch T i outcome (shared S) = (result, d)"
  shows "system_ok left (S\<lparr>shared := d, sweep := Outside, history := history S @ [Ended (Some i) result]\<rparr>)" (is "system_ok left ?S")
proof -
  note D = system_okD [OF ok]
  have C: "closing_ok S i outcome" using D(6) assms(3) .
  obtain x e where e: "with_app T ensure_write_admission (shared S) = (x, e)" by force
  note ens = with_ensure [OF D(1) T e]
  note E = system_okD [OF system_ok_keeps [OF ok ens(2,1)]]
  have C': "closing_ok (S\<lparr>shared := e\<rparr>) i outcome" using E(6) assms(3) by simp
  have open_same: "runs e = runs (shared S)" if "\<not> shut (app e)" using that ens(2) by (simp add: keeps_bookkeeping_def)
  have d: "d = e \<or> d = e\<lparr>runs := (runs e)[i := (runs e ! i)\<lparr>run_failure := None\<rparr>]\<rparr>"
    using close e by (auto simp: close_batch_def take_failure_def split: sum.splits option.splits)
  have fin: "all_recorded S i" if "result = Inr True"
  proof -
    have "outcome = Retired None" "\<not> shut (app e)" "run_failure (runs e ! i) = None"
      using close e that ens(5) by (auto simp: close_batch_def batch_outcome_def take_failure_def
          split: sum.splits option.splits RetireOutcome.splits)
    with C' show ?thesis using retires_split [of i "history S"]
      by (auto simp: closing_ok_def failure_noted_def all_recorded_def)
  qed
  have uuids: "map run_uuid (runs d) = map run_uuid (runs e)" "length (runs d) = length (runs e)"
    using d by (auto simp: map_update_same)
  have ids: "run_uuid ` set (runs d) = run_uuid ` set (runs e)" using uuids(1) by (metis set_map)
  have other: "runs d ! j = runs e ! j" if "j \<noteq> i" for j using d that by auto
  have rest: "app d = app e" "run_fence d = run_fence e" "owner_slot d = owner_slot e" "tracker_slot d = tracker_slot e"
    using d by auto
  show ?thesis
  proof (rule system_okI)
    have "slots_ok left e" by (rule ens(1))
    with C' show "slots_ok left (shared ?S)"
      using other uuids rest by (auto simp: slots_ok_def run_is_fenced_def closing_ok_def)
    show "failure_noted ?S j" if "owner_slot (shared ?S) = Some j" for j
    proof -
      have "j \<noteq> i" using that rest C' by (auto simp: closing_ok_def)
      with E(5) [of j] that other [of j] rest show ?thesis by (simp add: failure_noted_def)
    qed
    show "j < length (runs (shared ?S))" if "v \<in> set (history ?S)" "event_run v = Some j" for v j
      using that E(7) [of v j] C' uuids(2) by (auto simp: closing_ok_def)
    show "owner_slot (shared ?S) \<noteq> Some j \<and> all_recorded ?S j" if "Ended (Some j) (Inr True) \<in> set (history ?S)" for j
      using that E(8,9) [of j] fin C' rest by (auto simp: closing_ok_def all_recorded_def)
  qed (use E(2) ids rest in \<open>auto simp: awaited_def\<close>)
qed

lemma sweep_dropped_ok:
  assumes ok: "system_ok left S" and "sweep S = Rejected i \<or> sweep S = Awaiting i \<or> sweep S = Closing i outcome"
  shows "system_ok left (S\<lparr>sweep := Outside, history := history S @ [Abandoned i]\<rparr>)" (is "system_ok left ?S")
proof -
  note D = system_okD [OF ok]
  have "i < length (runs (shared S))"
    using assms(2) D(3,6,10) [of i] by (auto simp: awaited_def closing_ok_def)
  then show ?thesis
    by (intro system_okI) (use D(1,2,5,7,8,9) in \<open>auto simp: awaited_def failure_noted_def all_recorded_def\<close>)
qed

lemma system_step_ok:
  assumes "system_step env T S S'" and "system_ok left S" and "tracker_ok T left"
  shows "system_ok left S'"
proof -
  have app: "system_ok left (S\<lparr>shared := snd (with_app T f (shared S))\<rparr>)" if "tame f"
    for f :: "'a AppState \<Rightarrow> 'c \<times> 'a AppState"
    using with_app_keeps [OF that system_okD(1) [OF assms(2)] assms(3) prod.collapse [symmetric]]
    by (blast intro: system_ok_keeps [OF assms(2)])
  from assms(1) show ?thesis
    by cases (use assms(2,3) app [OF run_write_tame] app [OF tame_stop] app [OF tame_resync] in
      \<open>auto intro: system_ok_stop sweep_begins_ok sweep_aborts_ok wait_returns_ok sweep_ends_ok sweep_dropped_ok job_delivered_ok other_delivered_ok\<close>)
qed

lemma system_run_ok:
  assumes "system_run env T s S" and "app_ok s" and "tracker_ok T left"
  shows "system_ok left S"
  using assms(1) unfolding system_run_def
proof (induction rule: rtranclp_induct)
  case base
  then show ?case by (rule system_start_ok [OF assms(2)])
next
  case (step R R')
  then show ?case using system_step_ok assms(3) by blast
qed

subsection \<open>What a delivery records\<close>

text \<open>The state of the application is sound, and its stores are open as long as writing is.\<close>

definition open_app :: "'b AppState \<Rightarrow> bool" where
  "open_app s \<longleftrightarrow> app_ok s \<and> (\<not> shut s \<longrightarrow> stores_open s)"

definition traceless :: "'b AppState \<Rightarrow> 'b AppState \<Rightarrow> bool" where
  "traceless s t \<longleftrightarrow> cached (event_store t) = cached (event_store s) \<and>
     cached (org_event_store t) = cached (org_event_store s) \<and>
     cached (team_event_store t) = cached (team_event_store s) \<and> projection_state t = projection_state s"

lemma open_app_writes:
  assumes "open_app s" and "\<not> shut s"
  shows "admits s" and "unpoisoned s"
  using assms stores_open_unpoisoned [of s] by (auto simp: open_app_def app_ok_def shut_def admits_def)

lemma run_write_open_app: "open_app s \<Longrightarrow> open_app (snd (run_write env w s))"
  using run_write_tame [of env w] run_write_stays_open [of s env w] open_app_writes [of s]
  unfolding open_app_def tame_def progress_def
  by (metis admits_def app_ok_def shut_def)

lemma record_repo_open_app: "open_app s \<Longrightarrow> open_app (snd (record_repo env k v n t i s))"
  using run_write_open_app [of s env "RecordRepo k v n t i"] by simp

lemma attempt_open_app:
  assumes "open_app (fst st)"
  shows "open_app (fst (snd (attempt_write (\<lambda>m. record_repo env k v n t (ids m)) st)))"
proof -
  obtain u p m where st: "st = (u, p, m)" by (metis prod_cases3)
  obtain r u' where u': "record_repo env k v n t (ids m) u = (r, u')" by force
  with record_repo_open_app [of u env k v n t "ids m"] assms st show ?thesis
    by (auto simp: attempt_write_def split: Outcome.split)
qed

lemma recorder_open_app:
  assumes "open_app s" and "RepoRecorder_record_repo env ids k v n t s = (r, s')"
  shows "open_app s'"
  using write_with_policy_invariant [of "\<lambda>st. open_app (fst st)" "attempt_write (\<lambda>m. record_repo env k v n t (ids m))"
      "(s, False, 0)", OF attempt_open_app] assms
  by (auto simp: RepoRecorder_record_repo_def write_with_policy_sync_eq split: prod.splits)

lemma published_traceless:
  assumes "published env (RecordRepo k v n t i) u s'" and "traceless s u"
  shows "published env (RecordRepo k v n t i) s s'"
proof -
  obtain d k' ev where ev: "write_event env (RecordRepo k v n t i) = Some (d, k', ev)" and
    rest: "cached (event_store s') = cached (event_store u) @ new_row (adapter env) d k' ev (event_store u)"
    "cached (org_event_store s') = cached (org_event_store u) @ org_rows env k' ev"
    "cached (team_event_store s') = cached (team_event_store u) @ team_rows env d k' ev u"
    "fold_native_event (runtime env) d ev (projection_state u) = Some (projection_state s')"
    using assms(1) unfolding published_def by blast
  have d: "\<not> d" using ev by (auto split: sum.splits)
  have "new_row (adapter env) False k' ev (event_store u) = new_row (adapter env) False k' ev (event_store s)"
    "team_rows env False k' ev u = team_rows env False k' ev s"
    by (simp_all add: new_row_def team_rows_def split: DomainEvent.split)
  with ev rest d assms(2) show ?thesis
    unfolding published_def traceless_def by (intro exI [of _ d] exI [of _ k'] exI [of _ ev]) simp
qed

text \<open>A record that succeeds under the policy has been published; the attempts that failed before it left no trace.\<close>

lemma recorder_published:
  assumes "open_app s" and "RepoRecorder_record_repo env ids k v n t s = (Some (Inr ()), s')"
  shows "\<exists>i. published env (RecordRepo k v n t i) s s'"
proof -
  define op where "op = attempt_write (\<lambda>m. record_repo env k v n t (ids m))"
  define I where "I st \<longleftrightarrow> open_app (fst st) \<and> (\<not> shut (fst st) \<longrightarrow> traceless s (fst st))" for st :: "'a AppState \<times> bool \<times> nat"
  have fails: "I st'" if I: "I st" and op: "op st = (Inl e, st')" for st e st'
  proof -
    obtain u p m where st: "st = (u, p, m)" by (metis prod_cases3)
    obtain r u' where u': "record_repo env k v n t (ids m) u = (r, u')" by force
    have opened: "open_app u'" using record_repo_open_app [of u env k v n t "ids m"] I st u' by (simp add: I_def)
    have "traceless s u'" if "\<not> shut u'"
    proof -
      have u: "open_app u" "\<not> shut u" using I st that record_repo_progress [of u env k v n t "ids m"] u'
        by (auto simp: I_def open_app_def progress_def)
      have "unpublished u u'" using run_write_classified [OF open_app_writes [OF u], of env "RecordRepo k v n t (ids m)"] op st u'
        by (auto simp: classified_def op_def attempt_write_def split: Outcome.splits sum.splits)
      with u(2) that I st show ?thesis by (auto simp: I_def unpublished_def traceless_def shut_def)
    qed
    with opened op st u' show ?thesis by (auto simp: I_def op_def attempt_write_def split: Outcome.splits)
  qed
  obtain m where run: "write_with_policy op (s, False, 0) = (Inr (), s', False, m)"
    using assms(2) by (auto simp: RepoRecorder_record_repo_def write_with_policy_sync_eq op_def split: prod.splits if_splits)
  have "I (s, False, 0)" using assms(1) by (simp add: I_def traceless_def)
  then have "\<exists>st. I st \<and> op st = (Inr (), s', False, m)"
    using write_with_policy_last [where I = I, OF run] fails by blast
  then obtain u p m' where u: "I (u, p, m')" "op (u, p, m') = (Inr (), s', False, m)" by auto
  then have rec: "run_write env (RecordRepo k v n t (ids m')) u = (Completed (Inr ()), s')"
    by (auto simp: op_def attempt_write_def split: prod.splits Outcome.splits)
  have opened: "\<not> shut u"
    using stopped_refuses [of u env "RecordRepo k v n t (ids m')"] rec u(1)
    by (cases "write_admission u") (auto simp: shut_def stopped_def I_def open_app_def app_ok_def)
  from u(1) run_write_classified [OF open_app_writes [OF _ opened], of env "RecordRepo k v n t (ids m')"] rec
  have "published env (RecordRepo k v n t (ids m')) u s'" by (simp add: classified_def I_def)
  moreover have "traceless s u" using u(1) opened by (simp add: I_def)
  ultimately show ?thesis using published_traceless by blast
qed

text \<open>
  The meaning of a delivery that was counted as done: the evidence of a success, or the mark of a failed read on what the
  projection holds, is at the end of the store and in the projection; a failed read of a repository that the projection
  does not hold changes nothing.
\<close>

definition delivery_recorded :: "'b AppEnv \<Rightarrow> string \<Rightarrow> JobOutcome \<Rightarrow> 'b AppState \<Rightarrow> 'b AppState \<Rightarrow> bool" where
  "delivery_recorded env key outcome s s' \<longleftrightarrow> (case outcome of
     Success k v _ _ \<Rightarrow> k = key \<and> (\<exists>now i. published env (RecordRepo key v (repo_name (repository v)) now i) s s')
   | Failure k _ _ _ \<Rightarrow> k = key \<and> (case btree_get (repositories (projection_state s)) key of
       None \<Rightarrow> event_store s' = event_store s \<and> projection_state s' = projection_state s
     | Some existing \<Rightarrow> \<exists>now later i. published env
         (RecordRepo key (failure_evidence (repository existing) now) (repo_name (repository existing)) later i) s s')
   | Unhandled \<Rightarrow> False)"

lemma failure_not_delivered:
  "classify_persist_failure failure \<noteq> Delivered" "classify_failure_state_persist_failure failure \<noteq> Delivered"
  by (simp_all add: classify_persist_failure_def classify_failure_state_persist_failure_def split: sum.split)

lemma written_delivered:
  "map_option (\<lambda>r. case r of Inr _ \<Rightarrow> Delivered | Inl failure \<Rightarrow> classify_persist_failure failure) written = Some Delivered \<longleftrightarrow>
     written = Some (Inr ())"
  "map_option (\<lambda>r. case r of Inr _ \<Rightarrow> Delivered | Inl failure \<Rightarrow> classify_failure_state_persist_failure failure) written =
     Some Delivered \<longleftrightarrow> written = Some (Inr ())"
  by (cases written; cases "the written"; simp add: failure_not_delivered)+

lemma handled_is_recorded:
  assumes "open_app s"
  shows "handle_success_outcome env draws k v s = (Some Delivered, s') \<Longrightarrow> delivery_recorded env k (Success k v src c) s s'"
    and "handle_failure_outcome env draws k s = (Some Delivered, s') \<Longrightarrow> delivery_recorded env k (Failure k e src c) s s'"
proof -
  assume "handle_success_outcome env draws k v s = (Some Delivered, s')"
  then have "RepoRecorder_record_repo env (draw_ids draws) k v (repo_name (repository v)) (draw_now draws) s = (Some (Inr ()), s')"
    by (auto simp: handle_success_outcome_def written_delivered simp del: map_option_eq_Some split: prod.splits)
  from recorder_published [OF assms this] show "delivery_recorded env k (Success k v src c) s s'"
    by (auto simp: delivery_recorded_def)
next
  assume h: "handle_failure_outcome env draws k s = (Some Delivered, s')"
  then have get: "projection_get s k = Some (btree_get (repositories (projection_state s)) k)"
    by (auto simp: handle_failure_outcome_def projection_get_def reader_defs EvidenceProjection_get_def split: option.splits if_splits)
  show "delivery_recorded env k (Failure k e src c) s s'"
  proof (cases "btree_get (repositories (projection_state s)) k")
    case None
    with h get show ?thesis by (simp add: handle_failure_outcome_def delivery_recorded_def)
  next
    case (Some existing)
    with h get have "RepoRecorder_record_repo env (draw_ids draws) k (failure_evidence (repository existing) (draw_now draws))
        (repo_name (repository existing)) (draw_later draws) s = (Some (Inr ()), s')"
      by (auto simp: handle_failure_outcome_def written_delivered simp del: map_option_eq_Some split: prod.splits)
    from recorder_published [OF assms this] Some show ?thesis by (auto simp: delivery_recorded_def)
  qed
qed

text \<open>The state stays open through every step of the system.\<close>

lemma open_app_slots [simp]: "open_app (s\<lparr>scheduled_run := a, batch_tracker := b\<rparr>) = open_app s"
  by (simp add: open_app_def app_ok_def shut_def stores_open_def)

lemma recorded_slots [simp]:
  "delivery_recorded env key outcome (s\<lparr>scheduled_run := a, batch_tracker := b\<rparr>) s' = delivery_recorded env key outcome s s'"
proof -
  have "team_rows env d k ev (s\<lparr>scheduled_run := a, batch_tracker := b\<rparr>) = team_rows env d k ev s" for d k ev
    by (simp add: team_rows_def split: DomainEvent.split)
  then have "published env w (s\<lparr>scheduled_run := a, batch_tracker := b\<rparr>) s' = published env w s s'" for w
    by (simp add: published_def)
  then show ?thesis by (simp add: delivery_recorded_def split: JobOutcome.split option.split)
qed

lemma with_app_parts:
  obtains a b where "fst (with_app T f d) = fst (f ((app d)\<lparr>scheduled_run := a, batch_tracker := b\<rparr>))"
    "app (snd (with_app T f d)) = snd (f ((app d)\<lparr>scheduled_run := a, batch_tracker := b\<rparr>))"
  by (rule that [of "map_option (\<lambda>_. False) (tracker_slot d)" "map_option (\<lambda>_. False) (owner_slot d)"])
    (simp_all add: with_app_def drain_slot_keeps split: prod.split)

definition keeps_open :: "('b AppState \<Rightarrow> 'a \<times> 'b AppState) \<Rightarrow> bool" where
  "keeps_open f \<longleftrightarrow> (\<forall>s. open_app s \<longrightarrow> open_app (snd (f s)))"

lemma with_app_open: "keeps_open f \<Longrightarrow> open_app (app d) \<Longrightarrow> open_app (app (snd (with_app T f d)))"
  by (rule with_app_parts [of T f d]) (simp add: keeps_open_def)

lemma resync_store_open:
  assumes "\<not> store_latched s" "\<not> cached_poisoned s"
  shows "\<not> store_latched (snd (resync_from_authoritative A S s)) \<and> \<not> cached_poisoned (snd (resync_from_authoritative A S s))"
  using assms by (auto simp: resync_from_authoritative_def read_authoritative_def op_defs store_latched_def
      split: sum.splits prod.splits WriteKnowledge.splits)

lemma resync_stores_open:
  assumes "stores_open s"
  shows "stores_open (snd (resync_event_store env s))"
proof -
  define t where "t = lock_write_admission s"
  have t: "stores_open t" using assms by (simp add: t_def stores_open_def lock_write_admission_def notify_and_drain_def Let_def)
  obtain r1 st1 where r1: "resync_from_authoritative (adapter env) (repo_schema env) (event_store t) = (r1, st1)" by force
  obtain r2 st2 where r2: "resync_from_authoritative (adapter env) (org_schema env) (org_event_store t) = (r2, st2)" by force
  obtain r3 st3 where r3: "resync_from_authoritative (adapter env) (team_schema env) (team_event_store t) = (r3, st3)" by force
  have st: "\<not> store_latched st1 \<and> \<not> cached_poisoned st1" "\<not> store_latched st2 \<and> \<not> cached_poisoned st2"
    "\<not> store_latched st3 \<and> \<not> cached_poisoned st3"
    using t resync_store_open [of "event_store t" "adapter env" "repo_schema env"]
      resync_store_open [of "org_event_store t" "adapter env" "org_schema env"]
      resync_store_open [of "team_event_store t" "adapter env" "team_schema env"] r1 r2 r3
    by (simp_all add: stores_open_def)
  have ens: "ensure_write_admission s = (case write_admission t of None \<Rightarrow> Inr () | Some _ \<Rightarrow> Inl PersistenceError.Indeterminate, t)"
    by (simp add: ensure_write_admission_def t_def Let_def)
  show ?thesis
    using t st by (cases "write_admission t"; cases r1; cases r2) (simp_all add: resync_event_store_def ens r1 r2 r3 stores_open_def)
qed

lemma resync_keeps_open: "keeps_open (resync_event_store env)"
  unfolding keeps_open_def
proof (intro allI impI)
  fix s :: "'a AppState" assume s: "open_app s"
  then have "progress s (snd (resync_event_store env s))" using tame_resync by (auto simp: tame_def open_app_def)
  with s resync_stores_open [of s env] show "open_app (snd (resync_event_store env s))"
    by (auto simp: open_app_def progress_def)
qed

lemma stop_keeps_open: "keeps_open (\<lambda>s. ((), stop_for_reconciliation err s))"
  unfolding keeps_open_def
proof (intro allI impI)
  fix s :: "'a AppState" assume s: "open_app s"
  then have "shut (stop_for_reconciliation err s)"
    by (auto simp: open_app_def app_ok_def shut_def stop_for_reconciliation_def lock_write_admission_def notify_and_drain_def
        Let_def split: option.split)
  with s tame_stop [of err] show "open_app (snd ((), stop_for_reconciliation err s))"
    by (auto simp: open_app_def tame_def progress_def)
qed

lemma ensure_keeps_open: "keeps_open ensure_write_admission"
  by (auto simp: keeps_open_def open_app_def ensure_open)

lemma write_keeps_open: "keeps_open (run_write env w)"
  by (simp add: keeps_open_def run_write_open_app)

lemmas keeps_open_steps = ensure_keeps_open stop_keeps_open resync_keeps_open write_keeps_open

lemma handlers_open:
  "keeps_open (handle_success_outcome env draws k v)" "keeps_open (handle_failure_outcome env draws k)"
  using recorder_open_app
  by (auto simp: keeps_open_def handle_success_outcome_def handle_failure_outcome_def split: prod.splits option.splits)

lemma ensure_opens: "with_app T ensure_write_admission d = (x, e) \<Longrightarrow> open_app (app d) \<Longrightarrow> open_app (app e)"
  using with_app_open [OF keeps_open_steps(1), of d T] by simp

lemma apply_step_open: "open_app (app d) \<Longrightarrow> open_app (app (apply_owned_delivery_step T step run d))"
  using with_app_open [OF keeps_open_steps(2), of d T]
  by (cases step; cases run) (simp_all add: apply_owned_delivery_step_def fence_active_run_def drain_slot_keeps on_tracker_keeps
      note_failure_def)

lemma deliver_open:
  assumes "open_app (app d)"
  shows "open_app (app (snd (deliver env T draws outcome d)))"
proof -
  obtain x e where e: "with_app T ensure_write_admission d = (x, e)" by force
  note oe = ensure_opens [OF e assms]
  have cl: "open_app (app (snd (deliver_classified T h source corr e)))" if "keeps_open h" for h source corr
  proof -
    obtain y f where f: "with_app T ensure_write_admission e = (y, f)" by force
    obtain z g where g: "with_app T h f = (z, g)" by force
    from ensure_opens [OF f oe] have "open_app (app f)" .
    moreover from with_app_open [OF that this, of T] g have "open_app (app g)" by simp
    ultimately show ?thesis using f g apply_step_open
      by (auto simp: deliver_classified_def split: sum.split option.split)
  qed
  from e oe cl [OF handlers_open(1)] cl [OF handlers_open(2)] show ?thesis
    by (simp add: deliver_def split: sum.split JobOutcome.split)
qed

lemma begin_batch_open: "open_app (app d) \<Longrightarrow> open_app (app (snd (begin_batch T batch_id jobs accepted d)))"
  by (auto simp: begin_batch_def publish_batch_def begin_run_def take_run_fence_def set_active_batch_tracker_def Let_def
      on_tracker_keeps split: prod.splits sum.splits option.splits dest!: ensure_opens)

lemma system_step_open:
  assumes "system_step env T S S'" and "open_app (app (shared S))"
  shows "open_app (app (shared S'))"
proof -
  have del: "open_app (app (shared (deliver_step env T draws outcome key R)))" if "shared R = shared S" for draws outcome key R
    using deliver_open [OF assms(2), of env T draws outcome] that
    by (auto simp: deliver_step_def split: prod.split Iteration.split option.split)
  from assms(1) show ?thesis
  proof cases
    case (sweep_begins jobs accepted batch_id)
    with begin_batch_open [OF assms(2), of T batch_id jobs accepted] show ?thesis
      by (auto simp: begin_step_def split: prod.split sum.split)
  next
    case (sweep_aborts i result d)
    with assms(2) show ?thesis
      by (auto simp: abort_rejected_def retire_batch_def take_run_fence_def set_active_batch_tracker_def split: prod.splits if_splits)
  next
    case (wait_returns i outcome d)
    with assms(2) show ?thesis
      by (auto simp: retire_batch_def take_run_fence_def set_active_batch_tracker_def split: if_splits)
  next
    case (sweep_ends i outcome result d)
    with assms(2) show ?thesis
      by (auto simp: close_batch_def take_failure_def split: prod.splits sum.splits option.splits dest!: ensure_opens)
  qed (use assms(2) del with_app_open [OF keeps_open_steps(2)] with_app_open [OF keeps_open_steps(3)]
      with_app_open [OF keeps_open_steps(4)] in auto)
qed

text \<open>A delivery that is counted as done was recorded in the same iteration.\<close>

lemma deliver_recorded:
  assumes "open_app (app d)" and "deliver env T draws outcome d = (Applied run Delivered, d')"
    and "outcome_of batch_id key outcome"
  shows "delivery_recorded env key outcome (app d) (app d')"
proof -
  have ens: "\<exists>a b. app f = (app e)\<lparr>scheduled_run := a, batch_tracker := b\<rparr>"
    if "open_app (app e)" "with_app T ensure_write_admission e = (x, f)" for e f :: "('a, 'b) RunState" and x
    using that with_app_parts [of T ensure_write_admission e] ensure_open
    by (metis open_app_def open_app_slots snd_conv)
  have h: "delivery_recorded env key outcome (app d) (app d')"
    if e: "with_app T ensure_write_admission d = (x, e)" and c: "deliver_classified T h source corr e = (Applied run Delivered, d')"
      and rec: "\<And>s s'. open_app s \<Longrightarrow> h s = (Some Delivered, s') \<Longrightarrow> delivery_recorded env key outcome s s'"
    for x e h source corr
  proof -
    obtain y f where f: "with_app T ensure_write_admission e = (y, f)" by force
    from c f obtain g where g: "with_app T h f = (Some Delivered, g)" "d' = apply_owned_delivery_step T Delivered run g"
      by (auto simp: deliver_classified_def split: sum.splits option.splits prod.splits if_splits)
    have "app d' = app g" by (simp add: g(2) apply_owned_delivery_step_def on_tracker_keeps split: option.split)
    moreover obtain a b where "h ((app f)\<lparr>scheduled_run := a, batch_tracker := b\<rparr>) = (Some Delivered, app g)"
      using with_app_parts [of T h f] g(1) by (metis fst_conv snd_conv prod.collapse)
    moreover obtain a' b' where "app e = (app d)\<lparr>scheduled_run := a', batch_tracker := b'\<rparr>" using ens [OF assms(1) e] by blast
    moreover obtain a2 b2 where "app f = (app e)\<lparr>scheduled_run := a2, batch_tracker := b2\<rparr>"
      using ens [OF ensure_opens [OF e assms(1)] f] by blast
    ultimately show ?thesis using rec [of "(app f)\<lparr>scheduled_run := a, batch_tracker := b\<rparr>" "app g"] assms(1) by simp
  qed
  obtain x e where e: "with_app T ensure_write_admission d = (x, e)" by force
  show ?thesis
  proof (cases outcome)
    case (Success k v source corr)
    with assms(2,3) e have "deliver_classified T (handle_success_outcome env draws key v) source corr e = (Applied run Delivered, d')"
      by (auto simp: deliver_def outcome_of_def split: sum.splits)
    moreover have "outcome = Success key v source corr" using Success assms(3) by (simp add: outcome_of_def)
    ultimately show ?thesis using h [OF e] handled_is_recorded(1) by blast
  next
    case (Failure k err source corr)
    with assms(2,3) e have "deliver_classified T (handle_failure_outcome env draws key) source corr e = (Applied run Delivered, d')"
      by (auto simp: deliver_def outcome_of_def split: sum.splits)
    moreover have "outcome = Failure key err source corr" using Failure assms(3) by (simp add: outcome_of_def)
    ultimately show ?thesis using h [OF e] handled_is_recorded(2) by blast
  qed (use assms(3) in \<open>simp add: outcome_of_def\<close>)
qed

text \<open>The step that put a settled job into the history, as a job that is done: it is the step of its recorded delivery.\<close>

lemma step_settles:
  assumes step: "system_step env T S S'" and ok: "system_ok left S" "tracker_ok T left" and "open_app (app (shared S))"
    and new: "Settled i key outcome Delivered \<in> set (history S')" "Settled i key outcome Delivered \<notin> set (history S)"
  shows "history S' = history S @ [Settled i key outcome Delivered] \<and>
    delivery_recorded env key outcome (app (shared S)) (app (shared S'))"
proof -
  have del: "outcome' = outcome \<and> key' = key \<and> (\<exists>d. deliver env T draws outcome (shared S) = (Applied (Some i) Delivered, d) \<and>
      history S' = history S @ [Settled i key outcome Delivered] \<and> app (shared S') = app d)"
    if "S' = deliver_step env T draws outcome' key' R" "shared R = shared S" "history R = history S" for draws outcome' key' R
  proof -
    obtain it d where d: "deliver env T draws outcome' (shared S) = (it, d)" by force
    with that new obtain run step where it: "it = Applied (Some run) step" and
      "Settled i key outcome Delivered = Settled run key' outcome' step"
      by (auto simp: deliver_step_def split: Iteration.splits option.splits)
    with d that show ?thesis by (simp add: deliver_step_def)
  qed
  from step show ?thesis
  proof cases
    case (job_delivered batch_id domain_key outcome' draws)
    from del [OF job_delivered(1)] job_delivered(4) deliver_recorded [OF assms(4)] show ?thesis by auto
  next
    case (other_delivered outcome' draws domain_key)
    obtain d where "outcome' = outcome" "deliver env T draws outcome (shared S) = (Applied (Some i) Delivered, d)"
      using del [OF other_delivered(1)] by auto
    with system_okD(1) [OF ok(1)] ok(2) have "ready outcome (shared S) (Some i)" by (auto elim: deliver_cases)
    with ready_other other_delivered(3) \<open>outcome' = outcome\<close> show ?thesis by blast
  qed (use new in \<open>auto simp: begin_step_def split: prod.splits sum.splits\<close>)
qed

lemma settled_recorded:
  assumes "system_run env T s S" and s: "app_ok s" "stores_open s" and T: "tracker_ok T left"
    and "Settled i key outcome Delivered \<in> set (history S)"
  shows "\<exists>R R'. system_run env T s R \<and> system_step env T R R' \<and> (system_step env T)\<^sup>*\<^sup>* R' S \<and>
    history R' = history R @ [Settled i key outcome Delivered] \<and>
    delivery_recorded env key outcome (app (shared R)) (app (shared R'))"
proof -
  have "open_app (app (shared S)) \<and> (Settled i key outcome Delivered \<in> set (history S) \<longrightarrow>
     (\<exists>R R'. system_run env T s R \<and> system_step env T R R' \<and> (system_step env T)\<^sup>*\<^sup>* R' S \<and>
      history R' = history R @ [Settled i key outcome Delivered] \<and>
      delivery_recorded env key outcome (app (shared R)) (app (shared R'))))"
    using assms(1) unfolding system_run_def
  proof (induction rule: rtranclp_induct)
    case base
    then show ?case using s by (simp add: System_start_def open_app_def)
  next
    case (step Q Q')
    have "system_ok left Q" using system_run_ok [OF _ s(1) T] step(1) by (simp add: system_run_def)
    note settles = step_settles [OF step(2) this T]
    show ?case
    proof (cases "Settled i key outcome Delivered \<in> set (history Q)")
      case True
      with step system_step_open [OF step(2)] show ?thesis by (meson rtranclp.rtrancl_into_rtrancl)
    next
      case False
      with settles step system_step_open [OF step(2)] show ?thesis by blast
    qed
  qed
  with assms(5) show ?thesis by blast
qed

subsection \<open>Properties\<close>

text \<open>
  C4. A batch that ends well has lost nothing. However sweeps, deliveries, other writers, stops, timeouts and
  cancellations interleave: when a batch reports success, every job that the queue accepted for it has had its outcome
  delivered and counted as done. Each of these was counted in one step of the delivery task, and in that same step
  the evidence of the outcome was appended to the store and put into the projection: the evidence itself for a
  success, the mark of the failure on the repository that the projection holds for a failed read. Only for a failed
  read of a repository that the projection does not hold is there nothing to record, and nothing was changed.
\<close>
theorem successful_batch_lost_nothing:
  assumes "system_run env T s S" and "app_ok s" and "stores_open s" and "tracker_ok T left"
    and "Ended (Some i) (Inr True) \<in> set (history S)"
  shows "mset (settled_keys (\<lambda>step. step = Delivered) i (history S)) = mset (accepted_keys i (history S)) \<and>
    (\<forall>key outcome. Settled i key outcome Delivered \<in> set (history S) \<longrightarrow>
       (\<exists>R R'. system_run env T s R \<and> system_step env T R R' \<and> (system_step env T)\<^sup>*\<^sup>* R' S \<and>
          history R' = history R @ [Settled i key outcome Delivered] \<and>
          delivery_recorded env key outcome (app (shared R)) (app (shared R'))))"
  using system_okD(9) [OF system_run_ok [OF assms(1,2,4)] assms(5)] settled_recorded [OF assms(1-4)]
  by (simp add: all_recorded_def)

text \<open>A wait whose delivery task is gone goes on as it is until writing stops or the sweep is dropped.\<close>

lemma stuck_wait:
  assumes ok: "system_ok left S" and T: "tracker_ok T left" and "sweep S = Awaiting i" "\<not> delivering S"
    and stuck: "flying i S \<noteq> {#}" "\<not> run_is_fenced (shared S)" "write_admission (app (shared S)) = None"
    and step: "system_step env T S S'"
  shows "sweep S' = Outside \<and> history S' = history S @ [Abandoned i] \<or>
    sweep S' = Awaiting i \<and> \<not> delivering S' \<and> flying i S' = flying i S \<and> \<not> run_is_fenced (shared S')"
proof -
  note D = system_okD [OF ok]
  have aw: "awaited S i" using assms(3) by (simp add: awaited_def)
  have "left (run_tracker (runs (shared S) ! i)) = size (flying i S)"
    using D(4) [OF aw] stuck(2,3) by (simp add: accounted_def shut_def)
  with T stuck(1) have wait: "\<not> tracker_done T (run_tracker (runs (shared S) ! i))" by (simp add: tracker_ok_def)
  have app: "flying i (S\<lparr>shared := snd (with_app T f (shared S))\<rparr>) = flying i S \<and>
      \<not> run_is_fenced (snd (with_app T f (shared S)))" if "tame f" for f :: "'b AppState \<Rightarrow> 'c \<times> 'b AppState"
    using with_app_keeps [OF that D(1) T prod.collapse [symmetric]] stuck(2) D(10) [OF D(3) [OF aw]]
    by (auto simp: keeps_bookkeeping_def run_is_fenced_def intro: flying_keeps)
  from step show ?thesis
    by cases (use assms(3,4) wait app [OF run_write_tame] app [OF tame_stop] app [OF tame_resync] in auto)
qed

text \<open>
  C5. When the batch barrier opens. A sweep that waits for its batch is released exactly when no job of the batch is in
  flight, when the single-writer fence has rejected a write, or when writing has been stopped, in the last two cases
  also with jobs in flight. A delivery task that ends because its channel is closed
  does not release it: with jobs in flight and neither a fence nor a stop, every later step leaves the wait as it is, until
  the timeout or the cancellation of the sweep drops it, or writing is stopped.
\<close>
theorem batch_barrier_opens:
  assumes "system_run env T s S" and "app_ok s" and "tracker_ok T left" and "sweep S = Awaiting i"
  shows "(tracker_done T (run_tracker (runs (shared S) ! i)) \<longleftrightarrow>
      flying i S = {#} \<or> run_is_fenced (shared S) \<or> write_admission (app (shared S)) \<noteq> None) \<and>
    (\<forall>S'. \<not> delivering S \<and> flying i S \<noteq> {#} \<and> \<not> run_is_fenced (shared S) \<and> write_admission (app (shared S)) = None \<and>
       system_step env T S S' \<longrightarrow>
       sweep S' = Outside \<and> history S' = history S @ [Abandoned i] \<or>
       sweep S' = Awaiting i \<and> \<not> delivering S' \<and> flying i S' = flying i S \<and> \<not> run_is_fenced (shared S'))"
proof -
  note ok = system_run_ok [OF assms(1-3)]
  note D = system_okD [OF ok]
  have aw: "awaited S i" using assms(4) by (simp add: awaited_def)
  have "left (run_tracker (runs (shared S) ! i)) = 0 \<longleftrightarrow>
      flying i S = {#} \<or> run_is_fenced (shared S) \<or> write_admission (app (shared S)) \<noteq> None"
  proof (cases "run_is_fenced (shared S) \<or> shut (app (shared S))")
    case True
    with D(1) D(3) [OF aw] show ?thesis by (auto simp: slots_ok_def shut_def)
  next
    case False
    with D(4) [OF aw] show ?thesis by (simp add: accounted_def shut_def)
  qed
  with assms(3) have "tracker_done T (run_tracker (runs (shared S) ! i)) \<longleftrightarrow>
      flying i S = {#} \<or> run_is_fenced (shared S) \<or> write_admission (app (shared S)) \<noteq> None"
    by (simp only: tracker_ok_def)
  with stuck_wait [OF ok assms(3,4)] show ?thesis by blast
qed

definition journal :: "('b, 't) RunState \<Rightarrow> _" where
  "journal d = (event_store (app d), org_event_store (app d), team_event_store (app d), projection_state (app d))"

lemma fenced_delivery_inert:
  assumes "slots_ok left d" and "run_is_fenced d"
  shows "journal (snd (deliver env T draws outcome d)) = journal d"
proof -
  have ens: "journal e = journal d \<and> app_ok (app e) \<and> run_is_fenced e"
    if "with_app T ensure_write_admission d' = (x, e)" "journal d' = journal d" "app_ok (app d')" "run_is_fenced d'" for x d' e
  proof -
    have "app_ok ((app d')\<lparr>scheduled_run := a, batch_tracker := b\<rparr>)" for a b
      using that(3) by (simp add: app_ok_def shut_def)
    from ensure_open [OF this] that show ?thesis
      by (auto simp: with_app_def journal_def drain_slot_keeps app_ok_def shut_def run_is_fenced_def)
  qed
  obtain x e where e: "with_app T ensure_write_admission d = (x, e)" by force
  have e': "journal e = journal d" "app_ok (app e)" "run_is_fenced e"
    using ens [OF e] assms by (simp_all add: slots_ok_def)
  have "journal (snd (deliver_classified T h source corr e)) = journal d" for h source corr
  proof -
    obtain y f where f: "with_app T ensure_write_admission e = (y, f)" by force
    from ens [OF f e'] f show ?thesis
      by (auto simp: deliver_classified_def split: sum.split option.split)
  qed
  with e e'(1) show ?thesis by (auto simp: deliver_def split: sum.split JobOutcome.split)
qed

text \<open>
  C21. The single-writer fence ends a run. Once a write was rejected by the fence, no delivery writes anything, and the
  rejection stays latched until a sweep takes it at one of its boundaries: the sweep that takes it either reports the
  conflict at once or holds it as the outcome it will report when its partial publisher has ended.
\<close>

theorem fence_holds_until_taken:
  assumes "system_run env T s S" and "app_ok s" and "tracker_ok T left" and "system_step env T S S'"
    and "run_fence (shared S) = Some signal"
  shows "(\<forall>draws outcome. journal (snd (deliver env T draws outcome (shared S))) = journal (shared S)) \<and>
    (run_fence (shared S') = Some signal \<or> (\<exists>i. sweep S' = Closing i (Retired (Some signal))) \<or>
     (\<exists>run. history S' = history S @ [Ended run (Inl (Persistence (into_error signal)))]))"
proof -
  note ok = system_run_ok [OF assms(1-3)]
  note D = system_okD [OF ok]
  have fenced: "run_is_fenced (shared S)" using assms(5) by (simp add: run_is_fenced_def)
  have app: "run_fence (snd (with_app T f (shared S))) = run_fence (shared S)" for f :: "'a AppState \<Rightarrow> 'c \<times> 'a AppState"
    by (simp add: with_app_def drain_slot_keeps split: prod.split)
  have del: "run_fence (shared (deliver_step env T draws outcome key R)) = Some signal" if "shared R = shared S" for draws outcome key R
  proof -
    obtain it d where d: "deliver env T draws outcome (shared S) = (it, d)" by force
    from D(1) assms(3) d have "run_fence d = Some signal \<and> (\<forall>r st. it \<noteq> Applied r st)"
      by (cases rule: deliver_cases) (use assms(5) fenced in \<open>auto simp: keeps_bookkeeping_def ready_def\<close>)
    with d that show ?thesis by (auto simp: deliver_step_def split: Iteration.splits)
  qed
  have "run_fence (shared S') = Some signal \<or> (\<exists>i. sweep S' = Closing i (Retired (Some signal))) \<or>
     (\<exists>run. history S' = history S @ [Ended run (Inl (Persistence (into_error signal)))])"
    using assms(4)
  proof cases
    case (sweep_begins jobs accepted batch_id)
    have len: "length accepted \<le> length jobs" using size_mset_mono [OF sweep_begins(4)] by simp
    obtain r d where d: "begin_batch T batch_id jobs accepted (shared S) = (r, d)" by force
    from D(1) assms(3) len d show ?thesis
      by (cases rule: begin_batch_cases) (use d assms(5) sweep_begins(1) in \<open>auto simp: begin_step_def keeps_bookkeeping_def\<close>)
  next
    case (sweep_aborts i result d)
    have "owner_slot (shared S) = Some i" using D(3) sweep_aborts(2) by (simp add: awaited_def)
    with sweep_aborts assms(5) show ?thesis by (auto simp: abort_rejected_def retire_batch_owner batch_outcome_def)
  next
    case (wait_returns i outcome d)
    have "owner_slot (shared S) = Some i" using D(3) wait_returns(2) by (simp add: awaited_def)
    with wait_returns assms(5) show ?thesis by (auto simp: retire_batch_owner)
  next
    case (sweep_ends i outcome result d)
    have "run_fence d = run_fence (shared S)"
      using sweep_ends(3) app [of ensure_write_admission]
      by (auto simp: close_batch_def take_failure_def split: prod.splits sum.splits option.splits)
    with sweep_ends(1) assms(5) show ?thesis by simp
  qed (use assms(5) app del in auto)
  with fenced_delivery_inert [OF D(1) fenced] show ?thesis by blast
qed

subsection \<open>Concrete runs\<close>

definition sample_tracker :: "nat TrackerPort" where
  "sample_tracker = \<lparr>tracker_new = id, tracker_retire = (\<lambda>k n. n - k), tracker_drain = (\<lambda>_. 0), tracker_done = (\<lambda>n. n = 0)\<rparr>"

lemma sample_tracker_ok: "tracker_ok sample_tracker id"
  by (simp add: tracker_ok_def sample_tracker_def)

abbreviation sample_app :: "Envelope list AppState" where
  "sample_app \<equiv> start_state [] [] []"

lemma sample_app_ok: "app_ok sample_app"
  by (simp add: app_ok_def start_state_def)

abbreviation sample_success :: RepositoryEvidence where
  "sample_success \<equiv> sample_evidence ''r'' (SecretScanningResult_unobservable SecretScanningFailureReason.PermissionDenied ''t'')"

definition sample_draws :: Draws where
  "sample_draws = \<lparr>draw_now = ''t'', draw_later = ''t'', draw_ids = of_nat\<rparr>"

abbreviation sample_slots :: "Envelope list AppState" where
  "sample_slots \<equiv> sample_app\<lparr>scheduled_run := Some False, batch_tracker := Some False\<rparr>"

text \<open>One batch of one job for the repository \<open>r\<close>, in the hands of the queue.\<close>

definition sample_waiting :: "(Envelope list, nat) System" where
  "sample_waiting = \<lparr>shared = \<lparr>app = sample_slots, run_fence = None,
       runs = [\<lparr>run_uuid = 7, run_tracker = 1, run_failure = None\<rparr>], owner_slot = Some 0, tracker_slot = Some 0\<rparr>,
     sweep = Awaiting 0, delivering = True, in_flight = {#(7, ''r'')#}, history = [Accepted 0 [''r'']]\<rparr>"

lemma sample_ensure: "ensure_write_admission sample_slots = (Inr (), sample_slots)"
  "ensure_write_admission sample_app = (Inr (), sample_app)"
  "sample_app\<lparr>scheduled_run := None, batch_tracker := None\<rparr> = sample_app"
  by (simp_all add: ensure_write_admission_def lock_write_admission_def start_state_def)

lemma sample_begins: "system_step env sample_tracker (System_start sample_app) sample_waiting"
proof -
  have "system_step env sample_tracker (System_start sample_app)
      (begin_step sample_tracker 7 [''r''] [''r''] (System_start sample_app))"
    by (rule sweep_begins) (simp_all add: System_start_def)
  moreover have "publish_batch sample_tracker 7 (Suc 0) (Suc 0)
      \<lparr>app = sample_app, run_fence = None, runs = [], owner_slot = None, tracker_slot = None\<rparr> = (Published 0, shared sample_waiting)"
    by (simp add: publish_batch_def begin_run_def take_run_fence_def set_active_batch_tracker_def Let_def
        on_tracker_def with_app_def sample_ensure drain_slot_def sample_waiting_def sample_tracker_def)
  then have "begin_step sample_tracker 7 [''r''] [''r''] (System_start sample_app) = sample_waiting"
    by (simp add: sample_ensure begin_step_def begin_batch_def with_app_def drain_slot_def System_start_def sample_waiting_def)
  ultimately show ?thesis by simp
qed

text \<open>The read of the repository fails and the projection does not hold it, so that there is nothing to record.\<close>

abbreviation sample_outcome :: "DeliveryStep \<Rightarrow> JobOutcome" where
  "sample_outcome step \<equiv> (if step = Delivered then Failure ''r'' ''gone'' ScheduledBatch (Some 7)
     else Success ''r'' sample_success ScheduledBatch (Some 7))"

definition sample_settled :: "DeliveryStep \<Rightarrow> FenceSignal option \<Rightarrow> (Envelope list, nat) System" where
  "sample_settled step fence = \<lparr>shared = \<lparr>app = sample_slots, run_fence = fence,
       runs = [\<lparr>run_uuid = 7, run_tracker = 0, run_failure = None\<rparr>], owner_slot = Some 0, tracker_slot = Some 0\<rparr>,
     sweep = Awaiting 0, delivering = True, in_flight = {#}, history = [Accepted 0 [''r''], Settled 0 ''r'' (sample_outcome step) step]\<rparr>"

lemma sample_delivers: "system_step env sample_tracker sample_waiting (sample_settled Delivered None)"
proof -
  let ?o = "Failure ''r'' ''gone'' ScheduledBatch (Some 7)"
  have handle: "handle_failure_outcome env sample_draws ''r'' sample_slots = (Some Delivered, sample_slots)"
    by (simp add: handle_failure_outcome_def projection_get_def reader_defs start_state_def EvidenceProjection_default_def
        EvidenceProjection_get_def btree_empty_def btree_get_def)
  have "system_step env sample_tracker sample_waiting (deliver_step env sample_tracker sample_draws ?o ''r''
      (sample_waiting\<lparr>in_flight := in_flight sample_waiting - {#(7, ''r'')#}\<rparr>))"
    by (rule job_delivered) (simp_all add: sample_waiting_def outcome_of_def)
  moreover have "deliver_step env sample_tracker sample_draws ?o ''r''
      (sample_waiting\<lparr>in_flight := in_flight sample_waiting - {#(7, ''r'')#}\<rparr>) = sample_settled Delivered None"
    by (simp add: deliver_step_def deliver_def deliver_classified_def with_app_def sample_ensure handle drain_slot_def
        delivery_owner_def run_is_fenced_def apply_owned_delivery_step_def on_tracker_def sample_waiting_def sample_settled_def
        sample_tracker_def)
  ultimately show ?thesis by simp
qed

definition sample_closing :: "DeliveryStep \<Rightarrow> FenceSignal option \<Rightarrow> (Envelope list, nat) System" where
  "sample_closing step fence = (sample_settled step fence)
     \<lparr>shared := (shared (sample_settled step fence))\<lparr>owner_slot := None, tracker_slot := None, run_fence := None\<rparr>,
      sweep := Closing 0 (Retired fence)\<rparr>"

lemma sample_closes: "system_step env sample_tracker (sample_settled step fence) (sample_closing step fence)"
  unfolding sample_closing_def
  by (rule wait_returns) (simp_all add: sample_settled_def sample_tracker_def retire_batch_owner)

lemma sample_system_run:
  "system_run env sample_tracker sample_app (sample_settled Delivered None)"
  "\<exists>S. system_run env sample_tracker sample_app S \<and>
     history S = [Accepted 0 [''r''], Settled 0 ''r'' (sample_outcome Delivered) Delivered, Ended (Some 0) (Inr True)]"
proof -
  show run: "system_run env sample_tracker sample_app (sample_settled Delivered None)"
    unfolding system_run_def using sample_begins sample_delivers by (meson rtranclp.rtrancl_into_rtrancl rtranclp.rtrancl_refl)
  let ?C = "sample_closing Delivered None"
  obtain d where d: "close_batch sample_tracker 0 (Retired None) (shared ?C) = (Inr True, d)"
    by (simp add: close_batch_def with_app_def sample_closing_def sample_settled_def batch_outcome_def take_failure_def drain_slot_def
        ensure_write_admission_def lock_write_admission_def start_state_def)
  have "system_step env sample_tracker ?C
      (?C\<lparr>shared := d, sweep := Outside, history := history ?C @ [Ended (Some 0) (Inr True)]\<rparr>)"
    by (rule sweep_ends [OF _ d]) (simp add: sample_closing_def)
  with run sample_closes [of env Delivered None]
  have "system_run env sample_tracker sample_app
      (?C\<lparr>shared := d, sweep := Outside, history := history ?C @ [Ended (Some 0) (Inr True)]\<rparr>)"
    unfolding system_run_def by (meson rtranclp.rtrancl_into_rtrancl)
  then show "\<exists>S. system_run env sample_tracker sample_app S \<and>
     history S = [Accepted 0 [''r''], Settled 0 ''r'' (sample_outcome Delivered) Delivered, Ended (Some 0) (Inr True)]"
    by (intro exI conjI, assumption) (simp add: sample_closing_def sample_settled_def)
qed

lemma sample_stores_open: "stores_open sample_app"
  by (simp add: start_state_def stores_open_def fresh_store_def store_latched_def)

theorem successful_batch_lost_nothing_witness:
  "\<exists>S. system_run (sample_env False) sample_tracker sample_app S \<and> Ended (Some 0) (Inr True) \<in> set (history S) \<and>
     mset (settled_keys (\<lambda>step. step = Delivered) 0 (history S)) = mset (accepted_keys 0 (history S)) \<and>
     accepted_keys 0 (history S) = [''r''] \<and>
     (\<exists>R R'. system_step (sample_env False) sample_tracker R R' \<and>
        delivery_recorded (sample_env False) ''r'' (Failure ''r'' ''gone'' ScheduledBatch (Some 7)) (app (shared R)) (app (shared R')))"
proof -
  obtain S where S: "system_run (sample_env False) sample_tracker sample_app S"
    "history S = [Accepted 0 [''r''], Settled 0 ''r'' (sample_outcome Delivered) Delivered, Ended (Some 0) (Inr True)]"
    using sample_system_run(2) by blast
  from successful_batch_lost_nothing [OF S(1) sample_app_ok sample_stores_open sample_tracker_ok, of 0] S
  have "mset (settled_keys (\<lambda>step. step = Delivered) 0 (history S)) = mset (accepted_keys 0 (history S))"
    "\<exists>R R'. system_step (sample_env False) sample_tracker R R' \<and>
        delivery_recorded (sample_env False) ''r'' (Failure ''r'' ''gone'' ScheduledBatch (Some 7)) (app (shared R)) (app (shared R'))"
    by auto
  with S show ?thesis by (intro exI [of _ S]) (simp add: accepted_keys_def)
qed

text \<open>The job is delivered and the wait returns; or the channel closes before, and the wait does not return.\<close>

definition sample_orphaned :: "(Envelope list, nat) System" where
  "sample_orphaned = sample_waiting\<lparr>delivering := False\<rparr>"

lemma sample_orphaned_run: "system_run env sample_tracker sample_app sample_orphaned"
proof -
  have "system_step env sample_tracker sample_waiting sample_orphaned"
    unfolding sample_orphaned_def by (rule channel_closes) (simp add: sample_waiting_def)
  with sample_begins show ?thesis
    unfolding system_run_def by (meson rtranclp.rtrancl_into_rtrancl rtranclp.rtrancl_refl)
qed

theorem batch_barrier_opens_witness:
  "tracker_done sample_tracker (run_tracker (runs (shared (sample_settled Delivered None)) ! 0)) \<and>
   \<not> tracker_done sample_tracker (run_tracker (runs (shared sample_orphaned) ! 0))"
  using batch_barrier_opens [OF sample_system_run(1) [of "sample_env False"] sample_app_ok sample_tracker_ok, of 0]
    batch_barrier_opens [OF sample_orphaned_run [of "sample_env False"] sample_app_ok sample_tracker_ok, of 0]
  by (simp add: sample_settled_def sample_orphaned_def sample_waiting_def flying_def run_is_fenced_def start_state_def)

text \<open>A backend on which another writer has taken over: every session is refused for its stale epoch.\<close>

definition sample_superseded :: "Envelope list AppEnv" where
  "sample_superseded = (sample_env False)\<lparr>adapter := (sample_pardosa False)
     \<lparr>open_write := (\<lambda>_ js. (Inl \<lparr>condition = FailureCondition.StaleEpoch, detail = ''''\<rparr>, js))\<rparr>\<rparr>"

abbreviation sample_fence :: FenceSignal where
  "sample_fence \<equiv> FenceSignal (PersistenceError.FencedConflict None None)"

lemma sample_superseded_write:
  "record_repo sample_superseded ''r'' sample_success ''r'' ''t'' i sample_slots =
     (Completed (Inl (PersistenceError.FencedConflict None None)), sample_slots)"
proof -
  obtain v where v: "RepositoryEvidence_try_from sample_runtime sample_success = Inr v" using sample_evidence_converts by blast
  have ev: "repo_event sample_runtime ''r'' ''r'' ''t'' (Some v) = Inr (DomainEvent.RepositoryStateCaptured ''r'' ''r'' 1 (Some v))"
    by (simp add: repo_event_def non_empty_def event_timestamp_def map_err_def to_nes_def ts_required_def
        sample_runtime_def parse_iso8601_def MAX_DOMAIN_KEY_def MAX_REPO_NAME_def)
  obtain p where "encode_event sample_schema (DomainEvent.RepositoryStateCaptured ''r'' ''r'' 1 (Some v)) = Inr p"
    by (rule sample_encode)
  with v ev show ?thesis
    by (simp add: record_repo_def sample_superseded_def sample_env_def start_state_def admission_defs body_defs
        StoreInner_record_def open_session_def op_defs fresh_store_def sample_pardosa_def StoreError_from_def
        native_store_persistence_def Let_def)
qed

lemma sample_fences:
  "system_step sample_superseded sample_tracker sample_waiting (sample_settled (Fenced sample_fence) (Some sample_fence))"
proof -
  let ?o = "Success ''r'' sample_success ScheduledBatch (Some 7)" and ?env = sample_superseded
  have name: "repo_name (repository sample_success) = ''r''" by (simp add: sample_evidence_def sample_repository_def)
  have handle: "handle_success_outcome ?env sample_draws ''r'' sample_success sample_slots = (Some (Fenced sample_fence), sample_slots)"
    by (simp add: handle_success_outcome_def name RepoRecorder_record_repo_def write_with_policy_sync_eq write_with_policy_def
        attempt_write_def sample_draws_def sample_superseded_write classify_attempt_def WriteFailure_classify_def
        WritePolicyCategory_classify_def WritePolicyCategory_response_def classify_persist_failure_def
        FenceSignal_from_failure_def Let_def)
  have "system_step ?env sample_tracker sample_waiting (deliver_step ?env sample_tracker sample_draws ?o ''r''
      (sample_waiting\<lparr>in_flight := in_flight sample_waiting - {#(7, ''r'')#}\<rparr>))"
    by (rule job_delivered) (simp_all add: sample_waiting_def outcome_of_def)
  moreover have "deliver_step ?env sample_tracker sample_draws ?o ''r''
      (sample_waiting\<lparr>in_flight := in_flight sample_waiting - {#(7, ''r'')#}\<rparr>) =
      sample_settled (Fenced sample_fence) (Some sample_fence)"
    by (simp add: deliver_step_def deliver_def deliver_classified_def with_app_def sample_ensure handle drain_slot_def
        delivery_owner_def run_is_fenced_def apply_owned_delivery_step_def fence_active_run_def on_tracker_def sample_waiting_def
        sample_settled_def sample_tracker_def)
  ultimately show ?thesis by simp
qed

lemma sample_fenced_run:
  "system_run sample_superseded sample_tracker sample_app (sample_settled (Fenced sample_fence) (Some sample_fence))"
  unfolding system_run_def using sample_begins sample_fences by (meson rtranclp.rtrancl_into_rtrancl rtranclp.rtrancl_refl)

theorem fence_holds_until_taken_witness:
  "run_fence (shared (sample_settled (Fenced sample_fence) (Some sample_fence))) = Some sample_fence \<and>
   sweep (sample_closing (Fenced sample_fence) (Some sample_fence)) = Closing 0 (Retired (Some sample_fence)) \<and>
   journal (snd (deliver sample_superseded sample_tracker sample_draws (Success ''q'' sample_success External None)
     (shared (sample_settled (Fenced sample_fence) (Some sample_fence))))) =
     journal (shared (sample_settled (Fenced sample_fence) (Some sample_fence)))"
proof -
  have f: "run_fence (shared (sample_settled (Fenced sample_fence) (Some sample_fence))) = Some sample_fence"
    by (simp add: sample_settled_def)
  from fence_holds_until_taken [OF sample_fenced_run sample_app_ok sample_tracker_ok sample_closes f] f show ?thesis
    by (simp add: sample_closing_def)
qed

text \<open>
  A run in which a rejection by the fence is reported by nobody. The sweep has taken the rejection and still waits for
  its partial publisher when its timeout or a cancellation drops it: then the rejection is latched no longer and the
  history holds no result of a run.
\<close>

theorem dropped_sweep_swallows_conflict:
  "\<exists>S. system_run sample_superseded sample_tracker sample_app S \<and>
     Settled 0 ''r'' (Success ''r'' sample_success ScheduledBatch (Some 7)) (Fenced sample_fence) \<in> set (history S) \<and>
     run_fence (shared S) = None \<and> sweep S = Outside \<and> (\<forall>run result. Ended run result \<notin> set (history S))"
proof -
  let ?C = "sample_closing (Fenced sample_fence) (Some sample_fence)"
  let ?S = "?C\<lparr>sweep := Outside, history := history ?C @ [Abandoned 0]\<rparr>"
  have "system_step sample_superseded sample_tracker ?C ?S"
    by (rule sweep_dropped) (simp add: sample_closing_def)
  with sample_fenced_run sample_closes have "system_run sample_superseded sample_tracker sample_app ?S"
    unfolding system_run_def by (meson rtranclp.rtrancl_into_rtrancl)
  then show ?thesis
    by (intro exI conjI, assumption) (simp_all add: sample_closing_def sample_settled_def)
qed

end
