(* ===== verification/Rearm.thy ===== *)
theory Rearm
  imports Delivery
begin

text \<open>
  The scheduling of collection runs in \<open>app/daemon.rs\<close>: how a run that lost the single-writer race is re-armed by reading
  the stores again and retrying a bounded number of times (\<open>converge_on_fence\<close> and its two callers), the interval until
  the next run with its back-off, the flags that apply to the first run only, and the loop that ties them together. Runs,
  resynchronisations and team-refresh ticks are operations on a state; a wait is recorded in seconds. Log records are
  left out.
\<close>

subsection \<open>Re-arming\<close>

record RearmPolicy =
  max_attempts :: u32
  backoff_base :: nat

definition RearmPolicy_DEFAULT :: RearmPolicy where
  "RearmPolicy_DEFAULT = \<lparr>max_attempts = 3, backoff_base = 2\<rparr>"

datatype ('io, 'e) RearmError = ResyncFailed u32 'io | StillFenced u32 | RunFailed u32 'e

datatype ('a, 'e) ConvergeStep = Converged 'a | Fenced | Failed 'e

text \<open>The loop over the numbers of the attempts. The result carries the waits between the attempts.\<close>

fun converge_loop ::
    "RearmPolicy \<Rightarrow> ('s \<Rightarrow> ('io + unit) \<times> 's) \<Rightarrow> ('s \<Rightarrow> ('a, 'e) ConvergeStep \<times> 's) \<Rightarrow> u32 list \<Rightarrow> nat list \<Rightarrow> 's \<Rightarrow>
     (('io, 'e) RearmError + 'a) \<times> nat list \<times> 's" where
  "converge_loop policy resync run [] waits s = (Inl (StillFenced (max_attempts policy)), waits, s)"
| "converge_loop policy resync run (attempt # attempts) waits s = (case resync s of
     (Inl source, s) \<Rightarrow>
       (if attempt = max_attempts policy then (Inl (ResyncFailed attempt source), waits, s)
        else converge_loop policy resync run attempts (waits @ [backoff_base policy * unat attempt]) s)
   | (Inr _, s) \<Rightarrow> (case run s of
       (ConvergeStep.Converged v, s) \<Rightarrow> (Inr v, waits, s)
     | (ConvergeStep.Fenced, s) \<Rightarrow>
         (if attempt = max_attempts policy then (Inl (StillFenced attempt), waits, s)
          else converge_loop policy resync run attempts (waits @ [backoff_base policy * unat attempt]) s)
     | (ConvergeStep.Failed source, s) \<Rightarrow>
         (if attempt = max_attempts policy then (Inl (RunFailed attempt source), waits, s)
          else converge_loop policy resync run attempts (waits @ [backoff_base policy * unat attempt]) s)))"

definition converge_on_fence ::
    "RearmPolicy \<Rightarrow> ('s \<Rightarrow> ('io + unit) \<times> 's) \<Rightarrow> ('s \<Rightarrow> ('a, 'e) ConvergeStep \<times> 's) \<Rightarrow> 's \<Rightarrow>
     (('io, 'e) RearmError + 'a) \<times> nat list \<times> 's" where
  "converge_on_fence policy resync run s =
     converge_loop policy resync run (map word_of_nat [1..<Suc (unat (max_attempts policy))]) [] s"

datatype CollectionOutcome = Completed nat | Cancelled | FencedConflict

datatype CollectionError = LockHeld | OtherError string

definition collection_step :: "CollectionError + CollectionOutcome \<Rightarrow> (CollectionOutcome, CollectionError) ConvergeStep" where
  "collection_step result = (case result of
     Inr (CollectionOutcome.Completed unscanned) \<Rightarrow> ConvergeStep.Converged (CollectionOutcome.Completed unscanned)
   | Inr CollectionOutcome.Cancelled \<Rightarrow> ConvergeStep.Converged CollectionOutcome.Cancelled
   | Inr CollectionOutcome.FencedConflict \<Rightarrow> ConvergeStep.Fenced
   | Inl source \<Rightarrow> ConvergeStep.Failed source)"

definition rearm_after_fenced_conflict ::
    "RearmPolicy \<Rightarrow> ('s \<Rightarrow> ('io + unit) \<times> 's) \<Rightarrow> ('s \<Rightarrow> (CollectionError + CollectionOutcome) \<times> 's) \<Rightarrow> 's \<Rightarrow>
     (('io, CollectionError) RearmError + CollectionOutcome) \<times> nat list \<times> 's" where
  "rearm_after_fenced_conflict policy resync run =
     converge_on_fence policy resync (\<lambda>s. case run s of (result, s) \<Rightarrow> (collection_step result, s))"

text \<open>
  \<open>rearm_fenced_run\<close>: nothing is tried when the NATS configuration is invalid. The outer \<open>None\<close> is the panic of the arm
  that the code calls unreachable.
\<close>

definition rearm_fenced_run ::
    "bool \<Rightarrow> ('s \<Rightarrow> ('io + unit) \<times> 's) \<Rightarrow> ('s \<Rightarrow> (CollectionError + CollectionOutcome) \<times> 's) \<Rightarrow> 's \<Rightarrow>
     CollectionOutcome option option \<times> 's" where
  "rearm_fenced_run nats_valid resync run s =
     (if \<not> nats_valid then (Some None, s)
      else case rearm_after_fenced_conflict RearmPolicy_DEFAULT resync run s of
        (Inr (CollectionOutcome.Completed unscanned), _, s) \<Rightarrow> (Some (Some (CollectionOutcome.Completed unscanned)), s)
      | (Inr CollectionOutcome.Cancelled, _, s) \<Rightarrow> (Some (Some CollectionOutcome.Cancelled), s)
      | (Inr CollectionOutcome.FencedConflict, _, s) \<Rightarrow> (None, s)
      | (Inl _, _, s) \<Rightarrow> (Some None, s))"

text \<open>The same for a team-refresh tick; the last failure of a tick is kept beside the state for the caller.\<close>

definition is_fenced_error :: "PersistenceError \<Rightarrow> bool" where
  "is_fenced_error err = (case err of PersistenceError.FencedConflict _ _ \<Rightarrow> True | _ \<Rightarrow> False)"

definition team_refresh_step ::
    "('s \<Rightarrow> (TickFailure + unit) \<times> 's) \<Rightarrow> 's \<times> TickFailure option \<Rightarrow> (unit, unit) ConvergeStep \<times> 's \<times> TickFailure option" where
  "team_refresh_step run st = (case run (fst st) of
     (Inr _, s) \<Rightarrow> (ConvergeStep.Converged (), s, snd st)
   | (Inl failure, s) \<Rightarrow>
       (if is_fenced_error (tf_error failure) then ConvergeStep.Fenced else ConvergeStep.Failed (), s, Some failure))"

definition rearm_after_fenced_team_refresh ::
    "RearmPolicy \<Rightarrow> ('s \<Rightarrow> ('io + unit) \<times> 's) \<Rightarrow> ('s \<Rightarrow> (TickFailure + unit) \<times> 's) \<Rightarrow> 's \<Rightarrow>
     (('io, unit) RearmError + unit) \<times> TickFailure option \<times> 's" where
  "rearm_after_fenced_team_refresh policy resync run s =
     (case converge_on_fence policy (\<lambda>st. case resync (fst st) of (r, s) \<Rightarrow> (r, s, snd st)) (team_refresh_step run) (s, None) of
        (outcome, _, s, last_failure) \<Rightarrow> (outcome, last_failure, s))"

definition rearm_fenced_team_refresh_tick ::
    "bool \<Rightarrow> ('b AppState \<Rightarrow> ('io + unit) \<times> 'b AppState) \<Rightarrow> ('b AppState \<Rightarrow> (TickFailure + unit) \<times> 'b AppState) \<Rightarrow>
     'b AppState \<Rightarrow> 'b AppState" where
  "rearm_fenced_team_refresh_tick nats_valid resync run s =
     (if \<not> nats_valid then s
      else case rearm_after_fenced_team_refresh RearmPolicy_DEFAULT resync run s of
        (Inr _, _, s) \<Rightarrow> s
      | (Inl _, None, s) \<Rightarrow> s
      | (Inl _, Some failure, s) \<Rightarrow>
          (if tf_error failure = PersistenceError.Indeterminate then stop_for_reconciliation (tf_error failure) s else s))"

definition run_one_team_refresh_tick ::
    "bool \<Rightarrow> ('b AppState \<Rightarrow> ('io + unit) \<times> 'b AppState) \<Rightarrow> ('b AppState \<Rightarrow> (TickFailure + unit) \<times> 'b AppState) \<Rightarrow>
     'b AppState \<Rightarrow> 'b AppState" where
  "run_one_team_refresh_tick nats_valid resync run s = (case ensure_write_admission s of
     (Inl _, s) \<Rightarrow> s
   | (Inr _, s) \<Rightarrow> (case run s of
       (Inr _, s) \<Rightarrow> s
     | (Inl failure, s) \<Rightarrow>
         (if tf_error failure = PersistenceError.Indeterminate then stop_for_reconciliation (tf_error failure) s
          else if is_fenced_error (tf_error failure) then rearm_fenced_team_refresh_tick nats_valid resync run s
          else s)))"

subsection \<open>Intervals\<close>

definition COLLECTION_INTERVAL_SECS :: u64 where
  "COLLECTION_INTERVAL_SECS = 3600"

definition COLLECTION_RETRY_INTERVAL_SECS :: u64 where
  "COLLECTION_RETRY_INTERVAL_SECS = 60"

definition checked_shl :: "u64 \<Rightarrow> u32 \<Rightarrow> u64 option" where
  "checked_shl w n = (if n < 64 then Some (push_bit (unat n) w) else None)"

definition collection_interval :: "u32 \<Rightarrow> u64" where
  "collection_interval consecutive_retries =
     (if consecutive_retries = 0 then COLLECTION_INTERVAL_SECS
      else let factor = (case checked_shl 1 (saturating_sub consecutive_retries 1) of None \<Rightarrow> - 1 | Some f \<Rightarrow> f)
           in min (saturating_mul COLLECTION_RETRY_INTERVAL_SECS factor) COLLECTION_INTERVAL_SECS)"

subsection \<open>The loop\<close>

text \<open>A flag that is consumed by the first run.\<close>

definition OneShotFlag_consume :: "bool \<Rightarrow> bool \<times> bool" where
  "OneShotFlag_consume flag = (flag, False)"

definition OneShotFlag_peek :: "bool \<Rightarrow> bool" where
  "OneShotFlag_peek flag = flag"

record RunFlags =
  force_unlock :: bool
  force_refresh :: bool

definition initial_run_config :: "RunFlags \<Rightarrow> RunFlags \<times> RunFlags" where
  "initial_run_config flags =
     (let (unlock, unlock') = OneShotFlag_consume (force_unlock flags);
          (fresh, fresh') = OneShotFlag_consume (force_refresh flags)
      in (\<lparr>force_unlock = unlock, force_refresh = fresh\<rparr>, \<lparr>force_unlock = unlock', force_refresh = fresh'\<rparr>))"

definition scheduled_run_config :: "RunFlags \<Rightarrow> RunFlags" where
  "scheduled_run_config flags =
     \<lparr>force_unlock = OneShotFlag_peek (force_unlock flags), force_refresh = OneShotFlag_peek (force_refresh flags)\<rparr>"

text \<open>
  The state of the loop: the world of the runs, the flags, the counter of runs that were not complete, and for every run
  the configuration it was given. The two operations are a run with its configuration and a resynchronisation.
\<close>

record 's Loop =
  world :: 's
  flags :: RunFlags
  consecutive_retries :: u32
  started :: "RunFlags list"

type_synonym 's collection = "RunFlags \<Rightarrow> 's \<Rightarrow> (CollectionError + CollectionOutcome) \<times> 's"

definition run_initial :: "'s collection \<Rightarrow> 's Loop \<Rightarrow> (CollectionError + CollectionOutcome) \<times> 's Loop" where
  "run_initial collect l = (case initial_run_config (flags l) of (cfg, flags') \<Rightarrow>
     (case collect cfg (world l) of (result, w) \<Rightarrow>
        (result, l\<lparr>world := w, flags := flags', started := started l @ [cfg]\<rparr>)))"

definition run_scheduled :: "'s collection \<Rightarrow> 's Loop \<Rightarrow> (CollectionError + CollectionOutcome) \<times> 's Loop" where
  "run_scheduled collect l = (let cfg = scheduled_run_config (flags l) in
     (case collect cfg (world l) of (result, w) \<Rightarrow> (result, l\<lparr>world := w, started := started l @ [cfg]\<rparr>)))"

definition resync_world :: "('s \<Rightarrow> ('io + unit) \<times> 's) \<Rightarrow> 's Loop \<Rightarrow> ('io + unit) \<times> 's Loop" where
  "resync_world resync l = (case resync (world l) of (r, w) \<Rightarrow> (r, l\<lparr>world := w\<rparr>))"

text \<open>The first block of \<open>spawn_collection_loop\<close> and one pass through its loop; \<open>None\<close> is a panic.\<close>

definition initial_collection ::
    "bool \<Rightarrow> ('s \<Rightarrow> ('io + unit) \<times> 's) \<Rightarrow> 's collection \<Rightarrow> 's Loop \<Rightarrow> 's Loop option" where
  "initial_collection nats_valid resync collect l =
     (case run_initial collect (l\<lparr>consecutive_retries := 0\<rparr>) of
        (Inr (CollectionOutcome.Completed unscanned), l) \<Rightarrow> Some (l\<lparr>consecutive_retries := if unscanned > 0 then 1 else 0\<rparr>)
      | (Inr CollectionOutcome.Cancelled, l) \<Rightarrow> Some l
      | (Inr CollectionOutcome.FencedConflict, l) \<Rightarrow>
          (case rearm_fenced_run nats_valid (resync_world resync) (run_initial collect) l of
             (None, l) \<Rightarrow> None
           | (Some outcome, l) \<Rightarrow> Some (l\<lparr>consecutive_retries :=
               if outcome = Some (CollectionOutcome.Completed 0) then 0 else 1\<rparr>))
      | (Inl LockHeld, l) \<Rightarrow> Some (l\<lparr>consecutive_retries := 1\<rparr>)
      | (Inl (OtherError _), l) \<Rightarrow> Some (l\<lparr>consecutive_retries := 1\<rparr>))"

definition scheduled_collection ::
    "bool \<Rightarrow> ('s \<Rightarrow> ('io + unit) \<times> 's) \<Rightarrow> 's collection \<Rightarrow> 's Loop \<Rightarrow> 's Loop option" where
  "scheduled_collection nats_valid resync collect l =
     (case run_scheduled collect l of
        (Inr (CollectionOutcome.Completed unscanned), l) \<Rightarrow>
          Some (l\<lparr>consecutive_retries := if unscanned = 0 then 0 else saturating_add (consecutive_retries l) 1\<rparr>)
      | (Inr CollectionOutcome.Cancelled, l) \<Rightarrow> Some l
      | (Inr CollectionOutcome.FencedConflict, l) \<Rightarrow>
          (case rearm_fenced_run nats_valid (resync_world resync) (run_scheduled collect) l of
             (None, l) \<Rightarrow> None
           | (Some outcome, l) \<Rightarrow> Some (l\<lparr>consecutive_retries :=
               if outcome = Some (CollectionOutcome.Completed 0) then 0 else saturating_add (consecutive_retries l) 1\<rparr>))
      | (Inl LockHeld, l) \<Rightarrow> Some (l\<lparr>consecutive_retries := saturating_add (consecutive_retries l) 1\<rparr>)
      | (Inl (OtherError _), l) \<Rightarrow> Some (l\<lparr>consecutive_retries := saturating_add (consecutive_retries l) 1\<rparr>))"

subsection \<open>Laws\<close>

text \<open>One attempt, with the error it would be reported as, and the states before the attempts.\<close>

definition try_once ::
    "('s \<Rightarrow> ('io + unit) \<times> 's) \<Rightarrow> ('s \<Rightarrow> ('a, 'e) ConvergeStep \<times> 's) \<Rightarrow> 's \<Rightarrow>
     ((u32 \<Rightarrow> ('io, 'e) RearmError) + 'a) \<times> 's" where
  "try_once resync run s = (case resync s of
     (Inl source, s) \<Rightarrow> (Inl (\<lambda>n. ResyncFailed n source), s)
   | (Inr _, s) \<Rightarrow> (case run s of
       (ConvergeStep.Converged v, s) \<Rightarrow> (Inr v, s)
     | (ConvergeStep.Fenced, s) \<Rightarrow> (Inl StillFenced, s)
     | (ConvergeStep.Failed source, s) \<Rightarrow> (Inl (\<lambda>n. RunFailed n source), s)))"

definition before_attempt ::
    "('s \<Rightarrow> ('io + unit) \<times> 's) \<Rightarrow> ('s \<Rightarrow> ('a, 'e) ConvergeStep \<times> 's) \<Rightarrow> nat \<Rightarrow> 's \<Rightarrow> 's" where
  "before_attempt resync run k s = ((\<lambda>s. snd (try_once resync run s)) ^^ k) s"

definition attempt_waits :: "nat \<Rightarrow> nat \<Rightarrow> nat list" where
  "attempt_waits base k = map (\<lambda>i. base * Suc i) [0..<k]"

lemma converge_loop_Cons:
  "converge_loop policy resync run (attempt # attempts) waits s = (case try_once resync run s of
     (Inr v, s) \<Rightarrow> (Inr v, waits, s)
   | (Inl err, s) \<Rightarrow>
       (if attempt = max_attempts policy then (Inl (err attempt), waits, s)
        else converge_loop policy resync run attempts (waits @ [backoff_base policy * unat attempt]) s))"
  by (simp add: try_once_def split: prod.split sum.split ConvergeStep.split)

lemma before_attempt_Suc:
  "before_attempt resync run (Suc k) s = before_attempt resync run k (snd (try_once resync run s))"
  by (simp only: before_attempt_def funpow_Suc_right comp_apply)

lemma attempts_Suc: "m < unat (n :: u32) \<Longrightarrow> unat (word_of_nat (Suc m) :: u32) = Suc m"
  using unsigned_less [of n, where ?'a = nat] by (simp add: unsigned_of_nat take_bit_nat_eq_self del: of_nat_Suc)

lemma converge_loop_exact:
  assumes "unat (max_attempts policy) = m + n" and "k < n"
    and "\<And>j. j < k \<Longrightarrow> \<nexists>v. fst (try_once resync run (before_attempt resync run j s)) = Inr v"
    and "(\<exists>v. fst (try_once resync run (before_attempt resync run k s)) = Inr v) \<or> Suc k = n"
  shows "converge_loop policy resync run (map word_of_nat [Suc m..<Suc (m + n)]) (attempt_waits (backoff_base policy) m) s =
    (case fst (try_once resync run (before_attempt resync run k s)) of Inr v \<Rightarrow> Inr v | Inl err \<Rightarrow> Inl (err (max_attempts policy)),
     attempt_waits (backoff_base policy) (m + k), before_attempt resync run (Suc k) s)"
  using assms
proof (induction k arbitrary: m n s)
  case 0
  obtain r s' where r: "try_once resync run s = (r, s')" by force
  have list: "[Suc m..<Suc (m + n)] = Suc m # [Suc (Suc m)..<Suc (m + n)]" using 0(2) by (simp add: upt_conv_Cons)
  have last: "word_of_nat (Suc m) = max_attempts policy" if "n = 1"
    using 0(1) that attempts_Suc [of m "max_attempts policy"] by (intro word_eq_by_unat) simp
  show ?case using 0(4) last r unfolding list list.map converge_loop_Cons
    by (auto simp: before_attempt_def split: sum.splits)
next
  case (Suc k)
  obtain r s' where r: "try_once resync run s = (r, s')" by force
  have list: "[Suc m..<Suc (m + n)] = Suc m # [Suc (Suc m)..<Suc (m + n)]" using Suc.prems(2) by (simp add: upt_conv_Cons)
  have u: "unat (word_of_nat (Suc m) :: u32) = Suc m" using attempts_Suc [of m "max_attempts policy"] Suc.prems(1,2) by simp
  then have more: "word_of_nat (Suc m) \<noteq> max_attempts policy" using Suc.prems(1,2) by auto
  obtain err where err: "r = Inl err" using Suc.prems(3) [of 0] r by (cases r) (auto simp: before_attempt_def)
  have waits: "attempt_waits b m @ [b * Suc m] = attempt_waits b (Suc m)" for b by (simp add: attempt_waits_def)
  have "converge_loop policy resync run (map word_of_nat [Suc (Suc m)..<Suc (Suc m + (n - 1))])
      (attempt_waits (backoff_base policy) (Suc m)) s' =
    (case fst (try_once resync run (before_attempt resync run k s')) of Inr v \<Rightarrow> Inr v | Inl err \<Rightarrow> Inl (err (max_attempts policy)),
     attempt_waits (backoff_base policy) (Suc m + k), before_attempt resync run (Suc k) s')"
  proof (rule Suc.IH)
    show "\<nexists>v. fst (try_once resync run (before_attempt resync run j s')) = Inr v" if "j < k" for j
      using Suc.prems(3) [of "Suc j"] that r by (simp add: before_attempt_Suc)
    show "(\<exists>v. fst (try_once resync run (before_attempt resync run k s')) = Inr v) \<or> Suc k = n - 1"
      using Suc.prems(2,4) r by (auto simp: before_attempt_Suc)
  qed (use Suc.prems(1,2) in auto)
  moreover have "Suc (Suc m + (n - 1)) = Suc (m + n)" using Suc.prems(2) by simp
  ultimately show ?case using r err more u waits
    unfolding list list.map converge_loop_Cons by (simp add: before_attempt_Suc del: of_nat_Suc)
qed

text \<open>The re-armed run never reports that it is still fenced as a success, so the arm called unreachable is.\<close>

lemma converge_loop_source:
  "converge_loop policy resync run attempts waits s = (Inr v, waits', s') \<Longrightarrow> \<exists>t. run t = (ConvergeStep.Converged v, s')"
  by (induction attempts arbitrary: waits s) (auto split: prod.splits sum.splits ConvergeStep.splits if_splits)

lemma rearm_never_panics: "fst (rearm_fenced_run nats_valid resync run s) \<noteq> None"
proof -
  obtain r waits s' where r: "rearm_after_fenced_conflict RearmPolicy_DEFAULT resync run s = (r, waits, s')"
    by (metis prod_cases3)
  have "r \<noteq> Inr CollectionOutcome.FencedConflict"
    using r converge_loop_source unfolding rearm_after_fenced_conflict_def converge_on_fence_def collection_step_def
    by (fastforce split: prod.splits sum.splits CollectionOutcome.splits)
  with r show ?thesis by (auto simp: rearm_fenced_run_def split: sum.split CollectionOutcome.split)
qed

lemma collections_never_panic:
  "initial_collection nats_valid resync collect l \<noteq> None" "scheduled_collection nats_valid resync collect l \<noteq> None"
proof -
  have "rearm_fenced_run nats_valid (resync_world resync) run m \<noteq> (None, m')" for run m m'
    using rearm_never_panics [of nats_valid "resync_world resync" run m] by (metis fst_conv)
  then show "initial_collection nats_valid resync collect l \<noteq> None" "scheduled_collection nats_valid resync collect l \<noteq> None"
    by (auto simp: initial_collection_def scheduled_collection_def
        split: prod.split sum.split CollectionOutcome.split CollectionError.split option.split)
qed

text \<open>Only the very first run is forced: a retry of a fenced first run finds both flags already consumed.\<close>

lemma converge_loop_invariant:
  assumes "\<And>s. I s \<Longrightarrow> I (snd (resync s))" and "\<And>s. I s \<Longrightarrow> I (snd (run s))" and "I s"
  shows "I (snd (snd (converge_loop policy resync run attempts waits s)))"
  using assms(3)
proof (induction attempts arbitrary: waits s)
  case (Cons attempt attempts)
  obtain x t where x: "resync s = (x, t)" by force
  obtain y u where y: "run t = (y, u)" by force
  have "I t" using assms(1) [OF Cons.prems] x by simp
  with assms(2) [OF this] x y have "I (snd (try_once resync run s))"
    by (simp add: try_once_def split: sum.split ConvergeStep.split)
  then show ?case using Cons.IH unfolding converge_loop_Cons by (auto split: prod.split sum.split)
qed simp

lemma retries_are_not_forced:
  assumes "initial_collection nats_valid resync collect l = Some l'" and "started l = []" and "cfg \<in> set (tl (started l'))"
  shows "\<not> force_refresh cfg \<and> \<not> force_unlock cfg"
proof -
  define I where "I m \<longleftrightarrow> \<not> force_unlock (flags m) \<and> \<not> force_refresh (flags m) \<and> started m \<noteq> [] \<and>
    (\<forall>c\<in>set (tl (started m)). \<not> force_refresh c \<and> \<not> force_unlock c)" for m :: "'a Loop"
  note cfg_defs = run_initial_def initial_run_config_def OneShotFlag_consume_def Let_def
  obtain r m where m: "run_initial collect (l\<lparr>consecutive_retries := 0\<rparr>) = (r, m)" by force
  then have "I m" using assms(2) by (auto simp: cfg_defs I_def split: prod.splits)
  have steps: "I (snd (resync_world resync n))" "I (snd (case run_initial collect n of (result, s) \<Rightarrow> (collection_step result, s)))"
    if "I n" for n
    using that by (auto simp: I_def resync_world_def cfg_defs split: prod.splits)
  have "I (snd (snd (rearm_after_fenced_conflict RearmPolicy_DEFAULT (resync_world resync) (run_initial collect) m)))"
    unfolding rearm_after_fenced_conflict_def converge_on_fence_def
    by (rule converge_loop_invariant [where I = I, OF steps \<open>I m\<close>])
  then have "I (snd (rearm_fenced_run nats_valid (resync_world resync) (run_initial collect) m))"
    using \<open>I m\<close> by (auto simp: rearm_fenced_run_def split: prod.split sum.split CollectionOutcome.split)
  then have rearmed: "I m'" if "rearm_fenced_run nats_valid (resync_world resync) (run_initial collect) m = (o', m')" for o' m'
    using that by simp
  have keep: "I (n\<lparr>consecutive_retries := c\<rparr>) = I n" for n c by (simp add: I_def)
  have "I l'"
  proof (cases "r = Inr CollectionOutcome.FencedConflict")
    case True
    with assms(1) m rearmed show ?thesis
      by (auto simp: initial_collection_def keep split: prod.splits option.splits)
  next
    case False
    with assms(1) m \<open>I m\<close> show ?thesis
      by (auto simp: initial_collection_def keep split: sum.splits CollectionOutcome.splits CollectionError.splits)
  qed
  with assms(3) show ?thesis by (simp add: I_def)
qed

subsection \<open>Properties\<close>

text \<open>
  C22. Re-arming after a lost single-writer race is exactly bounded. The stores are read again before every retry; the
  first retry that comes through ends the loop with its result; otherwise the loop ends after the configured number of
  attempts with the error of the last one, whether that was a failed read, a failed run or another lost race. The waits
  between the attempts grow by the base with each attempt, and there is no wait after the last.
\<close>

theorem rearm_is_bounded_retry:
  assumes "k < unat (max_attempts policy)"
    and "\<And>j. j < k \<Longrightarrow> \<nexists>v. fst (try_once resync run (before_attempt resync run j s)) = Inr v"
    and "(\<exists>v. fst (try_once resync run (before_attempt resync run k s)) = Inr v) \<or> Suc k = unat (max_attempts policy)"
  shows "converge_on_fence policy resync run s =
    (case fst (try_once resync run (before_attempt resync run k s)) of Inr v \<Rightarrow> Inr v | Inl err \<Rightarrow> Inl (err (max_attempts policy)),
     attempt_waits (backoff_base policy) k, before_attempt resync run (Suc k) s)"
  using converge_loop_exact [of policy 0 "unat (max_attempts policy)" k resync run s] assms
  by (simp add: converge_on_fence_def attempt_waits_def)

theorem rearm_is_bounded_retry_witness:
  "converge_on_fence RearmPolicy_DEFAULT (\<lambda>n :: nat. (Inr () :: string + unit, n))
     (\<lambda>n. (if n = 1 then ConvergeStep.Converged ''done'' else (ConvergeStep.Fenced :: (string, string) ConvergeStep), Suc n)) 0 =
   (Inr ''done'', [2], 2)"
proof -
  let ?resync = "\<lambda>n :: nat. (Inr () :: string + unit, n)"
  let ?run = "\<lambda>n. (if n = 1 then ConvergeStep.Converged ''done'' else (ConvergeStep.Fenced :: (string, string) ConvergeStep), Suc n)"
  have at: "before_attempt ?resync ?run 0 0 = 0" "before_attempt ?resync ?run 1 0 = 1" "before_attempt ?resync ?run (Suc 1) 0 = 2"
    by (simp_all add: before_attempt_def try_once_def)
  have "unat (max_attempts RearmPolicy_DEFAULT) = 3" "backoff_base RearmPolicy_DEFAULT = 2" by (simp_all add: RearmPolicy_DEFAULT_def)
  moreover have "try_once ?resync ?run 0 = (Inl StillFenced, 1)" "try_once ?resync ?run 1 = (Inr ''done'', 2)"
    by (simp_all add: try_once_def)
  moreover have "attempt_waits 2 1 = [2]" by (simp add: attempt_waits_def)
  ultimately show ?thesis
    using rearm_is_bounded_retry [of 1 RearmPolicy_DEFAULT ?resync ?run 0] at by simp
qed

text \<open>
  The interval until the next collection never overflows, whatever the number of incomplete runs before it: it is one
  hour after a complete run and otherwise a minute that doubles with every further incomplete run, up to the hour.
\<close>

theorem collection_interval_doubles:
  "unat (collection_interval n) = (if n = 0 then 3600 else min 3600 (60 * 2 ^ (unat n - 1)))"
proof (cases "n = 0")
  case False
  define m where "m = unat n - 1"
  have sub: "unat (saturating_sub n 1) = m" by (simp add: unat_saturating_sub m_def)
  then have less: "saturating_sub n 1 < 64 \<longleftrightarrow> m < 64" by (simp add: word_less_nat_alt)
  have "unat (collection_interval n) = min 3600 (60 * 2 ^ m)"
  proof (cases "m < 6")
    case True
    then have "m = 0 \<or> m = 1 \<or> m = 2 \<or> m = 3 \<or> m = 4 \<or> m = 5" by auto
    with False sub less show ?thesis
      by (elim disjE) (simp_all add: collection_interval_def checked_shl_def COLLECTION_INTERVAL_SECS_def
          COLLECTION_RETRY_INTERVAL_SECS_def saturating_mul_def push_bit_eq_mult)
  next
    case ge: False
    have pow: "(2 :: nat) ^ 6 \<le> 2 ^ m" using ge by (intro power_increasing) auto
    have big: "64 \<le> unat (case checked_shl 1 (saturating_sub n 1) of None \<Rightarrow> (- 1 :: u64) | Some f \<Rightarrow> f)"
    proof (cases "m < 64")
      case True
      then have "(2 :: nat) ^ m < 2 ^ 64" by (intro power_strict_increasing) auto
      then have "unat (word_of_nat (2 ^ m) :: u64) = 2 ^ m"
        using True by (simp add: unsigned_of_nat take_bit_nat_eq_self del: of_nat_power)
      then have "unat ((2 :: u64) ^ m) = 2 ^ m" by simp
      with pow True sub less show ?thesis by (simp add: checked_shl_def push_bit_eq_mult)
    qed (use less in \<open>simp add: checked_shl_def unat_max_word\<close>)
    then have "3600 \<le> unat (saturating_mul COLLECTION_RETRY_INTERVAL_SECS
        (case checked_shl 1 (saturating_sub n 1) of None \<Rightarrow> - 1 | Some f \<Rightarrow> f))"
      by (auto simp: saturating_mul_def COLLECTION_RETRY_INTERVAL_SECS_def unat_max_word unat_mult_lem [THEN iffD1])
    then have "collection_interval n = 3600" using False
      by (simp add: collection_interval_def Let_def COLLECTION_INTERVAL_SECS_def min_def word_le_nat_alt word_unat_eq_iff)
    with pow show ?thesis by simp
  qed
  with False show ?thesis by (simp add: m_def)
qed (simp add: collection_interval_def COLLECTION_INTERVAL_SECS_def)

end
