(* ===== verification/Table_Sort.thy ===== *)
theory Table_Sort
  imports Evidence_Model Github_Limits Github_Link F64 "HOL-Library.Product_Lexorder"
begin

text \<open>
  The browser client of the reports, \<open>gh-report-web-client\<close>: how a column of a table is classified, how two cells compare
  (\<open>sort.rs\<close>), and what a click on a header does to the rows and to the attributes of the header (\<open>dom.rs\<close>). A text is
  its UTF-8 bytes. The parser of floating-point numbers is that of the standard library: the grammar in full, the value
  rounded to the nearest binary64 number with its subnormal numbers and its overflow. \<open>sort_by\<close> is the stable sort of the
  standard library. The signals of the user interface and the registration of listeners are left out.
\<close>

subsection \<open>Floating-point numbers\<close>

text \<open>The values of \<open>f64\<close> up to the sign of zero, which no comparison sees.\<close>

datatype F64Value = NegInfinity | Finite rat | Infinity | NaN

definition is_ascii_digit :: "char \<Rightarrow> bool" where
  "is_ascii_digit c \<longleftrightarrow> byte_in 0x30 0x39 c"

definition round_binary64 :: "rat \<Rightarrow> F64Value" where
  "round_binary64 q =
     (if q = 0 then Finite 0
      else let e = max (ilog2 q - 52) (- 1074); r = of_int (round_ties_even (q / 2 powi e)) * 2 powi e
           in if 2 powi 1024 \<le> r then Infinity else Finite r)"

definition parse_exponent :: "string \<Rightarrow> int option" where
  "parse_exponent s = (case s of
     [] \<Rightarrow> Some 0
   | c # t \<Rightarrow>
       if c \<noteq> CHR ''e'' \<and> c \<noteq> CHR ''E'' then None
       else let digits = (case t of d # u \<Rightarrow> if d = CHR ''+'' \<or> d = CHR ''-'' then u else t | [] \<Rightarrow> []);
                negative = (case t of d # u \<Rightarrow> d = CHR ''-'' | [] \<Rightarrow> False)
            in if digits = [] \<or> \<not> list_all is_ascii_digit digits then None
               else Some (if negative then - int (decimal_value digits) else int (decimal_value digits)))"

definition parse_decimal :: "string \<Rightarrow> rat option" where
  "parse_decimal s =
     (let whole = takeWhile is_ascii_digit s; rest = dropWhile is_ascii_digit s;
          (fraction, rest) = (case rest of
             c # t \<Rightarrow> if c = CHR ''.'' then (takeWhile is_ascii_digit t, dropWhile is_ascii_digit t) else ([], rest)
           | [] \<Rightarrow> ([], rest))
      in if whole = [] \<and> fraction = [] then None
         else map_option (\<lambda>e. of_nat (decimal_value (whole @ fraction)) * 10 powi (e - int (length fraction)))
                (parse_exponent rest))"

definition parse_magnitude :: "string \<Rightarrow> F64Value option" where
  "parse_magnitude s = (case parse_decimal s of
     Some q \<Rightarrow> Some (round_binary64 q)
   | None \<Rightarrow>
       if eq_ignore_ascii_case s ''inf'' \<or> eq_ignore_ascii_case s ''infinity'' then Some Infinity
       else if eq_ignore_ascii_case s ''nan'' then Some NaN
       else None)"

fun F64Value_neg :: "F64Value \<Rightarrow> F64Value" where
  "F64Value_neg NegInfinity = Infinity"
| "F64Value_neg (Finite q) = Finite (- q)"
| "F64Value_neg Infinity = NegInfinity"
| "F64Value_neg NaN = NaN"

definition f64_from_str :: "string \<Rightarrow> F64Value option" where
  "f64_from_str s = (case s of
     [] \<Rightarrow> None
   | c # t \<Rightarrow>
       if c = CHR ''-'' then map_option F64Value_neg (parse_magnitude t)
       else if c = CHR ''+'' then parse_magnitude t
       else parse_magnitude s)"

fun F64Value_partial_cmp :: "F64Value \<Rightarrow> F64Value \<Rightarrow> Ordering option" where
  "F64Value_partial_cmp NaN _ = None"
| "F64Value_partial_cmp _ NaN = None"
| "F64Value_partial_cmp (Finite p) (Finite q) = Some (cmp p q)"
| "F64Value_partial_cmp NegInfinity NegInfinity = Some Ordering.Equal"
| "F64Value_partial_cmp Infinity Infinity = Some Ordering.Equal"
| "F64Value_partial_cmp NegInfinity _ = Some Ordering.Less"
| "F64Value_partial_cmp _ NegInfinity = Some Ordering.Greater"
| "F64Value_partial_cmp Infinity _ = Some Ordering.Greater"
| "F64Value_partial_cmp _ Infinity = Some Ordering.Less"

subsection \<open>Cells\<close>

datatype SortType = Numeric | Date | Text | Status

datatype SortDirection = Ascending | Descending

fun SortDirection_toggled :: "SortDirection \<Rightarrow> SortDirection" where
  "SortDirection_toggled Ascending = Descending"
| "SortDirection_toggled Descending = Ascending"

definition parse_sort_type :: "string option \<Rightarrow> SortType option" where
  "parse_sort_type attr =
     (if attr = Some ''numeric'' then Some Numeric
      else if attr = Some ''date'' then Some Date
      else if attr = Some ''text'' then Some Text
      else if attr = Some ''status'' then Some Status
      else None)"

definition trim_end_percent :: "string \<Rightarrow> string" where
  "trim_end_percent s = rev (dropWhile (\<lambda>c. c = CHR ''%'') (rev s))"

definition parse_numeric :: "string \<Rightarrow> F64Value option" where
  "parse_numeric s =
     (let trimmed = str_trim s
      in if trimmed = [] then Some NegInfinity
         else let token = (case split_whitespace trimmed of t # _ \<Rightarrow> t | [] \<Rightarrow> trimmed);
                  token = trim_end_percent token
              in if eq_ignore_ascii_case token ''n/a'' then Some NegInfinity
                 else let cleaned = filter (\<lambda>c. c \<noteq> CHR '','') token
                      in if cleaned = [] then Some NegInfinity else f64_from_str cleaned)"

definition is_iso_date_prefix :: "string \<Rightarrow> bool" where
  "is_iso_date_prefix s \<longleftrightarrow> 10 \<le> length s \<and>
     is_ascii_digit (s ! 0) \<and> is_ascii_digit (s ! 1) \<and> is_ascii_digit (s ! 2) \<and> is_ascii_digit (s ! 3) \<and>
     s ! 4 = CHR ''-'' \<and> is_ascii_digit (s ! 5) \<and> is_ascii_digit (s ! 6) \<and>
     s ! 7 = CHR ''-'' \<and> is_ascii_digit (s ! 8) \<and> is_ascii_digit (s ! 9)"

text \<open>The flags of the sampling loop: whether a cell was seen, and whether all were numbers, or all dates.\<close>

definition sample_cell :: "string \<Rightarrow> bool \<times> bool \<times> bool \<Rightarrow> bool \<times> bool \<times> bool" where
  "sample_cell raw flags = (case flags of (saw_any, all_numeric, all_date) \<Rightarrow>
     (let trimmed = str_trim raw
      in if trimmed = [] then flags
         else (True, all_numeric \<and> parse_numeric trimmed \<noteq> None, all_date \<and> is_iso_date_prefix trimmed)))"

definition detect_sort_type :: "string list \<Rightarrow> SortType" where
  "detect_sort_type cells = (case fold sample_cell cells (False, True, True) of (saw_any, all_numeric, all_date) \<Rightarrow>
     if \<not> saw_any then Text else if all_numeric then Numeric else if all_date then Date else Text)"

definition compare_numeric :: "string \<Rightarrow> string \<Rightarrow> Ordering" where
  "compare_numeric a b = (case (parse_numeric a, parse_numeric b) of
     (Some x, Some y) \<Rightarrow>
       if x = NegInfinity \<and> y = NegInfinity then cmp a b
       else (case F64Value_partial_cmp x y of None \<Rightarrow> Ordering.Equal | Some r \<Rightarrow> r)
   | (Some _, None) \<Rightarrow> Ordering.Greater
   | (None, Some _) \<Rightarrow> Ordering.Less
   | (None, None) \<Rightarrow> cmp a b)"

datatype KnownStatus = Fail | Partial | Pass

text \<open>The derived order of \<open>KnownStatus\<close> is that of its constructors.\<close>

fun KnownStatus_rank :: "KnownStatus \<Rightarrow> nat" where
  "KnownStatus_rank Fail = 0"
| "KnownStatus_rank Partial = 1"
| "KnownStatus_rank Pass = 2"

definition known_status :: "string \<Rightarrow> KnownStatus option" where
  "known_status v =
     (if v = ''fail'' then Some Fail else if v = ''partial'' then Some Partial else if v = ''pass'' then Some Pass else None)"

fun Ordering_reverse :: "Ordering \<Rightarrow> Ordering" where
  "Ordering_reverse Ordering.Less = Ordering.Greater"
| "Ordering_reverse Ordering.Equal = Ordering.Equal"
| "Ordering_reverse Ordering.Greater = Ordering.Less"

fun directed :: "Ordering \<Rightarrow> SortDirection \<Rightarrow> Ordering" where
  "directed r Ascending = r"
| "directed r Descending = Ordering_reverse r"

definition compare_status :: "string \<Rightarrow> string \<Rightarrow> SortDirection \<Rightarrow> Ordering" where
  "compare_status a b direction = (case (known_status a, known_status b) of
     (Some x, Some y) \<Rightarrow> directed (cmp (KnownStatus_rank x) (KnownStatus_rank y)) direction
   | (Some _, None) \<Rightarrow> Ordering.Less
   | (None, Some _) \<Rightarrow> Ordering.Greater
   | (None, None) \<Rightarrow> Ordering.Equal)"

definition compare_cells_directed :: "string \<Rightarrow> string \<Rightarrow> SortType \<Rightarrow> SortDirection \<Rightarrow> Ordering" where
  "compare_cells_directed a b sort_type direction = (case sort_type of
     Status \<Rightarrow> compare_status a b direction
   | Numeric \<Rightarrow> directed (compare_numeric a b) direction
   | Date \<Rightarrow> directed (cmp a b) direction
   | Text \<Rightarrow> directed (cmp a b) direction)"

subsection \<open>Tables\<close>

record Cell =
  cell_sort_value :: "string option"
  cell_content :: string

type_synonym Row = "Cell list"

record HeaderCell =
  nosort :: bool
  sort_type_attr :: "string option"
  aria_sort :: "string option"

record SortState =
  column :: nat
  direction :: SortDirection
  sort_type :: SortType

text \<open>A table with its header row and its body, if it has them, the handlers on its headers and the sort state.\<close>

record Table =
  t_head :: "HeaderCell list option"
  t_body :: "Row list option"
  handlers :: "(nat \<times> SortType) list"
  sort_state :: "SortState option"

definition cell_text :: "Row \<Rightarrow> nat \<Rightarrow> string" where
  "cell_text row i = (if i < length row
     then (case cell_sort_value (row ! i) of Some v \<Rightarrow> v | None \<Rightarrow> cell_content (row ! i)) else [])"

definition resolve_sort_type :: "Table \<Rightarrow> HeaderCell \<Rightarrow> nat \<Rightarrow> SortType" where
  "resolve_sort_type table th i = (case parse_sort_type (sort_type_attr th) of
     Some ty \<Rightarrow> ty
   | None \<Rightarrow> (case t_body table of
       None \<Rightarrow> Text
     | Some rows \<Rightarrow> detect_sort_type (map (\<lambda>row. cell_text row i) rows)))"

definition reflect_aria_sort :: "SortState option \<Rightarrow> Table \<Rightarrow> Table" where
  "reflect_aria_sort state table = table\<lparr>t_head := map_option (\<lambda>cells. map (\<lambda>(i, th).
     if nosort th then th
     else th\<lparr>aria_sort := Some (case state of
       Some s \<Rightarrow> if column s = i then (case direction s of Ascending \<Rightarrow> ''ascending'' | Descending \<Rightarrow> ''descending'') else ''none''
     | None \<Rightarrow> ''none'')\<rparr>) (enumerate 0 cells)) (t_head table)\<rparr>"

definition wire_table :: "Table \<Rightarrow> Table" where
  "wire_table table = (case t_head table of
     None \<Rightarrow> table
   | Some cells \<Rightarrow>
       (let table = reflect_aria_sort None (table\<lparr>sort_state := None\<rparr>)
        in table\<lparr>handlers := List.map_filter (\<lambda>(i, th).
             if nosort th then None else Some (i, resolve_sort_type table th i)) (enumerate 0 cells)\<rparr>))"

definition toggle_sort_state :: "SortState option \<Rightarrow> nat \<Rightarrow> SortType \<Rightarrow> SortState option" where
  "toggle_sort_state current i ty =
     (let dir = (case current of
        Some state \<Rightarrow> if column state = i then SortDirection_toggled (direction state) else Ascending
      | None \<Rightarrow> Ascending)
      in Some \<lparr>column = i, direction = dir, sort_type = ty\<rparr>)"

text \<open>The stable sort of a slice by a comparator.\<close>

fun insert_by :: "('a \<Rightarrow> 'a \<Rightarrow> Ordering) \<Rightarrow> 'a \<Rightarrow> 'a list \<Rightarrow> 'a list" where
  "insert_by c x [] = [x]"
| "insert_by c x (y # ys) = (if c x y = Ordering.Greater then y # insert_by c x ys else x # y # ys)"

definition sort_by :: "('a \<Rightarrow> 'a \<Rightarrow> Ordering) \<Rightarrow> 'a list \<Rightarrow> 'a list" where
  "sort_by c xs = foldr (insert_by c) xs []"

definition sort_text :: "SortState \<Rightarrow> Row \<Rightarrow> string" where
  "sort_text state row = (case sort_type state of
     Status \<Rightarrow> (if column state < length row
       then (case cell_sort_value (row ! column state) of Some v \<Rightarrow> v | None \<Rightarrow> []) else [])
   | _ \<Rightarrow> cell_text row (column state))"

definition apply_sort :: "SortState \<Rightarrow> Table \<Rightarrow> Table" where
  "apply_sort state table = (case t_body table of
     None \<Rightarrow> table
   | Some rows \<Rightarrow>
       (let texts = map (\<lambda>row. (row, sort_text state row)) rows;
            sorted_texts = sort_by (\<lambda>(_, a) (_, b). compare_cells_directed a b (sort_type state) (direction state)) texts
        in table\<lparr>t_body := Some (map fst sorted_texts)\<rparr>))"

text \<open>A click on a header: its handler, if it has one, toggles the state, and the effect on the state runs.\<close>

definition click :: "nat \<Rightarrow> Table \<Rightarrow> Table" where
  "click i table = (case map_of (handlers table) i of
     None \<Rightarrow> table
   | Some ty \<Rightarrow>
       (let state = toggle_sort_state (sort_state table) i ty; table = table\<lparr>sort_state := state\<rparr>
        in reflect_aria_sort state (case state of Some s \<Rightarrow> apply_sort s table | None \<Rightarrow> table)))"

subsection \<open>Sorting by a comparator\<close>

lemma mset_insert_by: "mset (insert_by c x ys) = add_mset x (mset ys)"
  by (induction ys) auto

lemma mset_sort_by: "mset (sort_by c xs) = mset xs"
  by (induction xs) (simp_all add: sort_by_def mset_insert_by)

lemma set_insert_by: "set (insert_by c x ys) = insert x (set ys)"
  by (metis mset_insert_by set_mset_add_mset_insert set_mset_mset)

text \<open>
  What \<open>sort_by\<close> demands of a comparator, on the texts \<open>A\<close> that occur: swapping the arguments reverses the answer, and
  not being greater is transitive. Its clients then get a sorted list in which equal elements keep their order.
\<close>

locale comparator =
  fixes compare :: "'k \<Rightarrow> 'k \<Rightarrow> Ordering" and A :: "'k set"
  assumes swap: "a \<in> A \<Longrightarrow> b \<in> A \<Longrightarrow> compare b a = Ordering_reverse (compare a b)"
    and trans: "a \<in> A \<Longrightarrow> b \<in> A \<Longrightarrow> d \<in> A \<Longrightarrow> compare a b \<noteq> Ordering.Greater \<Longrightarrow>
      compare b d \<noteq> Ordering.Greater \<Longrightarrow> compare a d \<noteq> Ordering.Greater"
begin

lemma not_greater: "a \<in> A \<Longrightarrow> b \<in> A \<Longrightarrow> compare a b = Ordering.Greater \<Longrightarrow> compare b a \<noteq> Ordering.Greater"
  using swap [of a b] by simp

lemma equal_iff:
  "a \<in> A \<Longrightarrow> b \<in> A \<Longrightarrow> compare a b = Ordering.Equal \<longleftrightarrow> compare a b \<noteq> Ordering.Greater \<and> compare b a \<noteq> Ordering.Greater"
  using swap [of a b] by (cases "compare a b") simp_all

lemma insert_by_sorted:
  assumes "k x \<in> A" and "k ` set ys \<subseteq> A" and "sorted_wrt (\<lambda>x y. compare (k x) (k y) \<noteq> Ordering.Greater) ys"
  shows "sorted_wrt (\<lambda>x y. compare (k x) (k y) \<noteq> Ordering.Greater) (insert_by (\<lambda>x y. compare (k x) (k y)) x ys)"
  using assms(2,3)
proof (induction ys)
  case (Cons y ys)
  have A: "k y \<in> A" "\<And>z. z \<in> set ys \<Longrightarrow> k z \<in> A" using Cons.prems(1) by auto
  have "compare (k x) (k z) \<noteq> Ordering.Greater" if "compare (k x) (k y) \<noteq> Ordering.Greater" "z \<in> set ys" for z
    using trans [OF assms(1) A(1) A(2) [OF that(2)] that(1)] Cons.prems(2) that(2) by simp
  with Cons A not_greater [OF assms(1) A(1)] show ?case by (auto simp: set_insert_by)
qed simp

lemma sort_by_sorted:
  assumes "k ` set xs \<subseteq> A"
  shows "sorted_wrt (\<lambda>x y. compare (k x) (k y) \<noteq> Ordering.Greater) (sort_by (\<lambda>x y. compare (k x) (k y)) xs)"
  using assms
proof (induction xs)
  case (Cons x xs)
  have "k ` set (foldr (insert_by (\<lambda>x y. compare (k x) (k y))) xs []) \<subseteq> A"
    using Cons.prems mset_sort_by [of "\<lambda>x y. compare (k x) (k y)" xs] by (metis (no_types) image_subset_iff list.set_intros(2) mset_eq_setD sort_by_def)
  with Cons show ?case by (simp add: sort_by_def insert_by_sorted)
qed (simp add: sort_by_def)

lemma insert_by_stable:
  assumes "k x \<in> A" and "k ` set ys \<subseteq> A" and "t \<in> A"
  shows "filter (\<lambda>y. compare (k y) t = Ordering.Equal) (insert_by (\<lambda>x y. compare (k x) (k y)) x ys) =
    filter (\<lambda>y. compare (k y) t = Ordering.Equal) (x # ys)"
  using assms(2)
proof (induction ys)
  case (Cons y ys)
  have y: "k y \<in> A" using Cons.prems by simp
  have "\<not> (compare (k x) t = Ordering.Equal \<and> compare (k y) t = Ordering.Equal)" if "compare (k x) (k y) = Ordering.Greater"
    using trans [OF assms(1,3) y] that equal_iff [OF assms(1,3)] equal_iff [OF y assms(3)] by blast
  with Cons show ?case by auto
qed simp

lemma sort_by_stable:
  assumes "k ` set xs \<subseteq> A" and "t \<in> A"
  shows "filter (\<lambda>y. compare (k y) t = Ordering.Equal) (sort_by (\<lambda>x y. compare (k x) (k y)) xs) =
    filter (\<lambda>y. compare (k y) t = Ordering.Equal) xs"
  using assms(1)
proof (induction xs)
  case (Cons x xs)
  have "k ` set (foldr (insert_by (\<lambda>x y. compare (k x) (k y))) xs []) \<subseteq> A"
    using Cons.prems mset_sort_by [of "\<lambda>x y. compare (k x) (k y)" xs] by (metis (no_types) image_subset_iff list.set_intros(2) mset_eq_setD sort_by_def)
  with Cons assms(2) show ?case by (simp add: sort_by_def insert_by_stable)
qed (simp add: sort_by_def)

end

text \<open>A comparator that compares keys in a linear order satisfies the demands.\<close>

lemma cmp_cases [simp]:
  "cmp a b = Ordering.Greater \<longleftrightarrow> b < a" "cmp a b = Ordering.Less \<longleftrightarrow> a < b" "cmp a b = Ordering.Equal \<longleftrightarrow> a = b"
  "Ordering.Greater = cmp a b \<longleftrightarrow> b < a" "Ordering.Less = cmp a b \<longleftrightarrow> a < b" "Ordering.Equal = cmp a b \<longleftrightarrow> a = b"
  by (auto simp: cmp_def)

lemma cmp_reverse: "Ordering_reverse (cmp a b) = cmp b a"
  by (auto simp: cmp_def)

lemma comparator_by_key:
  assumes "\<And>a b. a \<in> A \<Longrightarrow> b \<in> A \<Longrightarrow> c a b = cmp (key a) (key b)"
  shows "comparator (\<lambda>a b. directed (c a b) dir) A"
  using assms by (cases dir) (unfold_locales, auto simp: cmp_reverse)+

text \<open>
  The order of numeric cells, but for cells that read as not a number: texts that are no number first, then those that
  stand for a missing value, then the numbers by their value. Texts of the first two kinds are ordered as texts.
\<close>

fun numeric_rank :: "F64Value option \<Rightarrow> nat \<times> rat" where
  "numeric_rank None = (0, 0)"
| "numeric_rank (Some NegInfinity) = (1, 0)"
| "numeric_rank (Some (Finite q)) = (2, q)"
| "numeric_rank (Some Infinity) = (3, 0)"
| "numeric_rank (Some NaN) = (4, 0)"

definition numeric_key :: "string \<Rightarrow> (nat \<times> rat) \<times> string" where
  "numeric_key s = (numeric_rank (parse_numeric s),
     if parse_numeric s = None \<or> parse_numeric s = Some NegInfinity then s else [])"

definition numeric_cells :: "string set" where
  "numeric_cells = {s. parse_numeric s \<noteq> Some NaN}"

lemma compare_numeric_by_key:
  assumes "a \<in> numeric_cells" and "b \<in> numeric_cells"
  shows "compare_numeric a b = cmp (numeric_key a) (numeric_key b)"
proof -
  have a: "parse_numeric a \<noteq> Some NaN" and b: "parse_numeric b \<noteq> Some NaN" using assms by (simp_all add: numeric_cells_def)
  show ?thesis
  proof (cases "parse_numeric a")
    case None
    with b show ?thesis
      by (cases "parse_numeric b"; cases "the (parse_numeric b)")
        (auto simp: compare_numeric_def numeric_key_def cmp_def less_prod_def)
  next
    case (Some x)
    with a b show ?thesis
      by (cases "parse_numeric b"; cases x; cases "the (parse_numeric b)")
        (auto simp: compare_numeric_def numeric_key_def cmp_def less_prod_def)
  qed
qed

definition status_key :: "SortDirection \<Rightarrow> string \<Rightarrow> nat \<times> int" where
  "status_key dir s = (case known_status s of
     None \<Rightarrow> (1, 0)
   | Some k \<Rightarrow> (0, if dir = Ascending then int (KnownStatus_rank k) else - int (KnownStatus_rank k)))"

lemma compare_status_by_key: "compare_status a b dir = cmp (status_key dir a) (status_key dir b)"
  by (cases dir; cases "known_status a"; cases "known_status b")
    (auto simp: compare_status_def status_key_def cmp_def less_prod_def)

interpretation numeric: comparator "\<lambda>a b. compare_cells_directed a b Numeric dir" numeric_cells for dir
  using comparator_by_key [of numeric_cells compare_numeric numeric_key dir] compare_numeric_by_key
  by (simp add: compare_cells_directed_def)

interpretation status: comparator "\<lambda>a b. compare_cells_directed a b Status dir" UNIV for dir
  using comparator_by_key [of UNIV "\<lambda>a b. compare_status a b dir" "status_key dir" Ascending] compare_status_by_key
  by (simp add: compare_cells_directed_def)

interpretation date: comparator "\<lambda>a b. compare_cells_directed a b Date dir" UNIV for dir
  using comparator_by_key [of UNIV cmp "\<lambda>a. a" dir] by (simp add: compare_cells_directed_def)

interpretation text_order: comparator "\<lambda>a b. compare_cells_directed a b Text dir" UNIV for dir
  using comparator_by_key [of UNIV cmp "\<lambda>a. a" dir] by (simp add: compare_cells_directed_def)

subsection \<open>What a click does\<close>

lemma insert_by_texts:
  "insert_by (\<lambda>(_, a) (_, b). c a b) (x, f x) (map (\<lambda>r. (r, f r)) ys) = map (\<lambda>r. (r, f r)) (insert_by (\<lambda>x y. c (f x) (f y)) x ys)"
  by (induction ys) auto

lemma sort_by_texts:
  "map fst (sort_by (\<lambda>(_, a) (_, b). c a b) (map (\<lambda>r. (r, f r)) xs)) = sort_by (\<lambda>x y. c (f x) (f y)) xs"
proof -
  have "sort_by (\<lambda>(_, a) (_, b). c a b) (map (\<lambda>r. (r, f r)) xs) = map (\<lambda>r. (r, f r)) (sort_by (\<lambda>x y. c (f x) (f y)) xs)"
    by (induction xs) (simp_all add: sort_by_def insert_by_texts)
  then show ?thesis by (simp add: comp_def)
qed

text \<open>The state a click on a header leads to, and the texts among which its comparator orders rows.\<close>

definition clicked_state :: "Table \<Rightarrow> nat \<Rightarrow> SortType \<Rightarrow> SortState" where
  "clicked_state table i ty = the (toggle_sort_state (sort_state table) i ty)"

definition comparable :: "SortType \<Rightarrow> string set" where
  "comparable ty = (if ty = Numeric then numeric_cells else UNIV)"

lemma clicked_state_simps [simp]: "column (clicked_state table i ty) = i" "sort_type (clicked_state table i ty) = ty"
  by (simp_all add: clicked_state_def toggle_sort_state_def Let_def)

lemma click_body:
  assumes "map_of (handlers table) i = Some ty" and "t_body table = Some rows" and "s = clicked_state table i ty"
  shows "t_body (click i table) = Some (sort_by (\<lambda>a b. compare_cells_directed (sort_text s a) (sort_text s b) ty (direction s)) rows)"
proof -
  have "toggle_sort_state (sort_state table) i ty = Some s" by (simp add: assms(3) clicked_state_def toggle_sort_state_def Let_def)
  moreover have "sort_type s = ty" by (simp add: assms(3))
  ultimately show ?thesis using assms(1,2)
    by (simp add: click_def apply_sort_def reflect_aria_sort_def Let_def sort_by_texts)
qed

lemma compare_cells_comparator: "comparator (\<lambda>a b. compare_cells_directed a b ty dir) (comparable ty)"
  by (cases ty) (simp_all add: comparable_def numeric.comparator_axioms status.comparator_axioms date.comparator_axioms
      text_order.comparator_axioms)

subsection \<open>Properties\<close>

text \<open>
  C38. A click on a sortable header sorts the table and loses nothing. Afterwards the body holds the same rows, in the
  order of the column in the direction the click selects, and rows whose cells compare as equal keep the order they had
  before. For a numeric column no cell may read as not a number.
\<close>

theorem header_click_sorts_stably:
  assumes "map_of (handlers table) i = Some ty" and "t_body table = Some rows" and "s = clicked_state table i ty"
    and "\<And>row. row \<in> set rows \<Longrightarrow> sort_text s row \<in> comparable ty"
  shows "\<exists>rows'. t_body (click i table) = Some rows' \<and> mset rows' = mset rows \<and>
    sorted_wrt (\<lambda>a b. compare_cells_directed (sort_text s a) (sort_text s b) ty (direction s) \<noteq> Ordering.Greater) rows' \<and>
    (\<forall>t\<in>comparable ty. filter (\<lambda>row. compare_cells_directed (sort_text s row) t ty (direction s) = Ordering.Equal) rows' =
       filter (\<lambda>row. compare_cells_directed (sort_text s row) t ty (direction s) = Ordering.Equal) rows)"
proof -
  have A: "sort_text s ` set rows \<subseteq> comparable ty" using assms(4) by auto
  note c = compare_cells_comparator [of ty "direction s"]
  show ?thesis
    using click_body [OF assms(1-3)] comparator.sort_by_sorted [OF c A] comparator.sort_by_stable [OF c A]
    by (intro exI conjI) (auto simp: mset_sort_by)
qed

text \<open>
  In a status column the rows whose state is not known come last, whether the column is sorted upwards or downwards,
  and among the rows whose state is known the direction decides.
\<close>

theorem unknown_status_sorts_last:
  assumes "map_of (handlers table) i = Some Status" and "t_body table = Some rows" and "s = clicked_state table i Status"
  shows "\<exists>known unknown. t_body (click i table) = Some (known @ unknown) \<and>
    (\<forall>row\<in>set known. known_status (sort_text s row) \<noteq> None) \<and>
    (\<forall>row\<in>set unknown. known_status (sort_text s row) = None) \<and>
    sorted_wrt (\<lambda>a b. directed (cmp (KnownStatus_rank (the (known_status (sort_text s a))))
       (KnownStatus_rank (the (known_status (sort_text s b))))) (direction s) \<noteq> Ordering.Greater) known"
proof -
  define rows' where "rows' = sort_by (\<lambda>a b. compare_cells_directed (sort_text s a) (sort_text s b) Status (direction s)) rows"
  have body: "t_body (click i table) = Some rows'" using click_body [OF assms] by (simp add: rows'_def)
  have sorted: "sorted_wrt (\<lambda>a b. compare_status (sort_text s a) (sort_text s b) (direction s) \<noteq> Ordering.Greater) rows'"
    using status.sort_by_sorted [of "sort_text s" rows "direction s"] by (simp add: rows'_def compare_cells_directed_def)
  let ?K = "\<lambda>row. known_status (sort_text s row) \<noteq> None"
  let ?R = "\<lambda>a b. compare_status (sort_text s a) (sort_text s b) (direction s) \<noteq> Ordering.Greater"
  have "sorted_wrt ?R (takeWhile ?K rows' @ dropWhile ?K rows')" using sorted by simp
  then have parts: "sorted_wrt ?R (takeWhile ?K rows')" "sorted_wrt ?R (dropWhile ?K rows')" unfolding sorted_wrt_append by blast+
  have unknown: "\<not> ?K row" if "row \<in> set (dropWhile ?K rows')" for row
  proof (cases "dropWhile ?K rows'")
    case (Cons first rest)
    then have first: "\<not> ?K first" using hd_dropWhile [of ?K rows'] by simp
    show ?thesis
    proof (cases "row = first")
      case False
      with that Cons have "row \<in> set rest" by simp
      with parts(2) Cons have "?R first row" by simp
      with first show ?thesis by (auto simp: compare_status_def split: option.splits)
    qed (use first in simp)
  qed (use that in \<open>simp del: dropWhile_eq_Nil_conv\<close>)
  have known: "sorted_wrt (\<lambda>a b. directed (cmp (KnownStatus_rank (the (known_status (sort_text s a))))
       (KnownStatus_rank (the (known_status (sort_text s b))))) (direction s) \<noteq> Ordering.Greater) (takeWhile ?K rows')"
    by (rule sorted_wrt_mono_rel [OF _ parts(1)]) (auto dest!: set_takeWhileD simp: compare_status_def)
  have "t_body (click i table) = Some (takeWhile ?K rows' @ dropWhile ?K rows')" using body by simp
  moreover have "\<forall>row\<in>set (takeWhile ?K rows'). ?K row" by (blast dest: set_takeWhileD)
  moreover have "\<forall>row\<in>set (dropWhile ?K rows'). known_status (sort_text s row) = None" using unknown by blast
  ultimately show ?thesis using known by blast
qed

text \<open>A cell of a single token that is not a percentage and has no thousands separators.\<close>

lemma parse_numeric_word:
  assumes "no_ws s" and "s \<noteq> []" and "last s \<noteq> CHR ''%''" and "CHR '','' \<notin> set s"
  shows "parse_numeric s = (if eq_ignore_ascii_case s ''n/a'' then Some NegInfinity else f64_from_str s)"
proof -
  have "ws_len s = 0" using assms(1,2) by (cases s) simp_all
  then have "str_trim s = s" using trim_end_token [OF assms(1), of "[]"] by (simp add: str_trim_def trim_start_id)
  moreover have "split_whitespace s = [s]"
    using split_ws_token [OF assms(1), of "[]" "[]"] assms(2) by (simp add: split_whitespace_def split_ws.simps)
  moreover have "trim_end_percent s = s" using assms(2,3) by (cases s rule: rev_cases) (simp_all add: trim_end_percent_def)
  moreover have "filter (\<lambda>c. c \<noteq> CHR '','') s = s" using assms(4) by (auto simp: filter_id_conv)
  ultimately show ?thesis using assms(2) by (simp add: parse_numeric_def Let_def)
qed

lemmas no_ws_eval = ws_len_def WHITE_SPACE_def

lemmas f64_word_eval = f64_from_str_def parse_magnitude_def parse_decimal_def is_ascii_digit_def byte_in_def
  eq_ignore_ascii_case_def to_ascii_lower_def

lemma parse_numeric_words [simp]:
  "parse_numeric ''n/a'' = Some NegInfinity" "parse_numeric ''nan'' = Some NaN" "parse_numeric ''inf'' = Some Infinity"
  "parse_numeric ''soon'' = None"
  by (simp_all add: parse_numeric_word no_ws_eval f64_word_eval)

text \<open>A cell that reads as not a number equals every other number, so a column that holds one has no consistent order.\<close>

lemma nan_cell_breaks_the_order:
  "compare_numeric ''n/a'' ''nan'' = Ordering.Equal" "compare_numeric ''nan'' ''inf'' = Ordering.Equal"
  "compare_numeric ''n/a'' ''inf'' = Ordering.Less"
  by (simp_all add: compare_numeric_def)

text \<open>A text that is no number does not stand for a missing value: it sorts strictly below one.\<close>

lemma no_number_below_missing: "compare_numeric ''soon'' ''n/a'' = Ordering.Less"
  by (simp add: compare_numeric_def)

definition sample_table :: Table where
  "sample_table = wire_table \<lparr>t_head = Some [\<lparr>nosort = False, sort_type_attr = Some ''status'', aria_sort = None\<rparr>,
       \<lparr>nosort = False, sort_type_attr = Some ''numeric'', aria_sort = None\<rparr>],
     t_body = Some [[\<lparr>cell_sort_value = Some ''unknown'', cell_content = ''?''\<rparr>, \<lparr>cell_sort_value = None, cell_content = ''inf''\<rparr>],
       [\<lparr>cell_sort_value = Some ''fail'', cell_content = ''F''\<rparr>, \<lparr>cell_sort_value = None, cell_content = ''soon''\<rparr>],
       [\<lparr>cell_sort_value = Some ''pass'', cell_content = ''P''\<rparr>, \<lparr>cell_sort_value = None, cell_content = ''n/a''\<rparr>]],
     handlers = [], sort_state = None\<rparr>"

lemmas table_eval = sample_table_def wire_table_def reflect_aria_sort_def List.map_filter_def resolve_sort_type_def
  parse_sort_type_def click_def toggle_sort_state_def apply_sort_def sort_text_def cell_text_def sort_by_def
  clicked_state_def

theorem header_click_sorts_stably_witness:
  "\<exists>rows'. t_body (click 1 sample_table) = Some rows' \<and> mset rows' = mset (the (t_body sample_table)) \<and>
     map (\<lambda>row. cell_text row 1) rows' = [''soon'', ''n/a'', ''inf'']"
proof -
  let ?s = "clicked_state sample_table 1 Numeric"
  have h: "map_of (handlers sample_table) 1 = Some Numeric" by (simp add: table_eval)
  have b: "t_body sample_table = Some (the (t_body sample_table))" by (simp add: table_eval)
  have "sort_text ?s row \<in> comparable Numeric" if "row \<in> set (the (t_body sample_table))" for row
    using that by (auto simp: table_eval comparable_def numeric_cells_def)
  from header_click_sorts_stably [OF h b refl this] obtain rows' where "t_body (click 1 sample_table) = Some rows'"
    "mset rows' = mset (the (t_body sample_table))" by blast
  moreover have "map (\<lambda>row. cell_text row 1) (the (t_body (click 1 sample_table))) = [''soon'', ''n/a'', ''inf'']"
    by (simp add: table_eval compare_cells_directed_def compare_numeric_def)
  ultimately show ?thesis by auto
qed

lemma status_sort_text:
  "sort_type s = Status \<Longrightarrow> known_status (sort_text s row) \<noteq> None \<Longrightarrow> cell_text row (column s) = sort_text s row"
  by (auto simp: sort_text_def cell_text_def known_status_def split: option.splits)

lemma known_status_unknown: "known_status ''unknown'' = None"
  by (simp add: known_status_def)

theorem unknown_status_sorts_last_witness:
  "\<exists>known unknown. t_body (click 0 (click 0 sample_table)) = Some (known @ unknown) \<and>
     (\<forall>row\<in>set known. cell_text row 0 \<noteq> ''unknown'') \<and> map (\<lambda>row. cell_text row 0) (known @ unknown) = [''pass'', ''fail'', ''unknown'']"
proof -
  let ?t = "click 0 sample_table"
  have h: "map_of (handlers ?t) 0 = Some Status" by (simp add: table_eval)
  have b: "t_body ?t = Some (the (t_body ?t))" by (simp add: table_eval)
  from unknown_status_sorts_last [OF h b refl] obtain known unknown where k: "t_body (click 0 ?t) = Some (known @ unknown)"
    "\<forall>row\<in>set known. known_status (sort_text (clicked_state ?t 0 Status) row) \<noteq> None" by blast
  have "map (\<lambda>row. cell_text row 0) (the (t_body (click 0 ?t))) = [''pass'', ''fail'', ''unknown'']"
    by (simp add: table_eval compare_cells_directed_def compare_status_def known_status_def cmp_def)
  with k(1) have "map (\<lambda>row. cell_text row 0) (known @ unknown) = [''pass'', ''fail'', ''unknown'']" by simp
  moreover have "\<forall>row\<in>set known. cell_text row 0 \<noteq> ''unknown''"
    using k(2) by (metis status_sort_text known_status_unknown clicked_state_simps)
  ultimately show ?thesis using k(1) by (intro exI conjI)
qed

end
