(* ===== verification/Markdown.thy ===== *)
theory Markdown
  imports Github_Limits Github_Link
begin

text \<open>
  The renderer of the operations manual, \<open>report/markdown.rs\<close>: blocks, inline markup and escaping. A text is its UTF-8
  bytes; every character the renderer looks at is ASCII, so it reads bytes as it reads characters. The functions that
  append to an output buffer are functions that return what they append, and the position in the list of lines is the
  list of the lines that are left. The theorem at the end says that no document can inject markup.
\<close>

subsection \<open>Characters\<close>

definition is_ascii_punctuation :: "char \<Rightarrow> bool" where
  "is_ascii_punctuation c \<longleftrightarrow> byte_in 0x21 0x2F c \<or> byte_in 0x3A 0x40 c \<or> byte_in 0x5B 0x60 c \<or> byte_in 0x7B 0x7E c"

definition is_ascii_whitespace :: "char \<Rightarrow> bool" where
  "is_ascii_whitespace c \<longleftrightarrow> c \<in> set [CHR 0x20, CHR 0x09, CHR 0x0A, CHR 0x0C, CHR 0x0D]"

definition is_ascii_alphanumeric :: "char \<Rightarrow> bool" where
  "is_ascii_alphanumeric c \<longleftrightarrow> byte_in 0x30 0x39 c \<or> byte_in 0x41 0x5A c \<or> byte_in 0x61 0x7A c"

definition trim_end_matches :: "char \<Rightarrow> string \<Rightarrow> string" where
  "trim_end_matches c s = rev (dropWhile (\<lambda>d. d = c) (rev s))"

definition strip_start :: "string \<Rightarrow> string \<Rightarrow> string option" where
  "strip_start p s = (if is_prefix p s then Some (drop (length p) s) else None)"

definition unwrap_start :: "string \<Rightarrow> string \<Rightarrow> string" where
  "unwrap_start p s = (case strip_start p s of Some t \<Rightarrow> t | None \<Rightarrow> s)"

subsection \<open>Escaping\<close>

definition push_escaped_char :: "char \<Rightarrow> string" where
  "push_escaped_char c =
     (if c = CHR ''&'' then ''&amp;''
      else if c = CHR ''<'' then ''&lt;''
      else if c = CHR ''>'' then ''&gt;''
      else if c = CHR 0x22 then ''&quot;''
      else [c])"

definition push_escaped_str :: "string \<Rightarrow> string" where
  "push_escaped_str s = concat (map push_escaped_char s)"

definition slugify_heading :: "string \<Rightarrow> string" where
  "slugify_heading text = concat (map (\<lambda>ch.
     if is_ascii_whitespace ch then ''-''
     else if is_ascii_alphanumeric ch \<or> ch = CHR ''-'' then [to_ascii_lower ch]
     else []) text)"

subsection \<open>Lines\<close>

definition fence_lang :: "string \<Rightarrow> string option" where
  "fence_lang line = map_option str_trim (strip_start ''```'' line)"

definition is_fence_line :: "string \<Rightarrow> bool" where
  "is_fence_line line \<longleftrightarrow> is_prefix ''```'' (trim_start line)"

definition parse_heading :: "string \<Rightarrow> (nat \<times> string) option" where
  "parse_heading line =
     (let hashes = length (takeWhile (\<lambda>c. c = CHR ''#'') line)
      in if hashes = 0 \<or> 6 < hashes then None
         else (case strip_start '' '' (drop hashes line) of
             None \<Rightarrow> None
           | Some text \<Rightarrow> Some (hashes, trim_end (trim_end_matches (CHR ''#'') (trim_end text)))))"

definition strip_unordered_marker :: "string \<Rightarrow> string option" where
  "strip_unordered_marker line = strip_start ''- '' (trim_start line)"

definition strip_ordered_marker :: "string \<Rightarrow> string option" where
  "strip_ordered_marker line =
     (let trimmed = trim_start line; digits_len = length (takeWhile (byte_in 0x30 0x39) trimmed)
      in if digits_len = 0 then None else strip_start ''. '' (drop digits_len trimmed))"

definition strip_blockquote_marker :: "string \<Rightarrow> string option" where
  "strip_blockquote_marker line = map_option (unwrap_start '' '') (strip_start ''>'' (trim_start line))"

definition is_table_separator_row :: "string \<Rightarrow> bool" where
  "is_table_separator_row line \<longleftrightarrow>
     (let trimmed = str_trim line in is_prefix ''|'' trimmed \<and> list_all (\<lambda>c. c \<in> set ''|-: '') trimmed)"

definition is_table_start :: "string list \<Rightarrow> bool" where
  "is_table_start lines = (case lines of
     line # nxt # _ \<Rightarrow> CHR ''|'' \<in> set line \<and> is_table_separator_row nxt
   | _ \<Rightarrow> False)"

definition split_table_row :: "string \<Rightarrow> string list" where
  "split_table_row line =
     (let trimmed = unwrap_start ''|'' (str_trim line);
          trimmed = (if trimmed \<noteq> [] \<and> last trimmed = CHR ''|'' then butlast trimmed else trimmed)
      in map str_trim (split_on (CHR ''|'') [] trimmed))"

subsection \<open>Inline markup\<close>

text \<open>The parts of a link whose opening bracket was read: its text, its target and what follows.\<close>

definition link_parts :: "string \<Rightarrow> (string \<times> string \<times> string) option" where
  "link_parts after_open = (case str_find '']'' after_open of
     None \<Rightarrow> None
   | Some close_bracket \<Rightarrow> (case strip_start ''('' (drop (Suc close_bracket) after_open) of
       None \<Rightarrow> None
     | Some after_paren_open \<Rightarrow> (case str_find '')'' after_paren_open of
         None \<Rightarrow> None
       | Some close_paren \<Rightarrow> Some (take close_bracket after_open, take close_paren after_paren_open,
           drop (Suc close_paren) after_paren_open))))"

lemma str_find_less: "str_find p s = Some i \<Longrightarrow> i + length p \<le> length s"
  by (induction s arbitrary: i) (auto simp: is_prefix_iff split: if_splits dest: arg_cong [of _ _ length])

lemma strip_start_length: "strip_start p s = Some t \<Longrightarrow> length s = length p + length t"
  by (auto simp: strip_start_def is_prefix_iff split: if_splits)

lemma link_parts_less:
  assumes "link_parts s = Some (link_text, url, remainder)"
  shows "length link_text < length s \<and> length remainder < length s"
  using assms
  by (auto simp: link_parts_def split: option.splits dest!: str_find_less strip_start_length)

function render_inline :: "string \<Rightarrow> string" where
  "render_inline rest = (case rest of
     [] \<Rightarrow> []
   | c # t \<Rightarrow>
       if c = CHR 0x5C then (case t of
           nxt # u \<Rightarrow> if is_ascii_punctuation nxt then push_escaped_char nxt @ render_inline u
                      else [CHR 0x5C] @ render_inline t
         | [] \<Rightarrow> [CHR 0x5C] @ render_inline t)
       else if c = CHR ''`'' then (case str_find ''`'' t of
           Some end_ \<Rightarrow> ''<code>'' @ push_escaped_str (take end_ t) @ ''</code>'' @ render_inline (drop (Suc end_) t)
         | None \<Rightarrow> push_escaped_char c @ render_inline t)
       else if is_prefix ''**'' rest then (case str_find ''**'' (drop 2 rest) of
           Some end_ \<Rightarrow> ''<strong>'' @ render_inline (take end_ (drop 2 rest)) @ ''</strong>'' @
             render_inline (drop (end_ + 2) (drop 2 rest))
         | None \<Rightarrow> push_escaped_char c @ render_inline t)
       else if c = CHR ''*'' then (case str_find ''*'' t of
           Some end_ \<Rightarrow> ''<em>'' @ render_inline (take end_ t) @ ''</em>'' @ render_inline (drop (Suc end_) t)
         | None \<Rightarrow> push_escaped_char c @ render_inline t)
       else if c = CHR ''['' then (case link_parts t of
           Some (link_text, url, remainder) \<Rightarrow>
             ''<a href='' @ [CHR 0x22] @ push_escaped_str url @ [CHR 0x22] @ ''>'' @ render_inline link_text @ ''</a>'' @
             render_inline remainder
         | None \<Rightarrow> push_escaped_char c @ render_inline t)
       else push_escaped_char c @ render_inline t)"
  by auto
termination
  by (relation "measure length") (auto simp: min_def dest!: link_parts_less str_find_less)

subsection \<open>Blocks\<close>

datatype ListKind = Ordered | Unordered

definition digit_char :: "nat \<Rightarrow> char" where
  "digit_char n = char_of (48 + n)"

definition render_heading :: "nat \<Rightarrow> string \<Rightarrow> string" where
  "render_heading level text =
     ''<h'' @ [digit_char level] @ '' id='' @ [CHR 0x22] @ slugify_heading text @ [CHR 0x22] @ ''>'' @ render_inline text @
     ''</h'' @ [digit_char level] @ ''>'' @ [CHR 0x0A]"

fun join_lines :: "string list \<Rightarrow> string" where
  "join_lines [] = []"
| "join_lines [l] = push_escaped_str l"
| "join_lines (l # ls) = push_escaped_str l @ [CHR 0x0A] @ join_lines ls"

definition render_code_block :: "string \<Rightarrow> string list \<Rightarrow> string" where
  "render_code_block lang lines =
     ''<pre><code'' @ (if lang = [] then [] else '' class='' @ [CHR 0x22] @ ''language-'' @ push_escaped_str lang @ [CHR 0x22]) @
     ''>'' @ join_lines lines @ ''</code></pre>'' @ [CHR 0x0A]"

definition render_cells :: "string \<Rightarrow> string list \<Rightarrow> string" where
  "render_cells tag cells = concat (map (\<lambda>cell. ''<'' @ tag @ ''>'' @ render_inline cell @ ''</'' @ tag @ ''>'') cells)"

definition in_table_body :: "string \<Rightarrow> bool" where
  "in_table_body line \<longleftrightarrow> CHR ''|'' \<in> set line \<and> str_trim line \<noteq> []"

definition render_table :: "string list \<Rightarrow> string \<times> string list" where
  "render_table lines =
     (let rows = takeWhile in_table_body (drop 2 lines)
      in (''<table class='' @ [CHR 0x22] @ ''data-table'' @ [CHR 0x22] @ ''>'' @ [CHR 0x0A] @ ''<thead>'' @ [CHR 0x0A] @ ''<tr>'' @
            render_cells ''th'' (split_table_row (hd lines)) @ ''</tr>'' @ [CHR 0x0A] @ ''</thead>'' @ [CHR 0x0A] @ ''<tbody>'' @
            [CHR 0x0A] @ concat (map (\<lambda>row. ''<tr>'' @ render_cells ''td'' (split_table_row row) @ ''</tr>'' @ [CHR 0x0A]) rows) @
            ''</tbody>'' @ [CHR 0x0A] @ ''</table>'' @ [CHR 0x0A],
          dropWhile in_table_body (drop 2 lines)))"

definition strip_marker :: "ListKind \<Rightarrow> string \<Rightarrow> string option" where
  "strip_marker kind = (case kind of Ordered \<Rightarrow> strip_ordered_marker | Unordered \<Rightarrow> strip_unordered_marker)"

definition render_list :: "ListKind \<Rightarrow> string list \<Rightarrow> string \<times> string list" where
  "render_list kind lines =
     (let is_item = (\<lambda>line. strip_marker kind line \<noteq> None);
          tag = (case kind of Ordered \<Rightarrow> ''ol'' | Unordered \<Rightarrow> ''ul'')
      in (''<'' @ tag @ ''>'' @ [CHR 0x0A] @
            concat (map (\<lambda>line. ''<li>'' @ render_inline (str_trim (the (strip_marker kind line))) @ ''</li>'' @ [CHR 0x0A])
              (takeWhile is_item lines)) @
            ''</'' @ tag @ ''>'' @ [CHR 0x0A],
          dropWhile is_item lines))"

text \<open>The text of a paragraph or of a quotation: its trimmed lines, a space before a line unless nothing precedes it.\<close>

definition push_content :: "string \<Rightarrow> string \<Rightarrow> string" where
  "push_content line content = (if content = [] then [] else content @ '' '') @ str_trim line"

definition render_blockquote :: "string list \<Rightarrow> string \<times> string list" where
  "render_blockquote lines =
     (let is_quote = (\<lambda>line. strip_blockquote_marker line \<noteq> None);
          content = fold push_content (map (the \<circ> strip_blockquote_marker) (takeWhile is_quote lines)) []
      in (''<blockquote><p>'' @ render_inline content @ ''</p></blockquote>'' @ [CHR 0x0A], dropWhile is_quote lines))"

definition is_block_boundary :: "string list \<Rightarrow> bool" where
  "is_block_boundary lines \<longleftrightarrow>
     (let line = hd lines
      in str_trim line = [] \<or> fence_lang line \<noteq> None \<or> parse_heading line \<noteq> None \<or> is_table_start lines \<or>
         strip_blockquote_marker line \<noteq> None \<or> strip_unordered_marker line \<noteq> None \<or> strip_ordered_marker line \<noteq> None)"

fun paragraph_from :: "string \<Rightarrow> string list \<Rightarrow> string \<times> string list" where
  "paragraph_from content [] = (content, [])"
| "paragraph_from content (line # lines) =
     (if is_block_boundary (line # lines) then (content, line # lines)
      else paragraph_from (push_content line content) lines)"

definition render_paragraph :: "string list \<Rightarrow> string \<times> string list" where
  "render_paragraph lines = (case paragraph_from (push_content (hd lines) []) (tl lines) of
     (content, rest) \<Rightarrow> (''<p>'' @ render_inline content @ ''</p>'' @ [CHR 0x0A], rest))"

text \<open>One turn of the loop of \<open>render\<close> on the lines that are left.\<close>

definition render_block :: "string list \<Rightarrow> string \<times> string list" where
  "render_block lines =
     (let line = hd lines
      in if str_trim line = [] then ([], tl lines)
         else case fence_lang line of
           Some lang \<Rightarrow>
             (render_code_block lang (takeWhile (\<lambda>l. \<not> is_fence_line l) (tl lines)),
              drop 1 (dropWhile (\<lambda>l. \<not> is_fence_line l) (tl lines)))
         | None \<Rightarrow> (case parse_heading line of
             Some (level, text) \<Rightarrow> (render_heading level text, tl lines)
           | None \<Rightarrow>
               if is_table_start lines then render_table lines
               else if strip_blockquote_marker line \<noteq> None then render_blockquote lines
               else if strip_unordered_marker line \<noteq> None then render_list Unordered lines
               else if strip_ordered_marker line \<noteq> None then render_list Ordered lines
               else render_paragraph lines))"

lemma paragraph_from_length: "length (snd (paragraph_from content lines)) \<le> length lines"
  by (induction content lines rule: paragraph_from.induct) auto

lemma dropWhile_less: "xs \<noteq> [] \<Longrightarrow> P (hd xs) \<Longrightarrow> length (dropWhile P xs) < length xs"
  using length_dropWhile_le [of P "tl xs"] by (cases xs) auto

lemma length_drop_while: "length (drop n (dropWhile P xs)) \<le> length xs"
  using length_dropWhile_le [of P xs] by simp

lemma render_block_less:
  assumes "lines \<noteq> []"
  shows "length (snd (render_block lines)) < length lines"
proof -
  from assms obtain line rest where lines: "lines = line # rest" by (cases lines) auto
  have "length (snd (render_paragraph lines)) < length lines"
    using paragraph_from_length [of "push_content line []" rest] by (auto simp: lines render_paragraph_def split: prod.split)
  moreover have "length (snd (render_table lines)) < length lines" if "is_table_start lines"
    using that length_dropWhile_le [of in_table_body "drop 2 lines"]
    by (auto simp: lines render_table_def is_table_start_def Let_def split: list.splits)
  moreover have "length (snd (render_blockquote lines)) < length lines" if "strip_blockquote_marker line \<noteq> None"
    using dropWhile_less [of lines "\<lambda>l. strip_blockquote_marker l \<noteq> None"] that
    by (simp add: lines render_blockquote_def Let_def)
  moreover have "length (snd (render_list kind lines)) < length lines" if "strip_marker kind line \<noteq> None" for kind
    using dropWhile_less [of lines "\<lambda>l. strip_marker kind l \<noteq> None"] that by (simp add: lines render_list_def Let_def)
  moreover have "length (drop 1 (dropWhile P rest)) < length lines" for P
    using length_drop_while [of 1 P rest] by (simp add: lines)
  ultimately show ?thesis
    by (auto simp: render_block_def Let_def lines strip_marker_def split: option.split)
qed

function render_lines :: "string list \<Rightarrow> string" where
  "render_lines lines = (if lines = [] then [] else fst (render_block lines) @ render_lines (snd (render_block lines)))"
  by auto
termination
  by (relation "measure length") (simp_all add: render_block_less)

definition render :: "string \<Rightarrow> string" where
  "render source = render_lines (str_lines source)"

declare render_inline.simps [simp del] render_lines.simps [simp del]

subsection \<open>Documents as trees\<close>

text \<open>
  A fragment of HTML as a tree. Printing a tree escapes every text and every value of an attribute, so that neither holds
  an angle bracket or a quotation mark. The elements a document may have, with their attributes, are listed.
\<close>

definition ENTITIES :: "(char \<times> string) list" where
  "ENTITIES = [(CHR ''<'', ''&lt;''), (CHR ''>'', ''&gt;''), (CHR 0x22, ''&quot;''), (CHR ''&'', ''&amp;'')]"

definition escape :: "string \<Rightarrow> string" where
  "escape s = concat (map (\<lambda>c. case map_of ENTITIES c of Some e \<Rightarrow> e | None \<Rightarrow> [c]) s)"

datatype html = Txt string | Elem string "(string \<times> string) list" "html list"

definition print_attr :: "string \<times> string \<Rightarrow> string" where
  "print_attr a = '' '' @ fst a @ ''='' @ [CHR 0x22] @ escape (snd a) @ [CHR 0x22]"

fun print_html :: "html \<Rightarrow> string" where
  "print_html (Txt s) = escape s"
| "print_html (Elem tag attrs kids) =
     ''<'' @ tag @ concat (map print_attr attrs) @ ''>'' @ concat (map print_html kids) @ ''</'' @ tag @ ''>''"

definition ELEMENTS :: "(string \<times> string list) list" where
  "ELEMENTS = map (\<lambda>n. (''h'' @ [digit_char n], [''id''])) [1..<7] @
     [(''a'', [''href'']), (''code'', [''class'']), (''table'', [''class''])] @
     map (\<lambda>tag. (tag, [])) [''p'', ''pre'', ''code'', ''strong'', ''em'', ''ul'', ''ol'', ''li'', ''blockquote'', ''thead'', ''tbody'',
       ''tr'', ''th'', ''td'']"

fun allowed :: "html \<Rightarrow> bool" where
  "allowed (Txt s) = True"
| "allowed (Elem tag attrs kids) \<longleftrightarrow> (tag, map fst attrs) \<in> set ELEMENTS \<and> list_all allowed kids"

definition safe :: "string \<Rightarrow> bool" where
  "safe s \<longleftrightarrow> (\<exists>nodes. list_all allowed nodes \<and> s = concat (map print_html nodes))"

lemma escape_plain: "CHR ''<'' \<notin> set (escape s) \<and> CHR ''>'' \<notin> set (escape s) \<and> CHR 0x22 \<notin> set (escape s)"
  by (induction s) (auto simp: escape_def ENTITIES_def)

lemma escape_is_push_escaped [simp]: "escape s = push_escaped_str s"
proof -
  have "(case map_of ENTITIES c of Some e \<Rightarrow> e | None \<Rightarrow> [c]) = push_escaped_char c" for c
    by (simp add: ENTITIES_def push_escaped_char_def)
  then show ?thesis by (simp add: escape_def push_escaped_str_def)
qed

lemma push_escaped_str_simps [simp]:
  "push_escaped_str [] = []" "push_escaped_str (c # s) = push_escaped_char c @ push_escaped_str s"
  "push_escaped_str (s @ t) = push_escaped_str s @ push_escaped_str t"
  by (simp_all add: push_escaped_str_def)

lemma safe_Nil: "safe []"
  by (auto simp: safe_def intro: exI [of _ "[]"])

lemma safe_append: "safe s \<Longrightarrow> safe t \<Longrightarrow> safe (s @ t)"
  unfolding safe_def by (metis concat_append list_all_append map_append)

lemma safe_text: "safe (push_escaped_str s)"
  unfolding safe_def by (rule exI [of _ "[Txt s]"]) simp

lemma safe_char: "safe (push_escaped_char c)"
  using safe_text [of "[c]"] by simp

lemma safe_newline: "safe [CHR 0x0A]"
  using safe_char [of "CHR 0x0A"] by (simp add: push_escaped_char_def)

lemma safe_backslash: "safe [CHR 0x5C]"
  using safe_char [of "CHR 0x5C"] by (simp add: push_escaped_char_def)

lemma safe_concat: "(\<And>x. x \<in> set xs \<Longrightarrow> safe (f x)) \<Longrightarrow> safe (concat (map f xs))"
  by (induction xs) (simp_all add: safe_Nil safe_append)

lemma safe_element:
  assumes "safe body" and "(tag, map fst attrs) \<in> set ELEMENTS"
  shows "safe (''<'' @ tag @ concat (map print_attr attrs) @ ''>'' @ body @ ''</'' @ tag @ ''>'')"
proof -
  from assms(1) obtain nodes where "list_all allowed nodes" "body = concat (map print_html nodes)" by (auto simp: safe_def)
  with assms(2) have "list_all allowed [Elem tag attrs nodes]"
    "''<'' @ tag @ concat (map print_attr attrs) @ ''>'' @ body @ ''</'' @ tag @ ''>'' = concat (map print_html [Elem tag attrs nodes])"
    by simp_all
  then show ?thesis unfolding safe_def by blast
qed

lemmas safe_intros = safe_append safe_Nil safe_text safe_char safe_newline safe_backslash

text \<open>Every element the renderer writes, with what follows it.\<close>

lemma safe_tag: "safe body \<Longrightarrow> (tag, []) \<in> set ELEMENTS \<Longrightarrow> safe (''<'' @ tag @ ''>'' @ body @ ''</'' @ tag @ ''>'')"
  using safe_element [of body tag "[]"] by simp

lemma safe_link:
  "safe body \<Longrightarrow> safe (''<a href='' @ [CHR 0x22] @ push_escaped_str url @ [CHR 0x22] @ ''>'' @ body @ ''</a>'')"
  using safe_element [of body "''a''" "[(''href'', url)]"] by (simp add: ELEMENTS_def print_attr_def)

lemma safe_tags:
  assumes "safe body" and "safe t"
  shows "safe (''<code>'' @ body @ ''</code>'' @ t)" and "safe (''<strong>'' @ body @ ''</strong>'' @ t)"
    and "safe (''<em>'' @ body @ ''</em>'' @ t)" and "safe (''<p>'' @ body @ ''</p>'' @ t)"
    and "safe (''<li>'' @ body @ ''</li>'' @ t)" and "safe (''<tr>'' @ body @ ''</tr>'' @ t)"
    and "safe (''<thead>'' @ body @ ''</thead>'' @ t)" and "safe (''<tbody>'' @ body @ ''</tbody>'' @ t)"
    and "safe (''<blockquote>'' @ body @ ''</blockquote>'' @ t)" and "safe (''<pre>'' @ body @ ''</pre>'' @ t)"
  using assms safe_append [OF safe_tag [of body "''code''"]] safe_append [OF safe_tag [of body "''strong''"]]
    safe_append [OF safe_tag [of body "''em''"]] safe_append [OF safe_tag [of body "''p''"]]
    safe_append [OF safe_tag [of body "''li''"]] safe_append [OF safe_tag [of body "''tr''"]]
    safe_append [OF safe_tag [of body "''thead''"]] safe_append [OF safe_tag [of body "''tbody''"]]
    safe_append [OF safe_tag [of body "''blockquote''"]] safe_append [OF safe_tag [of body "''pre''"]]
  by (simp_all add: ELEMENTS_def)

lemma safe_link_then:
  "safe body \<Longrightarrow> safe t \<Longrightarrow>
     safe (''<a href='' @ [CHR 0x22] @ push_escaped_str url @ [CHR 0x22] @ ''>'' @ body @ ''</a>'' @ t)"
  using safe_append [OF safe_link [of body url]] by simp

lemma safe_cases:
  "(b \<Longrightarrow> safe x) \<Longrightarrow> (\<not> b \<Longrightarrow> safe y) \<Longrightarrow> safe (if b then x else y)"
  "(opt = None \<Longrightarrow> safe x) \<Longrightarrow> (\<And>a. opt = Some a \<Longrightarrow> safe (f a)) \<Longrightarrow> safe (case opt of None \<Rightarrow> x | Some a \<Rightarrow> f a)"
  "(\<And>a b. p = (a, b) \<Longrightarrow> safe (g a b)) \<Longrightarrow> safe (case p of (a, b) \<Rightarrow> g a b)"
  "(xs = [] \<Longrightarrow> safe x) \<Longrightarrow> (\<And>c t. xs = c # t \<Longrightarrow> safe (h c t)) \<Longrightarrow> safe (case xs of [] \<Rightarrow> x | c # t \<Rightarrow> h c t)"
  by (simp_all split: option.split prod.split list.split)

lemma render_inline_safe: "safe (render_inline s)"
proof (induction s rule: measure_induct_rule [of length])
  case (less s)
  note steps = safe_cases safe_tags(1-3) safe_link_then safe_intros
  show ?case
    by (subst render_inline.simps) (intro steps; (rule less)?; auto dest: link_parts_less str_find_less)
qed

lemma char_code: "char_of n = c \<Longrightarrow> n mod 256 = (of_char c :: nat)"
  by (metis of_char_of)

lemma slugify_plain: "push_escaped_str (slugify_heading s) = slugify_heading s"
proof -
  have "push_escaped_char (to_ascii_lower c) = [to_ascii_lower c]" if "is_ascii_alphanumeric c \<or> c = CHR ''-''" for c
    using that
    by (auto simp: push_escaped_char_def to_ascii_lower_def is_ascii_alphanumeric_def byte_in_def split: if_splits dest!: char_code)
  then show ?thesis by (induction s) (auto simp: slugify_heading_def push_escaped_char_def)
qed

lemma parse_heading_level: "parse_heading line = Some (level, text) \<Longrightarrow> level \<in> {1..<7}"
  by (auto simp: parse_heading_def Let_def Suc_le_eq split: if_splits option.splits)

lemma render_heading_safe:
  assumes "level \<in> {1..<7}"
  shows "safe (render_heading level text)"
proof -
  have "(''h'' @ [digit_char level], [''id'']) \<in> set ELEMENTS" using assms by (auto simp: ELEMENTS_def)
  then have "safe ((''<'' @ (''h'' @ [digit_char level]) @ concat (map print_attr [(''id'', slugify_heading text)]) @ ''>'' @
      render_inline text @ ''</'' @ (''h'' @ [digit_char level]) @ ''>'') @ [CHR 0x0A])"
    by (intro safe_append safe_element safe_newline render_inline_safe) simp
  then show ?thesis by (simp add: render_heading_def print_attr_def slugify_plain)
qed

lemma join_lines_safe: "safe (join_lines lines)"
  by (induction lines rule: join_lines.induct) (simp_all only: join_lines.simps safe_intros)

lemma render_code_block_safe: "safe (render_code_block lang lines)"
proof -
  let ?attrs = "if lang = [] then [] else [(''class'', ''language-'' @ lang)]"
  have "safe (''<pre>'' @ (''<'' @ ''code'' @ concat (map print_attr ?attrs) @ ''>'' @ join_lines lines @ ''</'' @ ''code'' @ ''>'') @
      ''</pre>'' @ [CHR 0x0A])"
    by (intro safe_tags(10) safe_element join_lines_safe safe_newline) (simp_all add: ELEMENTS_def)
  then show ?thesis by (simp add: render_code_block_def print_attr_def push_escaped_char_def split: if_splits)
qed

lemma render_cells_safe: "(tag, []) \<in> set ELEMENTS \<Longrightarrow> safe (render_cells tag cells)"
  unfolding render_cells_def by (intro safe_concat safe_tag render_inline_safe)

lemma render_table_safe: "safe (fst (render_table lines))"
proof -
  let ?rows = "concat (map (\<lambda>row. ''<tr>'' @ render_cells ''td'' (split_table_row row) @ ''</tr>'' @ [CHR 0x0A])
    (takeWhile in_table_body (drop 2 lines)))"
  have rows: "safe ?rows" by (intro safe_concat safe_tags(6) render_cells_safe safe_newline) (simp add: ELEMENTS_def)
  have "safe (''<thead>'' @ ([CHR 0x0A] @ ''<tr>'' @ render_cells ''th'' (split_table_row (hd lines)) @ ''</tr>'' @ [CHR 0x0A]) @
      ''</thead>'' @ [CHR 0x0A] @ ''<tbody>'' @ ([CHR 0x0A] @ ?rows) @ ''</tbody>'' @ [CHR 0x0A])"
    by (intro safe_tags safe_append safe_newline rows render_cells_safe) (simp add: ELEMENTS_def)
  from safe_append [OF safe_newline this]
  have "safe ((''<'' @ ''table'' @ concat (map print_attr [(''class'', ''data-table'')]) @ ''>'' @
      ([CHR 0x0A] @ ''<thead>'' @ ([CHR 0x0A] @ ''<tr>'' @ render_cells ''th'' (split_table_row (hd lines)) @ ''</tr>'' @ [CHR 0x0A]) @
      ''</thead>'' @ [CHR 0x0A] @ ''<tbody>'' @ ([CHR 0x0A] @ ?rows) @ ''</tbody>'' @ [CHR 0x0A]) @ ''</'' @ ''table'' @ ''>'') @ [CHR 0x0A])"
    by (intro safe_append [OF safe_element safe_newline]) (simp_all add: ELEMENTS_def)
  then show ?thesis by (simp add: render_table_def Let_def print_attr_def push_escaped_char_def)
qed

lemma render_list_safe: "safe (fst (render_list kind lines))"
proof -
  let ?items = "concat (map (\<lambda>line. ''<li>'' @ render_inline (str_trim (the (strip_marker kind line))) @ ''</li>'' @ [CHR 0x0A])
    (takeWhile (\<lambda>line. strip_marker kind line \<noteq> None) lines))"
  let ?tag = "case kind of Ordered \<Rightarrow> ''ol'' | Unordered \<Rightarrow> ''ul''"
  have "safe ([CHR 0x0A] @ ?items)"
    by (intro safe_append safe_concat safe_tags(5) render_inline_safe safe_newline)
  then have "safe ((''<'' @ ?tag @ ''>'' @ ([CHR 0x0A] @ ?items) @ ''</'' @ ?tag @ ''>'') @ [CHR 0x0A])"
    by (intro safe_append [OF safe_tag safe_newline]) (cases kind; simp add: ELEMENTS_def)+
  then show ?thesis by (simp add: render_list_def Let_def)
qed

lemma render_block_safe: "safe (fst (render_block lines))"
proof -
  have "safe (fst (render_blockquote lines))"
  proof -
    have "safe (''<blockquote>'' @ (''<p>'' @ render_inline content @ ''</p>'' @ []) @ ''</blockquote>'' @ [CHR 0x0A])" for content
      by (intro safe_tags safe_Nil safe_newline render_inline_safe)
    then show ?thesis by (simp add: render_blockquote_def Let_def)
  qed
  moreover have "safe (fst (render_paragraph lines))"
    using safe_tags(4) [OF render_inline_safe safe_newline] by (simp add: render_paragraph_def split: prod.split)
  ultimately show ?thesis
    by (auto simp: render_block_def Let_def render_code_block_safe render_heading_safe render_table_safe render_list_safe
        safe_Nil dest!: parse_heading_level split: option.split)
qed

text \<open>
  C37. No document can inject markup into a page. What \<open>render\<close> returns is the print of a list of trees: elements of the
  listed kinds, with the listed attributes, properly nested and closed, in which every text and every value of an attribute
  is escaped. This holds for every source, whatever markup it contains or leaves open.
\<close>

theorem render_is_safe_html:
  "\<exists>nodes. list_all allowed nodes \<and> render source = concat (map print_html nodes)"
proof -
  have "safe (render_lines lines)" for lines
  proof (induction lines rule: measure_induct_rule [of length])
    case (less lines)
    then show ?case
      by (subst render_lines.simps) (simp add: safe_Nil safe_append render_block_safe render_block_less)
  qed
  then show ?thesis by (simp add: render_def safe_def)
qed

end
