(* ===== verification/View_Model.thy ===== *)
theory View_Model
  imports Publication Rearm Markdown "HOL-Library.Product_Lexorder"
begin

text \<open>
  The view model of the reports, \<open>report/view_model.rs\<close>: the values the templates print. It classifies rates, formats
  exclusions, names pages, derives the slugs of owners, groups the failures of a collection and raises the red flags.
  Texts are UTF-8 bytes. The functions \<open>ln\<close> and \<open>exp\<close>, whose last bits the standard library leaves open, the parser and
  formatter of timestamps, the lower-casing of texts, the percent encoder and the clock are parameters.
\<close>

subsection \<open>Texts and numbers\<close>

record ReportPorts =
  vp_ln :: "f64 \<Rightarrow> f64"
  vp_exp :: "f64 \<Rightarrow> f64"
  vp_parse :: "string \<Rightarrow> Timestamp option"
  vp_strftime :: "string \<Rightarrow> Timestamp \<Rightarrow> string"
  vp_now :: Timestamp
  vp_lower :: "string \<Rightarrow> string"
  vp_percent_encode :: "string \<Rightarrow> string \<Rightarrow> string"

definition EM_DASH :: string where
  "EM_DASH = [CHR 0xE2, CHR 0x80, CHR 0x94]"

definition ARROW :: string where
  "ARROW = [CHR 0xE2, CHR 0x86, CHR 0x92]"

definition MIDDLE_DOT :: string where
  "MIDDLE_DOT = [CHR 0xC2, CHR 0xB7]"

fun join_texts :: "string \<Rightarrow> string list \<Rightarrow> string" where
  "join_texts sep [] = []"
| "join_texts sep [s] = s"
| "join_texts sep (s # t # ts) = s @ sep @ join_texts sep (t # ts)"

text \<open>The arithmetic of \<open>F64\<close> on numbers of either sign.\<close>

definition f64_signed :: "rat \<Rightarrow> f64" where
  "f64_signed q = (if q < 0 then - f64_nearest (- q) else f64_nearest q)"

definition f64_clamp :: "f64 \<Rightarrow> f64 \<Rightarrow> f64 \<Rightarrow> f64" where
  "f64_clamp lo hi r = (if r < lo then lo else if hi < r then hi else r)"

subsection \<open>Tiers and pages\<close>

datatype CoverageTier = Pass | Warn | Fail | Na

definition CoverageTier_css_class :: "CoverageTier \<Rightarrow> string" where
  "CoverageTier_css_class t = (case t of
     CoverageTier.Pass \<Rightarrow> ''tier-pass'' | CoverageTier.Warn \<Rightarrow> ''tier-warn''
   | CoverageTier.Fail \<Rightarrow> ''tier-fail'' | CoverageTier.Na \<Rightarrow> ''tier-na'')"

definition CoverageTier_status_dot_class :: "CoverageTier \<Rightarrow> string" where
  "CoverageTier_status_dot_class t = (case t of
     CoverageTier.Pass \<Rightarrow> ''status-pass'' | CoverageTier.Warn \<Rightarrow> ''status-warn''
   | CoverageTier.Fail \<Rightarrow> ''status-fail'' | CoverageTier.Na \<Rightarrow> ''status-unknown'')"

record CoverageTiers =
  pass_threshold :: f64
  warn_threshold :: f64

definition CoverageTier_from_rate :: "f64 option \<Rightarrow> CoverageTiers \<Rightarrow> CoverageTier" where
  "CoverageTier_from_rate r tiers = (case r of
     None \<Rightarrow> CoverageTier.Na
   | Some r \<Rightarrow>
       if pass_threshold tiers \<le> r then CoverageTier.Pass
       else if warn_threshold tiers \<le> r then CoverageTier.Warn
       else CoverageTier.Fail)"

datatype DashboardHref = Root | Nested

definition DashboardHref_as_str :: "DashboardHref \<Rightarrow> string" where
  "DashboardHref_as_str h = (case h of DashboardHref.Root \<Rightarrow> ''.'' | DashboardHref.Nested \<Rightarrow> ''..'')"

definition DashboardHref_display :: "DashboardHref \<Rightarrow> string" where
  "DashboardHref_display h = DashboardHref_as_str h"

record TopNav =
  nav_publication :: "PublicationDisclosure option"
  nav_base :: string
  nav_dashboard_href :: DashboardHref
  nav_show_owners :: bool
  nav_orphaned_count :: u32
  nav_deleted_count :: u32
  nav_technical_issues_total :: u32

definition TopNav_has_technical_issues :: "TopNav \<Rightarrow> bool" where
  "TopNav_has_technical_issues nav \<longleftrightarrow> 0 < nav_technical_issues_total nav"

datatype DrillDownPage =
  BranchProtection | SecurityPolicy | SecretScanning | DependabotStatus | Codeowners | AlertFree | LifecycleRetirement

definition DrillDownPage_ALL :: "DrillDownPage list" where
  "DrillDownPage_ALL = [DrillDownPage.BranchProtection, DrillDownPage.SecurityPolicy, DrillDownPage.SecretScanning,
     DrillDownPage.DependabotStatus, DrillDownPage.Codeowners, DrillDownPage.AlertFree, DrillDownPage.LifecycleRetirement]"

definition DrillDownPage_file_name :: "DrillDownPage \<Rightarrow> string" where
  "DrillDownPage_file_name p = (case p of
     DrillDownPage.BranchProtection \<Rightarrow> ''branch_protection.html''
   | DrillDownPage.SecurityPolicy \<Rightarrow> ''security_policy.html''
   | DrillDownPage.SecretScanning \<Rightarrow> ''secret_scanning.html''
   | DrillDownPage.DependabotStatus \<Rightarrow> ''dependabot_status.html''
   | DrillDownPage.Codeowners \<Rightarrow> ''codeowners.html''
   | DrillDownPage.AlertFree \<Rightarrow> ''alert_free.html''
   | DrillDownPage.LifecycleRetirement \<Rightarrow> ''lifecycle_retirement.html'')"

record DrillDownLink =
  link_page :: DrillDownPage
  link_depth :: DashboardHref

definition DrillDownPage_link :: "DrillDownPage \<Rightarrow> DashboardHref \<Rightarrow> DrillDownLink" where
  "DrillDownPage_link p depth = \<lparr>link_page = p, link_depth = depth\<rparr>"

definition DrillDownLink_display :: "DrillDownLink \<Rightarrow> string" where
  "DrillDownLink_display l =
     (case link_depth l of DashboardHref.Root \<Rightarrow> [] | DashboardHref.Nested \<Rightarrow> ''../'') @ DrillDownPage_file_name (link_page l)"

subsection \<open>Widths and scores\<close>

definition WIDTH_CLASSES :: "string list" where
  "WIDTH_CLASSES = [''w-0'', ''w-5'', ''w-10'', ''w-15'', ''w-20'', ''w-25'', ''w-30'', ''w-35'', ''w-40'', ''w-45'', ''w-50'',
     ''w-55'', ''w-60'', ''w-65'', ''w-70'', ''w-75'', ''w-80'', ''w-85'', ''w-90'', ''w-95'', ''w-100'']"

definition rate_to_width_class :: "f64 option \<Rightarrow> string" where
  "rate_to_width_class r = (case r of
     None \<Rightarrow> ''w-0''
   | Some r \<Rightarrow>
       (let clamped = f64_clamp 0 100 r; bucket = f64_round (f64_div clamped 5);
            index = (case find (\<lambda>candidate. of_nat candidate \<le> bucket) (rev [0..<length WIDTH_CLASSES]) of
              Some candidate \<Rightarrow> candidate | None \<Rightarrow> 0)
        in WIDTH_CLASSES ! index))"

definition compute_health_score :: "ReportPorts \<Rightarrow> f64 option list \<Rightarrow> f64 option" where
  "compute_health_score P rates =
     (let available = map (\<lambda>r. if r = 0 then f64_nearest (1 / 10) else r)
            (map (f64_clamp 0 100) (List.map_filter (\<lambda>r. r) rates))
      in if available = [] then None
         else (let n = of_nat (unat (u32_of_count (length available)));
                   log_sum = foldl (\<lambda>s x. f64_signed (s + x)) 0 (map (vp_ln P) available);
                   geo_mean = vp_exp P (f64_signed (log_sum / n))
               in Some (f64_div (f64_round (f64_mul geo_mean 10)) 10)))"

subsection \<open>Exclusions and control cells\<close>

record ControlExclusion =
  excl_total :: u32
  excl_formatted :: string

definition ControlExclusion_empty :: ControlExclusion where
  "ControlExclusion_empty = \<lparr>excl_total = 0, excl_formatted = ''0 unmeasured''\<rparr>"

definition ControlExclusion_unmeasured :: "u32 \<Rightarrow> ControlExclusion" where
  "ControlExclusion_unmeasured n = \<lparr>excl_total = n, excl_formatted = show_nat (unat n) @ '' unmeasured''\<rparr>"

definition format_exclusion :: "CollectionHealthCheckKind \<Rightarrow> ScoreExclusionCount list \<Rightarrow> ControlExclusion" where
  "format_exclusion check_kind counts =
     (let entries = filter (\<lambda>c. exclusion_check_kind c = check_kind) counts;
          sum = foldl (\<lambda>t c. saturating_add t (exclusion_count c)) 0 entries;
          parts = map (\<lambda>c. show_nat (unat (exclusion_count c)) @ '' '' @ ExclusionReason_display (exclusion_reason c)) entries
      in \<lparr>excl_total = sum,
          excl_formatted = (if parts = [] then ''0 unmeasured''
            else show_nat (unat sum) @ '' unmeasured ('' @ join_texts '', '' parts @ '')'')\<rparr>)"

record ControlCell =
  cell_rate :: "f64 option"
  cell_rate_formatted :: string
  cell_rate_table_formatted :: string
  cell_tier :: CoverageTier
  cell_width_class :: string
  cell_excluded_total :: u32
  cell_excluded_formatted :: string

definition ControlCell_from_rate :: "RateMetric option \<Rightarrow> CoverageTiers \<Rightarrow> ControlExclusion \<Rightarrow> ControlCell" where
  "ControlCell_from_rate rate_metric tiers exclusion =
     (let r = Option.bind rate_metric rate
      in \<lparr>cell_rate = r,
          cell_rate_formatted = (case rate_metric of None \<Rightarrow> ''N/A'' | Some m \<Rightarrow> RateMetric_display m),
          cell_rate_table_formatted = (case rate_metric of None \<Rightarrow> ''N/A'' | Some m \<Rightarrow> RateMetric_to_table_string m),
          cell_tier = CoverageTier_from_rate r tiers,
          cell_width_class = rate_to_width_class r,
          cell_excluded_total = excl_total exclusion,
          cell_excluded_formatted = excl_formatted exclusion\<rparr>)"

subsection \<open>Slugs\<close>

text \<open>One character of the loop of \<open>generate_slug\<close>, on the slug so far and whether it ends in a dash.\<close>

definition slug_step :: "char \<Rightarrow> string \<times> bool \<Rightarrow> string \<times> bool" where
  "slug_step c st = (case st of (slug, prev_dash) \<Rightarrow>
     if is_ascii_alphanumeric c \<or> c = CHR ''_'' then (slug @ [c], False)
     else if \<not> prev_dash then (slug @ ''-'', True)
     else (slug, prev_dash))"

definition generate_slug :: "string \<Rightarrow> string" where
  "generate_slug owner_name =
     (let slug = fst (fold slug_step (unwrap_start ''@'' owner_name) ([], True))
      in if slug \<noteq> [] \<and> last slug = CHR ''-'' then butlast slug else slug)"

text \<open>
  The loop over suffixes: the first number from two on that is free. Among one more candidates than there are used slugs
  one is free, so the bound is never reached (lemma \<open>free_slug_found\<close>).
\<close>

definition free_slug :: "string list \<Rightarrow> string \<Rightarrow> string option" where
  "free_slug used base =
     find (\<lambda>candidate. candidate \<notin> set used) (map (\<lambda>suffix. base @ ''-'' @ show_nat suffix) [2..<3 + length used])"

record SlugState =
  slugs :: "string \<rightharpoonup> string"
  used_slugs :: "string list"
  fallback_counter :: nat

definition slug_owner :: "string \<Rightarrow> SlugState \<Rightarrow> SlugState" where
  "slug_owner owner_name st =
     (let base = generate_slug owner_name;
          counter = (if base = [] then Suc (fallback_counter st) else fallback_counter st);
          base = (if base = [] then ''owner-'' @ show_nat counter else base);
          final_slug = (if base \<in> set (used_slugs st)
            then (case free_slug (used_slugs st) base of Some slug \<Rightarrow> slug | None \<Rightarrow> base) else base)
      in \<lparr>slugs = (slugs st)(owner_name \<mapsto> final_slug), used_slugs = final_slug # used_slugs st, fallback_counter = counter\<rparr>)"

definition generate_unique_slugs :: "string list \<Rightarrow> (string \<rightharpoonup> string)" where
  "generate_unique_slugs names =
     slugs (fold slug_owner names \<lparr>slugs = Map.empty, used_slugs = [], fallback_counter = 0\<rparr>)"

definition strip_org_prefix :: "string \<Rightarrow> string" where
  "strip_org_prefix owner_name = (case split_once CHR ''/'' owner_name of Some (_, after) \<Rightarrow> after | None \<Rightarrow> owner_name)"

subsection \<open>Notices\<close>

record CoverageNotice =
  notice_summary :: string
  notice_detail :: string

definition CoverageNotice_derive :: "CollectionCoverage \<Rightarrow> u32 \<Rightarrow> CoverageNotice option" where
  "CoverageNotice_derive coverage report_rows = (case coverage of
     CollectionCoverage.Known all_repos limit \<Rightarrow>
       if limit < all_repos then
         (let selected = show_nat (unat limit); of_all = show_nat (unat all_repos)
          in Some \<lparr>notice_summary = ''Capped '' @ selected @ '' of '' @ of_all @ '' repositories'',
               notice_detail = selected @ '' of '' @ of_all @ '' repositories selected for sweep; max_repos='' @ selected @ ''; '' @
                 show_nat (unat report_rows) @ '' non-archived report rows (may include unread and retained evidence)''\<rparr>)
       else None
   | CollectionCoverage.Unknown \<Rightarrow> None)"

definition CoverageNotice_to_html :: "CoverageNotice \<Rightarrow> string" where
  "CoverageNotice_to_html n = ''<strong>Coverage:</strong> Capped ('' @ notice_detail n @ '')''"

definition count_unscanned_repos :: "Evidence \<Rightarrow> nat" where
  "count_unscanned_repos evidence =
     length (filter (\<lambda>repo. RepositoryReadState_from_checks (checks repo) = RepositoryReadState.Pending)
       (evidence_repositories evidence))"

definition WARM_START_TEXT :: string where
  "WARM_START_TEXT = ''Cached '' @ MIDDLE_DOT @ '' next update in progress''"

definition derive_warm_start_badge :: "bool \<Rightarrow> nat \<Rightarrow> string option" where
  "derive_warm_start_badge warm unscanned =
     (if warm \<or> 0 < unscanned then
        Some (WARM_START_TEXT @ (if unscanned = 0 then []
          else if unscanned = 1 then '' '' @ MIDDLE_DOT @ '' 1 repo not scanned''
          else '' '' @ MIDDLE_DOT @ '' '' @ show_nat unscanned @ '' repos not scanned''))
      else None)"

subsection \<open>Diagnostics\<close>

record CollectionHealthReasonRow =
  hr_reason :: CollectionFailureReason
  hr_label :: string
  hr_count :: u32

record CollectionHealthSection =
  hs_check_kind :: CollectionHealthCheckKind
  hs_label :: string
  hs_rows :: "CollectionHealthReasonRow list"
  hs_subtotal :: u32

definition collection_health_label :: "CollectionHealthCheckKind \<Rightarrow> string" where
  "collection_health_label kind = (case kind of
     CollectionHealthCheckKind.BranchProtection \<Rightarrow> ''Branch Protection''
   | CollectionHealthCheckKind.SecretScanning \<Rightarrow> ''Secret Scanning''
   | CollectionHealthCheckKind.Dependabot \<Rightarrow> ''Dependabot''
   | CollectionHealthCheckKind.Codeowners \<Rightarrow> ''CODEOWNERS''
   | CollectionHealthCheckKind.SecurityPolicy \<Rightarrow> ''Security Policy''
   | CollectionHealthCheckKind.Inventory \<Rightarrow> ''Inventory''
   | CollectionHealthCheckKind.Rulesets \<Rightarrow> ''Rulesets'')"

type_synonym health_key = "CollectionHealthCheckKind \<times> CollectionFailureReason"

definition group_health :: "CollectionHealthCount \<Rightarrow> (health_key \<times> u32) list \<Rightarrow> (health_key \<times> u32) list" where
  "group_health c grouped =
     (let key = (health_check_kind c, health_reason c);
          so_far = (case btree_get grouped key of Some t \<Rightarrow> t | None \<Rightarrow> 0)
      in btree_insert key (saturating_add so_far (health_count c)) grouped)"

definition push_health_row :: "health_key \<times> u32 \<Rightarrow> CollectionHealthSection list \<Rightarrow> CollectionHealthSection list" where
  "push_health_row entry sections = (case entry of ((kind, reason), n) \<Rightarrow>
     (let row = \<lparr>hr_reason = reason, hr_label = CollectionFailureReason_display reason, hr_count = n\<rparr>
      in if sections \<noteq> [] \<and> hs_check_kind (last sections) = kind
         then butlast sections @ [(last sections)\<lparr>hs_subtotal := saturating_add (hs_subtotal (last sections)) n,
           hs_rows := hs_rows (last sections) @ [row]\<rparr>]
         else sections @ [\<lparr>hs_check_kind = kind, hs_label = collection_health_label kind, hs_rows = [row], hs_subtotal = n\<rparr>]))"

definition build_collection_health_sections :: "CollectionHealthCount list \<Rightarrow> CollectionHealthSection list \<times> u32" where
  "build_collection_health_sections counts =
     (let grouped = fold group_health counts []
      in (fold push_health_row grouped [], foldl (\<lambda>t (_, c). saturating_add t c) 0 grouped))"

record CredentialCapabilityLimitation =
  ccl_capability :: Capability
  ccl_label :: string

record CredentialLimitationsViewModel =
  clv_auth_mode :: AuthMode
  clv_auth_mode_label :: string
  clv_token_tier :: TokenTier
  clv_token_tier_label :: string
  clv_unavailable_capabilities :: "CredentialCapabilityLimitation list"

definition capability_order :: "Capability \<Rightarrow> nat" where
  "capability_order c = (case c of Capability.OrgSecretScanningAlerts \<Rightarrow> 0 | Capability.PrivateBranchProtectionRead \<Rightarrow> 1)"

definition build_credential_limitations :: "AssessmentMetadata \<Rightarrow> CredentialLimitationsViewModel" where
  "build_credential_limitations metadata =
     \<lparr>clv_auth_mode = auth_mode metadata, clv_auth_mode_label = AuthMode_display (auth_mode metadata),
      clv_token_tier = token_tier metadata, clv_token_tier_label = TokenTier_display (token_tier metadata),
      clv_unavailable_capabilities = map (\<lambda>c. \<lparr>ccl_capability = c, ccl_label = Capability_display c\<rparr>)
        (sort_key capability_order (unavailable_capabilities metadata))\<rparr>"

definition CredentialLimitationsViewModel_has_degraded_capabilities :: "CredentialLimitationsViewModel \<Rightarrow> bool" where
  "CredentialLimitationsViewModel_has_degraded_capabilities v \<longleftrightarrow> clv_unavailable_capabilities v \<noteq> []"

subsection \<open>Red flags\<close>

datatype Severity = Critical | High | Medium

datatype RedFlagCategory = Credential | Integrity | Posture

datatype RedFlagId =
  TokenTierUnknown | DegradedCapability | BranchProtectionPermissionSuspected | BranchProtectionPermissionDenied
| SecretScanningPermissionDenied | AuthModePat | RateLimitedCollection | UnstableCollectionResult | CodeownersTruncated
| CollectionRunStale | SecretScanningUnobservable | BranchProtectionAbsent | IntegrityControlGap

text \<open>The derived orders are those of the constructors.\<close>

definition Severity_rank :: "Severity \<Rightarrow> nat" where
  "Severity_rank s = (case s of Severity.Critical \<Rightarrow> 0 | Severity.High \<Rightarrow> 1 | Severity.Medium \<Rightarrow> 2)"

definition RedFlagCategory_rank :: "RedFlagCategory \<Rightarrow> nat" where
  "RedFlagCategory_rank c = (case c of
     RedFlagCategory.Credential \<Rightarrow> 0 | RedFlagCategory.Integrity \<Rightarrow> 1 | RedFlagCategory.Posture \<Rightarrow> 2)"

definition RedFlagId_rank :: "RedFlagId \<Rightarrow> nat" where
  "RedFlagId_rank i = (case i of
     TokenTierUnknown \<Rightarrow> 0 | DegradedCapability \<Rightarrow> 1 | BranchProtectionPermissionSuspected \<Rightarrow> 2
   | BranchProtectionPermissionDenied \<Rightarrow> 3 | SecretScanningPermissionDenied \<Rightarrow> 4 | AuthModePat \<Rightarrow> 5
   | RateLimitedCollection \<Rightarrow> 6 | UnstableCollectionResult \<Rightarrow> 7 | CodeownersTruncated \<Rightarrow> 8 | CollectionRunStale \<Rightarrow> 9
   | SecretScanningUnobservable \<Rightarrow> 10 | BranchProtectionAbsent \<Rightarrow> 11 | IntegrityControlGap \<Rightarrow> 12)"

definition Severity_css_class :: "Severity \<Rightarrow> string" where
  "Severity_css_class s = (case s of
     Severity.Critical \<Rightarrow> ''severity-critical'' | Severity.High \<Rightarrow> ''severity-high'' | Severity.Medium \<Rightarrow> ''severity-medium'')"

definition Severity_status_dot_class :: "Severity \<Rightarrow> string" where
  "Severity_status_dot_class s = (case s of
     Severity.Critical \<Rightarrow> ''status-fail'' | Severity.High \<Rightarrow> ''status-warn'' | Severity.Medium \<Rightarrow> ''status-unknown'')"

definition Severity_label :: "Severity \<Rightarrow> string" where
  "Severity_label s = (case s of Severity.Critical \<Rightarrow> ''Critical'' | Severity.High \<Rightarrow> ''High'' | Severity.Medium \<Rightarrow> ''Medium'')"

definition RedFlagCategory_label :: "RedFlagCategory \<Rightarrow> string" where
  "RedFlagCategory_label c = (case c of
     RedFlagCategory.Credential \<Rightarrow> ''Credential'' | RedFlagCategory.Integrity \<Rightarrow> ''Integrity'' | RedFlagCategory.Posture \<Rightarrow> ''Posture'')"

datatype AffectedScope = Count u32 | Repos "string list" | OrgWide

datatype FixTarget = Token | CloudRunConfig | Repo string | Investigate

text \<open>A red flag without its explanation and the text of its remedy, which are fixed for every flag.\<close>

record RedFlag =
  flag_id :: RedFlagId
  flag_severity :: Severity
  flag_category :: RedFlagCategory
  flag_title :: string
  flag_affected :: AffectedScope
  flag_fix_target :: FixTarget

definition sum_collection_health :: "CollectionHealthCount list \<Rightarrow> (CollectionHealthCount \<Rightarrow> bool) \<Rightarrow> u32" where
  "sum_collection_health counts predicate = foldl (\<lambda>t c. saturating_add t (health_count c)) 0 (filter predicate counts)"

definition push_token_tier_unknown :: "AssessmentMetadata \<Rightarrow> RedFlag list \<Rightarrow> RedFlag list" where
  "push_token_tier_unknown metadata fs =
     (if token_tier metadata \<noteq> TokenTier.Unknown then fs
      else fs @ [\<lparr>flag_id = TokenTierUnknown, flag_severity = Severity.High, flag_category = RedFlagCategory.Credential,
        flag_title = ''Token capability tier is unknown'',
        flag_affected = OrgWide,
        flag_fix_target = Token\<rparr>])"

definition degraded_capability_text :: "Capability \<Rightarrow> string" where
  "degraded_capability_text c = (case c of
     Capability.OrgSecretScanningAlerts \<Rightarrow>
       ''Org-level secret scanning alerts capability unavailable''
   | Capability.PrivateBranchProtectionRead \<Rightarrow>
       ''Private/internal branch-protection reads capability unavailable'')"

definition push_degraded_capabilities :: "AssessmentMetadata \<Rightarrow> RedFlag list \<Rightarrow> RedFlag list" where
  "push_degraded_capabilities metadata fs =
     fs @ map (\<lambda>c.
       \<lparr>flag_id = DegradedCapability, flag_severity = Severity.High, flag_category = RedFlagCategory.Credential,
        flag_title = degraded_capability_text c, flag_affected = OrgWide,
        flag_fix_target = Token\<rparr>)
       (sort_key capability_order (unavailable_capabilities metadata))"

definition push_branch_protection_permission_suspected :: "AggregatedMetrics \<Rightarrow> RedFlag list \<Rightarrow> RedFlag list" where
  "push_branch_protection_permission_suspected metrics fs =
     (let n = sum_collection_health (collection_health_counts metrics) (\<lambda>c.
            health_check_kind c = CollectionHealthCheckKind.BranchProtection \<and>
            health_reason c = CollectionFailureReason.PermissionSuspected)
      in if n = 0 then fs
         else fs @ [\<lparr>flag_id = BranchProtectionPermissionSuspected, flag_severity = Severity.Medium,
           flag_category = RedFlagCategory.Credential,
           flag_title = ''Branch protection reads suspected permission-denied'',
           flag_affected = Count n,
           flag_fix_target = Token\<rparr>])"

definition push_branch_protection_permission_denied :: "AggregatedMetrics \<Rightarrow> RedFlag list \<Rightarrow> RedFlag list" where
  "push_branch_protection_permission_denied metrics fs =
     (let n = sum_collection_health (collection_health_counts metrics) (\<lambda>c.
            health_check_kind c = CollectionHealthCheckKind.BranchProtection \<and>
            health_reason c = CollectionFailureReason.PermissionDenied)
      in if n = 0 then fs
         else fs @ [\<lparr>flag_id = BranchProtectionPermissionDenied, flag_severity = Severity.Medium,
           flag_category = RedFlagCategory.Credential,
           flag_title = ''Branch protection reads denied by permissions'',
           flag_affected = Count n,
           flag_fix_target = Token\<rparr>])"

definition push_secret_scanning_permission_denied :: "AggregatedMetrics \<Rightarrow> RedFlag list \<Rightarrow> RedFlag list" where
  "push_secret_scanning_permission_denied metrics fs =
     (let n = sum_collection_health (collection_health_counts metrics) (\<lambda>c.
            health_check_kind c = CollectionHealthCheckKind.SecretScanning \<and>
            health_reason c = CollectionFailureReason.PermissionDenied)
      in if n = 0 then fs
         else fs @ [\<lparr>flag_id = SecretScanningPermissionDenied, flag_severity = Severity.Medium,
           flag_category = RedFlagCategory.Credential,
           flag_title = ''Secret scanning reads denied by permissions'',
           flag_affected = Count n,
           flag_fix_target = Token\<rparr>])"

definition push_auth_mode_pat :: "AssessmentMetadata \<Rightarrow> RedFlag list \<Rightarrow> RedFlag list" where
  "push_auth_mode_pat metadata fs =
     (if auth_mode metadata \<noteq> AuthMode.Pat then fs
      else fs @ [\<lparr>flag_id = AuthModePat, flag_severity = Severity.Medium, flag_category = RedFlagCategory.Credential,
        flag_title = ''Running on Personal Access Token authentication'',
        flag_affected = OrgWide,
        flag_fix_target = CloudRunConfig\<rparr>])"

definition push_rate_limited_collection :: "AggregatedMetrics \<Rightarrow> RedFlag list \<Rightarrow> RedFlag list" where
  "push_rate_limited_collection metrics fs =
     (let n = sum_collection_health (collection_health_counts metrics) (\<lambda>c.
            health_reason c = CollectionFailureReason.RateLimited)
      in if n = 0 then fs
         else fs @ [\<lparr>flag_id = RateLimitedCollection, flag_severity = Severity.High, flag_category = RedFlagCategory.Integrity,
           flag_title = ''Collection requests were rate-limited'',
           flag_affected = Count n,
           flag_fix_target = Investigate\<rparr>])"

definition push_unstable_collection_result :: "AggregatedMetrics \<Rightarrow> RedFlag list \<Rightarrow> RedFlag list" where
  "push_unstable_collection_result metrics fs =
     (let n = sum_collection_health (collection_health_counts metrics) (\<lambda>c.
            health_reason c = CollectionFailureReason.Transient \<or> health_reason c = CollectionFailureReason.Invalid)
      in if n = 0 then fs
         else fs @ [\<lparr>flag_id = UnstableCollectionResult, flag_severity = Severity.Medium,
           flag_category = RedFlagCategory.Integrity,
           flag_title = ''Collection responses were transient or invalid'',
           flag_affected = Count n,
           flag_fix_target = Investigate\<rparr>])"

definition push_codeowners_truncated :: "AggregatedMetrics \<Rightarrow> RedFlag list \<Rightarrow> RedFlag list" where
  "push_codeowners_truncated metrics fs =
     (let n = codeowners_truncated (codeowners_counts metrics)
      in if n = 0 then fs
         else fs @ [\<lparr>flag_id = CodeownersTruncated, flag_severity = Severity.Medium,
           flag_category = RedFlagCategory.Integrity,
           flag_title = ''CODEOWNERS parsing was truncated'',
           flag_affected = Count n,
           flag_fix_target = Investigate\<rparr>])"

definition is_collection_run_stale :: "ReportPorts \<Rightarrow> string \<Rightarrow> bool" where
  "is_collection_run_stale P run_time = (case parse_iso8601 (vp_parse P) run_time of
     None \<Rightarrow> False
   | Some run_ts \<Rightarrow> int (unat (saturating_mul COLLECTION_INTERVAL_SECS 2)) * 1000000000 < vp_now P - run_ts)"

definition push_collection_run_stale :: "ReportPorts \<Rightarrow> AssessmentMetadata \<Rightarrow> RedFlag list \<Rightarrow> RedFlag list" where
  "push_collection_run_stale P metadata fs =
     (if \<not> is_collection_run_stale P (run_timestamp metadata) then fs
      else fs @ [\<lparr>flag_id = CollectionRunStale, flag_severity = Severity.High, flag_category = RedFlagCategory.Integrity,
        flag_title = ''Collection run is stale'', flag_affected = OrgWide, flag_fix_target = Investigate\<rparr>])"

definition count_secret_scanning_unobservable :: "RepositoryEvidence list \<Rightarrow> u32" where
  "count_secret_scanning_unobservable repos =
     u32_of_count (length (filter (\<lambda>repo.
       SecretScanningResult_status (secret_scanning (checks repo)) = SecretScanningStatus.Enabled \<and>
       \<not> SecretScanningResult_alerts_observable (secret_scanning (checks repo))) repos))"

definition push_secret_scanning_unobservable :: "RepositoryEvidence list \<Rightarrow> RedFlag list \<Rightarrow> RedFlag list" where
  "push_secret_scanning_unobservable repos fs =
     (let n = count_secret_scanning_unobservable repos
      in if n = 0 then fs
         else fs @ [\<lparr>flag_id = SecretScanningUnobservable, flag_severity = Severity.Medium,
           flag_category = RedFlagCategory.Integrity,
           flag_title = ''Secret scanning enabled but alerts not observable'',
           flag_affected = Count n, flag_fix_target = Token\<rparr>])"

definition repo_full_name :: "AssessmentMetadata \<Rightarrow> RepositoryEvidence \<Rightarrow> string" where
  "repo_full_name metadata repo = meta_organization metadata @ ''/'' @ repo_name (repository repo)"

text \<open>The two lists of \<open>scan_branch_protection_posture\<close>: protection known to be absent, and any other gap.\<close>

definition confirmed_absent :: "RepositoryEvidence \<Rightarrow> bool" where
  "confirmed_absent repo = (case branch_protection (checks repo) of
     BranchProtectionResult.Unprotected _ (HistoryProtectionGap.Absent confirmed_not_found _) _ \<Rightarrow> confirmed_not_found
   | _ \<Rightarrow> False)"

definition other_gap :: "RepositoryEvidence \<Rightarrow> bool" where
  "other_gap repo = (case branch_protection (checks repo) of
     BranchProtectionResult.Unprotected _ (HistoryProtectionGap.Absent confirmed_not_found _) _ \<Rightarrow> \<not> confirmed_not_found
   | BranchProtectionResult.Unprotected _ _ _ \<Rightarrow> True
   | _ \<Rightarrow> False)"

definition scan_branch_protection_posture ::
    "AssessmentMetadata \<Rightarrow> RepositoryEvidence list \<Rightarrow> string list \<times> string list" where
  "scan_branch_protection_posture metadata repos =
     (sort (map (repo_full_name metadata) (filter confirmed_absent repos)),
      sort (map (repo_full_name metadata) (filter other_gap repos)))"

definition push_posture_flag :: "string list \<Rightarrow> RedFlagId \<Rightarrow> Severity \<Rightarrow> string \<Rightarrow> RedFlag list \<Rightarrow> RedFlag list" where
  "push_posture_flag affected_repos fid sev heading fs = (case affected_repos of
     [] \<Rightarrow> fs
   | primary # _ \<Rightarrow> fs @ [\<lparr>flag_id = fid, flag_severity = sev, flag_category = RedFlagCategory.Posture, flag_title = heading,
       flag_affected = Repos affected_repos, flag_fix_target = Repo primary\<rparr>])"

definition push_branch_protection_posture_flags ::
    "AssessmentMetadata \<Rightarrow> RepositoryEvidence list \<Rightarrow> RedFlag list \<Rightarrow> RedFlag list" where
  "push_branch_protection_posture_flags metadata repos fs =
     (case scan_branch_protection_posture metadata repos of (absent, integrity_gap) \<Rightarrow>
        push_posture_flag integrity_gap IntegrityControlGap Severity.Medium ''Default branch history is rewritable or deletable''
          (push_posture_flag absent BranchProtectionAbsent Severity.High ''Branch protection is absent'' fs))"

definition red_flag_key :: "RedFlag \<Rightarrow> nat \<times> nat \<times> nat" where
  "red_flag_key f = (Severity_rank (flag_severity f), RedFlagCategory_rank (flag_category f), RedFlagId_rank (flag_id f))"

definition build_red_flags ::
    "ReportPorts \<Rightarrow> AssessmentMetadata \<Rightarrow> AggregatedMetrics \<Rightarrow> RepositoryEvidence list \<Rightarrow> RedFlag list" where
  "build_red_flags P metadata metrics repos =
     (let fs = push_token_tier_unknown metadata [];
          fs = push_degraded_capabilities metadata fs;
          fs = push_branch_protection_permission_suspected metrics fs;
          fs = push_branch_protection_permission_denied metrics fs;
          fs = push_secret_scanning_permission_denied metrics fs;
          fs = push_auth_mode_pat metadata fs;
          fs = push_rate_limited_collection metrics fs;
          fs = push_unstable_collection_result metrics fs;
          fs = push_codeowners_truncated metrics fs;
          fs = push_collection_run_stale P metadata fs;
          fs = push_secret_scanning_unobservable repos fs;
          fs = push_branch_protection_posture_flags metadata repos fs
      in sort_key red_flag_key fs)"

record AdminDiagnosticsViewModel =
  adv_collection_health_sections :: "CollectionHealthSection list"
  adv_technical_issues_total :: u32
  adv_credentials :: CredentialLimitationsViewModel
  adv_red_flags :: "RedFlag list"

definition build_admin_diagnostics ::
    "ReportPorts \<Rightarrow> AssessmentMetadata \<Rightarrow> AggregatedMetrics \<Rightarrow> RepositoryEvidence list \<Rightarrow> AdminDiagnosticsViewModel" where
  "build_admin_diagnostics P metadata metrics repos =
     (case build_collection_health_sections (collection_health_counts metrics) of (sections, issues) \<Rightarrow>
        \<lparr>adv_collection_health_sections = sections, adv_technical_issues_total = issues,
         adv_credentials = build_credential_limitations metadata, adv_red_flags = build_red_flags P metadata metrics repos\<rparr>)"

text \<open>\<open>Severity\<close> is ordered from the worst on, so the worst severity is the least.\<close>

definition max_red_flag_severity :: "AdminDiagnosticsViewModel \<Rightarrow> Severity option" where
  "max_red_flag_severity d = min_by_key Severity_rank (map flag_severity (adv_red_flags d))"

definition red_flag_severity_counts :: "AdminDiagnosticsViewModel \<Rightarrow> u32 \<times> u32 \<times> u32" where
  "red_flag_severity_counts d = fold (\<lambda>f (critical, high, medium). case flag_severity f of
     Severity.Critical \<Rightarrow> (sat_inc critical, high, medium)
   | Severity.High \<Rightarrow> (critical, sat_inc high, medium)
   | Severity.Medium \<Rightarrow> (critical, high, sat_inc medium)) (adv_red_flags d) (0, 0, 0)"

subsection \<open>Lifecycle and alerts\<close>

text \<open>The tuple of \<open>compute_archival_coverage\<close>: archived and stale repositories, the rate, its tier, text and width.\<close>

definition ratio_text :: "f64 option \<Rightarrow> u32 \<Rightarrow> u32 \<Rightarrow> string" where
  "ratio_text r n d =
     (case r of None \<Rightarrow> ''N/A ('' | Some s \<Rightarrow> fmt_f64_1 s @ ''% ('') @ show_nat (unat n) @ ''/'' @ show_nat (unat d) @ '')''"

definition ratio_rate :: "u32 \<Rightarrow> u32 \<Rightarrow> f64 option" where
  "ratio_rate n d = (if 0 < d then Some (f64_mul (f64_div (of_nat (unat n)) (of_nat (unat d))) 100) else None)"

definition compute_archival_coverage ::
    "ReportPorts \<Rightarrow> Evidence \<Rightarrow> CoverageTiers \<Rightarrow> u32 \<times> u32 \<times> f64 option \<times> CoverageTier \<times> string \<times> string" where
  "compute_archival_coverage P evidence tiers =
     (let archived_n = archived_repos (evidence_collection_statistics evidence);
          stale_active = u32_of_count (length (filter (\<lambda>r. \<not> archived (repository r) \<and>
            is_repo_stale (vp_parse P) (map_option UpdatedAt_deref (updated_at (repository r)))
              (run_timestamp (evidence_assessment_metadata evidence))) (evidence_repositories evidence)));
          stale_denominator = saturating_add archived_n stale_active;
          stale_rate = ratio_rate archived_n stale_denominator
      in (archived_n, stale_active, stale_rate, CoverageTier_from_rate stale_rate tiers,
          ratio_text stale_rate archived_n stale_denominator, rate_to_width_class stale_rate))"

definition compute_alert_free_coverage ::
    "Evidence \<Rightarrow> CoverageTiers \<Rightarrow> f64 option \<times> CoverageTier \<times> string \<times> string" where
  "compute_alert_free_coverage evidence tiers =
     (let m = evidence_metrics evidence; n = repos_without_open_alerts (secret_alert_counts m);
          d = max (saturating_add n (repos_with_open_alerts (secret_alert_counts m))) (denominator (open_secret_alert_prevalence m));
          alert_free_rate = ratio_rate n d
      in (alert_free_rate, CoverageTier_from_rate alert_free_rate tiers, ratio_text alert_free_rate n d,
          rate_to_width_class alert_free_rate))"

definition health_display ::
    "ReportPorts \<Rightarrow> AggregatedMetrics \<Rightarrow> f64 option \<Rightarrow> f64 option \<Rightarrow> CoverageTiers \<Rightarrow>
     f64 option \<times> CoverageTier \<times> string \<times> string \<times> string" where
  "health_display P metrics stale_rate alert_free_rate tiers =
     (let score = compute_health_score P [rate (security_policy_coverage metrics), rate (secret_scanning_coverage metrics),
            rate (dependabot_security_updates_coverage metrics), rate (branch_protection_coverage metrics),
            rate (codeowners_coverage metrics), stale_rate, alert_free_rate]
      in (score, CoverageTier_from_rate score tiers,
          case score of None \<Rightarrow> ''N/A'' | Some s \<Rightarrow> fmt_f64_1 s @ ''%'',
          case score of None \<Rightarrow> ''N/A'' | Some s \<Rightarrow> fmt_f64_0 s @ ''%'',
          rate_to_width_class score))"

definition format_run_timestamp :: "ReportPorts \<Rightarrow> string \<Rightarrow> string" where
  "format_run_timestamp P ts = (case parse_iso8601 (vp_parse P) ts of
     Some dt \<Rightarrow> vp_strftime P ''%Y-%m-%d %H:%M UTC'' dt
   | None \<Rightarrow> ts)"

subsection \<open>Slugs are unique\<close>

definition slug_char :: "char \<Rightarrow> bool" where
  "slug_char c \<longleftrightarrow> is_ascii_alphanumeric c \<or> c = CHR ''_'' \<or> c = CHR ''-''"

definition slug_ok :: "string \<Rightarrow> bool" where
  "slug_ok s \<longleftrightarrow> s \<noteq> [] \<and> list_all slug_char s"

lemma show_nat_digits: "list_all is_ascii_alphanumeric (show_nat n)"
proof (induction n rule: show_nat.induct)
  case (1 n)
  have "is_ascii_alphanumeric (char_of (n mod 10 + 48))"
    using mod_less_divisor [of 10 n] by (simp add: is_ascii_alphanumeric_def byte_in_def) linarith
  with 1 show ?case by (cases "n < 10") (simp_all add: show_nat.simps [of n])
qed

lemma show_nat_nonempty: "show_nat n \<noteq> []"
  by (simp add: show_nat.simps [of n])

lemma show_nat_inj: "show_nat m = show_nat n \<Longrightarrow> m = n"
proof (induction m arbitrary: n rule: show_nat.induct)
  case (1 m)
  have digit: "char_of (a + 48) = (char_of (b + 48) :: char) \<Longrightarrow> a = b" if "a < 10" "b < 10" for a b :: nat
    using that char_code [of "a + 48" "char_of (b + 48)"] by simp
  from "1.prems" have "m < 10 \<longleftrightarrow> n < 10"
    by (auto simp: show_nat.simps [of m] show_nat.simps [of n] show_nat_nonempty show_nat_nonempty [symmetric] split: if_splits)
  moreover have "m mod 10 = n mod 10"
    using "1.prems" digit [of m n] digit [of "m mod 10" "n mod 10"] calculation
    by (auto simp: show_nat.simps [of m] show_nat.simps [of n] split: if_splits)
  moreover have "m div 10 = n div 10"
    using "1.IH" [of "n div 10"] "1.prems" calculation(1)
    by (cases "m < 10") (simp_all add: show_nat.simps [of m] show_nat.simps [of n])
  ultimately show ?case by (metis div_mult_mod_eq)
qed

lemma free_slug_found: "\<exists>slug. free_slug used base = Some slug \<and> slug \<notin> set used \<and> (\<exists>n. slug = base @ ''-'' @ show_nat n)"
proof -
  let ?cs = "map (\<lambda>n. base @ ''-'' @ show_nat n) [2..<3 + length used]"
  have "distinct ?cs" by (simp add: distinct_map inj_on_def) (blast dest: show_nat_inj)
  then have "card (set ?cs) = Suc (length used)" using distinct_card [of ?cs] by simp
  moreover have "card (set used) \<le> length used" by (rule card_length)
  ultimately have "\<not> set ?cs \<subseteq> set used" using card_mono [of "set used" "set ?cs"] by auto
  then have "free_slug used base \<noteq> None" by (auto simp: free_slug_def find_None_iff)
  then obtain slug where f: "free_slug used base = Some slug" by blast
  then have "slug \<notin> set used \<and> slug \<in> set ?cs" unfolding free_slug_def find_Some_iff by (metis nth_mem)
  with f show ?thesis by auto
qed

lemma fold_slug_step:
  "list_all slug_char (fst st) \<Longrightarrow> list_all slug_char (fst (fold slug_step cs st))"
  by (induction cs arbitrary: st) (auto simp: slug_step_def slug_char_def split: prod.split)

lemma generate_slug_chars: "list_all slug_char (generate_slug name)"
  using fold_slug_step [of "([], True)" "unwrap_start ''@'' name"]
  by (auto simp: generate_slug_def Let_def list_all_iff dest: in_set_butlastD)

lemma slug_ok_suffix: "list_all slug_char base \<Longrightarrow> slug_ok (base @ ''-'' @ show_nat n)"
  using show_nat_digits [of n] by (auto simp: slug_ok_def slug_char_def list_all_iff)

text \<open>What the loop keeps: the slugs given are among those used, no two owners share one, and all are well formed.\<close>

definition slug_inv :: "SlugState \<Rightarrow> bool" where
  "slug_inv st \<longleftrightarrow> inj_on (slugs st) (dom (slugs st)) \<and> ran (slugs st) \<subseteq> set (used_slugs st) \<and> list_all slug_ok (used_slugs st)"

lemma slug_owner_step:
  assumes "slug_inv st"
  shows "slug_inv (slug_owner name st)" and "dom (slugs (slug_owner name st)) = insert name (dom (slugs st))"
proof -
  define base where "base = (if generate_slug name = [] then ''owner-'' @ show_nat (Suc (fallback_counter st)) else generate_slug name)"
  define slug where "slug = (if base \<in> set (used_slugs st)
    then (case free_slug (used_slugs st) base of Some slug \<Rightarrow> slug | None \<Rightarrow> base) else base)"
  have owner: "slugs (slug_owner name st) = (slugs st)(name \<mapsto> slug)" "used_slugs (slug_owner name st) = slug # used_slugs st"
    by (simp_all add: slug_owner_def Let_def slug_def base_def split: option.split)
  have base: "slug_ok base"
    using generate_slug_chars [of name] show_nat_digits [of "Suc (fallback_counter st)"]
    by (auto simp: base_def slug_ok_def slug_char_def is_ascii_alphanumeric_def byte_in_def list_all_iff)
  have slug: "slug \<notin> set (used_slugs st)" "slug_ok slug"
    using free_slug_found [of "used_slugs st" base] base slug_ok_suffix [of base] by (auto simp: slug_def slug_ok_def)
  have "inj_on ((slugs st)(name \<mapsto> slug)) (insert name (dom (slugs st)))"
  proof (rule inj_onI)
    fix a b
    assume "a \<in> insert name (dom (slugs st))" "b \<in> insert name (dom (slugs st))"
      "((slugs st)(name \<mapsto> slug)) a = ((slugs st)(name \<mapsto> slug)) b"
    then show "a = b"
      using assms slug(1) by (auto simp: slug_inv_def inj_on_def ran_def split: if_splits)
  qed
  moreover have "ran ((slugs st)(name \<mapsto> slug)) \<subseteq> insert slug (set (used_slugs st))"
    using assms by (auto simp: slug_inv_def ran_def)
  ultimately show "slug_inv (slug_owner name st)" "dom (slugs (slug_owner name st)) = insert name (dom (slugs st))"
    using assms slug(2) by (simp_all add: slug_inv_def owner dom_fun_upd)
qed

lemma fold_slug_owner:
  "slug_inv st \<Longrightarrow> slug_inv (fold slug_owner names st) \<and> dom (slugs (fold slug_owner names st)) = dom (slugs st) \<union> set names"
  by (induction names arbitrary: st) (auto simp: slug_owner_step)

text \<open>
  Every owner gets a slug, no two owners share one, and a slug is a non-empty text of letters, digits, dashes and
  underscores, so it names a file in the directory of the owners and nowhere else. The search for a free suffix ends.
\<close>

lemma generate_unique_slugs_spec:
  shows "dom (generate_unique_slugs names) = set names"
    and "inj_on (generate_unique_slugs names) (set names)"
    and "slug \<in> ran (generate_unique_slugs names) \<Longrightarrow> slug_ok slug"
proof -
  have "slug_inv \<lparr>slugs = Map.empty, used_slugs = [], fallback_counter = 0\<rparr>" by (simp add: slug_inv_def)
  note spec = fold_slug_owner [OF this, of names]
  then show "dom (generate_unique_slugs names) = set names" "inj_on (generate_unique_slugs names) (set names)"
    and "slug \<in> ran (generate_unique_slugs names) \<Longrightarrow> slug_ok slug"
    by (auto simp: generate_unique_slugs_def slug_inv_def list_all_iff)
qed

end
