(* ===== verification/Report_Pages.thy ===== *)
theory Report_Pages
  imports View_Model
begin

text \<open>
  What the pages of a report show, \<open>report/html.rs\<close>: the status dots and the score of a repository, the drill-down lists
  behind the coverage cards, the orphaned repositories and the teams they are attributed to, the scores of the owners, the
  deleted repositories and teams, and the paths of the pages. The templates themselves are generated by the build and are
  left out, as are explanations that are fixed texts. The maps of the source are iterated in any order and then sorted by
  a key that no two entries share, so sorted lists stand for them.
\<close>

subsection \<open>Controls\<close>

datatype ControlKey =
  SecurityPolicy | SecretScanning | DependabotSecurityUpdates | BranchProtection | NonStale | NonOrphaned | AlertFree
| Codeowners

definition ControlKey_as_str :: "ControlKey \<Rightarrow> string" where
  "ControlKey_as_str k = (case k of
     ControlKey.SecurityPolicy \<Rightarrow> ''security_policy''
   | ControlKey.SecretScanning \<Rightarrow> ''secret_scanning''
   | ControlKey.DependabotSecurityUpdates \<Rightarrow> ''dependabot_security_updates''
   | ControlKey.BranchProtection \<Rightarrow> ''branch_protection''
   | ControlKey.NonStale \<Rightarrow> ''non_stale''
   | ControlKey.NonOrphaned \<Rightarrow> ''non_orphaned''
   | ControlKey.AlertFree \<Rightarrow> ''alert_free''
   | ControlKey.Codeowners \<Rightarrow> ''codeowners'')"

definition ControlKey_drill_down_page :: "ControlKey \<Rightarrow> DrillDownPage option" where
  "ControlKey_drill_down_page k = (case k of
     ControlKey.BranchProtection \<Rightarrow> Some DrillDownPage.BranchProtection
   | ControlKey.Codeowners \<Rightarrow> Some DrillDownPage.Codeowners
   | _ \<Rightarrow> None)"

definition ControlKey_display_name :: "ControlKey \<Rightarrow> string" where
  "ControlKey_display_name k = (case k of
     ControlKey.SecurityPolicy \<Rightarrow> ''Security Policy''
   | ControlKey.SecretScanning \<Rightarrow> ''Secret Scanning''
   | ControlKey.DependabotSecurityUpdates \<Rightarrow> ''Dependabot Status''
   | ControlKey.BranchProtection \<Rightarrow> ''Branch Protection''
   | ControlKey.NonStale \<Rightarrow> ''Lifecycle: Freshness''
   | ControlKey.NonOrphaned \<Rightarrow> ''Ownership''
   | ControlKey.AlertFree \<Rightarrow> ''Alert-Free''
   | ControlKey.Codeowners \<Rightarrow> ''CODEOWNERS'')"

definition OWNERS_OVERVIEW_CONTROLS :: "ControlKey list" where
  "OWNERS_OVERVIEW_CONTROLS = [ControlKey.SecurityPolicy, ControlKey.SecretScanning, ControlKey.DependabotSecurityUpdates,
     ControlKey.BranchProtection, ControlKey.NonStale, ControlKey.NonOrphaned]"

definition REPO_STATUS_DOT_CONTROLS :: "ControlKey list" where
  "REPO_STATUS_DOT_CONTROLS = [ControlKey.SecurityPolicy, ControlKey.SecretScanning, ControlKey.AlertFree,
     ControlKey.DependabotSecurityUpdates, ControlKey.BranchProtection, ControlKey.Codeowners]"

definition SEC_SCORE_MAP_CONTROLS :: "ControlKey list" where
  "SEC_SCORE_MAP_CONTROLS = [ControlKey.SecurityPolicy, ControlKey.SecretScanning, ControlKey.DependabotSecurityUpdates,
     ControlKey.BranchProtection, ControlKey.NonStale, ControlKey.AlertFree]"

text \<open>A drill-down page of a coverage card: its control, its page and its name.\<close>

definition DENOMINATOR_DRILL_DOWNS :: "(CoverageControl \<times> DrillDownPage \<times> string) list" where
  "DENOMINATOR_DRILL_DOWNS =
     [(CoverageControl.SecurityPolicy, DrillDownPage.SecurityPolicy, ControlKey_display_name ControlKey.SecurityPolicy),
      (CoverageControl.SecretScanning, DrillDownPage.SecretScanning, ControlKey_display_name ControlKey.SecretScanning),
      (CoverageControl.Dependabot, DrillDownPage.DependabotStatus, ControlKey_display_name ControlKey.DependabotSecurityUpdates),
      (CoverageControl.Codeowners, DrillDownPage.Codeowners, ControlKey_display_name ControlKey.Codeowners),
      (CoverageControl.BranchProtection, DrillDownPage.BranchProtection, ControlKey_display_name ControlKey.BranchProtection)]"

definition DEFAULT_GITHUB_WEB_BASE_URL :: string where
  "DEFAULT_GITHUB_WEB_BASE_URL = ''https://github.com''"

text \<open>The characters that are encoded in a segment of a path, other than control characters and non-ASCII bytes.\<close>

definition PATH_SEGMENT :: string where
  "PATH_SEGMENT = '' '' @ [CHR 0x22] @ ''#%/<>?['' @ [CHR 0x5C] @ '']^`{|}''"

subsection \<open>Repositories\<close>

datatype DotState = Fail | Partial | Pass | Unknown | Pending | NotApplicable

record StatusDot =
  dot_label :: string
  dot_state :: DotState

definition StatusDot_new :: "DotState \<Rightarrow> string \<Rightarrow> StatusDot" where
  "StatusDot_new st label = \<lparr>dot_label = label, dot_state = st\<rparr>"

definition StatusDot_css_class :: "StatusDot \<Rightarrow> string" where
  "StatusDot_css_class d = (case dot_state d of
     DotState.Fail \<Rightarrow> ''status-fail'' | DotState.Partial \<Rightarrow> ''status-warn'' | DotState.Pass \<Rightarrow> ''status-pass''
   | DotState.Unknown \<Rightarrow> ''status-unknown'' | DotState.Pending \<Rightarrow> ''status-pending'' | DotState.NotApplicable \<Rightarrow> ''status-na'')"

definition StatusDot_sort_key :: "StatusDot \<Rightarrow> string" where
  "StatusDot_sort_key d = (case dot_state d of
     DotState.Fail \<Rightarrow> ''fail'' | DotState.Partial \<Rightarrow> ''partial'' | DotState.Pass \<Rightarrow> ''pass'' | _ \<Rightarrow> ''indeterminate'')"

definition is_pending_repo :: "RepositoryChecks \<Rightarrow> bool" where
  "is_pending_repo c \<longleftrightarrow> RepositoryReadState_from_checks c = RepositoryReadState.Pending"

definition unknown_or_pending_dot :: "bool \<Rightarrow> StatusDot" where
  "unknown_or_pending_dot is_pending =
     (if is_pending then StatusDot_new DotState.Pending ''Pending'' else StatusDot_new DotState.Unknown ''unknown'')"

definition build_status_dots :: "RepositoryChecks \<Rightarrow> StatusDot list" where
  "build_status_dots c =
     (let is_pending = is_pending_repo c;
          policy_dot = (case SecurityPolicyResult_status (security_policy c) of
            SecurityPolicyStatus.Pass \<Rightarrow> StatusDot_new DotState.Pass ''pass''
          | SecurityPolicyStatus.Fail \<Rightarrow> StatusDot_new DotState.Fail ''fail''
          | SecurityPolicyStatus.Unknown \<Rightarrow> unknown_or_pending_dot is_pending
          | SecurityPolicyStatus.NotApplicable \<Rightarrow> StatusDot_new DotState.NotApplicable ''N/A'');
          secret_dot = (case SecretScanningResult_status (secret_scanning c) of
            SecretScanningStatus.Enabled \<Rightarrow> StatusDot_new DotState.Pass ''enabled''
          | SecretScanningStatus.Disabled \<Rightarrow> StatusDot_new DotState.Fail ''disabled''
          | SecretScanningStatus.PermissionDenied \<Rightarrow> StatusDot_new DotState.Unknown ''permission denied''
          | SecretScanningStatus.Unknown \<Rightarrow> unknown_or_pending_dot is_pending);
          alert_dot =
            (if is_pending \<or> SecretScanningResult_status (secret_scanning c) = SecretScanningStatus.Unknown
             then unknown_or_pending_dot is_pending
             else if SecretScanningResult_alerts_observable (secret_scanning c)
             then (case SecretScanningResult_has_open_alerts (secret_scanning c) of
                 Some False \<Rightarrow> StatusDot_new DotState.Pass ''alert-free''
               | Some True \<Rightarrow> StatusDot_new DotState.Fail ''open alerts''
               | None \<Rightarrow> unknown_or_pending_dot is_pending)
             else StatusDot_new DotState.NotApplicable ''N/A'');
          dependabot_dot = (case dependabot_status (dependabot_security_updates c) of
            DependabotStatus.Enabled \<Rightarrow> StatusDot_new DotState.Pass ''enabled''
          | DependabotStatus.Paused \<Rightarrow> StatusDot_new DotState.Partial ''paused''
          | DependabotStatus.Disabled \<Rightarrow> StatusDot_new DotState.Fail ''disabled''
          | DependabotStatus.Unknown \<Rightarrow> unknown_or_pending_dot is_pending);
          branch_dot = (case branch_protection c of
            BranchProtectionResult.Protected _ _ \<Rightarrow> StatusDot_new DotState.Pass ''protected''
          | BranchProtectionResult.Unprotected _ _ _ \<Rightarrow> StatusDot_new DotState.Fail ''unprotected''
          | BranchProtectionResult.Unobservable _ _ _ _ \<Rightarrow> unknown_or_pending_dot is_pending);
          codeowners_dot = (case CodeownersResult_status (codeowners c) of
            CodeownersStatus.Conforming \<Rightarrow> StatusDot_new DotState.Pass ''conforming''
          | CodeownersStatus.NonConforming \<Rightarrow> StatusDot_new DotState.Fail ''non-conforming''
          | CodeownersStatus.Absent \<Rightarrow> StatusDot_new DotState.Fail ''absent''
          | CodeownersStatus.Unknown \<Rightarrow> unknown_or_pending_dot is_pending)
      in [policy_dot, secret_dot, alert_dot, dependabot_dot, branch_dot, codeowners_dot])"

text \<open>The categories of the six controls of a repository, and the loop that counts them.\<close>

definition repo_categories :: "RepositoryChecks \<Rightarrow> ScoreCategory list" where
  "repo_categories c =
     (let alert_free_cat =
            (if SecretScanningResult_alerts_observable (secret_scanning c)
             then (case SecretScanningResult_has_open_alerts (secret_scanning c) of
                 Some False \<Rightarrow> ScoreCategory.Pass
               | Some True \<Rightarrow> ScoreCategory.Fail
               | None \<Rightarrow> ScoreCategory.Excluded ExclusionReason.Unknown)
             else ScoreCategory.Excluded ExclusionReason.NotApplicable)
      in [ScoreCategory_of_policy (security_policy c), ScoreCategory_of_secret_scanning (secret_scanning c), alert_free_cat,
          ScoreCategory_of_dependabot_status (dependabot_status (dependabot_security_updates c)),
          BranchProtectionResult_score_category (branch_protection c), ScoreCategory_of_codeowners (codeowners c)])"

definition count_category :: "ScoreCategory \<Rightarrow> u32 \<times> u32 \<Rightarrow> u32 \<times> u32" where
  "count_category cat st = (case st of (passed, measured) \<Rightarrow> case cat of
     ScoreCategory.Pass \<Rightarrow> (passed + 1, measured + 1)
   | ScoreCategory.Fail \<Rightarrow> (passed, measured + 1)
   | ScoreCategory.Excluded _ \<Rightarrow> (passed, measured))"

definition compute_repo_score ::
    "RepositoryChecks \<Rightarrow> CoverageTiers \<Rightarrow> f64 option \<times> string \<times> CoverageTier \<times> string" where
  "compute_repo_score c tiers = (case fold count_category (repo_categories c) (0, 0) of (passed, measured) \<Rightarrow>
     if measured = 0 then (None, ''N/A'', CoverageTier.Na, ''w-0'')
     else (let score = f64_mul (f64_div (of_nat (unat passed)) (of_nat (unat measured))) 100;
               score_rounded = f64_div (f64_round (f64_mul score 10)) 10
           in (Some score_rounded, fmt_f64_1 score_rounded @ ''%'', CoverageTier_from_rate (Some score_rounded) tiers,
               rate_to_width_class (Some score_rounded))))"

definition build_repo_display :: "RepositoryEvidence \<Rightarrow> string \<Rightarrow> string \<Rightarrow> string \<times> string" where
  "build_repo_display repo org_encoded name_encoded =
     (repo_name (repository repo), DEFAULT_GITHUB_WEB_BASE_URL @ ''/'' @ org_encoded @ ''/'' @ name_encoded)"

definition repo_display :: "ReportPorts \<Rightarrow> string \<Rightarrow> RepositoryEvidence \<Rightarrow> string \<times> string" where
  "repo_display P org repo = build_repo_display repo (vp_percent_encode P PATH_SEGMENT org)
     (vp_percent_encode P PATH_SEGMENT (repo_name (repository repo)))"

subsection \<open>Drill-down pages\<close>

record DenominatorRepoRow =
  dr_repo_name :: string
  dr_repo_url :: string
  dr_visibility :: string
  dr_archived :: bool
  dr_outcome :: ControlOutcome

record UnmeasuredRepoRow =
  ur_repo_name :: string
  ur_repo_url :: string
  ur_visibility :: string
  ur_archived :: bool
  ur_reason_label :: string

record ControlDenominatorViewModel =
  cd_organization :: string
  cd_control_name :: string
  cd_population_description :: string
  cd_page_file_name :: string
  cd_eligible :: "DenominatorRepoRow list"
  cd_unmeasured :: "UnmeasuredRepoRow list"
  cd_numerator :: u32
  cd_denominator :: u32
  cd_coverage_formatted :: string

definition eligible_row :: "ReportPorts \<Rightarrow> string \<Rightarrow> RepositoryEvidence \<Rightarrow> ControlOutcome \<Rightarrow> DenominatorRepoRow" where
  "eligible_row P org repo outcome =
     \<lparr>dr_repo_name = fst (repo_display P org repo), dr_repo_url = snd (repo_display P org repo),
      dr_visibility = Visibility_display (visibility (repository repo)), dr_archived = archived (repository repo),
      dr_outcome = outcome\<rparr>"

definition unmeasured_row :: "ReportPorts \<Rightarrow> string \<Rightarrow> RepositoryEvidence \<Rightarrow> string \<Rightarrow> UnmeasuredRepoRow" where
  "unmeasured_row P org repo label =
     \<lparr>ur_repo_name = fst (repo_display P org repo), ur_repo_url = snd (repo_display P org repo),
      ur_visibility = Visibility_display (visibility (repository repo)), ur_archived = archived (repository repo),
      ur_reason_label = label\<rparr>"

definition build_control_denominator_view_model ::
    "ReportPorts \<Rightarrow> Evidence \<Rightarrow> CoverageControl \<times> DrillDownPage \<times> string \<Rightarrow> ControlDenominatorViewModel" where
  "build_control_denominator_view_model P evidence entry = (case entry of (control, page, name) \<Rightarrow>
     (let org = meta_organization (evidence_assessment_metadata evidence);
          population = control_denominator_population control (evidence_repositories evidence)
      in \<lparr>cd_organization = org, cd_control_name = name,
          cd_population_description = CoverageControl_population_description control,
          cd_page_file_name = DrillDownPage_file_name page,
          cd_eligible = sort_key dr_repo_name (List.map_filter (\<lambda>(repo, membership). case membership of
            DenominatorMembership.Eligible outcome \<Rightarrow> Some (eligible_row P org repo outcome)
          | DenominatorMembership.Excluded _ \<Rightarrow> None) population),
          cd_unmeasured = sort_key ur_repo_name (List.map_filter (\<lambda>(repo, membership). case membership of
            DenominatorMembership.Eligible _ \<Rightarrow> None
          | DenominatorMembership.Excluded reason \<Rightarrow> Some (unmeasured_row P org repo (UnmeasuredReason_label reason))) population),
          cd_numerator = denominator_met_count population, cd_denominator = denominator_repo_count population,
          cd_coverage_formatted = RateMetric_display (CoverageControl_coverage control (evidence_metrics evidence))\<rparr>))"

text \<open>What the alert-free page says of a repository: whether it is met, or the reason it is not measured.\<close>

definition alert_free_verdict :: "RepositoryEvidence \<Rightarrow> string + ControlOutcome" where
  "alert_free_verdict repo =
     (let ss = secret_scanning (checks repo)
      in if SecretScanningResult_status ss = SecretScanningStatus.Enabled \<and> SecretScanningResult_alerts_observable ss
         then (case SecretScanningResult_has_open_alerts ss of
             Some True \<Rightarrow> Inr ControlOutcome.Unmet
           | Some False \<Rightarrow> Inr ControlOutcome.Met
           | None \<Rightarrow> Inl (UnmeasuredReason_label UnmeasuredReason.Unknown))
         else Inl
           (if SecretScanningResult_status_mismatch ss then ''Secret scanning disabled (status mismatch)''
            else if SecretScanningResult_status ss = SecretScanningStatus.Disabled then ''Secret scanning disabled''
            else if SecretScanningResult_status ss = SecretScanningStatus.PermissionDenied then ''Permission denied''
            else if SecretScanningResult_status ss = SecretScanningStatus.Unknown then ''Unknown''
            else if \<not> SecretScanningResult_alerts_observable ss then
              (case SecretScanningResult_failure_reason ss of
                 Some reason \<Rightarrow> if is_permission_reason reason then ''Permission denied'' else ''Alerts unobservable''
               | None \<Rightarrow> ''Alerts unobservable'')
            else ''Not applicable''))"

text \<open>The text of the error of the standard library for a number out of range.\<close>

definition TRY_FROM_INT_ERROR :: string where
  "TRY_FROM_INT_ERROR = ''out of range integral type conversion attempted''"

definition build_alert_free_view_model :: "ReportPorts \<Rightarrow> Evidence \<Rightarrow> string + ControlDenominatorViewModel" where
  "build_alert_free_view_model P evidence =
     (let org = meta_organization (evidence_assessment_metadata evidence);
          active = filter (\<lambda>repo. \<not> archived (repository repo)) (evidence_repositories evidence);
          eligible = sort_key dr_repo_name (List.map_filter (\<lambda>repo. case alert_free_verdict repo of
            Inr outcome \<Rightarrow> Some (eligible_row P org repo outcome) | Inl _ \<Rightarrow> None) active);
          unmeasured = sort_key ur_repo_name (List.map_filter (\<lambda>repo. case alert_free_verdict repo of
            Inr _ \<Rightarrow> None | Inl label \<Rightarrow> Some (unmeasured_row P org repo label)) active);
          met_count = length (filter (\<lambda>r. dr_outcome r = ControlOutcome.Met) eligible);
          total_count = length eligible
      in if 2 ^ 32 \<le> met_count then Inl (''alert-free met count '' @ show_nat met_count @ '' exceeds u32::MAX: '' @ TRY_FROM_INT_ERROR)
         else if 2 ^ 32 \<le> total_count then Inl (''alert-free total count '' @ show_nat total_count @ '' exceeds u32::MAX: '' @ TRY_FROM_INT_ERROR)
         else (let n = of_nat met_count; d = of_nat total_count
               in Inr \<lparr>cd_organization = org, cd_control_name = ''Alert-Free Status'',
                    cd_population_description = ''repositories where secret scanning is enabled and alerts are observable'',
                    cd_page_file_name = DrillDownPage_file_name DrillDownPage.AlertFree,
                    cd_eligible = eligible, cd_unmeasured = unmeasured, cd_numerator = n, cd_denominator = d,
                    cd_coverage_formatted = ratio_text (ratio_rate n d) n d\<rparr>))"

subsection \<open>Orphaned repositories\<close>

definition format_date_prefix :: "ReportPorts \<Rightarrow> string option \<Rightarrow> string" where
  "format_date_prefix P iso_ts = (case Option.bind iso_ts (parse_iso8601 (vp_parse P)) of
     Some dt \<Rightarrow> vp_strftime P ''%Y-%m-%d'' dt
   | None \<Rightarrow> (case iso_ts of
       Some s \<Rightarrow> if 10 \<le> length s \<and> (length s = 10 \<or> \<not> is_continuation_byte (s ! 10)) then take 10 s else EM_DASH
     | None \<Rightarrow> EM_DASH))"

text \<open>The name, the address, the date and whether the account of the last committer is unknown.\<close>

definition extract_last_commit_display :: "ReportPorts \<Rightarrow> RepositoryEvidence \<Rightarrow> string \<times> string \<times> string \<times> bool" where
  "extract_last_commit_display P repo = (case last_commit repo of
     Some info \<Rightarrow>
       (let name = (case committer_name info of Some n \<Rightarrow> n | None \<Rightarrow>
              (case committer_login info of Some l \<Rightarrow> l | None \<Rightarrow> EM_DASH));
            url = (case committer_login info of
              Some l \<Rightarrow> DEFAULT_GITHUB_WEB_BASE_URL @ ''/'' @ vp_percent_encode P PATH_SEGMENT l | None \<Rightarrow> [])
        in (name, url, format_date_prefix P (commit_date info), url = [] \<and> name \<noteq> EM_DASH))
   | None \<Rightarrow> (EM_DASH, [], EM_DASH, False))"

definition is_orphaned :: "RepositoryEvidence \<Rightarrow> bool" where
  "is_orphaned repo = (case CodeownersResult_status (codeowners (checks repo)) of
     CodeownersStatus.Absent \<Rightarrow> True
   | CodeownersStatus.Unknown \<Rightarrow> False
   | _ \<Rightarrow> (case CodeownersResult_parsed (codeowners (checks repo)) of Some p \<Rightarrow> unique_owners p = [] | None \<Rightarrow> False))"

definition attributed_roster :: "string option \<Rightarrow> TeamRoster list \<Rightarrow> TeamRoster option" where
  "attributed_roster login_name rosters = (case login_name of
     None \<Rightarrow> None
   | Some l \<Rightarrow> find (\<lambda>roster. list_ex (\<lambda>m. eq_ignore_ascii_case (login m) l) (members roster)) rosters)"

record OrphanedRepoRow =
  or_repo_name :: string
  or_repo_url :: string
  or_visibility :: string
  or_description :: string
  or_language :: string
  or_is_empty :: bool
  or_last_committer_login :: string
  or_last_committer_url :: string
  or_last_committer_unregistered :: bool
  or_last_commit_date :: string
  or_is_stale :: bool
  or_attributed_team :: "string option"
  or_attributed_team_slug :: "string option"

record OrphanedTeamGroup =
  og_team :: string
  og_team_short :: string
  og_slug :: string
  og_rows :: "OrphanedRepoRow list"

record OrphanedViewModel =
  ov_rows :: "OrphanedRepoRow list"
  ov_organization :: string
  ov_orphaned_count :: u32
  ov_has_stale_repos :: bool
  ov_by_team :: "OrphanedTeamGroup list"

definition orphaned_row ::
    "ReportPorts \<Rightarrow> string \<Rightarrow> string \<Rightarrow> TeamRoster list \<Rightarrow> RepositoryEvidence \<Rightarrow> OrphanedRepoRow" where
  "orphaned_row P org run_time rosters repo =
     (case extract_last_commit_display P repo of (name, url, date, unregistered) \<Rightarrow>
        (let attributed = attributed_roster (Option.bind (last_commit repo) committer_login) rosters
         in \<lparr>or_repo_name = fst (repo_display P org repo), or_repo_url = snd (repo_display P org repo),
             or_visibility = Visibility_display (visibility (repository repo)),
             or_description = (case repo_description (repository repo) of Some d \<Rightarrow> d | None \<Rightarrow> EM_DASH),
             or_language = (case repo_language (repository repo) of Some l \<Rightarrow> l | None \<Rightarrow> EM_DASH),
             or_is_empty = repo_is_empty (repository repo),
             or_last_committer_login = name, or_last_committer_url = url, or_last_committer_unregistered = unregistered,
             or_last_commit_date = date,
             or_is_stale = is_repo_stale (vp_parse P) (map_option UpdatedAt_deref (updated_at (repository repo))) run_time,
             or_attributed_team = map_option canonical_owner attributed,
             or_attributed_team_slug = map_option (\<lambda>r. generate_slug (canonical_owner r)) attributed\<rparr>))"

definition build_orphaned_by_team :: "ReportPorts \<Rightarrow> OrphanedRepoRow list \<Rightarrow> OrphanedTeamGroup list" where
  "build_orphaned_by_team P rows =
     map (\<lambda>team.
       (let team_rows = sort_key (\<lambda>r. vp_lower P (or_repo_name r)) (filter (\<lambda>r. or_attributed_team r = Some team) rows)
        in \<lparr>og_team = team, og_team_short = strip_org_prefix team,
            og_slug = (case team_rows of r # _ \<Rightarrow> (case or_attributed_team_slug r of Some s \<Rightarrow> s | None \<Rightarrow> []) | [] \<Rightarrow> []),
            og_rows = team_rows\<rparr>))
       (sort (remdups (List.map_filter or_attributed_team rows)))"

definition build_orphaned_view_model ::
    "ReportPorts \<Rightarrow> RepositoryEvidence list \<Rightarrow> string \<Rightarrow> string \<Rightarrow> TeamRoster list \<Rightarrow> OrphanedViewModel" where
  "build_orphaned_view_model P repos org run_time rosters =
     (let rows = sort_key (\<lambda>r. (vp_lower P (or_last_committer_login r), vp_lower P (or_repo_name r)))
            (map (orphaned_row P org run_time rosters) (filter (\<lambda>r. \<not> archived (repository r) \<and> is_orphaned r) repos))
      in \<lparr>ov_rows = rows, ov_organization = org, ov_orphaned_count = u32_of_count (length rows),
          ov_has_stale_repos = list_ex or_is_stale rows, ov_by_team = build_orphaned_by_team P rows\<rparr>)"

subsection \<open>Owners\<close>

datatype NonOrphanedControl = Measured RateMetric | Unresolved

definition NonOrphanedControl_measured :: "NonOrphanedControl \<Rightarrow> RateMetric option" where
  "NonOrphanedControl_measured c = (case c of Measured m \<Rightarrow> Some m | Unresolved \<Rightarrow> None)"

definition NonOrphanedControl_rate :: "NonOrphanedControl \<Rightarrow> f64 option" where
  "NonOrphanedControl_rate c = (case c of Measured m \<Rightarrow> rate m | Unresolved \<Rightarrow> None)"

definition owner_roster :: "string \<Rightarrow> TeamRoster list \<Rightarrow> TeamRoster option" where
  "owner_roster name rosters = find (\<lambda>r. eq_ignore_ascii_case (canonical_owner r) name) rosters"

definition owner_orphans :: "string \<Rightarrow> OrphanedTeamGroup list \<Rightarrow> OrphanedRepoRow list" where
  "owner_orphans name groups = (case find (\<lambda>g. eq_ignore_ascii_case (og_team g) name) groups of
     Some g \<Rightarrow> og_rows g | None \<Rightarrow> [])"

definition attribution_ran :: "OwnerMetrics \<Rightarrow> TeamRoster list \<Rightarrow> bool" where
  "attribution_ran m rosters \<longleftrightarrow> owner_type m = OwnerType.User \<or>
     map_option roster_status (owner_roster (owner m) rosters) = Some TeamRosterStatus.Complete"

definition attribute_all ::
    "OwnerMetrics list \<Rightarrow> OrphanedTeamGroup list \<Rightarrow> TeamRoster list \<Rightarrow> (OwnerMetrics \<times> NonOrphanedControl) list" where
  "attribute_all ms groups rosters = map (\<lambda>m. (m,
     if attribution_ran m rosters
     then Measured (RateMetric_new (owner_total_repos m)
       (saturating_add (owner_total_repos m) (u32_of_count (length (owner_orphans (owner m) groups)))))
     else Unresolved)) ms"

definition control_key_to_check_kind :: "string \<Rightarrow> CollectionHealthCheckKind option" where
  "control_key_to_check_kind key =
     (if key = ''security_policy'' then Some CollectionHealthCheckKind.SecurityPolicy
      else if key = ''secret_scanning'' then Some CollectionHealthCheckKind.SecretScanning
      else if key = ''dependabot_security_updates'' then Some CollectionHealthCheckKind.Dependabot
      else if key = ''branch_protection'' then Some CollectionHealthCheckKind.BranchProtection
      else if key = ''codeowners'' then Some CollectionHealthCheckKind.Codeowners
      else None)"

definition control_cell ::
    "RateMetric option \<Rightarrow> ScoreExclusionCount list \<Rightarrow> string \<Rightarrow> CoverageTiers \<Rightarrow> ControlCell" where
  "control_cell metric counts key tiers =
     ControlCell_from_rate metric tiers
       (if key = ControlKey_as_str ControlKey.AlertFree
        then ControlExclusion_unmeasured (case Option.bind metric (\<lambda>m. extra m ''unobservable'') of Some v \<Rightarrow> v | None \<Rightarrow> 0)
        else (case control_key_to_check_kind key of
            None \<Rightarrow> ControlExclusion_empty | Some kind \<Rightarrow> format_exclusion kind counts))"

definition build_control_cell ::
    "(string \<rightharpoonup> RateMetric) \<Rightarrow> ScoreExclusionCount list \<Rightarrow> string \<Rightarrow> CoverageTiers \<Rightarrow> ControlCell" where
  "build_control_cell coverage counts key tiers = control_cell (coverage key) counts key tiers"

definition required_control_cell ::
    "NonOrphanedControl \<Rightarrow> ScoreExclusionCount list \<Rightarrow> string \<Rightarrow> CoverageTiers \<Rightarrow> ControlCell" where
  "required_control_cell c counts key tiers = control_cell (NonOrphanedControl_measured c) counts key tiers"

definition compute_owner_sec_score ::
    "ReportPorts \<Rightarrow> OwnerMetrics \<Rightarrow> NonOrphanedControl \<Rightarrow> CoverageTiers \<Rightarrow> f64 option \<times> string \<times> CoverageTier \<times> string" where
  "compute_owner_sec_score P m non_orphaned tiers =
     (let sec_rates = map (\<lambda>key. Option.bind (per_control_coverage m (ControlKey_as_str key)) rate) SEC_SCORE_MAP_CONTROLS @
            [NonOrphanedControl_rate non_orphaned];
          sec_score = compute_health_score P sec_rates
      in (sec_score, case sec_score of Some s \<Rightarrow> fmt_f64_1 s @ ''%'' | None \<Rightarrow> ''N/A'', CoverageTier_from_rate sec_score tiers,
          rate_to_width_class sec_score))"

record OwnerOverviewRow =
  row_owner :: string
  row_owner_short :: string
  row_slug :: string
  row_owner_type :: OwnerType
  row_repo_count :: u32
  row_controls :: "ControlCell list"
  row_sec_score :: "f64 option"
  row_sec_score_formatted :: string
  row_sec_score_table_formatted :: string
  row_sec_score_tier :: CoverageTier
  row_sec_score_width_class :: string

definition owner_slugs :: "(OwnerMetrics \<times> NonOrphanedControl) list \<Rightarrow> (string \<rightharpoonup> string)" where
  "owner_slugs attributed = generate_unique_slugs (map (display_name \<circ> fst) attributed)"

definition owner_overview_row ::
    "ReportPorts \<Rightarrow> CoverageTiers \<Rightarrow> (string \<rightharpoonup> string) \<Rightarrow> OwnerMetrics \<times> NonOrphanedControl \<Rightarrow> OwnerOverviewRow" where
  "owner_overview_row P tiers owner_slug o' = (case o' of (m, non_orphaned) \<Rightarrow>
     (case compute_owner_sec_score P m non_orphaned tiers of (score, formatted, tier, width) \<Rightarrow>
        \<lparr>row_owner = display_name m, row_owner_short = strip_org_prefix (display_name m),
         row_slug = (case owner_slug (display_name m) of Some s \<Rightarrow> s | None \<Rightarrow> ''unknown''),
         row_owner_type = owner_type m, row_repo_count = owner_total_repos m,
         row_controls = map (\<lambda>key.
           if key = ControlKey.NonOrphaned
           then required_control_cell non_orphaned (owner_score_exclusion_counts m) (ControlKey_as_str key) tiers
           else build_control_cell (per_control_coverage m) (owner_score_exclusion_counts m) (ControlKey_as_str key) tiers)
           OWNERS_OVERVIEW_CONTROLS,
         row_sec_score = score, row_sec_score_formatted = formatted,
         row_sec_score_table_formatted = (case score of Some s \<Rightarrow> fmt_f64_0 s @ ''%'' | None \<Rightarrow> ''N/A''),
         row_sec_score_tier = tier, row_sec_score_width_class = width\<rparr>))"

definition build_owners_view_model ::
    "ReportPorts \<Rightarrow> (OwnerMetrics \<times> NonOrphanedControl) list \<Rightarrow> CoverageTiers \<Rightarrow> OwnerOverviewRow list option" where
  "build_owners_view_model P attributed tiers =
     (if attributed = [] then None else Some (map (owner_overview_row P tiers (owner_slugs attributed)) attributed))"

definition count_ascended_teams :: "OwnerOverviewRow list \<Rightarrow> nat" where
  "count_ascended_teams rows = length (filter (\<lambda>r. row_owner_type r = OwnerType.Team \<and> row_sec_score r = Some 100) rows)"

definition ranked_teams :: "OwnerOverviewRow list \<Rightarrow> OwnerOverviewRow list" where
  "ranked_teams rows = sort_key (\<lambda>r. - (case row_sec_score r of Some s \<Rightarrow> s | None \<Rightarrow> 0))
     (filter (\<lambda>r. row_owner_type r = OwnerType.Team \<and> (case row_sec_score r of Some s \<Rightarrow> s < 100 | None \<Rightarrow> False)) rows)"

text \<open>The podium: silver, gold and bronze, as far as there are teams; each with the class of its rank.\<close>

definition build_top_security_teams :: "OwnerOverviewRow list \<Rightarrow> (OwnerOverviewRow \<times> string) list" where
  "build_top_security_teams rows = (case take 3 (ranked_teams rows) of
     [] \<Rightarrow> []
   | [a] \<Rightarrow> [(a, ''rank-gold'')]
   | [a, b] \<Rightarrow> [(b, ''rank-silver''), (a, ''rank-gold'')]
   | a # b # c # _ \<Rightarrow> [(b, ''rank-silver''), (a, ''rank-gold''), (c, ''rank-bronze'')])"

subsection \<open>Deleted repositories and teams\<close>

definition build_owner_github_url :: "ReportPorts \<Rightarrow> OwnerType \<Rightarrow> string \<Rightarrow> string \<Rightarrow> string option" where
  "build_owner_github_url P ty canonical org_encoded = (case ty of
     OwnerType.Team \<Rightarrow> map_option (\<lambda>slug. DEFAULT_GITHUB_WEB_BASE_URL @ ''/orgs/'' @ org_encoded @ ''/teams/'' @
       vp_percent_encode P PATH_SEGMENT slug) (team_slug_from_canonical_owner canonical)
   | OwnerType.User \<Rightarrow> (case strip_start ''@'' canonical of
       None \<Rightarrow> None
     | Some l \<Rightarrow> then_some (l \<noteq> []) (DEFAULT_GITHUB_WEB_BASE_URL @ ''/'' @ vp_percent_encode P PATH_SEGMENT l))
   | OwnerType.AmbiguousTeamShaped \<Rightarrow> None)"

text \<open>A ghost team: its slug, its address and the repositories that refer to it; a wildcard owner: its name and those.\<close>

definition referencing_repos :: "ReportPorts \<Rightarrow> RepositoryEvidence list \<Rightarrow> string list" where
  "referencing_repos P repos = sort_key (vp_lower P) (map (\<lambda>r. repo_name (repository r)) repos)"

definition ghost_team_rows ::
    "ReportPorts \<Rightarrow> string \<Rightarrow> RepositoryEvidence list \<Rightarrow> TeamRoster list \<Rightarrow> (string \<times> string \<times> string list) list" where
  "ghost_team_rows P org repos rosters =
     (let owner_map = build_owner_repo_map (vp_lower P) repos; org_encoded = vp_percent_encode P PATH_SEGMENT org
      in sort_key (\<lambda>row. vp_lower P (fst row)) (List.map_filter (\<lambda>roster.
           if roster_status roster = TeamRosterStatus.Deleted
           then map_option (\<lambda>(_, referring). (team_slug roster,
               case build_owner_github_url P OwnerType.Team (canonical_owner roster) org_encoded of Some u \<Rightarrow> u | None \<Rightarrow> [],
               referencing_repos P referring))
             (map_of owner_map (vp_lower P (canonical_owner roster)))
           else None) rosters))"

definition wildcard_owner_rows :: "ReportPorts \<Rightarrow> RepositoryEvidence list \<Rightarrow> (string \<times> string list) list" where
  "wildcard_owner_rows P repos = sort_key (\<lambda>row. vp_lower P (fst row))
     (map (\<lambda>(_, name, referring). (name, referencing_repos P referring))
       (filter (\<lambda>(canonical, _). is_wildcard_owner canonical) (build_owner_repo_map (vp_lower P) repos)))"

record DeletedViewModel =
  dv_rows :: "(string \<times> string) list"
  dv_organization :: string
  dv_deleted_count :: u32
  dv_ghost_teams :: "(string \<times> string \<times> string list) list"
  dv_wildcard_owners :: "(string \<times> string list) list"

definition build_deleted_view_model ::
    "ReportPorts \<Rightarrow> DeletedRepoRecord list \<Rightarrow> string \<Rightarrow> RepositoryEvidence list \<Rightarrow> TeamRoster list \<Rightarrow> DeletedViewModel" where
  "build_deleted_view_model P gone org repos rosters =
     (let rows = sort_key (\<lambda>row. vp_lower P (fst row)) (map (\<lambda>r. (deleted_repo_name r, detected_at r)) gone)
      in \<lparr>dv_rows = rows, dv_organization = org, dv_deleted_count = u32_of_count (length rows),
          dv_ghost_teams = ghost_team_rows P org repos rosters, dv_wildcard_owners = wildcard_owner_rows P repos\<rparr>)"

definition DeletedViewModel_has_owner_anomalies :: "DeletedViewModel \<Rightarrow> bool" where
  "DeletedViewModel_has_owner_anomalies v \<longleftrightarrow> dv_ghost_teams v \<noteq> [] \<or> dv_wildcard_owners v \<noteq> []"

subsection \<open>Pages\<close>

text \<open>The paths under which the pages of a report reach the sink, in order, when no template fails.\<close>

definition owner_page_paths :: "(OwnerMetrics \<times> NonOrphanedControl) list \<Rightarrow> string list" where
  "owner_page_paths attributed =
     map (\<lambda>slug. ''owners/'' @ slug @ ''.html'')
       (List.map_filter (\<lambda>o'. owner_slugs attributed (display_name (fst o'))) attributed)"

definition sink_static_assets :: "string list" where
  "sink_static_assets =
     [''style.css'', ''ws.js'', ''favicon.svg'', ''gh-report-web-client.js'', ''gh-report-web-client_bg.wasm'', ''sort-init.js'']"

definition render_owner_pages :: "(OwnerMetrics \<times> NonOrphanedControl) list \<Rightarrow> string list" where
  "render_owner_pages attributed = ''owners.html'' # owner_page_paths attributed"

definition render_denominator_pages :: "string list" where
  "render_denominator_pages = map (\<lambda>(_, page, _). DrillDownPage_file_name page) DENOMINATOR_DRILL_DOWNS"

text \<open>The paths that reached the sink, and the error that stopped the rendering, if one did.\<close>

definition render_secondary_pages :: "ReportPorts \<Rightarrow> Evidence \<Rightarrow> string list \<times> string option" where
  "render_secondary_pages P evidence =
     (let before = [''orphans.html'', ''deleted.html''] @ render_denominator_pages
      in case build_alert_free_view_model P evidence of
           Inl e \<Rightarrow> (before, Some e)
         | Inr _ \<Rightarrow> (before @ [DrillDownPage_file_name DrillDownPage.AlertFree,
             DrillDownPage_file_name DrillDownPage.LifecycleRetirement], None))"

definition orphaned_of :: "ReportPorts \<Rightarrow> Evidence \<Rightarrow> OrphanedViewModel" where
  "orphaned_of P evidence = build_orphaned_view_model P (evidence_repositories evidence)
     (meta_organization (evidence_assessment_metadata evidence)) (run_timestamp (evidence_assessment_metadata evidence))
     (team_rosters (evidence_metrics evidence))"

definition attributed_owners :: "ReportPorts \<Rightarrow> Evidence \<Rightarrow> (OwnerMetrics \<times> NonOrphanedControl) list" where
  "attributed_owners P evidence = attribute_all (owner_metrics (evidence_metrics evidence))
     (ov_by_team (orphaned_of P evidence)) (team_rosters (evidence_metrics evidence))"

definition render_publication_streaming :: "ReportPorts \<Rightarrow> CoverageTiers \<Rightarrow> Evidence \<Rightarrow> string list \<times> string option" where
  "render_publication_streaming P tiers evidence =
     (let attributed = attributed_owners P evidence;
          owner_pages = (case build_owners_view_model P attributed tiers of
            None \<Rightarrow> [] | Some _ \<Rightarrow> render_owner_pages attributed)
      in case render_secondary_pages P evidence of (secondary, err) \<Rightarrow>
           ([''report.html'', ''index.html'', ''admin.html''] @ sink_static_assets @ owner_pages @ secondary, err))"

text \<open>The addresses of the links to owners on the overview, and to teams on the page of the orphans (\<open>templates/orphans.html\<close>).\<close>

definition owner_page_link :: "OwnerOverviewRow \<Rightarrow> string" where
  "owner_page_link row = ''owners/'' @ row_slug row @ ''.html''"

definition team_page_link :: "OrphanedTeamGroup \<Rightarrow> string" where
  "team_page_link g = ''owners/'' @ og_slug g @ ''.html''"

end
