(* ===== verification/Report_Laws.thy ===== *)
theory Report_Laws
  imports Report_Pages
begin

text \<open>
  What the pages of a report promise: the dots of a repository explain its score, the alert-free page repeats the card,
  no page overwrites another and the overview links to pages that exist; the links of the orphan page need not.
\<close>

subsection \<open>Dots and scores\<close>

definition dot_agrees :: "ScoreCategory \<Rightarrow> StatusDot \<Rightarrow> bool" where
  "dot_agrees cat d \<longleftrightarrow>
     (dot_state d = DotState.Pass \<longleftrightarrow> cat = ScoreCategory.Pass) \<and>
     (dot_state d \<in> {DotState.Fail, DotState.Partial} \<longleftrightarrow> cat = ScoreCategory.Fail)"

lemma dot_state_simps [simp]:
  "dot_state (StatusDot_new st label) = st"
  "dot_state (unknown_or_pending_dot b) = (if b then DotState.Pending else DotState.Unknown)"
  by (simp_all add: unknown_or_pending_dot_def StatusDot_new_def)

lemma pending_not_enabled:
  assumes "is_pending_repo c"
  shows "SecretScanningResult_status (secret_scanning c) \<noteq> SecretScanningStatus.Enabled"
proof
  assume "SecretScanningResult_status (secret_scanning c) = SecretScanningStatus.Enabled"
  then have "RepositoryReadState_from_checks c = RepositoryReadState.Observed"
    unfolding read_state_Observed_iff observed_timestamps_exist by simp
  with assms show False by (simp add: is_pending_repo_def)
qed

lemma open_alerts_scanned:
  assumes "SecretScanningResult_has_open_alerts (secret_scanning c) = Some b"
  shows "SecretScanningResult_status (secret_scanning c) = SecretScanningStatus.Enabled" "\<not> is_pending_repo c"
  using has_open_alerts_enabled [OF assms] pending_not_enabled [of c] by auto

lemma dots_agree: "list_all2 dot_agrees (repo_categories c) (build_status_dots c)"
proof -
  show ?thesis
    unfolding build_status_dots_def repo_categories_def Let_def list_all2_Cons list_all2_Nil
  proof (intro conjI TrueI)
  qed (auto simp: dot_agrees_def status_simps SecretScanningResult_alerts_observable_def open_alerts_scanned
      split: SecurityPolicyStatus.split SecretScanningStatus.split DependabotStatus.split BranchProtectionResult.split
        CodeownersStatus.split option.split bool.split)
qed

lemma fold_count_category:
  "list_all2 dot_agrees cats dots \<Longrightarrow> fold count_category cats (p, m) =
     (p + of_nat (length (filter (\<lambda>d. dot_state d = DotState.Pass) dots)),
      m + of_nat (length (filter (\<lambda>d. dot_state d \<in> {DotState.Pass, DotState.Fail, DotState.Partial}) dots)))"
proof (induction cats dots arbitrary: p m rule: list_all2_induct)
  case (Cons cat cats d dots)
  then show ?case
    by (cases cat) (auto simp: count_category_def dot_agrees_def algebra_simps)
qed simp

text \<open>The score multiplies by 100 and by 10, a rate by 1000; with at most six controls the results are the same.\<close>

lemma two_53: "(2 :: rat) ^ 53 = 9007199254740992" and two_40: "(2 :: rat) ^ 40 = 1099511627776"
  by simp_all

lemma score_error:
  fixes q :: rat
  assumes "0 \<le> q" and "q \<le> 1"
  shows "\<bar>f64_mul (f64_mul (f64_nearest q) 100) 10 - 1000 * q\<bar> \<le> 1 / 2 ^ 40"
proof -
  define a where "a = f64_nearest q"
  define b where "b = f64_nearest (a * 100)"
  define c where "c = f64_nearest (b * 10)"
  have nearest: "x - x / 9007199254740992 \<le> f64_nearest x" "f64_nearest x \<le> x + x / 9007199254740992" if "0 \<le> x" for x
    using f64_nearest_error [OF that, unfolded abs_le_iff two_53] by linarith+
  note a = nearest [OF assms(1), folded a_def]
  have a_pos: "0 \<le> a" using a assms by linarith
  have a_le: "a \<le> 2" using a assms by linarith
  have "0 \<le> a * 100" using a_pos by simp
  note b = nearest [OF this, folded b_def]
  have b_pos: "0 \<le> b" using b a_pos by linarith
  have b_le: "b \<le> 400" using b a_le by linarith
  have "0 \<le> b * 10" using b_pos by simp
  note c = nearest [OF this, folded c_def]
  have "c - 1000 * q \<le> 1 / 1099511627776" using a b c a_le b_le assms by linarith
  moreover have "1000 * q - c \<le> 1 / 1099511627776" using a b c a_le b_le assms by linarith
  ultimately have "\<bar>c - 1000 * q\<bar> \<le> 1 / 1099511627776" by linarith
  then show ?thesis by (simp only: two_40 f64_mul_def a_def b_def c_def)
qed

lemma near_tenth:
  assumes "p \<le> m" "1 \<le> m" "m \<le> (6 :: nat)"
  shows "\<exists>t :: int. \<bar>1000 * (of_nat p / of_nat m) - of_int t\<bar> \<le> (1 / 3 :: rat)"
proof -
  have m: "m = 1 \<or> m = 2 \<or> m = 3 \<or> m = 4 \<or> m = 5 \<or> m = 6" using assms by arith
  have p: "p = 0 \<or> p = 1 \<or> p = 2 \<or> p = 3 \<or> p = 4 \<or> p = 5 \<or> p = 6" using assms by arith
  from m p assms(1) show ?thesis
    by (intro exI [of _ "(1000 * int p + int m div 2) div int m"]) (elim disjE; simp)
qed

lemma floor_near:
  fixes x y :: rat
  assumes "\<bar>x - y\<bar> \<le> 1 / 2 ^ 40" "\<bar>y - of_int t\<bar> \<le> 1 / 3"
  shows "\<lfloor>x + 1 / 2\<rfloor> = t"
proof -
  note xy = assms(1) [unfolded abs_le_iff two_40] and yt = assms(2) [unfolded abs_le_iff]
  have "of_int t \<le> x + 1 / 2" using xy yt by linarith
  moreover have "x + 1 / 2 < of_int t + 1" using xy yt by linarith
  ultimately show ?thesis by (simp add: floor_eq_iff)
qed

lemma small_score:
  assumes "p \<le> m" "1 \<le> m" "m \<le> 6"
  shows "f64_div (f64_round (f64_mul (f64_mul (f64_div (of_nat p) (of_nat m)) 100) 10)) 10 = rate_percent p m"
proof -
  let ?q = "of_nat p / of_nat m :: rat"
  have q: "0 \<le> ?q" "?q \<le> 1" using assms by simp_all
  obtain t :: int where t: "\<bar>1000 * ?q - of_int t\<bar> \<le> 1 / 3" using near_tenth [OF assms] by blast
  have "\<lfloor>f64_mul (f64_mul (f64_nearest ?q) 100) 10 + 1 / 2\<rfloor> = t" by (rule floor_near [OF score_error [OF q] t])
  moreover have "\<lfloor>f64_mul (f64_nearest ?q) 1000 + 1 / 2\<rfloor> = t" by (rule floor_near [OF scaled_error [OF q] t])
  ultimately show ?thesis by (simp add: rate_percent_def f64_round_def f64_div_def)
qed

lemma no_rate: "CoverageTier_from_rate None tiers = CoverageTier.Na" "rate_to_width_class None = ''w-0''"
  by (simp_all add: CoverageTier_from_rate_def rate_to_width_class_def)

lemma length_build_status_dots: "length (build_status_dots c) = 6"
  by (simp add: build_status_dots_def Let_def)

text \<open>
  C40. The dots explain the score. A repository shows one dot for each of its six controls; its score is the percentage, to
  one decimal, of the dots that are green among those that are green, red or amber, exactly as rates are computed
  elsewhere, and there is no score if none of the controls was measured. So a grey dot never moves the score.
\<close>

theorem dots_explain_score:
  "let dots = build_status_dots c;
       passed = length (filter (\<lambda>d. dot_state d = DotState.Pass) dots);
       measured = length (filter (\<lambda>d. dot_state d \<in> {DotState.Pass, DotState.Fail, DotState.Partial}) dots);
       coverage = RateMetric_new (of_nat passed) (of_nat measured)
   in length dots = length REPO_STATUS_DOT_CONTROLS \<and>
      compute_repo_score c tiers =
        (rate coverage, case rate coverage of None \<Rightarrow> ''N/A'' | Some s \<Rightarrow> fmt_f64_1 s @ ''%'',
         CoverageTier_from_rate (rate coverage) tiers, rate_to_width_class (rate coverage))"
proof -
  define passed where "passed = length (filter (\<lambda>d. dot_state d = DotState.Pass) (build_status_dots c))"
  define measured where "measured =
    length (filter (\<lambda>d. dot_state d \<in> {DotState.Pass, DotState.Fail, DotState.Partial}) (build_status_dots c))"
  let ?cov = "RateMetric_new (of_nat passed) (of_nat measured)"
  have le: "passed \<le> measured" "measured \<le> 6"
    using length_filter_le [of _ "build_status_dots c"] length_build_status_dots [of c]
    unfolding passed_def measured_def by (auto intro: length_filter_le_imp)
  have unat: "unat (of_nat passed :: u32) = passed" "unat (of_nat measured :: u32) = measured"
    using le by (simp_all add: unat_of_nat)
  have zero: "(of_nat measured :: u32) = 0 \<longleftrightarrow> measured = 0"
    by (simp only: unat_eq_zero [symmetric] unat)
  have counts: "fold count_category (repo_categories c) (0, 0) = (of_nat passed, of_nat measured)"
    using fold_count_category [OF dots_agree, of c 0 0] by (simp add: passed_def measured_def)
  have "compute_repo_score c tiers = (rate ?cov, case rate ?cov of None \<Rightarrow> ''N/A'' | Some s \<Rightarrow> fmt_f64_1 s @ ''%'',
     CoverageTier_from_rate (rate ?cov) tiers, rate_to_width_class (rate ?cov))"
  proof (cases "measured = 0")
    case True
    then show ?thesis by (simp add: counts compute_repo_score_def RateMetric_new_rate no_rate)
  next
    case False
    then have pos: "(of_nat measured :: u32) \<noteq> 0" "0 < (of_nat measured :: u32)" "1 \<le> measured"
      using zero by (simp_all add: u32_pos_iff unat)
    show ?thesis
      by (simp only: counts compute_repo_score_def RateMetric_new_rate prod.case pos if_True if_False Let_def unat
          small_score [OF le(1) pos(3) le(2)] option.case)
  qed
  then show ?thesis
    unfolding Let_def passed_def [symmetric] measured_def [symmetric]
    by (simp add: length_build_status_dots REPO_STATUS_DOT_CONTROLS_def)
qed

subsection \<open>Alerts\<close>

lemma alert_free_outcome:
  "(case alert_free_verdict r of Inr outcome \<Rightarrow> Some (f outcome) | Inl _ \<Rightarrow> None) =
     map_option (\<lambda>open_alerts. f (if open_alerts then ControlOutcome.Unmet else ControlOutcome.Met))
       (SecretScanningResult_has_open_alerts (secret_scanning (checks r)))"
  using has_open_alerts_enabled [of "secret_scanning (checks r)"]
  by (auto simp: alert_free_verdict_def Let_def SecretScanningResult_alerts_observable_def split: option.splits bool.splits)

lemma alert_free_unmeasured:
  "(case alert_free_verdict r of Inr _ \<Rightarrow> None | Inl label \<Rightarrow> Some (g label)) = None \<longleftrightarrow>
     SecretScanningResult_has_open_alerts (secret_scanning (checks r)) \<noteq> None"
  using alert_free_outcome [of id r]
  by (cases "alert_free_verdict r"; cases "SecretScanningResult_has_open_alerts (secret_scanning (checks r))") simp_all

lemma length_map_filter: "length (List.map_filter f xs) = length (filter (\<lambda>x. f x \<noteq> None) xs)"
  by (induction xs) (auto simp: List.map_filter_simps split: option.split)

lemma length_filter_map_filter:
  "length (filter P (List.map_filter f xs)) = length (filter (\<lambda>x. case f x of None \<Rightarrow> False | Some y \<Rightarrow> P y) xs)"
  by (induction xs) (auto simp: List.map_filter_simps split: option.split)

lemma alerts_observed_eq:
  "alerts_observed = (\<lambda>r. SecretScanningResult_has_open_alerts (secret_scanning (checks r)) \<noteq> None)"
  by (rule ext) (auto simp: alerts_observed_def SecretScanningResult_alerts_observable_def dest: has_open_alerts_enabled)

lemma u32_of_count_exact: "n < 2 ^ 32 \<Longrightarrow> u32_of_count n = of_nat n"
  by (simp add: u32_of_count_def)

lemma active_alert_counts:
  "secret_alert_counts (aggregate_metrics lower rs) = count_secret_alert_observability (active_repos rs)"
  "denominator (open_secret_alert_prevalence (aggregate_metrics lower rs)) = count_alert_observable_enabled (active_repos rs)"
  unfolding aggregate_coverages
  by (simp_all add: aggregate_metrics_def open_secret_alert_prevalence_of_def Let_def inputs_of_simps)

lemma open_or_not:
  "length (filter (\<lambda>r. f r = Some False) rs) + length (filter (\<lambda>r. f r = Some True) rs) = length (filter (\<lambda>r. f r \<noteq> None) rs)"
proof (induction rs)
  case (Cons r rs)
  then show ?case by (cases "f r") (auto split: bool.splits)
qed simp

text \<open>The repositories whose alerts were observed, and those of them that have none.\<close>

abbreviation open_alerts :: "RepositoryEvidence \<Rightarrow> bool option" where
  "open_alerts r \<equiv> SecretScanningResult_has_open_alerts (secret_scanning (checks r))"

definition alerts_seen :: "Evidence \<Rightarrow> nat" where
  "alerts_seen ev = length (filter (\<lambda>r. open_alerts r \<noteq> None) (active_repos (evidence_repositories ev)))"

definition alerts_none :: "Evidence \<Rightarrow> nat" where
  "alerts_none ev = length (filter (\<lambda>r. open_alerts r = Some False) (active_repos (evidence_repositories ev)))"

lemma alerts_bounds:
  "alerts_none ev \<le> alerts_seen ev" "alerts_seen ev \<le> length (active_repos (evidence_repositories ev))"
  "length (active_repos (evidence_repositories ev)) \<le> length (evidence_repositories ev)"
  by (auto simp: alerts_none_def alerts_seen_def intro!: length_filter_le_imp)

lemma alert_free_card:
  assumes "secret_alert_counts (evidence_metrics ev) = secret_alert_counts (aggregate_metrics lower (evidence_repositories ev))"
    and "open_secret_alert_prevalence (evidence_metrics ev) =
      open_secret_alert_prevalence (aggregate_metrics lower (evidence_repositories ev))"
    and "length (evidence_repositories ev) < 2 ^ 32"
  defines "n \<equiv> of_nat (alerts_none ev)" and "d \<equiv> of_nat (alerts_seen ev)"
  shows "fst (snd (snd (compute_alert_free_coverage ev tiers))) = ratio_text (ratio_rate n d) n d"
proof -
  have small: "alerts_none ev < 2 ^ 32" "alerts_seen ev < 2 ^ 32" using alerts_bounds [of ev] assms(3) by linarith+
  have "repos_without_open_alerts (secret_alert_counts (evidence_metrics ev)) = n"
    "max (saturating_add n (repos_with_open_alerts (secret_alert_counts (evidence_metrics ev))))
      (denominator (open_secret_alert_prevalence (evidence_metrics ev))) = d"
    unfolding assms(1,2) active_alert_counts n_def d_def u32_of_count_exact [OF small(1), symmetric]
      u32_of_count_exact [OF small(2), symmetric]
    by (simp_all only: count_defs bucket_folds alerts_none_def alerts_seen_def saturating_add_u32_of_count open_or_not
        count_alert_observable_enabled_def count_as_u32_def alerts_observed_eq max.idem)
  then show ?thesis by (simp add: compute_alert_free_coverage_def Let_def)
qed

lemma alert_free_rows:
  fixes P org ev
  defines "eligible \<equiv> List.map_filter (\<lambda>repo. case alert_free_verdict repo of
      Inr outcome \<Rightarrow> Some (eligible_row P org repo outcome) | Inl _ \<Rightarrow> None) (active_repos (evidence_repositories ev))"
    and "unmeasured \<equiv> List.map_filter (\<lambda>repo. case alert_free_verdict repo of
      Inr _ \<Rightarrow> None | Inl label \<Rightarrow> Some (unmeasured_row P org repo label)) (active_repos (evidence_repositories ev))"
  shows "length eligible = alerts_seen ev"
    and "length (filter (\<lambda>r. dr_outcome r = ControlOutcome.Met) eligible) = alerts_none ev"
    and "alerts_seen ev + length unmeasured = length (active_repos (evidence_repositories ev))"
proof -
  show "length eligible = alerts_seen ev"
    by (simp add: eligible_def length_map_filter alert_free_outcome alerts_seen_def)
  show "length (filter (\<lambda>r. dr_outcome r = ControlOutcome.Met) eligible) = alerts_none ev"
    unfolding eligible_def length_filter_map_filter alert_free_outcome alerts_none_def
    by (rule arg_cong [where f = length], rule filter_cong) (auto simp: eligible_row_def split: option.split)
  show "alerts_seen ev + length unmeasured = length (active_repos (evidence_repositories ev))"
    using sum_length_filter_compl [of "\<lambda>r. open_alerts r \<noteq> None" "active_repos (evidence_repositories ev)"]
    by (simp only: unmeasured_def length_map_filter alert_free_unmeasured alerts_seen_def)
qed

text \<open>
  The page behind the alert-free card repeats the card. When the counts of the metrics are those of the aggregation of
  the same repositories, the page is built without an error, it shows the same text as the card, its numbers are those of
  the rows it lists, and every repository that is not archived is in one of its two lists.
\<close>

theorem alert_free_page_repeats_card:
  assumes "secret_alert_counts (evidence_metrics ev) = secret_alert_counts (aggregate_metrics lower (evidence_repositories ev))"
    and "open_secret_alert_prevalence (evidence_metrics ev) =
      open_secret_alert_prevalence (aggregate_metrics lower (evidence_repositories ev))"
    and "length (evidence_repositories ev) < 2 ^ 32"
  shows "\<exists>v. build_alert_free_view_model P ev = Inr v \<and>
    fst (snd (snd (compute_alert_free_coverage ev tiers))) = cd_coverage_formatted v \<and>
    unat (cd_numerator v) = length (filter (\<lambda>r. dr_outcome r = ControlOutcome.Met) (cd_eligible v)) \<and>
    unat (cd_denominator v) = length (cd_eligible v) \<and>
    length (cd_eligible v) + length (cd_unmeasured v) =
      length (filter (\<lambda>r. \<not> archived (repository r)) (evidence_repositories ev))"
proof -
  have small: "alerts_none ev < 2 ^ 32" "alerts_seen ev < 2 ^ 32" using alerts_bounds [of ev] assms(3) by linarith+
  note rows = alert_free_rows [where P = P and org = "meta_organization (evidence_assessment_metadata ev)" and ev = ev]
  show ?thesis
    unfolding alert_free_card [OF assms, of tiers] build_alert_free_view_model_def Let_def filter_sort length_sort rows(1,2)
    using small rows by (simp add: filter_sort unat_of_nat)
qed

subsection \<open>Pages and links\<close>

definition named_by :: "(string \<Rightarrow> string) \<Rightarrow> OwnerRepoMap \<Rightarrow> bool" where
  "named_by lower m \<longleftrightarrow> list_all (\<lambda>e. fst e = lower (fst (snd e))) m"

lemma owner_entry_push_named: "named_by lower m \<Longrightarrow> named_by lower (owner_entry_push (lower name) name r m)"
  by (induction "lower name" name r m rule: owner_entry_push.induct) (auto simp: named_by_def)

lemma owner_map_step_named: "named_by lower m \<Longrightarrow> named_by lower (owner_map_step lower r m)"
proof -
  have "named_by lower m \<Longrightarrow> named_by lower (fold (\<lambda>name. owner_entry_push (lower name) name r) names m)" for names
    by (induction names arbitrary: m) (simp_all add: owner_entry_push_named)
  then show "named_by lower m \<Longrightarrow> named_by lower (owner_map_step lower r m)"
    by (cases "CodeownersResult_parsed (codeowners (checks r))") (simp_all add: owner_map_step_def)
qed

lemma build_owner_repo_map_named: "named_by lower (build_owner_repo_map lower rs)"
proof -
  have "named_by lower m \<Longrightarrow> named_by lower (fold (owner_map_step lower) xs m)" for xs m
    by (induction xs arbitrary: m) (simp_all add: owner_map_step_named)
  then show ?thesis by (simp add: build_owner_repo_map_def named_by_def)
qed

lemma owner_metrics_of_display: "display_name (owner_metrics_of e) = fst (snd e)"
  by (cases e) (simp add: Let_def)

lemma distinct_display_names: "distinct (map display_name (build_owner_metrics lower rs))"
proof -
  have "owner m = lower (display_name m)" if "m \<in> set (build_owner_metrics lower rs)" for m
    using that build_owner_repo_map_named [of lower rs]
    by (auto simp: build_owner_metrics_def owner_metrics_from_entries_def Let_def named_by_def list_all_iff)
  then have "map owner (build_owner_metrics lower rs) = map lower (map display_name (build_owner_metrics lower rs))"
    by simp
  moreover have "distinct (map owner (build_owner_metrics lower rs))"
    using distinct_build_owner_repo_map [of lower rs]
    by (simp add: build_owner_metrics_def owner_metrics_from_entries_def comp_def
        mset_eq_imp_distinct_iff [OF mset_sort_map])
  ultimately show ?thesis by (metis distinct_map)
qed

lemma attributed_names [simp]:
  "map (display_name \<circ> fst) (attribute_all ms groups rosters) = map display_name ms"
  by (simp add: attribute_all_def comp_def)

definition owner_path :: "string \<Rightarrow> string" where
  "owner_path slug = ''owners/'' @ slug @ ''.html''"

lemma owner_path_inj [simp]: "owner_path a = owner_path b \<longleftrightarrow> a = b"
  by (simp add: owner_path_def)

lemma owner_page_paths_eq:
  "owner_page_paths attributed =
     map (\<lambda>name. owner_path (the (generate_unique_slugs (map (display_name \<circ> fst) attributed) name)))
       (map (display_name \<circ> fst) attributed)"
proof -
  let ?slugs = "generate_unique_slugs (map (display_name \<circ> fst) attributed)"
  have "?slugs (display_name (fst x)) = Some (the (?slugs (display_name (fst x))))" if "x \<in> set attributed" for x
    using that generate_unique_slugs_spec(1) [of "map (display_name \<circ> fst) attributed"] by (force simp: domIff)
  then have "List.map_filter (\<lambda>x. ?slugs (display_name (fst x))) xs = map (\<lambda>x. the (?slugs (display_name (fst x)))) xs"
    if "set xs \<subseteq> set attributed" for xs
    using that by (induction xs) (auto simp: List.map_filter_simps split: option.splits)
  from this [of attributed] show ?thesis by (simp add: owner_page_paths_def owner_slugs_def owner_path_def comp_def)
qed

lemma distinct_owner_page_paths:
  assumes "distinct (map (display_name \<circ> fst) attributed)"
  shows "distinct (owner_page_paths attributed)"
proof -
  let ?names = "map (display_name \<circ> fst) attributed"
  have "inj_on (\<lambda>name. owner_path (the (generate_unique_slugs ?names name))) (set ?names)"
    using generate_unique_slugs_spec(1,2) [of ?names] by (intro inj_onI) (metis domD inj_onD option.sel owner_path_inj)
  with assms show ?thesis unfolding owner_page_paths_eq by (simp only: distinct_map)
qed

lemma top_teams_subset: "fst ` set (build_top_security_teams rows) \<subseteq> set rows"
proof -
  define xs where "xs = take 3 (ranked_teams rows)"
  have "fst ` set (build_top_security_teams rows) \<subseteq> set xs"
    unfolding build_top_security_teams_def xs_def [symmetric]
    by (cases xs; cases "tl xs"; cases "tl (tl xs)") auto
  also have "\<dots> \<subseteq> set (ranked_teams rows)" unfolding xs_def by (rule set_take_subset)
  also have "\<dots> \<subseteq> set rows" by (auto simp: ranked_teams_def)
  finally show ?thesis .
qed

lemma overview_links:
  assumes "build_owners_view_model P attributed tiers = Some rows" "row \<in> set rows"
  shows "owner_page_link row \<in> set (owner_page_paths attributed)"
proof -
  let ?slugs = "generate_unique_slugs (map (display_name \<circ> fst) attributed)"
  from assms obtain o' where o': "o' \<in> set attributed" "row = owner_overview_row P tiers (owner_slugs attributed) o'"
    by (auto simp: build_owners_view_model_def split: if_splits)
  then obtain slug where slug: "?slugs (display_name (fst o')) = Some slug"
    using generate_unique_slugs_spec(1) [of "map (display_name \<circ> fst) attributed"] by force
  then have "row_slug row = slug"
    using o'(2) by (cases o') (auto simp: owner_overview_row_def owner_slugs_def split: prod.split)
  with o'(1) slug show ?thesis unfolding owner_page_paths_eq owner_page_link_def owner_path_def by force
qed

lemma fixed_paths:
  "distinct ([''report.html'', ''index.html'', ''admin.html''] @ sink_static_assets @ [''owners.html''] @
     ([''orphans.html'', ''deleted.html''] @ render_denominator_pages) @ map DrillDownPage_file_name [DrillDownPage.AlertFree, DrillDownPage.LifecycleRetirement])"
  "list_all (\<lambda>p. CHR ''/'' \<notin> set p) ([''report.html'', ''index.html'', ''admin.html''] @ sink_static_assets @ [''owners.html''] @
     ([''orphans.html'', ''deleted.html''] @ render_denominator_pages) @ map DrillDownPage_file_name [DrillDownPage.AlertFree, DrillDownPage.LifecycleRetirement])"
  by code_simp+

lemma secondary_pages:
  "fst (render_secondary_pages P evidence) = [''orphans.html'', ''deleted.html''] @ render_denominator_pages \<or>
   fst (render_secondary_pages P evidence) = ([''orphans.html'', ''deleted.html''] @ render_denominator_pages) @
     map DrillDownPage_file_name [DrillDownPage.AlertFree, DrillDownPage.LifecycleRetirement]"
  by (cases "build_alert_free_view_model P evidence") (simp_all add: render_secondary_pages_def Let_def)

lemma fixed_paths_distinct:
  "distinct ([''report.html'', ''index.html'', ''admin.html''] @ sink_static_assets @ [''owners.html''] @
     fst (render_secondary_pages P evidence))"
  using fixed_paths(1) secondary_pages [of P evidence] by (elim disjE) (simp_all only: distinct_append set_append, blast)

lemma fixed_paths_no_slash:
  "list_all (\<lambda>p. CHR ''/'' \<notin> set p) ([''report.html'', ''index.html'', ''admin.html''] @ sink_static_assets @
     [''owners.html''] @ fst (render_secondary_pages P evidence))"
  using fixed_paths(2) secondary_pages [of P evidence] by (elim disjE) (simp_all only: list_all_append)

lemma owner_paths_slash: "p \<in> set (owner_page_paths attributed) \<Longrightarrow> CHR ''/'' \<in> set p"
  by (auto simp: owner_page_paths_def)

lemma owner_paths_elsewhere:
  "set (owner_page_paths attributed) \<inter> set ([''report.html'', ''index.html'', ''admin.html''] @ sink_static_assets @
     [''owners.html''] @ fst (render_secondary_pages P evidence)) = {}"
  using fixed_paths_no_slash [of P evidence] owner_paths_slash [of _ attributed] unfolding list_all_iff by blast

lemma distinct_insert_middle:
  assumes "distinct (as @ bs @ [c] @ ds)" "distinct xs" "set xs \<inter> set (as @ bs @ [c] @ ds) = {}"
  shows "distinct (as @ bs @ (if b then [] else c # xs) @ ds)"
  using assms by auto

lemma published_paths:
  "fst (render_publication_streaming P tiers ev) =
     [''report.html'', ''index.html'', ''admin.html''] @ sink_static_assets @
     (if attributed_owners P ev = [] then [] else ''owners.html'' # owner_page_paths (attributed_owners P ev)) @
     fst (render_secondary_pages P ev)"
  by (simp add: render_publication_streaming_def Let_def build_owners_view_model_def render_owner_pages_def split: prod.split)

text \<open>
  No page of a report overwrites another, and the overview leads to pages that exist. The owners of a report come from
  the aggregation of its repositories. Then no two pages share a path, every owner has a page, and every link of the
  overview and of the podium names one of the pages; the page of an owner is a file in the directory of the owners,
  whatever the name of the owner contains.
\<close>

theorem report_pages_do_not_collide:
  assumes "map display_name (owner_metrics (evidence_metrics ev)) =
    map display_name (build_owner_metrics lower (evidence_repositories ev))"
  shows "distinct (fst (render_publication_streaming P tiers ev)) \<and>
    length (owner_page_paths (attributed_owners P ev)) = length (owner_metrics (evidence_metrics ev)) \<and>
    (\<forall>p\<in>set (owner_page_paths (attributed_owners P ev)). \<exists>slug. p = ''owners/'' @ slug @ ''.html'' \<and> slug_ok slug) \<and>
    (\<forall>rows. build_owners_view_model P (attributed_owners P ev) tiers = Some rows \<longrightarrow>
       (\<forall>row\<in>set rows \<union> fst ` set (build_top_security_teams rows).
          owner_page_link row \<in> set (fst (render_publication_streaming P tiers ev))))"
proof (intro conjI ballI allI impI)
  let ?os = "attributed_owners P ev"
  have names: "map (display_name \<circ> fst) ?os = map display_name (owner_metrics (evidence_metrics ev))"
    by (simp only: attributed_owners_def attributed_names)
  have "distinct (map (display_name \<circ> fst) ?os)"
    unfolding names assms by (rule distinct_display_names)
  from distinct_owner_page_paths [OF this] show "distinct (fst (render_publication_streaming P tiers ev))"
    unfolding published_paths by (intro distinct_insert_middle fixed_paths_distinct owner_paths_elsewhere)
  show "length (owner_page_paths ?os) = length (owner_metrics (evidence_metrics ev))"
    unfolding owner_page_paths_eq length_map by (metis length_map names)
  fix p
  assume "p \<in> set (owner_page_paths ?os)"
  then show "\<exists>slug. p = ''owners/'' @ slug @ ''.html'' \<and> slug_ok slug"
    by (auto simp: owner_page_paths_def owner_slugs_def List.map_filter_def intro: generate_unique_slugs_spec(3) [OF ranI])
next
  fix rows row
  assume rows: "build_owners_view_model P (attributed_owners P ev) tiers = Some rows"
    and "row \<in> set rows \<union> fst ` set (build_top_security_teams rows)"
  then have "row \<in> set rows" using top_teams_subset by blast
  from overview_links [OF rows this] show "owner_page_link row \<in> set (fst (render_publication_streaming P tiers ev))"
    using rows unfolding published_paths by (auto simp: build_owners_view_model_def split: if_splits)
qed

subsection \<open>Orphans and their teams\<close>

lemma attributed_team_groups:
  "map og_team (build_orphaned_by_team P rows) = sort (remdups (List.map_filter or_attributed_team rows))"
  by (simp add: build_orphaned_by_team_def Let_def comp_def)

lemma mset_filter_split:
  assumes "\<And>x. P x \<Longrightarrow> \<not> Q x"
  shows "mset (filter (\<lambda>x. P x \<or> Q x) xs) = mset (filter P xs) + mset (filter Q xs)"
  using assms by (induction xs) auto

lemma mset_grouped:
  "distinct ts \<Longrightarrow> mset (concat (map (\<lambda>t. sort_key k (filter (\<lambda>r. f r = Some t) rows)) ts)) =
     mset (filter (\<lambda>r. f r \<in> Some ` set ts) rows)"
proof (induction ts)
  case (Cons t ts)
  then have "mset (filter (\<lambda>r. f r = Some t \<or> f r \<in> Some ` set ts) rows) =
      mset (filter (\<lambda>r. f r = Some t) rows) + mset (filter (\<lambda>r. f r \<in> Some ` set ts) rows)"
    by (intro mset_filter_split) auto
  moreover have "(\<lambda>r. f r \<in> Some ` set (t # ts)) = (\<lambda>r. f r = Some t \<or> f r \<in> Some ` set ts)" by auto
  ultimately show ?case using Cons by simp
qed simp

text \<open>Every orphan that is attributed to a team is in the group of that team and in no other.\<close>

lemma orphan_groups_partition:
  "mset (concat (map og_rows (build_orphaned_by_team P rows))) = mset (filter (\<lambda>r. or_attributed_team r \<noteq> None) rows)"
proof -
  let ?ts = "sort (remdups (List.map_filter or_attributed_team rows))"
  have "map og_rows (build_orphaned_by_team P rows) =
      map (\<lambda>t. sort_key (\<lambda>r. vp_lower P (or_repo_name r)) (filter (\<lambda>r. or_attributed_team r = Some t) rows)) ?ts"
    by (simp add: build_orphaned_by_team_def Let_def)
  moreover have "filter (\<lambda>r. or_attributed_team r \<in> Some ` set ?ts) rows = filter (\<lambda>r. or_attributed_team r \<noteq> None) rows"
    by (rule filter_cong) (auto simp: List.map_filter_def image_iff)
  ultimately show ?thesis using mset_grouped [of ?ts _ or_attributed_team rows] by simp
qed

text \<open>The team a repository is attributed to: that of the first roster with its last committer.\<close>

definition orphan_team :: "TeamRoster list \<Rightarrow> RepositoryEvidence \<Rightarrow> string option" where
  "orphan_team rosters repo =
     map_option canonical_owner (attributed_roster (Option.bind (last_commit repo) committer_login) rosters)"

lemma orphaned_row_team [simp]:
  "or_attributed_team (orphaned_row P org run_time rosters repo) = orphan_team rosters repo"
  "or_attributed_team_slug (orphaned_row P org run_time rosters repo) = map_option generate_slug (orphan_team rosters repo)"
  by (simp_all add: orphaned_row_def orphan_team_def Let_def option.map_comp comp_def split: prod.split)

lemma set_map_filter: "set (List.map_filter f xs) = {y. \<exists>x\<in>set xs. f x = Some y}"
  by (force simp: List.map_filter_def image_iff)

lemma orphan_groups:
  fixes P repos org run_time rosters
  defines "groups \<equiv> ov_by_team (build_orphaned_view_model P repos org run_time rosters)"
    and "teams \<equiv> sort (remdups (List.map_filter (orphan_team rosters) (filter (\<lambda>r. \<not> archived (repository r) \<and> is_orphaned r) repos)))"
  shows "map og_team groups = teams" and "map team_page_link groups = map (owner_path \<circ> generate_slug) teams"
proof -
  let ?orphans = "filter (\<lambda>r. \<not> archived (repository r) \<and> is_orphaned r) repos"
  define rows where "rows = sort_key (\<lambda>r. (vp_lower P (or_last_committer_login r), vp_lower P (or_repo_name r)))
    (map (orphaned_row P org run_time rosters) ?orphans)"
  have groups: "groups = build_orphaned_by_team P rows"
    by (simp add: groups_def build_orphaned_view_model_def rows_def Let_def)
  have "set (List.map_filter or_attributed_team rows) = set (List.map_filter (orphan_team rosters) ?orphans)"
    by (simp add: rows_def set_map_filter)
  then show teams: "map og_team groups = teams"
    unfolding groups attributed_team_groups teams_def sorted_list_of_set_sort_remdups [symmetric] by simp
  have "og_slug g = generate_slug (og_team g)" if "g \<in> set groups" for g
  proof -
    have slugs: "or_attributed_team_slug r = map_option generate_slug (or_attributed_team r)" if "r \<in> set rows" for r
      using that by (auto simp: rows_def)
    from \<open>g \<in> set groups\<close> obtain team where team: "\<exists>r\<in>set rows. or_attributed_team r = Some team" "og_team g = team"
      "og_rows g = sort_key (\<lambda>r. vp_lower P (or_repo_name r)) (filter (\<lambda>r. or_attributed_team r = Some team) rows)"
      "og_slug g = (case og_rows g of r # _ \<Rightarrow> (case or_attributed_team_slug r of Some s \<Rightarrow> s | None \<Rightarrow> []) | [] \<Rightarrow> [])"
      unfolding groups by (auto simp: build_orphaned_by_team_def Let_def set_map_filter) blast
    then have "set (og_rows g) = {r \<in> set rows. or_attributed_team r = Some team}" by simp
    with team(1) obtain r rs where rs: "og_rows g = r # rs" "r \<in> set rows" "or_attributed_team r = Some team"
      by (cases "og_rows g") auto
    with slugs [OF rs(2)] team(2,4) show ?thesis by simp
  qed
  then have "map team_page_link groups = map (owner_path \<circ> generate_slug) (map og_team groups)"
    by (simp add: team_page_link_def owner_path_def)
  then show "map team_page_link groups = map (owner_path \<circ> generate_slug) teams" by (simp only: teams)
qed

definition sample_orphan :: "string \<Rightarrow> string \<Rightarrow> RepositoryEvidence" where
  "sample_orphan n by_login = (sample_evidence n
      (SecretScanningResult_unobservable SecretScanningFailureReason.Pending ''t''))
     \<lparr>last_commit := Some \<lparr>committer_login = Some by_login, committer_name = None, commit_date = None\<rparr>\<rparr>"

definition sample_roster :: "string \<Rightarrow> string \<Rightarrow> TeamRoster" where
  "sample_roster slug by_login = \<lparr>canonical_owner = ''@acme/'' @ slug, team_slug = slug, roster_status = TeamRosterStatus.Complete,
     members = [\<lparr>login = by_login, member_role = TeamMemberRole.Member, member_in_org = None\<rparr>], fetched_at = None\<rparr>"

text \<open>
  The links of the orphan page can lead nowhere. The link to a team is derived from the lower-case name of its roster,
  the page of the team from the spelling in the CODEOWNERS files; and a team that owns no repository has no page at all.
  Here the teams \<open>core\<close> and \<open>ops\<close> each have an attributed orphan: the page of \<open>core\<close> exists under another path than the
  one linked to, \<open>ops\<close> has none.
\<close>

theorem orphan_team_link_dangles:
  "let repos = [sample_owned ''api'' [''@Acme/Core''], sample_orphan ''old'' ''kim'', sample_orphan ''tool'' ''lee''];
       rosters = [sample_roster ''core'' ''kim'', sample_roster ''ops'' ''lee''];
       groups = ov_by_team (build_orphaned_view_model P repos ''acme'' run_time rosters);
       attributed = attribute_all (build_owner_metrics (map to_ascii_lower) repos) groups rosters
   in map og_team groups = [''@acme/core'', ''@acme/ops''] \<and>
      map (owner \<circ> fst) attributed = [''@acme/core''] \<and>
      map team_page_link groups = [''owners/acme-core.html'', ''owners/acme-ops.html''] \<and>
      owner_page_paths attributed = [''owners/Acme-Core.html'']"
proof -
  let ?repos = "[sample_owned ''api'' [''@Acme/Core''], sample_orphan ''old'' ''kim'', sample_orphan ''tool'' ''lee'']"
  let ?rosters = "[sample_roster ''core'' ''kim'', sample_roster ''ops'' ''lee'']"
  have orphans: "filter (\<lambda>r. \<not> archived (repository r) \<and> is_orphaned r) ?repos =
      [sample_orphan ''old'' ''kim'', sample_orphan ''tool'' ''lee'']"
    by (simp add: is_orphaned_def sample_owned_def sample_orphan_def sample_evidence_def sample_repository_def sample_checks_def)
  have "orphan_team ?rosters (sample_orphan ''old'' ''kim'') = Some ''@acme/core''"
    "orphan_team ?rosters (sample_orphan ''tool'' ''lee'') = Some ''@acme/ops''"
    by (simp_all add: orphan_team_def attributed_roster_def sample_orphan_def sample_roster_def eq_ignore_ascii_case_def
        to_ascii_lower_def byte_in_def)
  then have "List.map_filter (orphan_team ?rosters) [sample_orphan ''old'' ''kim'', sample_orphan ''tool'' ''lee''] =
      [''@acme/core'', ''@acme/ops'']" by (simp add: List.map_filter_simps)
  moreover have "sort (remdups [''@acme/core'', ''@acme/ops'']) = [''@acme/core'', ''@acme/ops'']" by code_simp
  moreover have "map (owner_path \<circ> generate_slug) [''@acme/core'', ''@acme/ops''] = [''owners/acme-core.html'', ''owners/acme-ops.html'']"
    by code_simp
  moreover have "char_of (97 :: nat) = CHR ''a''" "char_of (99 :: nat) = CHR ''c''" by code_simp+
  moreover from this have "build_owner_repo_map (map to_ascii_lower) ?repos =
      [(''@acme/core'', ''@Acme/Core'', [sample_owned ''api'' [''@Acme/Core'']])]"
    by (simp add: build_owner_repo_map_def owner_map_step_def sample_owned_def sample_orphan_def sample_evidence_def
        sample_repository_def sample_checks_def to_ascii_lower_def byte_in_def)
  then have "map owner (build_owner_metrics (map to_ascii_lower) ?repos) = [''@acme/core'']"
    "map display_name (build_owner_metrics (map to_ascii_lower) ?repos) = [''@Acme/Core'']"
    by (simp_all add: build_owner_metrics_def owner_metrics_from_entries_def owner_metrics_of_display
        del: owner_metrics_of.simps)
  moreover have "owner_path (the (generate_unique_slugs [''@Acme/Core''] ''@Acme/Core'')) = ''owners/Acme-Core.html''" by code_simp
  moreover have "map (owner \<circ> fst) (attribute_all ms groups rosters) = map owner ms" for ms groups rosters
    by (simp add: attribute_all_def)
  ultimately show ?thesis
    unfolding Let_def orphan_groups orphans owner_page_paths_eq attributed_names by simp
qed

end
