(* ===== verification/Spec2Isabelle.thy ===== *)
theory Spec2Isabelle
  imports Checks Evidence_Model Aggregate_Owners Branch_Protection App_Replay
    Policy_Collectors Codeowners_Collector Ghas_Scanning Github_Client_Laws Github_Cache_Laws
    Webhook Team_Refresh Publisher_Loop Publication Rearm Table_Sort Markdown
    Report_Laws
begin

text \<open>
  A verification library for gh-report, a program that collects security evidence about the repositories of a GitHub
  organisation, keeps it in an event-sourced read model and publishes coverage reports. Source paths are under
  \<open>src/crates/gh-report/src/\<close> unless they are written in full.

  The program. A daemon (\<open>app/daemon.rs\<close>) runs collections on a schedule. A collection (\<open>app/collect.rs\<close>) lists the
  repositories, reuses what is still fresh, and publishes a batch of jobs to a work queue; collectors (\<open>collector/\<close>) query
  GitHub through a client (\<open>github/\<close>) and yield check results (\<open>domain/\<close>). A delivery task records each result as an event
  (\<open>event/\<close>) in a store (\<open>store/\<close>) under a write policy (\<open>app/write_policy.rs\<close>), through the application state
  (\<open>app/state/\<close>), which folds every event that landed into a projection (\<open>projection.rs\<close>). Webhooks (\<open>webhook/\<close>) and a team
  refresh (\<open>app/team_refresh.rs\<close>) write to the same stores. Snapshots of the projection are aggregated
  (\<open>aggregate/metrics.rs\<close>) and published as pages that a browser client (\<open>src/crates/gh-report-web-client/\<close>) sorts.

  Theories, in dependency order.

  \<^item> Foundations. \<open>Gh_Prelude\<close>: machine widths, saturating arithmetic, counting lemmas, the named collections and the
    locale \<open>bucket_count\<close> of loops that count into one field. \<open>F64\<close>: binary64 with its rounding. \<open>Ordered_Map\<close>: the ordered
    map of the standard library (locale \<open>ordered_map\<close>, interpreted on sorted association lists). \<open>Json\<close>: JSON values.
    \<open>Rust_Text\<close>: trimming, splitting, lines and UTF-8 validity, on bytes.
  \<^item> Domain. \<open>Checks\<close> (\<open>domain/checks.rs\<close>, \<open>domain/codeowners.rs\<close>; locale \<open>timestamped\<close>), \<open>Evidence_Model\<close>
    (\<open>domain/repository.rs\<close>, \<open>status.rs\<close>, \<open>auth.rs\<close>, \<open>time.rs\<close>, \<open>evidence.rs\<close>, \<open>run.rs\<close>), \<open>Metrics_Model\<close>
    (\<open>domain/metrics.rs\<close>; locale \<open>grouping\<close>).
  \<^item> Aggregation. \<open>Aggregate\<close>, \<open>Aggregate_Counts\<close>, \<open>Aggregate_Owners\<close> (\<open>aggregate/metrics.rs\<close>): one fold per counting
    pass; \<open>control_measure\<close> is the contract between the counts of a control, its published rate and its drill-down
    list, interpreted for the five controls, for the organisation and for an owner; \<open>exclusion_tally\<close> and
    \<open>category_tally\<close> give the contract of the tallies as sublocales of \<open>bucket_count\<close>.
  \<^item> Matching and collectors. \<open>Pattern_Match\<close> (\<open>pattern_match.rs\<close>, \<open>collector/ref_matching.rs\<close>), \<open>Branch_Protection\<close>
    (\<open>api_outcome.rs\<close>, \<open>collector/branch_protection.rs\<close>), \<open>Codeowners_Collector\<close>, \<open>Policy_Collectors\<close> (security policy,
    Dependabot, last commit), \<open>Ghas_Scanning\<close> (secret scanning), \<open>Team_Collectors\<close> and \<open>Team_Laws\<close> (inventory and
    teams).
  \<^item> GitHub client. \<open>Github_Link\<close> (\<open>github/pagination.rs\<close>), \<open>Github_Limits\<close> (rate limits, replenishment, routes and the
    budget checkpoints as a step relation), \<open>Github_Client\<close> and \<open>Github_Client_Laws\<close> (\<open>github/client.rs\<close>, \<open>auth.rs\<close>;
    locale \<open>logged\<close>, an environment that records its requests), \<open>Github_Cache\<close> and \<open>Github_Cache_Laws\<close> (the cache of
    repository details, capability probes).
  \<^item> Events and stores. \<open>Event_Types\<close>, \<open>Event_Codec\<close>, \<open>Event_Wire\<close> (\<open>event/mod.rs\<close>; locale \<open>byte_enum\<close>), \<open>Event_Convert\<close>
    and \<open>Event_Laws\<close> (\<open>event/convert.rs\<close>; locale \<open>conversion\<close>), \<open>Event_Store\<close> (\<open>store/mod.rs\<close>; locale \<open>latching\<close>, an
    operation that stops for good, interpreted on the store and on the application state).
  \<^item> Application state. \<open>Projection_Model\<close> (\<open>projection.rs\<close>; locale \<open>anti_downgrade\<close>), \<open>Write_Policy\<close>, \<open>App_State\<close>,
    \<open>App_State_Laws\<close>, \<open>App_Replay\<close>, \<open>App_Reads\<close> (\<open>app/state/mod.rs\<close>).
  \<^item> Runs. \<open>Team_Refresh\<close>, \<open>Webhook\<close>, \<open>Inventory_Authority\<close>, \<open>Collect_Evidence\<close>, \<open>Publisher_Loop\<close> (a step relation;
    locale \<open>publisher_invariant\<close>), \<open>Publication\<close> (\<open>app/collect.rs\<close>, \<open>infra/baseline.rs\<close>), \<open>Delivery\<close> (the
    batches and the delivery task as a step relation over every interleaving), \<open>Rearm\<close> (the schedule and the bounded
    retry of runs that lost the writer race).
  \<^item> Presentation. \<open>Markdown\<close> (\<open>report/markdown.rs\<close>), \<open>Table_Sort\<close> (the browser client; locale \<open>comparator\<close>, what the
    stable sort of the standard library demands), \<open>View_Model\<close> (\<open>report/view_model.rs\<close>), \<open>Report_Pages\<close> and
    \<open>Report_Laws\<close> (\<open>report/html.rs\<close>: dots, scores, drill-down lists, orphans, owners and the paths of the pages).

  How state and operations correspond. A struct is a record with the fields of the source (prefixed where two records
  would clash), an enum is a datatype with its constructors, a handler is one function that takes and returns the state,
  and a panic is \<open>None\<close>. Tasks that run concurrently are step relations whose steps are the critical sections of the source.

  What the lemmas show.

  \<^item> Evidence is judged the same way everywhere: categories, counts, published rates and drill-down lists agree on what is
    measured, met and excluded. Rates are the one-decimal percentages of their counts in binary64.
  \<^item> The projection is a product of independent machines, one for each key. A write publishes exactly when it persisted;
    a write whose fate is unknown stops all later writing; a restart rebuilds the repositories and the organisation from
    the stores. The store refines a map from keys to values, and a store over a healthy backend makes progress.
  \<^item> Stored events and evidence survive the round trip through the codec and the conversions.
  \<^item> The client stays on the trusted origin, and an answer is complete exactly when it is not marked truncated. The
    collectors classify every answer; the CODEOWNERS parser reads back what is printed.
  \<^item> A repository or a team leaves the read model only on the authority of a complete listing. A webhook delivery is
    executed at most once while the replay cache remembers it, and an unauthenticated request changes nothing.
  \<^item> A batch that reports success has recorded every accepted job; its barrier opens exactly when no job is in flight, a
    fence is latched or writing has stopped; a fence holds until it is taken; re-arming is a bounded retry. The partial
    publisher loses no signal and ends after shutdown. After the warm start a publication never loses evidence that an
    earlier one showed.
  \<^item> The markdown renderer emits only well-formed escaped markup. A click on a header sorts a table stably. The dots of a
    repository explain its score; no page of a report overwrites another.
  \<^item> Some theorems record behaviour that contradicts the intent of the code: a detached team returns after a restart, a
    failed webhook delivery is lost, a removed repository freezes the report, a dropped sweep swallows a conflict, a seeded
    cache hides missing protection, the orphan page links to pages that do not exist, and a wait for a batch whose delivery
    task lost its channel lasts until its sweep is dropped.

  Bounds and fuel. Counters are words and saturate; statements read them through \<open>unat\<close> and say what happens at the bound.
  The matchers take the recursion limits of the source as fuel, and their equivalence with the reference matcher has the
  hypothesis that the pattern fits. Retries, pages and re-arming have the bounds of the source. Every other loop
  terminates by a measure.

  Parameters. The pardosa backend, the codecs of its primitive types, the HTTP transport, clocks, the token signer, the MAC,
  the work queue with its tracker, the derived serde decoders, the parser and formatter of timestamps, Unicode case
  mapping, percent encoding, the functions \<open>ln\<close> and \<open>exp\<close>, the parser of URLs, sanitisers and the renderer of pages are arguments of the definitions that use them. What is
  relied on (\<open>backend_ok\<close>, \<open>healthy\<close>, \<open>prims_ok\<close>, \<open>tracker_ok\<close> and the like) are named hypotheses with a witness.

  Not modelled. The templates, whose code the template engine generates, the roster panel and the detail page of an owner,
  and explanations that are fixed texts; the HTTP server, the command line, process lifetime and shutdown,
  logging, file locks, signals and TLS, which are input and output; the opening of stores over NATS, the construction of
  the client and of the shared state; the parsing of the configuration; schema descriptors of events; and the lint helper
  of the repository, which is independent of the program.
\<close>

end
